(* ===== verification/Py_Values.thy ===== *)
theory Py_Values
  imports Complex_Main "HOL-Library.Char_ord" "HOL-Library.List_Lexorder"
begin

text \<open>
  The prelude of the development: Python exceptions as values, the dynamic values a
  constructor or a decoded JSON document may hand to the code, and the string and list
  helpers of the standard library that the modules under src/ use.

  \<^item> A call that may raise has the type \<open>exn + 'a\<close>: \<open>Inl (c, m)\<close> is the exception of class
    \<open>c\<close> with message \<open>m\<close>, \<open>Inr x\<close> the returned value. Statements are chained with \<open>rbind\<close>,
    and \<open>ensure\<close> is \<open>if not cond: raise\<close>.
  \<^item> \<open>pyval\<close> is a value whose Python type is only known at run time. A character of a
    \<open>string\<close> stands for the code point of the same number, so text is modelled up to code
    point 255.
  \<^item> Enumeration members of the code are \<open>(str, Enum)\<close> members, equal to their value string;
    as a \<open>pyval\<close> a member is that string.
\<close>

named_theorems validator_defs
named_theorems result_simps

section \<open>Exceptions\<close>

datatype exc_class =
    SchedulerValidationError | SchedulerPersistenceError | SchedulerIdentityConflictError
  | ResourceValidationError | ResourceNotFoundError | ResourceAlreadyExistsError
  | PermissionValidationError | PermissionNotFoundError | PermissionAlreadyExistsError
  | AwakeningValidationError | WakeNotDueError | WakeExecutionError
  | StateValidationError | StateEvolutionError | EventReferenceError | EventIdentityConflictError
  | LifecycleError | RuntimeBoundaryError | RuntimeDeferred | RuntimeCheckpointBusy
  | StateNotFoundError | StateAlreadyExistsError | TimelineValidationError | TimelineReferenceError
  | ThinkingValidationError | MemoryValidationError | ExecutionError | MachineContractValidationError
  | RuntimeCheckpointWriteDeferred | MemoryIdentityConflictError | CapabilityValidationError
  | MindValidationError | LearningValidationError | LearningNotFoundError | LearningAlreadyExistsError
  | MemoryNotFoundError | MemoryInfluenceError
  | OverflowError | AttributeError | KeyError | TypeError | ValueError | OSError | OtherError

type_synonym exn = "exc_class \<times> string"

type_synonym 'a res = "exn + 'a"

definition rbind :: "'e + 'a \<Rightarrow> ('a \<Rightarrow> 'e + 'b) \<Rightarrow> 'e + 'b" where
  "rbind m f = (case m of Inl e \<Rightarrow> Inl e | Inr x \<Rightarrow> f x)"

definition ensure :: "bool \<Rightarrow> exn \<Rightarrow> exn + unit" where
  "ensure c e = (if c then Inr () else Inl e)"

fun rmap :: "('a \<Rightarrow> 'e + 'b) \<Rightarrow> 'a list \<Rightarrow> 'e + 'b list" where
  "rmap f [] = Inr []"
| "rmap f (x # xs) = rbind (f x) (\<lambda>y. rbind (rmap f xs) (\<lambda>ys. Inr (y # ys)))"

lemma rbind_simps [simp, result_simps]:
  "rbind (Inl e) f = Inl e"
  "rbind (Inr x) f = f x"
  by (simp_all add: rbind_def)

lemma rbind_eq_Inr [result_simps]:
  "rbind m f = Inr y \<longleftrightarrow> (\<exists>x. m = Inr x \<and> f x = Inr y)"
  by (cases m) simp_all

lemma rbind_eq_Inl [result_simps]:
  "rbind m f = Inl e \<longleftrightarrow> m = Inl e \<or> (\<exists>x. m = Inr x \<and> f x = Inl e)"
  by (cases m) simp_all

lemma rbindE:
  assumes "rbind m f = Inr y"
  obtains x where "m = Inr x" "f x = Inr y"
  using assms by (auto simp: rbind_eq_Inr)

lemma ensure_simps [simp, result_simps]:
  "ensure True e = Inr ()"
  "ensure False e = Inl e"
  by (simp_all add: ensure_def)

lemma ensure_eq_Inr [simp, result_simps]: "ensure c e = Inr u \<longleftrightarrow> c"
  by (simp add: ensure_def)

lemma ensure_eq_Inl [simp, result_simps]: "ensure c e = Inl e' \<longleftrightarrow> \<not> c \<and> e' = e"
  by (auto simp: ensure_def)

lemma rbind_cong [fundef_cong]:
  "m = m' \<Longrightarrow> (\<And>x. m' = Inr x \<Longrightarrow> f x = f' x) \<Longrightarrow> rbind m f = rbind m' f'"
  by (cases m') simp_all

lemma rmap_cong [fundef_cong]:
  "xs = ys \<Longrightarrow> (\<And>x. x \<in> set ys \<Longrightarrow> f x = g x) \<Longrightarrow> rmap f xs = rmap g ys"
  by (induction xs arbitrary: ys) auto

lemma rmap_eq_Inr: "rmap f xs = Inr ys \<longleftrightarrow> list_all2 (\<lambda>x y. f x = Inr y) xs ys"
proof (induction xs arbitrary: ys)
  case (Cons x xs)
  then show ?case by (cases ys) (auto simp: rbind_eq_Inr)
qed auto

lemma rmap_map_Inr:
  assumes "\<And>x. x \<in> set xs \<Longrightarrow> f (g x) = Inr (h x)"
  shows "rmap f (map g xs) = Inr (map h xs)"
  using assms by (induction xs) auto

lemma rmap_Inr_id:
  assumes "\<And>x. x \<in> set xs \<Longrightarrow> f (g x) = Inr x"
  shows "rmap f (map g xs) = Inr xs"
  using rmap_map_Inr [of xs f g "\<lambda>x. x"] assms by simp

section \<open>Strings and lists of the standard library\<close>

text \<open>\<open>str.isspace\<close> below code point 256; \<open>str.strip\<close> removes these characters.\<close>

definition py_space :: "char \<Rightarrow> bool" where
  "py_space c = (let n = of_char c :: nat in
     9 \<le> n \<and> n \<le> 13 \<or> 28 \<le> n \<and> n \<le> 32 \<or> n = 133 \<or> n = 160)"

definition blank :: "string \<Rightarrow> bool" where
  "blank s = list_all py_space s"

lemma blank_append [simp]: "blank (s @ t) \<longleftrightarrow> blank s \<and> blank t"
  by (simp add: blank_def)

text \<open>\<open>list(dict.fromkeys(xs))\<close>: the first occurrence of every item, in order.\<close>

fun fromkeys :: "'a list \<Rightarrow> 'a list" where
  "fromkeys [] = []"
| "fromkeys (x # xs) = x # filter (\<lambda>y. y \<noteq> x) (fromkeys xs)"

lemma set_fromkeys [simp]: "set (fromkeys xs) = set xs"
  by (induction xs) auto

lemma distinct_fromkeys [simp]: "distinct (fromkeys xs)"
  by (induction xs) auto

lemma fromkeys_id: "distinct xs \<Longrightarrow> fromkeys xs = xs"
  by (induction xs) (auto simp: filter_id_conv)

lemma fromkeys_Nil_iff [simp]: "fromkeys xs = [] \<longleftrightarrow> xs = []"
  by (cases xs) simp_all

lemma fromkeys_idem [simp]: "fromkeys (fromkeys xs) = fromkeys xs"
  by (rule fromkeys_id) simp

text \<open>\<open>str(n)\<close> of an integer.\<close>

definition digit_char :: "nat \<Rightarrow> char" where
  "digit_char d = ''0123456789'' ! d"

fun show_nat :: "nat \<Rightarrow> string" where
  "show_nat n = (if n < 10 then [digit_char n] else show_nat (n div 10) @ [digit_char (n mod 10)])"

declare show_nat.simps [simp del]

definition show_int :: "int \<Rightarrow> string" where
  "show_int i = (if i < 0 then CHR ''-'' # show_nat (nat (- i)) else show_nat (nat i))"

text \<open>\<open>given or str(uuid4())\<close>: an empty string counts as missing.\<close>

definition given_or_uuid :: "string option \<Rightarrow> string \<Rightarrow> string" where
  "given_or_uuid given uuid = (case given of None \<Rightarrow> uuid | Some s \<Rightarrow> if s = [] then uuid else s)"

text \<open>\<open>sep.join(parts)\<close>.\<close>

fun join :: "string \<Rightarrow> string list \<Rightarrow> string" where
  "join sep [] = []"
| "join sep [x] = x"
| "join sep (x # y # ys) = x @ sep @ join sep (y # ys)"

end
