(* ===== verification/Py_Calendar.thy ===== *)
theory Py_Calendar
  imports Py_Values "HOL-Library.Monad_Syntax"
begin

text \<open>
  Python datetimes. An \<open>instant\<close> is a datetime in UTC: the microseconds since
  0001-01-01T00:00:00, below the year 10000. \<open>isoformat_utc\<close> and \<open>format_z\<close> print it as
  \<open>datetime.isoformat\<close> does, \<open>fromisoformat\<close> reads the extended format with one separator
  character, an optional fraction and an optional numeric offset (the other ISO 8601
  spellings that Python 3.11 accepts, such as week dates and dates without dashes, are
  rejected by the model). The main result is that reading back a printed instant gives it.
\<close>

section \<open>Instants\<close>

typedef instant = "{0..<315537897600000000} :: int set"
  morphisms usec Abs_instant
  by (rule exI [of _ 0]) simp

abbreviation max_usec :: int where
  "max_usec \<equiv> 315537897600000000"

definition mk_instant :: "int \<Rightarrow> instant option" where
  "mk_instant n = (if 0 \<le> n \<and> n < max_usec then Some (Abs_instant n) else None)"

lemma usec_range [simp]: "0 \<le> usec t" "usec t < max_usec"
  using usec [of t] by simp_all

lemma usec_Abs [simp]: "0 \<le> n \<Longrightarrow> n < max_usec \<Longrightarrow> usec (Abs_instant n) = n"
  by (simp add: Abs_instant_inverse)

lemma mk_instant_usec [simp]: "mk_instant (usec t) = Some t"
  by (simp add: mk_instant_def usec_inverse)

lemma usec_mk_instant: "mk_instant n = Some t \<Longrightarrow> usec t = n"
  by (auto simp: mk_instant_def split: if_splits)

lemma instant_eq_iff: "s = t \<longleftrightarrow> usec s = usec t"
  by (metis usec_inverse)

instantiation instant :: linorder
begin

definition less_eq_instant :: "instant \<Rightarrow> instant \<Rightarrow> bool" where
  "less_eq_instant s t \<longleftrightarrow> usec s \<le> usec t"

definition less_instant :: "instant \<Rightarrow> instant \<Rightarrow> bool" where
  "less_instant s t \<longleftrightarrow> usec s < usec t"

instance
  by standard (auto simp: less_eq_instant_def less_instant_def instant_eq_iff)

end

lemmas instant_order = less_eq_instant_def less_instant_def

text \<open>\<open>t + timedelta(seconds=s)\<close> raises \<open>OverflowError\<close> when the result leaves the years 1 to 9999.\<close>

definition plus_seconds :: "instant \<Rightarrow> int \<Rightarrow> instant res" where
  "plus_seconds t s = (case mk_instant (usec t + s * 1000000) of
     None \<Rightarrow> Inl (OverflowError, ''date value out of range'') | Some u \<Rightarrow> Inr u)"

lemma plus_seconds_usec: "plus_seconds t s = Inr u \<Longrightarrow> usec u = usec t + s * 1000000"
  by (auto simp: plus_seconds_def usec_mk_instant split: option.splits)

lemma plus_seconds_ge: "plus_seconds t s = Inr u \<Longrightarrow> 0 \<le> s \<Longrightarrow> t \<le> u"
  by (simp add: plus_seconds_usec instant_order)

lemma plus_seconds_OK:
  assumes "0 \<le> s" "usec t + s * 1000000 < max_usec"
  shows "\<exists>u. plus_seconds t s = Inr u \<and> usec u = usec t + s * 1000000"
proof -
  have "0 \<le> usec t + s * 1000000" using assms(1) usec_range(1) [of t] by linarith
  with assms show ?thesis by (simp add: plus_seconds_def mk_instant_def)
qed

section \<open>The proleptic Gregorian calendar\<close>

definition is_leap :: "int \<Rightarrow> bool" where
  "is_leap y \<longleftrightarrow> y mod 4 = 0 \<and> (y mod 100 \<noteq> 0 \<or> y mod 400 = 0)"

definition days_before_year :: "int \<Rightarrow> int" where
  "days_before_year y = (y - 1) * 365 + (y - 1) div 4 - (y - 1) div 100 + (y - 1) div 400"

definition month_lengths :: "int \<Rightarrow> int list" where
  "month_lengths y = [31, if is_leap y then 29 else 28, 31, 30, 31, 30, 31, 31, 30, 31, 30, 31]"

definition ymd2ord :: "int \<Rightarrow> int \<Rightarrow> int \<Rightarrow> int" where
  "ymd2ord y m d = days_before_year y + sum_list (take (nat (m - 1)) (month_lengths y)) + d"

lemma div_step:
  fixes y c :: int
  assumes "c > 0"
  shows "y div c = (y - 1) div c + (if y mod c = 0 then 1 else 0)"
proof -
  have y: "y = c * (y div c) + y mod c" by simp
  have r: "0 \<le> y mod c" "y mod c < c" using assms by simp_all
  show ?thesis
  proof (cases "y mod c = 0")
    case True
    with y have "y - 1 = c * (y div c - 1) + (c - 1)" by (simp add: algebra_simps)
    with assms have "(y - 1) div c = y div c - 1"
      by (intro int_div_pos_eq [where r = "c - 1"]) auto
    with True show ?thesis by simp
  next
    case False
    have "y - 1 = c * (y div c) + (y mod c - 1)" by (simp add: algebra_simps)
    with False r have "(y - 1) div c = y div c"
      by (intro int_div_pos_eq [where r = "y mod c - 1"]) auto
    with False show ?thesis by simp
  qed
qed

lemma year_length_aux:
  fixes a b c a' b' c' :: int
  assumes "a' = a + (if p then 1 else 0)" "b' = b + (if q then 1 else 0)"
    "c' = c + (if r then 1 else 0)" "r \<Longrightarrow> q" "q \<Longrightarrow> p"
  shows "y * 365 + a' - b' + c'
    = (y - 1) * 365 + a - b + c + (365 + (if p \<and> (\<not> q \<or> r) then 1 else 0))"
  using assms by (cases p; cases q; cases r) simp_all

lemma year_length: "days_before_year (y + 1) = days_before_year y + sum_list (month_lengths y)"
proof -
  have "y mod 400 = 0 \<Longrightarrow> y mod 100 = 0" and "y mod 100 = 0 \<Longrightarrow> y mod 4 = 0"
    by (auto simp: mod_eq_0_iff_dvd elim: dvd_trans [rotated])
  note aux = year_length_aux [OF div_step [of 4 y] div_step [of 100 y] div_step [of 400 y] this]
  have "sum_list (month_lengths y) = 365 + (if is_leap y then 1 else 0)"
    by (simp add: month_lengths_def)
  moreover have "days_before_year (y + 1) = y * 365 + y div 4 - y div 100 + y div 400"
    by (simp add: days_before_year_def)
  ultimately show ?thesis
    using aux unfolding days_before_year_def [of y] is_leap_def by simp
qed

lemma month_lengths_sum: "sum_list (month_lengths y) = 365 \<or> sum_list (month_lengths y) = 366"
  by (simp add: month_lengths_def)

lemma days_before_year_less: "days_before_year y < days_before_year (y + 1)"
  using year_length [of y] month_lengths_sum [of y] by auto

text \<open>
  \<open>date.fromordinal\<close>: the year is the last one that begins before day \<open>n\<close>, found from a lower
  estimate; the month is found by removing the lengths of the months before it.
\<close>

function find_year :: "int \<Rightarrow> int \<Rightarrow> int" where
  "find_year n y = (if days_before_year (y + 1) < n then find_year n (y + 1) else y)"
  by pat_completeness auto
termination
proof (relation "measure (\<lambda>(n, y). nat (n - days_before_year y))")
  fix n y :: int
  assume "days_before_year (y + 1) < n"
  with days_before_year_less [of y]
  show "((n, y + 1), (n, y)) \<in> measure (\<lambda>(n, y). nat (n - days_before_year y))" by simp
qed simp

declare find_year.simps [simp del]

fun find_month :: "int list \<Rightarrow> int \<Rightarrow> int \<Rightarrow> int \<times> int" where
  "find_month [] m d = (m, d)"
| "find_month (l # ls) m d = (if d \<le> l then (m, d) else find_month ls (m + 1) (d - l))"

definition ord2ymd :: "int \<Rightarrow> int \<times> int \<times> int" where
  "ord2ymd n = (let y = find_year n ((n - 1) div 366 + 1)
     in (y, find_month (month_lengths y) 1 (n - days_before_year y)))"

lemma find_year_bounds:
  "days_before_year y < n \<Longrightarrow> days_before_year (find_year n y) < n
     \<and> n \<le> days_before_year (find_year n y + 1) \<and> y \<le> find_year n y"
proof (induction n y rule: find_year.induct)
  case (1 n y)
  show ?case
  proof (cases "days_before_year (y + 1) < n")
    case True
    with "1.IH" show ?thesis by (simp add: find_year.simps [of n y])
  next
    case False
    with "1.prems" show ?thesis by (simp add: find_year.simps [of n y])
  qed
qed

lemma find_month_spec:
  assumes "find_month ls m d = (m', d')" "0 < d" "d \<le> sum_list ls"
  shows "\<exists>k < length ls. m' = m + int k \<and> d = sum_list (take k ls) + d' \<and> 0 < d' \<and> d' \<le> ls ! k"
  using assms
proof (induction ls arbitrary: m d)
  case (Cons l ls)
  show ?case
  proof (cases "d \<le> l")
    case True
    with Cons.prems show ?thesis by (intro exI [of _ 0]) auto
  next
    case False
    with Cons.prems Cons.IH [of "m + 1" "d - l"] obtain k where
      "k < length ls" "m' = m + 1 + int k" "d - l = sum_list (take k ls) + d'" "0 < d'" "d' \<le> ls ! k"
      by auto
    then show ?thesis by (intro exI [of _ "Suc k"]) auto
  qed
qed simp

lemma year_estimate: "1 \<le> n \<Longrightarrow> days_before_year ((n - 1) div 366 + 1) < n"
proof -
  assume n: "1 \<le> n"
  define q where "q = (n - 1) div 366"
  have "q * 366 \<le> n - 1" by (simp add: q_def)
  moreover have "0 \<le> q" using n by (simp add: q_def)
  moreover have "q div 4 \<le> q" "q div 400 \<le> q div 100"
    using \<open>0 \<le> q\<close> zdiv_mono2 [of q 1 4] zdiv_mono2 [of q 100 400] by simp_all
  ultimately show ?thesis by (simp add: days_before_year_def q_def [symmetric])
qed

lemma month_lengths_pos: "k < 12 \<Longrightarrow> 28 \<le> month_lengths y ! k \<and> month_lengths y ! k \<le> 31"
  by (auto simp: month_lengths_def less_Suc_eq numeral_nat)

lemma ord2ymd_spec:
  assumes "1 \<le> n" "ord2ymd n = (y, m, d)"
  shows "ymd2ord y m d = n \<and> 1 \<le> y \<and> 1 \<le> m \<and> m \<le> 12 \<and> 1 \<le> d
    \<and> d \<le> month_lengths y ! nat (m - 1)"
proof -
  let ?y0 = "(n - 1) div 366 + 1"
  from assms(2) have y: "y = find_year n ?y0"
    and md: "find_month (month_lengths y) 1 (n - days_before_year y) = (m, d)"
    by (auto simp: ord2ymd_def Let_def)
  from find_year_bounds [OF year_estimate [OF assms(1)]] year_length [of y]
  have "0 < n - days_before_year y" "n - days_before_year y \<le> sum_list (month_lengths y)" "?y0 \<le> y"
    by (simp_all add: y)
  with find_month_spec [OF md] obtain k where k: "k < 12" "m = 1 + int k"
    "n - days_before_year y = sum_list (take k (month_lengths y)) + d" "0 < d"
    "d \<le> month_lengths y ! k"
    by (auto simp: month_lengths_def)
  moreover have "1 \<le> y"
    using \<open>?y0 \<le> y\<close> assms(1) pos_imp_zdiv_nonneg_iff [of 366 "n - 1"] by simp
  ultimately show ?thesis by (simp add: ymd2ord_def)
qed

section \<open>Digits\<close>

fun digits :: "nat \<Rightarrow> int \<Rightarrow> string" where
  "digits 0 n = []"
| "digits (Suc w) n = digits w (n div 10) @ [digit_char (nat (n mod 10))]"

definition digit_val :: "char \<Rightarrow> int option" where
  "digit_val c = (let n = of_char c :: int in if 48 \<le> n \<and> n \<le> 57 then Some (n - 48) else None)"

fun undigits :: "int \<Rightarrow> string \<Rightarrow> int option" where
  "undigits acc [] = Some acc"
| "undigits acc (c # cs) = (case digit_val c of None \<Rightarrow> None | Some v \<Rightarrow> undigits (10 * acc + v) cs)"

text \<open>\<open>read_num w s\<close> reads exactly \<open>w\<close> digits, \<open>read_char P s\<close> one character.\<close>

definition read_num :: "nat \<Rightarrow> string \<Rightarrow> (int \<times> string) option" where
  "read_num w s = (if length s < w then None
     else map_option (\<lambda>v. (v, drop w s)) (undigits 0 (take w s)))"

fun read_char :: "(char \<Rightarrow> bool) \<Rightarrow> string \<Rightarrow> string option" where
  "read_char P [] = None"
| "read_char P (c # cs) = (if P c then Some cs else None)"

lemma less_10_cases: "d < (10 :: nat) \<Longrightarrow> d \<in> {0, 1, 2, 3, 4, 5, 6, 7, 8, 9}"
  by auto

lemma digit_val_char: "d < 10 \<Longrightarrow> digit_val (digit_char d) = Some (int d)"
  by (drule less_10_cases) (auto simp: digit_char_def digit_val_def)

lemma length_digits [simp]: "length (digits w n) = w"
  by (induction w arbitrary: n) auto

lemma undigits_append:
  "undigits acc (xs @ ys) = (case undigits acc xs of None \<Rightarrow> None | Some a \<Rightarrow> undigits a ys)"
  by (induction xs arbitrary: acc) (auto split: option.splits)

lemma undigits_digits: "0 \<le> n \<Longrightarrow> n < 10 ^ w \<Longrightarrow> undigits a (digits w n) = Some (a * 10 ^ w + n)"
proof (induction w arbitrary: a n)
  case (Suc w)
  then have "undigits a (digits w (n div 10)) = Some (a * 10 ^ w + n div 10)" by simp
  moreover have "digit_val (digit_char (nat (n mod 10))) = Some (n mod 10)"
    using digit_val_char [of "nat (n mod 10)"] by simp
  moreover have "10 * (n div 10) + n mod 10 = n" by simp
  ultimately show ?case by (simp add: undigits_append algebra_simps)
qed simp

lemma read_num_digits [simp]:
  "0 \<le> n \<Longrightarrow> n < 10 ^ w \<Longrightarrow> read_num w (digits w n @ rest) = Some (n, rest)"
  by (simp add: read_num_def undigits_digits)

lemma digits_not_upper: "c \<in> set (digits w n) \<Longrightarrow> c \<noteq> CHR ''Z'' \<and> c \<noteq> CHR ''+''"
proof (induction w arbitrary: n)
  case (Suc w)
  have "nat (n mod 10) \<in> {0, 1, 2, 3, 4, 5, 6, 7, 8, 9}" by (rule less_10_cases) simp
  then have "digit_char (nat (n mod 10)) \<noteq> CHR ''Z'' \<and> digit_char (nat (n mod 10)) \<noteq> CHR ''+''"
    by (auto simp: digit_char_def)
  with Suc show ?case by auto
qed simp

section \<open>ISO 8601 text\<close>

definition iso_body :: "instant \<Rightarrow> string" where
  "iso_body t = (let days = usec t div 86400000000; r = usec t mod 86400000000;
       (y, m, d) = ord2ymd (days + 1);
       us = r mod 1000000; sec = r div 1000000
     in digits 4 y @ ''-'' @ digits 2 m @ ''-'' @ digits 2 d @ ''T'' @
        digits 2 (sec div 3600) @ '':'' @ digits 2 (sec div 60 mod 60) @ '':'' @ digits 2 (sec mod 60) @
        (if us = 0 then [] else ''.'' @ digits 6 us))"

definition isoformat_utc :: "instant \<Rightarrow> string" where
  "isoformat_utc t = iso_body t @ ''+00:00''"

text \<open>\<open>value.astimezone(timezone.utc).isoformat().replace("+00:00", "Z")\<close>.\<close>

definition format_z :: "instant \<Rightarrow> string" where
  "format_z t = iso_body t @ ''Z''"

text \<open>\<open>value.replace("Z", "+00:00")\<close>.\<close>

definition replace_Z :: "string \<Rightarrow> string" where
  "replace_Z s = concat (map (\<lambda>c. if c = CHR ''Z'' then ''+00:00'' else [c]) s)"

definition read_fraction :: "string \<Rightarrow> (int \<times> string) option" where
  "read_fraction s = (case s of [] \<Rightarrow> Some (0, []) | c # cs \<Rightarrow>
     if c = CHR ''.'' then read_num 6 cs else Some (0, s))"

definition read_offset :: "string \<Rightarrow> int option option" where
  "read_offset s = (if s = [] then Some None else do {
     sign \<leftarrow> (if hd s = CHR ''+'' then Some 1 else if hd s = CHR ''-'' then Some (- 1) else None);
     (h, s1) \<leftarrow> read_num 2 (tl s);
     s2 \<leftarrow> read_char (\<lambda>c. c = CHR '':'') s1;
     (m, s3) \<leftarrow> read_num 2 s2;
     if s3 = [] \<and> h < 24 \<and> m < 60 then Some (Some (sign * (h * 3600 + m * 60) * 1000000)) else None })"

text \<open>
  The result is the wall-clock reading and its offset from UTC in microseconds, \<open>None\<close> for a
  text without offset; \<open>None\<close> as a whole is \<open>ValueError\<close>.
\<close>

definition fromisoformat :: "string \<Rightarrow> (instant \<times> int option) option" where
  "fromisoformat s = do {
     (y, s) \<leftarrow> read_num 4 s; s \<leftarrow> read_char (\<lambda>c. c = CHR ''-'') s;
     (m, s) \<leftarrow> read_num 2 s; s \<leftarrow> read_char (\<lambda>c. c = CHR ''-'') s;
     (d, s) \<leftarrow> read_num 2 s; s \<leftarrow> read_char (\<lambda>_. True) s;
     (h, s) \<leftarrow> read_num 2 s; s \<leftarrow> read_char (\<lambda>c. c = CHR '':'') s;
     (mi, s) \<leftarrow> read_num 2 s; s \<leftarrow> read_char (\<lambda>c. c = CHR '':'') s;
     (sec, s) \<leftarrow> read_num 2 s; (us, s) \<leftarrow> read_fraction s; off \<leftarrow> read_offset s;
     if 1 \<le> y \<and> 1 \<le> m \<and> m \<le> 12 \<and> 1 \<le> d \<and> d \<le> month_lengths y ! nat (m - 1)
        \<and> h < 24 \<and> mi < 60 \<and> sec < 60
     then do {
       w \<leftarrow> mk_instant ((ymd2ord y m d - 1) * 86400000000
          + (h * 3600 + mi * 60 + sec) * 1000000 + us);
       Some (w, off) }
     else None }"

section \<open>Reading back a printed instant\<close>

lemma year_bound:
  assumes "1 \<le> n" "n \<le> 3652059" "ord2ymd n = (y, m, d)"
  shows "y \<le> 9999"
proof (rule ccontr)
  assume "\<not> y \<le> 9999"
  then have y: "9999 \<le> y - 1" by simp
  have "days_before_year y \<ge> 9999 * 365 + (y - 1) div 4 - (y - 1) div 100 + (y - 1) div 400"
    using y by (simp add: days_before_year_def)
  moreover have "(y - 1) div 400 \<ge> 24" using zdiv_mono1 [OF y, of 400] by simp
  moreover have "(y - 1) div 4 - (y - 1) div 100 \<ge> 2400"
  proof -
    define q r where "q = (y - 1) div 100" and "r = (y - 1) mod 100"
    have e: "y - 1 = 4 * (25 * q) + r" by (simp add: q_def r_def)
    have r: "0 \<le> r" "r < 100" by (simp_all add: r_def)
    have q: "99 \<le> q" using zdiv_mono1 [OF y, of 100] by (simp add: q_def)
    have d: "(y - 1) div 4 = 25 * q + r div 4"
      unfolding e by (simp only: div_mult_self4 [of 4 r "25 * q"] add.commute)
    show ?thesis
    proof (cases "q = 99")
      case True
      with e y have "99 \<le> r" by simp
      with zdiv_mono1 [OF this, of 4] d True show ?thesis by (simp add: q_def [symmetric])
    next
      case False
      moreover have "0 \<le> r div 4" using r by simp
      ultimately show ?thesis using d q by (simp add: q_def [symmetric])
    qed
  qed
  ultimately have "days_before_year y \<ge> 9999 * 365 + 2400 + 24" by linarith
  moreover have "days_before_year y < n"
  proof -
    from ord2ymd_spec [OF assms(1,3)] month_lengths_pos [of _ y] have
      "ymd2ord y m d = n" "1 \<le> d" by auto
    moreover have "0 \<le> sum_list (take (nat (m - 1)) (month_lengths y))"
      by (rule sum_list_nonneg) (auto dest!: in_set_takeD simp: month_lengths_def)
    ultimately show ?thesis by (simp add: ymd2ord_def)
  qed
  ultimately show False using assms(2) by simp
qed

lemma fromisoformat_isoformat [simp]: "fromisoformat (isoformat_utc t) = Some (t, Some 0)"
proof -
  define days r where "days = usec t div 86400000000" and "r = usec t mod 86400000000"
  obtain y m d where ymd: "ord2ymd (days + 1) = (y, m, d)" by (cases "ord2ymd (days + 1)")
  define us sec where "us = r mod 1000000" and "sec = r div 1000000"
  have days: "0 \<le> days" "days + 1 \<le> 3652059"
    using usec_range(1) [of t] zle_diff1_eq [THEN iffD2, OF usec_range(2) [of t]]
      zdiv_mono1 [of "usec t" "max_usec - 1" 86400000000]
      pos_imp_zdiv_nonneg_iff [of 86400000000 "usec t"]
    by (simp_all add: days_def)
  have r: "0 \<le> r" "r < 86400000000" by (simp_all add: r_def)
  have sec: "0 \<le> sec" "sec < 86400"
    using r zdiv_mono1 [of r "86400000000 - 1" 1000000] by (simp_all add: sec_def)
  have us: "0 \<le> us" "us < 1000000" by (simp_all add: us_def)
  note s = ord2ymd_spec [OF _ ymd]
  have y: "1 \<le> y" "y \<le> 9999" and m: "1 \<le> m" "m \<le> 12" and d: "1 \<le> d" "d \<le> month_lengths y ! nat (m - 1)"
    and o: "ymd2ord y m d = days + 1"
    using s year_bound [OF _ days(2) ymd] days(1) by auto
  have "nat (m - 1) < 12" using m by simp
  with d(2) month_lengths_pos [of _ y] have d31: "d \<le> 31" by (meson order_trans)
  have "sec div 3600 = sec div 60 div 60" using zdiv_zmult2_eq [of 60 sec 60] by simp
  moreover have "sec div 60 div 60 * 60 + sec div 60 mod 60 = sec div 60" by simp
  ultimately have "(sec div 3600 * 60 + sec div 60 mod 60) * 60 + sec mod 60 = sec" by simp
  then have hms: "sec div 3600 * 3600 + sec div 60 mod 60 * 60 + sec mod 60 = sec" by simp
  have h: "0 \<le> sec div 3600" "sec div 3600 < 24"
    using sec zdiv_mono1 [of sec 86399 3600] by (simp_all add: pos_imp_zdiv_nonneg_iff)
  have "(ymd2ord y m d - 1) * 86400000000 + (sec div 3600 * 3600 + sec div 60 mod 60 * 60 + sec mod 60) * 1000000 + us
      = days * 86400000000 + (sec * 1000000 + us)"
    by (simp only: hms o) simp
  also have "sec * 1000000 + us = r" by (simp add: sec_def us_def)
  also have "days * 86400000000 + r = usec t" by (simp add: days_def r_def)
  finally have w: "mk_instant ((ymd2ord y m d - 1) * 86400000000
      + (sec div 3600 * 3600 + sec div 60 mod 60 * 60 + sec mod 60) * 1000000 + us) = Some t"
    by simp
  have body: "isoformat_utc t = digits 4 y @ ''-'' @ digits 2 m @ ''-'' @ digits 2 d @ ''T'' @
        digits 2 (sec div 3600) @ '':'' @ digits 2 (sec div 60 mod 60) @ '':'' @ digits 2 (sec mod 60) @
        ((if us = 0 then [] else ''.'' @ digits 6 us) @ ''+00:00'')"
    by (simp add: isoformat_utc_def iso_body_def Let_def ymd us_def sec_def flip: days_def r_def)
  have frac: "read_fraction ((if us = 0 then [] else ''.'' @ digits 6 us) @ ''+00:00'') = Some (us, ''+00:00'')"
    using us by (simp add: read_fraction_def)
  have off: "read_offset ''+00:00'' = Some (Some 0)"
    by (simp add: read_offset_def read_num_def digit_val_def numeral_2_eq_2)
  show ?thesis
    using y m d d31 h w
    by (simp add: fromisoformat_def body frac off del: append_assoc)
qed

lemma iso_body_no_Z: "CHR ''Z'' \<notin> set (iso_body t)"
  using digits_not_upper by (auto simp: iso_body_def Let_def split: prod.split)

lemma replace_Z_id: "CHR ''Z'' \<notin> set s \<Longrightarrow> replace_Z s = s"
  by (induction s) (auto simp: replace_Z_def)

lemma replace_Z_format [simp]: "replace_Z (format_z t) = isoformat_utc t"
  using replace_Z_id [OF iso_body_no_Z [of t]]
  by (simp add: format_z_def isoformat_utc_def replace_Z_def)

lemma format_z_inject [simp]: "format_z s = format_z t \<longleftrightarrow> s = t"
  by (metis fromisoformat_isoformat replace_Z_format option.inject prod.inject)

end
