(* ===== verification/Py_Float.thy ===== *)
theory Py_Float
  imports Py_Values
begin

text \<open>
  Python floats as far as src/ uses them: quotients and products of non-negative numbers and
  comparisons with decimal literals. \<open>fl q\<close> is the binary64 value nearest to the exact
  rational \<open>q\<close>, ties to even, with 53 significant bits; the exponent range is left
  unbounded (values beyond 1e308 or below 1e-308 do not occur in the modelled code). A float
  expression of the source is \<open>fl\<close> of the exact result of every single operation.
\<close>

section \<open>Rounding to 53 significant bits\<close>

fun bit_count :: "nat \<Rightarrow> nat" where
  "bit_count n = (if n = 0 then 0 else Suc (bit_count (n div 2)))"

declare bit_count.simps [simp del]

definition exponent :: "rat \<Rightarrow> int" where
  "exponent q = (let (a, b) = quotient_of q;
      e = int (bit_count (nat a)) - int (bit_count (nat b))
    in if 2 powi e \<le> q then e else e - 1)"

definition round_even :: "rat \<Rightarrow> int" where
  "round_even x = (let f = \<lfloor>x\<rfloor>; d = x - of_int f in
     if d < 1 / 2 then f else if d > 1 / 2 then f + 1 else if even f then f else f + 1)"

definition fl_pos :: "rat \<Rightarrow> rat" where
  "fl_pos q = (let u = 2 powi (exponent q - 52) in of_int (round_even (q / u)) * u)"

definition fl :: "rat \<Rightarrow> rat" where
  "fl q = (if q = 0 then 0 else if q < 0 then - fl_pos (- q) else fl_pos q)"

text \<open>\<open>int(x)\<close> of a float truncates towards zero.\<close>

definition trunc :: "rat \<Rightarrow> int" where
  "trunc x = (if x < 0 then - \<lfloor>- x\<rfloor> else \<lfloor>x\<rfloor>)"

section \<open>Printing\<close>

text \<open>
  \<open>repr(x)\<close>: the shortest decimal that rounds to \<open>x\<close>, the nearest one of that length; at most
  17 digits are needed. \<open>decimal_point\<close> is the position of the point before the first digit.
\<close>

definition decimal_exponent :: "rat \<Rightarrow> int" where
  "decimal_exponent q = (let (a, b) = quotient_of q;
      e = int (length (show_int a)) - int (length (show_int b))
    in if 10 powi e \<le> q then e else e - 1)"

definition decimal_digits :: "nat \<Rightarrow> rat \<Rightarrow> int" where
  "decimal_digits n q = round_even (q / 10 powi (decimal_exponent q + 1 - int n))"

definition repr_length :: "rat \<Rightarrow> nat" where
  "repr_length q = (case List.find (\<lambda>n. fl (of_int (decimal_digits n q)
       * 10 powi (decimal_exponent q + 1 - int n)) = q) [1..<17] of None \<Rightarrow> 17 | Some n \<Rightarrow> n)"

definition repr_digits :: "string \<Rightarrow> int \<Rightarrow> string" where
  "repr_digits ds point = (
     if - 4 < point \<and> point \<le> 16 then
       if point \<le> 0 then ''0.'' @ replicate (nat (- point)) (CHR ''0'') @ ds
       else if int (length ds) \<le> point
         then ds @ replicate (nat (point - int (length ds))) (CHR ''0'') @ ''.0''
       else take (nat point) ds @ ''.'' @ drop (nat point) ds
     else take 1 ds @ (if length ds = 1 then [] else ''.'' @ drop 1 ds) @ ''e''
       @ (if point \<le> 0 then ''-'' else ''+'') @ (if \<bar>point - 1\<bar> < 10 then ''0'' else [])
       @ show_int \<bar>point - 1\<bar>)"

definition float_repr :: "rat \<Rightarrow> string" where
  "float_repr q = (if q = 0 then ''0.0'' else
     let n = repr_length \<bar>q\<bar>; ds = show_int (decimal_digits n \<bar>q\<bar>) in
     (if q < 0 then ''-'' else []) @
       repr_digits (rev (dropWhile (\<lambda>c. c = CHR ''0'') (rev ds)))
         (decimal_exponent \<bar>q\<bar> + 1 - int n + int (length ds)))"

section \<open>Laws\<close>

lemma bit_count_bounds:
  "n > 0 \<Longrightarrow> 2 ^ (bit_count n - 1) \<le> n \<and> n < 2 ^ bit_count n \<and> 0 < bit_count n"
proof (induction n rule: bit_count.induct)
  case (1 n)
  show ?case
  proof (cases "n = 1")
    case True
    then show ?thesis by (simp add: bit_count.simps)
  next
    case False
    with 1(2) have h: "n div 2 > 0" "n \<noteq> 0" by auto
    note ih = 1(1) [OF h(2) h(1)]
    from ih obtain k where k: "bit_count (n div 2) = Suc k" by (auto simp: gr0_conv_Suc)
    with ih have "2 ^ k \<le> n div 2" "n div 2 < 2 * 2 ^ k" by auto
    then have "2 * 2 ^ k \<le> n" "n < 2 * (2 * 2 ^ k)" by linarith+
    with h k show ?thesis by (simp add: bit_count.simps [of n])
  qed
qed

lemma exponent_bounds:
  assumes "q > 0"
  shows "2 powi exponent q \<le> q \<and> q < 2 powi (exponent q + 1)"
proof -
  obtain a b where ab: "quotient_of q = (a, b)" by (cases "quotient_of q")
  then have q: "q = of_int a / of_int b" by (rule quotient_of_div)
  have b: "b > 0" using quotient_of_denom_pos [OF ab] .
  with q assms have a: "a > 0" by (simp add: zero_less_divide_iff)
  define m n where "m = bit_count (nat a)" and "n = bit_count (nat b)"
  have mb: "2 ^ (m - 1) \<le> nat a" "nat a < 2 ^ m" "0 < m"
    and nb: "2 ^ (n - 1) \<le> nat b" "nat b < 2 ^ n" "0 < n"
    using bit_count_bounds [of "nat a"] bit_count_bounds [of "nat b"] a b
    by (auto simp: m_def n_def)
  from mb a have "2 ^ (m - 1) \<le> a \<and> a < 2 ^ m"
    by (metis int_nat_eq less_imp_le of_nat_le_iff of_nat_less_iff of_nat_numeral of_nat_power)
  then have ra: "2 ^ (m - 1) \<le> (of_int a :: rat)" "(of_int a :: rat) < 2 ^ m"
    by (metis of_int_le_iff of_int_numeral of_int_power,
        metis of_int_less_iff of_int_numeral of_int_power)
  from nb b have "2 ^ (n - 1) \<le> b \<and> b < 2 ^ n"
    by (metis int_nat_eq less_imp_le of_nat_le_iff of_nat_less_iff of_nat_numeral of_nat_power)
  then have rb: "2 ^ (n - 1) \<le> (of_int b :: rat)" "(of_int b :: rat) < 2 ^ n"
    by (metis of_int_le_iff of_int_numeral of_int_power,
        metis of_int_less_iff of_int_numeral of_int_power)
  define e where "e = int m - int n"
  have pm: "(2 :: rat) ^ m = 2 * 2 ^ (m - 1)" and pn: "(2 :: rat) ^ n = 2 * 2 ^ (n - 1)"
    using mb(3) nb(3) by (simp_all flip: power_Suc)
  have pe: "(2 :: rat) powi e = 2 ^ m / 2 ^ n"
    by (simp add: e_def power_int_diff)
  have rbp: "(of_int b :: rat) > 0" and rap: "(of_int a :: rat) \<ge> 0" using a b by simp_all
  have "2 ^ (m - 1) * (of_int b :: rat) \<le> of_int a * 2 ^ n"
    using ra(1) rb(2) rbp rap by (intro mult_mono) auto
  then have lo: "2 ^ m / 2 ^ n / 2 \<le> q"
    using rbp by (simp add: q pm field_simps)
  have "(of_int a :: rat) * 2 ^ (n - 1) < 2 ^ m * of_int b"
    using ra(2) rb(1) rbp rap by (intro mult_less_le_imp_less) auto
  then have hi: "q < 2 * (2 ^ m / 2 ^ n)"
    using rbp by (simp add: q pn field_simps)
  have E: "exponent q = (if 2 powi e \<le> q then e else e - 1)"
    by (simp add: exponent_def ab m_def n_def e_def)
  show ?thesis
    using lo hi by (cases "2 powi e \<le> q") (simp_all add: E pe [symmetric] power_int_add power_int_diff)
qed

lemma round_even_mono: "x \<le> y \<Longrightarrow> round_even x \<le> round_even y"
proof -
  assume xy: "x \<le> y"
  then have f: "\<lfloor>x\<rfloor> \<le> \<lfloor>y\<rfloor>" by (rule floor_mono)
  show ?thesis
  proof (cases "\<lfloor>x\<rfloor> = \<lfloor>y\<rfloor>")
    case True
    with xy show ?thesis by (auto simp: round_even_def Let_def)
  next
    case False
    with f have "\<lfloor>x\<rfloor> + 1 \<le> \<lfloor>y\<rfloor>" by linarith
    then show ?thesis by (auto simp: round_even_def Let_def)
  qed
qed

lemma round_even_int [simp]: "round_even (of_int n) = n"
  by (simp add: round_even_def)

lemma round_even_error: "\<bar>of_int (round_even x) - x\<bar> \<le> 1 / 2"
proof -
  have "of_int \<lfloor>x\<rfloor> \<le> x" "x < of_int \<lfloor>x\<rfloor> + 1" by linarith+
  then show ?thesis
    unfolding round_even_def Let_def abs_le_iff by (simp split: if_split) linarith
qed

lemma fl_pos_bounds:
  assumes q: "q > 0"
  shows "2 powi exponent q \<le> fl_pos q \<and> fl_pos q \<le> 2 powi (exponent q + 1)"
proof -
  define u :: rat where "u = 2 powi (exponent q - 52)"
  have u: "u > 0" by (simp add: u_def)
  have b: "2 ^ 52 * u = 2 powi exponent q" "2 ^ 53 * u = 2 powi (exponent q + 1)"
    by (simp_all add: u_def power_int_diff power_int_add)
  from exponent_bounds [OF q] have "2 ^ 52 * u \<le> q" "q \<le> 2 ^ 53 * u"
    by (simp_all only: b) simp_all
  then have "of_int (2 ^ 52) \<le> q / u" "q / u \<le> of_int (2 ^ 53)"
    using u by (simp_all add: field_simps)
  then have "2 ^ 52 \<le> round_even (q / u)" "round_even (q / u) \<le> 2 ^ 53"
    using round_even_mono [of "of_int (2 ^ 52)" "q / u"]
      round_even_mono [of "q / u" "of_int (2 ^ 53)"]
    by (simp_all only: round_even_int)
  then have "of_int (2 ^ 52) \<le> (of_int (round_even (q / u)) :: rat)"
    "(of_int (round_even (q / u)) :: rat) \<le> of_int (2 ^ 53)"
    by (simp_all only: of_int_le_iff)
  then have "2 ^ 52 * u \<le> of_int (round_even (q / u)) * u"
    "of_int (round_even (q / u)) * u \<le> 2 ^ 53 * u"
    using u by (auto intro!: mult_right_mono)
  then show ?thesis by (simp only: b fl_pos_def Let_def u_def [symmetric])
qed

lemma exponent_mono:
  assumes "0 < x" "x \<le> y"
  shows "exponent x \<le> exponent y"
proof (rule ccontr)
  assume "\<not> exponent x \<le> exponent y"
  then have "exponent y + 1 \<le> exponent x" by simp
  then have "(2 :: rat) powi (exponent y + 1) \<le> 2 powi exponent x"
    by (intro power_int_increasing) auto
  with exponent_bounds [of x] exponent_bounds [of y] assms show False by force
qed

lemma fl_pos_mono:
  assumes "0 < x" "x \<le> y"
  shows "fl_pos x \<le> fl_pos y"
proof (cases "exponent x = exponent y")
  case True
  have "x / 2 powi (exponent y - 52) \<le> y / 2 powi (exponent y - 52)"
    using assms(2) by (simp add: divide_right_mono)
  then have "(of_int (round_even (x / 2 powi (exponent y - 52))) :: rat)
      \<le> of_int (round_even (y / 2 powi (exponent y - 52)))"
    by (simp only: of_int_le_iff round_even_mono)
  then show ?thesis
    by (simp add: fl_pos_def Let_def True mult_right_mono)
next
  case False
  with exponent_mono [OF assms] have "exponent x + 1 \<le> exponent y" by simp
  then have "(2 :: rat) powi (exponent x + 1) \<le> 2 powi exponent y"
    by (intro power_int_increasing) auto
  with fl_pos_bounds [of x] fl_pos_bounds [of y] assms show ?thesis by force
qed

lemma fl_pos_pos: "0 < q \<Longrightarrow> 0 < fl_pos q"
  using fl_pos_bounds [of q] by (meson less_le_trans zero_less_numeral zero_less_power_int)

lemma fl_mono: "x \<le> y \<Longrightarrow> fl x \<le> fl y"
  using fl_pos_pos [of "- x"] fl_pos_pos [of y]
  by (auto simp: fl_def fl_pos_mono)

lemma fl_nonneg: "0 \<le> q \<Longrightarrow> 0 \<le> fl q"
  using fl_mono [of 0 q] by (simp add: fl_def)

lemma fl_error:
  assumes "0 \<le> q"
  shows "\<bar>fl q - q\<bar> \<le> q / 2 ^ 53"
proof (cases "q = 0")
  case False
  with assms have q: "q > 0" by simp
  define u :: rat where "u = 2 powi (exponent q - 52)"
  have u: "u > 0" by (simp add: u_def)
  have "\<bar>of_int (round_even (q / u)) - q / u\<bar> * u \<le> 1 / 2 * u"
    using round_even_error u by (intro mult_right_mono) auto
  moreover have "\<bar>of_int (round_even (q / u)) - q / u\<bar> * u = \<bar>fl_pos q - q\<bar>"
    using u by (simp add: fl_pos_def u_def [symmetric] abs_mult_pos field_simps)
  moreover have "1 / 2 * u = 2 powi exponent q / 2 ^ 53"
    by (simp add: u_def power_int_diff)
  ultimately have "\<bar>fl_pos q - q\<bar> \<le> 2 powi exponent q / 2 ^ 53" by simp
  also have "\<dots> \<le> q / 2 ^ 53"
    using exponent_bounds [OF q] by (intro divide_right_mono) auto
  finally show ?thesis using q by (simp add: fl_def)
qed (simp add: fl_def)

lemma fl_int:
  assumes "0 \<le> n" "n < 2 ^ 53"
  shows "fl (of_int n) = of_int n"
proof (cases "n = 0")
  case False
  with assms have q: "(of_int n :: rat) > 0" by simp
  have "(of_int n :: rat) < of_int (2 ^ 53)" using assms by (simp only: of_int_less_iff)
  then have "(2 :: rat) powi exponent (of_int n) < 2 powi 53"
    using exponent_bounds [OF q] by simp
  have e: "exponent (of_int n :: rat) \<le> 52"
  proof (rule ccontr)
    assume "\<not> exponent (of_int n :: rat) \<le> 52"
    then have "(2 :: rat) powi 53 \<le> 2 powi exponent (of_int n)"
      by (intro power_int_increasing) auto
    with \<open>(2 :: rat) powi exponent (of_int n) < 2 powi 53\<close> show False by simp
  qed
  define k where "k = nat (52 - exponent (of_int n :: rat))"
  have u: "(2 :: rat) powi (exponent (of_int n) - 52) = inverse (2 ^ k)"
    using e by (simp add: k_def power_int_def power_one_over inverse_eq_divide)
  have "(of_int n :: rat) / inverse (2 ^ k) = of_int (n * 2 ^ k)"
    by (simp add: field_simps)
  then have "fl_pos (of_int n) = of_int n"
    by (simp only: fl_pos_def u Let_def round_even_int) (simp add: field_simps)
  with q show ?thesis by (simp add: fl_def)
qed (simp add: fl_def)

text \<open>
  Comparing a quotient of two integers with a decimal literal of one digit is exact for
  divisors below \<open>2 ^ 49\<close>: the two roundings cannot close the gap of \<open>1 / (10 * b)\<close>.
\<close>

lemma fl_ratio_le_iff:
  fixes a b k :: int
  assumes a: "0 \<le> a" and b: "0 < b" "b < 2 ^ 49" and k: "0 \<le> k" "k \<le> 6"
  shows "fl (of_int a / of_int b) \<le> fl (of_int k / 10) \<longleftrightarrow> 10 * a \<le> k * b"
proof
  assume "10 * a \<le> k * b"
  then have "(of_int (10 * a) :: rat) \<le> of_int (k * b)" by (simp only: of_int_le_iff)
  with b show "fl (of_int a / of_int b) \<le> fl (of_int k / 10)"
    by (intro fl_mono) (simp add: field_simps)
next
  assume le: "fl (of_int a / of_int b) \<le> fl (of_int k / 10)"
  show "10 * a \<le> k * b"
  proof (rule ccontr)
    assume "\<not> 10 * a \<le> k * b"
    then have "k * b + 1 \<le> 10 * a" by simp
    then have g: "(of_int (k * b + 1) :: rat) \<le> of_int (10 * a)" by (simp only: of_int_le_iff)
    define x y :: rat where "x = of_int a / of_int b" and "y = of_int k / 10"
    have bp: "(0 :: rat) < of_int b" using b by simp
    have xp: "0 \<le> x" and yp: "0 \<le> y" using a b k by (simp_all add: x_def y_def)
    have "y + 1 / (10 * of_int b) = of_int (k * b + 1) / (10 * of_int b)"
      using bp by (simp add: y_def field_simps)
    also have "\<dots> \<le> of_int (10 * a) / (10 * of_int b)"
      using g bp by (intro divide_right_mono) auto
    finally have gap: "y + 1 / (10 * of_int b) \<le> x" by (simp add: x_def)
    have "(of_int b :: rat) < of_int (2 ^ 49)" using b by (simp only: of_int_less_iff)
    with bp have g2: "1 / (10 * 2 ^ 49) \<le> 1 / (10 * (of_int b :: rat))"
      by (intro divide_left_mono) auto
    have "(of_int k :: rat) \<le> of_int 6" using k by (simp only: of_int_le_iff)
    then have y: "y \<le> 6 / 10" by (simp add: y_def)
    from fl_error [OF xp] have "x - x / 2 ^ 53 \<le> fl x" by linarith
    moreover from fl_error [OF yp] have "fl y \<le> y + y / 2 ^ 53" by linarith
    moreover from le have "fl x \<le> fl y" by (simp add: x_def y_def)
    ultimately have "x - x / 2 ^ 53 \<le> y + y / 2 ^ 53" by linarith
    with gap g2 y show False by (simp add: field_simps)
  qed
qed

lemma trunc_nonneg: "0 \<le> x \<Longrightarrow> trunc x = \<lfloor>x\<rfloor>"
  by (simp add: trunc_def)

lemma trunc_fl_mono: "0 \<le> x \<Longrightarrow> x \<le> y \<Longrightarrow> trunc (fl x) \<le> trunc (fl y)"
  using fl_mono [of x y] fl_nonneg [of x] fl_nonneg [of y]
  by (simp add: trunc_nonneg floor_mono)

end
