(* ===== verification/Py_Data.thy ===== *)
theory Py_Data
  imports Py_Calendar Py_Float
begin

text \<open>
  Values whose Python type is checked at run time (constructor arguments, decoded JSON), the
  checks the modules of src/ apply to them, and the canonical JSON text whose digest binds a
  record to its content.

  A \<open>pyval\<close> is a value of one of the types the modelled code distinguishes. \<open>PFloat q\<close> is a
  finite float, its value; \<open>PTime w off\<close> is a datetime with wall-clock reading \<open>w\<close> and offset \<open>off\<close> from
  UTC, \<open>None\<close> for a naive one.
\<close>

section \<open>Dynamic values\<close>

datatype pyval =
    PNone
  | PBool bool
  | PInt int
  | PFloat rat
  | PStr string
  | PTime instant "int option"
  | PList "pyval list"
  | PTuple "pyval list"
  | PDict "(string \<times> pyval) list"

text \<open>\<open>d.get(k, default)\<close>.\<close>

definition dict_get_or :: "pyval \<Rightarrow> (string \<times> pyval) list \<Rightarrow> string \<Rightarrow> pyval" where
  "dict_get_or dflt d k = (case map_of d k of None \<Rightarrow> dflt | Some v \<Rightarrow> v)"

abbreviation dict_get :: "(string \<times> pyval) list \<Rightarrow> string \<Rightarrow> pyval" where
  "dict_get d k \<equiv> dict_get_or PNone d k"

lemma dict_get_or_Cons [simp]:
  "dict_get_or u ((k', v) # d) k = (if k = k' then v else dict_get_or u d k)"
  by (simp add: dict_get_or_def)

lemma dict_get_or_Nil [simp]: "dict_get_or u [] k = u"
  by (simp add: dict_get_or_def)

text \<open>
  \<open>value == n\<close> for an integer \<open>n\<close>: numbers compare by value, and \<open>True\<close> and \<open>False\<close> are the
  integers 1 and 0.
\<close>

fun py_eq_int :: "pyval \<Rightarrow> int \<Rightarrow> bool" where
  "py_eq_int (PInt m) n = (m = n)"
| "py_eq_int (PBool b) n = ((if b then 1 else 0) = n)"
| "py_eq_int (PFloat q) n = (q = of_int n)"
| "py_eq_int _ n = False"

definition opt_val :: "('a \<Rightarrow> pyval) \<Rightarrow> 'a option \<Rightarrow> pyval" where
  "opt_val f x = (case x of None \<Rightarrow> PNone | Some y \<Rightarrow> f y)"

lemma opt_val_simps [simp]: "opt_val f None = PNone" "opt_val f (Some y) = f y"
  by (simp_all add: opt_val_def)

abbreviation utc_val :: "instant \<Rightarrow> pyval" where
  "utc_val t \<equiv> PTime t (Some 0)"

section \<open>Checks shared by the modules\<close>

text \<open>\<open>if not isinstance(value, str) or not value.strip(): raise c(...)\<close>.\<close>

definition require_text :: "exc_class \<Rightarrow> pyval \<Rightarrow> string \<Rightarrow> string res" where
  "require_text c v name = (case v of PStr s \<Rightarrow>
       if blank s then Inl (c, name @ '' must be a non-empty string'') else Inr s
     | _ \<Rightarrow> Inl (c, name @ '' must be a non-empty string''))"

text \<open>The same check on a value that may be \<open>None\<close>.\<close>

definition optional_text :: "exc_class \<Rightarrow> pyval \<Rightarrow> string \<Rightarrow> string option res" where
  "optional_text c v name = (if v = PNone then Inr None
     else rbind (require_text c v name) (\<lambda>s. Inr (Some s)))"

text \<open>\<open>if isinstance(value, bool) or not isinstance(value, int) or value < 0: raise c(...)\<close>.\<close>

definition require_nat :: "exc_class \<Rightarrow> pyval \<Rightarrow> string \<Rightarrow> int res" where
  "require_nat c v name = (case v of PInt n \<Rightarrow>
       if n < 0 then Inl (c, name @ '' must be a non-negative integer'') else Inr n
     | _ \<Rightarrow> Inl (c, name @ '' must be a non-negative integer''))"

text \<open>An integer, not a bool, within bounds.\<close>

definition require_range :: "exn \<Rightarrow> int \<Rightarrow> int \<Rightarrow> pyval \<Rightarrow> int res" where
  "require_range e lo hi v = (case v of PInt n \<Rightarrow>
       if lo \<le> n \<and> n \<le> hi then Inr n else Inl e | _ \<Rightarrow> Inl e)"

text \<open>\<open>Enum(value)\<close> over the members \<open>ms\<close> with value strings \<open>f\<close>.\<close>

definition require_enum :: "exn \<Rightarrow> ('a \<Rightarrow> string) \<Rightarrow> 'a list \<Rightarrow> pyval \<Rightarrow> 'a res" where
  "require_enum e f ms v = (case v of PStr s \<Rightarrow>
       (case List.find (\<lambda>m. f m = s) ms of None \<Rightarrow> Inl e | Some m \<Rightarrow> Inr m)
     | _ \<Rightarrow> Inl e)"

text \<open>\<open>if value.tzinfo is None: raise\<close>, then the UTC instant that the value denotes.\<close>

definition require_aware :: "exn \<Rightarrow> pyval \<Rightarrow> instant res" where
  "require_aware e v = (case v of
       PTime w (Some off) \<Rightarrow> (case mk_instant (usec w - off) of
         None \<Rightarrow> Inl (OverflowError, ''date value out of range'') | Some t \<Rightarrow> Inr t)
     | PTime w None \<Rightarrow> Inl e
     | _ \<Rightarrow> Inl (AttributeError, ''object has no attribute tzinfo''))"

definition optional_aware :: "exn \<Rightarrow> pyval \<Rightarrow> instant option res" where
  "optional_aware e v = (if v = PNone then Inr None
     else rbind (require_aware e v) (\<lambda>t. Inr (Some t)))"

lemma require_text_eq_Inr [validator_defs]:
  "require_text c v n = Inr s \<longleftrightarrow> v = PStr s \<and> \<not> blank s"
  by (auto simp: require_text_def split: pyval.splits)

lemma optional_text_eq_Inr [validator_defs]:
  "optional_text c v n = Inr x \<longleftrightarrow> v = opt_val PStr x \<and> (\<forall>s. x = Some s \<longrightarrow> \<not> blank s)"
  by (cases x) (auto simp: optional_text_def rbind_eq_Inr require_text_eq_Inr)

lemma require_nat_eq_Inr [validator_defs]:
  "require_nat c v n = Inr i \<longleftrightarrow> v = PInt i \<and> 0 \<le> i"
  by (auto simp: require_nat_def split: pyval.splits)

lemma require_range_eq_Inr [validator_defs]:
  "require_range e lo hi v = Inr i \<longleftrightarrow> v = PInt i \<and> lo \<le> i \<and> i \<le> hi"
  by (auto simp: require_range_def split: pyval.splits)

lemma find_inj:
  assumes "m \<in> set ms" "inj_on f (set ms)"
  shows "List.find (\<lambda>x. f x = f m) ms = Some m"
  using assms by (induction ms) auto

lemma require_enum_PStr:
  "m \<in> set ms \<Longrightarrow> inj_on f (set ms) \<Longrightarrow> require_enum e f ms (PStr (f m)) = Inr m"
  by (simp add: require_enum_def find_inj)

lemma require_enum_Inr: "require_enum e f ms v = Inr m \<Longrightarrow> v = PStr (f m)"
  by (auto simp: require_enum_def find_Some_iff split: pyval.splits option.splits)

lemma require_aware_utc [simp]: "require_aware e (utc_val t) = Inr t"
  by (simp add: require_aware_def)

lemma optional_aware_utc [simp]: "optional_aware e (opt_val utc_val x) = Inr x"
  by (cases x) (simp_all add: optional_aware_def)

section \<open>Canonical JSON and digests\<close>

text \<open>
  \<open>json.dumps(value, ensure_ascii=False, sort_keys=True, separators=(",", ":"))\<close>. Only
  values JSON has are ever given to it; on a datetime Python raises and the model prints
  nothing.
\<close>

definition hex_digit :: "nat \<Rightarrow> char" where
  "hex_digit d = ''0123456789abcdef'' ! d"

definition json_escape :: "char \<Rightarrow> string" where
  "json_escape c = (let n = of_char c :: nat in
     if n = 34 then [char_of (92 :: nat), c]
     else if n = 92 then [c, c]
     else if n = 10 then [char_of (92 :: nat), CHR ''n'']
     else if n = 13 then [char_of (92 :: nat), CHR ''r'']
     else if n = 9 then [char_of (92 :: nat), CHR ''t'']
     else if n = 8 then [char_of (92 :: nat), CHR ''b'']
     else if n = 12 then [char_of (92 :: nat), CHR ''f'']
     else if n < 32 then char_of (92 :: nat) # ''u00'' @ [hex_digit (n div 16), hex_digit (n mod 16)]
     else [c])"

definition json_string :: "string \<Rightarrow> string" where
  "json_string s = CHR 0x22 # concat (map json_escape s) @ [CHR 0x22]"

fun json_dumps :: "pyval \<Rightarrow> string" where
  "json_dumps PNone = ''null''"
| "json_dumps (PBool b) = (if b then ''true'' else ''false'')"
| "json_dumps (PInt n) = show_int n"
| "json_dumps (PFloat q) = float_repr q"
| "json_dumps (PStr s) = json_string s"
| "json_dumps (PTime _ _) = []"
| "json_dumps (PList xs) = ''['' @ join '','' (map json_dumps xs) @ '']''"
| "json_dumps (PTuple xs) = ''['' @ join '','' (map json_dumps xs) @ '']''"
| "json_dumps (PDict d) = ''{'' @ join '',''
     (map (\<lambda>(k, s). json_string k @ '':'' @ s)
       (sort_key fst (map (\<lambda>(k, v). (k, json_dumps v)) d))) @ ''}''"

text \<open>
  \<open>sha\<close> stands for \<open>hashlib.sha256(text.encode("utf-8")).hexdigest()\<close>: the development
  relies on it only as a function, so it is an argument of every definition that hashes.
\<close>

type_synonym digest_fun = "string \<Rightarrow> string"

definition canonical_hash :: "digest_fun \<Rightarrow> pyval \<Rightarrow> string" where
  "canonical_hash sha v = ''sha256:'' @ sha (json_dumps v)"

lemma canonical_hash_not_blank [simp]: "\<not> blank (canonical_hash sha v)"
  by (simp add: canonical_hash_def blank_def py_space_def Let_def)

end
