(* ===== verification/Scheduling.thy ===== *)
theory Scheduling
  imports Py_Data Py_Float
begin

text \<open>
  domain/scheduling.py: the data of the persistent scheduler. Constructors that validate
  (\<open>__post_init__\<close>) are functions from unvalidated arguments to a typed record; \<open>wf_task\<close> and
  \<open>wf_queue\<close> are the invariants these checks establish. \<open>scheduler_task_to_dict\<close> and
  \<open>scheduler_task_from_dict\<close> are the persisted form with its two digests.
\<close>

section \<open>Enumerations\<close>

datatype scheduler_task_state =
  QUEUED | UNKNOWN | RETRY_WAIT | COMPLETED | CANCELLED | RETRY_EXHAUSTED

datatype scheduler_wake_reason = Wake_EVENT | Wake_SCHEDULED | Wake_INTERNAL | Wake_RUNTIME_RECOVERY

datatype notification_status =
  Notification_DELIVERED | Notification_FAILED | Notification_UNKNOWN | Notification_NOT_DELIVERED

datatype scheduler_admission_status = ACCEPTED | DUPLICATE | BACKPRESSURE

datatype scheduler_tick_status =
    Tick_IDLE | Tick_NOT_DUE | Tick_QUIET_HOURS | Tick_RESOURCE_DEFERRED | Tick_COMPLETED
  | Tick_RECONCILED_COMPLETED | Tick_VERIFICATION_PENDING | Tick_RETRY_SCHEDULED
  | Tick_RETRY_EXHAUSTED | Tick_CANCELLED

datatype scheduler_cancel_status =
    Cancel_CANCELLED | Cancel_ALREADY_CANCELLED | Cancel_ALREADY_COMPLETED | Cancel_TERMINAL
  | Cancel_VERIFICATION_REQUIRED

fun task_state_value :: "scheduler_task_state \<Rightarrow> string" where
  "task_state_value QUEUED = ''QUEUED''"
| "task_state_value UNKNOWN = ''UNKNOWN''"
| "task_state_value RETRY_WAIT = ''RETRY_WAIT''"
| "task_state_value COMPLETED = ''COMPLETED''"
| "task_state_value CANCELLED = ''CANCELLED''"
| "task_state_value RETRY_EXHAUSTED = ''RETRY_EXHAUSTED''"

fun wake_reason_value :: "scheduler_wake_reason \<Rightarrow> string" where
  "wake_reason_value Wake_EVENT = ''event''"
| "wake_reason_value Wake_SCHEDULED = ''scheduled''"
| "wake_reason_value Wake_INTERNAL = ''internal''"
| "wake_reason_value Wake_RUNTIME_RECOVERY = ''runtime_recovery''"

fun notification_status_value :: "notification_status \<Rightarrow> string" where
  "notification_status_value Notification_DELIVERED = ''DELIVERED''"
| "notification_status_value Notification_FAILED = ''FAILED''"
| "notification_status_value Notification_UNKNOWN = ''UNKNOWN''"
| "notification_status_value Notification_NOT_DELIVERED = ''NOT_DELIVERED''"

definition task_states :: "scheduler_task_state list" where
  "task_states = [QUEUED, UNKNOWN, RETRY_WAIT, COMPLETED, CANCELLED, RETRY_EXHAUSTED]"

definition wake_reasons :: "scheduler_wake_reason list" where
  "wake_reasons = [Wake_EVENT, Wake_SCHEDULED, Wake_INTERNAL, Wake_RUNTIME_RECOVERY]"

definition notification_statuses :: "notification_status list" where
  "notification_statuses =
     [Notification_DELIVERED, Notification_FAILED, Notification_UNKNOWN, Notification_NOT_DELIVERED]"

text \<open>\<open>TERMINAL_STATES\<close>.\<close>

definition terminal_state :: "scheduler_task_state \<Rightarrow> bool" where
  "terminal_state s \<longleftrightarrow> s \<in> {COMPLETED, CANCELLED, RETRY_EXHAUSTED}"

abbreviation sched_invalid :: "string \<Rightarrow> exn" where
  "sched_invalid m \<equiv> (SchedulerValidationError, m)"

section \<open>Checks of the module\<close>

definition sched_text :: "pyval \<Rightarrow> string \<Rightarrow> string res" where
  "sched_text v name = require_text SchedulerValidationError v name"

definition sched_utc :: "pyval \<Rightarrow> string \<Rightarrow> instant res" where
  "sched_utc v name = (case v of
       PTime w (Some off) \<Rightarrow> if off \<noteq> 0 then Inl (sched_invalid (name @ '' must use trusted UTC''))
         else Inr w
     | _ \<Rightarrow> Inl (sched_invalid (name @ '' must be timezone-aware'')))"

definition sched_utc_optional :: "pyval \<Rightarrow> string \<Rightarrow> instant option res" where
  "sched_utc_optional v name = (if v = PNone then Inr None
     else rbind (sched_utc v name) (\<lambda>t. Inr (Some t)))"

definition sched_parse :: "pyval \<Rightarrow> string \<Rightarrow> instant res" where
  "sched_parse v name = (case v of
       PStr s \<Rightarrow> (case fromisoformat (replace_Z s) of
         None \<Rightarrow> Inl (sched_invalid (name @ '' is not a valid datetime''))
       | Some (w, off) \<Rightarrow> sched_utc (PTime w off) name)
     | _ \<Rightarrow> Inl (sched_invalid (name @ '' must be an ISO-8601 string'')))"

definition sched_parse_optional :: "pyval \<Rightarrow> string \<Rightarrow> instant option res" where
  "sched_parse_optional v name = (if v = PNone then Inr None
     else rbind (sched_parse v name) (\<lambda>t. Inr (Some t)))"

definition sched_non_negative :: "pyval \<Rightarrow> string \<Rightarrow> int res" where
  "sched_non_negative v name = require_nat SchedulerValidationError v name"

definition sched_wake_reason :: "pyval \<Rightarrow> scheduler_wake_reason res" where
  "sched_wake_reason v =
     require_enum (sched_invalid ''unsupported wake_reason'') wake_reason_value wake_reasons v"

definition sched_task_state :: "pyval \<Rightarrow> scheduler_task_state res" where
  "sched_task_state v =
     require_enum (sched_invalid ''unsupported task state'') task_state_value task_states v"

definition sched_notification_status :: "pyval \<Rightarrow> string \<Rightarrow> notification_status res" where
  "sched_notification_status v name = require_enum (sched_invalid (''unsupported '' @ name))
     notification_status_value notification_statuses v"

lemma sched_text_eq_Inr [validator_defs]:
  "sched_text v n = Inr s \<longleftrightarrow> v = PStr s \<and> \<not> blank s"
  by (simp add: sched_text_def require_text_eq_Inr)

lemma sched_utc_eq_Inr [validator_defs]: "sched_utc v n = Inr t \<longleftrightarrow> v = utc_val t"
  by (auto simp: sched_utc_def split: pyval.splits option.splits)

lemma sched_utc_optional_eq_Inr [validator_defs]:
  "sched_utc_optional v n = Inr x \<longleftrightarrow> v = opt_val utc_val x"
  by (cases x) (auto simp: sched_utc_optional_def rbind_eq_Inr sched_utc_eq_Inr)

lemma sched_non_negative_eq_Inr [validator_defs]:
  "sched_non_negative v n = Inr i \<longleftrightarrow> v = PInt i \<and> 0 \<le> i"
  by (simp add: sched_non_negative_def require_nat_eq_Inr)

lemma task_state_enum [simp]: "require_enum e task_state_value task_states (PStr (task_state_value s)) = Inr s"
  by (rule require_enum_PStr) (cases s, auto simp: task_states_def)

lemma wake_reason_enum [simp]:
  "require_enum e wake_reason_value wake_reasons (PStr (wake_reason_value s)) = Inr s"
  by (rule require_enum_PStr) (cases s, auto simp: wake_reasons_def)

lemma notification_status_enum [simp]:
  "require_enum e notification_status_value notification_statuses (PStr (notification_status_value s)) = Inr s"
  by (rule require_enum_PStr) (cases s, auto simp: notification_statuses_def)

lemma sched_enum_eq_Inr [validator_defs]:
  "sched_wake_reason v = Inr r \<longleftrightarrow> v = PStr (wake_reason_value r)"
  "sched_task_state v = Inr s \<longleftrightarrow> v = PStr (task_state_value s)"
  "sched_notification_status v n = Inr x \<longleftrightarrow> v = PStr (notification_status_value x)"
  by (auto simp: sched_wake_reason_def sched_task_state_def sched_notification_status_def
      dest: require_enum_Inr)

lemma sched_parse_format [simp]: "sched_parse (PStr (format_z t)) n = Inr t"
  by (simp add: sched_parse_def sched_utc_def)

lemma sched_parse_optional_format [simp]:
  "sched_parse_optional (opt_val (\<lambda>t. PStr (format_z t)) x) n = Inr x"
  by (cases x) (simp_all add: sched_parse_optional_def)

section \<open>Quiet hours\<close>

text \<open>\<open>QuietHours\<close>: two clock times in microseconds after midnight, UTC.\<close>

record quiet_hours =
  qh_start :: int
  qh_end :: int

definition wf_quiet_hours :: "quiet_hours \<Rightarrow> bool" where
  "wf_quiet_hours q \<longleftrightarrow> qh_start q \<noteq> qh_end q \<and> 0 \<le> qh_start q \<and> qh_start q < 86400000000
     \<and> 0 \<le> qh_end q \<and> qh_end q < 86400000000"

definition quiet_hours_init :: "int \<Rightarrow> int \<Rightarrow> quiet_hours res" where
  "quiet_hours_init s e = (if s = e
     then Inl (sched_invalid ''quiet hours start and end must differ'')
     else Inr \<lparr>qh_start = s, qh_end = e\<rparr>)"

definition quiet_hours_contains :: "quiet_hours \<Rightarrow> instant \<Rightarrow> bool" where
  "quiet_hours_contains q current = (let v = usec current mod 86400000000 in
     if qh_start q < qh_end q then qh_start q \<le> v \<and> v < qh_end q
     else v \<ge> qh_start q \<or> v < qh_end q)"

section \<open>Tasks\<close>

text \<open>
  The arguments of \<open>SchedulerTask(...)\<close> before validation, with the dataclass defaults, and the
  validated task.
\<close>

record task_args =
  ta_task_id :: pyval
  ta_subject_id :: pyval
  ta_environment :: pyval
  ta_priority :: pyval
  ta_due_at :: pyval
  ta_wake_reason :: pyval
  ta_cycle_id :: pyval
  ta_created_at :: pyval
  ta_source_event_id :: pyval
  ta_max_attempts :: pyval
  ta_state :: pyval
  ta_sequence :: pyval
  ta_revision :: pyval
  ta_attempt_count :: pyval
  ta_next_attempt_at :: pyval
  ta_last_attempt_id :: pyval
  ta_last_receipt_id :: pyval
  ta_last_receipt_hash :: pyval
  ta_last_receipt_status :: pyval
  ta_cancel_requested_at :: pyval
  ta_completed_at :: pyval
  ta_reason_codes :: pyval

record scheduler_task =
  st_task_id :: string
  st_subject_id :: string
  st_environment :: string
  st_priority :: int
  st_due_at :: instant
  st_wake_reason :: scheduler_wake_reason
  st_cycle_id :: string
  st_created_at :: instant
  st_source_event_id :: "string option"
  st_max_attempts :: int
  st_state :: scheduler_task_state
  st_sequence :: int
  st_revision :: int
  st_attempt_count :: int
  st_next_attempt_at :: "instant option"
  st_last_attempt_id :: "string option"
  st_last_receipt_id :: "string option"
  st_last_receipt_hash :: "string option"
  st_last_receipt_status :: "notification_status option"
  st_cancel_requested_at :: "instant option"
  st_completed_at :: "instant option"
  st_reason_codes :: "string list"

definition sched_reason_code :: "pyval \<Rightarrow> string res" where
  "sched_reason_code v = (case v of
       PStr s \<Rightarrow> if blank s
         then Inl (sched_invalid ''reason_codes must be a tuple of non-empty strings'') else Inr s
     | _ \<Rightarrow> Inl (sched_invalid ''reason_codes must be a tuple of non-empty strings''))"

definition sched_reason_codes :: "pyval \<Rightarrow> string list res" where
  "sched_reason_codes v = (case v of
       PTuple xs \<Rightarrow> rmap sched_reason_code xs
     | _ \<Rightarrow> Inl (sched_invalid ''reason_codes must be a tuple of non-empty strings''))"

definition sched_source_event :: "scheduler_wake_reason \<Rightarrow> pyval \<Rightarrow> string option res" where
  "sched_source_event r v = (if r = Wake_EVENT
     then rbind (sched_text v ''source_event_id'') (\<lambda>s. Inr (Some s))
     else if v \<noteq> PNone
     then rbind (sched_text v ''source_event_id'') (\<lambda>s. Inr (Some s))
     else Inr None)"

definition sched_receipt_status :: "pyval \<Rightarrow> notification_status option res" where
  "sched_receipt_status v = (if v = PNone then Inr None
     else rbind (sched_notification_status v ''receipt status'') (\<lambda>s. Inr (Some s)))"

text \<open>The checks that relate several fields, at the end of \<open>__post_init__\<close>.\<close>

definition sched_task_consistent :: "scheduler_task \<Rightarrow> scheduler_task res" where
  "sched_task_consistent t =
     (if st_state t \<in> {UNKNOWN, RETRY_WAIT} \<and> (st_attempt_count t = 0 \<or> st_last_attempt_id t = None)
      then Inl (sched_invalid ''attempt state requires a stable attempt identity'')
      else if st_state t = RETRY_WAIT \<and> st_next_attempt_at t = None
      then Inl (sched_invalid ''retry wait requires next_attempt_at'')
      else if st_state t = COMPLETED
      then (if st_completed_at t = None \<or> st_last_receipt_status t \<noteq> Some Notification_DELIVERED
              \<or> st_last_receipt_id t = None \<or> st_last_receipt_hash t = None
            then Inl (sched_invalid ''completed task requires a bound delivered receipt'')
            else Inr t)
      else if st_completed_at t \<noteq> None
      then Inl (sched_invalid ''only completed tasks may contain completed_at'')
      else Inr t)"

definition scheduler_task_init :: "task_args \<Rightarrow> scheduler_task res" where
  "scheduler_task_init a =
     rbind (sched_text (ta_task_id a) ''task_id'') (\<lambda>task_id.
     rbind (sched_text (ta_subject_id a) ''subject_id'') (\<lambda>subject_id.
     rbind (sched_text (ta_environment a) ''environment'') (\<lambda>environment.
     rbind (sched_text (ta_cycle_id a) ''cycle_id'') (\<lambda>cycle_id.
     rbind (require_range (sched_invalid ''priority must be an integer from 0 through 100'')
       0 100 (ta_priority a)) (\<lambda>priority.
     rbind (sched_utc (ta_due_at a) ''due_at'') (\<lambda>due_at.
     rbind (sched_utc (ta_created_at a) ''created_at'') (\<lambda>created_at.
     rbind (sched_wake_reason (ta_wake_reason a)) (\<lambda>wake_reason.
     rbind (sched_task_state (ta_state a)) (\<lambda>state.
     rbind (sched_source_event wake_reason (ta_source_event_id a)) (\<lambda>source_event_id.
     rbind (require_range (sched_invalid ''max_attempts must be an integer from 1 through 10'')
       1 10 (ta_max_attempts a)) (\<lambda>max_attempts.
     rbind (sched_non_negative (ta_sequence a) ''sequence'') (\<lambda>sequence.
     rbind (sched_non_negative (ta_revision a) ''task revision'') (\<lambda>revision.
     rbind (sched_non_negative (ta_attempt_count a) ''attempt_count'') (\<lambda>attempt_count.
     rbind (ensure (attempt_count \<le> max_attempts)
       (sched_invalid ''attempt_count exceeds max_attempts'')) (\<lambda>_.
     rbind (sched_utc_optional (ta_next_attempt_at a) ''next_attempt_at'') (\<lambda>next_attempt_at.
     rbind (sched_utc_optional (ta_cancel_requested_at a) ''cancel_requested_at'') (\<lambda>cancel_requested_at.
     rbind (sched_utc_optional (ta_completed_at a) ''completed_at'') (\<lambda>completed_at.
     rbind (optional_text SchedulerValidationError (ta_last_attempt_id a) ''last_attempt_id'') (\<lambda>last_attempt_id.
     rbind (optional_text SchedulerValidationError (ta_last_receipt_id a) ''last_receipt_id'') (\<lambda>last_receipt_id.
     rbind (optional_text SchedulerValidationError (ta_last_receipt_hash a) ''last_receipt_hash'') (\<lambda>last_receipt_hash.
     rbind (sched_receipt_status (ta_last_receipt_status a)) (\<lambda>last_receipt_status.
     rbind (sched_reason_codes (ta_reason_codes a)) (\<lambda>reason_codes.
     sched_task_consistent
       \<lparr>st_task_id = task_id, st_subject_id = subject_id, st_environment = environment,
        st_priority = priority, st_due_at = due_at, st_wake_reason = wake_reason,
        st_cycle_id = cycle_id, st_created_at = created_at, st_source_event_id = source_event_id,
        st_max_attempts = max_attempts, st_state = state, st_sequence = sequence,
        st_revision = revision, st_attempt_count = attempt_count,
        st_next_attempt_at = next_attempt_at, st_last_attempt_id = last_attempt_id,
        st_last_receipt_id = last_receipt_id, st_last_receipt_hash = last_receipt_hash,
        st_last_receipt_status = last_receipt_status,
        st_cancel_requested_at = cancel_requested_at, st_completed_at = completed_at,
        st_reason_codes = reason_codes\<rparr>)))))))))))))))))))))))"

text \<open>The attributes of an existing task as constructor arguments.\<close>

definition task_args_of :: "scheduler_task \<Rightarrow> task_args" where
  "task_args_of t =
     \<lparr>ta_task_id = PStr (st_task_id t), ta_subject_id = PStr (st_subject_id t),
      ta_environment = PStr (st_environment t), ta_priority = PInt (st_priority t),
      ta_due_at = utc_val (st_due_at t), ta_wake_reason = PStr (wake_reason_value (st_wake_reason t)),
      ta_cycle_id = PStr (st_cycle_id t), ta_created_at = utc_val (st_created_at t),
      ta_source_event_id = opt_val PStr (st_source_event_id t),
      ta_max_attempts = PInt (st_max_attempts t), ta_state = PStr (task_state_value (st_state t)),
      ta_sequence = PInt (st_sequence t), ta_revision = PInt (st_revision t),
      ta_attempt_count = PInt (st_attempt_count t),
      ta_next_attempt_at = opt_val utc_val (st_next_attempt_at t),
      ta_last_attempt_id = opt_val PStr (st_last_attempt_id t),
      ta_last_receipt_id = opt_val PStr (st_last_receipt_id t),
      ta_last_receipt_hash = opt_val PStr (st_last_receipt_hash t),
      ta_last_receipt_status =
        opt_val (\<lambda>s. PStr (notification_status_value s)) (st_last_receipt_status t),
      ta_cancel_requested_at = opt_val utc_val (st_cancel_requested_at t),
      ta_completed_at = opt_val utc_val (st_completed_at t),
      ta_reason_codes = PTuple (map PStr (st_reason_codes t))\<rparr>"

text \<open>\<open>task.__post_init__()\<close> on a task whose attributes have been assigned to.\<close>

definition task_recheck :: "scheduler_task \<Rightarrow> scheduler_task res" where
  "task_recheck t = scheduler_task_init (task_args_of t)"

definition opt_text_ok :: "string option \<Rightarrow> bool" where
  "opt_text_ok x \<longleftrightarrow> (case x of None \<Rightarrow> True | Some s \<Rightarrow> \<not> blank s)"

definition wf_task :: "scheduler_task \<Rightarrow> bool" where
  "wf_task t \<longleftrightarrow>
     \<not> blank (st_task_id t) \<and> \<not> blank (st_subject_id t) \<and> \<not> blank (st_environment t) \<and>
     \<not> blank (st_cycle_id t) \<and> 0 \<le> st_priority t \<and> st_priority t \<le> 100 \<and>
     1 \<le> st_max_attempts t \<and> st_max_attempts t \<le> 10 \<and>
     0 \<le> st_sequence t \<and> 0 \<le> st_revision t \<and>
     0 \<le> st_attempt_count t \<and> st_attempt_count t \<le> st_max_attempts t \<and>
     opt_text_ok (st_source_event_id t) \<and>
     (st_wake_reason t = Wake_EVENT \<longrightarrow> st_source_event_id t \<noteq> None) \<and>
     opt_text_ok (st_last_attempt_id t) \<and> opt_text_ok (st_last_receipt_id t) \<and>
     opt_text_ok (st_last_receipt_hash t) \<and> list_all (\<lambda>s. \<not> blank s) (st_reason_codes t) \<and>
     (st_state t \<in> {UNKNOWN, RETRY_WAIT} \<longrightarrow> st_attempt_count t \<noteq> 0 \<and> st_last_attempt_id t \<noteq> None) \<and>
     (st_state t = RETRY_WAIT \<longrightarrow> st_next_attempt_at t \<noteq> None) \<and>
     (st_state t = COMPLETED \<longrightarrow> st_completed_at t \<noteq> None \<and> st_last_receipt_id t \<noteq> None \<and>
        st_last_receipt_hash t \<noteq> None \<and> st_last_receipt_status t = Some Notification_DELIVERED) \<and>
     (st_state t \<noteq> COMPLETED \<longrightarrow> st_completed_at t = None)"

lemma sched_reason_codes_eq_Inr [validator_defs]:
  "sched_reason_codes v = Inr ss \<longleftrightarrow> v = PTuple (map PStr ss) \<and> list_all (\<lambda>s. \<not> blank s) ss"
proof -
  have "sched_reason_code x = Inr s \<longleftrightarrow> x = PStr s \<and> \<not> blank s" for x s
    by (auto simp: sched_reason_code_def split: pyval.splits)
  moreover have "list_all2 (\<lambda>x s. x = PStr s \<and> \<not> blank s) xs ss
      \<longleftrightarrow> xs = map PStr ss \<and> list_all (\<lambda>s. \<not> blank s) ss" for xs
  proof (induction xs arbitrary: ss)
    case (Cons x xs)
    then show ?case by (cases ss) auto
  qed auto
  ultimately show ?thesis
    by (cases v) (simp_all add: sched_reason_codes_def rmap_eq_Inr)
qed

lemma sched_source_event_eq_Inr [validator_defs]:
  "sched_source_event r v = Inr x \<longleftrightarrow>
     v = opt_val PStr x \<and> opt_text_ok x \<and> (r = Wake_EVENT \<longrightarrow> x \<noteq> None)"
  by (cases x) (auto simp: sched_source_event_def rbind_eq_Inr sched_text_eq_Inr opt_text_ok_def)

lemma sched_receipt_status_eq_Inr [validator_defs]:
  "sched_receipt_status v = Inr x \<longleftrightarrow> v = opt_val (\<lambda>s. PStr (notification_status_value s)) x"
  by (cases x) (auto simp: sched_receipt_status_def rbind_eq_Inr sched_enum_eq_Inr)

lemma opt_text_ok_simps [simp]:
  "opt_text_ok None" "opt_text_ok (Some s) \<longleftrightarrow> \<not> blank s"
  by (simp_all add: opt_text_ok_def)

lemma sched_optional_text_eq_Inr:
  "optional_text c v n = Inr x \<longleftrightarrow> v = opt_val PStr x \<and> opt_text_ok x"
  by (cases x) (auto simp: optional_text_eq_Inr)

lemma sched_task_consistent_eq_Inr:
  "sched_task_consistent t = Inr t' \<longleftrightarrow> t' = t \<and>
     (st_state t \<in> {UNKNOWN, RETRY_WAIT} \<longrightarrow> st_attempt_count t \<noteq> 0 \<and> st_last_attempt_id t \<noteq> None) \<and>
     (st_state t = RETRY_WAIT \<longrightarrow> st_next_attempt_at t \<noteq> None) \<and>
     (st_state t = COMPLETED \<longrightarrow> st_completed_at t \<noteq> None \<and> st_last_receipt_id t \<noteq> None \<and>
        st_last_receipt_hash t \<noteq> None \<and> st_last_receipt_status t = Some Notification_DELIVERED) \<and>
     (st_state t \<noteq> COMPLETED \<longrightarrow> st_completed_at t = None)"
  by (auto simp: sched_task_consistent_def)

lemmas sched_checks =
  sched_text_eq_Inr sched_optional_text_eq_Inr require_range_eq_Inr sched_utc_eq_Inr
  sched_utc_optional_eq_Inr sched_non_negative_eq_Inr sched_enum_eq_Inr sched_source_event_eq_Inr
  sched_receipt_status_eq_Inr sched_reason_codes_eq_Inr ensure_eq_Inr

text \<open>The checks as rewrite rules that run a constructor on well-formed arguments.\<close>

lemma sched_checks_run:
  "\<not> blank s \<Longrightarrow> sched_text (PStr s) n = Inr s"
  "opt_text_ok x \<Longrightarrow> optional_text c (opt_val PStr x) n = Inr x"
  "lo \<le> i \<Longrightarrow> i \<le> hi \<Longrightarrow> require_range e lo hi (PInt i) = Inr i"
  "sched_utc (utc_val t) n = Inr t"
  "sched_utc_optional (opt_val utc_val ot) n = Inr ot"
  "0 \<le> i \<Longrightarrow> sched_non_negative (PInt i) n = Inr i"
  "sched_wake_reason (PStr (wake_reason_value r)) = Inr r"
  "sched_task_state (PStr (task_state_value st)) = Inr st"
  "opt_text_ok x \<Longrightarrow> (r = Wake_EVENT \<longrightarrow> x \<noteq> None) \<Longrightarrow> sched_source_event r (opt_val PStr x) = Inr x"
  "sched_receipt_status (opt_val (\<lambda>s. PStr (notification_status_value s)) rs) = Inr rs"
  "list_all (\<lambda>s. \<not> blank s) ss \<Longrightarrow> sched_reason_codes (PTuple (map PStr ss)) = Inr ss"
  by (simp_all add: sched_checks)

text \<open>
  The constructor succeeds exactly on the arguments of a well-formed task, and then returns
  that task.
\<close>

lemma task_init_wf:
  assumes "scheduler_task_init a = Inr t"
  shows "a = task_args_of t \<and> wf_task t"
  using assms unfolding scheduler_task_init_def
  by (elim rbindE; cases a)
    (simp add: sched_checks sched_task_consistent_eq_Inr task_args_of_def wf_task_def)

lemma wf_task_recheck:
  assumes "wf_task t"
  shows "task_recheck t = Inr t"
  using assms
  by (simp add: task_recheck_def scheduler_task_init_def task_args_of_def wf_task_def
      sched_checks_run sched_task_consistent_eq_Inr)

lemma sched_value_inject [simp]:
  "task_state_value a = task_state_value b \<longleftrightarrow> a = b"
  "wake_reason_value r = wake_reason_value r' \<longleftrightarrow> r = r'"
  "notification_status_value x = notification_status_value y \<longleftrightarrow> x = y"
  by ((cases a; cases b; simp), (cases r; cases r'; simp), (cases x; cases y; simp))

lemma opt_val_inject [simp]:
  "opt_val PStr x = opt_val PStr y \<longleftrightarrow> x = y"
  "opt_val utc_val u = opt_val utc_val v \<longleftrightarrow> u = v"
  "opt_val (\<lambda>s. PStr (notification_status_value s)) p = opt_val (\<lambda>s. PStr (notification_status_value s)) q
     \<longleftrightarrow> p = q"
  by ((cases x; cases y; simp), (cases u; cases v; simp), (cases p; cases q; simp))

lemma task_args_of_inject: "task_args_of t = task_args_of t' \<Longrightarrow> t = t'"
  by (cases t; cases t') (simp add: task_args_of_def inj_map_eq_map [of PStr] inj_def)

lemma task_recheck_eq_Inr: "task_recheck t = Inr t' \<longleftrightarrow> wf_task t \<and> t' = t"
proof
  assume "task_recheck t = Inr t'"
  then have "task_args_of t = task_args_of t' \<and> wf_task t'"
    unfolding task_recheck_def by (rule task_init_wf)
  then show "wf_task t \<and> t' = t" using task_args_of_inject by blast
qed (simp add: wf_task_recheck)

section \<open>The persisted form of a task\<close>

definition task_identity_hash :: "digest_fun \<Rightarrow> scheduler_task \<Rightarrow> string" where
  "task_identity_hash sha t = canonical_hash sha (PDict
     [(''cycle_id'', PStr (st_cycle_id t)),
      (''created_at'', PStr (format_z (st_created_at t))),
      (''due_at'', PStr (format_z (st_due_at t))),
      (''environment'', PStr (st_environment t)),
      (''max_attempts'', PInt (st_max_attempts t)),
      (''priority'', PInt (st_priority t)),
      (''source_event_id'', opt_val PStr (st_source_event_id t)),
      (''subject_id'', PStr (st_subject_id t)),
      (''task_id'', PStr (st_task_id t)),
      (''wake_reason'', PStr (wake_reason_value (st_wake_reason t)))])"

definition opt_time :: "instant option \<Rightarrow> pyval" where
  "opt_time = opt_val (\<lambda>t. PStr (format_z t))"

definition task_fields :: "digest_fun \<Rightarrow> scheduler_task \<Rightarrow> (string \<times> pyval) list" where
  "task_fields sha t =
     [(''task_id'', PStr (st_task_id t)),
      (''subject_id'', PStr (st_subject_id t)),
      (''environment'', PStr (st_environment t)),
      (''priority'', PInt (st_priority t)),
      (''due_at'', PStr (format_z (st_due_at t))),
      (''wake_reason'', PStr (wake_reason_value (st_wake_reason t))),
      (''cycle_id'', PStr (st_cycle_id t)),
      (''source_event_id'', opt_val PStr (st_source_event_id t)),
      (''created_at'', PStr (format_z (st_created_at t))),
      (''max_attempts'', PInt (st_max_attempts t)),
      (''identity_hash'', PStr (task_identity_hash sha t)),
      (''state'', PStr (task_state_value (st_state t))),
      (''sequence'', PInt (st_sequence t)),
      (''revision'', PInt (st_revision t)),
      (''attempt_count'', PInt (st_attempt_count t)),
      (''next_attempt_at'', opt_time (st_next_attempt_at t)),
      (''last_attempt_id'', opt_val PStr (st_last_attempt_id t)),
      (''last_receipt_id'', opt_val PStr (st_last_receipt_id t)),
      (''last_receipt_hash'', opt_val PStr (st_last_receipt_hash t)),
      (''last_receipt_status'',
        opt_val (\<lambda>s. PStr (notification_status_value s)) (st_last_receipt_status t)),
      (''cancel_requested_at'', opt_time (st_cancel_requested_at t)),
      (''completed_at'', opt_time (st_completed_at t)),
      (''reason_codes'', PList (map PStr (st_reason_codes t)))]"

definition task_record_hash :: "digest_fun \<Rightarrow> scheduler_task \<Rightarrow> string" where
  "task_record_hash sha t = canonical_hash sha (PDict (task_fields sha t))"

definition scheduler_task_to_dict :: "digest_fun \<Rightarrow> scheduler_task \<Rightarrow> pyval" where
  "scheduler_task_to_dict sha t =
     PDict (task_fields sha t @ [(''record_hash'', PStr (task_record_hash sha t))])"

definition task_keys :: "string list" where
  "task_keys =
     [''task_id'', ''subject_id'', ''environment'', ''priority'', ''due_at'', ''wake_reason'',
      ''cycle_id'', ''source_event_id'', ''created_at'', ''max_attempts'', ''identity_hash'',
      ''state'', ''sequence'', ''revision'', ''attempt_count'', ''next_attempt_at'',
      ''last_attempt_id'', ''last_receipt_id'', ''last_receipt_hash'', ''last_receipt_status'',
      ''cancel_requested_at'', ''completed_at'', ''reason_codes'', ''record_hash'']"

definition scheduler_task_from_dict :: "digest_fun \<Rightarrow> pyval \<Rightarrow> scheduler_task res" where
  "scheduler_task_from_dict sha value = (case value of PDict d \<Rightarrow>
       if set (map fst d) \<noteq> set task_keys
       then Inl (sched_invalid ''scheduler task fields are incomplete or unsupported'')
       else (case dict_get d ''reason_codes'' of PList codes \<Rightarrow>
         rbind (sched_parse (dict_get d ''due_at'') ''due_at'') (\<lambda>due_at.
         rbind (sched_parse (dict_get d ''created_at'') ''created_at'') (\<lambda>created_at.
         rbind (sched_parse_optional (dict_get d ''next_attempt_at'') ''next_attempt_at'') (\<lambda>next_attempt_at.
         rbind (sched_parse_optional (dict_get d ''cancel_requested_at'') ''cancel_requested_at'') (\<lambda>cancel_at.
         rbind (sched_parse_optional (dict_get d ''completed_at'') ''completed_at'') (\<lambda>completed_at.
         rbind (scheduler_task_init
           \<lparr>ta_task_id = dict_get d ''task_id'', ta_subject_id = dict_get d ''subject_id'',
            ta_environment = dict_get d ''environment'', ta_priority = dict_get d ''priority'',
            ta_due_at = utc_val due_at, ta_wake_reason = dict_get d ''wake_reason'',
            ta_cycle_id = dict_get d ''cycle_id'', ta_created_at = utc_val created_at,
            ta_source_event_id = dict_get d ''source_event_id'',
            ta_max_attempts = dict_get d ''max_attempts'', ta_state = dict_get d ''state'',
            ta_sequence = dict_get d ''sequence'', ta_revision = dict_get d ''revision'',
            ta_attempt_count = dict_get d ''attempt_count'',
            ta_next_attempt_at = opt_val utc_val next_attempt_at,
            ta_last_attempt_id = dict_get d ''last_attempt_id'',
            ta_last_receipt_id = dict_get d ''last_receipt_id'',
            ta_last_receipt_hash = dict_get d ''last_receipt_hash'',
            ta_last_receipt_status = dict_get d ''last_receipt_status'',
            ta_cancel_requested_at = opt_val utc_val cancel_at,
            ta_completed_at = opt_val utc_val completed_at,
            ta_reason_codes = PTuple codes\<rparr>) (\<lambda>task.
         rbind (ensure (dict_get d ''identity_hash'' = PStr (task_identity_hash sha task))
           (sched_invalid ''scheduler task identity hash does not match'')) (\<lambda>_.
         rbind (ensure (dict_get d ''record_hash'' = PStr (task_record_hash sha task))
           (sched_invalid ''scheduler task record hash does not match'')) (\<lambda>_.
         Inr task))))))))
       | _ \<Rightarrow> Inl (sched_invalid ''reason_codes must be a list''))
     | _ \<Rightarrow> Inl (sched_invalid ''scheduler task must be an object''))"

lemma opt_time_parse [simp]: "sched_parse_optional (opt_time x) n = Inr x"
  by (simp add: opt_time_def)

text \<open>What \<open>to_dict\<close> stores under every key.\<close>

lemma task_dict_get:
  "dict_get (task_fields sha t @ [(''record_hash'', v)]) k =
     (if k = ''record_hash'' then v else dict_get (task_fields sha t) k)"
  by (simp add: dict_get_or_def map_add_def task_fields_def split: option.splits)

lemma task_dict_roundtrip:
  assumes "wf_task t"
  shows "scheduler_task_from_dict sha (scheduler_task_to_dict sha t) = Inr t"
proof -
  have "scheduler_task_init (task_args_of t) = Inr t"
    using wf_task_recheck [OF assms] by (simp add: task_recheck_def)
  then show ?thesis
    unfolding scheduler_task_from_dict_def scheduler_task_to_dict_def task_dict_get
    by (simp add: task_keys_def task_fields_def task_args_of_def)
qed

text \<open>
  Whatever \<open>from_dict\<close> accepts is a well-formed task whose two digests are stored beside it.
\<close>

lemma task_from_dict_sound:
  assumes "scheduler_task_from_dict sha v = Inr t"
  obtains d where "v = PDict d" "set (map fst d) = set task_keys" "wf_task t"
    "dict_get d ''identity_hash'' = PStr (task_identity_hash sha t)"
    "dict_get d ''record_hash'' = PStr (task_record_hash sha t)"
proof -
  from assms obtain d codes where d: "v = PDict d" "dict_get d ''reason_codes'' = PList codes"
    "set (map fst d) = set task_keys"
    by (auto simp: scheduler_task_from_dict_def split: pyval.splits if_splits)
  note r = assms [unfolded scheduler_task_from_dict_def d(1) pyval.case, simplified d, simplified]
  show thesis
    by (rule that [OF d(1,3)]; use r in \<open>elim rbindE; auto dest: task_init_wf\<close>)
qed

text \<open>\<open>SchedulerTask.clone\<close>: a task is copied through its persisted form.\<close>

definition task_clone :: "digest_fun \<Rightarrow> scheduler_task \<Rightarrow> scheduler_task res" where
  "task_clone sha t = scheduler_task_from_dict sha (scheduler_task_to_dict sha t)"

lemma task_clone_wf [simp]: "wf_task t \<Longrightarrow> task_clone sha t = Inr t"
  by (simp add: task_clone_def task_dict_roundtrip)

text \<open>\<open>SchedulerTask.create\<close>.\<close>

definition scheduler_task_create ::
  "pyval \<Rightarrow> pyval \<Rightarrow> pyval \<Rightarrow> pyval \<Rightarrow> pyval \<Rightarrow> pyval \<Rightarrow> pyval \<Rightarrow> pyval \<Rightarrow> pyval \<Rightarrow> pyval
     \<Rightarrow> scheduler_task res" where
  "scheduler_task_create task_id subject_id environment priority due_at wake_reason cycle_id
       created_at source_event_id max_attempts =
     scheduler_task_init
       \<lparr>ta_task_id = task_id, ta_subject_id = subject_id, ta_environment = environment,
        ta_priority = priority, ta_due_at = due_at, ta_wake_reason = wake_reason,
        ta_cycle_id = cycle_id, ta_created_at = created_at, ta_source_event_id = source_event_id,
        ta_max_attempts = max_attempts, ta_state = PStr ''QUEUED'', ta_sequence = PInt 0,
        ta_revision = PInt 0, ta_attempt_count = PInt 0, ta_next_attempt_at = PNone,
        ta_last_attempt_id = PNone, ta_last_receipt_id = PNone, ta_last_receipt_hash = PNone,
        ta_last_receipt_status = PNone, ta_cancel_requested_at = PNone,
        ta_completed_at = PNone, ta_reason_codes = PTuple []\<rparr>"

text \<open>
  \<open>effective_priority\<close>: waiting time beyond the later of creation and due time raises the
  priority by one per aging interval. \<open>total_seconds()\<close> is a float, truncated by \<open>int\<close>.
\<close>

definition age_seconds :: "scheduler_task \<Rightarrow> instant \<Rightarrow> int" where
  "age_seconds t now = (let eligible_at = max (st_created_at t) (st_due_at t) in
     max 0 (trunc (fl (of_int (usec now - usec eligible_at) / 1000000))))"

definition aged_priority :: "scheduler_task \<Rightarrow> instant \<Rightarrow> int \<Rightarrow> int" where
  "aged_priority t now interval = st_priority t + age_seconds t now div interval"

definition effective_priority :: "scheduler_task \<Rightarrow> instant \<Rightarrow> int \<Rightarrow> int res" where
  "effective_priority t now interval = (if interval \<le> 0
     then Inl (sched_invalid ''aging_interval_seconds must be positive'')
     else Inr (aged_priority t now interval))"

lemma fl_zero [simp]: "fl 0 = 0"
  by (simp add: fl_def)

lemma age_seconds_mono: "now \<le> later \<Longrightarrow> age_seconds t now \<le> age_seconds t later"
proof -
  assume le: "now \<le> later"
  let ?d = "\<lambda>n. of_int (usec n - usec (max (st_created_at t) (st_due_at t))) / 1000000 :: rat"
  have d: "?d now \<le> ?d later" using le by (simp add: instant_order divide_right_mono)
  show ?thesis
  proof (cases "?d now < 0")
    case True
    then have "fl (?d now) \<le> 0" using fl_mono [of "?d now" 0] by simp
    then have "trunc (fl (?d now)) \<le> 0" by (auto simp: trunc_def)
    then show ?thesis by (simp add: age_seconds_def Let_def)
  next
    case False
    with d trunc_fl_mono [of "?d now" "?d later"] show ?thesis
      by (simp add: age_seconds_def Let_def max_def)
  qed
qed

lemma aged_priority_mono:
  "0 < interval \<Longrightarrow> now \<le> later \<Longrightarrow> aged_priority t now interval \<le> aged_priority t later interval"
  by (simp add: aged_priority_def age_seconds_mono zdiv_mono1)

lemma aged_priority_ge: "0 < interval \<Longrightarrow> st_priority t \<le> aged_priority t now interval"
  by (simp add: aged_priority_def age_seconds_def Let_def pos_imp_zdiv_nonneg_iff)

section \<open>The queue\<close>

record scheduler_queue =
  sq_revision :: int
  sq_next_sequence :: int
  sq_tasks :: "scheduler_task list"

definition assigned_sequences :: "scheduler_task list \<Rightarrow> int list" where
  "assigned_sequences ts = filter (\<lambda>s. s > 0) (map st_sequence ts)"

definition scheduler_queue_init :: "pyval \<Rightarrow> pyval \<Rightarrow> scheduler_task list \<Rightarrow> scheduler_queue res" where
  "scheduler_queue_init rvn nxt tasks =
     rbind (sched_non_negative rvn ''queue revision'') (\<lambda>revision.
     rbind (case nxt of
         PInt n \<Rightarrow> if n \<le> 0 then Inl (sched_invalid ''next_sequence must be positive'') else Inr n
       | _ \<Rightarrow> Inl (sched_invalid ''next_sequence must be positive'')) (\<lambda>next_sequence.
     rbind (ensure (distinct (map st_task_id tasks))
       (sched_invalid ''scheduler task identities must be unique'')) (\<lambda>_.
     rbind (ensure (distinct (assigned_sequences tasks))
       (sched_invalid ''scheduler task sequences must be unique'')) (\<lambda>_.
     rbind (ensure (\<forall>s \<in> set (assigned_sequences tasks). s < next_sequence)
       (sched_invalid ''next_sequence must exceed assigned sequences'')) (\<lambda>_.
     Inr \<lparr>sq_revision = revision, sq_next_sequence = next_sequence, sq_tasks = tasks\<rparr>)))))"

definition wf_queue :: "scheduler_queue \<Rightarrow> bool" where
  "wf_queue q \<longleftrightarrow> 0 \<le> sq_revision q \<and> 0 < sq_next_sequence q \<and> list_all wf_task (sq_tasks q)
     \<and> distinct (map st_task_id (sq_tasks q)) \<and> distinct (assigned_sequences (sq_tasks q))
     \<and> (\<forall>s \<in> set (assigned_sequences (sq_tasks q)). s < sq_next_sequence q)"

definition empty_queue :: scheduler_queue where
  "empty_queue = \<lparr>sq_revision = 0, sq_next_sequence = 1, sq_tasks = []\<rparr>"

definition scheduler_queue_to_dict :: "digest_fun \<Rightarrow> scheduler_queue \<Rightarrow> pyval" where
  "scheduler_queue_to_dict sha q = PDict
     [(''scheduler_format_version'', PInt 1),
      (''revision'', PInt (sq_revision q)),
      (''next_sequence'', PInt (sq_next_sequence q)),
      (''tasks'', PList (map (scheduler_task_to_dict sha) (sq_tasks q)))]"

definition scheduler_queue_from_dict :: "digest_fun \<Rightarrow> pyval \<Rightarrow> scheduler_queue res" where
  "scheduler_queue_from_dict sha value = (case value of PDict d \<Rightarrow>
       if set (map fst d) \<noteq> {''scheduler_format_version'', ''revision'', ''next_sequence'', ''tasks''}
       then Inl (sched_invalid ''scheduler queue fields are incomplete or unsupported'')
       else if \<not> py_eq_int (dict_get d ''scheduler_format_version'') 1
       then Inl (sched_invalid ''unsupported scheduler persistence format'')
       else (case dict_get d ''tasks'' of
         PList raw \<Rightarrow> rbind (rmap (scheduler_task_from_dict sha) raw) (\<lambda>tasks.
           scheduler_queue_init (dict_get d ''revision'') (dict_get d ''next_sequence'') tasks)
       | _ \<Rightarrow> Inl (sched_invalid ''scheduler tasks must be a list''))
     | _ \<Rightarrow> Inl (sched_invalid ''scheduler queue fields are incomplete or unsupported''))"

lemma wf_empty_queue [simp]: "wf_queue empty_queue"
  by (simp add: wf_queue_def empty_queue_def assigned_sequences_def)

lemma scheduler_queue_init_Inr:
  "scheduler_queue_init r n ts = Inr q \<Longrightarrow> list_all wf_task ts \<Longrightarrow> wf_queue q \<and> sq_tasks q = ts"
  unfolding scheduler_queue_init_def
  by (elim rbindE) (auto simp: wf_queue_def sched_checks split: pyval.splits if_splits)

lemma queue_dict_roundtrip:
  assumes "wf_queue q"
  shows "scheduler_queue_from_dict sha (scheduler_queue_to_dict sha q) = Inr q"
proof -
  have "rmap (scheduler_task_from_dict sha) (map (scheduler_task_to_dict sha) (sq_tasks q)) = Inr (sq_tasks q)"
    using assms by (intro rmap_Inr_id task_dict_roundtrip) (auto simp: wf_queue_def list_all_iff)
  with assms show ?thesis
    by (simp add: scheduler_queue_from_dict_def scheduler_queue_to_dict_def scheduler_queue_init_def
        wf_queue_def sched_checks_run ensure_def)
qed

lemma queue_from_dict_wf:
  assumes "scheduler_queue_from_dict sha v = Inr q"
  shows "wf_queue q"
proof -
  from assms obtain d raw tasks where
    t: "rmap (scheduler_task_from_dict sha) raw = Inr tasks"
    and q: "scheduler_queue_init (dict_get d ''revision'') (dict_get d ''next_sequence'') tasks = Inr q"
    by (auto simp: scheduler_queue_from_dict_def rbind_eq_Inr split: pyval.splits if_splits)
  have "list_all wf_task tasks"
    using t unfolding rmap_eq_Inr
    by (induction rule: list_all2_induct) (auto elim: task_from_dict_sound)
  with q show ?thesis by (simp add: scheduler_queue_init_Inr)
qed

lemma wf_queue_task: "wf_queue q \<Longrightarrow> t \<in> set (sq_tasks q) \<Longrightarrow> wf_task t"
  by (simp add: wf_queue_def list_all_iff)

section \<open>Notifications\<close>

record notification_request =
  nq_task_id :: string
  nq_attempt_id :: string
  nq_subject_id :: string
  nq_environment :: string
  nq_cycle_id :: string
  nq_wake_reason :: scheduler_wake_reason
  nq_source_event_id :: "string option"
  nq_requested_at :: instant

record notification_receipt =
  nr_receipt_id :: string
  nr_task_id :: string
  nr_attempt_id :: string
  nr_subject_id :: string
  nr_environment :: string
  nr_status :: notification_status
  nr_observed_at :: instant
  nr_reason_code :: string

definition notification_request_init ::
  "pyval \<Rightarrow> pyval \<Rightarrow> pyval \<Rightarrow> pyval \<Rightarrow> pyval \<Rightarrow> pyval \<Rightarrow> string option \<Rightarrow> pyval \<Rightarrow> notification_request res"
where
  "notification_request_init task_id attempt_id subject_id environment cycle_id wake_reason
       source_event_id requested_at =
     rbind (sched_text task_id ''notification task_id'') (\<lambda>task_id.
     rbind (sched_text attempt_id ''notification attempt_id'') (\<lambda>attempt_id.
     rbind (sched_text subject_id ''notification subject_id'') (\<lambda>subject_id.
     rbind (sched_text environment ''notification environment'') (\<lambda>environment.
     rbind (sched_text cycle_id ''notification cycle_id'') (\<lambda>cycle_id.
     rbind (sched_wake_reason wake_reason) (\<lambda>wake_reason.
     rbind (sched_utc requested_at ''requested_at'') (\<lambda>requested_at.
     Inr \<lparr>nq_task_id = task_id, nq_attempt_id = attempt_id, nq_subject_id = subject_id,
        nq_environment = environment, nq_cycle_id = cycle_id, nq_wake_reason = wake_reason,
        nq_source_event_id = source_event_id, nq_requested_at = requested_at\<rparr>)))))))"

definition notification_receipt_init ::
  "pyval \<Rightarrow> pyval \<Rightarrow> pyval \<Rightarrow> pyval \<Rightarrow> pyval \<Rightarrow> pyval \<Rightarrow> pyval \<Rightarrow> pyval \<Rightarrow> notification_receipt res"
where
  "notification_receipt_init receipt_id task_id attempt_id subject_id environment status
       observed_at reason_code =
     rbind (sched_text receipt_id ''receipt_id'') (\<lambda>receipt_id.
     rbind (sched_text task_id ''receipt task_id'') (\<lambda>task_id.
     rbind (sched_text attempt_id ''receipt attempt_id'') (\<lambda>attempt_id.
     rbind (sched_text subject_id ''receipt subject_id'') (\<lambda>subject_id.
     rbind (sched_text environment ''receipt environment'') (\<lambda>environment.
     rbind (sched_text reason_code ''receipt reason_code'') (\<lambda>reason_code.
     rbind (sched_notification_status status ''notification status'') (\<lambda>status.
     rbind (sched_utc observed_at ''receipt observed_at'') (\<lambda>observed_at.
     Inr \<lparr>nr_receipt_id = receipt_id, nr_task_id = task_id, nr_attempt_id = attempt_id,
        nr_subject_id = subject_id, nr_environment = environment, nr_status = status,
        nr_observed_at = observed_at, nr_reason_code = reason_code\<rparr>))))))))"

definition receipt_hash :: "digest_fun \<Rightarrow> notification_receipt \<Rightarrow> string" where
  "receipt_hash sha r = canonical_hash sha (PDict
     [(''attempt_id'', PStr (nr_attempt_id r)),
      (''environment'', PStr (nr_environment r)),
      (''observed_at'', PStr (format_z (nr_observed_at r))),
      (''reason_code'', PStr (nr_reason_code r)),
      (''receipt_id'', PStr (nr_receipt_id r)),
      (''status'', PStr (notification_status_value (nr_status r))),
      (''subject_id'', PStr (nr_subject_id r)),
      (''task_id'', PStr (nr_task_id r))])"

text \<open>\<open>stable_attempt_id\<close>: the identity of the \<open>n\<close>-th attempt of a task.\<close>

definition stable_attempt_id :: "digest_fun \<Rightarrow> pyval \<Rightarrow> int \<Rightarrow> string res" where
  "stable_attempt_id sha task_id n =
     rbind (sched_text task_id ''task_id'') (\<lambda>task_id.
     rbind (ensure (0 < n) (sched_invalid ''attempt_number must be positive'')) (\<lambda>_.
     Inr (''p11-attempt-'' @ sha (''p11-scheduler-attempt'' @ [CHR 0x00] @ task_id
       @ [CHR 0x00] @ show_int n))))"

lemma stable_attempt_id_OK:
  "\<not> blank i \<Longrightarrow> 0 < n \<Longrightarrow> \<exists>a. stable_attempt_id sha (PStr i) n = Inr a \<and> \<not> blank a"
  by (simp add: stable_attempt_id_def sched_checks_run blank_def py_space_def Let_def)

section \<open>Results of the service\<close>

record scheduler_admission_result =
  ar_status :: scheduler_admission_status
  ar_task :: "scheduler_task option"
  ar_queue_revision :: int
  ar_reason_code :: string

record scheduler_tick_result =
  tr_status :: scheduler_tick_status
  tr_task :: "scheduler_task option"
  tr_queue_revision :: int
  tr_reason_code :: string
  tr_receipt :: "notification_receipt option"

record scheduler_cancel_result =
  cr_status :: scheduler_cancel_status
  cr_task :: scheduler_task
  cr_queue_revision :: int
  cr_reason_code :: string

end
