(* ===== verification/Py_State.thy ===== *)
theory Py_State
  imports Py_Data
begin

text \<open>
  Code that both mutates state and may raise: a state is passed through and survives an
  exception, as the files and the outside world of the code do. \<open>wp f Q E s\<close> is the weakest
  precondition of \<open>f\<close> for the condition \<open>Q\<close> on a normal return and \<open>E\<close> on an exception.
  \<open>file_state\<close> is a JSON file that the repositories read and replace atomically.
\<close>

named_theorems wp_simps

type_synonym ('s, 'a) prog = "'s \<Rightarrow> 's \<times> 'a res"

definition sret :: "'a \<Rightarrow> ('s, 'a) prog" where
  "sret x s = (s, Inr x)"

text \<open>A call that only computes or raises.\<close>

definition slift :: "'a res \<Rightarrow> ('s, 'a) prog" where
  "slift r s = (s, r)"

definition sbind :: "('s, 'a) prog \<Rightarrow> ('a \<Rightarrow> ('s, 'b) prog) \<Rightarrow> ('s, 'b) prog" where
  "sbind m f s = (case m s of (s', Inl e) \<Rightarrow> (s', Inl e) | (s', Inr x) \<Rightarrow> f x s')"

definition sget :: "('s, 's) prog" where
  "sget s = (s, Inr s)"

definition smodify :: "('s \<Rightarrow> 's) \<Rightarrow> ('s, unit) prog" where
  "smodify f s = (f s, Inr ())"

text \<open>A call that reads the state, and one that replaces it or raises and leaves it.\<close>

definition sread :: "('s \<Rightarrow> 'a res) \<Rightarrow> ('s, 'a) prog" where
  "sread f s = (s, f s)"

definition swrite :: "('s \<Rightarrow> 's res) \<Rightarrow> ('s, unit) prog" where
  "swrite f s = (case f s of Inl e \<Rightarrow> (s, Inl e) | Inr s' \<Rightarrow> (s', Inr ()))"

text \<open>\<open>try: m except Exception as e: h(e)\<close>: the state of the failed call is kept.\<close>

definition scatch :: "('s, 'a) prog \<Rightarrow> (exn \<Rightarrow> ('s, 'a) prog) \<Rightarrow> ('s, 'a) prog" where
  "scatch m h s = (case m s of (s', Inl e) \<Rightarrow> h e s' | (s', Inr x) \<Rightarrow> (s', Inr x))"

definition wp :: "('s, 'a) prog \<Rightarrow> ('a \<Rightarrow> 's \<Rightarrow> bool) \<Rightarrow> (exn \<Rightarrow> 's \<Rightarrow> bool) \<Rightarrow> 's \<Rightarrow> bool" where
  "wp f Q E s = (case f s of (s', Inl e) \<Rightarrow> E e s' | (s', Inr x) \<Rightarrow> Q x s')"

lemma wp_sret [wp_simps]: "wp (sret x) Q E s = Q x s"
  by (simp add: wp_def sret_def)

lemma wp_slift [wp_simps]:
  "wp (slift r) Q E s = (case r of Inl e \<Rightarrow> E e s | Inr x \<Rightarrow> Q x s)"
  by (simp add: wp_def slift_def)

lemma wp_sbind [wp_simps]: "wp (sbind m f) Q E s = wp m (\<lambda>x. wp (f x) Q E) E s"
  by (auto simp: wp_def sbind_def split: prod.splits sum.splits)

lemma wp_sget [wp_simps]: "wp sget Q E s = Q s s"
  by (simp add: wp_def sget_def)

lemma wp_smodify [wp_simps]: "wp (smodify f) Q E s = Q () (f s)"
  by (simp add: wp_def smodify_def)

lemma wp_sread [wp_simps]:
  "wp (sread f) Q E s = (case f s of Inl e \<Rightarrow> E e s | Inr x \<Rightarrow> Q x s)"
  by (simp add: wp_def sread_def)

lemma wp_swrite [wp_simps]:
  "wp (swrite f) Q E s = (case f s of Inl e \<Rightarrow> E e s | Inr s' \<Rightarrow> Q () s')"
  by (simp add: wp_def swrite_def split: sum.splits)

lemma wp_scatch [wp_simps]: "wp (scatch m h) Q E s = wp m Q (\<lambda>e. wp (h e) Q E) s"
  by (auto simp: wp_def scatch_def split: prod.splits sum.splits)

lemma wp_if [wp_simps]:
  "wp (if b then f else g) Q E s = (if b then wp f Q E s else wp g Q E s)"
  by simp

lemma wp_conseq:
  assumes "wp f Q E s" "\<And>x s'. Q x s' \<Longrightarrow> Q' x s'" "\<And>e s'. E e s' \<Longrightarrow> E' e s'"
  shows "wp f Q' E' s"
  using assms by (auto simp: wp_def split: prod.splits sum.splits)

lemma wp_result:
  assumes "wp f Q E s" "f s = (s', Inr x)"
  shows "Q x s'"
  using assms by (simp add: wp_def)

lemma wp_error:
  assumes "wp f Q E s" "f s = (s', Inl e)"
  shows "E e s'"
  using assms by (simp add: wp_def)

lemma wp_state:
  assumes "wp f (\<lambda>_. P) (\<lambda>_. P) s"
  shows "P (fst (f s))"
  using assms by (auto simp: wp_def split: prod.splits sum.splits)

lemma sbind_eq_Inr:
  "sbind m f s = (s'', Inr y) \<longleftrightarrow> (\<exists>s' x. m s = (s', Inr x) \<and> f x s' = (s'', Inr y))"
  by (auto simp: sbind_def split: prod.splits sum.splits)

lemma prog_simps:
  "sret x s = (s, Inr x)" "slift r s = (s, r)" "sget s = (s, Inr s)" "smodify f s = (f s, Inr ())"
  by (simp_all add: sret_def slift_def sget_def smodify_def)

lemma sread_swrite_run:
  "f s = Inr x \<Longrightarrow> sread f s = (s, Inr x)" "f s = Inl e \<Longrightarrow> sread f s = (s, Inl e)"
  "g s = Inr s' \<Longrightarrow> swrite g s = (s', Inr ())" "g s = Inl e \<Longrightarrow> swrite g s = (s, Inl e)"
  by (simp_all add: sread_def swrite_def)

lemma sbind_run:
  "m s = (s', Inr x) \<Longrightarrow> sbind m f s = f x s'"
  "m s = (s', Inl e) \<Longrightarrow> sbind m f s = (s', Inl e)"
  by (simp_all add: sbind_def)

section \<open>Programs that move the state along a relation\<close>

text \<open>
  \<open>keeps R m\<close>: whatever \<open>m\<close> returns or raises, it leads from a state to an \<open>R\<close>-later one. For
  a reflexive and transitive \<open>R\<close> a program keeps it if its steps do.
\<close>

definition keeps :: "('s \<Rightarrow> 's \<Rightarrow> bool) \<Rightarrow> ('s, 'a) prog \<Rightarrow> bool" where
  "keeps R m \<longleftrightarrow> (\<forall>s. R s (fst (m s)))"

lemma keepsI: "(\<And>s. R s (fst (m s))) \<Longrightarrow> keeps R m"
  by (simp add: keeps_def)

lemma keepsD: "keeps R m \<Longrightarrow> R s (fst (m s))"
  by (simp add: keeps_def)

lemma keeps_run: "keeps R m \<Longrightarrow> m s = (s', r) \<Longrightarrow> R s s'"
  using keepsD [of R m s] by simp

locale kept =
  fixes R :: "'s \<Rightarrow> 's \<Rightarrow> bool"
  assumes refl: "R s s" and trans: "R s t \<Longrightarrow> R t u \<Longrightarrow> R s u"
begin

lemma pure: "keeps R (sret x)" "keeps R (slift r)" "keeps R sget" "keeps R (sread f)"
  by (simp_all add: keeps_def refl prog_simps sread_def)

lemma modify: "(\<And>s. R s (f s)) \<Longrightarrow> keeps R (smodify f)"
  by (simp add: keeps_def prog_simps)

lemma bind:
  assumes "keeps R m" "\<And>x s s'. m s = (s', Inr x) \<Longrightarrow> keeps R (f x)"
  shows "keeps R (sbind m f)"
proof (rule keepsI)
  fix s
  obtain s' r where m: "m s = (s', r)" by fastforce
  show "R s (fst (sbind m f s))"
    using keeps_run [OF assms(1) m] assms(2) m trans by (cases r) (auto simp: sbind_def keeps_def)
qed

lemma catch:
  assumes "keeps R m" "\<And>e. keeps R (h e)"
  shows "keeps R (scatch m h)"
proof (rule keepsI)
  fix s
  obtain s' r where m: "m s = (s', r)" by fastforce
  show "R s (fst (scatch m h s))"
    using keeps_run [OF assms(1) m] keepsD [OF assms(2)] m trans
    by (cases r) (auto simp: scatch_def)
qed

lemma cond: "(b \<Longrightarrow> keeps R m) \<Longrightarrow> (\<not> b \<Longrightarrow> keeps R m') \<Longrightarrow> keeps R (if b then m else m')"
  by simp

lemmas rules = pure modify bind catch cond

end

section \<open>Files\<close>

text \<open>
  A path holds nothing, something that is not a file, a file whose content cannot be read as
  JSON, or a JSON document. The repositories write a complete new file beside the old one and
  rename it over, so a document is replaced as a whole or not at all; \<open>json.loads\<close> gives a
  document of lists, dictionaries and scalars back as \<open>json.dumps\<close> wrote it.
\<close>

datatype file_state = File_Absent | File_Not_A_File | File_Unreadable | File_Doc pyval

definition is_file :: "file_state \<Rightarrow> bool" where
  "is_file f \<longleftrightarrow> f = File_Unreadable \<or> (\<exists>v. f = File_Doc v)"

lemma is_file_simps [simp]:
  "\<not> is_file File_Absent" "\<not> is_file File_Not_A_File" "is_file File_Unreadable" "is_file (File_Doc v)"
  by (simp_all add: is_file_def)

end
