(* ===== verification/Revisioned_Store.thy ===== *)
theory Revisioned_Store
  imports Py_State
begin

text \<open>
  The contract every repository of the engine offers its service: a document is loaded and
  saved as a whole, a save names the revision it was computed from, and it is accepted only if
  that is still the stored revision. The locale states the contract, its lemmas are the
  consequences the services rely on; the repositories interpret it.
\<close>

locale revisioned_store =
  fixes load :: "'d \<Rightarrow> 'v res"
    and save :: "'v \<Rightarrow> int \<Rightarrow> 'd \<Rightarrow> 'd res"
    and revision :: "'v \<Rightarrow> int"
    and ok :: "'v \<Rightarrow> bool"
  assumes load_ok: "load d = Inr v \<Longrightarrow> ok v"
    and save_load: "ok v \<Longrightarrow> save v e d = Inr d' \<Longrightarrow> load d' = Inr v"
    and save_revision: "save v e d = Inr d' \<Longrightarrow> revision v = e + 1 \<and> (\<exists>u. load d = Inr u \<and> revision u = e)"
begin

text \<open>A save moves the stored revision forward by one.\<close>

lemma save_advances:
  assumes "load d = Inr u" "save v e d = Inr d'" "ok v"
  shows "load d' = Inr v \<and> revision v = revision u + 1"
  using save_load [OF assms(3,2)] save_revision [OF assms(2)] assms(1) by auto

text \<open>A writer whose expected revision is not the stored one is refused.\<close>

lemma stale_refused:
  assumes "load d = Inr u" "revision u \<noteq> e"
  shows "\<exists>x. save v e d = Inl x"
  using save_revision [of v e d] assms by (cases "save v e d") auto

text \<open>
  No lost update: of two writers that computed from the same revision, only the first is
  accepted.
\<close>

lemma concurrent_writer_refused:
  assumes "save v e d = Inr d'" "ok v"
  shows "\<exists>x. save w e d' = Inl x"
  using save_load [OF assms(2,1)] save_revision [OF assms(1)]
  by (intro stale_refused [of d' v]) auto

text \<open>A history of saves, each naming the revision it is based on.\<close>

primrec saves :: "('v \<times> int) list \<Rightarrow> 'd \<Rightarrow> 'd res" where
  "saves [] d = Inr d"
| "saves (w # ws) d = rbind (save (fst w) (snd w) d) (saves ws)"

lemma saves_revision:
  assumes "saves ws d = Inr d'" "load d = Inr u" "\<forall>w \<in> set ws. ok (fst w)"
  shows "\<exists>v. load d' = Inr v \<and> revision v = revision u + int (length ws)"
  using assms
proof (induction ws arbitrary: d u)
  case (Cons w ws)
  then obtain d1 where d1: "save (fst w) (snd w) d = Inr d1" "saves ws d1 = Inr d'"
    by (auto simp: rbind_eq_Inr)
  with Cons.prems save_advances [of d u "fst w" "snd w" d1]
  have "load d1 = Inr (fst w)" "revision (fst w) = revision u + 1" by auto
  with Cons.IH [OF d1(2)] Cons.prems(3) show ?case by auto
qed simp

text \<open>The saves of an accepted history are based on consecutive revisions.\<close>

lemma saves_bases:
  assumes "saves ws d = Inr d'" "load d = Inr u" "\<forall>w \<in> set ws. ok (fst w)" "i < length ws"
  shows "snd (ws ! i) = revision u + int i"
  using assms
proof (induction ws arbitrary: d u i)
  case (Cons w ws)
  then obtain d1 where d1: "save (fst w) (snd w) d = Inr d1" "saves ws d1 = Inr d'"
    by (auto simp: rbind_eq_Inr)
  with Cons.prems save_advances [of d u "fst w" "snd w" d1] save_revision [OF d1(1)]
  have l: "load d1 = Inr (fst w)" "revision (fst w) = revision u + 1" "snd w = revision u" by auto
  then show ?case
    using Cons.IH [OF d1(2) l(1)] Cons.prems(3,4) by (cases i) auto
qed simp

end

end
