(* ===== verification/Scheduler_Repository.thy ===== *)
theory Scheduler_Repository
  imports Scheduling Revisioned_Store
begin

text \<open>
  storage/json_scheduler_repository.py: the queue document on disk and its optimistic
  revision check. The file is a \<open>file_state\<close>; \<open>disk_ok\<close> tells whether the operating system
  completes the write.
\<close>

definition load_queue :: "digest_fun \<Rightarrow> file_state \<Rightarrow> scheduler_queue res" where
  "load_queue sha f = (case f of
       File_Absent \<Rightarrow> Inr empty_queue
     | File_Not_A_File \<Rightarrow> Inl (SchedulerPersistenceError, ''scheduler queue path is not a file'')
     | File_Unreadable \<Rightarrow> Inl (SchedulerPersistenceError, ''unable to read a valid scheduler queue'')
     | File_Doc value \<Rightarrow> (case scheduler_queue_from_dict sha value of
         Inl (SchedulerValidationError, _) \<Rightarrow>
           Inl (SchedulerPersistenceError, ''unable to read a valid scheduler queue'')
       | r \<Rightarrow> r))"

definition save_queue ::
  "digest_fun \<Rightarrow> bool \<Rightarrow> scheduler_queue \<Rightarrow> int \<Rightarrow> file_state \<Rightarrow> file_state res" where
  "save_queue sha disk_ok queue expected_revision f =
     (if expected_revision < 0
      then Inl (SchedulerPersistenceError, ''expected_revision must be non-negative'')
      else if sq_revision queue \<noteq> expected_revision + 1
      then Inl (SchedulerPersistenceError, ''scheduler queue revision must advance by one'')
      else rbind (load_queue sha f) (\<lambda>current.
        if sq_revision current \<noteq> expected_revision
        then Inl (SchedulerPersistenceError, ''scheduler queue does not match expected_revision'')
        else if \<not> disk_ok
        then Inl (SchedulerPersistenceError, ''unable to atomically save scheduler queue'')
        else Inr (File_Doc (scheduler_queue_to_dict sha queue))))"

lemma load_queue_wf: "load_queue sha f = Inr q \<Longrightarrow> wf_queue q"
  by (auto simp: load_queue_def dest: queue_from_dict_wf
      split: file_state.splits sum.splits prod.splits exc_class.splits)

lemma load_queue_saved [simp]:
  "wf_queue q \<Longrightarrow> load_queue sha (File_Doc (scheduler_queue_to_dict sha q)) = Inr q"
  by (simp add: load_queue_def queue_dict_roundtrip)

lemma load_queue_absent [simp]: "load_queue sha File_Absent = Inr empty_queue"
  by (simp add: load_queue_def)

lemma save_queue_Inr:
  "save_queue sha disk q e f = Inr f' \<longleftrightarrow> 0 \<le> e \<and> sq_revision q = e + 1 \<and> disk \<and>
     f' = File_Doc (scheduler_queue_to_dict sha q) \<and>
     (\<exists>current. load_queue sha f = Inr current \<and> sq_revision current = e)"
  by (auto simp: save_queue_def rbind_eq_Inr)

interpretation sq: revisioned_store "load_queue sha" "save_queue sha disk" sq_revision wf_queue
  by unfold_locales (auto simp: load_queue_wf save_queue_Inr)

end
