(* ===== verification/Resources.thy ===== *)
theory Resources
  imports Py_Data
begin

text \<open>
  domain/resources.py: the resource ledger's data. Every constructor is a function from
  unvalidated arguments to a typed record, \<open>wf_...\<close> is the invariant its checks establish, and
  the \<open>to_dict\<close> / \<open>from_dict\<close> pairs are the persisted form. Datetimes are kept as the UTC
  instant they denote, which is all that the code compares or prints of them.
\<close>

section \<open>Enumerations and checks\<close>

datatype runtime_mode = LOW_FREQUENCY | SCHEDULED | CONTINUOUS | DEEP_THINKING

datatype resource_session_type = Session_THINKING | Session_MEMORY | Session_LEARNING | Session_OTHER

datatype thinking_depth = Depth_LOW | Depth_NORMAL | Depth_DEEP

fun runtime_mode_value :: "runtime_mode \<Rightarrow> string" where
  "runtime_mode_value LOW_FREQUENCY = ''LOW_FREQUENCY''"
| "runtime_mode_value SCHEDULED = ''SCHEDULED''"
| "runtime_mode_value CONTINUOUS = ''CONTINUOUS''"
| "runtime_mode_value DEEP_THINKING = ''DEEP_THINKING''"

fun session_type_value :: "resource_session_type \<Rightarrow> string" where
  "session_type_value Session_THINKING = ''THINKING''"
| "session_type_value Session_MEMORY = ''MEMORY''"
| "session_type_value Session_LEARNING = ''LEARNING''"
| "session_type_value Session_OTHER = ''OTHER''"

fun thinking_depth_value :: "thinking_depth \<Rightarrow> string" where
  "thinking_depth_value Depth_LOW = ''LOW''"
| "thinking_depth_value Depth_NORMAL = ''NORMAL''"
| "thinking_depth_value Depth_DEEP = ''DEEP''"

abbreviation res_invalid :: "string \<Rightarrow> exn" where
  "res_invalid m \<equiv> (ResourceValidationError, m)"

definition res_text :: "pyval \<Rightarrow> string \<Rightarrow> string res" where
  "res_text v name = require_text ResourceValidationError v name"

definition res_nat :: "pyval \<Rightarrow> string \<Rightarrow> int res" where
  "res_nat v name = require_nat ResourceValidationError v name"

definition res_aware :: "pyval \<Rightarrow> string \<Rightarrow> instant res" where
  "res_aware v name = require_aware (res_invalid (name @ '' must include a timezone'')) v"

definition res_parse_datetime :: "pyval \<Rightarrow> string \<Rightarrow> pyval res" where
  "res_parse_datetime v name = (case v of
       PStr s \<Rightarrow> (case fromisoformat (replace_Z s) of
         None \<Rightarrow> Inl (res_invalid (name @ '' is not a valid datetime''))
       | Some (w, None) \<Rightarrow> Inl (res_invalid (name @ '' must include a timezone''))
       | Some (w, Some off) \<Rightarrow> Inr (PTime w (Some off)))
     | _ \<Rightarrow> Inl (res_invalid (name @ '' must be an ISO-8601 string'')))"

definition res_mode :: "pyval \<Rightarrow> runtime_mode res" where
  "res_mode v = require_enum (res_invalid ''unsupported runtime mode'') runtime_mode_value
     [LOW_FREQUENCY, SCHEDULED, CONTINUOUS, DEEP_THINKING] v"

definition res_session_type :: "pyval \<Rightarrow> resource_session_type res" where
  "res_session_type v = require_enum (res_invalid ''unsupported resource session type'')
     session_type_value [Session_THINKING, Session_MEMORY, Session_LEARNING, Session_OTHER] v"

definition res_depth_optional :: "pyval \<Rightarrow> thinking_depth option res" where
  "res_depth_optional v = (if v = PNone then Inr None
     else rbind (require_enum (res_invalid ''unsupported thinking depth'') thinking_depth_value
       [Depth_LOW, Depth_NORMAL, Depth_DEEP] v) (\<lambda>d. Inr (Some d)))"

abbreviation depth_val :: "thinking_depth option \<Rightarrow> pyval" where
  "depth_val \<equiv> opt_val (\<lambda>d. PStr (thinking_depth_value d))"

lemma res_text_Inr: "res_text v n = Inr s \<longleftrightarrow> v = PStr s \<and> \<not> blank s"
  by (simp add: res_text_def require_text_eq_Inr)

lemma res_nat_Inr: "res_nat v n = Inr i \<longleftrightarrow> v = PInt i \<and> 0 \<le> i"
  by (simp add: res_nat_def require_nat_eq_Inr)

lemma res_mode_run [simp]: "res_mode (PStr (runtime_mode_value m)) = Inr m"
  unfolding res_mode_def by (rule require_enum_PStr) (cases m, auto)

lemma res_session_run [simp]: "res_session_type (PStr (session_type_value s)) = Inr s"
  unfolding res_session_type_def by (rule require_enum_PStr) (cases s, auto)

lemma res_depth_run [simp]: "res_depth_optional (depth_val d) = Inr d"
proof (cases d)
  case (Some x)
  have "require_enum e thinking_depth_value [Depth_LOW, Depth_NORMAL, Depth_DEEP]
      (PStr (thinking_depth_value x)) = Inr x" for e
    by (rule require_enum_PStr) (cases x, auto)
  with Some show ?thesis by (simp add: res_depth_optional_def)
qed (simp add: res_depth_optional_def)

lemma res_aware_utc [simp]: "res_aware (utc_val t) n = Inr t"
  by (simp add: res_aware_def)

lemma res_parse_format [simp]: "res_parse_datetime (PStr (format_z t)) n = Inr (utc_val t)"
  by (simp add: res_parse_datetime_def)

lemma res_run:
  "\<not> blank s \<Longrightarrow> res_text (PStr s) n = Inr s"
  "0 \<le> i \<Longrightarrow> res_nat (PInt i) n = Inr i"
  by (simp_all add: res_text_Inr res_nat_Inr)

section \<open>Resource state\<close>

record resource_state_args =
  rsa_resource_id :: pyval
  rsa_subject_id :: pyval
  rsa_token_budget :: pyval
  rsa_token_used :: pyval
  rsa_token_remaining :: pyval
  rsa_compute_budget :: pyval
  rsa_current_mode :: pyval
  rsa_updated_at :: pyval
  rsa_compute_used :: pyval
  rsa_compute_remaining :: pyval
  rsa_revision :: pyval

record resource_state =
  rs_resource_id :: string
  rs_subject_id :: string
  rs_token_budget :: int
  rs_token_used :: int
  rs_token_remaining :: int
  rs_compute_budget :: int
  rs_current_mode :: runtime_mode
  rs_updated_at :: instant
  rs_compute_used :: int
  rs_compute_remaining :: int
  rs_revision :: int

definition resource_state_init :: "resource_state_args \<Rightarrow> resource_state res" where
  "resource_state_init a =
     rbind (res_text (rsa_resource_id a) ''resource_id'') (\<lambda>resource_id.
     rbind (res_text (rsa_subject_id a) ''resource subject_id'') (\<lambda>subject_id.
     rbind (res_nat (rsa_token_budget a) ''token_budget'') (\<lambda>token_budget.
     rbind (res_nat (rsa_token_used a) ''token_used'') (\<lambda>token_used.
     rbind (res_nat (rsa_token_remaining a) ''token_remaining'') (\<lambda>token_remaining.
     rbind (res_nat (rsa_compute_budget a) ''compute_budget'') (\<lambda>compute_budget.
     rbind (res_nat (rsa_compute_used a) ''compute_used'') (\<lambda>compute_used.
     rbind (res_nat (if rsa_compute_remaining a = PNone
         then PInt (max 0 (compute_budget - compute_used)) else rsa_compute_remaining a)
       ''compute_remaining'') (\<lambda>compute_remaining.
     rbind (ensure (token_remaining = max 0 (token_budget - token_used))
       (res_invalid ''token_remaining must match token budget and usage'')) (\<lambda>_.
     rbind (ensure (compute_remaining = max 0 (compute_budget - compute_used))
       (res_invalid ''compute_remaining must match compute budget and usage'')) (\<lambda>_.
     rbind (res_mode (rsa_current_mode a)) (\<lambda>current_mode.
     rbind (res_aware (rsa_updated_at a) ''resource updated_at'') (\<lambda>updated_at.
     rbind (res_nat (rsa_revision a) ''resource revision'') (\<lambda>revision.
     Inr \<lparr>rs_resource_id = resource_id, rs_subject_id = subject_id,
       rs_token_budget = token_budget, rs_token_used = token_used,
       rs_token_remaining = token_remaining, rs_compute_budget = compute_budget,
       rs_current_mode = current_mode, rs_updated_at = updated_at,
       rs_compute_used = compute_used, rs_compute_remaining = compute_remaining,
       rs_revision = revision\<rparr>)))))))))))))"

definition wf_resource_state :: "resource_state \<Rightarrow> bool" where
  "wf_resource_state s \<longleftrightarrow> \<not> blank (rs_resource_id s) \<and> \<not> blank (rs_subject_id s) \<and>
     0 \<le> rs_token_budget s \<and> 0 \<le> rs_token_used s \<and> 0 \<le> rs_compute_budget s \<and>
     0 \<le> rs_compute_used s \<and> 0 \<le> rs_revision s \<and>
     rs_token_remaining s = max 0 (rs_token_budget s - rs_token_used s) \<and>
     rs_compute_remaining s = max 0 (rs_compute_budget s - rs_compute_used s)"

definition resource_state_args_of :: "resource_state \<Rightarrow> resource_state_args" where
  "resource_state_args_of s =
     \<lparr>rsa_resource_id = PStr (rs_resource_id s), rsa_subject_id = PStr (rs_subject_id s),
      rsa_token_budget = PInt (rs_token_budget s), rsa_token_used = PInt (rs_token_used s),
      rsa_token_remaining = PInt (rs_token_remaining s),
      rsa_compute_budget = PInt (rs_compute_budget s),
      rsa_current_mode = PStr (runtime_mode_value (rs_current_mode s)),
      rsa_updated_at = utc_val (rs_updated_at s), rsa_compute_used = PInt (rs_compute_used s),
      rsa_compute_remaining = PInt (rs_compute_remaining s), rsa_revision = PInt (rs_revision s)\<rparr>"

text \<open>\<open>state.__post_init__()\<close> after its attributes have been assigned to.\<close>

definition resource_state_recheck :: "resource_state \<Rightarrow> resource_state res" where
  "resource_state_recheck s = resource_state_init (resource_state_args_of s)"

definition resource_state_create ::
  "string \<Rightarrow> pyval \<Rightarrow> pyval \<Rightarrow> pyval \<Rightarrow> runtime_mode \<Rightarrow> instant \<Rightarrow> resource_state res" where
  "resource_state_create resource_id subject_id token_budget compute_budget mode updated_at =
     resource_state_init
       \<lparr>rsa_resource_id = PStr resource_id, rsa_subject_id = subject_id,
        rsa_token_budget = token_budget, rsa_token_used = PInt 0,
        rsa_token_remaining = token_budget, rsa_compute_budget = compute_budget,
        rsa_current_mode = PStr (runtime_mode_value mode), rsa_updated_at = utc_val updated_at,
        rsa_compute_used = PInt 0, rsa_compute_remaining = compute_budget,
        rsa_revision = PInt 0\<rparr>"

definition resource_state_to_dict :: "resource_state \<Rightarrow> pyval" where
  "resource_state_to_dict s = PDict
     [(''resource_id'', PStr (rs_resource_id s)),
      (''subject_id'', PStr (rs_subject_id s)),
      (''token_budget'', PInt (rs_token_budget s)),
      (''token_used'', PInt (rs_token_used s)),
      (''token_remaining'', PInt (rs_token_remaining s)),
      (''compute_budget'', PInt (rs_compute_budget s)),
      (''compute_used'', PInt (rs_compute_used s)),
      (''compute_remaining'', PInt (rs_compute_remaining s)),
      (''current_mode'', PStr (runtime_mode_value (rs_current_mode s))),
      (''updated_at'', PStr (format_z (rs_updated_at s))),
      (''revision'', PInt (rs_revision s))]"

definition resource_state_from_dict :: "pyval \<Rightarrow> resource_state res" where
  "resource_state_from_dict value = (case value of PDict d \<Rightarrow>
       rbind (res_parse_datetime (dict_get d ''updated_at'') ''resource updated_at'') (\<lambda>updated_at.
       resource_state_init
         \<lparr>rsa_resource_id = dict_get d ''resource_id'', rsa_subject_id = dict_get d ''subject_id'',
          rsa_token_budget = dict_get d ''token_budget'', rsa_token_used = dict_get d ''token_used'',
          rsa_token_remaining = dict_get d ''token_remaining'',
          rsa_compute_budget = dict_get d ''compute_budget'',
          rsa_current_mode = dict_get d ''current_mode'', rsa_updated_at = updated_at,
          rsa_compute_used = dict_get_or (PInt 0) d ''compute_used'',
          rsa_compute_remaining = dict_get d ''compute_remaining'',
          rsa_revision = dict_get_or (PInt 0) d ''revision''\<rparr>)
     | _ \<Rightarrow> Inl (res_invalid ''resource state must be an object''))"

lemma resource_state_init_wf: "resource_state_init a = Inr s \<Longrightarrow> wf_resource_state s"
  unfolding resource_state_init_def
  by (elim rbindE) (auto simp: wf_resource_state_def res_text_Inr res_nat_Inr)

lemma resource_state_recheck_wf: "wf_resource_state s \<Longrightarrow> resource_state_recheck s = Inr s"
  by (simp add: resource_state_recheck_def resource_state_init_def resource_state_args_of_def
      wf_resource_state_def res_run)

lemma resource_state_roundtrip:
  "wf_resource_state s \<Longrightarrow> resource_state_from_dict (resource_state_to_dict s) = Inr s"
  using resource_state_recheck_wf [of s]
  by (simp add: resource_state_from_dict_def resource_state_to_dict_def resource_state_recheck_def
      resource_state_args_of_def)

lemma resource_state_from_dict_wf:
  "resource_state_from_dict v = Inr s \<Longrightarrow> wf_resource_state s"
  by (auto simp: resource_state_from_dict_def rbind_eq_Inr split: pyval.splits
      dest: resource_state_init_wf)

lemma resource_state_recheck_Inr:
  "resource_state_recheck s = Inr s' \<longleftrightarrow> wf_resource_state s \<and> s' = s"
proof
  assume r: "resource_state_recheck s = Inr s'"
  then have "s' = s"
    unfolding resource_state_recheck_def resource_state_init_def resource_state_args_of_def
    by (cases s; elim rbindE; auto simp: res_text_Inr res_nat_Inr)
  with r show "wf_resource_state s \<and> s' = s"
    using resource_state_init_wf unfolding resource_state_recheck_def by blast
qed (simp add: resource_state_recheck_wf)

section \<open>Token usage records\<close>

record token_usage_args =
  tua_usage_id :: pyval
  tua_subject_id :: pyval
  tua_session_id :: pyval
  tua_session_type :: pyval
  tua_estimated_tokens :: pyval
  tua_actual_tokens :: pyval
  tua_model_name :: pyval
  tua_reason :: pyval
  tua_created_at :: pyval
  tua_estimated_compute :: pyval

record token_usage_record =
  tu_usage_id :: string
  tu_subject_id :: string
  tu_session_id :: string
  tu_session_type :: resource_session_type
  tu_estimated_tokens :: int
  tu_actual_tokens :: "int option"
  tu_model_name :: string
  tu_reason :: string
  tu_created_at :: instant
  tu_estimated_compute :: int

definition res_nat_optional :: "pyval \<Rightarrow> string \<Rightarrow> int option res" where
  "res_nat_optional v name = (if v = PNone then Inr None
     else rbind (res_nat v name) (\<lambda>n. Inr (Some n)))"

definition token_usage_init :: "token_usage_args \<Rightarrow> token_usage_record res" where
  "token_usage_init a =
     rbind (res_text (tua_usage_id a) ''usage_id'') (\<lambda>usage_id.
     rbind (res_text (tua_subject_id a) ''usage subject_id'') (\<lambda>subject_id.
     rbind (res_text (tua_session_id a) ''usage session_id'') (\<lambda>session_id.
     rbind (res_text (tua_model_name a) ''usage model_name'') (\<lambda>model_name.
     rbind (res_text (tua_reason a) ''usage reason'') (\<lambda>reason.
     rbind (res_session_type (tua_session_type a)) (\<lambda>session_type.
     rbind (res_nat (tua_estimated_tokens a) ''estimated_tokens'') (\<lambda>estimated_tokens.
     rbind (res_nat_optional (tua_actual_tokens a) ''actual_tokens'') (\<lambda>actual_tokens.
     rbind (res_nat (tua_estimated_compute a) ''estimated_compute'') (\<lambda>estimated_compute.
     rbind (res_aware (tua_created_at a) ''usage created_at'') (\<lambda>created_at.
     Inr \<lparr>tu_usage_id = usage_id, tu_subject_id = subject_id, tu_session_id = session_id,
       tu_session_type = session_type, tu_estimated_tokens = estimated_tokens,
       tu_actual_tokens = actual_tokens, tu_model_name = model_name, tu_reason = reason,
       tu_created_at = created_at, tu_estimated_compute = estimated_compute\<rparr>))))))))))"

definition wf_token_usage :: "token_usage_record \<Rightarrow> bool" where
  "wf_token_usage u \<longleftrightarrow> \<not> blank (tu_usage_id u) \<and> \<not> blank (tu_subject_id u) \<and>
     \<not> blank (tu_session_id u) \<and> \<not> blank (tu_model_name u) \<and> \<not> blank (tu_reason u) \<and>
     0 \<le> tu_estimated_tokens u \<and> 0 \<le> tu_estimated_compute u \<and>
     (\<forall>n. tu_actual_tokens u = Some n \<longrightarrow> 0 \<le> n)"

definition token_usage_args_of :: "token_usage_record \<Rightarrow> token_usage_args" where
  "token_usage_args_of u =
     \<lparr>tua_usage_id = PStr (tu_usage_id u), tua_subject_id = PStr (tu_subject_id u),
      tua_session_id = PStr (tu_session_id u),
      tua_session_type = PStr (session_type_value (tu_session_type u)),
      tua_estimated_tokens = PInt (tu_estimated_tokens u),
      tua_actual_tokens = opt_val PInt (tu_actual_tokens u),
      tua_model_name = PStr (tu_model_name u), tua_reason = PStr (tu_reason u),
      tua_created_at = utc_val (tu_created_at u),
      tua_estimated_compute = PInt (tu_estimated_compute u)\<rparr>"

definition token_usage_recheck :: "token_usage_record \<Rightarrow> token_usage_record res" where
  "token_usage_recheck u = token_usage_init (token_usage_args_of u)"

text \<open>\<open>accounted_tokens\<close>: the actual consumption once it is known, the estimate before.\<close>

definition accounted_tokens :: "token_usage_record \<Rightarrow> int" where
  "accounted_tokens u = (case tu_actual_tokens u of Some n \<Rightarrow> n | None \<Rightarrow> tu_estimated_tokens u)"

definition token_usage_to_dict :: "token_usage_record \<Rightarrow> pyval" where
  "token_usage_to_dict u = PDict
     [(''usage_id'', PStr (tu_usage_id u)),
      (''subject_id'', PStr (tu_subject_id u)),
      (''session_id'', PStr (tu_session_id u)),
      (''session_type'', PStr (session_type_value (tu_session_type u))),
      (''estimated_tokens'', PInt (tu_estimated_tokens u)),
      (''actual_tokens'', opt_val PInt (tu_actual_tokens u)),
      (''model_name'', PStr (tu_model_name u)),
      (''reason'', PStr (tu_reason u)),
      (''created_at'', PStr (format_z (tu_created_at u))),
      (''estimated_compute'', PInt (tu_estimated_compute u))]"

definition token_usage_from_dict :: "pyval \<Rightarrow> token_usage_record res" where
  "token_usage_from_dict value = (case value of PDict d \<Rightarrow>
       rbind (res_parse_datetime (dict_get d ''created_at'') ''usage created_at'') (\<lambda>created_at.
       token_usage_init
         \<lparr>tua_usage_id = dict_get d ''usage_id'', tua_subject_id = dict_get d ''subject_id'',
          tua_session_id = dict_get d ''session_id'',
          tua_session_type = dict_get d ''session_type'',
          tua_estimated_tokens = dict_get d ''estimated_tokens'',
          tua_actual_tokens = dict_get d ''actual_tokens'',
          tua_model_name = dict_get d ''model_name'', tua_reason = dict_get d ''reason'',
          tua_created_at = created_at,
          tua_estimated_compute = dict_get_or (PInt 0) d ''estimated_compute''\<rparr>)
     | _ \<Rightarrow> Inl (res_invalid ''token usage record must be an object''))"

lemma res_nat_optional_Inr:
  "res_nat_optional v n = Inr x \<longleftrightarrow> v = opt_val PInt x \<and> (\<forall>i. x = Some i \<longrightarrow> 0 \<le> i)"
  by (cases x) (auto simp: res_nat_optional_def rbind_eq_Inr res_nat_Inr)

lemma res_nat_optional_run:
  "(\<forall>i. x = Some i \<longrightarrow> 0 \<le> i) \<Longrightarrow> res_nat_optional (opt_val PInt x) n = Inr x"
  by (simp add: res_nat_optional_Inr)

lemma opt_val_PInt_inject [simp]: "opt_val PInt x = opt_val PInt y \<longleftrightarrow> x = y"
  by (cases x; cases y) auto

lemma token_usage_init_wf: "token_usage_init a = Inr u \<Longrightarrow> wf_token_usage u"
  unfolding token_usage_init_def
  by (elim rbindE) (auto simp: wf_token_usage_def res_text_Inr res_nat_Inr res_nat_optional_Inr)

lemma token_usage_recheck_wf: "wf_token_usage u \<Longrightarrow> token_usage_recheck u = Inr u"
  by (simp add: token_usage_recheck_def token_usage_init_def token_usage_args_of_def
      wf_token_usage_def res_run res_nat_optional_run)

lemma token_usage_recheck_Inr:
  "token_usage_recheck u = Inr u' \<longleftrightarrow> wf_token_usage u \<and> u' = u"
proof
  assume r: "token_usage_recheck u = Inr u'"
  then have "u' = u"
    unfolding token_usage_recheck_def token_usage_init_def token_usage_args_of_def
    by (cases u; elim rbindE; auto simp: res_text_Inr res_nat_Inr res_nat_optional_Inr)
  with r show "wf_token_usage u \<and> u' = u"
    using token_usage_init_wf unfolding token_usage_recheck_def by blast
qed (simp add: token_usage_recheck_wf)

lemma token_usage_roundtrip:
  "wf_token_usage u \<Longrightarrow> token_usage_from_dict (token_usage_to_dict u) = Inr u"
  using token_usage_recheck_wf [of u]
  by (simp add: token_usage_from_dict_def token_usage_to_dict_def token_usage_recheck_def
      token_usage_args_of_def)

lemma token_usage_from_dict_wf: "token_usage_from_dict v = Inr u \<Longrightarrow> wf_token_usage u"
  by (auto simp: token_usage_from_dict_def rbind_eq_Inr split: pyval.splits
      dest: token_usage_init_wf)

section \<open>Requests\<close>

record resource_request_args =
  rqa_request_id :: pyval
  rqa_subject_id :: pyval
  rqa_session_id :: pyval
  rqa_session_type :: pyval
  rqa_estimated_tokens :: pyval
  rqa_estimated_compute :: pyval
  rqa_model_name :: pyval
  rqa_reason :: pyval
  rqa_requested_at :: pyval
  rqa_requested_depth :: pyval

record resource_request =
  rq_request_id :: string
  rq_subject_id :: string
  rq_session_id :: string
  rq_session_type :: resource_session_type
  rq_estimated_tokens :: int
  rq_estimated_compute :: int
  rq_model_name :: string
  rq_reason :: string
  rq_requested_at :: instant
  rq_requested_depth :: "thinking_depth option"

definition resource_request_init :: "resource_request_args \<Rightarrow> resource_request res" where
  "resource_request_init a =
     rbind (res_text (rqa_request_id a) ''resource request_id'') (\<lambda>request_id.
     rbind (res_text (rqa_subject_id a) ''request subject_id'') (\<lambda>subject_id.
     rbind (res_text (rqa_session_id a) ''request session_id'') (\<lambda>session_id.
     rbind (res_text (rqa_model_name a) ''request model_name'') (\<lambda>model_name.
     rbind (res_text (rqa_reason a) ''request reason'') (\<lambda>reason.
     rbind (res_session_type (rqa_session_type a)) (\<lambda>session_type.
     rbind (res_nat (rqa_estimated_tokens a) ''request estimated_tokens'') (\<lambda>estimated_tokens.
     rbind (res_nat (rqa_estimated_compute a) ''request estimated_compute'') (\<lambda>estimated_compute.
     rbind (res_depth_optional (rqa_requested_depth a)) (\<lambda>requested_depth.
     rbind (ensure (session_type = Session_THINKING \<longrightarrow> requested_depth \<noteq> None)
       (res_invalid ''thinking requests require requested_depth'')) (\<lambda>_.
     rbind (ensure (session_type \<noteq> Session_THINKING \<longrightarrow> requested_depth = None)
       (res_invalid ''requested_depth is only valid for thinking requests'')) (\<lambda>_.
     rbind (res_aware (rqa_requested_at a) ''request time'') (\<lambda>requested_at.
     Inr \<lparr>rq_request_id = request_id, rq_subject_id = subject_id, rq_session_id = session_id,
       rq_session_type = session_type, rq_estimated_tokens = estimated_tokens,
       rq_estimated_compute = estimated_compute, rq_model_name = model_name, rq_reason = reason,
       rq_requested_at = requested_at, rq_requested_depth = requested_depth\<rparr>))))))))))))"

definition wf_resource_request :: "resource_request \<Rightarrow> bool" where
  "wf_resource_request r \<longleftrightarrow> \<not> blank (rq_request_id r) \<and> \<not> blank (rq_subject_id r) \<and>
     \<not> blank (rq_session_id r) \<and> \<not> blank (rq_model_name r) \<and> \<not> blank (rq_reason r) \<and>
     0 \<le> rq_estimated_tokens r \<and> 0 \<le> rq_estimated_compute r \<and>
     (rq_session_type r = Session_THINKING \<longleftrightarrow> rq_requested_depth r \<noteq> None)"

definition resource_request_args_of :: "resource_request \<Rightarrow> resource_request_args" where
  "resource_request_args_of r =
     \<lparr>rqa_request_id = PStr (rq_request_id r), rqa_subject_id = PStr (rq_subject_id r),
      rqa_session_id = PStr (rq_session_id r),
      rqa_session_type = PStr (session_type_value (rq_session_type r)),
      rqa_estimated_tokens = PInt (rq_estimated_tokens r),
      rqa_estimated_compute = PInt (rq_estimated_compute r),
      rqa_model_name = PStr (rq_model_name r), rqa_reason = PStr (rq_reason r),
      rqa_requested_at = utc_val (rq_requested_at r),
      rqa_requested_depth = depth_val (rq_requested_depth r)\<rparr>"

definition resource_request_to_dict :: "resource_request \<Rightarrow> pyval" where
  "resource_request_to_dict r = PDict
     [(''request_id'', PStr (rq_request_id r)),
      (''subject_id'', PStr (rq_subject_id r)),
      (''session_id'', PStr (rq_session_id r)),
      (''session_type'', PStr (session_type_value (rq_session_type r))),
      (''estimated_tokens'', PInt (rq_estimated_tokens r)),
      (''estimated_compute'', PInt (rq_estimated_compute r)),
      (''model_name'', PStr (rq_model_name r)),
      (''reason'', PStr (rq_reason r)),
      (''requested_at'', PStr (format_z (rq_requested_at r))),
      (''requested_depth'', depth_val (rq_requested_depth r))]"

definition resource_request_from_dict :: "pyval \<Rightarrow> resource_request res" where
  "resource_request_from_dict value = (case value of PDict d \<Rightarrow>
       rbind (res_parse_datetime (dict_get d ''requested_at'') ''requested_at'') (\<lambda>requested_at.
       rbind (res_depth_optional (dict_get d ''requested_depth'')) (\<lambda>requested_depth.
       resource_request_init
         \<lparr>rqa_request_id = dict_get d ''request_id'', rqa_subject_id = dict_get d ''subject_id'',
          rqa_session_id = dict_get d ''session_id'',
          rqa_session_type = dict_get d ''session_type'',
          rqa_estimated_tokens = dict_get d ''estimated_tokens'',
          rqa_estimated_compute = dict_get d ''estimated_compute'',
          rqa_model_name = dict_get d ''model_name'', rqa_reason = dict_get d ''reason'',
          rqa_requested_at = requested_at,
          rqa_requested_depth = depth_val requested_depth\<rparr>))
     | _ \<Rightarrow> Inl (res_invalid ''resource request must be an object''))"

lemma resource_request_init_wf: "resource_request_init a = Inr r \<Longrightarrow> wf_resource_request r"
  unfolding resource_request_init_def
  by (elim rbindE) (auto simp: wf_resource_request_def res_text_Inr res_nat_Inr)

lemma resource_request_init_args:
  "wf_resource_request r \<Longrightarrow> resource_request_init (resource_request_args_of r) = Inr r"
  by (simp add: resource_request_init_def resource_request_args_of_def wf_resource_request_def res_run)

lemma resource_request_roundtrip:
  "wf_resource_request r \<Longrightarrow> resource_request_from_dict (resource_request_to_dict r) = Inr r"
  using resource_request_init_args [of r]
  by (simp add: resource_request_from_dict_def resource_request_to_dict_def
      resource_request_args_of_def)

section \<open>Decisions\<close>

record resource_decision_args =
  rda_decision_id :: pyval
  rda_request_id :: pyval
  rda_subject_id :: pyval
  rda_session_id :: pyval
  rda_allowed :: pyval
  rda_approved_depth :: pyval
  rda_allocated_tokens :: pyval
  rda_allocated_compute :: pyval
  rda_lower_frequency :: pyval
  rda_defer :: pyval
  rda_reason :: pyval
  rda_recommended_mode :: pyval
  rda_decided_at :: pyval

record resource_decision =
  rd_decision_id :: string
  rd_request_id :: string
  rd_subject_id :: string
  rd_session_id :: string
  rd_allowed :: bool
  rd_approved_depth :: "thinking_depth option"
  rd_allocated_tokens :: int
  rd_allocated_compute :: int
  rd_lower_frequency :: bool
  rd_defer :: bool
  rd_reason :: string
  rd_recommended_mode :: runtime_mode
  rd_decided_at :: instant

definition res_flag :: "pyval \<Rightarrow> bool res" where
  "res_flag v = (case v of PBool b \<Rightarrow> Inr b
     | _ \<Rightarrow> Inl (res_invalid ''resource decision flags must be booleans''))"

definition resource_decision_init :: "resource_decision_args \<Rightarrow> resource_decision res" where
  "resource_decision_init a =
     rbind (res_text (rda_decision_id a) ''resource decision_id'') (\<lambda>decision_id.
     rbind (res_text (rda_request_id a) ''decision request_id'') (\<lambda>request_id.
     rbind (res_text (rda_subject_id a) ''decision subject_id'') (\<lambda>subject_id.
     rbind (res_text (rda_session_id a) ''decision session_id'') (\<lambda>session_id.
     rbind (res_text (rda_reason a) ''resource decision reason'') (\<lambda>reason.
     rbind (res_flag (rda_allowed a)) (\<lambda>allowed.
     rbind (res_flag (rda_lower_frequency a)) (\<lambda>lower_frequency.
     rbind (res_flag (rda_defer a)) (\<lambda>defer.
     rbind (res_depth_optional (rda_approved_depth a)) (\<lambda>approved_depth.
     rbind (res_nat (rda_allocated_tokens a) ''allocated_tokens'') (\<lambda>allocated_tokens.
     rbind (res_nat (rda_allocated_compute a) ''allocated_compute'') (\<lambda>allocated_compute.
     rbind (ensure (\<not> (allowed \<and> defer))
       (res_invalid ''an allowed request cannot also be deferred'')) (\<lambda>_.
     rbind (ensure (\<not> (\<not> allowed \<and> (allocated_tokens \<noteq> 0 \<or> allocated_compute \<noteq> 0)))
       (res_invalid ''a blocked request cannot allocate resources'')) (\<lambda>_.
     rbind (res_mode (rda_recommended_mode a)) (\<lambda>recommended_mode.
     rbind (res_aware (rda_decided_at a) ''decision time'') (\<lambda>decided_at.
     Inr \<lparr>rd_decision_id = decision_id, rd_request_id = request_id, rd_subject_id = subject_id,
       rd_session_id = session_id, rd_allowed = allowed, rd_approved_depth = approved_depth,
       rd_allocated_tokens = allocated_tokens, rd_allocated_compute = allocated_compute,
       rd_lower_frequency = lower_frequency, rd_defer = defer, rd_reason = reason,
       rd_recommended_mode = recommended_mode, rd_decided_at = decided_at\<rparr>)))))))))))))))"

definition wf_resource_decision :: "resource_decision \<Rightarrow> bool" where
  "wf_resource_decision d \<longleftrightarrow> \<not> blank (rd_decision_id d) \<and> \<not> blank (rd_request_id d) \<and>
     \<not> blank (rd_subject_id d) \<and> \<not> blank (rd_session_id d) \<and> \<not> blank (rd_reason d) \<and>
     0 \<le> rd_allocated_tokens d \<and> 0 \<le> rd_allocated_compute d \<and>
     \<not> (rd_allowed d \<and> rd_defer d) \<and>
     (\<not> rd_allowed d \<longrightarrow> rd_allocated_tokens d = 0 \<and> rd_allocated_compute d = 0)"

definition resource_decision_args_of :: "resource_decision \<Rightarrow> resource_decision_args" where
  "resource_decision_args_of d =
     \<lparr>rda_decision_id = PStr (rd_decision_id d), rda_request_id = PStr (rd_request_id d),
      rda_subject_id = PStr (rd_subject_id d), rda_session_id = PStr (rd_session_id d),
      rda_allowed = PBool (rd_allowed d), rda_approved_depth = depth_val (rd_approved_depth d),
      rda_allocated_tokens = PInt (rd_allocated_tokens d),
      rda_allocated_compute = PInt (rd_allocated_compute d),
      rda_lower_frequency = PBool (rd_lower_frequency d), rda_defer = PBool (rd_defer d),
      rda_reason = PStr (rd_reason d),
      rda_recommended_mode = PStr (runtime_mode_value (rd_recommended_mode d)),
      rda_decided_at = utc_val (rd_decided_at d)\<rparr>"

definition resource_decision_to_dict :: "resource_decision \<Rightarrow> pyval" where
  "resource_decision_to_dict d = PDict
     [(''decision_id'', PStr (rd_decision_id d)),
      (''request_id'', PStr (rd_request_id d)),
      (''subject_id'', PStr (rd_subject_id d)),
      (''session_id'', PStr (rd_session_id d)),
      (''allowed'', PBool (rd_allowed d)),
      (''approved_depth'', depth_val (rd_approved_depth d)),
      (''allocated_tokens'', PInt (rd_allocated_tokens d)),
      (''allocated_compute'', PInt (rd_allocated_compute d)),
      (''lower_frequency'', PBool (rd_lower_frequency d)),
      (''defer'', PBool (rd_defer d)),
      (''reason'', PStr (rd_reason d)),
      (''recommended_mode'', PStr (runtime_mode_value (rd_recommended_mode d))),
      (''decided_at'', PStr (format_z (rd_decided_at d)))]"

definition resource_decision_from_dict :: "pyval \<Rightarrow> resource_decision res" where
  "resource_decision_from_dict value = (case value of PDict d \<Rightarrow>
       rbind (res_depth_optional (dict_get d ''approved_depth'')) (\<lambda>approved_depth.
       rbind (res_parse_datetime (dict_get d ''decided_at'') ''decided_at'') (\<lambda>decided_at.
       resource_decision_init
         \<lparr>rda_decision_id = dict_get d ''decision_id'', rda_request_id = dict_get d ''request_id'',
          rda_subject_id = dict_get d ''subject_id'', rda_session_id = dict_get d ''session_id'',
          rda_allowed = dict_get d ''allowed'', rda_approved_depth = depth_val approved_depth,
          rda_allocated_tokens = dict_get d ''allocated_tokens'',
          rda_allocated_compute = dict_get d ''allocated_compute'',
          rda_lower_frequency = dict_get d ''lower_frequency'', rda_defer = dict_get d ''defer'',
          rda_reason = dict_get d ''reason'',
          rda_recommended_mode = dict_get d ''recommended_mode'',
          rda_decided_at = decided_at\<rparr>))
     | _ \<Rightarrow> Inl (res_invalid ''resource decision must be an object''))"

lemma res_flag_run [simp]: "res_flag (PBool b) = Inr b"
  by (simp add: res_flag_def)

lemma resource_decision_init_wf: "resource_decision_init a = Inr d \<Longrightarrow> wf_resource_decision d"
  unfolding resource_decision_init_def
  by (elim rbindE) (auto simp: wf_resource_decision_def res_text_Inr res_nat_Inr)

lemma resource_decision_init_args:
  "wf_resource_decision d \<Longrightarrow> resource_decision_init (resource_decision_args_of d) = Inr d"
  by (auto simp: resource_decision_init_def resource_decision_args_of_def wf_resource_decision_def
      res_run ensure_def)

lemma resource_decision_init_Inr:
  "resource_decision_init (resource_decision_args_of d) = Inr d' \<longleftrightarrow> wf_resource_decision d \<and> d' = d"
proof
  assume r: "resource_decision_init (resource_decision_args_of d) = Inr d'"
  then have "d' = d"
    unfolding resource_decision_init_def resource_decision_args_of_def
    by (cases d; elim rbindE; auto simp: res_text_Inr res_nat_Inr)
  with r show "wf_resource_decision d \<and> d' = d"
    using resource_decision_init_wf by blast
qed (simp add: resource_decision_init_args)

lemma resource_decision_roundtrip:
  "wf_resource_decision d \<Longrightarrow> resource_decision_from_dict (resource_decision_to_dict d) = Inr d"
  using resource_decision_init_args [of d]
  by (simp add: resource_decision_from_dict_def resource_decision_to_dict_def
      resource_decision_args_of_def)

lemma resource_decision_from_dict_wf:
  "resource_decision_from_dict v = Inr d \<Longrightarrow> wf_resource_decision d"
  by (auto simp: resource_decision_from_dict_def rbind_eq_Inr split: pyval.splits
      dest: resource_decision_init_wf)

section \<open>Allocations\<close>

record resource_allocation =
  al_state :: resource_state
  al_request :: resource_request
  al_decision :: resource_decision
  al_usage :: "token_usage_record option"

definition resource_allocation_init ::
  "resource_state \<Rightarrow> resource_request \<Rightarrow> resource_decision \<Rightarrow> token_usage_record option
     \<Rightarrow> resource_allocation res" where
  "resource_allocation_init state request decision usage =
     rbind (ensure (rs_subject_id state = rq_subject_id request
         \<and> rd_subject_id decision = rq_subject_id request
         \<and> rd_request_id decision = rq_request_id request)
       (res_invalid ''resource allocation references do not match'')) (\<lambda>_.
     rbind (ensure (rd_allowed decision = (usage \<noteq> None))
       (res_invalid ''allowed resource allocations require exactly one usage record'')) (\<lambda>_.
     rbind (ensure (case usage of None \<Rightarrow> True | Some u \<Rightarrow>
           tu_subject_id u = rq_subject_id request \<and> tu_session_id u = rq_session_id request)
       (res_invalid ''usage record does not match allocation'')) (\<lambda>_.
     Inr \<lparr>al_state = state, al_request = request, al_decision = decision, al_usage = usage\<rparr>)))"

lemma resource_allocation_init_Inr:
  "resource_allocation_init s r d u = Inr al \<Longrightarrow>
     al = \<lparr>al_state = s, al_request = r, al_decision = d, al_usage = u\<rparr>"
  unfolding resource_allocation_init_def by (elim rbindE) simp

end
