(* ===== verification/Scheduler_Service.thy ===== *)
theory Scheduler_Service
  imports Scheduler_Repository Resources "HOL-Library.Product_Lexorder"
begin

text \<open>
  services/scheduler_service.py: one bounded computation opportunity per tick. The service's
  configuration is \<open>scheduler_config\<close>; what it is handed from outside is \<open>scheduler_ports\<close>
  (clock reading, notification adapter, resource preview, lifecycle gate, whether the disk
  accepts the write of a revision, and the digest). \<open>scheduler_world\<close> is what its calls
  change: the queue file and the requests that reached the adapter.
\<close>

section \<open>Configuration and surroundings\<close>

record scheduler_config =
  sc_capacity :: int
  sc_aging_interval_seconds :: int
  sc_retry_base_seconds :: int
  sc_quiet_hours :: "quiet_hours option"
  sc_estimated_tokens :: int
  sc_estimated_compute :: int
  sc_resource_scan_limit :: int

definition config_positive :: "pyval \<Rightarrow> string \<Rightarrow> int res" where
  "config_positive v name = (case v of
       PInt n \<Rightarrow> if n \<le> 0 then Inl (sched_invalid (name @ '' must be positive'')) else Inr n
     | _ \<Rightarrow> Inl (sched_invalid (name @ '' must be positive'')))"

definition config_non_negative :: "pyval \<Rightarrow> string \<Rightarrow> int res" where
  "config_non_negative v name = (case v of
       PInt n \<Rightarrow> if n < 0 then Inl (sched_invalid (name @ '' must be non-negative'')) else Inr n
     | _ \<Rightarrow> Inl (sched_invalid (name @ '' must be non-negative'')))"

definition scheduler_service_init ::
  "pyval \<Rightarrow> pyval \<Rightarrow> pyval \<Rightarrow> quiet_hours option \<Rightarrow> pyval \<Rightarrow> pyval \<Rightarrow> pyval \<Rightarrow> scheduler_config res" where
  "scheduler_service_init capacity aging retry quiet tokens compute scan =
     rbind (config_positive capacity ''capacity'') (\<lambda>capacity.
     rbind (config_positive aging ''aging_interval_seconds'') (\<lambda>aging.
     rbind (config_positive retry ''retry_base_seconds'') (\<lambda>retry.
     rbind (config_positive scan ''resource_scan_limit'') (\<lambda>scan.
     rbind (ensure (scan \<le> capacity)
       (sched_invalid ''resource_scan_limit must not exceed capacity'')) (\<lambda>_.
     rbind (config_non_negative tokens ''estimated_tokens'') (\<lambda>tokens.
     rbind (config_non_negative compute ''estimated_compute'') (\<lambda>compute.
     Inr \<lparr>sc_capacity = capacity, sc_aging_interval_seconds = aging,
       sc_retry_base_seconds = retry, sc_quiet_hours = quiet, sc_estimated_tokens = tokens,
       sc_estimated_compute = compute, sc_resource_scan_limit = scan\<rparr>)))))))"

definition wf_config :: "scheduler_config \<Rightarrow> bool" where
  "wf_config c \<longleftrightarrow> 0 < sc_capacity c \<and> 0 < sc_aging_interval_seconds c
     \<and> 0 < sc_retry_base_seconds c \<and> 0 < sc_resource_scan_limit c
     \<and> sc_resource_scan_limit c \<le> sc_capacity c
     \<and> 0 \<le> sc_estimated_tokens c \<and> 0 \<le> sc_estimated_compute c"

lemma scheduler_service_init_wf: "scheduler_service_init a b c d e f g = Inr s \<Longrightarrow> wf_config s"
  unfolding scheduler_service_init_def
  by (elim rbindE)
    (auto simp: wf_config_def config_positive_def config_non_negative_def
      split: pyval.splits if_splits)

text \<open>
  What a call of the notification adapter comes to: a receipt, some other object, the identity
  conflict exception, or any other exception.
\<close>

datatype adapter_result =
  Adapter_Receipt notification_receipt | Adapter_Other | Adapter_Binding_Conflict | Adapter_Raised

record scheduler_ports =
  sp_sha :: digest_fun
  sp_clock :: pyval
  sp_dispatch :: "notification_request \<Rightarrow> adapter_result"
  sp_query :: "notification_request \<Rightarrow> adapter_result"
  sp_preview :: "resource_request \<Rightarrow> resource_decision res"
  sp_require_active :: "(string \<Rightarrow> string \<Rightarrow> unit res) option"
  sp_disk_ok :: "int \<Rightarrow> bool"

record scheduler_world =
  sw_file :: file_state
  sw_dispatched :: "notification_request list"
  sw_queried :: "notification_request list"

section \<open>Helpers of the service\<close>

text \<open>\<open>_now\<close>: the clock reading is validated by a probe task.\<close>

definition sched_now :: "pyval \<Rightarrow> instant res" where
  "sched_now v =
     rbind (scheduler_task_create (PStr ''clock-probe'') (PStr ''clock-probe'') (PStr ''TEST'')
       (PInt 0) v (PStr ''internal'') (PStr ''clock-probe'') v PNone (PInt 3)) (\<lambda>probe.
     Inr (st_created_at probe))"

definition find_task :: "scheduler_queue \<Rightarrow> string \<Rightarrow> scheduler_task option" where
  "find_task q task_id = List.find (\<lambda>t. st_task_id t = task_id) (sq_tasks q)"

text \<open>
  A task of the loaded queue is a shared object: assigning to its attributes changes the
  queue's entry.
\<close>

definition queue_put :: "scheduler_queue \<Rightarrow> scheduler_task \<Rightarrow> scheduler_queue" where
  "queue_put q t = q\<lparr>sq_tasks := map (\<lambda>x. if st_task_id x = st_task_id t then t else x) (sq_tasks q)\<rparr>"

definition binding_matches :: "scheduler_task \<Rightarrow> string \<Rightarrow> string \<Rightarrow> bool" where
  "binding_matches t subject_id environment \<longleftrightarrow>
     st_subject_id t = subject_id \<and> st_environment t = environment"

definition require_binding :: "scheduler_task \<Rightarrow> string \<Rightarrow> string \<Rightarrow> unit res" where
  "require_binding t subject_id environment =
     ensure (st_subject_id t = subject_id \<and> st_environment t = environment)
       (SchedulerIdentityConflictError, ''scheduler task binding does not match'')"

definition receipt_matches :: "scheduler_task \<Rightarrow> notification_receipt \<Rightarrow> bool" where
  "receipt_matches t r \<longleftrightarrow> nr_task_id r = st_task_id t \<and> Some (nr_attempt_id r) = st_last_attempt_id t
     \<and> nr_subject_id r = st_subject_id t \<and> nr_environment r = st_environment t"

definition service_load :: "scheduler_ports \<Rightarrow> (scheduler_world, scheduler_queue) prog" where
  "service_load p w = (w, load_queue (sp_sha p) (sw_file w))"

definition service_save :: "scheduler_ports \<Rightarrow> scheduler_queue \<Rightarrow> (scheduler_world, scheduler_queue) prog" where
  "service_save p queue w =
     (let expected = sq_revision queue;
          queue = queue\<lparr>sq_revision := expected + 1\<rparr>
      in case save_queue (sp_sha p) (sp_disk_ok p (sq_revision queue)) queue expected (sw_file w) of
        Inl e \<Rightarrow> (w, Inl e)
      | Inr f \<Rightarrow> (w\<lparr>sw_file := f\<rparr>, Inr queue))"

definition service_request :: "scheduler_task \<Rightarrow> instant \<Rightarrow> notification_request res" where
  "service_request t now = (case st_last_attempt_id t of
       None \<Rightarrow> Inl (sched_invalid ''pending task has no attempt identity'')
     | Some attempt_id \<Rightarrow> notification_request_init (PStr (st_task_id t)) (PStr attempt_id)
         (PStr (st_subject_id t)) (PStr (st_environment t)) (PStr (st_cycle_id t))
         (PStr (wake_reason_value (st_wake_reason t))) (st_source_event_id t) (utc_val now))"

definition sched_sort_key ::
  "scheduler_config \<Rightarrow> instant \<Rightarrow> scheduler_task \<Rightarrow> (int \<times> instant \<times> int \<times> string) res" where
  "sched_sort_key c now t =
     rbind (effective_priority t now (sc_aging_interval_seconds c)) (\<lambda>p.
     Inr (- p, st_due_at t, st_sequence t, st_task_id t))"

definition sort_ready ::
  "scheduler_config \<Rightarrow> instant \<Rightarrow> scheduler_task list \<Rightarrow> scheduler_task list res" where
  "sort_ready c now ready =
     rbind (rmap (\<lambda>t. rbind (sched_sort_key c now t) (\<lambda>k. Inr (k, t))) ready) (\<lambda>keyed.
     Inr (map snd (sort_key fst keyed)))"

definition resource_request_id :: "digest_fun \<Rightarrow> string \<Rightarrow> string" where
  "resource_request_id sha attempt_id = ''p11-resource-'' @ sha attempt_id"

definition task_due :: "scheduler_task \<Rightarrow> instant \<Rightarrow> bool" where
  "task_due t now \<longleftrightarrow> st_due_at t \<le> now \<and>
     (case st_next_attempt_at t of None \<Rightarrow> True | Some n \<Rightarrow> n \<le> now)"

definition waiting_state :: "scheduler_task_state \<Rightarrow> bool" where
  "waiting_state s \<longleftrightarrow> s = QUEUED \<or> s = RETRY_WAIT"

text \<open>A tick result carries a clone of the task.\<close>

definition tick_report ::
  "scheduler_ports \<Rightarrow> scheduler_tick_status \<Rightarrow> scheduler_task \<Rightarrow> int \<Rightarrow> string
     \<Rightarrow> notification_receipt option \<Rightarrow> scheduler_tick_result res" where
  "tick_report p status t revision reason receipt = rbind (task_clone (sp_sha p) t) (\<lambda>c.
     Inr \<lparr>tr_status = status, tr_task = Some c, tr_queue_revision = revision,
       tr_reason_code = reason, tr_receipt = receipt\<rparr>)"

text \<open>
  The end of every branch that changed a task: re-validate it, save the queue, report.
\<close>

definition commit_task ::
  "scheduler_ports \<Rightarrow> scheduler_queue \<Rightarrow> scheduler_task \<Rightarrow> scheduler_tick_status \<Rightarrow> string
     \<Rightarrow> notification_receipt option \<Rightarrow> (scheduler_world, scheduler_tick_result) prog" where
  "commit_task p queue t status reason receipt =
     sbind (slift (task_recheck t)) (\<lambda>t.
     sbind (service_save p (queue_put queue t)) (\<lambda>queue.
     slift (tick_report p status t (sq_revision queue) reason receipt)))"

section \<open>Admission and reads\<close>

definition pristine_task :: "scheduler_task \<Rightarrow> bool" where
  "pristine_task t \<longleftrightarrow> st_state t = QUEUED \<and> st_sequence t = 0 \<and> st_revision t = 0 \<and>
     st_attempt_count t = 0 \<and> st_next_attempt_at t = None \<and> st_last_attempt_id t = None \<and>
     st_last_receipt_id t = None \<and> st_last_receipt_hash t = None \<and>
     st_last_receipt_status t = None \<and> st_cancel_requested_at t = None \<and>
     st_completed_at t = None \<and> st_reason_codes t = []"

definition active_count :: "scheduler_queue \<Rightarrow> int" where
  "active_count q = int (length (filter (\<lambda>t. \<not> terminal_state (st_state t)) (sq_tasks q)))"

definition submit ::
  "scheduler_config \<Rightarrow> scheduler_ports \<Rightarrow> scheduler_task
     \<Rightarrow> (scheduler_world, scheduler_admission_result) prog" where
  "submit c p task =
     (if \<not> pristine_task task
      then slift (Inl (sched_invalid ''new task must be a pristine unassigned queued record''))
      else sbind (service_load p) (\<lambda>queue.
        case find_task queue (st_task_id task) of
          Some existing \<Rightarrow>
            (if task_identity_hash (sp_sha p) existing \<noteq> task_identity_hash (sp_sha p) task
             then slift (Inl (SchedulerIdentityConflictError,
               ''scheduler task identity is already bound''))
             else slift (rbind (task_clone (sp_sha p) existing) (\<lambda>e.
               Inr \<lparr>ar_status = DUPLICATE, ar_task = Some e, ar_queue_revision = sq_revision queue,
                 ar_reason_code = ''DUPLICATE_IDENTITY''\<rparr>)))
        | None \<Rightarrow>
            (if active_count queue \<ge> sc_capacity c
             then sret \<lparr>ar_status = BACKPRESSURE, ar_task = None,
               ar_queue_revision = sq_revision queue, ar_reason_code = ''QUEUE_CAPACITY_REACHED''\<rparr>
             else
               sbind (slift (task_clone (sp_sha p) task)) (\<lambda>admitted.
               sbind (slift (task_recheck (admitted\<lparr>st_sequence := sq_next_sequence queue,
                 st_revision := 1, st_reason_codes := [''ADMITTED'']\<rparr>))) (\<lambda>admitted.
               sbind (service_save p (queue\<lparr>sq_next_sequence := sq_next_sequence queue + 1,
                 sq_tasks := sq_tasks queue @ [admitted]\<rparr>)) (\<lambda>queue.
               slift (rbind (task_clone (sp_sha p) admitted) (\<lambda>a.
                 Inr \<lparr>ar_status = ACCEPTED, ar_task = Some a, ar_queue_revision = sq_revision queue,
                   ar_reason_code = ''ADMITTED''\<rparr>))))))))"

definition get_task ::
  "scheduler_ports \<Rightarrow> string \<Rightarrow> string \<Rightarrow> string \<Rightarrow> (scheduler_world, scheduler_task) prog" where
  "get_task p task_id subject_id environment =
     sbind (service_load p) (\<lambda>queue.
     case find_task queue task_id of
       None \<Rightarrow> slift (Inl (SchedulerIdentityConflictError, ''scheduler task was not found''))
     | Some t \<Rightarrow> slift (rbind (require_binding t subject_id environment) (\<lambda>_.
         task_clone (sp_sha p) t)))"

definition list_tasks ::
  "scheduler_ports \<Rightarrow> string \<Rightarrow> string \<Rightarrow> (scheduler_world, scheduler_task list) prog" where
  "list_tasks p subject_id environment =
     sbind (service_load p) (\<lambda>queue.
     slift (rmap (task_clone (sp_sha p))
       (filter (\<lambda>t. binding_matches t subject_id environment)
         (sort_key (\<lambda>t. (st_sequence t, st_task_id t)) (sq_tasks queue)))))"

definition ready_tasks ::
  "scheduler_config \<Rightarrow> scheduler_ports \<Rightarrow> string \<Rightarrow> string
     \<Rightarrow> (scheduler_world, scheduler_task list) prog" where
  "ready_tasks c p subject_id environment =
     sbind (slift (sched_now (sp_clock p))) (\<lambda>now.
     sbind (service_load p) (\<lambda>queue.
     slift (rbind (sort_ready c now (filter (\<lambda>t. binding_matches t subject_id environment \<and>
         waiting_state (st_state t) \<and> task_due t now) (sq_tasks queue))) (\<lambda>ready.
       rmap (task_clone (sp_sha p)) ready))))"

section \<open>Receipts\<close>

text \<open>The receipt's identity, digest and status, recorded on the task.\<close>

definition bind_receipt :: "digest_fun \<Rightarrow> scheduler_task \<Rightarrow> notification_receipt \<Rightarrow> scheduler_task" where
  "bind_receipt sha task receipt =
     task\<lparr>st_last_receipt_id := Some (nr_receipt_id receipt),
       st_last_receipt_hash := Some (receipt_hash sha receipt),
       st_last_receipt_status := Some (nr_status receipt), st_revision := st_revision task + 1\<rparr>"

definition reconcile_receipt ::
  "scheduler_config \<Rightarrow> scheduler_ports \<Rightarrow> scheduler_queue \<Rightarrow> scheduler_task \<Rightarrow> notification_receipt
     \<Rightarrow> instant \<Rightarrow> bool \<Rightarrow> (scheduler_world, scheduler_tick_result) prog" where
  "reconcile_receipt c p queue task receipt now from_query =
     (let t = bind_receipt (sp_sha p) task receipt;
          with_code = (\<lambda>code. st_reason_codes task @ [code])
      in
      if nr_status receipt = Notification_DELIVERED then
        (let code = if from_query then ''RECEIPT_RECONCILED'' else ''RECEIPT_DELIVERED'' in
         commit_task p queue (t\<lparr>st_state := COMPLETED, st_next_attempt_at := None,
             st_completed_at := Some (nr_observed_at receipt), st_reason_codes := with_code code\<rparr>)
           (if from_query then Tick_RECONCILED_COMPLETED else Tick_COMPLETED) code (Some receipt))
      else if nr_status receipt = Notification_UNKNOWN then
        sbind (slift (plus_seconds now (sc_retry_base_seconds c))) (\<lambda>later.
        commit_task p queue (t\<lparr>st_next_attempt_at := Some later,
            st_reason_codes := with_code ''RECEIPT_STILL_UNKNOWN''\<rparr>)
          Tick_VERIFICATION_PENDING ''RECEIPT_STILL_UNKNOWN'' (Some receipt))
      else if st_cancel_requested_at t \<noteq> None then
        commit_task p queue (t\<lparr>st_state := CANCELLED, st_next_attempt_at := None,
            st_reason_codes := with_code ''CANCELLED_AFTER_NOT_DELIVERED''\<rparr>)
          Tick_CANCELLED ''CANCELLED_AFTER_NOT_DELIVERED'' (Some receipt)
      else if st_attempt_count t \<ge> st_max_attempts t then
        commit_task p queue (t\<lparr>st_state := RETRY_EXHAUSTED, st_next_attempt_at := None,
            st_reason_codes := with_code ''RETRY_LIMIT_REACHED''\<rparr>)
          Tick_RETRY_EXHAUSTED ''RETRY_LIMIT_REACHED'' (Some receipt)
      else
        (let delay = sc_retry_base_seconds c * 2 ^ nat (st_attempt_count t - 1) in
         sbind (slift (plus_seconds now delay)) (\<lambda>later.
         commit_task p queue (t\<lparr>st_state := RETRY_WAIT, st_next_attempt_at := Some later,
             st_reason_codes := with_code ''RETRY_BACKOFF_SCHEDULED''\<rparr>)
           Tick_RETRY_SCHEDULED ''RETRY_BACKOFF_SCHEDULED'' (Some receipt))))"

definition apply_receipt ::
  "scheduler_config \<Rightarrow> scheduler_ports \<Rightarrow> string \<Rightarrow> notification_receipt \<Rightarrow> instant \<Rightarrow> bool
     \<Rightarrow> (scheduler_world, scheduler_tick_result) prog" where
  "apply_receipt c p task_id receipt now from_query =
     sbind (service_load p) (\<lambda>queue.
     case find_task queue task_id of
       None \<Rightarrow> slift (Inl (SchedulerIdentityConflictError, ''scheduler attempt is no longer pending''))
     | Some task \<Rightarrow>
         if st_state task \<noteq> UNKNOWN
         then slift (Inl (SchedulerIdentityConflictError, ''scheduler attempt is no longer pending''))
         else if \<not> receipt_matches task receipt
         then slift (tick_report p Tick_VERIFICATION_PENDING task (sq_revision queue)
           ''RECEIPT_BINDING_CONFLICT'' None)
         else reconcile_receipt c p queue task receipt now from_query)"

text \<open>The query did not settle the attempt: try again after the base delay.\<close>

definition query_backoff ::
  "scheduler_config \<Rightarrow> scheduler_ports \<Rightarrow> scheduler_task \<Rightarrow> instant \<Rightarrow> string \<Rightarrow> string
     \<Rightarrow> (scheduler_world, scheduler_tick_result) prog" where
  "query_backoff c p task now code reason =
     sbind (service_load p) (\<lambda>queue.
     case find_task queue (st_task_id task) of
       None \<Rightarrow> slift (tick_report p Tick_VERIFICATION_PENDING task (sq_revision queue) reason None)
     | Some current \<Rightarrow>
         if st_state current = UNKNOWN
         then sbind (slift (plus_seconds now (sc_retry_base_seconds c))) (\<lambda>later.
           commit_task p queue (current\<lparr>st_next_attempt_at := Some later,
               st_revision := st_revision current + 1,
               st_reason_codes := st_reason_codes current @ [code]\<rparr>)
             Tick_VERIFICATION_PENDING reason None)
         else slift (tick_report p Tick_VERIFICATION_PENDING current (sq_revision queue) reason None))"

definition send_query ::
  "scheduler_ports \<Rightarrow> notification_request \<Rightarrow> (scheduler_world, adapter_result) prog" where
  "send_query p request w = (w\<lparr>sw_queried := sw_queried w @ [request]\<rparr>, Inr (sp_query p request))"

definition query_unknown ::
  "scheduler_config \<Rightarrow> scheduler_ports \<Rightarrow> scheduler_task \<Rightarrow> instant
     \<Rightarrow> (scheduler_world, scheduler_tick_result) prog" where
  "query_unknown c p task now =
     sbind (slift (service_request task now)) (\<lambda>request.
     sbind (send_query p request) (\<lambda>answer.
     case answer of
       Adapter_Receipt receipt \<Rightarrow>
         if receipt_matches task receipt
         then apply_receipt c p (st_task_id task) receipt now True
         else query_backoff c p task now ''RECEIPT_CONFLICT_BACKOFF'' ''RECEIPT_BINDING_CONFLICT''
     | Adapter_Other \<Rightarrow>
         query_backoff c p task now ''RECEIPT_CONFLICT_BACKOFF'' ''RECEIPT_BINDING_CONFLICT''
     | Adapter_Binding_Conflict \<Rightarrow>
         query_backoff c p task now ''RECEIPT_QUERY_BACKOFF'' ''RECEIPT_QUERY_UNAVAILABLE''
     | Adapter_Raised \<Rightarrow>
         query_backoff c p task now ''RECEIPT_QUERY_BACKOFF'' ''RECEIPT_QUERY_UNAVAILABLE''))"

section \<open>The tick\<close>

definition send_dispatch ::
  "scheduler_ports \<Rightarrow> notification_request \<Rightarrow> (scheduler_world, adapter_result) prog" where
  "send_dispatch p request w =
     (w\<lparr>sw_dispatched := sw_dispatched w @ [request]\<rparr>, Inr (sp_dispatch p request))"

text \<open>The attempt is checkpointed as \<open>UNKNOWN\<close> before the adapter sees it.\<close>

definition checkpoint_task :: "scheduler_task \<Rightarrow> int \<Rightarrow> string \<Rightarrow> scheduler_task" where
  "checkpoint_task task attempt_number attempt_id =
     task\<lparr>st_attempt_count := attempt_number, st_last_attempt_id := Some attempt_id,
       st_last_receipt_id := None, st_last_receipt_hash := None, st_last_receipt_status := None,
       st_next_attempt_at := None, st_state := UNKNOWN, st_revision := st_revision task + 1,
       st_reason_codes := st_reason_codes task @ [''ATTEMPT_CHECKPOINTED'']\<rparr>"

definition dispatch_task ::
  "scheduler_config \<Rightarrow> scheduler_ports \<Rightarrow> instant \<Rightarrow> scheduler_queue \<Rightarrow> scheduler_task \<Rightarrow> int \<Rightarrow> string
     \<Rightarrow> (scheduler_world, scheduler_tick_result) prog" where
  "dispatch_task c p now queue task attempt_number attempt_id =
     sbind (slift (task_recheck (checkpoint_task task attempt_number attempt_id))) (\<lambda>task.
     sbind (service_save p (queue_put queue task)) (\<lambda>queue.
     sbind (slift (service_request task now)) (\<lambda>request.
     sbind (send_dispatch p request) (\<lambda>answer.
     case answer of
       Adapter_Binding_Conflict \<Rightarrow> slift (tick_report p Tick_VERIFICATION_PENDING task
         (sq_revision queue) ''DISPATCH_BINDING_CONFLICT'' None)
     | Adapter_Raised \<Rightarrow> slift (tick_report p Tick_VERIFICATION_PENDING task
         (sq_revision queue) ''DISPATCH_RESULT_UNKNOWN'' None)
     | Adapter_Other \<Rightarrow> slift (tick_report p Tick_VERIFICATION_PENDING task
         (sq_revision queue) ''RECEIPT_BINDING_CONFLICT'' None)
     | Adapter_Receipt receipt \<Rightarrow>
         if \<not> receipt_matches task receipt
         then slift (tick_report p Tick_VERIFICATION_PENDING task
           (sq_revision queue) ''RECEIPT_BINDING_CONFLICT'' None)
         else apply_receipt c p (st_task_id task) receipt now False))))"

text \<open>
  The scan of the ready tasks for one whose resource preview is allowed. The last clause for
  an empty scan without a deferred result is not reached: the limit is positive.
\<close>

definition preview_task ::
  "scheduler_config \<Rightarrow> scheduler_ports \<Rightarrow> instant \<Rightarrow> scheduler_task \<Rightarrow> string \<Rightarrow> (bool \<times> string) res" where
  "preview_task c p now task attempt_id =
     rbind (resource_request_init
       \<lparr>rqa_request_id = PStr (resource_request_id (sp_sha p) attempt_id),
        rqa_subject_id = PStr (st_subject_id task), rqa_session_id = PStr attempt_id,
        rqa_session_type = PStr (session_type_value Session_OTHER),
        rqa_estimated_tokens = PInt (sc_estimated_tokens c),
        rqa_estimated_compute = PInt (sc_estimated_compute c),
        rqa_model_name = PStr ''not-applicable'',
        rqa_reason = PStr ''Evaluate one P11 scheduler computation opportunity.'',
        rqa_requested_at = utc_val now, rqa_requested_depth = PNone\<rparr>) (\<lambda>request.
     Inr (case sp_preview p request of
         Inl _ \<Rightarrow> (False, ''RESOURCE_STATE_UNAVAILABLE'')
       | Inr d \<Rightarrow> (rd_allowed d \<and> \<not> rd_defer d, ''RESOURCE_POLICY_DEFERRED'')))"

fun resource_scan ::
  "scheduler_config \<Rightarrow> scheduler_ports \<Rightarrow> instant \<Rightarrow> int \<Rightarrow> scheduler_tick_result option
     \<Rightarrow> scheduler_task list \<Rightarrow> (scheduler_tick_result + (scheduler_task \<times> int \<times> string)) res" where
  "resource_scan c p now revision deferred [] = (case deferred of
       None \<Rightarrow> Inl (OtherError, ''no task was scanned'') | Some d \<Rightarrow> Inr (Inl d))"
| "resource_scan c p now revision deferred (task # rest) =
     (let attempt_number = st_attempt_count task + 1 in
      rbind (stable_attempt_id (sp_sha p) (PStr (st_task_id task)) attempt_number) (\<lambda>attempt_id.
      rbind (preview_task c p now task attempt_id) (\<lambda>(allowed, reason).
      if allowed then Inr (Inr (task, attempt_number, attempt_id))
      else (case deferred of
          Some d \<Rightarrow> resource_scan c p now revision (Some d) rest
        | None \<Rightarrow> rbind (tick_report p Tick_RESOURCE_DEFERRED task revision reason None) (\<lambda>d.
            resource_scan c p now revision (Some d) rest)))))"

definition idle_result :: "scheduler_tick_status \<Rightarrow> scheduler_queue \<Rightarrow> string \<Rightarrow> scheduler_tick_result" where
  "idle_result status queue reason = \<lparr>tr_status = status, tr_task = None,
     tr_queue_revision = sq_revision queue, tr_reason_code = reason, tr_receipt = None\<rparr>"

definition tick_ready ::
  "scheduler_config \<Rightarrow> scheduler_ports \<Rightarrow> string \<Rightarrow> string \<Rightarrow> instant \<Rightarrow> scheduler_queue
     \<Rightarrow> scheduler_task list \<Rightarrow> (scheduler_world, scheduler_tick_result) prog" where
  "tick_ready c p subject_id environment now queue ready =
     (let quiet =
        (case sc_quiet_hours c of
           Some q \<Rightarrow> quiet_hours_contains q now
         | None \<Rightarrow> False);
        scan = sbind (slift (resource_scan c p now (sq_revision queue) None
            (take (nat (min (sc_resource_scan_limit c) (sc_capacity c))) ready))) (\<lambda>choice.
          case choice of
            Inl deferred \<Rightarrow> sret deferred
          | Inr (task, attempt_number, attempt_id) \<Rightarrow>
              dispatch_task c p now queue task attempt_number attempt_id);
        rest = (if quiet
          then slift (tick_report p Tick_QUIET_HOURS (hd ready) (sq_revision queue)
            ''QUIET_HOURS_ACTIVE'' None)
          else scan)
      in case sp_require_active p of
        None \<Rightarrow> rest
      | Some gate \<Rightarrow> (case gate subject_id environment of
          Inr _ \<Rightarrow> rest
        | Inl (LifecycleError, message) \<Rightarrow>
            slift (tick_report p Tick_RESOURCE_DEFERRED (hd ready) (sq_revision queue) message None)
        | Inl e \<Rightarrow> slift (Inl e)))"

definition tick_candidates ::
  "scheduler_config \<Rightarrow> scheduler_ports \<Rightarrow> string \<Rightarrow> string \<Rightarrow> instant
     \<Rightarrow> scheduler_tick_result option \<Rightarrow> scheduler_queue \<Rightarrow> (scheduler_world, scheduler_tick_result) prog" where
  "tick_candidates c p subject_id environment now verification queue =
     (let mine = filter (\<lambda>t. binding_matches t subject_id environment) (sq_tasks queue);
          candidates = filter (\<lambda>t. waiting_state (st_state t)) mine;
          waiting_unknown = (\<exists>t \<in> set mine. st_state t = UNKNOWN);
          ready = filter (\<lambda>t. task_due t now) candidates
      in
      if candidates = [] then
        (case verification of
           Some v \<Rightarrow> sret v
         | None \<Rightarrow> sret (if waiting_unknown
             then idle_result Tick_NOT_DUE queue ''VERIFICATION_BACKOFF_ACTIVE''
             else idle_result Tick_IDLE queue ''NO_ACTIVE_TASK''))
      else if ready = [] then
        (case verification of
           Some v \<Rightarrow> sret v
         | None \<Rightarrow> sret (idle_result Tick_NOT_DUE queue ''NO_TASK_DUE''))
      else sbind (slift (sort_ready c now ready)) (\<lambda>ready.
        tick_ready c p subject_id environment now queue ready))"

definition unknown_key :: "scheduler_task \<Rightarrow> instant \<times> int \<times> string" where
  "unknown_key t = ((case st_next_attempt_at t of None \<Rightarrow> st_created_at t | Some n \<Rightarrow> n),
     st_sequence t, st_task_id t)"

definition due_unknown ::
  "string \<Rightarrow> string \<Rightarrow> instant \<Rightarrow> scheduler_queue \<Rightarrow> scheduler_task list" where
  "due_unknown subject_id environment now queue =
     sort_key unknown_key (filter (\<lambda>t. binding_matches t subject_id environment \<and>
       st_state t = UNKNOWN \<and> (case st_next_attempt_at t of None \<Rightarrow> True | Some n \<Rightarrow> n \<le> now))
       (sq_tasks queue))"

definition tick ::
  "scheduler_config \<Rightarrow> scheduler_ports \<Rightarrow> string \<Rightarrow> string
     \<Rightarrow> (scheduler_world, scheduler_tick_result) prog" where
  "tick c p subject_id environment =
     sbind (slift (sched_now (sp_clock p))) (\<lambda>now.
     sbind (service_load p) (\<lambda>queue.
     case due_unknown subject_id environment now queue of
       [] \<Rightarrow> tick_candidates c p subject_id environment now None queue
     | u # _ \<Rightarrow>
         sbind (query_unknown c p u now) (\<lambda>verification.
         if tr_status verification \<noteq> Tick_VERIFICATION_PENDING then sret verification
         else sbind (service_load p) (\<lambda>queue.
           tick_candidates c p subject_id environment now (Some verification) queue))))"

section \<open>Cancellation\<close>

definition cancel_report ::
  "scheduler_ports \<Rightarrow> scheduler_cancel_status \<Rightarrow> scheduler_task \<Rightarrow> int \<Rightarrow> string
     \<Rightarrow> scheduler_cancel_result res" where
  "cancel_report p status t revision reason = rbind (task_clone (sp_sha p) t) (\<lambda>c.
     Inr \<lparr>cr_status = status, cr_task = c, cr_queue_revision = revision, cr_reason_code = reason\<rparr>)"

definition cancel ::
  "scheduler_ports \<Rightarrow> string \<Rightarrow> string \<Rightarrow> string \<Rightarrow> (scheduler_world, scheduler_cancel_result) prog" where
  "cancel p task_id subject_id environment =
     sbind (slift (sched_now (sp_clock p))) (\<lambda>now.
     sbind (service_load p) (\<lambda>queue.
     case find_task queue task_id of
       None \<Rightarrow> slift (Inl (SchedulerIdentityConflictError, ''scheduler task was not found''))
     | Some task \<Rightarrow>
       sbind (slift (require_binding task subject_id environment)) (\<lambda>_.
       case st_state task of
         COMPLETED \<Rightarrow> slift (cancel_report p Cancel_ALREADY_COMPLETED task (sq_revision queue)
           ''COMPLETED_IS_FINAL'')
       | CANCELLED \<Rightarrow> slift (cancel_report p Cancel_ALREADY_CANCELLED task (sq_revision queue)
           ''CANCEL_ALREADY_RECORDED'')
       | RETRY_EXHAUSTED \<Rightarrow> slift (cancel_report p Cancel_TERMINAL task (sq_revision queue)
           ''RETRY_LIMIT_IS_FINAL'')
       | UNKNOWN \<Rightarrow>
           (if st_cancel_requested_at task = None
            then sbind (slift (task_recheck (task\<lparr>st_cancel_requested_at := Some now,
                st_next_attempt_at := None, st_revision := st_revision task + 1,
                st_reason_codes := st_reason_codes task @ [''CANCEL_AWAITS_RECEIPT'']\<rparr>))) (\<lambda>task.
              sbind (service_save p (queue_put queue task)) (\<lambda>queue.
              slift (cancel_report p Cancel_VERIFICATION_REQUIRED task (sq_revision queue)
                ''CANCEL_AWAITS_RECEIPT'')))
            else slift (cancel_report p Cancel_VERIFICATION_REQUIRED task (sq_revision queue)
              ''CANCEL_AWAITS_RECEIPT''))
       | _ \<Rightarrow>
           sbind (slift (task_recheck (task\<lparr>st_state := CANCELLED,
               st_cancel_requested_at := Some now, st_next_attempt_at := None,
               st_revision := st_revision task + 1,
               st_reason_codes := st_reason_codes task @ [''CANCELLED_BEFORE_DISPATCH'']\<rparr>))) (\<lambda>task.
           sbind (service_save p (queue_put queue task)) (\<lambda>queue.
           slift (cancel_report p Cancel_CANCELLED task (sq_revision queue)
             ''CANCELLED_BEFORE_DISPATCH''))))))"

end
