(* ===== verification/Scheduler_Spec.thy ===== *)
theory Scheduler_Spec
  imports Scheduler_Service
begin

text \<open>
  What the scheduler promises, as step relations: \<open>task_step\<close> is the life of one task,
  \<open>queue_step\<close> one saved change of the queue, \<open>world_step\<close> one change of the queue file or of
  what the adapter has seen. A dispatch happens only together with the checkpoint of the
  attempt it belongs to. The invariants of these relations are proved here; that the
  operations of the service take no other steps is shown in \<open>Scheduler_Refinement\<close>.
\<close>

section \<open>The life of a task\<close>

inductive task_step :: "digest_fun \<Rightarrow> scheduler_config \<Rightarrow> scheduler_task \<Rightarrow> scheduler_task \<Rightarrow> bool"
  for sha c where
  ts_checkpoint: "waiting_state (st_state t) \<Longrightarrow>
    stable_attempt_id sha (PStr (st_task_id t)) (st_attempt_count t + 1) = Inr a \<Longrightarrow>
    task_step sha c t (checkpoint_task t (st_attempt_count t + 1) a)"
| ts_backoff: "st_state t = UNKNOWN \<Longrightarrow> plus_seconds now (sc_retry_base_seconds c) = Inr later \<Longrightarrow>
    task_step sha c t (t\<lparr>st_next_attempt_at := Some later, st_revision := st_revision t + 1,
      st_reason_codes := st_reason_codes t @ [code]\<rparr>)"
| ts_delivered: "st_state t = UNKNOWN \<Longrightarrow> receipt_matches t r \<Longrightarrow>
    nr_status r = Notification_DELIVERED \<Longrightarrow>
    task_step sha c t ((bind_receipt sha t r)\<lparr>st_state := COMPLETED, st_next_attempt_at := None,
      st_completed_at := Some (nr_observed_at r), st_reason_codes := st_reason_codes t @ [code]\<rparr>)"
| ts_still_unknown: "st_state t = UNKNOWN \<Longrightarrow> receipt_matches t r \<Longrightarrow>
    nr_status r = Notification_UNKNOWN \<Longrightarrow>
    plus_seconds now (sc_retry_base_seconds c) = Inr later \<Longrightarrow>
    task_step sha c t ((bind_receipt sha t r)\<lparr>st_next_attempt_at := Some later,
      st_reason_codes := st_reason_codes t @ [code]\<rparr>)"
| ts_cancelled_late: "st_state t = UNKNOWN \<Longrightarrow> receipt_matches t r \<Longrightarrow>
    nr_status r \<in> {Notification_FAILED, Notification_NOT_DELIVERED} \<Longrightarrow>
    st_cancel_requested_at t \<noteq> None \<Longrightarrow>
    task_step sha c t ((bind_receipt sha t r)\<lparr>st_state := CANCELLED, st_next_attempt_at := None,
      st_reason_codes := st_reason_codes t @ [code]\<rparr>)"
| ts_exhausted: "st_state t = UNKNOWN \<Longrightarrow> receipt_matches t r \<Longrightarrow>
    nr_status r \<in> {Notification_FAILED, Notification_NOT_DELIVERED} \<Longrightarrow>
    st_cancel_requested_at t = None \<Longrightarrow> st_attempt_count t \<ge> st_max_attempts t \<Longrightarrow>
    task_step sha c t ((bind_receipt sha t r)\<lparr>st_state := RETRY_EXHAUSTED,
      st_next_attempt_at := None, st_reason_codes := st_reason_codes t @ [code]\<rparr>)"
| ts_retry: "st_state t = UNKNOWN \<Longrightarrow> receipt_matches t r \<Longrightarrow>
    nr_status r \<in> {Notification_FAILED, Notification_NOT_DELIVERED} \<Longrightarrow>
    st_cancel_requested_at t = None \<Longrightarrow> st_attempt_count t < st_max_attempts t \<Longrightarrow>
    plus_seconds now (sc_retry_base_seconds c * 2 ^ nat (st_attempt_count t - 1)) = Inr later \<Longrightarrow>
    task_step sha c t ((bind_receipt sha t r)\<lparr>st_state := RETRY_WAIT,
      st_next_attempt_at := Some later, st_reason_codes := st_reason_codes t @ [code]\<rparr>)"
| ts_cancel_asked: "st_state t = UNKNOWN \<Longrightarrow> st_cancel_requested_at t = None \<Longrightarrow>
    task_step sha c t (t\<lparr>st_cancel_requested_at := Some now, st_next_attempt_at := None,
      st_revision := st_revision t + 1, st_reason_codes := st_reason_codes t @ [code]\<rparr>)"
| ts_cancelled: "waiting_state (st_state t) \<Longrightarrow>
    task_step sha c t (t\<lparr>st_state := CANCELLED, st_cancel_requested_at := Some now,
      st_next_attempt_at := None, st_revision := st_revision t + 1,
      st_reason_codes := st_reason_codes t @ [code]\<rparr>)"

lemmas task_step_defs = checkpoint_task_def bind_receipt_def

text \<open>What no step of a task changes: everything its identity digest covers.\<close>

definition same_identity :: "scheduler_task \<Rightarrow> scheduler_task \<Rightarrow> bool" where
  "same_identity t t' \<longleftrightarrow> st_task_id t' = st_task_id t \<and> st_subject_id t' = st_subject_id t \<and>
     st_environment t' = st_environment t \<and> st_priority t' = st_priority t \<and>
     st_due_at t' = st_due_at t \<and> st_wake_reason t' = st_wake_reason t \<and>
     st_cycle_id t' = st_cycle_id t \<and> st_created_at t' = st_created_at t \<and>
     st_source_event_id t' = st_source_event_id t \<and> st_max_attempts t' = st_max_attempts t \<and>
     st_sequence t' = st_sequence t"

lemma task_step_identity: "task_step sha c t t' \<Longrightarrow> same_identity t t'"
  by (induction rule: task_step.induct) (auto simp: same_identity_def task_step_defs)

lemma task_step_identity_simps:
  assumes "task_step sha c t t'"
  shows "st_task_id t' = st_task_id t" "st_sequence t' = st_sequence t"
    "st_max_attempts t' = st_max_attempts t"
  using task_step_identity [OF assms] by (simp_all add: same_identity_def)

lemma task_step_revision: "task_step sha c t t' \<Longrightarrow> st_revision t' = st_revision t + 1"
  by (induction rule: task_step.induct) (auto simp: task_step_defs)

lemma task_step_active: "task_step sha c t t' \<Longrightarrow> \<not> terminal_state (st_state t)"
  by (induction rule: task_step.induct) (auto simp: waiting_state_def terminal_state_def)

lemma task_step_attempts:
  "task_step sha c t t' \<Longrightarrow> st_attempt_count t' =
     st_attempt_count t + (if waiting_state (st_state t) \<and> st_state t' = UNKNOWN then 1 else 0)"
  by (induction rule: task_step.induct) (auto simp: waiting_state_def task_step_defs)

lemma task_step_history:
  "task_step sha c t t' \<Longrightarrow> \<exists>code. st_reason_codes t' = st_reason_codes t @ [code]"
  by (induction rule: task_step.induct) (auto simp: task_step_defs)

text \<open>The transitions the relation allows, by state.\<close>

definition task_edge :: "scheduler_task_state \<Rightarrow> scheduler_task_state \<Rightarrow> bool" where
  "task_edge s s' \<longleftrightarrow> (s, s') \<in>
     {(QUEUED, UNKNOWN), (QUEUED, CANCELLED), (RETRY_WAIT, UNKNOWN), (RETRY_WAIT, CANCELLED),
      (UNKNOWN, UNKNOWN), (UNKNOWN, RETRY_WAIT), (UNKNOWN, COMPLETED), (UNKNOWN, CANCELLED),
      (UNKNOWN, RETRY_EXHAUSTED)}"

lemma task_step_edge: "task_step sha c t t' \<Longrightarrow> task_edge (st_state t) (st_state t')"
  by (induction rule: task_step.induct) (auto simp: task_edge_def waiting_state_def task_step_defs)

lemma task_step_completion:
  assumes "task_step sha c t t'" "st_state t' = COMPLETED"
  shows "\<exists>r. receipt_matches t r \<and> nr_status r = Notification_DELIVERED \<and>
    st_last_receipt_id t' = Some (nr_receipt_id r) \<and>
    st_last_receipt_hash t' = Some (receipt_hash sha r) \<and> st_completed_at t' = Some (nr_observed_at r)"
  using assms by (cases rule: task_step.cases) (auto simp: task_step_defs waiting_state_def)

lemma task_step_retry:
  assumes "task_step sha c t t'" "st_state t' = RETRY_WAIT"
  shows "st_attempt_count t' < st_max_attempts t' \<and> st_cancel_requested_at t' = None \<and>
    (\<exists>now later. st_next_attempt_at t' = Some later \<and>
      usec later = usec now + sc_retry_base_seconds c * 2 ^ nat (st_attempt_count t' - 1) * 1000000)"
  using assms
  by (cases rule: task_step.cases)
    (auto simp: task_step_defs waiting_state_def dest!: plus_seconds_usec)

section \<open>Changes of the queue\<close>

definition admitted_task :: "scheduler_queue \<Rightarrow> scheduler_task \<Rightarrow> scheduler_task" where
  "admitted_task q t = t\<lparr>st_sequence := sq_next_sequence q, st_revision := 1,
     st_reason_codes := [''ADMITTED'']\<rparr>"

definition queue_admit :: "scheduler_queue \<Rightarrow> scheduler_task \<Rightarrow> scheduler_queue" where
  "queue_admit q t = q\<lparr>sq_next_sequence := sq_next_sequence q + 1,
     sq_tasks := sq_tasks q @ [admitted_task q t], sq_revision := sq_revision q + 1\<rparr>"

definition queue_update :: "scheduler_queue \<Rightarrow> scheduler_task \<Rightarrow> scheduler_queue" where
  "queue_update q t = (queue_put q t)\<lparr>sq_revision := sq_revision q + 1\<rparr>"

inductive queue_step :: "digest_fun \<Rightarrow> scheduler_config \<Rightarrow> scheduler_queue \<Rightarrow> scheduler_queue \<Rightarrow> bool"
  for sha c where
  qs_admit: "wf_task t \<Longrightarrow> pristine_task t \<Longrightarrow> find_task q (st_task_id t) = None \<Longrightarrow>
    active_count q < sc_capacity c \<Longrightarrow> queue_step sha c q (queue_admit q t)"
| qs_update: "t \<in> set (sq_tasks q) \<Longrightarrow> task_step sha c t t' \<Longrightarrow> wf_task t' \<Longrightarrow>
    queue_step sha c q (queue_update q t')"

lemma find_task_Some: "find_task q i = Some t \<Longrightarrow> t \<in> set (sq_tasks q) \<and> st_task_id t = i"
  by (auto simp: find_task_def find_Some_iff)

lemma find_task_None: "find_task q i = None \<longleftrightarrow> (\<forall>t \<in> set (sq_tasks q). st_task_id t \<noteq> i)"
  by (auto simp: find_task_def find_None_iff)

lemma wf_queue_unique:
  "wf_queue q \<Longrightarrow> t \<in> set (sq_tasks q) \<Longrightarrow> u \<in> set (sq_tasks q) \<Longrightarrow> st_task_id u = st_task_id t \<Longrightarrow> u = t"
  by (auto simp: wf_queue_def distinct_map dest: inj_onD)

lemma find_task_mem: "wf_queue q \<Longrightarrow> t \<in> set (sq_tasks q) \<Longrightarrow> find_task q (st_task_id t) = Some t"
proof -
  assume a: "wf_queue q" "t \<in> set (sq_tasks q)"
  then obtain u where "find_task q (st_task_id t) = Some u"
    using find_task_None by (cases "find_task q (st_task_id t)") auto
  with find_task_Some [OF this] wf_queue_unique [OF a] show ?thesis by simp
qed

lemma queue_put_map_id:
  "wf_queue q \<Longrightarrow> map st_task_id (sq_tasks (queue_put q t)) = map st_task_id (sq_tasks q)"
  by (simp add: queue_put_def)

lemma queue_put_map_seq:
  assumes "wf_queue q" "t \<in> set (sq_tasks q)" "st_task_id t' = st_task_id t" "st_sequence t' = st_sequence t"
  shows "map st_sequence (sq_tasks (queue_put q t')) = map st_sequence (sq_tasks q)"
  using assms wf_queue_unique [OF assms(1,2)] by (auto simp: queue_put_def)

lemma set_queue_put:
  assumes "wf_queue q" "t \<in> set (sq_tasks q)" "st_task_id t' = st_task_id t"
  shows "set (sq_tasks (queue_put q t')) = insert t' (set (sq_tasks q) - {t})"
  using assms wf_queue_unique [OF assms(1,2)] by (auto simp: queue_put_def image_iff)

lemma wf_queue_put:
  assumes q: "wf_queue q" "t \<in> set (sq_tasks q)" "wf_task t'"
    and same: "st_task_id t' = st_task_id t" "st_sequence t' = st_sequence t"
  shows "wf_queue ((queue_put q t')\<lparr>sq_revision := sq_revision q + 1\<rparr>)"
proof -
  have "list_all wf_task (sq_tasks (queue_put q t'))"
    using q by (auto simp: wf_queue_def queue_put_def list_all_iff)
  then show ?thesis
    using q(1) queue_put_map_id [OF q(1), of t'] queue_put_map_seq [OF q(1,2) same]
    by (simp add: wf_queue_def assigned_sequences_def) (simp add: queue_put_def)
qed

lemma wf_queue_update:
  assumes "wf_queue q" "t \<in> set (sq_tasks q)" "task_step sha c t t'" "wf_task t'"
  shows "wf_queue (queue_update q t')"
  unfolding queue_update_def
  using wf_queue_put [OF assms(1,2,4)] task_step_identity_simps [OF assms(3)] by simp

lemma wf_queue_admit:
  assumes "wf_queue q" "wf_task t" "pristine_task t" "find_task q (st_task_id t) = None"
  shows "wf_queue (queue_admit q t)"
proof -
  have "wf_task (admitted_task q t)"
    using assms by (simp add: admitted_task_def wf_task_def wf_queue_def pristine_task_def
        blank_def py_space_def Let_def)
  moreover have "st_task_id t \<notin> st_task_id ` set (sq_tasks q)"
    using assms(4) by (auto simp: find_task_None)
  moreover have "st_sequence x < sq_next_sequence q" if "x \<in> set (sq_tasks q)" "0 < st_sequence x" for x
    using assms(1) that by (simp add: wf_queue_def assigned_sequences_def)
  ultimately show ?thesis
    using assms(1)
    by (fastforce simp: wf_queue_def queue_admit_def assigned_sequences_def admitted_task_def)
qed

lemma queue_step_wf: "queue_step sha c q q' \<Longrightarrow> wf_queue q \<Longrightarrow> wf_queue q'"
  by (induction rule: queue_step.induct) (auto simp: wf_queue_admit intro: wf_queue_update)

lemma queue_steps_wf: "(queue_step sha c)\<^sup>*\<^sup>* q q' \<Longrightarrow> wf_queue q \<Longrightarrow> wf_queue q'"
  by (induction rule: rtranclp_induct) (auto intro: queue_step_wf)

lemma queue_step_revision: "queue_step sha c q q' \<Longrightarrow> sq_revision q' = sq_revision q + 1"
  by (induction rule: queue_step.induct) (simp_all add: queue_admit_def queue_update_def)

text \<open>Every task survives a step with its identity, and only moves along its own steps.\<close>

lemma queue_step_task:
  assumes "queue_step sha c q q'" "wf_queue q" "t \<in> set (sq_tasks q)"
  shows "\<exists>t' \<in> set (sq_tasks q'). t' = t \<or> task_step sha c t t'"
  using assms
proof (induction rule: queue_step.induct)
  case (qs_update u q u')
  then show ?case
    using set_queue_put [of q u u'] task_step_identity_simps [OF qs_update(2)]
    by (cases "t = u") (auto simp: queue_update_def)
qed (auto simp: queue_admit_def)

lemma queue_steps_task:
  assumes "(queue_step sha c)\<^sup>*\<^sup>* q q'" "wf_queue q" "t \<in> set (sq_tasks q)"
  shows "\<exists>t' \<in> set (sq_tasks q'). (task_step sha c)\<^sup>*\<^sup>* t t'"
  using assms
proof (induction rule: rtranclp_induct)
  case (step r s)
  then obtain t' where "t' \<in> set (sq_tasks r)" "(task_step sha c)\<^sup>*\<^sup>* t t'" by blast
  then obtain u where "u \<in> set (sq_tasks s)" "u = t' \<or> task_step sha c t' u"
    using queue_step_task [OF step(2) queue_steps_wf [OF step(1) step(4)]] by blast
  with \<open>(task_step sha c)\<^sup>*\<^sup>* t t'\<close> show ?case
    by (auto intro: rtranclp.rtrancl_into_rtrancl)
qed auto

lemma task_steps_terminal:
  "(task_step sha c)\<^sup>*\<^sup>* t t' \<Longrightarrow> terminal_state (st_state t) \<Longrightarrow> t' = t"
  by (induction rule: converse_rtranclp_induct) (auto dest: task_step_active)

lemma task_steps_identity: "(task_step sha c)\<^sup>*\<^sup>* t t' \<Longrightarrow> same_identity t t'"
  by (induction rule: rtranclp_induct) (auto simp: same_identity_def dest!: task_step_identity)

lemma task_steps_attempts: "(task_step sha c)\<^sup>*\<^sup>* t t' \<Longrightarrow> st_attempt_count t \<le> st_attempt_count t'"
  by (induction rule: rtranclp_induct) (auto dest: task_step_attempts)

lemma task_steps_revision: "(task_step sha c)\<^sup>*\<^sup>* t t' \<Longrightarrow> st_revision t \<le> st_revision t'"
  by (induction rule: rtranclp_induct) (auto dest: task_step_revision)

subsection \<open>Capacity\<close>

lemma active_count_put:
  assumes "wf_queue q" "t \<in> set (sq_tasks q)" "task_step sha c t t'"
  shows "active_count (queue_update q t') \<le> active_count q"
proof -
  have id: "st_task_id t' = st_task_id t" by (rule task_step_identity_simps [OF assms(3)])
  have "length (filter (\<lambda>x. \<not> terminal_state (st_state x)) (map (\<lambda>x. if st_task_id x = st_task_id t then t' else x) xs))
      \<le> length (filter (\<lambda>x. \<not> terminal_state (st_state x)) xs)" if "set xs \<subseteq> set (sq_tasks q)" for xs
    using that wf_queue_unique [OF assms(1,2)] task_step_active [OF assms(3)]
    by (induction xs) auto
  then show ?thesis
    by (simp add: active_count_def queue_update_def queue_put_def id)
qed

lemma active_count_admit: "active_count (queue_admit q t) \<le> active_count q + 1"
  by (simp add: active_count_def queue_admit_def)

lemma queue_step_capacity:
  assumes "queue_step sha c q q'" "wf_queue q" "active_count q \<le> sc_capacity c"
  shows "active_count q' \<le> sc_capacity c"
  using assms
  by (induction rule: queue_step.induct) (auto dest: active_count_put intro: order_trans [OF active_count_admit])

section \<open>Changes of the world\<close>

text \<open>
  One write of the queue file, one query, or one dispatch: the dispatch of an attempt and the
  write that checkpoints it are one step, in this order.
\<close>

inductive world_step :: "digest_fun \<Rightarrow> scheduler_config \<Rightarrow> scheduler_world \<Rightarrow> scheduler_world \<Rightarrow> bool"
  for sha c where
  ws_save: "load_queue sha (sw_file w) = Inr q \<Longrightarrow> queue_step sha c q q' \<Longrightarrow>
    world_step sha c w (w\<lparr>sw_file := File_Doc (scheduler_queue_to_dict sha q')\<rparr>)"
| ws_query: "load_queue sha (sw_file w) = Inr q \<Longrightarrow> t \<in> set (sq_tasks q) \<Longrightarrow> st_state t = UNKNOWN \<Longrightarrow>
    service_request t now = Inr r \<Longrightarrow>
    world_step sha c w (w\<lparr>sw_queried := sw_queried w @ [r]\<rparr>)"
| ws_dispatch: "load_queue sha (sw_file w) = Inr q \<Longrightarrow> t \<in> set (sq_tasks q) \<Longrightarrow>
    waiting_state (st_state t) \<Longrightarrow> task_due t now \<Longrightarrow>
    stable_attempt_id sha (PStr (st_task_id t)) (st_attempt_count t + 1) = Inr a \<Longrightarrow>
    wf_task (checkpoint_task t (st_attempt_count t + 1) a) \<Longrightarrow>
    service_request (checkpoint_task t (st_attempt_count t + 1) a) now = Inr r \<Longrightarrow>
    world_step sha c w
      (w\<lparr>sw_file := File_Doc (scheduler_queue_to_dict sha
            (queue_update q (checkpoint_task t (st_attempt_count t + 1) a))),
         sw_dispatched := sw_dispatched w @ [r]\<rparr>)"

abbreviation world_steps :: "digest_fun \<Rightarrow> scheduler_config \<Rightarrow> scheduler_world \<Rightarrow> scheduler_world \<Rightarrow> bool" where
  "world_steps sha c \<equiv> (world_step sha c)\<^sup>*\<^sup>*"

lemma saved_queue_step:
  assumes "load_queue sha f = Inr q" "queue_step sha c q q'"
  shows "load_queue sha (File_Doc (scheduler_queue_to_dict sha q')) = Inr q'"
  using queue_step_wf [OF assms(2) load_queue_wf [OF assms(1)]] by simp

lemma world_step_queue:
  assumes "world_step sha c w w'"
  shows "\<exists>q q'. load_queue sha (sw_file w) = Inr q \<and> load_queue sha (sw_file w') = Inr q' \<and>
    (queue_step sha c)\<^sup>*\<^sup>* q q'"
  using assms
proof (cases rule: world_step.cases)
  case (ws_save q q')
  then show ?thesis
    using saved_queue_step [OF ws_save(2,3)] by auto
next
  case (ws_dispatch q t now a r)
  then have "queue_step sha c q (queue_update q (checkpoint_task t (st_attempt_count t + 1) a))"
    by (auto intro: qs_update ts_checkpoint)
  with saved_queue_step [OF ws_dispatch(2) this] ws_dispatch show ?thesis by auto
qed auto

lemma world_steps_queue:
  assumes "world_steps sha c w w'" "load_queue sha (sw_file w) = Inr q"
  shows "\<exists>q'. load_queue sha (sw_file w') = Inr q' \<and> (queue_step sha c)\<^sup>*\<^sup>* q q'"
  using assms
proof (induction rule: rtranclp_induct)
  case (step u v)
  then obtain q1 where "load_queue sha (sw_file u) = Inr q1" "(queue_step sha c)\<^sup>*\<^sup>* q q1" by blast
  with world_step_queue [OF step(2)] show ?case
    by (auto intro: rtranclp_trans)
qed auto

subsection \<open>What the adapter has seen\<close>

text \<open>The attempts of a task dispatched so far, as their numbers: increasing, within the count.\<close>

definition dispatched_for :: "scheduler_world \<Rightarrow> string \<Rightarrow> notification_request list" where
  "dispatched_for w i = filter (\<lambda>r. nq_task_id r = i) (sw_dispatched w)"

definition attempt_log :: "digest_fun \<Rightarrow> scheduler_task \<Rightarrow> notification_request list \<Rightarrow> int list \<Rightarrow> bool" where
  "attempt_log sha t rs ns \<longleftrightarrow> sorted_wrt (<) ns \<and> (\<forall>n \<in> set ns. 0 < n \<and> n \<le> st_attempt_count t) \<and>
     list_all2 (\<lambda>r n. stable_attempt_id sha (PStr (st_task_id t)) n = Inr (nq_attempt_id r)) rs ns"

definition log_inv :: "digest_fun \<Rightarrow> scheduler_world \<Rightarrow> bool" where
  "log_inv sha w \<longleftrightarrow> (\<exists>q. load_queue sha (sw_file w) = Inr q \<and>
     (\<forall>r \<in> set (sw_dispatched w). \<exists>t \<in> set (sq_tasks q). st_task_id t = nq_task_id r) \<and>
     (\<forall>t \<in> set (sq_tasks q). \<exists>ns. attempt_log sha t (dispatched_for w (st_task_id t)) ns))"

lemma service_request_Inr:
  "service_request t now = Inr r \<Longrightarrow> nq_task_id r = st_task_id t \<and> st_last_attempt_id t = Some (nq_attempt_id r)
     \<and> nq_subject_id r = st_subject_id t \<and> nq_environment r = st_environment t
     \<and> nq_cycle_id r = st_cycle_id t \<and> nq_wake_reason r = st_wake_reason t
     \<and> nq_source_event_id r = st_source_event_id t \<and> nq_requested_at r = now"
  by (auto simp: service_request_def notification_request_init_def rbind_eq_Inr sched_checks
      split: option.splits)

lemma attempt_log_mono:
  "attempt_log sha t rs ns \<Longrightarrow> st_task_id t' = st_task_id t \<Longrightarrow> st_attempt_count t \<le> st_attempt_count t'
     \<Longrightarrow> attempt_log sha t' rs ns"
  by (force simp: attempt_log_def)

lemma attempt_log_snoc:
  assumes "attempt_log sha t rs ns" "st_task_id t' = st_task_id t"
    "st_attempt_count t' = st_attempt_count t + 1" "0 \<le> st_attempt_count t"
    "stable_attempt_id sha (PStr (st_task_id t)) (st_attempt_count t + 1) = Inr (nq_attempt_id r)"
  shows "attempt_log sha t' (rs @ [r]) (ns @ [st_attempt_count t + 1])"
  using assms by (force simp: attempt_log_def sorted_wrt_append list_all2_appendI)

lemma attempt_log_bound:
  assumes "attempt_log sha t rs ns" "0 \<le> st_attempt_count t"
  shows "int (length rs) \<le> st_attempt_count t"
proof -
  have "distinct ns" using assms(1) by (auto simp: attempt_log_def strict_sorted_iff)
  then have "length ns = card (set ns)" by (simp add: distinct_card)
  also have "\<dots> \<le> card {1..st_attempt_count t}"
    using assms(1) by (intro card_mono) (auto simp: attempt_log_def)
  finally show ?thesis
    using assms by (auto simp: attempt_log_def dest: list_all2_lengthD)
qed

end
