(* ===== verification/Scheduler_Refinement.thy ===== *)
theory Scheduler_Refinement
  imports Scheduler_Spec
begin

text \<open>
  The operations of \<open>Scheduler_Service\<close> implement the step relations of \<open>Scheduler_Spec\<close>: from
  whatever world they are called, on every branch, normal or exceptional, the world they leave
  is reached by steps of \<open>world_step\<close>. The invariants of the relations therefore hold of every
  run of the service.
\<close>

section \<open>Invariants of reachable worlds\<close>

lemma log_inv_update:
  assumes inv: "\<forall>t \<in> set (sq_tasks q). \<exists>ns. attempt_log sha t (dispatched_for w (st_task_id t)) ns"
    and step: "wf_queue q" "t \<in> set (sq_tasks q)" "task_step sha c t t'"
    and u: "u \<in> set (sq_tasks (queue_update q t'))"
  shows "\<exists>ns. attempt_log sha u (dispatched_for w (st_task_id u)) ns"
proof -
  have id: "st_task_id t' = st_task_id t" by (rule task_step_identity_simps [OF step(3)])
  have "u = t' \<or> u \<in> set (sq_tasks q)"
    using u set_queue_put [OF step(1,2) id] by (auto simp: queue_update_def)
  moreover have "st_attempt_count t \<le> st_attempt_count t'" using task_step_attempts [OF step(3)] by simp
  moreover obtain ns where "attempt_log sha t (dispatched_for w (st_task_id t)) ns"
    using inv step(2) by blast
  ultimately show ?thesis
    using inv id attempt_log_mono by metis
qed

lemma queue_update_ids:
  assumes "wf_queue q" "t \<in> set (sq_tasks q)" "st_task_id t' = st_task_id t"
  shows "st_task_id ` set (sq_tasks (queue_update q t')) = st_task_id ` set (sq_tasks q)"
  using queue_put_map_id [OF assms(1), of t'] by (simp add: queue_update_def flip: set_map)

lemma log_inv_queue_step:
  assumes l: "load_queue sha (sw_file w) = Inr q" and s: "queue_step sha c q q'" and i: "log_inv sha w"
  shows "log_inv sha (w\<lparr>sw_file := File_Doc (scheduler_queue_to_dict sha q')\<rparr>)"
proof -
  have wf: "wf_queue q" by (rule load_queue_wf [OF l])
  note i' = i [unfolded log_inv_def l, simplified]
  show ?thesis
    using s
  proof (cases rule: queue_step.cases)
    case (qs_admit t)
    then have "dispatched_for w (st_task_id t) = []"
      using i' by (auto simp: dispatched_for_def filter_empty_conv find_task_None)
    then have "attempt_log sha (admitted_task q t) (dispatched_for w (st_task_id t)) []"
      by (simp add: attempt_log_def)
    moreover have "set (sq_tasks q') = insert (admitted_task q t) (set (sq_tasks q))"
      "st_task_id (admitted_task q t) = st_task_id t"
      by (simp_all add: qs_admit(1) queue_admit_def admitted_task_def)
    ultimately show ?thesis
      using i' saved_queue_step [OF l s] by (auto simp: log_inv_def dispatched_for_def)
  next
    case (qs_update t t')
    have "st_task_id t' = st_task_id t" by (rule task_step_identity_simps [OF qs_update(3)])
    note ids = queue_update_ids [OF wf qs_update(2) this]
    have "\<exists>t \<in> set (sq_tasks q'). st_task_id t = nq_task_id r" if "r \<in> set (sw_dispatched w)" for r
      using i' that ids by (metis (no_types, lifting) image_iff qs_update(1))
    moreover have "\<exists>ns. attempt_log sha u (dispatched_for w (st_task_id u)) ns"
      if "u \<in> set (sq_tasks q')" for u
      using log_inv_update [OF _ wf qs_update(2,3)] i' that qs_update(1) by blast
    ultimately show ?thesis
      using saved_queue_step [OF l s] by (simp add: log_inv_def dispatched_for_def)
  qed
qed

lemma log_inv_dispatch:
  assumes l: "load_queue sha (sw_file w) = Inr q" and t: "t \<in> set (sq_tasks q)"
    and s: "task_step sha c t t'" "wf_task t'" "st_attempt_count t' = st_attempt_count t + 1"
    and a: "stable_attempt_id sha (PStr (st_task_id t)) (st_attempt_count t + 1) = Inr (nq_attempt_id r)"
    and r: "nq_task_id r = st_task_id t" and i: "log_inv sha w"
  shows "log_inv sha (w\<lparr>sw_file := File_Doc (scheduler_queue_to_dict sha (queue_update q t')),
    sw_dispatched := sw_dispatched w @ [r]\<rparr>)" (is "log_inv sha ?w'")
proof -
  have wf: "wf_queue q" by (rule load_queue_wf [OF l])
  have id: "st_task_id t' = st_task_id t" by (rule task_step_identity_simps [OF s(1)])
  note i' = i [unfolded log_inv_def l, simplified]
  have step: "queue_step sha c q (queue_update q t')" by (rule qs_update [OF t s(1,2)])
  note ids = queue_update_ids [OF wf t id]
  have "\<exists>u \<in> set (sq_tasks (queue_update q t')). st_task_id u = nq_task_id x"
    if "x \<in> set (sw_dispatched w @ [r])" for x
  proof -
    have "nq_task_id x \<in> st_task_id ` set (sq_tasks q)" using that i' r t by force
    then show ?thesis unfolding ids [symmetric] by force
  qed
  moreover have "\<exists>ns. attempt_log sha u (dispatched_for ?w' (st_task_id u)) ns"
    if u: "u \<in> set (sq_tasks (queue_update q t'))" for u
  proof (cases "st_task_id u = st_task_id t")
    case True
    then have "u = t'"
      using u set_queue_put [OF wf t id] wf_queue_unique [OF wf t] by (auto simp: queue_update_def)
    moreover obtain ns where "attempt_log sha t (dispatched_for w (st_task_id t)) ns"
      using i' t by blast
    moreover have "0 \<le> st_attempt_count t" using wf_queue_task [OF wf t] by (simp add: wf_task_def)
    ultimately show ?thesis
      using attempt_log_snoc [of sha t _ ns t' r] a id s(3) r by (auto simp: dispatched_for_def)
  next
    case False
    then have "dispatched_for ?w' (st_task_id u) = dispatched_for w (st_task_id u)"
      using r by (simp add: dispatched_for_def)
    then show ?thesis using log_inv_update [OF _ wf t s(1) u] i' by simp
  qed
  ultimately show ?thesis
    using saved_queue_step [OF l step] by (simp add: log_inv_def)
qed

lemma log_inv_step:
  assumes "world_step sha c w w'" "log_inv sha w"
  shows "log_inv sha w'"
  using assms
proof (induction rule: world_step.induct)
  case (ws_save w q q')
  then show ?case by (rule log_inv_queue_step)
next
  case (ws_dispatch w q t now a r)
  then show ?case
    using log_inv_dispatch [OF ws_dispatch(1,2) ts_checkpoint [OF ws_dispatch(3,5)] ws_dispatch(6)]
      service_request_Inr [OF ws_dispatch(7)]
    by (simp add: checkpoint_task_def)
qed (simp add: log_inv_def dispatched_for_def)

lemma log_inv_steps: "world_steps sha c w w' \<Longrightarrow> log_inv sha w \<Longrightarrow> log_inv sha w'"
  by (induction rule: rtranclp_induct) (auto intro: log_inv_step)

definition initial_world :: scheduler_world where
  "initial_world = \<lparr>sw_file = File_Absent, sw_dispatched = [], sw_queried = []\<rparr>"

lemma log_inv_initial: "log_inv sha initial_world"
  by (simp add: log_inv_def initial_world_def empty_queue_def)

section \<open>The operations take steps of the relations\<close>

lemma wp_load [wp_simps]:
  "wp (service_load p) Q E w = (case load_queue (sp_sha p) (sw_file w) of Inl e \<Rightarrow> E e w | Inr q \<Rightarrow> Q q w)"
  by (simp add: wp_def service_load_def)

text \<open>A save of the queue that was loaded from the present file fails only if the disk does.\<close>

lemma wp_save:
  assumes "load_queue (sp_sha p) (sw_file w) = Inr q" "sq_revision q' = sq_revision q"
    and "\<And>e. E e w"
    and "sp_disk_ok p (sq_revision q + 1) \<Longrightarrow> Q (q'\<lparr>sq_revision := sq_revision q + 1\<rparr>)
      (w\<lparr>sw_file := File_Doc (scheduler_queue_to_dict (sp_sha p) (q'\<lparr>sq_revision := sq_revision q + 1\<rparr>))\<rparr>)"
  shows "wp (service_save p q') Q E w"
  using assms load_queue_wf [OF assms(1)]
  by (cases "sp_disk_ok p (sq_revision q + 1)")
    (simp_all add: wp_def service_save_def save_queue_def wf_queue_def Let_def)

lemma wp_recheck:
  assumes "\<And>e. E e w" "wf_task t \<Longrightarrow> Q t w"
  shows "wp (slift (task_recheck t)) Q E w"
  using assms by (auto simp: wp_slift task_recheck_eq_Inr split: sum.split)

definition tick_result ::
  "scheduler_tick_status \<Rightarrow> scheduler_task \<Rightarrow> int \<Rightarrow> string \<Rightarrow> notification_receipt option
     \<Rightarrow> scheduler_tick_result" where
  "tick_result status t revision reason receipt = \<lparr>tr_status = status, tr_task = Some t,
     tr_queue_revision = revision, tr_reason_code = reason, tr_receipt = receipt\<rparr>"

lemma tick_report_wf [simp]:
  "wf_task t \<Longrightarrow> tick_report p st t r reason rc = Inr (tick_result st t r reason rc)"
  by (simp add: tick_report_def tick_result_def)

lemma queue_put_revision [simp]: "sq_revision (queue_put q t) = sq_revision q"
  by (simp add: queue_put_def)

lemma wp_commit:
  assumes l: "load_queue (sp_sha p) (sw_file w) = Inr q"
    and E: "\<And>e. E e w"
    and Q: "wf_task t \<Longrightarrow> Q (tick_result st t (sq_revision q + 1) reason rc)
      (w\<lparr>sw_file := File_Doc (scheduler_queue_to_dict (sp_sha p) (queue_update q t))\<rparr>)"
  shows "wp (commit_task p q t st reason rc) Q E w"
  unfolding commit_task_def wp_sbind
  by (intro wp_recheck E wp_save [OF l]) (simp_all add: wp_slift Q [unfolded queue_update_def])

text \<open>Saving a step of a task is a step of the world.\<close>

lemma save_is_step:
  assumes "load_queue sha (sw_file w) = Inr q" "t \<in> set (sq_tasks q)" "task_step sha c t t'" "wf_task t'"
  shows "world_steps sha c w (w\<lparr>sw_file := File_Doc (scheduler_queue_to_dict sha (queue_update q t'))\<rparr>)"
  by (rule r_into_rtranclp, rule ws_save [OF assms(1) qs_update [OF assms(2-4)]])

lemma commit_refines:
  assumes "load_queue (sp_sha p) (sw_file w) = Inr q" "t \<in> set (sq_tasks q)" "task_step (sp_sha p) c t t'"
  shows "wp (commit_task p q t' st reason rc)
    (\<lambda>_. world_steps (sp_sha p) c w) (\<lambda>_. world_steps (sp_sha p) c w) w"
  by (rule wp_commit [OF assms(1)]) (simp_all add: save_is_step [OF assms])

lemma receipt_status_cases:
  "nr_status r \<noteq> Notification_DELIVERED \<Longrightarrow> nr_status r \<noteq> Notification_UNKNOWN \<Longrightarrow>
     nr_status r = Notification_FAILED \<or> nr_status r = Notification_NOT_DELIVERED"
  by (cases "nr_status r") simp_all

lemma reconcile_refines:
  assumes l: "load_queue (sp_sha p) (sw_file w) = Inr q" "t \<in> set (sq_tasks q)"
    and t: "st_state t = UNKNOWN" "receipt_matches t r"
  shows "wp (reconcile_receipt c p q t r now fq)
    (\<lambda>_. world_steps (sp_sha p) c w) (\<lambda>_. world_steps (sp_sha p) c w) w"
proof -
  have fields: "st_cancel_requested_at (bind_receipt sha t r) = st_cancel_requested_at t"
    "st_attempt_count (bind_receipt sha t r) = st_attempt_count t"
    "st_max_attempts (bind_receipt sha t r) = st_max_attempts t" for sha
    by (simp_all add: bind_receipt_def)
  show ?thesis
    unfolding reconcile_receipt_def Let_def wp_if wp_sbind wp_slift fields
    using receipt_status_cases [of r]
    by (auto simp: not_le split: sum.split intro!: commit_refines [OF l] ts_delivered [OF t]
        ts_still_unknown [OF t] ts_cancelled_late [OF t] ts_exhausted [OF t] ts_retry [OF t])
qed

lemma apply_refines:
  "wp (apply_receipt c p i r now fq) (\<lambda>_. world_steps (sp_sha p) c w) (\<lambda>_. world_steps (sp_sha p) c w) w"
  unfolding apply_receipt_def
  by (auto simp: wp_simps split: sum.split option.split dest!: find_task_Some intro!: reconcile_refines)

lemma backoff_refines:
  "wp (query_backoff c p t now code reason)
     (\<lambda>_. world_steps (sp_sha p) c w) (\<lambda>_. world_steps (sp_sha p) c w) w"
  unfolding query_backoff_def
  by (auto simp: wp_simps split: sum.split option.split dest!: find_task_Some
      intro!: commit_refines ts_backoff)

lemma wp_steps_trans:
  assumes "world_steps sha c w w'" "wp f (\<lambda>_. world_steps sha c w') (\<lambda>_. world_steps sha c w') s"
  shows "wp f (\<lambda>_. world_steps sha c w) (\<lambda>_. world_steps sha c w) s"
  using assms(1) by (intro wp_conseq [OF assms(2)]) (auto intro: rtranclp_trans)

lemma query_refines:
  assumes l: "load_queue (sp_sha p) (sw_file w) = Inr q" "t \<in> set (sq_tasks q)" "st_state t = UNKNOWN"
  shows "wp (query_unknown c p t now)
    (\<lambda>_. world_steps (sp_sha p) c w) (\<lambda>_. world_steps (sp_sha p) c w) w"
proof -
  have step: "world_steps (sp_sha p) c w (w\<lparr>sw_queried := sw_queried w @ [r]\<rparr>)"
    if "service_request t now = Inr r" for r
    by (rule r_into_rtranclp, rule ws_query [OF l that])
  show ?thesis
    unfolding query_unknown_def wp_sbind wp_slift
    by (auto simp: wp_def [of "send_query p _"] send_query_def split: sum.split adapter_result.split
        intro!: wp_steps_trans [OF step] apply_refines backoff_refines)
qed

lemma dispatch_refines:
  assumes l: "load_queue (sp_sha p) (sw_file w) = Inr q" "t \<in> set (sq_tasks q)"
    and t: "waiting_state (st_state t)" "task_due t now"
    and a: "stable_attempt_id (sp_sha p) (PStr (st_task_id t)) (st_attempt_count t + 1) = Inr a"
  shows "wp (dispatch_task c p now q t (st_attempt_count t + 1) a)
    (\<lambda>_. world_steps (sp_sha p) c w) (\<lambda>_. world_steps (sp_sha p) c w) w"
proof -
  let ?t = "checkpoint_task t (st_attempt_count t + 1) a"
  let ?w = "w\<lparr>sw_file := File_Doc (scheduler_queue_to_dict (sp_sha p) (queue_update q ?t))\<rparr>"
  note s = ts_checkpoint [OF t(1) a]
  have saved: "world_steps (sp_sha p) c w ?w" if "wf_task ?t"
    by (rule save_is_step [OF l s that])
  have sent: "world_steps (sp_sha p) c w (?w\<lparr>sw_dispatched := sw_dispatched w @ [r]\<rparr>)"
    if "wf_task ?t" "service_request ?t now = Inr r" for r
    using ws_dispatch [OF l t a that] by (simp add: r_into_rtranclp)
  show ?thesis
    unfolding dispatch_task_def wp_sbind
    by (rule wp_recheck, simp, rule wp_save [OF l(1)], simp, simp)
      (auto simp: wp_slift wp_def [of "send_dispatch p _"] send_dispatch_def
        saved [unfolded queue_update_def] sent [unfolded queue_update_def]
        split: sum.split adapter_result.split
        intro!: wp_steps_trans [OF sent [unfolded queue_update_def]] apply_refines)
qed

lemma set_sort_ready: "sort_ready c now ts = Inr us \<Longrightarrow> set us = set ts"
proof -
  assume "sort_ready c now ts = Inr us"
  then obtain ks where k: "rmap (\<lambda>t. rbind (sched_sort_key c now t) (\<lambda>k. Inr (k, t))) ts = Inr ks"
    and us: "us = map snd (sort_key fst ks)"
    by (auto simp: sort_ready_def rbind_eq_Inr)
  from k have "map snd ks = ts"
    unfolding rmap_eq_Inr by (induction rule: list_all2_induct) (auto simp: rbind_eq_Inr)
  with us show "set us = set ts" by (metis image_set set_sort)
qed

lemma resource_scan_chosen:
  assumes "resource_scan c p now rv df ts = Inr (Inr (t, n, a))"
  shows "t \<in> set ts \<and> n = st_attempt_count t + 1 \<and>
    stable_attempt_id (sp_sha p) (PStr (st_task_id t)) n = Inr a"
  using assms
  by (induction ts arbitrary: df) (auto simp: rbind_eq_Inr Let_def split: option.splits if_splits)

lemma ready_refines:
  assumes l: "load_queue (sp_sha p) (sw_file w) = Inr q" "set ready \<subseteq> set (sq_tasks q)"
    and t: "\<forall>t \<in> set ready. waiting_state (st_state t) \<and> task_due t now"
  shows "wp (tick_ready c p i e now q ready)
    (\<lambda>_. world_steps (sp_sha p) c w) (\<lambda>_. world_steps (sp_sha p) c w) w"
proof -
  have scan: "wp (dispatch_task c p now q t n a)
      (\<lambda>_. world_steps (sp_sha p) c w) (\<lambda>_. world_steps (sp_sha p) c w) w"
    if "resource_scan c p now rv df (take m ready) = Inr (Inr (t, n, a))" for rv df m t n a
    using resource_scan_chosen [OF that] t l dispatch_refines [OF l(1), of t now a c]
    by (auto dest!: in_set_takeD)
  show ?thesis
    unfolding tick_ready_def Let_def
    by (auto simp: wp_simps scan split: option.split sum.split prod.split exc_class.split)
qed

lemma candidates_refines:
  assumes l: "load_queue (sp_sha p) (sw_file w) = Inr q"
  shows "wp (tick_candidates c p i e now v q)
    (\<lambda>_. world_steps (sp_sha p) c w) (\<lambda>_. world_steps (sp_sha p) c w) w"
  unfolding tick_candidates_def Let_def
  by (auto simp: wp_simps split: option.split sum.split intro!: ready_refines [OF l]
      dest!: set_sort_ready)

lemma tick_steps:
  "world_steps (sp_sha p) c w (fst (tick c p i e w))"
proof (rule wp_state)
  show "wp (tick c p i e) (\<lambda>_. world_steps (sp_sha p) c w) (\<lambda>_. world_steps (sp_sha p) c w) w"
  proof -
    have mem: "u \<in> set (sq_tasks q) \<and> st_state u = UNKNOWN" if "due_unknown i e now q = u # us" for q u us now
    proof -
      have "u \<in> set (due_unknown i e now q)" using that by simp
      then show ?thesis by (simp add: due_unknown_def)
    qed
    have again: "wp (if tr_status v \<noteq> Tick_VERIFICATION_PENDING then sret v
          else sbind (service_load p) (\<lambda>q. tick_candidates c p i e now (Some v) q))
        (\<lambda>_. world_steps (sp_sha p) c w) (\<lambda>_. world_steps (sp_sha p) c w) w'"
      if "world_steps (sp_sha p) c w w'" for v w' now
      using that by (auto simp: wp_simps split: sum.split
          intro!: wp_steps_trans [OF that] candidates_refines)
    show ?thesis
      unfolding tick_def
      by (auto simp: wp_sbind wp_slift wp_load split: sum.split list.split
          intro!: candidates_refines wp_conseq [OF query_refines] again dest!: mem)
  qed
qed

lemma submit_steps:
  "wf_task t \<Longrightarrow> world_steps (sp_sha p) c w (fst (submit c p t w))"
proof (rule wp_state)
  assume t: "wf_task t"
  have admit: "wp (service_save p (q\<lparr>sq_next_sequence := sq_next_sequence q + 1,
        sq_tasks := sq_tasks q @ [admitted_task q t]\<rparr>)) (\<lambda>_. world_steps (sp_sha p) c w)
        (\<lambda>_. world_steps (sp_sha p) c w) w"
    if q: "load_queue (sp_sha p) (sw_file w) = Inr q"
      and a: "pristine_task t" "find_task q (st_task_id t) = None" "active_count q < sc_capacity c" for q
    using ws_save [where w = w, OF q qs_admit [OF t a]]
    by (intro wp_save [OF q]) (simp_all add: r_into_rtranclp queue_admit_def)
  show "wp (submit c p t) (\<lambda>_. world_steps (sp_sha p) c w) (\<lambda>_. world_steps (sp_sha p) c w) w"
    unfolding submit_def
    by (auto simp: wp_sbind wp_slift wp_load wp_sret t task_recheck_eq_Inr
        split: sum.split option.split intro!: wp_conseq [OF admit [unfolded admitted_task_def]])
qed

lemma cancel_steps:
  "world_steps (sp_sha p) c w (fst (cancel p i s e w))"
proof (rule wp_state)
  have upd: "wp (service_save p (queue_put q t')) (\<lambda>_. world_steps (sp_sha p) c w)
        (\<lambda>_. world_steps (sp_sha p) c w) w"
    if "load_queue (sp_sha p) (sw_file w) = Inr q" "t \<in> set (sq_tasks q)"
      "task_step (sp_sha p) c t t'" "wf_task t'" for q t t'
    using save_is_step [OF that] by (intro wp_save [OF that(1)]) (simp_all add: queue_update_def)
  show "wp (cancel p i s e) (\<lambda>_. world_steps (sp_sha p) c w) (\<lambda>_. world_steps (sp_sha p) c w) w"
    unfolding cancel_def
    by (auto simp: wp_sbind wp_slift wp_load wp_sret wp_if task_recheck_eq_Inr waiting_state_def
        split: sum.split option.split scheduler_task_state.split dest!: find_task_Some
        intro!: wp_conseq [OF upd] ts_cancel_asked ts_cancelled)
qed

end
