(* ===== verification/Scheduler_Runs.thy ===== *)
theory Scheduler_Runs
  imports Scheduler_Refinement
begin

text \<open>
  Runs of the scheduler service: the worlds its callers can reach by submitting, ticking and
  cancelling with any clock, adapter, resource state, lifecycle gate and disk, and what a
  single tick does to the outside. A concrete configuration and a concrete run at the end are
  the inputs of the witnesses.
\<close>

section \<open>Reachable worlds\<close>

inductive scheduler_reach :: "digest_fun \<Rightarrow> scheduler_config \<Rightarrow> scheduler_world \<Rightarrow> bool"
  for sha c where
  reach_init: "scheduler_reach sha c initial_world"
| reach_submit: "scheduler_reach sha c w \<Longrightarrow> sp_sha p = sha \<Longrightarrow> wf_task t \<Longrightarrow>
    scheduler_reach sha c (fst (submit c p t w))"
| reach_tick: "scheduler_reach sha c w \<Longrightarrow> sp_sha p = sha \<Longrightarrow>
    scheduler_reach sha c (fst (tick c p i e w))"
| reach_cancel: "scheduler_reach sha c w \<Longrightarrow> sp_sha p = sha \<Longrightarrow>
    scheduler_reach sha c (fst (cancel p i s e w))"

lemma reach_steps: "scheduler_reach sha c w \<Longrightarrow> world_steps sha c initial_world w"
proof (induction rule: scheduler_reach.induct)
  case (reach_submit w p t)
  then show ?case using submit_steps [of t p c w] by (auto intro: rtranclp_trans)
next
  case (reach_tick w p i e)
  then show ?case using tick_steps [of p c w i e] by (auto intro: rtranclp_trans)
next
  case (reach_cancel w p i s e)
  then show ?case using cancel_steps [of p c w i s e] by (auto intro: rtranclp_trans)
qed simp

lemma reach_queue:
  assumes "scheduler_reach sha c w"
  obtains q where "load_queue sha (sw_file w) = Inr q" "wf_queue q"
    "(queue_step sha c)\<^sup>*\<^sup>* empty_queue q"
  using world_steps_queue [OF reach_steps [OF assms], of empty_queue]
  by (auto simp: initial_world_def dest: load_queue_wf)

lemma reach_log: "scheduler_reach sha c w \<Longrightarrow> log_inv sha w"
  by (rule log_inv_steps [OF reach_steps log_inv_initial])

lemma queue_steps_capacity:
  "(queue_step sha c)\<^sup>*\<^sup>* q q' \<Longrightarrow> wf_queue q \<Longrightarrow> active_count q \<le> sc_capacity c
     \<Longrightarrow> active_count q' \<le> sc_capacity c"
  by (induction rule: rtranclp_induct) (auto dest: queue_steps_wf intro: queue_step_capacity)

lemma reach_attempts:
  assumes "scheduler_reach sha c w" "load_queue sha (sw_file w) = Inr q" "t \<in> set (sq_tasks q)"
  obtains ns where "attempt_log sha t (dispatched_for w (st_task_id t)) ns"
  using reach_log [OF assms(1)] assms(2,3) by (auto simp: log_inv_def)

section \<open>A terminal task stays as it is\<close>

lemma queue_steps_terminal:
  assumes "(queue_step sha c)\<^sup>*\<^sup>* q q'" "wf_queue q" "t \<in> set (sq_tasks q)" "terminal_state (st_state t)"
  shows "t \<in> set (sq_tasks q')"
  using queue_steps_task [OF assms(1-3)] task_steps_terminal assms(4) by blast

lemma world_step_quiet:
  assumes "world_step sha c w w'" "load_queue sha (sw_file w) = Inr q"
    and t: "t \<in> set (sq_tasks q)" "terminal_state (st_state t)"
  shows "dispatched_for w' (st_task_id t) = dispatched_for w (st_task_id t)"
  using assms(1)
proof (cases rule: world_step.cases)
  case (ws_dispatch q' u now a r)
  then have "u \<noteq> t" using t by (auto simp: waiting_state_def terminal_state_def)
  then have "st_task_id u \<noteq> st_task_id t"
    using wf_queue_unique [OF load_queue_wf [OF assms(2)] t(1)] ws_dispatch(2,3) assms(2) by auto
  moreover have "nq_task_id r = st_task_id u"
    using service_request_Inr [OF ws_dispatch(8)] by (simp add: checkpoint_task_def)
  ultimately show ?thesis by (simp add: ws_dispatch(1) dispatched_for_def)
qed (simp_all add: dispatched_for_def)

lemma world_steps_quiet:
  assumes "world_steps sha c w w'" "load_queue sha (sw_file w) = Inr q"
    and t: "t \<in> set (sq_tasks q)" "terminal_state (st_state t)"
  shows "dispatched_for w' (st_task_id t) = dispatched_for w (st_task_id t)"
  using assms(1)
proof (induction rule: rtranclp_induct)
  case (step u v)
  obtain q' where q': "load_queue sha (sw_file u) = Inr q'" "(queue_step sha c)\<^sup>*\<^sup>* q q'"
    using world_steps_queue [OF step(1) assms(2)] by blast
  then have "t \<in> set (sq_tasks q')"
    using queue_steps_terminal [OF q'(2) load_queue_wf [OF assms(2)] t] by blast
  with world_step_quiet [OF step(2) q'(1) _ t(2)] step.IH show ?case by simp
qed simp

section \<open>What one tick sends\<close>

text \<open>Reconciling a receipt and asking for one send nothing.\<close>

lemma keeps_dispatched_commit:
  "P (sw_dispatched w) \<Longrightarrow>
     wp (commit_task p q t st reason rc) (\<lambda>_ w'. P (sw_dispatched w')) (\<lambda>_ w'. P (sw_dispatched w')) w"
  unfolding commit_task_def
  by (auto simp: wp_simps wp_def [of "service_save _ _"] service_save_def Let_def
      split: sum.split option.split adapter_result.split prod.split)

lemma keeps_dispatched_reconcile:
  "P (sw_dispatched w) \<Longrightarrow>
     wp (reconcile_receipt c p q t r now fq) (\<lambda>_ w'. P (sw_dispatched w')) (\<lambda>_ w'. P (sw_dispatched w')) w"
  unfolding reconcile_receipt_def Let_def
  by (auto simp: wp_simps keeps_dispatched_commit split: sum.split option.split adapter_result.split)

lemma keeps_dispatched_apply:
  "P (sw_dispatched w) \<Longrightarrow>
     wp (apply_receipt c p i r now fq) (\<lambda>_ w'. P (sw_dispatched w')) (\<lambda>_ w'. P (sw_dispatched w')) w"
  unfolding apply_receipt_def
  by (auto simp: wp_simps keeps_dispatched_reconcile split: sum.split option.split adapter_result.split)

lemma keeps_dispatched_backoff:
  "P (sw_dispatched w) \<Longrightarrow>
     wp (query_backoff c p t now code reason) (\<lambda>_ w'. P (sw_dispatched w')) (\<lambda>_ w'. P (sw_dispatched w')) w"
  unfolding query_backoff_def
  by (auto simp: wp_simps keeps_dispatched_commit split: sum.split option.split adapter_result.split)

lemma keeps_dispatched_query:
  "P (sw_dispatched w) \<Longrightarrow>
     wp (query_unknown c p t now) (\<lambda>_ w'. P (sw_dispatched w')) (\<lambda>_ w'. P (sw_dispatched w')) w"
  unfolding query_unknown_def
  by (auto simp: wp_simps keeps_dispatched_apply keeps_dispatched_backoff
      wp_def [of "send_query _ _"] send_query_def split: sum.split option.split adapter_result.split)

text \<open>When the disk refuses the next revision, reconciling a receipt leaves the file as it is.\<close>

lemma keeps_file_commit:
  assumes "load_queue (sp_sha p) (sw_file w) = Inr q" "\<not> sp_disk_ok p (sq_revision q + 1)" "sw_file w = f"
  shows "wp (commit_task p q t st reason rc) (\<lambda>_ w'. sw_file w' = f) (\<lambda>_ w'. sw_file w' = f) w"
  unfolding commit_task_def wp_sbind
  by (intro wp_recheck wp_save [OF assms(1)]) (use assms in \<open>simp_all add: queue_put_def\<close>)

lemma keeps_file_reconcile:
  assumes "load_queue (sp_sha p) (sw_file w) = Inr q" "\<not> sp_disk_ok p (sq_revision q + 1)" "sw_file w = f"
  shows "wp (reconcile_receipt c p q t r now fq) (\<lambda>_ w'. sw_file w' = f) (\<lambda>_ w'. sw_file w' = f) w"
  unfolding reconcile_receipt_def Let_def
  using assms by (auto simp: wp_simps intro!: keeps_file_commit split: sum.split option.split adapter_result.split)

lemma keeps_file_apply:
  assumes "load_queue (sp_sha p) (sw_file w) = Inr q" "\<not> sp_disk_ok p (sq_revision q + 1)" "sw_file w = f"
  shows "wp (apply_receipt c p i r now fq) (\<lambda>_ w'. sw_file w' = f) (\<lambda>_ w'. sw_file w' = f) w"
  unfolding apply_receipt_def
  using assms by (auto simp: wp_simps intro!: keeps_file_reconcile split: sum.split option.split adapter_result.split)

text \<open>
  The one request a tick may send: the task waited, was due and belongs to the caller; the
  attempt is the next one, and the disk accepted a save for it.
\<close>

definition sent_by ::
  "scheduler_ports \<Rightarrow> string \<Rightarrow> string \<Rightarrow> instant \<Rightarrow> scheduler_queue \<Rightarrow> scheduler_task \<Rightarrow> string \<Rightarrow> notification_request \<Rightarrow> bool" where
  "sent_by p i e now q t a r \<longleftrightarrow> t \<in> set (sq_tasks q) \<and> binding_matches t i e \<and> waiting_state (st_state t) \<and>
     task_due t now \<and> st_attempt_count t < st_max_attempts t \<and>
     stable_attempt_id (sp_sha p) (PStr (st_task_id t)) (st_attempt_count t + 1) = Inr a \<and> nq_attempt_id r = a \<and>
     nq_task_id r = st_task_id t \<and> nq_subject_id r = i \<and> nq_environment r = e \<and>
     nq_requested_at r = now \<and> sp_disk_ok p (sq_revision q + 1)"

text \<open>
  The file after the request went out: it goes on from the queue \<open>q1\<close> with the attempt recorded, and
  is that very queue if the disk accepts no later save.
\<close>

definition goes_on :: "scheduler_config \<Rightarrow> scheduler_ports \<Rightarrow> scheduler_queue \<Rightarrow> scheduler_world \<Rightarrow> bool" where
  "goes_on c p q1 w' \<longleftrightarrow> (\<exists>q'. load_queue (sp_sha p) (sw_file w') = Inr q' \<and> (queue_step (sp_sha p) c)\<^sup>*\<^sup>* q1 q' \<and>
     (\<not> sp_disk_ok p (sq_revision q1 + 1) \<longrightarrow> q' = q1))"

abbreviation attempt_recorded :: "scheduler_queue \<Rightarrow> scheduler_task \<Rightarrow> string \<Rightarrow> scheduler_queue" where
  "attempt_recorded q t a \<equiv> queue_update q (checkpoint_task t (st_attempt_count t + 1) a)"

lemma apply_goes_on:
  assumes "load_queue (sp_sha p) (sw_file w) = Inr q1"
  shows "wp (apply_receipt c p i r now fq) (\<lambda>_ w'. sw_dispatched w' = sw_dispatched w \<and> goes_on c p q1 w')
    (\<lambda>_ w'. sw_dispatched w' = sw_dispatched w \<and> goes_on c p q1 w') w"
proof -
  have steps: "\<exists>q'. load_queue (sp_sha p) (sw_file w') = Inr q' \<and> (queue_step (sp_sha p) c)\<^sup>*\<^sup>* q1 q'"
    if "world_steps (sp_sha p) c w w'" for w'
    using world_steps_queue [OF that assms] by blast
  have kept: "wp (apply_receipt c p i r now fq) (\<lambda>_ w'. \<not> sp_disk_ok p (sq_revision q1 + 1) \<longrightarrow> sw_file w' = sw_file w)
      (\<lambda>_ w'. \<not> sp_disk_ok p (sq_revision q1 + 1) \<longrightarrow> sw_file w' = sw_file w) w"
    using keeps_file_apply [OF assms _ refl] by (cases "sp_disk_ok p (sq_revision q1 + 1)") (auto simp: wp_def split: sum.splits prod.splits)
  show ?thesis
    using apply_refines [where p = p and c = c and w = w and i = i and r = r and now = now and fq = fq] keeps_dispatched_apply [where P = "\<lambda>d. d = sw_dispatched w", of w c p i r now fq] kept
    by (auto simp: wp_def goes_on_def assms dest!: steps split: sum.splits prod.splits)
qed

lemma dispatch_sends:
  assumes l: "load_queue (sp_sha p) (sw_file w) = Inr q" "t \<in> set (sq_tasks q)"
    and t: "waiting_state (st_state t)" "task_due t now" "binding_matches t i e"
    and a: "stable_attempt_id (sp_sha p) (PStr (st_task_id t)) (st_attempt_count t + 1) = Inr a"
    and same: "\<And>w'. sw_dispatched w' = sw_dispatched w \<Longrightarrow> P w'"
    and sent: "\<And>w' r. sent_by p i e now q t a r \<Longrightarrow> goes_on c p (attempt_recorded q t a) w' \<Longrightarrow>
      sw_dispatched w' = sw_dispatched w @ [r] \<Longrightarrow> P w'"
  shows "wp (dispatch_task c p now q t (st_attempt_count t + 1) a) (\<lambda>_. P) (\<lambda>_. P) w"
proof -
  let ?t = "checkpoint_task t (st_attempt_count t + 1) a"
  let ?q1 = "attempt_recorded q t a"
  let ?w1 = "\<lambda>r. w\<lparr>sw_file := File_Doc (scheduler_queue_to_dict (sp_sha p) ?q1), sw_dispatched := sw_dispatched w @ [r]\<rparr>"
  have wf: "wf_queue ?q1" if "wf_task ?t"
    using wf_queue_update [OF load_queue_wf [OF l(1)] l(2) ts_checkpoint [OF t(1) a] that] .
  have bound: "sent_by p i e now q t a r"
    if "wf_task ?t" "service_request ?t now = Inr r" "sp_disk_ok p (sq_revision q + 1)" for r
    using service_request_Inr [OF that(2)] that(1,3) l(2) t a
    by (auto simp: sent_by_def checkpoint_task_def wf_task_def binding_matches_def)
  have out: "P (?w1 r)" if "wf_task ?t" "service_request ?t now = Inr r" "sp_disk_ok p (sq_revision q + 1)" for r
    using bound [OF that] wf [OF that(1)] by (intro sent) (auto simp: goes_on_def)
  have answer: "wp (apply_receipt c p j rc now fq) (\<lambda>_. P) (\<lambda>_. P) (?w1 r)"
    if "wf_task ?t" "service_request ?t now = Inr r" "sp_disk_ok p (sq_revision q + 1)" for r j rc fq
  proof -
    have "load_queue (sp_sha p) (sw_file (?w1 r)) = Inr ?q1" using wf [OF that(1)] by simp
    from wp_conseq [OF apply_goes_on [OF this]] sent [OF bound [OF that]] show ?thesis by simp
  qed
  show ?thesis
    unfolding dispatch_task_def wp_sbind
    by (rule wp_recheck, simp add: same, rule wp_save [OF l(1)], simp add: queue_put_def, simp add: same)
      (auto simp: wp_slift wp_def [of "send_dispatch p _"] send_dispatch_def same
        out [unfolded queue_update_def] answer [unfolded queue_update_def] wp_if checkpoint_task_def [symmetric]
        split: sum.split adapter_result.split)
qed

lemma ready_sends:
  assumes l: "load_queue (sp_sha p) (sw_file w) = Inr q" "set ready \<subseteq> set (sq_tasks q)"
    and t: "\<forall>t \<in> set ready. waiting_state (st_state t) \<and> task_due t now \<and> binding_matches t i e"
    and same: "\<And>w'. sw_dispatched w' = sw_dispatched w \<Longrightarrow> P w'"
    and sent: "\<And>w' t a r. sent_by p i e now q t a r \<Longrightarrow> goes_on c p (attempt_recorded q t a) w' \<Longrightarrow>
      sw_dispatched w' = sw_dispatched w @ [r] \<Longrightarrow> P w'"
  shows "wp (tick_ready c p i e now q ready) (\<lambda>_. P) (\<lambda>_. P) w"
proof -
  have scan: "wp (dispatch_task c p now q t n a) (\<lambda>_. P) (\<lambda>_. P) w"
    if "resource_scan c p now rv df (take m ready) = Inr (Inr (t, n, a))" for rv df m t n a
    using resource_scan_chosen [OF that] t l dispatch_sends [OF l(1), of t now i e a P c] same sent
    by (auto dest!: in_set_takeD)
  show ?thesis
    unfolding tick_ready_def Let_def
    by (auto simp: wp_simps scan same split: option.split sum.split prod.split exc_class.split)
qed

lemma candidates_sends:
  assumes l: "load_queue (sp_sha p) (sw_file w) = Inr q"
    and same: "\<And>w'. sw_dispatched w' = sw_dispatched w \<Longrightarrow> P w'"
    and sent: "\<And>w' t a r. sent_by p i e now q t a r \<Longrightarrow> goes_on c p (attempt_recorded q t a) w' \<Longrightarrow>
      sw_dispatched w' = sw_dispatched w @ [r] \<Longrightarrow> P w'"
  shows "wp (tick_candidates c p i e now v q) (\<lambda>_. P) (\<lambda>_. P) w"
  unfolding tick_candidates_def Let_def
  by (auto simp: wp_simps same split: option.split sum.split 
      intro!: ready_sends [where P = P, OF l _ _ same sent] dest!: set_sort_ready)

lemma tick_sends:
  assumes l: "load_queue (sp_sha p) (sw_file w) = Inr q0"
  shows "sw_dispatched (fst (tick c p i e w)) = sw_dispatched w \<or>
    (\<exists>now q t a r. sched_now (sp_clock p) = Inr now \<and> (queue_step (sp_sha p) c)\<^sup>*\<^sup>* q0 q \<and>
       sent_by p i e now q t a r \<and> goes_on c p (attempt_recorded q t a) (fst (tick c p i e w)) \<and>
       sw_dispatched (fst (tick c p i e w)) = sw_dispatched w @ [r])"
proof -
  define P where "P = (\<lambda>w'. sw_dispatched w' = sw_dispatched w \<or> (\<exists>now q t a r. sched_now (sp_clock p) = Inr now \<and>
     (queue_step (sp_sha p) c)\<^sup>*\<^sup>* q0 q \<and> sent_by p i e now q t a r \<and> goes_on c p (attempt_recorded q t a) w' \<and>
     sw_dispatched w' = sw_dispatched w @ [r]))"
  have same: "P w'" if "sw_dispatched w' = sw_dispatched w" for w' using that by (simp add: P_def)
  let ?I = "\<lambda>w'. world_steps (sp_sha p) c w w' \<and> sw_dispatched w' = sw_dispatched w"
  have mem: "u \<in> set (sq_tasks q) \<and> st_state u = UNKNOWN" if "due_unknown i e now q = u # us" for q u us now
  proof -
    have "u \<in> set (due_unknown i e now q)" using that by simp
    then show ?thesis by (simp add: due_unknown_def)
  qed
  have cand: "wp (tick_candidates c p i e now v q) (\<lambda>_. P) (\<lambda>_. P) w'"
    if "sched_now (sp_clock p) = Inr now" "load_queue (sp_sha p) (sw_file w') = Inr q" "?I w'" for now v q w'
  proof (rule candidates_sends [OF that(2)])
    show "P w2" if "sw_dispatched w2 = sw_dispatched w'" for w2
      using that \<open>?I w'\<close> same by simp
    have "(queue_step (sp_sha p) c)\<^sup>*\<^sup>* q0 q" using world_steps_queue [of "sp_sha p" c w w' q0] l that(2,3) by auto
    then show "P w2" if "sent_by p i e now q t a r" "goes_on c p (attempt_recorded q t a) w2"
      "sw_dispatched w2 = sw_dispatched w' @ [r]" for w2 t a r
      using that \<open>?I w'\<close> \<open>sched_now (sp_clock p) = Inr now\<close> unfolding P_def by metis
  qed
  have q: "wp (query_unknown c p u now) (\<lambda>_. ?I) (\<lambda>_. ?I) w"
    if "u \<in> set (sq_tasks q0)" "st_state u = UNKNOWN" for u now
    using query_refines [OF l that, of c now]
      keeps_dispatched_query [where P = "\<lambda>d. d = sw_dispatched w", of w c p u now]
    by (auto simp: wp_def split: prod.splits sum.splits)
  have "wp (tick c p i e) (\<lambda>_. P) (\<lambda>_. P) w"
    unfolding tick_def
    by (auto simp: wp_simps l same split: sum.split list.split intro!: cand wp_conseq [OF q] dest!: mem)
  then have "P (fst (tick c p i e w))" by (rule wp_state)
  then show ?thesis by (simp add: P_def)
qed

section \<open>Which task is chosen\<close>

definition sched_rank :: "scheduler_config \<Rightarrow> instant \<Rightarrow> scheduler_task \<Rightarrow> int \<times> instant \<times> int \<times> string" where
  "sched_rank c now t = (- aged_priority t now (sc_aging_interval_seconds c), st_due_at t,
     st_sequence t, st_task_id t)"

lemma sort_ready_rank:
  assumes "0 < sc_aging_interval_seconds c"
  shows "sort_ready c now ts = Inr (sort_key (sched_rank c now) ts)"
proof -
  have "rmap (\<lambda>t. rbind (sched_sort_key c now t) (\<lambda>k. Inr (k, t))) ts
      = Inr (map (\<lambda>t. (sched_rank c now t, t)) ts)"
    using assms by (induction ts) (simp_all add: sched_sort_key_def sched_rank_def effective_priority_def)
  moreover have "insort_key fst (sched_rank c now t, t) (map (\<lambda>t. (sched_rank c now t, t)) us)
      = map (\<lambda>t. (sched_rank c now t, t)) (insort_key (sched_rank c now) t us)" for t us
    by (induction us) auto
  then have "sort_key fst (map (\<lambda>t. (sched_rank c now t, t)) ts)
      = map (\<lambda>t. (sched_rank c now t, t)) (sort_key (sched_rank c now) ts)"
    by (induction ts) simp_all
  ultimately show ?thesis by (simp add: sort_ready_def comp_def)
qed

end
