(* ===== verification/Scheduler_Liveness.thy ===== *)
theory Scheduler_Liveness
  imports Scheduler_Runs
begin

text \<open>
  A tick whose surroundings cooperate completes the most urgent due task: the calls of the
  service are evaluated on their successful path.
\<close>

section \<open>Tasks that wait have attempts left\<close>

definition waiting_ok :: "scheduler_task \<Rightarrow> bool" where
  "waiting_ok t \<longleftrightarrow> (waiting_state (st_state t) \<longrightarrow> st_attempt_count t < st_max_attempts t)"

lemma task_step_waiting_ok: "task_step sha c t t' \<Longrightarrow> waiting_ok t'"
  by (induction rule: task_step.induct) (auto simp: waiting_ok_def waiting_state_def task_step_defs)

lemma queue_step_waiting_ok:
  assumes "queue_step sha c q q'" "wf_queue q" "\<forall>t \<in> set (sq_tasks q). waiting_ok t"
  shows "\<forall>t \<in> set (sq_tasks q'). waiting_ok t"
  using assms
proof (induction rule: queue_step.induct)
  case (qs_admit t q)
  then have "waiting_ok (admitted_task q t)"
    by (simp add: waiting_ok_def admitted_task_def pristine_task_def wf_task_def)
  with qs_admit show ?case by (simp add: queue_admit_def)
next
  case (qs_update t q t')
  have "st_task_id t' = st_task_id t" by (rule task_step_identity_simps [OF qs_update(2)])
  with qs_update set_queue_put [of q t t'] task_step_waiting_ok [OF qs_update(2)] show ?case
    by (simp add: queue_update_def)
qed

lemma queue_steps_waiting_ok:
  "(queue_step sha c)\<^sup>*\<^sup>* q q' \<Longrightarrow> wf_queue q \<Longrightarrow> \<forall>t \<in> set (sq_tasks q). waiting_ok t
     \<Longrightarrow> \<forall>t \<in> set (sq_tasks q'). waiting_ok t"
proof (induction rule: rtranclp_induct)
  case (step r s)
  then show ?case using queue_step_waiting_ok [OF step(2) queue_steps_wf [OF step(1,4)]] by blast
qed simp

section \<open>The calls on their successful path\<close>

lemma service_save_run:
  assumes "load_queue (sp_sha p) (sw_file w) = Inr q" "sq_revision q' = sq_revision q"
    "sp_disk_ok p (sq_revision q + 1)"
  shows "service_save p q' w =
    (w\<lparr>sw_file := File_Doc (scheduler_queue_to_dict (sp_sha p) (q'\<lparr>sq_revision := sq_revision q + 1\<rparr>))\<rparr>,
     Inr (q'\<lparr>sq_revision := sq_revision q + 1\<rparr>))"
  using assms load_queue_wf [OF assms(1)]
  by (simp add: service_save_def save_queue_def wf_queue_def Let_def)

lemma commit_run:
  assumes "load_queue (sp_sha p) (sw_file w) = Inr q" "wf_task t" "sp_disk_ok p (sq_revision q + 1)"
  shows "commit_task p q t st reason rc w =
    (w\<lparr>sw_file := File_Doc (scheduler_queue_to_dict (sp_sha p) (queue_update q t))\<rparr>,
     Inr (tick_result st t (sq_revision q + 1) reason rc))"
  using assms
  by (simp add: commit_task_def sbind_def prog_simps wf_task_recheck service_save_run [OF assms(1)]
      queue_update_def)

definition request_of :: "scheduler_task \<Rightarrow> string \<Rightarrow> instant \<Rightarrow> notification_request" where
  "request_of t a now = \<lparr>nq_task_id = st_task_id t, nq_attempt_id = a, nq_subject_id = st_subject_id t,
     nq_environment = st_environment t, nq_cycle_id = st_cycle_id t,
     nq_wake_reason = st_wake_reason t, nq_source_event_id = st_source_event_id t,
     nq_requested_at = now\<rparr>"

lemma service_request_run:
  "wf_task t \<Longrightarrow> st_last_attempt_id t = Some a \<Longrightarrow> service_request t now = Inr (request_of t a now)"
  by (simp add: service_request_def notification_request_init_def request_of_def wf_task_def
      sched_checks_run)

text \<open>An adapter that delivers: its receipt is bound to the request it was given.\<close>

definition delivers :: "scheduler_ports \<Rightarrow> bool" where
  "delivers p \<longleftrightarrow> (\<forall>r. \<exists>rc. sp_dispatch p r = Adapter_Receipt rc \<and>
     nr_task_id rc = nq_task_id r \<and> nr_attempt_id rc = nq_attempt_id r \<and>
     nr_subject_id rc = nq_subject_id r \<and> nr_environment rc = nq_environment r \<and>
     nr_status rc = Notification_DELIVERED \<and> \<not> blank (nr_receipt_id rc))"

text \<open>Surroundings that let a tick through.\<close>

definition cooperative :: "scheduler_config \<Rightarrow> scheduler_ports \<Rightarrow> string \<Rightarrow> string \<Rightarrow> instant \<Rightarrow> bool" where
  "cooperative c p i e now \<longleftrightarrow> sched_now (sp_clock p) = Inr now \<and> delivers p \<and>
     (\<forall>n. sp_disk_ok p n) \<and> (\<forall>r. \<exists>d. sp_preview p r = Inr d \<and> rd_allowed d \<and> \<not> rd_defer d) \<and>
     (\<forall>gate. sp_require_active p = Some gate \<longrightarrow> gate i e = Inr ()) \<and>
     (\<forall>q. sc_quiet_hours c = Some q \<longrightarrow> \<not> quiet_hours_contains q now)"

definition ready_list :: "string \<Rightarrow> string \<Rightarrow> instant \<Rightarrow> scheduler_queue \<Rightarrow> scheduler_task list" where
  "ready_list i e now q = filter (\<lambda>t. task_due t now)
     (filter (\<lambda>t. waiting_state (st_state t)) (filter (\<lambda>t. binding_matches t i e) (sq_tasks q)))"

lemma preview_run:
  assumes "wf_config c" "wf_task t" "\<not> blank a"
    and "\<forall>r. \<exists>d. sp_preview p r = Inr d \<and> rd_allowed d \<and> \<not> rd_defer d"
  shows "preview_task c p now t a = Inr (True, ''RESOURCE_POLICY_DEFERRED'')"
proof -
  have "\<exists>r. resource_request_init
      \<lparr>rqa_request_id = PStr (resource_request_id (sp_sha p) a), rqa_subject_id = PStr (st_subject_id t),
       rqa_session_id = PStr a, rqa_session_type = PStr (session_type_value Session_OTHER),
       rqa_estimated_tokens = PInt (sc_estimated_tokens c),
       rqa_estimated_compute = PInt (sc_estimated_compute c), rqa_model_name = PStr ''not-applicable'',
       rqa_reason = PStr ''Evaluate one P11 scheduler computation opportunity.'',
       rqa_requested_at = utc_val now, rqa_requested_depth = PNone\<rparr> = Inr r"
    using assms(1-3) res_depth_run [of None]
    by (simp add: resource_request_init_def res_run wf_config_def wf_task_def resource_request_id_def
        blank_def py_space_def Let_def del: session_type_value.simps)
  with assms(4) show ?thesis
    by (auto simp: preview_task_def split: sum.split) (metis Inr_inject Inl_Inr_False)+
qed

lemma wf_checkpoint:
  assumes "wf_task t" "waiting_state (st_state t)" "st_attempt_count t < st_max_attempts t" "\<not> blank a"
  shows "wf_task (checkpoint_task t (st_attempt_count t + 1) a)"
  using assms
  by (simp add: wf_task_def checkpoint_task_def waiting_state_def blank_def py_space_def Let_def) force

definition completed_task :: "digest_fun \<Rightarrow> scheduler_task \<Rightarrow> notification_receipt \<Rightarrow> scheduler_task" where
  "completed_task sha t rc = (bind_receipt sha t rc)\<lparr>st_state := COMPLETED, st_next_attempt_at := None,
     st_completed_at := Some (nr_observed_at rc),
     st_reason_codes := st_reason_codes t @ [''RECEIPT_DELIVERED'']\<rparr>"

lemma wf_completed:
  assumes "wf_task t" "\<not> blank (nr_receipt_id rc)" "nr_status rc = Notification_DELIVERED"
  shows "wf_task (completed_task sha t rc)"
proof -
  have "\<not> blank (receipt_hash sha rc)" by (simp add: receipt_hash_def)
  with assms show ?thesis
    by (simp add: wf_task_def completed_task_def bind_receipt_def blank_def py_space_def Let_def)
qed

lemma apply_delivered_run:
  assumes l: "load_queue (sp_sha p) (sw_file w) = Inr q" "t \<in> set (sq_tasks q)" "st_state t = UNKNOWN"
    and r: "receipt_matches t rc" "nr_status rc = Notification_DELIVERED" "\<not> blank (nr_receipt_id rc)"
    and d: "sp_disk_ok p (sq_revision q + 1)"
  shows "apply_receipt c p (st_task_id t) rc now False w =
    (w\<lparr>sw_file := File_Doc (scheduler_queue_to_dict (sp_sha p) (queue_update q (completed_task (sp_sha p) t rc)))\<rparr>,
     Inr (tick_result Tick_COMPLETED (completed_task (sp_sha p) t rc) (sq_revision q + 1)
       ''RECEIPT_DELIVERED'' (Some rc)))"
proof -
  have wf: "wf_queue q" by (rule load_queue_wf [OF l(1)])
  note c = commit_run [OF l(1) wf_completed [OF wf_queue_task [OF wf l(2)] r(3,2)] d]
  show ?thesis
    using c
    by (simp add: apply_receipt_def sbind_def service_load_def l r find_task_mem [OF wf l(2)]
        reconcile_receipt_def Let_def completed_task_def)
qed

lemma dispatch_delivers:
  assumes l: "load_queue (sp_sha p) (sw_file w) = Inr q" "t \<in> set (sq_tasks q)"
    and t: "waiting_state (st_state t)" "waiting_ok t"
    and a: "stable_attempt_id (sp_sha p) (PStr (st_task_id t)) (st_attempt_count t + 1) = Inr a" "\<not> blank a"
    and p: "delivers p" "\<forall>n. sp_disk_ok p n"
  shows "\<exists>w' t' q' rc. dispatch_task c p now q t (st_attempt_count t + 1) a w =
      (w', Inr (tick_result Tick_COMPLETED t' (sq_revision q + 2) ''RECEIPT_DELIVERED'' (Some rc))) \<and>
    st_task_id t' = st_task_id t \<and> st_state t' = COMPLETED \<and>
    load_queue (sp_sha p) (sw_file w') = Inr q' \<and> t' \<in> set (sq_tasks q') \<and>
    sw_dispatched w' = sw_dispatched w @ [request_of t a now]"
proof -
  let ?t = "checkpoint_task t (st_attempt_count t + 1) a"
  let ?q = "queue_update q ?t"
  let ?w = "w\<lparr>sw_file := File_Doc (scheduler_queue_to_dict (sp_sha p) ?q),
    sw_dispatched := sw_dispatched w @ [request_of t a now]\<rparr>"
  have wf: "wf_queue q" by (rule load_queue_wf [OF l(1)])
  have wft: "wf_task ?t" using wf_checkpoint [OF wf_queue_task [OF wf l(2)] t(1) _ a(2)] t by (simp add: waiting_ok_def)
  have step: "queue_step (sp_sha p) c q ?q" by (rule qs_update [OF l(2) ts_checkpoint [OF t(1) a(1)] wft])
  have lq: "load_queue (sp_sha p) (sw_file ?w) = Inr ?q" using saved_queue_step [OF l(1) step] by simp
  have mem: "?t \<in> set (sq_tasks ?q)" "st_state ?t = UNKNOWN"
    using set_queue_put [OF wf l(2), of ?t] by (simp_all add: queue_update_def checkpoint_task_def)
  have req: "service_request ?t now = Inr (request_of t a now)"
    using service_request_run [OF wft, of a now] by (simp add: checkpoint_task_def request_of_def)
  obtain rc where rc: "sp_dispatch p (request_of t a now) = Adapter_Receipt rc" "receipt_matches ?t rc"
    "nr_status rc = Notification_DELIVERED" "\<not> blank (nr_receipt_id rc)"
    using p(1) unfolding delivers_def
    by (fastforce simp: request_of_def receipt_matches_def checkpoint_task_def)
  let ?c = "completed_task (sp_sha p) ?t rc"
  have ap: "apply_receipt c p (st_task_id ?t) rc now False ?w =
    (?w\<lparr>sw_file := File_Doc (scheduler_queue_to_dict (sp_sha p) (queue_update ?q ?c))\<rparr>,
     Inr (tick_result Tick_COMPLETED ?c (sq_revision ?q + 1) ''RECEIPT_DELIVERED'' (Some rc)))"
    using apply_delivered_run [OF lq mem rc(2-4)] p(2) by simp
  have "wf_task ?c" by (rule wf_completed [OF wft rc(4,3)])
  then have step': "queue_step (sp_sha p) c ?q (queue_update ?q ?c)"
    using ts_delivered [OF mem(2) rc(2,3)] by (intro qs_update [OF mem(1)]) (simp_all add: completed_task_def)
  have mem': "?c \<in> set (sq_tasks (queue_update ?q ?c))"
    using set_queue_put [OF queue_step_wf [OF step wf] mem(1), of ?c]
    by (simp add: queue_update_def completed_task_def bind_receipt_def)
  have "dispatch_task c p now q t (st_attempt_count t + 1) a w =
      apply_receipt c p (st_task_id ?t) rc now False ?w"
    using p(2) rc(2)
    by (simp add: dispatch_task_def sbind_def prog_simps wf_task_recheck [OF wft] req rc(1)
        service_save_run [OF l(1)] send_dispatch_def queue_update_def)
  with ap have run: "dispatch_task c p now q t (st_attempt_count t + 1) a w =
    (?w\<lparr>sw_file := File_Doc (scheduler_queue_to_dict (sp_sha p) (queue_update ?q ?c))\<rparr>,
     Inr (tick_result Tick_COMPLETED ?c (sq_revision ?q + 1) ''RECEIPT_DELIVERED'' (Some rc)))" by simp
  have "sq_revision ?q + 1 = sq_revision q + 2" by (simp add: queue_update_def)
  note run' = run [unfolded this]
  have c: "st_task_id ?c = st_task_id t" "st_state ?c = COMPLETED"
    by (simp_all add: completed_task_def bind_receipt_def checkpoint_task_def)
  have ld: "load_queue (sp_sha p) (File_Doc (scheduler_queue_to_dict (sp_sha p) (queue_update ?q ?c)))
      = Inr (queue_update ?q ?c)"
    by (rule saved_queue_step [OF lq step'])
  show ?thesis
    by (intro exI conjI, rule run') (rule mem' | simp add: c ld)+
qed

lemma scan_first:
  assumes "wf_config c" "wf_task t"
    and "\<forall>r. \<exists>d. sp_preview p r = Inr d \<and> rd_allowed d \<and> \<not> rd_defer d"
  obtains a where "stable_attempt_id (sp_sha p) (PStr (st_task_id t)) (st_attempt_count t + 1) = Inr a"
    "\<not> blank a"
    "resource_scan c p now rv None (take (nat (min (sc_resource_scan_limit c) (sc_capacity c))) (t # ts))
       = Inr (Inr (t, st_attempt_count t + 1, a))"
proof -
  have "\<not> blank (st_task_id t)" "0 < st_attempt_count t + 1" using assms(2) by (simp_all add: wf_task_def)
  from stable_attempt_id_OK [OF this] obtain a where
    a: "stable_attempt_id (sp_sha p) (PStr (st_task_id t)) (st_attempt_count t + 1) = Inr a" "\<not> blank a"
    by blast
  obtain n where n: "nat (min (sc_resource_scan_limit c) (sc_capacity c)) = Suc n"
    using assms(1) by (cases "nat (min (sc_resource_scan_limit c) (sc_capacity c))") (auto simp: wf_config_def)
  show thesis
    by (rule that [OF a]) (simp add: n a preview_run [OF assms(1,2) a(2) assms(3)] Let_def)
qed

text \<open>The most urgent ready task of a cooperative tick ends completed.\<close>

lemma tick_delivers:
  assumes c: "wf_config c" "cooperative c p i e now"
    and l: "load_queue (sp_sha p) (sw_file w) = Inr q" "\<forall>t \<in> set (sq_tasks q). waiting_ok t"
    and d: "due_unknown i e now q = []" "ready_list i e now q \<noteq> []"
  shows "\<exists>w' t t' q' rc a. tick c p i e w =
      (w', Inr (tick_result Tick_COMPLETED t' (sq_revision q + 2) ''RECEIPT_DELIVERED'' (Some rc))) \<and>
    t \<in> set (ready_list i e now q) \<and>
    (\<forall>u \<in> set (ready_list i e now q). sched_rank c now t \<le> sched_rank c now u) \<and>
    st_task_id t' = st_task_id t \<and> st_state t' = COMPLETED \<and>
    load_queue (sp_sha p) (sw_file w') = Inr q' \<and> t' \<in> set (sq_tasks q') \<and>
    sw_dispatched w' = sw_dispatched w @ [request_of t a now]"
proof -
  let ?s = "sort_key (sched_rank c now) (ready_list i e now q)"
  obtain t ts where s: "?s = t # ts" using d(2) by (cases ?s) (auto dest: arg_cong [where f = set])
  have set: "set (t # ts) = set (ready_list i e now q)" by (simp add: s [symmetric])
  have min: "sched_rank c now t \<le> sched_rank c now u" if "u \<in> set (ready_list i e now q)" for u
  proof -
    have "sorted (map (sched_rank c now) (t # ts))" by (simp add: s [symmetric])
    then show ?thesis using that set by auto
  qed
  have t: "t \<in> set (sq_tasks q)" "waiting_state (st_state t)" "t \<in> set (ready_list i e now q)"
    using set by (auto simp: ready_list_def)
  have wft: "wf_task t" by (rule wf_queue_task [OF load_queue_wf [OF l(1)] t(1)])
  have "\<forall>r. \<exists>d. sp_preview p r = Inr d \<and> rd_allowed d \<and> \<not> rd_defer d" using c(2) by (simp add: cooperative_def)
  from scan_first [OF c(1) wft this] obtain a where
    a: "stable_attempt_id (sp_sha p) (PStr (st_task_id t)) (st_attempt_count t + 1) = Inr a" "\<not> blank a"
    "resource_scan c p now (sq_revision q) None
       (take (nat (min (sc_resource_scan_limit c) (sc_capacity c))) (t # ts)) = Inr (Inr (t, st_attempt_count t + 1, a))"
    by metis
  have nonempty: "(filter (\<lambda>t. waiting_state (st_state t))
      (filter (\<lambda>t. binding_matches t i e) (sq_tasks q)) = []) = False"
    using d(2) by (auto simp: ready_list_def simp del: filter_filter)
  have "tick_candidates c p i e now None q = sbind (slift (sort_ready c now (ready_list i e now q)))
      (\<lambda>ready. tick_ready c p i e now q ready)"
    unfolding tick_candidates_def Let_def ready_list_def [symmetric]
    using d(2) by (simp only: if_False nonempty)
  then have "tick c p i e w = tick_ready c p i e now q (t # ts) w"
    using c s by (simp add: tick_def sbind_def prog_simps service_load_def cooperative_def l(1) d(1)
        sort_ready_rank wf_config_def)
  also have "\<dots> = dispatch_task c p now q t (st_attempt_count t + 1) a w"
    using c(2) a(3)
    by (auto simp: tick_ready_def sbind_def prog_simps cooperative_def Let_def split: option.split)
  finally have run: "tick c p i e w = dispatch_task c p now q t (st_attempt_count t + 1) a w" .
  obtain w' t' q' rc where "dispatch_task c p now q t (st_attempt_count t + 1) a w =
      (w', Inr (tick_result Tick_COMPLETED t' (sq_revision q + 2) ''RECEIPT_DELIVERED'' (Some rc)))"
    "st_task_id t' = st_task_id t" "st_state t' = COMPLETED"
    "load_queue (sp_sha p) (sw_file w') = Inr q'" "t' \<in> set (sq_tasks q')"
    "sw_dispatched w' = sw_dispatched w @ [request_of t a now]"
    using dispatch_delivers [OF l(1) t(1,2) _ a(1,2), of c now] l(2) t(1) c(2)
    unfolding cooperative_def by metis
  with run min t(3) show ?thesis by metis
qed

end
