(* ===== verification/Scheduler_Properties.thy ===== *)
theory Scheduler_Properties
  imports Scheduler_Liveness
begin

text \<open>
  The properties of the scheduler, each with a witness on a concrete configuration, task and
  adapter (\<open>demo_\<close> below).
\<close>

section \<open>Results and the receipts behind them\<close>

text \<open>The adapter returned this receipt to a dispatch or a query.\<close>

definition answered :: "scheduler_ports \<Rightarrow> notification_receipt \<Rightarrow> bool" where
  "answered p rc \<longleftrightarrow> (\<exists>req. sp_dispatch p req = Adapter_Receipt rc \<or> sp_query p req = Adapter_Receipt rc)"

lemma answeredI:
  "sp_dispatch p req = Adapter_Receipt rc \<Longrightarrow> answered p rc"
  "sp_query p req = Adapter_Receipt rc \<Longrightarrow> answered p rc"
  by (auto simp: answered_def)

text \<open>A result that reports completion carries the delivered receipt the adapter returned.\<close>

definition completion_backed :: "scheduler_ports \<Rightarrow> scheduler_tick_result \<Rightarrow> bool" where
  "completion_backed p r \<longleftrightarrow> (tr_status r \<in> {Tick_COMPLETED, Tick_RECONCILED_COMPLETED} \<longrightarrow>
     (\<exists>t rc. tr_task r = Some t \<and> st_state t = COMPLETED \<and> tr_receipt r = Some rc \<and>
        nr_status rc = Notification_DELIVERED \<and> receipt_matches t rc \<and>
        st_last_receipt_hash t = Some (receipt_hash (sp_sha p) rc) \<and>
        answered p rc))"

text \<open>A scheduled retry waits the base delay doubled with every attempt so far.\<close>

definition retry_backed :: "scheduler_config \<Rightarrow> scheduler_ports \<Rightarrow> scheduler_tick_result \<Rightarrow> bool" where
  "retry_backed c p r \<longleftrightarrow> (tr_status r = Tick_RETRY_SCHEDULED \<longrightarrow>
     (\<exists>t now later. tr_task r = Some t \<and> sched_now (sp_clock p) = Inr now \<and>
        st_state t = RETRY_WAIT \<and> st_next_attempt_at t = Some later \<and>
        st_attempt_count t < st_max_attempts t \<and>
        usec later = usec now + sc_retry_base_seconds c * 2 ^ nat (st_attempt_count t - 1) * 1000000))"

definition backed :: "scheduler_config \<Rightarrow> scheduler_ports \<Rightarrow> scheduler_tick_result \<Rightarrow> bool" where
  "backed c p r \<longleftrightarrow> completion_backed p r \<and> retry_backed c p r"

lemma backed_other:
  "tr_status r \<notin> {Tick_COMPLETED, Tick_RECONCILED_COMPLETED, Tick_RETRY_SCHEDULED} \<Longrightarrow> backed c p r"
  by (auto simp: backed_def completion_backed_def retry_backed_def)

lemma backed_plain:
  "st \<notin> {Tick_COMPLETED, Tick_RECONCILED_COMPLETED, Tick_RETRY_SCHEDULED} \<Longrightarrow>
     backed c p (tick_result st t n reason rc)"
  by (rule backed_other) (simp add: tick_result_def)

lemma backed_report:
  assumes "tick_report p st t rv reason rc = Inr r"
    "st \<notin> {Tick_COMPLETED, Tick_RECONCILED_COMPLETED, Tick_RETRY_SCHEDULED}"
  shows "backed c p r"
  using assms by (intro backed_other) (auto simp: tick_report_def rbind_eq_Inr)

lemma wp_commit_result:
  assumes "wf_task t \<Longrightarrow> Q (tick_result st t (sq_revision q + 1) reason rc)"
  shows "wp (commit_task p q t st reason rc) (\<lambda>r _. Q r) (\<lambda>_ _. True) w"
  using assms
  by (auto simp: commit_task_def wp_simps wp_def [of "service_save _ _"] service_save_def Let_def
      task_recheck_eq_Inr split: sum.split prod.split)

lemma wp_pure:
  "(\<And>x. r = Inr x \<Longrightarrow> Q x w) \<Longrightarrow> wp (slift r) Q (\<lambda>_ _. True) w"
  by (simp add: wp_slift split: sum.split)

lemma if_boolI: "(b \<Longrightarrow> P) \<Longrightarrow> (\<not> b \<Longrightarrow> Q) \<Longrightarrow> (if b then P else Q)"
  by simp

lemma backed_reconcile:
  assumes r: "receipt_matches t rc" "sched_now (sp_clock p) = Inr now"
    and src: "answered p rc"
  shows "wp (reconcile_receipt c p q t rc now fq) (\<lambda>r _. backed c p r) (\<lambda>_ _. True) w"
proof -
  have delivered: "backed c p (tick_result st (bind_receipt (sp_sha p) t rc
      \<lparr>st_state := COMPLETED, st_next_attempt_at := nx, st_completed_at := ca, st_reason_codes := cs\<rparr>)
      n reason (Some rc))"
    if "nr_status rc = Notification_DELIVERED" "st \<noteq> Tick_RETRY_SCHEDULED" for st nx ca cs n reason
    using that src r(1)
    by (auto simp: backed_def completion_backed_def retry_backed_def tick_result_def receipt_matches_def
        bind_receipt_def)
  have retry: "backed c p (tick_result Tick_RETRY_SCHEDULED (bind_receipt (sp_sha p) t rc
      \<lparr>st_state := RETRY_WAIT, st_next_attempt_at := Some later, st_reason_codes := cs\<rparr>) n reason rc')"
    if "plus_seconds now (sc_retry_base_seconds c * 2 ^ nat (st_attempt_count t - 1)) = Inr later"
      "st_attempt_count t < st_max_attempts t" for later cs n reason rc'
    using that r(2) plus_seconds_usec [OF that(1)]
    by (auto simp: backed_def completion_backed_def retry_backed_def tick_result_def bind_receipt_def)
  have fields: "st_attempt_count (bind_receipt sha t rc) = st_attempt_count t"
    "st_max_attempts (bind_receipt sha t rc) = st_max_attempts t" for sha
    by (simp_all add: bind_receipt_def)
  show ?thesis
    unfolding reconcile_receipt_def Let_def wp_if wp_sbind fields
    by (intro if_boolI wp_pure wp_commit_result)
      (rule delivered retry backed_plain; simp)+
qed

lemma wp_any_state:
  "(\<And>x w'. wp (f x) Q (\<lambda>_ _. True) w') \<Longrightarrow> wp (sbind m f) Q (\<lambda>_ _. True) w"
  unfolding wp_sbind by (simp add: wp_def [of m] split: prod.split sum.split)

lemma backed_apply:
  assumes "sched_now (sp_clock p) = Inr now"
    and "answered p rc"
  shows "wp (apply_receipt c p i rc now fq) (\<lambda>r _. backed c p r) (\<lambda>_ _. True) w"
  unfolding apply_receipt_def
  by (rule wp_any_state)
    (auto simp: wp_slift split: option.split sum.split
      intro!: backed_reconcile [OF _ assms] backed_report [where st = Tick_VERIFICATION_PENDING])

lemma backed_backoff:
  "wp (query_backoff c p t now code reason) (\<lambda>r _. backed c p r) (\<lambda>_ _. True) w"
  unfolding query_backoff_def
  by (rule wp_any_state)
    (auto simp: wp_slift wp_sbind split: option.split sum.split
      intro!: wp_commit_result backed_plain backed_report [where st = Tick_VERIFICATION_PENDING])

lemma backed_query:
  assumes "sched_now (sp_clock p) = Inr now"
  shows "wp (query_unknown c p t now) (\<lambda>r _. backed c p r) (\<lambda>_ _. True) w"
  unfolding query_unknown_def
  by (rule wp_any_state)
    (auto simp: wp_sbind wp_def [of "send_query _ _"] send_query_def
      split: adapter_result.split intro!: backed_backoff backed_apply [OF assms] intro: answeredI)

lemma backed_dispatch:
  assumes "sched_now (sp_clock p) = Inr now"
  shows "wp (dispatch_task c p now q t n a) (\<lambda>r _. backed c p r) (\<lambda>_ _. True) w"
  unfolding dispatch_task_def
  by (rule wp_any_state, rule wp_any_state)
    (auto simp: wp_slift wp_sbind wp_def [of "send_dispatch _ _"] send_dispatch_def
      split: adapter_result.split sum.split
      intro!: backed_report [where st = Tick_VERIFICATION_PENDING] backed_apply [OF assms]
      intro: answeredI)

lemma resource_scan_deferred:
  "resource_scan c p now rv df ts = Inr (Inl d) \<Longrightarrow>
     (\<forall>d'. df = Some d' \<longrightarrow> tr_status d' = Tick_RESOURCE_DEFERRED) \<Longrightarrow> tr_status d = Tick_RESOURCE_DEFERRED"
  by (induction ts arbitrary: df)
    (auto simp: rbind_eq_Inr Let_def tick_report_def split: option.splits if_splits)

lemma backed_ready:
  assumes "sched_now (sp_clock p) = Inr now"
  shows "wp (tick_ready c p i e now q ready) (\<lambda>r _. backed c p r) (\<lambda>_ _. True) w"
proof -
  have "backed c p d" if "resource_scan c p now rv None ts = Inr (Inl d)" for d ts rv
    using resource_scan_deferred [OF that] by (intro backed_other) simp
  then show ?thesis
    unfolding tick_ready_def Let_def
    by (auto simp: wp_simps backed_dispatch [OF assms]
        split: option.split sum.split prod.split exc_class.split
        intro: backed_report [where st = Tick_QUIET_HOURS] backed_report [where st = Tick_RESOURCE_DEFERRED])
qed

lemma backed_candidates:
  assumes "sched_now (sp_clock p) = Inr now" "\<And>r. v = Some r \<Longrightarrow> backed c p r"
  shows "wp (tick_candidates c p i e now v q) (\<lambda>r _. backed c p r) (\<lambda>_ _. True) w"
  unfolding tick_candidates_def Let_def
  by (auto simp: wp_simps assms(2) backed_ready [OF assms(1)] idle_result_def
      split: option.split sum.split intro: backed_other)

lemma backed_tick: "wp (tick c p i e) (\<lambda>r _. backed c p r) (\<lambda>_ _. True) w"
  unfolding tick_def
  by (auto simp: wp_simps split: sum.split list.split
      intro!: backed_candidates wp_conseq [OF backed_query])

section \<open>A concrete run\<close>

text \<open>
  A configuration with the code's default values, a task due at once, and surroundings that
  allow and deliver everything. The digest is the identity function.
\<close>

definition demo_config :: scheduler_config where
  "demo_config = \<lparr>sc_capacity = 128, sc_aging_interval_seconds = 60, sc_retry_base_seconds = 30,
     sc_quiet_hours = None, sc_estimated_tokens = 64, sc_estimated_compute = 1,
     sc_resource_scan_limit = 1\<rparr>"

definition demo_sha :: digest_fun where "demo_sha s = s"

definition demo_now :: instant where "demo_now = Abs_instant 1000000"

definition demo_task :: scheduler_task where
  "demo_task = \<lparr>st_task_id = ''t1'', st_subject_id = ''s'', st_environment = ''TEST'',
     st_priority = 5, st_due_at = demo_now, st_wake_reason = Wake_SCHEDULED, st_cycle_id = ''c'',
     st_created_at = demo_now, st_source_event_id = None, st_max_attempts = 3, st_state = QUEUED,
     st_sequence = 0, st_revision = 0, st_attempt_count = 0, st_next_attempt_at = None,
     st_last_attempt_id = None, st_last_receipt_id = None, st_last_receipt_hash = None,
     st_last_receipt_status = None, st_cancel_requested_at = None, st_completed_at = None,
     st_reason_codes = []\<rparr>"

definition demo_receipt :: "notification_request \<Rightarrow> notification_receipt" where
  "demo_receipt r = \<lparr>nr_receipt_id = ''r1'', nr_task_id = nq_task_id r,
     nr_attempt_id = nq_attempt_id r, nr_subject_id = nq_subject_id r,
     nr_environment = nq_environment r, nr_status = Notification_DELIVERED,
     nr_observed_at = nq_requested_at r, nr_reason_code = ''OK''\<rparr>"

definition demo_ports :: scheduler_ports where
  "demo_ports = \<lparr>sp_sha = demo_sha, sp_clock = utc_val demo_now,
     sp_dispatch = (\<lambda>r. Adapter_Receipt (demo_receipt r)),
     sp_query = (\<lambda>r. Adapter_Raised),
     sp_preview = (\<lambda>r. Inr \<lparr>rd_decision_id = ''d'', rd_request_id = rq_request_id r,
        rd_subject_id = rq_subject_id r, rd_session_id = rq_session_id r, rd_allowed = True,
        rd_approved_depth = None, rd_allocated_tokens = rq_estimated_tokens r,
        rd_allocated_compute = rq_estimated_compute r, rd_lower_frequency = False,
        rd_defer = False, rd_reason = ''ok'', rd_recommended_mode = CONTINUOUS,
        rd_decided_at = rq_requested_at r\<rparr>),
     sp_require_active = None, sp_disk_ok = (\<lambda>_. True)\<rparr>"

definition demo_queue :: scheduler_queue where
  "demo_queue = queue_admit empty_queue demo_task"

definition demo_world :: scheduler_world where
  "demo_world = \<lparr>sw_file = File_Doc (scheduler_queue_to_dict demo_sha demo_queue),
     sw_dispatched = [], sw_queried = []\<rparr>"

lemma demo_task_ok: "wf_task demo_task" "pristine_task demo_task"
  by (simp_all add: demo_task_def wf_task_def pristine_task_def blank_def py_space_def Let_def)

lemma demo_config_ok: "wf_config demo_config"
  by (simp add: demo_config_def wf_config_def)

lemma demo_queue_ok: "wf_queue demo_queue"
  unfolding demo_queue_def
  by (rule wf_queue_admit) (simp_all add: demo_task_ok find_task_def empty_queue_def wf_queue_def
      assigned_sequences_def)

lemma demo_load: "load_queue demo_sha (sw_file demo_world) = Inr demo_queue"
  by (simp add: demo_world_def demo_queue_ok)

lemma sched_now_utc [simp]: "sched_now (utc_val t) = Inr t"
proof -
  have "sched_checks_text": "\<not> blank ''clock-probe''" "\<not> blank ''TEST''"
    by (simp_all add: blank_def py_space_def Let_def)
  have r: "PStr ''internal'' = PStr (wake_reason_value Wake_INTERNAL)" by simp
  have q: "PStr ''QUEUED'' = PStr (task_state_value QUEUED)" by simp
  show ?thesis
    unfolding sched_now_def scheduler_task_create_def r q
    using sched_checks_run(2) [of None] sched_checks_run(5) [of None] sched_checks_run(9) [of None Wake_INTERNAL]
      sched_checks_run(10) [of None] sched_checks_run(11) [of "[]"]
    by (simp add: scheduler_task_init_def sched_checks_run sched_checks_text sched_task_consistent_def
        del: wake_reason_value.simps task_state_value.simps)
qed

lemma demo_submit: "submit demo_config demo_ports demo_task initial_world =
  (demo_world, Inr \<lparr>ar_status = ACCEPTED, ar_task = Some (admitted_task empty_queue demo_task),
     ar_queue_revision = 1, ar_reason_code = ''ADMITTED''\<rparr>)"
proof -
  have t: "wf_task (admitted_task empty_queue demo_task)"
    using demo_queue_ok by (simp add: demo_queue_def queue_admit_def wf_queue_def)
  show ?thesis
    using demo_task_ok t wf_task_recheck [OF t] task_clone_wf [OF t]
    by (simp add: submit_def sbind_def prog_simps service_load_def demo_ports_def initial_world_def
        demo_config_def demo_world_def demo_queue_def queue_admit_def service_save_def save_queue_def
        active_count_def admitted_task_def empty_queue_def find_task_def Let_def)
qed

lemma demo_submitted: "fst (submit demo_config demo_ports demo_task initial_world) = demo_world"
  by (simp add: demo_submit)

lemma demo_reach: "scheduler_reach demo_sha demo_config demo_world"
  using reach_submit [OF reach_init, of demo_ports demo_sha demo_task demo_config]
  by (simp add: demo_submitted demo_task_ok) (simp add: demo_ports_def)

lemma demo_tasks: "sq_tasks demo_queue = [admitted_task empty_queue demo_task]"
  by (simp add: demo_queue_def queue_admit_def) (simp add: empty_queue_def)

lemma demo_mem: "admitted_task empty_queue demo_task \<in> set (sq_tasks demo_queue)"
  by (simp add: demo_queue_def queue_admit_def)

lemma demo_admitted: "st_task_id (admitted_task empty_queue demo_task) = ''t1''"
  "st_state (admitted_task empty_queue demo_task) = QUEUED"
  "st_attempt_count (admitted_task empty_queue demo_task) = 0"
  "st_max_attempts (admitted_task empty_queue demo_task) = 3"
  by (simp_all add: admitted_task_def demo_task_def)

lemma demo_load_ports: "load_queue (sp_sha demo_ports) (sw_file demo_world) = Inr demo_queue"
  using demo_load by (simp add: demo_ports_def)

lemma demo_cooperative: "cooperative demo_config demo_ports ''s'' ''TEST'' demo_now"
  by (simp add: cooperative_def delivers_def demo_config_def demo_ports_def demo_receipt_def
      blank_def py_space_def Let_def)

lemma demo_ready: "ready_list ''s'' ''TEST'' demo_now demo_queue = [admitted_task empty_queue demo_task]"
  "due_unknown ''s'' ''TEST'' demo_now demo_queue = []"
  by (simp_all add: ready_list_def due_unknown_def demo_queue_def queue_admit_def admitted_task_def
      demo_task_def empty_queue_def task_due_def waiting_state_def binding_matches_def)

lemma demo_waiting_ok: "\<forall>t \<in> set (sq_tasks demo_queue). waiting_ok t"
  using demo_tasks by (simp add: waiting_ok_def demo_admitted)

lemma demo_tick: "\<exists>w' t' q' rc. tick demo_config demo_ports ''s'' ''TEST'' demo_world =
    (w', Inr (tick_result Tick_COMPLETED t' 3 ''RECEIPT_DELIVERED'' (Some rc))) \<and>
  load_queue demo_sha (sw_file w') = Inr q' \<and> t' \<in> set (sq_tasks q') \<and> st_state t' = COMPLETED"
proof -
  have "sq_revision demo_queue = 1" "sp_sha demo_ports = demo_sha"
    by (simp_all add: demo_queue_def queue_admit_def empty_queue_def demo_ports_def)
  with tick_delivers [OF demo_config_ok demo_cooperative demo_load_ports demo_waiting_ok demo_ready(2)]
  show ?thesis by (fastforce simp: demo_ready(1))
qed

section \<open>Properties\<close>

text \<open>
  C8: whatever a caller does (submit, tick, cancel, with any clock, adapter, disk failures),
  the service only ever takes the steps of the specification \<open>world_step\<close>: every write of the
  queue file is one admission or one step of one task's state machine, and a dispatch reaches
  the adapter only with the attempt checkpointed in the same step. This includes the calls
  that end in an exception.
\<close>

theorem scheduler_refines_spec:
  assumes "wf_task t"
  shows "world_steps (sp_sha p) c w (fst (submit c p t w)) \<and>
    world_steps (sp_sha p) c w (fst (tick c p subject environment w)) \<and>
    world_steps (sp_sha p) c w (fst (cancel p i subject environment w))"
  using submit_steps [OF assms] tick_steps cancel_steps by blast

lemma scheduler_refines_spec_witness:
  "world_steps demo_sha demo_config initial_world (fst (submit demo_config demo_ports demo_task initial_world))"
  using scheduler_refines_spec [OF demo_task_ok(1), of demo_ports demo_config initial_world "''s''" "''TEST''" "''t1''"]
  by (simp add: demo_ports_def)

text \<open>
  C1: at-most-once per attempt. In every reachable world the requests that reached the
  adapter for a task carry the identities of distinct attempt numbers, in increasing order and
  none beyond the task's recorded attempt count; so a task is dispatched at most
  \<open>max_attempts\<close> times, hence at most ten, over its whole life.
\<close>

theorem dispatches_bounded:
  assumes "scheduler_reach sha c w" "load_queue sha (sw_file w) = Inr q" "t \<in> set (sq_tasks q)"
  shows "(\<exists>ns. sorted_wrt (<) ns \<and> (\<forall>n \<in> set ns. 0 < n \<and> n \<le> st_attempt_count t) \<and>
      map (\<lambda>r. Inr (nq_attempt_id r)) (dispatched_for w (st_task_id t))
        = map (stable_attempt_id sha (PStr (st_task_id t))) ns) \<and>
    int (length (dispatched_for w (st_task_id t))) \<le> st_attempt_count t \<and>
    st_attempt_count t \<le> st_max_attempts t \<and> st_max_attempts t \<le> 10"
proof -
  obtain ns where ns: "attempt_log sha t (dispatched_for w (st_task_id t)) ns"
    by (rule reach_attempts [OF assms])
  have wf: "wf_task t" by (rule wf_queue_task [OF load_queue_wf [OF assms(2)] assms(3)])
  have "map (\<lambda>r. Inr (nq_attempt_id r)) (dispatched_for w (st_task_id t))
      = map (stable_attempt_id sha (PStr (st_task_id t))) ns"
    using ns by (auto simp: attempt_log_def list_all2_conv_all_nth intro!: nth_equalityI)
  with ns attempt_log_bound [OF ns] wf show ?thesis
    by (auto simp: wf_task_def attempt_log_def)
qed

lemma dispatches_bounded_witness: "int (length (dispatched_for demo_world ''t1'')) \<le> 0"
  using dispatches_bounded [OF demo_reach demo_load demo_mem] by (simp add: demo_admitted)

text \<open>
  C16: no operation ever leaves a queue file that cannot be read back, and the admission
  limit holds at all times: in every reachable world the file loads as a well-formed queue
  with at most \<open>capacity\<close> tasks that are not terminal, and tasks that wait have attempts left.
\<close>

theorem queue_file_sound:
  assumes "scheduler_reach sha c w" "wf_config c"
  shows "\<exists>q. load_queue sha (sw_file w) = Inr q \<and> wf_queue q \<and> active_count q \<le> sc_capacity c \<and>
    (\<forall>t \<in> set (sq_tasks q). waiting_ok t)"
proof -
  obtain q where q: "load_queue sha (sw_file w) = Inr q" "wf_queue q"
    "(queue_step sha c)\<^sup>*\<^sup>* empty_queue q" by (rule reach_queue [OF assms(1)])
  moreover have "active_count empty_queue = 0" "sq_tasks empty_queue = []"
    by (simp_all add: active_count_def empty_queue_def)
  ultimately show ?thesis
    using queue_steps_capacity [OF q(3) wf_empty_queue] queue_steps_waiting_ok [OF q(3) wf_empty_queue] assms(2)
    by (simp add: wf_config_def)
qed

lemma queue_file_sound_witness: "\<exists>q. load_queue demo_sha (sw_file demo_world) = Inr q \<and> wf_queue q"
  using queue_file_sound [OF demo_reach demo_config_ok] by blast

text \<open>
  C15: one tick sends at most one request. The task it is sent for belonged to the caller,
  waited (it was not \<open>UNKNOWN\<close>, so an attempt of unknown outcome is never sent again), was
  due and had attempts left, and the request carries the next attempt's identity. The attempt is on
  disk before the request goes out: the disk accepted the save, and the file that the tick leaves
  behind, however it ends, goes on from the queue in which the task is \<open>UNKNOWN\<close> with this attempt
  counted and named; if the disk accepts nothing after that save, it is this very queue.
\<close>

theorem tick_sends_checkpointed:
  assumes "load_queue (sp_sha p) (sw_file w) = Inr q0"
  shows "let w' = fst (tick c p subject environment w) in sw_dispatched w' = sw_dispatched w \<or>
    (\<exists>now q t a r. sched_now (sp_clock p) = Inr now \<and> (queue_step (sp_sha p) c)\<^sup>*\<^sup>* q0 q \<and>
       t \<in> set (sq_tasks q) \<and> binding_matches t subject environment \<and> waiting_state (st_state t) \<and>
       task_due t now \<and> st_attempt_count t < st_max_attempts t \<and>
       stable_attempt_id (sp_sha p) (PStr (st_task_id t)) (st_attempt_count t + 1) = Inr a \<and>
       nq_attempt_id r = a \<and> nq_task_id r = st_task_id t \<and> nq_subject_id r = subject \<and>
       nq_environment r = environment \<and> nq_requested_at r = now \<and>
       sw_dispatched w' = sw_dispatched w @ [r] \<and> sp_disk_ok p (sq_revision q + 1) \<and>
       (let q1 = (queue_put q (checkpoint_task t (st_attempt_count t + 1) a))\<lparr>sq_revision := sq_revision q + 1\<rparr> in
        \<exists>q'. load_queue (sp_sha p) (sw_file w') = Inr q' \<and> (queue_step (sp_sha p) c)\<^sup>*\<^sup>* q1 q' \<and>
          (\<not> sp_disk_ok p (sq_revision q1 + 1) \<longrightarrow> q' = q1)))"
  using tick_sends [OF assms, of c subject environment]
  unfolding sent_by_def goes_on_def queue_update_def Let_def by blast

lemma tick_sends_checkpointed_witness:
  "\<exists>r q1 q'. sw_dispatched (fst (tick demo_config demo_ports ''s'' ''TEST'' demo_world)) = [r] \<and>
    (\<exists>t \<in> set (sq_tasks q1). st_state t = UNKNOWN \<and> st_last_attempt_id t = Some (nq_attempt_id r)) \<and>
    load_queue demo_sha (sw_file (fst (tick demo_config demo_ports ''s'' ''TEST'' demo_world))) = Inr q' \<and>
    (queue_step demo_sha demo_config)\<^sup>*\<^sup>* q1 q'"
proof -
  let ?w = "fst (tick demo_config demo_ports ''s'' ''TEST'' demo_world)"
  have d: "sw_dispatched ?w \<noteq> sw_dispatched demo_world" "sw_dispatched demo_world = []" "sp_sha demo_ports = demo_sha"
    using tick_delivers [OF demo_config_ok demo_cooperative demo_load_ports demo_waiting_ok demo_ready(2)] demo_ready
    by (auto simp: demo_world_def demo_ports_def)
  from tick_sends_checkpointed [OF demo_load_ports, of demo_config "''s''" "''TEST''"] d
  obtain q t r q' where "t \<in> set (sq_tasks q)" "sw_dispatched ?w = [r]" "load_queue demo_sha (sw_file ?w) = Inr q'"
    "(queue_step demo_sha demo_config)\<^sup>*\<^sup>* ((queue_put q (checkpoint_task t (st_attempt_count t + 1) (nq_attempt_id r)))
       \<lparr>sq_revision := sq_revision q + 1\<rparr>) q'"
    unfolding Let_def by auto
  moreover from this(1) have "checkpoint_task t (st_attempt_count t + 1) (nq_attempt_id r) \<in> set (sq_tasks
      ((queue_put q (checkpoint_task t (st_attempt_count t + 1) (nq_attempt_id r)))\<lparr>sq_revision := sq_revision q + 1\<rparr>))"
    by (force simp: queue_put_def checkpoint_task_def)
  moreover have "st_state (checkpoint_task t n a) = UNKNOWN \<and> st_last_attempt_id (checkpoint_task t n a) = Some a" for n a
    by (simp add: checkpoint_task_def)
  ultimately show ?thesis by blast
qed

text \<open>
  Completion is never reported without evidence. When a tick returns COMPLETED or
  RECONCILED_COMPLETED, its task is completed and the result holds a DELIVERED receipt that
  the adapter itself returned, bound to the task, its subject, environment and last attempt,
  and whose digest the task records; a scheduled retry has attempts left and waits exactly
  the base delay doubled with every attempt.
\<close>

theorem tick_results_backed:
  assumes "tick c p subject environment w = (w', Inr r)"
  shows "completion_backed p r \<and> retry_backed c p r"
  using wp_result [OF backed_tick assms] by (simp add: backed_def)

lemma tick_results_backed_witness:
  "\<exists>r rc. tr_receipt r = Some rc \<and> tr_status r = Tick_COMPLETED \<and> completion_backed demo_ports r"
proof -
  obtain w' t' rc where r: "tick demo_config demo_ports ''s'' ''TEST'' demo_world =
      (w', Inr (tick_result Tick_COMPLETED t' 3 ''RECEIPT_DELIVERED'' (Some rc)))"
    using demo_tick by blast
  from tick_results_backed [OF r] show ?thesis
    by (intro exI [of _ "tick_result Tick_COMPLETED t' 3 ''RECEIPT_DELIVERED'' (Some rc)"] exI [of _ rc])
      (simp add: tick_result_def)
qed

text \<open>
  C37: progress. When a due task waits, nothing is left to verify, and clock, disk, resource
  preview, lifecycle gate, quiet hours and adapter cooperate, one tick dispatches the most
  urgent ready task exactly once and its completion is on disk when the tick returns.
\<close>

theorem cooperative_tick_completes:
  assumes "wf_config c" "cooperative c p subject environment now"
    and "load_queue (sp_sha p) (sw_file w) = Inr q" "\<forall>t \<in> set (sq_tasks q). waiting_ok t"
    and "due_unknown subject environment now q = []" "ready_list subject environment now q \<noteq> []"
  shows "\<exists>w' t t' q' rc a. tick c p subject environment w =
      (w', Inr (tick_result Tick_COMPLETED t' (sq_revision q + 2) ''RECEIPT_DELIVERED'' (Some rc))) \<and>
    t \<in> set (ready_list subject environment now q) \<and>
    (\<forall>u \<in> set (ready_list subject environment now q). sched_rank c now t \<le> sched_rank c now u) \<and>
    st_task_id t' = st_task_id t \<and> st_state t' = COMPLETED \<and>
    load_queue (sp_sha p) (sw_file w') = Inr q' \<and> t' \<in> set (sq_tasks q') \<and>
    sw_dispatched w' = sw_dispatched w @ [request_of t a now]"
  by (rule tick_delivers [OF assms])

lemma cooperative_tick_completes_witness:
  "\<exists>w' t' rc. tick demo_config demo_ports ''s'' ''TEST'' demo_world =
      (w', Inr (tick_result Tick_COMPLETED t' 3 ''RECEIPT_DELIVERED'' (Some rc))) \<and>
    length (sw_dispatched w') = 1"
proof -
  have "sq_revision demo_queue = 1" "sw_dispatched demo_world = []"
    by (simp_all add: demo_queue_def queue_admit_def empty_queue_def demo_world_def)
  with cooperative_tick_completes [OF demo_config_ok demo_cooperative demo_load_ports
      demo_waiting_ok demo_ready(2)] show ?thesis
    by (fastforce simp: demo_ready(1))
qed

text \<open>
  A terminal state is final. A task that is completed, cancelled or out of retries is
  found unchanged, and is never dispatched again, after any further steps of the scheduler.
\<close>

theorem terminal_is_final:
  assumes "world_steps sha c w w'" "load_queue sha (sw_file w) = Inr q"
    and "t \<in> set (sq_tasks q)" "terminal_state (st_state t)"
  shows "dispatched_for w' (st_task_id t) = dispatched_for w (st_task_id t) \<and>
    (\<exists>q'. load_queue sha (sw_file w') = Inr q' \<and> find_task q' (st_task_id t) = Some t)"
proof -
  obtain q' where q': "load_queue sha (sw_file w') = Inr q'" "(queue_step sha c)\<^sup>*\<^sup>* q q'"
    using world_steps_queue [OF assms(1,2)] by blast
  have "t \<in> set (sq_tasks q')"
    by (rule queue_steps_terminal [OF q'(2) load_queue_wf [OF assms(2)] assms(3,4)])
  then show ?thesis
    using world_steps_quiet [OF assms] find_task_mem [OF load_queue_wf [OF q'(1)]] q'(1) by blast
qed

lemma terminal_is_final_witness:
  "\<exists>w (t :: scheduler_task). terminal_state (st_state t) \<and>
     dispatched_for (fst (cancel demo_ports (st_task_id t) ''s'' ''TEST'' w)) (st_task_id t)
       = dispatched_for w (st_task_id t)"
proof -
  obtain w' :: scheduler_world and t' :: scheduler_task and q'
    where r: "load_queue demo_sha (sw_file w') = Inr q'" "t' \<in> set (sq_tasks q')"
    "st_state t' = COMPLETED"
    using demo_tick by blast
  have "world_steps demo_sha demo_config w' (fst (cancel demo_ports (st_task_id t') ''s'' ''TEST'' w'))"
    using cancel_steps [of demo_ports demo_config w'] by (simp add: demo_ports_def)
  from terminal_is_final [OF this r(1,2)] r(3) show ?thesis
    by (intro exI [of _ w'] exI [of _ t']) (simp add: terminal_state_def)
qed

lemma submit_accepted:
  assumes "submit c p t w = (w', Inr r)" "ar_status r = ACCEPTED" "wf_task t"
  shows "\<exists>q. load_queue (sp_sha p) (sw_file w) = Inr q \<and> pristine_task t \<and>
    find_task q (st_task_id t) = None \<and>
    load_queue (sp_sha p) (sw_file w') = Inr (queue_admit q t) \<and> wf_queue (queue_admit q t) \<and>
    ar_task r = Some (admitted_task q t) \<and> ar_queue_revision r = sq_revision q + 1"
proof -
  have s: "wp (service_save p q') (\<lambda>u w'. u = q'\<lparr>sq_revision := sq_revision q + 1\<rparr> \<and>
        load_queue (sp_sha p) (sw_file w') = Inr u) (\<lambda>_ _. True) w"
    if "load_queue (sp_sha p) (sw_file w) = Inr q" "sq_revision q' = sq_revision q"
      "wf_queue (q'\<lparr>sq_revision := sq_revision q + 1\<rparr>)" for q q'
    using that by (intro wp_save [OF that(1)]) simp_all
  have "wp (submit c p t) (\<lambda>r w'. ar_status r = ACCEPTED \<longrightarrow>
      (\<exists>q. load_queue (sp_sha p) (sw_file w) = Inr q \<and> pristine_task t \<and>
        find_task q (st_task_id t) = None \<and>
        load_queue (sp_sha p) (sw_file w') = Inr (queue_admit q t) \<and> wf_queue (queue_admit q t) \<and>
        ar_task r = Some (admitted_task q t) \<and> ar_queue_revision r = sq_revision q + 1))
      (\<lambda>_ _. True) w"
    unfolding submit_def
    using wf_queue_admit [OF load_queue_wf assms(3)]
    by (auto simp: wp_sbind wp_slift wp_load wp_sret assms(3) task_recheck_eq_Inr
        queue_admit_def admitted_task_def rbind_eq_Inr
        split: sum.split option.split intro!: wp_conseq [OF s])
  from wp_result [OF this assms(1)] assms(2) show ?thesis by blast
qed

lemma admitted_identity_hash: "task_identity_hash sha (admitted_task q t) = task_identity_hash sha t"
  by (simp add: task_identity_hash_def admitted_task_def)

text \<open>
  Admission is idempotent. After a task was accepted, submitting the same task again
  changes nothing and returns the recorded task as a duplicate; submitting another task under
  the same id (one with another identity digest) is refused as an identity conflict.
\<close>

theorem submit_idempotent:
  assumes "submit c p t w = (w', Inr r)" "ar_status r = ACCEPTED" "wf_task t"
    and "wf_task u" "pristine_task u" "st_task_id u = st_task_id t"
  shows "submit c p u w' =
    (if task_identity_hash (sp_sha p) u = task_identity_hash (sp_sha p) t
     then (w', Inr \<lparr>ar_status = DUPLICATE, ar_task = ar_task r,
       ar_queue_revision = ar_queue_revision r, ar_reason_code = ''DUPLICATE_IDENTITY''\<rparr>)
     else (w', Inl (SchedulerIdentityConflictError, ''scheduler task identity is already bound'')))"
proof -
  obtain q where q: "find_task q (st_task_id t) = None"
    "load_queue (sp_sha p) (sw_file w') = Inr (queue_admit q t)" "wf_queue (queue_admit q t)"
    "ar_task r = Some (admitted_task q t)" "ar_queue_revision r = sq_revision q + 1"
    using submit_accepted [OF assms(1-3)] by blast
  have mem: "admitted_task q t \<in> set (sq_tasks (queue_admit q t))" by (simp add: queue_admit_def)
  have "find_task (queue_admit q t) (st_task_id u) = Some (admitted_task q t)"
    using find_task_mem [OF q(3) mem] assms(6) by (simp add: admitted_task_def)
  moreover have "wf_task (admitted_task q t)" by (rule wf_queue_task [OF q(3) mem])
  moreover have "sq_revision (queue_admit q t) = sq_revision q + 1" by (simp add: queue_admit_def)
  ultimately show ?thesis
    using assms(5) q
    by (auto simp: submit_def sbind_def prog_simps service_load_def admitted_identity_hash)
qed

lemma submit_idempotent_witness:
  "\<exists>r. submit demo_config demo_ports demo_task demo_world = (demo_world, Inr r) \<and> ar_status r = DUPLICATE"
  using submit_idempotent [OF demo_submit _ demo_task_ok(1) demo_task_ok] by simp

text \<open>
  \<open>cancel\<close> on a task of the caller, when clock and disk work. A task that waits is
  cancelled at once; a task whose attempt is unresolved keeps its state and records the
  request, because the attempt may have been delivered; a terminal task and one whose
  cancellation is already recorded are reported without any write.
\<close>

theorem cancel_outcome:
  assumes "sched_now (sp_clock p) = Inr now" "\<forall>n. sp_disk_ok p n"
    and "load_queue (sp_sha p) (sw_file w) = Inr q" "t \<in> set (sq_tasks q)"
    and "binding_matches t subject environment"
  shows "case cancel p (st_task_id t) subject environment w of
      (w', Inl e) \<Rightarrow> False
    | (w', Inr r) \<Rightarrow>
        (if waiting_state (st_state t) then cr_status r = Cancel_CANCELLED \<and>
           st_state (cr_task r) = CANCELLED \<and> load_queue (sp_sha p) (sw_file w') = Inr (queue_update q (cr_task r))
         else if st_state t = UNKNOWN then cr_status r = Cancel_VERIFICATION_REQUIRED \<and>
           st_state (cr_task r) = UNKNOWN \<and> st_cancel_requested_at (cr_task r) \<noteq> None \<and>
           (st_cancel_requested_at t \<noteq> None \<longrightarrow> w' = w)
         else cr_task r = t \<and> w' = w)"
proof -
  have wf: "wf_queue q" "wf_task t" using load_queue_wf [OF assms(3)] wf_queue_task assms(4) by auto
  have find: "find_task q (st_task_id t) = Some t" by (rule find_task_mem [OF wf(1) assms(4)])
  have save: "service_save p (queue_put q t') w =
      (w\<lparr>sw_file := File_Doc (scheduler_queue_to_dict (sp_sha p) (queue_update q t'))\<rparr>,
       Inr (queue_update q t'))" for t'
    using service_save_run [OF assms(3), of "queue_put q t'"] assms(2) by (simp add: queue_update_def)
  note run = cancel_def sbind_def prog_simps assms(1) service_load_def assms(3) find require_binding_def
    assms(5) [unfolded binding_matches_def] cancel_report_def
  show ?thesis
  proof (cases "waiting_state (st_state t)")
    case True
    let ?t = "t\<lparr>st_state := CANCELLED, st_cancel_requested_at := Some now, st_next_attempt_at := None,
      st_revision := st_revision t + 1, st_reason_codes := st_reason_codes t @ [''CANCELLED_BEFORE_DISPATCH'']\<rparr>"
    have t: "wf_task ?t" using wf(2) True
      by (auto simp: wf_task_def waiting_state_def blank_def py_space_def Let_def)
    have "load_queue (sp_sha p) (File_Doc (scheduler_queue_to_dict (sp_sha p) (queue_update q ?t)))
        = Inr (queue_update q ?t)"
      by (rule saved_queue_step [OF assms(3) qs_update [OF assms(4) ts_cancelled [OF True] t]])
    with True show ?thesis
      by (cases "st_state t") (simp_all add: run wf_task_recheck [OF t] task_clone_wf [OF t] save waiting_state_def)
  next
    case False
    show ?thesis
    proof (cases "st_state t = UNKNOWN \<and> st_cancel_requested_at t = None")
      case True
      let ?t = "t\<lparr>st_cancel_requested_at := Some now, st_next_attempt_at := None,
        st_revision := st_revision t + 1, st_reason_codes := st_reason_codes t @ [''CANCEL_AWAITS_RECEIPT'']\<rparr>"
      have t: "wf_task ?t" using wf(2) True by (simp add: wf_task_def blank_def py_space_def Let_def)
      with True False show ?thesis
        by (simp add: run wf_task_recheck [OF t] task_clone_wf [OF t] save)
    next
      case other: False
      with False wf(2) show ?thesis
        by (cases "st_state t") (auto simp: run waiting_state_def)
    qed
  qed
qed

lemma cancel_outcome_witness:
  "case cancel demo_ports ''t1'' ''s'' ''TEST'' demo_world of
     (w', Inl e) \<Rightarrow> False | (w', Inr r) \<Rightarrow> cr_status r = Cancel_CANCELLED \<and> st_state (cr_task r) = CANCELLED"
proof -
  have p: "sched_now (sp_clock demo_ports) = Inr demo_now" "\<forall>n. sp_disk_ok demo_ports n"
    by (simp_all add: demo_ports_def)
  have b: "binding_matches (admitted_task empty_queue demo_task) ''s'' ''TEST''"
    by (simp add: binding_matches_def admitted_task_def demo_task_def)
  from cancel_outcome [OF p demo_load_ports demo_mem b] show ?thesis
    by (auto simp: demo_admitted waiting_state_def split: prod.splits sum.splits)
qed

subsection \<open>Cancellation is durable\<close>

definition settling :: "scheduler_task \<Rightarrow> bool" where
  "settling t \<longleftrightarrow> terminal_state (st_state t) \<or> st_state t = UNKNOWN \<and> st_cancel_requested_at t \<noteq> None"

lemma task_step_settling: "task_step sha c t t' \<Longrightarrow> settling t \<Longrightarrow> settling t'"
  by (induction rule: task_step.induct)
    (auto simp: settling_def terminal_state_def waiting_state_def task_step_defs)

lemma queue_steps_settling:
  assumes "(queue_step sha c)\<^sup>*\<^sup>* q q'" "wf_queue q" "t \<in> set (sq_tasks q)" "settling t"
  obtains t' where "t' \<in> set (sq_tasks q')" "st_task_id t' = st_task_id t" "settling t'"
proof -
  obtain t' where t': "t' \<in> set (sq_tasks q')" "(task_step sha c)\<^sup>*\<^sup>* t t'"
    using queue_steps_task [OF assms(1-3)] by blast
  from t'(2) assms(4) have "settling t'"
    by (induction rule: rtranclp_induct) (auto intro: task_step_settling)
  with that t' task_steps_identity [OF t'(2)] show thesis by (simp add: same_identity_def)
qed

lemma world_step_settling:
  assumes "world_step sha c w w'" "load_queue sha (sw_file w) = Inr q" "t \<in> set (sq_tasks q)" "settling t"
  shows "dispatched_for w' (st_task_id t) = dispatched_for w (st_task_id t)"
  using assms(1)
proof (cases rule: world_step.cases)
  case (ws_dispatch q' u now a r)
  then have "u \<noteq> t" using assms(4) by (auto simp: waiting_state_def terminal_state_def settling_def)
  then have "st_task_id u \<noteq> st_task_id t"
    using wf_queue_unique [OF load_queue_wf [OF assms(2)] assms(3)] ws_dispatch(2,3) assms(2) by auto
  moreover have "nq_task_id r = st_task_id u"
    using service_request_Inr [OF ws_dispatch(8)] by (simp add: checkpoint_task_def)
  ultimately show ?thesis by (simp add: ws_dispatch(1) dispatched_for_def)
qed (simp_all add: dispatched_for_def)

text \<open>
  A cancellation is durable. Once a task is cancelled, or its cancellation is recorded
  while an attempt is unresolved, no later operation of the scheduler dispatches it again: a
  FAILED receipt then ends it as cancelled instead of scheduling a retry.
\<close>

theorem cancellation_durable:
  assumes "world_steps sha c w w'" "load_queue sha (sw_file w) = Inr q"
    and "t \<in> set (sq_tasks q)" "settling t"
  shows "dispatched_for w' (st_task_id t) = dispatched_for w (st_task_id t) \<and>
    (\<exists>q' t'. load_queue sha (sw_file w') = Inr q' \<and> t' \<in> set (sq_tasks q') \<and>
      st_task_id t' = st_task_id t \<and> settling t')"
  using assms(1)
proof (induction rule: rtranclp_induct)
  case base
  then show ?case using assms(2-4) by auto
next
  case (step u v)
  obtain q1 where q1: "load_queue sha (sw_file u) = Inr q1" "(queue_step sha c)\<^sup>*\<^sup>* q q1"
    using world_steps_queue [OF step(1) assms(2)] by blast
  obtain t1 where t1: "t1 \<in> set (sq_tasks q1)" "st_task_id t1 = st_task_id t" "settling t1"
    by (rule queue_steps_settling [OF q1(2) load_queue_wf [OF assms(2)] assms(3,4)])
  obtain q2 where q2: "load_queue sha (sw_file v) = Inr q2" "(queue_step sha c)\<^sup>*\<^sup>* q1 q2"
    using world_step_queue [OF step(2)] q1(1) by auto
  obtain t2 where "t2 \<in> set (sq_tasks q2)" "st_task_id t2 = st_task_id t1" "settling t2"
    by (rule queue_steps_settling [OF q2(2) load_queue_wf [OF q1(1)] t1(1,3)])
  with world_step_settling [OF step(2) q1(1) t1(1,3)] step.IH q2(1) t1(2) show ?case by auto
qed

lemma cancellation_durable_witness:
  "\<exists>w (t :: scheduler_task). settling t \<and> st_task_id t = ''t1'' \<and>
     dispatched_for (fst (tick demo_config demo_ports ''s'' ''TEST'' w)) ''t1'' = dispatched_for w ''t1''"
proof -
  let ?t = "(admitted_task empty_queue demo_task)\<lparr>st_state := CANCELLED\<rparr>"
  let ?q = "empty_queue\<lparr>sq_next_sequence := 2, sq_tasks := [?t]\<rparr>"
  let ?w = "demo_world\<lparr>sw_file := File_Doc (scheduler_queue_to_dict demo_sha ?q)\<rparr>"
  have q: "wf_queue ?q"
    using demo_queue_ok demo_tasks by (simp add: wf_queue_def assigned_sequences_def empty_queue_def)
      (simp add: wf_task_def admitted_task_def demo_task_def)
  have l: "load_queue demo_sha (sw_file ?w) = Inr ?q" using load_queue_saved [OF q] by simp
  have "world_steps demo_sha demo_config ?w (fst (tick demo_config demo_ports ''s'' ''TEST'' ?w))"
    using tick_steps [of demo_ports demo_config ?w] by (simp add: demo_ports_def)
  from cancellation_durable [OF this l, of ?t] show ?thesis
    by (intro exI [of _ ?w] exI [of _ ?t]) (simp add: settling_def terminal_state_def demo_admitted)
qed

subsection \<open>Ticks that defer\<close>

definition deferral :: "scheduler_tick_status \<Rightarrow> bool" where
  "deferral s \<longleftrightarrow> s \<in> {Tick_IDLE, Tick_NOT_DUE, Tick_QUIET_HOURS, Tick_RESOURCE_DEFERRED}"

lemma deferral_simps [simp]:
  "deferral Tick_IDLE" "deferral Tick_NOT_DUE" "deferral Tick_QUIET_HOURS"
  "deferral Tick_RESOURCE_DEFERRED" "\<not> deferral Tick_COMPLETED"
  "\<not> deferral Tick_RECONCILED_COMPLETED" "\<not> deferral Tick_VERIFICATION_PENDING"
  "\<not> deferral Tick_RETRY_SCHEDULED" "\<not> deferral Tick_RETRY_EXHAUSTED" "\<not> deferral Tick_CANCELLED"
  by (simp_all add: deferral_def)

lemma wp_commit_acts:
  "\<not> deferral st \<Longrightarrow>
     wp (commit_task p q t st reason rc) (\<lambda>r _. \<not> deferral (tr_status r)) (\<lambda>_ _. True) w"
  by (rule wp_commit_result) (simp add: tick_result_def)

lemma report_acts:
  "tick_report p st t rv reason rc = Inr r \<Longrightarrow> \<not> deferral st \<Longrightarrow> \<not> deferral (tr_status r)"
  by (auto simp: tick_report_def rbind_eq_Inr)

lemma reconcile_acts:
  "wp (reconcile_receipt c p q t rc now fq) (\<lambda>r _. \<not> deferral (tr_status r)) (\<lambda>_ _. True) w"
  unfolding reconcile_receipt_def Let_def wp_if wp_sbind
  by (intro if_boolI wp_pure wp_commit_acts) simp_all

lemma apply_acts:
  "wp (apply_receipt c p i rc now fq) (\<lambda>r _. \<not> deferral (tr_status r)) (\<lambda>_ _. True) w"
  unfolding apply_receipt_def
  by (rule wp_any_state)
    (auto simp: wp_slift reconcile_acts split: option.split sum.split
      dest: report_acts)

lemma dispatch_acts:
  "wp (dispatch_task c p now q t n a) (\<lambda>r _. \<not> deferral (tr_status r)) (\<lambda>_ _. True) w"
  unfolding dispatch_task_def
  by (rule wp_any_state, rule wp_any_state)
    (auto simp: wp_slift wp_sbind wp_def [of "send_dispatch _ _"] send_dispatch_def apply_acts
      split: adapter_result.split sum.split
      dest: report_acts)

lemma ready_defers:
  "wp (tick_ready c p i e now q ready) (\<lambda>r w'. deferral (tr_status r) \<longrightarrow> w' = w) (\<lambda>_ _. True) w"
proof -
  have d: "wp (dispatch_task c p now q t n a) (\<lambda>r w'. deferral (tr_status r) \<longrightarrow> w' = w) (\<lambda>_ _. True) w"
    for t n a by (rule wp_conseq [OF dispatch_acts]) simp_all
  show ?thesis
    unfolding tick_ready_def Let_def
    by (auto simp: wp_simps d split: option.split sum.split prod.split exc_class.split)
qed

lemma candidates_defers:
  "wp (tick_candidates c p i e now v q) (\<lambda>r w'. deferral (tr_status r) \<longrightarrow> w' = w) (\<lambda>_ _. True) w"
  unfolding tick_candidates_def Let_def
  by (auto simp: wp_simps ready_defers split: option.split sum.split)

text \<open>
  Deferring is free. A tick that has no unresolved attempt to verify and reports IDLE,
  NOT_DUE, QUIET_HOURS or RESOURCE_DEFERRED leaves the queue file and the adapter untouched:
  no attempt is spent, no revision is used and nothing is sent.
\<close>

theorem deferring_tick_is_free:
  assumes "tick c p subject environment w = (w', Inr r)" "deferral (tr_status r)"
    and "load_queue (sp_sha p) (sw_file w) = Inr q"
    and "\<And>now. sched_now (sp_clock p) = Inr now \<Longrightarrow> due_unknown subject environment now q = []"
  shows "w' = w"
proof -
  have "wp (tick c p subject environment) (\<lambda>r w'. deferral (tr_status r) \<longrightarrow> w' = w) (\<lambda>_ _. True) w"
    unfolding tick_def
    by (auto simp: wp_simps assms(3,4) candidates_defers split: sum.split)
  from wp_result [OF this assms(1)] assms(2) show ?thesis by simp
qed

lemma deferring_tick_is_free_witness:
  "\<exists>r. tick demo_config demo_ports ''s'' ''OTHER'' demo_world = (demo_world, Inr r) \<and> tr_status r = Tick_IDLE"
proof -
  have none: "due_unknown ''s'' ''OTHER'' now demo_queue = []" for now
    using demo_tasks by (simp add: due_unknown_def binding_matches_def admitted_task_def demo_task_def)
  let ?r = "idle_result Tick_IDLE demo_queue ''NO_ACTIVE_TASK''"
  have "snd (tick demo_config demo_ports ''s'' ''OTHER'' demo_world) = Inr ?r"
    using demo_load demo_tasks none
    by (simp add: tick_def sbind_def prog_simps service_load_def demo_ports_def tick_candidates_def
        binding_matches_def admitted_task_def demo_task_def)
  then obtain w' where r: "tick demo_config demo_ports ''s'' ''OTHER'' demo_world = (w', Inr ?r)"
    by (cases "tick demo_config demo_ports ''s'' ''OTHER'' demo_world") simp
  from deferring_tick_is_free [OF r _ demo_load_ports none] r show ?thesis
    by (simp add: idle_result_def)
qed

section \<open>Ordering, persistence and identity\<close>

text \<open>
  No starvation by priority. Once a task has waited 101 aging intervals longer than
  another one, it is served before it, whatever their priorities are.
\<close>

theorem aging_overtakes:
  assumes "wf_task t" "wf_task u" "0 < sc_aging_interval_seconds c"
    and "age_seconds t now \<ge> age_seconds u now + 101 * sc_aging_interval_seconds c"
  shows "sched_rank c now t < sched_rank c now u"
proof -
  let ?k = "sc_aging_interval_seconds c"
  have "age_seconds u now div ?k + 101 = (age_seconds u now + 101 * ?k) div ?k"
    using assms(3) by (simp add: div_mult_self2)
  also have "\<dots> \<le> age_seconds t now div ?k" using assms(3,4) by (intro zdiv_mono1)
  finally have "aged_priority u now ?k < aged_priority t now ?k"
    using assms(1,2) by (simp add: aged_priority_def wf_task_def)
  then show ?thesis by (simp add: sched_rank_def)
qed

lemma aging_overtakes_witness:
  "sched_rank demo_config (Abs_instant 6061000000) demo_task
     < sched_rank demo_config (Abs_instant 6061000000)
         (demo_task\<lparr>st_priority := 100, st_due_at := Abs_instant 6061000000\<rparr>)"
proof -
  have m: "demo_now < Abs_instant 6061000000"
    by (simp add: instant_order demo_now_def usec_Abs)
  have f: "fl 6060 = 6060" using fl_int [of 6060] by simp
  show ?thesis
    by (rule aging_overtakes)
      (use m f demo_task_ok in \<open>simp_all add: wf_task_def demo_task_def demo_config_def age_seconds_def Let_def
        demo_now_def usec_Abs trunc_def max_def\<close>)
qed

text \<open>
  No lost update. Two writers that computed a queue from the same revision cannot both
  be accepted: after the first save the second one is refused and the file is as the first
  writer left it.
\<close>

theorem second_writer_refused:
  assumes "save_queue sha disk q e f = Inr f'" "wf_queue q"
  shows "load_queue sha f' = Inr q \<and> (\<exists>x. save_queue sha disk q2 e f' = Inl x)"
  using sq.save_load [OF assms(2,1)] sq.concurrent_writer_refused [OF assms] by blast

lemma second_writer_refused_witness:
  "\<exists>x. save_queue demo_sha True demo_queue 0 (sw_file demo_world) = Inl x"
proof -
  have "save_queue demo_sha True demo_queue 0 File_Absent = Inr (sw_file demo_world)"
    by (simp add: save_queue_def demo_world_def demo_queue_def queue_admit_def) (simp add: empty_queue_def)
  from second_writer_refused [OF this demo_queue_ok] show ?thesis by blast
qed

text \<open>
  Persistence is faithful. A well-formed queue is read back from its document exactly as
  it was, and whatever document is accepted is well formed, with the two digests stored beside
  every task equal to the digests of the task they belong to.
\<close>

theorem queue_persistence:
  "(wf_queue q \<longrightarrow> scheduler_queue_from_dict sha (scheduler_queue_to_dict sha q) = Inr q) \<and>
   (scheduler_queue_from_dict sha v = Inr q \<longrightarrow> wf_queue q) \<and>
   (scheduler_task_from_dict sha v = Inr t \<longrightarrow> wf_task t \<and> (\<exists>d. v = PDict d \<and>
      dict_get d ''identity_hash'' = PStr (task_identity_hash sha t) \<and>
      dict_get d ''record_hash'' = PStr (task_record_hash sha t)))"
  using queue_dict_roundtrip queue_from_dict_wf by (auto elim!: task_from_dict_sound)

lemma queue_persistence_witness:
  "scheduler_queue_from_dict demo_sha (scheduler_queue_to_dict demo_sha demo_queue) = Inr demo_queue \<and>
   wf_task demo_task"
  using queue_persistence [of demo_queue demo_sha "scheduler_queue_to_dict demo_sha demo_queue" demo_task]
    queue_persistence [of demo_queue demo_sha "scheduler_task_to_dict demo_sha demo_task" demo_task]
    demo_queue_ok task_dict_roundtrip [OF demo_task_ok(1), of demo_sha] by simp

end
