(* ===== verification/Py_Docs.thy ===== *)
theory Py_Docs
  imports Py_State
begin

text \<open>
  JSON documents that a repository edits in place: assignment to a key, the reads of a key,
  and the scans of a list of records for a field with a given value.
\<close>

text \<open>\<open>d[k] = v\<close>: an existing key keeps its place, a new one goes to the end.\<close>

fun dict_set :: "(string \<times> pyval) list \<Rightarrow> string \<Rightarrow> pyval \<Rightarrow> (string \<times> pyval) list" where
  "dict_set [] k v = [(k, v)]"
| "dict_set ((k', v') # d) k v = (if k' = k then (k, v) # d else (k', v') # dict_set d k v)"

lemma dict_get_set [simp]:
  "dict_get_or u (dict_set d k v) k' = (if k' = k then v else dict_get_or u d k')"
  by (induction d k v rule: dict_set.induct) auto

lemma dict_set_set [simp]: "dict_set (dict_set d k v) k v' = dict_set d k v'"
  by (induction d k v rule: dict_set.induct) auto

text \<open>\<open>d.get(k)\<close> where a list is expected.\<close>

fun list_of :: "pyval \<Rightarrow> pyval list" where
  "list_of (PList xs) = xs"
| "list_of _ = []"

fun is_list :: "pyval \<Rightarrow> bool" where
  "is_list (PList xs) = True"
| "is_list _ = False"

lemma is_list_iff: "is_list v \<longleftrightarrow> (\<exists>xs. v = PList xs)"
  by (cases v) auto

text \<open>\<open>any(item.get(k) == s for item in items)\<close>: an item that is no dictionary raises.\<close>

fun any_field :: "string \<Rightarrow> string \<Rightarrow> pyval list \<Rightarrow> bool res" where
  "any_field k s [] = Inr False"
| "any_field k s (PDict d # rest) = (if dict_get d k = PStr s then Inr True else any_field k s rest)"
| "any_field k s (_ # rest) = Inl (AttributeError, ''object has no attribute get'')"

text \<open>\<open>next((i for i, item in enumerate(items) if item.get(k) == s), None)\<close>.\<close>

fun index_field :: "string \<Rightarrow> string \<Rightarrow> pyval list \<Rightarrow> nat option res" where
  "index_field k s [] = Inr None"
| "index_field k s (PDict d # rest) = (if dict_get d k = PStr s then Inr (Some 0)
     else rbind (index_field k s rest) (\<lambda>i. Inr (map_option Suc i)))"
| "index_field k s (_ # rest) = Inl (AttributeError, ''object has no attribute get'')"

text \<open>A list of dictionaries made from records: the scans look at the records.\<close>

lemma any_field_map:
  assumes "\<And>x. x \<in> set xs \<Longrightarrow> \<exists>d. f x = PDict d \<and> dict_get d k = PStr (g x)"
  shows "any_field k s (map f xs) = Inr (\<exists>x \<in> set xs. g x = s)"
  using assms
proof (induction xs)
  case (Cons x xs)
  then obtain d where "f x = PDict d" "dict_get d k = PStr (g x)" by force
  with Cons show ?case by auto
qed simp

lemma index_field_map:
  assumes "\<And>x. x \<in> set xs \<Longrightarrow> \<exists>d. f x = PDict d \<and> dict_get d k = PStr (g x)"
  shows "index_field k s (map f xs) = Inr None \<and> (\<forall>x \<in> set xs. g x \<noteq> s) \<or>
    (\<exists>i. index_field k s (map f xs) = Inr (Some i) \<and> i < length xs \<and> g (xs ! i) = s \<and>
      (\<forall>j < i. g (xs ! j) \<noteq> s))"
  using assms
proof (induction xs)
  case (Cons x xs)
  then obtain d where d: "f x = PDict d" "dict_get d k = PStr (g x)" by force
  show ?case
  proof (cases "g x = s")
    case True
    then show ?thesis using d by auto
  next
    case False
    from Cons have "index_field k s (map f xs) = Inr None \<and> (\<forall>x \<in> set xs. g x \<noteq> s) \<or>
      (\<exists>i. index_field k s (map f xs) = Inr (Some i) \<and> i < length xs \<and> g (xs ! i) = s \<and>
        (\<forall>j < i. g (xs ! j) \<noteq> s))" by auto
    with False d show ?thesis
      by (elim disjE exE conjE) (auto simp: nth_Cons split: nat.splits intro!: exI [of _ "Suc _"])
  qed
qed simp

end
