(* ===== verification/Resource_Repository.thy ===== *)
theory Resource_Repository
  imports Resources Revisioned_Store Py_Docs
begin

text \<open>
  storage/json_resource_repository.py: one JSON document per subject with the resource state,
  the usage records and the decisions. \<open>resource_dir\<close> is the directory, from file name (the
  digest of the subject id) to file; \<open>disk_ok\<close> tells whether the write completes.
\<close>

type_synonym resource_dir = "string \<Rightarrow> file_state"

definition resource_path :: "digest_fun \<Rightarrow> string \<Rightarrow> string res" where
  "resource_path sha subject_id = (if blank subject_id
     then Inl (res_invalid ''subject_id must be non-empty'') else Inr (sha subject_id))"

definition resource_document :: "resource_state \<Rightarrow> pyval" where
  "resource_document s = PDict
     [(''resource_format_version'', PInt 1), (''state'', resource_state_to_dict s),
      (''usage_records'', PList []), (''decisions'', PList [])]"

definition read_resource_document :: "file_state \<Rightarrow> (string \<times> pyval) list res" where
  "read_resource_document f = (case f of
       File_Doc data \<Rightarrow> (case data of
         PDict d \<Rightarrow>
           if \<not> py_eq_int (dict_get d ''resource_format_version'') 1
           then Inl (res_invalid ''unsupported resource persistence format'')
           else if \<not> is_list (dict_get d ''usage_records'') \<or> \<not> is_list (dict_get d ''decisions'')
           then Inl (res_invalid ''resource history collections are invalid'')
           else Inr d
       | _ \<Rightarrow> Inl (res_invalid ''unsupported resource persistence format''))
     | _ \<Rightarrow> Inl (res_invalid ''unable to read valid resource data''))"

definition load_resource_document ::
  "digest_fun \<Rightarrow> resource_dir \<Rightarrow> string \<Rightarrow> (string \<times> pyval) list res" where
  "load_resource_document sha dir subject_id =
     rbind (resource_path sha subject_id) (\<lambda>path.
     if \<not> is_file (dir path)
     then Inl (ResourceNotFoundError, ''resource state not found: '' @ subject_id)
     else rbind (read_resource_document (dir path)) (\<lambda>data.
       rbind (resource_state_from_dict (dict_get data ''state'')) (\<lambda>state.
       if rs_subject_id state \<noteq> subject_id
       then Inl (res_invalid ''persisted resource subject is invalid'')
       else Inr data)))"

definition write_resource_document ::
  "bool \<Rightarrow> resource_dir \<Rightarrow> string \<Rightarrow> (string \<times> pyval) list \<Rightarrow> resource_dir res" where
  "write_resource_document disk_ok dir path data =
     (if disk_ok then Inr (dir(path := File_Doc (PDict data))) else Inl (OSError, ''write failed''))"

definition resource_create ::
  "digest_fun \<Rightarrow> bool \<Rightarrow> resource_state \<Rightarrow> resource_dir \<Rightarrow> resource_dir res" where
  "resource_create sha disk_ok state dir =
     rbind (resource_path sha (rs_subject_id state)) (\<lambda>path.
     if is_file (dir path)
     then Inl (ResourceAlreadyExistsError, ''resource state already exists: '' @ rs_subject_id state)
     else if rs_revision state \<noteq> 0
     then Inl (res_invalid ''new resource state must start at revision zero'')
     else if disk_ok then Inr (dir(path := File_Doc (resource_document state)))
     else Inl (OSError, ''write failed''))"

definition resource_load :: "digest_fun \<Rightarrow> string \<Rightarrow> resource_dir \<Rightarrow> resource_state res" where
  "resource_load sha subject_id dir =
     rbind (load_resource_document sha dir subject_id) (\<lambda>data.
     resource_state_from_dict (dict_get data ''state''))"

definition validate_next_revision ::
  "(string \<times> pyval) list \<Rightarrow> resource_state \<Rightarrow> int \<Rightarrow> unit res" where
  "validate_next_revision data state expected_revision =
     rbind (resource_state_from_dict (dict_get data ''state'')) (\<lambda>current.
     rbind (ensure (rs_revision current = expected_revision)
       (res_invalid ''resource state does not match expected_revision'')) (\<lambda>_.
     rbind (ensure (rs_revision state = rs_revision current + 1)
       (res_invalid ''resource revision must advance by one'')) (\<lambda>_.
     ensure (rs_resource_id state = rs_resource_id current \<and> rs_subject_id state = rs_subject_id current)
       (res_invalid ''resource identity cannot change''))))"

definition validate_request_identity ::
  "(string \<times> pyval) list \<Rightarrow> resource_decision \<Rightarrow> unit res" where
  "validate_request_identity data d =
     rbind (any_field ''request_id'' (rd_request_id d) (list_of (dict_get data ''decisions''))) (\<lambda>dup.
     rbind (ensure (\<not> dup) (res_invalid ''duplicate or conflicting resource request identity'')) (\<lambda>_.
     rbind (any_field ''session_id'' (rd_session_id d) (list_of (dict_get data ''usage_records''))) (\<lambda>dup.
     ensure (\<not> dup) (res_invalid ''resource session already has an allocation''))))"

definition save_state ::
  "digest_fun \<Rightarrow> bool \<Rightarrow> resource_state \<Rightarrow> int \<Rightarrow> resource_dir \<Rightarrow> resource_dir res" where
  "save_state sha disk_ok state expected_revision dir =
     rbind (resource_path sha (rs_subject_id state)) (\<lambda>path.
     rbind (load_resource_document sha dir (rs_subject_id state)) (\<lambda>data.
     rbind (validate_next_revision data state expected_revision) (\<lambda>_.
     write_resource_document disk_ok dir path (dict_set data ''state'' (resource_state_to_dict state)))))"

definition save_allocation ::
  "digest_fun \<Rightarrow> bool \<Rightarrow> resource_state \<Rightarrow> token_usage_record \<Rightarrow> resource_decision \<Rightarrow> int
     \<Rightarrow> resource_dir \<Rightarrow> resource_dir res" where
  "save_allocation sha disk_ok state usage decision expected_revision dir =
     rbind (ensure (\<not> (\<not> rd_allowed decision \<or> rd_defer decision
         \<or> rs_subject_id state \<noteq> tu_subject_id usage
         \<or> rs_subject_id state \<noteq> rd_subject_id decision
         \<or> tu_session_id usage \<noteq> rd_session_id decision
         \<or> tu_estimated_tokens usage \<noteq> rd_allocated_tokens decision
         \<or> tu_estimated_compute usage \<noteq> rd_allocated_compute decision))
       (res_invalid ''resource allocation data is inconsistent'')) (\<lambda>_.
     rbind (resource_path sha (rs_subject_id state)) (\<lambda>path.
     rbind (load_resource_document sha dir (rs_subject_id state)) (\<lambda>data.
     rbind (validate_request_identity data decision) (\<lambda>_.
     rbind (validate_next_revision data state expected_revision) (\<lambda>_.
     rbind (any_field ''usage_id'' (tu_usage_id usage) (list_of (dict_get data ''usage_records''))) (\<lambda>dup.
     rbind (ensure (\<not> dup) (res_invalid (''duplicate resource usage: '' @ tu_usage_id usage))) (\<lambda>_.
     rbind (any_field ''decision_id'' (rd_decision_id decision) (list_of (dict_get data ''decisions''))) (\<lambda>dup.
     rbind (ensure (\<not> dup) (res_invalid (''duplicate resource decision: '' @ rd_decision_id decision))) (\<lambda>_.
     let data = dict_set data ''state'' (resource_state_to_dict state);
         data = dict_set data ''usage_records''
           (PList (list_of (dict_get data ''usage_records'') @ [token_usage_to_dict usage]));
         data = dict_set data ''decisions''
           (PList (list_of (dict_get data ''decisions'') @ [resource_decision_to_dict decision]))
     in write_resource_document disk_ok dir path data)))))))))"

definition save_decision ::
  "digest_fun \<Rightarrow> bool \<Rightarrow> resource_decision \<Rightarrow> resource_dir \<Rightarrow> resource_dir res" where
  "save_decision sha disk_ok decision dir =
     rbind (ensure (\<not> rd_allowed decision)
       (res_invalid ''allowed decisions must be saved with their usage allocation'')) (\<lambda>_.
     rbind (resource_path sha (rd_subject_id decision)) (\<lambda>path.
     rbind (load_resource_document sha dir (rd_subject_id decision)) (\<lambda>data.
     rbind (validate_request_identity data decision) (\<lambda>_.
     rbind (any_field ''decision_id'' (rd_decision_id decision) (list_of (dict_get data ''decisions''))) (\<lambda>dup.
     rbind (ensure (\<not> dup) (res_invalid (''duplicate resource decision: '' @ rd_decision_id decision))) (\<lambda>_.
     write_resource_document disk_ok dir path (dict_set data ''decisions''
       (PList (list_of (dict_get data ''decisions'') @ [resource_decision_to_dict decision])))))))))"

definition repo_reconcile_usage ::
  "digest_fun \<Rightarrow> bool \<Rightarrow> resource_state \<Rightarrow> token_usage_record \<Rightarrow> int \<Rightarrow> resource_dir \<Rightarrow> resource_dir res" where
  "repo_reconcile_usage sha disk_ok state usage expected_revision dir =
     rbind (resource_path sha (rs_subject_id state)) (\<lambda>path.
     rbind (load_resource_document sha dir (rs_subject_id state)) (\<lambda>data.
     rbind (validate_next_revision data state expected_revision) (\<lambda>_.
     let records = list_of (dict_get data ''usage_records'') in
     rbind (index_field ''usage_id'' (tu_usage_id usage) records) (\<lambda>usage_index.
     case usage_index of
       None \<Rightarrow> Inl (ResourceNotFoundError, ''resource usage not found: '' @ tu_usage_id usage)
     | Some i \<Rightarrow>
         rbind (token_usage_from_dict (records ! i)) (\<lambda>previous.
         rbind (ensure (\<not> (tu_subject_id previous \<noteq> tu_subject_id usage
             \<or> tu_session_id previous \<noteq> tu_session_id usage
             \<or> tu_actual_tokens previous \<noteq> None))
           (res_invalid ''resource usage cannot be reconciled'')) (\<lambda>_.
         let data = dict_set data ''state'' (resource_state_to_dict state);
             data = dict_set data ''usage_records'' (PList (records[i := token_usage_to_dict usage]))
         in write_resource_document disk_ok dir path data))))))"

definition list_usage :: "digest_fun \<Rightarrow> string \<Rightarrow> resource_dir \<Rightarrow> token_usage_record list res" where
  "list_usage sha subject_id dir =
     rbind (resource_path sha subject_id) (\<lambda>path.
     if \<not> is_file (dir path) then Inr []
     else rbind (load_resource_document sha dir subject_id) (\<lambda>data.
       rmap token_usage_from_dict (list_of (dict_get data ''usage_records''))))"

definition list_decisions :: "digest_fun \<Rightarrow> string \<Rightarrow> resource_dir \<Rightarrow> resource_decision list res" where
  "list_decisions sha subject_id dir =
     rbind (resource_path sha subject_id) (\<lambda>path.
     if \<not> is_file (dir path) then Inr []
     else rbind (load_resource_document sha dir subject_id) (\<lambda>data.
       rmap resource_decision_from_dict (list_of (dict_get data ''decisions''))))"

section \<open>The store contract\<close>

lemma load_document_put:
  assumes "load_resource_document sha dir i = Inr d" "wf_resource_state s" "rs_subject_id s = i"
    "resource_path sha i = Inr x"
  shows "resource_load sha i (dir(x := File_Doc (PDict (dict_set d ''state'' (resource_state_to_dict s))))) = Inr s"
  using assms resource_state_roundtrip [OF assms(2)]
  by (auto simp: resource_load_def load_resource_document_def read_resource_document_def rbind_eq_Inr
      split: if_splits file_state.splits pyval.splits)

lemma save_state_Inr:
  assumes "save_state sha ok s e dir = Inr dir'"
  shows "\<exists>d x u. load_resource_document sha dir (rs_subject_id s) = Inr d \<and>
    resource_path sha (rs_subject_id s) = Inr x \<and>
    resource_load sha (rs_subject_id s) dir = Inr u \<and> rs_revision u = e \<and> rs_revision s = e + 1 \<and>
    dir' = dir(x := File_Doc (PDict (dict_set d ''state'' (resource_state_to_dict s))))"
  using assms
  by (auto simp: save_state_def rbind_eq_Inr validate_next_revision_def write_resource_document_def
      resource_load_def split: if_splits)

lemma resource_load_wf: "resource_load sha i dir = Inr s \<Longrightarrow> wf_resource_state s \<and> rs_subject_id s = i"
  by (auto simp: resource_load_def load_resource_document_def rbind_eq_Inr
      dest: resource_state_from_dict_wf split: if_splits)

definition save_own_state ::
  "digest_fun \<Rightarrow> bool \<Rightarrow> string \<Rightarrow> resource_state \<Rightarrow> int \<Rightarrow> resource_dir \<Rightarrow> resource_dir res" where
  "save_own_state sha disk_ok i s e dir = (if rs_subject_id s = i then save_state sha disk_ok s e dir
     else Inl (res_invalid ''another subject''))"

interpretation rstore: revisioned_store "resource_load sha i" "save_own_state sha disk i" rs_revision
  "\<lambda>s. wf_resource_state s \<and> rs_subject_id s = i"
  by unfold_locales
    (auto simp: save_own_state_def dest: resource_load_wf dest!: save_state_Inr intro: load_document_put
      split: if_splits)

end
