(* ===== verification/Resource_Policy.thy ===== *)
theory Resource_Policy
  imports Resources Py_Float
begin

text \<open>
  domain/resource_policy.py: the deterministic policy that approves, downgrades or defers a
  resource request. The budget shares are Python floats, modelled by \<open>fl\<close>; \<open>reserve\<close> is the
  policy's \<open>token_reserve_ratio\<close> as a float.
\<close>

section \<open>Costs and caps\<close>

fun depth_order :: "thinking_depth \<Rightarrow> nat" where
  "depth_order Depth_LOW = 0"
| "depth_order Depth_NORMAL = 1"
| "depth_order Depth_DEEP = 2"

record depth_cost =
  dc_tokens :: int
  dc_compute :: int

fun depth_costs :: "thinking_depth \<Rightarrow> depth_cost" where
  "depth_costs Depth_LOW = \<lparr>dc_tokens = 256, dc_compute = 1\<rparr>"
| "depth_costs Depth_NORMAL = \<lparr>dc_tokens = 1024, dc_compute = 2\<rparr>"
| "depth_costs Depth_DEEP = \<lparr>dc_tokens = 4096, dc_compute = 4\<rparr>"

fun mode_depth_caps :: "runtime_mode \<Rightarrow> thinking_depth" where
  "mode_depth_caps LOW_FREQUENCY = Depth_LOW"
| "mode_depth_caps SCHEDULED = Depth_NORMAL"
| "mode_depth_caps CONTINUOUS = Depth_NORMAL"
| "mode_depth_caps DEEP_THINKING = Depth_DEEP"

definition resource_policy_init :: "rat \<Rightarrow> rat res" where
  "resource_policy_init token_reserve_ratio = (if 0 \<le> fl token_reserve_ratio \<and> fl token_reserve_ratio < 1
     then Inr (fl token_reserve_ratio)
     else Inl (res_invalid ''token_reserve_ratio must be between zero and one''))"

definition shallower :: "thinking_depth \<Rightarrow> thinking_depth \<Rightarrow> thinking_depth" where
  "shallower l r = (if depth_order l \<le> depth_order r then l else r)"

definition budget_ratio :: "int \<Rightarrow> int \<Rightarrow> rat" where
  "budget_ratio remaining budget = (if budget > 0 then fl (of_int remaining / of_int budget) else 0)"

definition protected_tokens :: "rat \<Rightarrow> int \<Rightarrow> int" where
  "protected_tokens reserve budget = trunc (fl (fl (of_int budget) * reserve))"

definition policy_fits :: "rat \<Rightarrow> resource_state \<Rightarrow> int \<Rightarrow> int \<Rightarrow> bool" where
  "policy_fits reserve s tokens compute =
     (let usable_tokens = max 0 (rs_token_remaining s - protected_tokens reserve (rs_token_budget s))
      in tokens \<le> usable_tokens \<and> compute \<le> rs_compute_remaining s)"

definition cost_for_depth :: "resource_request \<Rightarrow> thinking_depth \<Rightarrow> int \<times> int" where
  "cost_for_depth r depth =
     (min (rq_estimated_tokens r) (dc_tokens (depth_costs depth)),
      min (rq_estimated_compute r) (dc_compute (depth_costs depth)))"

definition frequency_advice :: "resource_state \<Rightarrow> rat \<Rightarrow> rat \<Rightarrow> bool \<times> runtime_mode" where
  "frequency_advice s token_ratio compute_ratio =
     (let constrained = min token_ratio compute_ratio \<le> fl (4 / 10);
          continuous_pressure = rs_current_mode s = CONTINUOUS
            \<and> min token_ratio compute_ratio \<le> fl (6 / 10)
      in if constrained \<or> continuous_pressure then (True, LOW_FREQUENCY)
         else (False, rs_current_mode s))"

definition policy_decision ::
  "string \<Rightarrow> resource_state \<Rightarrow> resource_request \<Rightarrow> bool \<Rightarrow> thinking_depth option \<Rightarrow> int \<Rightarrow> int
     \<Rightarrow> bool \<Rightarrow> bool \<Rightarrow> string \<Rightarrow> runtime_mode \<Rightarrow> instant \<Rightarrow> resource_decision res" where
  "policy_decision uuid s r allowed approved_depth tokens compute lower_frequency defer_it reason mode now =
     resource_decision_init (resource_decision_args_of
       \<lparr>rd_decision_id = uuid, rd_request_id = rq_request_id r, rd_subject_id = rs_subject_id s,
        rd_session_id = rq_session_id r, rd_allowed = allowed, rd_approved_depth = approved_depth,
        rd_allocated_tokens = tokens, rd_allocated_compute = compute,
        rd_lower_frequency = lower_frequency, rd_defer = defer_it, rd_reason = reason,
        rd_recommended_mode = mode, rd_decided_at = now\<rparr>)"

section \<open>Evaluation\<close>

text \<open>
  The depth a thinking request ends with, its cost and the reasons collected on the way: the
  mode's cap, then the low-budget downgrade, then the downgrade of a request that does not
  fit.
\<close>

definition cap_step :: "resource_state \<Rightarrow> thinking_depth \<Rightarrow> thinking_depth \<times> string list" where
  "cap_step s requested = (let approved = shallower requested (mode_depth_caps (rs_current_mode s))
     in (approved, if approved \<noteq> requested
       then [''runtime mode '' @ runtime_mode_value (rs_current_mode s) @ '' caps thinking at ''
         @ thinking_depth_value approved]
       else []))"

definition low_budget_step ::
  "rat \<Rightarrow> thinking_depth \<times> string list \<Rightarrow> thinking_depth \<times> string list" where
  "low_budget_step ratio ar = (if ratio \<le> fl (3 / 10) \<and> fst ar \<noteq> Depth_LOW
     then (Depth_LOW, snd ar @ [''remaining resources require LOW thinking depth'']) else ar)"

definition fit_step ::
  "rat \<Rightarrow> resource_state \<Rightarrow> resource_request \<Rightarrow> thinking_depth \<times> string list
     \<Rightarrow> thinking_depth \<times> string list" where
  "fit_step reserve s r ar = (let (tokens, compute) = cost_for_depth r (fst ar) in
     if \<not> policy_fits reserve s tokens compute \<and> fst ar \<noteq> Depth_LOW
     then (Depth_LOW, snd ar @ [''requested depth did not fit; the request was downgraded to LOW''])
     else ar)"

definition evaluate_thinking ::
  "rat \<Rightarrow> string \<Rightarrow> resource_state \<Rightarrow> resource_request \<Rightarrow> thinking_depth \<Rightarrow> instant
     \<Rightarrow> resource_decision res" where
  "evaluate_thinking reserve uuid s r requested now =
     (let token_ratio = budget_ratio (rs_token_remaining s) (rs_token_budget s);
          compute_ratio = budget_ratio (rs_compute_remaining s) (rs_compute_budget s);
          (approved, reasons) = fit_step reserve s r
            (low_budget_step (min token_ratio compute_ratio) (cap_step s requested));
          (tokens, compute) = cost_for_depth r approved;
          (lower_frequency, mode) = frequency_advice s token_ratio compute_ratio
      in if \<not> policy_fits reserve s tokens compute
         then policy_decision uuid s r False (Some Depth_LOW) 0 0 True True
           (''Even LOW thinking would cross the protected resource reserve; ''
             @ ''the session must wait for a later budget window.'') LOW_FREQUENCY now
         else policy_decision uuid s r True (Some approved) tokens compute lower_frequency False
           (join ''; '' (if reasons = []
             then [''resources allow '' @ thinking_depth_value approved @ '' thinking in ''
               @ runtime_mode_value (rs_current_mode s) @ '' mode'']
             else reasons) @ ''.'') mode now)"

definition session_label :: "resource_session_type \<Rightarrow> string" where
  "session_label t = (case t of Session_THINKING \<Rightarrow> ''thinking'' | Session_MEMORY \<Rightarrow> ''memory''
     | Session_LEARNING \<Rightarrow> ''learning'' | Session_OTHER \<Rightarrow> ''other'')"

definition evaluate_standard ::
  "rat \<Rightarrow> string \<Rightarrow> resource_state \<Rightarrow> resource_request \<Rightarrow> instant \<Rightarrow> resource_decision res" where
  "evaluate_standard reserve uuid s r now =
     (let token_ratio = budget_ratio (rs_token_remaining s) (rs_token_budget s);
          compute_ratio = budget_ratio (rs_compute_remaining s) (rs_compute_budget s);
          (lower_frequency, mode) = frequency_advice s token_ratio compute_ratio
      in if \<not> policy_fits reserve s (rq_estimated_tokens r) (rq_estimated_compute r)
         then policy_decision uuid s r False None 0 0 True True
           (''The '' @ session_label (rq_session_type r)
             @ '' request would exceed the protected token or ''
             @ ''compute budget and was deferred instead of failed.'') LOW_FREQUENCY now
         else policy_decision uuid s r True None (rq_estimated_tokens r) (rq_estimated_compute r)
           lower_frequency False
           (''The '' @ session_label (rq_session_type r)
             @ '' request fits the current '' @ ''token and compute budgets.'') mode now)"

definition policy_evaluate ::
  "rat \<Rightarrow> string \<Rightarrow> resource_state \<Rightarrow> resource_request \<Rightarrow> instant \<Rightarrow> resource_decision res" where
  "policy_evaluate reserve uuid s r now =
     (if rs_subject_id s \<noteq> rq_subject_id r
      then Inl (res_invalid ''resource request subject does not match state'')
      else if rq_session_type r = Session_THINKING
      then (case rq_requested_depth r of
          None \<Rightarrow> Inl (OtherError, ''AssertionError'')
        | Some requested \<Rightarrow> evaluate_thinking reserve uuid s r requested now)
      else evaluate_standard reserve uuid s r now)"

section \<open>What every decision satisfies\<close>

lemma budget_ratio_nonneg: "0 \<le> a \<Longrightarrow> 0 \<le> budget_ratio a b"
  by (simp add: budget_ratio_def fl_nonneg)

lemma protected_tokens_nonneg: "0 \<le> b \<Longrightarrow> 0 \<le> reserve \<Longrightarrow> 0 \<le> protected_tokens reserve b"
  by (simp add: protected_tokens_def trunc_nonneg fl_nonneg)

lemma shallower_le: "depth_order (shallower l r) \<le> depth_order l" "depth_order (shallower l r) \<le> depth_order r"
  by (auto simp: shallower_def)

lemma approved_depth_le:
  "depth_order (fst (fit_step reserve s r (low_budget_step ratio (cap_step s requested))))
     \<le> depth_order (shallower requested (mode_depth_caps (rs_current_mode s)))"
  by (auto simp: fit_step_def low_budget_step_def cap_step_def Let_def split: prod.split)

lemma policy_decision_Inr:
  "policy_decision uuid s r al dep t c lf df reason mode now = Inr d \<Longrightarrow>
     wf_resource_decision d \<and> rd_decision_id d = uuid \<and> rd_request_id d = rq_request_id r \<and>
     rd_subject_id d = rs_subject_id s \<and> rd_session_id d = rq_session_id r \<and> rd_allowed d = al \<and>
     rd_approved_depth d = dep \<and> rd_allocated_tokens d = t \<and> rd_allocated_compute d = c \<and>
     rd_lower_frequency d = lf \<and> rd_defer d = df \<and> rd_recommended_mode d = mode \<and>
     rd_decided_at d = now"
  by (auto simp: policy_decision_def resource_decision_init_Inr)

end
