(* ===== verification/Resource_Manager.thy ===== *)
theory Resource_Manager
  imports Resource_Repository Resource_Policy
begin

text \<open>
  services/resource_manager.py, with the token budget types of domain/thinking.py it hands to
  a thinking session. \<open>manager_world\<close> is what its calls change: the repository's directory and
  the manager's map from sessions to subjects. \<open>resource_ports\<close> holds what a call reads from
  outside: clock readings in the order they are taken, fresh uuids, the policy's reserve share
  and whether the disk accepts the one write a call makes.
\<close>

section \<open>Token budgets\<close>

record token_budget_request =
  bq_subject_id :: string
  bq_wake_session_id :: string
  bq_depth :: thinking_depth
  bq_requested_at :: instant
  bq_session_id :: "string option"
  bq_model_name :: string
  bq_reason :: string

definition token_budget_request_init ::
  "pyval \<Rightarrow> pyval \<Rightarrow> pyval \<Rightarrow> pyval \<Rightarrow> pyval \<Rightarrow> pyval \<Rightarrow> pyval \<Rightarrow> token_budget_request res" where
  "token_budget_request_init subject_id wake_session_id depth requested_at session_id model_name reason =
     rbind (require_text ThinkingValidationError subject_id ''budget request subject_id'') (\<lambda>subject_id.
     rbind (require_text ThinkingValidationError wake_session_id ''budget request wake_session_id'') (\<lambda>wake_session_id.
     rbind (optional_text ThinkingValidationError session_id ''budget request session_id'') (\<lambda>session_id.
     rbind (require_text ThinkingValidationError model_name ''budget request model_name'') (\<lambda>model_name.
     rbind (require_text ThinkingValidationError reason ''budget request reason'') (\<lambda>reason.
     rbind (require_enum (ThinkingValidationError, ''unsupported thinking depth'') thinking_depth_value
       [Depth_LOW, Depth_NORMAL, Depth_DEEP] depth) (\<lambda>depth.
     rbind (require_aware (ThinkingValidationError, ''budget requested_at must include a timezone'')
       requested_at) (\<lambda>requested_at.
     Inr \<lparr>bq_subject_id = subject_id, bq_wake_session_id = wake_session_id, bq_depth = depth,
       bq_requested_at = requested_at, bq_session_id = session_id, bq_model_name = model_name,
       bq_reason = reason\<rparr>)))))))"

record token_budget =
  tb_maximum_tokens :: int
  tb_remaining_tokens :: int
  tb_session_tokens :: int
  tb_depth :: thinking_depth

definition token_budget_init :: "int \<Rightarrow> int \<Rightarrow> int \<Rightarrow> thinking_depth \<Rightarrow> token_budget res" where
  "token_budget_init maximum remaining session depth =
     rbind (ensure (0 \<le> maximum)
       (ThinkingValidationError, ''maximum_tokens must be a non-negative integer'')) (\<lambda>_.
     rbind (ensure (0 \<le> remaining)
       (ThinkingValidationError, ''remaining_tokens must be a non-negative integer'')) (\<lambda>_.
     rbind (ensure (0 \<le> session)
       (ThinkingValidationError, ''session_tokens must be a non-negative integer'')) (\<lambda>_.
     rbind (ensure (remaining \<le> maximum)
       (ThinkingValidationError, ''remaining_tokens cannot exceed maximum_tokens'')) (\<lambda>_.
     rbind (ensure (session \<le> remaining)
       (ThinkingValidationError, ''session_tokens cannot exceed remaining_tokens'')) (\<lambda>_.
     Inr \<lparr>tb_maximum_tokens = maximum, tb_remaining_tokens = remaining,
       tb_session_tokens = session, tb_depth = depth\<rparr>)))))"

section \<open>The manager's world\<close>

record resource_ports =
  rp_sha :: digest_fun
  rp_reserve :: rat
  rp_disk_ok :: bool
  rp_request_at :: instant
  rp_decide_at :: instant
  rp_usage_at :: instant
  rp_update_at :: instant
  rp_request_uuid :: string
  rp_decision_uuid :: string
  rp_usage_uuid :: string

record manager_world =
  mw_dir :: resource_dir
  mw_sessions :: "string \<Rightarrow> string option"

definition mw_read :: "(resource_dir \<Rightarrow> 'a res) \<Rightarrow> (manager_world, 'a) prog" where
  "mw_read f w = (w, f (mw_dir w))"

definition mw_write :: "(resource_dir \<Rightarrow> resource_dir res) \<Rightarrow> (manager_world, unit) prog" where
  "mw_write f w = (case f (mw_dir w) of Inl e \<Rightarrow> (w, Inl e) | Inr dir \<Rightarrow> (w\<lparr>mw_dir := dir\<rparr>, Inr ()))"

section \<open>State and mode\<close>

definition create_resource_state ::
  "resource_ports \<Rightarrow> string option \<Rightarrow> string \<Rightarrow> pyval \<Rightarrow> pyval \<Rightarrow> runtime_mode
     \<Rightarrow> (manager_world, resource_state) prog" where
  "create_resource_state p resource_id subject_id token_budget compute_budget mode w =
     (case resource_load (rp_sha p) subject_id (mw_dir w) of
        Inr _ \<Rightarrow> (w, Inl (ResourceAlreadyExistsError, ''resource state already exists: '' @ subject_id))
      | Inl (c, m) \<Rightarrow>
          if c \<noteq> ResourceNotFoundError then (w, Inl (c, m))
          else sbind (slift (resource_state_create (given_or_uuid resource_id (rp_request_uuid p))
              (PStr subject_id) token_budget compute_budget mode (rp_update_at p))) (\<lambda>state.
            sbind (mw_write (resource_create (rp_sha p) (rp_disk_ok p) state)) (\<lambda>_.
            sret state)) w)"

definition get_resource_state :: "resource_ports \<Rightarrow> string \<Rightarrow> (manager_world, resource_state) prog" where
  "get_resource_state p subject_id = mw_read (resource_load (rp_sha p) subject_id)"

definition resource_state_copy :: "resource_state \<Rightarrow> resource_state res" where
  "resource_state_copy s = resource_state_from_dict (resource_state_to_dict s)"

definition set_runtime_mode ::
  "resource_ports \<Rightarrow> string \<Rightarrow> pyval \<Rightarrow> int option \<Rightarrow> (manager_world, resource_state) prog" where
  "set_runtime_mode p subject_id mode expected_revision =
     sbind (mw_read (resource_load (rp_sha p) subject_id)) (\<lambda>current.
     sbind (slift (ensure (case expected_revision of None \<Rightarrow> True | Some e \<Rightarrow> rs_revision current = e)
       (res_invalid ''resource state does not match expected_revision''))) (\<lambda>_.
     sbind (slift (res_mode mode)) (\<lambda>next_mode.
     if rs_current_mode current = next_mode then sret current
     else
       sbind (slift (resource_state_copy current)) (\<lambda>updated.
       sbind (slift (resource_state_recheck (updated\<lparr>rs_current_mode := next_mode,
         rs_updated_at := rp_update_at p, rs_revision := rs_revision updated + 1\<rparr>))) (\<lambda>updated.
       sbind (mw_write (save_state (rp_sha p) (rp_disk_ok p) updated (rs_revision current))) (\<lambda>_.
       sret updated))))))"

section \<open>Requests\<close>

definition manager_preview :: "resource_ports \<Rightarrow> resource_request \<Rightarrow> (manager_world, resource_decision) prog" where
  "manager_preview p request =
     sbind (mw_read (resource_load (rp_sha p) (rq_subject_id request))) (\<lambda>state.
     slift (policy_evaluate (rp_reserve p) (rp_decision_uuid p) state request (rp_decide_at p)))"

text \<open>The state after an allocation, before it is re-validated.\<close>

definition charged_state :: "resource_state \<Rightarrow> token_usage_record \<Rightarrow> instant \<Rightarrow> resource_state" where
  "charged_state s usage now =
     (let token_used = rs_token_used s + tu_estimated_tokens usage;
          compute_used = rs_compute_used s + tu_estimated_compute usage
      in s\<lparr>rs_token_used := token_used, rs_token_remaining := max 0 (rs_token_budget s - token_used),
         rs_compute_used := compute_used,
         rs_compute_remaining := max 0 (rs_compute_budget s - compute_used),
         rs_updated_at := now, rs_revision := rs_revision s + 1\<rparr>)"

definition request_resources ::
  "resource_ports \<Rightarrow> resource_request \<Rightarrow> (manager_world, resource_allocation) prog" where
  "request_resources p request =
     sbind (mw_read (list_decisions (rp_sha p) (rq_subject_id request))) (\<lambda>decisions.
     sbind (slift (ensure (\<not> (\<exists>d \<in> set decisions. rd_request_id d = rq_request_id request))
       (res_invalid ''duplicate or conflicting resource request identity''))) (\<lambda>_.
     sbind (mw_read (list_usage (rp_sha p) (rq_subject_id request))) (\<lambda>usages.
     sbind (slift (ensure (\<not> (\<exists>u \<in> set usages. tu_session_id u = rq_session_id request))
       (res_invalid ''resource session already has an allocation''))) (\<lambda>_.
     sbind (mw_read (resource_load (rp_sha p) (rq_subject_id request))) (\<lambda>state.
     sbind (slift (policy_evaluate (rp_reserve p) (rp_decision_uuid p) state request (rp_decide_at p))) (\<lambda>decision.
     if \<not> rd_allowed decision
     then sbind (mw_write (save_decision (rp_sha p) (rp_disk_ok p) decision)) (\<lambda>_.
       slift (resource_allocation_init state request decision None))
     else
       sbind (slift (token_usage_init
         \<lparr>tua_usage_id = PStr (rp_usage_uuid p), tua_subject_id = PStr (rq_subject_id request),
          tua_session_id = PStr (rq_session_id request),
          tua_session_type = PStr (session_type_value (rq_session_type request)),
          tua_estimated_tokens = PInt (rd_allocated_tokens decision), tua_actual_tokens = PNone,
          tua_model_name = PStr (rq_model_name request), tua_reason = PStr (rq_reason request),
          tua_created_at = utc_val (rp_usage_at p),
          tua_estimated_compute = PInt (rd_allocated_compute decision)\<rparr>)) (\<lambda>usage.
       sbind (slift (resource_state_copy state)) (\<lambda>updated.
       sbind (slift (resource_state_recheck (charged_state updated usage (rp_update_at p)))) (\<lambda>updated.
       sbind (mw_write (save_allocation (rp_sha p) (rp_disk_ok p) updated usage decision (rs_revision state))) (\<lambda>_.
       sbind (smodify (\<lambda>w. w\<lparr>mw_sessions := (mw_sessions w)(rq_session_id request \<mapsto> rq_subject_id request)\<rparr>)) (\<lambda>_.
       slift (resource_allocation_init updated request decision (Some usage)))))))))))))"

text \<open>\<open>ResourceRequest.create\<close> without a request id, as the wrappers call it.\<close>

definition create_request ::
  "resource_ports \<Rightarrow> string \<Rightarrow> string \<Rightarrow> resource_session_type \<Rightarrow> pyval \<Rightarrow> pyval \<Rightarrow> string \<Rightarrow> string
     \<Rightarrow> thinking_depth option \<Rightarrow> resource_request res" where
  "create_request p subject_id session_id session_type tokens compute model_name reason depth =
     resource_request_init
       \<lparr>rqa_request_id = PStr (rp_request_uuid p), rqa_subject_id = PStr subject_id,
        rqa_session_id = PStr session_id, rqa_session_type = PStr (session_type_value session_type),
        rqa_estimated_tokens = tokens, rqa_estimated_compute = compute,
        rqa_model_name = PStr model_name, rqa_reason = PStr reason,
        rqa_requested_at = utc_val (rp_request_at p), rqa_requested_depth = depth_val depth\<rparr>"

definition request_thinking ::
  "resource_ports \<Rightarrow> string \<Rightarrow> string \<Rightarrow> pyval \<Rightarrow> string \<Rightarrow> string
     \<Rightarrow> (manager_world, resource_allocation) prog" where
  "request_thinking p subject_id session_id depth model_name reason =
     sbind (slift (require_enum (res_invalid ''unsupported thinking depth'') thinking_depth_value
       [Depth_LOW, Depth_NORMAL, Depth_DEEP] depth)) (\<lambda>requested_depth.
     let cost = depth_costs requested_depth in
     sbind (slift (create_request p subject_id session_id Session_THINKING (PInt (dc_tokens cost))
       (PInt (dc_compute cost)) model_name reason (Some requested_depth))) (\<lambda>request.
     request_resources p request))"

definition request_other ::
  "resource_session_type \<Rightarrow> resource_ports \<Rightarrow> string \<Rightarrow> string \<Rightarrow> string \<Rightarrow> pyval \<Rightarrow> pyval
     \<Rightarrow> (manager_world, resource_allocation) prog" where
  "request_other session_type p subject_id session_id reason tokens compute =
     sbind (slift (create_request p subject_id session_id session_type tokens compute
       ''not-applicable'' reason None)) (\<lambda>request.
     request_resources p request)"

definition request_learning where "request_learning = request_other Session_LEARNING"
definition request_wake where "request_wake = request_other Session_OTHER"
definition request_memory where "request_memory = request_other Session_MEMORY"

definition allocate :: "resource_ports \<Rightarrow> token_budget_request \<Rightarrow> (manager_world, token_budget) prog" where
  "allocate p request =
     sbind (request_thinking p (bq_subject_id request)
       (given_or_uuid (bq_session_id request) (bq_wake_session_id request))
       (PStr (thinking_depth_value (bq_depth request))) (bq_model_name request) (bq_reason request)) (\<lambda>allocation.
     let decision = al_decision allocation;
         depth = (case rd_approved_depth decision of None \<Rightarrow> Depth_LOW | Some d \<Rightarrow> d);
         state = al_state allocation
     in slift (if \<not> rd_allowed decision
       then token_budget_init (rs_token_budget state) (rs_token_remaining state) 0 depth
       else token_budget_init (rs_token_budget state)
         (min (rs_token_budget state) (rs_token_remaining state + rd_allocated_tokens decision))
         (rd_allocated_tokens decision) depth))"

section \<open>Actual usage\<close>

definition settled_state :: "resource_state \<Rightarrow> token_usage_record \<Rightarrow> int \<Rightarrow> instant \<Rightarrow> resource_state" where
  "settled_state s previous actual_tokens now =
     (let token_used = max 0 (rs_token_used s - tu_estimated_tokens previous + actual_tokens)
      in s\<lparr>rs_token_used := token_used, rs_token_remaining := max 0 (rs_token_budget s - token_used),
         rs_updated_at := now, rs_revision := rs_revision s + 1\<rparr>)"

definition record_actual_usage ::
  "resource_ports \<Rightarrow> string \<Rightarrow> string \<Rightarrow> pyval \<Rightarrow> (manager_world, token_usage_record) prog" where
  "record_actual_usage p subject_id session_id actual_tokens =
     sbind (slift (case actual_tokens of
         PInt n \<Rightarrow> if n < 0 then Inl (res_invalid ''actual_tokens must be non-negative'') else Inr n
       | _ \<Rightarrow> Inl (res_invalid ''actual_tokens must be non-negative''))) (\<lambda>actual.
     sbind (mw_read (resource_load (rp_sha p) subject_id)) (\<lambda>current.
     sbind (mw_read (list_usage (rp_sha p) subject_id)) (\<lambda>usages.
     case filter (\<lambda>u. tu_session_id u = session_id) usages of
       [previous] \<Rightarrow>
         sbind (slift (ensure (tu_actual_tokens previous = None)
           (res_invalid ''actual token usage was already recorded''))) (\<lambda>_.
         sbind (slift (token_usage_from_dict (token_usage_to_dict previous))) (\<lambda>copy.
         sbind (slift (token_usage_recheck (copy\<lparr>tu_actual_tokens := Some actual\<rparr>))) (\<lambda>updated_usage.
         sbind (slift (resource_state_copy current)) (\<lambda>copy.
         sbind (slift (resource_state_recheck (settled_state copy previous actual (rp_update_at p)))) (\<lambda>updated_state.
         sbind (mw_write (repo_reconcile_usage (rp_sha p) (rp_disk_ok p) updated_state updated_usage
           (rs_revision current))) (\<lambda>_.
         sret updated_usage))))))
     | _ \<Rightarrow> slift (Inl (ResourceNotFoundError,
         ''exactly one usage record is required for session: '' @ session_id)))))"

definition record_usage ::
  "resource_ports \<Rightarrow> string \<Rightarrow> pyval \<Rightarrow> (manager_world, token_usage_record) prog" where
  "record_usage p session_id actual_tokens =
     sbind sget (\<lambda>w. case mw_sessions w session_id of
       None \<Rightarrow> slift (Inl (ResourceNotFoundError,
         ''resource session is unknown; use record_actual_usage with subject_id''))
     | Some subject_id \<Rightarrow> record_actual_usage p subject_id session_id actual_tokens)"

definition get_usage_history :: "resource_ports \<Rightarrow> string \<Rightarrow> (manager_world, token_usage_record list) prog" where
  "get_usage_history p subject_id = mw_read (list_usage (rp_sha p) subject_id)"

definition get_decision_history :: "resource_ports \<Rightarrow> string \<Rightarrow> (manager_world, resource_decision list) prog" where
  "get_decision_history p subject_id = mw_read (list_decisions (rp_sha p) subject_id)"

end
