(* ===== verification/Resource_Ledger.thy ===== *)
theory Resource_Ledger
  imports Resource_Manager
begin

text \<open>
  The ledger a subject's document stands for: its state, usage records and decisions. Each
  operation of the repository is shown to be the corresponding operation on the ledger, and the
  accounting invariant \<open>balanced\<close> ties the state's counters to the records.
\<close>

section \<open>The ledger of a document\<close>

record ledger =
  lg_state :: resource_state
  lg_usage :: "token_usage_record list"
  lg_decisions :: "resource_decision list"

definition wf_ledger :: "ledger \<Rightarrow> bool" where
  "wf_ledger l \<longleftrightarrow> wf_resource_state (lg_state l) \<and> list_all wf_token_usage (lg_usage l)
     \<and> list_all wf_resource_decision (lg_decisions l)"

definition doc_ledger :: "(string \<times> pyval) list \<Rightarrow> ledger \<Rightarrow> bool" where
  "doc_ledger d l \<longleftrightarrow> py_eq_int (dict_get d ''resource_format_version'') 1 \<and>
     dict_get d ''state'' = resource_state_to_dict (lg_state l) \<and>
     dict_get d ''usage_records'' = PList (map token_usage_to_dict (lg_usage l)) \<and>
     dict_get d ''decisions'' = PList (map resource_decision_to_dict (lg_decisions l))"

definition has_ledger :: "digest_fun \<Rightarrow> resource_dir \<Rightarrow> string \<Rightarrow> ledger \<Rightarrow> bool" where
  "has_ledger sha dir i l \<longleftrightarrow> \<not> blank i \<and> wf_ledger l \<and> rs_subject_id (lg_state l) = i \<and>
     (\<exists>d. dir (sha i) = File_Doc (PDict d) \<and> doc_ledger d l)"

lemma wf_ledgerD:
  assumes "wf_ledger l"
  shows "wf_resource_state (lg_state l)" "u \<in> set (lg_usage l) \<Longrightarrow> wf_token_usage u"
    "d \<in> set (lg_decisions l) \<Longrightarrow> wf_resource_decision d"
  using assms by (auto simp: wf_ledger_def list_all_iff)

lemma load_document_ledger:
  assumes "has_ledger sha dir i l"
  obtains d where "load_resource_document sha dir i = Inr d" "doc_ledger d l" "dir (sha i) = File_Doc (PDict d)"
    "resource_path sha i = Inr (sha i)"
  using assms resource_state_roundtrip [of "lg_state l"]
  by (auto simp: has_ledger_def doc_ledger_def load_resource_document_def resource_path_def
      read_resource_document_def wf_ledger_def)

lemma resource_load_ledger [simp]:
  assumes "has_ledger sha dir i l"
  shows "resource_load sha i dir = Inr (lg_state l)"
proof -
  obtain d where "load_resource_document sha dir i = Inr d" "doc_ledger d l"
    using load_document_ledger [OF assms] by metis
  then show ?thesis
    using assms resource_state_roundtrip [of "lg_state l"]
    by (simp add: resource_load_def doc_ledger_def has_ledger_def wf_ledger_def)
qed

lemma list_usage_ledger [simp]:
  assumes "has_ledger sha dir i l"
  shows "list_usage sha i dir = Inr (lg_usage l)"
proof -
  obtain d where d: "load_resource_document sha dir i = Inr d" "doc_ledger d l"
    "dir (sha i) = File_Doc (PDict d)" "resource_path sha i = Inr (sha i)"
    using load_document_ledger [OF assms] by metis
  have "rmap token_usage_from_dict (map token_usage_to_dict (lg_usage l)) = Inr (lg_usage l)"
    using assms by (intro rmap_Inr_id token_usage_roundtrip) (auto simp: has_ledger_def dest: wf_ledgerD)
  with d show ?thesis by (simp add: list_usage_def doc_ledger_def)
qed

lemma list_decisions_ledger [simp]:
  assumes "has_ledger sha dir i l"
  shows "list_decisions sha i dir = Inr (lg_decisions l)"
proof -
  obtain d where d: "load_resource_document sha dir i = Inr d" "doc_ledger d l"
    "dir (sha i) = File_Doc (PDict d)" "resource_path sha i = Inr (sha i)"
    using load_document_ledger [OF assms] by metis
  have "rmap resource_decision_from_dict (map resource_decision_to_dict (lg_decisions l)) = Inr (lg_decisions l)"
    using assms by (intro rmap_Inr_id resource_decision_roundtrip) (auto simp: has_ledger_def dest: wf_ledgerD)
  with d show ?thesis by (simp add: list_decisions_def doc_ledger_def)
qed

section \<open>The scans of the repository\<close>

lemma usage_scan:
  "any_field ''usage_id'' s (map token_usage_to_dict us) = Inr (\<exists>u \<in> set us. tu_usage_id u = s)"
  "any_field ''session_id'' s (map token_usage_to_dict us) = Inr (\<exists>u \<in> set us. tu_session_id u = s)"
  by (rule any_field_map, simp add: token_usage_to_dict_def)+

lemma decision_scan:
  "any_field ''request_id'' s (map resource_decision_to_dict ds) = Inr (\<exists>d \<in> set ds. rd_request_id d = s)"
  "any_field ''decision_id'' s (map resource_decision_to_dict ds) = Inr (\<exists>d \<in> set ds. rd_decision_id d = s)"
  by (rule any_field_map, simp add: resource_decision_to_dict_def)+

section \<open>Writes on the ledger\<close>

definition next_revision :: "resource_state \<Rightarrow> resource_state \<Rightarrow> int \<Rightarrow> bool" where
  "next_revision current state e \<longleftrightarrow> rs_revision current = e \<and> rs_revision state = e + 1 \<and>
     rs_resource_id state = rs_resource_id current \<and> rs_subject_id state = rs_subject_id current"

lemma validate_next_revision_ledger:
  assumes "doc_ledger d l" "wf_ledger l"
  shows "validate_next_revision d s e = Inr u \<longleftrightarrow> next_revision (lg_state l) s e"
  using assms resource_state_roundtrip [of "lg_state l"]
  by (auto simp: validate_next_revision_def doc_ledger_def wf_ledger_def rbind_eq_Inr next_revision_def)

lemma validate_request_identity_ledger:
  assumes "doc_ledger d l"
  shows "validate_request_identity d dc = Inr u \<longleftrightarrow>
    (\<forall>x \<in> set (lg_decisions l). rd_request_id x \<noteq> rd_request_id dc) \<and>
    (\<forall>x \<in> set (lg_usage l). tu_session_id x \<noteq> rd_session_id dc)"
  using assms
  by (auto simp: validate_request_identity_def doc_ledger_def usage_scan decision_scan rbind_eq_Inr)

lemma has_ledger_put:
  assumes "doc_ledger d l" "wf_ledger l" "\<not> blank (rs_subject_id (lg_state l))" "i = rs_subject_id (lg_state l)"
  shows "has_ledger sha (dir(sha i := File_Doc (PDict d))) i l"
  using assms by (auto simp: has_ledger_def)

lemma save_state_ledger:
  assumes l: "has_ledger sha dir (rs_subject_id s) l" and wf: "wf_resource_state s"
  shows "save_state sha ok s e dir = Inr dir' \<Longrightarrow>
    next_revision (lg_state l) s e \<and> has_ledger sha dir' (rs_subject_id s) (l\<lparr>lg_state := s\<rparr>)"
    and "ok \<Longrightarrow> next_revision (lg_state l) s e \<Longrightarrow> \<exists>dir'. save_state sha ok s e dir = Inr dir'"
proof -
  obtain d where d: "load_resource_document sha dir (rs_subject_id s) = Inr d" "doc_ledger d l"
    "resource_path sha (rs_subject_id s) = Inr (sha (rs_subject_id s))"
    using load_document_ledger [OF l] by metis
  have wl: "wf_ledger l" using l by (simp add: has_ledger_def)
  note run = save_state_def d(1,3) rbind_eq_Inr validate_next_revision_ledger [OF d(2) wl] write_resource_document_def
  have doc: "doc_ledger (dict_set d ''state'' (resource_state_to_dict s)) (l\<lparr>lg_state := s\<rparr>)"
    "wf_ledger (l\<lparr>lg_state := s\<rparr>)"
    using d(2) wl wf by (simp_all add: doc_ledger_def wf_ledger_def)
  show "next_revision (lg_state l) s e \<and> has_ledger sha dir' (rs_subject_id s) (l\<lparr>lg_state := s\<rparr>)"
    if "save_state sha ok s e dir = Inr dir'"
    using that has_ledger_put [OF doc] l by (auto simp: run has_ledger_def split: if_splits)
  show "\<exists>dir'. save_state sha ok s e dir = Inr dir'" if "ok" "next_revision (lg_state l) s e"
    using that by (simp add: run)
qed

definition allocation_admissible :: "ledger \<Rightarrow> resource_state \<Rightarrow> token_usage_record \<Rightarrow> resource_decision \<Rightarrow> int \<Rightarrow> bool" where
  "allocation_admissible l s u dc e \<longleftrightarrow> rd_allowed dc \<and> \<not> rd_defer dc \<and>
     tu_subject_id u = rs_subject_id s \<and> rd_subject_id dc = rs_subject_id s \<and>
     tu_session_id u = rd_session_id dc \<and> tu_estimated_tokens u = rd_allocated_tokens dc \<and>
     tu_estimated_compute u = rd_allocated_compute dc \<and> next_revision (lg_state l) s e \<and>
     (\<forall>x \<in> set (lg_decisions l). rd_request_id x \<noteq> rd_request_id dc \<and> rd_decision_id x \<noteq> rd_decision_id dc) \<and>
     (\<forall>x \<in> set (lg_usage l). tu_session_id x \<noteq> tu_session_id u \<and> tu_usage_id x \<noteq> tu_usage_id u)"

definition add_allocation :: "ledger \<Rightarrow> resource_state \<Rightarrow> token_usage_record \<Rightarrow> resource_decision \<Rightarrow> ledger" where
  "add_allocation l s u dc = l\<lparr>lg_state := s, lg_usage := lg_usage l @ [u],
     lg_decisions := lg_decisions l @ [dc]\<rparr>"

lemma save_allocation_ledger:
  assumes l: "has_ledger sha dir (rs_subject_id s) l"
    and wf: "wf_resource_state s" "wf_token_usage u" "wf_resource_decision dc"
  shows "save_allocation sha ok s u dc e dir = Inr dir' \<Longrightarrow>
    allocation_admissible l s u dc e \<and> has_ledger sha dir' (rs_subject_id s) (add_allocation l s u dc)"
    and "ok \<Longrightarrow> allocation_admissible l s u dc e \<Longrightarrow> \<exists>dir'. save_allocation sha ok s u dc e dir = Inr dir'"
proof -
  obtain d where d: "load_resource_document sha dir (rs_subject_id s) = Inr d" "doc_ledger d l"
    "resource_path sha (rs_subject_id s) = Inr (sha (rs_subject_id s))"
    using load_document_ledger [OF l] by metis
  have wl: "wf_ledger l" using l by (simp add: has_ledger_def)
  have lists: "list_of (dict_get d ''usage_records'') = map token_usage_to_dict (lg_usage l)"
    "list_of (dict_get d ''decisions'') = map resource_decision_to_dict (lg_decisions l)"
    using d(2) by (simp_all add: doc_ledger_def)
  note run = save_allocation_def d(1,3) rbind_eq_Inr validate_next_revision_ledger [OF d(2) wl]
    validate_request_identity_ledger [OF d(2)] lists usage_scan decision_scan Let_def
    write_resource_document_def allocation_admissible_def
  let ?d = "dict_set (dict_set (dict_set d ''state'' (resource_state_to_dict s)) ''usage_records''
      (PList (map token_usage_to_dict (lg_usage l) @ [token_usage_to_dict u]))) ''decisions''
      (PList (map resource_decision_to_dict (lg_decisions l) @ [resource_decision_to_dict dc]))"
  have doc: "doc_ledger ?d (add_allocation l s u dc)" "wf_ledger (add_allocation l s u dc)"
    using d(2) wl wf by (simp_all add: doc_ledger_def wf_ledger_def add_allocation_def)
  have put: "has_ledger sha (dir(sha (rs_subject_id s) := File_Doc (PDict ?d))) (rs_subject_id s)
      (add_allocation l s u dc)"
    using has_ledger_put [OF doc] l by (simp add: has_ledger_def add_allocation_def)
  show "allocation_admissible l s u dc e \<and> has_ledger sha dir' (rs_subject_id s) (add_allocation l s u dc)"
    if "save_allocation sha ok s u dc e dir = Inr dir'"
    using that put by (auto simp: run split: if_splits)
  show "\<exists>dir'. save_allocation sha ok s u dc e dir = Inr dir'" if "ok" "allocation_admissible l s u dc e"
    using that by (auto simp: run)
qed

definition decision_admissible :: "ledger \<Rightarrow> resource_decision \<Rightarrow> bool" where
  "decision_admissible l dc \<longleftrightarrow> \<not> rd_allowed dc \<and>
     (\<forall>x \<in> set (lg_decisions l). rd_request_id x \<noteq> rd_request_id dc \<and> rd_decision_id x \<noteq> rd_decision_id dc) \<and>
     (\<forall>x \<in> set (lg_usage l). tu_session_id x \<noteq> rd_session_id dc)"

lemma save_decision_ledger:
  assumes l: "has_ledger sha dir (rd_subject_id dc) l" and wf: "wf_resource_decision dc"
  shows "save_decision sha ok dc dir = Inr dir' \<Longrightarrow> decision_admissible l dc \<and>
      has_ledger sha dir' (rd_subject_id dc) (l\<lparr>lg_decisions := lg_decisions l @ [dc]\<rparr>)"
    and "ok \<Longrightarrow> decision_admissible l dc \<Longrightarrow> \<exists>dir'. save_decision sha ok dc dir = Inr dir'"
proof -
  obtain d where d: "load_resource_document sha dir (rd_subject_id dc) = Inr d" "doc_ledger d l"
    "resource_path sha (rd_subject_id dc) = Inr (sha (rd_subject_id dc))"
    using load_document_ledger [OF l] by metis
  have wl: "wf_ledger l" "rs_subject_id (lg_state l) = rd_subject_id dc" "\<not> blank (rd_subject_id dc)"
    using l by (simp_all add: has_ledger_def)
  have lists: "list_of (dict_get d ''decisions'') = map resource_decision_to_dict (lg_decisions l)"
    using d(2) by (simp add: doc_ledger_def)
  note run = save_decision_def d(1,3) rbind_eq_Inr validate_request_identity_ledger [OF d(2)] lists
    decision_scan write_resource_document_def decision_admissible_def
  let ?l = "l\<lparr>lg_decisions := lg_decisions l @ [dc]\<rparr>"
  let ?d = "dict_set d ''decisions''
      (PList (map resource_decision_to_dict (lg_decisions l) @ [resource_decision_to_dict dc]))"
  have "doc_ledger ?d ?l" "wf_ledger ?l"
    using d(2) wl wf by (simp_all add: doc_ledger_def wf_ledger_def)
  then have put: "has_ledger sha (dir(sha (rd_subject_id dc) := File_Doc (PDict ?d))) (rd_subject_id dc) ?l"
    using has_ledger_put [of ?d ?l] wl by simp
  show "decision_admissible l dc \<and> has_ledger sha dir' (rd_subject_id dc) ?l"
    if "save_decision sha ok dc dir = Inr dir'"
    using that put by (auto simp: run split: if_splits)
  show "\<exists>dir'. save_decision sha ok dc dir = Inr dir'" if "ok" "decision_admissible l dc"
    using that by (simp add: run)
qed

text \<open>Reconciling replaces the record at its place.\<close>

definition settle :: "ledger \<Rightarrow> resource_state \<Rightarrow> nat \<Rightarrow> token_usage_record \<Rightarrow> ledger" where
  "settle l s i u = l\<lparr>lg_state := s, lg_usage := (lg_usage l)[i := u]\<rparr>"

lemma reconcile_usage_ledger:
  assumes l: "has_ledger sha dir (rs_subject_id s) l" and wf: "wf_resource_state s" "wf_token_usage u"
  shows "repo_reconcile_usage sha ok s u e dir = Inr dir' \<Longrightarrow>
    \<exists>i < length (lg_usage l). tu_usage_id (lg_usage l ! i) = tu_usage_id u \<and>
      tu_session_id (lg_usage l ! i) = tu_session_id u \<and> tu_subject_id (lg_usage l ! i) = tu_subject_id u \<and>
      tu_actual_tokens (lg_usage l ! i) = None \<and> next_revision (lg_state l) s e \<and>
      has_ledger sha dir' (rs_subject_id s) (settle l s i u)"
    (is "_ \<Longrightarrow> ?settled")
    and "ok \<Longrightarrow> next_revision (lg_state l) s e \<Longrightarrow> distinct (map tu_usage_id (lg_usage l)) \<Longrightarrow>
      i < length (lg_usage l) \<Longrightarrow> tu_usage_id (lg_usage l ! i) = tu_usage_id u \<Longrightarrow>
      tu_session_id (lg_usage l ! i) = tu_session_id u \<Longrightarrow> tu_subject_id (lg_usage l ! i) = tu_subject_id u \<Longrightarrow>
      tu_actual_tokens (lg_usage l ! i) = None \<Longrightarrow>
      \<exists>dir'. repo_reconcile_usage sha ok s u e dir = Inr dir'"
proof -
  obtain d where d: "load_resource_document sha dir (rs_subject_id s) = Inr d" "doc_ledger d l"
    "resource_path sha (rs_subject_id s) = Inr (sha (rs_subject_id s))"
    using load_document_ledger [OF l] by metis
  have wl: "wf_ledger l" "rs_subject_id (lg_state l) = rs_subject_id s" "\<not> blank (rs_subject_id s)"
    using l by (simp_all add: has_ledger_def)
  have lists: "list_of (dict_get d ''usage_records'') = map token_usage_to_dict (lg_usage l)"
    using d(2) by (simp add: doc_ledger_def)
  have parse_back: "token_usage_from_dict (token_usage_to_dict (lg_usage l ! i)) = Inr (lg_usage l ! i)"
    if "i < length (lg_usage l)" for i
    using that wf_ledgerD(2) [OF wl(1)] by (simp add: token_usage_roundtrip)
  have idx: "index_field ''usage_id'' x (map token_usage_to_dict (lg_usage l)) = Inr None \<and>
      (\<forall>v \<in> set (lg_usage l). tu_usage_id v \<noteq> x) \<or>
    (\<exists>i. index_field ''usage_id'' x (map token_usage_to_dict (lg_usage l)) = Inr (Some i) \<and>
      i < length (lg_usage l) \<and> tu_usage_id (lg_usage l ! i) = x \<and>
      (\<forall>j < i. tu_usage_id (lg_usage l ! j) \<noteq> x))" for x
    by (rule index_field_map) (simp add: token_usage_to_dict_def)
  note run = repo_reconcile_usage_def d(1,3) rbind_eq_Inr validate_next_revision_ledger [OF d(2) wl(1)]
    lists Let_def write_resource_document_def
  have put: "has_ledger sha (dir(sha (rs_subject_id s) := File_Doc (PDict (dict_set (dict_set d ''state''
      (resource_state_to_dict s)) ''usage_records''
      (PList ((map token_usage_to_dict (lg_usage l))[i := token_usage_to_dict u])))))) (rs_subject_id s)
      (settle l s i u)" for i
  proof (rule has_ledger_put)
    show "doc_ledger (dict_set (dict_set d ''state'' (resource_state_to_dict s)) ''usage_records''
      (PList ((map token_usage_to_dict (lg_usage l))[i := token_usage_to_dict u]))) (settle l s i u)"
      using d(2) by (simp add: doc_ledger_def settle_def map_update)
    show "wf_ledger (settle l s i u)"
      using wl(1) wf set_update_subset_insert [of "lg_usage l" i u]
      by (auto simp: wf_ledger_def settle_def list_all_iff)
  qed (simp_all add: settle_def wl)
  show ?settled if r: "repo_reconcile_usage sha ok s u e dir = Inr dir'"
    using idx [of "tu_usage_id u"]
  proof (elim disjE exE conjE)
    fix i assume i: "index_field ''usage_id'' (tu_usage_id u) (map token_usage_to_dict (lg_usage l)) = Inr (Some i)"
      "i < length (lg_usage l)" "tu_usage_id (lg_usage l ! i) = tu_usage_id u"
    show ?thesis
      using r put [of i] by (intro exI [of _ i]) (auto simp: run i parse_back [OF i(2)] split: if_splits)
  qed (use r in \<open>simp add: run\<close>)
  show "\<exists>dir'. repo_reconcile_usage sha ok s u e dir = Inr dir'"
    if "ok" "next_revision (lg_state l) s e" "distinct (map tu_usage_id (lg_usage l))"
      "i < length (lg_usage l)" "tu_usage_id (lg_usage l ! i) = tu_usage_id u"
      "tu_session_id (lg_usage l ! i) = tu_session_id u" "tu_subject_id (lg_usage l ! i) = tu_subject_id u"
      "tu_actual_tokens (lg_usage l ! i) = None"
    using idx [of "tu_usage_id u"]
  proof (elim disjE exE conjE)
    fix j assume j: "index_field ''usage_id'' (tu_usage_id u) (map token_usage_to_dict (lg_usage l)) = Inr (Some j)"
      "j < length (lg_usage l)" "tu_usage_id (lg_usage l ! j) = tu_usage_id u"
    then have "j = i" using that(3,4,5) nth_eq_iff_index_eq [of "map tu_usage_id (lg_usage l)" j i] by simp
    with that j show ?thesis by (simp add: run parse_back)
  qed (use that(4,5) nth_mem in fastforce)
qed

section \<open>Accounting\<close>

definition balanced :: "ledger \<Rightarrow> bool" where
  "balanced l \<longleftrightarrow> rs_token_used (lg_state l) = sum_list (map accounted_tokens (lg_usage l)) \<and>
     rs_compute_used (lg_state l) = sum_list (map tu_estimated_compute (lg_usage l)) \<and>
     distinct (map tu_usage_id (lg_usage l)) \<and> distinct (map tu_session_id (lg_usage l)) \<and>
     distinct (map rd_request_id (lg_decisions l)) \<and> distinct (map rd_decision_id (lg_decisions l))"

text \<open>What one successful call of the manager does to a ledger.\<close>

inductive ledger_step :: "rat \<Rightarrow> ledger \<Rightarrow> ledger \<Rightarrow> bool" for reserve where
  ls_mode: "ledger_step reserve l (l\<lparr>lg_state := (lg_state l)\<lparr>rs_current_mode := m, rs_updated_at := now,
     rs_revision := rs_revision (lg_state l) + 1\<rparr>\<rparr>)"
| ls_defer: "policy_evaluate reserve uuid (lg_state l) r at_time = Inr dc \<Longrightarrow> decision_admissible l dc \<Longrightarrow>
     ledger_step reserve l (l\<lparr>lg_decisions := lg_decisions l @ [dc]\<rparr>)"
| ls_charge: "policy_evaluate reserve uuid (lg_state l) r at_time = Inr dc \<Longrightarrow>
     tu_actual_tokens u = None \<Longrightarrow> tu_session_id u = rq_session_id r \<Longrightarrow>
     allocation_admissible l (charged_state (lg_state l) u now) u dc (rs_revision (lg_state l)) \<Longrightarrow>
     ledger_step reserve l (add_allocation l (charged_state (lg_state l) u now) u dc)"
| ls_settle: "i < length (lg_usage l) \<Longrightarrow> tu_actual_tokens (lg_usage l ! i) = None \<Longrightarrow> 0 \<le> n \<Longrightarrow>
     ledger_step reserve l (settle l (settled_state (lg_state l) (lg_usage l ! i) n now) i
       ((lg_usage l ! i)\<lparr>tu_actual_tokens := Some n\<rparr>))"

lemma sum_list_update_at:
  "i < length xs \<Longrightarrow> sum_list (map f (xs[i := x])) = sum_list (map f xs) - f (xs ! i) + (f x :: int)"
proof (induction xs arbitrary: i)
  case (Cons y ys)
  then show ?case by (cases i) auto
qed simp

lemma map_update_same: "i < length xs \<Longrightarrow> f x = f (xs ! i) \<Longrightarrow> map f (xs[i := x]) = map f xs"
  by (simp add: map_update list_update_same_conv)

lemma accounted_nonneg: "wf_token_usage u \<Longrightarrow> 0 \<le> accounted_tokens u"
  by (auto simp: accounted_tokens_def wf_token_usage_def split: option.split)

lemma accounted_le_sum:
  "i < length us \<Longrightarrow> \<forall>u \<in> set us. wf_token_usage u \<Longrightarrow> accounted_tokens (us ! i) \<le> sum_list (map accounted_tokens us)"
proof (induction us arbitrary: i)
  case (Cons u us)
  have "0 \<le> accounted_tokens u" "0 \<le> sum_list (map accounted_tokens us)"
    using Cons.prems accounted_nonneg by (auto intro!: sum_list_nonneg)
  then show ?case using Cons by (cases i) (auto simp: add_increasing)
qed simp

lemma ledger_step_balanced:
  assumes "ledger_step reserve l l'" "balanced l" "wf_ledger l"
  shows "balanced l'"
  using assms
proof (induction rule: ledger_step.induct)
  case (ls_charge uuid l r at_time dc u now)
  then show ?case
    by (auto simp: balanced_def add_allocation_def charged_state_def Let_def accounted_tokens_def
        allocation_admissible_def)
next
  case (ls_settle i l n now)
  let ?u = "lg_usage l ! i"
  have "accounted_tokens ?u \<le> rs_token_used (lg_state l)"
    using ls_settle accounted_le_sum [of i "lg_usage l"] by (auto simp: balanced_def dest: wf_ledgerD)
  then have "max 0 (rs_token_used (lg_state l) - tu_estimated_tokens ?u + n)
      = rs_token_used (lg_state l) - accounted_tokens ?u + n"
    using ls_settle(2,3) by (simp add: accounted_tokens_def)
  then show ?case
    using ls_settle
    by (simp add: balanced_def settle_def settled_state_def Let_def sum_list_update_at map_update_same
        accounted_tokens_def)
qed (auto simp: balanced_def decision_admissible_def)

end
