(* ===== verification/Policy_Facts.thy ===== *)
theory Policy_Facts
  imports Resource_Policy
begin

text \<open>
  What every decision of the resource policy satisfies, and what its float thresholds are as
  conditions on integers.
\<close>

section \<open>Every decision\<close>

definition decision_sound ::
  "rat \<Rightarrow> string \<Rightarrow> resource_state \<Rightarrow> resource_request \<Rightarrow> instant \<Rightarrow> resource_decision \<Rightarrow> bool" where
  "decision_sound reserve uuid s r now d \<longleftrightarrow> wf_resource_decision d \<and>
     rd_decision_id d = uuid \<and> rd_request_id d = rq_request_id r \<and>
     rd_subject_id d = rs_subject_id s \<and> rs_subject_id s = rq_subject_id r \<and>
     rd_session_id d = rq_session_id r \<and> rd_decided_at d = now \<and>
     rd_defer d = (\<not> rd_allowed d) \<and>
     (if rd_allowed d
      then policy_fits reserve s (rd_allocated_tokens d) (rd_allocated_compute d) \<and>
        rd_allocated_tokens d \<le> rq_estimated_tokens r \<and> rd_allocated_compute d \<le> rq_estimated_compute r
      else rd_allocated_tokens d = 0 \<and> rd_allocated_compute d = 0 \<and> rd_lower_frequency d \<and>
        rd_recommended_mode d = LOW_FREQUENCY)"

lemma policy_decision_sound:
  assumes "policy_decision uuid s r al dep t c lf df reason mode now = Inr d"
    and "rs_subject_id s = rq_subject_id r" "df = (\<not> al)"
    and "al \<Longrightarrow> policy_fits reserve s t c \<and> t \<le> rq_estimated_tokens r \<and> c \<le> rq_estimated_compute r"
    and "\<not> al \<Longrightarrow> t = 0 \<and> c = 0 \<and> lf \<and> mode = LOW_FREQUENCY"
  shows "decision_sound reserve uuid s r now d"
  using policy_decision_Inr [OF assms(1)] assms(2-5) by (simp add: decision_sound_def)

lemma cost_for_depth_le:
  "cost_for_depth r dep = (t, c) \<Longrightarrow> t \<le> rq_estimated_tokens r \<and> c \<le> rq_estimated_compute r"
  by (auto simp: cost_for_depth_def)

lemma evaluate_thinking_sound:
  assumes "evaluate_thinking reserve uuid s r q now = Inr d" "rs_subject_id s = rq_subject_id r"
  shows "decision_sound reserve uuid s r now d"
proof -
  let ?tr = "budget_ratio (rs_token_remaining s) (rs_token_budget s)"
  let ?cr = "budget_ratio (rs_compute_remaining s) (rs_compute_budget s)"
  obtain ap rs where ar: "fit_step reserve s r (low_budget_step (min ?tr ?cr) (cap_step s q)) = (ap, rs)"
    by (cases "fit_step reserve s r (low_budget_step (min ?tr ?cr) (cap_step s q))")
  obtain t c where tc: "cost_for_depth r ap = (t, c)" by (cases "cost_for_depth r ap")
  obtain lf m where lm: "frequency_advice s ?tr ?cr = (lf, m)" by (cases "frequency_advice s ?tr ?cr")
  note e = assms(1) [unfolded evaluate_thinking_def Let_def ar prod.case tc lm]
  show ?thesis
  proof (cases "policy_fits reserve s t c")
    case True
    then show ?thesis
      using e cost_for_depth_le [OF tc] assms(2) by (auto intro: policy_decision_sound)
  next
    case False
    then show ?thesis using e assms(2) by (auto intro: policy_decision_sound)
  qed
qed

lemma evaluate_standard_sound:
  assumes "evaluate_standard reserve uuid s r now = Inr d" "rs_subject_id s = rq_subject_id r"
  shows "decision_sound reserve uuid s r now d"
proof -
  let ?tr = "budget_ratio (rs_token_remaining s) (rs_token_budget s)"
  let ?cr = "budget_ratio (rs_compute_remaining s) (rs_compute_budget s)"
  obtain lf m where lm: "frequency_advice s ?tr ?cr = (lf, m)" by (cases "frequency_advice s ?tr ?cr")
  note e = assms(1) [unfolded evaluate_standard_def Let_def prod.case lm]
  show ?thesis
    using e assms(2) by (auto intro: policy_decision_sound split: if_splits)
qed

lemma policy_evaluate_sound:
  "policy_evaluate reserve uuid s r now = Inr d \<Longrightarrow> decision_sound reserve uuid s r now d"
  by (auto simp: policy_evaluate_def evaluate_thinking_sound evaluate_standard_sound
      split: if_splits option.splits)

text \<open>The depth a thinking request is granted.\<close>

lemma evaluate_thinking_depth:
  assumes "evaluate_thinking reserve uuid s r q now = Inr d"
  shows "\<exists>dep. rd_approved_depth d = Some dep \<and> depth_order dep \<le> depth_order q \<and>
    depth_order dep \<le> depth_order (mode_depth_caps (rs_current_mode s)) \<and>
    rd_allocated_tokens d \<le> dc_tokens (depth_costs dep) \<and>
    rd_allocated_compute d \<le> dc_compute (depth_costs dep)"
proof -
  let ?tr = "budget_ratio (rs_token_remaining s) (rs_token_budget s)"
  let ?cr = "budget_ratio (rs_compute_remaining s) (rs_compute_budget s)"
  obtain ap rs where ar: "fit_step reserve s r (low_budget_step (min ?tr ?cr) (cap_step s q)) = (ap, rs)"
    by (cases "fit_step reserve s r (low_budget_step (min ?tr ?cr) (cap_step s q))")
  obtain t c where tc: "cost_for_depth r ap = (t, c)" by (cases "cost_for_depth r ap")
  obtain lf m where lm: "frequency_advice s ?tr ?cr = (lf, m)" by (cases "frequency_advice s ?tr ?cr")
  note e = assms(1) [unfolded evaluate_thinking_def Let_def ar prod.case tc lm]
  have "depth_order ap \<le> depth_order (shallower q (mode_depth_caps (rs_current_mode s)))"
    using approved_depth_le [of reserve s r "min ?tr ?cr" q] ar by simp
  then have "depth_order ap \<le> depth_order q" "depth_order ap \<le> depth_order (mode_depth_caps (rs_current_mode s))"
    using shallower_le [where l = q and r = "mode_depth_caps (rs_current_mode s)"] by linarith+
  moreover have "t \<le> dc_tokens (depth_costs ap)" "c \<le> dc_compute (depth_costs ap)"
    using tc by (auto simp: cost_for_depth_def)
  ultimately show ?thesis
    using e by (auto dest!: policy_decision_Inr split: if_splits)
qed

end
