(* ===== verification/Resource_Runs.thy ===== *)
theory Resource_Runs
  imports Resource_Ledger Policy_Facts
begin

text \<open>
  The manager's calls as steps of the ledger: every call, also one that raises, leaves the
  subject's ledger where it was or moves it by one \<open>ledger_step\<close>; so the books stay balanced
  over any run.
\<close>

lemma wp_mw_read [wp_simps]:
  "wp (mw_read f) Q E w = (case f (mw_dir w) of Inl e \<Rightarrow> E e w | Inr x \<Rightarrow> Q x w)"
  by (simp add: wp_def mw_read_def)

lemma wp_mw_write [wp_simps]:
  "wp (mw_write f) Q E w = (case f (mw_dir w) of Inl e \<Rightarrow> E e w | Inr dir \<Rightarrow> Q () (w\<lparr>mw_dir := dir\<rparr>))"
  by (simp add: wp_def mw_write_def split: sum.split)

text \<open>The ledger of subject \<open>i\<close> is still \<open>l\<close>, or one step of the relation further.\<close>

definition moved :: "resource_ports \<Rightarrow> string \<Rightarrow> ledger \<Rightarrow> manager_world \<Rightarrow> bool" where
  "moved p i l w \<longleftrightarrow> (\<exists>l'. (l' = l \<or> ledger_step (rp_reserve p) l l') \<and> has_ledger (rp_sha p) (mw_dir w) i l')"

lemma moved_same: "has_ledger (rp_sha p) (mw_dir w) i l \<Longrightarrow> moved p i l w"
  by (auto simp: moved_def)

lemma moved_step:
  "ledger_step (rp_reserve p) l l' \<Longrightarrow> has_ledger (rp_sha p) (mw_dir w) i l' \<Longrightarrow> moved p i l w"
  by (auto simp: moved_def)

lemma resource_state_copy_wf [simp]: "wf_resource_state s \<Longrightarrow> resource_state_copy s = Inr s"
  by (simp add: resource_state_copy_def resource_state_roundtrip)

lemma has_ledger_state:
  assumes "has_ledger sha dir i l"
  shows "wf_ledger l" "wf_resource_state (lg_state l)" "rs_subject_id (lg_state l) = i"
  using assms by (auto simp: has_ledger_def wf_ledger_def)

lemma next_revision_refl:
  "rs_revision s = rs_revision c + 1 \<Longrightarrow> rs_resource_id s = rs_resource_id c \<Longrightarrow>
     rs_subject_id s = rs_subject_id c \<Longrightarrow> next_revision c s (rs_revision c)"
  by (simp add: next_revision_def)

lemma set_runtime_mode_moves:
  assumes "has_ledger (rp_sha p) (mw_dir w) i l"
  shows "wp (set_runtime_mode p i m e) (\<lambda>_. moved p i l) (\<lambda>_. moved p i l) w"
proof -
  note l = has_ledger_state [OF assms]
  have stored: "moved p i l (w\<lparr>mw_dir := dir\<rparr>)"
    if "save_state (rp_sha p) (rp_disk_ok p) s (rs_revision (lg_state l)) (mw_dir w) = Inr dir"
      "s = (lg_state l)\<lparr>rs_current_mode := nm, rs_updated_at := rp_update_at p,
        rs_revision := rs_revision (lg_state l) + 1\<rparr>" for s dir nm
  proof -
    have s: "rs_subject_id s = i" "wf_resource_state s"
      using l that(2) by (simp_all add: wf_resource_state_def)
    have "has_ledger (rp_sha p) dir i (l\<lparr>lg_state := s\<rparr>)"
      using save_state_ledger(1) [of "rp_sha p" "mw_dir w" s l, OF _ s(2) that(1)] assms s(1) by simp
    moreover have "ledger_step (rp_reserve p) l (l\<lparr>lg_state := s\<rparr>)"
      unfolding that(2) by (rule ls_mode)
    ultimately show ?thesis by (simp add: moved_step)
  qed
  show ?thesis
    unfolding set_runtime_mode_def
    by (auto simp: wp_simps resource_load_ledger [OF assms] l resource_state_recheck_Inr
        moved_same [OF assms] intro!: stored split: sum.split)
qed

text \<open>The usage record an allowed decision leads to.\<close>

definition usage_of :: "resource_ports \<Rightarrow> resource_request \<Rightarrow> resource_decision \<Rightarrow> token_usage_record" where
  "usage_of p r d = \<lparr>tu_usage_id = rp_usage_uuid p, tu_subject_id = rq_subject_id r,
     tu_session_id = rq_session_id r, tu_session_type = rq_session_type r,
     tu_estimated_tokens = rd_allocated_tokens d, tu_actual_tokens = None,
     tu_model_name = rq_model_name r, tu_reason = rq_reason r, tu_created_at = rp_usage_at p,
     tu_estimated_compute = rd_allocated_compute d\<rparr>"

lemma usage_init_of:
  "token_usage_init
     \<lparr>tua_usage_id = PStr (rp_usage_uuid p), tua_subject_id = PStr (rq_subject_id r),
      tua_session_id = PStr (rq_session_id r),
      tua_session_type = PStr (session_type_value (rq_session_type r)),
      tua_estimated_tokens = PInt (rd_allocated_tokens d), tua_actual_tokens = PNone,
      tua_model_name = PStr (rq_model_name r), tua_reason = PStr (rq_reason r),
      tua_created_at = utc_val (rp_usage_at p),
      tua_estimated_compute = PInt (rd_allocated_compute d)\<rparr> = Inr u
   \<longleftrightarrow> wf_token_usage (usage_of p r d) \<and> u = usage_of p r d"
  using token_usage_recheck_Inr [of "usage_of p r d" u]
  by (simp add: token_usage_recheck_def token_usage_args_of_def usage_of_def)

lemma request_resources_moves:
  assumes h: "has_ledger (rp_sha p) (mw_dir w) (rq_subject_id r) l"
  shows "wp (request_resources p r) (\<lambda>_. moved p (rq_subject_id r) l) (\<lambda>_. moved p (rq_subject_id r) l) w"
proof -
  let ?i = "rq_subject_id r"
  note l = has_ledger_state [OF h]
  have deferred: "moved p ?i l (w\<lparr>mw_dir := dir\<rparr>)"
    if "save_decision (rp_sha p) (rp_disk_ok p) d (mw_dir w) = Inr dir"
      "policy_evaluate (rp_reserve p) uuid (lg_state l) r at_time = Inr d" for d dir uuid at_time
  proof -
    have d: "rd_subject_id d = ?i" "wf_resource_decision d"
      using policy_evaluate_sound [OF that(2)] by (simp_all add: decision_sound_def)
    then show ?thesis
      using save_decision_ledger(1) [of "rp_sha p" "mw_dir w" d l] h that(1) ls_defer [OF that(2)]
      by (intro moved_step) auto
  qed
  have charged: "moved p ?i l (w\<lparr>mw_dir := dir, mw_sessions := ss\<rparr>)"
    if "save_allocation (rp_sha p) (rp_disk_ok p) (charged_state (lg_state l) (usage_of p r d) at2)
        (usage_of p r d) d (rs_revision (lg_state l)) (mw_dir w) = Inr dir"
      "policy_evaluate (rp_reserve p) uuid (lg_state l) r at_time = Inr d"
      "wf_token_usage (usage_of p r d)" "wf_resource_state (charged_state (lg_state l) (usage_of p r d) at2)"
    for d dir uuid at_time at2 ss
  proof -
    let ?u = "usage_of p r d" and ?s = "charged_state (lg_state l) (usage_of p r d) at2"
    have d: "wf_resource_decision d"
      using policy_evaluate_sound [OF that(2)] by (simp add: decision_sound_def)
    have s: "rs_subject_id ?s = ?i" using l by (simp add: charged_state_def Let_def)
    have a: "allocation_admissible l ?s ?u d (rs_revision (lg_state l))"
      "has_ledger (rp_sha p) dir ?i (add_allocation l ?s ?u d)"
      using save_allocation_ledger(1) [of "rp_sha p" "mw_dir w" ?s l ?u d] h s that d by simp_all
    have "ledger_step (rp_reserve p) l (add_allocation l ?s ?u d)"
      by (rule ls_charge [OF that(2) _ _ a(1)]) (simp_all add: usage_of_def)
    with a(2) show ?thesis by (simp add: moved_step)
  qed
  show ?thesis
    unfolding request_resources_def
    by (auto simp: wp_simps resource_load_ledger [OF h] list_usage_ledger [OF h] list_decisions_ledger [OF h]
        l resource_state_recheck_Inr usage_init_of moved_same [OF h] intro!: deferred charged [simplified]
        split: sum.split)
qed

lemma filter_singleton_nth:
  assumes "filter P xs = [x]"
  obtains i where "i < length xs" "xs ! i = x" "P x"
proof -
  have "x \<in> set xs" "P x" using assms by (auto simp: filter_eq_Cons_iff)
  with that show thesis by (metis in_set_conv_nth)
qed

lemma record_actual_usage_moves:
  assumes h: "has_ledger (rp_sha p) (mw_dir w) i l" and b: "balanced l"
  shows "wp (record_actual_usage p i sid v) (\<lambda>_. moved p i l) (\<lambda>_. moved p i l) w"
proof -
  note l = has_ledger_state [OF h]
  have wfu: "wf_token_usage x" if "x \<in> set (lg_usage l)" for x using wf_ledgerD(2) [OF l(1) that] .
  have stored: "moved p i l (w\<lparr>mw_dir := dir\<rparr>)"
    if r: "repo_reconcile_usage (rp_sha p) (rp_disk_ok p) (settled_state (lg_state l) x n now)
        (x\<lparr>tu_actual_tokens := Some n\<rparr>) (rs_revision (lg_state l)) (mw_dir w) = Inr dir"
      and wf: "wf_token_usage (x\<lparr>tu_actual_tokens := Some n\<rparr>)"
        "wf_resource_state (settled_state (lg_state l) x n now)"
      and f: "filter (\<lambda>u. tu_session_id u = sid) (lg_usage l) = [x]" "tu_actual_tokens x = None" "\<not> n < 0" for x n now dir
  proof -
    have s: "rs_subject_id (settled_state (lg_state l) x n now) = i"
      using l by (simp add: settled_state_def Let_def)
    obtain k where k: "k < length (lg_usage l)" "lg_usage l ! k = x"
      by (rule filter_singleton_nth [OF f(1)])
    obtain j where j: "j < length (lg_usage l)" "tu_usage_id (lg_usage l ! j) = tu_usage_id x"
      "has_ledger (rp_sha p) dir i (settle l (settled_state (lg_state l) x n now) j (x\<lparr>tu_actual_tokens := Some n\<rparr>))"
      using reconcile_usage_ledger(1) [OF _ wf(2,1) r] h s by auto
    have "j = k"
      using b j k nth_eq_iff_index_eq [of "map tu_usage_id (lg_usage l)" j k] by (simp add: balanced_def)
    then have "ledger_step (rp_reserve p) l (settle l (settled_state (lg_state l) x n now) j (x\<lparr>tu_actual_tokens := Some n\<rparr>))"
      using ls_settle [of k l n "rp_reserve p" now] k f(2,3) by simp
    with j(3) show ?thesis by (simp add: moved_step)
  qed
  have mem: "x \<in> set (lg_usage l)" if "filter (\<lambda>u. tu_session_id u = sid) (lg_usage l) = [x]" for x
    using that by (auto simp: filter_eq_Cons_iff)
  show ?thesis
    unfolding record_actual_usage_def
    by (auto simp: wp_simps resource_load_ledger [OF h] list_usage_ledger [OF h] l
        resource_state_recheck_Inr token_usage_recheck_Inr moved_same [OF h]
        token_usage_roundtrip [OF wfu [OF mem]]
        split: sum.split list.split pyval.split intro!: stored)
qed

lemma record_usage_moves:
  assumes "has_ledger (rp_sha p) (mw_dir w) i l" "balanced l" "mw_sessions w sid = Some i"
  shows "wp (record_usage p sid v) (\<lambda>_. moved p i l) (\<lambda>_. moved p i l) w"
  using record_actual_usage_moves [OF assms(1,2)] assms(3) by (simp add: record_usage_def wp_simps)

lemma create_request_subject:
  "create_request p i sid ty t c m rs d = Inr r \<Longrightarrow> rq_subject_id r = i \<and> rq_session_id r = sid"
  unfolding create_request_def resource_request_init_def by (elim rbindE) (auto simp: res_text_Inr)

lemma request_thinking_moves:
  assumes "has_ledger (rp_sha p) (mw_dir w) i l"
  shows "wp (request_thinking p i sid d m rs) (\<lambda>_. moved p i l) (\<lambda>_. moved p i l) w"
  unfolding request_thinking_def Let_def
  using assms by (auto simp: wp_simps moved_same split: sum.split
      dest!: create_request_subject intro!: request_resources_moves)

lemma request_other_moves:
  assumes "has_ledger (rp_sha p) (mw_dir w) i l"
  shows "wp (request_other ty p i sid rs t c) (\<lambda>_. moved p i l) (\<lambda>_. moved p i l) w"
  unfolding request_other_def
  using assms by (auto simp: wp_simps moved_same split: sum.split
      dest!: create_request_subject intro!: request_resources_moves)

lemma allocate_moves:
  assumes "has_ledger (rp_sha p) (mw_dir w) (bq_subject_id q) l"
  shows "wp (allocate p q) (\<lambda>_. moved p (bq_subject_id q) l) (\<lambda>_. moved p (bq_subject_id q) l) w"
  unfolding allocate_def Let_def wp_sbind
  by (rule wp_conseq [OF request_thinking_moves [OF assms]]) (auto simp: wp_slift split: sum.split)

lemma moved_balanced:
  assumes "moved p i l w" "has_ledger (rp_sha p) dir i l" "balanced l"
  shows "\<exists>l'. has_ledger (rp_sha p) (mw_dir w) i l' \<and> balanced l'"
  using assms ledger_step_balanced has_ledger_state(1) by (auto simp: moved_def)

section \<open>Other subjects\<close>

text \<open>A call for subject \<open>j\<close> writes to \<open>j\<close>'s file only, and to none if \<open>j\<close> cannot be loaded.\<close>

definition only_at :: "resource_ports \<Rightarrow> string \<Rightarrow> resource_dir \<Rightarrow> manager_world \<Rightarrow> bool" where
  "only_at p j dir w \<longleftrightarrow> (\<forall>x. x \<noteq> rp_sha p j \<longrightarrow> mw_dir w x = dir x) \<and>
     ((\<forall>s. resource_load (rp_sha p) j dir \<noteq> Inr s) \<longrightarrow> mw_dir w = dir)"

lemma only_at_same: "mw_dir w = dir \<Longrightarrow> only_at p j dir w"
  by (simp add: only_at_def)

lemma save_state_at:
  "save_state sha ok s e dir = Inr dir' \<Longrightarrow> x \<noteq> sha (rs_subject_id s) \<Longrightarrow> dir' x = dir x"
  by (auto simp: save_state_def rbind_eq_Inr write_resource_document_def resource_path_def split: if_splits)

lemma save_allocation_at:
  "save_allocation sha ok s u d e dir = Inr dir' \<Longrightarrow> x \<noteq> sha (rs_subject_id s) \<Longrightarrow> dir' x = dir x"
  by (auto simp: save_allocation_def rbind_eq_Inr write_resource_document_def resource_path_def Let_def
      split: if_splits)

lemma save_decision_at:
  "save_decision sha ok d dir = Inr dir' \<Longrightarrow> x \<noteq> sha (rd_subject_id d) \<Longrightarrow> dir' x = dir x"
  by (auto simp: save_decision_def rbind_eq_Inr write_resource_document_def resource_path_def split: if_splits)

lemma reconcile_at:
  "repo_reconcile_usage sha ok s u e dir = Inr dir' \<Longrightarrow> x \<noteq> sha (rs_subject_id s) \<Longrightarrow> dir' x = dir x"
  by (auto simp: repo_reconcile_usage_def rbind_eq_Inr write_resource_document_def resource_path_def Let_def
      split: if_splits option.splits)

lemma resource_load_subject: "resource_load sha j dir = Inr s \<Longrightarrow> rs_subject_id s = j \<and> wf_resource_state s"
  by (auto simp: resource_load_def load_resource_document_def rbind_eq_Inr
      dest: resource_state_from_dict_wf split: if_splits)

lemma only_at_write:
  assumes "resource_load (rp_sha p) j (mw_dir w) = Inr s"
    "\<And>x. x \<noteq> rp_sha p j \<Longrightarrow> dir x = mw_dir w x"
  shows "only_at p j (mw_dir w) (w\<lparr>mw_dir := dir\<rparr>)" "only_at p j (mw_dir w) (w\<lparr>mw_dir := dir, mw_sessions := ss\<rparr>)"
  using assms by (auto simp: only_at_def)

lemma set_runtime_mode_at:
  "wp (set_runtime_mode p j m e) (\<lambda>_. only_at p j (mw_dir w)) (\<lambda>_. only_at p j (mw_dir w)) w"
proof (cases "resource_load (rp_sha p) j (mw_dir w)")
  case (Inr s)
  note s = resource_load_subject [OF Inr]
  show ?thesis
    unfolding set_runtime_mode_def
    by (auto simp: wp_simps Inr s only_at_same resource_state_recheck_Inr
        split: sum.split intro!: only_at_write [OF Inr] dest: save_state_at)
qed (simp add: set_runtime_mode_def wp_simps only_at_same)

lemma request_resources_at:
  "wp (request_resources p r) (\<lambda>_. only_at p (rq_subject_id r) (mw_dir w))
     (\<lambda>_. only_at p (rq_subject_id r) (mw_dir w)) w"
proof (cases "resource_load (rp_sha p) (rq_subject_id r) (mw_dir w)")
  case (Inr s)
  note s = resource_load_subject [OF Inr]
  have d: "rd_subject_id d = rq_subject_id r" if "policy_evaluate rs uuid s r t = Inr d" for rs uuid t d
    using policy_evaluate_sound [OF that] by (simp add: decision_sound_def)
  have c: "rs_subject_id (charged_state s u t) = rq_subject_id r" for u t
    using s by (simp add: charged_state_def Let_def)
  show ?thesis
    unfolding request_resources_def
    by (auto simp: wp_simps Inr s only_at_same resource_state_recheck_Inr usage_init_of d c
        split: sum.split intro!: only_at_write [OF Inr] only_at_write(2) [OF Inr, simplified]
        dest: save_decision_at save_allocation_at)
qed (auto simp: request_resources_def wp_simps only_at_same split: sum.split)

lemma record_actual_usage_at:
  "wp (record_actual_usage p j sid v) (\<lambda>_. only_at p j (mw_dir w)) (\<lambda>_. only_at p j (mw_dir w)) w"
proof (cases "resource_load (rp_sha p) j (mw_dir w)")
  case (Inr s)
  note s = resource_load_subject [OF Inr]
  have c: "rs_subject_id (settled_state s u n t) = j" for u n t
    using s by (simp add: settled_state_def Let_def)
  show ?thesis
    unfolding record_actual_usage_def
    by (auto simp: wp_simps Inr s only_at_same resource_state_recheck_Inr token_usage_recheck_Inr c
        split: sum.split list.split pyval.split intro!: only_at_write [OF Inr] dest: reconcile_at)
qed (auto simp: record_actual_usage_def wp_simps only_at_same split: sum.split pyval.split)

lemma request_thinking_at:
  "wp (request_thinking p j sid d m rs) (\<lambda>_. only_at p j (mw_dir w)) (\<lambda>_. only_at p j (mw_dir w)) w"
  unfolding request_thinking_def Let_def
  using request_resources_at [of p _ w]
  by (fastforce simp: wp_simps only_at_same split: sum.split dest!: create_request_subject)

lemma request_other_at:
  "wp (request_other ty p j sid rs t c) (\<lambda>_. only_at p j (mw_dir w)) (\<lambda>_. only_at p j (mw_dir w)) w"
  unfolding request_other_def
  using request_resources_at [of p _ w]
  by (fastforce simp: wp_simps only_at_same split: sum.split dest!: create_request_subject)

lemma allocate_at:
  "wp (allocate p q) (\<lambda>_. only_at p (bq_subject_id q) (mw_dir w))
     (\<lambda>_. only_at p (bq_subject_id q) (mw_dir w)) w"
  unfolding allocate_def Let_def wp_sbind
  by (rule wp_conseq [OF request_thinking_at]) (auto simp: wp_slift split: sum.split)

section \<open>Runs of the manager\<close>

text \<open>Every subject that can be loaded has a balanced ledger.\<close>

definition books_ok :: "digest_fun \<Rightarrow> resource_dir \<Rightarrow> bool" where
  "books_ok sha dir \<longleftrightarrow> (\<forall>i s. resource_load sha i dir = Inr s \<longrightarrow> (\<exists>l. has_ledger sha dir i l \<and> balanced l))"

lemma has_ledger_cong: "dir' (sha i) = dir (sha i) \<Longrightarrow> has_ledger sha dir' i l = has_ledger sha dir i l"
  by (simp add: has_ledger_def)

lemma resource_load_cong: "dir' (sha i) = dir (sha i) \<Longrightarrow> resource_load sha i dir' = resource_load sha i dir"
  by (auto simp: resource_load_def load_resource_document_def resource_path_def)

lemma resource_path_Inr: "resource_path sha i = Inr x \<longleftrightarrow> \<not> blank i \<and> x = sha i"
  by (auto simp: resource_path_def)

lemma same_path_same_subject:
  assumes "has_ledger sha dir j l" "resource_load sha i dir = Inr s" "sha i = sha j"
  shows "i = j"
proof -
  obtain d where d: "dir (sha j) = File_Doc (PDict d)" "doc_ledger d l" "rs_subject_id (lg_state l) = j"
    "wf_resource_state (lg_state l)"
    using assms(1) by (auto simp: has_ledger_def wf_ledger_def)
  then show ?thesis
    using assms(2,3) resource_state_roundtrip [OF d(4)]
    by (auto simp: resource_load_def load_resource_document_def read_resource_document_def rbind_eq_Inr
        doc_ledger_def resource_path_Inr split: if_splits)
qed

lemma books_ok_op:
  assumes b: "books_ok (rp_sha p) (mw_dir w)"
    and at: "only_at p j (mw_dir w) w'"
    and mv: "\<And>l. has_ledger (rp_sha p) (mw_dir w) j l \<Longrightarrow> balanced l \<Longrightarrow> moved p j l w'"
  shows "books_ok (rp_sha p) (mw_dir w')"
proof (cases "resource_load (rp_sha p) j (mw_dir w)")
  case (Inl e)
  then show ?thesis using at b by (simp add: only_at_def)
next
  case (Inr s)
  then obtain l where l: "has_ledger (rp_sha p) (mw_dir w) j l" "balanced l" using b by (auto simp: books_ok_def)
  obtain l' where l': "has_ledger (rp_sha p) (mw_dir w') j l'" "balanced l'"
    using moved_balanced [OF mv [OF l] l] by blast
  show ?thesis
    unfolding books_ok_def
  proof (intro allI impI)
    fix i t assume t: "resource_load (rp_sha p) i (mw_dir w') = Inr t"
    show "\<exists>l. has_ledger (rp_sha p) (mw_dir w') i l \<and> balanced l"
    proof (cases "rp_sha p i = rp_sha p j")
      case True
      then show ?thesis using same_path_same_subject [OF l'(1) t] l' by blast
    next
      case False
      then have "mw_dir w' (rp_sha p i) = mw_dir w (rp_sha p i)" using at by (simp add: only_at_def)
      then show ?thesis
        using t b has_ledger_cong [of "mw_dir w'" "rp_sha p" i "mw_dir w"]
          resource_load_cong [of "mw_dir w'" "rp_sha p" i "mw_dir w"] by (simp add: books_ok_def)
    qed
  qed
qed

lemma resource_create_ledger:
  assumes "resource_create sha ok s dir = Inr dir'" "wf_resource_state s" "rs_token_used s = 0" "rs_compute_used s = 0"
  shows "\<not> is_file (dir (sha (rs_subject_id s))) \<and> dir' = dir(sha (rs_subject_id s) := File_Doc (resource_document s)) \<and>
    has_ledger sha dir' (rs_subject_id s) \<lparr>lg_state = s, lg_usage = [], lg_decisions = []\<rparr>"
  using assms
  by (auto simp: resource_create_def resource_path_def rbind_eq_Inr has_ledger_def resource_document_def
      doc_ledger_def wf_ledger_def split: if_splits)

lemma books_ok_create:
  assumes b: "books_ok sha dir" and c: "resource_create sha ok s dir = Inr dir'"
    and s: "wf_resource_state s" "rs_token_used s = 0" "rs_compute_used s = 0"
  shows "books_ok sha dir'"
  unfolding books_ok_def
proof (intro allI impI)
  let ?l = "\<lparr>lg_state = s, lg_usage = [], lg_decisions = []\<rparr>"
  note k = resource_create_ledger [OF c s]
  fix i t assume t: "resource_load sha i dir' = Inr t"
  show "\<exists>l. has_ledger sha dir' i l \<and> balanced l"
  proof (cases "sha i = sha (rs_subject_id s)")
    case True
    have "i = rs_subject_id s" by (rule same_path_same_subject [of _ _ _ ?l, OF _ t True]) (use k in blast)
    then show ?thesis using k s by (auto simp: balanced_def intro!: exI [of _ ?l])
  next
    case False
    then have "dir' (sha i) = dir (sha i)" using k by simp
    then show ?thesis
      using t b has_ledger_cong [of dir' sha i dir] resource_load_cong [of dir' sha i dir]
      by (simp add: books_ok_def)
  qed
qed

lemma create_keeps_books:
  assumes "books_ok (rp_sha p) (mw_dir w)"
  shows "wp (create_resource_state p rid i tb cb m) (\<lambda>_ w'. books_ok (rp_sha p) (mw_dir w'))
    (\<lambda>_ w'. books_ok (rp_sha p) (mw_dir w')) w"
proof -
  have s: "wf_resource_state s \<and> rs_token_used s = 0 \<and> rs_compute_used s = 0"
    if "resource_state_create a b c d e f = Inr s" for a b c d e f s
    using that resource_state_init_wf [of _ s]
    unfolding resource_state_create_def resource_state_init_def
    by (auto elim!: rbindE simp: res_nat_Inr res_text_Inr wf_resource_state_def)
  have "wp (\<lambda>w. create_resource_state p rid i tb cb m w) (\<lambda>_ w'. books_ok (rp_sha p) (mw_dir w'))
    (\<lambda>_ w'. books_ok (rp_sha p) (mw_dir w')) w"
    unfolding wp_def create_resource_state_def
    using assms
    by (auto simp: sbind_def slift_def sret_def mw_write_def dest!: s intro: books_ok_create split: sum.splits prod.splits if_splits)
  then show ?thesis by simp
qed

inductive manager_reach :: "digest_fun \<Rightarrow> manager_world \<Rightarrow> bool" for sha where
  mr_init: "manager_reach sha \<lparr>mw_dir = (\<lambda>_. File_Absent), mw_sessions = (\<lambda>_. None)\<rparr>"
| mr_create: "manager_reach sha w \<Longrightarrow> rp_sha p = sha \<Longrightarrow>
    manager_reach sha (fst (create_resource_state p rid i tb cb m w))"
| mr_mode: "manager_reach sha w \<Longrightarrow> rp_sha p = sha \<Longrightarrow> manager_reach sha (fst (set_runtime_mode p i v e w))"
| mr_request: "manager_reach sha w \<Longrightarrow> rp_sha p = sha \<Longrightarrow> manager_reach sha (fst (request_resources p r w))"
| mr_thinking: "manager_reach sha w \<Longrightarrow> rp_sha p = sha \<Longrightarrow>
    manager_reach sha (fst (request_thinking p i sid d m rs w))"
| mr_other: "manager_reach sha w \<Longrightarrow> rp_sha p = sha \<Longrightarrow>
    manager_reach sha (fst (request_other ty p i sid rs t c w))"
| mr_allocate: "manager_reach sha w \<Longrightarrow> rp_sha p = sha \<Longrightarrow> manager_reach sha (fst (allocate p q w))"
| mr_actual: "manager_reach sha w \<Longrightarrow> rp_sha p = sha \<Longrightarrow>
    manager_reach sha (fst (record_actual_usage p i sid v w))"

lemma reach_books: "manager_reach sha w \<Longrightarrow> books_ok sha (mw_dir w)"
proof (induction rule: manager_reach.induct)
  case mr_init
  then show ?case
    by (auto simp: books_ok_def resource_load_def load_resource_document_def resource_path_def rbind_eq_Inr
        split: if_splits)
next
  case (mr_create w p rid i tb cb m)
  then show ?case using wp_state [OF create_keeps_books] by blast
next
  case (mr_mode w p i v e)
  then show ?case
    using wp_state [OF set_runtime_mode_at] wp_state [OF set_runtime_mode_moves] books_ok_op by metis
next
  case (mr_request w p r)
  then show ?case
    using wp_state [OF request_resources_at] wp_state [OF request_resources_moves] books_ok_op by metis
next
  case (mr_thinking w p i sid d m rs)
  then show ?case
    using wp_state [OF request_thinking_at] wp_state [OF request_thinking_moves] books_ok_op by metis
next
  case (mr_other w p ty i sid rs t c)
  then show ?case
    using wp_state [OF request_other_at] wp_state [OF request_other_moves] books_ok_op by metis
next
  case (mr_allocate w p q)
  then show ?case
    using wp_state [OF allocate_at] wp_state [OF allocate_moves] books_ok_op by metis
next
  case (mr_actual w p i sid v)
  then show ?case
    using wp_state [OF record_actual_usage_at] wp_state [OF record_actual_usage_moves] books_ok_op by metis
qed

end
