(* ===== verification/Resource_Properties.thy ===== *)
theory Resource_Properties
  imports Resource_Runs
begin

text \<open>
  The properties of the resource ledger and its policy, with witnesses on a concrete subject
  (\<open>tiny_\<close> below).
\<close>

section \<open>What a request leaves behind\<close>

definition requested :: "resource_ports \<Rightarrow> resource_request \<Rightarrow> ledger \<Rightarrow> resource_allocation \<Rightarrow> manager_world \<Rightarrow> bool" where
  "requested p r l al w' \<longleftrightarrow> (let d = al_decision al in
     decision_sound (rp_reserve p) (rp_decision_uuid p) (lg_state l) r (rp_decide_at p) d \<and>
     al_request al = r \<and>
     has_ledger (rp_sha p) (mw_dir w') (rq_subject_id r)
       (if rd_allowed d then add_allocation l (al_state al) (usage_of p r d) d
        else l\<lparr>lg_decisions := lg_decisions l @ [d]\<rparr>) \<and>
     (if rd_allowed d then al_state al = charged_state (lg_state l) (usage_of p r d) (rp_update_at p) \<and>
        al_usage al = Some (usage_of p r d)
      else al_state al = lg_state l \<and> al_usage al = None))"

lemma request_resources_result:
  assumes h: "has_ledger (rp_sha p) (mw_dir w) (rq_subject_id r) l"
  shows "wp (request_resources p r) (requested p r l) (\<lambda>_ _. True) w"
proof -
  let ?i = "rq_subject_id r"
  note l = has_ledger_state [OF h]
  have deferred: "requested p r l al (w\<lparr>mw_dir := dir\<rparr>)"
    if "save_decision (rp_sha p) (rp_disk_ok p) d (mw_dir w) = Inr dir"
      "policy_evaluate (rp_reserve p) (rp_decision_uuid p) (lg_state l) r (rp_decide_at p) = Inr d"
      "\<not> rd_allowed d" "resource_allocation_init (lg_state l) r d None = Inr al" for d dir al
  proof -
    have d: "rd_subject_id d = ?i" "wf_resource_decision d"
      using policy_evaluate_sound [OF that(2)] by (simp_all add: decision_sound_def)
    then show ?thesis
      using save_decision_ledger(1) [of "rp_sha p" "mw_dir w" d l] h that(1,3)
        policy_evaluate_sound [OF that(2)] resource_allocation_init_Inr [OF that(4)]
      by (simp add: requested_def)
  qed
  have charged: "requested p r l al (w\<lparr>mw_dir := dir, mw_sessions := ss\<rparr>)"
    if "save_allocation (rp_sha p) (rp_disk_ok p) (charged_state (lg_state l) (usage_of p r d) (rp_update_at p))
        (usage_of p r d) d (rs_revision (lg_state l)) (mw_dir w) = Inr dir"
      "policy_evaluate (rp_reserve p) (rp_decision_uuid p) (lg_state l) r (rp_decide_at p) = Inr d"
      "wf_token_usage (usage_of p r d)"
      "wf_resource_state (charged_state (lg_state l) (usage_of p r d) (rp_update_at p))" "rd_allowed d"
      "resource_allocation_init (charged_state (lg_state l) (usage_of p r d) (rp_update_at p)) r d
        (Some (usage_of p r d)) = Inr al" for d dir ss al
  proof -
    let ?u = "usage_of p r d" and ?s = "charged_state (lg_state l) (usage_of p r d) (rp_update_at p)"
    have d: "wf_resource_decision d"
      using policy_evaluate_sound [OF that(2)] by (simp add: decision_sound_def)
    have "rs_subject_id ?s = ?i" using l by (simp add: charged_state_def Let_def)
    then have "has_ledger (rp_sha p) dir ?i (add_allocation l ?s ?u d)"
      using save_allocation_ledger(1) [of "rp_sha p" "mw_dir w" ?s l ?u d] h that d by simp
    then show ?thesis
      using policy_evaluate_sound [OF that(2)] resource_allocation_init_Inr [OF that(6)] that(5)
      by (simp add: requested_def)
  qed
  show ?thesis
    unfolding request_resources_def
    by (auto simp: wp_simps resource_load_ledger [OF h] list_usage_ledger [OF h] list_decisions_ledger [OF h]
        l resource_state_recheck_Inr usage_init_of intro!: deferred charged [simplified]
        split: sum.split)
qed

section \<open>Thresholds without floats\<close>

lemma budget_ratio_le_iff:
  "0 \<le> a \<Longrightarrow> 0 < b \<Longrightarrow> b < 2 ^ 49 \<Longrightarrow> 0 \<le> k \<Longrightarrow> k \<le> 6 \<Longrightarrow>
     budget_ratio a b \<le> fl (of_int k / 10) \<longleftrightarrow> 10 * a \<le> k * b"
  using fl_ratio_le_iff [of a b k] by (simp add: budget_ratio_def)

definition low_share :: "resource_state \<Rightarrow> int \<Rightarrow> bool" where
  "low_share s k \<longleftrightarrow> 10 * rs_token_remaining s \<le> k * rs_token_budget s \<or>
     10 * rs_compute_remaining s \<le> k * rs_compute_budget s"

lemma min_ratio_le_iff:
  assumes "wf_resource_state s" "0 < rs_token_budget s" "rs_token_budget s < 2 ^ 49"
    "0 < rs_compute_budget s" "rs_compute_budget s < 2 ^ 49" "0 \<le> k" "k \<le> 6"
  shows "min (budget_ratio (rs_token_remaining s) (rs_token_budget s))
      (budget_ratio (rs_compute_remaining s) (rs_compute_budget s)) \<le> fl (of_int k / 10) \<longleftrightarrow> low_share s k"
  using assms by (simp add: min_le_iff_disj budget_ratio_le_iff low_share_def wf_resource_state_def)

section \<open>Requests that are answered\<close>

lemma policy_decision_total:
  assumes "wf_resource_request r" "rs_subject_id s = rq_subject_id r" "\<not> blank uuid" "\<not> blank reason"
    "0 \<le> t" "0 \<le> c" "al = (\<not> df)" "\<not> al \<Longrightarrow> t = 0 \<and> c = 0"
  shows "\<exists>d. policy_decision uuid s r al dep t c lf df reason mode now = Inr d"
  unfolding policy_decision_def resource_decision_init_Inr
  using assms by (intro exI) (auto simp: wf_resource_decision_def wf_resource_request_def)

lemma cost_for_depth_nonneg:
  "wf_resource_request r \<Longrightarrow> cost_for_depth r dep = (t, c) \<Longrightarrow> 0 \<le> t \<and> 0 \<le> c"
  by (cases dep) (auto simp: cost_for_depth_def wf_resource_request_def)

lemma not_blank_literal: "\<not> py_space c \<Longrightarrow> \<not> blank (c # s)"
  by (simp add: blank_def)

lemma evaluate_thinking_total:
  assumes r: "wf_resource_request r" "rs_subject_id s = rq_subject_id r" "\<not> blank uuid"
  shows "\<exists>d. evaluate_thinking reserve uuid s r q now = Inr d"
proof -
  let ?tr = "budget_ratio (rs_token_remaining s) (rs_token_budget s)"
  let ?cr = "budget_ratio (rs_compute_remaining s) (rs_compute_budget s)"
  obtain ap rs where ar: "fit_step reserve s r (low_budget_step (min ?tr ?cr) (cap_step s q)) = (ap, rs)"
    by (cases "fit_step reserve s r (low_budget_step (min ?tr ?cr) (cap_step s q))")
  obtain t c where tc: "cost_for_depth r ap = (t, c)" by (cases "cost_for_depth r ap")
  obtain lf m where lm: "frequency_advice s ?tr ?cr = (lf, m)" by (cases "frequency_advice s ?tr ?cr")
  note n = cost_for_depth_nonneg [OF r(1) tc]
  show ?thesis
    unfolding evaluate_thinking_def Let_def ar prod.case tc lm
    using n by (cases "policy_fits reserve s t c")
      (auto intro!: policy_decision_total [OF r] simp: blank_def py_space_def)
qed

lemma evaluate_standard_total:
  assumes r: "wf_resource_request r" "rs_subject_id s = rq_subject_id r" "\<not> blank uuid"
  shows "\<exists>d. evaluate_standard reserve uuid s r now = Inr d"
proof -
  let ?tr = "budget_ratio (rs_token_remaining s) (rs_token_budget s)"
  let ?cr = "budget_ratio (rs_compute_remaining s) (rs_compute_budget s)"
  obtain lf m where lm: "frequency_advice s ?tr ?cr = (lf, m)" by (cases "frequency_advice s ?tr ?cr")
  show ?thesis
    unfolding evaluate_standard_def Let_def prod.case lm
    using r(1) by (auto intro!: policy_decision_total [OF r] simp: blank_def py_space_def wf_resource_request_def)
qed

lemma policy_evaluate_total:
  assumes "wf_resource_request r" "rs_subject_id s = rq_subject_id r" "\<not> blank uuid"
  shows "\<exists>d. policy_evaluate reserve uuid s r now = Inr d"
  using assms evaluate_thinking_total [OF assms] evaluate_standard_total [OF assms]
  by (auto simp: policy_evaluate_def wf_resource_request_def split: option.split)

text \<open>The identities a call draws are new to the ledger.\<close>

definition fresh_for :: "resource_ports \<Rightarrow> resource_request \<Rightarrow> ledger \<Rightarrow> bool" where
  "fresh_for p r l \<longleftrightarrow> \<not> blank (rp_decision_uuid p) \<and> \<not> blank (rp_usage_uuid p) \<and>
     (\<forall>d \<in> set (lg_decisions l). rd_decision_id d \<noteq> rp_decision_uuid p \<and> rd_request_id d \<noteq> rq_request_id r) \<and>
     (\<forall>u \<in> set (lg_usage l). tu_usage_id u \<noteq> rp_usage_uuid p \<and> tu_session_id u \<noteq> rq_session_id r)"

lemma request_resources_answers:
  assumes h: "has_ledger (rp_sha p) (mw_dir w) (rq_subject_id r) l"
    and r: "wf_resource_request r" "fresh_for p r l" "rp_disk_ok p"
  shows "\<exists>w' al. request_resources p r w = (w', Inr al)"
proof -
  note l = has_ledger_state [OF h]
  obtain d where d: "policy_evaluate (rp_reserve p) (rp_decision_uuid p) (lg_state l) r (rp_decide_at p) = Inr d"
    using policy_evaluate_total [OF r(1), of "lg_state l" "rp_decision_uuid p" "rp_reserve p" "rp_decide_at p"]
      l r(2) by (auto simp: fresh_for_def)
  note sound = policy_evaluate_sound [OF d, unfolded decision_sound_def]
  note run = request_resources_def sbind_def prog_simps mw_read_def mw_write_def
    list_decisions_ledger [OF h] list_usage_ledger [OF h] resource_load_ledger [OF h] d
  have fresh: "\<not> (\<exists>x \<in> set (lg_decisions l). rd_request_id x = rq_request_id r)"
    "\<not> (\<exists>x \<in> set (lg_usage l). tu_session_id x = rq_session_id r)"
    using r(2) by (auto simp: fresh_for_def)
  show ?thesis
  proof (cases "rd_allowed d")
    case False
    then have "decision_admissible l d"
      using sound r(2) by (auto simp: decision_admissible_def fresh_for_def)
    then obtain dir where "save_decision (rp_sha p) (rp_disk_ok p) d (mw_dir w) = Inr dir"
      using save_decision_ledger(2) [of "rp_sha p" "mw_dir w" d l] h sound r(3) by auto
    with False fresh sound show ?thesis
      by (auto simp: run resource_allocation_init_def l)
  next
    case True
    let ?u = "usage_of p r d" and ?s = "charged_state (lg_state l) (usage_of p r d) (rp_update_at p)"
    have u: "wf_token_usage ?u"
      using r sound True
      by (auto simp: wf_token_usage_def usage_of_def wf_resource_request_def wf_resource_decision_def fresh_for_def)
    have s: "wf_resource_state ?s" "rs_subject_id ?s = rq_subject_id r"
      using l sound True
      by (simp_all add: charged_state_def Let_def usage_of_def wf_resource_state_def wf_resource_decision_def)
    have "allocation_admissible l ?s ?u d (rs_revision (lg_state l))"
      using sound r(2) True l
      by (auto simp: allocation_admissible_def fresh_for_def usage_of_def next_revision_def
          charged_state_def Let_def)
    then obtain dir where "save_allocation (rp_sha p) (rp_disk_ok p) ?s ?u d (rs_revision (lg_state l)) (mw_dir w) = Inr dir"
      using save_allocation_ledger(2) [of "rp_sha p" "mw_dir w" ?s l ?u d] h s u sound r(3) by auto
    moreover have "tu_subject_id ?u = rq_subject_id r" "tu_session_id ?u = rq_session_id r"
      by (simp_all add: usage_of_def)
    ultimately show ?thesis
      using True fresh sound s usage_init_of [of p r d ?u] u resource_state_recheck_wf [OF s(1)]
      by (simp add: run l resource_allocation_init_def)
  qed
qed

section \<open>A concrete subject\<close>

definition tiny_state :: resource_state where
  "tiny_state = \<lparr>rs_resource_id = ''r'', rs_subject_id = ''s'', rs_token_budget = 1000,
     rs_token_used = 0, rs_token_remaining = 1000, rs_compute_budget = 10,
     rs_current_mode = SCHEDULED, rs_updated_at = Abs_instant 0, rs_compute_used = 0,
     rs_compute_remaining = 10, rs_revision = 0\<rparr>"

definition tiny_request :: resource_request where
  "tiny_request = \<lparr>rq_request_id = ''q1'', rq_subject_id = ''s'', rq_session_id = ''n1'',
     rq_session_type = Session_THINKING, rq_estimated_tokens = 4096, rq_estimated_compute = 4,
     rq_model_name = ''m'', rq_reason = ''why'', rq_requested_at = Abs_instant 0,
     rq_requested_depth = Some Depth_DEEP\<rparr>"

definition tiny_ports :: resource_ports where
  "tiny_ports = \<lparr>rp_sha = (\<lambda>s. s), rp_reserve = fl (1 / 10), rp_disk_ok = True,
     rp_request_at = Abs_instant 0, rp_decide_at = Abs_instant 0, rp_usage_at = Abs_instant 0,
     rp_update_at = Abs_instant 0, rp_request_uuid = ''u1'', rp_decision_uuid = ''u2'',
     rp_usage_uuid = ''u3''\<rparr>"

definition tiny_ledger :: ledger where
  "tiny_ledger = \<lparr>lg_state = tiny_state, lg_usage = [], lg_decisions = []\<rparr>"

definition tiny_world :: manager_world where
  "tiny_world = \<lparr>mw_dir = (\<lambda>_. File_Absent)(''s'' := File_Doc (resource_document tiny_state)),
     mw_sessions = (\<lambda>_. None)\<rparr>"

lemma tiny_state_ok: "wf_resource_state tiny_state"
  by (simp add: tiny_state_def wf_resource_state_def blank_def py_space_def Let_def)

lemma tiny_request_ok: "wf_resource_request tiny_request"
  by (simp add: tiny_request_def wf_resource_request_def blank_def py_space_def Let_def)

lemma tiny_has: "has_ledger (rp_sha tiny_ports) (mw_dir tiny_world) (rq_subject_id tiny_request) tiny_ledger"
  using tiny_state_ok
  by (simp add: has_ledger_def tiny_ports_def tiny_world_def tiny_request_def tiny_ledger_def wf_ledger_def
      doc_ledger_def resource_document_def) (simp add: tiny_state_def blank_def py_space_def Let_def)

lemma tiny_fresh: "fresh_for tiny_ports tiny_request tiny_ledger" "rp_disk_ok tiny_ports"
  by (simp_all add: fresh_for_def tiny_ports_def tiny_ledger_def blank_def py_space_def Let_def)

lemma tiny_balanced: "balanced tiny_ledger"
  by (simp add: balanced_def tiny_ledger_def tiny_state_def)

lemma tiny_reserve: "0 \<le> rp_reserve tiny_ports"
  by (simp add: tiny_ports_def fl_nonneg)

lemma tiny_answer:
  obtains w' al where "request_resources tiny_ports tiny_request tiny_world = (w', Inr al)"
  using request_resources_answers [OF tiny_has tiny_request_ok tiny_fresh] by blast

lemma tiny_create: "fst (create_resource_state tiny_ports (Some ''r'') ''s'' (PInt 1000) (PInt 10) SCHEDULED
    \<lparr>mw_dir = (\<lambda>_. File_Absent), mw_sessions = (\<lambda>_. None)\<rparr>) = tiny_world"
proof -
  have "resource_state_create ''r'' (PStr ''s'') (PInt 1000) (PInt 10) SCHEDULED (Abs_instant 0) = Inr tiny_state"
    using resource_state_recheck_wf [OF tiny_state_ok]
    by (simp add: resource_state_recheck_def resource_state_args_of_def resource_state_create_def tiny_state_def)
  then show ?thesis
    by (simp add: create_resource_state_def resource_load_def load_resource_document_def resource_path_def
        sbind_def prog_simps mw_write_def resource_create_def tiny_world_def tiny_ports_def
        given_or_uuid_def blank_def py_space_def Let_def) (simp add: tiny_state_def py_space_def Let_def)
qed

lemma tiny_reach: "manager_reach (rp_sha tiny_ports) tiny_world"
  unfolding tiny_create [symmetric] by (rule mr_create [OF mr_init refl])

section \<open>Properties\<close>

text \<open>
  C4: the books balance. In every world the manager's callers can reach, whatever calls
  failed on the way, every subject that loads has a history that loads, and its counters are
  the sums over that history: \<open>token_used\<close> of the accounted tokens (actual where reported,
  estimated otherwise), \<open>compute_used\<close> of the compute granted; usages, sessions, requests and
  decisions are recorded at most once.
\<close>

theorem books_balance:
  assumes "manager_reach sha w" "resource_load sha i (mw_dir w) = Inr s"
  shows "\<exists>us ds. list_usage sha i (mw_dir w) = Inr us \<and> list_decisions sha i (mw_dir w) = Inr ds \<and>
    rs_token_used s = sum_list (map accounted_tokens us) \<and>
    rs_compute_used s = sum_list (map tu_estimated_compute us) \<and>
    rs_token_remaining s = max 0 (rs_token_budget s - sum_list (map accounted_tokens us)) \<and>
    distinct (map tu_usage_id us) \<and> distinct (map tu_session_id us) \<and>
    distinct (map rd_request_id ds) \<and> distinct (map rd_decision_id ds)"
proof -
  obtain l where l: "has_ledger sha (mw_dir w) i l" "balanced l"
    using reach_books [OF assms(1)] assms(2) by (auto simp: books_ok_def)
  have "lg_state l = s" using resource_load_ledger [OF l(1)] assms(2) by simp
  then show ?thesis
    using l has_ledger_state(2) [OF l(1)] list_usage_ledger [OF l(1)] list_decisions_ledger [OF l(1)]
    by (auto simp: balanced_def wf_resource_state_def)
qed

lemma books_balance_witness: "\<exists>us. list_usage (\<lambda>s. s) ''s'' (mw_dir tiny_world) = Inr us \<and>
    sum_list (map accounted_tokens us) = 0"
proof -
  have l: "resource_load (rp_sha tiny_ports) ''s'' (mw_dir tiny_world) = Inr tiny_state"
    using resource_load_ledger [OF tiny_has] by (simp add: tiny_request_def tiny_ledger_def)
  from books_balance [OF tiny_reach l] show ?thesis by (auto simp: tiny_state_def tiny_ports_def)
qed

text \<open>
  C14: no over-allocation. When a request is granted, the tokens granted fit above the
  policy's protected reserve and the compute granted fits the remaining compute, both at most
  what was asked for; the new state is charged by exactly that, and if any token was granted
  the protected reserve is still untouched. When it is not granted, the state and the usage
  records are as before and nothing is allocated.
\<close>

theorem allocation_within_budget:
  assumes "has_ledger (rp_sha p) (mw_dir w) (rq_subject_id r) l" "0 \<le> rp_reserve p"
    and "request_resources p r w = (w', Inr al)"
  shows "\<exists>l'. has_ledger (rp_sha p) (mw_dir w') (rq_subject_id r) l' \<and> lg_state l' = al_state al \<and>
    (let d = al_decision al; s = lg_state l; s' = lg_state l';
         reserve = protected_tokens (rp_reserve p) (rs_token_budget s) in
     rd_allocated_tokens d \<le> rs_token_remaining s \<and> rd_allocated_compute d \<le> rs_compute_remaining s \<and>
     rs_token_used s' = rs_token_used s + rd_allocated_tokens d \<and>
     rs_compute_used s' = rs_compute_used s + rd_allocated_compute d \<and>
     (rd_allowed d \<longrightarrow> rd_allocated_tokens d \<le> rq_estimated_tokens r \<and>
        (0 < rd_allocated_tokens d \<longrightarrow> reserve \<le> rs_token_remaining s') \<and>
        lg_usage l' = lg_usage l @ [usage_of p r d]) \<and>
     (\<not> rd_allowed d \<longrightarrow> rd_defer d \<and> s' = s \<and> lg_usage l' = lg_usage l \<and>
        rd_allocated_tokens d = 0 \<and> rd_allocated_compute d = 0))"
proof -
  let ?d = "al_decision al"
  have q: "requested p r l al w'" by (rule wp_result [OF request_resources_result [OF assms(1)] assms(3)])
  note q = q [unfolded requested_def Let_def decision_sound_def]
  have wf: "wf_resource_state (lg_state l)" by (rule has_ledger_state [OF assms(1)])
  have pt: "0 \<le> protected_tokens (rp_reserve p) (rs_token_budget (lg_state l))"
    using assms(2) wf by (simp add: protected_tokens_nonneg wf_resource_state_def)
  show ?thesis
  proof (cases "rd_allowed ?d")
    case True
    then show ?thesis
      using q pt wf
      by (intro exI [of _ "add_allocation l (al_state al) (usage_of p r ?d) ?d"])
        (auto simp: Let_def add_allocation_def charged_state_def usage_of_def policy_fits_def
          wf_resource_state_def wf_resource_decision_def)
  next
    case False
    then show ?thesis
      using q wf by (intro exI [of _ "l\<lparr>lg_decisions := lg_decisions l @ [?d]\<rparr>"])
        (auto simp: Let_def wf_resource_state_def)
  qed
qed

lemma allocation_within_budget_witness:
  "\<exists>w' al. request_resources tiny_ports tiny_request tiny_world = (w', Inr al) \<and>
     rd_allocated_tokens (al_decision al) \<le> 1000"
proof -
  obtain w' al where r: "request_resources tiny_ports tiny_request tiny_world = (w', Inr al)" by (rule tiny_answer)
  from allocation_within_budget [OF tiny_has tiny_reserve r] r show ?thesis
    by (auto simp: Let_def tiny_ledger_def tiny_state_def)
qed

text \<open>
  A request is answered. On a subject with a readable ledger a well-formed request with
  new identities always returns an allocation, granted or deferred, when the disk works; no
  budget situation makes it fail.
\<close>

theorem request_is_answered:
  assumes "has_ledger (rp_sha p) (mw_dir w) (rq_subject_id r) l" "wf_resource_request r" "fresh_for p r l"
    and "rp_disk_ok p"
  shows "\<exists>w' al. request_resources p r w = (w', Inr al) \<and> al_request al = r \<and>
    rd_defer (al_decision al) = (\<not> rd_allowed (al_decision al))"
  using request_resources_answers [OF assms] wp_result [OF request_resources_result [OF assms(1)]]
  by (fastforce simp: requested_def Let_def decision_sound_def)

lemma request_is_answered_witness:
  "\<exists>w' al. request_resources tiny_ports tiny_request tiny_world = (w', Inr al)"
  using request_is_answered [OF tiny_has tiny_request_ok tiny_fresh] by blast

lemma request_known_refused:
  assumes h: "has_ledger (rp_sha p) (mw_dir w) (rq_subject_id r) l"
  shows "\<exists>x \<in> set (lg_decisions l). rd_request_id x = rq_request_id r \<Longrightarrow>
      \<exists>m. request_resources p r w = (w, Inl (ResourceValidationError, m))"
    and "\<not> (\<exists>x \<in> set (lg_decisions l). rd_request_id x = rq_request_id r) \<Longrightarrow>
      \<exists>x \<in> set (lg_usage l). tu_session_id x = rq_session_id r \<Longrightarrow>
      \<exists>m. request_resources p r w = (w, Inl (ResourceValidationError, m))"
  by (auto simp: request_resources_def sbind_def prog_simps mw_read_def ensure_def
      list_decisions_ledger [OF h] list_usage_ledger [OF h] split: if_splits)

text \<open>
  A request counts once. After a request was answered, any request of the same subject
  under the same request id is refused without effect, and so is any request for the same
  session once it was granted.
\<close>

theorem request_counts_once:
  assumes "has_ledger (rp_sha p) (mw_dir w) (rq_subject_id r) l" "request_resources p r w = (w', Inr al)"
    and "rp_sha p' = rp_sha p" "rq_subject_id r' = rq_subject_id r"
    and "rq_request_id r' = rq_request_id r \<or>
      rd_allowed (al_decision al) \<and> rq_session_id r' = rq_session_id r"
  shows "\<exists>m. request_resources p' r' w' = (w', Inl (ResourceValidationError, m))"
proof -
  let ?d = "al_decision al"
  have q: "requested p r l al w'" by (rule wp_result [OF request_resources_result [OF assms(1)] assms(2)])
  let ?l = "if rd_allowed ?d then add_allocation l (al_state al) (usage_of p r ?d) ?d
        else l\<lparr>lg_decisions := lg_decisions l @ [?d]\<rparr>"
  have h: "has_ledger (rp_sha p') (mw_dir w') (rq_subject_id r') ?l"
    and d: "rd_request_id ?d = rq_request_id r"
    using q assms(3,4) by (simp_all add: requested_def Let_def decision_sound_def)
  have mem: "?d \<in> set (lg_decisions ?l)" by (simp add: add_allocation_def)
  have um: "rd_allowed ?d \<Longrightarrow> usage_of p r ?d \<in> set (lg_usage ?l)" by (simp add: add_allocation_def)
  show ?thesis
  proof (cases "\<exists>x \<in> set (lg_decisions ?l). rd_request_id x = rq_request_id r'")
    case True
    then show ?thesis using request_known_refused(1) [OF h] by blast
  next
    case False
    then have "rd_allowed ?d \<and> rq_session_id r' = rq_session_id r" using assms(5) d mem by metis
    then have "\<exists>x \<in> set (lg_usage ?l). tu_session_id x = rq_session_id r'"
      using um by (intro bexI [of _ "usage_of p r ?d"]) (simp_all add: usage_of_def)
    with False show ?thesis using request_known_refused(2) [OF h] by blast
  qed
qed

lemma request_counts_once_witness:
  "\<exists>w' al m. request_resources tiny_ports tiny_request tiny_world = (w', Inr al) \<and>
     request_resources tiny_ports tiny_request w' = (w', Inl (ResourceValidationError, m))"
proof -
  obtain w' al where r: "request_resources tiny_ports tiny_request tiny_world = (w', Inr al)" by (rule tiny_answer)
  from request_counts_once [OF tiny_has r refl refl] r show ?thesis by blast
qed

lemma filter_distinct_key:
  assumes "distinct (map g xs)" "xs ! k = x" "k < length xs" "g x = s"
  shows "filter (\<lambda>y. g y = s) xs = [x]"
  using assms
proof (induction xs arbitrary: k)
  case (Cons y ys)
  show ?case
  proof (cases k)
    case 0
    with Cons.prems have "\<forall>z \<in> set ys. g z \<noteq> s" by (auto simp: image_iff)
    with 0 Cons.prems show ?thesis by (simp add: filter_empty_conv)
  next
    case (Suc j)
    with Cons.prems have "g y \<noteq> s" by (auto simp: image_iff dest: nth_mem)
    with Suc Cons show ?thesis by simp
  qed
qed simp

lemma record_actual_result:
  assumes h: "has_ledger (rp_sha p) (mw_dir w) i l" and b: "balanced l"
  shows "wp (record_actual_usage p i sid v) (\<lambda>u w'. \<exists>k n. v = PInt n \<and> k < length (lg_usage l) \<and>
      tu_session_id (lg_usage l ! k) = sid \<and> tu_actual_tokens (lg_usage l ! k) = None \<and>
      u = (lg_usage l ! k)\<lparr>tu_actual_tokens := Some n\<rparr> \<and>
      has_ledger (rp_sha p) (mw_dir w') i (settle l (settled_state (lg_state l) (lg_usage l ! k) n (rp_update_at p)) k u))
    (\<lambda>_ _. True) w"
proof -
  note l = has_ledger_state [OF h]
  have wfu: "wf_token_usage x" if "x \<in> set (lg_usage l)" for x using wf_ledgerD(2) [OF l(1) that] .
  have stored: "\<exists>k. k < length (lg_usage l) \<and> tu_session_id (lg_usage l ! k) = sid \<and>
      tu_actual_tokens (lg_usage l ! k) = None \<and>
      x\<lparr>tu_actual_tokens := Some n\<rparr> = (lg_usage l ! k)\<lparr>tu_actual_tokens := Some n\<rparr> \<and>
      has_ledger (rp_sha p) dir i (settle l (settled_state (lg_state l) (lg_usage l ! k) n now) k
        (x\<lparr>tu_actual_tokens := Some n\<rparr>))"
    if r: "repo_reconcile_usage (rp_sha p) (rp_disk_ok p) (settled_state (lg_state l) x n now)
        (x\<lparr>tu_actual_tokens := Some n\<rparr>) (rs_revision (lg_state l)) (mw_dir w) = Inr dir"
      and wf: "wf_token_usage (x\<lparr>tu_actual_tokens := Some n\<rparr>)"
        "wf_resource_state (settled_state (lg_state l) x n now)"
      and f: "filter (\<lambda>u. tu_session_id u = sid) (lg_usage l) = [x]" "tu_actual_tokens x = None" for x n now dir
  proof -
    have s: "rs_subject_id (settled_state (lg_state l) x n now) = i"
      using l by (simp add: settled_state_def Let_def)
    obtain k where k: "k < length (lg_usage l)" "lg_usage l ! k = x" "tu_session_id x = sid"
      by (rule filter_singleton_nth [OF f(1)])
    obtain j where j: "j < length (lg_usage l)" "tu_usage_id (lg_usage l ! j) = tu_usage_id x"
      "has_ledger (rp_sha p) dir i (settle l (settled_state (lg_state l) x n now) j (x\<lparr>tu_actual_tokens := Some n\<rparr>))"
      using reconcile_usage_ledger(1) [OF _ wf(2,1) r] h s by auto
    have "j = k"
      using b j k nth_eq_iff_index_eq [of "map tu_usage_id (lg_usage l)" j k] by (simp add: balanced_def)
    with j(3) k f(2) show ?thesis by auto
  qed
  have mem: "x \<in> set (lg_usage l)" if "filter (\<lambda>u. tu_session_id u = sid) (lg_usage l) = [x]" for x
    using that by (auto simp: filter_eq_Cons_iff)
  show ?thesis
    unfolding record_actual_usage_def
    by (auto simp: wp_simps resource_load_ledger [OF h] list_usage_ledger [OF h] l
        resource_state_recheck_Inr token_usage_recheck_Inr token_usage_roundtrip [OF wfu [OF mem]]
        split: sum.split list.split pyval.split intro!: stored)
qed

lemma actual_known_refused:
  assumes h: "has_ledger (rp_sha p) (mw_dir w) i l"
    and f: "filter (\<lambda>x. tu_session_id x = sid) (lg_usage l) = [u]" and u: "tu_actual_tokens u \<noteq> None"
  shows "\<exists>c m. record_actual_usage p i sid v w = (w, Inl (c, m))"
  using f u
  by (cases v) (auto simp: record_actual_usage_def sbind_def prog_simps mw_read_def
      resource_load_ledger [OF h] list_usage_ledger [OF h] ensure_def)

text \<open>
  C39: actual usage is settled once and exactly. A report for a session replaces its estimate
  in the books by the actual amount, leaves every other record and the compute as they are,
  and a second report for the session is refused without effect.
\<close>

theorem actual_usage_settles_once:
  assumes "has_ledger (rp_sha p) (mw_dir w) i l" "balanced l"
    and "record_actual_usage p i sid (PInt n) w = (w', Inr u)" "rp_sha p' = rp_sha p"
  shows "\<exists>k l'. k < length (lg_usage l) \<and> tu_session_id (lg_usage l ! k) = sid \<and>
    has_ledger (rp_sha p) (mw_dir w') i l' \<and> lg_usage l' = (lg_usage l)[k := u] \<and>
    u = (lg_usage l ! k)\<lparr>tu_actual_tokens := Some n\<rparr> \<and>
    rs_token_used (lg_state l') = rs_token_used (lg_state l) - tu_estimated_tokens (lg_usage l ! k) + n \<and>
    rs_compute_used (lg_state l') = rs_compute_used (lg_state l) \<and>
    (\<exists>c m. record_actual_usage p' i sid v w' = (w', Inl (c, m)))"
proof -
  obtain k where k: "k < length (lg_usage l)" "tu_session_id (lg_usage l ! k) = sid"
    "tu_actual_tokens (lg_usage l ! k) = None" "u = (lg_usage l ! k)\<lparr>tu_actual_tokens := Some n\<rparr>"
    "has_ledger (rp_sha p) (mw_dir w') i (settle l (settled_state (lg_state l) (lg_usage l ! k) n (rp_update_at p)) k u)"
    using wp_result [OF record_actual_result [OF assms(1,2)] assms(3)] by auto
  let ?l = "settle l (settled_state (lg_state l) (lg_usage l ! k) n (rp_update_at p)) k u"
  have wl: "wf_ledger l" "wf_ledger ?l" using assms(1) k(5) by (simp_all add: has_ledger_def)
  have wu: "wf_token_usage u" using wl(2) k(1) by (auto simp: wf_ledger_def settle_def list_all_iff set_update_memI)
  then have n: "0 \<le> n" using k(4) by (simp add: wf_token_usage_def)
  have "accounted_tokens (lg_usage l ! k) \<le> rs_token_used (lg_state l)"
    using accounted_le_sum [OF k(1)] wl(1) assms(2) by (simp add: balanced_def wf_ledger_def list_all_iff)
  then have used: "rs_token_used (lg_state ?l) = rs_token_used (lg_state l) - tu_estimated_tokens (lg_usage l ! k) + n"
    using n k(3) by (simp add: settle_def settled_state_def Let_def accounted_tokens_def)
  have "map tu_session_id (lg_usage ?l) = map tu_session_id (lg_usage l)"
    using k by (simp add: settle_def map_update_same)
  then have d: "distinct (map tu_session_id (lg_usage ?l))" using assms(2) by (simp add: balanced_def)
  have at: "lg_usage ?l ! k = u" "k < length (lg_usage ?l)" "tu_session_id u = sid"
    using k by (simp_all add: settle_def)
  have f: "filter (\<lambda>x. tu_session_id x = sid) (lg_usage ?l) = [u]"
    by (rule filter_distinct_key [OF d at])
  have h: "has_ledger (rp_sha p') (mw_dir w') i ?l" using k(5) assms(4) by simp
  have "\<exists>c m. record_actual_usage p' i sid v w' = (w', Inl (c, m))"
    using k(4) by (intro actual_known_refused [OF h f]) simp
  with k used show ?thesis
    by (intro exI [of _ k] exI [of _ ?l]) (simp add: settle_def settled_state_def Let_def)
qed

definition ledger_doc :: "ledger \<Rightarrow> pyval" where
  "ledger_doc l = PDict [(''resource_format_version'', PInt 1), (''state'', resource_state_to_dict (lg_state l)),
     (''usage_records'', PList (map token_usage_to_dict (lg_usage l))),
     (''decisions'', PList (map resource_decision_to_dict (lg_decisions l)))]"

lemma has_ledger_doc:
  "wf_ledger l \<Longrightarrow> rs_subject_id (lg_state l) = i \<Longrightarrow> \<not> blank i \<Longrightarrow> dir (sha i) = File_Doc (ledger_doc l) \<Longrightarrow>
     has_ledger sha dir i l"
  by (simp add: has_ledger_def ledger_doc_def doc_ledger_def)

lemma record_actual_answers:
  assumes h: "has_ledger (rp_sha p) (mw_dir w) i l" "balanced l"
    and k: "k < length (lg_usage l)" "tu_session_id (lg_usage l ! k) = sid"
      "tu_actual_tokens (lg_usage l ! k) = None"
    and n: "0 \<le> n" "rp_disk_ok p"
  shows "\<exists>w'. record_actual_usage p i sid (PInt n) w = (w', Inr ((lg_usage l ! k)\<lparr>tu_actual_tokens := Some n\<rparr>))"
proof -
  let ?x = "lg_usage l ! k"
  let ?u = "?x\<lparr>tu_actual_tokens := Some n\<rparr>" and ?s = "settled_state (lg_state l) ?x n (rp_update_at p)"
  note l = has_ledger_state [OF h(1)]
  have x: "wf_token_usage ?x" using wf_ledgerD(2) [OF l(1) nth_mem [OF k(1)]] .
  then have u: "wf_token_usage ?u" using n(1) by (simp add: wf_token_usage_def)
  have s: "wf_resource_state ?s" "rs_subject_id ?s = i" "next_revision (lg_state l) ?s (rs_revision (lg_state l))"
    using l(2,3) by (simp_all add: settled_state_def Let_def wf_resource_state_def next_revision_def)
  have f: "filter (\<lambda>x. tu_session_id x = sid) (lg_usage l) = [?x]"
    using h(2) k(1,2) filter_distinct_key [of tu_session_id "lg_usage l" k ?x sid] by (simp add: balanced_def)
  obtain dir where "repo_reconcile_usage (rp_sha p) (rp_disk_ok p) ?s ?u (rs_revision (lg_state l)) (mw_dir w) = Inr dir"
    using reconcile_usage_ledger(2) [of "rp_sha p" "mw_dir w" ?s l ?u "rp_disk_ok p" "rs_revision (lg_state l)" k]
      h s u k n(2) by (auto simp: balanced_def)
  then show ?thesis
    using n(1) k(3) l(2)
    by (simp add: record_actual_usage_def sbind_def prog_simps mw_read_def mw_write_def ensure_def
        resource_load_ledger [OF h(1)] list_usage_ledger [OF h(1)] f token_usage_roundtrip [OF x]
        token_usage_recheck_wf [OF u] resource_state_recheck_wf [OF s(1)])
qed

definition tiny_usage :: token_usage_record where
  "tiny_usage = \<lparr>tu_usage_id = ''u'', tu_subject_id = ''s'', tu_session_id = ''n'',
     tu_session_type = Session_OTHER, tu_estimated_tokens = 64, tu_actual_tokens = None,
     tu_model_name = ''m'', tu_reason = ''why'', tu_created_at = Abs_instant 0, tu_estimated_compute = 1\<rparr>"

definition tiny_charged :: ledger where
  "tiny_charged = \<lparr>lg_state = charged_state tiny_state tiny_usage (Abs_instant 0),
     lg_usage = [tiny_usage], lg_decisions = []\<rparr>"

definition charged_world :: manager_world where
  "charged_world = \<lparr>mw_dir = (\<lambda>_. File_Doc (ledger_doc tiny_charged)), mw_sessions = (\<lambda>_. None)\<rparr>"

lemma tiny_charged_ok: "wf_ledger tiny_charged" "balanced tiny_charged"
  by (simp_all add: tiny_charged_def wf_ledger_def balanced_def charged_state_def tiny_state_def
      tiny_usage_def wf_resource_state_def wf_token_usage_def accounted_tokens_def blank_def py_space_def Let_def)

lemma charged_has: "has_ledger (rp_sha tiny_ports) (mw_dir charged_world) ''s'' tiny_charged"
  using tiny_charged_ok(1)
  by (rule has_ledger_doc) (simp_all add: charged_world_def tiny_charged_def charged_state_def tiny_state_def
      blank_def py_space_def Let_def)

lemma actual_usage_settles_once_witness:
  "\<exists>(w' :: manager_world) (l' :: ledger). has_ledger (rp_sha tiny_ports) (mw_dir w') ''s'' l' \<and> rs_token_used (lg_state l') = 100 \<and>
     (\<exists>c m. record_actual_usage tiny_ports ''s'' ''n'' (PInt 5) w' = (w', Inl (c, m)))"
proof -
  have k: "0 < length (lg_usage tiny_charged)" "tu_session_id (lg_usage tiny_charged ! 0) = ''n''"
    "tu_actual_tokens (lg_usage tiny_charged ! 0) = None"
    by (simp_all add: tiny_charged_def tiny_usage_def)
  obtain w' u where r: "record_actual_usage tiny_ports ''s'' ''n'' (PInt 100) charged_world = (w', Inr u)"
    using record_actual_answers [OF charged_has tiny_charged_ok(2) k, of 100] tiny_fresh(2) by auto
  have e: "\<And>k. k < length (lg_usage tiny_charged) \<Longrightarrow> tu_estimated_tokens (lg_usage tiny_charged ! k) = 64"
    "rs_token_used (lg_state tiny_charged) = 64"
    by (simp_all add: tiny_charged_def tiny_usage_def charged_state_def tiny_state_def Let_def)
  obtain k l' where k: "k < length (lg_usage tiny_charged)" "has_ledger (rp_sha tiny_ports) (mw_dir w') ''s'' l'"
    "rs_token_used (lg_state l') = rs_token_used (lg_state tiny_charged)
       - tu_estimated_tokens (lg_usage tiny_charged ! k) + 100"
    "\<exists>c m. record_actual_usage tiny_ports ''s'' ''n'' (PInt 5) w' = (w', Inl (c, m))"
    using actual_usage_settles_once [OF charged_has tiny_charged_ok(2) r refl, of "PInt 5"] by blast
  have "rs_token_used (lg_state l') = 100" using k(3) e(1) [OF k(1)] e(2) by simp
  with k(2,4) show ?thesis by blast
qed

text \<open>
  Depth is capped. A thinking request is never granted more depth than it asked for nor
  than the runtime mode allows, and never more tokens or compute than that depth costs.
\<close>

theorem thinking_depth_capped:
  assumes "policy_evaluate reserve uuid s r now = Inr d" "rq_session_type r = Session_THINKING"
    and "rq_requested_depth r = Some q"
  shows "\<exists>dep. rd_approved_depth d = Some dep \<and> depth_order dep \<le> depth_order q \<and>
    depth_order dep \<le> depth_order (mode_depth_caps (rs_current_mode s)) \<and>
    rd_allocated_tokens d \<le> dc_tokens (depth_costs dep) \<and>
    rd_allocated_compute d \<le> dc_compute (depth_costs dep)"
  using assms by (auto simp: policy_evaluate_def split: if_splits intro: evaluate_thinking_depth)

lemma thinking_depth_capped_witness:
  "\<exists>d. policy_evaluate (fl (1 / 10)) ''u'' tiny_state tiny_request (Abs_instant 0) = Inr d \<and>
     rd_allocated_tokens d \<le> 1024"
proof -
  have "\<exists>d. policy_evaluate (fl (1 / 10)) ''u'' tiny_state tiny_request (Abs_instant 0) = Inr d"
    by (rule policy_evaluate_total [OF tiny_request_ok])
      (simp_all add: tiny_state_def tiny_request_def blank_def py_space_def Let_def)
  then obtain d where d: "policy_evaluate (fl (1 / 10)) ''u'' tiny_state tiny_request (Abs_instant 0) = Inr d" ..
  have t: "rq_session_type tiny_request = Session_THINKING" "rq_requested_depth tiny_request = Some Depth_DEEP"
    by (simp_all add: tiny_request_def)
  obtain dep where "depth_order dep \<le> depth_order (mode_depth_caps (rs_current_mode tiny_state))"
    "rd_allocated_tokens d \<le> dc_tokens (depth_costs dep)"
    using thinking_depth_capped [OF d t] by blast
  then have "rd_allocated_tokens d \<le> 1024" by (cases dep) (auto simp: tiny_state_def)
  with d show ?thesis by blast
qed

text \<open>
  The budget shares are exact. For budgets below \<open>2 ^ 49\<close> the policy's comparisons of
  float ratios with 0.3, 0.4 and 0.6 are comparisons of integers: a thinking request drops to
  LOW when a remaining share is at most 3/10, and lower frequency is advised exactly when one
  is at most 4/10, or at most 6/10 in CONTINUOUS mode.
\<close>

theorem policy_thresholds_exact:
  assumes "wf_resource_state s" "0 < rs_token_budget s" "rs_token_budget s < 2 ^ 49"
    and "0 < rs_compute_budget s" "rs_compute_budget s < 2 ^ 49"
  shows "low_budget_step (min (budget_ratio (rs_token_remaining s) (rs_token_budget s))
        (budget_ratio (rs_compute_remaining s) (rs_compute_budget s))) (dep, reasons)
      = (if low_share s 3 \<and> dep \<noteq> Depth_LOW
         then (Depth_LOW, reasons @ [''remaining resources require LOW thinking depth'']) else (dep, reasons)) \<and>
    frequency_advice s (budget_ratio (rs_token_remaining s) (rs_token_budget s))
        (budget_ratio (rs_compute_remaining s) (rs_compute_budget s))
      = (if low_share s 4 \<or> rs_current_mode s = CONTINUOUS \<and> low_share s 6
         then (True, LOW_FREQUENCY) else (False, rs_current_mode s))"
  using min_ratio_le_iff [OF assms, of 3] min_ratio_le_iff [OF assms, of 4] min_ratio_le_iff [OF assms, of 6]
  by (simp add: low_budget_step_def frequency_advice_def Let_def)

lemma policy_thresholds_exact_witness:
  "frequency_advice tiny_state (budget_ratio 1000 1000) (budget_ratio 10 10) = (False, SCHEDULED)"
proof -
  have h: "0 < rs_token_budget tiny_state" "rs_token_budget tiny_state < 2 ^ 49"
    "0 < rs_compute_budget tiny_state" "rs_compute_budget tiny_state < 2 ^ 49"
    by (simp_all add: tiny_state_def)
  from policy_thresholds_exact [OF tiny_state_ok h] show ?thesis
    by (simp add: tiny_state_def low_share_def)
qed

lemma request_thinking_result:
  assumes "has_ledger (rp_sha p) (mw_dir w) i l"
  shows "wp (request_thinking p i sid d m rs)
    (\<lambda>al w'. \<exists>r. rq_subject_id r = i \<and> requested p r l al w')
    (\<lambda>e _. \<exists>m c. e = (c, m)) w"
  unfolding request_thinking_def Let_def
  using assms
  by (auto simp: wp_simps split: sum.split dest!: create_request_subject
      intro!: wp_conseq [OF request_resources_result])

text \<open>
  The thinking port's budget is well formed. \<open>allocate\<close> never fails on the invariants of
  \<open>TokenBudget\<close> itself, whatever has been used before; the budget it returns has
  session tokens within the remaining ones and these within the maximum.
\<close>

theorem allocated_budget_valid:
  assumes "has_ledger (rp_sha p) (mw_dir w) (bq_subject_id q) l" "0 \<le> rp_reserve p"
    and "snd (request_thinking p (bq_subject_id q) (given_or_uuid (bq_session_id q) (bq_wake_session_id q))
      (PStr (thinking_depth_value (bq_depth q))) (bq_model_name q) (bq_reason q) w) = Inr al"
  shows "\<exists>b. snd (allocate p q w) = Inr b \<and> tb_session_tokens b = rd_allocated_tokens (al_decision al) \<and>
    0 \<le> tb_session_tokens b \<and> tb_session_tokens b \<le> tb_remaining_tokens b \<and>
    tb_remaining_tokens b \<le> tb_maximum_tokens b \<and> tb_maximum_tokens b = rs_token_budget (lg_state l)"
proof -
  let ?run = "request_thinking p (bq_subject_id q) (given_or_uuid (bq_session_id q) (bq_wake_session_id q))
      (PStr (thinking_depth_value (bq_depth q))) (bq_model_name q) (bq_reason q)"
  obtain w' where run: "?run w = (w', Inr al)" using assms(3) by (cases "?run w") auto
  obtain r where r: "requested p r l al w'"
    using wp_result [OF request_thinking_result [OF assms(1)] run] by blast
  let ?d = "al_decision al"
  have wf: "wf_resource_state (lg_state l)" by (rule has_ledger_state [OF assms(1)])
  note r = r [unfolded requested_def Let_def decision_sound_def]
  have eq: "snd (allocate p q w) = (if \<not> rd_allowed ?d
      then token_budget_init (rs_token_budget (al_state al)) (rs_token_remaining (al_state al)) 0
        (case rd_approved_depth ?d of None \<Rightarrow> Depth_LOW | Some d \<Rightarrow> d)
      else token_budget_init (rs_token_budget (al_state al))
        (min (rs_token_budget (al_state al)) (rs_token_remaining (al_state al) + rd_allocated_tokens ?d))
        (rd_allocated_tokens ?d) (case rd_approved_depth ?d of None \<Rightarrow> Depth_LOW | Some d \<Rightarrow> d))"
    by (simp add: allocate_def sbind_def prog_simps run Let_def)
  show ?thesis
  proof (cases "rd_allowed ?d")
    case True
    have pt: "0 \<le> protected_tokens (rp_reserve p) (rs_token_budget (lg_state l))"
      using assms(2) wf by (simp add: protected_tokens_nonneg wf_resource_state_def)
    from True have a: "al_state al = charged_state (lg_state l) (usage_of p r ?d) (rp_update_at p)"
      "0 \<le> rd_allocated_tokens ?d" "rd_allocated_tokens ?d \<le> max 0 (rs_token_remaining (lg_state l)
         - protected_tokens (rp_reserve p) (rs_token_budget (lg_state l)))"
      using r by (auto simp: policy_fits_def Let_def wf_resource_decision_def)
    have "rs_token_budget (al_state al) = rs_token_budget (lg_state l)" "0 \<le> rs_token_remaining (al_state al)"
      by (simp_all add: a(1) charged_state_def Let_def)
    moreover have "rd_allocated_tokens ?d \<le> rs_token_budget (lg_state l)" "0 \<le> rs_token_budget (lg_state l)"
      using a(2,3) pt wf by (auto simp: wf_resource_state_def)
    ultimately show ?thesis
      using eq True a(2) by (auto simp: token_budget_init_def ensure_def)
  next
    case False
    then show ?thesis
      using eq r wf by (auto simp: token_budget_init_def wf_resource_state_def)
  qed
qed

lemma allocated_budget_valid_witness:
  "\<exists>(q :: token_budget_request) (b :: token_budget).
     snd (allocate tiny_ports q tiny_world) = Inr b \<and> tb_remaining_tokens b \<le> 1000"
proof -
  let ?q = "\<lparr>bq_subject_id = ''s'', bq_wake_session_id = ''n1'', bq_depth = Depth_DEEP,
    bq_requested_at = Abs_instant 0, bq_session_id = None, bq_model_name = ''m'', bq_reason = ''why''\<rparr>"
  let ?r = "tiny_request\<lparr>rq_request_id := ''u1''\<rparr>"
  have h: "has_ledger (rp_sha tiny_ports) (mw_dir tiny_world) (bq_subject_id ?q) tiny_ledger"
    "has_ledger (rp_sha tiny_ports) (mw_dir tiny_world) (rq_subject_id ?r) tiny_ledger"
    using tiny_has by (simp_all add: tiny_request_def)
  have r: "wf_resource_request ?r" "fresh_for tiny_ports ?r tiny_ledger"
    using tiny_request_ok tiny_fresh(1)
    by (simp_all add: wf_resource_request_def fresh_for_def tiny_ledger_def blank_def py_space_def Let_def)
  have "create_request tiny_ports ''s'' ''n1'' Session_THINKING (PInt 4096) (PInt 4) ''m'' ''why'' (Some Depth_DEEP) = Inr ?r"
    using resource_request_init_args [OF r(1)]
    by (simp add: create_request_def resource_request_args_of_def tiny_request_def tiny_ports_def)
  then have run: "request_thinking tiny_ports ''s'' ''n1'' (PStr ''DEEP'') ''m'' ''why'' tiny_world
      = request_resources tiny_ports ?r tiny_world"
    by (simp add: request_thinking_def sbind_def prog_simps require_enum_def Let_def)
  obtain w' al where "request_resources tiny_ports ?r tiny_world = (w', Inr al)"
    using request_resources_answers [OF h(2) r tiny_fresh(2)] by blast
  then have "snd (request_thinking tiny_ports (bq_subject_id ?q)
      (given_or_uuid (bq_session_id ?q) (bq_wake_session_id ?q)) (PStr (thinking_depth_value (bq_depth ?q)))
      (bq_model_name ?q) (bq_reason ?q) tiny_world) = Inr al"
    by (simp add: run given_or_uuid_def)
  from allocated_budget_valid [OF h(1) tiny_reserve this] show ?thesis
  proof (elim exE conjE)
    fix b :: token_budget
    assume b: "snd (allocate tiny_ports ?q tiny_world) = Inr b" "tb_remaining_tokens b \<le> tb_maximum_tokens b"
      "tb_maximum_tokens b = rs_token_budget (lg_state tiny_ledger)"
    have "rs_token_budget (lg_state tiny_ledger) = 1000" by (simp add: tiny_ledger_def tiny_state_def)
    with b(2,3) have "tb_remaining_tokens b \<le> 1000" by linarith
    with b(1) show ?thesis by (intro exI conjI)
  qed
qed

text \<open>
  Subjects are isolated. A request for one subject changes no file but that subject's, and
  nothing at all when that subject's document does not load; the ledger of any other subject
  is as it was.
\<close>

theorem subjects_isolated:
  assumes "has_ledger (rp_sha p) (mw_dir w) i l" "i \<noteq> rq_subject_id r"
  shows "has_ledger (rp_sha p) (mw_dir (fst (request_resources p r w))) i l \<and>
    (\<forall>x. x \<noteq> rp_sha p (rq_subject_id r) \<longrightarrow> mw_dir (fst (request_resources p r w)) x = mw_dir w x)"
proof -
  have at: "only_at p (rq_subject_id r) (mw_dir w) (fst (request_resources p r w))"
    by (rule wp_state [OF request_resources_at])
  have "mw_dir (fst (request_resources p r w)) (rp_sha p i) = mw_dir w (rp_sha p i)"
  proof (cases "rp_sha p i = rp_sha p (rq_subject_id r)")
    case True
    then have "\<forall>s. resource_load (rp_sha p) (rq_subject_id r) (mw_dir w) \<noteq> Inr s"
      using same_path_same_subject [OF assms(1)] assms(2) by metis
    then show ?thesis using at by (simp add: only_at_def)
  qed (use at in \<open>simp add: only_at_def\<close>)
  then show ?thesis
    using assms(1) at has_ledger_cong [of "mw_dir (fst (request_resources p r w))" "rp_sha p" i "mw_dir w"]
    by (simp add: only_at_def)
qed

lemma subjects_isolated_witness:
  "has_ledger (rp_sha tiny_ports) (mw_dir (fst (request_resources tiny_ports
     (tiny_request\<lparr>rq_subject_id := ''other''\<rparr>) tiny_world))) ''s'' tiny_ledger"
  using subjects_isolated [of tiny_ports tiny_world "''s''" tiny_ledger "tiny_request\<lparr>rq_subject_id := ''other''\<rparr>"]
    tiny_has by (simp add: tiny_request_def)

end
