(* ===== verification/Py_Json.thy ===== *)
theory Py_Json
  imports Py_Docs
begin

text \<open>
  What the code asks of JSON values: whether \<open>json.dumps\<close> accepts a value, Python's \<open>==\<close> on
  decoded documents, and the integer an \<open>isinstance(v, int)\<close> check lets through.
\<close>

section \<open>Encodable values\<close>

text \<open>\<open>json.dumps(value)\<close> raises \<open>TypeError\<close> on a datetime, at any depth.\<close>

fun json_ok :: "pyval \<Rightarrow> bool" where
  "json_ok (PTime _ _) = False"
| "json_ok (PList xs) = list_all json_ok xs"
| "json_ok (PTuple xs) = list_all json_ok xs"
| "json_ok (PDict d) = list_all (\<lambda>(k, v). json_ok v) d"
| "json_ok _ = True"

text \<open>
  \<open>isinstance(v, int)\<close> also holds of a \<open>bool\<close>, which is the integer 1 or 0 in every
  comparison and sum of the code; the model keeps that integer.
\<close>

fun as_int :: "pyval \<Rightarrow> int option" where
  "as_int (PInt n) = Some n"
| "as_int (PBool b) = Some (if b then 1 else 0)"
| "as_int _ = None"

text \<open>The value of a number, for the comparisons of the code.\<close>

fun as_num :: "pyval \<Rightarrow> rat option" where
  "as_num (PInt n) = Some (of_int n)"
| "as_num (PBool b) = Some (if b then 1 else 0)"
| "as_num (PFloat q) = Some q"
| "as_num _ = None"

section \<open>Equality\<close>

lemma size_zip_left: "(x, y) \<in> set (zip xs ys) \<Longrightarrow> size x \<le> size_list size xs"
  by (auto dest: set_zip_leftD intro: size_list_estimation')

lemma size_entry: "(k :: string, v :: pyval) \<in> set d \<Longrightarrow> size v \<le> size_list (size_prod (\<lambda>_. 0) size) d"
  by (auto intro: size_list_estimation' [where f = "size_prod (\<lambda>_. 0) size"])

text \<open>
  \<open>==\<close> of dictionaries looks at the values by key, whatever the order of the keys; numbers
  compare by value, so that \<open>True == 1\<close>.
\<close>

function (sequential) py_eq :: "pyval \<Rightarrow> pyval \<Rightarrow> bool" where
  "py_eq (PStr s) v = (v = PStr s)"
| "py_eq PNone v = (v = PNone)"
| "py_eq (PTime w z) v = (case v of PTime w' z' \<Rightarrow> (case (z, z') of
       (Some a, Some b) \<Rightarrow> usec w - a = usec w' - b
     | (None, None) \<Rightarrow> w = w'
     | _ \<Rightarrow> False) | _ \<Rightarrow> False)"
| "py_eq (PList xs) v = (case v of
     PList ys \<Rightarrow> length xs = length ys \<and> list_all (\<lambda>(x, y). py_eq x y) (zip xs ys) | _ \<Rightarrow> False)"
| "py_eq (PTuple xs) v = (case v of
     PTuple ys \<Rightarrow> length xs = length ys \<and> list_all (\<lambda>(x, y). py_eq x y) (zip xs ys) | _ \<Rightarrow> False)"
| "py_eq (PDict d) v = (case v of
     PDict e \<Rightarrow> list_all (\<lambda>(k, x). case map_of e k of None \<Rightarrow> False | Some y \<Rightarrow> py_eq x y) d \<and>
       list_all (\<lambda>(k, x). map_of d k \<noteq> None) e
     | _ \<Rightarrow> False)"
| "py_eq u v = (as_num u = as_num v)"
  by pat_completeness auto

termination
  by (relation "measure (\<lambda>(u, v). size u)") (auto dest!: size_zip_left size_entry)

end
