(* ===== verification/Events.thy ===== *)
theory Events
  imports Py_Json "HOL-Library.Product_Lexorder" "HOL-Library.Multiset"
begin

text \<open>
  domain/events.py: the events that change a subject's state, the field changes they cause and
  the update record that binds both to a revision. Constructors take unvalidated arguments and
  return a typed record or the exception the code raises; datetimes are kept as the UTC instant
  they denote (the code normalises them on construction). Lists of mutations, evidence and
  references are lists of such records, as the annotations of the code say.
\<close>

section \<open>Enumerations and checks\<close>

datatype state_section = Sec_IDENTITY | Sec_RELATIONSHIP | Sec_CONTINUITY | Sec_TEMPORAL
  | Sec_INTENTIONS | Sec_EMOTION_STATE

datatype change_operation = Op_SET | Op_APPEND | Op_REMOVE

datatype event_classification = Cls_LEGACY | Cls_FACT | Cls_OBSERVATION | Cls_INTENTION
  | Cls_INTERACTION | Cls_STATE_CHANGE | Cls_CORRECTION | Cls_REVOCATION

datatype event_source_kind = Src_LEGACY | Src_INTERNAL | Src_USER | Src_SYSTEM | Src_PLATFORM
  | Src_EXTERNAL | Src_TEST

datatype event_time_basis = Basis_EXPLICIT | Basis_PARTIALLY_COALESCED | Basis_LEGACY_COALESCED

datatype event_relation_type = Rel_CAUSED_BY | Rel_CORRECTS | Rel_REVOKES

fun section_value :: "state_section \<Rightarrow> string" where
  "section_value Sec_IDENTITY = ''identity''"
| "section_value Sec_RELATIONSHIP = ''relationship''"
| "section_value Sec_CONTINUITY = ''continuity''"
| "section_value Sec_TEMPORAL = ''temporal''"
| "section_value Sec_INTENTIONS = ''intentions''"
| "section_value Sec_EMOTION_STATE = ''emotion_state''"

fun operation_value :: "change_operation \<Rightarrow> string" where
  "operation_value Op_SET = ''set''"
| "operation_value Op_APPEND = ''append''"
| "operation_value Op_REMOVE = ''remove''"

fun classification_value :: "event_classification \<Rightarrow> string" where
  "classification_value Cls_LEGACY = ''legacy''"
| "classification_value Cls_FACT = ''fact''"
| "classification_value Cls_OBSERVATION = ''observation''"
| "classification_value Cls_INTENTION = ''intention''"
| "classification_value Cls_INTERACTION = ''interaction''"
| "classification_value Cls_STATE_CHANGE = ''state_change''"
| "classification_value Cls_CORRECTION = ''correction''"
| "classification_value Cls_REVOCATION = ''revocation''"

fun source_kind_value :: "event_source_kind \<Rightarrow> string" where
  "source_kind_value Src_LEGACY = ''legacy''"
| "source_kind_value Src_INTERNAL = ''internal''"
| "source_kind_value Src_USER = ''user''"
| "source_kind_value Src_SYSTEM = ''system''"
| "source_kind_value Src_PLATFORM = ''platform''"
| "source_kind_value Src_EXTERNAL = ''external''"
| "source_kind_value Src_TEST = ''test''"

fun time_basis_value :: "event_time_basis \<Rightarrow> string" where
  "time_basis_value Basis_EXPLICIT = ''explicit''"
| "time_basis_value Basis_PARTIALLY_COALESCED = ''partially_coalesced''"
| "time_basis_value Basis_LEGACY_COALESCED = ''legacy_coalesced''"

fun relation_type_value :: "event_relation_type \<Rightarrow> string" where
  "relation_type_value Rel_CAUSED_BY = ''caused_by''"
| "relation_type_value Rel_CORRECTS = ''corrects''"
| "relation_type_value Rel_REVOKES = ''revokes''"

abbreviation state_invalid :: "string \<Rightarrow> exn" where
  "state_invalid m \<equiv> (StateValidationError, m)"

definition event_text :: "pyval \<Rightarrow> string \<Rightarrow> string res" where
  "event_text v name = require_text StateValidationError v name"

definition event_text_optional :: "pyval \<Rightarrow> string \<Rightarrow> string option res" where
  "event_text_optional v name = optional_text StateValidationError v name"

definition event_parse_datetime :: "pyval \<Rightarrow> string \<Rightarrow> pyval res" where
  "event_parse_datetime v name = (case v of
       PStr s \<Rightarrow> (case fromisoformat (replace_Z s) of
         None \<Rightarrow> Inl (state_invalid (name @ '' is not a valid ISO-8601 datetime''))
       | Some (w, None) \<Rightarrow> Inl (state_invalid (name @ '' must include a timezone''))
       | Some (w, Some off) \<Rightarrow> Inr (PTime w (Some off)))
     | _ \<Rightarrow> Inl (state_invalid (name @ '' must be an ISO-8601 string'')))"

definition normalize_utc :: "pyval \<Rightarrow> string \<Rightarrow> instant res" where
  "normalize_utc v name = (case v of
       PTime w z \<Rightarrow> require_aware (state_invalid (name @ '' must include a timezone'')) v
     | _ \<Rightarrow> Inl (state_invalid (name @ '' must include a timezone'')))"

definition validate_json_value :: "pyval \<Rightarrow> string \<Rightarrow> pyval res" where
  "validate_json_value v name = rbind (ensure (json_ok v)
     (state_invalid (name @ '' must contain JSON-compatible data''))) (\<lambda>_. Inr v)"

definition event_section :: "exn \<Rightarrow> pyval \<Rightarrow> state_section res" where
  "event_section e v = require_enum e section_value [Sec_IDENTITY, Sec_RELATIONSHIP,
     Sec_CONTINUITY, Sec_TEMPORAL, Sec_INTENTIONS, Sec_EMOTION_STATE] v"

definition event_operation :: "exn \<Rightarrow> pyval \<Rightarrow> change_operation res" where
  "event_operation e v = require_enum e operation_value [Op_SET, Op_APPEND, Op_REMOVE] v"

definition event_classification_of :: "pyval \<Rightarrow> event_classification res" where
  "event_classification_of v = require_enum (state_invalid ''event.classification is not supported'')
     classification_value [Cls_LEGACY, Cls_FACT, Cls_OBSERVATION, Cls_INTENTION, Cls_INTERACTION,
       Cls_STATE_CHANGE, Cls_CORRECTION, Cls_REVOCATION] v"

definition event_source_kind_of :: "pyval \<Rightarrow> event_source_kind res" where
  "event_source_kind_of v = require_enum (state_invalid ''event.source_kind is not supported'')
     source_kind_value [Src_LEGACY, Src_INTERNAL, Src_USER, Src_SYSTEM, Src_PLATFORM, Src_EXTERNAL,
       Src_TEST] v"

definition event_time_basis_of :: "pyval \<Rightarrow> event_time_basis res" where
  "event_time_basis_of v = require_enum (state_invalid ''event.time_basis is not supported'')
     time_basis_value [Basis_EXPLICIT, Basis_PARTIALLY_COALESCED, Basis_LEGACY_COALESCED] v"

definition event_relation_of :: "pyval \<Rightarrow> event_relation_type res" where
  "event_relation_of v = require_enum (state_invalid ''event_reference.relation_type is not supported'')
     relation_type_value [Rel_CAUSED_BY, Rel_CORRECTS, Rel_REVOKES] v"

lemma event_text_Inr: "event_text v n = Inr s \<longleftrightarrow> v = PStr s \<and> \<not> blank s"
  by (simp add: event_text_def require_text_eq_Inr)

lemma event_text_optional_Inr:
  "event_text_optional v n = Inr x \<longleftrightarrow> v = opt_val PStr x \<and> (\<forall>s. x = Some s \<longrightarrow> \<not> blank s)"
  by (simp add: event_text_optional_def optional_text_eq_Inr)

lemma event_text_run:
  "\<not> blank s \<Longrightarrow> event_text (PStr s) n = Inr s"
  "\<forall>s. x = Some s \<longrightarrow> \<not> blank s \<Longrightarrow> event_text_optional (opt_val PStr x) n = Inr x"
  by (simp_all add: event_text_Inr event_text_optional_Inr)

lemma event_parse_format [simp]: "event_parse_datetime (PStr (format_z t)) n = Inr (utc_val t)"
  by (simp add: event_parse_datetime_def)

lemma normalize_utc_run [simp]: "normalize_utc (utc_val t) n = Inr t"
  by (simp add: normalize_utc_def)

lemma validate_json_Inr: "validate_json_value v n = Inr u \<longleftrightarrow> json_ok v \<and> u = v"
  by (auto simp: validate_json_value_def ensure_def)

lemma event_enum_run [simp]:
  "event_section e (PStr (section_value s)) = Inr s"
  "event_operation e (PStr (operation_value p)) = Inr p"
  "event_classification_of (PStr (classification_value c)) = Inr c"
  "event_source_kind_of (PStr (source_kind_value k)) = Inr k"
  "event_time_basis_of (PStr (time_basis_value b)) = Inr b"
  "event_relation_of (PStr (relation_type_value r)) = Inr r"
  subgoal unfolding event_section_def by (rule require_enum_PStr) (cases s, auto)
  subgoal unfolding event_operation_def by (rule require_enum_PStr) (cases p, auto)
  subgoal unfolding event_classification_of_def by (rule require_enum_PStr) (cases c, auto)
  subgoal unfolding event_source_kind_of_def by (rule require_enum_PStr) (cases k, auto)
  subgoal unfolding event_time_basis_of_def by (rule require_enum_PStr) (cases b, auto)
  subgoal unfolding event_relation_of_def by (rule require_enum_PStr) (cases r, auto)
  done

section \<open>Mutations, evidence and references\<close>

record state_mutation =
  sm_field_path :: string
  sm_operation :: change_operation
  sm_value :: pyval
  sm_reason :: string

definition state_mutation_init :: "pyval \<Rightarrow> pyval \<Rightarrow> pyval \<Rightarrow> pyval \<Rightarrow> state_mutation res" where
  "state_mutation_init field_path operation value reason =
     rbind (event_text field_path ''mutation.field_path'') (\<lambda>field_path.
     rbind (ensure (CHR ''.'' \<in> set field_path)
       (state_invalid ''mutation.field_path must include a state section'')) (\<lambda>_.
     rbind (event_operation (state_invalid ''mutation.operation is not supported'') operation) (\<lambda>operation.
     rbind (validate_json_value value ''mutation.value'') (\<lambda>value.
     rbind (event_text reason ''mutation.reason'') (\<lambda>reason.
     Inr \<lparr>sm_field_path = field_path, sm_operation = operation, sm_value = value, sm_reason = reason\<rparr>)))))"

definition wf_mutation :: "state_mutation \<Rightarrow> bool" where
  "wf_mutation m \<longleftrightarrow> \<not> blank (sm_field_path m) \<and> CHR ''.'' \<in> set (sm_field_path m) \<and>
     json_ok (sm_value m) \<and> \<not> blank (sm_reason m)"

definition state_mutation_to_dict :: "state_mutation \<Rightarrow> pyval" where
  "state_mutation_to_dict m = PDict
     [(''field_path'', PStr (sm_field_path m)),
      (''operation'', PStr (operation_value (sm_operation m))),
      (''value'', sm_value m),
      (''reason'', PStr (sm_reason m))]"

definition state_mutation_from_dict :: "pyval \<Rightarrow> state_mutation res" where
  "state_mutation_from_dict value = (case value of PDict d \<Rightarrow>
       state_mutation_init (dict_get d ''field_path'') (dict_get d ''operation'')
         (dict_get d ''value'') (dict_get d ''reason'')
     | _ \<Rightarrow> Inl (state_invalid ''mutation must be an object''))"

lemma state_mutation_init_wf: "state_mutation_init a b c d = Inr m \<Longrightarrow> wf_mutation m"
  unfolding state_mutation_init_def
  by (elim rbindE) (auto simp: wf_mutation_def event_text_Inr validate_json_Inr)

lemma state_mutation_from_dict_wf: "state_mutation_from_dict v = Inr m \<Longrightarrow> wf_mutation m"
  by (auto simp: state_mutation_from_dict_def dest: state_mutation_init_wf split: pyval.splits)

lemma state_mutation_roundtrip:
  "wf_mutation m \<Longrightarrow> state_mutation_from_dict (state_mutation_to_dict m) = Inr m"
  by (simp add: state_mutation_from_dict_def state_mutation_to_dict_def state_mutation_init_def
      wf_mutation_def event_text_run validate_json_value_def)

record event_evidence =
  ee_evidence_id :: string
  ee_evidence_type :: string
  ee_source :: "string option"

definition event_evidence_init :: "pyval \<Rightarrow> pyval \<Rightarrow> pyval \<Rightarrow> event_evidence res" where
  "event_evidence_init evidence_id evidence_type source =
     rbind (event_text evidence_id ''evidence.evidence_id'') (\<lambda>evidence_id.
     rbind (event_text evidence_type ''evidence.evidence_type'') (\<lambda>evidence_type.
     rbind (event_text_optional source ''evidence.source'') (\<lambda>source.
     Inr \<lparr>ee_evidence_id = evidence_id, ee_evidence_type = evidence_type, ee_source = source\<rparr>)))"

definition wf_evidence :: "event_evidence \<Rightarrow> bool" where
  "wf_evidence e \<longleftrightarrow> \<not> blank (ee_evidence_id e) \<and> \<not> blank (ee_evidence_type e) \<and>
     (\<forall>s. ee_source e = Some s \<longrightarrow> \<not> blank s)"

definition event_evidence_to_dict :: "event_evidence \<Rightarrow> pyval" where
  "event_evidence_to_dict e = PDict
     [(''evidence_id'', PStr (ee_evidence_id e)), (''evidence_type'', PStr (ee_evidence_type e)),
      (''source'', opt_val PStr (ee_source e))]"

definition event_evidence_from_dict :: "pyval \<Rightarrow> event_evidence res" where
  "event_evidence_from_dict value = (case value of PDict d \<Rightarrow>
       event_evidence_init (dict_get d ''evidence_id'') (dict_get d ''evidence_type'') (dict_get d ''source'')
     | _ \<Rightarrow> Inl (state_invalid ''event evidence reference must be an object''))"

lemma event_evidence_from_dict_wf: "event_evidence_from_dict v = Inr e \<Longrightarrow> wf_evidence e"
  by (auto simp: event_evidence_from_dict_def event_evidence_init_def rbind_eq_Inr wf_evidence_def
      event_text_Inr event_text_optional_Inr split: pyval.splits)

lemma event_evidence_roundtrip:
  "wf_evidence e \<Longrightarrow> event_evidence_from_dict (event_evidence_to_dict e) = Inr e"
  by (simp add: event_evidence_from_dict_def event_evidence_to_dict_def event_evidence_init_def
      wf_evidence_def event_text_run)

record event_reference =
  er_target_event_id :: string
  er_target_subject_id :: string
  er_relation_type :: event_relation_type

definition event_reference_init :: "pyval \<Rightarrow> pyval \<Rightarrow> pyval \<Rightarrow> event_reference res" where
  "event_reference_init target_event_id target_subject_id relation_type =
     rbind (event_text target_event_id ''event_reference.target_event_id'') (\<lambda>target_event_id.
     rbind (event_text target_subject_id ''event_reference.target_subject_id'') (\<lambda>target_subject_id.
     rbind (event_relation_of relation_type) (\<lambda>relation_type.
     Inr \<lparr>er_target_event_id = target_event_id, er_target_subject_id = target_subject_id,
       er_relation_type = relation_type\<rparr>)))"

definition wf_reference :: "event_reference \<Rightarrow> bool" where
  "wf_reference r \<longleftrightarrow> \<not> blank (er_target_event_id r) \<and> \<not> blank (er_target_subject_id r)"

definition event_reference_to_dict :: "event_reference \<Rightarrow> pyval" where
  "event_reference_to_dict r = PDict
     [(''target_event_id'', PStr (er_target_event_id r)),
      (''target_subject_id'', PStr (er_target_subject_id r)),
      (''relation_type'', PStr (relation_type_value (er_relation_type r)))]"

definition event_reference_from_dict :: "pyval \<Rightarrow> event_reference res" where
  "event_reference_from_dict value = (case value of PDict d \<Rightarrow>
       event_reference_init (dict_get d ''target_event_id'') (dict_get d ''target_subject_id'')
         (dict_get d ''relation_type'')
     | _ \<Rightarrow> Inl (state_invalid ''event reference must be an object''))"

lemma event_reference_from_dict_wf: "event_reference_from_dict v = Inr r \<Longrightarrow> wf_reference r"
  by (auto simp: event_reference_from_dict_def event_reference_init_def rbind_eq_Inr wf_reference_def
      event_text_Inr split: pyval.splits)

lemma event_reference_roundtrip:
  "wf_reference r \<Longrightarrow> event_reference_from_dict (event_reference_to_dict r) = Inr r"
  by (simp add: event_reference_from_dict_def event_reference_to_dict_def event_reference_init_def
      wf_reference_def event_text_run)

section \<open>Events\<close>

record event_args =
  ea_event_id :: pyval
  ea_occurred_at :: pyval
  ea_source :: pyval
  ea_event_type :: pyval
  ea_content :: pyval
  ea_impact_scope :: "pyval list"
  ea_mutations :: "state_mutation list"
  ea_reason :: pyval
  ea_metadata :: "(string \<times> pyval) list"
  ea_observed_at :: pyval
  ea_recorded_at :: pyval
  ea_time_basis :: pyval
  ea_classification :: pyval
  ea_source_kind :: pyval
  ea_source_event_id :: pyval
  ea_correlation_id :: pyval
  ea_evidence :: "event_evidence list"
  ea_references :: "event_reference list"

record event =
  ev_event_id :: string
  ev_occurred_at :: instant
  ev_source :: string
  ev_event_type :: string
  ev_content :: string
  ev_impact_scope :: "state_section list"
  ev_mutations :: "state_mutation list"
  ev_reason :: string
  ev_metadata :: "(string \<times> pyval) list"
  ev_observed_at :: instant
  ev_recorded_at :: instant
  ev_time_basis :: event_time_basis
  ev_classification :: event_classification
  ev_source_kind :: event_source_kind
  ev_source_event_id :: "string option"
  ev_correlation_id :: "string option"
  ev_evidence :: "event_evidence list"
  ev_references :: "event_reference list"

text \<open>
  The three times of an event and their basis: a missing \<open>observed_at\<close> is the occurrence, a
  missing \<open>recorded_at\<close> the observation; \<open>supplied\<close> is the \<open>time_basis\<close> argument.
\<close>

definition event_times ::
  "instant \<Rightarrow> instant option \<Rightarrow> instant option \<Rightarrow> pyval
     \<Rightarrow> (instant \<times> instant \<times> event_time_basis) res" where
  "event_times occurred observed_at recorded_at supplied =
     (let observed_missing = (observed_at = None); recorded_missing = (recorded_at = None);
          observed = (case observed_at of None \<Rightarrow> occurred | Some t \<Rightarrow> t);
          recorded = (case recorded_at of None \<Rightarrow> observed | Some t \<Rightarrow> t) in
     rbind (if supplied = PNone then Inr
         (if observed_missing \<and> recorded_missing then Basis_LEGACY_COALESCED
          else if observed_missing \<or> recorded_missing then Basis_PARTIALLY_COALESCED
          else Basis_EXPLICIT)
       else event_time_basis_of supplied) (\<lambda>basis.
     rbind (ensure (supplied \<noteq> PNone \<longrightarrow> \<not> (basis = Basis_EXPLICIT \<and> (observed_missing \<or> recorded_missing)))
       (state_invalid ''explicit time_basis requires observed_at and recorded_at'')) (\<lambda>_.
     rbind (ensure (supplied \<noteq> PNone \<longrightarrow>
         \<not> (basis = Basis_PARTIALLY_COALESCED \<and> observed_missing \<and> recorded_missing))
       (state_invalid ''partially_coalesced time_basis cannot omit both event times'')) (\<lambda>_.
     rbind (ensure (supplied \<noteq> PNone \<longrightarrow>
         \<not> (basis = Basis_PARTIALLY_COALESCED \<and> \<not> observed_missing \<and> \<not> recorded_missing
            \<and> \<not> (occurred = observed \<or> observed = recorded)))
       (state_invalid ''partially_coalesced event times must contain a coalesced pair'')) (\<lambda>_.
     rbind (ensure (supplied \<noteq> PNone \<longrightarrow>
         \<not> (basis = Basis_LEGACY_COALESCED \<and> observed_missing \<noteq> recorded_missing))
       (state_invalid ''legacy_coalesced time_basis requires both event times to be coalesced'')) (\<lambda>_.
     rbind (ensure (occurred \<le> observed \<and> observed \<le> recorded)
       (state_invalid ''event times must satisfy occurred_at <= observed_at <= recorded_at'')) (\<lambda>_.
     rbind (ensure (\<not> (basis = Basis_LEGACY_COALESCED \<and> \<not> (occurred = observed \<and> observed = recorded)))
       (state_invalid ''legacy_coalesced event times must all represent the same instant'')) (\<lambda>_.
     Inr (observed, recorded, basis)))))))))"

definition times_ok :: "instant \<Rightarrow> instant \<Rightarrow> instant \<Rightarrow> event_time_basis \<Rightarrow> bool" where
  "times_ok occurred observed recorded basis \<longleftrightarrow> occurred \<le> observed \<and> observed \<le> recorded \<and>
     (basis = Basis_PARTIALLY_COALESCED \<longrightarrow> occurred = observed \<or> observed = recorded) \<and>
     (basis = Basis_LEGACY_COALESCED \<longrightarrow> occurred = observed \<and> observed = recorded)"

text \<open>The message names the section by \<open>str\<close>, which the model writes out for a string.\<close>

definition unsupported_scope :: "pyval \<Rightarrow> exn" where
  "unsupported_scope v = state_invalid (''unsupported impact scope: '' @ (case v of PStr s \<Rightarrow> s | _ \<Rightarrow> []))"

definition evidence_key :: "event_evidence \<Rightarrow> string \<times> string" where
  "evidence_key e = (ee_evidence_type e, ee_evidence_id e)"

definition reference_key :: "event_reference \<Rightarrow> string \<times> string \<times> string" where
  "reference_key r = (relation_type_value (er_relation_type r), er_target_subject_id r, er_target_event_id r)"

definition related :: "event_relation_type \<Rightarrow> event_reference list \<Rightarrow> event_reference list" where
  "related rel rs = filter (\<lambda>r. er_relation_type r = rel) rs"

definition event_links :: "string \<Rightarrow> event_classification \<Rightarrow> event_evidence list \<Rightarrow> event_reference list \<Rightarrow> unit res" where
  "event_links event_id classification evidence references =
     rbind (ensure (distinct (map evidence_key evidence))
       (state_invalid ''event evidence references must be unique'')) (\<lambda>_.
     rbind (ensure (distinct (map reference_key references))
       (state_invalid ''event references must be unique'')) (\<lambda>_.
     rbind (ensure (\<not> list_ex (\<lambda>r. er_target_event_id r = event_id) references)
       (state_invalid ''an event cannot reference itself'')) (\<lambda>_.
     rbind (ensure (\<not> (classification = Cls_CORRECTION \<and> length (related Rel_CORRECTS references) \<noteq> 1))
       (state_invalid ''a correction event must reference exactly one target'')) (\<lambda>_.
     rbind (ensure (\<not> (classification = Cls_REVOCATION \<and> length (related Rel_REVOKES references) \<noteq> 1))
       (state_invalid ''a revocation event must reference exactly one target'')) (\<lambda>_.
     rbind (ensure (\<not> (related Rel_CORRECTS references \<noteq> [] \<and> classification \<noteq> Cls_CORRECTION))
       (state_invalid ''corrects references require correction classification'')) (\<lambda>_.
     ensure (\<not> (related Rel_REVOKES references \<noteq> [] \<and> classification \<noteq> Cls_REVOCATION))
       (state_invalid ''revokes references require revocation classification'')))))))"

definition event_init :: "event_args \<Rightarrow> event res" where
  "event_init a =
     rbind (event_text (ea_event_id a) ''event_id'') (\<lambda>event_id.
     rbind (normalize_utc (ea_occurred_at a) ''occurred_at'') (\<lambda>occurred.
     rbind (if ea_observed_at a = PNone then Inr None
       else rbind (normalize_utc (ea_observed_at a) ''observed_at'') (\<lambda>t. Inr (Some t))) (\<lambda>observed_at.
     rbind (if ea_recorded_at a = PNone then Inr None
       else rbind (normalize_utc (ea_recorded_at a) ''recorded_at'') (\<lambda>t. Inr (Some t))) (\<lambda>recorded_at.
     rbind (event_times occurred observed_at recorded_at (ea_time_basis a)) (\<lambda>(observed, recorded, basis).
     rbind (event_text (ea_source a) ''source'') (\<lambda>source.
     rbind (event_text (ea_event_type a) ''event_type'') (\<lambda>event_type.
     rbind (event_text (ea_content a) ''content'') (\<lambda>content.
     rbind (event_text (ea_reason a) ''reason'') (\<lambda>reason.
     rbind (ensure (ea_impact_scope a \<noteq> [])
       (state_invalid ''impact_scope must contain at least one state section'')) (\<lambda>_.
     rbind (rmap (\<lambda>v. event_section (unsupported_scope v) v) (ea_impact_scope a)) (\<lambda>sections.
     rbind (validate_json_value (PDict (ea_metadata a)) ''metadata'') (\<lambda>_.
     rbind (event_classification_of (ea_classification a)) (\<lambda>classification.
     rbind (event_source_kind_of (ea_source_kind a)) (\<lambda>source_kind.
     rbind (event_text_optional (ea_source_event_id a) ''source_event_id'') (\<lambda>source_event_id.
     rbind (event_text_optional (ea_correlation_id a) ''correlation_id'') (\<lambda>correlation_id.
     rbind (event_links event_id classification (ea_evidence a) (ea_references a)) (\<lambda>_.
     Inr \<lparr>ev_event_id = event_id, ev_occurred_at = occurred, ev_source = source,
       ev_event_type = event_type, ev_content = content, ev_impact_scope = fromkeys sections,
       ev_mutations = ea_mutations a, ev_reason = reason, ev_metadata = ea_metadata a,
       ev_observed_at = observed, ev_recorded_at = recorded, ev_time_basis = basis,
       ev_classification = classification, ev_source_kind = source_kind,
       ev_source_event_id = source_event_id, ev_correlation_id = correlation_id,
       ev_evidence = ea_evidence a, ev_references = ea_references a\<rparr>)))))))))))))))))"

definition derived_basis :: "pyval \<Rightarrow> pyval \<Rightarrow> event_time_basis" where
  "derived_basis observed_at recorded_at =
     (if observed_at = PNone \<and> recorded_at = PNone then Basis_LEGACY_COALESCED
      else if observed_at = PNone \<or> recorded_at = PNone then Basis_PARTIALLY_COALESCED
      else Basis_EXPLICIT)"

text \<open>\<open>Event.create\<close>: the event id of \<open>a\<close> is not looked at, \<open>event_id\<close> may be missing.\<close>

definition event_create :: "string option \<Rightarrow> string \<Rightarrow> event_args \<Rightarrow> event res" where
  "event_create event_id uuid a =
     (let derived = derived_basis (ea_observed_at a) (ea_recorded_at a) in
     rbind (if ea_time_basis a = PNone then Inr ()
       else rbind (event_time_basis_of (ea_time_basis a)) (\<lambda>basis.
         ensure (basis = derived)
           (state_invalid ''event.time_basis does not match the supplied event times''))) (\<lambda>_.
     event_init (a\<lparr>ea_event_id := PStr (given_or_uuid event_id uuid),
       ea_time_basis := PStr (time_basis_value derived)\<rparr>)))"

section \<open>The persisted form\<close>

definition event_fields :: "event \<Rightarrow> pyval list \<Rightarrow> pyval list \<Rightarrow> pyval list \<Rightarrow> (string \<times> pyval) list" where
  "event_fields e scope evidence references =
     [(''event_id'', PStr (ev_event_id e)),
      (''occurred_at'', PStr (format_z (ev_occurred_at e))),
      (''source'', PStr (ev_source e)),
      (''event_type'', PStr (ev_event_type e)),
      (''content'', PStr (ev_content e)),
      (''impact_scope'', PList scope),
      (''mutations'', PList (map state_mutation_to_dict (ev_mutations e))),
      (''reason'', PStr (ev_reason e)),
      (''metadata'', PDict (ev_metadata e)),
      (''observed_at'', PStr (format_z (ev_observed_at e))),
      (''recorded_at'', PStr (format_z (ev_recorded_at e))),
      (''time_basis'', PStr (time_basis_value (ev_time_basis e))),
      (''classification'', PStr (classification_value (ev_classification e))),
      (''source_kind'', PStr (source_kind_value (ev_source_kind e))),
      (''source_event_id'', opt_val PStr (ev_source_event_id e)),
      (''correlation_id'', opt_val PStr (ev_correlation_id e)),
      (''evidence'', PList evidence),
      (''references'', PList references)]"

definition event_to_dict :: "event \<Rightarrow> pyval" where
  "event_to_dict e = PDict (event_fields e
     (map (\<lambda>s. PStr (section_value s)) (ev_impact_scope e))
     (map event_evidence_to_dict (ev_evidence e))
     (map event_reference_to_dict (ev_references e)))"

text \<open>
  The sort keys of \<open>canonical_dict\<close>; a missing evidence source sorts as the empty string. The
  code sorts the dictionaries by the entries these keys read from the records.
\<close>

definition evidence_sort_key :: "event_evidence \<Rightarrow> string \<times> string \<times> string" where
  "evidence_sort_key e = (ee_evidence_type e, ee_evidence_id e, case ee_source e of None \<Rightarrow> [] | Some s \<Rightarrow> s)"

definition canonical_dict :: "event \<Rightarrow> pyval" where
  "canonical_dict e = PDict (event_fields e
     (map PStr (sort (map section_value (ev_impact_scope e))))
     (map event_evidence_to_dict (sort_key evidence_sort_key (ev_evidence e)))
     (map event_reference_to_dict (sort_key reference_key (ev_references e))))"

definition event_canonical_hash :: "digest_fun \<Rightarrow> event \<Rightarrow> string" where
  "event_canonical_hash sha e = canonical_hash sha (canonical_dict e)"

text \<open>\<open>if not isinstance(value, list): raise\<close>.\<close>

definition event_list :: "pyval \<Rightarrow> string \<Rightarrow> pyval list res" where
  "event_list v name = (case v of PList xs \<Rightarrow> Inr xs | _ \<Rightarrow> Inl (state_invalid (name @ '' must be a list'')))"

definition event_dict :: "pyval \<Rightarrow> string \<Rightarrow> (string \<times> pyval) list res" where
  "event_dict v name = (case v of PDict d \<Rightarrow> Inr d | _ \<Rightarrow> Inl (state_invalid (name @ '' must be an object'')))"

definition event_parse_optional :: "pyval \<Rightarrow> string \<Rightarrow> pyval res" where
  "event_parse_optional v name = (if v = PNone then Inr PNone else event_parse_datetime v name)"

text \<open>
  \<open>StateSection(section)\<close> in the comprehension of \<open>Event.from_dict\<close> is outside every \<open>try\<close>: an
  unsupported section is a \<open>ValueError\<close> there.
\<close>

definition event_from_dict :: "pyval \<Rightarrow> event res" where
  "event_from_dict value =
     rbind (event_dict value ''event'') (\<lambda>d.
     rbind (event_list (dict_get d ''impact_scope'') ''impact_scope'') (\<lambda>raw_scope.
     rbind (event_list (dict_get d ''mutations'') ''mutations'') (\<lambda>raw_mutations.
     rbind (event_dict (dict_get_or (PDict []) d ''metadata'') ''metadata'') (\<lambda>metadata.
     rbind (event_list (dict_get_or (PList []) d ''evidence'') ''event.evidence'') (\<lambda>raw_evidence.
     rbind (event_list (dict_get_or (PList []) d ''references'') ''event.references'') (\<lambda>raw_references.
     rbind (event_parse_datetime (dict_get d ''occurred_at'') ''occurred_at'') (\<lambda>occurred_at.
     rbind (rmap (event_section (ValueError, ''is not a valid StateSection'')) raw_scope) (\<lambda>scope.
     rbind (rmap state_mutation_from_dict raw_mutations) (\<lambda>mutations.
     rbind (event_parse_optional (dict_get d ''observed_at'') ''observed_at'') (\<lambda>observed_at.
     rbind (event_parse_optional (dict_get d ''recorded_at'') ''recorded_at'') (\<lambda>recorded_at.
     rbind (rmap event_evidence_from_dict raw_evidence) (\<lambda>evidence.
     rbind (rmap event_reference_from_dict raw_references) (\<lambda>references.
     event_init
       \<lparr>ea_event_id = dict_get d ''event_id'', ea_occurred_at = occurred_at,
        ea_source = dict_get d ''source'', ea_event_type = dict_get d ''event_type'',
        ea_content = dict_get d ''content'',
        ea_impact_scope = map (\<lambda>s. PStr (section_value s)) scope, ea_mutations = mutations,
        ea_reason = dict_get d ''reason'', ea_metadata = metadata, ea_observed_at = observed_at,
        ea_recorded_at = recorded_at, ea_time_basis = dict_get d ''time_basis'',
        ea_classification = dict_get_or (PStr ''legacy'') d ''classification'',
        ea_source_kind = dict_get_or (PStr ''legacy'') d ''source_kind'',
        ea_source_event_id = dict_get d ''source_event_id'',
        ea_correlation_id = dict_get d ''correlation_id'',
        ea_evidence = evidence, ea_references = references\<rparr>)))))))))))))"

section \<open>Well-formed events\<close>

definition links_ok :: "event \<Rightarrow> bool" where
  "links_ok e \<longleftrightarrow> distinct (map evidence_key (ev_evidence e)) \<and>
     distinct (map reference_key (ev_references e)) \<and>
     (\<forall>r \<in> set (ev_references e). er_target_event_id r \<noteq> ev_event_id e) \<and>
     length (related Rel_CORRECTS (ev_references e)) = (if ev_classification e = Cls_CORRECTION then 1 else 0) \<and>
     length (related Rel_REVOKES (ev_references e)) = (if ev_classification e = Cls_REVOCATION then 1 else 0)"

definition wf_event :: "event \<Rightarrow> bool" where
  "wf_event e \<longleftrightarrow> \<not> blank (ev_event_id e) \<and> \<not> blank (ev_source e) \<and> \<not> blank (ev_event_type e) \<and>
     \<not> blank (ev_content e) \<and> \<not> blank (ev_reason e) \<and>
     times_ok (ev_occurred_at e) (ev_observed_at e) (ev_recorded_at e) (ev_time_basis e) \<and>
     ev_impact_scope e \<noteq> [] \<and> distinct (ev_impact_scope e) \<and> json_ok (PDict (ev_metadata e)) \<and>
     (\<forall>s. ev_source_event_id e = Some s \<longrightarrow> \<not> blank s) \<and>
     (\<forall>s. ev_correlation_id e = Some s \<longrightarrow> \<not> blank s) \<and>
     list_all wf_mutation (ev_mutations e) \<and> list_all wf_evidence (ev_evidence e) \<and>
     list_all wf_reference (ev_references e) \<and> links_ok e"

lemma event_times_ok:
  "event_times oc ob re tb = Inr (ob', re', b) \<Longrightarrow> times_ok oc ob' re' b"
  by (auto simp: event_times_def rbind_eq_Inr times_ok_def Let_def split: if_splits option.splits)

lemma event_times_run:
  "times_ok oc ob re b \<Longrightarrow> event_times oc (Some ob) (Some re) (PStr (time_basis_value b)) = Inr (ob, re, b)"
  by (auto simp: event_times_def times_ok_def Let_def ensure_def)

lemma event_links_iff:
  "event_links i c ev rs = Inr u \<longleftrightarrow> distinct (map evidence_key ev) \<and> distinct (map reference_key rs) \<and>
     (\<forall>r \<in> set rs. er_target_event_id r \<noteq> i) \<and>
     length (related Rel_CORRECTS rs) = (if c = Cls_CORRECTION then 1 else 0) \<and>
     length (related Rel_REVOKES rs) = (if c = Cls_REVOCATION then 1 else 0)"
  by (auto simp: event_links_def rbind_eq_Inr list_ex_iff)

lemma event_init_wf:
  assumes "event_init a = Inr e" "list_all wf_mutation (ea_mutations a)"
    "list_all wf_evidence (ea_evidence a)" "list_all wf_reference (ea_references a)"
  shows "wf_event e"
  using assms unfolding event_init_def
  by (elim rbindE case_prodE)
    (auto simp: wf_event_def links_ok_def event_text_Inr event_text_optional_Inr validate_json_Inr
      event_links_iff rmap_eq_Inr simp del: json_ok.simps split: prod.splits elim!: rbindE dest!: event_times_ok)

definition event_args_of :: "event \<Rightarrow> event_args" where
  "event_args_of e =
     \<lparr>ea_event_id = PStr (ev_event_id e), ea_occurred_at = utc_val (ev_occurred_at e),
      ea_source = PStr (ev_source e), ea_event_type = PStr (ev_event_type e),
      ea_content = PStr (ev_content e),
      ea_impact_scope = map (\<lambda>s. PStr (section_value s)) (ev_impact_scope e),
      ea_mutations = ev_mutations e, ea_reason = PStr (ev_reason e), ea_metadata = ev_metadata e,
      ea_observed_at = utc_val (ev_observed_at e), ea_recorded_at = utc_val (ev_recorded_at e),
      ea_time_basis = PStr (time_basis_value (ev_time_basis e)),
      ea_classification = PStr (classification_value (ev_classification e)),
      ea_source_kind = PStr (source_kind_value (ev_source_kind e)),
      ea_source_event_id = opt_val PStr (ev_source_event_id e),
      ea_correlation_id = opt_val PStr (ev_correlation_id e),
      ea_evidence = ev_evidence e, ea_references = ev_references e\<rparr>"

lemma rmap_sections:
  "rmap (\<lambda>v. event_section (f v) v) (map (\<lambda>s. PStr (section_value s)) ss) = Inr ss"
  by (rule rmap_Inr_id) simp

lemma event_init_args:
  assumes "wf_event e"
  shows "event_init (event_args_of e) = Inr e"
proof -
  have "event_links (ev_event_id e) (ev_classification e) (ev_evidence e) (ev_references e) = Inr ()"
    using assms by (simp add: event_links_iff wf_event_def links_ok_def)
  with assms show ?thesis
    by (simp add: event_init_def event_args_of_def wf_event_def event_text_run event_times_run
        rmap_sections fromkeys_id validate_json_value_def del: json_ok.simps)
qed

lemma event_roundtrip:
  assumes "wf_event e"
  shows "event_from_dict (event_to_dict e) = Inr e"
proof -
  have "rmap state_mutation_from_dict (map state_mutation_to_dict (ev_mutations e)) = Inr (ev_mutations e)"
    "rmap event_evidence_from_dict (map event_evidence_to_dict (ev_evidence e)) = Inr (ev_evidence e)"
    "rmap event_reference_from_dict (map event_reference_to_dict (ev_references e)) = Inr (ev_references e)"
    using assms by (auto intro!: rmap_Inr_id
        simp: wf_event_def list_all_iff state_mutation_roundtrip event_evidence_roundtrip event_reference_roundtrip)
  with event_init_args [OF assms] show ?thesis
    by (simp add: event_from_dict_def event_to_dict_def event_fields_def event_dict_def event_list_def
        event_parse_optional_def rmap_sections event_args_of_def)
qed

lemma rmap_all: "rmap f xs = Inr ys \<Longrightarrow> (\<And>x y. f x = Inr y \<Longrightarrow> P y) \<Longrightarrow> list_all P ys"
  by (induction xs arbitrary: ys) (auto simp: rbind_eq_Inr)

lemma event_from_dict_wf: "event_from_dict v = Inr e \<Longrightarrow> wf_event e"
  unfolding event_from_dict_def
  by (elim rbindE, rule event_init_wf, assumption)
    (auto intro: rmap_all state_mutation_from_dict_wf event_evidence_from_dict_wf event_reference_from_dict_wf)

lemma event_create_wf:
  assumes "event_create i uuid a = Inr e" "list_all wf_mutation (ea_mutations a)"
    "list_all wf_evidence (ea_evidence a)" "list_all wf_reference (ea_references a)"
  shows "wf_event e"
  using assms by (auto simp: event_create_def Let_def rbind_eq_Inr split: if_splits intro: event_init_wf)

section \<open>Field changes and update records\<close>

record field_change =
  fc_field_path :: string
  fc_operation :: change_operation
  fc_before :: pyval
  fc_after :: pyval
  fc_reason :: string

definition wf_field_change :: "field_change \<Rightarrow> bool" where
  "wf_field_change c \<longleftrightarrow> \<not> blank (fc_field_path c) \<and> json_ok (fc_before c) \<and> json_ok (fc_after c) \<and>
     \<not> blank (fc_reason c)"

definition field_change_to_dict :: "field_change \<Rightarrow> pyval" where
  "field_change_to_dict c = PDict
     [(''field_path'', PStr (fc_field_path c)), (''operation'', PStr (operation_value (fc_operation c))),
      (''before'', fc_before c), (''after'', fc_after c), (''reason'', PStr (fc_reason c))]"

definition field_change_from_dict :: "pyval \<Rightarrow> field_change res" where
  "field_change_from_dict value =
     rbind (event_dict value ''field change'') (\<lambda>d.
     rbind (event_text (dict_get d ''field_path'') ''field_change.field_path'') (\<lambda>field_path.
     rbind (event_operation (ValueError, ''is not a valid ChangeOperation'') (dict_get d ''operation'')) (\<lambda>operation.
     rbind (validate_json_value (dict_get d ''before'') ''field_change.before'') (\<lambda>before.
     rbind (validate_json_value (dict_get d ''after'') ''field_change.after'') (\<lambda>after.
     rbind (event_text (dict_get d ''reason'') ''field_change.reason'') (\<lambda>reason.
     Inr \<lparr>fc_field_path = field_path, fc_operation = operation, fc_before = before, fc_after = after,
       fc_reason = reason\<rparr>))))))"

lemma field_change_roundtrip:
  "wf_field_change c \<Longrightarrow> field_change_from_dict (field_change_to_dict c) = Inr c"
  by (simp add: field_change_from_dict_def field_change_to_dict_def wf_field_change_def event_dict_def
      event_text_run validate_json_value_def)

lemma field_change_from_dict_wf: "field_change_from_dict v = Inr c \<Longrightarrow> wf_field_change c"
  unfolding field_change_from_dict_def
  by (elim rbindE) (auto simp: wf_field_change_def event_text_Inr validate_json_Inr)

record state_update =
  su_update_id :: string
  su_subject_id :: string
  su_event :: event
  su_applied_at :: instant
  su_before_revision :: int
  su_after_revision :: int
  su_changes :: "field_change list"
  su_reason :: string

definition state_update_init ::
  "pyval \<Rightarrow> pyval \<Rightarrow> event \<Rightarrow> pyval \<Rightarrow> int \<Rightarrow> int \<Rightarrow> field_change list \<Rightarrow> pyval \<Rightarrow> state_update res" where
  "state_update_init update_id subject_id event applied_at before_revision after_revision changes reason =
     rbind (event_text update_id ''update_id'') (\<lambda>update_id.
     rbind (event_text subject_id ''subject_id'') (\<lambda>subject_id.
     rbind (normalize_utc applied_at ''applied_at'') (\<lambda>applied_at.
     rbind (ensure (\<not> (ev_time_basis event = Basis_EXPLICIT \<and> applied_at < ev_recorded_at event))
       (state_invalid ''an explicit event recorded_at cannot be later than update.applied_at'')) (\<lambda>_.
     rbind (ensure (\<not> (before_revision < 0 \<or> after_revision < before_revision))
       (state_invalid ''update revisions are invalid'')) (\<lambda>_.
     rbind (event_text reason ''update.reason'') (\<lambda>reason.
     Inr \<lparr>su_update_id = update_id, su_subject_id = subject_id, su_event = event,
       su_applied_at = applied_at, su_before_revision = before_revision,
       su_after_revision = after_revision, su_changes = changes, su_reason = reason\<rparr>))))))"

definition wf_state_update :: "state_update \<Rightarrow> bool" where
  "wf_state_update u \<longleftrightarrow> \<not> blank (su_update_id u) \<and> \<not> blank (su_subject_id u) \<and> wf_event (su_event u) \<and>
     (ev_time_basis (su_event u) = Basis_EXPLICIT \<longrightarrow> ev_recorded_at (su_event u) \<le> su_applied_at u) \<and>
     0 \<le> su_before_revision u \<and> su_before_revision u \<le> su_after_revision u \<and>
     list_all wf_field_change (su_changes u) \<and> \<not> blank (su_reason u)"

definition state_update_to_dict :: "state_update \<Rightarrow> pyval" where
  "state_update_to_dict u = PDict
     [(''update_id'', PStr (su_update_id u)), (''subject_id'', PStr (su_subject_id u)),
      (''event'', event_to_dict (su_event u)), (''applied_at'', PStr (format_z (su_applied_at u))),
      (''before_revision'', PInt (su_before_revision u)),
      (''after_revision'', PInt (su_after_revision u)),
      (''changes'', PList (map field_change_to_dict (su_changes u))), (''reason'', PStr (su_reason u))]"

definition state_update_from_dict :: "pyval \<Rightarrow> state_update res" where
  "state_update_from_dict value =
     rbind (event_dict value ''state update record'') (\<lambda>d.
     rbind (event_list (dict_get d ''changes'') ''update.changes'') (\<lambda>raw_changes.
     case (as_int (dict_get d ''before_revision''), as_int (dict_get d ''after_revision'')) of
       (Some before_revision, Some after_revision) \<Rightarrow>
         rbind (event_from_dict (dict_get d ''event'')) (\<lambda>event.
         rbind (event_parse_datetime (dict_get d ''applied_at'') ''applied_at'') (\<lambda>applied_at.
         rbind (rmap field_change_from_dict raw_changes) (\<lambda>changes.
         state_update_init (dict_get d ''update_id'') (dict_get d ''subject_id'') event applied_at
           before_revision after_revision changes (dict_get d ''reason''))))
     | _ \<Rightarrow> Inl (state_invalid ''update revisions must be integers'')))"

lemma state_update_roundtrip:
  assumes "wf_state_update u"
  shows "state_update_from_dict (state_update_to_dict u) = Inr u"
proof -
  have "rmap field_change_from_dict (map field_change_to_dict (su_changes u)) = Inr (su_changes u)"
    using assms by (intro rmap_Inr_id) (simp add: wf_state_update_def list_all_iff field_change_roundtrip)
  with assms show ?thesis
    by (simp add: state_update_from_dict_def state_update_to_dict_def event_dict_def event_list_def
        state_update_init_def wf_state_update_def event_text_run event_roundtrip ensure_def not_less)
qed

lemma state_update_from_dict_wf: "state_update_from_dict v = Inr u \<Longrightarrow> wf_state_update u"
  unfolding state_update_from_dict_def state_update_init_def
  by (elim rbindE)
    (auto simp: wf_state_update_def event_text_Inr rbind_eq_Inr dest: event_from_dict_wf
      intro: rmap_all field_change_from_dict_wf split: option.splits)

end
