(* ===== verification/Event_Properties.thy ===== *)
theory Event_Properties
  imports Events
begin

text \<open>
  What the rest of the engine relies on in an event: its record is valid whoever built it, it
  survives storage, and its canonical form, whose digest is the event's identity, depends on its
  content and not on the order in which evidence, references and sections were listed.
\<close>

section \<open>Injectivity of the persisted forms\<close>

lemma section_value_inj: "section_value s = section_value t \<longleftrightarrow> s = t"
  by (cases s; cases t) auto

lemma operation_value_inj: "operation_value s = operation_value t \<longleftrightarrow> s = t"
  by (cases s; cases t) auto

lemma classification_value_inj: "classification_value s = classification_value t \<longleftrightarrow> s = t"
  by (cases s; cases t) auto

lemma source_kind_value_inj: "source_kind_value s = source_kind_value t \<longleftrightarrow> s = t"
  by (cases s; cases t) auto

lemma time_basis_value_inj: "time_basis_value s = time_basis_value t \<longleftrightarrow> s = t"
  by (cases s; cases t) auto

lemma relation_type_value_inj: "relation_type_value s = relation_type_value t \<longleftrightarrow> s = t"
  by (cases s; cases t) auto

lemmas event_value_inj = section_value_inj operation_value_inj classification_value_inj
  source_kind_value_inj time_basis_value_inj relation_type_value_inj

lemma opt_val_PStr_inj: "opt_val PStr x = opt_val PStr y \<longleftrightarrow> x = y"
  by (cases x; cases y) simp_all

lemma to_dict_inj:
  "inj state_mutation_to_dict" "inj event_evidence_to_dict" "inj event_reference_to_dict"
  by (rule injI; simp add: state_mutation_to_dict_def event_evidence_to_dict_def
      event_reference_to_dict_def event_value_inj opt_val_PStr_inj)+

section \<open>Order-free lists\<close>

lemma sort_key_canonical:
  assumes "inj_on f (set xs)"
  shows "sort_key f xs = sort_key f ys \<longleftrightarrow> mset xs = mset ys"
proof
  assume "sort_key f xs = sort_key f ys"
  then show "mset xs = mset ys" by (metis mset_sort)
next
  assume "mset xs = mset ys"
  then show "sort_key f xs = sort_key f ys"
    using assms by (intro sort_key_inj_key_eq) simp_all
qed

lemma evidence_sort_key_inj:
  assumes "distinct (map evidence_key xs)"
  shows "inj_on evidence_sort_key (set xs)"
proof (rule inj_onI)
  fix e f assume e: "e \<in> set xs" "f \<in> set xs" "evidence_sort_key e = evidence_sort_key f"
  then have "evidence_key e = evidence_key f" by (simp add: evidence_sort_key_def evidence_key_def)
  with e(1,2) assms show "e = f" by (auto simp: distinct_map dest: inj_onD)
qed

lemma section_sort_canonical:
  "sort (map section_value ss) = sort (map section_value ts) \<longleftrightarrow> mset ss = mset ts"
proof -
  have "mset (map section_value ss) = mset (map section_value ts) \<longleftrightarrow> mset ss = mset ts"
    using multiset.inj_map [of section_value] section_value_inj by (auto simp: inj_def)
  then show ?thesis using sort_key_canonical [of "\<lambda>x. x" "map section_value ss" "map section_value ts"] by simp
qed

text \<open>Two events with the same content, listed in any order.\<close>

definition same_content :: "event \<Rightarrow> event \<Rightarrow> bool" where
  "same_content e f \<longleftrightarrow> mset (ev_impact_scope e) = mset (ev_impact_scope f) \<and>
     mset (ev_evidence e) = mset (ev_evidence f) \<and> mset (ev_references e) = mset (ev_references f) \<and>
     f = e\<lparr>ev_impact_scope := ev_impact_scope f, ev_evidence := ev_evidence f, ev_references := ev_references f\<rparr>"

section \<open>A concrete event\<close>

definition demo_event_args :: event_args where
  "demo_event_args =
     \<lparr>ea_event_id = PNone, ea_occurred_at = utc_val (Abs_instant 0), ea_source = PStr ''user'',
      ea_event_type = PStr ''note'', ea_content = PStr ''a fact'',
      ea_impact_scope = [PStr ''continuity'', PStr ''identity'', PStr ''continuity''],
      ea_mutations = [], ea_reason = PStr ''said so'', ea_metadata = [], ea_observed_at = PNone,
      ea_recorded_at = PNone, ea_time_basis = PNone, ea_classification = PStr ''correction'',
      ea_source_kind = PStr ''user'', ea_source_event_id = PNone, ea_correlation_id = PNone,
      ea_evidence =
        [\<lparr>ee_evidence_id = ''2'', ee_evidence_type = ''log'', ee_source = None\<rparr>,
         \<lparr>ee_evidence_id = ''1'', ee_evidence_type = ''log'', ee_source = None\<rparr>],
      ea_references = [\<lparr>er_target_event_id = ''old'', er_target_subject_id = ''s'', er_relation_type = Rel_CORRECTS\<rparr>]\<rparr>"

definition demo_event :: event where
  "demo_event =
     \<lparr>ev_event_id = ''e1'', ev_occurred_at = Abs_instant 0, ev_source = ''user'', ev_event_type = ''note'',
      ev_content = ''a fact'', ev_impact_scope = [Sec_CONTINUITY, Sec_IDENTITY], ev_mutations = [],
      ev_reason = ''said so'', ev_metadata = [], ev_observed_at = Abs_instant 0,
      ev_recorded_at = Abs_instant 0, ev_time_basis = Basis_LEGACY_COALESCED,
      ev_classification = Cls_CORRECTION, ev_source_kind = Src_USER, ev_source_event_id = None,
      ev_correlation_id = None, ev_evidence = ea_evidence demo_event_args,
      ev_references = ea_references demo_event_args\<rparr>"

lemma demo_event_create: "event_create (Some []) ''e1'' demo_event_args = Inr demo_event"
proof -
  have n: "\<not> blank ''e1''" "\<not> blank ''user''" "\<not> blank ''note''" "\<not> blank ''a fact''" "\<not> blank ''said so''"
    by (simp_all add: blank_def py_space_def Let_def)
  have v: "event_classification_of (PStr ''correction'') = Inr Cls_CORRECTION"
    "event_source_kind_of (PStr ''user'') = Inr Src_USER"
    "event_section x (PStr ''continuity'') = Inr Sec_CONTINUITY"
    "event_section x (PStr ''identity'') = Inr Sec_IDENTITY"
    "event_time_basis_of (PStr ''legacy_coalesced'') = Inr Basis_LEGACY_COALESCED" for x
    using event_enum_run(3) [of Cls_CORRECTION] event_enum_run(4) [of Src_USER]
      event_enum_run(1) [of x Sec_CONTINUITY] event_enum_run(1) [of x Sec_IDENTITY]
      event_enum_run(5) [of Basis_LEGACY_COALESCED] by simp_all
  have "event_init (demo_event_args\<lparr>ea_event_id := PStr ''e1'', ea_time_basis := PStr ''legacy_coalesced''\<rparr>)
    = Inr demo_event"
    by (simp add: demo_event_args_def event_init_def event_text_run n v event_times_def Let_def
        event_text_optional_def optional_text_def validate_json_value_def event_links_def related_def
        evidence_key_def reference_key_def demo_event_def)
  then show ?thesis
    by (simp add: event_create_def derived_basis_def given_or_uuid_def)
      (simp add: demo_event_args_def)
qed

lemma demo_event_wf: "wf_event demo_event"
  by (rule event_create_wf [OF demo_event_create])
    (auto simp: demo_event_args_def wf_evidence_def wf_reference_def blank_def py_space_def Let_def)

section \<open>Properties\<close>

text \<open>
  Events are what they claim. Whatever arguments reach \<open>Event.create\<close> or whatever document
  is decoded, the event that results has its three times in order, is \<open>legacy_coalesced\<close> only if
  they coincide, names each piece of evidence and each relation once, never refers to itself,
  and carries exactly one \<open>corrects\<close> (\<open>revokes\<close>) reference if it is a correction (revocation)
  and none otherwise.
\<close>

theorem event_is_valid:
  assumes "(\<exists>i uuid. event_create i uuid a = Inr e) \<and> list_all wf_mutation (ea_mutations a) \<and>
      list_all wf_evidence (ea_evidence a) \<and> list_all wf_reference (ea_references a) \<or>
    event_from_dict v = Inr e"
  shows "ev_occurred_at e \<le> ev_observed_at e \<and> ev_observed_at e \<le> ev_recorded_at e \<and>
    (ev_time_basis e = Basis_LEGACY_COALESCED \<longrightarrow> ev_occurred_at e = ev_recorded_at e) \<and>
    distinct (map evidence_key (ev_evidence e)) \<and> distinct (map reference_key (ev_references e)) \<and>
    ev_event_id e \<notin> er_target_event_id ` set (ev_references e) \<and>
    length (related Rel_CORRECTS (ev_references e)) = (if ev_classification e = Cls_CORRECTION then 1 else 0) \<and>
    length (related Rel_REVOKES (ev_references e)) = (if ev_classification e = Cls_REVOCATION then 1 else 0)"
proof -
  have "wf_event e" using assms event_create_wf event_from_dict_wf by blast
  then show ?thesis by (auto simp: wf_event_def times_ok_def links_ok_def)
qed

lemma event_is_valid_witness:
  "length (related Rel_CORRECTS (ev_references demo_event)) = 1"
proof -
  have "list_all wf_mutation (ea_mutations demo_event_args) \<and> list_all wf_evidence (ea_evidence demo_event_args) \<and>
      list_all wf_reference (ea_references demo_event_args)"
    by (simp add: demo_event_args_def wf_evidence_def wf_reference_def blank_def py_space_def Let_def)
  with demo_event_create have "(\<exists>i uuid. event_create i uuid demo_event_args = Inr demo_event) \<and>
      list_all wf_mutation (ea_mutations demo_event_args) \<and>
      list_all wf_evidence (ea_evidence demo_event_args) \<and> list_all wf_reference (ea_references demo_event_args) \<or>
    event_from_dict PNone = Inr demo_event" by blast
  from event_is_valid [OF this] show ?thesis by (simp add: demo_event_def)
qed

text \<open>
  Update records survive storage. Decoding any stored update record gives a valid one
  (revisions that do not go back, an explicitly timed event recorded no later than it was
  applied), and a valid record is read back exactly as it was written.
\<close>

theorem update_record_persistence:
  assumes "state_update_from_dict v = Inr u"
  shows "state_update_from_dict (state_update_to_dict u) = Inr u \<and>
    event_from_dict (event_to_dict (su_event u)) = Inr (su_event u) \<and>
    0 \<le> su_before_revision u \<and> su_before_revision u \<le> su_after_revision u \<and>
    (ev_time_basis (su_event u) = Basis_EXPLICIT \<longrightarrow> ev_recorded_at (su_event u) \<le> su_applied_at u)"
  using state_update_from_dict_wf [OF assms] state_update_roundtrip [of u] event_roundtrip
  by (simp add: wf_state_update_def)

definition demo_update :: state_update where
  "demo_update = \<lparr>su_update_id = ''u'', su_subject_id = ''s'', su_event = demo_event,
     su_applied_at = Abs_instant 5, su_before_revision = 3, su_after_revision = 4,
     su_changes = [\<lparr>fc_field_path = ''identity.self_concept'', fc_operation = Op_SET, fc_before = PStr [],
       fc_after = PStr ''x'', fc_reason = ''said so''\<rparr>], su_reason = ''said so''\<rparr>"

lemma update_record_persistence_witness:
  "\<exists>v u. state_update_from_dict v = Inr u \<and> state_update_from_dict (state_update_to_dict u) = Inr u \<and>
     su_after_revision u = 4"
proof -
  have "wf_state_update demo_update"
    using demo_event_wf
    by (simp add: demo_update_def wf_state_update_def wf_field_change_def demo_event_def blank_def py_space_def Let_def)
  note r = state_update_roundtrip [OF this]
  have "su_after_revision demo_update = 4" by (simp add: demo_update_def)
  with r update_record_persistence [OF r] show ?thesis by blast
qed

text \<open>
  C36: the canonical form is exactly the content. Two valid events have the same canonical
  dictionary, and hence the same identity hash, if and only if they agree in everything except
  the order in which sections, evidence and references are listed.
\<close>

theorem canonical_form_is_content:
  assumes "wf_event e" "wf_event f"
  shows "(canonical_dict e = canonical_dict f) = same_content e f"
proof -
  have i: "inj_on evidence_sort_key (set (ev_evidence e))" "inj_on reference_key (set (ev_references e))"
    using assms(1) by (auto simp: wf_event_def links_ok_def distinct_map intro: evidence_sort_key_inj)
  have m: "map g xs = map g ys \<longleftrightarrow> xs = ys" if "inj g" for g :: "'x \<Rightarrow> pyval" and xs ys
    using that by (simp add: inj_map_eq_map)
  show ?thesis
    unfolding canonical_dict_def same_content_def event_fields_def
    by (cases e; cases f)
      (use i in \<open>auto simp: m to_dict_inj event_value_inj opt_val_PStr_inj sort_key_canonical
        section_sort_canonical inj_def [of PStr]\<close>)
qed

lemma canonical_form_is_content_witness:
  "canonical_dict demo_event = canonical_dict (demo_event\<lparr>ev_evidence := rev (ev_evidence demo_event)\<rparr>)"
proof -
  let ?f = "demo_event\<lparr>ev_evidence := rev (ev_evidence demo_event)\<rparr>"
  have "wf_event ?f" using demo_event_wf
    by (auto simp: wf_event_def links_ok_def rev_map [symmetric])
  from canonical_form_is_content [OF demo_event_wf this] show ?thesis by (simp add: same_content_def)
qed

text \<open>
  An unsupported section escapes the error contract. The constructor reports it as a
  \<open>StateValidationError\<close>, but decoding a stored event that names one raises a bare
  \<open>ValueError\<close>, whatever the other fields of the event are.
\<close>

theorem unsupported_section_escapes:
  assumes "wf_event e" "\<forall>t. section_value t \<noteq> s"
  shows "event_from_dict (PDict (dict_set (event_fields e [] evs refs) ''impact_scope'' (PList [PStr s]))) =
      Inl (ValueError, ''is not a valid StateSection'') \<and>
    event_init ((event_args_of e)\<lparr>ea_impact_scope := [PStr s]\<rparr>) =
      Inl (StateValidationError, ''unsupported impact scope: '' @ s)"
proof -
  have s: "event_section x (PStr s) = Inl x" for x
    using assms(2) by (auto simp: event_section_def require_enum_def find_Some_iff split: option.splits)
  show ?thesis
    using assms(1)
    by (simp add: event_from_dict_def event_fields_def event_dict_def event_list_def s event_init_def
        event_args_of_def event_text_run wf_event_def event_times_run unsupported_scope_def)
qed

lemma unsupported_section_escapes_witness:
  "event_from_dict (PDict (dict_set (event_fields demo_event [] [] []) ''impact_scope'' (PList [PStr ''memory'']))) =
     Inl (ValueError, ''is not a valid StateSection'')"
proof -
  have "\<forall>t. section_value t \<noteq> ''memory''" 
  proof
    show "section_value t \<noteq> ''memory''" for t by (cases t) simp_all
  qed
  with unsupported_section_escapes [OF demo_event_wf] show ?thesis by blast
qed

end
