(* ===== verification/Permissions.thy ===== *)
theory Permissions
  imports Events
begin

text \<open>
  domain/permissions.py: a permission's state, the records of its changes, and the context a
  caller asks capabilities of. As in the other domain modules a constructor takes unvalidated
  arguments, \<open>wf_...\<close> is what its checks establish, and datetimes are the UTC instants they
  denote. A change record keeps the state before and after as JSON objects.
\<close>

section \<open>Enumerations and checks\<close>

datatype permission_status = Perm_ACTIVE | Perm_REVOKED | Perm_LIMITED | Perm_EXPIRED

datatype permission_change_type = Chg_GRANTED | Chg_STATUS_CHANGED | Chg_LIMITED | Chg_REVOKED
  | Chg_EXPIRED | Chg_SCOPE_CHANGED | Chg_CAPABILITIES_CHANGED

fun status_value :: "permission_status \<Rightarrow> string" where
  "status_value Perm_ACTIVE = ''ACTIVE''"
| "status_value Perm_REVOKED = ''REVOKED''"
| "status_value Perm_LIMITED = ''LIMITED''"
| "status_value Perm_EXPIRED = ''EXPIRED''"

fun change_type_value :: "permission_change_type \<Rightarrow> string" where
  "change_type_value Chg_GRANTED = ''GRANTED''"
| "change_type_value Chg_STATUS_CHANGED = ''STATUS_CHANGED''"
| "change_type_value Chg_LIMITED = ''LIMITED''"
| "change_type_value Chg_REVOKED = ''REVOKED''"
| "change_type_value Chg_EXPIRED = ''EXPIRED''"
| "change_type_value Chg_SCOPE_CHANGED = ''SCOPE_CHANGED''"
| "change_type_value Chg_CAPABILITIES_CHANGED = ''CAPABILITIES_CHANGED''"

abbreviation perm_invalid :: "string \<Rightarrow> exn" where
  "perm_invalid m \<equiv> (PermissionValidationError, m)"

definition perm_text :: "pyval \<Rightarrow> string \<Rightarrow> string res" where
  "perm_text v name = require_text PermissionValidationError v name"

definition perm_text_list :: "pyval \<Rightarrow> string \<Rightarrow> string list res" where
  "perm_text_list v name =
     (let e = perm_invalid (name @ '' must be a list of non-empty strings'') in
      case v of
        PList xs \<Rightarrow> rbind (rmap (\<lambda>x. case x of PStr s \<Rightarrow> if blank s then Inl e else Inr s | _ \<Rightarrow> Inl e) xs)
          (\<lambda>ss. Inr (fromkeys ss))
      | _ \<Rightarrow> Inl e)"

definition perm_parse_datetime :: "pyval \<Rightarrow> string \<Rightarrow> pyval res" where
  "perm_parse_datetime v name = (case v of
       PStr s \<Rightarrow> (case fromisoformat (replace_Z s) of
         None \<Rightarrow> Inl (perm_invalid (name @ '' is not a valid datetime''))
       | Some (w, None) \<Rightarrow> Inl (perm_invalid (name @ '' must include a timezone''))
       | Some (w, Some off) \<Rightarrow> Inr (PTime w (Some off)))
     | _ \<Rightarrow> Inl (perm_invalid (name @ '' must be an ISO-8601 string'')))"

definition perm_parse_optional :: "pyval \<Rightarrow> string \<Rightarrow> pyval res" where
  "perm_parse_optional v name = (if v = PNone then Inr PNone else perm_parse_datetime v name)"

definition json_snapshot :: "pyval \<Rightarrow> string \<Rightarrow> (string \<times> pyval) list res" where
  "json_snapshot v name = (case v of
       PDict d \<Rightarrow> rbind (ensure (json_ok v) (perm_invalid (name @ '' must contain JSON-compatible values'')))
         (\<lambda>_. Inr d)
     | _ \<Rightarrow> Inl (perm_invalid (name @ '' must be an object'')))"

definition json_snapshot_optional :: "pyval \<Rightarrow> string \<Rightarrow> (string \<times> pyval) list option res" where
  "json_snapshot_optional v name = (if v = PNone then Inr None
     else rbind (json_snapshot v name) (\<lambda>d. Inr (Some d)))"

definition perm_status :: "pyval \<Rightarrow> permission_status res" where
  "perm_status v = require_enum (perm_invalid ''unsupported permission status'') status_value
     [Perm_ACTIVE, Perm_REVOKED, Perm_LIMITED, Perm_EXPIRED] v"

definition perm_change_type :: "pyval \<Rightarrow> permission_change_type res" where
  "perm_change_type v = require_enum (perm_invalid ''unsupported permission change type'') change_type_value
     [Chg_GRANTED, Chg_STATUS_CHANGED, Chg_LIMITED, Chg_REVOKED, Chg_EXPIRED, Chg_SCOPE_CHANGED,
      Chg_CAPABILITIES_CHANGED] v"

definition perm_revision :: "pyval \<Rightarrow> int res" where
  "perm_revision v = (case as_int v of
       Some n \<Rightarrow> if n < 0 then Inl (perm_invalid ''permission revision must be non-negative'') else Inr n
     | None \<Rightarrow> Inl (perm_invalid ''permission revision must be non-negative''))"

abbreviation text_items :: "string list \<Rightarrow> pyval" where
  "text_items ss \<equiv> PList (map PStr ss)"

definition all_text :: "string list \<Rightarrow> bool" where
  "all_text ss \<longleftrightarrow> distinct ss \<and> (\<forall>s \<in> set ss. \<not> blank s)"

lemma perm_text_Inr: "perm_text v n = Inr s \<longleftrightarrow> v = PStr s \<and> \<not> blank s"
  by (simp add: perm_text_def require_text_eq_Inr)

lemma perm_text_run: "\<not> blank s \<Longrightarrow> perm_text (PStr s) n = Inr s"
  by (simp add: perm_text_Inr)

lemma perm_text_list_items:
  "perm_text_list (text_items ss) n =
     (if list_ex blank ss then Inl (perm_invalid (n @ '' must be a list of non-empty strings''))
      else Inr (fromkeys ss))"
proof -
  have "rmap (\<lambda>x. case x of PStr s \<Rightarrow> if blank s then Inl e else Inr s | _ \<Rightarrow> Inl e) (map PStr ss) =
    (if list_ex blank ss then Inl e else Inr ss)" for e :: exn
    by (induction ss) auto
  then show ?thesis by (simp add: perm_text_list_def Let_def)
qed

lemma perm_text_list_run: "all_text ss \<Longrightarrow> perm_text_list (text_items ss) n = Inr ss"
  by (auto simp: perm_text_list_items all_text_def list_ex_iff fromkeys_id)

lemma perm_text_list_Inr:
  assumes "perm_text_list v n = Inr ss"
  shows "all_text ss"
proof -
  obtain xs ys where xs: "v = PList xs" and ss: "ss = fromkeys ys"
    and r: "rmap (\<lambda>x. case x of PStr s \<Rightarrow>
        if blank s then Inl (perm_invalid (n @ '' must be a list of non-empty strings'')) else Inr s
      | _ \<Rightarrow> Inl (perm_invalid (n @ '' must be a list of non-empty strings''))) xs = Inr ys"
    using assms by (auto simp: perm_text_list_def Let_def rbind_eq_Inr split: pyval.splits)
  have "\<forall>s \<in> set ys. \<not> blank s"
    using r by (induction xs arbitrary: ys) (auto simp: rbind_eq_Inr split: pyval.splits if_splits)
  with ss show ?thesis by (simp add: all_text_def)
qed

lemma perm_parse_format [simp]: "perm_parse_datetime (PStr (format_z t)) n = Inr (utc_val t)"
  by (simp add: perm_parse_datetime_def)

lemma perm_parse_optional_format [simp]:
  "perm_parse_optional (opt_val (\<lambda>t. PStr (format_z t)) x) n = Inr (opt_val utc_val x)"
  by (cases x) (simp_all add: perm_parse_optional_def)

lemma perm_status_run [simp]: "perm_status (PStr (status_value s)) = Inr s"
  unfolding perm_status_def by (rule require_enum_PStr) (cases s, auto)

lemma perm_change_type_run [simp]: "perm_change_type (PStr (change_type_value s)) = Inr s"
  unfolding perm_change_type_def by (rule require_enum_PStr) (cases s, auto)

lemma perm_revision_run: "0 \<le> n \<Longrightarrow> perm_revision (PInt n) = Inr n"
  by (simp add: perm_revision_def)

lemma perm_revision_Inr: "perm_revision v = Inr n \<Longrightarrow> 0 \<le> n"
  by (auto simp: perm_revision_def split: option.splits if_splits)

section \<open>Permission state\<close>

record permission_args =
  pma_permission_id :: pyval
  pma_subject_id :: pyval
  pma_permission_type :: pyval
  pma_name :: pyval
  pma_description :: pyval
  pma_scope :: pyval
  pma_capabilities :: pyval
  pma_status :: pyval
  pma_granted_at :: pyval
  pma_revoked_at :: pyval
  pma_source :: pyval
  pma_revision :: pyval

record permission_state =
  pm_permission_id :: string
  pm_subject_id :: string
  pm_permission_type :: string
  pm_name :: string
  pm_description :: string
  pm_scope :: "string list"
  pm_capabilities :: "string list"
  pm_status :: permission_status
  pm_granted_at :: instant
  pm_revoked_at :: "instant option"
  pm_source :: string
  pm_revision :: int

definition permission_init :: "permission_args \<Rightarrow> permission_state res" where
  "permission_init a =
     rbind (perm_text (pma_permission_id a) ''permission_id'') (\<lambda>permission_id.
     rbind (perm_text (pma_subject_id a) ''permission subject_id'') (\<lambda>subject_id.
     rbind (perm_text (pma_permission_type a) ''permission_type'') (\<lambda>permission_type.
     rbind (perm_text (pma_name a) ''permission name'') (\<lambda>name.
     rbind (perm_text (pma_description a) ''permission description'') (\<lambda>description.
     rbind (perm_text (pma_source a) ''permission source'') (\<lambda>source.
     rbind (perm_text_list (pma_scope a) ''permission scope'') (\<lambda>scope.
     rbind (perm_text_list (pma_capabilities a) ''permission capabilities'') (\<lambda>capabilities.
     rbind (perm_status (pma_status a)) (\<lambda>status.
     rbind (require_aware (perm_invalid ''granted_at must include a timezone'') (pma_granted_at a)) (\<lambda>granted_at.
     rbind (optional_aware (perm_invalid ''revoked_at must include a timezone'') (pma_revoked_at a)) (\<lambda>revoked_at.
     rbind (ensure (\<not> (status = Perm_REVOKED \<and> revoked_at = None))
       (perm_invalid ''revoked permission requires revoked_at'')) (\<lambda>_.
     rbind (ensure (\<not> (status \<noteq> Perm_REVOKED \<and> revoked_at \<noteq> None))
       (perm_invalid ''revoked_at is only valid while permission status is REVOKED'')) (\<lambda>_.
     rbind (perm_revision (pma_revision a)) (\<lambda>revision.
     Inr \<lparr>pm_permission_id = permission_id, pm_subject_id = subject_id,
       pm_permission_type = permission_type, pm_name = name, pm_description = description,
       pm_scope = scope, pm_capabilities = capabilities, pm_status = status,
       pm_granted_at = granted_at, pm_revoked_at = revoked_at, pm_source = source,
       pm_revision = revision\<rparr>))))))))))))))"

definition wf_permission :: "permission_state \<Rightarrow> bool" where
  "wf_permission p \<longleftrightarrow> \<not> blank (pm_permission_id p) \<and> \<not> blank (pm_subject_id p) \<and>
     \<not> blank (pm_permission_type p) \<and> \<not> blank (pm_name p) \<and> \<not> blank (pm_description p) \<and>
     \<not> blank (pm_source p) \<and> all_text (pm_scope p) \<and> all_text (pm_capabilities p) \<and>
     (pm_status p = Perm_REVOKED \<longleftrightarrow> pm_revoked_at p \<noteq> None) \<and> 0 \<le> pm_revision p"

definition permission_args_of :: "permission_state \<Rightarrow> permission_args" where
  "permission_args_of p =
     \<lparr>pma_permission_id = PStr (pm_permission_id p), pma_subject_id = PStr (pm_subject_id p),
      pma_permission_type = PStr (pm_permission_type p), pma_name = PStr (pm_name p),
      pma_description = PStr (pm_description p), pma_scope = text_items (pm_scope p),
      pma_capabilities = text_items (pm_capabilities p), pma_status = PStr (status_value (pm_status p)),
      pma_granted_at = utc_val (pm_granted_at p), pma_revoked_at = opt_val utc_val (pm_revoked_at p),
      pma_source = PStr (pm_source p), pma_revision = PInt (pm_revision p)\<rparr>"

text \<open>\<open>updated.__post_init__()\<close> after attributes have been assigned to.\<close>

definition permission_recheck :: "permission_state \<Rightarrow> permission_state res" where
  "permission_recheck p = permission_init (permission_args_of p)"

definition is_available :: "permission_state \<Rightarrow> bool" where
  "is_available p \<longleftrightarrow> pm_status p = Perm_ACTIVE \<or> pm_status p = Perm_LIMITED"

definition allows :: "permission_state \<Rightarrow> string \<Rightarrow> string option \<Rightarrow> bool res" where
  "allows p capability scope =
     rbind (perm_text (PStr capability) ''capability'') (\<lambda>_.
     if \<not> is_available p \<or> capability \<notin> set (pm_capabilities p) then Inr False
     else case scope of None \<Rightarrow> Inr True
       | Some s \<Rightarrow> rbind (perm_text (PStr s) ''capability scope'') (\<lambda>_.
           Inr (''*'' \<in> set (pm_scope p) \<or> s \<in> set (pm_scope p))))"

definition permission_to_dict :: "permission_state \<Rightarrow> (string \<times> pyval) list" where
  "permission_to_dict p =
     [(''permission_id'', PStr (pm_permission_id p)), (''subject_id'', PStr (pm_subject_id p)),
      (''permission_type'', PStr (pm_permission_type p)), (''name'', PStr (pm_name p)),
      (''description'', PStr (pm_description p)), (''scope'', text_items (pm_scope p)),
      (''capabilities'', text_items (pm_capabilities p)), (''status'', PStr (status_value (pm_status p))),
      (''granted_at'', PStr (format_z (pm_granted_at p))),
      (''revoked_at'', opt_val (\<lambda>t. PStr (format_z t)) (pm_revoked_at p)),
      (''source'', PStr (pm_source p)), (''revision'', PInt (pm_revision p))]"

definition permission_from_dict :: "pyval \<Rightarrow> permission_state res" where
  "permission_from_dict value = (case value of PDict d \<Rightarrow>
       rbind (perm_parse_datetime (dict_get d ''granted_at'') ''granted_at'') (\<lambda>granted_at.
       rbind (perm_text_list (dict_get_or (PList []) d ''scope'') ''permission scope'') (\<lambda>scope.
       rbind (perm_text_list (dict_get_or (PList []) d ''capabilities'') ''permission capabilities'') (\<lambda>capabilities.
       rbind (perm_parse_optional (dict_get d ''revoked_at'') ''revoked_at'') (\<lambda>revoked_at.
       permission_init
         \<lparr>pma_permission_id = dict_get d ''permission_id'', pma_subject_id = dict_get d ''subject_id'',
          pma_permission_type = dict_get d ''permission_type'', pma_name = dict_get d ''name'',
          pma_description = dict_get d ''description'', pma_scope = text_items scope,
          pma_capabilities = text_items capabilities, pma_status = dict_get d ''status'',
          pma_granted_at = granted_at, pma_revoked_at = revoked_at, pma_source = dict_get d ''source'',
          pma_revision = dict_get_or (PInt 0) d ''revision''\<rparr>))))
     | _ \<Rightarrow> Inl (perm_invalid ''permission state must be an object''))"

lemma permission_init_wf: "permission_init a = Inr p \<Longrightarrow> wf_permission p"
  unfolding permission_init_def
  by (elim rbindE) (auto simp: wf_permission_def perm_text_Inr dest: perm_text_list_Inr perm_revision_Inr)

lemma permission_recheck_run: "wf_permission p \<Longrightarrow> permission_recheck p = Inr p"
  by (auto simp: permission_recheck_def permission_init_def permission_args_of_def wf_permission_def
      perm_text_run perm_text_list_run perm_revision_run)

lemma permission_roundtrip:
  assumes "wf_permission p"
  shows "permission_from_dict (PDict (permission_to_dict p)) = Inr p"
  using permission_recheck_run [OF assms] assms
  by (simp add: permission_from_dict_def permission_to_dict_def permission_recheck_def
      permission_args_of_def wf_permission_def perm_text_list_run)

lemma permission_from_dict_wf: "permission_from_dict v = Inr p \<Longrightarrow> wf_permission p"
  by (auto simp: permission_from_dict_def rbind_eq_Inr split: pyval.splits dest: permission_init_wf)

text \<open>A recheck only removes repeated scopes and capabilities.\<close>

lemma permission_recheck_Inr:
  assumes "permission_recheck p = Inr q"
  shows "q = p\<lparr>pm_scope := fromkeys (pm_scope p), pm_capabilities := fromkeys (pm_capabilities p)\<rparr>"
  using assms unfolding permission_recheck_def permission_init_def permission_args_of_def
  by (elim rbindE) (cases p, auto simp: perm_text_Inr perm_text_list_items perm_revision_def split: if_splits)

lemma status_value_inj: "status_value s = status_value t \<longleftrightarrow> s = t"
  by (cases s; cases t) auto

lemma permission_to_dict_eq:
  "py_eq (PDict (permission_to_dict p)) (PDict (permission_to_dict q)) \<longleftrightarrow> p = q"
proof
  have items: "length ss = length ts \<and> list_all (\<lambda>(x, y). py_eq x y) (zip (map PStr ss) (map PStr ts)) \<longleftrightarrow> ss = ts"
    for ss ts :: "string list"
    by (induction ss ts rule: list_induct2') auto
  have opt: "py_eq (opt_val (\<lambda>t. PStr (format_z t)) x) (opt_val (\<lambda>t. PStr (format_z t)) y) \<longleftrightarrow> x = y" for x y
    by (cases x; cases y) auto
  show "p = q" if "py_eq (PDict (permission_to_dict p)) (PDict (permission_to_dict q))"
    using that items by (cases p; cases q) (simp add: permission_to_dict_def opt status_value_inj)
  show "py_eq (PDict (permission_to_dict p)) (PDict (permission_to_dict q))" if "p = q"
    using that items [of "pm_scope p" "pm_scope p"] items [of "pm_capabilities p" "pm_capabilities p"]
    by (simp add: permission_to_dict_def opt)
qed

lemma permission_to_dict_json [simp]: "json_ok (PDict (permission_to_dict p))"
  by (cases "pm_revoked_at p") (simp_all add: permission_to_dict_def list_all_iff)

lemma permission_to_dict_inj: "permission_to_dict p = permission_to_dict q \<longleftrightarrow> p = q"
  by (metis permission_to_dict_eq)

section \<open>Change records\<close>

record change_args =
  pca_record_id :: pyval
  pca_permission_id :: pyval
  pca_change_type :: pyval
  pca_before_state :: pyval
  pca_after_state :: pyval
  pca_reason :: pyval
  pca_source :: pyval
  pca_created_at :: pyval

record permission_change =
  pc_record_id :: string
  pc_permission_id :: string
  pc_change_type :: permission_change_type
  pc_before_state :: "(string \<times> pyval) list option"
  pc_after_state :: "(string \<times> pyval) list"
  pc_reason :: string
  pc_source :: string
  pc_created_at :: instant

definition change_init :: "change_args \<Rightarrow> permission_change res" where
  "change_init a =
     rbind (perm_text (pca_record_id a) ''permission record_id'') (\<lambda>record_id.
     rbind (perm_text (pca_permission_id a) ''record permission_id'') (\<lambda>permission_id.
     rbind (perm_change_type (pca_change_type a)) (\<lambda>change_type.
     rbind (json_snapshot_optional (pca_before_state a) ''before_state'') (\<lambda>before_state.
     rbind (json_snapshot (pca_after_state a) ''after_state'') (\<lambda>after_state.
     rbind (perm_text (pca_reason a) ''permission change reason'') (\<lambda>reason.
     rbind (perm_text (pca_source a) ''permission change source'') (\<lambda>source.
     rbind (require_aware (perm_invalid ''change created_at must include a timezone'') (pca_created_at a)) (\<lambda>created_at.
     rbind (ensure (dict_get after_state ''permission_id'' = PStr permission_id)
       (perm_invalid ''permission history snapshot does not match permission_id'')) (\<lambda>_.
     Inr \<lparr>pc_record_id = record_id, pc_permission_id = permission_id, pc_change_type = change_type,
       pc_before_state = before_state, pc_after_state = after_state, pc_reason = reason,
       pc_source = source, pc_created_at = created_at\<rparr>)))))))))"

definition wf_change :: "permission_change \<Rightarrow> bool" where
  "wf_change c \<longleftrightarrow> \<not> blank (pc_record_id c) \<and> \<not> blank (pc_permission_id c) \<and>
     (\<forall>d. pc_before_state c = Some d \<longrightarrow> json_ok (PDict d)) \<and> json_ok (PDict (pc_after_state c)) \<and>
     \<not> blank (pc_reason c) \<and> \<not> blank (pc_source c) \<and>
     dict_get (pc_after_state c) ''permission_id'' = PStr (pc_permission_id c)"

definition change_args_of :: "permission_change \<Rightarrow> change_args" where
  "change_args_of c =
     \<lparr>pca_record_id = PStr (pc_record_id c), pca_permission_id = PStr (pc_permission_id c),
      pca_change_type = PStr (change_type_value (pc_change_type c)),
      pca_before_state = opt_val PDict (pc_before_state c), pca_after_state = PDict (pc_after_state c),
      pca_reason = PStr (pc_reason c), pca_source = PStr (pc_source c),
      pca_created_at = utc_val (pc_created_at c)\<rparr>"

definition change_to_dict :: "permission_change \<Rightarrow> pyval" where
  "change_to_dict c = PDict
     [(''record_id'', PStr (pc_record_id c)), (''permission_id'', PStr (pc_permission_id c)),
      (''change_type'', PStr (change_type_value (pc_change_type c))),
      (''before_state'', opt_val PDict (pc_before_state c)), (''after_state'', PDict (pc_after_state c)),
      (''reason'', PStr (pc_reason c)), (''source'', PStr (pc_source c)),
      (''created_at'', PStr (format_z (pc_created_at c)))]"

definition change_from_dict :: "pyval \<Rightarrow> permission_change res" where
  "change_from_dict value = (case value of PDict d \<Rightarrow>
       rbind (perm_parse_datetime (dict_get d ''created_at'') ''change created_at'') (\<lambda>created_at.
       rbind (json_snapshot_optional (dict_get d ''before_state'') ''before_state'') (\<lambda>before_state.
       rbind (json_snapshot (dict_get d ''after_state'') ''after_state'') (\<lambda>after_state.
       change_init
         \<lparr>pca_record_id = dict_get d ''record_id'', pca_permission_id = dict_get d ''permission_id'',
          pca_change_type = dict_get d ''change_type'', pca_before_state = opt_val PDict before_state,
          pca_after_state = PDict after_state, pca_reason = dict_get d ''reason'',
          pca_source = dict_get d ''source'', pca_created_at = created_at\<rparr>)))
     | _ \<Rightarrow> Inl (perm_invalid ''permission change record must be an object''))"

lemma json_snapshot_Inr: "json_snapshot v n = Inr d \<longleftrightarrow> v = PDict d \<and> json_ok v"
  by (auto simp: json_snapshot_def rbind_eq_Inr split: pyval.splits)

lemma json_snapshot_optional_Inr:
  "json_snapshot_optional v n = Inr x \<longleftrightarrow> v = opt_val PDict x \<and> (\<forall>d. x = Some d \<longrightarrow> json_ok (PDict d))"
  by (cases x) (auto simp: json_snapshot_optional_def rbind_eq_Inr json_snapshot_Inr)

lemma change_init_wf: "change_init a = Inr c \<Longrightarrow> wf_change c"
  unfolding change_init_def
  by (elim rbindE)
    (auto simp: wf_change_def perm_text_Inr json_snapshot_Inr json_snapshot_optional_Inr simp del: json_ok.simps)

lemma change_init_args:
  assumes "wf_change c"
  shows "change_init (change_args_of c) = Inr c"
proof -
  have "json_snapshot (PDict (pc_after_state c)) n = Inr (pc_after_state c)"
    "json_snapshot_optional (opt_val PDict (pc_before_state c)) n = Inr (pc_before_state c)" for n
    using assms by (auto simp: wf_change_def json_snapshot_Inr json_snapshot_optional_Inr simp del: json_ok.simps)
  with assms show ?thesis by (simp add: change_init_def change_args_of_def wf_change_def perm_text_run)
qed

lemma change_roundtrip:
  assumes "wf_change c"
  shows "change_from_dict (change_to_dict c) = Inr c"
proof -
  have "json_snapshot (PDict (pc_after_state c)) n = Inr (pc_after_state c)"
    "json_snapshot_optional (opt_val PDict (pc_before_state c)) n = Inr (pc_before_state c)" for n
    using assms by (auto simp: wf_change_def json_snapshot_Inr json_snapshot_optional_Inr simp del: json_ok.simps)
  with change_init_args [OF assms] show ?thesis
    by (simp add: change_from_dict_def change_to_dict_def change_args_of_def)
qed

lemma change_from_dict_wf: "change_from_dict v = Inr c \<Longrightarrow> wf_change c"
  by (auto simp: change_from_dict_def rbind_eq_Inr split: pyval.splits dest: change_init_wf)

section \<open>Context and result\<close>

record permission_context =
  px_subject_id :: string
  px_current_permissions :: "permission_state list"
  px_available_capabilities :: "string list"
  px_restrictions :: "string list"
  px_recent_changes :: "permission_change list"
  px_created_at :: instant

definition context_init ::
  "pyval \<Rightarrow> permission_state list \<Rightarrow> pyval \<Rightarrow> pyval \<Rightarrow> permission_change list \<Rightarrow> pyval \<Rightarrow> permission_context res" where
  "context_init subject_id current capabilities restrictions recent created_at =
     rbind (perm_text subject_id ''permission context subject_id'') (\<lambda>subject_id.
     rbind (ensure (\<not> list_ex (\<lambda>p. pm_subject_id p \<noteq> subject_id \<or> \<not> is_available p) current)
       (perm_invalid ''PermissionContext contains invalid current permissions'')) (\<lambda>_.
     rbind (perm_text_list capabilities ''available capabilities'') (\<lambda>capabilities.
     rbind (perm_text_list restrictions ''permission restrictions'') (\<lambda>restrictions.
     rbind (require_aware (perm_invalid ''context created_at must include a timezone'') created_at) (\<lambda>created_at.
     Inr \<lparr>px_subject_id = subject_id, px_current_permissions = current,
       px_available_capabilities = capabilities, px_restrictions = restrictions,
       px_recent_changes = recent, px_created_at = created_at\<rparr>)))))"

definition wf_context :: "permission_context \<Rightarrow> bool" where
  "wf_context c \<longleftrightarrow> \<not> blank (px_subject_id c) \<and>
     (\<forall>p \<in> set (px_current_permissions c). wf_permission p \<and> pm_subject_id p = px_subject_id c \<and> is_available p) \<and>
     all_text (px_available_capabilities c) \<and> all_text (px_restrictions c) \<and>
     (\<forall>c \<in> set (px_recent_changes c). wf_change c)"

text \<open>\<open>any(permission.allows(...) for permission in ...)\<close>: stops at the first that does.\<close>

fun any_allows :: "string \<Rightarrow> string option \<Rightarrow> permission_state list \<Rightarrow> bool res" where
  "any_allows capability scope [] = Inr False"
| "any_allows capability scope (p # ps) = rbind (allows p capability scope) (\<lambda>yes.
     if yes then Inr True else any_allows capability scope ps)"

definition has_capability :: "permission_context \<Rightarrow> string \<Rightarrow> string option \<Rightarrow> bool res" where
  "has_capability c capability scope = any_allows capability scope (px_current_permissions c)"

definition context_to_dict :: "permission_context \<Rightarrow> pyval" where
  "context_to_dict c = PDict
     [(''subject_id'', PStr (px_subject_id c)),
      (''current_permissions'', PList (map (\<lambda>p. PDict (permission_to_dict p)) (px_current_permissions c))),
      (''available_capabilities'', text_items (px_available_capabilities c)),
      (''restrictions'', text_items (px_restrictions c)),
      (''recent_changes'', PList (map change_to_dict (px_recent_changes c))),
      (''created_at'', PStr (format_z (px_created_at c)))]"

definition context_from_dict :: "pyval \<Rightarrow> permission_context res" where
  "context_from_dict value = (case value of
       PDict d \<Rightarrow> (case (dict_get d ''current_permissions'', dict_get d ''recent_changes'') of
           (PList current, PList recent) \<Rightarrow>
             rbind (perm_parse_datetime (dict_get d ''created_at'') ''context created_at'') (\<lambda>created_at.
             rbind (rmap permission_from_dict current) (\<lambda>current.
             rbind (perm_text_list (dict_get_or (PList []) d ''available_capabilities'')
               ''available capabilities'') (\<lambda>capabilities.
             rbind (perm_text_list (dict_get_or (PList []) d ''restrictions'')
               ''permission restrictions'') (\<lambda>restrictions.
             rbind (rmap change_from_dict recent) (\<lambda>recent.
             context_init (dict_get d ''subject_id'') current (text_items capabilities)
               (text_items restrictions) recent created_at)))))
         | _ \<Rightarrow> Inl (perm_invalid ''permission context has invalid collections''))
     | _ \<Rightarrow> Inl (perm_invalid ''permission context has invalid collections''))"

record permission_result =
  pr_permission :: permission_state
  pr_record :: permission_change
  pr_event :: event

lemma context_init_wf:
  assumes "context_init i ps cs rs hs t = Inr c" "\<forall>p \<in> set ps. wf_permission p" "\<forall>h \<in> set hs. wf_change h"
  shows "wf_context c"
  using assms unfolding context_init_def
  by (elim rbindE) (auto simp: wf_context_def perm_text_Inr list_ex_iff dest!: perm_text_list_Inr)

lemma context_init_run:
  assumes "wf_context c"
  shows "context_init (PStr (px_subject_id c)) (px_current_permissions c)
    (text_items (px_available_capabilities c)) (text_items (px_restrictions c)) (px_recent_changes c)
    (utc_val (px_created_at c)) = Inr c"
  using assms
  by (auto simp: context_init_def wf_context_def perm_text_run perm_text_list_run list_ex_iff ensure_def)

lemma context_roundtrip:
  assumes "wf_context c"
  shows "context_from_dict (context_to_dict c) = Inr c"
proof -
  have "rmap permission_from_dict (map (\<lambda>p. PDict (permission_to_dict p)) (px_current_permissions c))
      = Inr (px_current_permissions c)"
    "rmap change_from_dict (map change_to_dict (px_recent_changes c)) = Inr (px_recent_changes c)"
    using assms by (auto intro!: rmap_Inr_id simp: wf_context_def permission_roundtrip change_roundtrip)
  with context_init_run [OF assms] assms show ?thesis
    by (simp add: context_from_dict_def context_to_dict_def wf_context_def perm_text_list_run)
qed

text \<open>For a named capability and scope the search is a plain existential.\<close>

definition grants :: "permission_state \<Rightarrow> string \<Rightarrow> string option \<Rightarrow> bool" where
  "grants p capability scope \<longleftrightarrow> is_available p \<and> capability \<in> set (pm_capabilities p) \<and>
     (\<forall>s. scope = Some s \<longrightarrow> ''*'' \<in> set (pm_scope p) \<or> s \<in> set (pm_scope p))"

lemma allows_grants:
  "\<not> blank c \<Longrightarrow> (\<forall>s. scope = Some s \<longrightarrow> \<not> blank s) \<Longrightarrow> allows p c scope = Inr (grants p c scope)"
  by (auto simp: allows_def grants_def perm_text_run split: option.splits)

lemma any_allows_grants:
  "\<not> blank c \<Longrightarrow> (\<forall>s. scope = Some s \<longrightarrow> \<not> blank s) \<Longrightarrow>
     any_allows c scope ps = Inr (\<exists>p \<in> set ps. grants p c scope)"
  by (induction ps) (auto simp: allows_grants)

lemma allows_true: "allows p c scope = Inr True \<Longrightarrow> grants p c scope"
  by (auto simp: allows_def grants_def rbind_eq_Inr split: if_splits option.splits)

end
