(* ===== verification/Permission_Repository.thy ===== *)
theory Permission_Repository
  imports Permissions Revisioned_Store "HOL-Library.AList"
begin

text \<open>
  storage/json_permission_repository.py: one JSON document per permission, holding its state and
  its complete change history. \<open>permission_root\<close> maps a subject directory (named by the digest
  of the subject id) to its listing of \<open>*.json\<close> files (named by the digest of the permission
  id), in the order \<open>glob\<close> yields them; a directory that does not exist has an empty listing.
  \<open>disk_ok\<close> tells whether the operating system completes the write.
\<close>

type_synonym permission_root = "string \<Rightarrow> (string \<times> file_state) list"

definition file_at :: "permission_root \<Rightarrow> string \<Rightarrow> string \<Rightarrow> file_state" where
  "file_at base dir stem = (case map_of (base dir) stem of None \<Rightarrow> File_Absent | Some f \<Rightarrow> f)"

definition perm_hash :: "digest_fun \<Rightarrow> string \<Rightarrow> string \<Rightarrow> string res" where
  "perm_hash sha v name = (if blank v then Inl (perm_invalid (name @ '' must be non-empty'')) else Inr (sha v))"

definition permission_path :: "digest_fun \<Rightarrow> string \<Rightarrow> string \<Rightarrow> (string \<times> string) res" where
  "permission_path sha subject_id permission_id =
     rbind (perm_hash sha subject_id ''subject_id'') (\<lambda>dir.
     rbind (perm_hash sha permission_id ''permission_id'') (\<lambda>stem. Inr (dir, stem)))"

definition read_permission_document :: "file_state \<Rightarrow> (string \<times> pyval) list res" where
  "read_permission_document f = (case f of
       File_Doc (PDict d) \<Rightarrow>
         if \<not> py_eq_int (dict_get d ''permission_format_version'') 1
         then Inl (perm_invalid ''unsupported permission persistence format'')
         else if \<not> is_list (dict_get d ''history'')
         then Inl (perm_invalid ''permission history must be a list'')
         else Inr d
     | File_Doc _ \<Rightarrow> Inl (perm_invalid ''unsupported permission persistence format'')
     | _ \<Rightarrow> Inl (perm_invalid ''unable to read valid permission data''))"

definition permission_document :: "permission_state \<Rightarrow> permission_change list \<Rightarrow> pyval" where
  "permission_document p history = PDict
     [(''permission_format_version'', PInt 1), (''state'', PDict (permission_to_dict p)),
      (''history'', PList (map change_to_dict history))]"

text \<open>The rename fails when something that is not a file stands at the path.\<close>

definition write_permission_document ::
  "bool \<Rightarrow> permission_root \<Rightarrow> string \<times> string \<Rightarrow> pyval \<Rightarrow> permission_root res" where
  "write_permission_document disk_ok base path data = (case path of (dir, stem) \<Rightarrow>
     if disk_ok \<and> file_at base dir stem \<noteq> File_Not_A_File
     then Inr (base(dir := AList.update stem (File_Doc data) (base dir)))
     else Inl (OSError, ''write failed''))"

definition previous_history :: "permission_state \<Rightarrow> permission_change \<Rightarrow> file_state \<Rightarrow> permission_change list res" where
  "previous_history p c f =
     (if is_file f then
        rbind (read_permission_document f) (\<lambda>data.
        rbind (permission_from_dict (dict_get data ''state'')) (\<lambda>previous.
        rbind (rmap change_from_dict (list_of (dict_get data ''history''))) (\<lambda>history.
        rbind (ensure (pm_subject_id previous = pm_subject_id p \<and> pm_permission_id previous = pm_permission_id p)
          (perm_invalid ''persisted permission identity does not match path'')) (\<lambda>_.
        rbind (ensure (pm_revision p = pm_revision previous + 1)
          (perm_invalid ''permission update revision must advance by one'')) (\<lambda>_.
        rbind (ensure (py_eq (opt_val PDict (pc_before_state c)) (PDict (permission_to_dict previous)))
          (perm_invalid ''permission change before_state does not match persisted state'')) (\<lambda>_.
        Inr history))))))
      else
        rbind (ensure (\<not> (pm_revision p \<noteq> 0 \<or> pc_before_state c \<noteq> None))
          (perm_invalid ''new permissions must start at revision zero without before_state'')) (\<lambda>_.
        rbind (ensure (pc_change_type c = Chg_GRANTED)
          (perm_invalid ''new permission history must begin with GRANTED'')) (\<lambda>_.
        Inr [])))"

definition permission_save ::
  "digest_fun \<Rightarrow> bool \<Rightarrow> permission_state \<Rightarrow> permission_change \<Rightarrow> permission_root \<Rightarrow> permission_root res" where
  "permission_save sha disk_ok p c base =
     rbind (ensure (pm_permission_id p = pc_permission_id c)
       (perm_invalid ''permission change does not match saved permission'')) (\<lambda>_.
     rbind (ensure (py_eq (PDict (pc_after_state c)) (PDict (permission_to_dict p)))
       (perm_invalid ''permission change after_state must equal saved state'')) (\<lambda>_.
     rbind (permission_path sha (pm_subject_id p) (pm_permission_id p)) (\<lambda>path.
     rbind (previous_history p c (file_at base (fst path) (snd path))) (\<lambda>history.
     if list_ex (\<lambda>h. pc_record_id h = pc_record_id c) history then
       if py_eq (change_to_dict (last history)) (change_to_dict c) then Inr base
       else Inl (PermissionAlreadyExistsError, ''permission history record already exists: '' @ pc_record_id c)
     else write_permission_document disk_ok base path (permission_document p (history @ [c]))))))"

definition permission_load :: "digest_fun \<Rightarrow> string \<Rightarrow> string \<Rightarrow> permission_root \<Rightarrow> permission_state res" where
  "permission_load sha subject_id permission_id base =
     rbind (permission_path sha subject_id permission_id) (\<lambda>path.
     let f = file_at base (fst path) (snd path) in
     if \<not> is_file f then Inl (PermissionNotFoundError, ''permission not found: '' @ permission_id)
     else rbind (read_permission_document f) (\<lambda>data.
       rbind (permission_from_dict (dict_get data ''state'')) (\<lambda>p.
       rbind (ensure (pm_subject_id p = subject_id \<and> pm_permission_id p = permission_id)
         (perm_invalid ''persisted permission identity does not match request'')) (\<lambda>_.
       Inr p))))"

definition read_permission :: "file_state \<Rightarrow> permission_state res" where
  "read_permission f =
     rbind (read_permission_document f) (\<lambda>data. permission_from_dict (dict_get data ''state''))"

definition read_history :: "file_state \<Rightarrow> permission_change list res" where
  "read_history f =
     rbind (read_permission_document f) (\<lambda>data. rmap change_from_dict (list_of (dict_get data ''history'')))"

definition permission_list :: "digest_fun \<Rightarrow> string \<Rightarrow> permission_root \<Rightarrow> permission_state list res" where
  "permission_list sha subject_id base =
     rbind (perm_hash sha subject_id ''subject_id'') (\<lambda>dir.
     rbind (rmap (\<lambda>entry. read_permission (snd entry)) (base dir)) (\<lambda>ps.
     rbind (ensure (\<not> list_ex (\<lambda>p. pm_subject_id p \<noteq> subject_id) ps)
       (perm_invalid ''permission directory contains a different subject'')) (\<lambda>_.
     Inr (sort_key (\<lambda>p. (pm_name p, pm_permission_id p)) ps))))"

definition permission_history ::
  "digest_fun \<Rightarrow> string \<Rightarrow> string option \<Rightarrow> permission_root \<Rightarrow> permission_change list res" where
  "permission_history sha subject_id permission_id base =
     rbind (case permission_id of
         Some j \<Rightarrow> rbind (permission_path sha subject_id j) (\<lambda>path.
           let f = file_at base (fst path) (snd path) in
           if is_file f then Inr [f]
           else Inl (PermissionNotFoundError, ''permission not found: '' @ j))
       | None \<Rightarrow> rbind (perm_hash sha subject_id ''subject_id'') (\<lambda>dir. Inr (map snd (base dir)))) (\<lambda>files.
     rbind (rmap read_history files) (\<lambda>records.
     Inr (sort_key (\<lambda>c. (pc_created_at c, pc_record_id c)) (concat records))))"

section \<open>The store contract\<close>

lemma file_at_update [simp]:
  "file_at (base(dir := AList.update stem f (base dir))) dir' stem' =
     (if dir' = dir \<and> stem' = stem then f else file_at base dir' stem')"
  by (simp add: file_at_def update_conv')

lemma read_document_document [simp]:
  "read_permission_document (File_Doc (permission_document p h)) =
     Inr [(''permission_format_version'', PInt 1), (''state'', PDict (permission_to_dict p)),
      (''history'', PList (map change_to_dict h))]"
  by (simp add: read_permission_document_def permission_document_def)

lemma read_permission_document_run [simp]:
  "wf_permission p \<Longrightarrow> read_permission (File_Doc (permission_document p h)) = Inr p"
  by (simp add: read_permission_def permission_roundtrip)

lemma read_history_document_run [simp]:
  "list_all wf_change h \<Longrightarrow> read_history (File_Doc (permission_document p h)) = Inr h"
  unfolding read_history_def by (auto simp: list_all_iff change_roundtrip intro!: rmap_Inr_id)

lemma permission_load_read:
  "permission_load sha i j base = Inr p \<longleftrightarrow> (\<exists>path. permission_path sha i j = Inr path \<and>
     is_file (file_at base (fst path) (snd path)) \<and> read_permission (file_at base (fst path) (snd path)) = Inr p \<and>
     pm_subject_id p = i \<and> pm_permission_id p = j)"
  by (auto simp: permission_load_def read_permission_def rbind_eq_Inr Let_def)

lemma permission_load_wf: "permission_load sha i j base = Inr p \<Longrightarrow> wf_permission p \<and> pm_subject_id p = i \<and> pm_permission_id p = j"
  by (auto simp: permission_load_read read_permission_def rbind_eq_Inr dest: permission_from_dict_wf)

text \<open>The save of an update: the file exists, and the change record is not yet in it.\<close>

definition update_permission ::
  "digest_fun \<Rightarrow> bool \<Rightarrow> string \<Rightarrow> string \<Rightarrow> permission_change \<Rightarrow> permission_state \<Rightarrow> int \<Rightarrow> permission_root \<Rightarrow> permission_root res" where
  "update_permission sha disk_ok i j c p e base =
     rbind (permission_load sha i j base) (\<lambda>u.
     rbind (ensure (pm_revision u = e \<and> pm_subject_id p = i \<and> pm_permission_id p = j)
       (perm_invalid ''permission revision does not match expected_revision'')) (\<lambda>_.
     rbind (read_history (let path = permission_path sha i j in file_at base (fst (projr path)) (snd (projr path)))) (\<lambda>h.
     rbind (ensure (\<not> list_ex (\<lambda>h. pc_record_id h = pc_record_id c) h)
       (PermissionAlreadyExistsError, ''permission history record already exists'')) (\<lambda>_.
     permission_save sha disk_ok p c base))))"

lemma permission_save_update:
  assumes "permission_load sha i j base = Inr u" "permission_path sha i j = Inr path"
    and "pm_subject_id p = i" "pm_permission_id p = j"
    and "read_history (file_at base (fst path) (snd path)) = Inr h"
    and "\<not> list_ex (\<lambda>h. pc_record_id h = pc_record_id c) h"
    and "permission_save sha ok p c base = Inr base'"
  shows "pm_revision p = pm_revision u + 1 \<and> base' = base(fst path :=
      AList.update (snd path) (File_Doc (permission_document p (h @ [c]))) (base (fst path)))"
  using assms
  by (auto simp: permission_save_def rbind_eq_Inr previous_history_def permission_load_read read_permission_def
      read_history_def write_permission_document_def split: if_splits prod.splits)

interpretation pstore: revisioned_store "permission_load sha i j" "update_permission sha disk i j c" pm_revision
  "\<lambda>p. wf_permission p \<and> pm_subject_id p = i \<and> pm_permission_id p = j"
proof
  fix d p assume "permission_load sha i j d = Inr p"
  then show "wf_permission p \<and> pm_subject_id p = i \<and> pm_permission_id p = j" by (rule permission_load_wf)
next
  fix p e d d'
  assume wf: "wf_permission p \<and> pm_subject_id p = i \<and> pm_permission_id p = j"
    and s: "update_permission sha disk i j c p e d = Inr d'"
  from s obtain u path h where u: "permission_load sha i j d = Inr u" "permission_path sha i j = Inr path"
    "read_history (file_at d (fst path) (snd path)) = Inr h"
    "\<not> list_ex (\<lambda>h. pc_record_id h = pc_record_id c) h" "permission_save sha disk p c d = Inr d'"
    by (auto simp: update_permission_def rbind_eq_Inr Let_def permission_load_read)
  from permission_save_update [OF u(1,2) _ _ u(3-5)] wf u(2)
  show "permission_load sha i j d' = Inr p" by (auto simp: permission_load_read)
next
  fix p e d d'
  assume s: "update_permission sha disk i j c p e d = Inr d'"
  from s obtain u path h where u: "permission_load sha i j d = Inr u" "permission_path sha i j = Inr path"
    "read_history (file_at d (fst path) (snd path)) = Inr h" "pm_revision u = e"
    "\<not> list_ex (\<lambda>h. pc_record_id h = pc_record_id c) h" "permission_save sha disk p c d = Inr d'"
    "pm_subject_id p = i" "pm_permission_id p = j"
    by (auto simp: update_permission_def rbind_eq_Inr Let_def permission_load_read)
  from permission_save_update [OF u(1,2,7,8,3,5,6)] u(1,4)
  show "pm_revision p = e + 1 \<and> (\<exists>u. permission_load sha i j d = Inr u \<and> pm_revision u = e)" by auto
qed

end
