(* ===== verification/Permission_Service.thy ===== *)
theory Permission_Service
  imports Permission_Repository
begin

text \<open>
  services/permission_service.py. The state of a call is the repository's root directory;
  \<open>permission_ports\<close> holds what a call reads from outside: the clock readings, fresh uuids and
  whether the disk accepts the one write a call makes.
\<close>

record permission_ports =
  pp_sha :: digest_fun
  pp_disk_ok :: bool
  pp_changed_at :: instant
  pp_revoked_at :: instant
  pp_context_at :: instant
  pp_permission_uuid :: string
  pp_record_uuid :: string
  pp_event_uuid :: string

section \<open>The change event\<close>

fun change_summary :: "permission_change_type \<Rightarrow> string" where
  "change_summary Chg_GRANTED = ''Permission was granted.''"
| "change_summary Chg_REVOKED = ''Permission was revoked.''"
| "change_summary Chg_LIMITED = ''Permission was limited.''"
| "change_summary Chg_EXPIRED = ''Permission expired.''"
| "change_summary Chg_STATUS_CHANGED = ''Permission status changed.''"
| "change_summary Chg_SCOPE_CHANGED = ''Permission scope changed.''"
| "change_summary Chg_CAPABILITIES_CHANGED = ''Permission capabilities changed.''"

definition permission_event :: "string \<Rightarrow> permission_state \<Rightarrow> permission_change \<Rightarrow> event res" where
  "permission_event uuid p c =
     rbind (state_mutation_init (PStr ''continuity.recent_changes'') (PStr (operation_value Op_APPEND))
       (PStr (''Permission '' @ pm_name p @ '': '' @ change_type_value (pc_change_type c) @
          '' at revision '' @ show_int (pm_revision p))) (PStr (pc_reason c))) (\<lambda>mutation.
     event_create None uuid
       \<lparr>ea_event_id = PNone, ea_occurred_at = utc_val (pc_created_at c), ea_source = PStr (pc_source c),
        ea_event_type = PStr ''permission_change'',
        ea_content = PStr (change_summary (pc_change_type c) @ '' '' @ pm_name p),
        ea_impact_scope = [PStr (section_value Sec_CONTINUITY)], ea_mutations = [mutation],
        ea_reason = PStr (pc_reason c),
        ea_metadata =
          [(''permission_id'', PStr (pm_permission_id p)), (''permission_revision'', PInt (pm_revision p)),
           (''permission_change_record_id'', PStr (pc_record_id c)),
           (''permission_change_type'', PStr (change_type_value (pc_change_type c)))],
        ea_observed_at = PNone, ea_recorded_at = PNone, ea_time_basis = PNone,
        ea_classification = PStr (classification_value Cls_LEGACY),
        ea_source_kind = PStr (source_kind_value Src_LEGACY), ea_source_event_id = PNone,
        ea_correlation_id = PNone, ea_evidence = [], ea_references = []\<rparr>)"

definition result_of :: "permission_ports \<Rightarrow> permission_state \<Rightarrow> permission_change \<Rightarrow> permission_result res" where
  "result_of pp p c = rbind (permission_event (pp_event_uuid pp) p c) (\<lambda>event.
     Inr \<lparr>pr_permission = p, pr_record = c, pr_event = event\<rparr>)"

section \<open>Changes\<close>

definition create_permission ::
  "permission_ports \<Rightarrow> string \<Rightarrow> pyval \<Rightarrow> pyval \<Rightarrow> pyval \<Rightarrow> string list \<Rightarrow> string list \<Rightarrow> pyval \<Rightarrow> pyval
     \<Rightarrow> string option \<Rightarrow> (permission_root, permission_result) prog" where
  "create_permission pp subject_id permission_type name description scope capabilities source reason permission_id base =
     (let identifier = given_or_uuid permission_id (pp_permission_uuid pp) in
      case permission_load (pp_sha pp) subject_id identifier base of
        Inr _ \<Rightarrow> (base, Inl (PermissionAlreadyExistsError, ''permission already exists: '' @ identifier))
      | Inl (c, m) \<Rightarrow>
          if c \<noteq> PermissionNotFoundError then (base, Inl (c, m))
          else sbind (slift (permission_init
              \<lparr>pma_permission_id = PStr identifier, pma_subject_id = PStr subject_id,
               pma_permission_type = permission_type, pma_name = name, pma_description = description,
               pma_scope = text_items scope, pma_capabilities = text_items capabilities,
               pma_status = PStr (status_value Perm_ACTIVE), pma_granted_at = utc_val (pp_changed_at pp),
               pma_revoked_at = PNone, pma_source = source, pma_revision = PInt 0\<rparr>)) (\<lambda>permission.
            sbind (slift (change_init
              \<lparr>pca_record_id = PStr (pp_record_uuid pp), pca_permission_id = PStr identifier,
               pca_change_type = PStr (change_type_value Chg_GRANTED), pca_before_state = PNone,
               pca_after_state = PDict (permission_to_dict permission), pca_reason = reason,
               pca_source = source, pca_created_at = utc_val (pp_changed_at pp)\<rparr>)) (\<lambda>record.
            sbind (swrite (permission_save (pp_sha pp) (pp_disk_ok pp) permission record)) (\<lambda>_.
            slift (result_of pp permission record)))) base)"

definition get_permission :: "permission_ports \<Rightarrow> string \<Rightarrow> string \<Rightarrow> (permission_root, permission_state) prog" where
  "get_permission pp subject_id permission_id = sread (permission_load (pp_sha pp) subject_id permission_id)"

definition list_permissions :: "permission_ports \<Rightarrow> string \<Rightarrow> bool \<Rightarrow> (permission_root, permission_state list) prog" where
  "list_permissions pp subject_id include_unavailable =
     sbind (sread (permission_list (pp_sha pp) subject_id)) (\<lambda>ps.
     sret (if include_unavailable then ps else filter is_available ps))"

definition get_history ::
  "permission_ports \<Rightarrow> string \<Rightarrow> string option \<Rightarrow> (permission_root, permission_change list) prog" where
  "get_history pp subject_id permission_id = sread (permission_history (pp_sha pp) subject_id permission_id)"

definition check_revision :: "permission_state \<Rightarrow> int option \<Rightarrow> unit res" where
  "check_revision p expected = ensure (\<not> (expected \<noteq> None \<and> Some (pm_revision p) \<noteq> expected))
     (perm_invalid ''permission revision does not match expected_revision'')"

text \<open>\<open>PermissionState.from_dict(current.to_dict())\<close>.\<close>

definition permission_copy :: "permission_state \<Rightarrow> permission_state res" where
  "permission_copy p = permission_from_dict (PDict (permission_to_dict p))"

definition save_change ::
  "permission_ports \<Rightarrow> permission_state \<Rightarrow> permission_state \<Rightarrow> permission_change_type \<Rightarrow> pyval \<Rightarrow> string
     \<Rightarrow> (permission_root, permission_result) prog" where
  "save_change pp before after change_type reason source =
     sbind (slift (change_init
       \<lparr>pca_record_id = PStr (pp_record_uuid pp), pca_permission_id = PStr (pm_permission_id after),
        pca_change_type = PStr (change_type_value change_type),
        pca_before_state = PDict (permission_to_dict before),
        pca_after_state = PDict (permission_to_dict after), pca_reason = reason,
        pca_source = PStr source, pca_created_at = utc_val (pp_changed_at pp)\<rparr>)) (\<lambda>record.
     sbind (swrite (permission_save (pp_sha pp) (pp_disk_ok pp) after record)) (\<lambda>_.
     slift (result_of pp after record)))"

fun status_change_type :: "permission_status \<Rightarrow> permission_change_type" where
  "status_change_type Perm_REVOKED = Chg_REVOKED"
| "status_change_type Perm_LIMITED = Chg_LIMITED"
| "status_change_type Perm_EXPIRED = Chg_EXPIRED"
| "status_change_type Perm_ACTIVE = Chg_STATUS_CHANGED"

definition update_status ::
  "permission_ports \<Rightarrow> string \<Rightarrow> string \<Rightarrow> pyval \<Rightarrow> pyval \<Rightarrow> string \<Rightarrow> int option
     \<Rightarrow> (permission_root, permission_result) prog" where
  "update_status pp subject_id permission_id status reason source expected_revision =
     sbind (sread (permission_load (pp_sha pp) subject_id permission_id)) (\<lambda>current.
     sbind (slift (check_revision current expected_revision)) (\<lambda>_.
     sbind (slift (perm_status status)) (\<lambda>next_status.
     sbind (slift (ensure (pm_status current \<noteq> next_status)
       (perm_invalid (''permission already has status '' @ status_value next_status)))) (\<lambda>_.
     sbind (slift (permission_copy current)) (\<lambda>copy.
     sbind (slift (permission_recheck (copy\<lparr>pm_status := next_status,
         pm_revoked_at := (if next_status = Perm_REVOKED then Some (pp_revoked_at pp) else None),
         pm_source := source, pm_revision := pm_revision copy + 1\<rparr>))) (\<lambda>updated.
     save_change pp current updated (status_change_type next_status) reason source))))))"

definition restrict_permission ::
  "permission_ports \<Rightarrow> string \<Rightarrow> string \<Rightarrow> pyval \<Rightarrow> string \<Rightarrow> string list option \<Rightarrow> string list option \<Rightarrow> int option
     \<Rightarrow> (permission_root, permission_result) prog" where
  "restrict_permission pp subject_id permission_id reason source scope capabilities expected_revision =
     sbind (sread (permission_load (pp_sha pp) subject_id permission_id)) (\<lambda>current.
     sbind (slift (check_revision current expected_revision)) (\<lambda>_.
     sbind (slift (ensure (is_available current)
       (perm_invalid ''restriction cannot reactivate unavailable permission''))) (\<lambda>_.
     sbind (slift (permission_copy current)) (\<lambda>copy.
     let next_scope = (case scope of None \<Rightarrow> pm_scope copy | Some ss \<Rightarrow> ss);
         next_capabilities = (case capabilities of None \<Rightarrow> pm_capabilities copy | Some cs \<Rightarrow> cs) in
     sbind (slift (ensure (set next_capabilities \<subseteq> set (pm_capabilities current))
       (perm_invalid ''restriction cannot add capabilities''))) (\<lambda>_.
     sbind (slift (ensure (\<not> (''*'' \<notin> set (pm_scope current) \<and> \<not> set next_scope \<subseteq> set (pm_scope current)))
       (perm_invalid ''restriction cannot expand scope''))) (\<lambda>_.
     sbind (slift (ensure (\<not> (pm_status current = Perm_LIMITED \<and> next_scope = pm_scope current
         \<and> next_capabilities = pm_capabilities current))
       (perm_invalid ''permission restriction has no changes''))) (\<lambda>_.
     sbind (slift (permission_recheck (copy\<lparr>pm_status := Perm_LIMITED, pm_scope := next_scope,
         pm_capabilities := next_capabilities, pm_revoked_at := None, pm_source := source,
         pm_revision := pm_revision copy + 1\<rparr>))) (\<lambda>updated.
     save_change pp current updated Chg_LIMITED reason source))))))))"

definition revoke_permission ::
  "permission_ports \<Rightarrow> string \<Rightarrow> string \<Rightarrow> pyval \<Rightarrow> string \<Rightarrow> int option \<Rightarrow> (permission_root, permission_result) prog" where
  "revoke_permission pp subject_id permission_id reason source expected_revision =
     update_status pp subject_id permission_id (PStr (status_value Perm_REVOKED)) reason source expected_revision"

section \<open>Queries\<close>

definition or_none :: "string \<Rightarrow> string" where
  "or_none s = (if s = [] then ''(none)'' else s)"

definition restriction_text :: "permission_state \<Rightarrow> string" where
  "restriction_text p = pm_name p @ '' is LIMITED to scopes '' @ or_none (join '', '' (pm_scope p)) @
     '' and capabilities '' @ or_none (join '', '' (pm_capabilities p)) @ ''.''"

text \<open>\<open>sorted(history, key=..., reverse=True)\<close> keeps records of equal key in their order.\<close>

definition recent_first :: "permission_change list \<Rightarrow> permission_change list" where
  "recent_first cs = rev (sort_key (\<lambda>c. (pc_created_at c, pc_record_id c)) (rev cs))"

definition get_context :: "permission_ports \<Rightarrow> string \<Rightarrow> pyval \<Rightarrow> (permission_root, permission_context) prog" where
  "get_context pp subject_id recent_change_limit =
     sbind (slift (case as_int recent_change_limit of
         Some n \<Rightarrow> if n \<le> 0 then Inl (perm_invalid ''recent_change_limit must be a positive integer'') else Inr n
       | None \<Rightarrow> Inl (perm_invalid ''recent_change_limit must be a positive integer''))) (\<lambda>limit.
     sbind (sread (permission_list (pp_sha pp) subject_id)) (\<lambda>permissions.
     let current = filter is_available permissions;
         capabilities = fromkeys (concat (map pm_capabilities current));
         restrictions = map restriction_text (filter (\<lambda>p. pm_status p = Perm_LIMITED) current) in
     sbind (sread (permission_history (pp_sha pp) subject_id None)) (\<lambda>history.
     slift (context_init (PStr subject_id) current (text_items capabilities) (text_items restrictions)
       (take (nat limit) (recent_first history)) (utc_val (pp_context_at pp))))))"

definition check_capability ::
  "permission_ports \<Rightarrow> string \<Rightarrow> string \<Rightarrow> string option \<Rightarrow> (permission_root, bool) prog" where
  "check_capability pp subject_id capability scope =
     sbind (get_context pp subject_id (PInt 20)) (\<lambda>context.
     slift (has_capability context capability scope))"

end
