(* ===== verification/Permission_Runs.thy ===== *)
theory Permission_Runs
  imports Permission_Service
begin

text \<open>
  What the permission service does to the store, against an abstract specification: a
  permission moves by \<open>permission_step\<close>s only, and its file is the \<open>audit\<close> of all of them since
  it was granted. \<open>permission_reach\<close> are the stores that calls can produce from an empty one,
  \<open>sound_store\<close> is their invariant.
\<close>

section \<open>The specification\<close>

inductive permission_step :: "permission_state \<Rightarrow> permission_change_type \<Rightarrow> permission_state \<Rightarrow> bool" where
  status_step: "pm_status p \<noteq> s \<Longrightarrow>
     q = p\<lparr>pm_status := s, pm_revoked_at := r, pm_source := src, pm_revision := pm_revision p + 1\<rparr> \<Longrightarrow>
     permission_step p (status_change_type s) q"
| restrict_step: "is_available p \<Longrightarrow> set cs \<subseteq> set (pm_capabilities p) \<Longrightarrow>
     ''*'' \<in> set (pm_scope p) \<or> set ss \<subseteq> set (pm_scope p) \<Longrightarrow>
     q = p\<lparr>pm_status := Perm_LIMITED, pm_scope := ss, pm_capabilities := cs, pm_revoked_at := None,
       pm_source := src, pm_revision := pm_revision p + 1\<rparr> \<Longrightarrow>
     permission_step p Chg_LIMITED q"

inductive_cases permission_stepE: "permission_step p t q"

text \<open>The history of a permission: its successive states and the record of each change.\<close>

inductive audit :: "permission_state list \<Rightarrow> permission_change list \<Rightarrow> bool" where
  granted: "wf_permission p \<Longrightarrow> wf_change c \<Longrightarrow> pm_status p = Perm_ACTIVE \<Longrightarrow> pm_revision p = 0 \<Longrightarrow>
     pc_change_type c = Chg_GRANTED \<Longrightarrow> pc_before_state c = None \<Longrightarrow> pc_after_state c = permission_to_dict p \<Longrightarrow>
     audit [p] [c]"
| changed: "audit ps cs \<Longrightarrow> wf_permission p \<Longrightarrow> wf_change c \<Longrightarrow>
     permission_step (last ps) (pc_change_type c) p \<Longrightarrow>
     pc_before_state c = Some (permission_to_dict (last ps)) \<Longrightarrow> pc_after_state c = permission_to_dict p \<Longrightarrow>
     pc_record_id c \<notin> pc_record_id ` set cs \<Longrightarrow> audit (ps @ [p]) (cs @ [c])"

text \<open>The capabilities a permission could ever exercise, by scope, if it were available.\<close>

definition rights :: "permission_state \<Rightarrow> (string \<times> string) set" where
  "rights p = {(c, s). c \<in> set (pm_capabilities p) \<and> (''*'' \<in> set (pm_scope p) \<or> s \<in> set (pm_scope p))}"

definition sound_file :: "digest_fun \<Rightarrow> string \<Rightarrow> string \<Rightarrow> file_state \<Rightarrow> bool" where
  "sound_file sha dir stem f \<longleftrightarrow> (\<exists>ps cs. audit ps cs \<and> f = File_Doc (permission_document (last ps) cs) \<and>
     dir = sha (pm_subject_id (last ps)) \<and> stem = sha (pm_permission_id (last ps)))"

definition sound_store :: "digest_fun \<Rightarrow> permission_root \<Rightarrow> bool" where
  "sound_store sha base \<longleftrightarrow> (\<forall>dir. distinct (map fst (base dir)) \<and>
     (\<forall>(stem, f) \<in> set (base dir). sound_file sha dir stem f))"

lemma permission_step_facts:
  assumes "permission_step p t q"
  shows "rights q \<subseteq> rights p" "pm_revision q = pm_revision p + 1"
    "pm_permission_id q = pm_permission_id p" "pm_subject_id q = pm_subject_id p"
    "pm_granted_at q = pm_granted_at p" "pm_name q = pm_name p" "set (pm_capabilities q) \<subseteq> set (pm_capabilities p)"
  using assms by (auto elim!: permission_stepE simp: rights_def)

lemma audit_facts:
  assumes "audit ps cs"
  shows "ps \<noteq> []" "length cs = length ps" "list_all wf_permission ps" "list_all wf_change cs"
    "distinct (map pc_record_id cs)" "pm_revision (last ps) = int (length ps) - 1"
    "cs \<noteq> []" "pc_after_state (last cs) = permission_to_dict (last ps)"
  using assms by (induction rule: audit.induct) (auto dest: permission_step_facts(2))

lemma audit_nth:
  assumes "audit ps cs" "k < length ps"
  shows "pc_after_state (cs ! k) = permission_to_dict (ps ! k) \<and>
    pm_permission_id (ps ! k) = pm_permission_id (last ps) \<and> pm_subject_id (ps ! k) = pm_subject_id (last ps) \<and>
    rights (last ps) \<subseteq> rights (ps ! k) \<and>
    (if k = 0 then pc_before_state (cs ! k) = None \<and> pc_change_type (cs ! k) = Chg_GRANTED
     else pc_before_state (cs ! k) = Some (permission_to_dict (ps ! (k - 1))) \<and>
       permission_step (ps ! (k - 1)) (pc_change_type (cs ! k)) (ps ! k))"
  using assms
proof (induction arbitrary: k rule: audit.induct)
  case (changed ps cs p c)
  note f = audit_facts [OF changed.hyps(1)] and s = permission_step_facts [OF changed.hyps(4)]
  show ?case
  proof (cases "k < length ps")
    case True
    with changed.IH [OF True] f(2) s show ?thesis by (auto simp: nth_append)
  next
    case False
    with changed.prems have k: "k = length ps" by simp
    have "(ps @ [p]) ! (length ps - 1) = last ps" using f(1) by (simp add: nth_append last_conv_nth)
    with k f(1,2) changed.hyps(4,5,6) show ?thesis by (auto simp: nth_append)
  qed
qed auto

section \<open>Sound stores\<close>

lemma sound_store_file:
  assumes "sound_store sha base" "is_file (file_at base dir stem)"
  obtains ps cs where "audit ps cs" "file_at base dir stem = File_Doc (permission_document (last ps) cs)"
    "dir = sha (pm_subject_id (last ps))" "stem = sha (pm_permission_id (last ps))"
proof -
  obtain f where f: "map_of (base dir) stem = Some f" "file_at base dir stem = f"
    using assms(2) by (auto simp: file_at_def split: option.splits)
  from f(1) have "(stem, f) \<in> set (base dir)" by (simp add: map_of_SomeD)
  with assms(1) have "sound_file sha dir stem f" by (auto simp: sound_store_def)
  with f that show thesis by (auto simp: sound_file_def)
qed

definition put :: "digest_fun \<Rightarrow> permission_root \<Rightarrow> permission_state \<Rightarrow> permission_change list \<Rightarrow> permission_root" where
  "put sha base p cs = base(sha (pm_subject_id p) :=
     AList.update (sha (pm_permission_id p)) (File_Doc (permission_document p cs)) (base (sha (pm_subject_id p))))"

lemma sound_put:
  assumes "sound_store sha base" "audit ps cs"
  shows "sound_store sha (put sha base (last ps) cs)"
proof -
  have "sound_file sha dir stem f"
    if "(stem, f) \<in> set (put sha base (last ps) cs dir)" for dir stem f
  proof -
    have d: "distinct (map fst (base dir))" "distinct (map fst (put sha base (last ps) cs dir))"
      using assms(1) by (simp_all add: sound_store_def put_def distinct_update)
    have "map_of (put sha base (last ps) cs dir) stem = Some f" using d(2) that by simp
    then show ?thesis
      using assms d(1) by (auto simp: put_def update_conv' sound_store_def sound_file_def split: if_splits dest!: map_of_SomeD)
  qed
  then show ?thesis using assms(1) by (auto simp: sound_store_def put_def distinct_update)
qed

lemma file_at_put:
  "file_at (put sha base p cs) dir stem = (if dir = sha (pm_subject_id p) \<and> stem = sha (pm_permission_id p)
     then File_Doc (permission_document p cs) else file_at base dir stem)"
  by (simp add: put_def)

text \<open>A permission that loads from a sound store has its audit in the file.\<close>

lemma sound_load:
  assumes "sound_store sha base" "permission_load sha i j base = Inr p"
  obtains ps cs where "audit ps cs" "last ps = p"
    "file_at base (sha i) (sha j) = File_Doc (permission_document p cs)"
    "permission_path sha i j = Inr (sha i, sha j)" "pm_subject_id p = i" "pm_permission_id p = j"
proof -
  from assms(2) have l: "permission_path sha i j = Inr (sha i, sha j)" "is_file (file_at base (sha i) (sha j))"
    "read_permission (file_at base (sha i) (sha j)) = Inr p" "pm_subject_id p = i" "pm_permission_id p = j"
    by (auto simp: permission_load_read permission_path_def perm_hash_def rbind_eq_Inr split: if_splits)
  from sound_store_file [OF assms(1) l(2)] obtain ps cs where a: "audit ps cs"
    "file_at base (sha i) (sha j) = File_Doc (permission_document (last ps) cs)" by blast
  moreover have "wf_permission (last ps)" using audit_facts(1,3) [OF a(1)] by (simp add: list_all_iff)
  ultimately show thesis using l that by (metis read_permission_document_run Inr_inject)
qed

lemma absent_path:
  assumes "sound_store sha base" "permission_load sha i j base = Inl (PermissionNotFoundError, m)"
  shows "permission_path sha i j = Inr (sha i, sha j) \<and> \<not> is_file (file_at base (sha i) (sha j))"
proof -
  have p: "permission_path sha i j = Inr (sha i, sha j)"
    using assms(2) by (auto simp: permission_load_def permission_path_def perm_hash_def rbind_eq_Inl split: if_splits)
  have "\<not> is_file (file_at base (sha i) (sha j))"
  proof
    assume "is_file (file_at base (sha i) (sha j))"
    with assms(1) obtain ps cs where a: "audit ps cs"
      "file_at base (sha i) (sha j) = File_Doc (permission_document (last ps) cs)" by (rule sound_store_file)
    have "wf_permission (last ps)" using audit_facts(1,3) [OF a(1)] by (simp add: list_all_iff)
    then show False using assms(2) p
      by (auto simp: permission_load_def a(2) rbind_eq_Inl permission_roundtrip)
  qed
  with p show ?thesis ..
qed

section \<open>The operations\<close>

text \<open>
  The outcomes of a change: the store is as it was, or the file of the permission holds the
  history extended by one record.
\<close>

definition appended :: "digest_fun \<Rightarrow> permission_root \<Rightarrow> permission_state list \<Rightarrow> permission_change list
    \<Rightarrow> permission_state \<Rightarrow> permission_change \<Rightarrow> permission_root \<Rightarrow> bool" where
  "appended sha base ps cs p c base' \<longleftrightarrow> audit (ps @ [p]) (cs @ [c]) \<and> base' = put sha base p (cs @ [c])"

lemma save_changed:
  assumes a: "audit ps cs" "file_at base (sha i) (sha j) = File_Doc (permission_document (last ps) cs)"
    and p: "permission_path sha i j = Inr (sha i, sha j)" "pm_subject_id (last ps) = i" "pm_permission_id (last ps) = j"
    and n: "wf_permission p" "wf_change c" "permission_step (last ps) (pc_change_type c) p"
      "pc_before_state c = Some (permission_to_dict (last ps))" "pc_after_state c = permission_to_dict p"
    and s: "permission_save sha ok p c base = Inr base'"
  shows "appended sha base ps cs p c base'"
proof -
  note f = audit_facts [OF a(1)] and st = permission_step_facts [OF n(3)]
  have w: "wf_permission (last ps)" using f(1,3) by (simp add: list_all_iff)
  have h: "rmap change_from_dict (map change_to_dict cs) = Inr cs"
    using f(4) by (intro rmap_Inr_id) (simp add: list_all_iff change_roundtrip)
  have ids: "pm_subject_id p = i" "pm_permission_id p = j" using st p by simp_all
  have "\<not> py_eq (change_to_dict (last cs)) (change_to_dict c)"
  proof
    assume "py_eq (change_to_dict (last cs)) (change_to_dict c)"
    then have "py_eq (PDict (pc_after_state (last cs))) (PDict (pc_after_state c))"
      unfolding change_to_dict_def by (simp del: py_eq.simps(6) add: py_eq.simps(6) [of "[_, _, _, _, _, _, _, _]"])
    then have "last ps = p" using f(8) n(5) permission_to_dict_eq by metis
    with st(2) show False by simp
  qed
  then have fresh: "pc_record_id c \<notin> pc_record_id ` set cs"
    and b: "base' = put sha base p (cs @ [c])"
    using s p(1) h w
    by (auto simp: permission_save_def rbind_eq_Inr previous_history_def ids a(2) permission_roundtrip
        write_permission_document_def put_def list_ex_iff simp del: py_eq.simps split: if_splits)
  from audit.changed [OF a(1) n fresh] b show ?thesis by (simp add: appended_def)
qed

definition on_file :: "digest_fun \<Rightarrow> permission_root \<Rightarrow> string \<Rightarrow> string \<Rightarrow> permission_state list \<Rightarrow> permission_change list \<Rightarrow> bool" where
  "on_file sha base i j ps cs \<longleftrightarrow> audit ps cs \<and> permission_path sha i j = Inr (sha i, sha j) \<and>
     pm_subject_id (last ps) = i \<and> pm_permission_id (last ps) = j \<and>
     file_at base (sha i) (sha j) = File_Doc (permission_document (last ps) cs)"

definition moves :: "digest_fun \<Rightarrow> permission_root \<Rightarrow> permission_root \<Rightarrow> bool" where
  "moves sha base base' \<longleftrightarrow> base' = base \<or> (\<exists>i j ps cs p c. on_file sha base i j ps cs \<and> appended sha base ps cs p c base') \<or>
     (\<exists>p c. \<not> is_file (file_at base (sha (pm_subject_id p)) (sha (pm_permission_id p))) \<and> audit [p] [c] \<and> base' = put sha base p [c])"

lemma moves_same: "moves sha base base"
  by (simp add: moves_def)

lemma moves_append: "on_file sha base i j ps cs \<Longrightarrow> appended sha base ps cs p c base' \<Longrightarrow> moves sha base base'"
  unfolding moves_def by blast

lemma moves_new:
  "\<not> is_file (file_at base (sha (pm_subject_id p)) (sha (pm_permission_id p))) \<Longrightarrow> audit [p] [c] \<Longrightarrow>
     moves sha base (put sha base p [c])"
  unfolding moves_def by blast

lemma on_file_load:
  assumes "on_file sha base i j ps cs"
  shows "permission_load sha i j base = Inr (last ps)" "wf_permission (last ps)"
proof -
  have a: "audit ps cs" and p: "permission_path sha i j = Inr (sha i, sha j)"
    "file_at base (sha i) (sha j) = File_Doc (permission_document (last ps) cs)"
    "pm_subject_id (last ps) = i" "pm_permission_id (last ps) = j"
    using assms by (simp_all add: on_file_def)
  show w: "wf_permission (last ps)" using audit_facts(1,3) [OF a] by (simp add: list_all_iff)
  show "permission_load sha i j base = Inr (last ps)" using w p by (simp add: permission_load_read)
qed

lemma moves_sound: "moves sha base base' \<Longrightarrow> sound_store sha base \<Longrightarrow> sound_store sha base'"
  using sound_put [of sha base "_ @ [_]" "_ @ [_]"] sound_put [of sha base "[_]" "[_]"]
  by (auto simp: moves_def appended_def)

lemma change_init_fields:
  assumes "change_init \<lparr>pca_record_id = PStr rid, pca_permission_id = PStr j,
      pca_change_type = PStr (change_type_value t), pca_before_state = b, pca_after_state = PDict d,
      pca_reason = reason, pca_source = src, pca_created_at = utc_val at_time\<rparr> = Inr c"
  shows "wf_change c \<and> pc_record_id c = rid \<and> pc_permission_id c = j \<and> pc_change_type c = t \<and>
    opt_val PDict (pc_before_state c) = b \<and> pc_after_state c = d \<and> pc_created_at c = at_time \<and>
    reason = PStr (pc_reason c) \<and> src = PStr (pc_source c)"
  using assms change_init_wf [OF assms] unfolding change_init_def
  by (elim rbindE) (auto simp: perm_text_Inr json_snapshot_Inr json_snapshot_optional_Inr simp del: json_ok.simps)

lemma opt_val_PDict_inj: "opt_val PDict x = PDict d \<longleftrightarrow> x = Some d"
  by (cases x) simp_all

lemma save_change_outcome:
  assumes o: "on_file (pp_sha pp) base i j ps cs" and n: "wf_permission p" "permission_step (last ps) t p"
  shows "wp (save_change pp (last ps) p t reason src)
    (\<lambda>r base'. pr_permission r = p \<and> pc_change_type (pr_record r) = t \<and>
      pc_record_id (pr_record r) = pp_record_uuid pp \<and> pc_source (pr_record r) = src \<and>
      appended (pp_sha pp) base ps cs p (pr_record r) base')
    (\<lambda>_ base'. moves (pp_sha pp) base base') base"
proof -
  define rec where "rec = change_init
       \<lparr>pca_record_id = PStr (pp_record_uuid pp), pca_permission_id = PStr (pm_permission_id p),
        pca_change_type = PStr (change_type_value t), pca_before_state = PDict (permission_to_dict (last ps)),
        pca_after_state = PDict (permission_to_dict p), pca_reason = reason,
        pca_source = PStr src, pca_created_at = utc_val (pp_changed_at pp)\<rparr>"
  have saved: "appended (pp_sha pp) base ps cs p c base' \<and> pc_change_type c = t \<and>
      pc_record_id c = pp_record_uuid pp \<and> pc_source c = src"
    if "rec = Inr c" "permission_save (pp_sha pp) (pp_disk_ok pp) p c base = Inr base'" for c base'
  proof -
    note f = change_init_fields [OF that(1) [unfolded rec_def]]
    have "appended (pp_sha pp) base ps cs p c base'"
      by (rule save_changed [OF _ _ _ _ _ n(1) _ _ _ _ that(2), where i = i and j = j])
        (use f o n(2) in \<open>auto simp: on_file_def opt_val_PDict_inj\<close>)
    with f show ?thesis by simp
  qed
  have m: "moves (pp_sha pp) base base'" if "appended (pp_sha pp) base ps cs p c base'" for c base'
    using that o unfolding moves_def by blast
  have same: "moves (pp_sha pp) base base" by (simp add: moves_def)
  show ?thesis
    unfolding save_change_def rec_def [symmetric]
    by (auto simp: wp_simps result_of_def rbind_eq_Inr same split: sum.splits dest: saved intro: m)
qed

lemma permission_copy_run: "wf_permission p \<Longrightarrow> permission_copy p = Inr p"
  by (simp add: permission_copy_def permission_roundtrip)

lemma recheck_wf: "permission_recheck p = Inr q \<Longrightarrow> wf_permission q"
  unfolding permission_recheck_def by (rule permission_init_wf)

lemma recheck_same:
  assumes "permission_recheck p = Inr q" "wf_permission p' " "pm_scope p = pm_scope p'" "pm_capabilities p = pm_capabilities p'"
  shows "q = p"
  using permission_recheck_Inr [OF assms(1)] assms(2-4)
  by (cases p) (simp add: wf_permission_def all_text_def fromkeys_id)

lemma perm_status_Inr: "perm_status v = Inr s \<Longrightarrow> v = PStr (status_value s)"
  unfolding perm_status_def by (rule require_enum_Inr)

lemma sound_load_on_file:
  assumes "sound_store sha base" "permission_load sha i j base = Inr p"
  obtains ps cs where "on_file sha base i j ps cs" "last ps = p"
  by (rule sound_load [OF assms]) (simp add: on_file_def that)

definition with_status :: "permission_state \<Rightarrow> permission_status \<Rightarrow> instant \<Rightarrow> string \<Rightarrow> permission_state" where
  "with_status p s t src = p\<lparr>pm_status := s, pm_revoked_at := (if s = Perm_REVOKED then Some t else None),
     pm_source := src, pm_revision := pm_revision p + 1\<rparr>"

definition with_limits :: "permission_state \<Rightarrow> string list \<Rightarrow> string list \<Rightarrow> string \<Rightarrow> permission_state" where
  "with_limits p ss cs src = p\<lparr>pm_status := Perm_LIMITED, pm_scope := fromkeys ss, pm_capabilities := fromkeys cs,
     pm_revoked_at := None, pm_source := src, pm_revision := pm_revision p + 1\<rparr>"

lemma update_status_outcome:
  assumes "sound_store (pp_sha pp) base"
  shows "wp (update_status pp i j status reason src expected)
    (\<lambda>r base'. \<exists>ps cs s. on_file (pp_sha pp) base i j ps cs \<and> perm_status status = Inr s \<and>
      pm_status (last ps) \<noteq> s \<and> (\<forall>e. expected = Some e \<longrightarrow> pm_revision (last ps) = e) \<and>
      pr_permission r = with_status (last ps) s (pp_revoked_at pp) src \<and>
      pc_change_type (pr_record r) = status_change_type s \<and>
      appended (pp_sha pp) base ps cs (pr_permission r) (pr_record r) base')
    (\<lambda>_ base'. moves (pp_sha pp) base base') base"
proof (cases "permission_load (pp_sha pp) i j base")
  case (Inl e)
  then show ?thesis by (simp add: update_status_def wp_simps moves_def)
next
  case (Inr p)
  obtain ps cs where o: "on_file (pp_sha pp) base i j ps cs" and l: "last ps = p"
    by (rule sound_load_on_file [OF assms Inr])
  have w: "wf_permission p" using on_file_load(2) [OF o] l by simp
  have q: "q = with_status p s (pp_revoked_at pp) src \<and> wf_permission q"
    if "permission_recheck (with_status p s (pp_revoked_at pp) src) = Inr q" for s q
    using recheck_same [OF that w] recheck_wf [OF that] by (simp add: with_status_def)
  have step: "permission_step p (status_change_type s) (with_status p s (pp_revoked_at pp) src)"
    if "pm_status p \<noteq> s" for s
    using that by (intro status_step [where r = "if s = Perm_REVOKED then Some (pp_revoked_at pp) else None" and src = src])
      (simp_all add: with_status_def)
  have save: "wp (save_change pp p q (status_change_type s) reason src)
    (\<lambda>r base'. pr_permission r = with_status p s (pp_revoked_at pp) src \<and>
      pc_change_type (pr_record r) = status_change_type s \<and>
      appended (pp_sha pp) base ps cs (pr_permission r) (pr_record r) base')
    (\<lambda>_ base'. moves (pp_sha pp) base base') base"
    if "pm_status p \<noteq> s" "permission_recheck (with_status p s (pp_revoked_at pp) src) = Inr q" for s q
  proof -
    note s = save_change_outcome [OF o conjunct2 [OF q [OF that(2)]], of "status_change_type s" reason src, unfolded l]
    show ?thesis
      by (rule wp_conseq [OF s]) (use q [OF that(2)] step [OF that(1)] in auto)
  qed
  show ?thesis
    unfolding update_status_def wp_simps Inr sum.case permission_copy_run [OF w] with_status_def [symmetric] check_revision_def ensure_def
    by (auto simp: moves_def l intro!: exI [of _ ps] exI [of _ cs] o wp_conseq [OF save] split: sum.splits)
qed

definition restricted ::
  "permission_ports \<Rightarrow> permission_root \<Rightarrow> string \<Rightarrow> string \<Rightarrow> string \<Rightarrow> string list option \<Rightarrow> string list option
     \<Rightarrow> int option \<Rightarrow> permission_result \<Rightarrow> permission_root \<Rightarrow> bool" where
  "restricted pp base i j src scope capabilities expected r base' \<longleftrightarrow>
     (\<exists>ps cs p ss ks. on_file (pp_sha pp) base i j ps cs \<and> p = last ps \<and> is_available p \<and>
      ss = (case scope of None \<Rightarrow> pm_scope p | Some x \<Rightarrow> x) \<and>
      ks = (case capabilities of None \<Rightarrow> pm_capabilities p | Some x \<Rightarrow> x) \<and>
      set ks \<subseteq> set (pm_capabilities p) \<and> (''*'' \<in> set (pm_scope p) \<or> set ss \<subseteq> set (pm_scope p)) \<and>
      (\<forall>e. expected = Some e \<longrightarrow> pm_revision p = e) \<and>
      pr_permission r = with_limits p ss ks src \<and> pc_change_type (pr_record r) = Chg_LIMITED \<and>
      appended (pp_sha pp) base ps cs (pr_permission r) (pr_record r) base')"

lemma restrict_outcome:
  assumes "sound_store (pp_sha pp) base"
  shows "wp (restrict_permission pp i j reason src scope capabilities expected)
    (restricted pp base i j src scope capabilities expected)
    (\<lambda>_ base'. moves (pp_sha pp) base base') base"
proof (cases "permission_load (pp_sha pp) i j base")
  case (Inl e)
  then show ?thesis by (simp add: restrict_permission_def wp_simps moves_def)
next
  case (Inr p)
  obtain ps cs where o: "on_file (pp_sha pp) base i j ps cs" and l: "last ps = p"
    by (rule sound_load_on_file [OF assms Inr])
  have w: "wf_permission p" using on_file_load(2) [OF o] l by simp
  let ?ss = "case scope of None \<Rightarrow> pm_scope p | Some x \<Rightarrow> x"
  let ?ks = "case capabilities of None \<Rightarrow> pm_capabilities p | Some x \<Rightarrow> x"
  let ?new = "p\<lparr>pm_status := Perm_LIMITED, pm_scope := ?ss, pm_capabilities := ?ks, pm_revoked_at := None,
      pm_source := src, pm_revision := pm_revision p + 1\<rparr>"
  have q: "q = with_limits p ?ss ?ks src \<and> wf_permission q" if "permission_recheck ?new = Inr q" for q
    using permission_recheck_Inr [OF that] recheck_wf [OF that] by (simp add: with_limits_def)
  have step: "permission_step p Chg_LIMITED (with_limits p ?ss ?ks src)"
    if "is_available p" "set ?ks \<subseteq> set (pm_capabilities p)" "''*'' \<in> set (pm_scope p) \<or> set ?ss \<subseteq> set (pm_scope p)"
    by (rule restrict_step [where ss = "fromkeys ?ss" and cs = "fromkeys ?ks" and src = src])
      (use that in \<open>simp_all add: with_limits_def\<close>)
  have save: "wp (save_change pp p q Chg_LIMITED reason src)
    (restricted pp base i j src scope capabilities expd) (\<lambda>_ base'. moves (pp_sha pp) base base') base"
    if "is_available p" "set ?ks \<subseteq> set (pm_capabilities p)" "''*'' \<in> set (pm_scope p) \<or> set ?ss \<subseteq> set (pm_scope p)"
      "permission_recheck ?new = Inr q" "expd = None \<or> expd = Some (pm_revision p)" for q expd
  proof (rule wp_conseq [OF save_change_outcome [OF o conjunct2 [OF q [OF that(4)]], of Chg_LIMITED reason src, unfolded l]])
    show "permission_step p Chg_LIMITED q" using q [OF that(4)] step [OF that(1-3)] by simp
    fix r :: permission_result and base'
    assume "pr_permission r = q \<and> pc_change_type (pr_record r) = Chg_LIMITED \<and>
      pc_record_id (pr_record r) = pp_record_uuid pp \<and> pc_source (pr_record r) = src \<and>
      appended (pp_sha pp) base ps cs q (pr_record r) base'"
    with that q [OF that(4)] o l show "restricted pp base i j src scope capabilities expd r base'"
      unfolding restricted_def
      by (intro exI [of _ ps] exI [of _ cs] exI [of _ p] exI [of _ ?ss] exI [of _ ?ks]) auto
  qed
  show ?thesis
    unfolding restrict_permission_def wp_simps Inr sum.case permission_copy_run [OF w] check_revision_def ensure_def Let_def
    by (auto simp: moves_same intro: save split: sum.splits)
qed

lemma wp_at: "f s = g s \<Longrightarrow> wp g Q E s \<Longrightarrow> wp f Q E s"
  by (simp add: wp_def)

text \<open>A new permission: its file did not exist, and holds its grant afterwards.\<close>

lemma create_outcome:
  assumes "sound_store (pp_sha pp) base"
  shows "wp (create_permission pp i ty nm de scope capabilities src reason given)
    (\<lambda>r base'. let p = pr_permission r; j = given_or_uuid given (pp_permission_uuid pp) in
      \<not> is_file (file_at base (pp_sha pp i) (pp_sha pp j)) \<and> pm_subject_id p = i \<and> pm_permission_id p = j \<and>
      pm_status p = Perm_ACTIVE \<and> pm_scope p = fromkeys scope \<and> pm_capabilities p = fromkeys capabilities \<and>
      audit [p] [pr_record r] \<and> base' = put (pp_sha pp) base p [pr_record r])
    (\<lambda>_ base'. moves (pp_sha pp) base base') base"
proof -
  let ?sha = "pp_sha pp" and ?j = "given_or_uuid given (pp_permission_uuid pp)"
  let ?a = "\<lparr>pma_permission_id = PStr ?j, pma_subject_id = PStr i,
               pma_permission_type = ty, pma_name = nm, pma_description = de,
               pma_scope = text_items scope, pma_capabilities = text_items capabilities,
               pma_status = PStr (status_value Perm_ACTIVE), pma_granted_at = utc_val (pp_changed_at pp),
               pma_revoked_at = PNone, pma_source = src, pma_revision = PInt 0\<rparr>"
  define rec where "rec p = change_init
              \<lparr>pca_record_id = PStr (pp_record_uuid pp), pca_permission_id = PStr ?j,
               pca_change_type = PStr (change_type_value Chg_GRANTED), pca_before_state = PNone,
               pca_after_state = PDict (permission_to_dict p), pca_reason = reason,
               pca_source = src, pca_created_at = utc_val (pp_changed_at pp)\<rparr>" for p
  have p: "wf_permission p \<and> pm_subject_id p = i \<and> pm_permission_id p = ?j \<and> pm_status p = Perm_ACTIVE \<and>
      pm_revision p = 0 \<and> pm_scope p = fromkeys scope \<and> pm_capabilities p = fromkeys capabilities"
    if "permission_init ?a = Inr p" for p
    using that permission_init_wf [OF that] unfolding permission_init_def
    by (elim rbindE) (auto simp: perm_text_Inr perm_text_list_items perm_revision_def optional_aware_def
        simp del: status_value.simps split: if_splits)
  have c: "audit [p] [c] \<and> pc_permission_id c = ?j \<and> pc_before_state c = None"
    if "permission_init ?a = Inr p" "rec p = Inr c" for p c
    using change_init_fields [OF that(2) [unfolded rec_def]] p [OF that(1)]
    by (cases "pc_before_state c") (auto intro: audit.granted)
  have s: "base' = put ?sha base p [c]"
    if "permission_init ?a = Inr p" "rec p = Inr c" "permission_save ?sha (pp_disk_ok pp) p c base = Inr base'"
      "permission_path ?sha i ?j = Inr (?sha i, ?sha ?j) \<and> \<not> is_file (file_at base (?sha i) (?sha ?j))" for p c base'
    using that(3,4) p [OF that(1)] c [OF that(1,2)]
    by (auto simp: permission_save_def previous_history_def write_permission_document_def rbind_eq_Inr put_def
        simp del: py_eq.simps split: if_splits)
  show ?thesis
  proof (cases "permission_load ?sha i ?j base")
    case (Inr q)
    then show ?thesis by (simp add: create_permission_def wp_def Let_def moves_def)
  next
    case (Inl e)
    obtain k m where e: "e = (k, m)" by (cases e)
    show ?thesis
    proof (cases "k = PermissionNotFoundError")
      case False
      with Inl e show ?thesis by (simp add: create_permission_def wp_def Let_def moves_def)
    next
      case True
      note ab = absent_path [OF assms Inl [unfolded e True]]
      let ?g = "sbind (slift (permission_init ?a)) (\<lambda>p. sbind (slift (rec p)) (\<lambda>c.
        sbind (swrite (permission_save ?sha (pp_disk_ok pp) p c)) (\<lambda>_. slift (result_of pp p c))))"
      have run: "create_permission pp i ty nm de scope capabilities src reason given base = ?g base"
        using Inl e True by (simp add: create_permission_def Let_def rec_def)
      have mv: "moves ?sha base (put ?sha base p [c])" if "permission_init ?a = Inr p" "rec p = Inr c" for p c
        using c [OF that] p [OF that(1)] ab unfolding moves_def by (intro disjI2 exI [of _ p] exI [of _ c]) simp
      have same: "moves ?sha base base" by (simp add: moves_def)
      show ?thesis
        by (rule wp_at [of _ base ?g], rule run)
          (auto simp: wp_simps result_of_def rbind_eq_Inr same Let_def ab dest: s [OF _ _ _ ab] p c intro: mv
            simp del: status_value.simps split: sum.splits)
    qed
  qed
qed

section \<open>Reachable stores\<close>

inductive permission_reach :: "digest_fun \<Rightarrow> permission_root \<Rightarrow> bool" for sha where
  pr_empty: "permission_reach sha (\<lambda>_. [])"
| pr_create: "permission_reach sha base \<Longrightarrow> pp_sha pp = sha \<Longrightarrow>
    fst (create_permission pp i ty nm de scope capabilities src reason given base) = base' \<Longrightarrow> permission_reach sha base'"
| pr_status: "permission_reach sha base \<Longrightarrow> pp_sha pp = sha \<Longrightarrow>
    fst (update_status pp i j status rsn source expected base) = base' \<Longrightarrow> permission_reach sha base'"
| pr_restrict: "permission_reach sha base \<Longrightarrow> pp_sha pp = sha \<Longrightarrow>
    fst (restrict_permission pp i j rsn source ss ks expected base) = base' \<Longrightarrow> permission_reach sha base'"
| pr_revoke: "permission_reach sha base \<Longrightarrow> pp_sha pp = sha \<Longrightarrow>
    fst (revoke_permission pp i j rsn source expected base) = base' \<Longrightarrow> permission_reach sha base'"

lemma operations_move:
  assumes "sound_store (pp_sha pp) base"
  shows "moves (pp_sha pp) base (fst (create_permission pp i ty nm de scope capabilities src reason given base))"
    "moves (pp_sha pp) base (fst (update_status pp i j status rsn source expected base))"
    "moves (pp_sha pp) base (fst (restrict_permission pp i j rsn source ss ks expected base))"
proof -
  show "moves (pp_sha pp) base (fst (create_permission pp i ty nm de scope capabilities src reason given base))"
    by (rule wp_state [where P = "moves (pp_sha pp) base"], rule wp_conseq [OF create_outcome [OF assms]])
      (auto simp: Let_def intro: moves_new)
  show "moves (pp_sha pp) base (fst (update_status pp i j status rsn source expected base))"
    by (rule wp_state [where P = "moves (pp_sha pp) base"], rule wp_conseq [OF update_status_outcome [OF assms]])
      (auto intro: moves_append)
  show "moves (pp_sha pp) base (fst (restrict_permission pp i j rsn source ss ks expected base))"
    by (rule wp_state [where P = "moves (pp_sha pp) base"], rule wp_conseq [OF restrict_outcome [OF assms]])
      (auto simp: restricted_def intro: moves_append)
qed

lemma reach_sound: "permission_reach sha base \<Longrightarrow> sound_store sha base"
proof (induction rule: permission_reach.induct)
  case pr_empty
  then show ?case by (simp add: sound_store_def)
next
  case (pr_create base pp i ty nm de scope capabilities src reason given base')
  then show ?case using moves_sound [OF operations_move(1)] by metis
next
  case (pr_status base pp i j status rsn source expected base')
  then show ?case using moves_sound [OF operations_move(2)] by metis
next
  case (pr_restrict base pp i j rsn source ss ks expected base')
  then show ?case using moves_sound [OF operations_move(3)] by metis
next
  case (pr_revoke base pp i j rsn source expected base')
  then show ?case using moves_sound [OF operations_move(2)] unfolding revoke_permission_def by metis
qed

end
