(* ===== verification/Permission_Properties.thy ===== *)
theory Permission_Properties
  imports Permission_Runs
begin

text \<open>
  The guarantees of the permission component, over every store its calls can reach: the audit
  trail is complete, rights only ever shrink, a revocation takes effect at once and touches
  nothing else, and a capability check answers from exactly the permissions on file.
\<close>

section \<open>The change event always exists\<close>

lemma change_summary_not_blank [simp]: "\<not> blank (change_summary t)"
  by (cases t) (simp_all add: blank_def py_space_def Let_def)

lemma permission_event_ok:
  assumes "wf_change c" "\<not> blank uuid"
  shows "\<exists>e. permission_event uuid p c = Inr e \<and> wf_event e"
proof -
  let ?m = "\<lparr>sm_field_path = ''continuity.recent_changes'', sm_operation = Op_APPEND,
    sm_value = PStr (''Permission '' @ pm_name p @ '': '' @ change_type_value (pc_change_type c) @
          '' at revision '' @ show_int (pm_revision p)), sm_reason = pc_reason c\<rparr>"
  let ?e = "\<lparr>ev_event_id = uuid, ev_occurred_at = pc_created_at c, ev_source = pc_source c,
    ev_event_type = ''permission_change'', ev_content = change_summary (pc_change_type c) @ '' '' @ pm_name p,
    ev_impact_scope = [Sec_CONTINUITY], ev_mutations = [?m], ev_reason = pc_reason c,
    ev_metadata =
          [(''permission_id'', PStr (pm_permission_id p)), (''permission_revision'', PInt (pm_revision p)),
           (''permission_change_record_id'', PStr (pc_record_id c)),
           (''permission_change_type'', PStr (change_type_value (pc_change_type c)))],
    ev_observed_at = pc_created_at c, ev_recorded_at = pc_created_at c,
    ev_time_basis = Basis_LEGACY_COALESCED, ev_classification = Cls_LEGACY, ev_source_kind = Src_LEGACY,
    ev_source_event_id = None, ev_correlation_id = None, ev_evidence = [], ev_references = []\<rparr>"
  have n: "\<not> blank ''continuity.recent_changes''" "\<not> blank ''permission_change''" "uuid \<noteq> []"
    using assms(2) by (auto simp: blank_def py_space_def Let_def)
  have m: "state_mutation_init (PStr ''continuity.recent_changes'') (PStr (operation_value Op_APPEND))
       (PStr (''Permission '' @ pm_name p @ '': '' @ change_type_value (pc_change_type c) @
          '' at revision '' @ show_int (pm_revision p))) (PStr (pc_reason c)) = Inr ?m"
    using assms(1) n by (simp add: state_mutation_init_def event_text_run wf_change_def validate_json_value_def
        del: operation_value.simps)
  have "permission_event uuid p c = Inr ?e"
    unfolding permission_event_def m
    using assms n
    by (simp add: event_create_def derived_basis_def given_or_uuid_def event_init_def event_text_run wf_change_def
        event_times_def Let_def validate_json_value_def event_text_optional_def optional_text_def event_links_def
        related_def del: section_value.simps classification_value.simps source_kind_value.simps time_basis_value.simps)
  moreover have "wf_event ?e"
    using assms n by (simp add: wf_event_def wf_change_def times_ok_def links_ok_def related_def wf_mutation_def)
  ultimately show ?thesis by blast
qed

lemma result_of_ok:
  assumes "wf_change c" "\<not> blank (pp_event_uuid pp)"
  shows "\<exists>r. result_of pp p c = Inr r \<and> pr_permission r = p \<and> pr_record r = c"
  using permission_event_ok [OF assms, of p] by (auto simp: result_of_def)

section \<open>A small store\<close>

definition perm_demo_pp :: permission_ports where
  "perm_demo_pp = \<lparr>pp_sha = (\<lambda>s. s), pp_disk_ok = True, pp_changed_at = Abs_instant 0,
     pp_revoked_at = Abs_instant 1, pp_context_at = Abs_instant 2, pp_permission_uuid = ''u'',
     pp_record_uuid = ''r0'', pp_event_uuid = ''e''\<rparr>"

definition perm_demo_permission :: permission_state where
  "perm_demo_permission = \<lparr>pm_permission_id = ''p1'', pm_subject_id = ''s'', pm_permission_type = ''file'',
     pm_name = ''files'', pm_description = ''d'', pm_scope = [''a'', ''b''], pm_capabilities = [''read'', ''write''],
     pm_status = Perm_ACTIVE, pm_granted_at = Abs_instant 0, pm_revoked_at = None, pm_source = ''user'',
     pm_revision = 0\<rparr>"

definition perm_demo_grant :: permission_change where
  "perm_demo_grant = \<lparr>pc_record_id = ''r0'', pc_permission_id = ''p1'', pc_change_type = Chg_GRANTED,
     pc_before_state = None, pc_after_state = permission_to_dict perm_demo_permission, pc_reason = ''why'',
     pc_source = ''user'', pc_created_at = Abs_instant 0\<rparr>"

definition perm_demo_store :: permission_root where
  "perm_demo_store = put (\<lambda>s. s) (\<lambda>_. []) perm_demo_permission [perm_demo_grant]"

lemma perm_demo_wf: "wf_permission perm_demo_permission" "wf_change perm_demo_grant"
  by (simp_all add: wf_permission_def perm_demo_permission_def all_text_def blank_def py_space_def Let_def
      wf_change_def perm_demo_grant_def permission_to_dict_def)

lemma perm_demo_create:
  "\<exists>r. create_permission perm_demo_pp ''s'' (PStr ''file'') (PStr ''files'') (PStr ''d'') [''a'', ''b'']
     [''read'', ''write''] (PStr ''user'') (PStr ''why'') (Some ''p1'') (\<lambda>_. []) = (perm_demo_store, Inr r) \<and>
     pr_permission r = perm_demo_permission \<and> pr_record r = perm_demo_grant"
proof -
  have id: "given_or_uuid (Some ''p1'') x = ''p1''" for x by (simp add: given_or_uuid_def)
  have n: "\<not> blank ''s''" "\<not> blank ''p1''" "\<not> blank (pp_event_uuid perm_demo_pp)"
    by (simp_all add: perm_demo_pp_def blank_def py_space_def Let_def)
  have path: "permission_path (pp_sha perm_demo_pp) ''s'' ''p1'' = Inr (''s'', ''p1'')"
    using n by (simp add: permission_path_def perm_hash_def perm_demo_pp_def)
  have l: "permission_load (pp_sha perm_demo_pp) ''s'' ''p1'' (\<lambda>_. []) = Inl (PermissionNotFoundError, ''permission not found: '' @ ''p1'')"
    using path by (simp add: permission_load_def file_at_def Let_def)
  have p: "permission_init (permission_args_of perm_demo_permission) = Inr perm_demo_permission"
    using permission_recheck_run [OF perm_demo_wf(1)] by (simp add: permission_recheck_def)
  have c: "change_init (change_args_of perm_demo_grant) = Inr perm_demo_grant" by (rule change_init_args [OF perm_demo_wf(2)])
  have s: "permission_save (pp_sha perm_demo_pp) (pp_disk_ok perm_demo_pp) perm_demo_permission perm_demo_grant (\<lambda>_. []) = Inr perm_demo_store"
    using path permission_to_dict_eq [of perm_demo_permission perm_demo_permission]
    by (simp add: permission_save_def perm_demo_grant_def perm_demo_permission_def previous_history_def file_at_def
        write_permission_document_def perm_demo_store_def put_def perm_demo_pp_def del: py_eq.simps)
  obtain r where r: "result_of perm_demo_pp perm_demo_permission perm_demo_grant = Inr r"
    "pr_permission r = perm_demo_permission" "pr_record r = perm_demo_grant"
    using result_of_ok [OF perm_demo_wf(2) n(3)] by blast
  show ?thesis
    using p c s r l
    by (simp add: create_permission_def id sbind_def prog_simps sread_swrite_run permission_args_of_def
        change_args_of_def perm_demo_permission_def perm_demo_grant_def perm_demo_pp_def)
qed

lemma perm_demo_reach: "permission_reach (pp_sha perm_demo_pp) perm_demo_store"
proof -
  obtain r where "create_permission perm_demo_pp ''s'' (PStr ''file'') (PStr ''files'') (PStr ''d'') [''a'', ''b'']
     [''read'', ''write''] (PStr ''user'') (PStr ''why'') (Some ''p1'') (\<lambda>_. []) = (perm_demo_store, Inr r)"
    using perm_demo_create by blast
  then have "fst (create_permission perm_demo_pp ''s'' (PStr ''file'') (PStr ''files'') (PStr ''d'') [''a'', ''b'']
     [''read'', ''write''] (PStr ''user'') (PStr ''why'') (Some ''p1'') (\<lambda>_. [])) = perm_demo_store" by simp
  then show ?thesis by (rule pr_create [OF pr_empty refl])
qed

lemma perm_demo_load: "permission_load (pp_sha perm_demo_pp) ''s'' ''p1'' perm_demo_store = Inr perm_demo_permission"
  using perm_demo_wf(1)
  by (simp add: permission_load_read permission_path_def perm_hash_def perm_demo_pp_def perm_demo_store_def file_at_put
      perm_demo_permission_def blank_def py_space_def Let_def)

section \<open>Reading the store\<close>

lemma history_of_file:
  assumes "on_file sha base i j ps cs"
  shows "permission_history sha i (Some j) base = Inr (sort_key (\<lambda>c. (pc_created_at c, pc_record_id c)) cs)"
  using assms audit_facts(4) [of ps cs]
  by (simp add: permission_history_def on_file_def Let_def)

text \<open>The listing of a subject is exactly what loads for it.\<close>

lemma listing_is_loading:
  assumes "sound_store sha base" "permission_list sha i base = Inr ps"
  shows "p \<in> set ps \<longleftrightarrow> (\<exists>j. permission_load sha i j base = Inr p)"
proof -
  from assms(2) obtain qs where i: "\<not> blank i"
    and qs: "list_all2 (\<lambda>e q. read_permission (snd e) = Inr q) (base (sha i)) qs"
    and sub: "\<forall>q \<in> set qs. pm_subject_id q = i" and set: "set ps = set qs"
    by (auto simp: permission_list_def perm_hash_def rbind_eq_Inr rmap_eq_Inr list_ex_iff split: if_splits)
  have read: "\<exists>j. permission_load sha i j base = Inr q"
    if "(stem, f) \<in> set (base (sha i))" "read_permission f = Inr q" "q \<in> set qs" for stem f q
  proof -
    have "sound_file sha (sha i) stem f" using assms(1) that(1) by (auto simp: sound_store_def)
    then obtain as cs where a: "audit as cs" "f = File_Doc (permission_document (last as) cs)"
      "stem = sha (pm_permission_id (last as))" by (auto simp: sound_file_def)
    have w: "wf_permission (last as)" using audit_facts(1,3) [OF a(1)] by (simp add: list_all_iff)
    then have q: "q = last as" using that(2) a(2) by simp
    have "map_of (base (sha i)) stem = Some f" using assms(1) that(1) by (auto simp: sound_store_def)
    then have "permission_load sha i (pm_permission_id q) base = Inr q"
      using w i sub that(3) a q
      by (simp add: permission_load_read permission_path_def perm_hash_def file_at_def wf_permission_def [of "last as"])
    then show ?thesis by blast
  qed
  show ?thesis
  proof
    assume "p \<in> set ps"
    then obtain k where k: "k < length qs" "p = qs ! k" using set by (metis in_set_conv_nth)
    with qs have "base (sha i) ! k \<in> set (base (sha i))" "read_permission (snd (base (sha i) ! k)) = Inr p"
      by (auto simp: list_all2_conv_all_nth)
    with read [of "fst (base (sha i) ! k)" "snd (base (sha i) ! k)" p] k show "\<exists>j. permission_load sha i j base = Inr p"
      by (simp add: nth_mem)
  next
    assume "\<exists>j. permission_load sha i j base = Inr p"
    then obtain j f where "map_of (base (sha i)) (sha j) = Some f" "read_permission f = Inr p"
      by (auto simp: permission_load_read permission_path_def perm_hash_def rbind_eq_Inr file_at_def
          split: if_splits option.splits)
    then obtain k where "k < length (base (sha i))" "snd (base (sha i) ! k) = f"
      by (metis in_set_conv_nth map_of_SomeD snd_conv)
    with qs \<open>read_permission f = Inr p\<close> have "p \<in> set qs" by (auto simp: list_all2_conv_all_nth in_set_conv_nth)
    with set show "p \<in> set ps" by simp
  qed
qed

lemma check_capability_listing:
  assumes "snd (check_capability pp i c scope base) = Inr b"
  obtains ps where "permission_list (pp_sha pp) i base = Inr ps"
    "any_allows c scope (filter is_available ps) = Inr b"
proof -
  obtain ctx where g: "snd (get_context pp i (PInt 20) base) = Inr ctx" and h: "has_capability ctx c scope = Inr b"
    using assms by (auto simp: check_capability_def sbind_def prog_simps split: prod.splits sum.splits)
  then obtain ps where "permission_list (pp_sha pp) i base = Inr ps" "px_current_permissions ctx = filter is_available ps"
    by (auto simp: get_context_def sbind_def prog_simps sread_def Let_def context_init_def rbind_eq_Inr
        split: sum.splits if_splits)
  with h that show thesis by (simp add: has_capability_def)
qed

section \<open>Properties\<close>

text \<open>
  C3: the audit trail is complete. For every permission that loads from a reachable store, the
  history on file has one record per revision: it starts with the grant, every later record
  starts from the state the previous one ended in and is an allowed change of it, the last
  record ends in the current state, and no record id occurs twice.
\<close>

theorem audit_trail_complete:
  assumes "permission_reach sha base" "permission_load sha i j base = Inr p"
  shows "\<exists>ps cs. permission_history sha i (Some j) base = Inr (sort_key (\<lambda>c. (pc_created_at c, pc_record_id c)) cs) \<and>
    length cs = length ps \<and> int (length cs) = pm_revision p + 1 \<and> last ps = p \<and> distinct (map pc_record_id cs) \<and>
    (\<forall>k < length cs. pc_after_state (cs ! k) = permission_to_dict (ps ! k) \<and>
      (if k = 0 then pc_before_state (cs ! k) = None \<and> pc_change_type (cs ! k) = Chg_GRANTED
       else pc_before_state (cs ! k) = Some (pc_after_state (cs ! (k - 1))) \<and>
         permission_step (ps ! (k - 1)) (pc_change_type (cs ! k)) (ps ! k)))"
proof -
  obtain ps cs where o: "on_file sha base i j ps cs" "last ps = p"
    by (rule sound_load_on_file [OF reach_sound [OF assms(1)] assms(2)])
  then have a: "audit ps cs" by (simp add: on_file_def)
  note f = audit_facts [OF a]
  have n: "\<forall>k < length cs. pc_after_state (cs ! k) = permission_to_dict (ps ! k) \<and>
      (if k = 0 then pc_before_state (cs ! k) = None \<and> pc_change_type (cs ! k) = Chg_GRANTED
       else pc_before_state (cs ! k) = Some (pc_after_state (cs ! (k - 1))) \<and>
         permission_step (ps ! (k - 1)) (pc_change_type (cs ! k)) (ps ! k))"
  proof (intro allI impI)
    fix k assume "k < length cs"
    then have k: "k < length ps" "k - 1 < length ps" using f(2) by simp_all
    show "pc_after_state (cs ! k) = permission_to_dict (ps ! k) \<and>
      (if k = 0 then pc_before_state (cs ! k) = None \<and> pc_change_type (cs ! k) = Chg_GRANTED
       else pc_before_state (cs ! k) = Some (pc_after_state (cs ! (k - 1))) \<and>
         permission_step (ps ! (k - 1)) (pc_change_type (cs ! k)) (ps ! k))"
      using audit_nth [OF a k(1)] audit_nth [OF a k(2)] by (cases "k = 0") simp_all
  qed
  have "int (length cs) = pm_revision p + 1" using f(2,6) o(2) by simp
  then show ?thesis
    by (intro exI [of _ ps] exI [of _ cs] conjI n f(2,5) o(2) history_of_file [OF o(1)])
qed

lemma audit_trail_complete_witness:
  "\<exists>cs. permission_history (pp_sha perm_demo_pp) ''s'' (Some ''p1'') perm_demo_store = Inr cs \<and> length cs = 1"
proof -
  from audit_trail_complete [OF perm_demo_reach perm_demo_load] obtain ps cs where
    "permission_history (pp_sha perm_demo_pp) ''s'' (Some ''p1'') perm_demo_store
      = Inr (sort_key (\<lambda>c. (pc_created_at c, pc_record_id c)) cs)"
    "int (length cs) = pm_revision perm_demo_permission + 1" by blast
  then show ?thesis by (intro exI conjI) (assumption, simp add: perm_demo_permission_def)
qed

text \<open>
  C7: no escalation. When a capability check says yes, some permission of the subject that
  loads from the store is active or limited and grants the capability for the scope now, and
  its history contains the original grant, by which it was given that capability and that
  scope in the first place: no sequence of later changes can add to it.
\<close>

theorem no_escalation:
  assumes "permission_reach sha base" "pp_sha pp = sha"
    and "snd (check_capability pp i c (Some s) base) = Inr True"
  shows "\<exists>j p g cs r. permission_load sha i j base = Inr p \<and> is_available p \<and> (c, s) \<in> rights p \<and>
    permission_history sha i (Some j) base = Inr cs \<and> r \<in> set cs \<and> pc_change_type r = Chg_GRANTED \<and>
    pc_before_state r = None \<and> pc_after_state r = permission_to_dict g \<and> (c, s) \<in> rights g"
proof -
  note snd = reach_sound [OF assms(1)]
  obtain ps where ps: "permission_list sha i base = Inr ps" "any_allows c (Some s) (filter is_available ps) = Inr True"
    using check_capability_listing [OF assms(3)] assms(2) by blast
  have "\<exists>p \<in> set qs. grants p c (Some s)" if "any_allows c (Some s) qs = Inr True" for qs
    using that by (induction qs) (auto simp: rbind_eq_Inr split: if_splits dest: allows_true)
  from this [OF ps(2)] obtain p where p: "p \<in> set ps" "grants p c (Some s)" by auto
  then obtain j where j: "permission_load sha i j base = Inr p" using listing_is_loading [OF snd ps(1)] by blast
  obtain as cs where o: "on_file sha base i j as cs" "last as = p" by (rule sound_load_on_file [OF snd j])
  then have a: "audit as cs" by (simp add: on_file_def)
  note f = audit_facts [OF a] and z = audit_nth [OF a, of 0]
  have r: "(c, s) \<in> rights p" "is_available p" using p(2) by (auto simp: grants_def rights_def)
  have "(c, s) \<in> rights (as ! 0)" using z f(1) r(1) o(2) by auto
  moreover have "cs ! 0 \<in> set (sort_key (\<lambda>c. (pc_created_at c, pc_record_id c)) cs)" using f(7) by simp
  ultimately show ?thesis
    using j r history_of_file [OF o(1)] z f(1)
    by (intro exI [of _ j] exI [of _ p] exI [of _ "as ! 0"] exI [of _ "sort_key (\<lambda>c. (pc_created_at c, pc_record_id c)) cs"]
        exI [of _ "cs ! 0"]) simp
qed

lemma perm_demo_list: "permission_list (pp_sha perm_demo_pp) ''s'' perm_demo_store = Inr [perm_demo_permission]"
  using perm_demo_wf(1)
  by (simp add: permission_list_def perm_hash_def perm_demo_pp_def perm_demo_store_def put_def perm_demo_permission_def
      blank_def py_space_def Let_def)

lemma perm_demo_context: "\<exists>ctx. snd (get_context perm_demo_pp ''s'' (PInt 20) perm_demo_store) = Inr ctx \<and>
    px_current_permissions ctx = [perm_demo_permission]"
proof -
  have h: "permission_history (pp_sha perm_demo_pp) ''s'' None perm_demo_store = Inr [perm_demo_grant]"
    using perm_demo_wf(2)
    by (simp add: permission_history_def perm_hash_def perm_demo_pp_def perm_demo_store_def put_def perm_demo_permission_def
        blank_def py_space_def Let_def)
  have n: "\<not> blank ''s''" "\<not> blank ''read''" "\<not> blank ''write''" by (simp_all add: blank_def py_space_def Let_def)
  have c: "context_init (PStr ''s'') [perm_demo_permission] (text_items [''read'', ''write'']) (text_items [])
      [perm_demo_grant] (utc_val (pp_context_at perm_demo_pp)) = Inr
    \<lparr>px_subject_id = ''s'', px_current_permissions = [perm_demo_permission], px_available_capabilities = [''read'', ''write''],
     px_restrictions = [], px_recent_changes = [perm_demo_grant], px_created_at = pp_context_at perm_demo_pp\<rparr>"
    using n unfolding context_init_def perm_text_list_items
    by (simp add: perm_text_run perm_demo_permission_def is_available_def)
  have f: "is_available perm_demo_permission" "pm_status perm_demo_permission \<noteq> Perm_LIMITED"
    "pm_capabilities perm_demo_permission = [''read'', ''write'']"
    by (simp_all add: perm_demo_permission_def is_available_def)
  show ?thesis
    unfolding get_context_def
    by (simp add: sbind_def prog_simps sread_def perm_demo_list h f recent_first_def c [simplified])
qed

lemma perm_demo_check: "snd (check_capability perm_demo_pp ''s'' ''read'' (Some ''a'') perm_demo_store) = Inr True"
proof -
  obtain ctx st where c: "get_context perm_demo_pp ''s'' (PInt 20) perm_demo_store = (st, Inr ctx)"
    "px_current_permissions ctx = [perm_demo_permission]" using perm_demo_context by (metis eq_snd_iff)
  have "\<not> blank ''read''" "\<not> blank ''a''" by (simp_all add: blank_def py_space_def Let_def)
  moreover have "grants perm_demo_permission ''read'' (Some ''a'')"
    by (simp add: grants_def perm_demo_permission_def is_available_def)
  ultimately have "any_allows ''read'' (Some ''a'') [perm_demo_permission] = Inr True" by (simp add: allows_grants)
  with c show ?thesis by (simp add: check_capability_def sbind_def prog_simps has_capability_def)
qed

lemma no_escalation_witness:
  "\<exists>j p. permission_load (pp_sha perm_demo_pp) ''s'' j perm_demo_store = Inr p \<and> (''read'', ''a'') \<in> rights p"
  using no_escalation [OF perm_demo_reach refl perm_demo_check] by blast

text \<open>
  A capability check is exact. For a named capability (and scope), the answer is whether
  some permission that loads for the subject is active or limited, has the capability and has
  the scope or the universal scope.
\<close>

theorem check_capability_exact:
  assumes "permission_reach (pp_sha pp) base" "snd (check_capability pp i c scope base) = Inr b"
    and "\<not> blank c" "\<forall>s. scope = Some s \<longrightarrow> \<not> blank s"
  shows "b = (\<exists>j p. permission_load (pp_sha pp) i j base = Inr p \<and> is_available p \<and> c \<in> set (pm_capabilities p) \<and>
    (\<forall>s. scope = Some s \<longrightarrow> ''*'' \<in> set (pm_scope p) \<or> s \<in> set (pm_scope p)))"
proof -
  obtain ps where ps: "permission_list (pp_sha pp) i base = Inr ps"
    "any_allows c scope (filter is_available ps) = Inr b" by (rule check_capability_listing [OF assms(2)])
  have "b = (\<exists>p \<in> set ps. grants p c scope)"
    using ps(2) any_allows_grants [OF assms(3,4), of "filter is_available ps"] by (auto simp: grants_def)
  then show ?thesis
    using listing_is_loading [OF reach_sound [OF assms(1)] ps(1)] unfolding grants_def by blast
qed

lemma check_capability_exact_witness:
  "\<exists>j p. permission_load (pp_sha perm_demo_pp) ''s'' j perm_demo_store = Inr p \<and> ''read'' \<in> set (pm_capabilities p)"
proof -
  have "\<not> blank ''read''" "\<forall>s. Some ''a'' = Some s \<longrightarrow> \<not> blank s" by (simp_all add: blank_def py_space_def Let_def)
  from check_capability_exact [OF perm_demo_reach perm_demo_check this] show ?thesis by blast
qed

lemma loads_after:
  assumes "appended sha base ps cs p c base'" "on_file sha base i j ps cs" "permission_step (last ps) t p"
  shows "permission_load sha i j base' = Inr p"
proof -
  have a: "audit (ps @ [p]) (cs @ [c])" "base' = put sha base p (cs @ [c])" using assms(1) by (simp_all add: appended_def)
  have "wf_permission p" using audit_facts(3) [OF a(1)] by simp
  then show ?thesis
    using a(2) assms(2) permission_step_facts(3,4) [OF assms(3)]
    by (auto simp: permission_load_read on_file_def file_at_put)
qed

lemma other_files:
  assumes "appended sha base ps cs p c base'" "on_file sha base i j ps cs" "permission_step (last ps) t p"
    and "(dir, stem) \<noteq> (sha i, sha j)"
  shows "file_at base' dir stem = file_at base dir stem"
  using assms permission_step_facts(3,4) [OF assms(3)] by (auto simp: appended_def file_at_put on_file_def)

lemma step_of_status:
  "pm_status p \<noteq> s \<Longrightarrow> permission_step p (status_change_type s) (with_status p s t src)"
  by (rule status_step [where r = "if s = Perm_REVOKED then Some t else None" and src = src])
    (simp_all add: with_status_def)

lemma step_of_limits:
  "is_available p \<Longrightarrow> set ks \<subseteq> set (pm_capabilities p) \<Longrightarrow> ''*'' \<in> set (pm_scope p) \<or> set ss \<subseteq> set (pm_scope p) \<Longrightarrow>
     permission_step p Chg_LIMITED (with_limits p ss ks src)"
  by (rule restrict_step [where ss = "fromkeys ss" and cs = "fromkeys ks" and src = src])
    (simp_all add: with_limits_def)

text \<open>
  A restriction restricts. When a restriction returns, the permission was available, it is
  now LIMITED one revision later, everything it allows it allowed before, and every other file
  of the store is untouched.
\<close>

theorem restriction_restricts:
  assumes "permission_reach (pp_sha pp) base"
    and "restrict_permission pp i j reason src scope capabilities expected base = (base', Inr r)"
  shows "\<exists>p q. permission_load (pp_sha pp) i j base = Inr p \<and> permission_load (pp_sha pp) i j base' = Inr q \<and>
    q = pr_permission r \<and> is_available p \<and> pm_status q = Perm_LIMITED \<and> pm_revision q = pm_revision p + 1 \<and>
    (\<forall>c s. grants q c s \<longrightarrow> grants p c s) \<and>
    (\<forall>dir stem. (dir, stem) \<noteq> (pp_sha pp i, pp_sha pp j) \<longrightarrow> file_at base' dir stem = file_at base dir stem)"
proof -
  have "restricted pp base i j src scope capabilities expected r base'"
    by (rule wp_result [OF restrict_outcome [OF reach_sound [OF assms(1)]] assms(2)])
  then obtain ps cs p ss ks where o: "on_file (pp_sha pp) base i j ps cs" "p = last ps" "is_available p"
    "set ks \<subseteq> set (pm_capabilities p)" "''*'' \<in> set (pm_scope p) \<or> set ss \<subseteq> set (pm_scope p)"
    "pr_permission r = with_limits p ss ks src"
    "appended (pp_sha pp) base ps cs (pr_permission r) (pr_record r) base'"
    unfolding restricted_def by blast
  have st: "permission_step (last ps) Chg_LIMITED (pr_permission r)"
    using step_of_limits [OF o(3-5), of src] o(2,6) by simp
  have g: "grants p c s" if "grants (pr_permission r) c s" for c s
    using that o(3-6) by (auto simp: grants_def with_limits_def)
  have "pm_status (pr_permission r) = Perm_LIMITED" "pm_revision (pr_permission r) = pm_revision p + 1"
    using o(6) by (simp_all add: with_limits_def)
  then show ?thesis
    using on_file_load(1) [OF o(1)] loads_after [OF o(7,1) st] other_files [OF o(7,1) st] o(2,3) g
    by (intro exI [of _ p] exI [of _ "pr_permission r"]) auto
qed

lemma perm_demo_on_file: "on_file (pp_sha perm_demo_pp) perm_demo_store ''s'' ''p1'' [perm_demo_permission] [perm_demo_grant]"
proof -
  have "audit [perm_demo_permission] [perm_demo_grant]"
    by (rule audit.granted [OF perm_demo_wf]) (simp_all add: perm_demo_permission_def perm_demo_grant_def)
  then show ?thesis
    by (simp add: on_file_def perm_demo_store_def file_at_put permission_path_def perm_hash_def perm_demo_pp_def
        perm_demo_permission_def blank_def py_space_def Let_def)
qed

text \<open>A save of a well-formed successor with a fresh record id goes through.\<close>

lemma save_change_runs:
  assumes "on_file (pp_sha pp) base i j ps cs" "wf_permission p" "permission_step (last ps) t p"
    and "pp_disk_ok pp" "pp_record_uuid pp \<notin> pc_record_id ` set cs" "\<not> blank (pp_record_uuid pp)"
    and "\<not> blank (pp_event_uuid pp)" "\<not> blank src" "reason = PStr rs" "\<not> blank rs"
  shows "\<exists>r base'. save_change pp (last ps) p t reason src base = (base', Inr r)"
proof -
  let ?c = "\<lparr>pc_record_id = pp_record_uuid pp, pc_permission_id = pm_permission_id p, pc_change_type = t,
    pc_before_state = Some (permission_to_dict (last ps)), pc_after_state = permission_to_dict p,
    pc_reason = rs, pc_source = src, pc_created_at = pp_changed_at pp\<rparr>"
  have a: "audit ps cs" and f: "file_at base (pp_sha pp i) (pp_sha pp j) = File_Doc (permission_document (last ps) cs)"
    "permission_path (pp_sha pp) i j = Inr (pp_sha pp i, pp_sha pp j)"
    "pm_subject_id p = i" "pm_permission_id p = j" "pm_subject_id (last ps) = i" "pm_permission_id (last ps) = j"
    using assms(1) permission_step_facts(3,4) [OF assms(3)] by (simp_all add: on_file_def)
  have w: "wf_permission (last ps)" using audit_facts(1,3) [OF a] by (simp add: list_all_iff)
  have wc: "wf_change ?c" using assms(2,6,8,10)
    by (simp add: wf_change_def wf_permission_def del: json_ok.simps) (simp add: permission_to_dict_def)
  have h: "rmap change_from_dict (map change_to_dict cs) = Inr cs"
    using audit_facts(4) [OF a] by (intro rmap_Inr_id) (simp add: list_all_iff change_roundtrip)
  have "change_init (change_args_of ?c) = Inr ?c" by (rule change_init_args [OF wc])
  then have i: "change_init
       \<lparr>pca_record_id = PStr (pp_record_uuid pp), pca_permission_id = PStr (pm_permission_id p),
        pca_change_type = PStr (change_type_value t), pca_before_state = PDict (permission_to_dict (last ps)),
        pca_after_state = PDict (permission_to_dict p), pca_reason = reason, pca_source = PStr src,
        pca_created_at = utc_val (pp_changed_at pp)\<rparr> = Inr ?c"
    by (simp add: change_args_of_def assms(9))
  have "\<not> list_ex (\<lambda>h. pc_record_id h = pp_record_uuid pp) cs" using assms(5) by (force simp: list_ex_iff)
  then have "\<exists>base'. permission_save (pp_sha pp) (pp_disk_ok pp) p ?c base = Inr base'"
    using f w h assms(4) permission_step_facts(2) [OF assms(3)]
    by (simp add: permission_save_def previous_history_def permission_roundtrip permission_to_dict_eq
        write_permission_document_def del: py_eq.simps)
  then obtain base' where s: "permission_save (pp_sha pp) (pp_disk_ok pp) p ?c base = Inr base'" ..
  obtain r where "result_of pp p ?c = Inr r" using result_of_ok [of ?c pp p, OF wc assms(7)] by blast
  with i s show ?thesis unfolding save_change_def by (simp add: sbind_def prog_simps sread_swrite_run)
qed

definition perm_demo_pp1 :: permission_ports where
  "perm_demo_pp1 = perm_demo_pp\<lparr>pp_record_uuid := ''r1''\<rparr>"

lemma perm_demo_change_runs:
  assumes "wf_permission p" "permission_step perm_demo_permission t p"
  shows "\<exists>r base'. save_change perm_demo_pp1 perm_demo_permission p t (PStr ''why'') ''admin'' perm_demo_store = (base', Inr r)"
proof -
  have "on_file (pp_sha perm_demo_pp1) perm_demo_store ''s'' ''p1'' [perm_demo_permission] [perm_demo_grant]"
    using perm_demo_on_file by (simp add: perm_demo_pp1_def)
  from save_change_runs [OF this assms(1), of t "''admin''" "PStr ''why''" "''why''"] assms(2) show ?thesis
    by (simp add: perm_demo_pp1_def perm_demo_pp_def perm_demo_grant_def blank_def py_space_def Let_def)
qed

lemma perm_demo_restrict:
  "\<exists>r base'. restrict_permission perm_demo_pp1 ''s'' ''p1'' (PStr ''why'') ''admin'' None (Some [''read'']) (Some 0) perm_demo_store
     = (base', Inr r)"
proof -
  let ?q = "perm_demo_permission\<lparr>pm_status := Perm_LIMITED, pm_capabilities := [''read''], pm_revoked_at := None,
    pm_source := ''admin'', pm_revision := 1\<rparr>"
  have w: "wf_permission ?q" using perm_demo_wf(1)
    by (simp add: wf_permission_def perm_demo_permission_def all_text_def blank_def py_space_def Let_def)
  have l: "permission_load (pp_sha perm_demo_pp1) ''s'' ''p1'' perm_demo_store = Inr perm_demo_permission"
    using perm_demo_load by (simp add: perm_demo_pp1_def)
  have f: "pm_revision perm_demo_permission = 0" "is_available perm_demo_permission"
    "pm_capabilities perm_demo_permission = [''read'', ''write'']" "pm_status perm_demo_permission \<noteq> Perm_LIMITED"
    by (simp_all add: perm_demo_permission_def is_available_def)
  have st: "permission_step perm_demo_permission Chg_LIMITED ?q"
    by (rule restrict_step [where ss = "pm_scope perm_demo_permission" and cs = "[''read'']" and src = "''admin''"])
      (simp_all add: f)
  have u: "perm_demo_permission\<lparr>pm_status := Perm_LIMITED, pm_scope := pm_scope perm_demo_permission,
      pm_capabilities := [''read''], pm_revoked_at := None, pm_source := ''admin'', pm_revision := 1\<rparr> = ?q" by simp
  from perm_demo_change_runs [OF w st] show ?thesis
    unfolding restrict_permission_def
    by (simp add: sbind_def prog_simps sread_swrite_run l check_revision_def f permission_copy_run [OF perm_demo_wf(1)]
        Let_def u permission_recheck_run [OF w])
qed

lemma restriction_restricts_witness:
  "\<exists>q base'. permission_load (pp_sha perm_demo_pp1) ''s'' ''p1'' base' = Inr q \<and> pm_status q = Perm_LIMITED \<and>
     \<not> grants q ''delete'' None"
proof -
  obtain r base' where r: "restrict_permission perm_demo_pp1 ''s'' ''p1'' (PStr ''why'') ''admin'' None (Some [''read'']) (Some 0) perm_demo_store
     = (base', Inr r)" using perm_demo_restrict by blast
  have reach: "permission_reach (pp_sha perm_demo_pp1) perm_demo_store" using perm_demo_reach by (simp add: perm_demo_pp1_def)
  obtain p q where "permission_load (pp_sha perm_demo_pp1) ''s'' ''p1'' perm_demo_store = Inr p"
    "permission_load (pp_sha perm_demo_pp1) ''s'' ''p1'' base' = Inr q" "pm_status q = Perm_LIMITED"
    "\<forall>c s. grants q c s \<longrightarrow> grants p c s" using restriction_restricts [OF reach r] by blast
  moreover have "\<not> grants perm_demo_permission ''delete'' None" by (simp add: grants_def perm_demo_permission_def)
  ultimately show ?thesis using perm_demo_load by (auto simp: perm_demo_pp1_def)
qed

text \<open>
  C38: a revocation is effective. When a revocation returns, the permission is REVOKED with the
  time of the call, allows nothing, cannot be restricted back into use, and every other file of
  the store is untouched.
\<close>

theorem revocation_effective:
  assumes "permission_reach (pp_sha pp) base"
    and "revoke_permission pp i j reason src expected base = (base', Inr r)" "pp_sha pp' = pp_sha pp"
  shows "\<exists>q. permission_load (pp_sha pp) i j base' = Inr q \<and> q = pr_permission r \<and>
    pm_status q = Perm_REVOKED \<and> pm_revoked_at q = Some (pp_revoked_at pp) \<and> (\<forall>c s. \<not> grants q c s) \<and>
    (\<forall>dir stem. (dir, stem) \<noteq> (pp_sha pp i, pp_sha pp j) \<longrightarrow> file_at base' dir stem = file_at base dir stem) \<and>
    (\<exists>m. restrict_permission pp' i j reason' src' ss ks None base' = (base', Inl (PermissionValidationError, m)))"
proof -
  have "update_status pp i j (PStr (status_value Perm_REVOKED)) reason src expected base = (base', Inr r)"
    using assms(2) by (simp add: revoke_permission_def)
  from wp_result [OF update_status_outcome [OF reach_sound [OF assms(1)]] this]
  obtain ps cs where o: "on_file (pp_sha pp) base i j ps cs" "pm_status (last ps) \<noteq> Perm_REVOKED"
    "pr_permission r = with_status (last ps) Perm_REVOKED (pp_revoked_at pp) src"
    "appended (pp_sha pp) base ps cs (pr_permission r) (pr_record r) base'"
    by (auto simp del: status_value.simps)
  have st: "permission_step (last ps) (status_change_type Perm_REVOKED) (pr_permission r)"
    using step_of_status [OF o(2)] o(3) by simp
  note l = loads_after [OF o(4,1) st] and f = other_files [OF o(4,1) st]
  have q: "pm_status (pr_permission r) = Perm_REVOKED" "pm_revoked_at (pr_permission r) = Some (pp_revoked_at pp)"
    using o(3) by (simp_all add: with_status_def)
  then have "\<not> is_available (pr_permission r)" by (simp add: is_available_def)
  with l q f show ?thesis
    by (auto simp: grants_def restrict_permission_def sbind_def prog_simps sread_swrite_run assms(3) check_revision_def)
qed

lemma perm_demo_revoke:
  "\<exists>r base'. revoke_permission perm_demo_pp1 ''s'' ''p1'' (PStr ''why'') ''admin'' None perm_demo_store = (base', Inr r)"
proof -
  let ?q = "perm_demo_permission\<lparr>pm_status := Perm_REVOKED, pm_revoked_at := Some (pp_revoked_at perm_demo_pp1),
    pm_source := ''admin'', pm_revision := 1\<rparr>"
  have w: "wf_permission ?q" using perm_demo_wf(1)
    by (simp add: wf_permission_def perm_demo_permission_def blank_def py_space_def Let_def)
  have l: "permission_load (pp_sha perm_demo_pp1) ''s'' ''p1'' perm_demo_store = Inr perm_demo_permission"
    using perm_demo_load by (simp add: perm_demo_pp1_def)
  have f: "pm_revision perm_demo_permission = 0" "pm_status perm_demo_permission \<noteq> Perm_REVOKED"
    by (simp_all add: perm_demo_permission_def)
  have st: "permission_step perm_demo_permission Chg_REVOKED ?q"
    using step_of_status [OF f(2), of "pp_revoked_at perm_demo_pp1" "''admin''"] by (simp add: with_status_def f)
  from perm_demo_change_runs [OF w st] show ?thesis
    unfolding revoke_permission_def update_status_def
    by (simp add: sbind_def prog_simps sread_swrite_run l check_revision_def f permission_copy_run [OF perm_demo_wf(1)]
        permission_recheck_run [OF w] del: status_value.simps)
qed

lemma revocation_effective_witness:
  "\<exists>q base'. permission_load (pp_sha perm_demo_pp1) ''s'' ''p1'' base' = Inr q \<and> \<not> grants q ''read'' None"
proof -
  obtain r base' where r: "revoke_permission perm_demo_pp1 ''s'' ''p1'' (PStr ''why'') ''admin'' None perm_demo_store = (base', Inr r)"
    using perm_demo_revoke by blast
  have reach: "permission_reach (pp_sha perm_demo_pp1) perm_demo_store" using perm_demo_reach by (simp add: perm_demo_pp1_def)
  from revocation_effective [OF reach r refl] show ?thesis by blast
qed

text \<open>
  A repeated save is refused. After any change was saved, saving the very same permission
  and record once more does not return silently but raises
  \<open>permission update revision must advance by one\<close>: the branch of \<open>save\<close> that recognises an
  identical last record is never reached.
\<close>

theorem replayed_save_refused:
  assumes "permission_reach (pp_sha pp) base"
    and "create_permission pp i ty nm de scope capabilities csrc reason given base = (base', Inr r) \<or>
      update_status pp i j status reason src expected base = (base', Inr r) \<or>
      restrict_permission pp i j reason src ss ks expected base = (base', Inr r)"
  shows "permission_save (pp_sha pp) disk (pr_permission r) (pr_record r) base' =
    Inl (PermissionValidationError, ''permission update revision must advance by one'')"
proof -
  note s = reach_sound [OF assms(1)]
  have "\<exists>ps cs. audit ps cs \<and> last ps = pr_permission r \<and> last cs = pr_record r \<and>
      file_at base' (pp_sha pp (pm_subject_id (last ps))) (pp_sha pp (pm_permission_id (last ps)))
        = File_Doc (permission_document (last ps) cs)"
    using assms(2)
  proof (elim disjE)
    assume "create_permission pp i ty nm de scope capabilities csrc reason given base = (base', Inr r)"
    from wp_result [OF create_outcome [OF s] this] show ?thesis
      by (intro exI [of _ "[pr_permission r]"] exI [of _ "[pr_record r]"]) (simp add: Let_def file_at_put)
  next
    assume "update_status pp i j status reason src expected base = (base', Inr r)"
    from wp_result [OF update_status_outcome [OF s] this] obtain ps cs where
      "appended (pp_sha pp) base ps cs (pr_permission r) (pr_record r) base'" by blast
    then show ?thesis
      by (intro exI [of _ "ps @ [pr_permission r]"] exI [of _ "cs @ [pr_record r]"]) (simp add: appended_def file_at_put)
  next
    assume "restrict_permission pp i j reason src ss ks expected base = (base', Inr r)"
    from wp_result [OF restrict_outcome [OF s] this] obtain ps cs where
      "appended (pp_sha pp) base ps cs (pr_permission r) (pr_record r) base'" unfolding restricted_def by blast
    then show ?thesis
      by (intro exI [of _ "ps @ [pr_permission r]"] exI [of _ "cs @ [pr_record r]"]) (simp add: appended_def file_at_put)
  qed
  then obtain ps cs where a: "audit ps cs" "last ps = pr_permission r" "last cs = pr_record r"
    "file_at base' (pp_sha pp (pm_subject_id (last ps))) (pp_sha pp (pm_permission_id (last ps)))
        = File_Doc (permission_document (last ps) cs)" by blast
  note f = audit_facts [OF a(1)]
  have w: "wf_permission (last ps)" "wf_change (last cs)" using f(1,3,4,7) by (simp_all add: list_all_iff)
  have h: "rmap change_from_dict (map change_to_dict cs) = Inr cs"
    using f(4) by (intro rmap_Inr_id) (simp add: list_all_iff change_roundtrip)
  have id: "pm_permission_id (last ps) = pc_permission_id (last cs)"
    using w(2) f(8) by (simp add: wf_change_def permission_to_dict_def)
  show ?thesis
    using w(1) h id f(8) a(4)
    by (simp add: a(2,3) [symmetric] permission_save_def permission_to_dict_eq permission_path_def perm_hash_def
        previous_history_def permission_roundtrip wf_permission_def [of "last ps"] del: py_eq.simps)
qed

lemma replayed_save_refused_witness:
  "permission_save (pp_sha perm_demo_pp) True perm_demo_permission perm_demo_grant perm_demo_store =
     Inl (PermissionValidationError, ''permission update revision must advance by one'')"
proof -
  obtain r where r: "create_permission perm_demo_pp ''s'' (PStr ''file'') (PStr ''files'') (PStr ''d'') [''a'', ''b'']
     [''read'', ''write''] (PStr ''user'') (PStr ''why'') (Some ''p1'') (\<lambda>_. []) = (perm_demo_store, Inr r)"
    "pr_permission r = perm_demo_permission" "pr_record r = perm_demo_grant" using perm_demo_create by blast
  from replayed_save_refused [OF pr_empty disjI1 [OF r(1)], of True] r(2,3) show ?thesis by simp
qed

end
