(* ===== verification/Runtime_Values.thy ===== *)
theory Runtime_Values
  imports Scheduler_Service
begin

text \<open>
  domain/persistent_runtime.py: the values of the persistent host, its clock discipline, its
  pacing policy and the window for deliveries; from domain/action_planning.py the identifier
  check and the digest of a JSON value.

  A number of the code may be an \<open>int\<close> or a \<open>float\<close>: \<open>num_arg\<close> is what a caller passes, a
  checked number is its exact rational value.
\<close>

section \<open>Time\<close>

abbreviation boundary :: "string \<Rightarrow> exn" where
  "boundary m \<equiv> (RuntimeBoundaryError, m)"

definition host_utc :: "pyval \<Rightarrow> instant res" where
  "host_utc value = (case value of
       PTime w (Some off) \<Rightarrow> if off \<noteq> 0 then Inl (boundary ''RUNTIME_CLOCK_INVALID'') else Inr w
     | _ \<Rightarrow> Inl (boundary ''RUNTIME_CLOCK_INVALID''))"

definition stamp :: "instant \<Rightarrow> string" where
  "stamp value = isoformat_utc value"

definition host_parse :: "string \<Rightarrow> instant res" where
  "host_parse value = (case fromisoformat value of
       None \<Rightarrow> Inl (boundary ''RUNTIME_CLOCK_INVALID'')
     | Some (w, off) \<Rightarrow> host_utc (PTime w off))"

lemma host_utc_eq_Inr [validator_defs]: "host_utc v = Inr t \<longleftrightarrow> v = utc_val t"
  by (auto simp: host_utc_def split: pyval.splits option.splits)

lemma host_parse_stamp [simp]: "host_parse (stamp t) = Inr t"
  by (simp add: host_parse_def stamp_def host_utc_def)

text \<open>
  \<open>timedelta(seconds=s)\<close> in microseconds: the whole seconds exactly, the fraction as the
  nearest whole number of microseconds, ties to even.
\<close>

definition timedelta_usec :: "rat \<Rightarrow> int" where
  "timedelta_usec s = (let whole = trunc s in
     whole * 1000000 + round_even (fl ((s - of_int whole) * 1000000)))"

definition plus_delay :: "instant \<Rightarrow> rat \<Rightarrow> instant res" where
  "plus_delay now s = (case mk_instant (usec now + timedelta_usec s) of
       None \<Rightarrow> Inl (OverflowError, ''date value out of range'')
     | Some t \<Rightarrow> Inr t)"

text \<open>\<open>(a - b).total_seconds()\<close>.\<close>

definition seconds_between :: "instant \<Rightarrow> instant \<Rightarrow> rat" where
  "seconds_between a b = fl (of_int (usec a - usec b) / 1000000)"

lemma timedelta_int [simp]: "timedelta_usec (of_int n) = n * 1000000"
  by (auto simp: timedelta_usec_def trunc_def round_even_def fl_def Let_def simp flip: of_int_minus)

lemma timedelta_nonneg: "0 \<le> s \<Longrightarrow> 0 \<le> timedelta_usec s"
proof -
  assume s: "0 \<le> s"
  then have "0 \<le> (s - of_int (trunc s)) * 1000000" "0 \<le> trunc s"
    by (simp_all add: trunc_nonneg)
  moreover have "0 \<le> round_even (fl ((s - of_int (trunc s)) * 1000000))"
    using round_even_mono [of 0 "fl ((s - of_int (trunc s)) * 1000000)"] fl_nonneg calculation(1)
      round_even_int [of 0] by simp
  ultimately show ?thesis by (simp add: timedelta_usec_def Let_def)
qed

section \<open>Identifiers and digests\<close>

text \<open>\<open>re.fullmatch(r"[A-Za-z0-9_.:-]{1,160}", value)\<close>.\<close>

definition identifier_char :: "char \<Rightarrow> bool" where
  "identifier_char c = (let n = of_char c :: nat in
     65 \<le> n \<and> n \<le> 90 \<or> 97 \<le> n \<and> n \<le> 122 \<or> 48 \<le> n \<and> n \<le> 57 \<or> n = 95 \<or> n = 46 \<or> n = 58 \<or> n = 45)"

definition is_identifier :: "string \<Rightarrow> bool" where
  "is_identifier s \<longleftrightarrow> 1 \<le> length s \<and> length s \<le> 160 \<and> list_all identifier_char s"

definition require_identifier :: "string \<Rightarrow> unit res" where
  "require_identifier value = ensure (is_identifier value)
     (CapabilityValidationError, ''invalid internal action identity'')"

text \<open>
  \<open>digest(value) = sha256_hash(canonicalize_json(value))\<close>. \<open>canon\<close> stands for the rfc8785
  package as \<open>canonicalize_json\<close> calls it, which may refuse a value; the memo of \<open>digest\<close>
  gives the value it would compute.
\<close>

type_synonym canon_fun = "pyval \<Rightarrow> string res"

definition sha256_hash :: "digest_fun \<Rightarrow> string \<Rightarrow> string" where
  "sha256_hash sha value = ''sha256:'' @ sha value"

definition value_digest :: "canon_fun \<Rightarrow> digest_fun \<Rightarrow> pyval \<Rightarrow> string res" where
  "value_digest canon sha value = rbind (canon value) (\<lambda>text. Inr (sha256_hash sha text))"

text \<open>What the code relies on of \<open>hexdigest()\<close>: 64 lower-case hexadecimal digits.\<close>

definition hex_digest :: "digest_fun \<Rightarrow> bool" where
  "hex_digest sha \<longleftrightarrow> (\<forall>s. length (sha s) = 64 \<and> list_all (\<lambda>c. c \<in> set ''0123456789abcdef'') (sha s))"

definition digest_shape :: "string \<Rightarrow> bool" where
  "digest_shape s \<longleftrightarrow> take 7 s = ''sha256:'' \<and> length s = 71"

lemma value_digest_shape:
  assumes "hex_digest sha" "value_digest canon sha v = Inr h"
  shows "digest_shape h" "is_identifier h"
proof -
  from assms obtain s where h: "h = ''sha256:'' @ s" "length s = 64"
      "list_all (\<lambda>c. c \<in> set ''0123456789abcdef'') s"
    by (auto simp: value_digest_def sha256_hash_def rbind_eq_Inr hex_digest_def)
  then show "digest_shape h" by (simp add: digest_shape_def)
  have "list_all identifier_char s"
    using h(3) by (rule list.pred_mono_strong) (auto simp: identifier_char_def Let_def)
  then show "is_identifier h"
    using h(1,2) by (simp add: is_identifier_def identifier_char_def Let_def)
qed

section \<open>The pacing policy\<close>

datatype num_arg = Num_Int int | Num_Float rat | Num_Not_Finite | Num_Other

text \<open>
  \<open>type(v) not in (int, float) or not math.isfinite(v) or v <= 0\<close>. \<open>math.isfinite\<close> turns an
  \<open>int\<close> into a \<open>float\<close> first and raises when there is none.
\<close>

definition policy_number :: "num_arg \<Rightarrow> rat res" where
  "policy_number v = (case v of
       Num_Int n \<Rightarrow> if 2 ^ 1024 - 2 ^ 970 \<le> \<bar>n\<bar> then Inl (OverflowError, ''int too large to convert to float'')
         else if n \<le> 0 then Inl (boundary ''RUNTIME_POLICY_INVALID'') else Inr (of_int n)
     | Num_Float x \<Rightarrow> if x \<le> 0 then Inl (boundary ''RUNTIME_POLICY_INVALID'') else Inr x
     | _ \<Rightarrow> Inl (boundary ''RUNTIME_POLICY_INVALID''))"

record runtime_policy =
  pol_idle_wait_seconds :: rat
  pol_minimum_spacing_seconds :: rat
  pol_retry_seconds :: rat
  pol_clock_jump_seconds :: rat
  pol_need_delta :: rat
  pol_max_failures :: int

definition runtime_policy_init ::
  "num_arg \<Rightarrow> num_arg \<Rightarrow> num_arg \<Rightarrow> num_arg \<Rightarrow> num_arg \<Rightarrow> pyval \<Rightarrow> runtime_policy res" where
  "runtime_policy_init idle spacing retry jump delta failures =
     rbind (policy_number idle) (\<lambda>idle.
     rbind (policy_number spacing) (\<lambda>spacing.
     rbind (policy_number retry) (\<lambda>retry.
     rbind (policy_number jump) (\<lambda>jump.
     rbind (policy_number delta) (\<lambda>delta.
     rbind (ensure (idle \<le> 5 \<and> delta \<le> 1) (boundary ''RUNTIME_POLICY_INVALID'')) (\<lambda>_.
     rbind (require_range (boundary ''RUNTIME_POLICY_INVALID'') 1 16 failures) (\<lambda>failures.
     Inr \<lparr>pol_idle_wait_seconds = idle, pol_minimum_spacing_seconds = spacing, pol_retry_seconds = retry,
       pol_clock_jump_seconds = jump, pol_need_delta = delta, pol_max_failures = failures\<rparr>)))))))"

definition wf_policy :: "runtime_policy \<Rightarrow> bool" where
  "wf_policy p \<longleftrightarrow> 0 < pol_idle_wait_seconds p \<and> pol_idle_wait_seconds p \<le> 5
     \<and> 0 < pol_minimum_spacing_seconds p \<and> 0 < pol_retry_seconds p \<and> 0 < pol_clock_jump_seconds p
     \<and> 0 < pol_need_delta p \<and> pol_need_delta p \<le> 1 \<and> 1 \<le> pol_max_failures p \<and> pol_max_failures p \<le> 16"

lemma policy_number_pos: "policy_number v = Inr x \<Longrightarrow> 0 < x"
  by (auto simp: policy_number_def split: num_arg.splits if_splits)

lemma runtime_policy_init_wf: "runtime_policy_init a b c d e f = Inr p \<Longrightarrow> wf_policy p"
  unfolding runtime_policy_init_def
  by (elim rbindE) (auto simp: wf_policy_def require_range_eq_Inr dest: policy_number_pos)

section \<open>Principals, needs and deliveries\<close>

record runtime_principal =
  pr_principal_id :: string
  pr_subject_id :: string
  pr_environment :: string
  pr_operations :: "string set"

record runtime_need =
  rn_identity :: string
  rn_kind :: string
  rn_due_at :: instant
  rn_priority :: pyval

definition runtime_need_init :: "pyval \<Rightarrow> pyval \<Rightarrow> pyval \<Rightarrow> pyval \<Rightarrow> runtime_need res" where
  "runtime_need_init ident kind due_at priority = (case kind of
       PList _ \<Rightarrow> Inl (TypeError, ''unhashable type'')
     | PDict _ \<Rightarrow> Inl (TypeError, ''unhashable type'')
     | PStr k \<Rightarrow> (case ident of
         PStr i \<Rightarrow>
           if k \<in> {''cognition'', ''maintenance''} \<and> i \<noteq> []
           then rbind (host_utc due_at) (\<lambda>due.
             Inr \<lparr>rn_identity = i, rn_kind = k, rn_due_at = due, rn_priority = priority\<rparr>)
           else Inl (boundary ''RUNTIME_NEED_INVALID'')
       | _ \<Rightarrow> Inl (boundary ''RUNTIME_NEED_INVALID''))
     | _ \<Rightarrow> Inl (boundary ''RUNTIME_NEED_INVALID''))"

record runtime_delivery_policy =
  dp_configured :: bool
  dp_start_hour_utc :: int
  dp_end_hour_utc :: int
  dp_minimum_interval_seconds :: int

definition delivery_policy_init :: "pyval \<Rightarrow> pyval \<Rightarrow> pyval \<Rightarrow> pyval \<Rightarrow> runtime_delivery_policy res" where
  "delivery_policy_init configured start_hour end_hour interval =
     (case (configured, start_hour, end_hour, interval) of
       (PBool c, PInt s, PInt e, PInt i) \<Rightarrow>
         if 0 \<le> s \<and> s < e \<and> e \<le> 24 \<and> 1 \<le> i
         then Inr \<lparr>dp_configured = c, dp_start_hour_utc = s, dp_end_hour_utc = e,
           dp_minimum_interval_seconds = i\<rparr>
         else Inl (boundary ''RUNTIME_DELIVERY_POLICY_INVALID'')
     | _ \<Rightarrow> Inl (boundary ''RUNTIME_DELIVERY_POLICY_INVALID''))"

definition hour_of :: "instant \<Rightarrow> int" where
  "hour_of t = usec t mod 86400000000 div 3600000000"

text \<open>\<open>RuntimeDeliveryPolicy.allows\<close>: the last delivery is read only within the window.\<close>

definition delivery_allows ::
  "runtime_delivery_policy \<Rightarrow> pyval \<Rightarrow> pyval \<Rightarrow> bool res" where
  "delivery_allows p moment last_delivery =
     rbind (host_utc moment) (\<lambda>now.
     if dp_configured p \<and> dp_start_hour_utc p \<le> hour_of now \<and> hour_of now < dp_end_hour_utc p
     then if last_delivery = PNone then Inr True
       else rbind (host_utc last_delivery) (\<lambda>before.
         Inr (of_int (dp_minimum_interval_seconds p) \<le> seconds_between now before))
     else Inr False)"

end
