(* ===== verification/Runtime_Checkpoint.thy ===== *)
theory Runtime_Checkpoint
  imports Runtime_Values
begin

text \<open>
  storage/json_runtime_repository.py: the one local checkpoint of a host, as a typed record, as
  the JSON envelope with its digest that is on disk, and the load, save and transaction of the
  repository. Every check of \<open>load\<close> that fails ends in the same \<open>RUNTIME_CHECKPOINT_CORRUPT\<close>, so
  the model first reads the types of a document (\<open>checkpoint_parse\<close>) and then checks its values
  (\<open>checkpoint_valid\<close>).
\<close>

section \<open>Values of the checkpoint\<close>

datatype host_desired = Want_RUNNING | Want_PAUSED | Want_STOPPED

datatype host_state =
    Host_START | Host_RUNNING | Host_PAUSED | Host_SUSPENDED | Host_RESUME | Host_RECOVER
  | Host_STOP | Host_ARCHIVED

datatype host_activity =
    Act_IDLE | Act_COGNITION | Act_MAINTENANCE | Act_WAITING_RESOURCES | Act_WAITING_VERIFICATION
  | Act_BACKOFF | Act_PAUSED | Act_STOPPED | Act_CLOCK_WAIT

datatype host_operation = Op_PAUSE | Op_RESUME | Op_STOP

datatype interruption_reason = Int_PROCESS_INTERRUPTED | Int_PRIOR_HOST_LOST | Int_HOST_DETACHED

fun desired_value :: "host_desired \<Rightarrow> string" where
  "desired_value Want_RUNNING = ''RUNNING''"
| "desired_value Want_PAUSED = ''PAUSED''"
| "desired_value Want_STOPPED = ''STOPPED''"

fun host_state_value :: "host_state \<Rightarrow> string" where
  "host_state_value Host_START = ''START''"
| "host_state_value Host_RUNNING = ''RUNNING''"
| "host_state_value Host_PAUSED = ''PAUSED''"
| "host_state_value Host_SUSPENDED = ''SUSPENDED''"
| "host_state_value Host_RESUME = ''RESUME''"
| "host_state_value Host_RECOVER = ''RECOVER''"
| "host_state_value Host_STOP = ''STOP''"
| "host_state_value Host_ARCHIVED = ''ARCHIVED''"

fun activity_value :: "host_activity \<Rightarrow> string" where
  "activity_value Act_IDLE = ''IDLE''"
| "activity_value Act_COGNITION = ''COGNITION''"
| "activity_value Act_MAINTENANCE = ''MAINTENANCE''"
| "activity_value Act_WAITING_RESOURCES = ''WAITING_RESOURCES''"
| "activity_value Act_WAITING_VERIFICATION = ''WAITING_VERIFICATION''"
| "activity_value Act_BACKOFF = ''BACKOFF''"
| "activity_value Act_PAUSED = ''PAUSED''"
| "activity_value Act_STOPPED = ''STOPPED''"
| "activity_value Act_CLOCK_WAIT = ''CLOCK_WAIT''"

fun host_operation_value :: "host_operation \<Rightarrow> string" where
  "host_operation_value Op_PAUSE = ''PAUSE''"
| "host_operation_value Op_RESUME = ''RESUME''"
| "host_operation_value Op_STOP = ''STOP''"

fun interruption_value :: "interruption_reason \<Rightarrow> string" where
  "interruption_value Int_PROCESS_INTERRUPTED = ''PROCESS_INTERRUPTED''"
| "interruption_value Int_PRIOR_HOST_LOST = ''PRIOR_HOST_LOST''"
| "interruption_value Int_HOST_DETACHED = ''HOST_DETACHED''"

text \<open>What an operation makes the owner's wish.\<close>

fun desired_of :: "host_operation \<Rightarrow> host_desired" where
  "desired_of Op_PAUSE = Want_PAUSED"
| "desired_of Op_RESUME = Want_RUNNING"
| "desired_of Op_STOP = Want_STOPPED"

definition desireds :: "host_desired list" where
  "desireds = [Want_RUNNING, Want_PAUSED, Want_STOPPED]"

definition host_states :: "host_state list" where
  "host_states = [Host_START, Host_RUNNING, Host_PAUSED, Host_SUSPENDED, Host_RESUME, Host_RECOVER,
     Host_STOP, Host_ARCHIVED]"

definition activities :: "host_activity list" where
  "activities = [Act_IDLE, Act_COGNITION, Act_MAINTENANCE, Act_WAITING_RESOURCES,
     Act_WAITING_VERIFICATION, Act_BACKOFF, Act_PAUSED, Act_STOPPED, Act_CLOCK_WAIT]"

definition host_operations :: "host_operation list" where
  "host_operations = [Op_PAUSE, Op_RESUME, Op_STOP]"

definition interruption_reasons :: "interruption_reason list" where
  "interruption_reasons = [Int_PROCESS_INTERRUPTED, Int_PRIOR_HOST_LOST, Int_HOST_DETACHED]"

lemma host_enums [simp]:
  "require_enum e desired_value desireds (PStr (desired_value a)) = Inr a"
  "require_enum e host_state_value host_states (PStr (host_state_value b)) = Inr b"
  "require_enum e activity_value activities (PStr (activity_value c)) = Inr c"
  "require_enum e host_operation_value host_operations (PStr (host_operation_value d)) = Inr d"
  "require_enum e interruption_value interruption_reasons (PStr (interruption_value i)) = Inr i"
  subgoal by (rule require_enum_PStr) (cases a, auto simp: desireds_def)
  subgoal by (rule require_enum_PStr) (cases b, auto simp: host_states_def)
  subgoal by (rule require_enum_PStr) (cases c, auto simp: activities_def)
  subgoal by (rule require_enum_PStr) (cases d, auto simp: host_operations_def)
  subgoal by (rule require_enum_PStr) (cases i, auto simp: interruption_reasons_def)
  done

record runtime_command =
  cm_id :: string
  cm_hash :: string
  cm_operation :: host_operation
  cm_revision :: int

record runtime_interruption =
  ri_generation :: int
  ri_reason :: interruption_reason
  ri_last_trusted_time :: "string option"

text \<open>The document; its version is the constant of \<open>empty()\<close>. Times are kept as text.\<close>

record checkpoint =
  ck_subject_id :: string
  ck_environment :: string
  ck_root_hash :: string
  ck_revision :: int
  ck_desired :: host_desired
  ck_state :: host_state
  ck_activity :: host_activity
  ck_generation :: int
  ck_owner :: "string option"
  ck_last_time :: "string option"
  ck_next_check_at :: "string option"
  ck_last_task :: "string option"
  ck_reason :: string
  ck_commands :: "runtime_command list"
  ck_observations :: int
  ck_interruptions :: "runtime_interruption list"

text \<open>What a repository is bound to, and the two functions its digests use.\<close>

record runtime_binding =
  rb_subject_id :: string
  rb_environment :: string
  rb_root_hash :: string
  rb_canon :: canon_fun
  rb_sha :: digest_fun

abbreviation rb_digest :: "runtime_binding \<Rightarrow> pyval \<Rightarrow> string res" where
  "rb_digest b \<equiv> value_digest (rb_canon b) (rb_sha b)"

definition checkpoint_empty :: "runtime_binding \<Rightarrow> checkpoint" where
  "checkpoint_empty b = \<lparr>ck_subject_id = rb_subject_id b, ck_environment = rb_environment b,
     ck_root_hash = rb_root_hash b, ck_revision = 0, ck_desired = Want_RUNNING, ck_state = Host_START,
     ck_activity = Act_IDLE, ck_generation = 0, ck_owner = None, ck_last_time = None,
     ck_next_check_at = None, ck_last_task = None, ck_reason = ''INITIALIZED'', ck_commands = [],
     ck_observations = 0, ck_interruptions = []\<rparr>"

section \<open>The document as JSON\<close>

definition command_to_dict :: "runtime_command \<Rightarrow> pyval" where
  "command_to_dict c = PDict [(''id'', PStr (cm_id c)), (''hash'', PStr (cm_hash c)),
     (''operation'', PStr (host_operation_value (cm_operation c))), (''revision'', PInt (cm_revision c))]"

definition interruption_to_dict :: "runtime_interruption \<Rightarrow> pyval" where
  "interruption_to_dict r = PDict [(''generation'', PInt (ri_generation r)),
     (''reason'', PStr (interruption_value (ri_reason r))),
     (''last_trusted_time'', opt_val PStr (ri_last_trusted_time r))]"

definition checkpoint_to_dict :: "checkpoint \<Rightarrow> pyval" where
  "checkpoint_to_dict d = PDict [
     (''version'', PStr ''p18-runtime-v1''), (''subject_id'', PStr (ck_subject_id d)),
     (''environment'', PStr (ck_environment d)), (''root_hash'', PStr (ck_root_hash d)),
     (''revision'', PInt (ck_revision d)), (''desired'', PStr (desired_value (ck_desired d))),
     (''state'', PStr (host_state_value (ck_state d))),
     (''activity'', PStr (activity_value (ck_activity d))), (''generation'', PInt (ck_generation d)),
     (''owner'', opt_val PStr (ck_owner d)), (''last_time'', opt_val PStr (ck_last_time d)),
     (''next_check_at'', opt_val PStr (ck_next_check_at d)),
     (''last_task'', opt_val PStr (ck_last_task d)), (''reason'', PStr (ck_reason d)),
     (''commands'', PList (map command_to_dict (ck_commands d))),
     (''observations'', PInt (ck_observations d)),
     (''interruptions'', PList (map interruption_to_dict (ck_interruptions d)))]"

definition checkpoint_keys :: "string list" where
  "checkpoint_keys = [''version'', ''subject_id'', ''environment'', ''root_hash'', ''revision'',
     ''desired'', ''state'', ''activity'', ''generation'', ''owner'', ''last_time'', ''next_check_at'',
     ''last_task'', ''reason'', ''commands'', ''observations'', ''interruptions'']"

abbreviation corrupt :: exn where
  "corrupt \<equiv> boundary ''RUNTIME_CHECKPOINT_CORRUPT''"

definition exact_dict :: "string list \<Rightarrow> pyval \<Rightarrow> (string \<times> pyval) list res" where
  "exact_dict ks v = (case v of
       PDict d \<Rightarrow> if set (map fst d) = set ks then Inr d else Inl corrupt
     | _ \<Rightarrow> Inl corrupt)"

fun str_field :: "pyval \<Rightarrow> string res" where
  "str_field (PStr s) = Inr s"
| "str_field _ = Inl corrupt"

fun int_field :: "pyval \<Rightarrow> int res" where
  "int_field (PInt n) = Inr n"
| "int_field _ = Inl corrupt"

fun opt_str_field :: "pyval \<Rightarrow> string option res" where
  "opt_str_field PNone = Inr None"
| "opt_str_field (PStr s) = Inr (Some s)"
| "opt_str_field _ = Inl corrupt"

fun list_field :: "pyval \<Rightarrow> pyval list res" where
  "list_field (PList xs) = Inr xs"
| "list_field _ = Inl corrupt"

definition command_parse :: "pyval \<Rightarrow> runtime_command res" where
  "command_parse v =
     rbind (exact_dict [''id'', ''hash'', ''operation'', ''revision''] v) (\<lambda>c.
     rbind (str_field (dict_get c ''id'')) (\<lambda>i.
     rbind (str_field (dict_get c ''hash'')) (\<lambda>h.
     rbind (require_enum corrupt host_operation_value host_operations (dict_get c ''operation'')) (\<lambda>oper.
     rbind (int_field (dict_get c ''revision'')) (\<lambda>r.
     Inr \<lparr>cm_id = i, cm_hash = h, cm_operation = oper, cm_revision = r\<rparr>)))))"

definition interruption_parse :: "pyval \<Rightarrow> runtime_interruption res" where
  "interruption_parse v =
     rbind (exact_dict [''generation'', ''reason'', ''last_trusted_time''] v) (\<lambda>r.
     rbind (int_field (dict_get r ''generation'')) (\<lambda>g.
     rbind (require_enum corrupt interruption_value interruption_reasons (dict_get r ''reason'')) (\<lambda>reason.
     rbind (opt_str_field (dict_get r ''last_trusted_time'')) (\<lambda>t.
     Inr \<lparr>ri_generation = g, ri_reason = reason, ri_last_trusted_time = t\<rparr>))))"

definition checkpoint_parse :: "pyval \<Rightarrow> checkpoint res" where
  "checkpoint_parse v =
     rbind (exact_dict checkpoint_keys v) (\<lambda>d.
     rbind (ensure (dict_get d ''version'' = PStr ''p18-runtime-v1'') corrupt) (\<lambda>_.
     rbind (str_field (dict_get d ''subject_id'')) (\<lambda>subject.
     rbind (str_field (dict_get d ''environment'')) (\<lambda>environment.
     rbind (str_field (dict_get d ''root_hash'')) (\<lambda>root_hash.
     rbind (int_field (dict_get d ''revision'')) (\<lambda>revision.
     rbind (require_enum corrupt desired_value desireds (dict_get d ''desired'')) (\<lambda>desired.
     rbind (require_enum corrupt host_state_value host_states (dict_get d ''state'')) (\<lambda>state.
     rbind (require_enum corrupt activity_value activities (dict_get d ''activity'')) (\<lambda>activity.
     rbind (int_field (dict_get d ''generation'')) (\<lambda>generation.
     rbind (opt_str_field (dict_get d ''owner'')) (\<lambda>owner.
     rbind (opt_str_field (dict_get d ''last_time'')) (\<lambda>last_time.
     rbind (opt_str_field (dict_get d ''next_check_at'')) (\<lambda>next_check_at.
     rbind (opt_str_field (dict_get d ''last_task'')) (\<lambda>last_task.
     rbind (str_field (dict_get d ''reason'')) (\<lambda>reason.
     rbind (rbind (list_field (dict_get d ''commands'')) (rmap command_parse)) (\<lambda>commands.
     rbind (int_field (dict_get d ''observations'')) (\<lambda>observations.
     rbind (rbind (list_field (dict_get d ''interruptions'')) (rmap interruption_parse)) (\<lambda>interruptions.
     Inr \<lparr>ck_subject_id = subject, ck_environment = environment, ck_root_hash = root_hash,
       ck_revision = revision, ck_desired = desired, ck_state = state, ck_activity = activity,
       ck_generation = generation, ck_owner = owner, ck_last_time = last_time,
       ck_next_check_at = next_check_at, ck_last_task = last_task, ck_reason = reason,
       ck_commands = commands, ck_observations = observations,
       ck_interruptions = interruptions\<rparr>))))))))))))))))))"

lemma str_field_simps [simp]: "opt_str_field (opt_val PStr x) = Inr x"
  by (cases x) simp_all

lemma command_dict_roundtrip [simp]: "command_parse (command_to_dict c) = Inr c"
  by (simp add: command_parse_def command_to_dict_def exact_dict_def)

lemma interruption_dict_roundtrip [simp]: "interruption_parse (interruption_to_dict r) = Inr r"
  by (simp add: interruption_parse_def interruption_to_dict_def exact_dict_def insert_commute)

lemma checkpoint_dict_roundtrip [simp]: "checkpoint_parse (checkpoint_to_dict d) = Inr d"
  by (simp add: checkpoint_parse_def checkpoint_to_dict_def exact_dict_def checkpoint_keys_def rmap_Inr_id)

section \<open>The checks of \<open>load\<close>\<close>

definition time_ok :: "string option \<Rightarrow> bool" where
  "time_ok t = (case t of None \<Rightarrow> True | Some s \<Rightarrow> (case host_parse s of Inl _ \<Rightarrow> False | Inr _ \<Rightarrow> True))"

definition opt_identifier :: "string option \<Rightarrow> bool" where
  "opt_identifier s = (case s of None \<Rightarrow> True | Some i \<Rightarrow> is_identifier i)"

definition reason_ok :: "string \<Rightarrow> bool" where
  "reason_ok s \<longleftrightarrow> s \<noteq> [] \<and> list_all (\<lambda>c. c \<in> set ''ABCDEFGHIJKLMNOPQRSTUVWXYZ_0123456789'') s"

definition command_valid :: "int \<Rightarrow> runtime_command \<Rightarrow> bool" where
  "command_valid revision c \<longleftrightarrow> is_identifier (cm_id c) \<and> digest_shape (cm_id c)
     \<and> 1 \<le> cm_revision c \<and> cm_revision c \<le> revision \<and> take 7 (cm_hash c) = ''sha256:''"

definition interruption_valid :: "int \<Rightarrow> runtime_interruption \<Rightarrow> bool" where
  "interruption_valid generation r \<longleftrightarrow> 0 \<le> ri_generation r \<and> ri_generation r \<le> generation
     \<and> time_ok (ri_last_trusted_time r)"

text \<open>The loop over the commands, with the identities seen and the previous revision.\<close>

fun commands_valid :: "int \<Rightarrow> string list \<Rightarrow> int \<Rightarrow> runtime_command list \<Rightarrow> bool" where
  "commands_valid revision seen previous [] = True"
| "commands_valid revision seen previous (c # cs) \<longleftrightarrow> cm_id c \<notin> set seen \<and> command_valid revision c
     \<and> previous < cm_revision c \<and> commands_valid revision (cm_id c # seen) (cm_revision c) cs"

definition checkpoint_valid :: "runtime_binding \<Rightarrow> checkpoint \<Rightarrow> bool" where
  "checkpoint_valid b d \<longleftrightarrow>
     ck_subject_id d = rb_subject_id b \<and> ck_environment d = rb_environment b \<and> ck_root_hash d = rb_root_hash b
     \<and> (ck_desired d = Want_STOPPED \<longrightarrow> ck_state d = Host_STOP)
     \<and> 0 \<le> ck_revision d \<and> 0 \<le> ck_generation d \<and> 0 \<le> ck_observations d
     \<and> time_ok (ck_last_time d) \<and> time_ok (ck_next_check_at d)
     \<and> opt_identifier (ck_owner d) \<and> opt_identifier (ck_last_task d) \<and> reason_ok (ck_reason d)
     \<and> commands_valid (ck_revision d) [] 0 (ck_commands d)
     \<and> (ck_commands d \<noteq> [] \<longrightarrow>
         list_all (\<lambda>c. cm_operation c \<noteq> Op_STOP) (butlast (ck_commands d))
         \<and> ck_desired d = desired_of (cm_operation (last (ck_commands d))))
     \<and> length (ck_interruptions d) \<le> 64
     \<and> list_all (interruption_valid (ck_generation d)) (ck_interruptions d)"

definition checkpoint_decode :: "runtime_binding \<Rightarrow> pyval \<Rightarrow> checkpoint res" where
  "checkpoint_decode b v = (case exact_dict [''document'', ''hash''] v of
       Inl e \<Rightarrow> Inl corrupt
     | Inr envelope \<Rightarrow> (case rb_digest b (dict_get envelope ''document'') of
         Inl e \<Rightarrow> Inl corrupt
       | Inr h \<Rightarrow> if dict_get envelope ''hash'' \<noteq> PStr h then Inl corrupt
           else (case checkpoint_parse (dict_get envelope ''document'') of
             Inl e \<Rightarrow> Inl corrupt
           | Inr d \<Rightarrow> if checkpoint_valid b d then Inr d else Inl corrupt)))"

section \<open>The repository\<close>

definition runtime_load :: "runtime_binding \<Rightarrow> file_state \<Rightarrow> checkpoint res" where
  "runtime_load b f = (case f of
       File_Absent \<Rightarrow> Inl (boundary ''RUNTIME_NOT_INITIALIZED'')
     | File_Doc v \<Rightarrow> checkpoint_decode b v
     | _ \<Rightarrow> Inl corrupt)"

text \<open>\<open>self.load() if self.path.exists() else None\<close>.\<close>

definition runtime_current :: "runtime_binding \<Rightarrow> file_state \<Rightarrow> checkpoint option res" where
  "runtime_current b f = (if f = File_Absent then Inr None
     else rbind (runtime_load b f) (\<lambda>d. Inr (Some d)))"

definition checkpoint_envelope :: "string \<Rightarrow> checkpoint \<Rightarrow> pyval" where
  "checkpoint_envelope h d = PDict [(''document'', checkpoint_to_dict d), (''hash'', PStr h)]"

text \<open>
  \<open>save(d)\<close>: \<open>failure\<close> is what the atomic replacement raises, if it does (an \<open>OSError\<close>, the
  refusal of a retry, or \<open>RUNTIME_CHECKPOINT_WRITE_DEFERRED\<close>); the target is untouched then.
  The saved document, with its new revision, is returned.
\<close>

definition runtime_save ::
  "runtime_binding \<Rightarrow> exn option \<Rightarrow> checkpoint \<Rightarrow> (file_state, checkpoint) prog" where
  "runtime_save b failure d =
     sbind (slift (ensure (ck_root_hash d = rb_root_hash b \<and> ck_subject_id d = rb_subject_id b
         \<and> ck_environment d = rb_environment b) (boundary ''RUNTIME_CHECKPOINT_BINDING''))) (\<lambda>_.
     sbind (sread (runtime_current b)) (\<lambda>current.
     sbind (slift (case current of None \<Rightarrow> Inr ()
         | Some c \<Rightarrow> ensure (ck_revision d = ck_revision c) (boundary ''RUNTIME_REVISION_CONFLICT''))) (\<lambda>_.
     (let d = d\<lparr>ck_revision := ck_revision d + 1\<rparr> in
      sbind (slift (rb_digest b (checkpoint_to_dict d))) (\<lambda>h.
      case failure of
        Some e \<Rightarrow> slift (Inl e)
      | None \<Rightarrow> sbind (smodify (\<lambda>_. File_Doc (checkpoint_envelope h d))) (\<lambda>_. sret d))))))"

text \<open>
  \<open>with repository.transaction() as d\<close>: \<open>access\<close> is what the checks of the path and the lock
  raise, if they do (\<open>RUNTIME_CHECKPOINT_BUSY\<close> when the lock is not free in time).
\<close>

definition runtime_transaction ::
  "runtime_binding \<Rightarrow> exn option \<Rightarrow> (checkpoint option \<Rightarrow> (file_state, 'a) prog) \<Rightarrow> (file_state, 'a) prog" where
  "runtime_transaction b access body =
     (case access of
       Some e \<Rightarrow> slift (Inl e)
     | None \<Rightarrow> sbind (sread (runtime_current b)) body)"

definition runtime_initialize ::
  "runtime_binding \<Rightarrow> exn option \<Rightarrow> exn option \<Rightarrow> (file_state, checkpoint) prog" where
  "runtime_initialize b access failure =
     sbind (runtime_transaction b access (\<lambda>d. case d of
         None \<Rightarrow> sbind (runtime_save b failure (checkpoint_empty b)) (\<lambda>_. sret ())
       | Some _ \<Rightarrow> sret ())) (\<lambda>_.
     sread (runtime_load b))"

section \<open>Laws\<close>

lemma checkpoint_decode_valid: "checkpoint_decode b v = Inr d \<Longrightarrow> checkpoint_valid b d"
  by (auto simp: checkpoint_decode_def split: sum.splits if_splits)

lemma checkpoint_decode_envelope:
  assumes "checkpoint_valid b d" "rb_digest b (checkpoint_to_dict d) = Inr h"
  shows "checkpoint_decode b (checkpoint_envelope h d) = Inr d"
  using assms by (simp add: checkpoint_decode_def checkpoint_envelope_def exact_dict_def)

lemma runtime_load_valid: "runtime_load b f = Inr d \<Longrightarrow> checkpoint_valid b d"
  by (auto simp: runtime_load_def intro: checkpoint_decode_valid split: file_state.splits)

lemma runtime_current_Some: "runtime_current b f = Inr (Some d) \<longleftrightarrow> runtime_load b f = Inr d"
  by (auto simp: runtime_current_def runtime_load_def rbind_eq_Inr)

lemma runtime_current_None: "runtime_current b f = Inr None \<longleftrightarrow> f = File_Absent"
  by (auto simp: runtime_current_def rbind_eq_Inr)

text \<open>\<open>save\<close> as an operation of the store contract, the revision it computed from made explicit.\<close>

definition runtime_save_at :: "runtime_binding \<Rightarrow> checkpoint \<Rightarrow> int \<Rightarrow> file_state \<Rightarrow> file_state res" where
  "runtime_save_at b d e f = (if ck_revision d \<noteq> e + 1 \<or> f = File_Absent
     then Inl (boundary ''RUNTIME_REVISION_CONFLICT'')
     else (case runtime_save b None (d\<lparr>ck_revision := e\<rparr>) f of (f', Inl x) \<Rightarrow> Inl x | (f', Inr _) \<Rightarrow> Inr f'))"

lemma runtime_save_Inr:
  "runtime_save b failure d f = (f', Inr d') \<longleftrightarrow> failure = None \<and> d' = d\<lparr>ck_revision := ck_revision d + 1\<rparr>
     \<and> ck_root_hash d = rb_root_hash b \<and> ck_subject_id d = rb_subject_id b \<and> ck_environment d = rb_environment b
     \<and> (f = File_Absent \<or> (\<exists>c. runtime_load b f = Inr c \<and> ck_revision c = ck_revision d))
     \<and> (\<exists>h. rb_digest b (checkpoint_to_dict d') = Inr h \<and> f' = File_Doc (checkpoint_envelope h d'))"
  by (cases failure) (auto simp: runtime_save_def sbind_eq_Inr prog_simps sread_def Let_def runtime_current_None
      runtime_current_Some split: option.splits)

lemma ck_revision_self: "ck_revision d = n \<Longrightarrow> d\<lparr>ck_revision := n\<rparr> = d"
  by (cases d) simp

interpretation rt: revisioned_store "runtime_load b" "runtime_save_at b" ck_revision "checkpoint_valid b"
proof
  fix d v
  show "runtime_load b d = Inr v \<Longrightarrow> checkpoint_valid b v" by (rule runtime_load_valid)
next
  fix d v e d'
  assume v: "checkpoint_valid b v" and s: "runtime_save_at b v e d = Inr d'"
  then show "runtime_load b d' = Inr v"
    by (auto simp: runtime_save_at_def runtime_save_Inr ck_revision_self checkpoint_decode_envelope
        runtime_load_def [of b "File_Doc x" for x] split: if_splits prod.splits sum.splits)
next
  fix d v e d'
  assume "runtime_save_at b v e d = Inr d'"
  then show "ck_revision v = e + 1 \<and> (\<exists>u. runtime_load b d = Inr u \<and> ck_revision u = e)"
    by (auto simp: runtime_save_at_def runtime_save_Inr split: if_splits prod.splits sum.splits)
qed

end
