(* ===== verification/Subject_Lifecycle.thy ===== *)
theory Subject_Lifecycle
  imports Runtime_Values
begin

text \<open>
  domain/subject_lifecycle.py: the lifecycle value that a SubjectState keeps in its temporal
  section, the transitions an owner may ask for and the commands that ask; with the checks of
  texts and times that the module takes from domain/dynamic_mind.py. \<open>lifecycle_active\<close> is
  \<open>SubjectStateService.require_active\<close> on the value of the loaded state.
\<close>

section \<open>Checks\<close>

text \<open>\<open>v in {...}\<close> for a set of strings: a list or dictionary is not hashable.\<close>

fun py_hashable :: "pyval \<Rightarrow> bool" where
  "py_hashable (PList _) = False"
| "py_hashable (PDict _) = False"
| "py_hashable (PTuple xs) = list_all py_hashable xs"
| "py_hashable _ = True"

definition in_strings :: "pyval \<Rightarrow> string list \<Rightarrow> bool res" where
  "in_strings v xs = (if \<not> py_hashable v then Inl (TypeError, ''unhashable type'')
     else Inr (case v of PStr s \<Rightarrow> s \<in> set xs | _ \<Rightarrow> False))"

definition mind_text :: "pyval \<Rightarrow> string res" where
  "mind_text v = (case v of
       PStr s \<Rightarrow> if blank s \<or> 4096 < length s then Inl (MindValidationError, ''MIND_TEXT_INVALID'') else Inr s
     | _ \<Rightarrow> Inl (MindValidationError, ''MIND_TEXT_INVALID''))"

definition mind_utc :: "pyval \<Rightarrow> instant res" where
  "mind_utc v =
     rbind (case v of
         PStr s \<Rightarrow> (case fromisoformat (replace_Z s) of
           None \<Rightarrow> Inl (MindValidationError, ''MIND_TIME_INVALID'')
         | Some (w, off) \<Rightarrow> Inr (PTime w off))
       | _ \<Rightarrow> Inr v) (\<lambda>v.
     case v of
       PTime w (Some off) \<Rightarrow> require_aware (MindValidationError, ''MIND_TIME_REQUIRES_TRUSTED_UTC'') v
     | _ \<Rightarrow> Inl (MindValidationError, ''MIND_TIME_REQUIRES_TRUSTED_UTC''))"

text \<open>\<open>type(value) is int and value >= 0\<close>.\<close>

fun plain_nat :: "pyval \<Rightarrow> bool" where
  "plain_nat (PInt n) = (0 \<le> n)"
| "plain_nat _ = False"

lemma mind_text_eq_Inr [validator_defs]:
  "mind_text v = Inr s \<longleftrightarrow> v = PStr s \<and> \<not> blank s \<and> length s \<le> 4096"
  by (auto simp: mind_text_def split: pyval.splits)

lemma mind_utc_format [simp]: "mind_utc (PStr (format_z t)) = Inr t"
  by (simp add: mind_utc_def)

lemma in_strings_eq_Inr [validator_defs]:
  "in_strings v xs = Inr True \<longleftrightarrow> (\<exists>s. v = PStr s \<and> s \<in> set xs)"
  by (auto simp: in_strings_def split: pyval.splits if_splits)

section \<open>Transitions\<close>

definition lifecycle_states :: "string list" where
  "lifecycle_states = [''CREATE'', ''ACTIVE'', ''SUSPENDED'', ''ARCHIVED'', ''DELETED'']"

definition lifecycle_transitions :: "((string \<times> string) \<times> string) list" where
  "lifecycle_transitions = [((''CREATE'', ''ACTIVATE''), ''ACTIVE''),
     ((''ACTIVE'', ''SUSPEND''), ''SUSPENDED''), ((''SUSPENDED'', ''RESUME''), ''ACTIVE''),
     ((''ACTIVE'', ''ARCHIVE''), ''ARCHIVED''), ((''SUSPENDED'', ''ARCHIVE''), ''ARCHIVED''),
     ((''ARCHIVED'', ''RESUME''), ''ACTIVE''), ((''CREATE'', ''DELETE''), ''DELETED''),
     ((''SUSPENDED'', ''DELETE''), ''DELETED''), ((''ARCHIVED'', ''DELETE''), ''DELETED'')]"

definition lifecycle_transition :: "string \<Rightarrow> string \<Rightarrow> string res" where
  "lifecycle_transition status operation = (case map_of lifecycle_transitions (status, operation) of
       None \<Rightarrow> Inl (LifecycleError, ''SUBJECT_LIFECYCLE_TRANSITION_DENIED'')
     | Some s \<Rightarrow> Inr s)"

section \<open>The lifecycle value\<close>

record subject_lifecycle =
  sl_subject_id :: string
  sl_environment :: string
  sl_owner_principal_id :: string
  sl_status :: string
  sl_changed_at :: instant
  sl_reason :: string

definition subject_lifecycle_init ::
  "pyval \<Rightarrow> pyval \<Rightarrow> pyval \<Rightarrow> pyval \<Rightarrow> pyval \<Rightarrow> pyval \<Rightarrow> pyval \<Rightarrow> subject_lifecycle res" where
  "subject_lifecycle_init subject environment owner status changed_at reason version =
     rbind (mind_text subject) (\<lambda>subject.
     rbind (mind_text owner) (\<lambda>owner.
     rbind (mind_text reason) (\<lambda>reason.
     rbind (mind_utc changed_at) (\<lambda>changed_at.
     rbind (in_strings environment [''TEST'', ''RESEARCH'']) (\<lambda>env_ok.
     rbind (if env_ok then in_strings status lifecycle_states else Inr False) (\<lambda>ok.
     case (environment, status) of
       (PStr e, PStr s) \<Rightarrow> if ok \<and> version = PStr ''p15-subject-lifecycle-v1''
         then Inr \<lparr>sl_subject_id = subject, sl_environment = e, sl_owner_principal_id = owner,
           sl_status = s, sl_changed_at = changed_at, sl_reason = reason\<rparr>
         else Inl (LifecycleError, ''SUBJECT_LIFECYCLE_VALUE_INVALID'')
     | _ \<Rightarrow> Inl (LifecycleError, ''SUBJECT_LIFECYCLE_VALUE_INVALID'')))))))"

definition subject_lifecycle_to_dict :: "subject_lifecycle \<Rightarrow> pyval" where
  "subject_lifecycle_to_dict l = PDict [(''subject_id'', PStr (sl_subject_id l)),
     (''environment'', PStr (sl_environment l)), (''owner_principal_id'', PStr (sl_owner_principal_id l)),
     (''status'', PStr (sl_status l)), (''changed_at'', PStr (format_z (sl_changed_at l))),
     (''reason'', PStr (sl_reason l)), (''version'', PStr ''p15-subject-lifecycle-v1'')]"

definition subject_lifecycle_keys :: "string list" where
  "subject_lifecycle_keys = [''subject_id'', ''environment'', ''owner_principal_id'', ''status'',
     ''changed_at'', ''reason'', ''version'']"

definition subject_lifecycle_from_dict :: "pyval \<Rightarrow> subject_lifecycle res" where
  "subject_lifecycle_from_dict v = (case v of
       PDict d \<Rightarrow> if set (map fst d) \<noteq> set subject_lifecycle_keys
         then Inl (LifecycleError, ''SUBJECT_LIFECYCLE_SHAPE_INVALID'')
         else subject_lifecycle_init (dict_get d ''subject_id'') (dict_get d ''environment'')
           (dict_get d ''owner_principal_id'') (dict_get d ''status'') (dict_get d ''changed_at'')
           (dict_get d ''reason'') (dict_get d ''version'')
     | _ \<Rightarrow> Inl (LifecycleError, ''SUBJECT_LIFECYCLE_SHAPE_INVALID''))"

text \<open>\<open>lifecycle_status\<close> of a state whose \<open>temporal.subject_lifecycle\<close> is \<open>v\<close>.\<close>

definition lifecycle_status :: "pyval \<Rightarrow> string res" where
  "lifecycle_status v = (if v = PNone then Inr ''ACTIVE''
     else rbind (subject_lifecycle_from_dict v) (\<lambda>l. Inr (sl_status l)))"

definition lifecycle_active :: "pyval \<Rightarrow> string option \<Rightarrow> unit res" where
  "lifecycle_active v environment =
     rbind (lifecycle_status v) (\<lambda>status.
     if status \<noteq> ''ACTIVE'' then Inl (LifecycleError, ''SUBJECT_NOT_ACTIVE'')
     else (case environment of
       Some e \<Rightarrow> if v \<noteq> PNone
         then rbind (subject_lifecycle_from_dict v) (\<lambda>l.
           ensure (sl_environment l = e) (LifecycleError, ''SUBJECT_ENVIRONMENT_MISMATCH''))
         else Inr ()
     | None \<Rightarrow> Inr ()))"

definition wf_lifecycle :: "subject_lifecycle \<Rightarrow> bool" where
  "wf_lifecycle l \<longleftrightarrow> sl_environment l \<in> {''TEST'', ''RESEARCH''} \<and> sl_status l \<in> set lifecycle_states
     \<and> \<not> blank (sl_subject_id l) \<and> \<not> blank (sl_owner_principal_id l) \<and> \<not> blank (sl_reason l)
     \<and> length (sl_subject_id l) \<le> 4096 \<and> length (sl_owner_principal_id l) \<le> 4096 \<and> length (sl_reason l) \<le> 4096"

lemma subject_lifecycle_init_wf:
  "subject_lifecycle_init a b c d e f g = Inr l \<Longrightarrow> wf_lifecycle l"
  unfolding subject_lifecycle_init_def
  by (elim rbindE)
    (auto simp: wf_lifecycle_def validator_defs in_strings_def split: pyval.splits if_splits)

lemma subject_lifecycle_from_dict_wf: "subject_lifecycle_from_dict v = Inr l \<Longrightarrow> wf_lifecycle l"
  by (auto simp: subject_lifecycle_from_dict_def intro: subject_lifecycle_init_wf
      split: pyval.splits if_splits)

lemma subject_lifecycle_roundtrip:
  "wf_lifecycle l \<Longrightarrow> subject_lifecycle_from_dict (subject_lifecycle_to_dict l) = Inr l"
  by (auto simp: wf_lifecycle_def subject_lifecycle_from_dict_def subject_lifecycle_to_dict_def
      subject_lifecycle_keys_def subject_lifecycle_init_def mind_text_def in_strings_def
      lifecycle_states_def)

lemma lifecycle_status_cases: "lifecycle_status v = Inr s \<Longrightarrow> s \<in> set lifecycle_states"
  by (auto simp: lifecycle_status_def rbind_eq_Inr lifecycle_states_def split: if_splits
      dest!: subject_lifecycle_from_dict_wf) (auto simp: wf_lifecycle_def lifecycle_states_def)

section \<open>Policy and commands\<close>

record lifecycle_policy =
  lp_archive_configured :: bool
  lp_delete_retention_seconds :: "int option"
  lp_allow_test_logical_delete :: bool

definition lifecycle_policy_init :: "pyval \<Rightarrow> pyval \<Rightarrow> pyval \<Rightarrow> lifecycle_policy res" where
  "lifecycle_policy_init archive retention logical_delete = (case (archive, logical_delete) of
       (PBool a, PBool l) \<Rightarrow> (case retention of
           PNone \<Rightarrow> Inr \<lparr>lp_archive_configured = a, lp_delete_retention_seconds = None,
             lp_allow_test_logical_delete = l\<rparr>
         | PInt n \<Rightarrow> if n < 0 then Inl (LifecycleError, ''SUBJECT_POLICY_INVALID'')
             else Inr \<lparr>lp_archive_configured = a, lp_delete_retention_seconds = Some n,
               lp_allow_test_logical_delete = l\<rparr>
         | _ \<Rightarrow> Inl (LifecycleError, ''SUBJECT_POLICY_INVALID''))
     | _ \<Rightarrow> Inl (LifecycleError, ''SUBJECT_POLICY_INVALID''))"

record lifecycle_command =
  lc_command_id :: string
  lc_subject_id :: string
  lc_environment :: string
  lc_expected_revision :: int
  lc_requested_at :: instant
  lc_reason :: string
  lc_operation :: string
  lc_initiator :: string

definition allowed_operations :: "string \<Rightarrow> string list" where
  "allowed_operations initiator = (case map_of
       [(''OWNER'', [''CREATE'', ''ACTIVATE'', ''SUSPEND'', ''RESUME'', ''ARCHIVE'', ''DELETE'']),
        (''SUBJECT'', [''SUSPEND_INTENT'', ''ARCHIVE_INTENT''])] initiator of
       None \<Rightarrow> [] | Some xs \<Rightarrow> xs)"

definition lifecycle_command_init ::
  "pyval \<Rightarrow> pyval \<Rightarrow> pyval \<Rightarrow> pyval \<Rightarrow> pyval \<Rightarrow> pyval \<Rightarrow> pyval \<Rightarrow> pyval \<Rightarrow> lifecycle_command res" where
  "lifecycle_command_init command_id subject environment revision requested_at reason operation initiator =
     rbind (mind_text command_id) (\<lambda>command_id.
     rbind (mind_text subject) (\<lambda>subject.
     rbind (mind_text reason) (\<lambda>reason.
     rbind (mind_utc requested_at) (\<lambda>requested_at.
     rbind (in_strings environment [''TEST'', ''RESEARCH'']) (\<lambda>env_ok.
     rbind (ensure env_ok (LifecycleError, ''SUBJECT_ENVIRONMENT_INVALID'')) (\<lambda>_.
     rbind (ensure (plain_nat revision) (LifecycleError, ''SUBJECT_REVISION_INVALID'')) (\<lambda>_.
     rbind (in_strings initiator [''OWNER'', ''SUBJECT'']) (\<lambda>known.
     rbind (in_strings operation (case initiator of PStr i \<Rightarrow> allowed_operations i | _ \<Rightarrow> [])) (\<lambda>ok.
     case (environment, revision, operation, initiator) of
       (PStr e, PInt r, PStr oper, PStr i) \<Rightarrow> if ok
         then Inr \<lparr>lc_command_id = command_id, lc_subject_id = subject, lc_environment = e,
           lc_expected_revision = r, lc_requested_at = requested_at, lc_reason = reason,
           lc_operation = oper, lc_initiator = i\<rparr>
         else Inl (LifecycleError, ''SUBJECT_INITIATOR_OPERATION_INVALID'')
     | _ \<Rightarrow> Inl (LifecycleError, ''SUBJECT_INITIATOR_OPERATION_INVALID''))))))))))"

definition lifecycle_command_to_dict :: "lifecycle_command \<Rightarrow> pyval" where
  "lifecycle_command_to_dict c = PDict [(''command_id'', PStr (lc_command_id c)),
     (''subject_id'', PStr (lc_subject_id c)), (''environment'', PStr (lc_environment c)),
     (''expected_revision'', PInt (lc_expected_revision c)),
     (''requested_at'', PStr (format_z (lc_requested_at c))), (''reason'', PStr (lc_reason c)),
     (''operation'', PStr (lc_operation c)), (''initiator'', PStr (lc_initiator c))]"

definition lifecycle_command_from_dict :: "pyval \<Rightarrow> lifecycle_command res" where
  "lifecycle_command_from_dict v = (case v of
       PDict d \<Rightarrow> if set (map fst d) \<noteq> {''command_id'', ''subject_id'', ''environment'',
           ''expected_revision'', ''requested_at'', ''reason'', ''operation'', ''initiator''}
         then Inl (LifecycleError, ''SUBJECT_COMMAND_SHAPE_INVALID'')
         else lifecycle_command_init (dict_get d ''command_id'') (dict_get d ''subject_id'')
           (dict_get d ''environment'') (dict_get d ''expected_revision'') (dict_get d ''requested_at'')
           (dict_get d ''reason'') (dict_get d ''operation'') (dict_get d ''initiator'')
     | _ \<Rightarrow> Inl (LifecycleError, ''SUBJECT_COMMAND_SHAPE_INVALID''))"

end
