(* ===== verification/Runtime_Service.thy ===== *)
theory Runtime_Service
  imports Runtime_Checkpoint Subject_Lifecycle
begin

text \<open>
  services/persistent_runtime_service.py: the persistent host that gives a subject one scheduler
  tick at a time, and the owner's control over it. A host shares its checkpoint file with other
  processes: each access to the file is one atomic step, and before it the commands that other
  processes sent in the meantime (\<open>ho_foreign\<close>) take effect. \<open>host_ports\<close> is everything the host
  asks of its surroundings; every port is given the number of the call, so that its answers may
  change from one call to the next.
\<close>

section \<open>Owner commands\<close>

text \<open>
  One call of \<open>control\<close> with the two answers of the identity port (before and inside the
  transaction), the subject's lifecycle value, and what the path checks, the lock and the disk
  raise.
\<close>

record control_call =
  cc_operation :: string
  cc_command_id :: string
  cc_expected_revision :: pyval
  cc_identity :: "runtime_principal option res"
  cc_identity_locked :: "runtime_principal option res"
  cc_subject :: "pyval res"
  cc_access :: "exn option"
  cc_failure :: "exn option"

definition principal_of ::
  "runtime_binding \<Rightarrow> string \<Rightarrow> runtime_principal option res \<Rightarrow> runtime_principal res" where
  "principal_of b operation answer = (case answer of
       Inl _ \<Rightarrow> Inl (boundary ''RUNTIME_CONTROL_IDENTITY_UNAVAILABLE'')
     | Inr None \<Rightarrow> Inl (boundary ''RUNTIME_CONTROL_DENIED'')
     | Inr (Some p) \<Rightarrow>
         if pr_subject_id p \<noteq> rb_subject_id b \<or> pr_environment p \<noteq> rb_environment b
            \<or> operation \<notin> pr_operations p
         then Inl (boundary ''RUNTIME_CONTROL_DENIED'') else Inr p)"

fun control_state :: "host_operation \<Rightarrow> host_state" where
  "control_state Op_PAUSE = Host_PAUSED"
| "control_state Op_RESUME = Host_RESUME"
| "control_state Op_STOP = Host_STOP"

fun control_activity :: "host_operation \<Rightarrow> host_activity" where
  "control_activity Op_PAUSE = Act_PAUSED"
| "control_activity Op_RESUME = Act_IDLE"
| "control_activity Op_STOP = Act_STOPPED"

definition control_update :: "host_operation \<Rightarrow> string \<Rightarrow> string \<Rightarrow> checkpoint \<Rightarrow> checkpoint" where
  "control_update oper ident key d = d\<lparr>ck_desired := desired_of oper, ck_state := control_state oper,
     ck_activity := control_activity oper, ck_reason := ''OWNER_'' @ host_operation_value oper,
     ck_next_check_at := None,
     ck_commands := ck_commands d @ [\<lparr>cm_id = ident, cm_hash = key, cm_operation = oper,
       cm_revision = ck_revision d + 1\<rparr>]\<rparr>"

text \<open>The part of \<open>control\<close> inside the transaction.\<close>

definition control_locked ::
  "runtime_binding \<Rightarrow> control_call \<Rightarrow> host_operation \<Rightarrow> runtime_principal \<Rightarrow> string \<Rightarrow> string
     \<Rightarrow> checkpoint option \<Rightarrow> (file_state, checkpoint) prog" where
  "control_locked b call oper who ident key found = (case found of
       None \<Rightarrow> slift (Inl (boundary ''RUNTIME_NOT_INITIALIZED''))
     | Some d \<Rightarrow>
       sbind (slift (principal_of b (cc_operation call) (cc_identity_locked call))) (\<lambda>current.
       if current \<noteq> who then slift (Inl (boundary ''RUNTIME_CONTROL_CHANGED''))
       else (case List.find (\<lambda>c. cm_id c = ident) (ck_commands d) of
         Some old \<Rightarrow> if cm_hash old \<noteq> key
           then slift (Inl (boundary ''RUNTIME_CONTROL_IDENTITY_CONFLICT'')) else sret d
       | None \<Rightarrow>
           if cc_expected_revision call \<noteq> PNone \<and> cc_expected_revision call \<noteq> PInt (ck_revision d)
           then slift (Inl (boundary ''RUNTIME_CONTROL_REVISION_CONFLICT''))
           else if ck_desired d = Want_STOPPED
           then if oper = Op_STOP then sret d
             else slift (Inl (boundary ''RUNTIME_STOP_IS_TERMINAL''))
           else sbind (slift (if oper = Op_RESUME
               then rbind (cc_subject call) (\<lambda>v. lifecycle_active v (Some (rb_environment b))) else Inr ())) (\<lambda>_.
             runtime_save b (cc_failure call) (control_update oper ident key d)))))"

definition control_file :: "runtime_binding \<Rightarrow> control_call \<Rightarrow> (file_state, checkpoint) prog" where
  "control_file b call =
     sbind (slift (require_enum (boundary ''RUNTIME_CONTROL_OPERATION'') host_operation_value
       host_operations (PStr (cc_operation call)))) (\<lambda>oper.
     sbind (slift (require_identifier (cc_command_id call))) (\<lambda>_.
     sbind (slift (principal_of b (cc_operation call) (cc_identity call))) (\<lambda>who.
     sbind (slift (rb_digest b (PStr (cc_command_id call)))) (\<lambda>ident.
     sbind (slift (rb_digest b (PList [PStr (cc_command_id call), PStr (cc_operation call),
       cc_expected_revision call, PStr (pr_principal_id who), PStr (rb_subject_id b),
       PStr (rb_environment b)]))) (\<lambda>key.
     runtime_transaction b (cc_access call) (control_locked b call oper who ident key))))))"

text \<open>Commands of other processes: their answers go to their callers.\<close>

definition foreign_controls :: "runtime_binding \<Rightarrow> control_call list \<Rightarrow> file_state \<Rightarrow> file_state" where
  "foreign_controls b calls f = fold (\<lambda>call f. fst (control_file b call f)) calls f"

section \<open>The host and its surroundings\<close>

record host_config =
  hc_binding :: runtime_binding
  hc_policy :: runtime_policy
  hc_scheduler :: scheduler_config

text \<open>
  \<open>ho_subject\<close> is the lifecycle value of \<open>subject_states.load(...)\<close>, \<open>ho_hook\<close> the hook of \<open>guard\<close> (one that always returns when
  none is set), \<open>ho_owner_lock\<close> what locking the owner file raises.
\<close>

record host_ports =
  ho_foreign :: "nat \<Rightarrow> control_call list"
  ho_access :: "nat \<Rightarrow> exn option"
  ho_failure :: "nat \<Rightarrow> exn option"
  ho_owner_lock :: "nat \<Rightarrow> exn option"
  ho_uuid :: "nat \<Rightarrow> string"
  ho_clock :: "nat \<Rightarrow> pyval res"
  ho_subject :: "nat \<Rightarrow> pyval res"
  ho_hook :: "nat \<Rightarrow> string \<Rightarrow> unit res"
  ho_needs :: "nat \<Rightarrow> instant \<Rightarrow> runtime_need list res"
  ho_cycle_id :: pyval
  ho_scheduler :: "nat \<Rightarrow> scheduler_ports"
  ho_fault :: "nat \<Rightarrow> string \<Rightarrow> unit res"

text \<open>
  The checkpoint file, the scheduler's world, and the fields of the service: the attachment
  (\<open>self.owner\<close>, \<open>self.generation\<close>), \<open>_checkpoint_waiting\<close>, the event of the waiter, the lines
  on stderr, and the number of calls to the outside.
\<close>

record host_world =
  hw_file :: file_state
  hw_scheduler :: scheduler_world
  hw_owner :: "string option"
  hw_generation :: "int option"
  hw_waiting :: bool
  hw_interrupt :: bool
  hw_stderr :: "string list"
  hw_calls :: nat

text \<open>A step on the checkpoint file, with its call number.\<close>

definition host_file ::
  "host_config \<Rightarrow> host_ports \<Rightarrow> (nat \<Rightarrow> (file_state, 'a) prog) \<Rightarrow> (host_world, 'a) prog" where
  "host_file c p m w =
     (let n = hw_calls w;
          (f, r) = m n (foreign_controls (hc_binding c) (ho_foreign p n) (hw_file w))
      in (w\<lparr>hw_file := f, hw_calls := n + 1\<rparr>, r))"

text \<open>A question to the surroundings.\<close>

definition host_ask :: "(nat \<Rightarrow> 'a res) \<Rightarrow> (host_world, 'a) prog" where
  "host_ask f w = (w\<lparr>hw_calls := hw_calls w + 1\<rparr>, f (hw_calls w))"

text \<open>A call of the scheduler.\<close>

definition host_scheduler ::
  "host_ports \<Rightarrow> (scheduler_ports \<Rightarrow> (scheduler_world, 'a) prog) \<Rightarrow> (host_world, 'a) prog" where
  "host_scheduler p m w =
     (let n = hw_calls w; (s, r) = m (ho_scheduler p n) (hw_scheduler w)
      in (w\<lparr>hw_scheduler := s, hw_calls := n + 1\<rparr>, r))"

definition host_print :: "string \<Rightarrow> (host_world, unit) prog" where
  "host_print line = smodify (\<lambda>w. w\<lparr>hw_stderr := hw_stderr w @ [line]\<rparr>)"

definition host_load :: "host_config \<Rightarrow> host_ports \<Rightarrow> (host_world, checkpoint) prog" where
  "host_load c p = host_file c p (\<lambda>n. case ho_access p n of
       Some e \<Rightarrow> slift (Inl e) | None \<Rightarrow> sread (runtime_load (hc_binding c)))"

definition host_transaction ::
  "host_config \<Rightarrow> host_ports \<Rightarrow> (nat \<Rightarrow> checkpoint option \<Rightarrow> (file_state, 'a) prog) \<Rightarrow> (host_world, 'a) prog" where
  "host_transaction c p body =
     host_file c p (\<lambda>n. runtime_transaction (hc_binding c) (ho_access p n) (body n))"

text \<open>\<open>now < parse(text)\<close> for a time that may be missing.\<close>

definition time_before :: "instant \<Rightarrow> string option \<Rightarrow> bool res" where
  "time_before now t = (case t of None \<Rightarrow> Inr False
     | Some s \<Rightarrow> rbind (host_parse s) (\<lambda>u. Inr (now < u)))"

definition host_control :: "host_config \<Rightarrow> host_ports \<Rightarrow> control_call \<Rightarrow> (host_world, checkpoint) prog" where
  "host_control c p call =
     sbind (host_file c p (\<lambda>_. control_file (hc_binding c) call)) (\<lambda>d.
     sbind (smodify (\<lambda>w. w\<lparr>hw_interrupt := True\<rparr>)) (\<lambda>_. sret d))"

definition host_initialize :: "host_config \<Rightarrow> host_ports \<Rightarrow> (host_world, checkpoint) prog" where
  "host_initialize c p =
     host_file c p (\<lambda>n. runtime_initialize (hc_binding c) (ho_access p n) (ho_failure p n))"

section \<open>Attachment\<close>

definition interruption :: "interruption_reason \<Rightarrow> checkpoint \<Rightarrow> checkpoint" where
  "interruption reason d = (let rows = ck_interruptions d @
       [\<lparr>ri_generation = ck_generation d, ri_reason = reason, ri_last_trusted_time = ck_last_time d\<rparr>]
     in d\<lparr>ck_interruptions := drop (length rows - 64) rows\<rparr>)"

text \<open>The new owner; an empty owner string would count as none, as \<open>None\<close> does.\<close>

definition attach_update :: "string \<Rightarrow> checkpoint \<Rightarrow> checkpoint" where
  "attach_update uuid d =
     (let previous = (ck_owner d \<noteq> None \<and> ck_owner d \<noteq> Some []);
          d = (if previous then interruption Int_PRIOR_HOST_LOST d else d)
      in d\<lparr>ck_owner := Some (''owner:'' @ uuid), ck_generation := ck_generation d + 1,
        ck_state := (if previous then Host_RECOVER
          else if ck_desired d = Want_PAUSED then Host_PAUSED else Host_START),
        ck_reason := (if previous then ''PROCESS_INTERRUPTED_RECOVER'' else ''HOST_ATTACHED'')\<rparr>)"

definition attach_locked ::
  "runtime_binding \<Rightarrow> string \<Rightarrow> exn option \<Rightarrow> checkpoint option \<Rightarrow> (file_state, checkpoint) prog" where
  "attach_locked b uuid failure found = (case found of
       None \<Rightarrow> slift (Inl (boundary ''RUNTIME_NOT_INITIALIZED''))
     | Some d \<Rightarrow> if ck_desired d \<noteq> Want_STOPPED then runtime_save b failure (attach_update uuid d) else sret d)"

text \<open>\<open>running()\<close> up to its \<open>yield\<close>.\<close>

definition host_attach :: "host_config \<Rightarrow> host_ports \<Rightarrow> (host_world, unit) prog" where
  "host_attach c p =
     sbind sget (\<lambda>w.
     if hw_owner w \<noteq> None then slift (Inl (boundary ''RUNTIME_ALREADY_ATTACHED''))
     else sbind (host_ask (\<lambda>n. case ho_owner_lock p n of Some e \<Rightarrow> Inl e | None \<Rightarrow> Inr ())) (\<lambda>_.
       sbind (host_transaction c p (\<lambda>n. attach_locked (hc_binding c) (ho_uuid p n) (ho_failure p n))) (\<lambda>d.
       smodify (\<lambda>w. w\<lparr>hw_owner := ck_owner d, hw_generation := Some (ck_generation d)\<rparr>))))"

definition detach_update :: "bool \<Rightarrow> checkpoint \<Rightarrow> checkpoint" where
  "detach_update interrupted d = (if ck_desired d = Want_STOPPED then d\<lparr>ck_owner := None\<rparr>
     else interruption Int_HOST_DETACHED
       ((if interrupted then interruption Int_PROCESS_INTERRUPTED d else d)
         \<lparr>ck_state := Host_SUSPENDED, ck_reason := ''HOST_DETACHED''\<rparr>))"

definition detach_locked ::
  "runtime_binding \<Rightarrow> string option \<Rightarrow> int option \<Rightarrow> bool \<Rightarrow> exn option \<Rightarrow> checkpoint option
     \<Rightarrow> (file_state, unit) prog" where
  "detach_locked b owner generation interrupted failure found = (case found of
       None \<Rightarrow> sret ()
     | Some d \<Rightarrow> if ck_owner d = owner \<and> Some (ck_generation d) = generation
         then sbind (runtime_save b failure (detach_update interrupted d)) (\<lambda>_. sret ())
         else sret ())"

definition busy_class :: "exc_class \<Rightarrow> bool" where
  "busy_class k \<longleftrightarrow> k = RuntimeCheckpointBusy \<or> k = RuntimeCheckpointWriteDeferred"

text \<open>The \<open>finally\<close> of \<open>running()\<close>; \<open>interrupted\<close> when the body left by an exception.\<close>

definition host_detach :: "host_config \<Rightarrow> host_ports \<Rightarrow> bool \<Rightarrow> (host_world, unit) prog" where
  "host_detach c p interrupted =
     (let release = smodify (\<lambda>w. w\<lparr>hw_owner := None, hw_generation := None\<rparr>) in
      scatch
       (sbind sget (\<lambda>w.
        sbind (host_transaction c p (\<lambda>n. detach_locked (hc_binding c) (hw_owner w) (hw_generation w)
          interrupted (ho_failure p n))) (\<lambda>_.
        release)))
       (\<lambda>e. sbind
          (if busy_class (fst e) then host_print ''RUNTIME_EXIT_CHECKPOINT_BUSY''
           else if \<not> interrupted then sret () else host_print ''RUNTIME_EXIT_CHECKPOINT_UNAVAILABLE'') (\<lambda>_.
        sbind release (\<lambda>_.
        if busy_class (fst e) \<or> interrupted then sret () else slift (Inl e)))))"

section \<open>The guard\<close>

definition host_now :: "host_ports \<Rightarrow> (host_world, instant) prog" where
  "host_now p = host_ask (\<lambda>n. rbind (ho_clock p n) host_utc)"

definition guard :: "host_config \<Rightarrow> host_ports \<Rightarrow> string \<Rightarrow> (host_world, unit) prog" where
  "guard c p stage =
     sbind (host_ask (\<lambda>n. ho_hook p n stage)) (\<lambda>_.
     sbind (host_load c p) (\<lambda>d.
     sbind sget (\<lambda>w.
     if hw_owner w = None \<or> ck_owner d \<noteq> hw_owner w \<or> Some (ck_generation d) \<noteq> hw_generation w
     then slift (Inl (RuntimeDeferred, ''RUNTIME_STALE_OWNER''))
     else if ck_desired d \<noteq> Want_RUNNING
     then slift (Inl (RuntimeDeferred, ''RUNTIME_CONTROL_PAUSED_OR_STOPPED''))
     else sbind (host_now p) (\<lambda>now.
     sbind (slift (time_before now (ck_last_time d))) (\<lambda>regressed.
     if regressed then slift (Inl (RuntimeDeferred, ''RUNTIME_CLOCK_REGRESSION''))
     else host_ask (\<lambda>n. rbind (ho_subject p n) (\<lambda>v.
       lifecycle_active v (Some (rb_environment (hc_binding c))))))))))"

section \<open>Observations\<close>

record observation =
  ob_state :: host_state
  ob_activity :: host_activity
  ob_reason :: string
  ob_now :: "instant option"
  ob_last_task :: "string option"
  ob_delay :: "rat option"

text \<open>The defaults of \<open>_observe\<close>.\<close>

definition observed :: observation where
  "observed = \<lparr>ob_state = Host_RUNNING, ob_activity = Act_IDLE, ob_reason = ''IDLE'', ob_now = None,
     ob_last_task = None, ob_delay = None\<rparr>"

definition control_watermark :: "checkpoint \<Rightarrow> int" where
  "control_watermark d = (if ck_commands d = [] then 0 else cm_revision (last (ck_commands d)))"

text \<open>The times an observation at \<open>now\<close> sets.\<close>

definition observe_times :: "runtime_policy \<Rightarrow> observation \<Rightarrow> instant \<Rightarrow> checkpoint \<Rightarrow> checkpoint res" where
  "observe_times policy ob now d =
     rbind (time_before now (ck_last_time d)) (\<lambda>regressed.
     rbind (plus_delay now (case ob_delay ob of None \<Rightarrow> pol_idle_wait_seconds policy | Some s \<Rightarrow> s)) (\<lambda>check.
     Inr (d\<lparr>ck_last_time := (if regressed then ck_last_time d else Some (stamp now)),
       ck_next_check_at := Some (stamp check)\<rparr>)))"

definition observe_update :: "runtime_policy \<Rightarrow> observation \<Rightarrow> checkpoint \<Rightarrow> checkpoint res" where
  "observe_update policy ob d =
     (let paused = (ck_desired d = Want_PAUSED);
          d = d\<lparr>ck_state := (if paused then Host_PAUSED else ob_state ob),
            ck_activity := (if paused then Act_PAUSED else ob_activity ob),
            ck_reason := (if paused then ''OWNER_PAUSE'' else ob_reason ob)\<rparr>
      in rbind (case ob_now ob of None \<Rightarrow> Inr d | Some now \<Rightarrow> observe_times policy ob now d) (\<lambda>d.
        Inr (case ob_last_task ob of None \<Rightarrow> d | Some t \<Rightarrow> d\<lparr>ck_last_task := Some t\<rparr>)))"

definition observe_locked ::
  "host_config \<Rightarrow> string option \<Rightarrow> int option \<Rightarrow> int option \<Rightarrow> observation \<Rightarrow> exn option
     \<Rightarrow> checkpoint option \<Rightarrow> (file_state, bool) prog" where
  "observe_locked c owner generation control_revision ob failure found = (case found of
       None \<Rightarrow> slift (Inl (boundary ''RUNTIME_STALE_OWNER''))
     | Some d \<Rightarrow>
         if ck_owner d \<noteq> owner \<or> Some (ck_generation d) \<noteq> generation
         then slift (Inl (boundary ''RUNTIME_STALE_OWNER''))
         else if ck_desired d = Want_STOPPED then sret False
         else if control_revision \<noteq> None \<and> control_revision \<noteq> Some (control_watermark d) then sret True
         else sbind (slift (observe_update (hc_policy c) ob d)) (\<lambda>d'.
           if d' = d then sret True
           else sbind (runtime_save (hc_binding c) failure (d'\<lparr>ck_observations := ck_observations d + 1\<rparr>)) (\<lambda>_.
             sret True)))"

definition observe :: "host_config \<Rightarrow> host_ports \<Rightarrow> int \<Rightarrow> observation \<Rightarrow> (host_world, bool) prog" where
  "observe c p control_revision ob =
     sbind sget (\<lambda>w.
     host_transaction c p (\<lambda>n. observe_locked c (hw_owner w) (hw_generation w) (Some control_revision) ob
       (ho_failure p n)))"

section \<open>The tick\<close>

fun submit_needs ::
  "host_config \<Rightarrow> host_ports \<Rightarrow> runtime_need list \<Rightarrow> bool \<Rightarrow> (host_world, bool) prog" where
  "submit_needs c p [] pressure = sret pressure"
| "submit_needs c p (need # needs) pressure =
     sbind (slift (scheduler_task_create (PStr (rn_identity need)) (PStr (rb_subject_id (hc_binding c)))
       (PStr (rb_environment (hc_binding c))) (rn_priority need) (utc_val (rn_due_at need))
       (PStr (wake_reason_value Wake_INTERNAL)) (ho_cycle_id p) (utc_val (rn_due_at need)) PNone
       (PInt (pol_max_failures (hc_policy c))))) (\<lambda>task.
     sbind (host_scheduler p (\<lambda>sp. submit (hc_scheduler c) sp task)) (\<lambda>admission.
     submit_needs c p needs (pressure \<or> ar_status admission = BACKPRESSURE)))"

text \<open>What the tick records of the scheduler's result.\<close>

definition tick_observation ::
  "runtime_policy \<Rightarrow> bool \<Rightarrow> bool \<Rightarrow> scheduler_tick_status \<Rightarrow> observation" where
  "tick_observation policy jumped pressure status =
     (if status = Tick_RESOURCE_DEFERRED
      then observed\<lparr>ob_activity := Act_WAITING_RESOURCES, ob_reason := ''TASK_RESOURCES_UNAVAILABLE'',
        ob_delay := Some (pol_retry_seconds policy)\<rparr>
      else if status = Tick_VERIFICATION_PENDING
      then observed\<lparr>ob_activity := Act_WAITING_VERIFICATION, ob_reason := ''TASK_RESULT_UNCONFIRMED'',
        ob_delay := Some (pol_retry_seconds policy)\<rparr>
      else if status = Tick_RETRY_EXHAUSTED \<or> status = Tick_RETRY_SCHEDULED
      then observed\<lparr>ob_activity := Act_BACKOFF, ob_reason := ''TASK_RETRY_BOUND'',
        ob_delay := Some (pol_retry_seconds policy)\<rparr>
      else if pressure
      then observed\<lparr>ob_activity := Act_BACKOFF, ob_reason := ''QUEUE_BACKPRESSURE'',
        ob_delay := Some (pol_retry_seconds policy)\<rparr>
      else observed\<lparr>ob_reason := (if jumped then ''CLOCK_GAP_COALESCED'' else ''NO_CURRENT_NEED'')\<rparr>)"

text \<open>The body of the \<open>try\<close>: guard, needs, guard, one scheduler tick, observation.\<close>

definition tick_work ::
  "host_config \<Rightarrow> host_ports \<Rightarrow> int \<Rightarrow> instant \<Rightarrow> bool \<Rightarrow> (host_world, bool) prog" where
  "tick_work c p control_revision now jumped =
     sbind (guard c p ''before_needs'') (\<lambda>_.
     sbind (host_ask (\<lambda>n. ho_needs p n now)) (\<lambda>needs.
     if 2 < length needs then slift (Inl (boundary ''RUNTIME_NEEDS_BOUND_EXCEEDED''))
     else sbind (submit_needs c p needs False) (\<lambda>pressure.
     sbind (guard c p ''before_scheduler'') (\<lambda>_.
     sbind (host_scheduler p (\<lambda>sp. tick (hc_scheduler c) sp (rb_subject_id (hc_binding c))
       (rb_environment (hc_binding c)))) (\<lambda>result.
     if tr_status result = Tick_COMPLETED \<or> tr_status result = Tick_RECONCILED_COMPLETED
     then sbind (host_ask (\<lambda>n. ho_fault p n ''after_scheduler_completed'')) (\<lambda>_.
       case tr_task result of
         None \<Rightarrow> slift (Inl (AttributeError, ''object has no attribute task_id''))
       | Some task \<Rightarrow> observe c p control_revision (observed\<lparr>
           ob_activity := (if take 12 (st_task_id task) = ''maintenance:'' then Act_MAINTENANCE else Act_COGNITION),
           ob_reason := ''TASK_COMPLETED'', ob_now := Some now, ob_last_task := Some (st_task_id task),
           ob_delay := Some (pol_minimum_spacing_seconds (hc_policy c))\<rparr>))
     else observe c p control_revision
       ((tick_observation (hc_policy c) jumped pressure (tr_status result))\<lparr>ob_now := Some now\<rparr>))))))"

text \<open>The \<open>except\<close> clauses of the tick.\<close>

definition tick_failed ::
  "host_config \<Rightarrow> host_ports \<Rightarrow> int \<Rightarrow> instant \<Rightarrow> exn \<Rightarrow> (host_world, bool) prog" where
  "tick_failed c p control_revision now e =
     (if busy_class (fst e) then slift (Inl e)
      else observe c p control_revision (observed\<lparr>ob_activity := Act_BACKOFF,
        ob_reason := (if fst e = RuntimeDeferred then ''CURRENT_ADMISSION_DEFERRED'' else ''WORK_PORT_UNAVAILABLE''),
        ob_now := Some now, ob_delay := Some (pol_retry_seconds (hc_policy c))\<rparr>))"

text \<open>\<open>_tick\<close> once the clock was read.\<close>

definition tick_at ::
  "host_config \<Rightarrow> host_ports \<Rightarrow> checkpoint \<Rightarrow> instant \<Rightarrow> (host_world, bool) prog" where
  "tick_at c p d now =
     sbind (slift (time_before now (ck_last_time d))) (\<lambda>regressed.
     if regressed then observe c p (control_watermark d) (observed\<lparr>ob_state := Host_SUSPENDED,
       ob_activity := Act_CLOCK_WAIT, ob_reason := ''CLOCK_REGRESSION''\<rparr>)
     else sbind (slift (time_before now (ck_next_check_at d))) (\<lambda>early.
     if early then sret True
     else sbind (slift (case ck_last_time d of None \<Rightarrow> Inr False
       | Some s \<Rightarrow> rbind (host_parse s) (\<lambda>t.
           Inr (pol_clock_jump_seconds (hc_policy c) < seconds_between now t)))) (\<lambda>jumped.
     scatch (tick_work c p (control_watermark d) now jumped)
       (tick_failed c p (control_watermark d) now))))"

definition tick_loaded :: "host_config \<Rightarrow> host_ports \<Rightarrow> checkpoint \<Rightarrow> (host_world, bool) prog" where
  "tick_loaded c p d =
     sbind sget (\<lambda>w.
     if hw_owner w = None \<or> ck_owner d \<noteq> hw_owner w \<or> Some (ck_generation d) \<noteq> hw_generation w
     then slift (Inl (boundary ''RUNTIME_STALE_OWNER''))
     else if ck_desired d = Want_PAUSED
     then observe c p (control_watermark d) (observed\<lparr>ob_state := Host_PAUSED,
       ob_activity := Act_PAUSED, ob_reason := ''OWNER_PAUSE''\<rparr>)
     else sbind (host_ask (\<lambda>n. rbind (ho_subject p n) lifecycle_status)) (\<lambda>lifecycle.
     if lifecycle \<noteq> ''ACTIVE''
     then observe c p (control_watermark d) (observed\<lparr>
       ob_state := (if lifecycle \<in> {''ARCHIVED'', ''DELETED''} then Host_ARCHIVED else Host_SUSPENDED),
       ob_activity := Act_PAUSED, ob_reason := ''SUBJECT_'' @ lifecycle\<rparr>)
     else sbind (host_ask (\<lambda>n. Inr (rbind (ho_clock p n) host_utc))) (\<lambda>reading.
     case reading of
       Inl _ \<Rightarrow> observe c p (control_watermark d) (observed\<lparr>ob_state := Host_SUSPENDED,
         ob_activity := Act_CLOCK_WAIT, ob_reason := ''CLOCK_INVALID''\<rparr>)
     | Inr now \<Rightarrow> tick_at c p d now)))"

definition inner_tick :: "host_config \<Rightarrow> host_ports \<Rightarrow> (host_world, bool) prog" where
  "inner_tick c p = sbind (host_load c p) (\<lambda>d.
     if ck_desired d = Want_STOPPED then sret False else tick_loaded c p d)"

definition checkpoint_backoff :: "(host_world, unit) prog" where
  "checkpoint_backoff = sbind sget (\<lambda>w.
     sbind (if hw_waiting w then sret () else host_print ''RUNTIME_CHECKPOINT_BUSY'') (\<lambda>_.
     smodify (\<lambda>w. w\<lparr>hw_waiting := True\<rparr>)))"

definition host_tick :: "host_config \<Rightarrow> host_ports \<Rightarrow> (host_world, bool) prog" where
  "host_tick c p = scatch
     (sbind (inner_tick c p) (\<lambda>result.
      sbind sget (\<lambda>w.
      if hw_waiting w
      then sbind (host_print ''RUNTIME_CHECKPOINT_AVAILABLE'') (\<lambda>_.
        sbind (smodify (\<lambda>w. w\<lparr>hw_waiting := False\<rparr>)) (\<lambda>_. sret result))
      else sret result)))
     (\<lambda>e. if busy_class (fst e) then sbind checkpoint_backoff (\<lambda>_. sret True) else slift (Inl e))"

section \<open>Serving\<close>

text \<open>
  \<open>serve\<close> runs until the owner stops the host, so it has a fuel: the number of ticks of an
  attachment, and of attachments after a busy checkpoint, that are followed. The result tells
  whether it returned; \<open>waiter.wait\<close> ends with its event cleared.
\<close>

definition host_wait :: "(host_world, unit) prog" where
  "host_wait = smodify (\<lambda>w. w\<lparr>hw_interrupt := False\<rparr>)"

fun run_ticks :: "host_config \<Rightarrow> host_ports \<Rightarrow> nat \<Rightarrow> (host_world, bool) prog" where
  "run_ticks c p 0 = sret False"
| "run_ticks c p (Suc n) = sbind (host_tick c p) (\<lambda>alive.
     if alive then sbind host_wait (\<lambda>_. run_ticks c p n) else sret True)"

text \<open>\<open>with self.running(): while self.tick(): self.waiter.wait(...)\<close>.\<close>

definition host_session :: "host_config \<Rightarrow> host_ports \<Rightarrow> nat \<Rightarrow> (host_world, bool) prog" where
  "host_session c p n =
     sbind (host_attach c p) (\<lambda>_.
     sbind (scatch (run_ticks c p n) (\<lambda>e. sbind (host_detach c p True) (\<lambda>_. slift (Inl e)))) (\<lambda>stopped.
     if stopped then sbind (host_detach c p False) (\<lambda>_. sret True) else sret False))"

fun serve :: "host_config \<Rightarrow> host_ports \<Rightarrow> nat \<Rightarrow> (host_world, bool) prog" where
  "serve c p 0 = sret False"
| "serve c p (Suc n) = scatch (host_session c p n) (\<lambda>e.
     if busy_class (fst e)
     then sbind checkpoint_backoff (\<lambda>_. sbind host_wait (\<lambda>_. serve c p n))
     else slift (Inl e))"

end
