(* ===== verification/Runtime_Guarantees.thy ===== *)
theory Runtime_Guarantees
  imports Runtime_Service
begin

text \<open>
  What the host, its owner and the other processes guarantee each other about the checkpoint
  file: every access leaves it as it was or moves it to a later document (\<open>later\<close>), whose
  history of commands extends the one before and whose STOP is never undone. \<open>control_steps\<close> is
  the stronger guarantee of owner commands. \<open>host_steps\<close> are the runs of a host among other
  processes.
\<close>

section \<open>Documents\<close>

definition stored :: "runtime_binding \<Rightarrow> file_state \<Rightarrow> checkpoint \<Rightarrow> bool" where
  "stored b f d \<longleftrightarrow> (\<exists>h. rb_digest b (checkpoint_to_dict d) = Inr h \<and> f = File_Doc (checkpoint_envelope h d))"

text \<open>Valid but for the identity of the last task, which no writer checks.\<close>

definition valid_but_task :: "runtime_binding \<Rightarrow> checkpoint \<Rightarrow> bool" where
  "valid_but_task b d \<longleftrightarrow> checkpoint_valid b (d\<lparr>ck_last_task := None\<rparr>)"

lemma valid_but_task_iff: "checkpoint_valid b d \<longleftrightarrow> valid_but_task b d \<and> opt_identifier (ck_last_task d)"
  by (auto simp: valid_but_task_def checkpoint_valid_def opt_identifier_def)

lemma stored_load: "stored b f d \<Longrightarrow> checkpoint_valid b d \<Longrightarrow> runtime_load b f = Inr d"
  by (auto simp: stored_def runtime_load_def checkpoint_decode_envelope)

lemma load_stored_eq: "stored b f d \<Longrightarrow> runtime_load b f = Inr d' \<Longrightarrow> d' = d"
  by (auto simp: stored_def runtime_load_def checkpoint_decode_def checkpoint_envelope_def
      exact_dict_def split: if_splits)

lemma stored_load_iff: "stored b f d \<Longrightarrow> valid_but_task b d \<Longrightarrow>
    runtime_load b f = (if opt_identifier (ck_last_task d) then Inr d else Inl corrupt)"
  by (auto simp: stored_def runtime_load_def checkpoint_decode_def checkpoint_envelope_def
      exact_dict_def valid_but_task_iff)

definition readable :: "runtime_binding \<Rightarrow> file_state \<Rightarrow> bool" where
  "readable b f \<longleftrightarrow> f = File_Absent \<or> (\<exists>d. runtime_load b f = Inr d)
     \<or> (\<exists>d. stored b f d \<and> valid_but_task b d \<and> \<not> opt_identifier (ck_last_task d))"

definition extends :: "checkpoint \<Rightarrow> checkpoint \<Rightarrow> bool" where
  "extends d d' \<longleftrightarrow> ck_revision d \<le> ck_revision d' \<and> ck_generation d \<le> ck_generation d'
     \<and> (\<exists>cs. ck_commands d' = ck_commands d @ cs \<and> (\<forall>c \<in> set cs. ck_revision d < cm_revision c))
     \<and> (ck_desired d = Want_STOPPED \<longrightarrow> ck_desired d' = Want_STOPPED
         \<and> ck_commands d' = ck_commands d \<and> ck_last_task d' = ck_last_task d)"

lemma extends_refl [simp]: "extends d d"
  by (simp add: extends_def)

lemma extends_trans: "extends d d' \<Longrightarrow> extends d' d'' \<Longrightarrow> extends d d''"
  by (fastforce simp: extends_def)

definition later :: "runtime_binding \<Rightarrow> file_state \<Rightarrow> file_state \<Rightarrow> bool" where
  "later b f f' \<longleftrightarrow> f' = f \<or> (\<exists>d'. stored b f' d' \<and> valid_but_task b d' \<and>
     (f = File_Absent \<or> (\<exists>d. runtime_load b f = Inr d \<and> extends d d' \<and> ck_revision d < ck_revision d')))"

lemma later_refl [simp]: "later b f f"
  by (simp add: later_def)

lemma stored_not_absent: "stored b f d \<Longrightarrow> f \<noteq> File_Absent"
  by (auto simp: stored_def)

lemma later_trans:
  assumes "later b f f'" "later b f' f''"
  shows "later b f f''"
proof (cases "f'' = f' \<or> f' = f")
  case False
  then obtain d' d'' e where d: "stored b f' d'" "stored b f'' d''" "valid_but_task b d''"
      "runtime_load b f' = Inr e" "extends e d''" "ck_revision e < ck_revision d''"
      "f = File_Absent \<or> (\<exists>d. runtime_load b f = Inr d \<and> extends d d' \<and> ck_revision d < ck_revision d')"
    using assms by (auto simp: later_def dest: stored_not_absent)
  from d(5-7) load_stored_eq [OF d(1,4)]
  have "f = File_Absent \<or> (\<exists>d. runtime_load b f = Inr d \<and> extends d d'' \<and> ck_revision d < ck_revision d'')"
    by (meson extends_trans less_trans)
  with d(2,3) show ?thesis unfolding later_def by blast
qed (use assms in auto)

lemma later_readable: "later b f f' \<Longrightarrow> readable b f \<Longrightarrow> readable b f'"
  using stored_load_iff by (fastforce simp: later_def readable_def)

lemma later_load:
  assumes "later b f f'" "runtime_load b f = Inr d"
  obtains d' where "extends d d'" "f' = f \<and> d' = d \<or> stored b f' d' \<and> valid_but_task b d'"
    "runtime_load b f' = (if opt_identifier (ck_last_task d') then Inr d' else Inl corrupt)"
proof (cases "f' = f")
  case True
  then show thesis using assms(2) runtime_load_valid [OF assms(2)] that [of d]
    by (simp add: valid_but_task_iff)
next
  case False
  moreover have "f \<noteq> File_Absent" using assms(2) by (auto simp: runtime_load_def)
  ultimately show thesis using assms stored_load_iff that by (fastforce simp: later_def)
qed

section \<open>Saves\<close>

text \<open>\<open>keeps_file R m f\<close>: \<open>m\<close> on the file \<open>f\<close> leads to an \<open>R\<close>-later one.\<close>

definition keeps_file :: "(file_state \<Rightarrow> file_state \<Rightarrow> bool) \<Rightarrow> (file_state, 'a) prog \<Rightarrow> file_state \<Rightarrow> bool" where
  "keeps_file R m f \<longleftrightarrow> R f (fst (m f))"

lemma save_run:
  assumes "runtime_save b failure d f = (f', r)"
  shows "(\<exists>d'. r = Inr d' \<and> d' = d\<lparr>ck_revision := ck_revision d + 1\<rparr> \<and> stored b f' d'
      \<and> (f = File_Absent \<or> (\<exists>c. runtime_load b f = Inr c \<and> ck_revision c = ck_revision d)))
    \<or> (\<exists>e. r = Inl e) \<and> f' = f"
proof (cases r)
  case (Inr d')
  with assms show ?thesis by (auto simp: runtime_save_Inr stored_def)
next
  case (Inl e)
  have "f' = f"
    using assms Inl by (auto simp: runtime_save_def sbind_def slift_def sread_def smodify_def sret_def Let_def
        split: prod.splits sum.splits option.splits)
  with Inl show ?thesis by blast
qed

lemma save_later:
  assumes "runtime_load b f = Inr d0" "extends d0 (d\<lparr>ck_revision := ck_revision d0 + 1\<rparr>)"
    "ck_revision d = ck_revision d0" "valid_but_task b (d\<lparr>ck_revision := ck_revision d0 + 1\<rparr>)"
  shows "keeps_file (later b) (runtime_save b failure d) f"
proof -
  obtain f' r where r: "runtime_save b failure d f = (f', r)" by fastforce
  then show ?thesis using save_run [OF r] assms by (fastforce simp: later_def keeps_file_def)
qed

section \<open>The updates\<close>

lemma reason_ok_values [simp]:
  "reason_ok ''OWNER_PAUSE''" "reason_ok ''HOST_ATTACHED''" "reason_ok ''PROCESS_INTERRUPTED_RECOVER''"
  "reason_ok ''HOST_DETACHED''" "reason_ok ''OWNER_RESUME''" "reason_ok ''OWNER_STOP''"
  by (simp_all add: reason_ok_def)

lemma time_ok_simps [simp]: "time_ok None" "time_ok (Some (stamp t))"
  by (simp_all add: time_ok_def)

lemma commands_valid_mono: "commands_valid r seen p cs \<Longrightarrow> r \<le> r' \<Longrightarrow> commands_valid r' seen p cs"
  by (induction r seen p cs rule: commands_valid.induct) (auto simp: command_valid_def)

lemma commands_valid_snoc:
  "commands_valid r seen p (cs @ [c]) \<longleftrightarrow> commands_valid r seen p cs \<and>
     cm_id c \<notin> set seen \<union> cm_id ` set cs \<and> command_valid r c \<and>
     (if cs = [] then p else cm_revision (last cs)) < cm_revision c"
  by (induction r seen p cs rule: commands_valid.induct) auto

lemma commands_valid_bound:
  "commands_valid r seen p cs \<Longrightarrow> c \<in> set cs \<Longrightarrow> p < cm_revision c \<and> cm_revision c \<le> r"
  by (induction r seen p cs rule: commands_valid.induct) (auto simp: command_valid_def)

lemma control_update_valid:
  assumes "checkpoint_valid b d" "hex_digest (rb_sha b)" "rb_digest b u = Inr ident" "rb_digest b v = Inr key"
    "ck_desired d \<noteq> Want_STOPPED" "ident \<notin> cm_id ` set (ck_commands d)"
  shows "checkpoint_valid b ((control_update oper ident key d)\<lparr>ck_revision := ck_revision d + 1\<rparr>)"
proof -
  let ?c = "\<lparr>cm_id = ident, cm_hash = key, cm_operation = oper, cm_revision = ck_revision d + 1\<rparr>"
  have r: "0 \<le> ck_revision d" "commands_valid (ck_revision d) [] 0 (ck_commands d)"
    using assms(1) by (auto simp: checkpoint_valid_def)
  have "take 7 key = ''sha256:''"
    using value_digest_shape(1) [OF assms(2,4)] by (simp add: digest_shape_def)
  then have "command_valid (ck_revision d + 1) ?c"
    using value_digest_shape [OF assms(2,3)] r(1) by (simp add: command_valid_def)
  moreover have "cm_revision (last (ck_commands d)) < ck_revision d + 1" if "ck_commands d \<noteq> []"
    using commands_valid_bound [OF r(2), of "last (ck_commands d)"] that by simp
  ultimately have "commands_valid (ck_revision d + 1) [] 0 (ck_commands d @ [?c])"
    using commands_valid_mono [OF r(2), of "ck_revision d + 1"] assms(6) r(1)
    by (simp add: commands_valid_snoc)
  moreover have "list_all (\<lambda>c. cm_operation c \<noteq> Op_STOP) (ck_commands d)"
  proof (cases "ck_commands d" rule: rev_cases)
    case (snoc cs c)
    then show ?thesis using assms(1,5) by (auto simp: checkpoint_valid_def)
  qed simp
  ultimately show ?thesis
    using assms(1) by (cases oper) (auto simp: checkpoint_valid_def control_update_def)
qed

lemma interruption_fields [simp]:
  "ck_subject_id (interruption r d) = ck_subject_id d" "ck_environment (interruption r d) = ck_environment d"
  "ck_root_hash (interruption r d) = ck_root_hash d" "ck_revision (interruption r d) = ck_revision d"
  "ck_desired (interruption r d) = ck_desired d" "ck_state (interruption r d) = ck_state d"
  "ck_generation (interruption r d) = ck_generation d" "ck_owner (interruption r d) = ck_owner d"
  "ck_last_time (interruption r d) = ck_last_time d" "ck_next_check_at (interruption r d) = ck_next_check_at d"
  "ck_last_task (interruption r d) = ck_last_task d" "ck_reason (interruption r d) = ck_reason d"
  "ck_commands (interruption r d) = ck_commands d" "ck_observations (interruption r d) = ck_observations d"
  "ck_activity (interruption r d) = ck_activity d"
  by (simp_all add: interruption_def Let_def)

lemma interruption_rows:
  assumes "list_all (interruption_valid (ck_generation d)) (ck_interruptions d)" "0 \<le> ck_generation d"
    "time_ok (ck_last_time d)"
  shows "length (ck_interruptions (interruption r d)) \<le> 64 \<and>
    list_all (interruption_valid (ck_generation d)) (ck_interruptions (interruption r d))"
  using assms by (auto simp: interruption_def Let_def list_all_iff interruption_valid_def dest: in_set_dropD)

lemma interruption_valid_mono: "interruption_valid g r \<Longrightarrow> g \<le> g' \<Longrightarrow> interruption_valid g' r"
  by (simp add: interruption_valid_def)

lemma valid_fields:
  assumes "checkpoint_valid b d"
  shows "list_all (interruption_valid (ck_generation d)) (ck_interruptions d)" "0 \<le> ck_generation d"
    "time_ok (ck_last_time d)" "time_ok (ck_next_check_at d)" "0 \<le> ck_revision d" "0 \<le> ck_observations d"
    "commands_valid (ck_revision d) [] 0 (ck_commands d)" "length (ck_interruptions d) \<le> 64"
  using assms by (simp_all add: checkpoint_valid_def)

lemma attach_update_valid:
  assumes v: "checkpoint_valid b d" and "ck_desired d \<noteq> Want_STOPPED" "is_identifier (''owner:'' @ uuid)"
  shows "checkpoint_valid b ((attach_update uuid d)\<lparr>ck_revision := ck_revision d + 1\<rparr>)"
proof -
  note f = valid_fields [OF v]
  have "list_all (interruption_valid (ck_generation d + 1)) rows" if "list_all (interruption_valid (ck_generation d)) rows" for rows
    using that by (rule list.pred_mono_strong) (auto intro: interruption_valid_mono)
  moreover have "commands_valid (ck_revision d + 1) [] 0 (ck_commands d)"
    using commands_valid_mono [OF f(7)] by simp
  ultimately show ?thesis
    using interruption_rows [OF f(1-3), of Int_PRIOR_HOST_LOST] f assms
    by (auto simp: attach_update_def checkpoint_valid_def Let_def opt_identifier_def)
qed

lemma detach_update_valid:
  assumes v: "checkpoint_valid b d"
  shows "checkpoint_valid b ((detach_update interrupted d)\<lparr>ck_revision := ck_revision d + 1\<rparr>)"
proof -
  note f = valid_fields [OF v]
  have c: "commands_valid (ck_revision d + 1) [] 0 (ck_commands d)"
    using commands_valid_mono [OF f(7)] by simp
  let ?x = "(if interrupted then interruption Int_PROCESS_INTERRUPTED d else d)
    \<lparr>ck_state := Host_SUSPENDED, ck_reason := ''HOST_DETACHED''\<rparr>"
  have "list_all (interruption_valid (ck_generation ?x)) (ck_interruptions ?x)"
    using interruption_rows [OF f(1-3), of Int_PROCESS_INTERRUPTED] f by simp
  then have "length (ck_interruptions (interruption Int_HOST_DETACHED ?x)) \<le> 64 \<and>
      list_all (interruption_valid (ck_generation d)) (ck_interruptions (interruption Int_HOST_DETACHED ?x))"
    using interruption_rows [of ?x Int_HOST_DETACHED] f by (cases interrupted) simp_all
  then show ?thesis
    using c f v by (cases "ck_desired d = Want_STOPPED")
      (auto simp: detach_update_def checkpoint_valid_def opt_identifier_def)
qed

lemma observe_times_fields:
  assumes "observe_times policy ob now d = Inr d'"
  shows "ck_commands d' = ck_commands d" "ck_desired d' = ck_desired d" "ck_generation d' = ck_generation d"
    "ck_owner d' = ck_owner d" "ck_revision d' = ck_revision d" "ck_interruptions d' = ck_interruptions d"
    "ck_observations d' = ck_observations d" "ck_root_hash d' = ck_root_hash d" "ck_subject_id d' = ck_subject_id d"
    "ck_environment d' = ck_environment d" "ck_reason d' = ck_reason d" "ck_state d' = ck_state d" "ck_activity d' = ck_activity d"
    "ck_last_task d' = ck_last_task d" "ck_last_time d' = ck_last_time d \<or> ck_last_time d' = Some (stamp now)"
    "\<exists>t. ck_next_check_at d' = Some (stamp t)"
  using assms by (auto simp: observe_times_def rbind_eq_Inr)

lemma observe_update_fields:
  assumes "observe_update policy ob d = Inr d'"
  shows "ck_commands d' = ck_commands d" "ck_desired d' = ck_desired d" "ck_generation d' = ck_generation d"
    "ck_owner d' = ck_owner d" "ck_revision d' = ck_revision d" "ck_interruptions d' = ck_interruptions d"
    "ck_observations d' = ck_observations d" "ck_root_hash d' = ck_root_hash d" "ck_subject_id d' = ck_subject_id d"
    "ck_environment d' = ck_environment d" "ck_reason d' = (if ck_desired d = Want_PAUSED then ''OWNER_PAUSE'' else ob_reason ob)"
    "ck_state d' = (if ck_desired d = Want_PAUSED then Host_PAUSED else ob_state ob)"
    "ck_activity d' = (if ck_desired d = Want_PAUSED then Act_PAUSED else ob_activity ob)"
    "ck_last_time d' = ck_last_time d \<or> (\<exists>now. ob_now ob = Some now \<and> ck_last_time d' = Some (stamp now))"
    "ck_next_check_at d' = ck_next_check_at d \<or> (\<exists>t. ck_next_check_at d' = Some (stamp t))"
proof -
  define e where "e = d\<lparr>ck_state := (if ck_desired d = Want_PAUSED then Host_PAUSED else ob_state ob),
    ck_activity := (if ck_desired d = Want_PAUSED then Act_PAUSED else ob_activity ob),
    ck_reason := (if ck_desired d = Want_PAUSED then ''OWNER_PAUSE'' else ob_reason ob)\<rparr>"
  have e: "ck_commands e = ck_commands d" "ck_desired e = ck_desired d" "ck_generation e = ck_generation d"
    "ck_owner e = ck_owner d" "ck_revision e = ck_revision d" "ck_interruptions e = ck_interruptions d"
    "ck_observations e = ck_observations d" "ck_root_hash e = ck_root_hash d" "ck_subject_id e = ck_subject_id d"
    "ck_environment e = ck_environment d" "ck_reason e = (if ck_desired d = Want_PAUSED then ''OWNER_PAUSE'' else ob_reason ob)"
    "ck_state e = (if ck_desired d = Want_PAUSED then Host_PAUSED else ob_state ob)"
    "ck_activity e = (if ck_desired d = Want_PAUSED then Act_PAUSED else ob_activity ob)"
    "ck_last_time e = ck_last_time d" "ck_next_check_at e = ck_next_check_at d"
    by (simp_all add: e_def)
  obtain f where f: "d' = f \<or> (\<exists>k. d' = f\<lparr>ck_last_task := k\<rparr>)"
      "f = e \<or> (\<exists>now. ob_now ob = Some now \<and> observe_times policy ob now e = Inr f)"
    using assms unfolding observe_update_def Let_def e_def [symmetric] rbind_eq_Inr
    by (auto split: option.splits)
  show "ck_commands d' = ck_commands d" "ck_desired d' = ck_desired d" "ck_generation d' = ck_generation d"
    "ck_owner d' = ck_owner d" "ck_revision d' = ck_revision d" "ck_interruptions d' = ck_interruptions d"
    "ck_observations d' = ck_observations d" "ck_root_hash d' = ck_root_hash d" "ck_subject_id d' = ck_subject_id d"
    "ck_environment d' = ck_environment d" "ck_reason d' = (if ck_desired d = Want_PAUSED then ''OWNER_PAUSE'' else ob_reason ob)"
    "ck_state d' = (if ck_desired d = Want_PAUSED then Host_PAUSED else ob_state ob)"
    "ck_activity d' = (if ck_desired d = Want_PAUSED then Act_PAUSED else ob_activity ob)"
    "ck_last_time d' = ck_last_time d \<or> (\<exists>now. ob_now ob = Some now \<and> ck_last_time d' = Some (stamp now))"
    using f by (auto simp: e dest: observe_times_fields)
  show "ck_next_check_at d' = ck_next_check_at d \<or> (\<exists>t. ck_next_check_at d' = Some (stamp t))"
    using f observe_times_fields(16) by (auto simp: e)
qed

lemma observe_update_valid:
  assumes v: "checkpoint_valid b d" and o: "observe_update policy ob d = Inr d'"
    and "ck_desired d \<noteq> Want_STOPPED" "reason_ok (ob_reason ob)"
  shows "valid_but_task b (d'\<lparr>ck_observations := ck_observations d + 1, ck_revision := ck_revision d + 1\<rparr>)"
proof -
  have "commands_valid (ck_revision d + 1) [] 0 (ck_commands d)"
    using commands_valid_mono [OF valid_fields(7) [OF v]] by simp
  moreover have "time_ok (ck_last_time d')" "time_ok (ck_next_check_at d')" "reason_ok (ck_reason d')"
    using observe_update_fields(11,14,15) [OF o] valid_fields(3,4) [OF v] assms(4) by auto
  ultimately show ?thesis
    using v observe_update_fields(1-10) [OF o] assms(3)
    by (auto simp: checkpoint_valid_def valid_but_task_def opt_identifier_def)
qed

section \<open>Steps on the file\<close>

lemma transaction_keeps:
  assumes "R f f" "\<And>d. runtime_load b f = Inr d \<Longrightarrow> keeps_file R (body (Some d)) f"
    "f = File_Absent \<Longrightarrow> keeps_file R (body None) f"
  shows "keeps_file R (runtime_transaction b access body) f"
proof (cases access)
  case None
  show ?thesis
  proof (cases "runtime_current b f")
    case (Inr found)
    then have "runtime_transaction b access body f = body found f"
      using None by (simp add: runtime_transaction_def sbind_def sread_def)
    with Inr show ?thesis using assms
      by (cases found) (auto simp: keeps_file_def runtime_current_None runtime_current_Some)
  qed (use None assms(1) in \<open>simp add: runtime_transaction_def sbind_def sread_def keeps_file_def\<close>)
qed (use assms(1) in \<open>simp add: runtime_transaction_def prog_simps keeps_file_def\<close>)

lemma keeps_file_simps:
  "R f f \<Longrightarrow> keeps_file R (slift r) f" "R f f \<Longrightarrow> keeps_file R (sret x) f" "R f f \<Longrightarrow> keeps_file R (sread g) f"
  by (simp_all add: prog_simps sread_def keeps_file_def)

lemma keeps_file_lift:
  assumes "R f f" "\<And>x. r = Inr x \<Longrightarrow> keeps_file R (g x) f"
  shows "keeps_file R (sbind (slift r) g) f"
  using assms by (cases r) (auto simp: sbind_def prog_simps keeps_file_def)

lemma keeps_file_ret: "keeps_file R m f \<Longrightarrow> keeps_file R (sbind m (\<lambda>x. sret (g x))) f"
  by (auto simp: sbind_def prog_simps keeps_file_def split: prod.splits sum.splits)

lemmas keeps_file_rules = keeps_file_simps keeps_file_lift keeps_file_ret

text \<open>An accepted owner command.\<close>

definition control_effect :: "checkpoint \<Rightarrow> checkpoint \<Rightarrow> bool" where
  "control_effect d d' \<longleftrightarrow> ck_desired d \<noteq> Want_STOPPED \<and>
     (\<exists>oper ident key. d' = (control_update oper ident key d)\<lparr>ck_revision := ck_revision d + 1\<rparr>)"

definition control_step :: "runtime_binding \<Rightarrow> file_state \<Rightarrow> file_state \<Rightarrow> bool" where
  "control_step b f f' \<longleftrightarrow> f' = f \<or> (\<exists>d d'. runtime_load b f = Inr d \<and> control_effect d d' \<and>
     stored b f' d' \<and> checkpoint_valid b d')"

abbreviation control_steps :: "runtime_binding \<Rightarrow> file_state \<Rightarrow> file_state \<Rightarrow> bool" where
  "control_steps b \<equiv> (control_step b)\<^sup>*\<^sup>*"

lemma control_step_refl [simp]: "control_step b f f"
  by (simp add: control_step_def)

lemma control_locked_step:
  assumes d: "runtime_load b f = Inr d" and h: "hex_digest (rb_sha b)" "rb_digest b u = Inr ident" "rb_digest b v = Inr key"
  shows "keeps_file (control_step b) (control_locked b call oper who ident key (Some d)) f"
proof -
  let ?save = "runtime_save b (cc_failure call) (control_update oper ident key d)"
  have "keeps_file (control_step b) ?save f"
    if w: "ck_desired d \<noteq> Want_STOPPED" "List.find (\<lambda>c. cm_id c = ident) (ck_commands d) = None"
  proof -
    obtain f' r where r: "?save f = (f', r)" by fastforce
    have "ident \<notin> cm_id ` set (ck_commands d)" using w(2) by (auto simp: find_None_iff)
    with control_update_valid [OF runtime_load_valid [OF d] h w(1)]
    have "checkpoint_valid b ((control_update oper ident key d)\<lparr>ck_revision := ck_revision d + 1\<rparr>)" by blast
    moreover have "ck_revision (control_update oper ident key d) = ck_revision d"
      by (simp add: control_update_def)
    ultimately show ?thesis
      using save_run [OF r] r d w(1) by (auto simp: control_step_def control_effect_def keeps_file_def)
  qed
  then show ?thesis
    by (auto simp: control_locked_def intro!: keeps_file_simps keeps_file_lift split: option.split)
qed

lemma control_file_step:
  assumes "hex_digest (rb_sha b)"
  shows "control_step b f (fst (control_file b call f))"
proof -
  have "keeps_file (control_step b) (control_file b call) f"
    unfolding control_file_def
  proof (intro keeps_file_lift transaction_keeps control_step_refl)
    fix oper ident key d and who :: runtime_principal
    assume "rb_digest b (PStr (cc_command_id call)) = Inr ident" "runtime_load b f = Inr d"
      "rb_digest b (PList [PStr (cc_command_id call), PStr (cc_operation call), cc_expected_revision call,
        PStr (pr_principal_id who), PStr (rb_subject_id b), PStr (rb_environment b)]) = Inr key"
    then show "keeps_file (control_step b) (control_locked b call oper who ident key (Some d)) f"
      using control_locked_step [OF _ assms] by blast
  qed (simp add: control_locked_def keeps_file_simps)
  then show ?thesis by (simp add: keeps_file_def)
qed

lemma foreign_controls_steps:
  "hex_digest (rb_sha b) \<Longrightarrow> control_steps b f (foreign_controls b calls f)"
proof (induction calls arbitrary: f)
  case (Cons call calls)
  from control_file_step [OF Cons.prems] Cons.IH [OF Cons.prems] show ?case
    by (simp add: foreign_controls_def) (rule converse_rtranclp_into_rtranclp)
qed (simp add: foreign_controls_def)

text \<open>What a document looks like after owner commands, and what they leave alone.\<close>

definition set_by_control :: "checkpoint \<Rightarrow> bool" where
  "set_by_control d \<longleftrightarrow> ck_commands d \<noteq> [] \<and> (let oper = cm_operation (last (ck_commands d)) in
     ck_desired d = desired_of oper \<and> ck_state d = control_state oper \<and> ck_activity d = control_activity oper
     \<and> ck_reason d = ''OWNER_'' @ host_operation_value oper \<and> ck_next_check_at d = None)"

definition only_controlled :: "checkpoint \<Rightarrow> checkpoint \<Rightarrow> bool" where
  "only_controlled d d' \<longleftrightarrow> d' = d \<or> set_by_control d' \<and> length (ck_commands d) < length (ck_commands d')
     \<and> extends d d' \<and> ck_generation d' = ck_generation d \<and> ck_owner d' = ck_owner d
     \<and> ck_last_time d' = ck_last_time d \<and> ck_last_task d' = ck_last_task d
     \<and> ck_observations d' = ck_observations d \<and> ck_interruptions d' = ck_interruptions d"

lemma control_effect_only: "control_effect d d' \<Longrightarrow> only_controlled d d'"
  by (auto simp: control_effect_def only_controlled_def set_by_control_def control_update_def extends_def)

lemma only_controlled_trans: "only_controlled d d' \<Longrightarrow> only_controlled d' d'' \<Longrightarrow> only_controlled d d''"
  by (auto simp: only_controlled_def intro: extends_trans)

lemma control_steps_load:
  assumes "control_steps b f f'" "runtime_load b f = Inr d"
  obtains d' where "runtime_load b f' = Inr d'" "only_controlled d d'" "f' = f \<or> stored b f' d'"
    "f' \<noteq> f \<longrightarrow> ck_revision d < ck_revision d'"
proof -
  have "\<exists>d'. runtime_load b f' = Inr d' \<and> only_controlled d d' \<and> (f' = f \<or> stored b f' d' \<and> ck_revision d < ck_revision d')"
    using assms
  proof (induction rule: rtranclp_induct)
    case (step f1 f2)
    then obtain d1 where d1: "runtime_load b f1 = Inr d1" "only_controlled d d1"
        "f1 = f \<or> stored b f1 d1 \<and> ck_revision d < ck_revision d1" by blast
    show ?case
    proof (cases "f2 = f1")
      case False
      with step.hyps(2) d1(1) obtain d2 where d2: "control_effect d1 d2" "stored b f2 d2" "checkpoint_valid b d2"
        by (auto simp: control_step_def)
      then have "ck_revision d1 < ck_revision d2" by (auto simp: control_effect_def)
      moreover have "ck_revision d \<le> ck_revision d1" using d1(2) by (auto simp: only_controlled_def extends_def)
      ultimately show ?thesis
        using d2 d1 stored_load only_controlled_trans [OF d1(2) control_effect_only [OF d2(1)]] by force
    qed (use d1 in blast)
  qed (auto simp: only_controlled_def)
  with that show thesis by blast
qed

lemma control_steps_absent:
  assumes "control_steps b f f'" "\<nexists>d. runtime_load b f = Inr d"
  shows "f' = f"
  using assms by (induction rule: rtranclp_induct) (auto simp: control_step_def)

lemma only_controlled_extends: "only_controlled d d' \<Longrightarrow> extends d d'"
  by (auto simp: only_controlled_def)

lemma control_steps_later: "control_steps b f f' \<Longrightarrow> later b f f'"
proof (cases "\<exists>d. runtime_load b f = Inr d")
  case True
  then obtain d where d: "runtime_load b f = Inr d" ..
  assume "control_steps b f f'"
  from control_steps_load [OF this d] obtain d' where "runtime_load b f' = Inr d'" "only_controlled d d'"
      "f' = f \<or> stored b f' d'" "f' \<noteq> f \<longrightarrow> ck_revision d < ck_revision d'" by metis
  then show "later b f f'"
    using d runtime_load_valid [of b f' d'] by (auto simp: later_def valid_but_task_iff dest: only_controlled_extends)
qed (auto dest: control_steps_absent)

end
