(* ===== verification/Runtime_Runs.thy ===== *)
theory Runtime_Runs
  imports Runtime_Guarantees
begin

text \<open>
  The guarantees of whole operations: every call of the host moves the checkpoint file to a later
  one, whatever it returns or raises and whatever commands other processes send meanwhile.
  \<open>host_steps\<close> are the runs of a host: calls, crashes, and commands of other processes, in any
  order.
\<close>

section \<open>Transactions\<close>

lemma later_save:
  assumes "runtime_load b f = Inr d0" "extends d0 (d\<lparr>ck_revision := ck_revision d0 + 1\<rparr>)"
    "ck_revision d = ck_revision d0" "valid_but_task b (d\<lparr>ck_revision := ck_revision d0 + 1\<rparr>)"
  shows "keeps_file (later b) (runtime_save b failure d) f"
  by (rule save_later [OF assms])

lemma attach_extends:
  "ck_desired d \<noteq> Want_STOPPED \<Longrightarrow> extends d ((attach_update uuid d)\<lparr>ck_revision := ck_revision d + 1\<rparr>)"
  "ck_revision (attach_update uuid d) = ck_revision d"
  by (auto simp: extends_def attach_update_def Let_def)

lemma detach_extends:
  "extends d ((detach_update interrupted d)\<lparr>ck_revision := ck_revision d + 1\<rparr>)"
  "ck_revision (detach_update interrupted d) = ck_revision d"
  by (auto simp: extends_def detach_update_def)

lemma attach_locked_later:
  assumes "is_identifier (''owner:'' @ uuid)" "runtime_load b f = Inr d"
  shows "keeps_file (later b) (attach_locked b uuid failure (Some d)) f"
  using assms attach_extends [where d = d and uuid = uuid] attach_update_valid [OF runtime_load_valid [OF assms(2)] _ assms(1)]
  by (auto simp: attach_locked_def valid_but_task_iff intro!: keeps_file_simps later_save)

lemma detach_locked_later:
  assumes "runtime_load b f = Inr d"
  shows "keeps_file (later b) (detach_locked b owner generation interrupted failure (Some d)) f"
  using assms detach_extends [where d = d and interrupted = interrupted] detach_update_valid [OF runtime_load_valid [OF assms], where interrupted = interrupted]
  by (auto simp: detach_locked_def valid_but_task_iff intro!: keeps_file_simps keeps_file_ret later_save)

lemma observe_locked_later:
  assumes "reason_ok (ob_reason ob)" "runtime_load (hc_binding c) f = Inr d"
  shows "keeps_file (later (hc_binding c)) (observe_locked c owner generation cr ob failure (Some d)) f"
proof -
  let ?new = "\<lambda>d'. d'\<lparr>ck_observations := ck_observations d + 1\<rparr>"
  have "keeps_file (later (hc_binding c)) (runtime_save (hc_binding c) failure (?new d')) f"
    if o: "observe_update (hc_policy c) ob d = Inr d'" and "ck_desired d \<noteq> Want_STOPPED" for d'
  proof (rule later_save [OF assms(2)])
    show "extends d ((?new d')\<lparr>ck_revision := ck_revision d + 1\<rparr>)" "ck_revision (?new d') = ck_revision d"
      using observe_update_fields [OF o] that(2) by (simp_all add: extends_def)
    show "valid_but_task (hc_binding c) ((?new d')\<lparr>ck_revision := ck_revision d + 1\<rparr>)"
      using observe_update_valid [OF runtime_load_valid [OF assms(2)] o that(2) assms(1)] by simp
  qed
  then show ?thesis
    by (auto simp: observe_locked_def intro!: keeps_file_simps keeps_file_lift keeps_file_ret)
qed

lemma initialize_later: "keeps_file (later b) (runtime_initialize b access failure) f"
proof -
  have e: "valid_but_task b ((checkpoint_empty b)\<lparr>ck_revision := 1\<rparr>)"
    by (simp add: valid_but_task_def checkpoint_valid_def checkpoint_empty_def opt_identifier_def reason_ok_def)
  have s: "keeps_file (later b) (runtime_save b failure (checkpoint_empty b)) File_Absent"
  proof -
    obtain f' r where r: "runtime_save b failure (checkpoint_empty b) File_Absent = (f', r)" by fastforce
    show ?thesis using save_run [OF r] r e
      by (auto simp: keeps_file_def later_def checkpoint_empty_def)
  qed
  have "keeps_file (later b) (runtime_transaction b access (\<lambda>d. case d of
      None \<Rightarrow> sbind (runtime_save b failure (checkpoint_empty b)) (\<lambda>_. sret ()) | Some _ \<Rightarrow> sret ())) f"
    by (rule transaction_keeps) (auto intro: keeps_file_simps keeps_file_ret s)
  then show ?thesis
    by (auto simp: runtime_initialize_def keeps_file_def sbind_def sread_def split: prod.splits sum.splits)
qed

section \<open>Operations of the host\<close>

definition host_later :: "runtime_binding \<Rightarrow> host_world \<Rightarrow> host_world \<Rightarrow> bool" where
  "host_later b w w' \<longleftrightarrow> later b (hw_file w) (hw_file w')"

interpretation hl: kept "host_later b"
  by unfold_locales (auto simp: host_later_def intro: later_trans)

lemma host_file_keeps:
  assumes "hex_digest (rb_sha (hc_binding c))" "\<And>n f. keeps_file (later (hc_binding c)) (m n) f"
  shows "keeps (host_later (hc_binding c)) (host_file c p m)"
proof (rule keepsI)
  fix w :: host_world
  let ?f = "foreign_controls (hc_binding c) (ho_foreign p (hw_calls w)) (hw_file w)"
  have "later (hc_binding c) (hw_file w) ?f"
    by (rule control_steps_later [OF foreign_controls_steps [OF assms(1)]])
  from later_trans [OF this] assms(2) [of "hw_calls w" ?f]
  show "host_later (hc_binding c) w (fst (host_file c p m w))"
    by (auto simp: host_file_def host_later_def keeps_file_def Let_def split: prod.splits)
qed

lemma host_elsewhere_keeps [simp]:
  "keeps (host_later b) (host_ask f)" "keeps (host_later b) (host_scheduler p m)"
  "keeps (host_later b) (host_print s)"
  by (auto simp: keeps_def host_later_def host_ask_def host_scheduler_def host_print_def prog_simps Let_def
      split: prod.splits)

definition good_ports :: "host_ports \<Rightarrow> bool" where
  "good_ports p \<longleftrightarrow> (\<forall>n. is_identifier (''owner:'' @ ho_uuid p n))"

lemma host_load_keeps: "hex_digest (rb_sha (hc_binding c)) \<Longrightarrow> keeps (host_later (hc_binding c)) (host_load c p)"
  unfolding host_load_def
  by (rule host_file_keeps) (auto intro: keeps_file_simps split: option.split)

lemma host_transaction_keeps:
  assumes "hex_digest (rb_sha (hc_binding c))"
    "\<And>n f d. runtime_load (hc_binding c) f = Inr d \<Longrightarrow> keeps_file (later (hc_binding c)) (body n (Some d)) f"
    "\<And>n f. keeps_file (later (hc_binding c)) (body n None) f"
  shows "keeps (host_later (hc_binding c)) (host_transaction c p body)"
  unfolding host_transaction_def
  by (rule host_file_keeps [OF assms(1)], rule transaction_keeps) (simp_all add: assms(2,3))

lemma observe_keeps:
  assumes "hex_digest (rb_sha (hc_binding c))" "reason_ok (ob_reason ob)"
  shows "keeps (host_later (hc_binding c)) (observe c p r ob)"
  unfolding observe_def
  by (intro hl.rules host_transaction_keeps assms observe_locked_later)
    (auto simp: observe_locked_def intro: keeps_file_simps)

lemma guard_keeps:
  "hex_digest (rb_sha (hc_binding c)) \<Longrightarrow> keeps (host_later (hc_binding c)) (guard c p stage)"
  unfolding guard_def host_now_def
  by (intro hl.rules host_load_keeps host_elsewhere_keeps)

lemma submit_needs_keeps: "keeps (host_later b) (submit_needs c p needs pressure)"
  by (induction c p needs pressure rule: submit_needs.induct)
    (auto intro!: hl.rules host_elsewhere_keeps)

lemma tick_reasons [simp]:
  "reason_ok (ob_reason (tick_observation policy jumped pressure status))"
  "reason_ok ''TASK_COMPLETED''" "reason_ok ''CURRENT_ADMISSION_DEFERRED''" "reason_ok ''WORK_PORT_UNAVAILABLE''"
  "reason_ok ''CLOCK_REGRESSION''" "reason_ok ''CLOCK_INVALID''" "reason_ok ''IDLE''"
  by (auto simp: tick_observation_def observed_def reason_ok_def)

lemma subject_reason: "lifecycle_status v = Inr l \<Longrightarrow> reason_ok (''SUBJECT_'' @ l)"
  using lifecycle_status_cases [of v l] by (auto simp: lifecycle_states_def reason_ok_def)

lemma tick_work_keeps:
  assumes "hex_digest (rb_sha (hc_binding c))"
  shows "keeps (host_later (hc_binding c)) (tick_work c p r now jumped)"
  unfolding tick_work_def
  by (intro hl.rules guard_keeps [OF assms] host_elsewhere_keeps submit_needs_keeps observe_keeps [OF assms])
    (auto split: option.split intro!: hl.rules observe_keeps [OF assms])

lemma tick_failed_keeps:
  assumes "hex_digest (rb_sha (hc_binding c))"
  shows "keeps (host_later (hc_binding c)) (tick_failed c p r now e)"
  unfolding tick_failed_def by (intro hl.rules observe_keeps [OF assms]) auto

lemma tick_at_keeps:
  assumes "hex_digest (rb_sha (hc_binding c))"
  shows "keeps (host_later (hc_binding c)) (tick_at c p d now)"
  unfolding tick_at_def
  by (intro hl.rules observe_keeps tick_work_keeps tick_failed_keeps assms) simp

lemma tick_loaded_keeps:
  assumes "hex_digest (rb_sha (hc_binding c))"
  shows "keeps (host_later (hc_binding c)) (tick_loaded c p d)"
  unfolding tick_loaded_def
  by (intro hl.rules observe_keeps assms host_elsewhere_keeps)
    (auto simp: host_ask_def rbind_eq_Inr intro: subject_reason [simplified] tick_at_keeps [OF assms] observe_keeps [OF assms] split: sum.split)

lemma host_tick_keeps:
  assumes "hex_digest (rb_sha (hc_binding c))"
  shows "keeps (host_later (hc_binding c)) (host_tick c p)"
  unfolding host_tick_def inner_tick_def checkpoint_backoff_def
  by (intro hl.rules host_load_keeps tick_loaded_keeps assms host_elsewhere_keeps)
    (simp_all add: host_later_def)

lemma host_attach_keeps:
  assumes "hex_digest (rb_sha (hc_binding c))" "good_ports p"
  shows "keeps (host_later (hc_binding c)) (host_attach c p)"
  unfolding host_attach_def
  by (intro hl.rules host_transaction_keeps assms host_elsewhere_keeps attach_locked_later)
    (use assms(2) in \<open>auto simp: host_later_def good_ports_def attach_locked_def intro: keeps_file_simps\<close>)

lemma host_detach_keeps:
  assumes "hex_digest (rb_sha (hc_binding c))"
  shows "keeps (host_later (hc_binding c)) (host_detach c p interrupted)"
  unfolding host_detach_def Let_def
  by (intro hl.rules host_transaction_keeps assms host_elsewhere_keeps detach_locked_later)
    (auto simp: host_later_def detach_locked_def intro: keeps_file_simps)

lemma host_control_keeps:
  assumes "hex_digest (rb_sha (hc_binding c))"
  shows "keeps (host_later (hc_binding c)) (host_control c p call)"
  unfolding host_control_def
  by (intro hl.rules host_file_keeps assms)
    (auto simp: host_later_def keeps_file_def intro!: control_steps_later r_into_rtranclp control_file_step [OF assms])

lemma host_initialize_keeps:
  assumes "hex_digest (rb_sha (hc_binding c))"
  shows "keeps (host_later (hc_binding c)) (host_initialize c p)"
  unfolding host_initialize_def by (intro host_file_keeps assms initialize_later)

section \<open>Runs\<close>

inductive host_step :: "host_config \<Rightarrow> host_world \<Rightarrow> host_world \<Rightarrow> bool" for c where
  initialize: "host_step c w (fst (host_initialize c p w))"
| control: "host_step c w (fst (host_control c p call w))"
| attach: "good_ports p \<Longrightarrow> host_step c w (fst (host_attach c p w))"
| ticked: "host_step c w (fst (host_tick c p w))"
| waited: "host_step c w (fst (host_wait w))"
| detach: "host_step c w (fst (host_detach c p interrupted w))"
| crash: "host_step c w (w\<lparr>hw_owner := None, hw_generation := None, hw_waiting := False, hw_interrupt := False\<rparr>)"
| other: "host_step c w (w\<lparr>hw_file := foreign_controls (hc_binding c) calls (hw_file w)\<rparr>)"

abbreviation host_steps :: "host_config \<Rightarrow> host_world \<Rightarrow> host_world \<Rightarrow> bool" where
  "host_steps c \<equiv> (host_step c)\<^sup>*\<^sup>*"

lemma host_step_later:
  assumes "host_step c w w'" and h: "hex_digest (rb_sha (hc_binding c))"
  shows "later (hc_binding c) (hw_file w) (hw_file w')"
proof -
  have "host_later (hc_binding c) w w'"
    using assms(1)
  proof cases
    case (other calls)
    then show ?thesis
      by (simp add: host_later_def control_steps_later [OF foreign_controls_steps [OF h]])
  qed (auto simp: host_wait_def host_later_def [of _ _ "host_world.hw_interrupt_update _ _"] prog_simps
      intro: keepsD host_initialize_keeps host_control_keeps host_attach_keeps host_tick_keeps host_detach_keeps h)
  then show ?thesis by (simp add: host_later_def)
qed

lemma host_steps_later:
  "host_steps c w w' \<Longrightarrow> hex_digest (rb_sha (hc_binding c)) \<Longrightarrow> later (hc_binding c) (hw_file w) (hw_file w')"
  by (induction rule: rtranclp_induct) (auto intro: later_trans host_step_later)

end
