(* ===== verification/Runtime_Ticks.thy ===== *)
theory Runtime_Ticks
  imports Runtime_Runs
begin

text \<open>
  What happens inside one tick. Up to the second guard only owner commands change the
  checkpoint (\<open>before_work\<close>), and nothing reaches the notification adapter; what the tick writes
  itself is one observation, and only on a checkpoint that no newer command has moved.
\<close>

section \<open>Up to the guard\<close>

definition before_work :: "runtime_binding \<Rightarrow> host_world \<Rightarrow> host_world \<Rightarrow> bool" where
  "before_work b w w' \<longleftrightarrow> control_steps b (hw_file w) (hw_file w') \<and> hw_owner w' = hw_owner w
     \<and> hw_generation w' = hw_generation w
     \<and> sw_dispatched (hw_scheduler w') = sw_dispatched (hw_scheduler w)"

interpretation bw: kept "before_work b"
  by unfold_locales (auto simp: before_work_def)

definition same_dispatched :: "scheduler_world \<Rightarrow> scheduler_world \<Rightarrow> bool" where
  "same_dispatched s s' \<longleftrightarrow> sw_dispatched s' = sw_dispatched s"

interpretation sd: kept same_dispatched
  by unfold_locales (auto simp: same_dispatched_def)

lemma submit_same_dispatched: "keeps same_dispatched (submit sc sp t)"
proof -
  have s: "keeps same_dispatched (service_save sp q)" "keeps same_dispatched (service_load sp)" for q
    by (auto simp: keeps_def service_save_def service_load_def same_dispatched_def Let_def split: sum.split)
  show ?thesis unfolding submit_def
    by (intro sd.rules s) (auto split: option.split intro!: sd.rules s)
qed

lemma load_before_work:
  assumes "hex_digest (rb_sha (hc_binding c))"
  shows "keeps (before_work (hc_binding c)) (host_load c p)"
  by (auto simp: keeps_def before_work_def host_load_def host_file_def Let_def slift_def sread_def
      intro: foreign_controls_steps [OF assms] split: option.split)

lemma elsewhere_before_work [simp]:
  "keeps (before_work b) (host_ask f)" "keeps (before_work b) (host_print s)"
  by (auto simp: keeps_def before_work_def host_ask_def host_print_def prog_simps)

lemma guard_before_work:
  assumes "hex_digest (rb_sha (hc_binding c))"
  shows "keeps (before_work (hc_binding c)) (guard c p stage)"
  unfolding guard_def host_now_def
  by (intro bw.rules load_before_work assms elsewhere_before_work)

lemma submit_needs_before_work: "keeps (before_work b) (submit_needs c p needs pressure)"
proof (induction c p needs pressure rule: submit_needs.induct)
  case (2 c p need needs pressure)
  have "keeps (before_work b) (host_scheduler p (\<lambda>sp. submit (hc_scheduler c) sp task))" for task
    using keepsD [OF submit_same_dispatched]
    by (auto simp: keeps_def host_scheduler_def before_work_def same_dispatched_def Let_def split: prod.split)
      (metis fst_conv)
  with 2 show ?case by (auto intro!: bw.rules)
qed (simp add: bw.pure)

text \<open>A guard that returned has seen a running, active checkpoint of this attachment.\<close>

lemma guard_passed:
  assumes g: "guard c p stage w = (w', Inr u)" and h: "hex_digest (rb_sha (hc_binding c))"
  obtains d where "runtime_load (hc_binding c) (hw_file w') = Inr d" "ck_desired d = Want_RUNNING"
    "ck_owner d = hw_owner w'" "hw_owner w' \<noteq> None" "Some (ck_generation d) = hw_generation w'"
proof -
  from g obtain w1 w2 d where w: "host_load c p w1 = (w2, Inr d)" "hw_owner w2 \<noteq> None" "ck_owner d = hw_owner w2"
      "Some (ck_generation d) = hw_generation w2" "ck_desired d = Want_RUNNING"
      "hw_file w' = hw_file w2" "hw_owner w' = hw_owner w2" "hw_generation w' = hw_generation w2"
    unfolding guard_def host_now_def
    by (auto simp: sbind_eq_Inr prog_simps host_ask_def split: if_splits)
  from w(1) have "runtime_load (hc_binding c) (hw_file w2) = Inr d"
    by (auto simp: host_load_def host_file_def Let_def prog_simps sread_def split: option.splits)
  with w that show thesis by simp
qed

section \<open>What is dispatched\<close>

definition quiet :: "host_world \<Rightarrow> host_world \<Rightarrow> bool" where
  "quiet w w' \<longleftrightarrow> sw_dispatched (hw_scheduler w') = sw_dispatched (hw_scheduler w)"

interpretation qt: kept quiet
  by unfold_locales (auto simp: quiet_def)

lemma file_quiet [simp]: "keeps quiet (host_file c p m)"
  by (auto simp: keeps_def quiet_def host_file_def Let_def split: prod.split)

lemma elsewhere_quiet [simp]: "keeps quiet (host_ask f)" "keeps quiet (host_print s)"
  by (auto simp: keeps_def quiet_def host_ask_def host_print_def prog_simps)

lemma observe_quiet: "keeps quiet (observe c p r ob)"
  unfolding observe_def host_transaction_def by (intro qt.rules file_quiet)

lemma tick_failed_quiet: "keeps quiet (tick_failed c p r now e)"
  unfolding tick_failed_def by (intro qt.rules observe_quiet)

definition gated_at :: "host_config \<Rightarrow> host_ports \<Rightarrow> host_world \<Rightarrow> host_world \<Rightarrow> host_world \<Rightarrow> host_world \<Rightarrow> bool" where
  "gated_at c p w w1 w2 w' \<longleftrightarrow> before_work (hc_binding c) w w1 \<and> guard c p ''before_scheduler'' w1 = (w2, Inr ())
     \<and> sw_dispatched (hw_scheduler w') = sw_dispatched (fst (tick (hc_scheduler c) (ho_scheduler p (hw_calls w2))
         (rb_subject_id (hc_binding c)) (rb_environment (hc_binding c)) (hw_scheduler w2)))"

definition gated :: "host_config \<Rightarrow> host_ports \<Rightarrow> (host_world, 'a) prog \<Rightarrow> bool" where
  "gated c p m \<longleftrightarrow> (\<forall>w. quiet w (fst (m w)) \<or> (\<exists>w1 w2. gated_at c p w w1 w2 (fst (m w))))"

lemma gated_quiet: "keeps quiet m \<Longrightarrow> gated c p m"
  by (simp add: gated_def keeps_def)

lemma gated_bind:
  assumes "keeps (before_work (hc_binding c)) m" "\<And>x s s'. m s = (s', Inr x) \<Longrightarrow> gated c p (f x)"
  shows "gated c p (sbind m f)"
  unfolding gated_def
proof
  fix w
  obtain w0 r where m: "m w = (w0, r)" by fastforce
  have b: "before_work (hc_binding c) w w0" by (rule keeps_run [OF assms(1) m])
  show "quiet w (fst (sbind m f w)) \<or> (\<exists>w1 w2. gated_at c p w w1 w2 (fst (sbind m f w)))"
  proof (cases r)
    case (Inl e)
    then show ?thesis using b m by (simp add: sbind_def quiet_def before_work_def)
  next
    case (Inr x)
    with m have "fst (sbind m f w) = fst (f x w0)" by (simp add: sbind_def)
    moreover have "quiet w0 (fst (f x w0)) \<or> (\<exists>w1 w2. gated_at c p w0 w1 w2 (fst (f x w0)))"
      using assms(2) [of w w0 x] m Inr by (simp add: gated_def)
    ultimately show ?thesis
      using b bw.trans [OF b] by (auto simp: gated_at_def quiet_def before_work_def)
  qed
qed

lemma gated_catch:
  assumes "gated c p m" "\<And>e. keeps quiet (h e)"
  shows "gated c p (scatch m h)"
  unfolding gated_def
proof
  fix w
  obtain w0 r where m: "m w = (w0, r)" by fastforce
  have g: "quiet w w0 \<or> (\<exists>w1 w2. gated_at c p w w1 w2 w0)"
    using assms(1) m by (auto simp: gated_def dest: spec [of _ w])
  have "quiet w0 (fst (scatch m h w))"
    using m keepsD [OF assms(2)] by (cases r) (auto simp: scatch_def quiet_def)
  with g show "quiet w (fst (scatch m h w)) \<or> (\<exists>w1 w2. gated_at c p w w1 w2 (fst (scatch m h w)))"
    by (auto simp: quiet_def gated_at_def)
qed

text \<open>The guard, then the scheduler's tick, then anything that dispatches nothing.\<close>

lemma gated_scheduler:
  assumes h: "hex_digest (rb_sha (hc_binding c))" and "\<And>r. keeps quiet (f r)"
  shows "gated c p (sbind (guard c p ''before_scheduler'') (\<lambda>_.
    sbind (host_scheduler p (\<lambda>sp. tick (hc_scheduler c) sp (rb_subject_id (hc_binding c))
      (rb_environment (hc_binding c)))) f))"
  unfolding gated_def
proof
  fix w
  let ?s = "host_scheduler p (\<lambda>sp. tick (hc_scheduler c) sp (rb_subject_id (hc_binding c)) (rb_environment (hc_binding c)))"
  let ?m = "sbind (guard c p ''before_scheduler'') (\<lambda>_. sbind ?s f)"
  obtain w2 r where g: "guard c p ''before_scheduler'' w = (w2, r)" by fastforce
  show "quiet w (fst (?m w)) \<or> (\<exists>w1 w2. gated_at c p w w1 w2 (fst (?m w)))"
  proof (cases r)
    case (Inl e)
    then show ?thesis using keeps_run [OF guard_before_work [OF h] g] g
      by (simp add: sbind_def quiet_def before_work_def)
  next
    case (Inr u)
    have "quiet w3 (fst (f x w3))" for x w3 using keepsD [OF assms(2)] .
    then have "sw_dispatched (hw_scheduler (fst (?m w))) = sw_dispatched (fst (tick (hc_scheduler c)
        (ho_scheduler p (hw_calls w2)) (rb_subject_id (hc_binding c)) (rb_environment (hc_binding c)) (hw_scheduler w2)))"
      using g Inr by (auto simp: sbind_def host_scheduler_def Let_def quiet_def split: prod.splits sum.splits)
    then show ?thesis using g Inr bw.refl by (auto simp: gated_at_def)
  qed
qed

lemma gated_cond: "(b \<Longrightarrow> gated c p m) \<Longrightarrow> (\<not> b \<Longrightarrow> gated c p m') \<Longrightarrow> gated c p (if b then m else m')"
  by simp

lemma tick_work_gated:
  assumes h: "hex_digest (rb_sha (hc_binding c))"
  shows "gated c p (tick_work c p r now jumped)"
  unfolding tick_work_def
  by (intro gated_bind gated_cond gated_scheduler guard_before_work h elsewhere_before_work submit_needs_before_work)
    (auto intro!: gated_quiet qt.rules observe_quiet split: option.split)

lemma host_tick_gated:
  assumes h: "hex_digest (rb_sha (hc_binding c))"
  shows "gated c p (host_tick c p)"
proof -
  have "gated c p (tick_at c p d now)" for d now
    unfolding tick_at_def
    by (intro gated_bind gated_cond gated_catch tick_work_gated h tick_failed_quiet bw.pure)
      (auto intro: gated_quiet observe_quiet qt.pure)
  then have "gated c p (tick_loaded c p d)" for d
    unfolding tick_loaded_def
    by (intro gated_bind gated_cond elsewhere_before_work bw.pure)
      (auto intro: gated_quiet observe_quiet qt.pure split: sum.split)
  then have i: "gated c p (inner_tick c p)"
    unfolding inner_tick_def
    by (intro gated_bind gated_cond load_before_work h) (auto intro: gated_quiet qt.pure)
  have t: "gated c p (sbind (inner_tick c p) f)" if "\<And>x. keeps quiet (f x)" for f :: "bool \<Rightarrow> (host_world, bool) prog"
    unfolding gated_def
  proof
    fix w
    obtain w0 r where m: "inner_tick c p w = (w0, r)" by fastforce
    have g: "quiet w w0 \<or> (\<exists>w1 w2. gated_at c p w w1 w2 w0)"
      using i m by (auto simp: gated_def dest: spec [of _ w])
    have "quiet w0 (fst (sbind (inner_tick c p) f w))"
      using m keepsD [OF that] by (cases r) (auto simp: sbind_def quiet_def)
    with g show "quiet w (fst (sbind (inner_tick c p) f w)) \<or>
        (\<exists>w1 w2. gated_at c p w w1 w2 (fst (sbind (inner_tick c p) f w)))"
      by (auto simp: quiet_def gated_at_def)
  qed
  show ?thesis
    unfolding host_tick_def checkpoint_backoff_def
    by (intro gated_catch t) (auto intro!: qt.rules simp: quiet_def)
qed

section \<open>What is recorded\<close>

text \<open>
  From the checkpoint \<open>d\<close> in the file \<open>F\<close> on: either only owner commands changed the file, or the
  tick recorded its observation and there was no newer command.
\<close>

definition settled :: "runtime_binding \<Rightarrow> file_state \<Rightarrow> checkpoint \<Rightarrow> file_state \<Rightarrow> bool" where
  "settled b F d f \<longleftrightarrow> control_steps b F f \<or> (\<exists>d'. stored b f d' \<and> ck_commands d' = ck_commands d)"

definition settles :: "runtime_binding \<Rightarrow> file_state \<Rightarrow> checkpoint \<Rightarrow> (host_world, 'a) prog \<Rightarrow> bool" where
  "settles b F d m \<longleftrightarrow> (\<forall>w. control_steps b F (hw_file w) \<longrightarrow>
     wp m (\<lambda>_ w'. settled b F d (hw_file w')) (\<lambda>_ w'. control_steps b F (hw_file w')) w)"

definition commanded :: "runtime_binding \<Rightarrow> host_world \<Rightarrow> host_world \<Rightarrow> bool" where
  "commanded b w w' \<longleftrightarrow> control_steps b (hw_file w) (hw_file w')"

interpretation cd: kept "commanded b"
  by unfold_locales (auto simp: commanded_def)

lemma before_work_commanded: "keeps (before_work b) m \<Longrightarrow> keeps (commanded b) m"
  by (simp add: keeps_def before_work_def commanded_def)

lemma scheduler_commanded: "keeps (commanded b) (host_scheduler p m)"
  by (auto simp: keeps_def commanded_def host_scheduler_def Let_def split: prod.split)

lemma settles_kept: "keeps (commanded b) m \<Longrightarrow> settles b F d m"
  by (fastforce simp: settles_def settled_def wp_def commanded_def keeps_def split: prod.split sum.split
      dest: spec intro: rtranclp_trans)

lemma settles_bind:
  assumes "keeps (commanded b) m" "\<And>x s s'. m s = (s', Inr x) \<Longrightarrow> settles b F d (f x)"
  shows "settles b F d (sbind m f)"
  unfolding settles_def
proof (intro allI impI)
  fix w :: host_world
  assume "control_steps b F (hw_file w)"
  moreover obtain w' r where m: "m w = (w', r)" by fastforce
  moreover have "commanded b w w'" by (rule keeps_run [OF assms(1) m])
  ultimately have c: "control_steps b F (hw_file w')" by (auto simp: commanded_def)
  show "wp (sbind m f) (\<lambda>_ w'. settled b F d (hw_file w')) (\<lambda>_ w'. control_steps b F (hw_file w')) w"
    using m c assms(2) [of w w'] by (cases r) (auto simp: wp_def sbind_def settles_def)
qed

lemma settles_catch:
  assumes "settles b F d m" "\<And>e. settles b F d (h e)"
  shows "settles b F d (scatch m h)"
  unfolding settles_def
proof (intro allI impI)
  fix w :: host_world
  assume c: "control_steps b F (hw_file w)"
  then have "wp m (\<lambda>_ w'. settled b F d (hw_file w')) (\<lambda>_ w'. control_steps b F (hw_file w')) w"
    using assms(1) by (simp add: settles_def)
  then show "wp (scatch m h) (\<lambda>_ w'. settled b F d (hw_file w')) (\<lambda>_ w'. control_steps b F (hw_file w')) w"
    unfolding wp_scatch by (rule wp_conseq) (use assms(2) in \<open>auto simp: settles_def\<close>)
qed

lemma settles_cond: "(t \<Longrightarrow> settles b F d m) \<Longrightarrow> (\<not> t \<Longrightarrow> settles b F d m') \<Longrightarrow> settles b F d (if t then m else m')"
  by simp

lemma control_watermark_bound:
  "checkpoint_valid b d \<Longrightarrow> control_watermark d \<le> ck_revision d"
  using valid_fields(5,7) [of b d] commands_valid_bound [of "ck_revision d" "[]" 0 "ck_commands d" "last (ck_commands d)"]
  by (auto simp: control_watermark_def)

lemma newer_watermark:
  assumes "extends d d'" "ck_commands d' \<noteq> ck_commands d" "checkpoint_valid b d"
  shows "control_watermark d < control_watermark d'"
proof -
  from assms(1,2) obtain cs where "ck_commands d' = ck_commands d @ cs" "cs \<noteq> []"
      "ck_revision d < cm_revision (last cs)"
    by (auto simp: extends_def)
  then show ?thesis using control_watermark_bound [OF assms(3)] by (simp add: control_watermark_def)
qed

lemma observe_settles:
  assumes h: "hex_digest (rb_sha (hc_binding c))" and d: "runtime_load (hc_binding c) F = Inr d"
  shows "settles (hc_binding c) F d (observe c p (control_watermark d) ob)"
  unfolding settles_def
proof (intro allI impI)
  fix w :: host_world
  let ?b = "hc_binding c" and ?n = "hw_calls w"
  assume "control_steps ?b F (hw_file w)"
  define f where "f = foreign_controls ?b (ho_foreign p ?n) (hw_file w)"
  have cf: "control_steps ?b F f"
    using rtranclp_trans [OF \<open>control_steps ?b F (hw_file w)\<close> foreign_controls_steps [OF h]] by (simp add: f_def)
  from control_steps_load [OF cf d] obtain e where e: "runtime_load ?b f = Inr e" "only_controlled d e" by metis
  let ?body = "observe_locked c (hw_owner w) (hw_generation w) (Some (control_watermark d)) ob (ho_failure p ?n)"
  have body: "wp (?body (Some e)) (\<lambda>_. settled ?b F d) (\<lambda>_. control_steps ?b F) f"
  proof (cases "control_watermark e = control_watermark d")
    case True
    then have "ck_commands e = ck_commands d"
      using newer_watermark [OF only_controlled_extends [OF e(2)] _ runtime_load_valid [OF d]] by fastforce
    moreover have "wp (runtime_save ?b fail (x\<lparr>ck_observations := k\<rparr>))
        (\<lambda>_. wp (sret True) (\<lambda>_. settled ?b F d) (\<lambda>_. control_steps ?b F)) (\<lambda>_. control_steps ?b F) f"
      if "ck_commands x = ck_commands d" for fail x k
      using save_run [of ?b fail "x\<lparr>ck_observations := k\<rparr>" f] that cf
      by (auto simp: wp_def settled_def prog_simps split: prod.split sum.split)
    ultimately show ?thesis
      using cf observe_update_fields(1) [of "hc_policy c" ob e]
      by (auto simp: observe_locked_def wp_simps settled_def split: sum.split)
  next
    case False
    then show ?thesis using cf by (auto simp: observe_locked_def wp_simps settled_def)
  qed
  have "wp (runtime_transaction ?b (ho_access p ?n) ?body) (\<lambda>_. settled ?b F d) (\<lambda>_. control_steps ?b F) f"
  proof (cases "ho_access p ?n")
    case None
    have "runtime_current ?b f = Inr (Some e)" by (simp add: runtime_current_Some e(1))
    with None body show ?thesis by (simp add: runtime_transaction_def wp_simps)
  qed (use cf in \<open>simp add: runtime_transaction_def wp_simps\<close>)
  then show "wp (observe c p (control_watermark d) ob) (\<lambda>_ w'. settled ?b F d (hw_file w'))
      (\<lambda>_ w'. control_steps ?b F (hw_file w')) w"
    by (auto simp: observe_def wp_def sbind_def sget_def host_transaction_def host_file_def Let_def f_def
        split: prod.splits sum.splits)
qed

lemma tick_loaded_settles:
  assumes h: "hex_digest (rb_sha (hc_binding c))" and d: "runtime_load (hc_binding c) F = Inr d"
  shows "settles (hc_binding c) F d (tick_loaded c p d)"
proof -
  note o = observe_settles [OF h d]
  have "settles (hc_binding c) F d (tick_failed c p (control_watermark d) now e)" for now e
    unfolding tick_failed_def by (intro settles_cond o settles_kept cd.pure)
  moreover have "settles (hc_binding c) F d (tick_work c p (control_watermark d) now jumped)" for now jumped
    unfolding tick_work_def
    by (intro settles_bind settles_cond before_work_commanded guard_before_work h elsewhere_before_work
        submit_needs_before_work scheduler_commanded o)
      (auto intro!: settles_kept cd.pure o split: option.split)
  ultimately have "settles (hc_binding c) F d (tick_at c p d now)" for now
    unfolding tick_at_def
    by (intro settles_bind settles_cond settles_catch before_work_commanded bw.pure o) (auto intro: settles_kept cd.pure)
  then show ?thesis
    unfolding tick_loaded_def
    by (intro settles_bind settles_cond before_work_commanded bw.pure elsewhere_before_work o)
      (auto intro: settles_kept cd.pure o split: sum.split)
qed

lemma host_tick_settled:
  assumes h: "hex_digest (rb_sha (hc_binding c))" and d: "runtime_load (hc_binding c) (hw_file w) = Inr d"
    and "ho_foreign p (hw_calls w) = []"
  shows "settled (hc_binding c) (hw_file w) d (hw_file (fst (host_tick c p w)))"
proof -
  let ?b = "hc_binding c" and ?F = "hw_file w"
  have q: "keeps (\<lambda>w w'. hw_file w' = hw_file w) (host_print l)" for l
    by (simp add: keeps_def host_print_def prog_simps)
  have l: "hw_file (fst (host_load c p w)) = ?F \<and> (\<forall>x. snd (host_load c p w) = Inr x \<longrightarrow> x = d)"
    using assms(3) d by (auto simp: host_load_def host_file_def foreign_controls_def Let_def prog_simps sread_def
        split: option.split)
  have "settled ?b ?F d (hw_file (fst (inner_tick c p w)))"
  proof -
    obtain w1 r where m: "host_load c p w = (w1, r)" by fastforce
    show ?thesis
    proof (cases r)
      case (Inr x)
      with l m have x: "x = d" "hw_file w1 = ?F" by auto
      have "wp (tick_loaded c p d) (\<lambda>_ w'. settled ?b ?F d (hw_file w')) (\<lambda>_ w'. control_steps ?b ?F (hw_file w')) w1"
        using tick_loaded_settles [OF h d] x(2) by (simp add: settles_def)
      then have "settled ?b ?F d (hw_file (fst (tick_loaded c p d w1)))"
        by (auto simp: wp_def settled_def split: prod.splits sum.splits)
      then show ?thesis using m Inr x by (simp add: inner_tick_def sbind_def settled_def sret_def)
    qed (use l m in \<open>auto simp: inner_tick_def sbind_def settled_def\<close>)
  qed
  moreover have "hw_file (fst (host_tick c p w)) = hw_file (fst (inner_tick c p w))"
    by (auto simp: host_tick_def checkpoint_backoff_def scatch_def sbind_def prog_simps host_print_def
        split: prod.splits sum.splits)
  ultimately show ?thesis by simp
qed

end
