(* ===== verification/Runtime_Properties.thy ===== *)
theory Runtime_Properties
  imports Runtime_Ticks Scheduler_Properties
begin

text \<open>
  The properties of the persistent host: what its checkpoint can become, that owner commands are
  never lost, overwritten or undone, and that work is dispatched only behind the guard.
\<close>

section \<open>Lemmas\<close>

lemma commands_valid_facts:
  "commands_valid r seen p cs \<Longrightarrow> distinct (map cm_id cs) \<and> set (map cm_id cs) \<inter> set seen = {} \<and>
     sorted_wrt (<) (map cm_revision cs) \<and> (\<forall>c \<in> set cs. p < cm_revision c)"
proof (induction r seen p cs rule: commands_valid.induct)
  case (2 r seen p c cs)
  then show ?case by auto
qed simp

lemma stopped_controls:
  assumes "control_steps b f f'" "runtime_load b f = Inr d" "ck_desired d = Want_STOPPED"
  shows "f' = f"
  using assms by (induction rule: rtranclp_induct) (auto simp: control_step_def control_effect_def)

lemma sbind_lift_Inr: "sbind (slift r) f s = (s', Inr y) \<longleftrightarrow> (\<exists>x. r = Inr x \<and> f x s = (s', Inr y))"
  by (auto simp: sbind_eq_Inr prog_simps)

lemma transaction_Inr: "runtime_transaction b access body f = (f', Inr x) \<longleftrightarrow>
    access = None \<and> (\<exists>found. runtime_current b f = Inr found \<and> body found f = (f', Inr x))"
  by (cases access) (simp_all add: runtime_transaction_def sbind_def sread_def slift_def split: sum.split)

lemma control_locked_None: "control_locked b call oper who ident key None f = (f, Inl (boundary ''RUNTIME_NOT_INITIALIZED''))"
  by (simp add: control_locked_def slift_def)

lemma control_locked_Inr:
  assumes "control_locked b call oper who ident key (Some d0) f = (f', Inr d)"
  shows "case List.find (\<lambda>c. cm_id c = ident) (ck_commands d0) of
      Some old \<Rightarrow> cm_hash old = key \<and> d = d0 \<and> f' = f
    | None \<Rightarrow> d = d0 \<and> f' = f \<or>
        d = (control_update oper ident key d0)\<lparr>ck_revision := ck_revision d0 + 1\<rparr> \<and> stored b f' d"
proof (cases "List.find (\<lambda>c. cm_id c = ident) (ck_commands d0)")
  case None
  have "ck_revision (control_update oper ident key d0) = ck_revision d0" by (simp add: control_update_def)
  with None assms show ?thesis
    by (auto simp: control_locked_def sbind_lift_Inr runtime_save_Inr stored_def prog_simps split: if_splits)
qed (use assms in \<open>auto simp: control_locked_def sbind_lift_Inr prog_simps split: if_splits\<close>)

lemma stored_unique: "stored b f d \<Longrightarrow> stored b f d' \<Longrightarrow> d' = d"
  by (auto simp: stored_def checkpoint_envelope_def) (metis checkpoint_dict_roundtrip sum.inject(2))

text \<open>What \<open>control\<close> returns is the checkpoint in the file.\<close>

lemma control_file_loads:
  assumes h: "hex_digest (rb_sha b)" and c: "control_file b call f = (f', Inr d)"
  shows "runtime_load b f' = Inr d"
proof -
  from c obtain oper who ident key found where "runtime_current b f = Inr found"
      "control_locked b call oper who ident key found f = (f', Inr d)"
    unfolding control_file_def sbind_lift_Inr transaction_Inr by blast
  then obtain d0 where d0: "runtime_load b f = Inr d0" "control_locked b call oper who ident key (Some d0) f = (f', Inr d)"
    by (cases found) (auto simp: control_locked_None runtime_current_Some)
  from control_locked_Inr [OF d0(2)] have "d = d0 \<and> f' = f \<or> stored b f' d"
    by (auto split: option.splits)
  moreover have "control_step b f f'" using control_file_step [OF h, of f call] c by simp
  ultimately show ?thesis
    using d0(1) stored_load stored_unique load_stored_eq by (fastforce simp: control_step_def)
qed

lemma later_revision:
  "later b f f' \<Longrightarrow> runtime_load b f = Inr d \<Longrightarrow> runtime_load b f' = Inr d' \<Longrightarrow> f' = f \<or> ck_revision d < ck_revision d'"
  using load_stored_eq by (fastforce simp: later_def runtime_load_def)

lemma later_extends:
  assumes "later b f f'" "runtime_load b f = Inr d" "runtime_load b f' = Inr d'"
  shows "extends d d'"
proof -
  from later_load [OF assms(1,2)] obtain e where "extends d e" "f' = f \<and> e = d \<or> stored b f' e" by metis
  then show ?thesis using assms(2,3) load_stored_eq by fastforce
qed

lemma stopped_load:
  assumes "hex_digest (rb_sha (hc_binding c))" "runtime_load (hc_binding c) (hw_file w) = Inr d"
    "ck_desired d = Want_STOPPED" "ho_access p (hw_calls w) = None"
  shows "host_load c p w = (w\<lparr>hw_calls := hw_calls w + 1\<rparr>, Inr d)"
proof -
  have "foreign_controls (hc_binding c) (ho_foreign p (hw_calls w)) (hw_file w) = hw_file w"
    by (rule stopped_controls [OF foreign_controls_steps [OF assms(1)] assms(2,3)])
  then show ?thesis
    using assms by (simp add: host_load_def host_file_def Let_def sread_def)
qed

lemma stopped_tick:
  assumes "hex_digest (rb_sha (hc_binding c))" "runtime_load (hc_binding c) (hw_file w) = Inr d"
    "ck_desired d = Want_STOPPED" "ho_access p (hw_calls w) = None"
  shows "\<exists>w'. host_tick c p w = (w', Inr False) \<and> hw_scheduler w' = hw_scheduler w \<and> hw_file w' = hw_file w
    \<and> hw_owner w' = hw_owner w \<and> hw_generation w' = hw_generation w \<and> hw_calls w' = hw_calls w + 1"
  using stopped_load [OF assms] assms(3)
  by (auto simp: host_tick_def inner_tick_def sbind_def scatch_def prog_simps host_print_def)

section \<open>A host at work\<close>

text \<open>
  Concrete values for the witnesses: a binding whose digests are constant, a host whose ports
  answer, and the commands of one owner.
\<close>

definition host_demo_binding :: runtime_binding where
  "host_demo_binding = \<lparr>rb_subject_id = ''s'', rb_environment = ''TEST'', rb_root_hash = ''r'',
     rb_canon = (\<lambda>_. Inr []), rb_sha = (\<lambda>_. replicate 64 (CHR ''0''))\<rparr>"

definition host_demo_digest :: string where
  "host_demo_digest = ''sha256:'' @ replicate 64 (CHR ''0'')"

definition host_demo_doc :: checkpoint where
  "host_demo_doc = (checkpoint_empty host_demo_binding)\<lparr>ck_owner := Some ''owner:u'', ck_generation := 1,
     ck_revision := 1\<rparr>"

definition host_demo_stopped :: checkpoint where
  "host_demo_stopped = (control_update Op_STOP host_demo_digest host_demo_digest host_demo_doc)\<lparr>ck_revision := 2\<rparr>"

definition host_demo_file :: "checkpoint \<Rightarrow> file_state" where
  "host_demo_file d = File_Doc (checkpoint_envelope host_demo_digest d)"

definition host_demo_owner :: runtime_principal where
  "host_demo_owner = \<lparr>pr_principal_id = ''p'', pr_subject_id = ''s'', pr_environment = ''TEST'',
     pr_operations = {''PAUSE'', ''RESUME'', ''STOP''}\<rparr>"

definition host_demo_stop :: control_call where
  "host_demo_stop = \<lparr>cc_operation = ''STOP'', cc_command_id = ''c1'', cc_expected_revision = PNone,
     cc_identity = Inr (Some host_demo_owner), cc_identity_locked = Inr (Some host_demo_owner),
     cc_subject = Inr PNone, cc_access = None, cc_failure = None\<rparr>"

definition host_demo_config :: host_config where
  "host_demo_config = \<lparr>hc_binding = host_demo_binding, hc_policy = \<lparr>pol_idle_wait_seconds = 1,
     pol_minimum_spacing_seconds = 60, pol_retry_seconds = 5, pol_clock_jump_seconds = 3600,
     pol_need_delta = 1 / 50, pol_max_failures = 3\<rparr>, hc_scheduler = demo_config\<rparr>"

definition host_demo_ports :: host_ports where
  "host_demo_ports = \<lparr>ho_foreign = (\<lambda>_. []), ho_access = (\<lambda>_. None), ho_failure = (\<lambda>_. None),
     ho_owner_lock = (\<lambda>_. None), ho_uuid = (\<lambda>_. ''u''), ho_clock = (\<lambda>_. Inr (utc_val demo_now)),
     ho_subject = (\<lambda>_. Inr PNone), ho_hook = (\<lambda>_ _. Inr ()), ho_needs = (\<lambda>_ _. Inr []),
     ho_cycle_id = PStr ''c'', ho_scheduler = (\<lambda>_. demo_ports), ho_fault = (\<lambda>_ _. Inr ())\<rparr>"

definition host_demo_world :: "file_state \<Rightarrow> host_world" where
  "host_demo_world f = \<lparr>hw_file = f, hw_scheduler = demo_world, hw_owner = Some ''owner:u'',
     hw_generation = Some 1, hw_waiting = False, hw_interrupt = False, hw_stderr = [], hw_calls = 0\<rparr>"

lemma host_demo_hex: "hex_digest (rb_sha (hc_binding host_demo_config))" "hex_digest (rb_sha host_demo_binding)"
  by (simp_all add: host_demo_config_def host_demo_binding_def hex_digest_def list_all_iff)

lemma host_demo_digests: "rb_digest host_demo_binding v = Inr host_demo_digest"
  by (simp add: value_digest_def host_demo_binding_def sha256_hash_def host_demo_digest_def)

lemma host_demo_fields [simp]:
  "hc_binding host_demo_config = host_demo_binding" "hc_scheduler host_demo_config = demo_config"
  "rb_subject_id host_demo_binding = ''s''" "rb_environment host_demo_binding = ''TEST''"
  "rb_root_hash host_demo_binding = ''r''"
  by (simp_all add: host_demo_config_def host_demo_binding_def)

lemma host_demo_doc_valid: "checkpoint_valid host_demo_binding host_demo_doc"
  by (simp add: checkpoint_valid_def host_demo_doc_def checkpoint_empty_def opt_identifier_def is_identifier_def
      identifier_char_def Let_def reason_ok_def)

lemma host_demo_digest_ok: "digest_shape host_demo_digest" "is_identifier host_demo_digest"
  using value_digest_shape [OF host_demo_hex(2) host_demo_digests] by simp_all

lemma host_demo_stopped_valid: "checkpoint_valid host_demo_binding host_demo_stopped"
  using control_update_valid [OF host_demo_doc_valid host_demo_hex(2) host_demo_digests host_demo_digests, of Op_STOP]
  by (simp add: host_demo_stopped_def host_demo_doc_def checkpoint_empty_def)

lemma host_demo_loads:
  "checkpoint_valid host_demo_binding d \<Longrightarrow> runtime_load host_demo_binding (host_demo_file d) = Inr d"
  by (rule stored_load) (simp_all add: stored_def host_demo_file_def host_demo_digests)

lemmas host_demo_load = host_demo_loads [OF host_demo_doc_valid] host_demo_loads [OF host_demo_stopped_valid]

lemma host_demo_stop_run:
  "control_file host_demo_binding host_demo_stop (host_demo_file host_demo_doc) = (host_demo_file host_demo_stopped, Inr host_demo_stopped)"
proof -
  have op: "require_enum e host_operation_value host_operations (PStr ''STOP'') = Inr Op_STOP" for e
    using host_enums(4) [of e Op_STOP] by simp
  have "runtime_save host_demo_binding None (control_update Op_STOP host_demo_digest host_demo_digest host_demo_doc)
      (host_demo_file host_demo_doc) = (host_demo_file host_demo_stopped, Inr host_demo_stopped)"
    by (simp add: runtime_save_Inr host_demo_load host_demo_digests host_demo_file_def [of host_demo_stopped])
      (simp add: host_demo_stopped_def host_demo_doc_def control_update_def checkpoint_empty_def)
  moreover have "ck_commands host_demo_doc = []" "ck_desired host_demo_doc = Want_RUNNING"
    by (simp_all add: host_demo_doc_def checkpoint_empty_def)
  ultimately show ?thesis
    by (simp add: control_file_def host_demo_stop_def sbind_def prog_simps op require_identifier_def is_identifier_def
        identifier_char_def Let_def principal_of_def host_demo_owner_def host_demo_digests runtime_transaction_def
        sread_def runtime_current_Some [THEN iffD2, OF host_demo_load(1)] control_locked_def)
qed

section \<open>Properties\<close>

text \<open>
  C17: the checkpoint stays readable. Through any calls of the host, crashes and commands of other
  processes, in any order and with any failures of lock and disk, the file is absent or holds a
  checkpoint that \<open>load\<close> accepts, with one exception: a completed task whose identity is not an
  identifier was recorded as the last task, which no writer checks.
\<close>

theorem host_checkpoint_sound:
  assumes "hex_digest (rb_sha (hc_binding c))" "host_steps c w w'"
    and "hw_file w = File_Absent \<or> (\<exists>d. runtime_load (hc_binding c) (hw_file w) = Inr d)"
  shows "hw_file w' = File_Absent \<or> (\<exists>d. runtime_load (hc_binding c) (hw_file w') = Inr d) \<or>
    (\<exists>d t. stored (hc_binding c) (hw_file w') d \<and> checkpoint_valid (hc_binding c) (d\<lparr>ck_last_task := None\<rparr>) \<and>
       ck_last_task d = Some t \<and> \<not> is_identifier t)"
proof -
  have "readable (hc_binding c) (hw_file w)" using assms(3) by (auto simp: readable_def)
  with later_readable host_steps_later assms(1,2) have "readable (hc_binding c) (hw_file w')" by blast
  then show ?thesis
    by (auto simp: readable_def valid_but_task_def opt_identifier_def split: option.splits)
qed

lemma host_checkpoint_sound_witness:
  "\<exists>w. host_step host_demo_config (host_demo_world (host_demo_file host_demo_doc)) w \<and> hw_file w = host_demo_file host_demo_stopped
    \<and> (\<exists>d. runtime_load host_demo_binding (hw_file w) = Inr d)"
proof -
  let ?w = "host_demo_world (host_demo_file host_demo_doc)"
  let ?v = "?w\<lparr>hw_file := foreign_controls host_demo_binding [host_demo_stop] (hw_file ?w)\<rparr>"
  have s: "host_step host_demo_config ?w ?v"
    using host_step.other [of host_demo_config ?w "[host_demo_stop]"] by simp
  have f: "hw_file ?v = host_demo_file host_demo_stopped"
    using host_demo_stop_run by (simp add: foreign_controls_def host_demo_world_def)
  have "d = host_demo_stopped" if "stored host_demo_binding (hw_file ?v) d" for d
    using load_stored_eq [OF that, of host_demo_stopped] host_demo_load(2) f by simp
  moreover have "ck_last_task host_demo_stopped = None"
    by (simp add: host_demo_stopped_def control_update_def host_demo_doc_def checkpoint_empty_def)
  ultimately have "\<not> (\<exists>d t. stored host_demo_binding (hw_file ?v) d \<and> ck_last_task d = Some t)" by fastforce
  moreover have "hw_file ?v \<noteq> File_Absent" unfolding f by (simp add: host_demo_file_def)
  moreover have "host_steps host_demo_config ?w ?v" using s by blast
  ultimately have "\<exists>d. runtime_load host_demo_binding (hw_file ?v) = Inr d"
    using host_checkpoint_sound [OF host_demo_hex(1), of ?w ?v] host_demo_load(1)
    by (auto simp: host_demo_world_def)
  with s f show ?thesis by blast
qed

text \<open>
  The history of owner commands is append-only. Between two readable checkpoints of a run the
  earlier commands are a prefix of the later ones, the new ones carry revisions in between, no
  command identity is recorded twice, and revision and generation never go back; an unchanged
  revision means an unchanged checkpoint.
\<close>

theorem owner_history_append_only:
  assumes "hex_digest (rb_sha (hc_binding c))" "host_steps c w w'"
    and "runtime_load (hc_binding c) (hw_file w) = Inr d" "runtime_load (hc_binding c) (hw_file w') = Inr d'"
  shows "(\<exists>cs. ck_commands d' = ck_commands d @ cs \<and>
      (\<forall>c \<in> set cs. ck_revision d < cm_revision c \<and> cm_revision c \<le> ck_revision d')) \<and>
    distinct (map cm_id (ck_commands d')) \<and> sorted_wrt (<) (map cm_revision (ck_commands d')) \<and>
    ck_revision d \<le> ck_revision d' \<and> ck_generation d \<le> ck_generation d' \<and>
    (ck_revision d' = ck_revision d \<longrightarrow> d' = d)"
proof -
  have l: "later (hc_binding c) (hw_file w) (hw_file w')" by (rule host_steps_later [OF assms(2,1)])
  have x: "extends d d'" by (rule later_extends [OF l assms(3,4)])
  have v: "commands_valid (ck_revision d') [] 0 (ck_commands d')"
    by (rule valid_fields(7) [OF runtime_load_valid [OF assms(4)]])
  have "ck_revision d' = ck_revision d \<longrightarrow> d' = d"
    using later_revision [OF l assms(3,4)] assms(3,4) by auto
  with x v commands_valid_facts [OF v] commands_valid_bound [OF v] show ?thesis
    by (auto simp: extends_def)
qed

lemma owner_history_append_only_witness:
  "\<exists>cs. ck_commands host_demo_stopped = ck_commands host_demo_doc @ cs \<and>
    (\<forall>c \<in> set cs. 1 < cm_revision c \<and> cm_revision c \<le> 2)"
proof -
  let ?w = "host_demo_world (host_demo_file host_demo_doc)"
  have s: "host_steps host_demo_config ?w (?w\<lparr>hw_file := foreign_controls (hc_binding host_demo_config) [host_demo_stop] (hw_file ?w)\<rparr>)"
    by (intro r_into_rtranclp host_step.other)
  have "ck_revision host_demo_doc = 1" "ck_revision host_demo_stopped = 2"
    by (simp_all add: host_demo_doc_def host_demo_stopped_def)
  with owner_history_append_only [OF host_demo_hex(1) s, of host_demo_doc host_demo_stopped] show ?thesis
    using host_demo_stop_run host_demo_load by (auto simp: foreign_controls_def host_demo_world_def)
qed

text \<open>
  C9: STOP is terminal. Once a checkpoint says \<open>STOPPED\<close>, every later one of any run does, with the
  state \<open>STOP\<close> and no further command; and a tick that can read it returns \<open>False\<close>, which ends the
  loop of \<open>serve\<close>, without a call of the scheduler.
\<close>

theorem stop_is_terminal:
  assumes "hex_digest (rb_sha (hc_binding c))" "host_steps c w w'"
    and "runtime_load (hc_binding c) (hw_file w) = Inr d" "ck_desired d = Want_STOPPED"
  shows "\<exists>d'. runtime_load (hc_binding c) (hw_file w') = Inr d' \<and> ck_desired d' = Want_STOPPED \<and>
    ck_state d' = Host_STOP \<and> ck_commands d' = ck_commands d \<and>
    (\<forall>p. ho_access p (hw_calls w') = None \<longrightarrow> (\<exists>w''. host_tick c p w' = (w'', Inr False) \<and>
       hw_scheduler w'' = hw_scheduler w' \<and> hw_file w'' = hw_file w'))"
proof -
  have l: "later (hc_binding c) (hw_file w) (hw_file w')" by (rule host_steps_later [OF assms(2,1)])
  from later_load [OF l assms(3)] obtain d' where d': "extends d d'"
      "runtime_load (hc_binding c) (hw_file w') = (if opt_identifier (ck_last_task d') then Inr d' else Inl corrupt)"
    by metis
  have "opt_identifier (ck_last_task d)"
    using runtime_load_valid [OF assms(3)] by (simp add: valid_but_task_iff)
  with d' assms(4) have r: "runtime_load (hc_binding c) (hw_file w') = Inr d'" "ck_desired d' = Want_STOPPED"
      "ck_commands d' = ck_commands d" by (auto simp: extends_def)
  moreover have "ck_state d' = Host_STOP"
    using runtime_load_valid [OF r(1)] r(2) by (simp add: checkpoint_valid_def)
  ultimately show ?thesis using stopped_tick [OF assms(1) r(1,2)] by blast
qed

lemma stop_is_terminal_witness:
  "\<exists>d. runtime_load host_demo_binding (hw_file (host_demo_world (host_demo_file host_demo_stopped))) = Inr d \<and>
    ck_state d = Host_STOP \<and> (\<exists>w. host_tick host_demo_config host_demo_ports
      (host_demo_world (host_demo_file host_demo_stopped)) = (w, Inr False))"
proof -
  let ?w = "host_demo_world (host_demo_file host_demo_stopped)"
  have "runtime_load (hc_binding host_demo_config) (hw_file ?w) = Inr host_demo_stopped"
    using host_demo_load by (simp add: host_demo_world_def)
  moreover have "ck_desired host_demo_stopped = Want_STOPPED"
    by (simp add: host_demo_stopped_def control_update_def)
  moreover have "ho_access host_demo_ports (hw_calls ?w) = None" by (simp add: host_demo_ports_def)
  ultimately show ?thesis
    using stop_is_terminal [OF host_demo_hex(1) rtranclp.rtrancl_refl, of ?w host_demo_stopped] by auto
qed

text \<open>
  C2: nothing is dispatched past the owner. If a tick sends anything to the notification adapter,
  it does so in one scheduler tick that starts right where the guard \<open>before_scheduler\<close> returned;
  there the checkpoint, which only owner commands may have changed since the tick began, says
  \<open>RUNNING\<close> and names this very attachment.
\<close>

theorem dispatch_is_gated:
  assumes "hex_digest (rb_sha (hc_binding c))" "host_tick c p w = (w', r)"
    and "sw_dispatched (hw_scheduler w') \<noteq> sw_dispatched (hw_scheduler w)"
  shows "\<exists>w1 w2 d. control_steps (hc_binding c) (hw_file w) (hw_file w1) \<and>
    guard c p ''before_scheduler'' w1 = (w2, Inr ()) \<and> runtime_load (hc_binding c) (hw_file w2) = Inr d \<and>
    ck_desired d = Want_RUNNING \<and> hw_owner w \<noteq> None \<and> ck_owner d = hw_owner w \<and>
    Some (ck_generation d) = hw_generation w \<and>
    sw_dispatched (hw_scheduler w') = sw_dispatched (fst (tick (hc_scheduler c) (ho_scheduler p (hw_calls w2))
      (rb_subject_id (hc_binding c)) (rb_environment (hc_binding c)) (hw_scheduler w2)))"
proof -
  from host_tick_gated [OF assms(1), of p] assms(2,3) obtain w1 w2 where g: "gated_at c p w w1 w2 w'"
    by (auto simp: gated_def quiet_def dest: spec [of _ w])
  then have b: "before_work (hc_binding c) w w1" "guard c p ''before_scheduler'' w1 = (w2, Inr ())"
    by (simp_all add: gated_at_def)
  from guard_passed [OF b(2) assms(1)] obtain d where d: "runtime_load (hc_binding c) (hw_file w2) = Inr d"
      "ck_desired d = Want_RUNNING" "ck_owner d = hw_owner w2" "hw_owner w2 \<noteq> None"
      "Some (ck_generation d) = hw_generation w2" by metis
  have "before_work (hc_binding c) w1 w2" by (rule keeps_run [OF guard_before_work [OF assms(1)] b(2)])
  with b(1) have "hw_owner w2 = hw_owner w" "hw_generation w2 = hw_generation w"
    by (auto simp: before_work_def)
  with b d g show ?thesis by (auto simp: gated_at_def before_work_def)
qed

lemma host_demo_scheduler: "\<exists>s r. tick demo_config demo_ports ''s'' ''TEST'' demo_world = (s, Inr r) \<and> sw_dispatched s \<noteq> []"
  using tick_delivers [OF demo_config_ok demo_cooperative demo_load_ports demo_waiting_ok demo_ready(2)]
  by (fastforce simp: demo_ready(1))

abbreviation host_demo_at :: "nat \<Rightarrow> host_world" where
  "host_demo_at n \<equiv> (host_demo_world (host_demo_file host_demo_doc))\<lparr>hw_calls := n\<rparr>"

lemma host_demo_doc_fields: "ck_desired host_demo_doc = Want_RUNNING" "ck_owner host_demo_doc = Some ''owner:u''"
    "ck_generation host_demo_doc = 1" "ck_commands host_demo_doc = []" "ck_last_time host_demo_doc = None"
    "ck_next_check_at host_demo_doc = None"
  by (simp_all add: host_demo_doc_def checkpoint_empty_def)

lemma host_demo_load_run: "host_load host_demo_config host_demo_ports (host_demo_at n) = (host_demo_at (Suc n), Inr host_demo_doc)"
  using host_demo_load by (simp add: host_load_def host_file_def foreign_controls_def Let_def sread_def
      host_demo_ports_def host_demo_world_def)

lemma host_demo_ports_fields:
  "ho_hook host_demo_ports = (\<lambda>_ _. Inr ())" "ho_clock host_demo_ports = (\<lambda>_. Inr (utc_val demo_now))"
  "ho_subject host_demo_ports = (\<lambda>_. Inr PNone)" "ho_needs host_demo_ports = (\<lambda>_ _. Inr [])"
  "ho_scheduler host_demo_ports = (\<lambda>_. demo_ports)"
  by (simp_all add: host_demo_ports_def)

lemma host_demo_at_fields:
  "hw_owner (host_demo_at n) = Some ''owner:u''" "hw_generation (host_demo_at n) = Some 1"
  "hw_scheduler (host_demo_at n) = demo_world" "hw_calls (host_demo_at n) = n"
  "host_ask f (host_demo_at n) = (host_demo_at (Suc n), f n)"
  by (simp_all add: host_demo_world_def host_ask_def)

lemmas host_demo_run = sbind_def prog_simps host_demo_load_run host_demo_ports_fields host_demo_at_fields
  host_demo_doc_fields host_now_def lifecycle_active_def lifecycle_status_def host_utc_def time_before_def

lemma host_demo_guard: "guard host_demo_config host_demo_ports stage (host_demo_at n) = (host_demo_at (n + 4), Inr ())"
  by (simp add: guard_def host_demo_run del: host_world.update_defs)

lemma host_demo_work:
  "sw_dispatched (hw_scheduler (fst (tick_work host_demo_config host_demo_ports r now jumped (host_demo_at 3)))) \<noteq> []"
proof -
  obtain s t where t: "tick demo_config demo_ports ''s'' ''TEST'' demo_world = (s, Inr t)" "sw_dispatched s \<noteq> []"
    using host_demo_scheduler by blast
  define rest where "rest = (\<lambda>result :: scheduler_tick_result. if tr_status result = Tick_COMPLETED \<or> tr_status result = Tick_RECONCILED_COMPLETED
     then sbind (host_ask (\<lambda>n. ho_fault host_demo_ports n ''after_scheduler_completed'')) (\<lambda>_.
       case tr_task result of
         None \<Rightarrow> slift (Inl (AttributeError, ''object has no attribute task_id''))
       | Some task \<Rightarrow> observe host_demo_config host_demo_ports r (observed\<lparr>
           ob_activity := (if take 12 (st_task_id task) = ''maintenance:'' then Act_MAINTENANCE else Act_COGNITION),
           ob_reason := ''TASK_COMPLETED'', ob_now := Some now, ob_last_task := Some (st_task_id task),
           ob_delay := Some (pol_minimum_spacing_seconds (hc_policy host_demo_config))\<rparr>))
     else observe host_demo_config host_demo_ports r
       ((tick_observation (hc_policy host_demo_config) jumped False (tr_status result))\<lparr>ob_now := Some now\<rparr>))"
  have q: "keeps quiet (rest x)" for x
    unfolding rest_def by (auto intro!: qt.rules observe_quiet split: option.split)
  let ?w = "(host_demo_at 13)\<lparr>hw_scheduler := s\<rparr>"
  have "host_scheduler host_demo_ports (\<lambda>sp. tick demo_config sp ''s'' ''TEST'') (host_demo_at 12) = (?w, Inr t)"
    using t(1) by (simp add: host_scheduler_def Let_def host_demo_ports_def host_demo_world_def)
  then have "tick_work host_demo_config host_demo_ports r now jumped (host_demo_at 3) = rest t ?w"
    unfolding tick_work_def by (simp add: host_demo_run host_demo_guard rest_def)
  moreover have "sw_dispatched (hw_scheduler (fst (rest t ?w))) = sw_dispatched s"
    using keepsD [OF q] by (simp add: quiet_def)
  ultimately show ?thesis using t(2) by simp
qed

lemma dispatch_is_gated_witness:
  "\<exists>w1 w2. guard host_demo_config host_demo_ports ''before_scheduler'' w1 = (w2, Inr ()) \<and>
    sw_dispatched (hw_scheduler (fst (host_tick host_demo_config host_demo_ports (host_demo_at 0)))) =
      sw_dispatched (fst (tick demo_config (ho_scheduler host_demo_ports (hw_calls w2)) ''s'' ''TEST'' (hw_scheduler w2)))"
proof -
  let ?c = host_demo_config and ?p = host_demo_ports
  have catch: "sw_dispatched (hw_scheduler (fst (scatch m h w))) = sw_dispatched (hw_scheduler (fst (m w)))"
    if "\<And>e. keeps quiet (h e)" for m h and w :: host_world
  proof -
    obtain w' r where m: "m w = (w', r)" by fastforce
    then show ?thesis using keepsD [OF that] by (cases r) (auto simp: scatch_def quiet_def)
  qed
  have q: "keeps quiet (tick_failed ?c ?p r now e)" for r now e by (rule tick_failed_quiet)
  have "sw_dispatched (hw_scheduler (fst (tick_loaded ?c ?p host_demo_doc (host_demo_at 1)))) \<noteq> []"
    using host_demo_work by (simp add: tick_loaded_def tick_at_def host_demo_run catch [OF q] numeral_3_eq_3)
  then have "sw_dispatched (hw_scheduler (fst (inner_tick ?c ?p (host_demo_at 0)))) \<noteq> []"
    by (simp add: inner_tick_def host_demo_run)
  moreover have "sw_dispatched (hw_scheduler (fst (host_tick ?c ?p w))) = sw_dispatched (hw_scheduler (fst (inner_tick ?c ?p w)))" for w
    by (auto simp: host_tick_def checkpoint_backoff_def scatch_def sbind_def prog_simps host_print_def
        split: prod.splits sum.splits)
  ultimately have d: "sw_dispatched (hw_scheduler (fst (host_tick ?c ?p (host_demo_at 0)))) \<noteq>
      sw_dispatched (hw_scheduler (host_demo_at 0))"
    by (simp add: host_demo_world_def) (simp add: demo_world_def)
  obtain w' r where "host_tick ?c ?p (host_demo_at 0) = (w', r)" by fastforce
  from dispatch_is_gated [OF host_demo_hex(1) this] d this show ?thesis by auto
qed

text \<open>
  C10: an observation never overwrites a newer owner command. If commands were recorded after a
  tick first read the checkpoint, then the checkpoint is, when the tick ends, as the last of them
  left it: its state, activity and reason, no time for a next check, and the owner, the trusted time,
  the last task and the count of observations from before the tick.
\<close>

theorem newer_command_survives:
  assumes "hex_digest (rb_sha (hc_binding c))" "ho_foreign p (hw_calls w) = []" "host_tick c p w = (w', r)"
    and "runtime_load (hc_binding c) (hw_file w) = Inr d" "runtime_load (hc_binding c) (hw_file w') = Inr d'"
    and "ck_commands d' \<noteq> ck_commands d"
  shows "\<exists>oper. cm_operation (last (ck_commands d')) = oper \<and> ck_desired d' = desired_of oper \<and>
    ck_state d' = control_state oper \<and> ck_activity d' = control_activity oper \<and>
    ck_reason d' = ''OWNER_'' @ host_operation_value oper \<and> ck_next_check_at d' = None \<and>
    ck_owner d' = ck_owner d \<and> ck_generation d' = ck_generation d \<and> ck_last_time d' = ck_last_time d \<and>
    ck_last_task d' = ck_last_task d \<and> ck_observations d' = ck_observations d"
proof -
  have "settled (hc_binding c) (hw_file w) d (hw_file w')"
    using host_tick_settled [OF assms(1,4,2)] assms(3) by simp
  then have "control_steps (hc_binding c) (hw_file w) (hw_file w')"
    using assms(5,6) load_stored_eq by (fastforce simp: settled_def)
  from control_steps_load [OF this assms(4)] assms(5) have "only_controlled d d'" by (metis sum.inject(2))
  with assms(6) show ?thesis by (auto simp: only_controlled_def set_by_control_def Let_def)
qed

lemma newer_command_survives_witness:
  "\<exists>w' d'. host_tick host_demo_config (host_demo_ports\<lparr>ho_clock := (\<lambda>_. Inr PNone),
      ho_foreign := (\<lambda>n. if n = 3 then [host_demo_stop] else [])\<rparr>) (host_demo_world (host_demo_file host_demo_doc)) =
      (w', Inr False) \<and> runtime_load host_demo_binding (hw_file w') = Inr d' \<and> ck_state d' = Host_STOP"
proof -
  let ?p = "host_demo_ports\<lparr>ho_clock := (\<lambda>_. Inr PNone), ho_foreign := (\<lambda>n. if n = 3 then [host_demo_stop] else [])\<rparr>"
  let ?w = "host_demo_world (host_demo_file host_demo_doc)"
  have d: "ck_desired host_demo_doc = Want_RUNNING" "ck_owner host_demo_doc = Some ''owner:u''"
      "ck_generation host_demo_doc = 1" "ck_commands host_demo_doc = []"
    by (simp_all add: host_demo_doc_def checkpoint_empty_def)
  have st: "ck_desired host_demo_stopped = Want_STOPPED" "ck_owner host_demo_stopped = Some ''owner:u''"
      "ck_generation host_demo_stopped = 1" "length (ck_commands host_demo_stopped) = 1"
    by (simp_all add: host_demo_stopped_def control_update_def d)
  have r: "host_tick host_demo_config ?p ?w =
      (?w\<lparr>hw_file := host_demo_file host_demo_stopped, hw_calls := 4\<rparr>, Inr False)"
    using d st host_demo_load
    by (simp add: host_tick_def inner_tick_def tick_loaded_def scatch_def sbind_def prog_simps host_load_def host_file_def
        Let_def foreign_controls_def sread_def host_ask_def observe_def host_transaction_def runtime_transaction_def
        runtime_current_Some [THEN iffD2] observe_locked_def host_demo_stop_run host_demo_world_def host_demo_ports_def
        lifecycle_status_def host_utc_def)
  have "ck_commands host_demo_stopped \<noteq> ck_commands host_demo_doc" using d st by auto
  with newer_command_survives [OF host_demo_hex(1) _ r, of host_demo_doc host_demo_stopped]
  have "ck_state host_demo_stopped = control_state (cm_operation (last (ck_commands host_demo_stopped)))"
    using host_demo_load by (auto simp: host_demo_world_def)
  moreover have "cm_operation (last (ck_commands host_demo_stopped)) = Op_STOP"
    by (simp add: host_demo_stopped_def control_update_def)
  ultimately show ?thesis using r host_demo_load by (auto simp: host_demo_world_def)
qed

text \<open>
  A recorded command can be sent again. If a command was accepted and recorded, then sending it
  again after any further run, under the same principal, returns the current checkpoint and leaves
  the file as it is, whatever the operation and whatever happened in between.
\<close>

theorem command_replay_is_free:
  assumes "hex_digest (rb_sha b)" "control_file b call f = (f1, Inr d1)" "later b f1 f2"
    and "runtime_load b f2 = Inr d2" "rb_digest b (PStr (cc_command_id call)) = Inr ident"
    and "ident \<in> cm_id ` set (ck_commands d1)"
    and "cc_identity again = cc_identity call" "cc_identity_locked again = cc_identity call"
    and "cc_operation again = cc_operation call" "cc_command_id again = cc_command_id call"
    and "cc_expected_revision again = cc_expected_revision call" "cc_access again = None"
  shows "control_file b again f2 = (f2, Inr d2)"
proof -
  have l1: "runtime_load b f1 = Inr d1" by (rule control_file_loads [OF assms(1,2)])
  from assms(2) obtain oper who key where c: "require_enum (boundary ''RUNTIME_CONTROL_OPERATION'')
        host_operation_value host_operations (PStr (cc_operation call)) = Inr oper"
      "is_identifier (cc_command_id call)" "principal_of b (cc_operation call) (cc_identity call) = Inr who"
      "rb_digest b (PList [PStr (cc_command_id call), PStr (cc_operation call), cc_expected_revision call,
         PStr (pr_principal_id who), PStr (rb_subject_id b), PStr (rb_environment b)]) = Inr key"
      "runtime_transaction b (cc_access call) (control_locked b call oper who ident key) f = (f1, Inr d1)"
    using assms(5) unfolding control_file_def sbind_lift_Inr require_identifier_def ensure_eq_Inr
    by (metis sum.inject(2))
  from c(5) obtain found where "control_locked b call oper who ident key found f = (f1, Inr d1)"
    by (auto simp: transaction_Inr)
  then obtain d0 where d0: "control_locked b call oper who ident key (Some d0) f = (f1, Inr d1)"
    by (cases found) (auto simp: control_locked_None)
  have "distinct (map cm_id (ck_commands d1))"
    using commands_valid_facts [OF valid_fields(7) [OF runtime_load_valid [OF l1]]] by simp
  moreover obtain old where old: "old \<in> set (ck_commands d1)" "cm_id old = ident" "cm_hash old = key"
  proof (cases "List.find (\<lambda>c. cm_id c = ident) (ck_commands d0)")
    case (Some x)
    then have "x \<in> set (ck_commands d0)" "cm_id x = ident" by (auto simp: find_Some_iff)
    moreover have "cm_hash x = key" "d1 = d0" using control_locked_Inr [OF d0] Some by auto
    ultimately show thesis using that by blast
  next
    case None
    then have "d1 = d0 \<or> d1 = (control_update oper ident key d0)\<lparr>ck_revision := ck_revision d0 + 1\<rparr>"
      using control_locked_Inr [OF d0] by auto
    moreover have "d1 \<noteq> d0" using None assms(6) by (auto simp: find_None_iff)
    ultimately show thesis using that [of "last (ck_commands d1)"] by (simp add: control_update_def)
  qed
  moreover obtain cs where "ck_commands d2 = ck_commands d1 @ cs"
    using later_extends [OF assms(3) l1 assms(4)] by (auto simp: extends_def)
  moreover have "distinct (map cm_id (ck_commands d2))"
    using commands_valid_facts [OF valid_fields(7) [OF runtime_load_valid [OF assms(4)]]] by simp
  then have "inj_on cm_id (set (ck_commands d2))" by (simp add: distinct_map)
  ultimately have "List.find (\<lambda>c. cm_id c = ident) (ck_commands d2) = Some old"
    using find_inj [of old "ck_commands d2" cm_id] by auto
  then have "control_locked b again oper who ident key (Some d2) f2 = (f2, Inr d2)"
    using c(3) old(3) by (simp add: control_locked_def sbind_def slift_def sret_def assms(7-11))
  moreover have "runtime_current b f2 = Inr (Some d2)" using assms(4) by (simp add: runtime_current_Some)
  ultimately show ?thesis
    using c(1-4) assms(5) unfolding control_file_def sbind_lift_Inr assms(7-12) require_identifier_def transaction_Inr
    by simp
qed

lemma command_replay_is_free_witness:
  "control_file host_demo_binding host_demo_stop (host_demo_file host_demo_stopped) =
    (host_demo_file host_demo_stopped, Inr host_demo_stopped)"
proof -
  have "host_demo_digest \<in> cm_id ` set (ck_commands host_demo_stopped)"
    by (simp add: host_demo_stopped_def control_update_def)
  moreover have "cc_identity_locked host_demo_stop = cc_identity host_demo_stop" "cc_access host_demo_stop = None"
    by (simp_all add: host_demo_stop_def)
  ultimately show ?thesis
    using command_replay_is_free [OF host_demo_hex(2) host_demo_stop_run later_refl host_demo_load(2) host_demo_digests,
      of host_demo_stop] by simp
qed

text \<open>
  A stopped host ends. When the checkpoint says \<open>STOPPED\<close> and disk and locks answer, \<open>serve\<close>
  returns after one attachment and one tick, whatever commands arrive meanwhile: the service is
  detached again, the checkpoint has no owner any more, and the scheduler was not called.
\<close>

theorem stop_ends_serve:
  assumes "hex_digest (rb_sha (hc_binding c))" "runtime_load (hc_binding c) (hw_file w) = Inr d"
    and "ck_desired d = Want_STOPPED" "hw_owner w = None"
    and "\<forall>n. ho_access p n = None \<and> ho_failure p n = None \<and> ho_owner_lock p n = None"
    and "\<forall>v. \<exists>h. rb_digest (hc_binding c) v = Inr h"
  shows "\<exists>w' d'. serve c p (Suc (Suc n)) w = (w', Inr True) \<and> hw_owner w' = None \<and>
    hw_scheduler w' = hw_scheduler w \<and> runtime_load (hc_binding c) (hw_file w') = Inr d' \<and>
    ck_desired d' = Want_STOPPED \<and> ck_owner d' = None"
proof -
  let ?b = "hc_binding c"
  have no: "foreign_controls ?b calls f = f" if "runtime_load ?b f = Inr d" for calls f
    by (rule stopped_controls [OF foreign_controls_steps [OF assms(1)] that assms(3)])
  define w1 where "w1 = w\<lparr>hw_calls := hw_calls w + 2, hw_owner := ck_owner d, hw_generation := Some (ck_generation d)\<rparr>"
  have cur: "runtime_current ?b (hw_file w) = Inr (Some d)" using assms(2) by (simp add: runtime_current_Some)
  have a: "host_attach c p w = (w1, Inr ())"
    using assms(2-5) cur by (simp add: host_attach_def sbind_def prog_simps host_ask_def host_transaction_def host_file_def
        Let_def no runtime_transaction_def sread_def attach_locked_def w1_def)
  have "\<exists>w2. host_tick c p w1 = (w2, Inr False) \<and> hw_scheduler w2 = hw_scheduler w1 \<and> hw_file w2 = hw_file w1
      \<and> hw_owner w2 = hw_owner w1 \<and> hw_generation w2 = hw_generation w1 \<and> hw_calls w2 = hw_calls w1 + 1"
    by (rule stopped_tick [OF assms(1) _ assms(3)]) (use assms(2,5) in \<open>simp_all add: w1_def\<close>)
  then obtain w2 where t: "host_tick c p w1 = (w2, Inr False)" and w2: "hw_scheduler w2 = hw_scheduler w"
      "hw_file w2 = hw_file w" "hw_owner w2 = ck_owner d" "hw_generation w2 = Some (ck_generation d)"
    by (auto simp: w1_def)
  let ?d = "(detach_update False d)\<lparr>ck_revision := ck_revision d + 1\<rparr>"
  obtain h where h: "rb_digest ?b (checkpoint_to_dict ?d) = Inr h" using assms(6) by blast
  define f where "f = File_Doc (checkpoint_envelope h ?d)"
  have "stored ?b f ?d" using h by (simp add: stored_def f_def)
  then have l: "runtime_load ?b f = Inr ?d"
    using detach_update_valid [OF runtime_load_valid [OF assms(2)]] by (rule stored_load)
  have "runtime_save ?b None (detach_update False d) (hw_file w) = (f, Inr ?d)"
    using h assms(2) runtime_load_valid [OF assms(2)]
    by (auto simp: runtime_save_Inr f_def detach_extends(2) checkpoint_valid_def detach_update_def assms(3))
  then have "host_detach c p False w2 = (w2\<lparr>hw_file := f, hw_calls := hw_calls w2 + 1, hw_owner := None,
      hw_generation := None\<rparr>, Inr ())"
    using assms(2,5) cur w2 by (simp add: host_detach_def scatch_def sbind_def prog_simps host_transaction_def host_file_def
        Let_def no runtime_transaction_def sread_def detach_locked_def)
  with a t have s: "host_session c p (Suc n) w = (w2\<lparr>hw_file := f, hw_calls := hw_calls w2 + 1, hw_owner := None,
      hw_generation := None\<rparr>, Inr True)"
    by (simp add: host_session_def sbind_def scatch_def prog_simps)
  have "serve c p (Suc (Suc n)) w = (w2\<lparr>hw_file := f, hw_calls := hw_calls w2 + 1, hw_owner := None,
      hw_generation := None\<rparr>, Inr True)"
    unfolding serve.simps(2) scatch_def s by simp
  with l w2(1) show ?thesis by (simp add: detach_update_def assms(3))
qed

lemma stop_ends_serve_witness:
  "\<exists>w'. serve host_demo_config host_demo_ports 2 ((host_demo_world (host_demo_file host_demo_stopped))\<lparr>hw_owner := None\<rparr>) =
    (w', Inr True) \<and> hw_scheduler w' = demo_world"
proof -
  let ?w = "(host_demo_world (host_demo_file host_demo_stopped))\<lparr>hw_owner := None\<rparr>"
  have "runtime_load (hc_binding host_demo_config) (hw_file ?w) = Inr host_demo_stopped" "hw_owner ?w = None"
      "hw_scheduler ?w = demo_world"
    using host_demo_load by (simp_all add: host_demo_world_def)
  moreover have "ck_desired host_demo_stopped = Want_STOPPED"
    by (simp add: host_demo_stopped_def control_update_def)
  moreover have "\<forall>n. ho_access host_demo_ports n = None \<and> ho_failure host_demo_ports n = None \<and> ho_owner_lock host_demo_ports n = None"
    by (simp add: host_demo_ports_def)
  moreover have "\<forall>v. \<exists>h. rb_digest (hc_binding host_demo_config) v = Inr h"
    by (simp add: host_demo_digests)
  ultimately show ?thesis
    using stop_ends_serve [OF host_demo_hex(1), of ?w host_demo_stopped host_demo_ports 0] by (auto simp: numeral_2_eq_2)
qed

section \<open>Two oddities of the code\<close>

text \<open>
  \<open>_observe\<close> records the identity of a completed task unchecked, but \<open>load\<close> wants an identifier
  there: one completed task with another identity makes the checkpoint unreadable for good, for
  the host and for the owner's commands.
\<close>

lemma unchecked_task_corrupts:
  assumes "runtime_load (hc_binding c) f = Inr d" "ck_owner d = owner" "Some (ck_generation d) = generation"
    and "ck_desired d = Want_RUNNING" "reason_ok (ob_reason ob)" "ob_last_task ob = Some t" "\<not> is_identifier t"
    and "observe_update (hc_policy c) ob d = Inr d'" "\<forall>v. \<exists>h. rb_digest (hc_binding c) v = Inr h"
  shows "\<exists>f'. observe_locked c owner generation (Some (control_watermark d)) ob None (Some d) f = (f', Inr True) \<and>
    runtime_load (hc_binding c) f' = Inl corrupt"
proof -
  let ?b = "hc_binding c" and ?e = "d'\<lparr>ck_observations := ck_observations d + 1\<rparr>"
  let ?s = "?e\<lparr>ck_revision := ck_revision d + 1\<rparr>"
  note v = runtime_load_valid [OF assms(1)] and f = observe_update_fields [OF assms(8)]
  have t: "ck_last_task d' = Some t"
    using assms(6,8) by (auto simp: observe_update_def Let_def rbind_eq_Inr split: option.splits)
  then have "d' \<noteq> d" using v assms(7) by (auto simp: checkpoint_valid_def opt_identifier_def)
  obtain h where h: "rb_digest ?b (checkpoint_to_dict ?s) = Inr h" using assms(9) by blast
  let ?f = "File_Doc (checkpoint_envelope h ?s)"
  have "runtime_save ?b None ?e f = (?f, Inr ?s)"
    using h assms(1) v f by (auto simp: runtime_save_Inr checkpoint_valid_def)
  then have "observe_locked c owner generation (Some (control_watermark d)) ob None (Some d) f = (?f, Inr True)"
    using assms(2-4,8) \<open>d' \<noteq> d\<close> by (simp add: observe_locked_def sbind_def prog_simps)
  moreover have "valid_but_task ?b ?s"
    using observe_update_valid [OF v assms(8) _ assms(5)] assms(4) by simp
  then have "runtime_load ?b ?f = Inl corrupt"
    using stored_load_iff [of ?b ?f ?s] h t assms(7) by (simp add: stored_def opt_identifier_def)
  ultimately show ?thesis by blast
qed

text \<open>
  Leaving \<open>running()\<close> without an error keeps the owner in the checkpoint, so the next attachment
  reports the cleanly detached host as lost and its process as interrupted.
\<close>

lemma clean_detach_counts_as_lost:
  assumes "ck_desired d \<noteq> Want_STOPPED" "ck_owner d = Some i" "i \<noteq> []"
  shows "ck_state (attach_update uuid (detach_update False d)) = Host_RECOVER \<and>
    ck_reason (attach_update uuid (detach_update False d)) = ''PROCESS_INTERRUPTED_RECOVER'' \<and>
    ri_reason (last (ck_interruptions (attach_update uuid (detach_update False d)))) = Int_PRIOR_HOST_LOST"
  using assms by (simp add: attach_update_def detach_update_def Let_def)
    (simp add: interruption_def Let_def)

end
