(* ===== verification/Mind_State.thy ===== *)
theory Mind_State
  imports Subject_Lifecycle Py_Docs Py_Json
begin

text \<open>
  domain/dynamic_mind.py: the value of the numeric mind inside a SubjectState. Its nested lists
  stay the decoded documents they are in the code; \<open>mind_checks\<close> is the part of
  \<open>MindState.__post_init__\<close> that looks at them, one definition per kind of record.
\<close>

abbreviation mind_err :: "string \<Rightarrow> exn" where
  "mind_err m \<equiv> (MindValidationError, m)"

section \<open>Sets and dictionaries of decoded values\<close>

text \<open>\<open>for x in xs: f(x)\<close>.\<close>

fun each :: "('a \<Rightarrow> unit res) \<Rightarrow> 'a list \<Rightarrow> unit res" where
  "each f [] = Inr ()"
| "each f (x # xs) = rbind (f x) (\<lambda>_. each f xs)"

lemma each_eq_Inr [result_simps]: "each f xs = Inr u \<longleftrightarrow> (\<forall>x \<in> set xs. f x = Inr ())"
  by (induction xs) (auto simp: rbind_eq_Inr)

text \<open>\<open>len(xs) == len(set(xs))\<close>: a set compares by \<open>==\<close> and takes hashable items only.\<close>

fun py_distinct :: "pyval list \<Rightarrow> bool" where
  "py_distinct [] = True"
| "py_distinct (x # xs) = (\<not> list_ex (py_eq x) xs \<and> py_distinct xs)"

definition distinct_values :: "pyval list \<Rightarrow> bool res" where
  "distinct_values xs = (if list_all py_hashable xs then Inr (py_distinct xs)
     else Inl (TypeError, ''unhashable type''))"

lemma py_distinct_strings [simp]: "py_distinct (map PStr ss) = distinct ss"
  by (induction ss) (auto simp: list_ex_iff)

lemma distinct_values_strings [simp]: "distinct_values (map PStr ss) = Inr (distinct ss)"
  by (simp add: distinct_values_def list_all_iff)

text \<open>\<open>isinstance(v, dict) and set(v) in shapes\<close>.\<close>

definition has_shape :: "string list list \<Rightarrow> (string \<times> pyval) list \<Rightarrow> bool" where
  "has_shape shapes d = list_ex (\<lambda>keys. set (map fst d) = set keys) shapes"

definition shaped_dict :: "string list list \<Rightarrow> exn \<Rightarrow> pyval \<Rightarrow> (string \<times> pyval) list res" where
  "shaped_dict shapes e v = (case v of
       PDict d \<Rightarrow> if has_shape shapes d then Inr d else Inl e | _ \<Rightarrow> Inl e)"

text \<open>\<open>v in xs\<close> for a tuple or list of strings: compared, not hashed.\<close>

fun among :: "pyval \<Rightarrow> string list \<Rightarrow> bool" where
  "among (PStr s) xs = (s \<in> set xs)"
| "among _ xs = False"

fun is_bool :: "pyval \<Rightarrow> bool" where
  "is_bool (PBool b) = True"
| "is_bool _ = False"

text \<open>\<open>bool(v)\<close>.\<close>

fun truthy :: "pyval \<Rightarrow> bool" where
  "truthy PNone = False"
| "truthy (PBool b) = b"
| "truthy (PInt n) = (n \<noteq> 0)"
| "truthy (PFloat q) = (q \<noteq> 0)"
| "truthy (PStr s) = (s \<noteq> [])"
| "truthy (PTime _ _) = True"
| "truthy (PList xs) = (xs \<noteq> [])"
| "truthy (PTuple xs) = (xs \<noteq> [])"
| "truthy (PDict d) = (d \<noteq> [])"

section \<open>Checks of single values\<close>

definition mind_ratio :: "pyval \<Rightarrow> rat res" where
  "mind_ratio v = (case v of
       PInt n \<Rightarrow> if 0 \<le> n \<and> n \<le> 1 then Inr (of_int n) else Inl (mind_err ''MIND_RATIO_INVALID'')
     | PFloat q \<Rightarrow> if 0 \<le> q \<and> q \<le> 1 then Inr q else Inl (mind_err ''MIND_RATIO_INVALID'')
     | _ \<Rightarrow> Inl (mind_err ''MIND_RATIO_INVALID''))"

definition mind_strings :: "pyval \<Rightarrow> string list res" where
  "mind_strings v = (case v of
       PList xs \<Rightarrow> if 64 < length xs then Inl (mind_err ''MIND_REFERENCES_INVALID'')
         else rbind (rmap mind_text xs) (\<lambda>ss.
           if distinct ss then Inr ss else Inl (mind_err ''MIND_DUPLICATE_REFERENCES''))
     | _ \<Rightarrow> Inl (mind_err ''MIND_REFERENCES_INVALID''))"

definition mind_timestamp :: "pyval \<Rightarrow> string res" where
  "mind_timestamp v = rbind (mind_utc v) (\<lambda>t. Inr (format_z t))"

text \<open>\<open>text(d[k])\<close> for several keys, in order.\<close>

definition mind_texts :: "(string \<times> pyval) list \<Rightarrow> string list \<Rightarrow> unit res" where
  "mind_texts d ks = each (\<lambda>k. rbind (mind_text (dict_get d k)) (\<lambda>_. Inr ())) ks"

text \<open>\<open>if not utc(a) <= utc(b) <= at: raise e\<close>.\<close>

definition times_within :: "exn \<Rightarrow> pyval \<Rightarrow> pyval \<Rightarrow> instant \<Rightarrow> unit res" where
  "times_within e a b at_most = rbind (mind_utc a) (\<lambda>a. rbind (mind_utc b) (\<lambda>b.
     ensure (a \<le> b \<and> b \<le> at_most) e))"

lemma mind_ratio_eq_Inr [validator_defs]:
  "mind_ratio v = Inr q \<longleftrightarrow> 0 \<le> q \<and> q \<le> 1 \<and> (v = PFloat q \<or> (\<exists>n. v = PInt n \<and> q = of_int n))"
  by (auto simp: mind_ratio_def split: pyval.splits if_splits)

lemma mind_strings_eq_Inr [validator_defs]:
  "mind_strings v = Inr ss \<longleftrightarrow> v = PList (map PStr ss) \<and> length ss \<le> 64 \<and> distinct ss \<and>
     (\<forall>s \<in> set ss. \<not> blank s \<and> length s \<le> 4096)"
proof -
  have "rmap mind_text xs = Inr ss \<longleftrightarrow> xs = map PStr ss \<and> (\<forall>s \<in> set ss. \<not> blank s \<and> length s \<le> 4096)" for xs
    by (induction xs arbitrary: ss) (auto simp: rbind_eq_Inr mind_text_eq_Inr)
  then show ?thesis
    by (auto simp: mind_strings_def rbind_eq_Inr split: pyval.splits if_splits)
qed

section \<open>The records of a mind\<close>

definition drive_names :: "string list" where
  "drive_names = [''intimacy'', ''exploration'', ''sexual'', ''solitude'', ''expression'',
     ''protection'', ''rest'']"

definition somatic_names :: "string list" where
  "somatic_names = [''tension'', ''relaxation'', ''restlessness'', ''heaviness'', ''excitement'', ''warmth'']"

definition phase_names :: "string list" where
  "phase_names = [''arise'', ''intensify'', ''weaken'', ''persist'', ''suppress'', ''fail_to_suppress'',
     ''disappear'', ''recur'', ''conflict'', ''transform'', ''act'', ''abandon'']"

definition episode_kinds :: "string list" where
  "episode_kinds = [''joy'', ''sadness'', ''fear'', ''disgust'', ''anger'', ''boredom'', ''delight'',
     ''helplessness'']"

text \<open>The identity by which the records of a list must differ.\<close>

definition record_identity :: "(string \<times> pyval) list \<Rightarrow> pyval" where
  "record_identity d = dict_get_or (dict_get_or (PTuple [dict_get d ''object'', dict_get d ''kind''])
     d ''desire_id'') d ''id''"

definition mind_records :: "string \<Rightarrow> string list list \<Rightarrow> pyval \<Rightarrow> (string \<times> pyval) list list res" where
  "mind_records name shapes v = (case v of
       PList xs \<Rightarrow> if 64 < length xs then Inl (mind_err ''MIND_STATE_CAPACITY_EXCEEDED'')
         else rbind (rmap (shaped_dict shapes (mind_err (''MIND_RECORD_SHAPE_INVALID:'' @ name))) xs) (\<lambda>ds.
           rbind (distinct_values (map record_identity ds)) (\<lambda>fresh.
           if fresh then Inr ds else Inl (mind_err ''MIND_RECORD_IDENTITY_CONFLICT'')))
     | _ \<Rightarrow> Inl (mind_err ''MIND_STATE_CAPACITY_EXCEEDED''))"

definition mind_dimensions :: "string list \<Rightarrow> pyval \<Rightarrow> unit res" where
  "mind_dimensions names v =
     rbind (shaped_dict [names] (mind_err ''MIND_DIMENSIONS_INCOMPLETE'') v) (\<lambda>d.
     each (\<lambda>x. rbind (mind_ratio (snd x)) (\<lambda>_. Inr ())) d)"

text \<open>A bounded list of points, each checked by \<open>f\<close>.\<close>

definition mind_trajectory :: "exn \<Rightarrow> pyval \<Rightarrow> (pyval \<Rightarrow> unit res) \<Rightarrow> unit res" where
  "mind_trajectory e v f = (case v of
       PList xs \<Rightarrow> if 8 < length xs then Inl e else each f xs | _ \<Rightarrow> Inl e)"

definition episode_keys :: "string list" where
  "episode_keys = [''id'', ''object'', ''kind'', ''source_keys'', ''interpretation'', ''unresolved'',
     ''status'', ''intensity'', ''created_at'', ''updated_at'', ''trajectory'', ''resolution'']"

definition episode_basis :: "instant \<Rightarrow> string list \<Rightarrow> (string \<times> pyval) list \<Rightarrow> unit res" where
  "episode_basis updated sources d = (case map_of d ''concern_basis'' of
       None \<Rightarrow> Inr ()
     | Some v \<Rightarrow>
         rbind (shaped_dict [[''source_key'', ''occurred_at'']] (mind_err ''MIND_CONCERN_BASIS_INVALID'') v) (\<lambda>basis.
         rbind (ensure (among (dict_get basis ''source_key'') sources) (mind_err ''MIND_CONCERN_BASIS_INVALID'')) (\<lambda>_.
         rbind (mind_utc (dict_get basis ''occurred_at'')) (\<lambda>t.
         ensure (t \<le> updated) (mind_err ''MIND_CONCERN_BASIS_INVALID'')))))"

definition episode_resolution :: "string list \<Rightarrow> (string \<times> pyval) list \<Rightarrow> unit res" where
  "episode_resolution sources d = (if dict_get d ''resolution'' = PNone then Inr () else
     rbind (shaped_dict [[''episode_id'', ''interpretation'', ''reason'', ''source_keys'', ''resolve'']]
       (mind_err ''MIND_RESOLUTION_SHAPE_INVALID'') (dict_get d ''resolution'')) (\<lambda>r.
     rbind (mind_strings (dict_get r ''source_keys'')) (\<lambda>keys.
     rbind (mind_texts r [''interpretation'', ''reason'']) (\<lambda>_.
     rbind (ensure (is_bool (dict_get r ''resolve'') \<and> dict_get r ''episode_id'' = dict_get d ''id'')
       (mind_err ''MIND_RESOLUTION_BINDING_INVALID'')) (\<lambda>_.
     ensure (keys \<noteq> [] \<and> set keys \<subseteq> set sources) (mind_err ''MIND_RESOLUTION_BINDING_INVALID''))))))"

definition mind_episode :: "instant \<Rightarrow> (string \<times> pyval) list \<Rightarrow> unit res" where
  "mind_episode updated d =
     rbind (mind_texts d [''id'', ''unresolved'']) (\<lambda>_.
     rbind (ensure (among (dict_get d ''kind'') episode_kinds) (mind_err ''MIND_EPISODE_INVALID'')) (\<lambda>_.
     rbind (in_strings (dict_get d ''status'') [''unresolved'', ''processing'', ''resolved'']) (\<lambda>status_ok.
     rbind (ensure status_ok (mind_err ''MIND_EPISODE_INVALID'')) (\<lambda>_.
     rbind (mind_strings (dict_get d ''source_keys'')) (\<lambda>sources.
     rbind (episode_basis updated sources d) (\<lambda>_.
     rbind (mind_texts d [''object'', ''interpretation'']) (\<lambda>_.
     rbind (mind_ratio (dict_get d ''intensity'')) (\<lambda>_.
     rbind (times_within (mind_err ''MIND_EPISODE_TIME_INVALID'') (dict_get d ''created_at'')
       (dict_get d ''updated_at'') updated) (\<lambda>_.
     rbind (mind_trajectory (mind_err ''MIND_EPISODE_TRAJECTORY_INVALID'') (dict_get d ''trajectory'') (\<lambda>v.
       rbind (shaped_dict [[''at'', ''reason'', ''source_key'']] (mind_err ''MIND_EPISODE_TRAJECTORY_INVALID'') v) (\<lambda>p.
       rbind (mind_utc (dict_get p ''at'')) (\<lambda>_. mind_texts p [''reason'', ''source_key''])))) (\<lambda>_.
     rbind (episode_resolution sources d) (\<lambda>_.
     ensure (\<not> (dict_get d ''status'' = PStr ''resolved'' \<and> \<not> truthy (dict_get d ''resolution'')))
       (mind_err ''MIND_RESOLUTION_BASIS_MISSING''))))))))))))"

definition mind_disposition :: "(string \<times> pyval) list \<Rightarrow> unit res" where
  "mind_disposition d =
     rbind (mind_texts d [''object'', ''kind'']) (\<lambda>_.
     rbind (mind_strings (dict_get d ''basis'')) (\<lambda>basis.
     ensure (basis \<noteq> []) (mind_err ''MIND_DISPOSITION_BASIS_MISSING'')))"

definition desire_keys :: "string list" where
  "desire_keys = [''id'', ''drive'', ''object'', ''origin'', ''phase'', ''strength'', ''reason'',
     ''created_at'', ''updated_at'', ''trajectory'']"

definition mind_desire :: "(string \<times> pyval) list \<Rightarrow> unit res" where
  "mind_desire d =
     rbind (mind_texts d [''id'', ''object'']) (\<lambda>_.
     rbind (ensure (among (dict_get d ''drive'') drive_names \<and> among (dict_get d ''phase'') phase_names
       \<and> dict_get d ''origin'' = PStr ''ENDOGENOUS'') (mind_err ''MIND_DESIRE_INVALID'')) (\<lambda>_.
     rbind (mind_ratio (dict_get d ''strength'')) (\<lambda>_.
     rbind (mind_texts d [''reason'']) (\<lambda>_.
     rbind (mind_utc (dict_get d ''created_at'')) (\<lambda>_.
     rbind (mind_utc (dict_get d ''updated_at'')) (\<lambda>_.
     mind_trajectory (mind_err ''MIND_DESIRE_TRAJECTORY_INVALID'') (dict_get d ''trajectory'') (\<lambda>v.
       rbind (shaped_dict [[''at'', ''phase'', ''reason'']] (mind_err ''MIND_DESIRE_TRAJECTORY_INVALID'') v) (\<lambda>p.
       rbind (ensure (among (dict_get p ''phase'') phase_names) (mind_err ''MIND_DESIRE_TRAJECTORY_INVALID'')) (\<lambda>_.
       rbind (mind_utc (dict_get p ''at'')) (\<lambda>_. mind_texts p [''reason'']))))))))))"

definition mind_conflict :: "(string \<times> pyval) list \<Rightarrow> unit res" where
  "mind_conflict d =
     rbind (mind_texts d [''id'', ''object'', ''reason'']) (\<lambda>_.
     rbind (mind_strings (dict_get d ''poles'')) (\<lambda>poles.
     ensure (2 \<le> length poles) (mind_err ''MIND_CONFLICT_POLES_MISSING'')))"

definition thought_keys :: "string list" where
  "thought_keys = [''id'', ''theme'', ''content'', ''reason'', ''desire_ids'', ''conflict_ids'',
     ''created_at'', ''last_recurred_at'', ''recurrences'', ''unresolved'']"

definition mind_thought ::
  "instant \<Rightarrow> string list \<Rightarrow> string list \<Rightarrow> (string \<times> pyval) list \<Rightarrow> unit res" where
  "mind_thought updated desires conflicts d =
     rbind (mind_texts d [''content'', ''theme'', ''reason'']) (\<lambda>_.
     rbind (mind_strings (dict_get d ''desire_ids'')) (\<lambda>ds.
     rbind (mind_strings (dict_get d ''conflict_ids'')) (\<lambda>cs.
     rbind (ensure (plain_nat (dict_get d ''recurrences'') \<and> dict_get d ''recurrences'' \<noteq> PInt 0)
       (mind_err ''MIND_THOUGHT_RECURRENCE_INVALID'')) (\<lambda>_.
     rbind (ensure (set ds \<subseteq> set desires \<and> set cs \<subseteq> set conflicts \<and> is_bool (dict_get d ''unresolved''))
       (mind_err ''MIND_THOUGHT_BINDING_INVALID'')) (\<lambda>_.
     times_within (mind_err ''MIND_THOUGHT_BINDING_INVALID'') (dict_get d ''created_at'')
       (dict_get d ''last_recurred_at'') updated)))))"

definition will_keys :: "string list" where
  "will_keys = [''desire_id'', ''stance'', ''supporting_reasons'', ''opposing_reasons'', ''alternatives'',
     ''commitment'', ''decision'', ''action_tendency'']"

definition mind_will :: "string list \<Rightarrow> (string \<times> pyval) list \<Rightarrow> unit res" where
  "mind_will desires d =
     rbind (mind_strings (dict_get d ''supporting_reasons'')) (\<lambda>_.
     rbind (mind_strings (dict_get d ''opposing_reasons'')) (\<lambda>_.
     rbind (mind_strings (dict_get d ''alternatives'')) (\<lambda>_.
     rbind (mind_texts d [''commitment'']) (\<lambda>_.
     rbind (in_strings (dict_get d ''stance'') [''consider'', ''pursue'', ''hold'', ''abandon'']) (\<lambda>stance_ok.
     rbind (ensure stance_ok (mind_err ''MIND_WILL_INVALID'')) (\<lambda>_.
     rbind (in_strings (dict_get d ''desire_id'') desires) (\<lambda>bound.
     rbind (if bound then in_strings (dict_get d ''decision'') [''DEFER'', ''QUESTION'', ''PURSUE'']
       else Inr False) (\<lambda>decided.
     rbind (ensure decided (mind_err ''MIND_WILL_BINDING_INVALID'')) (\<lambda>_.
     mind_texts d [''action_tendency''])))))))))"

definition regulation_keys :: "string list" where
  "regulation_keys = [''strategy'', ''desire_id'', ''reason'', ''outcome'', ''capacity'', ''load'']"

text \<open>
  \<open>if self.regulation and (set(self.regulation) != {...} or ...)\<close>: the value is not checked to
  be a dictionary; \<open>set\<close> of a text is the set of its characters, and a list of exactly the
  keys fails when it is indexed by a text.
\<close>

definition regulation_dict :: "pyval \<Rightarrow> (string \<times> pyval) list res" where
  "regulation_dict v = (case v of
       PDict d \<Rightarrow> if set (map fst d) = set regulation_keys then Inr d
         else Inl (mind_err ''MIND_REGULATION_INVALID'')
     | PStr _ \<Rightarrow> Inl (mind_err ''MIND_REGULATION_INVALID'')
     | PList xs \<Rightarrow> if \<not> list_all py_hashable xs then Inl (TypeError, ''unhashable type'')
         else if set xs = PStr ` set regulation_keys then Inl (TypeError, ''list indices must be integers or slices'')
         else Inl (mind_err ''MIND_REGULATION_INVALID'')
     | PTuple xs \<Rightarrow> if \<not> list_all py_hashable xs then Inl (TypeError, ''unhashable type'')
         else if set xs = PStr ` set regulation_keys then Inl (TypeError, ''tuple indices must be integers or slices'')
         else Inl (mind_err ''MIND_REGULATION_INVALID'')
     | _ \<Rightarrow> Inl (TypeError, ''object is not iterable''))"

definition mind_regulation :: "string list \<Rightarrow> pyval \<Rightarrow> unit res" where
  "mind_regulation desires v = (if \<not> truthy v then Inr () else
     rbind (regulation_dict v) (\<lambda>d.
     rbind (in_strings (dict_get d ''outcome'') [''success'', ''failure'']) (\<lambda>outcome_ok.
     rbind (ensure outcome_ok (mind_err ''MIND_REGULATION_INVALID'')) (\<lambda>_.
     rbind (mind_ratio (dict_get d ''capacity'')) (\<lambda>_.
     rbind (mind_ratio (dict_get d ''load'')) (\<lambda>_.
     rbind (mind_texts d [''reason'']) (\<lambda>_.
     rbind (in_strings (dict_get d ''desire_id'') desires) (\<lambda>bound.
     rbind (if bound then in_strings (dict_get d ''strategy'') [''suppress'', ''reappraise'', ''rest'']
       else Inr False) (\<lambda>known.
     ensure known (mind_err ''MIND_REGULATION_BINDING_INVALID''))))))))))"

section \<open>The mind\<close>

record mind_state =
  ms_subject_id :: string
  ms_environment :: string
  ms_updated_at :: instant
  ms_drives :: pyval
  ms_fatigue :: pyval
  ms_arousal :: pyval
  ms_somatic :: pyval
  ms_episodes :: pyval
  ms_dispositions :: pyval
  ms_desires :: pyval
  ms_conflicts :: pyval
  ms_will :: pyval
  ms_thoughts :: pyval
  ms_regulation :: pyval
  ms_subjective_seconds :: pyval

definition subjective_seconds :: "pyval \<Rightarrow> unit res" where
  "subjective_seconds v = ensure (case v of PInt n \<Rightarrow> 0 \<le> n | PFloat q \<Rightarrow> 0 \<le> q | _ \<Rightarrow> False)
     (mind_err ''MIND_SUBJECTIVE_TIME_INVALID'')"

text \<open>\<open>{d['id'] for d in ds}\<close>, where every id has been checked to be a text.\<close>

definition text_ids :: "(string \<times> pyval) list list \<Rightarrow> string list" where
  "text_ids ds = map (\<lambda>d. case dict_get d ''id'' of PStr s \<Rightarrow> s | _ \<Rightarrow> []) ds"

definition mind_checks :: "mind_state \<Rightarrow> unit res" where
  "mind_checks m =
     rbind (mind_dimensions drive_names (ms_drives m)) (\<lambda>_.
     rbind (mind_dimensions somatic_names (ms_somatic m)) (\<lambda>_.
     rbind (mind_ratio (ms_fatigue m)) (\<lambda>_.
     rbind (mind_ratio (ms_arousal m)) (\<lambda>_.
     rbind (subjective_seconds (ms_subjective_seconds m)) (\<lambda>_.
     rbind (mind_records ''episodes'' [episode_keys, ''concern_basis'' # episode_keys] (ms_episodes m)) (\<lambda>episodes.
     rbind (mind_records ''dispositions'' [[''object'', ''kind'', ''basis'']] (ms_dispositions m)) (\<lambda>dispositions.
     rbind (mind_records ''desires'' [desire_keys] (ms_desires m)) (\<lambda>desires.
     rbind (mind_records ''conflicts'' [[''id'', ''object'', ''poles'', ''reason'']] (ms_conflicts m)) (\<lambda>conflicts.
     rbind (mind_records ''will'' [will_keys] (ms_will m)) (\<lambda>will.
     rbind (mind_records ''thoughts'' [thought_keys] (ms_thoughts m)) (\<lambda>thoughts.
     rbind (each (mind_episode (ms_updated_at m)) episodes) (\<lambda>_.
     rbind (each mind_disposition dispositions) (\<lambda>_.
     rbind (each mind_desire desires) (\<lambda>_.
     rbind (each mind_conflict conflicts) (\<lambda>_.
     rbind (each (mind_thought (ms_updated_at m) (text_ids desires) (text_ids conflicts)) thoughts) (\<lambda>_.
     rbind (each (mind_will (text_ids desires)) will) (\<lambda>_.
     mind_regulation (text_ids desires) (ms_regulation m))))))))))))))))))"

text \<open>\<open>MindState(**d)\<close> for a dictionary of all fields.\<close>

definition mind_state_init :: "(string \<times> pyval) list \<Rightarrow> mind_state res" where
  "mind_state_init d =
     rbind (mind_text (dict_get d ''subject_id'')) (\<lambda>subject.
     rbind (in_strings (dict_get d ''environment'') [''TEST'', ''RESEARCH'']) (\<lambda>env_ok.
     rbind (case dict_get d ''environment'' of
         PStr e \<Rightarrow> if env_ok \<and> dict_get d ''version'' = PStr ''p14-mind-v1'' then Inr e
           else Inl (mind_err ''MIND_BOUNDARY_INVALID'')
       | _ \<Rightarrow> Inl (mind_err ''MIND_BOUNDARY_INVALID'')) (\<lambda>environment.
     rbind (mind_utc (dict_get d ''updated_at'')) (\<lambda>updated.
     let m = \<lparr>ms_subject_id = subject, ms_environment = environment, ms_updated_at = updated,
       ms_drives = dict_get d ''drives'', ms_fatigue = dict_get d ''fatigue'',
       ms_arousal = dict_get d ''arousal'', ms_somatic = dict_get d ''somatic'',
       ms_episodes = dict_get d ''episodes'', ms_dispositions = dict_get d ''dispositions'',
       ms_desires = dict_get d ''desires'', ms_conflicts = dict_get d ''conflicts'',
       ms_will = dict_get d ''will'', ms_thoughts = dict_get d ''thoughts'',
       ms_regulation = dict_get d ''regulation'',
       ms_subjective_seconds = dict_get d ''subjective_seconds''\<rparr> in
     rbind (mind_checks m) (\<lambda>_. Inr m)))))"

definition mind_fields :: "mind_state \<Rightarrow> (string \<times> pyval) list" where
  "mind_fields m = [(''subject_id'', PStr (ms_subject_id m)), (''environment'', PStr (ms_environment m)),
     (''updated_at'', utc_val (ms_updated_at m)), (''drives'', ms_drives m), (''fatigue'', ms_fatigue m),
     (''arousal'', ms_arousal m), (''somatic'', ms_somatic m), (''episodes'', ms_episodes m),
     (''dispositions'', ms_dispositions m), (''desires'', ms_desires m), (''conflicts'', ms_conflicts m),
     (''will'', ms_will m), (''thoughts'', ms_thoughts m), (''regulation'', ms_regulation m),
     (''subjective_seconds'', ms_subjective_seconds m), (''version'', PStr ''p14-mind-v1'')]"

definition mind_create :: "pyval \<Rightarrow> pyval \<Rightarrow> pyval \<Rightarrow> mind_state res" where
  "mind_create subject_id environment t =
     rbind (mind_utc t) (\<lambda>t. mind_state_init
       [(''subject_id'', subject_id), (''environment'', environment), (''updated_at'', utc_val t),
        (''drives'', PDict (map (\<lambda>k. (k, PFloat 0)) drive_names)), (''fatigue'', PFloat 0),
        (''arousal'', PFloat 0), (''somatic'', PDict (map (\<lambda>k. (k, PFloat 0)) somatic_names)),
        (''episodes'', PList []), (''dispositions'', PList []), (''desires'', PList []),
        (''conflicts'', PList []), (''will'', PList []), (''thoughts'', PList []),
        (''regulation'', PDict []), (''subjective_seconds'', PFloat 0), (''version'', PStr ''p14-mind-v1'')])"

definition mind_state_to_dict :: "mind_state \<Rightarrow> pyval res" where
  "mind_state_to_dict m = rbind (mind_state_init (mind_fields m)) (\<lambda>m.
     Inr (PDict (dict_set (mind_fields m) ''updated_at'' (PStr (format_z (ms_updated_at m))))))"

definition mind_state_from_dict :: "pyval \<Rightarrow> mind_state res" where
  "mind_state_from_dict v =
     rbind (shaped_dict [[''subject_id'', ''environment'', ''updated_at'', ''drives'', ''fatigue'',
       ''arousal'', ''somatic'', ''episodes'', ''dispositions'', ''desires'', ''conflicts'', ''will'',
       ''thoughts'', ''regulation'', ''subjective_seconds'', ''version'']]
       (mind_err ''MIND_STATE_SHAPE_INVALID'') v) mind_state_init"

text \<open>\<open>replace(self, ...)\<close> runs every check again.\<close>

definition with_body :: "pyval \<Rightarrow> (string \<times> pyval) list \<Rightarrow> mind_state \<Rightarrow> mind_state res" where
  "with_body fatigue somatic m =
     (if \<not> set (map fst somatic) \<subseteq> set somatic_names
      then Inl (mind_err ''MIND_SOMATIC_DIMENSION_INVALID'')
      else mind_state_init (dict_set (dict_set (mind_fields m) ''fatigue''
          (if fatigue = PNone then ms_fatigue m else fatigue)) ''somatic''
        (case ms_somatic m of
           PDict d \<Rightarrow> PDict (foldl (\<lambda>d (k, v). dict_set d k v) d somatic) | v \<Rightarrow> v)))"

definition with_dispositions :: "pyval \<Rightarrow> mind_state \<Rightarrow> mind_state res" where
  "with_dispositions vs m = mind_state_init (dict_set (mind_fields m) ''dispositions'' vs)"

section \<open>Laws\<close>

definition wf_mind :: "mind_state \<Rightarrow> bool" where
  "wf_mind m \<longleftrightarrow> mind_text (PStr (ms_subject_id m)) = Inr (ms_subject_id m)
     \<and> ms_environment m \<in> {''TEST'', ''RESEARCH''} \<and> mind_checks m = Inr ()"

lemma mind_state_init_wf: "mind_state_init d = Inr m \<Longrightarrow> wf_mind m"
  unfolding mind_state_init_def Let_def
  by (elim rbindE)
    (auto simp: wf_mind_def mind_text_eq_Inr in_strings_def split: pyval.splits if_splits)

lemma mind_state_from_dict_wf: "mind_state_from_dict v = Inr m \<Longrightarrow> wf_mind m"
  unfolding mind_state_from_dict_def by (elim rbindE) (rule mind_state_init_wf)

text \<open>A checked mind passes the checks again, and survives its document.\<close>

lemma mind_state_init_fields:
  assumes "wf_mind m"
  shows "mind_state_init (mind_fields m) = Inr m"
  using assms
  by (cases m) (auto simp: wf_mind_def mind_state_init_def mind_fields_def in_strings_def mind_utc_def)

definition mind_document :: "mind_state \<Rightarrow> pyval" where
  "mind_document m = PDict (dict_set (mind_fields m) ''updated_at'' (PStr (format_z (ms_updated_at m))))"

lemma mind_state_to_dict_run: "wf_mind m \<Longrightarrow> mind_state_to_dict m = Inr (mind_document m)"
  by (simp add: mind_state_to_dict_def mind_state_init_fields mind_document_def)

lemma mind_state_init_document:
  assumes "wf_mind m"
  shows "mind_state_init (dict_set (mind_fields m) ''updated_at'' (PStr (format_z (ms_updated_at m)))) = Inr m"
  using assms by (cases m) (auto simp: wf_mind_def mind_state_init_def mind_fields_def in_strings_def)

lemma mind_state_roundtrip: "wf_mind m \<Longrightarrow> mind_state_from_dict (mind_document m) = Inr m"
  by (simp add: mind_state_from_dict_def mind_document_def shaped_dict_def has_shape_def
      mind_state_init_document)
    (simp add: mind_fields_def)

end
