(* ===== verification/Subject_Documents.thy ===== *)
theory Subject_Documents
  imports Mind_State
begin

text \<open>
  The typed documents that a SubjectState embeds: domain/unfinished_item.py (the records of
  \<open>continuity.item_records\<close>) and domain/subject_growth.py (\<open>identity.self_narrative\<close> and
  \<open>relationship.objects\<close>). The instants of an item are kept as instants; the code keeps their
  printed form, and compares it.
\<close>

fun text_of :: "pyval \<Rightarrow> string" where
  "text_of (PStr s) = s"
| "text_of _ = []"

section \<open>Unfinished items\<close>

definition item_err :: "string \<Rightarrow> exn" where
  "item_err m = (StateValidationError, ''W03_ITEM_'' @ m)"

definition item_text :: "pyval \<Rightarrow> string \<Rightarrow> string res" where
  "item_text v name = (case v of
       PStr s \<Rightarrow> if blank s \<or> 4096 < length s then Inl (item_err (name @ ''_INVALID'')) else Inr s
     | _ \<Rightarrow> Inl (item_err (name @ ''_INVALID'')))"

definition item_text_optional :: "pyval \<Rightarrow> string \<Rightarrow> string option res" where
  "item_text_optional v name = (if v = PNone then Inr None
     else rbind (item_text v name) (\<lambda>s. Inr (Some s)))"

definition item_time :: "pyval \<Rightarrow> string \<Rightarrow> instant res" where
  "item_time v name =
     rbind (case v of
         PStr s \<Rightarrow> (case fromisoformat (replace_Z s) of
           None \<Rightarrow> Inl (item_err (name @ ''_INVALID'')) | Some (w, off) \<Rightarrow> Inr (PTime w off))
       | _ \<Rightarrow> Inr v) (\<lambda>v.
     case v of
       PTime w (Some off) \<Rightarrow> require_aware (item_err (name @ ''_INVALID'')) v
     | _ \<Rightarrow> Inl (item_err (name @ ''_INVALID'')))"

definition item_time_optional :: "pyval \<Rightarrow> string \<Rightarrow> instant option res" where
  "item_time_optional v name = (if v = PNone then Inr None
     else rbind (item_time v name) (\<lambda>t. Inr (Some t)))"

definition item_statuses :: "string list" where
  "item_statuses = [''OPEN'', ''WAITING'', ''DEFERRED'', ''FAILED'', ''COMPLETED'', ''CANCELLED'']"

record unfinished_item =
  ui_item_id :: string
  ui_subject_id :: string
  ui_environment :: string
  ui_title :: string
  ui_source_roots :: "string list"
  ui_willing :: bool
  ui_importance_reason :: string
  ui_urgency :: string
  ui_due_at :: "instant option"
  ui_wait_condition :: "string option"
  ui_next_step :: string
  ui_status :: string
  ui_created_at :: instant
  ui_updated_at :: instant
  ui_revision :: int
  ui_completion :: "(string \<times> pyval) list option"
  ui_last_progress :: "string option"

definition item_boundary :: "pyval \<Rightarrow> pyval \<Rightarrow> pyval \<Rightarrow> unit res" where
  "item_boundary environment urgency status =
     rbind (in_strings environment [''TEST'', ''RESEARCH'']) (\<lambda>a.
     rbind (if a then in_strings urgency [''LOW'', ''NORMAL'', ''URGENT''] else Inr False) (\<lambda>b.
     rbind (if b then in_strings status item_statuses else Inr False) (\<lambda>c.
     ensure c (item_err ''BOUNDARY_INVALID''))))"

definition item_completion :: "pyval \<Rightarrow> pyval \<Rightarrow> (string \<times> pyval) list option res" where
  "item_completion status v =
     (if status = PStr ''COMPLETED'' then
        rbind (shaped_dict [[''kind'', ''identity'', ''hash'']]
          (item_err ''COMPLETION_EVIDENCE_MISSING'') v) (\<lambda>d.
        rbind (in_strings (dict_get d ''kind'') [''INTERNAL_EVENT'', ''ACTION_RECEIPT'']) (\<lambda>known.
        rbind (ensure known (item_err ''COMPLETION_KIND_INVALID'')) (\<lambda>_.
        rbind (item_text (dict_get d ''identity'') ''COMPLETION_IDENTITY'') (\<lambda>_.
        rbind (item_text (dict_get d ''hash'') ''COMPLETION_HASH'') (\<lambda>_. Inr (Some d))))))
      else if v \<noteq> PNone then Inl (item_err ''PREMATURE_COMPLETION'') else Inr None)"

text \<open>\<open>UnfinishedItem(**d)\<close> with the tuple \<open>roots\<close> for \<open>source_roots\<close>.\<close>

definition unfinished_item_init :: "(string \<times> pyval) list \<Rightarrow> pyval list \<Rightarrow> unfinished_item res" where
  "unfinished_item_init d roots =
     rbind (item_text (dict_get d ''item_id'') ''ITEM_ID'') (\<lambda>item_id.
     rbind (item_text (dict_get d ''subject_id'') ''SUBJECT_ID'') (\<lambda>subject_id.
     rbind (item_text (dict_get d ''title'') ''TITLE'') (\<lambda>title.
     rbind (item_text (dict_get d ''importance_reason'') ''IMPORTANCE_REASON'') (\<lambda>importance_reason.
     rbind (item_text (dict_get d ''next_step'') ''NEXT_STEP'') (\<lambda>next_step.
     rbind (item_boundary (dict_get d ''environment'') (dict_get d ''urgency'') (dict_get d ''status'')) (\<lambda>_.
     rbind (ensure (is_bool (dict_get d ''willing'') \<and> plain_nat (dict_get d ''revision''))
       (item_err ''VALUE_INVALID'')) (\<lambda>_.
     rbind (ensure (roots \<noteq> []) (item_err ''ROOTS_INVALID'')) (\<lambda>_.
     rbind (distinct_values roots) (\<lambda>fresh.
     rbind (ensure fresh (item_err ''ROOTS_INVALID'')) (\<lambda>_.
     rbind (rmap (\<lambda>v. item_text v ''ROOT'') roots) (\<lambda>source_roots.
     rbind (item_time (dict_get d ''created_at'') ''CREATED_AT'') (\<lambda>created_at.
     rbind (item_time (dict_get d ''updated_at'') ''UPDATED_AT'') (\<lambda>updated_at.
     rbind (item_time_optional (dict_get d ''due_at'') ''DUE_AT'') (\<lambda>due_at.
     rbind (item_text_optional (dict_get d ''wait_condition'') ''WAIT_CONDITION'') (\<lambda>wait_condition.
     rbind (item_text_optional (dict_get d ''last_progress'') ''LAST_PROGRESS'') (\<lambda>last_progress.
     rbind (ensure (\<not> format_z updated_at < format_z created_at) (item_err ''TIME_ORDER_INVALID'')) (\<lambda>_.
     rbind (ensure (\<not> (dict_get d ''status'' = PStr ''WAITING'' \<and> wait_condition = None))
       (item_err ''WAIT_CONDITION_MISSING'')) (\<lambda>_.
     rbind (item_completion (dict_get d ''status'') (dict_get d ''completion'')) (\<lambda>completion.
     Inr \<lparr>ui_item_id = item_id, ui_subject_id = subject_id,
       ui_environment = text_of (dict_get d ''environment''), ui_title = title,
       ui_source_roots = source_roots, ui_willing = (dict_get d ''willing'' = PBool True),
       ui_importance_reason = importance_reason, ui_urgency = text_of (dict_get d ''urgency''),
       ui_due_at = due_at, ui_wait_condition = wait_condition, ui_next_step = next_step,
       ui_status = text_of (dict_get d ''status''), ui_created_at = created_at,
       ui_updated_at = updated_at,
       ui_revision = (case dict_get d ''revision'' of PInt n \<Rightarrow> n | _ \<Rightarrow> 0),
       ui_completion = completion, ui_last_progress = last_progress\<rparr>)))))))))))))))))))"

definition unfinished_item_to_dict :: "unfinished_item \<Rightarrow> pyval" where
  "unfinished_item_to_dict i = PDict
     [(''item_id'', PStr (ui_item_id i)), (''subject_id'', PStr (ui_subject_id i)),
      (''environment'', PStr (ui_environment i)), (''title'', PStr (ui_title i)),
      (''source_roots'', PList (map PStr (ui_source_roots i))), (''willing'', PBool (ui_willing i)),
      (''importance_reason'', PStr (ui_importance_reason i)), (''urgency'', PStr (ui_urgency i)),
      (''due_at'', opt_val (\<lambda>t. PStr (format_z t)) (ui_due_at i)),
      (''wait_condition'', opt_val PStr (ui_wait_condition i)), (''next_step'', PStr (ui_next_step i)),
      (''status'', PStr (ui_status i)), (''created_at'', PStr (format_z (ui_created_at i))),
      (''updated_at'', PStr (format_z (ui_updated_at i))), (''revision'', PInt (ui_revision i)),
      (''completion'', opt_val PDict (ui_completion i)),
      (''last_progress'', opt_val PStr (ui_last_progress i))]"

definition item_fields :: "string list" where
  "item_fields = [''item_id'', ''subject_id'', ''environment'', ''title'', ''source_roots'', ''willing'',
     ''importance_reason'', ''urgency'', ''due_at'', ''wait_condition'', ''next_step'', ''status'',
     ''created_at'', ''updated_at'', ''revision'', ''completion'', ''last_progress'']"

definition unfinished_item_from_dict :: "pyval \<Rightarrow> unfinished_item res" where
  "unfinished_item_from_dict v =
     rbind (shaped_dict [item_fields] (item_err ''SHAPE_INVALID'') v) (\<lambda>d.
     case dict_get d ''source_roots'' of
       PList roots \<Rightarrow> unfinished_item_init d roots
     | _ \<Rightarrow> Inl (item_err ''ROOTS_INVALID''))"

definition parse_items :: "pyval \<Rightarrow> string option \<Rightarrow> string option \<Rightarrow> unfinished_item list res" where
  "parse_items v subject_id environment = (case v of
       PList xs \<Rightarrow> if 64 < length xs then Inl (item_err ''RECORDS_INVALID'') else
         rbind (rmap unfinished_item_from_dict xs) (\<lambda>parsed.
         rbind (ensure (distinct (map ui_item_id parsed)) (item_err ''DUPLICATE_ID'')) (\<lambda>_.
         rbind (ensure (\<forall>i \<in> set parsed. (subject_id = None \<or> subject_id = Some (ui_subject_id i)) \<and>
             (environment = None \<or> environment = Some (ui_environment i)))
           (item_err ''SUBJECT_ENVIRONMENT_MISMATCH'')) (\<lambda>_. Inr parsed)))
     | _ \<Rightarrow> Inl (item_err ''RECORDS_INVALID''))"

definition item_records :: "pyval \<Rightarrow> string option \<Rightarrow> string option \<Rightarrow> pyval list res" where
  "item_records v subject_id environment =
     rbind (parse_items v subject_id environment) (\<lambda>parsed. Inr (map unfinished_item_to_dict parsed))"

text \<open>\<open>active_titles\<close> of the untyped and the typed matters.\<close>

definition active_titles :: "string list \<Rightarrow> pyval \<Rightarrow> string list res" where
  "active_titles unfinished records =
     rbind (parse_items records None None) (\<lambda>items.
     Inr (foldl (\<lambda>known i. if ui_status i \<notin> {''COMPLETED'', ''CANCELLED''} \<and> ui_title i \<notin> set known
       then known @ [ui_title i] else known) unfinished items))"

lemma item_text_eq_Inr [validator_defs]:
  "item_text v n = Inr s \<longleftrightarrow> v = PStr s \<and> \<not> blank s \<and> length s \<le> 4096"
  by (auto simp: item_text_def split: pyval.splits)

lemma item_text_optional_eq_Inr [validator_defs]:
  "item_text_optional v n = Inr x \<longleftrightarrow> v = opt_val PStr x \<and> (\<forall>s. x = Some s \<longrightarrow> \<not> blank s \<and> length s \<le> 4096)"
  by (cases x) (auto simp: item_text_optional_def rbind_eq_Inr item_text_eq_Inr)

lemma item_time_format [simp]:
  "item_time (PStr (format_z t)) n = Inr t"
  "item_time_optional (opt_val (\<lambda>t. PStr (format_z t)) x) n = Inr x"
  by (cases x; simp add: item_time_def item_time_optional_def)+

lemma rmap_item_text:
  "rmap (\<lambda>v. item_text v n) xs = Inr ss \<longleftrightarrow> xs = map PStr ss \<and> (\<forall>s \<in> set ss. \<not> blank s \<and> length s \<le> 4096)"
  by (induction xs arbitrary: ss) (auto simp: rbind_eq_Inr item_text_eq_Inr)

lemma in_strings_bool [simp]: "in_strings (PStr s) xs = Inr (s \<in> set xs)"
  by (simp add: in_strings_def)

lemma item_boundary_strings:
  "item_boundary e u s = Inr x \<Longrightarrow> \<exists>e' u' s'. e = PStr e' \<and> u = PStr u' \<and> s = PStr s'"
  by (auto simp: item_boundary_def rbind_eq_Inr in_strings_eq_Inr ensure_def split: if_splits)

lemma item_completion_Inr:
  "item_completion s v = Inr x \<Longrightarrow> v = opt_val PDict x"
  by (auto simp: item_completion_def rbind_eq_Inr shaped_dict_def split: if_splits pyval.splits)

lemma is_bool_iff: "is_bool v \<longleftrightarrow> v = PBool (v = PBool True)"
  by (cases v) auto

lemma plain_nat_iff: "plain_nat v \<longleftrightarrow> (\<exists>n. v = PInt n \<and> 0 \<le> n)"
  by (cases v) auto

lemma item_run:
  "\<not> blank s \<Longrightarrow> length s \<le> 4096 \<Longrightarrow> item_text (PStr s) n = Inr s"
  "\<forall>s. x = Some s \<longrightarrow> \<not> blank s \<and> length s \<le> 4096 \<Longrightarrow> item_text_optional (opt_val PStr x) n = Inr x"
  "\<forall>s \<in> set ss. \<not> blank s \<and> length s \<le> 4096 \<Longrightarrow> rmap (\<lambda>v. item_text v n) (map PStr ss) = Inr ss"
  by (simp_all add: item_text_eq_Inr item_text_optional_eq_Inr rmap_item_text)

text \<open>A stored item is read back as it was written.\<close>

definition item_dict :: "unfinished_item \<Rightarrow> (string \<times> pyval) list" where
  "item_dict i = (case unfinished_item_to_dict i of PDict d \<Rightarrow> d | _ \<Rightarrow> [])"

lemma unfinished_item_init_again:
  assumes "unfinished_item_init d roots = Inr i"
  shows "unfinished_item_init (item_dict i) (map PStr (ui_source_roots i)) = Inr i"
  using assms unfolding unfinished_item_init_def
  by (elim rbindE)
    (frule item_completion_Inr, frule item_boundary_strings,
      clarsimp simp: item_text_eq_Inr item_text_optional_eq_Inr rmap_item_text
        plain_nat_iff item_run item_dict_def unfinished_item_to_dict_def)

lemma unfinished_item_roundtrip:
  assumes "unfinished_item_from_dict v = Inr i"
  shows "unfinished_item_from_dict (unfinished_item_to_dict i) = Inr i"
proof -
  from assms obtain d roots where "unfinished_item_init d roots = Inr i"
    unfolding unfinished_item_from_dict_def by (elim rbindE) (simp split: pyval.splits)
  from unfinished_item_init_again [OF this] show ?thesis
    by (simp add: unfinished_item_from_dict_def item_dict_def unfinished_item_to_dict_def shaped_dict_def
        has_shape_def item_fields_def)
qed

section \<open>Growth documents\<close>

definition growth_err :: "string \<Rightarrow> exn" where
  "growth_err m = (LearningValidationError, m)"

text \<open>\<open>not isinstance(v, list) or len(set(v)) != len(v)\<close> raises \<open>e\<close>; then every item is a text.\<close>

definition distinct_texts :: "exn \<Rightarrow> bool \<Rightarrow> pyval \<Rightarrow> unit res" where
  "distinct_texts e may_be_empty v = (case v of
       PList xs \<Rightarrow>
         rbind (ensure (may_be_empty \<or> xs \<noteq> []) e) (\<lambda>_.
         rbind (distinct_values xs) (\<lambda>fresh.
         rbind (ensure fresh e) (\<lambda>_.
         each (\<lambda>x. rbind (mind_text x) (\<lambda>_. Inr ())) xs)))
     | _ \<Rightarrow> Inl e)"

definition growth_entry_keys :: "string \<Rightarrow> string list" where
  "growth_entry_keys kind = [''id'', ''object_id'', ''interpretation'', ''source_roots'', ''version'', ''updated_at'']
     @ (if kind = ''relationships'' then [''stances''] else [])"

definition growth_entry :: "string \<Rightarrow> string list \<Rightarrow> pyval \<Rightarrow> string res" where
  "growth_entry kind seen v =
     rbind (shaped_dict [growth_entry_keys kind] (growth_err ''GROWTH_ENTRY_INVALID'') v) (\<lambda>d.
     rbind (mind_texts d [''id'', ''object_id'', ''interpretation'']) (\<lambda>_.
     rbind (mind_utc (dict_get d ''updated_at'')) (\<lambda>_.
     rbind (ensure (plain_nat (dict_get d ''version'') \<and> dict_get d ''version'' \<noteq> PInt 0
         \<and> text_of (dict_get d ''id'') \<notin> set seen) (growth_err ''GROWTH_ENTRY_IDENTITY_INVALID'')) (\<lambda>_.
     rbind (distinct_texts (growth_err ''GROWTH_ROOTS_INVALID'') False (dict_get d ''source_roots'')) (\<lambda>_.
     rbind (if kind = ''relationships''
       then distinct_texts (growth_err ''GROWTH_STANCES_INVALID'') True (dict_get d ''stances'')
       else Inr ()) (\<lambda>_.
     Inr (text_of (dict_get d ''id''))))))))"

fun growth_entries :: "string \<Rightarrow> string list \<Rightarrow> pyval list \<Rightarrow> unit res" where
  "growth_entries kind seen [] = Inr ()"
| "growth_entries kind seen (x # xs) = rbind (growth_entry kind seen x) (\<lambda>i. growth_entries kind (i # seen) xs)"

definition growth_document :: "pyval \<Rightarrow> string \<Rightarrow> string option \<Rightarrow> pyval res" where
  "growth_document v kind subject_id =
     rbind (shaped_dict [[''version'', ''subject_id'', ''environment'', ''authority'', ''entries'']]
       (growth_err ''GROWTH_DOCUMENT_INVALID'') v) (\<lambda>d.
     rbind (ensure (dict_get d ''version'' = PStr (''p15-'' @ kind @ ''-v1''))
       (growth_err ''GROWTH_DOCUMENT_INVALID'')) (\<lambda>_.
     rbind (in_strings (dict_get d ''environment'') [''TEST'', ''RESEARCH'']) (\<lambda>env_ok.
     rbind (ensure (env_ok \<and> dict_get d ''authority'' = PStr ''SUBJECTIVE_INTERPRETATION''
         \<and> is_list (dict_get d ''entries'')) (growth_err ''GROWTH_DOCUMENT_INVALID'')) (\<lambda>_.
     rbind (mind_text (dict_get d ''subject_id'')) (\<lambda>subject.
     rbind (ensure (subject_id = None \<or> subject_id = Some subject) (growth_err ''GROWTH_SUBJECT_MISMATCH'')) (\<lambda>_.
     rbind (growth_entries kind [] (list_of (dict_get d ''entries''))) (\<lambda>_.
     Inr v)))))))"

lemma growth_document_id: "growth_document v kind s = Inr w \<Longrightarrow> w = v"
  by (auto simp: growth_document_def rbind_eq_Inr)

lemma growth_document_none: "growth_document v kind (Some s) = Inr w \<Longrightarrow> growth_document v kind None = Inr w"
  by (auto simp: growth_document_def rbind_eq_Inr)

record growth_command =
  gc_command_id :: string
  gc_subject_id :: string
  gc_environment :: string
  gc_expected_revision :: int
  gc_learning_id :: string
  gc_operation :: string
  gc_reason :: string
  gc_trait_id :: pyval

definition growth_command_init ::
  "pyval \<Rightarrow> pyval \<Rightarrow> pyval \<Rightarrow> pyval \<Rightarrow> pyval \<Rightarrow> pyval \<Rightarrow> pyval \<Rightarrow> pyval \<Rightarrow> growth_command res" where
  "growth_command_init command_id subject_id environment revision learning_id operation reason trait_id =
     rbind (mind_text command_id) (\<lambda>command_id.
     rbind (mind_text subject_id) (\<lambda>subject_id.
     rbind (mind_text learning_id) (\<lambda>learning_id.
     rbind (mind_text reason) (\<lambda>reason.
     rbind (in_strings environment [''TEST'', ''RESEARCH'']) (\<lambda>a.
     rbind (if a then in_strings operation [''SOLIDIFY'', ''ROLLBACK''] else Inr False) (\<lambda>b.
     rbind (ensure (b \<and> plain_nat revision \<and> (operation = PStr ''ROLLBACK'' \<longrightarrow> truthy trait_id))
       (growth_err ''GROWTH_COMMAND_INVALID'')) (\<lambda>_.
     Inr \<lparr>gc_command_id = command_id, gc_subject_id = subject_id, gc_environment = text_of environment,
       gc_expected_revision = (case revision of PInt n \<Rightarrow> n | _ \<Rightarrow> 0), gc_learning_id = learning_id,
       gc_operation = text_of operation, gc_reason = reason, gc_trait_id = trait_id\<rparr>)))))))"

definition growth_command_to_dict :: "growth_command \<Rightarrow> pyval" where
  "growth_command_to_dict c = PDict [(''command_id'', PStr (gc_command_id c)),
     (''subject_id'', PStr (gc_subject_id c)), (''environment'', PStr (gc_environment c)),
     (''expected_revision'', PInt (gc_expected_revision c)), (''learning_id'', PStr (gc_learning_id c)),
     (''operation'', PStr (gc_operation c)), (''reason'', PStr (gc_reason c)),
     (''trait_id'', gc_trait_id c)]"

end
