(* ===== verification/Subject_State.thy ===== *)
theory Subject_State
  imports Subject_Documents Events
begin

text \<open>
  domain/models.py: the SubjectState document, section by section. The embedded documents (mind,
  lifecycle, narrative, relationship objects, item records) and the five values of an emotion
  stay decoded values, because the evolution replaces them without checking them; \<open>to_dict\<close>
  checks them all.
\<close>

section \<open>Checks\<close>

definition mapping_of :: "pyval \<Rightarrow> string \<Rightarrow> (string \<times> pyval) list res" where
  "mapping_of v name = (case v of PNone \<Rightarrow> Inr [] | PDict d \<Rightarrow> Inr d
     | _ \<Rightarrow> Inl (state_invalid (name @ '' must be an object'')))"

definition string_of :: "pyval \<Rightarrow> string \<Rightarrow> string res" where
  "string_of v name = (case v of PNone \<Rightarrow> Inr [] | PStr s \<Rightarrow> Inr s
     | _ \<Rightarrow> Inl (state_invalid (name @ '' must be a string'')))"

fun is_str :: "pyval \<Rightarrow> bool" where
  "is_str (PStr s) = True"
| "is_str _ = False"

definition string_list :: "pyval \<Rightarrow> string \<Rightarrow> string list res" where
  "string_list v name = (case v of
       PNone \<Rightarrow> Inr []
     | PList xs \<Rightarrow> if list_all is_str xs then Inr (map text_of xs)
         else Inl (state_invalid (name @ '' must be a list of strings''))
     | _ \<Rightarrow> Inl (state_invalid (name @ '' must be a list of strings'')))"

text \<open>\<open>_parse_datetime\<close>; a time of a state is kept as its UTC instant.\<close>

definition state_time :: "pyval \<Rightarrow> string \<Rightarrow> instant res" where
  "state_time v name = rbind (event_parse_datetime v name)
     (require_aware (state_invalid ''datetime values must include a timezone''))"

abbreviation strings_val :: "string list \<Rightarrow> pyval" where
  "strings_val ss \<equiv> PList (map PStr ss)"

abbreviation time_val :: "instant \<Rightarrow> pyval" where
  "time_val t \<equiv> PStr (format_z t)"

text \<open>\<open>**({k: v} if v is not None else {})\<close>.\<close>

definition optional_entry :: "string \<Rightarrow> pyval \<Rightarrow> (string \<times> pyval) list" where
  "optional_entry k v = (if v = PNone then [] else [(k, v)])"

lemma is_str_iff: "is_str v \<longleftrightarrow> (\<exists>s. v = PStr s)"
  by (cases v) auto

lemma string_of_run [simp]: "string_of (PStr s) n = Inr s"
  by (simp add: string_of_def)

lemma string_list_run [simp]: "string_list (strings_val ss) n = Inr ss"
  by (simp add: string_list_def list_all_iff comp_def)

lemma state_time_run [simp]: "state_time (time_val t) n = Inr t"
  by (simp add: state_time_def)

section \<open>Sections\<close>

record identity_state =
  idn_stable_traits :: "string list"
  idn_expression_preferences :: "string list"
  idn_judgment_principles :: "string list"
  idn_self_concept :: string
  idn_self_narrative :: pyval

definition identity_from_dict :: "pyval \<Rightarrow> identity_state res" where
  "identity_from_dict v =
     rbind (mapping_of v ''identity'') (\<lambda>d.
     rbind (string_list (dict_get d ''stable_traits'') ''identity.stable_traits'') (\<lambda>traits.
     rbind (string_list (dict_get d ''expression_preferences'') ''identity.expression_preferences'') (\<lambda>expression.
     rbind (string_list (dict_get d ''judgment_principles'') ''identity.judgment_principles'') (\<lambda>principles.
     rbind (string_of (dict_get d ''self_concept'') ''identity.self_concept'') (\<lambda>self.
     Inr \<lparr>idn_stable_traits = traits, idn_expression_preferences = expression,
       idn_judgment_principles = principles, idn_self_concept = self,
       idn_self_narrative = dict_get d ''self_narrative''\<rparr>)))))"

record relationship_state =
  rel_definition :: string
  rel_interaction_preferences :: "string list"
  rel_important_moments :: "string list"
  rel_current_status :: string
  rel_objects :: pyval

definition relationship_from_dict :: "pyval \<Rightarrow> relationship_state res" where
  "relationship_from_dict v =
     rbind (mapping_of v ''relationship'') (\<lambda>d.
     rbind (string_of (dict_get d ''definition'') ''relationship.definition'') (\<lambda>description.
     rbind (string_list (dict_get d ''interaction_preferences'') ''relationship.interaction_preferences'') (\<lambda>preferences.
     rbind (string_list (dict_get d ''important_moments'') ''relationship.important_moments'') (\<lambda>moments.
     rbind (string_of (dict_get d ''current_status'') ''relationship.current_status'') (\<lambda>status.
     Inr \<lparr>rel_definition = description, rel_interaction_preferences = preferences,
       rel_important_moments = moments, rel_current_status = status,
       rel_objects = dict_get d ''objects''\<rparr>)))))"

record continuity_state =
  cty_unfinished_items :: "string list"
  cty_current_focus :: "string list"
  cty_recent_changes :: "string list"
  cty_item_records :: "pyval list"

definition continuity_from_dict :: "pyval \<Rightarrow> continuity_state res" where
  "continuity_from_dict v =
     rbind (mapping_of v ''continuity'') (\<lambda>d.
     rbind (string_list (dict_get d ''unfinished_items'') ''continuity.unfinished_items'') (\<lambda>unfinished.
     rbind (string_list (dict_get d ''current_focus'') ''continuity.current_focus'') (\<lambda>focus.
     rbind (string_list (dict_get d ''recent_changes'') ''continuity.recent_changes'') (\<lambda>recent.
     rbind (item_records (dict_get_or (PList []) d ''item_records'') None None) (\<lambda>records.
     Inr \<lparr>cty_unfinished_items = unfinished, cty_current_focus = focus, cty_recent_changes = recent,
       cty_item_records = records\<rparr>)))))"

record temporal_state =
  tmp_created_at :: instant
  tmp_updated_at :: instant
  tmp_last_interaction_at :: "instant option"
  tmp_lifecycle_events :: "string list"
  tmp_subject_lifecycle :: pyval

definition temporal_from_dict :: "pyval \<Rightarrow> temporal_state res" where
  "temporal_from_dict v =
     rbind (mapping_of v ''temporal'') (\<lambda>d.
     rbind (ensure (dict_get d ''created_at'' \<noteq> PNone \<and> dict_get d ''updated_at'' \<noteq> PNone)
       (state_invalid ''temporal.created_at and temporal.updated_at are required'')) (\<lambda>_.
     rbind (state_time (dict_get d ''created_at'') ''temporal.created_at'') (\<lambda>created.
     rbind (state_time (dict_get d ''updated_at'') ''temporal.updated_at'') (\<lambda>updated.
     rbind (if dict_get d ''last_interaction_at'' = PNone then Inr None
       else rbind (state_time (dict_get d ''last_interaction_at'') ''temporal.last_interaction_at'') (\<lambda>t. Inr (Some t))) (\<lambda>last.
     rbind (string_list (dict_get d ''lifecycle_events'') ''temporal.lifecycle_events'') (\<lambda>events.
     Inr \<lparr>tmp_created_at = created, tmp_updated_at = updated, tmp_last_interaction_at = last,
       tmp_lifecycle_events = events, tmp_subject_lifecycle = dict_get d ''subject_lifecycle''\<rparr>))))))"

text \<open>\<open>max(0.0, (now - last).total_seconds())\<close>; \<open>now\<close> is the argument or the clock.\<close>

definition seconds_since_last_interaction :: "temporal_state \<Rightarrow> instant \<Rightarrow> rat option" where
  "seconds_since_last_interaction t now = map_option (\<lambda>last.
     max 0 (fl (of_int (usec now - usec last) / 1000000))) (tmp_last_interaction_at t)"

record intentions_state =
  itn_emerging_thoughts :: "string list"
  itn_judgments :: "string list"
  itn_action_tendencies :: "string list"
  itn_dynamic_mind :: pyval

definition mind_normal :: "pyval \<Rightarrow> pyval res" where
  "mind_normal v = rbind (mind_state_from_dict v) mind_state_to_dict"

definition intentions_from_dict :: "pyval \<Rightarrow> intentions_state res" where
  "intentions_from_dict v =
     rbind (mapping_of v ''intentions'') (\<lambda>d.
     rbind (if dict_get d ''dynamic_mind'' = PNone then Inr PNone
       else mind_normal (dict_get d ''dynamic_mind'')) (\<lambda>mind.
     rbind (string_list (dict_get d ''emerging_thoughts'') ''intentions.emerging_thoughts'') (\<lambda>thoughts.
     rbind (string_list (dict_get d ''judgments'') ''intentions.judgments'') (\<lambda>judgments.
     rbind (string_list (dict_get d ''action_tendencies'') ''intentions.action_tendencies'') (\<lambda>tendencies.
     Inr \<lparr>itn_emerging_thoughts = thoughts, itn_judgments = judgments,
       itn_action_tendencies = tendencies, itn_dynamic_mind = mind\<rparr>)))))"

record emotion_state =
  emo_interaction_state :: string
  emo_emotions :: "string list"
  emo_continuity_notes :: "string list"
  emo_current_state :: pyval
  emo_intensity :: pyval
  emo_updated_at :: pyval
  emo_confidence :: pyval
  emo_baseline :: pyval

definition is_ratio :: "pyval \<Rightarrow> bool" where
  "is_ratio v = (case mind_ratio v of Inr _ \<Rightarrow> True | Inl _ \<Rightarrow> False)"

definition emotion_values :: "emotion_state \<Rightarrow> pyval list" where
  "emotion_values e = [emo_current_state e, emo_intensity e, emo_updated_at e, emo_confidence e, emo_baseline e]"

definition emotion_to_dict :: "emotion_state \<Rightarrow> (string \<times> pyval) list res" where
  "emotion_to_dict e =
     (let base = [(''interaction_state'', PStr (emo_interaction_state e)),
        (''emotions'', strings_val (emo_emotions e)),
        (''continuity_notes'', strings_val (emo_continuity_notes e))] in
     if list_all (\<lambda>v. v = PNone) (emotion_values e) then Inr base else
     rbind (ensure (is_str (emo_current_state e) \<and> emo_current_state e \<noteq> PStr [] \<and>
         is_ratio (emo_intensity e) \<and> is_ratio (emo_confidence e) \<and> is_ratio (emo_baseline e))
       (state_invalid ''invalid C1 emotion result'')) (\<lambda>_.
     rbind (event_parse_datetime (emo_updated_at e) ''emotion_state.updated_at'') (\<lambda>_.
     Inr (base @ [(''current_state'', emo_current_state e), (''intensity'', emo_intensity e),
       (''updated_at'', emo_updated_at e), (''confidence'', emo_confidence e),
       (''baseline'', emo_baseline e)]))))"

definition emotion_from_dict :: "pyval \<Rightarrow> emotion_state res" where
  "emotion_from_dict v =
     rbind (mapping_of v ''emotion_state'') (\<lambda>d.
     rbind (string_of (dict_get d ''interaction_state'') ''emotion_state.interaction_state'') (\<lambda>interaction.
     rbind (string_list (dict_get d ''emotions'') ''emotion_state.emotions'') (\<lambda>emotions.
     rbind (string_list (dict_get d ''continuity_notes'') ''emotion_state.continuity_notes'') (\<lambda>notes.
     let e = \<lparr>emo_interaction_state = interaction, emo_emotions = emotions, emo_continuity_notes = notes,
       emo_current_state = dict_get d ''current_state'', emo_intensity = dict_get d ''intensity'',
       emo_updated_at = dict_get d ''updated_at'', emo_confidence = dict_get d ''confidence'',
       emo_baseline = dict_get d ''baseline''\<rparr> in
     rbind (emotion_to_dict e) (\<lambda>_. Inr e)))))"

section \<open>The state\<close>

record subject_state =
  ss_subject_id :: string
  ss_identity :: identity_state
  ss_relationship :: relationship_state
  ss_continuity :: continuity_state
  ss_temporal :: temporal_state
  ss_intentions :: intentions_state
  ss_emotion :: emotion_state
  ss_revision :: int

abbreviation mind_of :: "subject_state \<Rightarrow> pyval" where
  "mind_of s \<equiv> itn_dynamic_mind (ss_intentions s)"

abbreviation lifecycle_of :: "subject_state \<Rightarrow> pyval" where
  "lifecycle_of s \<equiv> tmp_subject_lifecycle (ss_temporal s)"

abbreviation narrative_of :: "subject_state \<Rightarrow> pyval" where
  "narrative_of s \<equiv> idn_self_narrative (ss_identity s)"

abbreviation objects_of :: "subject_state \<Rightarrow> pyval" where
  "objects_of s \<equiv> rel_objects (ss_relationship s)"

abbreviation records_of :: "subject_state \<Rightarrow> pyval list" where
  "records_of s \<equiv> cty_item_records (ss_continuity s)"

text \<open>\<open>if v is not None: f(v)\<close> with the value kept.\<close>

definition unless_none :: "pyval \<Rightarrow> (pyval \<Rightarrow> pyval res) \<Rightarrow> pyval res" where
  "unless_none v f = (if v = PNone then Inr PNone else f v)"

definition bound_mind :: "string \<Rightarrow> pyval \<Rightarrow> pyval res" where
  "bound_mind subject_id v = rbind (mind_state_from_dict v) (\<lambda>m.
     rbind (ensure (ms_subject_id m = subject_id) (state_invalid ''dynamic mind subject mismatch'')) (\<lambda>_.
     mind_state_to_dict m))"

definition bound_lifecycle :: "string \<Rightarrow> pyval \<Rightarrow> pyval res" where
  "bound_lifecycle subject_id v = rbind (subject_lifecycle_from_dict v) (\<lambda>l.
     rbind (ensure (sl_subject_id l = subject_id) (state_invalid ''lifecycle subject mismatch'')) (\<lambda>_.
     Inr (subject_lifecycle_to_dict l)))"

text \<open>\<open>__post_init__\<close>, after the types of the fields.\<close>

definition subject_state_init :: "int \<Rightarrow> pyval \<Rightarrow> subject_state \<Rightarrow> subject_state res" where
  "subject_state_init schema_version revision s =
     rbind (ensure (\<not> blank (ss_subject_id s)) (state_invalid ''subject_id must be a non-empty string'')) (\<lambda>_.
     rbind (ensure (schema_version = 1) (state_invalid (''unsupported schema_version '' @
       show_int schema_version @ ''; expected 1''))) (\<lambda>_.
     rbind (case as_int revision of
         Some n \<Rightarrow> if n < 0 then Inl (state_invalid ''revision must be a non-negative integer'') else Inr n
       | None \<Rightarrow> Inl (state_invalid ''revision must be a non-negative integer'')) (\<lambda>revision.
     rbind (unless_none (mind_of s) (bound_mind (ss_subject_id s))) (\<lambda>_.
     rbind (unless_none (lifecycle_of s) (bound_lifecycle (ss_subject_id s))) (\<lambda>_.
     rbind (unless_none (narrative_of s) (\<lambda>v. growth_document v ''narrative'' (Some (ss_subject_id s)))) (\<lambda>_.
     rbind (unless_none (objects_of s) (\<lambda>v. growth_document v ''relationships'' (Some (ss_subject_id s)))) (\<lambda>_.
     rbind (item_records (PList (records_of s)) (Some (ss_subject_id s)) None) (\<lambda>_.
     Inr (s\<lparr>ss_revision := revision\<rparr>)))))))))"

definition empty_identity :: identity_state where
  "empty_identity = \<lparr>idn_stable_traits = [], idn_expression_preferences = [],
     idn_judgment_principles = [], idn_self_concept = [], idn_self_narrative = PNone\<rparr>"

definition empty_relationship :: relationship_state where
  "empty_relationship = \<lparr>rel_definition = [], rel_interaction_preferences = [],
     rel_important_moments = [], rel_current_status = [], rel_objects = PNone\<rparr>"

definition empty_continuity :: continuity_state where
  "empty_continuity = \<lparr>cty_unfinished_items = [], cty_current_focus = [], cty_recent_changes = [],
     cty_item_records = []\<rparr>"

definition empty_intentions :: intentions_state where
  "empty_intentions = \<lparr>itn_emerging_thoughts = [], itn_judgments = [], itn_action_tendencies = [],
     itn_dynamic_mind = PNone\<rparr>"

definition empty_emotion :: emotion_state where
  "empty_emotion = \<lparr>emo_interaction_state = [], emo_emotions = [], emo_continuity_notes = [],
     emo_current_state = PNone, emo_intensity = PNone, emo_updated_at = PNone,
     emo_confidence = PNone, emo_baseline = PNone\<rparr>"

definition subject_create :: "string \<Rightarrow> pyval \<Rightarrow> subject_state res" where
  "subject_create subject_id now =
     rbind (require_aware (state_invalid ''now must include a timezone'') now) (\<lambda>created.
     subject_state_init 1 (PInt 0)
       \<lparr>ss_subject_id = subject_id, ss_identity = empty_identity, ss_relationship = empty_relationship,
        ss_continuity = empty_continuity,
        ss_temporal = \<lparr>tmp_created_at = created, tmp_updated_at = created, tmp_last_interaction_at = None,
          tmp_lifecycle_events = [], tmp_subject_lifecycle = PNone\<rparr>,
        ss_intentions = empty_intentions, ss_emotion = empty_emotion, ss_revision = 0\<rparr>)"

definition mark_updated :: "pyval \<Rightarrow> subject_state \<Rightarrow> subject_state res" where
  "mark_updated now s = rbind (require_aware (state_invalid ''now must include a timezone'') now) (\<lambda>updated.
     Inr (s\<lparr>ss_temporal := (ss_temporal s)\<lparr>tmp_updated_at := updated\<rparr>\<rparr>))"

text \<open>The documents of the sections, with the checked embedded documents.\<close>

definition identity_doc :: "identity_state \<Rightarrow> pyval \<Rightarrow> pyval" where
  "identity_doc i narrative = PDict ([(''stable_traits'', strings_val (idn_stable_traits i)),
     (''expression_preferences'', strings_val (idn_expression_preferences i)),
     (''judgment_principles'', strings_val (idn_judgment_principles i)),
     (''self_concept'', PStr (idn_self_concept i))] @ optional_entry ''self_narrative'' narrative)"

definition relationship_doc :: "relationship_state \<Rightarrow> pyval \<Rightarrow> pyval" where
  "relationship_doc r objects = PDict ([(''definition'', PStr (rel_definition r)),
     (''interaction_preferences'', strings_val (rel_interaction_preferences r)),
     (''important_moments'', strings_val (rel_important_moments r)),
     (''current_status'', PStr (rel_current_status r))] @ optional_entry ''objects'' objects)"

definition continuity_doc :: "continuity_state \<Rightarrow> pyval list \<Rightarrow> pyval" where
  "continuity_doc c records = PDict ([(''unfinished_items'', strings_val (cty_unfinished_items c)),
     (''current_focus'', strings_val (cty_current_focus c)),
     (''recent_changes'', strings_val (cty_recent_changes c))]
     @ (if records = [] then [] else [(''item_records'', PList records)]))"

definition temporal_doc :: "temporal_state \<Rightarrow> pyval \<Rightarrow> pyval" where
  "temporal_doc t lifecycle = PDict ([(''created_at'', time_val (tmp_created_at t)),
     (''updated_at'', time_val (tmp_updated_at t)),
     (''last_interaction_at'', opt_val time_val (tmp_last_interaction_at t)),
     (''lifecycle_events'', strings_val (tmp_lifecycle_events t))]
     @ optional_entry ''subject_lifecycle'' lifecycle)"

definition intentions_doc :: "intentions_state \<Rightarrow> pyval \<Rightarrow> pyval" where
  "intentions_doc n mind = PDict ([(''emerging_thoughts'', strings_val (itn_emerging_thoughts n)),
     (''judgments'', strings_val (itn_judgments n)),
     (''action_tendencies'', strings_val (itn_action_tendencies n))] @ optional_entry ''dynamic_mind'' mind)"

definition subject_fields_doc ::
  "subject_state \<Rightarrow> pyval \<Rightarrow> pyval \<Rightarrow> pyval \<Rightarrow> pyval \<Rightarrow> pyval list \<Rightarrow> (string \<times> pyval) list \<Rightarrow> (string \<times> pyval) list" where
  "subject_fields_doc s narrative objects lifecycle mind records emotion =
     [(''schema_version'', PInt 1), (''revision'', PInt (ss_revision s)),
      (''subject_id'', PStr (ss_subject_id s)),
      (''identity'', identity_doc (ss_identity s) narrative),
      (''relationship'', relationship_doc (ss_relationship s) objects),
      (''continuity'', continuity_doc (ss_continuity s) records),
      (''temporal'', temporal_doc (ss_temporal s) lifecycle),
      (''intentions'', intentions_doc (ss_intentions s) mind),
      (''emotion_state'', PDict emotion)]"

definition subject_to_dict :: "subject_state \<Rightarrow> pyval res" where
  "subject_to_dict s =
     rbind (unless_none (narrative_of s) (\<lambda>v. growth_document v ''narrative'' (Some (ss_subject_id s)))) (\<lambda>narrative.
     rbind (unless_none (objects_of s) (\<lambda>v. growth_document v ''relationships'' (Some (ss_subject_id s)))) (\<lambda>objects.
     rbind (unless_none (lifecycle_of s) (bound_lifecycle (ss_subject_id s))) (\<lambda>lifecycle.
     rbind (unless_none (mind_of s) (bound_mind (ss_subject_id s))) (\<lambda>mind.
     rbind (if records_of s = [] then Inr []
       else item_records (PList (records_of s)) (Some (ss_subject_id s)) None) (\<lambda>records.
     rbind (emotion_to_dict (ss_emotion s)) (\<lambda>emotion.
     Inr (PDict (subject_fields_doc s narrative objects lifecycle mind records emotion))))))))"

definition subject_from_dict :: "pyval \<Rightarrow> subject_state res" where
  "subject_from_dict v =
     rbind (mapping_of v ''subject_state'') (\<lambda>d.
     rbind (case as_int (dict_get d ''schema_version'') of
         Some n \<Rightarrow> Inr n | None \<Rightarrow> Inl (state_invalid ''schema_version must be an integer'')) (\<lambda>schema_version.
     rbind (string_of (dict_get d ''subject_id'') ''subject_id'') (\<lambda>subject_id.
     rbind (identity_from_dict (dict_get d ''identity'')) (\<lambda>identity.
     rbind (relationship_from_dict (dict_get d ''relationship'')) (\<lambda>relationship.
     rbind (continuity_from_dict (dict_get d ''continuity'')) (\<lambda>continuity.
     rbind (temporal_from_dict (dict_get d ''temporal'')) (\<lambda>temporal.
     rbind (intentions_from_dict (dict_get d ''intentions'')) (\<lambda>intentions.
     rbind (emotion_from_dict (dict_get d ''emotion_state'')) (\<lambda>emotion.
     subject_state_init schema_version (dict_get_or (PInt 0) d ''revision'')
       \<lparr>ss_subject_id = subject_id, ss_identity = identity, ss_relationship = relationship,
        ss_continuity = continuity, ss_temporal = temporal, ss_intentions = intentions,
        ss_emotion = emotion, ss_revision = 0\<rparr>)))))))))"

section \<open>Writing and reading back\<close>

text \<open>
  A state that can be written is read back with its embedded documents in their normal form;
  nothing else changes, and the normal form is written as the same document.
\<close>

definition normal_state :: "subject_state \<Rightarrow> subject_state" where
  "normal_state s = s
     \<lparr>ss_temporal := (ss_temporal s)\<lparr>tmp_subject_lifecycle :=
        (case bound_lifecycle (ss_subject_id s) (lifecycle_of s) of Inr v \<Rightarrow> v | Inl _ \<Rightarrow> PNone)\<rparr>,
      ss_intentions := (ss_intentions s)\<lparr>itn_dynamic_mind :=
        (case bound_mind (ss_subject_id s) (mind_of s) of Inr v \<Rightarrow> v | Inl _ \<Rightarrow> PNone)\<rparr>,
      ss_continuity := (ss_continuity s)\<lparr>cty_item_records :=
        (case item_records (PList (records_of s)) (Some (ss_subject_id s)) None of Inr v \<Rightarrow> v | Inl _ \<Rightarrow> [])\<rparr>\<rparr>"

lemma unless_none_simps [simp]:
  "unless_none PNone f = Inr PNone"
  "v \<noteq> PNone \<Longrightarrow> unless_none v f = f v"
  by (simp_all add: unless_none_def)

lemma mind_document_not_none [simp]: "mind_document m \<noteq> PNone"
  by (simp add: mind_document_def)

lemma mind_document_subject:
  "wf_mind m \<Longrightarrow> bound_mind (ms_subject_id m) (mind_document m) = Inr (mind_document m)"
  by (simp add: bound_mind_def mind_state_roundtrip mind_state_to_dict_run)

lemma bound_mind_Inr:
  "bound_mind s v = Inr w \<longleftrightarrow>
     (\<exists>m. mind_state_from_dict v = Inr m \<and> ms_subject_id m = s \<and> w = mind_document m)"
  using mind_state_from_dict_wf [of v] mind_state_to_dict_run
  by (cases "mind_state_from_dict v") (auto simp: bound_mind_def rbind_eq_Inr)

lemma bound_mind_again:
  assumes "bound_mind s v = Inr w"
  shows "bound_mind s w = Inr w" "mind_normal w = Inr w" "w \<noteq> PNone"
proof -
  obtain m where m: "mind_state_from_dict v = Inr m" "ms_subject_id m = s" "w = mind_document m"
    using assms by (auto simp: bound_mind_Inr)
  note m(1) [THEN mind_state_from_dict_wf]
  with m(2,3) show "bound_mind s w = Inr w" "mind_normal w = Inr w" "w \<noteq> PNone"
    by (auto simp: mind_document_subject mind_normal_def mind_state_roundtrip mind_state_to_dict_run)
qed

lemma bound_lifecycle_again:
  assumes "bound_lifecycle s v = Inr w"
  shows "bound_lifecycle s w = Inr w" "w \<noteq> PNone"
  using assms
  by (auto simp: bound_lifecycle_def rbind_eq_Inr subject_lifecycle_roundtrip
      dest!: subject_lifecycle_from_dict_wf) (simp add: subject_lifecycle_to_dict_def)

lemma parse_items_again:
  assumes "parse_items v sid env = Inr is"
  shows "parse_items (PList (map unfinished_item_to_dict is)) sid env = Inr is"
    "parse_items (PList (map unfinished_item_to_dict is)) None None = Inr is"
proof -
  from assms obtain xs where xs: "v = PList xs" "length xs \<le> 64" "rmap unfinished_item_from_dict xs = Inr is"
    "distinct (map ui_item_id is)"
    "\<forall>i \<in> set is. (sid = None \<or> sid = Some (ui_subject_id i)) \<and> (env = None \<or> env = Some (ui_environment i))"
    by (auto simp: parse_items_def rbind_eq_Inr split: pyval.splits if_splits)
  have "length is = length xs" using xs(3) by (auto simp: rmap_eq_Inr dest: list_all2_lengthD)
  moreover have "rmap unfinished_item_from_dict (map unfinished_item_to_dict is) = Inr is"
    using rmap_all [OF xs(3), of "\<lambda>i. unfinished_item_from_dict (unfinished_item_to_dict i) = Inr i"]
      unfinished_item_roundtrip by (intro rmap_Inr_id) (simp add: list_all_iff)
  ultimately show "parse_items (PList (map unfinished_item_to_dict is)) sid env = Inr is"
    "parse_items (PList (map unfinished_item_to_dict is)) None None = Inr is"
    using xs by (simp_all add: parse_items_def ensure_def)
qed

lemma item_records_again:
  assumes "item_records v sid env = Inr ds"
  shows "item_records (PList ds) sid env = Inr ds" "item_records (PList ds) None None = Inr ds"
  using assms parse_items_again by (auto simp: item_records_def rbind_eq_Inr)

lemma item_records_Nil [simp]: "item_records (PList []) sid env = Inr []"
  by (simp add: item_records_def parse_items_def ensure_def)

lemma item_records_Nil_iff: "item_records (PList xs) sid env = Inr [] \<Longrightarrow> xs = []"
  by (auto simp: item_records_def parse_items_def rbind_eq_Inr rmap_eq_Inr split: if_splits)

lemma emotion_roundtrip:
  assumes "emotion_to_dict e = Inr d"
  shows "emotion_from_dict (PDict d) = Inr e"
proof -
  have "\<exists>vs. d = [(''interaction_state'', PStr (emo_interaction_state e)),
      (''emotions'', strings_val (emo_emotions e)), (''continuity_notes'', strings_val (emo_continuity_notes e))] @ vs
    \<and> (vs = [] \<and> list_all (\<lambda>v. v = PNone) (emotion_values e) \<or>
       vs = [(''current_state'', emo_current_state e), (''intensity'', emo_intensity e),
       (''updated_at'', emo_updated_at e), (''confidence'', emo_confidence e), (''baseline'', emo_baseline e)])"
    using assms unfolding emotion_to_dict_def Let_def by (auto simp: rbind_eq_Inr split: if_splits)
  then have "emotion_from_dict (PDict d) = rbind (emotion_to_dict e) (\<lambda>_. Inr e)"
    unfolding emotion_from_dict_def mapping_of_def
    by (elim exE conjE disjE; cases e) (simp_all add: Let_def emotion_values_def)
  with assms show ?thesis by simp
qed

definition wf_subject :: "subject_state \<Rightarrow> bool" where
  "wf_subject s \<longleftrightarrow> \<not> blank (ss_subject_id s) \<and> 0 \<le> ss_revision s \<and> (\<exists>d. subject_to_dict s = Inr d)"

lemma unless_none_cases:
  assumes "unless_none v f = Inr w"
  obtains "v = PNone" "w = PNone" | "v \<noteq> PNone" "f v = Inr w"
  using assms by (auto simp: unless_none_def split: if_splits)

lemma normal_parts:
  assumes "unless_none (mind_of s) (bound_mind (ss_subject_id s)) = Inr mind"
    "unless_none (lifecycle_of s) (bound_lifecycle (ss_subject_id s)) = Inr lc"
    "(if records_of s = [] then Inr []
       else item_records (PList (records_of s)) (Some (ss_subject_id s)) None) = Inr rs"
  shows "mind_of (normal_state s) = mind" "lifecycle_of (normal_state s) = lc"
    "records_of (normal_state s) = rs"
proof -
  have "mind_state_from_dict PNone = Inl (mind_err ''MIND_STATE_SHAPE_INVALID'')"
    "subject_lifecycle_from_dict PNone = Inl (LifecycleError, ''SUBJECT_LIFECYCLE_SHAPE_INVALID'')"
    by (simp_all add: mind_state_from_dict_def shaped_dict_def subject_lifecycle_from_dict_def)
  with assms show "mind_of (normal_state s) = mind" "lifecycle_of (normal_state s) = lc"
    "records_of (normal_state s) = rs"
    by (auto simp: normal_state_def bound_mind_def bound_lifecycle_def elim!: unless_none_cases split: if_splits)
qed

lemma normal_same [simp]:
  "ss_subject_id (normal_state s) = ss_subject_id s" "ss_revision (normal_state s) = ss_revision s"
  "ss_identity (normal_state s) = ss_identity s" "ss_relationship (normal_state s) = ss_relationship s"
  "ss_emotion (normal_state s) = ss_emotion s"
  "tmp_updated_at (ss_temporal (normal_state s)) = tmp_updated_at (ss_temporal s)"
  "tmp_created_at (ss_temporal (normal_state s)) = tmp_created_at (ss_temporal s)"
  "tmp_last_interaction_at (ss_temporal (normal_state s)) = tmp_last_interaction_at (ss_temporal s)"
  "tmp_lifecycle_events (ss_temporal (normal_state s)) = tmp_lifecycle_events (ss_temporal s)"
  by (simp_all add: normal_state_def)

lemma optional_entry_get [simp]: "dict_get_or PNone (optional_entry k v) k' = (if k' = k then v else PNone)"
  by (simp add: optional_entry_def)

lemma dict_get_append:
  "dict_get_or u (d @ e) k = dict_get_or (dict_get_or u e k) d k"
  by (simp add: dict_get_or_def map_add_def split: option.splits)

lemma growth_again:
  "unless_none v (\<lambda>v. growth_document v kind (Some s)) = Inr w \<Longrightarrow> w = v"
  by (auto elim!: unless_none_cases dest: growth_document_id)

lemma unless_none_again:
  assumes "unless_none v f = Inr w" "\<And>u. f u = Inr w \<Longrightarrow> f w = Inr w \<and> w \<noteq> PNone"
  shows "unless_none w f = Inr w"
  using assms by (auto elim!: unless_none_cases)

text \<open>The document of a writable state is the document of its normal form.\<close>

lemma subject_to_dict_normal:
  assumes "subject_to_dict s = Inr d"
  shows "subject_to_dict (normal_state s) = Inr d \<and> (\<exists>emotion. emotion_to_dict (ss_emotion s) = Inr emotion \<and>
    d = PDict (subject_fields_doc s (narrative_of s) (objects_of s) (lifecycle_of (normal_state s))
      (mind_of (normal_state s)) (records_of (normal_state s)) emotion) \<and>
    unless_none (mind_of (normal_state s)) (bound_mind (ss_subject_id s)) = Inr (mind_of (normal_state s)) \<and>
    unless_none (lifecycle_of (normal_state s)) (bound_lifecycle (ss_subject_id s)) = Inr (lifecycle_of (normal_state s)) \<and>
    unless_none (narrative_of s) (\<lambda>v. growth_document v ''narrative'' (Some (ss_subject_id s))) = Inr (narrative_of s) \<and>
    unless_none (objects_of s) (\<lambda>v. growth_document v ''relationships'' (Some (ss_subject_id s))) = Inr (objects_of s) \<and>
    item_records (PList (records_of (normal_state s))) (Some (ss_subject_id s)) None = Inr (records_of (normal_state s)))"
proof -
  from assms obtain narrative objects lifecycle mind records emotion where
    n: "unless_none (narrative_of s) (\<lambda>v. growth_document v ''narrative'' (Some (ss_subject_id s))) = Inr narrative"
    and o: "unless_none (objects_of s) (\<lambda>v. growth_document v ''relationships'' (Some (ss_subject_id s))) = Inr objects"
    and l: "unless_none (lifecycle_of s) (bound_lifecycle (ss_subject_id s)) = Inr lifecycle"
    and m: "unless_none (mind_of s) (bound_mind (ss_subject_id s)) = Inr mind"
    and r: "(if records_of s = [] then Inr []
       else item_records (PList (records_of s)) (Some (ss_subject_id s)) None) = Inr records"
    and e: "emotion_to_dict (ss_emotion s) = Inr emotion"
    and d: "d = PDict (subject_fields_doc s narrative objects lifecycle mind records emotion)"
    unfolding subject_to_dict_def by (elim rbindE) simp
  note parts = normal_parts [OF m l r]
  note no = n [THEN growth_again] o [THEN growth_again]
  have m': "unless_none mind (bound_mind (ss_subject_id s)) = Inr mind"
    using m by (rule unless_none_again) (blast dest: bound_mind_again)
  have l': "unless_none lifecycle (bound_lifecycle (ss_subject_id s)) = Inr lifecycle"
    using l by (rule unless_none_again) (blast dest: bound_lifecycle_again)
  have r': "item_records (PList records) (Some (ss_subject_id s)) None = Inr records"
    using r by (auto split: if_splits dest: item_records_again)
  have same: "subject_fields_doc (normal_state s) a b c x y z = subject_fields_doc s a b c x y z" for a b c x y z
    by (simp add: subject_fields_doc_def normal_state_def continuity_doc_def temporal_doc_def intentions_doc_def)
  have "subject_to_dict (normal_state s) = Inr d"
    using n o m' l' r' e by (simp add: subject_to_dict_def parts no same d)
  then show ?thesis using n o m' l' r' e d by (simp add: parts no)
qed

lemma sections_roundtrip:
  "identity_from_dict (identity_doc i (idn_self_narrative i)) = Inr i"
  "relationship_from_dict (relationship_doc r (rel_objects r)) = Inr r"
  "temporal_from_dict (temporal_doc t (tmp_subject_lifecycle t)) = Inr t"
  by (simp_all add: identity_from_dict_def relationship_from_dict_def temporal_from_dict_def mapping_of_def
      identity_doc_def relationship_doc_def temporal_doc_def)
    (cases "tmp_last_interaction_at t"; simp)

lemma continuity_roundtrip:
  assumes "item_records (PList (cty_item_records c)) None None = Inr (cty_item_records c)"
  shows "continuity_from_dict (continuity_doc c (cty_item_records c)) = Inr c"
  using assms
  by (cases "cty_item_records c = []") (simp_all add: continuity_from_dict_def mapping_of_def continuity_doc_def)

lemma intentions_roundtrip:
  assumes "unless_none (itn_dynamic_mind n) (bound_mind s) = Inr (itn_dynamic_mind n)"
  shows "intentions_from_dict (intentions_doc n (itn_dynamic_mind n)) = Inr n"
  using assms bound_mind_again(2)
  by (auto simp: intentions_from_dict_def mapping_of_def intentions_doc_def elim!: unless_none_cases)

lemma subject_from_dict_normal:
  assumes "wf_subject s" "subject_to_dict s = Inr d"
  shows "subject_from_dict d = Inr (normal_state s)"
proof -
  let ?n = "normal_state s"
  from subject_to_dict_normal [OF assms(2)] obtain emotion where
    e: "emotion_to_dict (ss_emotion s) = Inr emotion"
    and d: "d = PDict (subject_fields_doc s (narrative_of s) (objects_of s) (lifecycle_of ?n)
      (mind_of ?n) (records_of ?n) emotion)"
    and m: "unless_none (mind_of ?n) (bound_mind (ss_subject_id s)) = Inr (mind_of ?n)"
    and l: "unless_none (lifecycle_of ?n) (bound_lifecycle (ss_subject_id s)) = Inr (lifecycle_of ?n)"
    and n: "unless_none (narrative_of s) (\<lambda>v. growth_document v ''narrative'' (Some (ss_subject_id s))) = Inr (narrative_of s)"
    and o: "unless_none (objects_of s) (\<lambda>v. growth_document v ''relationships'' (Some (ss_subject_id s))) = Inr (objects_of s)"
    and r: "item_records (PList (records_of ?n)) (Some (ss_subject_id s)) None = Inr (records_of ?n)"
    by blast
  have same: "subject_fields_doc s a b c x y z = subject_fields_doc ?n a b c x y z" for a b c x y z
    by (simp add: subject_fields_doc_def normal_state_def identity_doc_def relationship_doc_def
        continuity_doc_def temporal_doc_def intentions_doc_def)
  note cont = continuity_roundtrip [OF item_records_again(2) [OF r]]
  note inten = intentions_roundtrip [OF m]
  have w: "\<not> blank (ss_subject_id s)" "0 \<le> ss_revision s" using assms(1) by (simp_all add: wf_subject_def)
  have init: "subject_state_init 1 (PInt (ss_revision s)) (?n\<lparr>ss_revision := 0\<rparr>) = Inr ?n"
    using w m l n o r by (simp add: subject_state_init_def)
  have rec: "\<lparr>ss_subject_id = ss_subject_id s, ss_identity = ss_identity s,
      ss_relationship = ss_relationship s, ss_continuity = ss_continuity ?n, ss_temporal = ss_temporal ?n,
      ss_intentions = ss_intentions ?n, ss_emotion = ss_emotion s, ss_revision = 0\<rparr> = ?n\<lparr>ss_revision := 0\<rparr>"
    by (cases s) (simp add: normal_state_def)
  have "subject_from_dict (PDict (subject_fields_doc ?n (narrative_of ?n) (objects_of ?n) (lifecycle_of ?n)
      (mind_of ?n) (records_of ?n) emotion)) = Inr ?n"
    using init by (simp add: subject_from_dict_def subject_fields_doc_def mapping_of_def cont inten
        sections_roundtrip emotion_roundtrip [OF e] rec)
  then show ?thesis by (simp add: d same)
qed

text \<open>Every decoded state can be written.\<close>

lemma emotion_from_dict_Inr: "emotion_from_dict v = Inr e \<Longrightarrow> \<exists>d. emotion_to_dict e = Inr d"
  by (auto simp: emotion_from_dict_def rbind_eq_Inr Let_def)

lemma subject_state_init_Inr:
  assumes "subject_state_init n v s = Inr t" "\<exists>d. emotion_to_dict (ss_emotion s) = Inr d"
  shows "wf_subject t \<and> t = s\<lparr>ss_revision := ss_revision t\<rparr> \<and> n = 1 \<and> as_int v = Some (ss_revision t)"
proof -
  obtain mind lc na ob rs r where
    m: "unless_none (mind_of s) (bound_mind (ss_subject_id s)) = Inr mind"
    and l: "unless_none (lifecycle_of s) (bound_lifecycle (ss_subject_id s)) = Inr lc"
    and n: "unless_none (narrative_of s) (\<lambda>v. growth_document v ''narrative'' (Some (ss_subject_id s))) = Inr na"
    and o: "unless_none (objects_of s) (\<lambda>v. growth_document v ''relationships'' (Some (ss_subject_id s))) = Inr ob"
    and r: "item_records (PList (records_of s)) (Some (ss_subject_id s)) None = Inr rs"
    and t: "t = s\<lparr>ss_revision := r\<rparr>" "as_int v = Some r" "0 \<le> r" "n = 1" "\<not> blank (ss_subject_id s)"
    using assms(1) unfolding subject_state_init_def
    by (elim rbindE) (auto split: option.splits if_splits)
  obtain d where "emotion_to_dict (ss_emotion s) = Inr d" using assms(2) by blast
  then have "\<exists>d. subject_to_dict t = Inr d"
    using m l n o r by (simp add: subject_to_dict_def t(1))
  with t show ?thesis by (simp add: wf_subject_def)
qed

lemma subject_from_dict_wf: "subject_from_dict v = Inr s \<Longrightarrow> wf_subject s"
  unfolding subject_from_dict_def
  by (elim rbindE) (drule subject_state_init_Inr, auto dest: emotion_from_dict_Inr)

lemma subject_create_wf: "subject_create i t = Inr s \<Longrightarrow> wf_subject s"
  unfolding subject_create_def
  by (elim rbindE) (drule subject_state_init_Inr, auto simp: empty_emotion_def emotion_to_dict_def emotion_values_def)

definition subject_document :: "subject_state \<Rightarrow> pyval" where
  "subject_document s = (case subject_to_dict s of Inr d \<Rightarrow> d | Inl _ \<Rightarrow> PNone)"

lemma subject_to_dict_run: "wf_subject s \<Longrightarrow> subject_to_dict s = Inr (subject_document s)"
  by (auto simp: wf_subject_def subject_document_def)

text \<open>What \<open>SubjectState.from_dict(state.to_dict())\<close> gives, and that doing it twice changes nothing.\<close>

lemma subject_roundtrip:
  assumes "wf_subject s"
  shows "subject_from_dict (subject_document s) = Inr (normal_state s)"
    "subject_to_dict (normal_state s) = Inr (subject_document s)"
    "wf_subject (normal_state s)" "subject_document (normal_state s) = subject_document s"
proof -
  note d = subject_to_dict_run [OF assms]
  show "subject_from_dict (subject_document s) = Inr (normal_state s)"
    by (rule subject_from_dict_normal [OF assms d])
  then show "wf_subject (normal_state s)" by (rule subject_from_dict_wf)
  show "subject_to_dict (normal_state s) = Inr (subject_document s)"
    using subject_to_dict_normal [OF d] by blast
  then show "subject_document (normal_state s) = subject_document s"
    by (simp add: subject_document_def [of "normal_state s"])
qed

lemma normal_state_idem [simp]: "wf_subject s \<Longrightarrow> normal_state (normal_state s) = normal_state s"
  using subject_roundtrip [of s] subject_roundtrip(1) [of "normal_state s"] by simp

lemma normal_states_equal:
  assumes "wf_subject s" "wf_subject t" "subject_document s = subject_document t"
  shows "normal_state s = normal_state t"
  using subject_roundtrip(1) [OF assms(1)] subject_roundtrip(1) [OF assms(2)] assms(3) by simp

end
