(* ===== verification/Subject_Evolution.thy ===== *)
theory Subject_Evolution
  imports Subject_State
begin

text \<open>
  domain/evolution.py: an event changes a SubjectState only through its mutations, each of them
  under the rule of its field, and every change is recorded. \<open>subject_fields\<close> gives the
  attributes that \<open>getattr\<close> and \<open>setattr\<close> reach, by their path.
\<close>

section \<open>Rules\<close>

datatype value_type = Type_list | Type_str | Type_dict | Type_float

datatype document_type = Doc_mind | Doc_narrative | Doc_relationships | Doc_lifecycle | Doc_unfinished_items

record field_rule =
  fr_section :: state_section
  fr_value_type :: value_type
  fr_document_type :: document_type

abbreviation list_rule :: "state_section \<Rightarrow> field_rule" where
  "list_rule s \<equiv> \<lparr>fr_section = s, fr_value_type = Type_list, fr_document_type = Doc_mind\<rparr>"

abbreviation str_rule :: "state_section \<Rightarrow> field_rule" where
  "str_rule s \<equiv> \<lparr>fr_section = s, fr_value_type = Type_str, fr_document_type = Doc_mind\<rparr>"

abbreviation float_rule :: "state_section \<Rightarrow> field_rule" where
  "float_rule s \<equiv> \<lparr>fr_section = s, fr_value_type = Type_float, fr_document_type = Doc_mind\<rparr>"

abbreviation dict_rule :: "state_section \<Rightarrow> document_type \<Rightarrow> field_rule" where
  "dict_rule s d \<equiv> \<lparr>fr_section = s, fr_value_type = Type_dict, fr_document_type = d\<rparr>"

definition field_rules :: "(string \<times> field_rule) list" where
  "field_rules =
     [(''identity.stable_traits'', list_rule Sec_IDENTITY),
      (''identity.expression_preferences'', list_rule Sec_IDENTITY),
      (''identity.judgment_principles'', list_rule Sec_IDENTITY),
      (''identity.self_concept'', str_rule Sec_IDENTITY),
      (''identity.self_narrative'', dict_rule Sec_IDENTITY Doc_narrative),
      (''relationship.objects'', dict_rule Sec_RELATIONSHIP Doc_relationships),
      (''relationship.definition'', str_rule Sec_RELATIONSHIP),
      (''relationship.interaction_preferences'', list_rule Sec_RELATIONSHIP),
      (''relationship.important_moments'', list_rule Sec_RELATIONSHIP),
      (''relationship.current_status'', str_rule Sec_RELATIONSHIP),
      (''continuity.unfinished_items'', list_rule Sec_CONTINUITY),
      (''continuity.item_records'',
        \<lparr>fr_section = Sec_CONTINUITY, fr_value_type = Type_list, fr_document_type = Doc_unfinished_items\<rparr>),
      (''continuity.current_focus'', list_rule Sec_CONTINUITY),
      (''continuity.recent_changes'', list_rule Sec_CONTINUITY),
      (''temporal.lifecycle_events'', list_rule Sec_TEMPORAL),
      (''temporal.subject_lifecycle'', dict_rule Sec_TEMPORAL Doc_lifecycle),
      (''intentions.emerging_thoughts'', list_rule Sec_INTENTIONS),
      (''intentions.judgments'', list_rule Sec_INTENTIONS),
      (''intentions.action_tendencies'', list_rule Sec_INTENTIONS),
      (''intentions.dynamic_mind'', dict_rule Sec_INTENTIONS Doc_mind),
      (''emotion_state.current_state'', str_rule Sec_EMOTION_STATE),
      (''emotion_state.intensity'', float_rule Sec_EMOTION_STATE),
      (''emotion_state.updated_at'', str_rule Sec_EMOTION_STATE),
      (''emotion_state.confidence'', float_rule Sec_EMOTION_STATE),
      (''emotion_state.baseline'', float_rule Sec_EMOTION_STATE),
      (''emotion_state.interaction_state'', str_rule Sec_EMOTION_STATE),
      (''emotion_state.emotions'', list_rule Sec_EMOTION_STATE),
      (''emotion_state.continuity_notes'', list_rule Sec_EMOTION_STATE)]"

section \<open>Attributes\<close>

type_synonym attribute = "(subject_state \<Rightarrow> pyval) \<times> (pyval \<Rightarrow> subject_state \<Rightarrow> subject_state)"

fun texts_of :: "pyval \<Rightarrow> string list" where
  "texts_of (PList xs) = map text_of xs"
| "texts_of _ = []"

lemma texts_of_strings [simp]: "texts_of (strings_val ss) = ss"
  by (simp add: comp_def)

abbreviation identity_attr ::
  "(identity_state \<Rightarrow> pyval) \<Rightarrow> (pyval \<Rightarrow> identity_state \<Rightarrow> identity_state) \<Rightarrow> attribute" where
  "identity_attr g u \<equiv> (\<lambda>s. g (ss_identity s), \<lambda>v s. s\<lparr>ss_identity := u v (ss_identity s)\<rparr>)"

abbreviation relationship_attr ::
  "(relationship_state \<Rightarrow> pyval) \<Rightarrow> (pyval \<Rightarrow> relationship_state \<Rightarrow> relationship_state) \<Rightarrow> attribute" where
  "relationship_attr g u \<equiv> (\<lambda>s. g (ss_relationship s), \<lambda>v s. s\<lparr>ss_relationship := u v (ss_relationship s)\<rparr>)"

abbreviation continuity_attr ::
  "(continuity_state \<Rightarrow> pyval) \<Rightarrow> (pyval \<Rightarrow> continuity_state \<Rightarrow> continuity_state) \<Rightarrow> attribute" where
  "continuity_attr g u \<equiv> (\<lambda>s. g (ss_continuity s), \<lambda>v s. s\<lparr>ss_continuity := u v (ss_continuity s)\<rparr>)"

abbreviation temporal_attr ::
  "(temporal_state \<Rightarrow> pyval) \<Rightarrow> (pyval \<Rightarrow> temporal_state \<Rightarrow> temporal_state) \<Rightarrow> attribute" where
  "temporal_attr g u \<equiv> (\<lambda>s. g (ss_temporal s), \<lambda>v s. s\<lparr>ss_temporal := u v (ss_temporal s)\<rparr>)"

abbreviation intentions_attr ::
  "(intentions_state \<Rightarrow> pyval) \<Rightarrow> (pyval \<Rightarrow> intentions_state \<Rightarrow> intentions_state) \<Rightarrow> attribute" where
  "intentions_attr g u \<equiv> (\<lambda>s. g (ss_intentions s), \<lambda>v s. s\<lparr>ss_intentions := u v (ss_intentions s)\<rparr>)"

abbreviation emotion_attr ::
  "(emotion_state \<Rightarrow> pyval) \<Rightarrow> (pyval \<Rightarrow> emotion_state \<Rightarrow> emotion_state) \<Rightarrow> attribute" where
  "emotion_attr g u \<equiv> (\<lambda>s. g (ss_emotion s), \<lambda>v s. s\<lparr>ss_emotion := u v (ss_emotion s)\<rparr>)"

definition subject_fields :: "(string \<times> attribute) list" where
  "subject_fields =
     [(''identity.stable_traits'', identity_attr (\<lambda>i. strings_val (idn_stable_traits i))
        (\<lambda>v i. i\<lparr>idn_stable_traits := texts_of v\<rparr>)),
      (''identity.expression_preferences'', identity_attr (\<lambda>i. strings_val (idn_expression_preferences i))
        (\<lambda>v i. i\<lparr>idn_expression_preferences := texts_of v\<rparr>)),
      (''identity.judgment_principles'', identity_attr (\<lambda>i. strings_val (idn_judgment_principles i))
        (\<lambda>v i. i\<lparr>idn_judgment_principles := texts_of v\<rparr>)),
      (''identity.self_concept'', identity_attr (\<lambda>i. PStr (idn_self_concept i))
        (\<lambda>v i. i\<lparr>idn_self_concept := text_of v\<rparr>)),
      (''identity.self_narrative'', identity_attr idn_self_narrative (\<lambda>v i. i\<lparr>idn_self_narrative := v\<rparr>)),
      (''relationship.objects'', relationship_attr rel_objects (\<lambda>v r. r\<lparr>rel_objects := v\<rparr>)),
      (''relationship.definition'', relationship_attr (\<lambda>r. PStr (rel_definition r))
        (\<lambda>v r. r\<lparr>rel_definition := text_of v\<rparr>)),
      (''relationship.interaction_preferences'', relationship_attr (\<lambda>r. strings_val (rel_interaction_preferences r))
        (\<lambda>v r. r\<lparr>rel_interaction_preferences := texts_of v\<rparr>)),
      (''relationship.important_moments'', relationship_attr (\<lambda>r. strings_val (rel_important_moments r))
        (\<lambda>v r. r\<lparr>rel_important_moments := texts_of v\<rparr>)),
      (''relationship.current_status'', relationship_attr (\<lambda>r. PStr (rel_current_status r))
        (\<lambda>v r. r\<lparr>rel_current_status := text_of v\<rparr>)),
      (''continuity.unfinished_items'', continuity_attr (\<lambda>c. strings_val (cty_unfinished_items c))
        (\<lambda>v c. c\<lparr>cty_unfinished_items := texts_of v\<rparr>)),
      (''continuity.item_records'', continuity_attr (\<lambda>c. PList (cty_item_records c))
        (\<lambda>v c. c\<lparr>cty_item_records := list_of v\<rparr>)),
      (''continuity.current_focus'', continuity_attr (\<lambda>c. strings_val (cty_current_focus c))
        (\<lambda>v c. c\<lparr>cty_current_focus := texts_of v\<rparr>)),
      (''continuity.recent_changes'', continuity_attr (\<lambda>c. strings_val (cty_recent_changes c))
        (\<lambda>v c. c\<lparr>cty_recent_changes := texts_of v\<rparr>)),
      (''temporal.lifecycle_events'', temporal_attr (\<lambda>t. strings_val (tmp_lifecycle_events t))
        (\<lambda>v t. t\<lparr>tmp_lifecycle_events := texts_of v\<rparr>)),
      (''temporal.subject_lifecycle'', temporal_attr tmp_subject_lifecycle (\<lambda>v t. t\<lparr>tmp_subject_lifecycle := v\<rparr>)),
      (''intentions.emerging_thoughts'', intentions_attr (\<lambda>n. strings_val (itn_emerging_thoughts n))
        (\<lambda>v n. n\<lparr>itn_emerging_thoughts := texts_of v\<rparr>)),
      (''intentions.judgments'', intentions_attr (\<lambda>n. strings_val (itn_judgments n))
        (\<lambda>v n. n\<lparr>itn_judgments := texts_of v\<rparr>)),
      (''intentions.action_tendencies'', intentions_attr (\<lambda>n. strings_val (itn_action_tendencies n))
        (\<lambda>v n. n\<lparr>itn_action_tendencies := texts_of v\<rparr>)),
      (''intentions.dynamic_mind'', intentions_attr itn_dynamic_mind (\<lambda>v n. n\<lparr>itn_dynamic_mind := v\<rparr>)),
      (''emotion_state.current_state'', emotion_attr emo_current_state (\<lambda>v e. e\<lparr>emo_current_state := v\<rparr>)),
      (''emotion_state.intensity'', emotion_attr emo_intensity (\<lambda>v e. e\<lparr>emo_intensity := v\<rparr>)),
      (''emotion_state.updated_at'', emotion_attr emo_updated_at (\<lambda>v e. e\<lparr>emo_updated_at := v\<rparr>)),
      (''emotion_state.confidence'', emotion_attr emo_confidence (\<lambda>v e. e\<lparr>emo_confidence := v\<rparr>)),
      (''emotion_state.baseline'', emotion_attr emo_baseline (\<lambda>v e. e\<lparr>emo_baseline := v\<rparr>)),
      (''emotion_state.interaction_state'', emotion_attr (\<lambda>e. PStr (emo_interaction_state e))
        (\<lambda>v e. e\<lparr>emo_interaction_state := text_of v\<rparr>)),
      (''emotion_state.emotions'', emotion_attr (\<lambda>e. strings_val (emo_emotions e))
        (\<lambda>v e. e\<lparr>emo_emotions := texts_of v\<rparr>)),
      (''emotion_state.continuity_notes'', emotion_attr (\<lambda>e. strings_val (emo_continuity_notes e))
        (\<lambda>v e. e\<lparr>emo_continuity_notes := texts_of v\<rparr>))]"

definition get_field :: "string \<Rightarrow> subject_state \<Rightarrow> pyval" where
  "get_field path s = (case map_of subject_fields path of None \<Rightarrow> PNone | Some (g, u) \<Rightarrow> g s)"

definition set_field :: "string \<Rightarrow> pyval \<Rightarrow> subject_state \<Rightarrow> subject_state" where
  "set_field path v s = (case map_of subject_fields path of None \<Rightarrow> s | Some (g, u) \<Rightarrow> u v s)"

section \<open>Mutations\<close>

abbreviation evolution_err :: "string \<Rightarrow> exn" where
  "evolution_err m \<equiv> (StateEvolutionError, m)"

definition set_value :: "pyval \<Rightarrow> field_rule \<Rightarrow> pyval res" where
  "set_value value rule = (case fr_value_type rule of
       Type_dict \<Rightarrow> (case fr_document_type rule of
           Doc_narrative \<Rightarrow> growth_document value ''narrative'' None
         | Doc_relationships \<Rightarrow> growth_document value ''relationships'' None
         | Doc_lifecycle \<Rightarrow> rbind (subject_lifecycle_from_dict value) (\<lambda>l. Inr (subject_lifecycle_to_dict l))
         | _ \<Rightarrow> mind_normal value)
     | Type_float \<Rightarrow> (case mind_ratio value of
           Inr q \<Rightarrow> Inr (PFloat q) | Inl _ \<Rightarrow> Inl (evolution_err ''emotion value must be a finite ratio''))
     | Type_str \<Rightarrow> if is_str value then Inr value
         else Inl (evolution_err ''set value must be a string for this field'')
     | Type_list \<Rightarrow> if fr_document_type rule = Doc_unfinished_items
         then rbind (item_records value None None) (\<lambda>ds. Inr (PList ds))
         else (case value of
           PList xs \<Rightarrow> if list_all is_str xs then Inr value
             else Inl (evolution_err ''set value must be a valid list for this field'')
         | _ \<Rightarrow> Inl (evolution_err ''set value must be a valid list for this field'')))"

definition apply_mutation :: "pyval \<Rightarrow> change_operation \<Rightarrow> pyval \<Rightarrow> field_rule \<Rightarrow> pyval res" where
  "apply_mutation before operation value rule =
     (if operation = Op_SET then set_value value rule else
      rbind (ensure (fr_value_type rule = Type_list)
        (evolution_err (operation_value operation @ '' is only supported for list fields''))) (\<lambda>_.
      rbind (ensure (fr_document_type rule \<noteq> Doc_unfinished_items)
        (evolution_err ''W03_ITEM_RECORDS_REQUIRE_ATOMIC_SET'')) (\<lambda>_.
      rbind (ensure (is_str value) (evolution_err ''list mutation value has an invalid type'')) (\<lambda>_.
      let current = list_of before in
      Inr (PList (case operation of
          Op_APPEND \<Rightarrow> if value \<in> set current then current else current @ [value]
        | _ \<Rightarrow> remove1 value current))))))"

definition evolve_mutation ::
  "state_section list \<Rightarrow> state_mutation \<Rightarrow> subject_state \<times> field_change list
     \<Rightarrow> (subject_state \<times> field_change list) res" where
  "evolve_mutation scope m acc = (case acc of (evolved, changes) \<Rightarrow>
     case map_of field_rules (sm_field_path m) of
       None \<Rightarrow> Inl (evolution_err (''field cannot be changed by events: '' @ sm_field_path m))
     | Some rule \<Rightarrow>
         rbind (ensure (fr_section rule \<in> set scope)
           (evolution_err (''field '' @ sm_field_path m @ '' is outside the event impact scope''))) (\<lambda>_.
         let before = get_field (sm_field_path m) evolved in
         rbind (apply_mutation before (sm_operation m) (sm_value m) rule) (\<lambda>after.
         if py_eq after before then Inr (evolved, changes)
         else Inr (set_field (sm_field_path m) after evolved,
           changes @ [\<lparr>fc_field_path = sm_field_path m, fc_operation = sm_operation m,
             fc_before = before, fc_after = after, fc_reason = sm_reason m\<rparr>]))))"

fun evolve_mutations ::
  "state_section list \<Rightarrow> state_mutation list \<Rightarrow> subject_state \<times> field_change list
     \<Rightarrow> (subject_state \<times> field_change list) res" where
  "evolve_mutations scope [] acc = Inr acc"
| "evolve_mutations scope (m # ms) acc = rbind (evolve_mutation scope m acc) (evolve_mutations scope ms)"

definition set_last_interaction :: "instant option \<Rightarrow> subject_state \<Rightarrow> subject_state" where
  "set_last_interaction t s = s\<lparr>ss_temporal := (ss_temporal s)\<lparr>tmp_last_interaction_at := t\<rparr>\<rparr>"

definition set_updated :: "instant \<Rightarrow> subject_state \<Rightarrow> subject_state" where
  "set_updated t s = s\<lparr>ss_temporal := (ss_temporal s)\<lparr>tmp_updated_at := t\<rparr>\<rparr>"

definition evolve_interaction ::
  "event \<Rightarrow> subject_state \<times> field_change list \<Rightarrow> (subject_state \<times> field_change list) res" where
  "evolve_interaction event acc = (case acc of (evolved, changes) \<Rightarrow>
     if ev_event_type event \<noteq> ''interaction'' then Inr acc
     else rbind (ensure (Sec_TEMPORAL \<in> set (ev_impact_scope event))
       (evolution_err ''interaction events must include temporal impact scope'')) (\<lambda>_.
     let previous = tmp_last_interaction_at (ss_temporal evolved); following = ev_occurred_at event in
     if (\<forall>p. previous = Some p \<longrightarrow> p < following)
     then Inr (set_last_interaction (Some following) evolved,
       changes @ [\<lparr>fc_field_path = ''temporal.last_interaction_at'', fc_operation = Op_SET,
         fc_before = opt_val time_val previous, fc_after = time_val following,
         fc_reason = ''The event represents a newer interaction.''\<rparr>])
     else Inr acc))"

definition evolve_stamp ::
  "instant \<Rightarrow> subject_state \<times> field_change list \<Rightarrow> subject_state \<times> field_change list" where
  "evolve_stamp applied_at acc = (case acc of (evolved, changes) \<Rightarrow>
     if changes = [] then acc
     else let previous = tmp_updated_at (ss_temporal evolved); effective = max applied_at previous;
         (evolved, changes) =
           (if effective \<noteq> previous then (set_updated effective evolved,
              changes @ [\<lparr>fc_field_path = ''temporal.updated_at'', fc_operation = Op_SET,
                fc_before = time_val previous, fc_after = time_val effective,
                fc_reason = ''SubjectState changed while applying the event.''\<rparr>])
            else (evolved, changes))
       in (evolved\<lparr>ss_revision := ss_revision evolved + 1\<rparr>, changes))"

record evolution_result =
  er_state :: subject_state
  er_update :: state_update
  er_idempotent_replay :: bool

definition evolve :: "string \<Rightarrow> subject_state \<Rightarrow> event \<Rightarrow> pyval \<Rightarrow> evolution_result res" where
  "evolve uuid state event applied_at =
     rbind (require_aware (evolution_err ''applied_at must include a timezone'') applied_at) (\<lambda>applied.
     rbind (rbind (subject_to_dict state) subject_from_dict) (\<lambda>evolved.
     rbind (evolve_mutations (ev_impact_scope event) (ev_mutations event) (evolved, [])) (\<lambda>acc.
     rbind (evolve_interaction event acc) (\<lambda>acc.
     let (evolved, changes) = evolve_stamp applied acc in
     rbind (state_update_init (PStr uuid) (PStr (ss_subject_id state)) event (utc_val applied)
       (ss_revision state) (ss_revision evolved) changes (PStr (ev_reason event))) (\<lambda>update.
     Inr \<lparr>er_state = evolved, er_update = update, er_idempotent_replay = False\<rparr>)))))"

section \<open>Attributes are independent\<close>

lemma set_field_frame [simp]:
  "ss_subject_id (set_field p v s) = ss_subject_id s" "ss_revision (set_field p v s) = ss_revision s"
  "tmp_created_at (ss_temporal (set_field p v s)) = tmp_created_at (ss_temporal s)"
  "tmp_updated_at (ss_temporal (set_field p v s)) = tmp_updated_at (ss_temporal s)"
  "tmp_last_interaction_at (ss_temporal (set_field p v s)) = tmp_last_interaction_at (ss_temporal s)"
  unfolding set_field_def subject_fields_def by (simp_all split: option.split)

lemma set_field_lifecycle:
  "lifecycle_of (set_field p v s) = (if p = ''temporal.subject_lifecycle'' then v else lifecycle_of s)"
  unfolding set_field_def subject_fields_def by (simp split: option.split)

lemma get_field_lifecycle: "get_field ''temporal.subject_lifecycle'' s = lifecycle_of s"
  by (simp add: get_field_def subject_fields_def)

text \<open>The values that a rule lets an event store in its field.\<close>

definition settable :: "field_rule \<Rightarrow> pyval \<Rightarrow> bool" where
  "settable r v = (case fr_value_type r of
       Type_list \<Rightarrow> if fr_document_type r = Doc_unfinished_items then is_list v
         else (\<exists>ss. v = strings_val ss)
     | Type_str \<Rightarrow> is_str v
     | _ \<Rightarrow> True)"

lemma field_table:
  "list_all (\<lambda>(p, r). \<forall>v s. (settable r v \<longrightarrow> get_field p (set_field p v s) = v) \<and>
     (fr_value_type r = Type_list \<longrightarrow> settable r (get_field p s))) field_rules"
  unfolding field_rules_def
  by (auto simp: settable_def get_field_def set_field_def subject_fields_def is_str_iff is_list_iff comp_def)

lemma get_set_field: "map_of field_rules p = Some r \<Longrightarrow> settable r v \<Longrightarrow> get_field p (set_field p v s) = v"
  and get_field_list: "map_of field_rules p = Some r \<Longrightarrow> fr_value_type r = Type_list \<Longrightarrow> settable r (get_field p s)"
  using field_table by (auto simp: list_all_iff dest!: map_of_SomeD)

lemma strings_val_iff: "list_all is_str xs \<Longrightarrow> \<exists>ss. PList xs = strings_val ss"
  by (rule exI [of _ "map text_of xs"]) (induction xs; auto simp: is_str_iff)

lemma strings_val_list_all: "list_all is_str (map PStr ss)"
  by (simp add: list_all_iff)

lemma apply_mutation_settable:
  assumes "apply_mutation before operation value r = Inr v"
    "fr_value_type r = Type_list \<longrightarrow> settable r before"
  shows "settable r v"
proof (cases "operation = Op_SET")
  case True
  with assms show ?thesis
    by (auto simp: apply_mutation_def set_value_def settable_def rbind_eq_Inr
        split: value_type.splits if_splits pyval.splits intro: strings_val_iff)
next
  case False
  with assms(1) have v: "is_str value"
    and r: "fr_value_type r = Type_list" "fr_document_type r \<noteq> Doc_unfinished_items"
    and res: "v = PList (case operation of
      Op_APPEND \<Rightarrow> if value \<in> set (list_of before) then list_of before else list_of before @ [value]
    | _ \<Rightarrow> remove1 value (list_of before))"
    by (simp_all add: apply_mutation_def rbind_eq_Inr Let_def)
  obtain ss where b: "list_of before = map PStr ss"
    using assms(2) r by (auto simp: settable_def)
  obtain x where x: "value = PStr x" using v by (auto simp: is_str_iff)
  have "list_all is_str (remove1 value (map PStr ss))"
    using set_remove1_subset [of "value" "map PStr ss"] by (auto simp: list_all_iff)
  then have "list_all is_str (case operation of
      Op_APPEND \<Rightarrow> if value \<in> set (map PStr ss) then map PStr ss else map PStr ss @ [value]
    | _ \<Rightarrow> remove1 value (map PStr ss))"
    using x by (cases operation) (auto simp: list_all_iff)
  then have "\<exists>ts. v = strings_val ts" unfolding res b by (rule strings_val_iff)
  with r show ?thesis by (simp add: settable_def)
qed

section \<open>The recorded changes are the changes\<close>

definition stamp_of :: "pyval \<Rightarrow> instant option" where
  "stamp_of v = (case v of PStr s \<Rightarrow> (case fromisoformat (replace_Z s) of
       Some (w, Some off) \<Rightarrow> mk_instant (usec w - off) | _ \<Rightarrow> None) | _ \<Rightarrow> None)"

lemma stamp_of_time [simp]: "stamp_of (time_val t) = Some t"
  by (simp add: stamp_of_def)

text \<open>Reading and redoing a recorded change on a state.\<close>

definition recorded_value :: "string \<Rightarrow> subject_state \<Rightarrow> pyval" where
  "recorded_value p s = (
     if p = ''temporal.last_interaction_at'' then opt_val time_val (tmp_last_interaction_at (ss_temporal s))
     else if p = ''temporal.updated_at'' then time_val (tmp_updated_at (ss_temporal s))
     else get_field p s)"

definition redo :: "field_change \<Rightarrow> subject_state \<Rightarrow> subject_state" where
  "redo c s = (
     if fc_field_path c = ''temporal.last_interaction_at'' then set_last_interaction (stamp_of (fc_after c)) s
     else if fc_field_path c = ''temporal.updated_at'' then
       (case stamp_of (fc_after c) of None \<Rightarrow> s | Some t \<Rightarrow> set_updated t s)
     else set_field (fc_field_path c) (fc_after c) s)"

text \<open>
  Redoing \<open>cs\<close> one after the other leads from \<open>s\<close> to \<open>t\<close>, and every change names the value it
  found and the different one it left.
\<close>

fun leads_to :: "subject_state \<Rightarrow> field_change list \<Rightarrow> subject_state \<Rightarrow> bool" where
  "leads_to s [] t = (s = t)"
| "leads_to s (c # cs) t = (recorded_value (fc_field_path c) s = fc_before c \<and>
     recorded_value (fc_field_path c) (redo c s) = fc_after c \<and> \<not> py_eq (fc_after c) (fc_before c) \<and>
     leads_to (redo c s) cs t)"

lemma leads_to_append: "leads_to s (cs @ ds) u \<longleftrightarrow> (\<exists>t. leads_to s cs t \<and> leads_to t ds u)"
  by (induction cs arbitrary: s) auto

lemma leads_to_redo: "leads_to s cs t \<Longrightarrow> t = fold redo cs s"
  by (induction cs arbitrary: s) auto

lemma field_rules_not_stamps:
  assumes "map_of field_rules p = Some r"
  shows "p \<noteq> ''temporal.last_interaction_at''" "p \<noteq> ''temporal.updated_at''"
  using assms by (auto simp: field_rules_def)

text \<open>What a mutation of the event asks for, within its scope.\<close>

definition requested :: "event \<Rightarrow> field_change \<Rightarrow> bool" where
  "requested e c \<longleftrightarrow> (\<exists>m \<in> set (ev_mutations e). \<exists>r. map_of field_rules (fc_field_path c) = Some r \<and>
     fr_section r \<in> set (ev_impact_scope e) \<and> fc_field_path c = sm_field_path m \<and>
     fc_operation c = sm_operation m \<and> fc_reason c = sm_reason m \<and>
     apply_mutation (fc_before c) (sm_operation m) (sm_value m) r = Inr (fc_after c))"

lemma evolve_mutation_sound:
  assumes "evolve_mutation (ev_impact_scope e) m (s, cs) = Inr (s', cs')" "m \<in> set (ev_mutations e)"
  shows "\<exists>ds. cs' = cs @ ds \<and> leads_to s ds s' \<and> list_all (requested e) ds"
proof -
  obtain r v where r: "map_of field_rules (sm_field_path m) = Some r" "fr_section r \<in> set (ev_impact_scope e)"
    and v: "apply_mutation (get_field (sm_field_path m) s) (sm_operation m) (sm_value m) r = Inr v"
    and res: "if py_eq v (get_field (sm_field_path m) s) then s' = s \<and> cs' = cs
      else s' = set_field (sm_field_path m) v s \<and> cs' = cs @ [\<lparr>fc_field_path = sm_field_path m,
        fc_operation = sm_operation m, fc_before = get_field (sm_field_path m) s, fc_after = v,
        fc_reason = sm_reason m\<rparr>]"
    using assms(1) by (auto simp: evolve_mutation_def rbind_eq_Inr Let_def split: option.splits if_splits)
  have "settable r v" using apply_mutation_settable [OF v] get_field_list [OF r(1)] by blast
  note gs = get_set_field [OF r(1) this] field_rules_not_stamps [OF r(1)]
  show ?thesis
  proof (cases "py_eq v (get_field (sm_field_path m) s)")
    case True
    with res show ?thesis by (intro exI [of _ "[]"]) simp
  next
    case False
    with res r v gs assms(2) show ?thesis
      by (auto simp: recorded_value_def redo_def requested_def)
  qed
qed

lemma evolve_mutations_sound:
  assumes "evolve_mutations (ev_impact_scope e) ms (s, cs) = Inr (s', cs')" "set ms \<subseteq> set (ev_mutations e)"
  shows "\<exists>ds. cs' = cs @ ds \<and> leads_to s ds s' \<and> list_all (requested e) ds"
  using assms
proof (induction ms arbitrary: s cs)
  case (Cons m ms)
  then obtain s1 cs1 where m: "evolve_mutation (ev_impact_scope e) m (s, cs) = Inr (s1, cs1)"
    and ms: "evolve_mutations (ev_impact_scope e) ms (s1, cs1) = Inr (s', cs')"
    by (auto simp: rbind_eq_Inr)
  from evolve_mutation_sound [OF m] Cons.prems(2) obtain ds where
    "cs1 = cs @ ds" "leads_to s ds s1" "list_all (requested e) ds" by auto
  with Cons.IH [OF ms] Cons.prems(2) show ?case by (fastforce simp: leads_to_append)
qed simp

lemma redo_frame [simp]:
  "ss_subject_id (redo c s) = ss_subject_id s" "ss_revision (redo c s) = ss_revision s"
  by (auto simp: redo_def set_last_interaction_def set_updated_def split: option.splits)

lemma leads_to_frame:
  assumes "leads_to s cs t"
  shows "ss_subject_id t = ss_subject_id s" "ss_revision t = ss_revision s"
  using assms by (induction cs arbitrary: s) auto

definition newer_interaction :: "event \<Rightarrow> field_change \<Rightarrow> bool" where
  "newer_interaction e c \<longleftrightarrow> ev_event_type e = ''interaction'' \<and> Sec_TEMPORAL \<in> set (ev_impact_scope e) \<and>
     fc_field_path c = ''temporal.last_interaction_at'' \<and> fc_after c = time_val (ev_occurred_at e)"

lemma evolve_interaction_sound:
  assumes "evolve_interaction e (s, cs) = Inr (s', cs')"
  shows "\<exists>ds. cs' = cs @ ds \<and> leads_to s ds s' \<and> list_all (newer_interaction e) ds \<and>
    tmp_updated_at (ss_temporal s') = tmp_updated_at (ss_temporal s)"
proof (cases "ev_event_type e = ''interaction'' \<and>
    (\<forall>p. tmp_last_interaction_at (ss_temporal s) = Some p \<longrightarrow> p < ev_occurred_at e)")
  case True
  then have "opt_val time_val (tmp_last_interaction_at (ss_temporal s)) \<noteq> time_val (ev_occurred_at e)"
    by (cases "tmp_last_interaction_at (ss_temporal s)") auto
  with True assms show ?thesis
    by (auto simp: evolve_interaction_def rbind_eq_Inr Let_def recorded_value_def redo_def
        newer_interaction_def set_last_interaction_def)
next
  case False
  with assms have "s' = s \<and> cs' = cs"
    by (auto simp: evolve_interaction_def rbind_eq_Inr Let_def split: if_splits)
  then show ?thesis by simp
qed

lemma evolve_stamp_sound:
  assumes "evolve_stamp t (s, cs) = (s', cs')"
  shows "\<exists>ds s1. cs' = cs @ ds \<and> leads_to s ds s1 \<and> (ds \<noteq> [] \<longrightarrow> cs \<noteq> []) \<and>
    list_all (\<lambda>c. fc_field_path c = ''temporal.updated_at'') ds \<and>
    s' = s1\<lparr>ss_revision := ss_revision s + (if cs = [] then 0 else 1)\<rparr> \<and>
    tmp_updated_at (ss_temporal s') = (if cs = [] then tmp_updated_at (ss_temporal s)
      else max t (tmp_updated_at (ss_temporal s)))"
proof (cases "cs \<noteq> [] \<and> max t (tmp_updated_at (ss_temporal s)) \<noteq> tmp_updated_at (ss_temporal s)")
  case True
  then show ?thesis
    using assms
    by (intro exI [of _ "[\<lparr>fc_field_path = ''temporal.updated_at'', fc_operation = Op_SET,
          fc_before = time_val (tmp_updated_at (ss_temporal s)),
          fc_after = time_val (max t (tmp_updated_at (ss_temporal s))),
          fc_reason = ''SubjectState changed while applying the event.''\<rparr>]"]
        exI [of _ "set_updated (max t (tmp_updated_at (ss_temporal s))) s"])
      (auto simp: evolve_stamp_def Let_def recorded_value_def redo_def set_updated_def)
next
  case False
  then show ?thesis
    using assms by (intro exI [of _ "[]"] exI [of _ s]) (auto simp: evolve_stamp_def Let_def)
qed

lemma leads_to_updated:
  assumes "leads_to s cs t" "list_all (requested e) cs"
  shows "tmp_updated_at (ss_temporal t) = tmp_updated_at (ss_temporal s)"
  using assms
proof (induction cs arbitrary: s)
  case (Cons c cs)
  then obtain r where "map_of field_rules (fc_field_path c) = Some r" by (auto simp: requested_def)
  from field_rules_not_stamps [OF this] have "tmp_updated_at (ss_temporal (redo c s)) = tmp_updated_at (ss_temporal s)"
    by (simp add: redo_def)
  with Cons.IH [of "redo c s"] Cons.prems show ?case by simp
qed simp

text \<open>What one application of an event does to a state, and what its record says.\<close>

definition evolution_step :: "subject_state \<Rightarrow> event \<Rightarrow> instant \<Rightarrow> subject_state \<Rightarrow> state_update \<Rightarrow> bool" where
  "evolution_step s e t s' u \<longleftrightarrow> (\<exists>s1. leads_to s (su_changes u) s1 \<and>
     s' = s1\<lparr>ss_revision := su_after_revision u\<rparr>) \<and>
     list_all (\<lambda>c. requested e c \<or> newer_interaction e c \<or> fc_field_path c = ''temporal.updated_at'') (su_changes u) \<and>
     su_event u = e \<and> su_subject_id u = ss_subject_id s \<and> su_applied_at u = t \<and>
     su_before_revision u = ss_revision s \<and>
     su_after_revision u = ss_revision s + (if su_changes u = [] then 0 else 1) \<and>
     tmp_updated_at (ss_temporal s') =
       (if su_changes u = [] then tmp_updated_at (ss_temporal s) else max t (tmp_updated_at (ss_temporal s)))"

lemma evolve_sound:
  assumes "wf_subject s" "evolve uuid s e at_val = Inr r"
  shows "\<exists>t. require_aware (evolution_err ''applied_at must include a timezone'') at_val = Inr t \<and>
    evolution_step (normal_state s) e t (er_state r) (er_update r) \<and>
    su_update_id (er_update r) = uuid \<and> \<not> blank uuid \<and> \<not> er_idempotent_replay r"
proof -
  have n: "rbind (subject_to_dict s) subject_from_dict = Inr (normal_state s)"
    using subject_to_dict_run [OF assms(1)] subject_roundtrip(1) [OF assms(1)] by simp
  obtain t s1 cs1 s2 cs2 s3 cs3 u where
    t: "require_aware (evolution_err ''applied_at must include a timezone'') at_val = Inr t"
    and 1: "evolve_mutations (ev_impact_scope e) (ev_mutations e) (normal_state s, []) = Inr (s1, cs1)"
    and 2: "evolve_interaction e (s1, cs1) = Inr (s2, cs2)"
    and 3: "evolve_stamp t (s2, cs2) = (s3, cs3)"
    and u: "state_update_init (PStr uuid) (PStr (ss_subject_id s)) e (utc_val t)
       (ss_revision s) (ss_revision s3) cs3 (PStr (ev_reason e)) = Inr u"
    and r: "r = \<lparr>er_state = s3, er_update = u, er_idempotent_replay = False\<rparr>"
  proof -
    from assms(2) obtain t a1 a2 where
      t: "require_aware (evolution_err ''applied_at must include a timezone'') at_val = Inr t"
      and a: "evolve_mutations (ev_impact_scope e) (ev_mutations e) (normal_state s, []) = Inr a1"
        "evolve_interaction e a1 = Inr a2"
      and r: "(case evolve_stamp t a2 of (s3, cs3) \<Rightarrow>
        rbind (state_update_init (PStr uuid) (PStr (ss_subject_id s)) e (utc_val t)
          (ss_revision s) (ss_revision s3) cs3 (PStr (ev_reason e))) (\<lambda>u.
        Inr \<lparr>er_state = s3, er_update = u, er_idempotent_replay = False\<rparr>)) = Inr r"
      unfolding evolve_def n Let_def by (elim rbindE) simp
    obtain s1 cs1 s2 cs2 s3 cs3 where p: "a1 = (s1, cs1)" "a2 = (s2, cs2)" "evolve_stamp t a2 = (s3, cs3)"
      by fastforce
    with r obtain u where "state_update_init (PStr uuid) (PStr (ss_subject_id s)) e (utc_val t)
          (ss_revision s) (ss_revision s3) cs3 (PStr (ev_reason e)) = Inr u"
      "r = \<lparr>er_state = s3, er_update = u, er_idempotent_replay = False\<rparr>"
      by (auto simp: rbind_eq_Inr)
    with t a p that show thesis by blast
  qed
  from evolve_mutations_sound [OF 1] have d1: "leads_to (normal_state s) cs1 s1" "list_all (requested e) cs1" by auto
  from evolve_interaction_sound [OF 2] obtain d2 where d2: "cs2 = cs1 @ d2" "leads_to s1 d2 s2"
    "list_all (newer_interaction e) d2" "tmp_updated_at (ss_temporal s2) = tmp_updated_at (ss_temporal s1)" by blast
  from evolve_stamp_sound [OF 3] obtain d3 s4 where d3: "cs3 = cs2 @ d3" "leads_to s2 d3 s4"
    "d3 \<noteq> [] \<longrightarrow> cs2 \<noteq> []" "list_all (\<lambda>c. fc_field_path c = ''temporal.updated_at'') d3"
    "s3 = s4\<lparr>ss_revision := ss_revision s2 + (if cs2 = [] then 0 else 1)\<rparr>"
    "tmp_updated_at (ss_temporal s3) = (if cs2 = [] then tmp_updated_at (ss_temporal s2)
      else max t (tmp_updated_at (ss_temporal s2)))" by blast
  have rev: "ss_revision s2 = ss_revision s" "ss_revision s4 = ss_revision s"
    using leads_to_frame(2) [OF d1(1)] leads_to_frame(2) [OF d2(2)] leads_to_frame(2) [OF d3(2)] by simp_all
  have lead: "leads_to (normal_state s) cs3 s4"
    using d1(1) d2(1,2) d3(1,2) by (auto simp: leads_to_append)
  have upd: "tmp_updated_at (ss_temporal s2) = tmp_updated_at (ss_temporal s)"
    using leads_to_updated [OF d1] d2(4) by simp
  have all: "list_all (\<lambda>c. requested e c \<or> newer_interaction e c \<or> fc_field_path c = ''temporal.updated_at'') cs3"
    using d1(2) d2(1,3) d3(1,4) by (auto simp: list_all_iff)
  have nil: "cs3 = [] \<longleftrightarrow> cs2 = []" using d3(1,3) by auto
  from u have uf: "su_changes u = cs3" "su_event u = e" "su_subject_id u = ss_subject_id s" "su_applied_at u = t"
    "su_before_revision u = ss_revision s" "su_after_revision u = ss_revision s3" "su_update_id u = uuid" "\<not> blank uuid"
    unfolding state_update_init_def by (auto simp: rbind_eq_Inr event_text_Inr)
  have "evolution_step (normal_state s) e t s3 u"
    unfolding evolution_step_def
    using lead all nil rev upd d3(5,6) by (auto simp: uf)
  with t uf r show ?thesis by simp
qed

end
