(* ===== verification/Subject_Repository.thy ===== *)
theory Subject_Repository
  imports Subject_Evolution Event_Properties
begin

text \<open>
  storage/json_repository.py: one JSON document per subject, the current state beside its
  complete update history. A store maps the digest of a subject id (the stem of the file) to the
  file. \<open>disk\<close> is what the operating system raises at the one write of a call, if it does; the
  bounded retry of the replacement under a guard is part of that outcome. The parse cache of
  \<open>_verified_state_reads\<close> only reuses the decoding of unchanged bytes and is not modelled.
\<close>

type_synonym subject_store = "string \<Rightarrow> file_state"

section \<open>The lifecycle along the history\<close>

abbreviation lifecycle_path :: string where
  "lifecycle_path \<equiv> ''temporal.subject_lifecycle''"

text \<open>\<open>except (ValueError, KeyError, TypeError)\<close>.\<close>

fun lifecycle_caught :: "exc_class \<Rightarrow> bool" where
  "lifecycle_caught ValueError = True"
| "lifecycle_caught LifecycleError = True"
| "lifecycle_caught MindValidationError = True"
| "lifecycle_caught RuntimeBoundaryError = True"
| "lifecycle_caught KeyError = True"
| "lifecycle_caught TypeError = True"
| "lifecycle_caught _ = False"

definition as_invalid_history :: "'a res \<Rightarrow> 'a res" where
  "as_invalid_history r = (case r of
       Inl (c, m) \<Rightarrow> if lifecycle_caught c then Inl (state_invalid (''invalid lifecycle history: '' @ m)) else r
     | Inr _ \<Rightarrow> r)"

text \<open>\<open>d[k]\<close>.\<close>

definition item_of :: "(string \<times> pyval) list \<Rightarrow> string \<Rightarrow> pyval res" where
  "item_of d k = (case map_of d k of None \<Rightarrow> Inl (KeyError, k) | Some v \<Rightarrow> Inr v)"

abbreviation history_mismatch :: "string \<Rightarrow> exn" where
  "history_mismatch m \<equiv> (ValueError, m)"

definition lifecycle_event_id :: "canon_fun \<Rightarrow> digest_fun \<Rightarrow> string \<Rightarrow> string \<Rightarrow> string res" where
  "lifecycle_event_id canon sha subject_id command_id =
     rbind (value_digest canon sha (PList [PStr subject_id, PStr command_id])) (\<lambda>h.
     Inr (''p15-lifecycle:'' @ drop 7 h))"

definition lifecycle_mutations :: "event \<Rightarrow> state_mutation list" where
  "lifecycle_mutations e = filter (\<lambda>m. sm_field_path m = lifecycle_path) (ev_mutations e)"

definition lifecycle_changes :: "state_update \<Rightarrow> field_change list" where
  "lifecycle_changes u = filter (\<lambda>c. fc_field_path c = lifecycle_path) (su_changes u)"

definition lifecycle_managed :: "event \<Rightarrow> bool" where
  "lifecycle_managed e \<longleftrightarrow> ev_event_type e = ''subject_lifecycle'' \<and> ev_source e = ''subject_lifecycle_service''
     \<or> take 14 (ev_event_id e) = ''p15-lifecycle:''"

text \<open>The command in the event's metadata, bound to the event and the update.\<close>

definition lifecycle_command_of ::
  "canon_fun \<Rightarrow> digest_fun \<Rightarrow> string \<Rightarrow> state_update \<Rightarrow> (lifecycle_command \<times> pyval) res" where
  "lifecycle_command_of canon sha subject_id u =
     (let event = su_event u; metadata = ev_metadata event; bad = history_mismatch ''lifecycle command identity mismatch'' in
     rbind (item_of metadata ''command'') (\<lambda>raw.
     rbind (lifecycle_command_from_dict raw) (\<lambda>command.
     rbind (item_of metadata ''principal_id'') (\<lambda>actor.
     rbind (ensure (ev_event_type event = ''subject_lifecycle'' \<and> ev_source event = ''subject_lifecycle_service''
         \<and> lc_subject_id command = subject_id \<and> lc_expected_revision command = su_before_revision u) bad) (\<lambda>_.
     rbind (item_of metadata ''environment'') (\<lambda>environment.
     rbind (ensure (environment = PStr (lc_environment command) \<and> ev_reason event = lc_reason command
         \<and> ev_occurred_at event = lc_requested_at command) bad) (\<lambda>_.
     rbind (lifecycle_event_id canon sha subject_id (lc_command_id command)) (\<lambda>event_id.
     rbind (ensure (ev_event_id event = event_id) bad) (\<lambda>_.
     Inr (command, actor))))))))))"

definition lifecycle_intent ::
  "string \<Rightarrow> subject_lifecycle option \<Rightarrow> state_update \<Rightarrow> pyval \<Rightarrow> subject_lifecycle option res" where
  "lifecycle_intent subject_id previous u actor =
     rbind (ensure (actor = PStr subject_id \<and> lifecycle_mutations (su_event u) = [] \<and> lifecycle_changes u = []
         \<and> su_before_revision u = su_after_revision u \<and> ev_classification (su_event u) = Cls_INTENTION
         \<and> (\<forall>l. previous = Some l \<longrightarrow> sl_status l = ''ACTIVE''))
       (history_mismatch ''subject intent cannot change lifecycle'')) (\<lambda>_.
     Inr previous)"

definition lifecycle_target ::
  "subject_lifecycle option \<Rightarrow> lifecycle_command \<Rightarrow> int \<Rightarrow> string res" where
  "lifecycle_target previous command before_revision =
     (if lc_operation command = ''CREATE'' then
        rbind (ensure (previous = None \<and> before_revision = 0)
          (history_mismatch ''duplicate lifecycle creation'')) (\<lambda>_. Inr ''CREATE'')
      else lifecycle_transition (case previous of None \<Rightarrow> ''ACTIVE'' | Some l \<Rightarrow> sl_status l) (lc_operation command))"

definition lifecycle_owner_step ::
  "string \<Rightarrow> subject_lifecycle option \<Rightarrow> state_update \<Rightarrow> lifecycle_command \<Rightarrow> pyval
     \<Rightarrow> subject_lifecycle option res" where
  "lifecycle_owner_step subject_id previous u command actor =
     (case (lifecycle_mutations (su_event u), lifecycle_changes u) of
       ([m], [c]) \<Rightarrow>
         rbind (ensure (length (ev_mutations (su_event u)) = 1 \<and> sm_operation m = Op_SET \<and> fc_operation c = Op_SET
             \<and> py_eq (fc_before c) (opt_val subject_lifecycle_to_dict previous)
             \<and> py_eq (fc_after c) (sm_value m) \<and> fc_reason c = lc_reason command \<and> sm_reason m = lc_reason command
             \<and> ev_classification (su_event u) = Cls_STATE_CHANGE
             \<and> su_after_revision u = su_before_revision u + 1)
           (history_mismatch ''lifecycle mutation/change mismatch'')) (\<lambda>_.
         rbind (subject_lifecycle_from_dict (sm_value m)) (\<lambda>l.
         rbind (ensure (sl_subject_id l = subject_id \<and> sl_environment l = lc_environment command
             \<and> actor = PStr (sl_owner_principal_id l) \<and> sl_reason l = lc_reason command
             \<and> lc_requested_at command \<le> sl_changed_at l)
           (history_mismatch ''lifecycle value binding mismatch'')) (\<lambda>_.
         rbind (ensure (\<forall>p. previous = Some p \<longrightarrow> sl_environment p = sl_environment l
             \<and> actor = PStr (sl_owner_principal_id p) \<and> sl_changed_at p \<le> sl_changed_at l)
           (history_mismatch ''lifecycle historical binding changed'')) (\<lambda>_.
         rbind (lifecycle_target previous command (su_before_revision u)) (\<lambda>target.
         rbind (ensure (sl_status l = target)
           (history_mismatch ''lifecycle transition disagrees with command'')) (\<lambda>_.
         Inr (Some l)))))))
     | _ \<Rightarrow> Inl (history_mismatch ''lifecycle mutation/change mismatch''))"

definition advance_lifecycle ::
  "canon_fun \<Rightarrow> digest_fun \<Rightarrow> string \<Rightarrow> subject_lifecycle option \<Rightarrow> state_update
     \<Rightarrow> subject_lifecycle option res" where
  "advance_lifecycle canon sha subject_id previous u =
     (if lifecycle_mutations (su_event u) = [] \<and> lifecycle_changes u = [] \<and> \<not> lifecycle_managed (su_event u)
      then Inr previous
      else as_invalid_history
        (rbind (lifecycle_command_of canon sha subject_id u) (\<lambda>(command, actor).
         if lc_initiator command = ''SUBJECT'' then lifecycle_intent subject_id previous u actor
         else lifecycle_owner_step subject_id previous u command actor)))"

section \<open>The history\<close>

record history_scan =
  hs_update_ids :: "string list"
  hs_event_ids :: "string list"
  hs_revision :: int
  hs_lifecycle :: "subject_lifecycle option"

definition scan_start :: history_scan where
  "scan_start = \<lparr>hs_update_ids = [], hs_event_ids = [], hs_revision = 0, hs_lifecycle = None\<rparr>"

definition scan_update ::
  "canon_fun \<Rightarrow> digest_fun \<Rightarrow> string \<Rightarrow> state_update \<Rightarrow> history_scan \<Rightarrow> history_scan res" where
  "scan_update canon sha subject_id u h =
     (let event = su_event u in
     rbind (ensure (su_subject_id u = subject_id)
       (state_invalid ''update history crosses subject boundaries'')) (\<lambda>_.
     rbind (ensure (su_update_id u \<notin> set (hs_update_ids h))
       (state_invalid ''update history contains a duplicate update_id'')) (\<lambda>_.
     rbind (ensure (ev_event_id event \<notin> set (hs_event_ids h))
       (state_invalid ''update history contains a duplicate event_id'')) (\<lambda>_.
     rbind (ensure (su_before_revision u = hs_revision h)
       (state_invalid ''update history revision chain is invalid'')) (\<lambda>_.
     rbind (ensure (su_after_revision u \<in> {hs_revision h, hs_revision h + 1})
       (state_invalid ''update history revision step is invalid'')) (\<lambda>_.
     rbind (each (\<lambda>r.
         rbind (ensure (er_target_subject_id r = subject_id)
           (state_invalid ''event history reference crosses subject boundaries'')) (\<lambda>_.
         ensure (er_target_event_id r \<in> set (hs_event_ids h))
           (state_invalid ''event history reference must target an earlier event''))) (ev_references event)) (\<lambda>_.
     rbind (advance_lifecycle canon sha subject_id (hs_lifecycle h) u) (\<lambda>lifecycle.
     Inr \<lparr>hs_update_ids = su_update_id u # hs_update_ids h, hs_event_ids = ev_event_id event # hs_event_ids h,
       hs_revision = su_after_revision u, hs_lifecycle = lifecycle\<rparr>))))))))"

fun scan_updates ::
  "canon_fun \<Rightarrow> digest_fun \<Rightarrow> string \<Rightarrow> state_update list \<Rightarrow> history_scan \<Rightarrow> history_scan res" where
  "scan_updates canon sha subject_id [] h = Inr h"
| "scan_updates canon sha subject_id (u # us) h =
     rbind (scan_update canon sha subject_id u h) (scan_updates canon sha subject_id us)"

definition validate_history ::
  "canon_fun \<Rightarrow> digest_fun \<Rightarrow> subject_state \<Rightarrow> state_update list \<Rightarrow> unit res" where
  "validate_history canon sha state updates =
     rbind (scan_updates canon sha (ss_subject_id state) updates scan_start) (\<lambda>h.
     rbind (ensure (updates \<noteq> [] \<longrightarrow> hs_revision h = ss_revision state)
       (state_invalid ''update history does not reach the current state revision'')) (\<lambda>_.
     ensure (py_eq (lifecycle_of state) (opt_val subject_lifecycle_to_dict (hs_lifecycle h)))
       (state_invalid ''current lifecycle disagrees with original Evolution history'')))"

section \<open>Documents\<close>

definition is_envelope :: "pyval \<Rightarrow> bool" where
  "is_envelope v = (case v of
       PDict d \<Rightarrow> map_of d ''state'' \<noteq> None \<and> map_of d ''updates'' \<noteq> None | _ \<Rightarrow> False)"

definition envelope ::
  "canon_fun \<Rightarrow> digest_fun \<Rightarrow> subject_state \<Rightarrow> state_update list \<Rightarrow> pyval res" where
  "envelope canon sha state updates =
     rbind (validate_history canon sha state updates) (\<lambda>_.
     rbind (subject_to_dict state) (\<lambda>doc.
     Inr (PDict [(''persistence_format_version'', PInt 1), (''state'', doc),
       (''updates'', PList (map state_update_to_dict updates))])))"

definition decode_document ::
  "canon_fun \<Rightarrow> digest_fun \<Rightarrow> pyval \<Rightarrow> (subject_state \<times> state_update list) res" where
  "decode_document canon sha v =
     (case v of
       PDict d \<Rightarrow> if is_envelope v then
           rbind (ensure (py_eq_int (dict_get d ''persistence_format_version'') 1)
             (state_invalid ''unsupported persistence format version'')) (\<lambda>_.
           rbind (event_list (dict_get d ''updates'') ''updates'') (\<lambda>raw_updates.
           rbind (subject_from_dict (dict_get d ''state'')) (\<lambda>state.
           rbind (rmap state_update_from_dict raw_updates) (\<lambda>updates.
           rbind (validate_history canon sha state updates) (\<lambda>_.
           Inr (state, updates))))))
         else rbind (subject_from_dict v) (\<lambda>state.
           rbind (validate_history canon sha state []) (\<lambda>_. Inr (state, [])))
     | _ \<Rightarrow> rbind (subject_from_dict v) (\<lambda>state.
         rbind (validate_history canon sha state []) (\<lambda>_. Inr (state, []))))"

definition read_payload :: "file_state \<Rightarrow> string \<Rightarrow> pyval res" where
  "read_payload f subject_id = (case f of File_Doc v \<Rightarrow> Inr v
     | _ \<Rightarrow> Inl (state_invalid (''unable to read valid state data for: '' @ subject_id)))"

text \<open>\<open>json.dumps\<close> of the payload, the temporary file and the rename over \<open>path\<close>.\<close>

definition write_payload ::
  "exn option \<Rightarrow> string \<Rightarrow> pyval \<Rightarrow> subject_store \<Rightarrow> subject_store res" where
  "write_payload disk path data st =
     rbind (ensure (json_ok data) (TypeError, ''Object of type datetime is not JSON serializable'')) (\<lambda>_.
     case disk of
       Some e \<Rightarrow> Inl e
     | None \<Rightarrow> if st path = File_Not_A_File then Inl (OSError, ''Is a directory'')
         else Inr (st(path := File_Doc data)))"

section \<open>Operations\<close>

definition subject_path :: "digest_fun \<Rightarrow> string \<Rightarrow> string res" where
  "subject_path sha subject_id =
     rbind (ensure (\<not> blank subject_id) (state_invalid ''subject_id must be a non-empty string'')) (\<lambda>_.
     Inr (sha subject_id))"

definition subject_exists :: "digest_fun \<Rightarrow> string \<Rightarrow> subject_store \<Rightarrow> bool res" where
  "subject_exists sha subject_id st = rbind (subject_path sha subject_id) (\<lambda>p. Inr (is_file (st p)))"

definition read_component ::
  "canon_fun \<Rightarrow> digest_fun \<Rightarrow> string \<Rightarrow> subject_store \<Rightarrow> (subject_state \<times> state_update list) res" where
  "read_component canon sha subject_id st =
     rbind (subject_path sha subject_id) (\<lambda>p.
     rbind (ensure (is_file (st p)) (StateNotFoundError, ''subject state not found: '' @ subject_id)) (\<lambda>_.
     rbind (read_payload (st p) subject_id) (\<lambda>v.
     rbind (decode_document canon sha v) (\<lambda>(state, updates).
     rbind (ensure (ss_subject_id state = subject_id)
       (state_invalid ''persisted subject_id does not match requested subject_id'')) (\<lambda>_.
     Inr (state, updates))))))"

definition subject_load :: "canon_fun \<Rightarrow> digest_fun \<Rightarrow> string \<Rightarrow> subject_store \<Rightarrow> subject_state res" where
  "subject_load canon sha subject_id st = rbind (read_component canon sha subject_id st) (\<lambda>x. Inr (fst x))"

definition list_update_records ::
  "canon_fun \<Rightarrow> digest_fun \<Rightarrow> string \<Rightarrow> subject_store \<Rightarrow> state_update list res" where
  "list_update_records canon sha subject_id st =
     rbind (read_component canon sha subject_id st) (\<lambda>x. Inr (snd x))"

text \<open>\<open>a.to_dict() == b.to_dict()\<close>.\<close>

definition same_document :: "subject_state \<Rightarrow> subject_state \<Rightarrow> bool res" where
  "same_document s t = rbind (subject_to_dict s) (\<lambda>d. rbind (subject_to_dict t) (\<lambda>e. Inr (py_eq d e)))"

definition subject_save ::
  "canon_fun \<Rightarrow> digest_fun \<Rightarrow> exn option \<Rightarrow> subject_state \<Rightarrow> subject_store \<Rightarrow> subject_store res" where
  "subject_save canon sha disk state st =
     rbind (subject_path sha (ss_subject_id state)) (\<lambda>p.
     rbind (if is_file (st p) then
         rbind (read_payload (st p) (ss_subject_id state)) (\<lambda>raw.
         if is_envelope raw then
           rbind (decode_document canon sha raw) (\<lambda>(current, updates).
           rbind (same_document state current) (\<lambda>same.
           rbind (ensure same (StateEvolutionError,
             ''event-backed state cannot be changed with direct save; use save_transition'')) (\<lambda>_.
           Inr (Some updates))))
         else Inr None)
       else Inr None) (\<lambda>updates.
     rbind (subject_to_dict state) (\<lambda>payload.
     rbind (validate_history canon sha state (case updates of None \<Rightarrow> [] | Some us \<Rightarrow> us)) (\<lambda>_.
     rbind (case updates of None \<Rightarrow> Inr payload | Some us \<Rightarrow> envelope canon sha state us) (\<lambda>payload.
     write_payload disk p payload st)))))"

text \<open>\<open>next((r for r in updates if r.event.event_id == event_id), None)\<close>.\<close>

definition find_event :: "string \<Rightarrow> state_update list \<Rightarrow> state_update option" where
  "find_event event_id us = List.find (\<lambda>u. ev_event_id (su_event u) = event_id) us"

definition save_transition ::
  "canon_fun \<Rightarrow> digest_fun \<Rightarrow> exn option \<Rightarrow> subject_state \<Rightarrow> state_update \<Rightarrow> subject_store \<Rightarrow> subject_store res" where
  "save_transition canon sha disk state update st =
     rbind (subject_path sha (ss_subject_id state)) (\<lambda>p.
     rbind (ensure (is_file (st p)) (StateNotFoundError, ''subject state not found: '' @ ss_subject_id state)) (\<lambda>_.
     rbind (read_payload (st p) (ss_subject_id state)) (\<lambda>raw.
     rbind (decode_document canon sha raw) (\<lambda>(current, updates).
     rbind (ensure (ss_subject_id current = ss_subject_id state \<and> su_subject_id update = ss_subject_id state)
       (StateEvolutionError, ''transition subject identifiers do not match'')) (\<lambda>_.
     case find_event (ev_event_id (su_event update)) updates of
       Some existing \<Rightarrow>
         rbind (ensure (py_eq (canonical_dict (su_event existing)) (canonical_dict (su_event update)))
           (EventIdentityConflictError, ''event identity conflicts with immutable history: ''
             @ ev_event_id (su_event update))) (\<lambda>_.
         rbind (same_document current state) (\<lambda>same.
         rbind (ensure same (StateEvolutionError,
           ''idempotent event replay cannot change the persisted subject state'')) (\<lambda>_. Inr st)))
     | None \<Rightarrow>
         rbind (ensure (ss_revision current = su_before_revision update)
           (StateEvolutionError, ''stale state revision: stored '' @ show_int (ss_revision current)
             @ '', event expected '' @ show_int (su_before_revision update))) (\<lambda>_.
         rbind (ensure (ss_revision state = su_after_revision update)
           (StateEvolutionError, ''updated state revision does not match its update record'')) (\<lambda>_.
         rbind (ensure (su_update_id update \<notin> su_update_id ` set updates)
           (StateEvolutionError, ''duplicate update record: '' @ su_update_id update)) (\<lambda>_.
         rbind (envelope canon sha state (updates @ [update])) (\<lambda>payload.
         write_payload disk p payload st)))))))))"

definition save_initial_transition ::
  "canon_fun \<Rightarrow> digest_fun \<Rightarrow> exn option \<Rightarrow> subject_state \<Rightarrow> state_update \<Rightarrow> subject_store \<Rightarrow> subject_store res" where
  "save_initial_transition canon sha disk state update st =
     rbind (subject_path sha (ss_subject_id state)) (\<lambda>p.
     rbind (ensure (st p = File_Absent) (StateEvolutionError, ''subject identity already exists'')) (\<lambda>_.
     rbind (validate_history canon sha state [update]) (\<lambda>_.
     rbind (subject_to_dict state) (\<lambda>_.
     rbind (envelope canon sha state [update]) (\<lambda>payload.
     write_payload disk p payload st)))))"

section \<open>Scanning a history\<close>

lemma scan_updates_append:
  "scan_updates canon sha i (us @ vs) h = rbind (scan_updates canon sha i us h) (scan_updates canon sha i vs)"
proof (induction us arbitrary: h)
  case (Cons u us)
  then show ?case by (cases "scan_update canon sha i u h") simp_all
qed simp

lemma as_invalid_history_Inr [simp]: "as_invalid_history r = Inr x \<longleftrightarrow> r = Inr x"
  by (auto simp: as_invalid_history_def split: sum.splits if_splits)

text \<open>One update moves the lifecycle along a transition of its owner, or not at all.\<close>

definition lifecycle_moves :: "subject_lifecycle option \<Rightarrow> subject_lifecycle option \<Rightarrow> bool" where
  "lifecycle_moves p q \<longleftrightarrow> q = p \<or> (\<exists>l operation. q = Some l \<and>
     (case p of
        None \<Rightarrow> sl_status l = ''CREATE'' \<and> operation = ''CREATE''
          \<or> lifecycle_transition ''ACTIVE'' operation = Inr (sl_status l)
      | Some k \<Rightarrow> lifecycle_transition (sl_status k) operation = Inr (sl_status l) \<and>
          sl_owner_principal_id k = sl_owner_principal_id l \<and> sl_environment k = sl_environment l \<and>
          sl_subject_id l = sl_subject_id l \<and> sl_changed_at k \<le> sl_changed_at l))"

lemma lifecycle_owner_step_moves:
  assumes "lifecycle_owner_step i p u command actor = Inr q"
  shows "lifecycle_moves p q \<and> (\<exists>l. q = Some l \<and> sl_subject_id l = i \<and> actor = PStr (sl_owner_principal_id l))"
proof -
  from assms obtain l target where l: "q = Some l" "sl_subject_id l = i" "actor = PStr (sl_owner_principal_id l)"
    "\<forall>k. p = Some k \<longrightarrow> sl_environment k = sl_environment l \<and> actor = PStr (sl_owner_principal_id k)
      \<and> sl_changed_at k \<le> sl_changed_at l"
    and t: "lifecycle_target p command (su_before_revision u) = Inr target" "sl_status l = target"
    unfolding lifecycle_owner_step_def
    by (auto split: list.splits elim!: rbindE)
  show ?thesis
    using l t by (cases p)
      (auto simp: lifecycle_moves_def lifecycle_target_def rbind_eq_Inr split: if_splits)
qed

lemma advance_lifecycle_moves:
  assumes "advance_lifecycle canon sha i p u = Inr q"
  shows "lifecycle_moves p q"
  using assms lifecycle_owner_step_moves
  by (fastforce simp: advance_lifecycle_def rbind_eq_Inr lifecycle_intent_def lifecycle_moves_def
      split: if_splits prod.splits)

lemma transition_from_DELETED [simp]: "lifecycle_transition ''DELETED'' operation \<noteq> Inr s"
  by (simp add: lifecycle_transition_def lifecycle_transitions_def split: option.split)

text \<open>What no update takes away: the owner and the environment, and the end of a deleted subject.\<close>

definition lifecycle_kept :: "subject_lifecycle option \<Rightarrow> subject_lifecycle option \<Rightarrow> bool" where
  "lifecycle_kept p q \<longleftrightarrow> (\<forall>l. p = Some l \<longrightarrow> (\<exists>k. q = Some k \<and>
     sl_owner_principal_id k = sl_owner_principal_id l \<and> sl_environment k = sl_environment l \<and>
     (sl_status l = ''DELETED'' \<longrightarrow> k = l)))"

lemma lifecycle_kept_refl: "lifecycle_kept p p"
  by (simp add: lifecycle_kept_def)

lemma lifecycle_kept_trans: "lifecycle_kept p q \<Longrightarrow> lifecycle_kept q r \<Longrightarrow> lifecycle_kept p r"
  unfolding lifecycle_kept_def by fastforce

lemma lifecycle_moves_kept: "lifecycle_moves p q \<Longrightarrow> lifecycle_kept p q"
  by (auto simp: lifecycle_moves_def lifecycle_kept_def)

text \<open>What an accepted scan says of the updates it went over.\<close>

lemma scan_update_Inr:
  assumes "scan_update canon sha i u h = Inr k"
  shows "su_subject_id u = i" "su_update_id u \<notin> set (hs_update_ids h)"
    "ev_event_id (su_event u) \<notin> set (hs_event_ids h)" "su_before_revision u = hs_revision h"
    "su_after_revision u \<in> {hs_revision h, hs_revision h + 1}"
    "\<forall>r \<in> set (ev_references (su_event u)). er_target_subject_id r = i \<and> er_target_event_id r \<in> set (hs_event_ids h)"
    "advance_lifecycle canon sha i (hs_lifecycle h) u = Inr (hs_lifecycle k)"
    "hs_update_ids k = su_update_id u # hs_update_ids h"
    "hs_event_ids k = ev_event_id (su_event u) # hs_event_ids h" "hs_revision k = su_after_revision u"
  using assms unfolding scan_update_def Let_def
  by (elim rbindE; simp add: each_eq_Inr rbind_eq_Inr; auto)+

text \<open>The revisions of consecutive updates fit together.\<close>

fun revision_chain :: "int \<Rightarrow> state_update list \<Rightarrow> int \<Rightarrow> bool" where
  "revision_chain n [] m = (n = m)"
| "revision_chain n (u # us) m = (su_before_revision u = n \<and> su_after_revision u \<in> {n, n + 1} \<and>
     revision_chain (su_after_revision u) us m)"

lemma scan_updates_Inr:
  assumes "scan_updates canon sha i us h = Inr k"
  shows "hs_update_ids k = rev (map su_update_id us) @ hs_update_ids h \<and>
    hs_event_ids k = rev (map (\<lambda>u. ev_event_id (su_event u)) us) @ hs_event_ids h \<and>
    revision_chain (hs_revision h) us (hs_revision k) \<and> (\<forall>u \<in> set us. su_subject_id u = i)"
  using assms
proof (induction us arbitrary: h)
  case (Cons u us)
  then obtain j where j: "scan_update canon sha i u h = Inr j" "scan_updates canon sha i us j = Inr k"
    by (auto simp: rbind_eq_Inr)
  from Cons.IH [OF j(2)] scan_update_Inr [OF j(1)] show ?case by simp
qed auto

lemma scan_updates_distinct:
  "scan_updates canon sha i us h = Inr k \<Longrightarrow> distinct (hs_update_ids h) \<Longrightarrow> distinct (hs_event_ids h) \<Longrightarrow>
    distinct (hs_update_ids k) \<and> distinct (hs_event_ids k)"
proof (induction us arbitrary: h)
  case (Cons u us)
  then obtain j where j: "scan_update canon sha i u h = Inr j" "scan_updates canon sha i us j = Inr k"
    by (auto simp: rbind_eq_Inr)
  from Cons.IH [OF j(2)] scan_update_Inr [OF j(1)] Cons.prems show ?case by simp
qed simp

lemma scan_updates_kept:
  "scan_updates canon sha i us h = Inr k \<Longrightarrow> lifecycle_kept (hs_lifecycle h) (hs_lifecycle k)"
proof (induction us arbitrary: h)
  case (Cons u us)
  then obtain j where j: "scan_update canon sha i u h = Inr j" "scan_updates canon sha i us j = Inr k"
    by (auto simp: rbind_eq_Inr)
  from Cons.IH [OF j(2)] scan_update_Inr(7) [OF j(1), THEN advance_lifecycle_moves, THEN lifecycle_moves_kept]
  show ?case by (blast intro: lifecycle_kept_trans)
qed (simp add: lifecycle_kept_refl)

section \<open>Documents are read back\<close>

lemma py_eq_PStr_right [simp]: "py_eq v (PStr s) \<longleftrightarrow> v = PStr s"
  by (cases v) auto

lemma py_eq_PNone_right [simp]: "py_eq v PNone \<longleftrightarrow> v = PNone"
  by (cases v) auto

lemma lifecycle_py_eq_refl [simp]:
  "py_eq (subject_lifecycle_to_dict l) (subject_lifecycle_to_dict l)"
  by (simp add: subject_lifecycle_to_dict_def)

lemma lifecycle_py_eq:
  assumes "subject_lifecycle_from_dict v = Inr l" "py_eq v (subject_lifecycle_to_dict k)"
  shows "l = k"
proof -
  obtain d where d: "v = PDict d" "set (map fst d) = set subject_lifecycle_keys"
    and i: "subject_lifecycle_init (dict_get d ''subject_id'') (dict_get d ''environment'')
           (dict_get d ''owner_principal_id'') (dict_get d ''status'') (dict_get d ''changed_at'')
           (dict_get d ''reason'') (dict_get d ''version'') = Inr l"
    using assms(1) by (auto simp: subject_lifecycle_from_dict_def split: pyval.splits if_splits)
  have e: "dict_get d x = y"
    if "map_of [(''subject_id'', PStr (sl_subject_id k)),
     (''environment'', PStr (sl_environment k)), (''owner_principal_id'', PStr (sl_owner_principal_id k)),
     (''status'', PStr (sl_status k)), (''changed_at'', PStr (format_z (sl_changed_at k))),
     (''reason'', PStr (sl_reason k)), (''version'', PStr ''p15-subject-lifecycle-v1'')] x = Some y"
      "x \<in> set subject_lifecycle_keys" "\<exists>t. y = PStr t" for x y
  proof -
    have "x \<in> fst ` set d" using that(2) d(2) by simp
    then obtain z where "map_of d x = Some z" by (metis map_of_eq_None_iff not_Some_eq)
    moreover then have "(x, z) \<in> set d" by (rule map_of_SomeD)
    with assms(2) that(1) have "py_eq z y"
      by (auto simp: d(1) subject_lifecycle_to_dict_def list_all_iff split: option.splits)
    ultimately show ?thesis using that(3) by (auto simp: dict_get_or_def)
  qed
  have "dict_get d ''subject_id'' = PStr (sl_subject_id k)" "dict_get d ''environment'' = PStr (sl_environment k)"
    "dict_get d ''owner_principal_id'' = PStr (sl_owner_principal_id k)" "dict_get d ''status'' = PStr (sl_status k)"
    "dict_get d ''changed_at'' = PStr (format_z (sl_changed_at k))" "dict_get d ''reason'' = PStr (sl_reason k)"
    by (rule e; simp add: subject_lifecycle_keys_def)+
  with i show ?thesis
    by (cases l; cases k) (auto simp: subject_lifecycle_init_def rbind_eq_Inr mind_text_eq_Inr split: if_splits)
qed

lemma normal_lifecycle:
  assumes "wf_subject s"
  shows "lifecycle_of s = PNone \<and> lifecycle_of (normal_state s) = PNone \<or>
    (\<exists>l. subject_lifecycle_from_dict (lifecycle_of s) = Inr l \<and> sl_subject_id l = ss_subject_id s \<and>
      lifecycle_of (normal_state s) = subject_lifecycle_to_dict l)"
proof -
  obtain lc where lc: "unless_none (lifecycle_of s) (bound_lifecycle (ss_subject_id s)) = Inr lc"
    using subject_to_dict_run [OF assms] unfolding subject_to_dict_def by (elim rbindE)
  from lc show ?thesis
  proof (cases rule: unless_none_cases)
    case 1
    then show ?thesis
      by (simp add: normal_state_def bound_lifecycle_def subject_lifecycle_from_dict_def)
  next
    case 2
    then show ?thesis
      by (auto simp: normal_state_def bound_lifecycle_def rbind_eq_Inr)
  qed
qed

lemma validate_history_normal:
  assumes "wf_subject s" "validate_history canon sha s us = Inr ()"
  shows "validate_history canon sha (normal_state s) us = Inr ()"
proof -
  obtain h where h: "scan_updates canon sha (ss_subject_id s) us scan_start = Inr h"
    "us \<noteq> [] \<longrightarrow> hs_revision h = ss_revision s"
    "py_eq (lifecycle_of s) (opt_val subject_lifecycle_to_dict (hs_lifecycle h))"
    using assms(2) by (auto simp: validate_history_def rbind_eq_Inr)
  have "py_eq (lifecycle_of (normal_state s)) (opt_val subject_lifecycle_to_dict (hs_lifecycle h))"
  proof (cases "hs_lifecycle h")
    case None
    with h(3) normal_lifecycle [OF assms(1)] show ?thesis by (auto simp: subject_lifecycle_from_dict_def)
  next
    case (Some k)
    with h(3) have "lifecycle_of s \<noteq> PNone" by (auto simp: subject_lifecycle_to_dict_def)
    with normal_lifecycle [OF assms(1)] obtain l where l: "subject_lifecycle_from_dict (lifecycle_of s) = Inr l"
      "lifecycle_of (normal_state s) = subject_lifecycle_to_dict l" by blast
    with lifecycle_py_eq [OF l(1), of k] h(3) Some show ?thesis by simp
  qed
  with h show ?thesis by (simp add: validate_history_def ensure_def)
qed

lemma decode_document_wf:
  assumes "decode_document canon sha v = Inr (s, us)"
  shows "wf_subject s" "list_all wf_state_update us" "validate_history canon sha s us = Inr ()"
    "us \<noteq> [] \<longrightarrow> is_envelope v"
proof -
  have plain: "subject_from_dict v = Inr s \<and> us = [] \<and> validate_history canon sha s us = Inr ()"
    if "rbind (subject_from_dict v) (\<lambda>state. rbind (validate_history canon sha state []) (\<lambda>_. Inr (state, []))) = Inr (s, us)"
    using that by (elim rbindE) auto
  have "(\<exists>d. subject_from_dict d = Inr s) \<and>
    (us = [] \<or> is_envelope v \<and> (\<exists>raw. rmap state_update_from_dict raw = Inr us)) \<and> validate_history canon sha s us = Inr ()"
  proof (cases "is_envelope v")
    case True
    then obtain e where "v = PDict e" by (auto simp: is_envelope_def split: pyval.splits)
    with True assms obtain d raw where "subject_from_dict d = Inr s" "rmap state_update_from_dict raw = Inr us"
      "validate_history canon sha s us = Inr ()"
      unfolding decode_document_def by (simp; elim rbindE) auto
    with True show ?thesis by blast
  next
    case False
    with assms have "rbind (subject_from_dict v) (\<lambda>state. rbind (validate_history canon sha state []) (\<lambda>_. Inr (state, []))) = Inr (s, us)"
      unfolding decode_document_def by (cases v) simp_all
    from plain [OF this] show ?thesis by blast
  qed
  then show "wf_subject s" "list_all wf_state_update us" "validate_history canon sha s us = Inr ()"
    "us \<noteq> [] \<longrightarrow> is_envelope v"
    using rmap_all [of state_update_from_dict _ us wf_state_update] subject_from_dict_wf state_update_from_dict_wf
    by (blast, force, blast, blast)
qed

lemma envelope_decode:
  assumes "wf_subject s" "envelope canon sha s us = Inr w" "list_all wf_state_update us"
  shows "decode_document canon sha w = Inr (normal_state s, us)" "is_envelope w"
proof -
  from assms(2) have v: "validate_history canon sha s us = Inr ()"
    and w: "w = PDict [(''persistence_format_version'', PInt 1), (''state'', subject_document s),
       (''updates'', PList (map state_update_to_dict us))]"
    by (auto simp: envelope_def rbind_eq_Inr subject_to_dict_run [OF assms(1)])
  have "rmap state_update_from_dict (map state_update_to_dict us) = Inr us"
    using assms(3) by (intro rmap_Inr_id) (simp add: list_all_iff state_update_roundtrip)
  with validate_history_normal [OF assms(1) v] subject_roundtrip(1) [OF assms(1)]
  show "decode_document canon sha w = Inr (normal_state s, us)"
    by (simp add: decode_document_def w is_envelope_def event_list_def)
  show "is_envelope w" by (simp add: w is_envelope_def)
qed

text \<open>
  A record that is complete but for the JSON compatibility of its values is well formed once it
  could be written.
\<close>

definition wf_update_shape :: "state_update \<Rightarrow> bool" where
  "wf_update_shape u \<longleftrightarrow> \<not> blank (su_update_id u) \<and> \<not> blank (su_subject_id u) \<and> wf_event (su_event u) \<and>
     (ev_time_basis (su_event u) = Basis_EXPLICIT \<longrightarrow> ev_recorded_at (su_event u) \<le> su_applied_at u) \<and>
     0 \<le> su_before_revision u \<and> su_before_revision u \<le> su_after_revision u \<and> \<not> blank (su_reason u) \<and>
     list_all (\<lambda>c. \<not> blank (fc_field_path c) \<and> \<not> blank (fc_reason c)) (su_changes u)"

lemma update_written_wf:
  assumes "wf_update_shape u" "json_ok (state_update_to_dict u)"
  shows "wf_state_update u"
  using assms
  by (auto simp: wf_update_shape_def wf_state_update_def state_update_to_dict_def list_all_iff
      wf_field_change_def field_change_to_dict_def)

lemma wf_state_update_shape: "wf_state_update u \<Longrightarrow> wf_update_shape u"
  by (auto simp: wf_update_shape_def wf_state_update_def list_all_iff wf_field_change_def)

lemma envelope_json:
  "envelope canon sha s us = Inr w \<Longrightarrow> json_ok w \<Longrightarrow> list_all json_ok (map state_update_to_dict us)"
  by (auto simp: envelope_def rbind_eq_Inr)

lemma write_payload_Inr:
  "write_payload disk p w st = Inr st' \<longleftrightarrow> json_ok w \<and> disk = None \<and> st p \<noteq> File_Not_A_File \<and> st' = st(p := File_Doc w)"
  by (auto simp: write_payload_def rbind_eq_Inr split: option.splits if_splits)

section \<open>What the operations do to a file\<close>

definition content ::
  "canon_fun \<Rightarrow> digest_fun \<Rightarrow> subject_store \<Rightarrow> string \<Rightarrow> (subject_state \<times> state_update list) option" where
  "content canon sha st p = (case st p of
       File_Doc v \<Rightarrow> (case decode_document canon sha v of Inr x \<Rightarrow> Some x | Inl _ \<Rightarrow> None) | _ \<Rightarrow> None)"

lemma content_Some:
  "content canon sha st p = Some x \<longleftrightarrow> (\<exists>v. st p = File_Doc v \<and> decode_document canon sha v = Inr x)"
  by (auto simp: content_def split: file_state.splits sum.splits)

lemma content_wf:
  assumes "content canon sha st p = Some (s, us)"
  shows "wf_subject s" "list_all wf_state_update us" "validate_history canon sha s us = Inr ()"
  using assms by (auto simp: content_Some dest: decode_document_wf)

lemma read_component_Inr:
  "read_component canon sha i st = Inr (s, us) \<longleftrightarrow>
     \<not> blank i \<and> content canon sha st (sha i) = Some (s, us) \<and> ss_subject_id s = i"
  by (auto simp: read_component_def subject_path_def rbind_eq_Inr content_Some read_payload_def
      split: file_state.splits)

lemma subject_to_dict_wf:
  "subject_to_dict s = Inr d \<Longrightarrow> \<not> blank (ss_subject_id s) \<Longrightarrow> 0 \<le> ss_revision s \<Longrightarrow>
    wf_subject s \<and> d = subject_document s"
  by (simp add: wf_subject_def subject_document_def)

lemma save_envelope:
  assumes "envelope canon sha s us = Inr w" "write_payload disk p w st = Inr st'"
    "\<not> blank (ss_subject_id s)" "0 \<le> ss_revision s" "list_all wf_update_shape us"
  shows "wf_subject s \<and> st' = st(p := File_Doc w) \<and> content canon sha st' p = Some (normal_state s, us)"
proof -
  from assms(1) obtain d where "subject_to_dict s = Inr d" by (auto simp: envelope_def rbind_eq_Inr)
  with assms(3,4) have wf: "wf_subject s" using subject_to_dict_wf by blast
  from assms(2) have w: "json_ok w" "st' = st(p := File_Doc w)" by (auto simp: write_payload_Inr)
  have "list_all wf_state_update us"
    using envelope_json [OF assms(1) w(1)] assms(5) update_written_wf by (auto simp: list_all_iff)
  from envelope_decode(1) [OF wf assms(1) this] wf w(2) show ?thesis by (simp add: content_Some)
qed

lemma find_event_Some: "find_event i us = Some u \<Longrightarrow> u \<in> set us \<and> ev_event_id (su_event u) = i"
  by (auto simp: find_event_def find_Some_iff)

lemma find_event_None: "find_event i us = None \<longleftrightarrow> i \<notin> (\<lambda>u. ev_event_id (su_event u)) ` set us"
  by (auto simp: find_event_def find_None_iff)

definition transition_saved ::
  "canon_fun \<Rightarrow> digest_fun \<Rightarrow> subject_state \<Rightarrow> state_update \<Rightarrow> subject_store \<Rightarrow> subject_store \<Rightarrow>
    subject_state \<Rightarrow> state_update list \<Rightarrow> bool" where
  "transition_saved canon sha s u st st' current us \<longleftrightarrow>
     find_event (ev_event_id (su_event u)) us = None \<and>
     ss_revision current = su_before_revision u \<and> ss_revision s = su_after_revision u \<and>
     su_update_id u \<notin> su_update_id ` set us \<and> wf_subject s \<and> (\<exists>w. st' = st(sha (ss_subject_id s) := File_Doc w)) \<and>
     content canon sha st' (sha (ss_subject_id s)) = Some (normal_state s, us @ [u])"

lemma save_transition_Inr:
  assumes "save_transition canon sha disk s u st = Inr st'" "wf_update_shape u"
  obtains current us where "content canon sha st (sha (ss_subject_id s)) = Some (current, us)"
    "ss_subject_id current = ss_subject_id s" "su_subject_id u = ss_subject_id s"
    "st' = st \<and> (\<exists>x. find_event (ev_event_id (su_event u)) us = Some x \<and>
       py_eq (canonical_dict (su_event x)) (canonical_dict (su_event u))) \<or>
     transition_saved canon sha s u st st' current us"
proof -
  from assms(1) obtain raw current us where b: "\<not> blank (ss_subject_id s)"
    and raw: "st (sha (ss_subject_id s)) = File_Doc raw" "decode_document canon sha raw = Inr (current, us)"
    and i: "ss_subject_id current = ss_subject_id s" "su_subject_id u = ss_subject_id s"
    and rest: "(case find_event (ev_event_id (su_event u)) us of
       Some existing \<Rightarrow>
         rbind (ensure (py_eq (canonical_dict (su_event existing)) (canonical_dict (su_event u)))
           (EventIdentityConflictError, ''event identity conflicts with immutable history: ''
             @ ev_event_id (su_event u))) (\<lambda>_.
         rbind (same_document current s) (\<lambda>same.
         rbind (ensure same (StateEvolutionError,
           ''idempotent event replay cannot change the persisted subject state'')) (\<lambda>_. Inr st)))
     | None \<Rightarrow>
         rbind (ensure (ss_revision current = su_before_revision u)
           (StateEvolutionError, ''stale state revision: stored '' @ show_int (ss_revision current)
             @ '', event expected '' @ show_int (su_before_revision u))) (\<lambda>_.
         rbind (ensure (ss_revision s = su_after_revision u)
           (StateEvolutionError, ''updated state revision does not match its update record'')) (\<lambda>_.
         rbind (ensure (su_update_id u \<notin> su_update_id ` set us)
           (StateEvolutionError, ''duplicate update record: '' @ su_update_id u)) (\<lambda>_.
         rbind (envelope canon sha s (us @ [u])) (\<lambda>payload.
         write_payload disk (sha (ss_subject_id s)) payload st))))) = Inr st'"
    unfolding save_transition_def subject_path_def
    by (elim rbindE) (auto simp: read_payload_def elim!: rbindE split: file_state.splits)
  have c: "content canon sha st (sha (ss_subject_id s)) = Some (current, us)"
    using raw by (simp add: content_Some)
  show thesis
  proof (cases "find_event (ev_event_id (su_event u)) us")
    case None
    with rest obtain w where r: "ss_revision current = su_before_revision u" "ss_revision s = su_after_revision u"
      "su_update_id u \<notin> su_update_id ` set us" and w: "envelope canon sha s (us @ [u]) = Inr w"
      "write_payload disk (sha (ss_subject_id s)) w st = Inr st'"
      by (auto simp: rbind_eq_Inr)
    have "0 \<le> ss_revision s" using r(2) assms(2) by (simp add: wf_update_shape_def)
    moreover have "list_all wf_update_shape (us @ [u])"
      using content_wf(2) [OF c] assms(2) wf_state_update_shape by (auto simp: list_all_iff)
    ultimately have "transition_saved canon sha s u st st' current us"
      using save_envelope [OF w b] None r by (auto simp: transition_saved_def)
    with c i show thesis by (intro that [of current us]) auto
  next
    case (Some x)
    with rest have "st' = st" "py_eq (canonical_dict (su_event x)) (canonical_dict (su_event u))"
      by (auto simp: rbind_eq_Inr)
    with c i Some show thesis by (intro that [of current us]) auto
  qed
qed

lemma save_initial_Inr:
  assumes "save_initial_transition canon sha disk s u st = Inr st'" "wf_update_shape u" "0 \<le> ss_revision s"
  shows "st (sha (ss_subject_id s)) = File_Absent \<and> wf_subject s \<and>
    (\<exists>w. st' = st(sha (ss_subject_id s) := File_Doc w)) \<and>
    content canon sha st' (sha (ss_subject_id s)) = Some (normal_state s, [u])"
proof -
  from assms(1) obtain w where "\<not> blank (ss_subject_id s)" "st (sha (ss_subject_id s)) = File_Absent"
    "envelope canon sha s [u] = Inr w" "write_payload disk (sha (ss_subject_id s)) w st = Inr st'"
    unfolding save_initial_transition_def subject_path_def by (elim rbindE) auto
  with save_envelope [of canon sha s "[u]" w disk _ st st'] assms(2,3) show ?thesis by auto
qed

lemma subject_document_plain:
  assumes "wf_subject s"
  shows "\<not> is_envelope (subject_document s)"
  using subject_to_dict_normal [OF subject_to_dict_run [OF assms]]
  by (elim conjE exE) (simp add: is_envelope_def subject_fields_doc_def)

lemma decode_plain:
  assumes "wf_subject s" "validate_history canon sha s [] = Inr ()"
  shows "decode_document canon sha (subject_document s) = Inr (normal_state s, [])"
  using subject_document_plain [OF assms(1)] subject_roundtrip(1) [OF assms(1)]
    validate_history_normal [OF assms]
  by (auto simp: decode_document_def split: pyval.splits)

lemma subject_save_Inr:
  assumes "subject_save canon sha disk s st = Inr st'" "0 \<le> ss_revision s"
  shows "wf_subject s \<and> (\<exists>w. st' = st(sha (ss_subject_id s) := File_Doc w)) \<and>
    (\<exists>us. content canon sha st' (sha (ss_subject_id s)) = Some (normal_state s, us) \<and>
      (case content canon sha st (sha (ss_subject_id s)) of None \<Rightarrow> us = []
       | Some (c, vs) \<Rightarrow> us = vs \<and> (vs \<noteq> [] \<longrightarrow> same_document s c = Inr True)))"
proof -
  let ?p = "sha (ss_subject_id s)"
  from assms(1) obtain upd payload w where b: "\<not> blank (ss_subject_id s)"
    and upd: "(if is_file (st ?p) then
         rbind (read_payload (st ?p) (ss_subject_id s)) (\<lambda>raw.
         if is_envelope raw then
           rbind (decode_document canon sha raw) (\<lambda>(current, updates).
           rbind (same_document s current) (\<lambda>same.
           rbind (ensure same (StateEvolutionError,
             ''event-backed state cannot be changed with direct save; use save_transition'')) (\<lambda>_.
           Inr (Some updates))))
         else Inr None)
       else Inr None) = Inr upd"
    and d: "subject_to_dict s = Inr payload"
    and v: "validate_history canon sha s (case upd of None \<Rightarrow> [] | Some us \<Rightarrow> us) = Inr ()"
    and w: "(case upd of None \<Rightarrow> Inr payload | Some us \<Rightarrow> envelope canon sha s us) = Inr w"
      "write_payload disk ?p w st = Inr st'"
    unfolding subject_save_def subject_path_def by (elim rbindE) auto
  have wf: "wf_subject s" "payload = subject_document s" using subject_to_dict_wf [OF d b assms(2)] by auto
  show ?thesis
  proof (cases upd)
    case None
    then have p: "content canon sha st ?p = Some (c, vs) \<Longrightarrow> vs = []" for c vs
      using upd decode_document_wf(4)
      by (fastforce simp: content_Some read_payload_def rbind_eq_Inr split: if_splits prod.splits)
    from None w wf have "st' = st(?p := File_Doc (subject_document s))" by (auto simp: write_payload_Inr)
    with decode_plain [OF wf(1)] v None wf p show ?thesis
      by (intro conjI exI [of _ "[]"]) (auto simp: content_Some split: option.split)
  next
    case (Some us)
    with upd obtain raw c where c: "st ?p = File_Doc raw" "decode_document canon sha raw = Inr (c, us)"
      "same_document s c = Inr True"
      by (auto simp: read_payload_def rbind_eq_Inr split: if_splits file_state.splits)
    have "list_all wf_update_shape us"
      using decode_document_wf(2) [OF c(2)] wf_state_update_shape by (auto simp: list_all_iff)
    with save_envelope [OF _ w(2) b assms(2), of canon sha us] w(1) Some c wf show ?thesis
      by (auto simp: content_def)
  qed
qed

end
