(* ===== verification/Timeline.thy ===== *)
theory Timeline
  imports Subject_Repository "HOL-Library.Product_Lexorder"
begin

text \<open>
  domain/timeline.py and services/timeline_service.py: the history of a subject as a projection,
  rebuilt at every question from the update records, with what later events correct or revoke.
\<close>

section \<open>Entries and queries\<close>

datatype timeline_status = Tl_ACTIVE | Tl_CORRECTED | Tl_REVOKED | Tl_SUPERSEDED

datatype timeline_order = Ord_BEFORE | Ord_SAME_OCCURRED_AT | Ord_AFTER

record timeline_entry =
  te_subject_id :: string
  te_update_id :: string
  te_event :: event
  te_status :: timeline_status
  te_corrected_by :: "string list"
  te_revoked_by :: "string list"

abbreviation te_id :: "timeline_entry \<Rightarrow> string" where
  "te_id e \<equiv> ev_event_id (te_event e)"

definition event_sort_key :: "event \<Rightarrow> instant \<times> instant \<times> instant \<times> string" where
  "event_sort_key e = (ev_occurred_at e, ev_observed_at e, ev_recorded_at e, ev_event_id e)"

record timeline_query =
  tq_start_at :: "instant option"
  tq_end_at :: "instant option"
  tq_classifications :: "event_classification list"
  tq_sources :: "string list"
  tq_source_kinds :: "event_source_kind list"
  tq_correlation_id :: "string option"
  tq_include_revoked :: bool
  tq_limit :: int

abbreviation timeline_invalid :: "string \<Rightarrow> exn" where
  "timeline_invalid m \<equiv> (TimelineValidationError, m)"

abbreviation timeline_broken :: "string \<Rightarrow> exn" where
  "timeline_broken m \<equiv> (TimelineReferenceError, m)"

definition optional_utc :: "pyval \<Rightarrow> string \<Rightarrow> instant option res" where
  "optional_utc v name = (if v = PNone then Inr None else rbind (normalize_utc v name) (\<lambda>t. Inr (Some t)))"

text \<open>\<open>not self.correlation_id.strip()\<close> of what is not a string has no such attribute.\<close>

definition query_correlation :: "pyval \<Rightarrow> string option res" where
  "query_correlation v = (case v of
       PNone \<Rightarrow> Inr None
     | PStr s \<Rightarrow> if blank s then Inl (timeline_invalid ''correlation_id must be a non-empty string'') else Inr (Some s)
     | _ \<Rightarrow> Inl (AttributeError, ''object has no attribute strip''))"

definition query_source :: "pyval \<Rightarrow> string res" where
  "query_source v = (case v of
       PStr s \<Rightarrow> if blank s then Inl (timeline_invalid ''timeline sources must be non-empty strings'') else Inr s
     | _ \<Rightarrow> Inl (timeline_invalid ''timeline sources must be non-empty strings''))"

definition query_limit :: "pyval \<Rightarrow> int res" where
  "query_limit v = (case v of
       PInt n \<Rightarrow> if 20 \<le> n \<and> n \<le> 100 then Inr n else Inl (timeline_invalid ''timeline limit must be between 20 and 100'')
     | _ \<Rightarrow> Inl (timeline_invalid ''timeline limit must be between 20 and 100''))"

definition timeline_query_init ::
  "pyval \<Rightarrow> pyval \<Rightarrow> pyval list \<Rightarrow> pyval list \<Rightarrow> pyval list \<Rightarrow> pyval \<Rightarrow> bool \<Rightarrow> pyval \<Rightarrow> timeline_query res" where
  "timeline_query_init start_at end_at classifications sources source_kinds correlation_id include_revoked limit =
     rbind (optional_utc start_at ''start_at'') (\<lambda>start_at.
     rbind (optional_utc end_at ''end_at'') (\<lambda>end_at.
     rbind (ensure (\<forall>s t. start_at = Some s \<longrightarrow> end_at = Some t \<longrightarrow> s \<le> t)
       (timeline_invalid ''timeline start_at cannot be after end_at'')) (\<lambda>_.
     rbind (query_limit limit) (\<lambda>limit.
     rbind (rmap (require_enum (ValueError, ''not a valid EventClassification'') classification_value
         [Cls_LEGACY, Cls_FACT, Cls_OBSERVATION, Cls_INTENTION, Cls_INTERACTION, Cls_STATE_CHANGE, Cls_CORRECTION,
          Cls_REVOCATION]) classifications) (\<lambda>classifications.
     rbind (rmap (require_enum (ValueError, ''not a valid EventSourceKind'') source_kind_value
         [Src_LEGACY, Src_INTERNAL, Src_USER, Src_SYSTEM, Src_PLATFORM, Src_EXTERNAL, Src_TEST]) source_kinds) (\<lambda>source_kinds.
     rbind (query_correlation correlation_id) (\<lambda>correlation_id.
     rbind (rmap query_source sources) (\<lambda>sources.
     Inr \<lparr>tq_start_at = start_at, tq_end_at = end_at, tq_classifications = classifications,
       tq_sources = sources, tq_source_kinds = source_kinds, tq_correlation_id = correlation_id,
       tq_include_revoked = include_revoked, tq_limit = limit\<rparr>))))))))"

definition timeline_query_default :: timeline_query where
  "timeline_query_default = \<lparr>tq_start_at = None, tq_end_at = None, tq_classifications = [], tq_sources = [],
     tq_source_kinds = [], tq_correlation_id = None, tq_include_revoked = True, tq_limit = 50\<rparr>"

definition timeline_matches :: "timeline_query \<Rightarrow> timeline_entry \<Rightarrow> bool" where
  "timeline_matches q entry = (let event = te_event entry in
     (case tq_start_at q of None \<Rightarrow> True | Some s \<Rightarrow> \<not> ev_occurred_at event < s) \<and>
     (case tq_end_at q of None \<Rightarrow> True | Some t \<Rightarrow> \<not> t < ev_occurred_at event) \<and>
     (tq_classifications q = [] \<or> ev_classification event \<in> set (tq_classifications q)) \<and>
     (tq_sources q = [] \<or> ev_source event \<in> set (tq_sources q)) \<and>
     (tq_source_kinds q = [] \<or> ev_source_kind event \<in> set (tq_source_kinds q)) \<and>
     (tq_correlation_id q = None \<or> ev_correlation_id event = tq_correlation_id q) \<and>
     (tq_include_revoked q \<or> te_status entry \<noteq> Tl_REVOKED))"

record timeline_result =
  tr_subject_id :: string
  tr_entries :: "timeline_entry list"
  tr_total_matching :: nat
  tr_query :: timeline_query

definition timeline_first :: "timeline_result \<Rightarrow> timeline_entry option" where
  "timeline_first r = (case tr_entries r of [] \<Rightarrow> None | e # _ \<Rightarrow> Some e)"

definition timeline_last :: "timeline_result \<Rightarrow> timeline_entry option" where
  "timeline_last r = (if tr_entries r = [] then None else Some (last (tr_entries r)))"

section \<open>The projection\<close>

record timeline_projection =
  tl_subject_id :: string
  tl_entries :: "timeline_entry list"

text \<open>The first pass: every event once, every reference to an earlier event of the subject.\<close>

fun index_records :: "string \<Rightarrow> state_update list \<Rightarrow> state_update list \<Rightarrow> unit res" where
  "index_records subject_id [] seen = Inr ()"
| "index_records subject_id (u # us) seen =
     (case find_event (ev_event_id (su_event u)) seen of
       Some existing \<Rightarrow> Inl (timeline_broken
         (if py_eq (canonical_dict (su_event existing)) (canonical_dict (su_event u))
          then ''timeline contains a duplicate event record'' else ''timeline contains a conflicting event identity''))
     | None \<Rightarrow>
         rbind (each (\<lambda>r.
           rbind (ensure (er_target_subject_id r = subject_id)
             (timeline_broken ''timeline event reference crosses subject boundaries'')) (\<lambda>_.
           ensure (er_target_event_id r \<in> (\<lambda>u. ev_event_id (su_event u)) ` set seen)
             (timeline_broken ''timeline event reference must target an earlier event'')))
           (ev_references (su_event u))) (\<lambda>_.
         index_records subject_id us (seen @ [u])))"

text \<open>The second pass: what the references do to their targets.\<close>

record timeline_marks =
  tm_corrected_by :: "string \<Rightarrow> string list"
  tm_revoked_by :: "string \<Rightarrow> string list"
  tm_status :: "string \<Rightarrow> timeline_status"

definition timeline_marks_start :: timeline_marks where
  "timeline_marks_start = \<lparr>tm_corrected_by = (\<lambda>_. []), tm_revoked_by = (\<lambda>_. []), tm_status = (\<lambda>_. Tl_ACTIVE)\<rparr>"

definition mark_reference :: "event \<Rightarrow> string \<Rightarrow> event_reference \<Rightarrow> timeline_marks \<Rightarrow> timeline_marks" where
  "mark_reference target source r m =
     (let i = er_target_event_id r in
     case er_relation_type r of
       Rel_CORRECTS \<Rightarrow>
         let m = m\<lparr>tm_corrected_by := (tm_corrected_by m)(i := tm_corrected_by m i @ [source])\<rparr> in
         if tm_status m i = Tl_REVOKED then m
         else m\<lparr>tm_status := (tm_status m)(i :=
           (if ev_classification target = Cls_CORRECTION \<or> 1 < length (tm_corrected_by m i)
            then Tl_SUPERSEDED else Tl_CORRECTED))\<rparr>
     | Rel_REVOKES \<Rightarrow>
         m\<lparr>tm_revoked_by := (tm_revoked_by m)(i := tm_revoked_by m i @ [source]),
           tm_status := (tm_status m)(i := Tl_REVOKED)\<rparr>
     | Rel_CAUSED_BY \<Rightarrow> m)"

definition reference_list :: "state_update list \<Rightarrow> (string \<times> event_reference) list" where
  "reference_list us = concat (map (\<lambda>u. map (Pair (ev_event_id (su_event u))) (ev_references (su_event u))) us)"

fun mark_references ::
  "state_update list \<Rightarrow> (string \<times> event_reference) list \<Rightarrow> timeline_marks \<Rightarrow> timeline_marks res" where
  "mark_references records [] m = Inr m"
| "mark_references records ((source, r) # rest) m =
     (case find_event (er_target_event_id r) records of
       None \<Rightarrow> Inl (timeline_broken (''timeline event reference target is missing: '' @ er_target_event_id r))
     | Some target \<Rightarrow> mark_references records rest (mark_reference (su_event target) source r m))"

definition marked_entry :: "string \<Rightarrow> timeline_marks \<Rightarrow> state_update \<Rightarrow> timeline_entry" where
  "marked_entry subject_id m u = (let i = ev_event_id (su_event u) in
     \<lparr>te_subject_id = subject_id, te_update_id = su_update_id u, te_event = su_event u,
      te_status = tm_status m i, te_corrected_by = sort (tm_corrected_by m i),
      te_revoked_by = sort (tm_revoked_by m i)\<rparr>)"

definition timeline_from_updates :: "string \<Rightarrow> state_update list \<Rightarrow> timeline_projection res" where
  "timeline_from_updates subject_id records =
     rbind (ensure (\<forall>u \<in> set records. su_subject_id u = subject_id)
       (timeline_broken ''timeline history crosses subject boundaries'')) (\<lambda>_.
     rbind (index_records subject_id records []) (\<lambda>_.
     rbind (mark_references records (reference_list records) timeline_marks_start) (\<lambda>m.
     Inr \<lparr>tl_subject_id = subject_id,
       tl_entries = sort_key (\<lambda>e. event_sort_key (te_event e)) (map (marked_entry subject_id m) records)\<rparr>)))"

section \<open>Questions\<close>

definition timeline_get :: "timeline_projection \<Rightarrow> string \<Rightarrow> timeline_entry res" where
  "timeline_get p event_id = (case List.find (\<lambda>e. te_id e = event_id) (tl_entries p) of
       None \<Rightarrow> Inl (timeline_broken (''timeline event does not exist: '' @ event_id))
     | Some e \<Rightarrow> Inr e)"

definition timeline_ask :: "timeline_query option \<Rightarrow> timeline_projection \<Rightarrow> timeline_result" where
  "timeline_ask query p =
     (let effective = (case query of None \<Rightarrow> timeline_query_default | Some q \<Rightarrow> q);
          matching = filter (timeline_matches effective) (tl_entries p)
      in \<lparr>tr_subject_id = tl_subject_id p, tr_entries = take (nat (tq_limit effective)) matching,
          tr_total_matching = length matching, tr_query = effective\<rparr>)"

definition timeline_relative_order :: "timeline_projection \<Rightarrow> string \<Rightarrow> string \<Rightarrow> timeline_order res" where
  "timeline_relative_order p left_event_id right_event_id =
     rbind (timeline_get p left_event_id) (\<lambda>l.
     rbind (timeline_get p right_event_id) (\<lambda>r.
     Inr (if ev_occurred_at (te_event l) = ev_occurred_at (te_event r) then Ord_SAME_OCCURRED_AT
       else if event_sort_key (te_event l) < event_sort_key (te_event r) then Ord_BEFORE else Ord_AFTER)))"

text \<open>A \<open>timedelta\<close> in microseconds.\<close>

definition timeline_distance :: "timeline_projection \<Rightarrow> string \<Rightarrow> string \<Rightarrow> int res" where
  "timeline_distance p from_event_id to_event_id =
     rbind (timeline_get p to_event_id) (\<lambda>t.
     rbind (timeline_get p from_event_id) (\<lambda>f.
     Inr (usec (ev_occurred_at (te_event t)) - usec (ev_occurred_at (te_event f)))))"

definition entry_targets :: "timeline_entry \<Rightarrow> string set" where
  "entry_targets e = er_target_event_id ` set (ev_references (te_event e))"

text \<open>One turn of \<open>while changed\<close> over all entries; it changes the set iff it makes it larger.\<close>

definition chain_step :: "string set \<Rightarrow> timeline_entry \<Rightarrow> string set" where
  "chain_step selected e =
     (if te_id e \<in> selected \<or> entry_targets e \<inter> selected \<noteq> {}
      then insert (te_id e) (selected \<union> entry_targets e) else selected)"

definition chain_pass :: "timeline_entry list \<Rightarrow> string set \<Rightarrow> string set" where
  "chain_pass entries selected = foldl chain_step selected entries"

definition chain_universe :: "timeline_entry list \<Rightarrow> string set" where
  "chain_universe entries = (\<Union>e \<in> set entries. insert (te_id e) (entry_targets e))"

lemma chain_universe_finite: "finite (chain_universe entries)"
  by (simp add: chain_universe_def entry_targets_def)

lemma chain_step_bounds: "selected \<subseteq> chain_step selected e"
  "e \<in> set entries \<Longrightarrow> chain_step selected e \<subseteq> selected \<union> chain_universe entries"
  by (auto simp: chain_step_def chain_universe_def)

lemma foldl_chain_bounds:
  "set es \<subseteq> set entries \<Longrightarrow> selected \<subseteq> foldl chain_step selected es \<and>
    foldl chain_step selected es \<subseteq> selected \<union> chain_universe entries"
proof (induction es arbitrary: selected)
  case (Cons e es)
  then have "chain_step selected e \<subseteq> foldl chain_step (chain_step selected e) es \<and>
    foldl chain_step (chain_step selected e) es \<subseteq> chain_step selected e \<union> chain_universe entries" by simp
  with chain_step_bounds(1) [of selected e] chain_step_bounds(2) [of e entries selected] Cons.prems
  show ?case by auto
qed simp

lemma chain_pass_bounds:
  "selected \<subseteq> chain_pass entries selected"
  "chain_pass entries selected \<subseteq> selected \<union> chain_universe entries"
  using foldl_chain_bounds [of entries entries selected] by (auto simp: chain_pass_def)

function chain_loop :: "timeline_entry list \<Rightarrow> string set \<Rightarrow> string set" where
  "chain_loop entries selected =
     (let following = chain_pass entries selected in
      if following = selected then selected else chain_loop entries following)"
  by pat_completeness auto
termination
proof (relation "measure (\<lambda>(entries, selected). card (chain_universe entries - selected))")
  fix entries selected following
  assume f: "following = chain_pass entries selected" "following \<noteq> selected"
  then obtain x where "x \<in> following" "x \<notin> selected" using chain_pass_bounds(1) by blast
  with f chain_pass_bounds(1) [of selected entries] chain_pass_bounds(2) [of entries selected]
  have "chain_universe entries - following \<subset> chain_universe entries - selected" by blast
  then show "((entries, following), (entries, selected)) \<in>
      measure (\<lambda>(entries, selected). card (chain_universe entries - selected))"
    using chain_universe_finite by (simp add: psubset_card_mono)
qed simp

declare chain_loop.simps [simp del]

definition chain_seeds :: "timeline_projection \<Rightarrow> timeline_entry \<Rightarrow> string set" where
  "chain_seeds p seed = insert (te_id seed)
     (case ev_correlation_id (te_event seed) of
        None \<Rightarrow> {}
      | Some c \<Rightarrow> te_id ` set (filter (\<lambda>e. ev_correlation_id (te_event e) = Some c) (tl_entries p)))"

definition timeline_chain :: "timeline_projection \<Rightarrow> string \<Rightarrow> timeline_entry list res" where
  "timeline_chain p event_id =
     rbind (timeline_get p event_id) (\<lambda>seed.
     let selected = chain_loop (tl_entries p) (chain_seeds p seed) in
     Inr (filter (\<lambda>e. te_id e \<in> selected) (tl_entries p)))"

section \<open>The service\<close>

definition timeline_rebuild :: "canon_fun \<Rightarrow> digest_fun \<Rightarrow> string \<Rightarrow> subject_store \<Rightarrow> timeline_projection res" where
  "timeline_rebuild canon sha subject_id st =
     rbind (list_update_records canon sha subject_id st) (timeline_from_updates subject_id)"

definition timeline_service_query ::
  "canon_fun \<Rightarrow> digest_fun \<Rightarrow> string \<Rightarrow> timeline_query option \<Rightarrow> subject_store \<Rightarrow> timeline_result res" where
  "timeline_service_query canon sha subject_id query st =
     rbind (timeline_rebuild canon sha subject_id st) (\<lambda>p. Inr (timeline_ask query p))"

definition timeline_service_first ::
  "canon_fun \<Rightarrow> digest_fun \<Rightarrow> string \<Rightarrow> timeline_query option \<Rightarrow> subject_store \<Rightarrow> timeline_entry option res" where
  "timeline_service_first canon sha subject_id query st =
     rbind (timeline_service_query canon sha subject_id query st) (\<lambda>r. Inr (timeline_first r))"

definition timeline_service_last ::
  "canon_fun \<Rightarrow> digest_fun \<Rightarrow> string \<Rightarrow> timeline_query option \<Rightarrow> subject_store \<Rightarrow> timeline_entry option res" where
  "timeline_service_last canon sha subject_id query st =
     rbind (timeline_service_query canon sha subject_id query st) (\<lambda>r. Inr (timeline_last r))"

definition timeline_service_order ::
  "canon_fun \<Rightarrow> digest_fun \<Rightarrow> string \<Rightarrow> string \<Rightarrow> string \<Rightarrow> subject_store \<Rightarrow> timeline_order res" where
  "timeline_service_order canon sha subject_id l r st =
     rbind (timeline_rebuild canon sha subject_id st) (\<lambda>p. timeline_relative_order p l r)"

definition timeline_service_distance ::
  "canon_fun \<Rightarrow> digest_fun \<Rightarrow> string \<Rightarrow> string \<Rightarrow> string \<Rightarrow> subject_store \<Rightarrow> int res" where
  "timeline_service_distance canon sha subject_id a b st =
     rbind (timeline_rebuild canon sha subject_id st) (\<lambda>p. timeline_distance p a b)"

definition timeline_service_chain ::
  "canon_fun \<Rightarrow> digest_fun \<Rightarrow> string \<Rightarrow> string \<Rightarrow> subject_store \<Rightarrow> timeline_entry list res" where
  "timeline_service_chain canon sha subject_id event_id st =
     rbind (timeline_rebuild canon sha subject_id st) (\<lambda>p. timeline_chain p event_id)"

definition timeline_load_entry ::
  "canon_fun \<Rightarrow> digest_fun \<Rightarrow> string \<Rightarrow> string \<Rightarrow> subject_store \<Rightarrow> timeline_entry res" where
  "timeline_load_entry canon sha subject_id event_id st =
     rbind (timeline_rebuild canon sha subject_id st) (\<lambda>p.
     case List.find (\<lambda>e. te_id e = event_id) (tl_entries p) of
       None \<Rightarrow> Inl (timeline_broken (''timeline event not found: '' @ event_id))
     | Some e \<Rightarrow> Inr e)"

end
