(* ===== verification/Subject_Service.thy ===== *)
theory Subject_Service
  imports Subject_Repository
begin

text \<open>
  services/subject_state_service.py. The state of a call is the repository's store. The ports of
  a call: the clock, the fresh uuid of an update record, what the disk raises at the write, and
  \<open>sv_others k\<close>, what other threads and services do to the store before the \<open>k\<close>-th access of the
  call. Each access is one step, as the write lock of the repository makes it.
\<close>

record subject_ports =
  sv_canon :: canon_fun
  sv_sha :: digest_fun
  sv_disk :: "exn option"
  sv_clock :: pyval
  sv_uuid :: string
  sv_others :: "nat \<Rightarrow> subject_store \<Rightarrow> subject_store"

type_synonym 'a subject_prog = "(subject_store, 'a) prog"

section \<open>Accesses to the store\<close>

definition at_store :: "subject_ports \<Rightarrow> nat \<Rightarrow> 'a subject_prog \<Rightarrow> 'a subject_prog" where
  "at_store pp k m = sbind (smodify (sv_others pp k)) (\<lambda>_. m)"

definition sv_exists :: "subject_ports \<Rightarrow> string \<Rightarrow> bool subject_prog" where
  "sv_exists pp subject_id = sread (subject_exists (sv_sha pp) subject_id)"

definition sv_load :: "subject_ports \<Rightarrow> string \<Rightarrow> subject_state subject_prog" where
  "sv_load pp subject_id = sread (subject_load (sv_canon pp) (sv_sha pp) subject_id)"

definition sv_history :: "subject_ports \<Rightarrow> string \<Rightarrow> state_update list subject_prog" where
  "sv_history pp subject_id = sread (list_update_records (sv_canon pp) (sv_sha pp) subject_id)"

definition sv_write :: "subject_ports \<Rightarrow> subject_state \<Rightarrow> unit subject_prog" where
  "sv_write pp state = swrite (subject_save (sv_canon pp) (sv_sha pp) (sv_disk pp) state)"

definition sv_transition :: "subject_ports \<Rightarrow> subject_state \<Rightarrow> state_update \<Rightarrow> unit subject_prog" where
  "sv_transition pp state update =
     swrite (save_transition (sv_canon pp) (sv_sha pp) (sv_disk pp) state update)"

section \<open>Creation and direct edits\<close>

definition subject_service_create :: "subject_ports \<Rightarrow> string \<Rightarrow> subject_state subject_prog" where
  "subject_service_create pp subject_id =
     sbind (at_store pp 0 (sv_exists pp subject_id)) (\<lambda>there.
     sbind (slift (ensure (\<not> there)
       (StateAlreadyExistsError, ''subject state already exists: '' @ subject_id))) (\<lambda>_.
     sbind (slift (subject_create subject_id (sv_clock pp))) (\<lambda>state.
     sbind (at_store pp 1 (sv_write pp state)) (\<lambda>_. sret state))))"

definition require_active ::
  "subject_ports \<Rightarrow> nat \<Rightarrow> string \<Rightarrow> string option \<Rightarrow> subject_state subject_prog" where
  "require_active pp k subject_id environment =
     sbind (at_store pp k (sv_load pp subject_id)) (\<lambda>state.
     sbind (slift (lifecycle_active (lifecycle_of state) environment)) (\<lambda>_. sret state))"

text \<open>The three documents that a direct save may not change.\<close>

definition internal_unchanged :: "subject_state \<Rightarrow> subject_state option \<Rightarrow> bool" where
  "internal_unchanged state prior = list_all (\<lambda>f.
     py_eq (f state) (case prior of None \<Rightarrow> PNone | Some s \<Rightarrow> f s)) [lifecycle_of, narrative_of, objects_of]"

definition subject_service_save :: "subject_ports \<Rightarrow> subject_state \<Rightarrow> subject_state subject_prog" where
  "subject_service_save pp state =
     sbind (at_store pp 0 (sv_exists pp (ss_subject_id state))) (\<lambda>there.
     sbind (if there then sbind (require_active pp 1 (ss_subject_id state) None) (\<lambda>s. sret (Some s))
       else sret None) (\<lambda>prior.
     sbind (slift (ensure (internal_unchanged state prior)
       (LifecycleError, ''SUBJECT_INTERNAL_STATE_REQUIRES_EVOLUTION''))) (\<lambda>_.
     sbind (slift (mark_updated (sv_clock pp) state)) (\<lambda>state.
     sbind (at_store pp 2 (sv_write pp state)) (\<lambda>_. sret state)))))"

section \<open>Events\<close>

definition replayed :: "subject_state \<Rightarrow> state_update \<Rightarrow> evolution_result" where
  "replayed state existing = \<lparr>er_state = state, er_update = existing, er_idempotent_replay = True\<rparr>"

definition check_references :: "string \<Rightarrow> state_update list \<Rightarrow> event \<Rightarrow> unit res" where
  "check_references subject_id history event = each (\<lambda>r.
     rbind (ensure (er_target_subject_id r = subject_id)
       (EventReferenceError, ''event references cannot cross subject boundaries'')) (\<lambda>_.
     ensure (er_target_event_id r \<in> (\<lambda>u. ev_event_id (su_event u)) ` set history)
       (EventReferenceError, ''referenced event does not exist: '' @ er_target_event_id r))) (ev_references event)"

fun non_mutating :: "event_classification \<Rightarrow> bool" where
  "non_mutating Cls_FACT = True"
| "non_mutating Cls_OBSERVATION = True"
| "non_mutating Cls_INTENTION = True"
| "non_mutating Cls_CORRECTION = True"
| "non_mutating Cls_REVOCATION = True"
| "non_mutating _ = False"

definition admit_event ::
  "string \<Rightarrow> subject_state \<Rightarrow> state_update list \<Rightarrow> event \<Rightarrow> int option \<Rightarrow> instant \<Rightarrow> unit res" where
  "admit_event subject_id state history event expected_revision applied =
     rbind (ensure (\<not> (ev_time_basis event = Basis_EXPLICIT \<and> applied < ev_recorded_at event))
       (evolution_err ''an explicit recorded_at cannot be later than the authoritative applied_at'')) (\<lambda>_.
     rbind (check_references subject_id history event) (\<lambda>_.
     rbind (ensure (\<not> (non_mutating (ev_classification event) \<and> ev_mutations event \<noteq> []))
       (EventReferenceError, ''fact, observation, intention, correction, and revocation events cannot ''
         @ ''mutate current SubjectState; append the history without mutations and ''
         @ ''use an Action-Gate-approved state_change event'')) (\<lambda>_.
     ensure (\<forall>n. expected_revision = Some n \<longrightarrow> ss_revision state = n)
       (evolution_err (''stale SubjectState revision: expected '' @
         (case expected_revision of None \<Rightarrow> [] | Some n \<Rightarrow> show_int n) @ '', found '' @ show_int (ss_revision state))))))"

text \<open>
  \<open>_apply_event\<close>. \<open>auth\<close> is the lifecycle authorization, a call on the loaded state; without one
  the subject must be active and the event may not touch the lifecycle.
\<close>

definition authorize_event ::
  "subject_ports \<Rightarrow> string \<Rightarrow> event \<Rightarrow> (subject_state \<Rightarrow> unit subject_prog) option \<Rightarrow> subject_state \<Rightarrow> unit subject_prog" where
  "authorize_event pp subject_id event auth state = (case auth of
       Some check \<Rightarrow> check state
     | None \<Rightarrow> if lifecycle_mutations event \<noteq> []
         then slift (Inl (LifecycleError, ''SUBJECT_MANAGEMENT_AUTHORIZATION_REQUIRED''))
         else sbind (require_active pp 2 subject_id None) (\<lambda>_. sret ()))"

definition persisted_result ::
  "subject_ports \<Rightarrow> string \<Rightarrow> event \<Rightarrow> evolution_result \<Rightarrow> evolution_result subject_prog" where
  "persisted_result pp subject_id event result =
     sbind (at_store pp 4 (sv_history pp subject_id)) (\<lambda>records.
     case find_event (ev_event_id event) records of
       None \<Rightarrow> slift (Inl (OtherError, ''StopIteration''))
     | Some persisted \<Rightarrow>
         if su_update_id persisted \<noteq> su_update_id (er_update result)
         then sbind (at_store pp 5 (sv_load pp subject_id)) (\<lambda>state. sret (replayed state persisted))
         else sret result)"

definition apply_event_with ::
  "subject_ports \<Rightarrow> string \<Rightarrow> event \<Rightarrow> int option \<Rightarrow> (subject_state \<Rightarrow> unit subject_prog) option
     \<Rightarrow> evolution_result subject_prog" where
  "apply_event_with pp subject_id event expected_revision auth =
     sbind (at_store pp 0 (sv_load pp subject_id)) (\<lambda>state.
     sbind (at_store pp 1 (sv_history pp subject_id)) (\<lambda>history.
     case find_event (ev_event_id event) history of
       Some existing \<Rightarrow>
         sbind (slift (ensure (py_eq (canonical_dict (su_event existing)) (canonical_dict event))
           (EventIdentityConflictError, ''event identity conflicts with immutable history: '' @ ev_event_id event))) (\<lambda>_.
         sret (replayed state existing))
     | None \<Rightarrow>
         sbind (authorize_event pp subject_id event auth state) (\<lambda>_.
         sbind (slift (require_aware (evolution_err ''applied_at must include a timezone'') (sv_clock pp))) (\<lambda>applied.
         sbind (slift (admit_event subject_id state history event expected_revision applied)) (\<lambda>_.
         sbind (slift (evolve (sv_uuid pp) state event (utc_val applied))) (\<lambda>result.
         sbind (at_store pp 3 (sv_transition pp (er_state result) (er_update result))) (\<lambda>_.
         persisted_result pp subject_id event result)))))))"

definition apply_event ::
  "subject_ports \<Rightarrow> string \<Rightarrow> event \<Rightarrow> int option \<Rightarrow> evolution_result subject_prog" where
  "apply_event pp subject_id event expected_revision = apply_event_with pp subject_id event expected_revision None"

definition get_update_history :: "subject_ports \<Rightarrow> string \<Rightarrow> state_update list subject_prog" where
  "get_update_history pp subject_id = sv_history pp subject_id"

definition interaction_event :: "string \<Rightarrow> pyval \<Rightarrow> event res" where
  "interaction_event uuid now = event_create None uuid
     \<lparr>ea_event_id = PNone, ea_occurred_at = now, ea_source = PStr ''continuity_engine.service'',
      ea_event_type = PStr ''interaction'', ea_content = PStr ''An interaction with the subject was recorded.'',
      ea_impact_scope = [PStr (section_value Sec_TEMPORAL)], ea_mutations = [],
      ea_reason = PStr ''Keep the subject's temporal continuity current.'', ea_metadata = [],
      ea_observed_at = PNone, ea_recorded_at = PNone, ea_time_basis = PNone,
      ea_classification = PStr (classification_value Cls_LEGACY),
      ea_source_kind = PStr (source_kind_value Src_LEGACY), ea_source_event_id = PNone,
      ea_correlation_id = PNone, ea_evidence = [], ea_references = []\<rparr>"

text \<open>\<open>interaction_time\<close> is the first clock reading of the call, \<open>event_uuid\<close> its first uuid.\<close>

definition record_interaction ::
  "subject_ports \<Rightarrow> string \<Rightarrow> pyval \<Rightarrow> string \<Rightarrow> subject_state subject_prog" where
  "record_interaction pp subject_id interaction_time event_uuid =
     sbind (slift (interaction_event event_uuid interaction_time)) (\<lambda>event.
     sbind (apply_event pp subject_id event None) (\<lambda>result. sret (er_state result)))"

end
