(* ===== verification/Lifecycle_Service.thy ===== *)
theory Lifecycle_Service
  imports Subject_Service
begin

text \<open>
  services/subject_lifecycle_service.py: \<open>submit\<close> carries out a lifecycle command through the
  ordinary evolution of the subject's state. The authority that identifies and authorizes the
  caller and the action gate are other services: \<open>lv_identify\<close>, \<open>lv_authorize k\<close> and \<open>lv_gate k\<close>
  are their answers (at the \<open>k\<close>-th authorization of the call), \<open>lv_gate\<close> giving the rejection
  reason if there is one; \<open>lv_clock k\<close> are the service's clock readings. The TEST import of an
  observation, which reads the timeline, is not modelled.
\<close>

record lifecycle_ports =
  lv_environment :: string
  lv_policy :: lifecycle_policy
  lv_identify :: "lifecycle_command \<Rightarrow> string res"
  lv_authorize :: "nat \<Rightarrow> lifecycle_command \<Rightarrow> instant \<Rightarrow> string res"
  lv_gate :: "nat \<Rightarrow> string \<Rightarrow> lifecycle_command \<Rightarrow> instant \<Rightarrow> string option res"
  lv_clock :: "nat \<Rightarrow> instant"

abbreviation lifecycle_err :: "string \<Rightarrow> exn" where
  "lifecycle_err m \<equiv> (LifecycleError, m)"

section \<open>Authorization\<close>

text \<open>\<open>(now - then).total_seconds()\<close>.\<close>

definition elapsed_seconds :: "instant \<Rightarrow> instant \<Rightarrow> rat" where
  "elapsed_seconds now before = fl (of_int (usec now - usec before) / 1000000)"

definition bound_value :: "pyval \<Rightarrow> subject_lifecycle option res" where
  "bound_value v = (if v = PNone then Inr None
     else rbind (subject_lifecycle_from_dict v) (\<lambda>l. Inr (Some l)))"

definition deletion_allowed :: "lifecycle_ports \<Rightarrow> subject_lifecycle option \<Rightarrow> instant \<Rightarrow> unit res" where
  "deletion_allowed lv l now =
     (case lp_delete_retention_seconds (lv_policy lv) of
       None \<Rightarrow> Inl (lifecycle_err ''SUBJECT_DELETE_POLICY_NOT_READY'')
     | Some retention \<Rightarrow>
         rbind (ensure (lv_environment lv = ''TEST'' \<and> lp_allow_test_logical_delete (lv_policy lv))
           (lifecycle_err ''SUBJECT_DELETE_POLICY_NOT_READY'')) (\<lambda>_.
         ensure (case l of None \<Rightarrow> False
             | Some l \<Rightarrow> \<not> elapsed_seconds now (sl_changed_at l) < of_int retention)
           (lifecycle_err ''SUBJECT_DELETE_RETENTION_NOT_ELAPSED'')))"

definition authorize_command ::
  "lifecycle_ports \<Rightarrow> nat \<Rightarrow> instant \<Rightarrow> lifecycle_command \<Rightarrow> string \<Rightarrow> string \<Rightarrow> subject_state \<Rightarrow> unit res" where
  "authorize_command lv k now command event_id actor current =
     rbind (ensure (\<not> (now < lc_requested_at command \<or> ss_revision current \<noteq> lc_expected_revision command))
       (lifecycle_err ''SUBJECT_COMMAND_STALE_OR_FUTURE'')) (\<lambda>_.
     rbind (ensure (tmp_updated_at (ss_temporal current) \<le> now) (lifecycle_err ''SUBJECT_CLOCK_REGRESSION'')) (\<lambda>_.
     rbind (lv_authorize lv k command now) (\<lambda>verified.
     rbind (ensure (verified = actor) (lifecycle_err ''SUBJECT_PRINCIPAL_CHANGED'')) (\<lambda>_.
     rbind (bound_value (lifecycle_of current)) (\<lambda>bound.
     rbind (ensure (\<forall>l. bound = Some l \<longrightarrow> sl_environment l = lv_environment lv \<and>
         (lc_initiator command = ''OWNER'' \<longrightarrow> sl_owner_principal_id l = actor))
       (lifecycle_err ''SUBJECT_OWNER_OR_ENVIRONMENT_MISMATCH'')) (\<lambda>_.
     rbind (ensure (lc_initiator command = ''SUBJECT'' \<longrightarrow> actor = lc_subject_id command \<and>
         (\<forall>l. bound = Some l \<longrightarrow> sl_status l = ''ACTIVE''))
       (lifecycle_err ''SUBJECT_INTENT_NOT_AUTHORIZED'')) (\<lambda>_.
     rbind (ensure (lc_operation command = ''ARCHIVE'' \<longrightarrow> lp_archive_configured (lv_policy lv))
       (lifecycle_err ''SUBJECT_ARCHIVE_POLICY_NOT_READY'')) (\<lambda>_.
     rbind (if lc_operation command = ''DELETE'' then deletion_allowed lv bound now else Inr ()) (\<lambda>_.
     rbind (lv_gate lv k event_id command now) (\<lambda>rejection.
     ensure (rejection = None) (lifecycle_err (''SUBJECT_ACTION_GATE_DENIED:'' @
       (case rejection of None \<Rightarrow> [] | Some m \<Rightarrow> m)))))))))))))"

section \<open>The command's event\<close>

definition command_metadata :: "lifecycle_ports \<Rightarrow> lifecycle_command \<Rightarrow> string \<Rightarrow> (string \<times> pyval) list" where
  "command_metadata lv command actor =
     [(''command'', lifecycle_command_to_dict command), (''principal_id'', PStr actor),
      (''environment'', PStr (lv_environment lv))]"

definition command_target :: "lifecycle_command \<Rightarrow> subject_state \<Rightarrow> string res" where
  "command_target command state =
     (if lc_operation command = ''CREATE'' then Inr ''CREATE''
      else if lc_initiator command = ''SUBJECT'' then lifecycle_status (lifecycle_of state)
      else rbind (lifecycle_status (lifecycle_of state)) (\<lambda>status.
        lifecycle_transition status (lc_operation command)))"

text \<open>The new lifecycle value: the owner of an existing one is kept.\<close>

definition command_value ::
  "lifecycle_ports \<Rightarrow> lifecycle_command \<Rightarrow> string \<Rightarrow> string \<Rightarrow> subject_state \<Rightarrow> pyval res" where
  "command_value lv command actor target state =
     rbind (subject_lifecycle_init (PStr (lc_subject_id command)) (PStr (lv_environment lv)) (PStr actor)
       (PStr target) (utc_val (lv_clock lv 2)) (PStr (lc_reason command))
       (PStr ''p15-subject-lifecycle-v1'')) (\<lambda>l.
     case (subject_lifecycle_to_dict l, lifecycle_of state) of
       (PDict d, PDict old) \<Rightarrow> rbind (item_of old ''owner_principal_id'') (\<lambda>owner.
         Inr (PDict (dict_set d ''owner_principal_id'' owner)))
     | (v, _) \<Rightarrow> Inr v)"

definition command_event ::
  "lifecycle_ports \<Rightarrow> lifecycle_command \<Rightarrow> string \<Rightarrow> string \<Rightarrow> pyval \<Rightarrow> event res" where
  "command_event lv command event_id actor v =
     (let intent = (lc_initiator command = ''SUBJECT'') in
     rbind (if intent then Inr [] else
       rbind (state_mutation_init (PStr lifecycle_path) (PStr (operation_value Op_SET)) v
         (PStr (lc_reason command))) (\<lambda>m. Inr [m])) (\<lambda>mutations.
     event_create (Some event_id) []
       \<lparr>ea_event_id = PNone, ea_occurred_at = utc_val (lc_requested_at command),
        ea_source = PStr ''subject_lifecycle_service'', ea_event_type = PStr ''subject_lifecycle'',
        ea_content = PStr (lc_operation command),
        ea_impact_scope = [PStr (section_value Sec_TEMPORAL)], ea_mutations = mutations,
        ea_reason = PStr (lc_reason command), ea_metadata = command_metadata lv command actor,
        ea_observed_at = PNone, ea_recorded_at = PNone, ea_time_basis = PNone,
        ea_classification = PStr (classification_value (if intent then Cls_INTENTION else Cls_STATE_CHANGE)),
        ea_source_kind = PStr (source_kind_value Src_INTERNAL), ea_source_event_id = PNone,
        ea_correlation_id = PNone, ea_evidence = [], ea_references = []\<rparr>))"

section \<open>Submission\<close>

definition sv_initial :: "subject_ports \<Rightarrow> subject_state \<Rightarrow> state_update \<Rightarrow> unit subject_prog" where
  "sv_initial pp state update =
     swrite (save_initial_transition (sv_canon pp) (sv_sha pp) (sv_disk pp) state update)"

definition same_command :: "lifecycle_ports \<Rightarrow> lifecycle_command \<Rightarrow> string \<Rightarrow> state_update \<Rightarrow> bool" where
  "same_command lv command actor existing \<longleftrightarrow>
     py_eq (PDict (ev_metadata (su_event existing))) (PDict (command_metadata lv command actor)) \<and>
     su_subject_id existing = lc_subject_id command \<and>
     ev_event_type (su_event existing) = ''subject_lifecycle''"

definition submit_fresh ::
  "lifecycle_ports \<Rightarrow> subject_ports \<Rightarrow> lifecycle_command \<Rightarrow> string \<Rightarrow> string \<Rightarrow> bool \<Rightarrow> state_update subject_prog" where
  "submit_fresh lv pp command event_id actor there =
     sbind (if there then at_store pp 8 (sv_load pp (lc_subject_id command))
       else slift (subject_create (lc_subject_id command) (utc_val (lv_clock lv 0)))) (\<lambda>state.
     sbind (slift (authorize_command lv 0 (lv_clock lv 1) command event_id actor state)) (\<lambda>_.
     sbind (slift (command_target command state)) (\<lambda>target.
     sbind (slift (command_value lv command actor target state)) (\<lambda>v.
     sbind (slift (command_event lv command event_id actor v)) (\<lambda>event.
     if there then
       sbind (apply_event_with pp (lc_subject_id command) event (Some (lc_expected_revision command))
         (Some (\<lambda>current. slift (authorize_command lv 1 (lv_clock lv 3) command event_id actor current)))) (\<lambda>result.
       sret (er_update result))
     else
       sbind (slift (authorize_command lv 1 (lv_clock lv 3) command event_id actor state)) (\<lambda>_.
       sbind (slift (evolve (sv_uuid pp) state event (utc_val (lv_clock lv 4)))) (\<lambda>result.
       sbind (at_store pp 9 (sv_initial pp (er_state result) (er_update result))) (\<lambda>_.
       sret (er_update result)))))))))"

definition submit ::
  "lifecycle_ports \<Rightarrow> subject_ports \<Rightarrow> lifecycle_command \<Rightarrow> state_update subject_prog" where
  "submit lv pp raw =
     sbind (slift (lifecycle_command_from_dict (lifecycle_command_to_dict raw))) (\<lambda>command.
     sbind (slift (ensure (lc_environment command = lv_environment lv)
       (lifecycle_err ''SUBJECT_ENVIRONMENT_MISMATCH''))) (\<lambda>_.
     sbind (slift (lv_identify lv command)) (\<lambda>actor.
     sbind (slift (lifecycle_event_id (sv_canon pp) (sv_sha pp) (lc_subject_id command) (lc_command_id command))) (\<lambda>event_id.
     sbind (at_store pp 6 (sv_exists pp (lc_subject_id command))) (\<lambda>there.
     sbind (if there then at_store pp 7 (sv_history pp (lc_subject_id command)) else sret []) (\<lambda>history.
     case find_event event_id history of
       Some existing \<Rightarrow>
         sbind (slift (ensure (same_command lv command actor existing)
           (lifecycle_err ''SUBJECT_COMMAND_IDENTITY_CONFLICT''))) (\<lambda>_. sret existing)
     | None \<Rightarrow>
         sbind (slift (ensure (\<not> (lc_operation command = ''CREATE'' \<and> there))
           (lifecycle_err ''SUBJECT_IDENTITY_ALREADY_EXISTS''))) (\<lambda>_.
         sbind (slift (ensure (\<not> (lc_operation command \<noteq> ''CREATE'' \<and> \<not> there))
           (lifecycle_err ''SUBJECT_IDENTITY_MISSING''))) (\<lambda>_.
         submit_fresh lv pp command event_id actor there))))))))"

end
