(* ===== verification/Subject_Runs.thy ===== *)
theory Subject_Runs
  imports Lifecycle_Service
begin

text \<open>
  What every access to a subject's file guarantees to all others, and with it what holds of the
  files after any run of the services: histories only grow, and the current state is what the
  recorded changes make of the state before them. A guarantee is a relation on the content of a
  file; the locales say which laws of it the direct saves and which the recorded events need, and
  the relation is chosen by interpretation: \<open>extends\<close> for any calls, \<open>follows\<close> for what the others
  may do if files without a history are to be replays as well.
\<close>

section \<open>Replaying a history\<close>

text \<open>
  States whose documents are equal for Python (where \<open>1 == 1.0 == True\<close>): a direct save may put one
  in the place of the other below an existing history.
\<close>

definition one_document :: "subject_state \<Rightarrow> subject_state \<Rightarrow> bool" where
  "one_document s t \<longleftrightarrow> wf_subject s \<and> wf_subject t \<and>
     (py_eq (subject_document s) (subject_document t) \<or> py_eq (subject_document t) (subject_document s))"

abbreviation equal_states :: "subject_state \<Rightarrow> subject_state \<Rightarrow> bool" where
  "equal_states \<equiv> one_document\<^sup>*\<^sup>*"

lemma equal_states_sym: "equal_states s t \<Longrightarrow> equal_states t s"
  by (rule sympD [OF symp_rtranclp]) (auto simp: one_document_def intro!: sympI)

lemma document_revision:
  assumes "wf_subject s"
  shows "\<exists>d. subject_document s = PDict d \<and> map_of d ''revision'' = Some (PInt (ss_revision s))"
  using subject_to_dict_normal [OF subject_to_dict_run [OF assms]]
  by (elim conjE exE) (simp add: subject_fields_doc_def)

lemma py_eq_entry:
  assumes "py_eq (PDict d) (PDict e)" "map_of d k = Some v" "map_of e k = Some w"
  shows "py_eq v w"
  using assms by (force simp: list_all_iff dest: map_of_SomeD)

lemma equal_states_revision: "equal_states s t \<Longrightarrow> ss_revision s = ss_revision t"
proof (induction rule: rtranclp_induct)
  case (step t u)
  then obtain d e where d: "subject_document t = PDict d" "map_of d ''revision'' = Some (PInt (ss_revision t))"
    and e: "subject_document u = PDict e" "map_of e ''revision'' = Some (PInt (ss_revision u))"
    using document_revision by (metis one_document_def)
  have "py_eq (PDict d) (PDict e) \<or> py_eq (PDict e) (PDict d)"
    using step.hyps(2) d(1) e(1) by (simp add: one_document_def)
  then have "ss_revision t = ss_revision u"
    using py_eq_entry [OF _ d(2) e(2)] py_eq_entry [OF _ e(2) d(2)] by (elim disjE) fastforce+
  with step.IH show ?case by simp
qed simp

text \<open>
  The recorded updates \<open>us\<close>, redone one after the other from \<open>s\<close>, lead to \<open>t\<close>: each update with
  changes is a sound step of the evolver on the state before it, and the others raise no revision.
\<close>

fun evolves :: "subject_state \<Rightarrow> state_update list \<Rightarrow> subject_state \<Rightarrow> bool" where
  "evolves s [] t = equal_states s t"
| "evolves s (u # us) t = (if su_changes u = [] then su_after_revision u = su_before_revision u \<and> evolves s us t
     else (\<exists>r s'. wf_subject r \<and> equal_states s (normal_state r) \<and>
       evolution_step (normal_state r) (su_event u) (su_applied_at u) s' u \<and> evolves (normal_state s') us t))"

abbreviation unchanged :: "state_update list \<Rightarrow> bool" where
  "unchanged us \<equiv> \<forall>u \<in> set us. su_changes u = [] \<and> su_after_revision u = su_before_revision u"

lemma evolves_from: "equal_states q s \<Longrightarrow> evolves s us t \<Longrightarrow> evolves q us t"
proof (induction us arbitrary: q s)
  case (Cons u us)
  show ?case
  proof (cases "su_changes u = []")
    case True
    with Cons.prems Cons.IH [of q s] show ?thesis by simp
  next
    case False
    with Cons.prems obtain r s' where "wf_subject r" "equal_states s (normal_state r)"
      "evolution_step (normal_state r) (su_event u) (su_applied_at u) s' u" "evolves (normal_state s') us t"
      by auto
    with False rtranclp_trans [OF Cons.prems(1)] show ?thesis by auto
  qed
qed (auto intro: rtranclp_trans)

lemma evolves_append:
  assumes "evolves s us r" "evolves r vs t"
  shows "evolves s (us @ vs) t"
  using assms by (induction us arbitrary: s) (auto intro: evolves_from split: if_splits)

lemma evolves_skip:
  assumes "evolves s us r" "unchanged us" "evolves q vs t"
  shows "evolves q (us @ vs) t"
  using assms by (induction us arbitrary: s) auto

lemma evolution_step_revision:
  "evolution_step s e t s' u \<Longrightarrow> ss_revision s' = ss_revision s + (if su_changes u = [] then 0 else 1)"
  by (auto simp: evolution_step_def)

lemma evolves_revision: "evolves s us t \<Longrightarrow> ss_revision s \<le> ss_revision t"
proof (induction us arbitrary: s)
  case Nil
  then show ?case by (simp add: equal_states_revision)
next
  case (Cons u us)
  show ?case
  proof (cases "su_changes u = []")
    case True
    with Cons show ?thesis by simp
  next
    case False
    with Cons obtain r s' where "equal_states s (normal_state r)"
      "evolution_step (normal_state r) (su_event u) (su_applied_at u) s' u" "ss_revision s' \<le> ss_revision t"
      by fastforce
    with evolution_step_revision [OF this(2)] equal_states_revision [OF this(1)] show ?thesis
      by (simp split: if_splits)
  qed
qed

text \<open>Updates that do not raise the revision have changed nothing.\<close>

lemma evolves_stationary:
  "evolves s us t \<Longrightarrow> ss_revision t = ss_revision s \<Longrightarrow> unchanged us \<and> equal_states s t"
proof (induction us arbitrary: s)
  case (Cons u us)
  show ?case
  proof (cases "su_changes u = []")
    case True
    with Cons.prems Cons.IH [of s] show ?thesis by simp
  next
    case False
    with Cons.prems obtain r s' where r: "equal_states s (normal_state r)"
      "evolution_step (normal_state r) (su_event u) (su_applied_at u) s' u" and us: "evolves (normal_state s') us t"
      by auto
    from evolves_revision [OF us] evolution_step_revision [OF r(2)] equal_states_revision [OF r(1)] Cons.prems(2)
    show ?thesis using False by simp
  qed
qed simp

lemma evolves_one:
  assumes "wf_subject held" "equal_states q (normal_state held)"
    and step: "evolution_step (normal_state held) (su_event u) (su_applied_at u) s u"
  shows "evolves q [u] (normal_state s)"
proof (cases "su_changes u = []")
  case True
  with step have "s = normal_state held"
    by (cases "normal_state held") (auto simp: evolution_step_def)
  with assms True show ?thesis by (auto simp: evolution_step_def)
next
  case False
  with assms show ?thesis by (simp del: normal_state_idem) (intro exI [of _ held] conjI exI [of _ s]; simp)
qed

lemma same_document_one:
  assumes "same_document s t = Inr True" "wf_subject s" "wf_subject t"
  shows "one_document s t"
  using assms by (simp add: same_document_def subject_to_dict_run one_document_def)

lemma normal_equal:
  assumes "one_document s t"
  shows "equal_states (normal_state s) (normal_state t)"
  using assms by (auto simp: one_document_def subject_roundtrip)

section \<open>The records that the evolver makes\<close>

abbreviation shaped_change :: "field_change \<Rightarrow> bool" where
  "shaped_change c \<equiv> \<not> blank (fc_field_path c) \<and> \<not> blank (fc_reason c)"

lemma stamp_texts:
  "\<not> blank ''temporal.last_interaction_at''" "\<not> blank ''The event represents a newer interaction.''"
  "\<not> blank ''temporal.updated_at''" "\<not> blank ''SubjectState changed while applying the event.''"
  by code_simp+

lemma evolve_mutations_shaped:
  "evolve_mutations scope ms (s, cs) = Inr (s', cs') \<Longrightarrow> list_all wf_mutation ms \<Longrightarrow>
    list_all shaped_change cs \<Longrightarrow> list_all shaped_change cs'"
proof (induction ms arbitrary: s cs)
  case (Cons m ms)
  then obtain s1 cs1 where m: "evolve_mutation scope m (s, cs) = Inr (s1, cs1)"
    and ms: "evolve_mutations scope ms (s1, cs1) = Inr (s', cs')" by (auto simp: rbind_eq_Inr)
  have "list_all shaped_change cs1"
    using m Cons.prems(2,3)
    by (auto simp: evolve_mutation_def rbind_eq_Inr Let_def wf_mutation_def split: option.splits if_splits)
  with Cons.IH [OF ms] Cons.prems(2) show ?case by simp
qed simp

lemma evolve_interaction_shaped:
  "evolve_interaction e (s, cs) = Inr (s', cs') \<Longrightarrow> list_all shaped_change cs \<Longrightarrow> list_all shaped_change cs'"
  by (auto simp: evolve_interaction_def rbind_eq_Inr Let_def stamp_texts split: if_splits)

lemma evolve_stamp_shaped:
  "evolve_stamp t (s, cs) = (s', cs') \<Longrightarrow> list_all shaped_change cs \<Longrightarrow> list_all shaped_change cs'"
  by (auto simp: evolve_stamp_def Let_def stamp_texts split: if_splits)

lemma evolve_shape:
  assumes "wf_subject s" "wf_event e" "evolve uuid s e at_val = Inr r"
  shows "wf_update_shape (er_update r)"
proof -
  obtain t a1 a2 s3 cs3 where
    a: "evolve_mutations (ev_impact_scope e) (ev_mutations e) (normal_state s, []) = Inr a1"
      "evolve_interaction e a1 = Inr a2" "evolve_stamp t a2 = (s3, cs3)"
    and u: "state_update_init (PStr uuid) (PStr (ss_subject_id s)) e (utc_val t)
      (ss_revision s) (ss_revision s3) cs3 (PStr (ev_reason e)) = Inr (er_update r)"
  proof -
    have n: "rbind (subject_to_dict s) subject_from_dict = Inr (normal_state s)"
      using subject_to_dict_run [OF assms(1)] subject_roundtrip(1) [OF assms(1)] by simp
    from assms(3) obtain t a1 a2 where
      a: "evolve_mutations (ev_impact_scope e) (ev_mutations e) (normal_state s, []) = Inr a1"
        "evolve_interaction e a1 = Inr a2"
      and r: "(case evolve_stamp t a2 of (s3, cs3) \<Rightarrow>
        rbind (state_update_init (PStr uuid) (PStr (ss_subject_id s)) e (utc_val t)
          (ss_revision s) (ss_revision s3) cs3 (PStr (ev_reason e))) (\<lambda>u.
        Inr \<lparr>er_state = s3, er_update = u, er_idempotent_replay = False\<rparr>)) = Inr r"
      unfolding evolve_def n Let_def by (elim rbindE) simp
    obtain s3 cs3 where 3: "evolve_stamp t a2 = (s3, cs3)" by fastforce
    with r have "state_update_init (PStr uuid) (PStr (ss_subject_id s)) e (utc_val t)
          (ss_revision s) (ss_revision s3) cs3 (PStr (ev_reason e)) = Inr (er_update r)"
      by (auto simp: rbind_eq_Inr)
    with a 3 that show thesis by blast
  qed
  obtain s1 cs1 s2 cs2 where p: "a1 = (s1, cs1)" "a2 = (s2, cs2)" by fastforce
  have "list_all wf_mutation (ev_mutations e)" using assms(2) by (simp add: wf_event_def)
  then have "list_all shaped_change cs3"
    using a(3) evolve_mutations_shaped [OF a(1) [unfolded p]] evolve_interaction_shaped [OF a(2) [unfolded p]]
    by (simp add: p evolve_stamp_shaped)
  moreover have "0 \<le> ss_revision s" using assms(1) by (simp add: wf_subject_def)
  moreover obtain q where q: "er_update r = q" by simp
  ultimately show ?thesis
    using u assms(2) unfolding q
    by (auto simp: wf_update_shape_def state_update_init_def rbind_eq_Inr event_text_Inr)
qed

section \<open>What the operations write\<close>

lemma mark_updated_revision: "mark_updated now s = Inr t \<Longrightarrow> ss_revision t = ss_revision s"
  by (auto simp: mark_updated_def rbind_eq_Inr)

lemma create_revision: "subject_create i now = Inr s \<Longrightarrow> ss_revision s = 0"
  by (auto simp: subject_create_def subject_state_init_def rbind_eq_Inr)

lemma interaction_event_wf: "interaction_event uuid now = Inr e \<Longrightarrow> wf_event e"
  unfolding interaction_event_def by (erule event_create_wf) simp_all

lemma command_event_wf:
  assumes "command_event lv command event_id actor v = Inr e"
  shows "wf_event e"
proof -
  from assms obtain ms args where "event_create (Some event_id) [] args = Inr e" "ea_mutations args = ms"
    "ea_evidence args = []" "ea_references args = []" "list_all wf_mutation ms"
    unfolding command_event_def Let_def
    by (elim rbindE) (auto split: if_splits elim!: rbindE dest: state_mutation_init_wf)
  then show ?thesis using event_create_wf [of "Some event_id" "[]" args e] by simp
qed

text \<open>A load says what the file held.\<close>

lemma at_load_Inr:
  assumes "at_store pp k (sv_load pp i) st = (st0, Inr s)"
  shows "\<exists>us. content (sv_canon pp) (sv_sha pp) st0 (sv_sha pp i) = Some (s, us) \<and> ss_subject_id s = i \<and> \<not> blank i"
  using assms
  by (auto simp: at_store_def sv_load_def sread_def sbind_eq_Inr prog_simps subject_load_def rbind_eq_Inr
      read_component_Inr)

lemma evolves_unchanged: "evolves s us t \<Longrightarrow> unchanged us \<Longrightarrow> ss_revision t = ss_revision s"
  by (induction us arbitrary: s) (simp_all add: equal_states_revision)

section \<open>Guarantees\<close>

type_synonym file_content = "(subject_state \<times> state_update list) option"
type_synonym guarantee = "file_content \<Rightarrow> file_content \<Rightarrow> bool"

definition advances :: "guarantee \<Rightarrow> canon_fun \<Rightarrow> digest_fun \<Rightarrow> subject_store \<Rightarrow> subject_store \<Rightarrow> bool" where
  "advances E canon sha st st' \<longleftrightarrow> (\<forall>p. E (content canon sha st p) (content canon sha st' p))"

text \<open>The others give the guarantee with all they do to the files while a call runs.\<close>

definition considerate :: "guarantee \<Rightarrow> subject_ports \<Rightarrow> bool" where
  "considerate E pp \<longleftrightarrow> (\<forall>k st. advances E (sv_canon pp) (sv_sha pp) st (sv_others pp k st))"

abbreviation safe_prog :: "guarantee \<Rightarrow> subject_ports \<Rightarrow> 'a subject_prog \<Rightarrow> bool" where
  "safe_prog E pp \<equiv> keeps (advances E (sv_canon pp) (sv_sha pp))"

lemma advances_mono: "advances E canon sha st st' \<Longrightarrow> (\<And>c d. E c d \<Longrightarrow> F c d) \<Longrightarrow> advances F canon sha st st'"
  by (simp add: advances_def)

lemma considerate_mono: "considerate E pp \<Longrightarrow> (\<And>c d. E c d \<Longrightarrow> F c d) \<Longrightarrow> considerate F pp"
  unfolding considerate_def using advances_mono by blast

lemma safe_mono: "safe_prog E pp m \<Longrightarrow> (\<And>c d. E c d \<Longrightarrow> F c d) \<Longrightarrow> safe_prog F pp m"
  unfolding keeps_def using advances_mono by blast

text \<open>Once a store \<open>st0\<close> has been read, every later one is an advance of it.\<close>

definition later :: "guarantee \<Rightarrow> subject_ports \<Rightarrow> subject_store \<Rightarrow> subject_store \<Rightarrow> subject_store \<Rightarrow> bool" where
  "later E pp st0 s t \<longleftrightarrow> (advances E (sv_canon pp) (sv_sha pp) st0 s \<longrightarrow> advances E (sv_canon pp) (sv_sha pp) st0 t)"

section \<open>The contracts\<close>

locale content_guarantee =
  fixes E :: guarantee
  assumes content_refl: "E c c" and content_trans: "E b c \<Longrightarrow> E c d \<Longrightarrow> E b d"
begin

lemma advances_refl: "advances E canon sha st st"
  by (simp add: advances_def content_refl)

lemma advances_trans:
  "advances E canon sha st st1 \<Longrightarrow> advances E canon sha st1 st2 \<Longrightarrow> advances E canon sha st st2"
  unfolding advances_def by (blast intro: content_trans)

sublocale sh: kept "advances E canon sha" for canon sha
  by unfold_locales (auto intro: advances_refl advances_trans)

lemma advances_at:
  assumes "\<exists>w. st' = st(p := File_Doc w)" "E (content canon sha st p) (content canon sha st' p)"
  shows "advances E canon sha st st'"
proof -
  have "content canon sha st' q = content canon sha st q" if "q \<noteq> p" for q
    using assms(1) that by (auto simp: content_def)
  then show ?thesis
    unfolding advances_def using assms(2) content_refl by metis
qed

lemma at_store_safe: "considerate E pp \<Longrightarrow> safe_prog E pp m \<Longrightarrow> safe_prog E pp (at_store pp k m)"
  unfolding at_store_def considerate_def by (intro sh.rules) auto

lemma reads_safe: "safe_prog E pp (sv_exists pp i)" "safe_prog E pp (sv_load pp i)" "safe_prog E pp (sv_history pp i)"
  by (simp_all add: sv_exists_def sv_load_def sv_history_def sh.pure)

lemma require_active_safe: "considerate E pp \<Longrightarrow> safe_prog E pp (require_active pp k i environment)"
  unfolding require_active_def by (intro sh.rules at_store_safe reads_safe)

lemma persisted_result_safe: "considerate E pp \<Longrightarrow> safe_prog E pp (persisted_result pp i e r)"
  unfolding persisted_result_def
  by (intro sh.rules at_store_safe reads_safe) (auto intro!: sh.rules at_store_safe reads_safe split: option.split)

lemma authorize_event_safe:
  assumes "considerate E pp" "\<And>check s. auth = Some check \<Longrightarrow> safe_prog E pp (check s)"
  shows "safe_prog E pp (authorize_event pp i e auth s)"
  using assms by (cases auth) (auto simp: authorize_event_def intro!: sh.rules require_active_safe)

end

text \<open>
  A direct save, of any state: it makes a new file, or replaces the state of a file without a
  history, or puts a state with an equal document above a history.
\<close>

locale direct_save_guarantee = content_guarantee +
  assumes save_new: "wf_subject s \<Longrightarrow> E None (Some (normal_state s, []))"
    and save_plain: "wf_subject s \<Longrightarrow> E (Some (t, [])) (Some (normal_state s, []))"
    and save_same: "one_document t s \<Longrightarrow> E (Some (t, us)) (Some (normal_state s, us))"
begin

lemma direct_save_advances:
  assumes "subject_save canon sha disk s st = Inr st'" "0 \<le> ss_revision s"
  shows "advances E canon sha st st'"
proof -
  let ?p = "sha (ss_subject_id s)"
  from subject_save_Inr [OF assms] obtain us where wf: "wf_subject s"
    and st': "\<exists>w. st' = st(?p := File_Doc w)"
    and c: "content canon sha st' ?p = Some (normal_state s, us)"
    and old: "case content canon sha st ?p of None \<Rightarrow> us = []
       | Some (c, vs) \<Rightarrow> us = vs \<and> (vs \<noteq> [] \<longrightarrow> same_document s c = Inr True)" by blast
  have "E (content canon sha st ?p) (content canon sha st' ?p)"
  proof (cases "content canon sha st ?p")
    case None
    with old c wf show ?thesis by (simp add: save_new)
  next
    case (Some x)
    obtain t vs where x: "x = (t, vs)" by force
    have t: "wf_subject t" using content_wf(1) Some x by blast
    show ?thesis
    proof (cases "vs = []")
      case True
      with Some x old c wf show ?thesis by (auto intro: save_plain)
    next
      case False
      with Some x old wf t have "one_document t s" using same_document_one by (fastforce simp: one_document_def)
      with Some x old c show ?thesis by (auto intro: save_same)
    qed
  qed
  with st' show ?thesis by (rule advances_at)
qed

lemma write_safe: "0 \<le> ss_revision s \<Longrightarrow> safe_prog E pp (sv_write pp s)"
  unfolding sv_write_def
  by (rule keepsI) (auto simp: swrite_def advances_refl intro: direct_save_advances split: sum.split)

lemma service_save_safe:
  assumes "considerate E pp" "0 \<le> ss_revision state"
  shows "safe_prog E pp (subject_service_save pp state)"
  unfolding subject_service_save_def
  by (intro sh.rules at_store_safe reads_safe require_active_safe assms(1) write_safe)
    (use assms(2) in \<open>auto simp: prog_simps dest: mark_updated_revision\<close>)

lemma service_create_safe: "considerate E pp \<Longrightarrow> safe_prog E pp (subject_service_create pp i)"
  unfolding subject_service_create_def
  by (intro sh.rules at_store_safe reads_safe write_safe) (auto simp: prog_simps dest: create_revision)

end

text \<open>
  A recorded event: the first update of a new file, or one more update, made from the state held
  when the call read the file; by the time of the write the file may have gone on, but its revision
  is the one that was read.
\<close>

locale event_guarantee = content_guarantee +
  assumes first_event: "wf_subject held \<Longrightarrow> wf_subject s \<Longrightarrow>
      evolution_step (normal_state held) (su_event u) (su_applied_at u) s u \<Longrightarrow> E None (Some (normal_state s, [u]))"
    and next_event: "wf_subject held \<Longrightarrow> wf_subject s \<Longrightarrow> E (Some (held, us0)) (Some (current, us)) \<Longrightarrow>
      ss_revision held = ss_revision current \<Longrightarrow>
      evolution_step (normal_state held) (su_event u) (su_applied_at u) s u \<Longrightarrow>
      E (Some (held, us0)) (Some (normal_state s, us @ [u]))"
begin

sublocale lt: kept "later E pp st0" for pp st0
  by unfold_locales (auto simp: later_def)

lemma safe_later: "safe_prog E pp m \<Longrightarrow> keeps (later E pp st0) m"
  using advances_trans by (auto simp: keeps_def later_def)

lemma at_store_later: "considerate E pp \<Longrightarrow> keeps (later E pp st0) m \<Longrightarrow> keeps (later E pp st0) (at_store pp k m)"
  unfolding at_store_def considerate_def later_def [abs_def]
  by (intro lt.rules [unfolded later_def [abs_def]]) (auto intro: advances_trans)

lemma transition_advances:
  assumes saved: "save_transition canon sha disk s u st = Inr st'" and shape: "wf_update_shape u"
    and held: "content canon sha st0 (sha (ss_subject_id s)) = Some (held, us0)"
    and between: "advances E canon sha st0 st"
    and step: "evolution_step (normal_state held) (su_event u) (su_applied_at u) s u"
  shows "advances E canon sha st0 st'"
proof -
  let ?p = "sha (ss_subject_id s)"
  obtain current us where c: "content canon sha st ?p = Some (current, us)"
    and cases: "st' = st \<or> transition_saved canon sha s u st st' current us"
    using save_transition_Inr [OF saved shape] by metis
  from cases show ?thesis
  proof
    assume t: "transition_saved canon sha s u st st' current us"
    then obtain w where st': "st' = st(?p := File_Doc w)" "content canon sha st' ?p = Some (normal_state s, us @ [u])"
      by (auto simp: transition_saved_def)
    have "ss_revision held = ss_revision current" using t step by (simp add: transition_saved_def evolution_step_def)
    moreover have "E (Some (held, us0)) (Some (current, us))" using between held c by (metis advances_def)
    ultimately have "E (content canon sha st0 ?p) (content canon sha st' ?p)"
      using next_event [OF content_wf(1) [OF held] _ _ _ step] t by (simp add: held st'(2) transition_saved_def)
    moreover have "content canon sha st' q = content canon sha st q" if "q \<noteq> ?p" for q
      using that by (simp add: st'(1) content_def)
    ultimately show ?thesis using between unfolding advances_def by metis
  qed (simp add: between)
qed

lemma initial_advances:
  assumes "save_initial_transition canon sha disk s u st = Inr st'" "wf_update_shape u" "wf_subject held"
    and step: "evolution_step (normal_state held) (su_event u) (su_applied_at u) s u"
    and "0 \<le> ss_revision held"
  shows "advances E canon sha st st'"
proof -
  let ?p = "sha (ss_subject_id s)"
  have "0 \<le> ss_revision s" using step assms(5) by (auto simp: evolution_step_def)
  from save_initial_Inr [OF assms(1,2) this] have i: "st ?p = File_Absent" "wf_subject s"
    "\<exists>w. st' = st(?p := File_Doc w)" "content canon sha st' ?p = Some (normal_state s, [u])" by auto
  have "E (content canon sha st ?p) (content canon sha st' ?p)"
    using first_event [OF assms(3) i(2) step] i by (simp add: content_def)
  with i(3) show ?thesis by (rule advances_at)
qed

lemma transition_later:
  assumes "evolve uuid held e at_val = Inr r" "wf_event e"
    and c: "content (sv_canon pp) (sv_sha pp) st0 (sv_sha pp (ss_subject_id held)) = Some (held, us)"
  shows "keeps (later E pp st0) (sv_transition pp (er_state r) (er_update r))"
proof (rule keepsI)
  fix st
  have wf: "wf_subject held" using content_wf(1) [OF c] .
  from evolve_sound [OF wf assms(1)] obtain t where
    t: "evolution_step (normal_state held) e t (er_state r) (er_update r)" by blast
  have "e = su_event (er_update r)" "t = su_applied_at (er_update r)"
    using t by (simp_all add: evolution_step_def)
  with t have step: "evolution_step (normal_state held) (su_event (er_update r)) (su_applied_at (er_update r))
    (er_state r) (er_update r)" by simp
  have i: "ss_subject_id (er_state r) = ss_subject_id held"
    using t leads_to_frame(1) by (fastforce simp: evolution_step_def)
  show "later E pp st0 st (fst (sv_transition pp (er_state r) (er_update r) st))"
    unfolding later_def sv_transition_def swrite_def
    using transition_advances [OF _ evolve_shape [OF wf assms(2,1)], of "sv_canon pp" "sv_sha pp" "sv_disk pp"
      "er_state r" st _ st0 held us] c i step
    by (auto split: sum.split)
qed

lemma apply_event_with_safe:
  assumes "considerate E pp" "wf_event e" "\<And>check s. auth = Some check \<Longrightarrow> safe_prog E pp (check s)"
  shows "safe_prog E pp (apply_event_with pp i e expected_revision auth)"
proof (rule keepsI)
  fix st
  obtain st0 x where run: "at_store pp 0 (sv_load pp i) st = (st0, x)" by fastforce
  have 0: "advances E (sv_canon pp) (sv_sha pp) st st0"
    using keeps_run [OF at_store_safe [OF assms(1) reads_safe(2)] run] .
  show "advances E (sv_canon pp) (sv_sha pp) st (fst (apply_event_with pp i e expected_revision auth st))"
  proof (cases x)
    case (Inl err)
    with run 0 show ?thesis by (simp add: apply_event_with_def sbind_run)
  next
    case (Inr held)
    with run obtain us where c: "content (sv_canon pp) (sv_sha pp) st0 (sv_sha pp i) = Some (held, us)"
      "ss_subject_id held = i" using at_load_Inr by blast
    let ?rest = "\<lambda>state. sbind (at_store pp 1 (sv_history pp i)) (\<lambda>history.
     case find_event (ev_event_id e) history of
       Some existing \<Rightarrow>
         sbind (slift (ensure (py_eq (canonical_dict (su_event existing)) (canonical_dict e))
           (EventIdentityConflictError, ''event identity conflicts with immutable history: '' @ ev_event_id e))) (\<lambda>_.
         sret (replayed state existing))
     | None \<Rightarrow>
         sbind (authorize_event pp i e auth state) (\<lambda>_.
         sbind (slift (require_aware (evolution_err ''applied_at must include a timezone'') (sv_clock pp))) (\<lambda>applied.
         sbind (slift (admit_event i state history e expected_revision applied)) (\<lambda>_.
         sbind (slift (evolve (sv_uuid pp) state e (utc_val applied))) (\<lambda>result.
         sbind (at_store pp 3 (sv_transition pp (er_state result) (er_update result))) (\<lambda>_.
         persisted_result pp i e result))))))"
    have "keeps (later E pp st0) (?rest held)"
    proof (rule lt.bind)
      fix history s s'
      show "keeps (later E pp st0) (case find_event (ev_event_id e) history of
       Some existing \<Rightarrow>
         sbind (slift (ensure (py_eq (canonical_dict (su_event existing)) (canonical_dict e))
           (EventIdentityConflictError, ''event identity conflicts with immutable history: '' @ ev_event_id e))) (\<lambda>_.
         sret (replayed held existing))
     | None \<Rightarrow>
         sbind (authorize_event pp i e auth held) (\<lambda>_.
         sbind (slift (require_aware (evolution_err ''applied_at must include a timezone'') (sv_clock pp))) (\<lambda>applied.
         sbind (slift (admit_event i held history e expected_revision applied)) (\<lambda>_.
         sbind (slift (evolve (sv_uuid pp) held e (utc_val applied))) (\<lambda>result.
         sbind (at_store pp 3 (sv_transition pp (er_state result) (er_update result))) (\<lambda>_.
         persisted_result pp i e result))))))"
      proof (cases "find_event (ev_event_id e) history")
        case (Some u)
        then show ?thesis by (simp add: lt.bind lt.pure)
      next
        case None
        have a: "keeps (later E pp st0) (authorize_event pp i e auth held)"
          by (intro safe_later authorize_event_safe assms(1)) (rule assms(3))
        have w: "keeps (later E pp st0) (sbind (at_store pp 3 (sv_transition pp (er_state r) (er_update r)))
          (\<lambda>_. persisted_result pp i e r))" if "evolve (sv_uuid pp) held e t = Inr r" for r t
          using at_store_later [OF assms(1) transition_later [OF that assms(2) c(1) [folded c(2)]]]
            safe_later [OF persisted_result_safe [OF assms(1)]] by (rule lt.bind)
        from None show ?thesis by (simp, intro lt.bind lt.pure a w) (auto simp: prog_simps)
      qed
    qed (intro safe_later at_store_safe assms(1) reads_safe)
    then have "advances E (sv_canon pp) (sv_sha pp) st0 (fst (?rest held st0))"
      by (simp add: keeps_def later_def advances_refl)
    moreover have "apply_event_with pp i e expected_revision auth st = ?rest held st0"
      unfolding apply_event_with_def using run Inr by (simp add: sbind_run)
    ultimately show ?thesis using 0 advances_trans by simp
  qed
qed

lemma apply_event_safe:
  "considerate E pp \<Longrightarrow> wf_event e \<Longrightarrow> safe_prog E pp (apply_event pp i e expected_revision)"
  unfolding apply_event_def by (rule apply_event_with_safe) auto

lemma record_interaction_safe: "considerate E pp \<Longrightarrow> safe_prog E pp (record_interaction pp i now uuid)"
  unfolding record_interaction_def
  by (intro sh.rules apply_event_safe) (auto simp: prog_simps dest: interaction_event_wf)

lemma initial_safe:
  assumes "subject_create i now = Inr s" "wf_event e" "evolve uuid s e at_val = Inr r"
  shows "safe_prog E pp (sv_initial pp (er_state r) (er_update r))"
proof (rule keepsI)
  fix st
  have rev: "ss_revision s = 0" using assms(1) by (rule create_revision)
  have "\<not> blank (ss_subject_id s)"
    using assms(1) by (auto simp: subject_create_def subject_state_init_def rbind_eq_Inr)
  then have wf: "wf_subject s"
    using assms(3) rev subject_to_dict_wf by (fastforce simp: evolve_def rbind_eq_Inr)
  from evolve_sound [OF wf assms(3)] obtain t where
    t: "evolution_step (normal_state s) e t (er_state r) (er_update r)" by blast
  then have "e = su_event (er_update r)" "t = su_applied_at (er_update r)" by (simp_all add: evolution_step_def)
  with t have step: "evolution_step (normal_state s) (su_event (er_update r)) (su_applied_at (er_update r))
    (er_state r) (er_update r)" by simp
  show "advances E (sv_canon pp) (sv_sha pp) st (fst (sv_initial pp (er_state r) (er_update r) st))"
    unfolding sv_initial_def swrite_def
    using initial_advances [OF _ evolve_shape [OF wf assms(2,3)] wf step] rev
    by (auto split: sum.split intro: advances_refl)
qed

lemma submit_fresh_safe:
  assumes "considerate E pp"
  shows "safe_prog E pp (submit_fresh lv pp command event_id actor there)"
proof (cases there)
  case True
  then show ?thesis
    unfolding submit_fresh_def
    by (simp, intro sh.rules at_store_safe reads_safe apply_event_with_safe assms)
      (auto simp: prog_simps sh.pure dest: command_event_wf)
next
  case False
  then show ?thesis
    unfolding submit_fresh_def
    by (simp, intro sh.rules at_store_safe assms) (auto simp: prog_simps dest: command_event_wf intro: initial_safe)
qed

lemma submit_safe:
  assumes "considerate E pp"
  shows "safe_prog E pp (submit lv pp raw)"
  unfolding submit_def
  by (intro sh.rules at_store_safe reads_safe assms)
    (auto intro!: sh.rules submit_fresh_safe assms split: option.split)

end

section \<open>Histories only grow\<close>

text \<open>
  From content \<open>x\<close> of a file to content \<open>y\<close>: updates are only appended, each with changes a sound
  step from the state held. Only as long as no update has changed anything can the state be
  replaced by another one, of the same revision.
\<close>

definition grows :: "subject_state \<times> state_update list \<Rightarrow> subject_state \<times> state_update list \<Rightarrow> bool" where
  "grows x y \<longleftrightarrow> (\<exists>vs. snd y = snd x @ vs \<and>
     (evolves (normal_state (fst x)) vs (normal_state (fst y)) \<or>
      unchanged (snd x) \<and> (\<exists>r. ss_revision r = ss_revision (fst x) \<and> evolves r vs (normal_state (fst y)))))"

lemma grows_refl: "grows x x"
  by (simp add: grows_def)

lemma growsE:
  assumes "grows x y"
  obtains vs q where "snd y = snd x @ vs" "evolves q vs (normal_state (fst y))" "ss_revision q = ss_revision (fst x)"
    "q = normal_state (fst x) \<or> unchanged (snd x)"
  using assms by (auto simp: grows_def)

lemma growsI:
  assumes "evolves q vs (normal_state (fst y))" "snd y = snd x @ vs" "q = normal_state (fst x) \<or> unchanged (snd x)"
    "ss_revision q = ss_revision (fst x)"
  shows "grows x y"
  using assms by (auto simp: grows_def)

lemma grows_trans:
  assumes "grows x y" "grows y z"
  shows "grows x z"
proof -
  obtain vs q where vs: "snd y = snd x @ vs" "evolves q vs (normal_state (fst y))" "ss_revision q = ss_revision (fst x)"
    "q = normal_state (fst x) \<or> unchanged (snd x)" using assms(1) by (rule growsE)
  obtain ws r where ws: "snd z = snd y @ ws" "evolves r ws (normal_state (fst z))" "ss_revision r = ss_revision (fst y)"
    "r = normal_state (fst y) \<or> unchanged (snd y)" using assms(2) by (rule growsE)
  show ?thesis
  proof (cases "r = normal_state (fst y)")
    case True
    with evolves_append [OF vs(2)] ws(2) have "evolves q (vs @ ws) (normal_state (fst z))" by simp
    then show ?thesis by (rule growsI) (use vs ws in auto)
  next
    case False
    with ws(4) vs(1) have u: "unchanged (snd x)" "unchanged vs" by auto
    have "evolves r (vs @ ws) (normal_state (fst z))" by (rule evolves_skip [OF vs(2) u(2) ws(2)])
    then show ?thesis
      by (rule growsI) (use vs(1,3) ws(1,3) u(1) evolves_unchanged [OF vs(2) u(2)] in auto)
  qed
qed

lemma grows_next:
  assumes "wf_subject held" "wf_subject s" "grows (held, us0) (current, us)" "ss_revision held = ss_revision current"
    and step: "evolution_step (normal_state held) (su_event u) (su_applied_at u) s u"
  shows "grows (held, us0) (normal_state s, us @ [u])"
proof -
  obtain vs q where vs: "us = us0 @ vs" "evolves q vs (normal_state current)" "ss_revision q = ss_revision held"
    "q = normal_state held \<or> unchanged us0"
    using assms(3) by (rule growsE) simp
  have quiet: "unchanged vs \<and> equal_states q (normal_state current)"
    using evolves_stationary [OF vs(2)] vs(3) assms(4) by simp
  have idem: "normal_state (normal_state s) = normal_state s" using assms(2) by simp
  have one: "evolves p [u] (normal_state s)" if "equal_states p (normal_state held)" for p
    using evolves_one [OF assms(1) that step] .
  show ?thesis
  proof (cases "q = normal_state held")
    case True
    with quiet have "equal_states (normal_state current) (normal_state held)" by (auto intro: equal_states_sym)
    with vs(2) one have "evolves q (vs @ [u]) (normal_state s)" by (blast intro: evolves_append)
    then show ?thesis by (intro growsI [of q "vs @ [u]"]) (use vs True idem in auto)
  next
    case False
    have "evolves (normal_state held) (vs @ [u]) (normal_state s)"
      using evolves_skip [OF vs(2) _ one [of "normal_state held"]] quiet by blast
    then show ?thesis by (intro growsI [of "normal_state held" "vs @ [u]"]) (use vs False idem in auto)
  qed
qed

lemma equal_document_evolves:
  "one_document t s \<Longrightarrow> evolves (normal_state t) [] (normal_state (normal_state s))"
  using normal_equal by (simp add: one_document_def)

text \<open>
  What every call guarantees: a readable file stays readable and its history is only continued; once
  there is one, the state goes on as it says.
\<close>

definition extends :: guarantee where
  "extends c d \<longleftrightarrow> (\<forall>x. c = Some x \<longrightarrow> (\<exists>y. d = Some y \<and> (snd x \<noteq> [] \<longrightarrow> grows x y)))"

interpretation ext: content_guarantee extends
proof
  show "extends c c" for c by (auto simp: extends_def grows_refl)
next
  fix b c d assume a: "extends b c" "extends c d"
  show "extends b d"
    unfolding extends_def
  proof (intro allI impI)
    fix x assume "b = Some x"
    with a(1) obtain y where y: "c = Some y" "snd x \<noteq> [] \<longrightarrow> grows x y" by (auto simp: extends_def)
    with a(2) obtain z where z: "d = Some z" "snd y \<noteq> [] \<longrightarrow> grows y z" by (auto simp: extends_def)
    have "snd y \<noteq> []" if "snd x \<noteq> []" using y(2) that by (auto elim: growsE)
    then have "snd x \<noteq> [] \<longrightarrow> grows x z" using y(2) z(2) grows_trans by blast
    with z(1) show "\<exists>z. d = Some z \<and> (snd x \<noteq> [] \<longrightarrow> grows x z)" by blast
  qed
qed

interpretation ext: direct_save_guarantee extends
  by unfold_locales (auto simp: extends_def grows_def dest: equal_document_evolves)

interpretation ext: event_guarantee extends
  by unfold_locales (auto simp: extends_def intro: grows_next)

section \<open>States are replays of their histories\<close>

definition begins :: "subject_state \<times> state_update list \<Rightarrow> bool" where
  "begins y \<longleftrightarrow> (\<exists>r. evolves r (snd y) (normal_state (fst y)))"

lemma begins_grows:
  assumes "begins x" "grows x y"
  shows "begins y"
proof -
  obtain p where p: "evolves p (snd x) (normal_state (fst x))" using assms(1) by (auto simp: begins_def)
  obtain vs q where vs: "snd y = snd x @ vs" "evolves q vs (normal_state (fst y))"
    "q = normal_state (fst x) \<or> unchanged (snd x)" using assms(2) by (rule growsE)
  then have "evolves p (snd y) (normal_state (fst y)) \<or> evolves q (snd y) (normal_state (fst y))"
    using evolves_append [OF p] evolves_skip [OF p] by auto
  then show ?thesis by (auto simp: begins_def)
qed

text \<open>
  What the events guarantee: they leave a file without a history at its revision until they count one
  up. A direct save need not, so it only keeps replays.
\<close>

definition follows :: guarantee where
  "follows c d \<longleftrightarrow> (case c of None \<Rightarrow> (\<forall>y. d = Some y \<longrightarrow> begins y) | Some x \<Rightarrow> (\<exists>y. d = Some y \<and> grows x y))"

definition keeps_replays :: guarantee where
  "keeps_replays c d \<longleftrightarrow> ((\<forall>x. c = Some x \<longrightarrow> begins x) \<longrightarrow> (\<forall>y. d = Some y \<longrightarrow> begins y))"

lemma follows_replays: "follows c d \<Longrightarrow> keeps_replays c d"
  by (auto simp: follows_def keeps_replays_def begins_grows split: option.splits)

lemma follows_extends: "follows c d \<Longrightarrow> extends c d"
  by (auto simp: follows_def extends_def)

interpretation fol: content_guarantee follows
proof
  show "follows c c" for c by (auto simp: follows_def grows_refl begins_def split: option.split)
next
  fix b c d assume "follows b c" "follows c d"
  then show "follows b d"
    by (auto simp: follows_def split: option.splits intro: grows_trans begins_grows)
qed

interpretation fol: event_guarantee follows
  by unfold_locales (auto simp: follows_def begins_def intro: grows_next exI [of _ "normal_state _"] intro!: evolves_one simp del: evolves.simps)

lemma begins_saved:
  "begins (normal_state s, [])"
  "one_document t s \<Longrightarrow> begins (t, us) \<Longrightarrow> begins (normal_state s, us)"
proof -
  show "begins (normal_state s, [])"
    unfolding begins_def by (intro exI [of _ "normal_state (normal_state s)"]) simp
  assume "one_document t s" "begins (t, us)"
  then obtain r where "evolves r (us @ []) (normal_state (normal_state s))"
    unfolding begins_def by (metis evolves_append equal_document_evolves fst_conv snd_conv)
  then show "begins (normal_state s, us)" unfolding begins_def by auto
qed

interpretation rep: content_guarantee keeps_replays
  by unfold_locales (unfold keeps_replays_def, blast+)

interpretation rep: direct_save_guarantee keeps_replays
proof
  fix t s us assume "one_document t s"
  then show "keeps_replays (Some (t, us)) (Some (normal_state s, us))"
    by (simp add: keeps_replays_def begins_saved(2))
qed (simp_all add: keeps_replays_def begins_saved(1))

section \<open>Runs\<close>

text \<open>The calls that change a subject's file.\<close>

datatype subject_operation =
    Call_create string
  | Call_save subject_state
  | Call_apply_event string event "int option"
  | Call_record_interaction string pyval string
  | Call_submit lifecycle_ports lifecycle_command

fun subject_call :: "subject_ports \<Rightarrow> subject_operation \<Rightarrow> unit subject_prog" where
  "subject_call pp (Call_create i) = sbind (subject_service_create pp i) (\<lambda>_. sret ())"
| "subject_call pp (Call_save s) = sbind (subject_service_save pp s) (\<lambda>_. sret ())"
| "subject_call pp (Call_apply_event i e n) = sbind (apply_event pp i e n) (\<lambda>_. sret ())"
| "subject_call pp (Call_record_interaction i now uuid) = sbind (record_interaction pp i now uuid) (\<lambda>_. sret ())"
| "subject_call pp (Call_submit lv c) = sbind (submit lv pp c) (\<lambda>_. sret ())"

text \<open>
  What the arguments of a call are by construction: \<open>SubjectState\<close> refuses a negative revision, \<open>Event\<close>
  what is not well formed.
\<close>

fun call_ok :: "subject_operation \<Rightarrow> bool" where
  "call_ok (Call_save s) = (0 \<le> ss_revision s)"
| "call_ok (Call_apply_event i e n) = wf_event e"
| "call_ok _ = True"

text \<open>Calls one after the other, each of which may raise.\<close>

fun subject_run :: "(subject_ports \<times> subject_operation) list \<Rightarrow> subject_store \<Rightarrow> subject_store" where
  "subject_run [] st = st"
| "subject_run ((pp, c) # cs) st = subject_run cs (fst (subject_call pp c st))"

definition run_under :: "guarantee \<Rightarrow> canon_fun \<Rightarrow> digest_fun \<Rightarrow> (subject_ports \<times> subject_operation) list \<Rightarrow> bool" where
  "run_under E canon sha cs \<longleftrightarrow> (\<forall>(pp, c) \<in> set cs. sv_canon pp = canon \<and> sv_sha pp = sha \<and> considerate E pp \<and> call_ok c)"

text \<open>Any calls, with any others at work; and calls with others that do not move the revision of a file
  without a history.\<close>

abbreviation run_ok :: "canon_fun \<Rightarrow> digest_fun \<Rightarrow> (subject_ports \<times> subject_operation) list \<Rightarrow> bool" where
  "run_ok \<equiv> run_under extends"

abbreviation run_paced :: "canon_fun \<Rightarrow> digest_fun \<Rightarrow> (subject_ports \<times> subject_operation) list \<Rightarrow> bool" where
  "run_paced \<equiv> run_under follows"

lemma call_extends: "considerate extends pp \<Longrightarrow> call_ok c \<Longrightarrow> safe_prog extends pp (subject_call pp c)"
  by (cases c) (auto intro!: ext.sh.bind ext.sh.pure ext.service_create_safe ext.service_save_safe ext.apply_event_safe
      ext.record_interaction_safe ext.submit_safe)

lemma call_replays:
  assumes "considerate follows pp" "call_ok c"
  shows "safe_prog keeps_replays pp (subject_call pp c)"
proof -
  have c: "considerate keeps_replays pp" using assms(1) follows_replays by (rule considerate_mono)
  have f: "safe_prog keeps_replays pp m" if "safe_prog follows pp m" for m :: "'a subject_prog"
    using that follows_replays by (rule safe_mono)
  show ?thesis
    using assms(2) by (cases c) (auto intro!: rep.sh.bind rep.sh.pure rep.service_create_safe [OF c] rep.service_save_safe [OF c]
        f [OF fol.apply_event_safe [OF assms(1)]] f [OF fol.record_interaction_safe [OF assms(1)]] f [OF fol.submit_safe [OF assms(1)]])
qed

lemma run_advances:
  assumes "content_guarantee F" "\<And>pp c. considerate E pp \<Longrightarrow> call_ok c \<Longrightarrow> safe_prog F pp (subject_call pp c)"
  shows "run_under E canon sha cs \<Longrightarrow> advances F canon sha st (subject_run cs st)"
proof (induction cs arbitrary: st)
  case Nil
  show ?case by (simp add: content_guarantee.advances_refl [OF assms(1)])
next
  case (Cons x cs)
  obtain pp c where x: "x = (pp, c)" by force
  with Cons.prems have "sv_canon pp = canon" "sv_sha pp = sha" "considerate E pp" "call_ok c" "run_under E canon sha cs"
    by (auto simp: run_under_def)
  with keepsD [OF assms(2) [of pp c], of st] Cons.IH show ?case
    by (auto simp: x intro: content_guarantee.advances_trans [OF assms(1)])
qed

lemma run_extends: "run_ok canon sha cs \<Longrightarrow> advances extends canon sha st (subject_run cs st)"
  using run_advances [OF ext.content_guarantee_axioms call_extends] by blast

lemma run_replays: "run_paced canon sha cs \<Longrightarrow> advances keeps_replays canon sha st (subject_run cs st)"
  using run_advances [OF rep.content_guarantee_axioms call_replays] by blast

text \<open>Calls of the services themselves are considerate others: every run, with others that run in turn.\<close>

lemma run_considerate:
  assumes "\<And>k. run_ok (sv_canon pp) (sv_sha pp) (cs k)" "sv_others pp = (\<lambda>k. subject_run (cs k))"
  shows "considerate extends pp"
  unfolding considerate_def assms(2) using run_extends [OF assms(1)] by blast

end
