(* ===== verification/Subject_Quiet.thy ===== *)
theory Subject_Quiet
  imports Subject_Runs
begin

text \<open>
  A call that no other access interrupts: what each operation of the subject service returns and
  leaves behind, as an equation over the content of the file.
\<close>

section \<open>Calls without others\<close>

definition quiet :: "subject_ports \<Rightarrow> bool" where
  "quiet pp \<longleftrightarrow> sv_others pp = (\<lambda>_ st. st)"

lemma at_store_quiet: "quiet pp \<Longrightarrow> at_store pp k m = m"
  by (auto simp: quiet_def at_store_def sbind_def prog_simps)

abbreviation stored :: "subject_ports \<Rightarrow> subject_store \<Rightarrow> string \<Rightarrow> (subject_state \<times> state_update list) option" where
  "stored pp st i \<equiv> content (sv_canon pp) (sv_sha pp) st (sv_sha pp i)"

lemma read_run:
  assumes "stored pp st i = Some (s, us)" "ss_subject_id s = i" "\<not> blank i"
  shows "sv_load pp i st = (st, Inr s)" "sv_history pp i st = (st, Inr us)" "sv_exists pp i st = (st, Inr True)"
proof -
  have "read_component (sv_canon pp) (sv_sha pp) i st = Inr (s, us)"
    using assms by (simp add: read_component_Inr)
  then show "sv_load pp i st = (st, Inr s)" "sv_history pp i st = (st, Inr us)"
    by (simp_all add: sv_load_def sv_history_def sread_def subject_load_def list_update_records_def)
  show "sv_exists pp i st = (st, Inr True)"
    using assms by (auto simp: sv_exists_def sread_def subject_exists_def subject_path_def content_Some ensure_def)
qed

lemma require_active_quiet:
  assumes "quiet pp" "stored pp st i = Some (s, us)" "ss_subject_id s = i" "\<not> blank i"
  shows "require_active pp k i environment st = (st,
    rbind (lifecycle_active (lifecycle_of s) environment) (\<lambda>_. Inr s))"
  using read_run(1) [OF assms(2-4)] assms(1)
  by (cases "lifecycle_active (lifecycle_of s) environment")
    (simp_all add: require_active_def at_store_quiet sbind_def prog_simps)

text \<open>The outcome of an event that the history does not have yet, before it is written.\<close>

definition event_outcome ::
  "subject_ports \<Rightarrow> string \<Rightarrow> event \<Rightarrow> int option \<Rightarrow> subject_state \<Rightarrow> state_update list \<Rightarrow> evolution_result res" where
  "event_outcome pp i e n s us =
     rbind (ensure (lifecycle_mutations e = []) (LifecycleError, ''SUBJECT_MANAGEMENT_AUTHORIZATION_REQUIRED'')) (\<lambda>_.
     rbind (lifecycle_active (lifecycle_of s) None) (\<lambda>_.
     rbind (require_aware (evolution_err ''applied_at must include a timezone'') (sv_clock pp)) (\<lambda>t.
     rbind (admit_event i s us e n t) (\<lambda>_.
     evolve (sv_uuid pp) s e (utc_val t)))))"

lemma apply_event_replayed:
  assumes "quiet pp" "stored pp st i = Some (s, us)" "ss_subject_id s = i" "\<not> blank i"
    "find_event (ev_event_id e) us = Some x"
  shows "apply_event pp i e n st = (st, rbind (ensure (py_eq (canonical_dict (su_event x)) (canonical_dict e))
    (EventIdentityConflictError, ''event identity conflicts with immutable history: '' @ ev_event_id e)) (\<lambda>_.
    Inr (replayed s x)))"
  using read_run [OF assms(2-4)] assms(1,5)
  by (simp add: apply_event_def apply_event_with_def at_store_quiet sbind_def prog_simps ensure_def)

lemma apply_event_new:
  assumes "quiet pp" "stored pp st i = Some (s, us)" "ss_subject_id s = i" "\<not> blank i"
    "find_event (ev_event_id e) us = None"
  shows "apply_event pp i e n st = (case event_outcome pp i e n s us of
    Inl x \<Rightarrow> (st, Inl x)
  | Inr r \<Rightarrow> sbind (sv_transition pp (er_state r) (er_update r)) (\<lambda>_. persisted_result pp i e r) st)"
proof (cases "lifecycle_mutations e = []")
  case True
  then show ?thesis
    using read_run [OF assms(2-4)] assms(1,5) require_active_quiet [OF assms(1-4)]
    by (auto simp: apply_event_def apply_event_with_def at_store_quiet sbind_def prog_simps
        authorize_event_def event_outcome_def ensure_def rbind_def split: sum.split)
next
  case False
  then show ?thesis
    using read_run [OF assms(2-4)] assms(1,5)
    by (simp add: apply_event_def apply_event_with_def at_store_quiet sbind_def prog_simps
        authorize_event_def event_outcome_def ensure_def)
qed

lemma event_outcome_Inr:
  assumes "event_outcome pp i e n s us = Inr r" "wf_subject s" "wf_event e"
  obtains t where "evolve (sv_uuid pp) s e (utc_val t) = Inr r" "admit_event i s us e n t = Inr ()"
    "require_aware (evolution_err ''applied_at must include a timezone'') (sv_clock pp) = Inr t"
    "lifecycle_active (lifecycle_of s) None = Inr ()"
    "evolution_step (normal_state s) e t (er_state r) (er_update r)" "wf_update_shape (er_update r)"
    "ss_subject_id (er_state r) = ss_subject_id s" "su_event (er_update r) = e" "\<not> er_idempotent_replay r"
    "su_subject_id (er_update r) = ss_subject_id s" "su_before_revision (er_update r) = ss_revision s"
    "su_after_revision (er_update r) = ss_revision (er_state r)" "lifecycle_mutations e = []"
    "su_update_id (er_update r) = sv_uuid pp"
proof -
  from assms(1) obtain t where t: "evolve (sv_uuid pp) s e (utc_val t) = Inr r" "admit_event i s us e n t = Inr ()"
    "require_aware (evolution_err ''applied_at must include a timezone'') (sv_clock pp) = Inr t"
    "lifecycle_active (lifecycle_of s) None = Inr ()" "lifecycle_mutations e = []"
    unfolding event_outcome_def by (elim rbindE) auto
  have a: "require_aware x (utc_val t) = Inr t" for x by (simp add: require_aware_def)
  from evolve_sound [OF assms(2) t(1)] a have e: "evolution_step (normal_state s) e t (er_state r) (er_update r)"
    and u: "su_update_id (er_update r) = sv_uuid pp" "\<not> er_idempotent_replay r" by auto
  have "ss_subject_id (er_state r) = ss_subject_id s"
    using e leads_to_frame(1) by (fastforce simp: evolution_step_def)
  moreover have "su_after_revision (er_update r) = ss_revision (er_state r)"
    using e by (elim evolution_step_def [THEN iffD1, elim_format] conjE exE) simp
  moreover have "su_event (er_update r) = e" "su_subject_id (er_update r) = ss_subject_id s"
    "su_before_revision (er_update r) = ss_revision s" using e by (simp_all add: evolution_step_def)
  ultimately show thesis using t e u evolve_shape [OF assms(2,3) t(1)] by (intro that)
qed

lemma find_event_last:
  "find_event (ev_event_id (su_event u)) us = None \<Longrightarrow> find_event (ev_event_id (su_event u)) (us @ [u]) = Some u"
  by (induction us) (auto simp: find_event_def split: if_splits)

text \<open>Once written, the event's own record is read back.\<close>

lemma written_quiet:
  assumes "quiet pp" "stored pp st i = Some (s, us)" "ss_subject_id s = i" "\<not> blank i" "wf_event e"
    "find_event (ev_event_id e) us = None" "event_outcome pp i e n s us = Inr r"
    "save_transition (sv_canon pp) (sv_sha pp) (sv_disk pp) (er_state r) (er_update r) st = Inr st'"
  shows "apply_event pp i e n st = (st', Inr r)" "stored pp st' i = Some (normal_state (er_state r), us @ [er_update r])"
    "\<exists>w. st' = st(sv_sha pp i := File_Doc w)"
proof -
  have wf: "wf_subject s" using content_wf(1) assms(2) by blast
  from event_outcome_Inr [OF assms(7) wf assms(5)] obtain t where
    r: "wf_update_shape (er_update r)" "ss_subject_id (er_state r) = i" "su_event (er_update r) = e"
    using assms(3) by metis
  from save_transition_Inr [OF assms(8) r(1)] assms(2,6) r(2,3) have
    "transition_saved (sv_canon pp) (sv_sha pp) (er_state r) (er_update r) st st' s us"
    by fastforce
  then have s: "wf_subject (er_state r)" "stored pp st' i = Some (normal_state (er_state r), us @ [er_update r])"
    "\<exists>w. st' = st(sv_sha pp i := File_Doc w)"
    by (auto simp: transition_saved_def r)
  have "sv_history pp i st' = (st', Inr (us @ [er_update r]))"
    using read_run(2) [OF s(2)] s(1) r(2) assms(4) by simp
  then have "persisted_result pp i e r st' = (st', Inr r)"
    using find_event_last [of "er_update r" us] assms(1,6) r(3)
    by (simp add: persisted_result_def at_store_quiet sbind_def prog_simps)
  with apply_event_new [OF assms(1-4,6)] assms(7,8) show "apply_event pp i e n st = (st', Inr r)"
    by (simp add: sv_transition_def swrite_def sbind_def)
  show "stored pp st' i = Some (normal_state (er_state r), us @ [er_update r])"
    "\<exists>w. st' = st(sv_sha pp i := File_Doc w)" using s by auto
qed

text \<open>The three ways a call ends.\<close>

lemma apply_event_quiet:
  assumes "quiet pp" "stored pp st i = Some (s, us)" "ss_subject_id s = i" "\<not> blank i" "wf_event e"
  obtains (refused) x where "apply_event pp i e n st = (st, Inl x)"
  | (replay) u where "u \<in> set us" "ev_event_id (su_event u) = ev_event_id e"
      "py_eq (canonical_dict (su_event u)) (canonical_dict e)" "apply_event pp i e n st = (st, Inr (replayed s u))"
  | (fresh) r st' where "find_event (ev_event_id e) us = None" "event_outcome pp i e n s us = Inr r"
      "apply_event pp i e n st = (st', Inr r)" "stored pp st' i = Some (normal_state (er_state r), us @ [er_update r])"
      "\<exists>w. st' = st(sv_sha pp i := File_Doc w)"
proof (cases "find_event (ev_event_id e) us")
  case (Some u)
  with apply_event_replayed [OF assms(1-4) Some] find_event_Some [OF Some] refused replay show thesis
    by (cases "py_eq (canonical_dict (su_event u)) (canonical_dict e)") (auto simp: ensure_def)
next
  case None
  note new = apply_event_new [OF assms(1-4) None, of n]
  show thesis
  proof (cases "event_outcome pp i e n s us")
    case (Inl x)
    with new refused show thesis by simp
  next
    case (Inr r)
    show thesis
    proof (cases "save_transition (sv_canon pp) (sv_sha pp) (sv_disk pp) (er_state r) (er_update r) st")
      case (Inl x)
      with new Inr refused show thesis by (simp add: sv_transition_def swrite_def sbind_def)
    next
      case s: (Inr st')
      with written_quiet [OF assms None Inr s] None Inr fresh show thesis by blast
    qed
  qed
qed

section \<open>A subject that is not active\<close>

lemma not_active_refused:
  assumes "lifecycle_active (lifecycle_of s) None = Inl x"
  shows "\<exists>y. event_outcome pp i e n s us = Inl y"
  using assms by (auto simp: event_outcome_def ensure_def)

lemma inactive_event:
  assumes "quiet pp" "stored pp st i = Some (s, us)" "ss_subject_id s = i" "\<not> blank i"
    "lifecycle_active (lifecycle_of s) None = Inl x"
  shows "fst (apply_event pp i e n st) = st"
proof (cases "find_event (ev_event_id e) us")
  case (Some u)
  with apply_event_replayed [OF assms(1-4) Some] show ?thesis by simp
next
  case None
  with apply_event_new [OF assms(1-4) None, of n] not_active_refused [OF assms(5)] show ?thesis
    by (metis (no_types, lifting) fst_conv old.sum.simps(5))
qed

lemma inactive_save:
  assumes "quiet pp" "stored pp st (ss_subject_id t) = Some (s, us)" "ss_subject_id s = ss_subject_id t"
    "\<not> blank (ss_subject_id t)" "lifecycle_active (lifecycle_of s) None = Inl x"
  shows "subject_service_save pp t st = (st, Inl x)"
  using require_active_quiet [OF assms(1-4), of 1 None] read_run(3) [OF assms(2-4)] assms(1,5)
  by (simp add: subject_service_save_def at_store_quiet sbind_def prog_simps)

lemma existing_create:
  assumes "quiet pp" "stored pp st i = Some (s, us)" "ss_subject_id s = i" "\<not> blank i"
  shows "subject_service_create pp i st = (st, Inl (StateAlreadyExistsError, ''subject state already exists: '' @ i))"
  using read_run(3) [OF assms(2-4)] assms(1)
  by (simp add: subject_service_create_def at_store_quiet sbind_def prog_simps ensure_def)

section \<open>Lifecycle commands\<close>

lemma lifecycle_command_again:
  "lifecycle_command_from_dict (lifecycle_command_to_dict c) = Inr k \<Longrightarrow> k = c"
  unfolding lifecycle_command_from_dict_def lifecycle_command_to_dict_def lifecycle_command_init_def
  by (cases c) (auto simp: rbind_eq_Inr mind_text_eq_Inr split: if_splits)

definition deleted_subject :: "subject_state \<Rightarrow> bool" where
  "deleted_subject s \<longleftrightarrow> (\<exists>l. subject_lifecycle_from_dict (lifecycle_of s) = Inr l \<and> sl_status l = ''DELETED'')"

lemma deleted_not_active:
  "deleted_subject s \<Longrightarrow> lifecycle_active (lifecycle_of s) environment = Inl (LifecycleError, ''SUBJECT_NOT_ACTIVE'')"
  by (auto simp: deleted_subject_def lifecycle_active_def lifecycle_status_def subject_lifecycle_from_dict_def)

text \<open>A command of a deleted subject gets no further than its authorization or its transition.\<close>

lemma deleted_fresh_command:
  assumes "quiet pp" "stored pp st (lc_subject_id c) = Some (s, us)" "ss_subject_id s = lc_subject_id c"
    "\<not> blank (lc_subject_id c)" "deleted_subject s" "lc_operation c \<noteq> ''CREATE''"
  shows "fst (submit_fresh lv pp c event_id actor True st) = st"
proof -
  obtain l where l: "subject_lifecycle_from_dict (lifecycle_of s) = Inr l" "sl_status l = ''DELETED''"
    using assms(5) by (auto simp: deleted_subject_def)
  then have n: "lifecycle_of s \<noteq> PNone" by (auto simp: subject_lifecycle_from_dict_def)
  have "\<exists>x. rbind (authorize_command lv 0 (lv_clock lv 1) c event_id actor s) (\<lambda>_. command_target c s) = Inl x"
  proof (cases "authorize_command lv 0 (lv_clock lv 1) c event_id actor s")
    case (Inr u)
    then have "lc_initiator c \<noteq> ''SUBJECT''"
      unfolding authorize_command_def
      by (elim rbindE) (use l n in \<open>auto simp: bound_value_def\<close>)
    then have "command_target c s = lifecycle_transition ''DELETED'' (lc_operation c)"
      using assms(6) l n by (simp add: command_target_def lifecycle_status_def)
    then have "\<exists>x. command_target c s = Inl x"
      using transition_from_DELETED by (metis obj_sumE)
    with Inr show ?thesis by auto
  qed simp
  then show ?thesis
    using read_run(1) [OF assms(2-4)] assms(1)
    by (auto simp: submit_fresh_def at_store_quiet sbind_def prog_simps rbind_def split: sum.splits)
qed

lemma deleted_command:
  assumes "quiet pp" "stored pp st (lc_subject_id c) = Some (s, us)" "ss_subject_id s = lc_subject_id c"
    "\<not> blank (lc_subject_id c)" "deleted_subject s"
  shows "fst (submit lv pp c st) = st"
proof -
  note r = read_run [OF assms(2-4)]
  have fresh: "fst (sbind (slift (ensure (\<not> (lc_operation c = ''CREATE'' \<and> True))
           (lifecycle_err ''SUBJECT_IDENTITY_ALREADY_EXISTS''))) (\<lambda>_.
         sbind (slift (ensure (\<not> (lc_operation c \<noteq> ''CREATE'' \<and> \<not> True))
           (lifecycle_err ''SUBJECT_IDENTITY_MISSING''))) (\<lambda>_.
         submit_fresh lv pp c event_id actor True)) st) = st" for event_id actor
    using deleted_fresh_command [OF assms, of lv event_id actor]
    by (cases "lc_operation c = ''CREATE''") (simp_all add: sbind_def prog_simps ensure_def)
  have known: "fst (sbind (slift r) (\<lambda>_. sret x) st) = st" for r :: "unit res" and x :: state_update
    by (cases r) (simp_all add: sbind_def prog_simps)
  show ?thesis
    unfolding submit_def
    using r fresh known lifecycle_command_again [of c] assms(1)
    by (auto simp: at_store_quiet sbind_def prog_simps split: sum.splits option.splits prod.splits)
qed

end
