(* ===== verification/Subject_Demo.thy ===== *)
theory Subject_Demo
  imports Subject_Quiet
begin

text \<open>Concrete subjects, files and calls, at which the properties of subjects are applied.\<close>

section \<open>A concrete subject\<close>

text \<open>The text of a command's key is its second part, and the digest is the text itself.\<close>

fun demo_canon :: canon_fun where
  "demo_canon (PList [_, PStr s]) = Inr s"
| "demo_canon _ = Inr []"

definition demo_ports :: subject_ports where
  "demo_ports = \<lparr>sv_canon = demo_canon, sv_sha = (\<lambda>s. s), sv_disk = None, sv_clock = utc_val (Abs_instant 9),
     sv_uuid = ''u1'', sv_others = (\<lambda>_ st. st)\<rparr>"

definition demo_subject :: subject_state where
  "demo_subject =
     \<lparr>ss_subject_id = ''s'', ss_identity = empty_identity, ss_relationship = empty_relationship,
      ss_continuity = empty_continuity,
      ss_temporal = \<lparr>tmp_created_at = Abs_instant 5, tmp_updated_at = Abs_instant 5, tmp_last_interaction_at = None,
        tmp_lifecycle_events = [], tmp_subject_lifecycle = PNone\<rparr>,
      ss_intentions = empty_intentions, ss_emotion = empty_emotion, ss_revision = 0\<rparr>"

lemmas empty_sections = empty_identity_def empty_relationship_def empty_continuity_def empty_intentions_def
  empty_emotion_def

lemma no_records: "item_records (PList []) i e = Inr []"
  by (simp add: item_records_def parse_items_def ensure_def)

lemma instant_now: "0 \<le> n \<Longrightarrow> n < 315537897600000000 \<Longrightarrow> require_aware err (utc_val (Abs_instant n)) = Inr (Abs_instant n)"
  by (simp add: require_aware_def mk_instant_def)

lemma demo_create: "subject_create ''s'' (utc_val (Abs_instant 5)) = Inr demo_subject"
  by (simp add: subject_create_def subject_state_init_def instant_now demo_subject_def blank_def py_space_def ensure_def
      empty_sections unless_none_def no_records)

lemma demo_document: "\<exists>d. subject_to_dict demo_subject = Inr d"
  by (simp add: subject_to_dict_def demo_subject_def empty_sections unless_none_def no_records emotion_to_dict_def emotion_values_def Let_def)

lemma demo_wf: "wf_subject demo_subject"
  using demo_document by (simp add: wf_subject_def demo_subject_def blank_def py_space_def)

lemma demo_normal: "normal_state demo_subject = demo_subject"
  by (simp add: normal_state_def demo_subject_def empty_sections unless_none_def no_records mind_normal_def
      bound_lifecycle_def bound_mind_def subject_lifecycle_from_dict_def mind_state_from_dict_def shaped_dict_def)

text \<open>An event that sets the self concept.\<close>

definition demo_change :: event where
  "demo_change =
     \<lparr>ev_event_id = ''e1'', ev_occurred_at = Abs_instant 7, ev_source = ''user'', ev_event_type = ''note'',
      ev_content = ''a name'', ev_impact_scope = [Sec_IDENTITY],
      ev_mutations = [\<lparr>sm_field_path = ''identity.self_concept'', sm_operation = Op_SET, sm_value = PStr ''me'',
        sm_reason = ''said so''\<rparr>],
      ev_reason = ''said so'', ev_metadata = [], ev_observed_at = Abs_instant 7,
      ev_recorded_at = Abs_instant 7, ev_time_basis = Basis_LEGACY_COALESCED,
      ev_classification = Cls_STATE_CHANGE, ev_source_kind = Src_USER, ev_source_event_id = None,
      ev_correlation_id = None, ev_evidence = [], ev_references = []\<rparr>"

definition demo_evolved :: subject_state where
  "demo_evolved = demo_subject
     \<lparr>ss_identity := empty_identity\<lparr>idn_self_concept := ''me''\<rparr>,
      ss_temporal := (ss_temporal demo_subject)\<lparr>tmp_updated_at := Abs_instant 9\<rparr>, ss_revision := 1\<rparr>"

definition demo_update :: state_update where
  "demo_update = \<lparr>su_update_id = ''u1'', su_subject_id = ''s'', su_event = demo_change, su_applied_at = Abs_instant 9,
     su_before_revision = 0, su_after_revision = 1,
     su_changes =
       [\<lparr>fc_field_path = ''identity.self_concept'', fc_operation = Op_SET, fc_before = PStr [],
         fc_after = PStr ''me'', fc_reason = ''said so''\<rparr>,
        \<lparr>fc_field_path = ''temporal.updated_at'', fc_operation = Op_SET, fc_before = time_val (Abs_instant 5),
         fc_after = time_val (Abs_instant 9), fc_reason = ''SubjectState changed while applying the event.''\<rparr>],
     su_reason = ''said so''\<rparr>"

lemma demo_change_wf: "wf_event demo_change"
  by (simp add: wf_event_def demo_change_def blank_def py_space_def wf_mutation_def times_ok_def links_ok_def related_def)

lemma demo_mutation:
  "evolve_mutations [Sec_IDENTITY] (ev_mutations demo_change) (demo_subject, []) =
     Inr (demo_subject\<lparr>ss_identity := empty_identity\<lparr>idn_self_concept := ''me''\<rparr>\<rparr>, [su_changes demo_update ! 0])"
  by (simp add: demo_change_def evolve_mutation_def field_rules_def get_field_def subject_fields_def
      set_field_def apply_mutation_def set_value_def demo_subject_def demo_update_def empty_sections ensure_def)

lemma demo_evolve:
  "evolve ''u1'' demo_subject demo_change (utc_val (Abs_instant 9)) =
     Inr \<lparr>er_state = demo_evolved, er_update = demo_update, er_idempotent_replay = False\<rparr>"
proof -
  have n: "rbind (subject_to_dict demo_subject) subject_from_dict = Inr demo_subject"
    using subject_to_dict_run [OF demo_wf] subject_roundtrip(1) [OF demo_wf] demo_normal by simp
  have b: "\<not> blank ''u1''" "\<not> blank ''s''" "\<not> blank ''said so''" by (simp_all add: blank_def py_space_def)
  have u: "state_update_init (PStr ''u1'') (PStr ''s'') demo_change (utc_val (Abs_instant 9)) 0 1
    (su_changes demo_update) (PStr ''said so'') = Inr demo_update"
    using b by (simp add: state_update_init_def event_text_run ensure_def normalize_utc_def mk_instant_def
        demo_change_def demo_update_def)
  have t: "\<not> Abs_instant 9 \<le> Abs_instant 5" by (simp add: instant_order)
  have "evolve_stamp (Abs_instant 9) (demo_subject\<lparr>ss_identity := empty_identity\<lparr>idn_self_concept := ''me''\<rparr>\<rparr>,
      [su_changes demo_update ! 0]) = (demo_evolved, su_changes demo_update)"
    using t by (simp add: evolve_stamp_def demo_subject_def demo_update_def demo_evolved_def set_updated_def max_def Let_def)
  moreover have "evolve_interaction demo_change acc = Inr acc" for acc
    by (simp add: evolve_interaction_def demo_change_def split: prod.split)
  moreover have "ev_impact_scope demo_change = [Sec_IDENTITY]" "ev_reason demo_change = ''said so''"
    "ss_subject_id demo_subject = ''s''" "ss_revision demo_subject = 0" "ss_revision demo_evolved = 1"
    by (simp_all add: demo_change_def demo_subject_def demo_evolved_def)
  ultimately show ?thesis
    unfolding evolve_def n
    using u demo_mutation
    by (simp add: instant_now)
qed


section \<open>Its file\<close>

lemma document_json:
  assumes "wf_subject s" "json_ok (narrative_of s)" "json_ok (objects_of s)" "json_ok (lifecycle_of (normal_state s))"
    "json_ok (mind_of (normal_state s))" "records_of (normal_state s) = []" "emotion_values (ss_emotion s) = [PNone, PNone, PNone, PNone, PNone]"
  shows "json_ok (subject_document s)"
  using subject_to_dict_normal [OF subject_to_dict_run [OF assms(1)]] assms(2-)
  by (elim conjE exE) (auto simp: subject_fields_doc_def list_all_iff identity_doc_def relationship_doc_def continuity_doc_def
      temporal_doc_def intentions_doc_def optional_entry_def opt_val_def emotion_to_dict_def Let_def split: if_splits option.splits)

lemma demo_subject_json: "json_ok (subject_document demo_subject)"
  by (rule document_json [OF demo_wf])
    (simp_all add: demo_normal, simp_all add: demo_subject_def empty_sections emotion_values_def)

definition demo_store :: subject_store where
  "demo_store = (\<lambda>_. File_Absent)(''s'' := File_Doc (subject_document demo_subject))"

lemma demo_store_content: "content canon (\<lambda>s. s) demo_store ''s'' = Some (demo_subject, [])"
proof -
  have "validate_history canon (\<lambda>s. s) demo_subject [] = Inr ()"
    by (simp add: validate_history_def scan_start_def ensure_def demo_subject_def)
  from decode_plain [OF demo_wf this] show ?thesis
    by (simp add: content_Some demo_store_def demo_normal)
qed

lemma stored_envelope:
  assumes "wf_subject s" "list_all wf_state_update us" "validate_history canon sha s us = Inr ()"
  obtains st where "content canon sha st p = Some (normal_state s, us)"
proof -
  obtain w where w: "envelope canon sha s us = Inr w"
    using assms(1,3) by (simp add: envelope_def subject_to_dict_run)
  have "content canon sha (\<lambda>_. File_Doc w) p = Some (normal_state s, us)"
    using envelope_decode(1) [OF assms(1) w assms(2)] by (simp add: content_Some)
  then show thesis by (rule that)
qed

lemma demo_evolved_wf: "wf_subject demo_evolved" "normal_state demo_evolved = demo_evolved"
proof -
  have "\<exists>d. subject_to_dict demo_evolved = Inr d"
    by (simp add: subject_to_dict_def demo_evolved_def demo_subject_def empty_sections unless_none_def no_records
        emotion_to_dict_def emotion_values_def Let_def)
  then show "wf_subject demo_evolved"
    by (simp add: wf_subject_def demo_evolved_def demo_subject_def blank_def py_space_def)
  show "normal_state demo_evolved = demo_evolved"
    by (simp add: normal_state_def demo_evolved_def demo_subject_def empty_sections unless_none_def no_records
        mind_normal_def bound_lifecycle_def bound_mind_def subject_lifecycle_from_dict_def mind_state_from_dict_def
        shaped_dict_def)
qed

lemma demo_evolved_json: "json_ok (subject_document demo_evolved)"
  by (rule document_json [OF demo_evolved_wf(1)])
    (simp_all add: demo_evolved_wf(2), simp_all add: demo_evolved_def demo_subject_def empty_sections emotion_values_def)

lemma demo_update_wf: "wf_state_update demo_update"
  using demo_change_wf stamp_texts
  by (simp add: wf_state_update_def demo_update_def wf_field_change_def blank_def py_space_def demo_change_def)

lemma demo_evolved_content:
  obtains st where "content demo_canon (\<lambda>s. s) st ''s'' = Some (demo_evolved, [demo_update])"
proof -
  have "\<not> lifecycle_managed demo_change" "lifecycle_mutations demo_change = []"
    by (simp_all add: lifecycle_managed_def lifecycle_mutations_def demo_change_def)
  then have "validate_history demo_canon (\<lambda>s. s) demo_evolved [demo_update] = Inr ()"
    by (simp add: validate_history_def scan_start_def scan_update_def ensure_def demo_evolved_def demo_subject_def
        demo_update_def advance_lifecycle_def lifecycle_changes_def Let_def)
      (simp add: demo_change_def)
  from stored_envelope [OF demo_evolved_wf(1) _ this] demo_update_wf demo_evolved_wf(2) that show thesis
    by auto
qed

section \<open>A subject under management\<close>

definition demo_value :: "string \<Rightarrow> subject_lifecycle" where
  "demo_value status = \<lparr>sl_subject_id = ''s'', sl_environment = ''TEST'', sl_owner_principal_id = ''o'',
     sl_status = status, sl_changed_at = Abs_instant 9, sl_reason = ''said so''\<rparr>"

definition demo_command :: "string \<Rightarrow> int \<Rightarrow> lifecycle_command" where
  "demo_command operation n = \<lparr>lc_command_id = operation, lc_subject_id = ''s'', lc_environment = ''TEST'',
     lc_expected_revision = n, lc_requested_at = Abs_instant 7, lc_reason = ''said so'', lc_operation = operation,
     lc_initiator = ''OWNER''\<rparr>"

definition demo_management :: "string \<Rightarrow> int \<Rightarrow> pyval \<Rightarrow> string \<Rightarrow> state_update" where
  "demo_management operation n old status =
     \<lparr>su_update_id = operation, su_subject_id = ''s'',
      su_event = demo_change
        \<lparr>ev_event_id := ''p15-lifecycle:'' @ operation, ev_source := ''subject_lifecycle_service'',
         ev_event_type := ''subject_lifecycle'', ev_impact_scope := [Sec_TEMPORAL],
         ev_mutations := [\<lparr>sm_field_path = lifecycle_path, sm_operation = Op_SET,
           sm_value = subject_lifecycle_to_dict (demo_value status), sm_reason = ''said so''\<rparr>],
         ev_metadata := [(''command'', lifecycle_command_to_dict (demo_command operation n)),
           (''principal_id'', PStr ''o''), (''environment'', PStr ''TEST'')]\<rparr>,
      su_applied_at = Abs_instant 9, su_before_revision = n, su_after_revision = n + 1,
      su_changes = [\<lparr>fc_field_path = lifecycle_path, fc_operation = Op_SET, fc_before = old,
        fc_after = subject_lifecycle_to_dict (demo_value status), fc_reason = ''said so''\<rparr>],
      su_reason = ''said so''\<rparr>"

definition demo_deleted :: subject_state where
  "demo_deleted = demo_subject
     \<lparr>ss_temporal := (ss_temporal demo_subject)
       \<lparr>tmp_subject_lifecycle := subject_lifecycle_to_dict (demo_value ''DELETED'')\<rparr>, ss_revision := 2\<rparr>"

definition demo_managed_history :: "state_update list" where
  "demo_managed_history =
     [demo_management ''CREATE'' 0 PNone ''CREATE'',
      demo_management ''DELETE'' 1 (subject_lifecycle_to_dict (demo_value ''CREATE'')) ''DELETED'']"

lemma demo_value_again [simp]:
  "status \<in> {''CREATE'', ''DELETED''} \<Longrightarrow> subject_lifecycle_from_dict (subject_lifecycle_to_dict (demo_value status)) = Inr (demo_value status)"
  by (rule subject_lifecycle_roundtrip)
    (auto simp: demo_value_def wf_lifecycle_def lifecycle_states_def blank_def py_space_def)

lemma demo_command_again:
  assumes "operation = ''CREATE'' \<or> operation = ''DELETE''" "0 \<le> n"
  shows "lifecycle_command_from_dict (lifecycle_command_to_dict (demo_command operation n)) = Inr (demo_command operation n)"
proof -
  have t: "mind_text (PStr operation) = Inr operation" "mind_text (PStr ''s'') = Inr ''s''"
    "mind_text (PStr ''said so'') = Inr ''said so''"
    using assms(1) by (auto simp: mind_text_eq_Inr blank_def py_space_def)
  have o: "in_strings (PStr operation) (allowed_operations ''OWNER'') = Inr True"
    unfolding in_strings_def allowed_operations_def using assms(1) by (elim disjE; simp)
  have "lifecycle_command_init (PStr operation) (PStr ''s'') (PStr ''TEST'') (PInt n) (PStr (format_z (Abs_instant 7)))
      (PStr ''said so'') (PStr operation) (PStr ''OWNER'') = Inr (demo_command operation n)"
    using assms(2) o by (simp add: lifecycle_command_init_def t in_strings_eq_Inr in_strings_def [of "PStr ''TEST''"]
        in_strings_def [of "PStr ''OWNER''"] ensure_def demo_command_def)
  then show ?thesis
    by (simp add: lifecycle_command_from_dict_def lifecycle_command_to_dict_def demo_command_def)
qed

lemma demo_command_fields [simp]:
  "lc_command_id (demo_command operation n) = operation" "lc_subject_id (demo_command operation n) = ''s''"
  "lc_environment (demo_command operation n) = ''TEST''" "lc_expected_revision (demo_command operation n) = n"
  "lc_requested_at (demo_command operation n) = Abs_instant 7" "lc_reason (demo_command operation n) = ''said so''"
  "lc_operation (demo_command operation n) = operation" "lc_initiator (demo_command operation n) = ''OWNER''"
  by (simp_all add: demo_command_def)

lemma demo_value_fields [simp]:
  "sl_subject_id (demo_value status) = ''s''" "sl_environment (demo_value status) = ''TEST''"
  "sl_owner_principal_id (demo_value status) = ''o''" "sl_status (demo_value status) = status"
  "sl_changed_at (demo_value status) = Abs_instant 9" "sl_reason (demo_value status) = ''said so''"
  by (simp_all add: demo_value_def)

lemma demo_management_mutations:
  "lifecycle_mutations (su_event (demo_management operation n old status)) = [\<lparr>sm_field_path = lifecycle_path,
    sm_operation = Op_SET, sm_value = subject_lifecycle_to_dict (demo_value status), sm_reason = ''said so''\<rparr>]"
  "lifecycle_changes (demo_management operation n old status) = [\<lparr>fc_field_path = lifecycle_path, fc_operation = Op_SET,
    fc_before = old, fc_after = subject_lifecycle_to_dict (demo_value status), fc_reason = ''said so''\<rparr>]"
  "length (ev_mutations (su_event (demo_management operation n old status))) = 1"
  "ev_classification (su_event (demo_management operation n old status)) = Cls_STATE_CHANGE"
  "su_before_revision (demo_management operation n old status) = n"
  "su_after_revision (demo_management operation n old status) = n + 1"
  by (simp_all add: lifecycle_mutations_def lifecycle_changes_def demo_management_def demo_change_def)

lemma demo_step:
  assumes "operation = ''CREATE'' \<and> n = 0 \<and> p = None \<and> old = PNone \<and> status = ''CREATE'' \<or>
    operation = ''DELETE'' \<and> n = 1 \<and> p = Some (demo_value ''CREATE'') \<and>
      old = subject_lifecycle_to_dict (demo_value ''CREATE'') \<and> status = ''DELETED''"
  shows "advance_lifecycle demo_canon (\<lambda>s. s) ''s'' p (demo_management operation n old status) = Inr (Some (demo_value status))"
proof -
  let ?u = "demo_management operation n old status"
  have c: "lifecycle_command_of demo_canon (\<lambda>s. s) ''s'' ?u = Inr (demo_command operation n, PStr ''o'')"
  proof -
    have "lifecycle_command_from_dict (lifecycle_command_to_dict (demo_command operation n)) = Inr (demo_command operation n)"
      using assms by (intro demo_command_again) auto
    then show ?thesis
      by (simp add: lifecycle_command_of_def demo_management_def item_of_def lifecycle_event_id_def
        value_digest_def sha256_hash_def demo_change_def ensure_def Let_def)
  qed
  have k: "lifecycle_target p (demo_command operation n) n = Inr status" "status = ''CREATE'' \<or> status = ''DELETED''"
    "py_eq old (opt_val subject_lifecycle_to_dict p)" "\<forall>l. p = Some l \<longrightarrow> l = demo_value ''CREATE''"
    using assms
    by (elim disjE conjE; simp add: lifecycle_target_def lifecycle_transition_def lifecycle_transitions_def ensure_def)+
  have t: "Abs_instant 7 \<le> Abs_instant 9" by (simp add: instant_order)
  have v: "subject_lifecycle_from_dict (subject_lifecycle_to_dict (demo_value status)) = Inr (demo_value status)"
    using k(2) by (intro demo_value_again) blast
  have old: "\<forall>l. p = Some l \<longrightarrow> sl_environment l = ''TEST'' \<and> PStr ''o'' = PStr (sl_owner_principal_id l) \<and>
      sl_changed_at l \<le> Abs_instant 9"
  proof (intro allI impI)
    fix l assume "p = Some l"
    with k(4) have "l = demo_value ''CREATE''" by blast
    then show "sl_environment l = ''TEST'' \<and> PStr ''o'' = PStr (sl_owner_principal_id l) \<and> sl_changed_at l \<le> Abs_instant 9"
      by simp
  qed
  have o: "lifecycle_owner_step ''s'' p ?u (demo_command operation n) (PStr ''o'') = Inr (Some (demo_value status))"
    unfolding lifecycle_owner_step_def demo_management_mutations
    by (simp add: v k(1,3) t ensure_def del: pyval.inject) (use old in simp)
  have "advance_lifecycle demo_canon (\<lambda>s. s) ''s'' p ?u = as_invalid_history
        (rbind (lifecycle_command_of demo_canon (\<lambda>s. s) ''s'' ?u) (\<lambda>(command, actor).
         if lc_initiator command = ''SUBJECT'' then lifecycle_intent ''s'' p ?u actor
         else lifecycle_owner_step ''s'' p ?u command actor))"
    by (simp add: advance_lifecycle_def demo_management_mutations)
  with c o show ?thesis by simp
qed

lemma demo_deleted_wf: "wf_subject demo_deleted" "normal_state demo_deleted = demo_deleted"
proof -
  have b: "bound_lifecycle ''s'' (subject_lifecycle_to_dict (demo_value ''DELETED'')) =
      Inr (subject_lifecycle_to_dict (demo_value ''DELETED''))"
    by (simp add: bound_lifecycle_def ensure_def)
  have n: "subject_lifecycle_to_dict (demo_value ''DELETED'') \<noteq> PNone" by (simp add: subject_lifecycle_to_dict_def)
  have "\<exists>d. subject_to_dict demo_deleted = Inr d"
    using b n
    by (simp add: subject_to_dict_def demo_deleted_def demo_subject_def empty_sections unless_none_def no_records
        emotion_to_dict_def emotion_values_def Let_def)
  then show "wf_subject demo_deleted"
    by (simp add: wf_subject_def demo_deleted_def demo_subject_def blank_def py_space_def)
  show "normal_state demo_deleted = demo_deleted"
    using b
    by (simp add: normal_state_def demo_deleted_def demo_subject_def empty_sections unless_none_def no_records
        mind_normal_def bound_mind_def mind_state_from_dict_def shaped_dict_def)
qed

lemma demo_management_wf:
  assumes "operation = ''CREATE'' \<or> operation = ''DELETE''" "0 \<le> n" "json_ok old"
  shows "wf_state_update (demo_management operation n old status)"
proof -
  have j: "json_ok (subject_lifecycle_to_dict (demo_value status))"
    "json_ok (lifecycle_command_to_dict (demo_command operation n))"
    by (simp_all add: subject_lifecycle_to_dict_def lifecycle_command_to_dict_def)
  have b: "\<not> blank operation" "\<not> blank ''s''" "\<not> blank ''said so''" "\<not> blank lifecycle_path"
    "\<not> blank (''p15-lifecycle:'' @ operation)" "\<not> blank ''subject_lifecycle_service''" "\<not> blank ''subject_lifecycle''"
    "\<not> blank ''a name''"
    using assms(1) by (auto simp: blank_def py_space_def)
  show ?thesis
    using assms(2,3) j b
    by (simp add: wf_state_update_def wf_event_def demo_management_def demo_change_def wf_mutation_def wf_field_change_def
        times_ok_def links_ok_def related_def)
qed

lemma demo_deleted_content:
  obtains st where "content demo_canon (\<lambda>s. s) st ''s'' = Some (demo_deleted, demo_managed_history)"
proof -
  let ?a = "demo_management ''CREATE'' 0 PNone ''CREATE''"
  let ?b = "demo_management ''DELETE'' 1 (subject_lifecycle_to_dict (demo_value ''CREATE'')) ''DELETED''"
  have f: "su_subject_id (demo_management operation n old status) = ''s''"
    "su_update_id (demo_management operation n old status) = operation"
    "ev_event_id (su_event (demo_management operation n old status)) = ''p15-lifecycle:'' @ operation"
    "ev_references (su_event (demo_management operation n old status)) = []" for operation n old status
    by (simp_all add: demo_management_def demo_change_def)
  have 1: "scan_update demo_canon (\<lambda>s. s) ''s'' ?a scan_start = Inr \<lparr>hs_update_ids = [''CREATE''],
      hs_event_ids = [''p15-lifecycle:CREATE''], hs_revision = 1, hs_lifecycle = Some (demo_value ''CREATE'')\<rparr>"
    by (simp add: scan_update_def scan_start_def f demo_management_mutations demo_step ensure_def Let_def)
  have 2: "scan_update demo_canon (\<lambda>s. s) ''s'' ?b \<lparr>hs_update_ids = [''CREATE''],
      hs_event_ids = [''p15-lifecycle:CREATE''], hs_revision = 1, hs_lifecycle = Some (demo_value ''CREATE'')\<rparr> =
    Inr \<lparr>hs_update_ids = [''DELETE'', ''CREATE''], hs_event_ids = [''p15-lifecycle:DELETE'', ''p15-lifecycle:CREATE''],
      hs_revision = 2, hs_lifecycle = Some (demo_value ''DELETED'')\<rparr>"
    by (simp add: scan_update_def f demo_management_mutations demo_step ensure_def Let_def)
  have "validate_history demo_canon (\<lambda>s. s) demo_deleted demo_managed_history = Inr ()"
    by (simp add: validate_history_def demo_managed_history_def demo_deleted_def demo_subject_def 1 2 ensure_def)
  moreover have "list_all wf_state_update demo_managed_history"
    by (simp add: demo_managed_history_def demo_management_wf subject_lifecycle_to_dict_def)
  ultimately show thesis
    using stored_envelope [OF demo_deleted_wf(1)] demo_deleted_wf(2) that by metis
qed

end
