(* ===== verification/Subject_Properties.thy ===== *)
theory Subject_Properties
  imports Subject_Demo
begin

text \<open>
  What holds of subjects and their histories, whatever calls of the services are made, in
  whatever order and however they interleave.
\<close>

section \<open>Preparation\<close>

fun call_subject :: "subject_operation \<Rightarrow> string" where
  "call_subject (Call_create i) = i"
| "call_subject (Call_save s) = ss_subject_id s"
| "call_subject (Call_apply_event i e n) = i"
| "call_subject (Call_record_interaction i now uuid) = i"
| "call_subject (Call_submit lv c) = lc_subject_id c"

text \<open>A changed file goes on from what it holds.\<close>

lemma run_grows:
  assumes "run_ok canon sha cs" "content canon sha st p = Some (s, us)" "us \<noteq> []"
  obtains t vs where "content canon sha (subject_run cs st) p = Some (t, us @ vs)" "grows (s, us) (t, us @ vs)"
proof -
  have "extends (content canon sha st p) (content canon sha (subject_run cs st) p)"
    using run_extends [OF assms(1)] by (simp add: advances_def)
  with assms(2,3) obtain y where y: "content canon sha (subject_run cs st) p = Some y" "grows (s, us) y"
    by (auto simp: extends_def)
  then obtain vs where "snd y = us @ vs" by (auto simp: grows_def)
  with y that show thesis by (cases y) auto
qed

lemma lifecycle_history:
  assumes "validate_history canon sha s us = Inr ()" "subject_lifecycle_from_dict (lifecycle_of s) = Inr l"
  obtains h where "scan_updates canon sha (ss_subject_id s) us scan_start = Inr h" "hs_lifecycle h = Some l"
proof -
  obtain h where h: "scan_updates canon sha (ss_subject_id s) us scan_start = Inr h"
    "py_eq (lifecycle_of s) (opt_val subject_lifecycle_to_dict (hs_lifecycle h))"
    using assms(1) by (auto simp: validate_history_def rbind_eq_Inr)
  show thesis
  proof (cases "hs_lifecycle h")
    case None
    with h(2) assms(2) show thesis by (simp add: subject_lifecycle_from_dict_def)
  next
    case (Some k)
    with h lifecycle_py_eq [OF assms(2), of k] that show thesis by simp
  qed
qed

lemma stored_lifecycle:
  assumes "wf_subject s" "validate_history canon sha s us = Inr ()"
    "scan_updates canon sha (ss_subject_id s) us scan_start = Inr h" "hs_lifecycle h = Some l"
  shows "subject_lifecycle_from_dict (lifecycle_of s) = Inr l"
proof -
  have e: "py_eq (lifecycle_of s) (subject_lifecycle_to_dict l)"
    using assms(2-4) by (auto simp: validate_history_def rbind_eq_Inr)
  then have "lifecycle_of s \<noteq> PNone" by (auto simp: subject_lifecycle_to_dict_def)
  with normal_lifecycle [OF assms(1)] obtain k where "subject_lifecycle_from_dict (lifecycle_of s) = Inr k" by blast
  with lifecycle_py_eq [OF this e] show ?thesis by simp
qed

lemma grows_lifecycle:
  assumes "content canon sha st p = Some (s, us)" "content canon sha st' p = Some (t, us @ vs)"
    "ss_subject_id s = ss_subject_id t" "subject_lifecycle_from_dict (lifecycle_of s) = Inr l"
  obtains k where "subject_lifecycle_from_dict (lifecycle_of t) = Inr k"
    "sl_owner_principal_id k = sl_owner_principal_id l" "sl_environment k = sl_environment l"
    "sl_status l = ''DELETED'' \<longrightarrow> k = l"
proof -
  note s = content_wf [OF assms(1)] and t = content_wf [OF assms(2)]
  obtain h where h: "scan_updates canon sha (ss_subject_id s) us scan_start = Inr h" "hs_lifecycle h = Some l"
    using lifecycle_history [OF s(3) assms(4)] .
  obtain j where j: "scan_updates canon sha (ss_subject_id t) (us @ vs) scan_start = Inr j"
    using t(3) by (auto simp: validate_history_def rbind_eq_Inr)
  with h(1) assms(3) have "scan_updates canon sha (ss_subject_id t) vs h = Inr j"
    by (simp add: scan_updates_append)
  from scan_updates_kept [OF this] h(2) obtain k where k: "hs_lifecycle j = Some k"
    "sl_owner_principal_id k = sl_owner_principal_id l" "sl_environment k = sl_environment l"
    "sl_status l = ''DELETED'' \<longrightarrow> k = l" by (auto simp: lifecycle_kept_def)
  from stored_lifecycle [OF t(1,3) j k(1)] k that show thesis by blast
qed

text \<open>The subject of a file with a history is the subject of every update in it.\<close>

lemma history_subject:
  assumes "content canon sha st p = Some (s, us)" "u \<in> set us"
  shows "su_subject_id u = ss_subject_id s"
proof -
  obtain h where "scan_updates canon sha (ss_subject_id s) us scan_start = Inr h"
    using content_wf(3) [OF assms(1)] by (auto simp: validate_history_def rbind_eq_Inr)
  from scan_updates_Inr [OF this] assms(2) show ?thesis by blast
qed

lemma state_update_json:
  assumes "wf_state_update u"
  shows "json_ok (state_update_to_dict u)"
proof -
  have "json_ok (event_to_dict (su_event u))"
    using assms by (auto simp: wf_state_update_def wf_event_def event_to_dict_def event_fields_def list_all_iff
        state_mutation_to_dict_def event_evidence_to_dict_def event_reference_to_dict_def wf_mutation_def opt_val_def
        split: option.splits)
  with assms show ?thesis
    by (auto simp: wf_state_update_def state_update_to_dict_def list_all_iff wf_field_change_def field_change_to_dict_def)
qed

lemma demo_run_ok:
  assumes "list_all call_ok cs"
  shows "run_ok demo_canon (\<lambda>s. s) (map (Pair demo_ports) cs)"
  using assms by (auto simp: run_under_def considerate_def demo_ports_def ext.advances_refl list_all_iff)

text \<open>A load-edit-save and then an event.\<close>

definition demo_calls :: "subject_operation list" where
  "demo_calls = [Call_save (demo_evolved\<lparr>ss_identity := empty_identity\<lparr>idn_self_concept := ''edited''\<rparr>\<rparr>),
     Call_apply_event ''s'' demo_change None]"

lemma demo_calls_ok: "list_all call_ok demo_calls"
  by (simp add: demo_calls_def demo_change_wf demo_evolved_def)

lemma demo_quiet: "quiet demo_ports" "sv_canon demo_ports = demo_canon" "sv_sha demo_ports = (\<lambda>s. s)"
  by (simp_all add: quiet_def demo_ports_def)

lemma demo_ids: "ss_subject_id demo_subject = ''s''" "ss_subject_id demo_deleted = ''s''" "\<not> blank ''s''"
  "ss_revision demo_subject = 0" "ev_event_id demo_change = ''e1''"
  by (simp_all add: demo_subject_def demo_deleted_def demo_change_def blank_def py_space_def)

lemma demo_deleted_value:
  "subject_lifecycle_from_dict (lifecycle_of demo_deleted) = Inr (demo_value ''DELETED'')"
  by (simp add: demo_deleted_def)

lemma demo_is_deleted: "deleted_subject demo_deleted"
  by (simp add: deleted_subject_def demo_deleted_value)

lemma demo_outcome:
  "event_outcome demo_ports ''s'' demo_change None demo_subject [] =
    Inr \<lparr>er_state = demo_evolved, er_update = demo_update, er_idempotent_replay = False\<rparr>"
proof -
  have "admit_event ''s'' demo_subject [] demo_change None (Abs_instant 9) = Inr ()"
    by (simp add: admit_event_def check_references_def demo_change_def ensure_def)
  moreover have "lifecycle_active (lifecycle_of demo_subject) None = Inr ()" "lifecycle_mutations demo_change = []"
    by (simp_all add: demo_subject_def lifecycle_active_def lifecycle_status_def lifecycle_mutations_def demo_change_def)
  moreover have "sv_clock demo_ports = utc_val (Abs_instant 9)" "sv_uuid demo_ports = ''u1''"
    by (simp_all add: demo_ports_def)
  ultimately show ?thesis by (simp add: event_outcome_def ensure_def instant_now demo_evolve)
qed

definition demo_creation :: subject_ports where
  "demo_creation = demo_ports\<lparr>sv_clock := utc_val (Abs_instant 5)\<rparr>"

lemma demo_created: "subject_run [(demo_creation, Call_create ''s'')] (\<lambda>_. File_Absent) = demo_store"
proof -
  have p: "sv_canon demo_creation = demo_canon" "sv_sha demo_creation = (\<lambda>s. s)" "sv_disk demo_creation = None"
    "sv_clock demo_creation = utc_val (Abs_instant 5)" "quiet demo_creation"
    by (simp_all add: demo_creation_def demo_ports_def quiet_def)
  have v: "validate_history demo_canon (\<lambda>s. s) demo_subject [] = Inr ()"
    by (simp add: validate_history_def scan_start_def ensure_def demo_subject_def)
  have "subject_save demo_canon (\<lambda>s. s) None demo_subject (\<lambda>_. File_Absent) = Inr demo_store"
    using v subject_to_dict_run [OF demo_wf] demo_ids demo_subject_json
    by (simp add: subject_save_def subject_path_def ensure_def write_payload_def demo_store_def)
  then have "subject_service_create demo_creation ''s'' (\<lambda>_. File_Absent) = (demo_store, Inr demo_subject)"
    using p demo_ids by (simp add: subject_service_create_def at_store_quiet sv_exists_def sv_write_def
        sbind_def sread_def swrite_def prog_simps subject_exists_def subject_path_def ensure_def demo_create)
  then show ?thesis by (simp add: sbind_def prog_simps)
qed

section \<open>Evolution\<close>

text \<open>
  C5: when an event is applied, the record says everything that changed and nothing else: redoing
  its changes one after the other on the old state gives the new one; each change names the value
  it found and a different one it left, and was asked for by a mutation of the event within its
  impact scope, or is the newer interaction time or the time of the update; the revision is
  raised by one if anything changed and else stays.
\<close>

theorem evolution_is_audited:
  assumes "wf_subject s" "evolve uuid s e at_val = Inr r"
  shows "leads_to (normal_state s) (su_changes (er_update r)) ((er_state r)\<lparr>ss_revision := ss_revision s\<rparr>) \<and>
    list_all (\<lambda>c. requested e c \<or> newer_interaction e c \<or> fc_field_path c = ''temporal.updated_at'')
      (su_changes (er_update r)) \<and>
    ss_revision (er_state r) = ss_revision s + (if su_changes (er_update r) = [] then 0 else 1) \<and>
    su_before_revision (er_update r) = ss_revision s \<and> su_after_revision (er_update r) = ss_revision (er_state r) \<and>
    tmp_updated_at (ss_temporal s) \<le> tmp_updated_at (ss_temporal (er_state r)) \<and>
    su_event (er_update r) = e \<and> su_subject_id (er_update r) = ss_subject_id s"
proof -
  from evolve_sound [OF assms] obtain t where t: "evolution_step (normal_state s) e t (er_state r) (er_update r)" by blast
  then obtain s1 where s1: "leads_to (normal_state s) (su_changes (er_update r)) s1"
    "er_state r = s1\<lparr>ss_revision := su_after_revision (er_update r)\<rparr>" by (auto simp: evolution_step_def)
  have "s1 = (er_state r)\<lparr>ss_revision := ss_revision s\<rparr>"
    using leads_to_frame(2) [OF s1(1)] s1(2) by simp
  moreover have "su_after_revision (er_update r) = ss_revision (er_state r)" using s1(2) by simp
  ultimately show ?thesis using s1(1) t by (simp add: evolution_step_def)
qed

theorem evolution_is_audited_witness:
  "leads_to demo_subject (su_changes demo_update) (demo_evolved\<lparr>ss_revision := 0\<rparr>) \<and>
    su_changes demo_update \<noteq> [] \<and> ss_revision demo_evolved = 1"
proof -
  have "su_changes demo_update \<noteq> []" by (simp add: demo_update_def)
  with evolution_is_audited [OF demo_wf demo_evolve] show ?thesis by (simp add: demo_normal demo_ids)
qed

section \<open>Histories\<close>

text \<open>
  C6: once an event has changed a subject, no run of calls takes an update from its history, and the
  current state is always what the changes recorded since then make of the state before them. The
  calls are any calls of the services, with direct saves of any state among them, and while they run
  other calls of the same kind may write to the files between any two of their accesses.
\<close>

theorem history_is_append_only:
  assumes "run_ok canon sha cs" "content canon sha st p = Some (s, us)" "\<exists>u \<in> set us. su_changes u \<noteq> []"
  shows "\<exists>t vs. content canon sha (subject_run cs st) p = Some (t, us @ vs) \<and>
    evolves (normal_state s) vs (normal_state t)"
proof -
  from assms(3) have "us \<noteq> []" by auto
  from run_grows [OF assms(1,2) this] obtain t vs where
    t: "content canon sha (subject_run cs st) p = Some (t, us @ vs)" "grows (s, us) (t, us @ vs)" .
  with assms(3) have "evolves (normal_state s) vs (normal_state t)" by (auto simp: grows_def)
  with t(1) show ?thesis by blast
qed

theorem history_is_append_only_witness:
  "\<exists>st. content demo_canon (\<lambda>s. s) st ''s'' = Some (demo_evolved, [demo_update]) \<and>
    (\<exists>t vs. content demo_canon (\<lambda>s. s) (subject_run (map (Pair demo_ports) demo_calls) st) ''s''
      = Some (t, [demo_update] @ vs) \<and> evolves (normal_state demo_evolved) vs (normal_state t))"
proof -
  obtain st where st: "content demo_canon (\<lambda>s. s) st ''s'' = Some (demo_evolved, [demo_update])"
    by (rule demo_evolved_content)
  have "\<exists>u \<in> set [demo_update]. su_changes u \<noteq> []" by (simp add: demo_update_def)
  from history_is_append_only [OF demo_run_ok [OF demo_calls_ok] st this] st show ?thesis by auto
qed

section \<open>The lifecycle\<close>

text \<open>
  C12: whatever calls are made, direct saves of any state among them, and whatever other such calls
  write in between, a managed subject keeps its owner and its environment, and a deleted one keeps its
  lifecycle document as it is.
\<close>

theorem owner_is_fixed:
  assumes "run_ok canon sha cs" "content canon sha st p = Some (s, us)"
    and "subject_lifecycle_from_dict (lifecycle_of s) = Inr l"
  shows "\<exists>t vs k. content canon sha (subject_run cs st) p = Some (t, us @ vs) \<and>
    subject_lifecycle_from_dict (lifecycle_of t) = Inr k \<and>
    sl_owner_principal_id k = sl_owner_principal_id l \<and> sl_environment k = sl_environment l \<and>
    (sl_status l = ''DELETED'' \<longrightarrow> k = l)"
proof -
  obtain h where "scan_updates canon sha (ss_subject_id s) us scan_start = Inr h" "hs_lifecycle h = Some l"
    using lifecycle_history [OF content_wf(3) [OF assms(2)] assms(3)] .
  then have "us \<noteq> []" by (auto simp: scan_start_def)
  from run_grows [OF assms(1,2) this] obtain t vs where
    t: "content canon sha (subject_run cs st) p = Some (t, us @ vs)" .
  from \<open>us \<noteq> []\<close> obtain u where "u \<in> set us" by (cases us) auto
  with history_subject [OF assms(2)] history_subject [OF t] have "ss_subject_id s = ss_subject_id t" by auto
  from grows_lifecycle [OF assms(2) t this assms(3)] obtain k where
    "subject_lifecycle_from_dict (lifecycle_of t) = Inr k" "sl_owner_principal_id k = sl_owner_principal_id l"
    "sl_environment k = sl_environment l" "sl_status l = ''DELETED'' \<longrightarrow> k = l" .
  with t show ?thesis by (intro exI [of _ t] exI [of _ vs] exI [of _ k]) simp
qed

theorem owner_is_fixed_witness:
  "\<exists>st t vs. content demo_canon (\<lambda>s. s) st ''s'' = Some (demo_deleted, demo_managed_history) \<and>
    content demo_canon (\<lambda>s. s) (subject_run (map (Pair demo_ports) demo_calls) st) ''s''
      = Some (t, demo_managed_history @ vs) \<and>
    subject_lifecycle_from_dict (lifecycle_of t) = Inr (demo_value ''DELETED'')"
proof -
  obtain st where st: "content demo_canon (\<lambda>s. s) st ''s'' = Some (demo_deleted, demo_managed_history)"
    by (rule demo_deleted_content)
  from owner_is_fixed [OF demo_run_ok [OF demo_calls_ok] st demo_deleted_value] st show ?thesis by auto
qed

text \<open>
  C13: no call can change a deleted subject: creating it again, saving it, applying an event,
  recording an interaction and submitting a lifecycle command all leave the store as it is.
\<close>

theorem deleted_subject_is_frozen:
  assumes "quiet pp" "stored pp st (call_subject c) = Some (s, us)" "ss_subject_id s = call_subject c"
    "\<not> blank (call_subject c)" "deleted_subject s"
  shows "fst (subject_call pp c st) = st"
proof -
  note na = deleted_not_active [OF assms(5)]
  have unit: "fst (sbind m (\<lambda>_. sret ()) st) = fst (m st)" for m :: "'a subject_prog"
    by (simp add: sbind_def prog_simps split: prod.split sum.split)
  show ?thesis
  proof (cases c)
    case (Call_create i)
    with existing_create [OF assms(1-4)] show ?thesis by (simp add: unit)
  next
    case (Call_save t)
    with inactive_save [OF assms(1), of st t s us] assms(2-4) na show ?thesis by (simp add: unit)
  next
    case (Call_apply_event i e n)
    with inactive_event [OF assms(1-4) na, of e n] show ?thesis by (simp add: unit)
  next
    case (Call_record_interaction i now uuid)
    have "fst (record_interaction pp i now uuid st) = st"
    proof (cases "interaction_event uuid now")
      case (Inr e)
      obtain st' r where "apply_event pp i e None st = (st', r)" by fastforce
      with inactive_event [OF assms(1-4) na, of e None] Inr Call_record_interaction show ?thesis
        by (cases r) (simp_all add: record_interaction_def sbind_def prog_simps)
    qed (simp add: record_interaction_def sbind_def prog_simps)
    with Call_record_interaction show ?thesis by (simp add: unit)
  next
    case (Call_submit lv k)
    with deleted_command [OF assms(1), of st k s us lv] assms(2-5) show ?thesis by (simp add: unit)
  qed
qed

theorem deleted_subject_is_frozen_witness:
  "\<exists>st. stored demo_ports st ''s'' = Some (demo_deleted, demo_managed_history) \<and>
    fst (subject_call demo_ports (Call_apply_event ''s'' demo_change None) st) = st"
proof -
  let ?c = "Call_apply_event ''s'' demo_change None"
  obtain st where st: "content demo_canon (\<lambda>s. s) st ''s'' = Some (demo_deleted, demo_managed_history)"
    by (rule demo_deleted_content)
  have i: "call_subject ?c = ''s''" by simp
  have "stored demo_ports st (call_subject ?c) = Some (demo_deleted, demo_managed_history)"
    unfolding i demo_quiet by (rule st)
  moreover have "ss_subject_id demo_deleted = call_subject ?c" "\<not> blank (call_subject ?c)"
    unfolding i by (rule demo_ids)+
  ultimately have "fst (subject_call demo_ports ?c st) = st"
    using demo_quiet(1) demo_is_deleted by (intro deleted_subject_is_frozen)
  with st show ?thesis unfolding demo_quiet by blast
qed

section \<open>Events\<close>

lemma leads_to_lifecycle:
  assumes "leads_to s cs t" "\<forall>c \<in> set cs. fc_field_path c \<noteq> lifecycle_path"
  shows "lifecycle_of t = lifecycle_of s"
  using assms
  by (induction cs arbitrary: s)
    (auto simp: redo_def set_field_lifecycle set_last_interaction_def set_updated_def split: if_splits option.splits)

lemma outcome_lifecycle:
  assumes "event_outcome pp i e n s us = Inr r" "wf_subject s" "wf_event e"
  shows "lifecycle_of (er_state r) = lifecycle_of (normal_state s) \<and> lifecycle_changes (er_update r) = []"
proof -
  from event_outcome_Inr [OF assms] obtain t where
    t: "evolution_step (normal_state s) e t (er_state r) (er_update r)" "lifecycle_mutations e = []" by metis
  then obtain s1 where s1: "leads_to (normal_state s) (su_changes (er_update r)) s1"
    "er_state r = s1\<lparr>ss_revision := su_after_revision (er_update r)\<rparr>" by (auto simp: evolution_step_def)
  have "fc_field_path c \<noteq> lifecycle_path" if "c \<in> set (su_changes (er_update r))" for c
  proof -
    from t(1) that have "requested e c \<or> newer_interaction e c \<or> fc_field_path c = ''temporal.updated_at''"
      by (auto simp: evolution_step_def list_all_iff)
    with t(2) show ?thesis
      by (auto simp: requested_def newer_interaction_def lifecycle_mutations_def filter_empty_conv)
  qed
  with leads_to_lifecycle [OF s1(1)] s1(2) show ?thesis
    by (auto simp: lifecycle_changes_def filter_empty_conv)
qed

text \<open>
  C18: applying an event is all or nothing: the call raises and the store is as before; or the
  history has this very event already, its record is returned and the store is as before; or the
  event was unknown, and the one file of the subject holds the new state and the old history with
  exactly this update at its end. An event applied this way never moves the lifecycle.
\<close>

theorem event_is_all_or_nothing:
  assumes "quiet pp" "stored pp st i = Some (s, us)" "ss_subject_id s = i" "\<not> blank i" "wf_event e"
  shows "(\<exists>x. apply_event pp i e n st = (st, Inl x)) \<or>
    (\<exists>u \<in> set us. ev_event_id (su_event u) = ev_event_id e \<and> py_eq (canonical_dict (su_event u)) (canonical_dict e) \<and>
      apply_event pp i e n st = (st, Inr (replayed s u))) \<or>
    (\<exists>r w. ev_event_id e \<notin> (\<lambda>u. ev_event_id (su_event u)) ` set us \<and> su_event (er_update r) = e \<and>
      apply_event pp i e n st = (st(sv_sha pp i := File_Doc w), Inr r) \<and>
      stored pp (st(sv_sha pp i := File_Doc w)) i = Some (normal_state (er_state r), us @ [er_update r]) \<and>
      lifecycle_of (er_state r) = lifecycle_of (normal_state s))"
proof (cases rule: apply_event_quiet [OF assms, of n])
  case (3 r st')
  have wf: "wf_subject s" using content_wf(1) assms(2) by blast
  have "su_event (er_update r) = e" using event_outcome_Inr [OF 3(2) wf assms(5)] by metis
  moreover obtain w where "st' = st(sv_sha pp i := File_Doc w)" using 3(5) by blast
  ultimately show ?thesis
    using 3(1,3,4) outcome_lifecycle [OF 3(2) wf assms(5)] unfolding find_event_None by blast
qed blast+


theorem event_is_all_or_nothing_witness:
  "(\<exists>x. apply_event demo_ports ''s'' demo_change None demo_store = (demo_store, Inl x)) \<or>
    (\<exists>r w. su_event (er_update r) = demo_change \<and>
      apply_event demo_ports ''s'' demo_change None demo_store = (demo_store(''s'' := File_Doc w), Inr r))"
proof -
  have "stored demo_ports demo_store ''s'' = Some (demo_subject, [])"
    unfolding demo_quiet by (rule demo_store_content)
  from event_is_all_or_nothing [OF demo_quiet(1) this demo_ids(1,3) demo_change_wf, of None]
  show ?thesis unfolding demo_quiet by (elim disjE bexE exE conjE) (simp_all, blast+)
qed
definition inadmissible :: "string \<Rightarrow> event \<Rightarrow> int option \<Rightarrow> subject_state \<Rightarrow> state_update list \<Rightarrow> bool" where
  "inadmissible i e n s us \<longleftrightarrow> lifecycle_mutations e \<noteq> [] \<or> lifecycle_status (lifecycle_of s) \<noteq> Inr ''ACTIVE'' \<or>
     (\<exists>k. n = Some k \<and> ss_revision s \<noteq> k) \<or>
     (\<exists>x \<in> set (ev_references e). er_target_subject_id x \<noteq> i \<or>
       er_target_event_id x \<notin> (\<lambda>u. ev_event_id (su_event u)) ` set us) \<or>
     (ev_classification e \<in> {Cls_FACT, Cls_OBSERVATION, Cls_INTENTION, Cls_CORRECTION, Cls_REVOCATION} \<and>
       ev_mutations e \<noteq> []) \<or>
     (\<exists>m \<in> set (ev_mutations e). \<forall>rule. map_of field_rules (sm_field_path m) = Some rule \<longrightarrow>
       fr_section rule \<notin> set (ev_impact_scope e))"

lemma evolve_mutations_rules:
  "evolve_mutations scope ms acc = Inr acc' \<Longrightarrow>
    \<forall>m \<in> set ms. \<exists>rule. map_of field_rules (sm_field_path m) = Some rule \<and> fr_section rule \<in> set scope"
  by (induction ms arbitrary: acc)
    (auto simp: rbind_eq_Inr evolve_mutation_def split: option.splits prod.splits)

text \<open>
  C19: what may not be applied is not: a new event that would write the lifecycle, that comes while
  the subject is not active, that expects another revision, that refers to an unknown event or to
  another subject, that mutates although it is a fact, an observation, an intention, a correction
  or a revocation, or that mutates a field without a rule or outside its impact scope, raises and
  leaves the store as it is.
\<close>

theorem inadmissible_event_refused:
  assumes "quiet pp" "stored pp st i = Some (s, us)" "ss_subject_id s = i" "\<not> blank i"
    "ev_event_id e \<notin> (\<lambda>u. ev_event_id (su_event u)) ` set us" "inadmissible i e n s us"
  shows "\<exists>x. apply_event pp i e n st = (st, Inl x)"
proof -
  have "\<exists>x. event_outcome pp i e n s us = Inl x"
  proof (rule ccontr)
    assume "\<nexists>x. event_outcome pp i e n s us = Inl x"
    then obtain r where "event_outcome pp i e n s us = Inr r" by (metis obj_sumE)
    then obtain t where o: "lifecycle_mutations e = []" "lifecycle_active (lifecycle_of s) None = Inr ()"
      "admit_event i s us e n t = Inr ()" "evolve (sv_uuid pp) s e (utc_val t) = Inr r"
      unfolding event_outcome_def by (elim rbindE) auto
    have "lifecycle_status (lifecycle_of s) = Inr ''ACTIVE''"
      using o(2) by (auto simp: lifecycle_active_def rbind_eq_Inr split: if_splits)
    moreover from o(3) have "n = Some k \<longrightarrow> ss_revision s = k" "\<not> (non_mutating (ev_classification e) \<and> ev_mutations e \<noteq> [])"
      "\<forall>x \<in> set (ev_references e). er_target_subject_id x = i \<and>
        er_target_event_id x \<in> (\<lambda>u. ev_event_id (su_event u)) ` set us" for k
      unfolding admit_event_def check_references_def by (auto simp: rbind_eq_Inr each_eq_Inr)
    moreover have "\<forall>m \<in> set (ev_mutations e). \<exists>rule. map_of field_rules (sm_field_path m) = Some rule \<and>
        fr_section rule \<in> set (ev_impact_scope e)"
      using o(4) evolve_mutations_rules unfolding evolve_def by (elim rbindE) blast
    ultimately show False using o(1) assms(6) unfolding inadmissible_def by auto
  qed
  moreover have "find_event (ev_event_id e) us = None" using assms(5) by (simp add: find_event_None)
  ultimately show ?thesis using apply_event_new [OF assms(1-4), of e n] by auto
qed

theorem inadmissible_event_refused_witness:
  "\<exists>x. apply_event demo_ports ''s'' demo_change (Some 3) demo_store = (demo_store, Inl x)"
proof -
  have "stored demo_ports demo_store ''s'' = Some (demo_subject, [])"
    unfolding demo_quiet by (rule demo_store_content)
  moreover have "inadmissible ''s'' demo_change (Some 3) demo_subject []"
    by (simp add: inadmissible_def demo_ids)
  ultimately show ?thesis using inadmissible_event_refused [OF demo_quiet(1) _ demo_ids(1,3)] by simp
qed

text \<open>
  A new event that is admitted and whose evolution succeeds is recorded, if the disk accepts
  the file: the update has a fresh identity, the new state and the update are JSON, and the event
  does not pose as a lifecycle command.
\<close>

theorem admitted_event_is_recorded:
  assumes "quiet pp" "stored pp st i = Some (s, us)" "ss_subject_id s = i" "\<not> blank i" "wf_event e"
    and fresh: "ev_event_id e \<notin> (\<lambda>u. ev_event_id (su_event u)) ` set us" "sv_uuid pp \<notin> su_update_id ` set us"
    and admitted: "event_outcome pp i e n s us = Inr r" "us = [] \<longrightarrow> ss_revision s = 0"
    and disk: "sv_disk pp = None" "json_ok (subject_document (er_state r))" "json_ok (state_update_to_dict (er_update r))"
    and new: "wf_subject (er_state r)" "\<not> lifecycle_managed e"
  shows "\<exists>st'. apply_event pp i e n st = (st', Inr r) \<and>
    stored pp st' i = Some (normal_state (er_state r), us @ [er_update r])"
proof -
  note c = content_wf [OF assms(2)]
  from event_outcome_Inr [OF admitted(1) c(1) assms(5)] obtain t where
    e: "admit_event i s us e n t = Inr ()" "evolution_step (normal_state s) e t (er_state r) (er_update r)"
      "ss_subject_id (er_state r) = i" "su_event (er_update r) = e" "su_subject_id (er_update r) = i"
      "su_before_revision (er_update r) = ss_revision s" "su_after_revision (er_update r) = ss_revision (er_state r)"
      "lifecycle_mutations e = []" "su_update_id (er_update r) = sv_uuid pp"
    using assms(3) by metis
  obtain h where h: "scan_updates (sv_canon pp) (sv_sha pp) i us scan_start = Inr h"
    "us \<noteq> [] \<longrightarrow> hs_revision h = ss_revision s"
    "py_eq (lifecycle_of s) (opt_val subject_lifecycle_to_dict (hs_lifecycle h))"
    using c(3) assms(3) by (auto simp: validate_history_def rbind_eq_Inr)
  have ids: "set (hs_update_ids h) = su_update_id ` set us"
    "set (hs_event_ids h) = (\<lambda>u. ev_event_id (su_event u)) ` set us" and
    rev: "hs_revision h = ss_revision s"
    using scan_updates_Inr [OF h(1)] h(2) admitted(2) by (auto simp: scan_start_def)
  have l: "lifecycle_of (er_state r) = lifecycle_of (normal_state s)" "lifecycle_changes (er_update r) = []"
    using outcome_lifecycle [OF admitted(1) c(1) assms(5)] by auto
  have "\<forall>x \<in> set (ev_references e). er_target_subject_id x = i \<and>
      er_target_event_id x \<in> (\<lambda>u. ev_event_id (su_event u)) ` set us"
    using e(1) unfolding admit_event_def check_references_def by (auto simp: rbind_eq_Inr each_eq_Inr)
  then have refs: "each (\<lambda>x. rbind (ensure (er_target_subject_id x = i) a) (\<lambda>_.
      ensure (er_target_event_id x \<in> set (hs_event_ids h)) b)) (ev_references e) = Inr ()" for a b
    by (simp add: each_eq_Inr rbind_eq_Inr ids)
  have "ss_revision (er_state r) \<in> {ss_revision s, ss_revision s + 1}"
    using evolution_step_revision [OF e(2)] by simp
  with refs have u: "scan_update (sv_canon pp) (sv_sha pp) i (er_update r) h =
      Inr \<lparr>hs_update_ids = su_update_id (er_update r) # hs_update_ids h, hs_event_ids = ev_event_id e # hs_event_ids h,
        hs_revision = ss_revision (er_state r), hs_lifecycle = hs_lifecycle h\<rparr>"
    using e fresh ids rev l(2) new(2)
    by (simp add: scan_update_def Let_def rbind_eq_Inr advance_lifecycle_def ids)
  have "py_eq (lifecycle_of (er_state r)) (opt_val subject_lifecycle_to_dict (hs_lifecycle h))"
    using validate_history_normal [OF c(1,3)] h(1) assms(3) l(1)
    by (auto simp: validate_history_def rbind_eq_Inr)
  with h(1) u e(3) have v: "validate_history (sv_canon pp) (sv_sha pp) (er_state r) (us @ [er_update r]) = Inr ()"
    by (simp add: validate_history_def scan_updates_append ensure_def)
  have "json_ok (state_update_to_dict x)" if "x \<in> set us" for x
    using c(2) that by (simp add: list_all_iff state_update_json)
  with v disk new(1) have env: "\<exists>w. envelope (sv_canon pp) (sv_sha pp) (er_state r) (us @ [er_update r]) = Inr w \<and> json_ok w"
    by (simp add: envelope_def subject_to_dict_run list_all_iff)
  obtain raw where raw: "st (sv_sha pp i) = File_Doc raw" "decode_document (sv_canon pp) (sv_sha pp) raw = Inr (s, us)"
    using assms(2) by (auto simp: content_Some)
  have "find_event (ev_event_id e) us = None" using fresh(1) by (simp add: find_event_None)
  then have "\<exists>st'. save_transition (sv_canon pp) (sv_sha pp) (sv_disk pp) (er_state r) (er_update r) st = Inr st'"
    using raw env e(3-7) e(9) fresh assms(3,4) disk(1)
    by (auto simp: save_transition_def subject_path_def ensure_def read_payload_def write_payload_def)
  then obtain st' where "save_transition (sv_canon pp) (sv_sha pp) (sv_disk pp) (er_state r) (er_update r) st = Inr st'" ..
  from written_quiet [OF assms(1-5) _ admitted(1) this] fresh(1) show ?thesis by (auto simp: find_event_None)
qed

theorem admitted_event_is_recorded_witness:
  "\<exists>st'. apply_event demo_ports ''s'' demo_change None demo_store =
      (st', Inr \<lparr>er_state = demo_evolved, er_update = demo_update, er_idempotent_replay = False\<rparr>) \<and>
    stored demo_ports st' ''s'' = Some (demo_evolved, [demo_update])"
proof -
  have s: "stored demo_ports demo_store ''s'' = Some (demo_subject, [])"
    unfolding demo_quiet by (rule demo_store_content)
  have j: "json_ok (subject_document demo_evolved)" "json_ok (state_update_to_dict demo_update)"
    by (rule demo_evolved_json, rule state_update_json [OF demo_update_wf])
  have "\<not> lifecycle_managed demo_change" by (simp add: lifecycle_managed_def demo_change_def)
  with admitted_event_is_recorded [OF demo_quiet(1) s demo_ids(1,3) demo_change_wf _ _ demo_outcome] demo_ids
    demo_evolved_wf j show ?thesis by (simp add: demo_ports_def)
qed

section \<open>Every file\<close>

lemma evolves_start:
  assumes "evolves r us t" "revision_chain n us (ss_revision t)"
  shows "ss_revision r = n"
  using assms
proof (induction us arbitrary: r n)
  case Nil
  then show ?case by (simp add: equal_states_revision)
next
  case (Cons u us)
  show ?case
  proof (cases "su_changes u = []")
    case True
    with Cons.prems have "evolves r us t" "revision_chain n us (ss_revision t)" by auto
    then show ?thesis by (rule Cons.IH)
  next
    case False
    with Cons.prems obtain q s' where "wf_subject q" "equal_states r (normal_state q)"
      "evolution_step (normal_state q) (su_event u) (su_applied_at u) s' u" "su_before_revision u = n" by auto
    with equal_states_revision [OF this(2)] show ?thesis by (auto simp: evolution_step_def)
  qed
qed

text \<open>
  C11: in an empty directory, whatever calls are made, direct saves of any state among them: every
  state file that can be read has a history of distinct updates and distinct events of this one
  subject; and if there is a history, each update is one step on from the revision before it, from 0 to
  the revision of the state, and the state is the replay of the recorded changes from a state of
  revision 0. (A file without a history holds what was last saved, at any revision.) Other calls may
  write between any two accesses of a call, but must not move the revision of a file without a history
  under it: \<open>save_transition\<close> compares only revisions.
\<close>

theorem every_file_is_its_history:
  assumes "run_paced canon sha cs" "content canon sha (subject_run cs (\<lambda>_. File_Absent)) p = Some (s, us)"
  shows "distinct (map su_update_id us) \<and> distinct (map (\<lambda>u. ev_event_id (su_event u)) us) \<and>
    (\<forall>u \<in> set us. su_subject_id u = ss_subject_id s) \<and>
    (us \<noteq> [] \<longrightarrow> revision_chain 0 us (ss_revision s) \<and> (\<exists>r. ss_revision r = 0 \<and> evolves r us (normal_state s)))"
proof -
  have "keeps_replays (content canon sha (\<lambda>_. File_Absent) p) (content canon sha (subject_run cs (\<lambda>_. File_Absent)) p)"
    using run_replays [OF assms(1)] by (simp add: advances_def)
  with assms(2) obtain r where r: "evolves r us (normal_state s)"
    by (auto simp: keeps_replays_def content_def begins_def)
  obtain h where h: "scan_updates canon sha (ss_subject_id s) us scan_start = Inr h"
    "us \<noteq> [] \<longrightarrow> hs_revision h = ss_revision s"
    using content_wf(3) [OF assms(2)] by (auto simp: validate_history_def rbind_eq_Inr)
  have chain: "revision_chain 0 us (ss_revision s)" if "us \<noteq> []"
    using scan_updates_Inr [OF h(1)] h(2) that by (simp add: scan_start_def)
  with r have "us \<noteq> [] \<Longrightarrow> ss_revision r = 0" using evolves_start [OF r, of 0] content_wf(1) [OF assms(2)] by simp
  with r chain scan_updates_Inr [OF h(1)] scan_updates_distinct [OF h(1)] show ?thesis
    by (auto simp: scan_start_def)
qed

theorem every_file_is_its_history_witness:
  "content demo_canon (\<lambda>s. s) (subject_run
      [(demo_creation, Call_create ''s''), (demo_ports, Call_apply_event ''s'' demo_change None)] (\<lambda>_. File_Absent)) ''s''
    = Some (demo_evolved, [demo_update]) \<and> revision_chain 0 [demo_update] (ss_revision demo_evolved) \<and>
    (\<exists>r. ss_revision r = 0 \<and> evolves r [demo_update] (normal_state demo_evolved))"
proof -
  let ?cs = "[(demo_creation, Call_create ''s''), (demo_ports, Call_apply_event ''s'' demo_change None)]"
  have run: "run_paced demo_canon (\<lambda>s. s) ?cs"
    by (simp add: run_under_def considerate_def demo_creation_def demo_ports_def fol.advances_refl demo_change_wf)
  obtain st' where "apply_event demo_ports ''s'' demo_change None demo_store =
      (st', Inr \<lparr>er_state = demo_evolved, er_update = demo_update, er_idempotent_replay = False\<rparr>)"
    "stored demo_ports st' ''s'' = Some (demo_evolved, [demo_update])"
    using admitted_event_is_recorded_witness by blast
  then have "fst (subject_call demo_ports (Call_apply_event ''s'' demo_change None) demo_store) = st'"
    "content demo_canon (\<lambda>s. s) st' ''s'' = Some (demo_evolved, [demo_update])"
    by (simp_all add: sbind_def prog_simps demo_quiet)
  moreover have "subject_run ?cs (\<lambda>_. File_Absent) =
      fst (subject_call demo_ports (Call_apply_event ''s'' demo_change None) demo_store)"
    using demo_created by simp
  ultimately have c: "content demo_canon (\<lambda>s. s) (subject_run ?cs (\<lambda>_. File_Absent)) ''s'' = Some (demo_evolved, [demo_update])"
    by simp
  have "[demo_update] \<noteq> []" by simp
  with every_file_is_its_history [OF run c] c show ?thesis by blast
qed

section \<open>Documents\<close>

text \<open>
  C40: whatever state the repository can write is read back as a state that is written as the very
  same document, with the same identity and revision; and whatever it reads it can write again.
\<close>

theorem subject_document_roundtrip:
  shows "subject_to_dict s = Inr d \<Longrightarrow> \<not> blank (ss_subject_id s) \<Longrightarrow> 0 \<le> ss_revision s \<Longrightarrow>
    \<exists>n. subject_from_dict d = Inr n \<and> subject_to_dict n = Inr d \<and> ss_subject_id n = ss_subject_id s \<and>
      ss_revision n = ss_revision s \<and> (\<forall>v m. subject_from_dict v = Inr m \<longrightarrow> (\<exists>e. subject_to_dict m = Inr e))"
proof -
  assume "subject_to_dict s = Inr d" "\<not> blank (ss_subject_id s)" "0 \<le> ss_revision s"
  then have "wf_subject s" "d = subject_document s" using subject_to_dict_wf by blast+
  with subject_roundtrip [of s] subject_from_dict_wf show ?thesis
    by (intro exI [of _ "normal_state s"]) (auto simp: wf_subject_def)
qed

theorem subject_document_roundtrip_witness:
  "\<exists>n. subject_from_dict (subject_document demo_subject) = Inr n \<and> subject_to_dict n = Inr (subject_document demo_subject)"
  using subject_document_roundtrip [OF subject_to_dict_run [OF demo_wf]] demo_ids by auto

section \<open>Unfinished items\<close>

lemma second_parts:
  assumes "0 \<le> d" "d < (1000000 :: int)"
  shows "(1000000 * q + d) div 86400000000 = q div 86400"
    "(1000000 * q + d) mod 86400000000 = 1000000 * (q mod 86400) + d"
proof -
  have e: "(86400000000 :: int) = 1000000 * 86400" by simp
  have "(1000000 * q + d) div 1000000 = q" "(1000000 * q + d) mod 1000000 = d" using assms by simp_all
  moreover have "x div 86400000000 = x div 1000000 div 86400"
    "x mod 86400000000 = 1000000 * (x div 1000000 mod 86400) + x mod 1000000" for x :: int
    unfolding e by (rule zdiv_zmult2_eq zmod_zmult2_eq; simp)+
  ultimately show "(1000000 * q + d) div 86400000000 = q div 86400"
    "(1000000 * q + d) mod 86400000000 = 1000000 * (q mod 86400) + d" by metis+
qed

lemma format_z_second:
  assumes "usec t mod 1000000 = 0" "usec t' = usec t + d" "0 < d" "d < 1000000"
  shows "format_z t' < format_z t"
proof -
  obtain q where q: "usec t = 1000000 * q + 0" using assms(1) by (auto simp: mod_eq_0_iff_dvd dvd_def)
  with assms(2) have q': "usec t' = 1000000 * q + d" by simp
  let ?p = "let days = q div 86400; sec = q mod 86400; (y, m, d) = ord2ymd (days + 1)
     in digits 4 y @ ''-'' @ digits 2 m @ ''-'' @ digits 2 d @ ''T'' @
        digits 2 (sec div 3600) @ '':'' @ digits 2 (sec div 60 mod 60) @ '':'' @ digits 2 (sec mod 60)"
  have "format_z t = ?p @ ''Z''" "format_z t' = ?p @ ''.'' @ digits 6 d @ ''Z''"
    using assms(3,4) unfolding format_z_def iso_body_def q q'
    by (simp_all only: second_parts [of 0] second_parts [of d] Let_def; simp split: prod.split)+
  moreover have "p @ ''.'' @ x < p @ ''Z''" for p x :: string
    by (induction p) (simp_all add: less_char_def)
  ultimately show ?thesis by metis
qed
text \<open>
  An item that was created on a whole second cannot be written back with any later time of
  that second as its time of update: the two times are compared as texts, and ``.'' comes before
  ``Z''.
\<close>

theorem progress_within_the_second_refused:
  assumes "unfinished_item_from_dict (unfinished_item_to_dict i) = Inr i"
    and "usec (ui_created_at i) mod 1000000 = 0" "usec t = usec (ui_created_at i) + d" "0 < d" "d < 1000000"
  shows "unfinished_item_from_dict (unfinished_item_to_dict (i\<lparr>ui_updated_at := t\<rparr>))
    = Inl (item_err ''TIME_ORDER_INVALID'')"
proof -
  have "format_z t < format_z (ui_created_at i)" using assms(2-5) by (rule format_z_second)
  with assms(1) show ?thesis
    unfolding unfinished_item_from_dict_def unfinished_item_to_dict_def unfinished_item_init_def
    by (auto simp: shaped_dict_def has_shape_def rbind_eq_Inr item_fields_def split: if_splits)
qed

definition demo_item :: unfinished_item where
  "demo_item = \<lparr>ui_item_id = ''i'', ui_subject_id = ''s'', ui_environment = ''TEST'', ui_title = ''t'',
     ui_source_roots = [''e1''], ui_willing = True, ui_importance_reason = ''r'', ui_urgency = ''LOW'', ui_due_at = None,
     ui_wait_condition = None, ui_next_step = ''n'', ui_status = ''OPEN'', ui_created_at = Abs_instant 0,
     ui_updated_at = Abs_instant 0, ui_revision = 0, ui_completion = None, ui_last_progress = None\<rparr>"

theorem progress_within_the_second_refused_witness:
  "unfinished_item_from_dict (unfinished_item_to_dict demo_item) = Inr demo_item \<and>
    unfinished_item_from_dict (unfinished_item_to_dict (demo_item\<lparr>ui_updated_at := Abs_instant 500000\<rparr>))
      = Inl (item_err ''TIME_ORDER_INVALID'')"
proof -
  have "\<not> blank ''i''" "\<not> blank ''s''" "\<not> blank ''t''" "\<not> blank ''e1''" "\<not> blank ''r''" "\<not> blank ''n''"
    by (simp_all add: blank_def py_space_def)
  then have "unfinished_item_from_dict (unfinished_item_to_dict demo_item) = Inr demo_item"
    by (simp add: unfinished_item_from_dict_def unfinished_item_to_dict_def demo_item_def shaped_dict_def has_shape_def
        item_fields_def unfinished_item_init_def item_text_def item_boundary_def in_strings_def item_statuses_def
        distinct_values_def item_time_optional_def item_text_optional_def item_completion_def ensure_def)
  with progress_within_the_second_refused [OF this, of "Abs_instant 500000" 500000] show ?thesis
    by (simp add: demo_item_def)
qed

end
