(* ===== verification/Timeline_Properties.thy ===== *)
theory Timeline_Properties
  imports Timeline Subject_Properties
begin

text \<open>
  The timeline of a subject: it can always be rebuilt, shows every event once and in order, and
  says of each event what the later ones make of it.
\<close>

section \<open>The passes over the history\<close>

lemma scan_to_index:
  assumes "scan_updates canon sha i us h = Inr k"
    "set (hs_event_ids h) = (\<lambda>u. ev_event_id (su_event u)) ` set seen"
  shows "index_records i us seen = Inr ()"
  using assms
proof (induction us arbitrary: h seen)
  case (Cons u us)
  then obtain j where j: "scan_update canon sha i u h = Inr j" "scan_updates canon sha i us j = Inr k"
    by (auto simp: rbind_eq_Inr)
  note u = scan_update_Inr [OF j(1)]
  have "find_event (ev_event_id (su_event u)) seen = None"
    using u(3) Cons.prems(2) by (simp add: find_event_None)
  moreover have "each (\<lambda>r. rbind (ensure (er_target_subject_id r = i) a) (\<lambda>_.
      ensure (er_target_event_id r \<in> (\<lambda>u. ev_event_id (su_event u)) ` set seen) b)) (ev_references (su_event u)) = Inr ()" for a b
    using u(6) Cons.prems(2) by (simp add: each_eq_Inr rbind_eq_Inr)
  moreover have "index_records i us (seen @ [u]) = Inr ()"
    using u(9) Cons.prems(2) by (intro Cons.IH [OF j(2)]) auto
  ultimately show ?case by simp
qed simp

text \<open>Every reference of an indexed history has its target in it.\<close>

lemma index_targets:
  assumes "index_records i us seen = Inr ()" "(source, r) \<in> set (reference_list us)"
  shows "er_target_event_id r \<in> (\<lambda>u. ev_event_id (su_event u)) ` (set seen \<union> set us) \<and> er_target_subject_id r = i"
  using assms
proof (induction us arbitrary: seen)
  case (Cons u us)
  from Cons.prems(1) have rest: "index_records i us (seen @ [u]) = Inr ()"
    and refs: "\<forall>r \<in> set (ev_references (su_event u)). er_target_subject_id r = i \<and>
      er_target_event_id r \<in> (\<lambda>u. ev_event_id (su_event u)) ` set seen"
    by (auto simp: each_eq_Inr rbind_eq_Inr split: option.splits if_splits)
  show ?case
  proof (cases "(source, r) \<in> set (reference_list us)")
    case True
    from Cons.IH [OF rest True] show ?thesis by auto
  next
    case False
    with Cons.prems(2) have "r \<in> set (ev_references (su_event u))" by (auto simp: reference_list_def)
    with refs show ?thesis by auto
  qed
qed (simp add: reference_list_def)

lemma index_distinct:
  "index_records i us seen = Inr () \<Longrightarrow> distinct (map (\<lambda>u. ev_event_id (su_event u)) us) \<and>
    (\<lambda>u. ev_event_id (su_event u)) ` set us \<inter> (\<lambda>u. ev_event_id (su_event u)) ` set seen = {}"
proof (induction us arbitrary: seen)
  case (Cons u us)
  from Cons.prems have rest: "index_records i us (seen @ [u]) = Inr ()"
    and new: "find_event (ev_event_id (su_event u)) seen = None"
    by (auto simp: rbind_eq_Inr split: option.splits if_splits)
  from Cons.IH [OF rest] new show ?case by (auto simp: find_event_None)
qed simp

lemma find_event_member:
  assumes "distinct (map (\<lambda>u. ev_event_id (su_event u)) us)" "u \<in> set us"
  shows "find_event (ev_event_id (su_event u)) us = Some u"
  using assms by (induction us) (auto simp: find_event_def)

lemma mark_references_run:
  assumes "\<forall>(source, r) \<in> set xs. find_event (er_target_event_id r) records \<noteq> None"
  shows "mark_references records xs m = Inr (fold (\<lambda>(source, r).
    mark_reference (su_event (the (find_event (er_target_event_id r) records))) source r) xs m)"
  using assms by (induction xs arbitrary: m) auto

section \<open>What the references make of an event\<close>

text \<open>The references of one kind to one event, by the identities of the events they come from.\<close>

definition sources_of :: "event_relation_type \<Rightarrow> string \<Rightarrow> (string \<times> event_reference) list \<Rightarrow> string list" where
  "sources_of kind i xs = map fst (filter (\<lambda>(s, r). er_relation_type r = kind \<and> er_target_event_id r = i) xs)"

text \<open>The status in one sentence: revoked by any revocation, else superseded or corrected.\<close>

definition final_status :: "event_classification \<Rightarrow> string list \<Rightarrow> string list \<Rightarrow> timeline_status" where
  "final_status classification corrections revocations =
     (if revocations \<noteq> [] then Tl_REVOKED
      else if corrections = [] then Tl_ACTIVE
      else if classification = Cls_CORRECTION \<or> 1 < length corrections then Tl_SUPERSEDED
      else Tl_CORRECTED)"

lemma sources_of_snoc:
  "sources_of kind i (xs @ [(s, r)]) = sources_of kind i xs @
    (if er_relation_type r = kind \<and> er_target_event_id r = i then [s] else [])"
  by (simp add: sources_of_def)

lemma marks_exact:
  fixes cls :: "string \<Rightarrow> event"
  defines "m xs \<equiv> fold (\<lambda>(source, r). mark_reference (cls (er_target_event_id r)) source r) xs timeline_marks_start"
  shows "tm_corrected_by (m xs) i = sources_of Rel_CORRECTS i xs \<and> tm_revoked_by (m xs) i = sources_of Rel_REVOKES i xs \<and>
    tm_status (m xs) i = final_status (ev_classification (cls i)) (sources_of Rel_CORRECTS i xs) (sources_of Rel_REVOKES i xs)"
proof (induction xs arbitrary: i rule: rev_induct)
  case Nil
  then show ?case by (simp add: m_def timeline_marks_start_def sources_of_def final_status_def)
next
  case (snoc x xs)
  obtain s r where x: "x = (s, r)" by force
  have step: "m (xs @ [x]) = mark_reference (cls (er_target_event_id r)) s r (m xs)"
    by (simp add: m_def x)
  note IH = snoc.IH [of i] snoc.IH [of "er_target_event_id r"]
  show ?case
    unfolding step
    using IH
    by (cases "er_relation_type r"; cases "er_target_event_id r = i")
      (auto simp: mark_reference_def sources_of_snoc x final_status_def Let_def)
qed

text \<open>The entry of an update in the timeline of a history.\<close>

definition settled_entry :: "string \<Rightarrow> state_update list \<Rightarrow> state_update \<Rightarrow> timeline_entry" where
  "settled_entry i us u = \<lparr>te_subject_id = i, te_update_id = su_update_id u, te_event = su_event u,
      te_status = final_status (ev_classification (su_event u))
        (sources_of Rel_CORRECTS (ev_event_id (su_event u)) (reference_list us))
        (sources_of Rel_REVOKES (ev_event_id (su_event u)) (reference_list us)),
      te_corrected_by = sort (sources_of Rel_CORRECTS (ev_event_id (su_event u)) (reference_list us)),
      te_revoked_by = sort (sources_of Rel_REVOKES (ev_event_id (su_event u)) (reference_list us))\<rparr>"

lemma settled_entry_simps [simp]:
  "te_event (settled_entry i us u) = su_event u"
  "te_status (settled_entry i us u) = final_status (ev_classification (su_event u))
     (sources_of Rel_CORRECTS (ev_event_id (su_event u)) (reference_list us))
     (sources_of Rel_REVOKES (ev_event_id (su_event u)) (reference_list us))"
  "set (te_revoked_by (settled_entry i us u)) = set (sources_of Rel_REVOKES (ev_event_id (su_event u)) (reference_list us))"
  "length (te_corrected_by (settled_entry i us u)) = length (sources_of Rel_CORRECTS (ev_event_id (su_event u)) (reference_list us))"
  by (simp_all add: settled_entry_def)

lemma timeline_built:
  assumes "index_records i us [] = Inr ()" "\<forall>u \<in> set us. su_subject_id u = i"
  obtains m where "timeline_from_updates i us = Inr \<lparr>tl_subject_id = i,
      tl_entries = sort_key (\<lambda>e. event_sort_key (te_event e)) (map (marked_entry i m) us)\<rparr>"
    "\<And>u. u \<in> set us \<Longrightarrow> marked_entry i m u = settled_entry i us u"
proof -
  let ?cls = "\<lambda>i. su_event (the (find_event i us))"
  define m where "m = fold (\<lambda>(source, r). mark_reference (?cls (er_target_event_id r)) source r)
    (reference_list us) timeline_marks_start"
  have "\<forall>(source, r) \<in> set (reference_list us). find_event (er_target_event_id r) us \<noteq> None"
    using index_targets [OF assms(1)] by (auto simp: find_event_None simp del: not_None_eq)
  from mark_references_run [OF this] have "mark_references us (reference_list us) timeline_marks_start = Inr m"
    by (simp add: m_def)
  with assms have 1: "timeline_from_updates i us = Inr \<lparr>tl_subject_id = i,
      tl_entries = sort_key (\<lambda>e. event_sort_key (te_event e)) (map (marked_entry i m) us)\<rparr>"
    by (simp add: timeline_from_updates_def ensure_def)
  have d: "distinct (map (\<lambda>u. ev_event_id (su_event u)) us)" using index_distinct [OF assms(1)] by simp
  have "?cls (ev_event_id (su_event u)) = su_event u" if "u \<in> set us" for u
    using find_event_member [OF d that] by simp
  with 1 marks_exact [where cls = ?cls and xs = "reference_list us", folded m_def] that show thesis
    by (auto simp: marked_entry_def settled_entry_def Let_def)
qed

lemma stored_index:
  assumes "content canon sha st (sha i) = Some (s, us)" "ss_subject_id s = i"
  shows "index_records i us [] = Inr ()" "\<forall>u \<in> set us. su_subject_id u = i"
proof -
  obtain h where h: "scan_updates canon sha i us scan_start = Inr h"
    using content_wf(3) [OF assms(1)] assms(2) by (auto simp: validate_history_def rbind_eq_Inr)
  show "index_records i us [] = Inr ()" by (rule scan_to_index [OF h]) (simp add: scan_start_def)
  show "\<forall>u \<in> set us. su_subject_id u = i" using scan_updates_Inr [OF h] by simp
qed

lemma rebuild_reads:
  assumes "content canon sha st (sha i) = Some (s, us)" "ss_subject_id s = i" "\<not> blank i"
  shows "timeline_rebuild canon sha i st = timeline_from_updates i us"
  using assms by (simp add: timeline_rebuild_def list_update_records_def read_component_Inr [THEN iffD2])

section \<open>Chains\<close>

definition linked :: "timeline_entry list \<Rightarrow> (string \<times> string) set" where
  "linked entries = {(a, b). \<exists>e \<in> set entries. {a, b} \<subseteq> insert (te_id e) (entry_targets e)}"

lemma foldl_fixed:
  assumes "foldl chain_step selected es = selected" "e \<in> set es"
  shows "chain_step selected e = selected"
  using assms
proof (induction es)
  case (Cons x es)
  have "selected \<subseteq> chain_step selected x" "chain_step selected x \<subseteq> foldl chain_step (chain_step selected x) es"
    using chain_step_bounds(1) foldl_chain_bounds [of es es] by simp_all
  with Cons.prems(1) have "chain_step selected x = selected" by auto
  with Cons show ?case by auto
qed simp

lemma chain_step_linked:
  assumes "e \<in> set entries"
  shows "chain_step selected e \<subseteq> (linked entries)\<^sup>* `` selected"
proof
  fix b assume b: "b \<in> chain_step selected e"
  show "b \<in> (linked entries)\<^sup>* `` selected"
  proof (cases "b \<in> selected")
    case False
    with b obtain a where "a \<in> selected" "a \<in> insert (te_id e) (entry_targets e)" "b \<in> insert (te_id e) (entry_targets e)"
      by (auto simp: chain_step_def split: if_splits)
    with assms have "(a, b) \<in> linked entries" by (auto simp: linked_def)
    with \<open>a \<in> selected\<close> show ?thesis by auto
  qed auto
qed

lemma Image_rtrancl_mono: "A \<subseteq> R\<^sup>* `` B \<Longrightarrow> R\<^sup>* `` A \<subseteq> R\<^sup>* `` B"
  by (auto dest: subsetD intro: rtrancl_trans)

lemma chain_pass_linked: "(linked entries)\<^sup>* `` chain_pass entries selected = (linked entries)\<^sup>* `` selected"
proof -
  have "foldl chain_step selected es \<subseteq> (linked entries)\<^sup>* `` selected" if "set es \<subseteq> set entries" for es
    using that
  proof (induction es arbitrary: selected)
    case (Cons e es)
    then have "foldl chain_step (chain_step selected e) es \<subseteq> (linked entries)\<^sup>* `` chain_step selected e" by simp
    also have "\<dots> \<subseteq> (linked entries)\<^sup>* `` selected"
      using Cons.prems by (intro Image_rtrancl_mono chain_step_linked) simp
    finally show ?case by simp
  qed auto
  from this [of entries] have "chain_pass entries selected \<subseteq> (linked entries)\<^sup>* `` selected"
    by (simp add: chain_pass_def)
  moreover have "selected \<subseteq> (linked entries)\<^sup>* `` chain_pass entries selected"
    using chain_pass_bounds(1) [of selected entries] by blast
  ultimately show ?thesis using Image_rtrancl_mono by (intro equalityI) blast+
qed

lemma chain_loop_linked: "chain_loop entries selected = (linked entries)\<^sup>* `` selected"
proof (induction entries selected rule: chain_loop.induct)
  case (1 entries selected)
  show ?case
  proof (cases "chain_pass entries selected = selected")
    case True
    have "(a, b) \<in> (linked entries)\<^sup>* \<Longrightarrow> a \<in> selected \<Longrightarrow> b \<in> selected" for a b
    proof (induction rule: rtrancl_induct)
      case (step b c)
      then obtain e where e: "e \<in> set entries" "{b, c} \<subseteq> insert (te_id e) (entry_targets e)" by (auto simp: linked_def)
      have "chain_step selected e = selected" using foldl_fixed True e(1) by (auto simp: chain_pass_def)
      with e(2) step show ?case by (auto simp: chain_step_def split: if_splits)
    qed simp
    then have "(linked entries)\<^sup>* `` selected = selected" by auto
    with True show ?thesis by (subst chain_loop.simps) simp
  next
    case False
    with 1 chain_pass_linked show ?thesis by (subst chain_loop.simps) simp
  qed
qed

section \<open>A revoked event\<close>

definition demo_revoking :: event where
  "demo_revoking = demo_change
     \<lparr>ev_event_id := ''e2'', ev_mutations := [], ev_classification := Cls_REVOCATION,
      ev_references := [\<lparr>er_target_event_id = ''e1'', er_target_subject_id = ''s'', er_relation_type = Rel_REVOKES\<rparr>]\<rparr>"

definition demo_revocation :: state_update where
  "demo_revocation = \<lparr>su_update_id = ''u2'', su_subject_id = ''s'', su_event = demo_revoking,
     su_applied_at = Abs_instant 9, su_before_revision = 1, su_after_revision = 1, su_changes = [],
     su_reason = ''said so''\<rparr>"

lemma demo_revocation_wf: "wf_state_update demo_revocation"
  by (simp add: wf_state_update_def demo_revocation_def demo_revoking_def demo_change_def wf_event_def blank_def py_space_def
      times_ok_def links_ok_def related_def wf_reference_def reference_key_def)

lemma demo_revoked_content:
  obtains st where "content demo_canon (\<lambda>s. s) st ''s'' = Some (demo_evolved, [demo_update, demo_revocation])"
proof -
  have 1: "\<not> lifecycle_managed demo_change" "lifecycle_mutations demo_change = []" "lifecycle_changes demo_update = []"
    "\<not> lifecycle_managed demo_revoking" "lifecycle_mutations demo_revoking = []" "lifecycle_changes demo_revocation = []"
    by (simp_all add: lifecycle_managed_def lifecycle_mutations_def lifecycle_changes_def demo_change_def demo_update_def
        demo_revoking_def demo_revocation_def)
  have a: "scan_update demo_canon (\<lambda>s. s) ''s'' demo_update scan_start = Inr \<lparr>hs_update_ids = [''u1''],
      hs_event_ids = [''e1''], hs_revision = 1, hs_lifecycle = None\<rparr>"
    using 1 by (simp add: scan_update_def scan_start_def demo_update_def advance_lifecycle_def ensure_def Let_def)
      (simp add: demo_change_def)
  have b: "scan_update demo_canon (\<lambda>s. s) ''s'' demo_revocation \<lparr>hs_update_ids = [''u1''],
      hs_event_ids = [''e1''], hs_revision = 1, hs_lifecycle = None\<rparr> = Inr \<lparr>hs_update_ids = [''u2'', ''u1''],
      hs_event_ids = [''e2'', ''e1''], hs_revision = 1, hs_lifecycle = None\<rparr>"
    using 1 by (simp add: scan_update_def demo_revocation_def advance_lifecycle_def ensure_def Let_def)
      (simp add: demo_revoking_def)
  have "validate_history demo_canon (\<lambda>s. s) demo_evolved [demo_update, demo_revocation] = Inr ()"
    by (simp add: validate_history_def a b ensure_def demo_evolved_def demo_subject_def)
  from stored_envelope [OF demo_evolved_wf(1) _ this] demo_update_wf demo_revocation_wf demo_evolved_wf(2) that
  show thesis by auto
qed

section \<open>Properties\<close>

text \<open>
  C22: the timeline of every subject whose file can be read can be rebuilt: no history that the
  repository accepts is refused. It shows each recorded event exactly once, ordered by when it
  occurred, was observed and was recorded.
\<close>

theorem timeline_is_rebuildable:
  assumes "content canon sha st (sha i) = Some (s, us)" "ss_subject_id s = i" "\<not> blank i"
  shows "\<exists>p. timeline_rebuild canon sha i st = Inr p \<and>
    mset (map te_event (tl_entries p)) = mset (map su_event us) \<and>
    sorted (map (\<lambda>e. event_sort_key (te_event e)) (tl_entries p)) \<and> distinct (map te_id (tl_entries p))"
proof -
  note x = stored_index [OF assms(1,2)]
  obtain m where m: "timeline_from_updates i us = Inr \<lparr>tl_subject_id = i,
      tl_entries = sort_key (\<lambda>e. event_sort_key (te_event e)) (map (marked_entry i m) us)\<rparr>"
    by (rule timeline_built [OF x])
  let ?es = "sort_key (\<lambda>e. event_sort_key (te_event e)) (map (marked_entry i m) us)"
  have "mset (map te_event ?es) = image_mset te_event (mset (map (marked_entry i m) us))"
    by (simp only: mset_map mset_sort)
  also have "\<dots> = mset (map su_event us)"
    by (simp add: marked_entry_def Let_def multiset.map_comp comp_def)
  finally have 1: "mset (map te_event ?es) = mset (map su_event us)" .
  have "mset (map te_id ?es) = image_mset ev_event_id (mset (map te_event ?es))"
    by (simp add: multiset.map_comp comp_def)
  also have "\<dots> = mset (map (\<lambda>u. ev_event_id (su_event u)) us)"
    unfolding 1 by (simp add: multiset.map_comp comp_def)
  finally have "distinct (map te_id ?es)"
    using index_distinct [OF x(1)] by (metis mset_eq_imp_distinct_iff)
  with 1 m rebuild_reads [OF assms] show ?thesis by (intro exI conjI) (assumption | simp)+
qed

theorem timeline_is_rebuildable_witness:
  "\<exists>st p. content demo_canon (\<lambda>s. s) st ''s'' = Some (demo_evolved, [demo_update, demo_revocation]) \<and>
    timeline_rebuild demo_canon (\<lambda>s. s) ''s'' st = Inr p \<and>
    mset (map te_event (tl_entries p)) = {#demo_change, demo_revoking#}"
proof -
  obtain st where st: "content demo_canon (\<lambda>s. s) st ''s'' = Some (demo_evolved, [demo_update, demo_revocation])"
    by (rule demo_revoked_content)
  have "ss_subject_id demo_evolved = ''s''" "su_event demo_update = demo_change" "su_event demo_revocation = demo_revoking"
    by (simp_all add: demo_evolved_def demo_subject_def demo_update_def demo_revocation_def)
  with st timeline_is_rebuildable [OF st this(1) demo_ids(3)] show ?thesis by (auto simp: ac_simps)
qed

lemma entry_of:
  assumes "content canon sha st (sha i) = Some (s, us)" "ss_subject_id s = i" "\<not> blank i"
  obtains p where "timeline_rebuild canon sha i st = Inr p" "set (tl_entries p) = settled_entry i us ` set us"
proof -
  obtain m where m: "timeline_from_updates i us = Inr \<lparr>tl_subject_id = i,
      tl_entries = sort_key (\<lambda>e. event_sort_key (te_event e)) (map (marked_entry i m) us)\<rparr>"
    "\<And>u. u \<in> set us \<Longrightarrow> marked_entry i m u = settled_entry i us u"
    by (rule timeline_built [OF stored_index [OF assms(1,2)]]) blast
  with rebuild_reads [OF assms] that show thesis by simp
qed

lemma sources_append:
  "sources_of kind j (reference_list (us @ vs)) =
     sources_of kind j (reference_list us) @ sources_of kind j (reference_list vs)"
  by (simp add: sources_of_def reference_list_def)

text \<open>The identities of the events that correct, or revoke, an event, once for each such reference.\<close>

lemma sources_listed:
  "sources_of kind j (reference_list us) = [ev_event_id (su_event u). u \<leftarrow> us, r \<leftarrow> ev_references (su_event u),
     er_relation_type r = kind \<and> er_target_event_id r = j]"
proof (induction us)
  case (Cons u us)
  have "map fst (filter (\<lambda>(s, r). er_relation_type r = kind \<and> er_target_event_id r = j) (map (Pair a) rs)) =
      concat (map (\<lambda>r. if er_relation_type r = kind \<and> er_target_event_id r = j then [a] else []) rs)" for a rs
    by (induction rs) auto
  with Cons show ?case by (simp add: sources_of_def reference_list_def)
qed (simp add: sources_of_def reference_list_def)

text \<open>
  C20: the status of an event is what the references of the events after it make of it, whatever
  their order: revoked as soon as one of them revokes it, even if it is corrected later; else active
  if none corrects it; else superseded if it is itself a correction or is corrected twice, and
  corrected if once. The entry names the correcting and the revoking events, all of them, sorted.
\<close>

theorem timeline_status_exact:
  assumes "content canon sha st (sha i) = Some (s, us)" "ss_subject_id s = i" "\<not> blank i"
    "timeline_rebuild canon sha i st = Inr p" "e \<in> set (tl_entries p)"
  shows "let corrections = [ev_event_id (su_event u). u \<leftarrow> us, r \<leftarrow> ev_references (su_event u),
           er_relation_type r = Rel_CORRECTS \<and> er_target_event_id r = te_id e];
         revocations = [ev_event_id (su_event u). u \<leftarrow> us, r \<leftarrow> ev_references (su_event u),
           er_relation_type r = Rel_REVOKES \<and> er_target_event_id r = te_id e] in
    te_corrected_by e = sort corrections \<and> te_revoked_by e = sort revocations \<and>
    te_status e = (if revocations \<noteq> [] then Tl_REVOKED
      else if corrections = [] then Tl_ACTIVE
      else if ev_classification (te_event e) = Cls_CORRECTION \<or> 1 < length corrections then Tl_SUPERSEDED
      else Tl_CORRECTED)"
proof -
  obtain q where q: "timeline_rebuild canon sha i st = Inr q" "set (tl_entries q) = settled_entry i us ` set us"
    by (rule entry_of [OF assms(1-3)])
  with assms(4,5) have "e \<in> settled_entry i us ` set us" by simp
  then obtain u where "e = settled_entry i us u" by blast
  then show ?thesis unfolding Let_def sources_listed [symmetric] by (simp add: settled_entry_def final_status_def)
qed

theorem timeline_status_exact_witness:
  "\<exists>st p e. content demo_canon (\<lambda>s. s) st ''s'' = Some (demo_evolved, [demo_update, demo_revocation]) \<and>
    timeline_rebuild demo_canon (\<lambda>s. s) ''s'' st = Inr p \<and> e \<in> set (tl_entries p) \<and>
    te_event e = demo_change \<and> te_status e = Tl_REVOKED \<and> te_revoked_by e = [''e2''] \<and> te_corrected_by e = []"
proof -
  obtain st where st: "content demo_canon (\<lambda>s. s) st ''s'' = Some (demo_evolved, [demo_update, demo_revocation])"
    by (rule demo_revoked_content)
  have i: "ss_subject_id demo_evolved = ''s''" "su_event demo_update = demo_change" "su_event demo_revocation = demo_revoking"
    by (simp_all add: demo_evolved_def demo_subject_def demo_update_def demo_revocation_def)
  obtain p where p: "timeline_rebuild demo_canon (\<lambda>s. s) ''s'' st = Inr p"
    "set (tl_entries p) = settled_entry ''s'' [demo_update, demo_revocation] ` set [demo_update, demo_revocation]"
    by (rule entry_of [OF st i(1) demo_ids(3)])
  let ?e = "settled_entry ''s'' [demo_update, demo_revocation] demo_update"
  have e: "?e \<in> set (tl_entries p)" "te_event ?e = demo_change" by (simp_all add: p(2) i)
  have "te_id ?e = ''e1''" "ev_references demo_change = []" "ev_event_id demo_revoking = ''e2''"
    "ev_references demo_revoking = [\<lparr>er_target_event_id = ''e1'', er_target_subject_id = ''s'', er_relation_type = Rel_REVOKES\<rparr>]"
    by (simp_all add: i demo_ids demo_revoking_def) (simp add: demo_change_def)
  with timeline_status_exact [OF st i(1) demo_ids(3) p(1) e(1)]
  have "te_status ?e = Tl_REVOKED \<and> te_revoked_by ?e = [''e2''] \<and> te_corrected_by ?e = []"
    by (simp add: Let_def i del: settled_entry_simps(2))
  with st p(1) e show ?thesis by blast
qed

text \<open>
  C21: a revocation is final: whatever calls are made afterwards, direct saves of any state among them,
  and whatever other such calls write in between, the event stays in the timeline as it was, revoked,
  by at least the events that revoked it before.
\<close>

theorem revocation_is_final:
  assumes "run_ok canon sha cs" "content canon sha st (sha i) = Some (s, us)" "ss_subject_id s = i" "\<not> blank i"
    "timeline_rebuild canon sha i st = Inr p" "e \<in> set (tl_entries p)" "te_status e = Tl_REVOKED"
  shows "\<exists>q e'. timeline_rebuild canon sha i (subject_run cs st) = Inr q \<and> e' \<in> set (tl_entries q) \<and>
    te_event e' = te_event e \<and> te_status e' = Tl_REVOKED \<and> set (te_revoked_by e) \<subseteq> set (te_revoked_by e')"
proof -
  obtain p' where p': "timeline_rebuild canon sha i st = Inr p'" "set (tl_entries p') = settled_entry i us ` set us"
    by (rule entry_of [OF assms(2-4)])
  with assms(5,6) have "e \<in> settled_entry i us ` set us" by simp
  then obtain u where u: "u \<in> set us" "e = settled_entry i us u" by blast
  then have "us \<noteq> []" by auto
  from run_grows [OF assms(1,2) this] obtain t vs where
    t: "content canon sha (subject_run cs st) (sha i) = Some (t, us @ vs)" .
  have ti: "ss_subject_id t = i"
    using history_subject [OF assms(2) u(1)] history_subject [OF t, of u] u(1) assms(3) by auto
  obtain q where q: "timeline_rebuild canon sha i (subject_run cs st) = Inr q"
    "set (tl_entries q) = settled_entry i (us @ vs) ` set (us @ vs)"
    by (rule entry_of [OF t ti assms(4)])
  let ?e = "settled_entry i (us @ vs) u"
  have "?e \<in> set (tl_entries q)" "te_event ?e = te_event e" using q(2) u by simp_all
  moreover have "te_status ?e = Tl_REVOKED" "set (te_revoked_by e) \<subseteq> set (te_revoked_by ?e)"
    using assms(7) by (auto simp: u(2) final_status_def sources_append split: if_splits)
  ultimately show ?thesis using q(1) by blast
qed

theorem revocation_is_final_witness:
  "\<exists>st q e'. timeline_rebuild demo_canon (\<lambda>s. s) ''s'' (subject_run (map (Pair demo_ports) demo_calls) st) = Inr q \<and>
    e' \<in> set (tl_entries q) \<and> te_event e' = demo_change \<and> te_status e' = Tl_REVOKED"
proof -
  obtain st where st: "content demo_canon (\<lambda>s. s) st ''s'' = Some (demo_evolved, [demo_update, demo_revocation])"
    by (rule demo_revoked_content)
  have i: "ss_subject_id demo_evolved = ''s''" "su_event demo_update = demo_change" "su_event demo_revocation = demo_revoking"
    by (simp_all add: demo_evolved_def demo_subject_def demo_update_def demo_revocation_def)
  obtain p where p: "timeline_rebuild demo_canon (\<lambda>s. s) ''s'' st = Inr p"
    "set (tl_entries p) = settled_entry ''s'' [demo_update, demo_revocation] ` set [demo_update, demo_revocation]"
    by (rule entry_of [OF st i(1) demo_ids(3)])
  let ?e = "settled_entry ''s'' [demo_update, demo_revocation] demo_update"
  have e: "?e \<in> set (tl_entries p)" "te_event ?e = demo_change" by (simp_all add: p(2) i)
  have r: "te_status ?e = Tl_REVOKED"
    by (simp add: final_status_def sources_of_def reference_list_def i demo_revoking_def demo_ids)
  from revocation_is_final [OF demo_run_ok [OF demo_calls_ok] st i(1) demo_ids(3) p(1) e(1) r] e(2) show ?thesis by metis
qed

text \<open>
  C23: the chain of an event, which a loop over growing sets computes, always ends and is exactly
  the connected component of its seeds (the event and those of its correlation) in the graph that
  joins an event with the targets of its references, in timeline order.
\<close>

theorem chain_is_component:
  assumes "timeline_get p j = Inr seed"
  shows "timeline_chain p j = Inr (filter (\<lambda>e. \<exists>a \<in> chain_seeds p seed.
    (a, te_id e) \<in> {(a, b). \<exists>e \<in> set (tl_entries p). {a, b} \<subseteq> insert (te_id e) (entry_targets e)}\<^sup>*) (tl_entries p))"
  unfolding linked_def [symmetric] by (simp add: timeline_chain_def assms chain_loop_linked Image_iff)

theorem chain_is_component_witness:
  "\<exists>e f. e \<noteq> f \<and> timeline_chain \<lparr>tl_subject_id = ''s'', tl_entries = [e, f]\<rparr> ''e1'' = Inr [e, f]"
proof -
  have i: "su_event demo_update = demo_change" "su_event demo_revocation = demo_revoking"
    by (simp_all add: demo_update_def demo_revocation_def)
  let ?us = "[demo_update, demo_revocation]"
  have "te_id (settled_entry ''s'' ?us demo_update) = ''e1''" "te_id (settled_entry ''s'' ?us demo_revocation) = ''e2''"
    "''e1'' \<in> entry_targets (settled_entry ''s'' ?us demo_revocation)"
    by (simp_all add: i demo_ids demo_revoking_def entry_targets_def)
  then obtain e f where ids: "te_id e = ''e1''" "te_id f = ''e2''" "''e1'' \<in> entry_targets f" by blast
  let ?p = "\<lparr>tl_subject_id = ''s'', tl_entries = [e, f]\<rparr>"
  let ?R = "{(a, b). \<exists>e \<in> set (tl_entries ?p). {a, b} \<subseteq> insert (te_id e) (entry_targets e)}"
  let ?C = "\<lambda>x. \<exists>a \<in> chain_seeds ?p e. (a, te_id x) \<in> ?R\<^sup>*"
  have g: "timeline_get ?p ''e1'' = Inr e" by (simp add: timeline_get_def ids)
  have s: "''e1'' \<in> chain_seeds ?p e" by (simp add: chain_seeds_def ids)
  have "(''e1'', ''e2'') \<in> ?R" using ids by auto
  then have "(''e1'', te_id f) \<in> ?R\<^sup>*" "(''e1'', te_id e) \<in> ?R\<^sup>*" unfolding ids by (rule r_into_rtrancl) simp
  with s have c: "?C e" "?C f" by blast+
  have "filter ?C [e, f] = [e, f]" using c by (simp only: filter.simps if_True)
  with chain_is_component [OF g] have "timeline_chain ?p ''e1'' = Inr [e, f]"
    by (simp only: timeline_projection.select_convs)
  moreover have "e \<noteq> f" using ids by auto
  ultimately show ?thesis by blast
qed

end
