(* ===== verification/Memory_Retrieval.thy ===== *)
theory Memory_Retrieval
  imports Mind_State Event_Properties
begin

text \<open>
  The retrieval part of domain/memory.py (requests, candidates, relevance decisions, results,
  influence records and the relevance policy) and \<open>MemoryService\<close> of services/memory_service.py.
  The retriever and the recorder of influences are ports, as they are in the code. A relevance score
  that a document gives as an integer is kept as the float it equals.
\<close>

section \<open>Checks\<close>

abbreviation memory_invalid :: "string \<Rightarrow> exn" where
  "memory_invalid m \<equiv> (MemoryValidationError, m)"

definition memory_text :: "pyval \<Rightarrow> string \<Rightarrow> string res" where
  "memory_text v name = require_text MemoryValidationError v name"

definition memory_parse_datetime :: "pyval \<Rightarrow> string \<Rightarrow> pyval res" where
  "memory_parse_datetime v name = (case v of
       PStr s \<Rightarrow> (case fromisoformat (replace_Z s) of
         None \<Rightarrow> Inl (memory_invalid (name @ '' is not a valid ISO-8601 datetime''))
       | Some (w, None) \<Rightarrow> Inl (memory_invalid (name @ '' must include a timezone''))
       | Some (w, Some off) \<Rightarrow> Inr (PTime w (Some off)))
     | _ \<Rightarrow> Inl (memory_invalid (name @ '' must be an ISO-8601 string'')))"

definition memory_object :: "pyval \<Rightarrow> string \<Rightarrow> (string \<times> pyval) list res" where
  "memory_object v name = (case v of
       PNone \<Rightarrow> Inr []
     | PDict d \<Rightarrow> rbind (ensure (json_ok v) (memory_invalid (name @ '' must contain JSON-compatible data''))) (\<lambda>_. Inr d)
     | _ \<Rightarrow> Inl (memory_invalid (name @ '' must be an object with string keys'')))"

definition memory_sections :: "pyval list \<Rightarrow> string \<Rightarrow> state_section list res" where
  "memory_sections vs name = rbind (rmap (event_section (memory_invalid (name @ '' contains an unsupported section''))) vs)
     (\<lambda>sections. Inr (fromkeys sections))"

text \<open>A list of strings, which may be blank; nothing stands for the empty list.\<close>

definition memory_texts :: "pyval \<Rightarrow> string \<Rightarrow> string list res" where
  "memory_texts v name =
     (let e = memory_invalid (name @ '' must be a list of strings'') in
      case v of PNone \<Rightarrow> Inr []
        | PList xs \<Rightarrow> rmap (\<lambda>x. case x of PStr s \<Rightarrow> Inr s | _ \<Rightarrow> Inl e) xs
        | _ \<Rightarrow> Inl e)"

text \<open>\<open>float(n)\<close> of an integer; one beyond the range of floats raises.\<close>

definition float_of_int :: "int \<Rightarrow> rat res" where
  "float_of_int n = (if \<bar>n\<bar> < 2 ^ 1024 - 2 ^ 970 then Inr (fl (of_int n))
     else Inl (OverflowError, ''int too large to convert to float''))"

definition memory_ratio :: "pyval \<Rightarrow> string \<Rightarrow> rat res" where
  "memory_ratio v name =
     rbind (case v of
         PInt n \<Rightarrow> float_of_int n | PBool b \<Rightarrow> Inr (if b then 1 else 0) | PFloat q \<Rightarrow> Inr q
       | _ \<Rightarrow> Inl (memory_invalid (name @ '' must be between 0 and 1''))) (\<lambda>q.
     rbind (ensure (0 \<le> q \<and> q \<le> 1) (memory_invalid (name @ '' must be between 0 and 1''))) (\<lambda>_. Inr q))"

lemma memory_text_Inr [validator_defs]: "memory_text v n = Inr s \<longleftrightarrow> v = PStr s \<and> \<not> blank s"
  by (simp add: memory_text_def require_text_eq_Inr)

lemma memory_text_run: "\<not> blank s \<Longrightarrow> memory_text (PStr s) n = Inr s"
  by (simp add: memory_text_Inr)

lemma memory_parse_format [simp]: "memory_parse_datetime (PStr (format_z t)) n = Inr (utc_val t)"
  by (simp add: memory_parse_datetime_def)

lemma memory_object_run [simp]: "json_ok (PDict d) \<Longrightarrow> memory_object (PDict d) n = Inr d"
  by (simp add: memory_object_def ensure_def del: json_ok.simps)

lemma memory_object_Inr: "memory_object v n = Inr d \<Longrightarrow> json_ok (PDict d)"
  by (auto simp: memory_object_def ensure_def split: pyval.splits if_splits)

lemma memory_sections_run [simp]: "memory_sections (map (\<lambda>s. PStr (section_value s)) ss) n = Inr (fromkeys ss)"
  using rmap_sections [of "\<lambda>_. memory_invalid (n @ '' contains an unsupported section'')" ss]
  by (simp add: memory_sections_def del: append.simps)

lemma memory_sections_Inr: "memory_sections vs n = Inr ss \<Longrightarrow> distinct ss"
  by (auto simp: memory_sections_def rbind_eq_Inr)

lemma memory_texts_run [simp]: "memory_texts (PList (map PStr ss)) n = Inr ss"
proof -
  have "rmap (\<lambda>x. case x of PStr s \<Rightarrow> Inr s | _ \<Rightarrow> Inl e) (map PStr ss) = Inr ss" for e :: exn
    by (induction ss) auto
  then show ?thesis by (simp add: memory_texts_def Let_def)
qed

lemma memory_ratio_run [simp]: "0 \<le> q \<Longrightarrow> q \<le> 1 \<Longrightarrow> memory_ratio (PFloat q) n = Inr q"
  by (simp add: memory_ratio_def ensure_def)

lemma memory_ratio_Inr: "memory_ratio v n = Inr q \<Longrightarrow> 0 \<le> q \<and> q \<le> 1"
  by (auto simp: memory_ratio_def rbind_eq_Inr)

section \<open>Requests\<close>

record memory_request =
  mq_request_id :: string
  mq_subject_id :: string
  mq_query :: string
  mq_requested_at :: instant
  mq_desired_scope :: "state_section list"
  mq_limit :: int
  mq_minimum_relevance :: rat
  mq_context :: "(string \<times> pyval) list"

definition memory_request_init ::
  "pyval \<Rightarrow> pyval \<Rightarrow> pyval \<Rightarrow> pyval \<Rightarrow> pyval list \<Rightarrow> pyval \<Rightarrow> pyval \<Rightarrow> pyval \<Rightarrow> memory_request res" where
  "memory_request_init request_id subject_id query requested_at desired_scope limit minimum_relevance cx =
     rbind (memory_text request_id ''request_id'') (\<lambda>request_id.
     rbind (memory_text subject_id ''subject_id'') (\<lambda>subject_id.
     rbind (memory_text query ''query'') (\<lambda>query.
     rbind (require_aware (memory_invalid ''requested_at must include a timezone'') requested_at) (\<lambda>requested_at.
     rbind (memory_sections desired_scope ''desired_scope'') (\<lambda>desired_scope.
     rbind (case as_int limit of
         Some n \<Rightarrow> if 1 \<le> n \<and> n \<le> 100 then Inr n else Inl (memory_invalid ''limit must be an integer between 1 and 100'')
       | None \<Rightarrow> Inl (memory_invalid ''limit must be an integer between 1 and 100'')) (\<lambda>limit.
     rbind (memory_ratio minimum_relevance ''minimum_relevance'') (\<lambda>minimum_relevance.
     rbind (memory_object cx ''context'') (\<lambda>cx.
     Inr \<lparr>mq_request_id = request_id, mq_subject_id = subject_id, mq_query = query, mq_requested_at = requested_at,
       mq_desired_scope = desired_scope, mq_limit = limit, mq_minimum_relevance = minimum_relevance,
       mq_context = cx\<rparr>))))))))"

definition memory_request_create ::
  "string option \<Rightarrow> string \<Rightarrow> string \<Rightarrow> string \<Rightarrow> pyval \<Rightarrow> state_section list \<Rightarrow> int \<Rightarrow> rat \<Rightarrow> (string \<times> pyval) list
     \<Rightarrow> memory_request res" where
  "memory_request_create request_id uuid subject_id query requested_at desired_scope limit minimum_relevance cx =
     memory_request_init (PStr (given_or_uuid request_id uuid)) (PStr subject_id) (PStr query) requested_at
       (map (\<lambda>s. PStr (section_value s)) desired_scope) (PInt limit) (PFloat minimum_relevance) (PDict cx)"

definition memory_request_to_dict :: "memory_request \<Rightarrow> pyval" where
  "memory_request_to_dict q = PDict
     [(''request_id'', PStr (mq_request_id q)), (''subject_id'', PStr (mq_subject_id q)), (''query'', PStr (mq_query q)),
      (''requested_at'', PStr (format_z (mq_requested_at q))),
      (''desired_scope'', PList (map (\<lambda>s. PStr (section_value s)) (mq_desired_scope q))),
      (''limit'', PInt (mq_limit q)), (''minimum_relevance'', PFloat (mq_minimum_relevance q)),
      (''context'', PDict (mq_context q))]"

definition memory_request_from_dict :: "pyval \<Rightarrow> memory_request res" where
  "memory_request_from_dict value = (case value of
       PDict d \<Rightarrow>
         rbind (ensure (is_list (dict_get_or (PList []) d ''desired_scope'')) (memory_invalid ''desired_scope must be a list'')) (\<lambda>_.
         rbind (memory_parse_datetime (dict_get d ''requested_at'') ''requested_at'') (\<lambda>requested_at.
         rbind (memory_object (dict_get_or (PDict []) d ''context'') ''context'') (\<lambda>cx.
         memory_request_init (dict_get d ''request_id'') (dict_get d ''subject_id'') (dict_get d ''query'') requested_at
           (list_of (dict_get_or (PList []) d ''desired_scope'')) (dict_get_or (PInt 5) d ''limit'')
           (dict_get_or (PFloat (1 / 2)) d ''minimum_relevance'') (PDict cx))))
     | _ \<Rightarrow> Inl (memory_invalid ''memory retrieval request must be an object''))"

definition wf_memory_request :: "memory_request \<Rightarrow> bool" where
  "wf_memory_request q \<longleftrightarrow> \<not> blank (mq_request_id q) \<and> \<not> blank (mq_subject_id q) \<and> \<not> blank (mq_query q) \<and>
     distinct (mq_desired_scope q) \<and> 1 \<le> mq_limit q \<and> mq_limit q \<le> 100 \<and>
     0 \<le> mq_minimum_relevance q \<and> mq_minimum_relevance q \<le> 1 \<and> json_ok (PDict (mq_context q))"

lemma memory_request_init_wf: "memory_request_init a b c d e f g h = Inr q \<Longrightarrow> wf_memory_request q"
  unfolding memory_request_init_def
  by (elim rbindE) (auto simp: wf_memory_request_def validator_defs simp del: json_ok.simps
      dest: memory_sections_Inr memory_ratio_Inr memory_object_Inr split: option.splits if_splits)

lemma memory_request_roundtrip: "wf_memory_request q \<Longrightarrow> memory_request_from_dict (memory_request_to_dict q) = Inr q"
  by (simp add: memory_request_from_dict_def memory_request_to_dict_def memory_request_init_def wf_memory_request_def
      ensure_def memory_text_run fromkeys_id del: json_ok.simps)

section \<open>Candidates\<close>

record memory_candidate =
  mc_memory_id :: string
  mc_subject_id :: string
  mc_content :: string
  mc_source :: string
  mc_occurred_at :: "instant option"
  mc_provider_relevance :: rat
  mc_related_scope :: "state_section list"
  mc_tags :: "string list"
  mc_metadata :: "(string \<times> pyval) list"

definition memory_candidate_init ::
  "pyval \<Rightarrow> pyval \<Rightarrow> pyval \<Rightarrow> pyval \<Rightarrow> pyval \<Rightarrow> pyval \<Rightarrow> pyval list \<Rightarrow> pyval \<Rightarrow> pyval \<Rightarrow> memory_candidate res" where
  "memory_candidate_init memory_id subject_id content source occurred_at provider_relevance related_scope tags metadata =
     rbind (memory_text memory_id ''memory_id'') (\<lambda>memory_id.
     rbind (memory_text subject_id ''memory.subject_id'') (\<lambda>subject_id.
     rbind (memory_text content ''memory.content'') (\<lambda>content.
     rbind (memory_text source ''memory.source'') (\<lambda>source.
     rbind (optional_aware (memory_invalid ''memory.occurred_at must include a timezone'') occurred_at) (\<lambda>occurred_at.
     rbind (memory_ratio provider_relevance ''provider_relevance'') (\<lambda>provider_relevance.
     rbind (memory_sections related_scope ''related_scope'') (\<lambda>related_scope.
     rbind (memory_texts tags ''tags'') (\<lambda>tags.
     rbind (memory_object metadata ''metadata'') (\<lambda>metadata.
     Inr \<lparr>mc_memory_id = memory_id, mc_subject_id = subject_id, mc_content = content, mc_source = source,
       mc_occurred_at = occurred_at, mc_provider_relevance = provider_relevance, mc_related_scope = related_scope,
       mc_tags = tags, mc_metadata = metadata\<rparr>)))))))))"

definition memory_candidate_to_dict :: "memory_candidate \<Rightarrow> pyval" where
  "memory_candidate_to_dict c = PDict
     [(''memory_id'', PStr (mc_memory_id c)), (''subject_id'', PStr (mc_subject_id c)), (''content'', PStr (mc_content c)),
      (''source'', PStr (mc_source c)), (''occurred_at'', opt_val (\<lambda>t. PStr (format_z t)) (mc_occurred_at c)),
      (''provider_relevance'', PFloat (mc_provider_relevance c)),
      (''related_scope'', PList (map (\<lambda>s. PStr (section_value s)) (mc_related_scope c))),
      (''tags'', PList (map PStr (mc_tags c))), (''metadata'', PDict (mc_metadata c))]"

definition memory_candidate_from_dict :: "pyval \<Rightarrow> memory_candidate res" where
  "memory_candidate_from_dict value = (case value of
       PDict d \<Rightarrow>
         rbind (ensure (is_list (dict_get_or (PList []) d ''related_scope'')) (memory_invalid ''related_scope must be a list'')) (\<lambda>_.
         rbind (if dict_get d ''occurred_at'' = PNone then Inr PNone
           else memory_parse_datetime (dict_get d ''occurred_at'') ''memory.occurred_at'') (\<lambda>occurred_at.
         rbind (memory_texts (dict_get_or (PList []) d ''tags'') ''tags'') (\<lambda>tags.
         rbind (memory_object (dict_get_or (PDict []) d ''metadata'') ''metadata'') (\<lambda>metadata.
         memory_candidate_init (dict_get d ''memory_id'') (dict_get d ''subject_id'') (dict_get d ''content'')
           (dict_get d ''source'') occurred_at (dict_get d ''provider_relevance'')
           (list_of (dict_get_or (PList []) d ''related_scope'')) (PList (map PStr tags)) (PDict metadata)))))
     | _ \<Rightarrow> Inl (memory_invalid ''memory candidate must be an object''))"

definition wf_memory_candidate :: "memory_candidate \<Rightarrow> bool" where
  "wf_memory_candidate c \<longleftrightarrow> \<not> blank (mc_memory_id c) \<and> \<not> blank (mc_subject_id c) \<and> \<not> blank (mc_content c) \<and>
     \<not> blank (mc_source c) \<and> 0 \<le> mc_provider_relevance c \<and> mc_provider_relevance c \<le> 1 \<and>
     distinct (mc_related_scope c) \<and> json_ok (PDict (mc_metadata c))"

lemma memory_candidate_init_wf: "memory_candidate_init a b c d e f g h i = Inr x \<Longrightarrow> wf_memory_candidate x"
  unfolding memory_candidate_init_def
  by (elim rbindE) (auto simp: wf_memory_candidate_def validator_defs simp del: json_ok.simps
      dest: memory_sections_Inr memory_ratio_Inr memory_object_Inr)

lemma memory_candidate_roundtrip:
  "wf_memory_candidate c \<Longrightarrow> memory_candidate_from_dict (memory_candidate_to_dict c) = Inr c"
  by (cases "mc_occurred_at c") (simp_all add: memory_candidate_from_dict_def memory_candidate_to_dict_def
      memory_candidate_init_def wf_memory_candidate_def ensure_def memory_text_run fromkeys_id optional_aware_def
      del: json_ok.simps)

section \<open>Decisions and results\<close>

record memory_decision =
  md_candidate :: memory_candidate
  md_relevant :: bool
  md_relevance_score :: rat
  md_reasons :: "string list"
  md_selected :: bool

definition memory_decision_init ::
  "memory_candidate \<Rightarrow> pyval \<Rightarrow> pyval \<Rightarrow> pyval \<Rightarrow> pyval \<Rightarrow> memory_decision res" where
  "memory_decision_init candidate relevant relevance_score reasons selected =
     rbind (ensure (is_bool relevant \<and> is_bool selected) (memory_invalid ''relevant and selected must be booleans'')) (\<lambda>_.
     rbind (case as_num relevance_score of
         None \<Rightarrow> Inl (TypeError, ''not supported between instances'')
       | Some q \<Rightarrow> if 0 \<le> q \<and> q \<le> 1 then Inr q else Inl (memory_invalid ''relevance_score must be between 0 and 1'')) (\<lambda>score.
     rbind (memory_texts reasons ''relevance reasons'') (\<lambda>reasons.
     rbind (ensure (reasons \<noteq> []) (memory_invalid ''a relevance decision must explain its reasons'')) (\<lambda>_.
     rbind (ensure (\<not> (truthy selected \<and> \<not> truthy relevant))
       (memory_invalid ''an irrelevant memory cannot be selected'')) (\<lambda>_.
     Inr \<lparr>md_candidate = candidate, md_relevant = truthy relevant, md_relevance_score = score,
       md_reasons = reasons, md_selected = truthy selected\<rparr>)))))"

definition memory_decision_to_dict :: "memory_decision \<Rightarrow> pyval" where
  "memory_decision_to_dict m = PDict
     [(''candidate'', memory_candidate_to_dict (md_candidate m)), (''relevant'', PBool (md_relevant m)),
      (''relevance_score'', PFloat (md_relevance_score m)), (''reasons'', PList (map PStr (md_reasons m))),
      (''selected'', PBool (md_selected m))]"

definition memory_decision_from_dict :: "pyval \<Rightarrow> memory_decision res" where
  "memory_decision_from_dict value = (case value of
       PDict d \<Rightarrow>
         rbind (memory_candidate_from_dict (dict_get d ''candidate'')) (\<lambda>candidate.
         rbind (memory_texts (dict_get d ''reasons'') ''relevance reasons'') (\<lambda>reasons.
         memory_decision_init candidate (dict_get d ''relevant'') (dict_get d ''relevance_score'')
           (PList (map PStr reasons)) (dict_get_or (PBool False) d ''selected'')))
     | _ \<Rightarrow> Inl (memory_invalid ''memory relevance decision must be an object''))"

definition wf_memory_decision :: "memory_decision \<Rightarrow> bool" where
  "wf_memory_decision m \<longleftrightarrow> wf_memory_candidate (md_candidate m) \<and> 0 \<le> md_relevance_score m \<and> md_relevance_score m \<le> 1 \<and>
     md_reasons m \<noteq> [] \<and> (md_selected m \<longrightarrow> md_relevant m)"

record memory_result =
  mr_request :: memory_request
  mr_evaluated_at :: instant
  mr_decisions :: "memory_decision list"

definition memory_result_init :: "memory_request \<Rightarrow> pyval \<Rightarrow> memory_decision list \<Rightarrow> memory_result res" where
  "memory_result_init request evaluated_at decisions =
     rbind (require_aware (memory_invalid ''evaluated_at must include a timezone'') evaluated_at) (\<lambda>evaluated_at.
     Inr \<lparr>mr_request = request, mr_evaluated_at = evaluated_at, mr_decisions = decisions\<rparr>)"

definition selected_memories :: "memory_result \<Rightarrow> memory_candidate list" where
  "selected_memories r = map md_candidate (filter md_selected (mr_decisions r))"

definition memory_result_to_dict :: "memory_result \<Rightarrow> pyval" where
  "memory_result_to_dict r = PDict
     [(''request'', memory_request_to_dict (mr_request r)), (''evaluated_at'', PStr (format_z (mr_evaluated_at r))),
      (''decisions'', PList (map memory_decision_to_dict (mr_decisions r)))]"

definition memory_result_from_dict :: "pyval \<Rightarrow> memory_result res" where
  "memory_result_from_dict value = (case value of
       PDict d \<Rightarrow>
         rbind (ensure (is_list (dict_get d ''decisions'')) (memory_invalid ''decisions must be a list'')) (\<lambda>_.
         rbind (memory_request_from_dict (dict_get d ''request'')) (\<lambda>request.
         rbind (memory_parse_datetime (dict_get d ''evaluated_at'') ''evaluated_at'') (\<lambda>evaluated_at.
         rbind (rmap memory_decision_from_dict (list_of (dict_get d ''decisions''))) (\<lambda>decisions.
         memory_result_init request evaluated_at decisions))))
     | _ \<Rightarrow> Inl (memory_invalid ''memory retrieval result must be an object''))"

definition wf_memory_result :: "memory_result \<Rightarrow> bool" where
  "wf_memory_result r \<longleftrightarrow> wf_memory_request (mr_request r) \<and> (\<forall>m \<in> set (mr_decisions r). wf_memory_decision m)"

lemma memory_decision_init_wf:
  "memory_decision_init c a b d e = Inr m \<Longrightarrow> wf_memory_candidate c \<Longrightarrow> wf_memory_decision m"
  unfolding memory_decision_init_def
  by (elim rbindE) (auto simp: wf_memory_decision_def split: option.splits if_splits)

lemma memory_decision_roundtrip:
  "wf_memory_decision m \<Longrightarrow> memory_decision_from_dict (memory_decision_to_dict m) = Inr m"
  by (simp add: memory_decision_from_dict_def memory_decision_to_dict_def memory_decision_init_def wf_memory_decision_def
      memory_candidate_roundtrip ensure_def)

lemma memory_result_roundtrip: "wf_memory_result r \<Longrightarrow> memory_result_from_dict (memory_result_to_dict r) = Inr r"
  by (simp add: memory_result_from_dict_def memory_result_to_dict_def memory_result_init_def wf_memory_result_def
      memory_request_roundtrip memory_decision_roundtrip rmap_Inr_id ensure_def)

section \<open>Influence records\<close>

record memory_influence =
  mi_influence_id :: string
  mi_request_id :: string
  mi_subject_id :: string
  mi_memory_id :: string
  mi_recorded_at :: instant
  mi_influence_type :: string
  mi_summary :: string
  mi_reason :: string
  mi_affected_fields :: "string list"
  mi_related_event_id :: "string option"
  mi_related_update_id :: "string option"
  mi_metadata :: "(string \<times> pyval) list"

record memory_influence_args =
  mia_influence_id :: pyval
  mia_request_id :: pyval
  mia_subject_id :: pyval
  mia_memory_id :: pyval
  mia_recorded_at :: pyval
  mia_influence_type :: pyval
  mia_summary :: pyval
  mia_reason :: pyval
  mia_affected_fields :: pyval
  mia_related_event_id :: pyval
  mia_related_update_id :: pyval
  mia_metadata :: pyval

definition memory_influence_init :: "memory_influence_args \<Rightarrow> memory_influence res" where
  "memory_influence_init a =
     rbind (memory_text (mia_influence_id a) ''influence_id'') (\<lambda>influence_id.
     rbind (memory_text (mia_request_id a) ''influence.request_id'') (\<lambda>request_id.
     rbind (memory_text (mia_subject_id a) ''influence.subject_id'') (\<lambda>subject_id.
     rbind (memory_text (mia_memory_id a) ''influence.memory_id'') (\<lambda>memory_id.
     rbind (require_aware (memory_invalid ''recorded_at must include a timezone'') (mia_recorded_at a)) (\<lambda>recorded_at.
     rbind (memory_text (mia_influence_type a) ''influence_type'') (\<lambda>influence_type.
     rbind (memory_text (mia_summary a) ''influence.summary'') (\<lambda>summary.
     rbind (memory_text (mia_reason a) ''influence.reason'') (\<lambda>reason.
     rbind (memory_texts (mia_affected_fields a) ''affected_fields'') (\<lambda>affected_fields.
     rbind (optional_text MemoryValidationError (mia_related_event_id a) ''related_event_id'') (\<lambda>related_event_id.
     rbind (optional_text MemoryValidationError (mia_related_update_id a) ''related_update_id'') (\<lambda>related_update_id.
     rbind (memory_object (mia_metadata a) ''metadata'') (\<lambda>metadata.
     Inr \<lparr>mi_influence_id = influence_id, mi_request_id = request_id, mi_subject_id = subject_id, mi_memory_id = memory_id,
       mi_recorded_at = recorded_at, mi_influence_type = influence_type, mi_summary = summary, mi_reason = reason,
       mi_affected_fields = affected_fields, mi_related_event_id = related_event_id,
       mi_related_update_id = related_update_id, mi_metadata = metadata\<rparr>))))))))))))"

definition memory_influence_to_dict :: "memory_influence \<Rightarrow> pyval" where
  "memory_influence_to_dict m = PDict
     [(''influence_id'', PStr (mi_influence_id m)), (''request_id'', PStr (mi_request_id m)),
      (''subject_id'', PStr (mi_subject_id m)), (''memory_id'', PStr (mi_memory_id m)),
      (''recorded_at'', PStr (format_z (mi_recorded_at m))), (''influence_type'', PStr (mi_influence_type m)),
      (''summary'', PStr (mi_summary m)), (''reason'', PStr (mi_reason m)),
      (''affected_fields'', PList (map PStr (mi_affected_fields m))),
      (''related_event_id'', opt_val PStr (mi_related_event_id m)),
      (''related_update_id'', opt_val PStr (mi_related_update_id m)), (''metadata'', PDict (mi_metadata m))]"

definition memory_influence_from_dict :: "pyval \<Rightarrow> memory_influence res" where
  "memory_influence_from_dict value = (case value of
       PDict d \<Rightarrow>
         rbind (memory_parse_datetime (dict_get d ''recorded_at'') ''recorded_at'') (\<lambda>recorded_at.
         rbind (memory_texts (dict_get_or (PList []) d ''affected_fields'') ''affected_fields'') (\<lambda>affected_fields.
         rbind (memory_object (dict_get_or (PDict []) d ''metadata'') ''metadata'') (\<lambda>metadata.
         memory_influence_init
           \<lparr>mia_influence_id = dict_get d ''influence_id'', mia_request_id = dict_get d ''request_id'',
            mia_subject_id = dict_get d ''subject_id'', mia_memory_id = dict_get d ''memory_id'',
            mia_recorded_at = recorded_at, mia_influence_type = dict_get d ''influence_type'',
            mia_summary = dict_get d ''summary'', mia_reason = dict_get d ''reason'',
            mia_affected_fields = PList (map PStr affected_fields), mia_related_event_id = dict_get d ''related_event_id'',
            mia_related_update_id = dict_get d ''related_update_id'', mia_metadata = PDict metadata\<rparr>)))
     | _ \<Rightarrow> Inl (memory_invalid ''memory influence record must be an object''))"

section \<open>Relevance\<close>

text \<open>\<open>MemoryRelevancePolicy.evaluate\<close>: the reasons in order, and whether each counts against the memory.\<close>

definition relevance_findings :: "memory_request \<Rightarrow> memory_candidate \<Rightarrow> (bool \<times> string) list" where
  "relevance_findings q c =
     (if mc_subject_id c \<noteq> mq_subject_id q then [(False, ''The memory belongs to a different subject.'')] else []) @
     (if \<exists>t. mc_occurred_at c = Some t \<and> mq_requested_at q < t
      then [(False, ''The memory occurs after the retrieval request time.'')] else []) @
     (if mq_desired_scope q \<noteq> [] \<and> mc_related_scope c \<noteq> [] \<and> set (mq_desired_scope q) \<inter> set (mc_related_scope c) = {}
      then [(False, ''The memory does not overlap the requested state scope.'')]
      else if mq_desired_scope q \<noteq> [] \<and> mc_related_scope c \<noteq> []
      then [(True, ''The memory overlaps the requested state scope.'')]
      else if mq_desired_scope q \<noteq> []
      then [(True, ''The provider did not declare a state scope for this memory.'')]
      else []) @
     (if mc_provider_relevance c < mq_minimum_relevance q
      then [(False, ''The provider relevance score is below the request threshold.'')]
      else [(True, ''The provider relevance score meets the request threshold.'')])"

definition evaluate_candidate :: "memory_request \<Rightarrow> memory_candidate \<Rightarrow> memory_decision res" where
  "evaluate_candidate q c = (let findings = relevance_findings q c in
     memory_decision_init c (PBool (\<forall>f \<in> set findings. fst f)) (PFloat (mc_provider_relevance c))
       (PList (map (\<lambda>f. PStr (snd f)) findings)) (PBool False))"

section \<open>The service\<close>

record memory_ports =
  ms_retrieve :: "memory_request \<Rightarrow> memory_candidate list res"
  ms_record :: "memory_influence \<Rightarrow> unit res"
  ms_clock :: pyval
  ms_uuid :: string

fun check_unique_memories :: "string set \<Rightarrow> memory_candidate list \<Rightarrow> unit res" where
  "check_unique_memories seen [] = Inr ()"
| "check_unique_memories seen (c # cs) =
     (if mc_memory_id c \<in> seen
      then Inl (memory_invalid (''memory retriever returned a duplicate memory_id: '' @ mc_memory_id c))
      else check_unique_memories (insert (mc_memory_id c) seen) cs)"

definition memory_rank :: "memory_request \<Rightarrow> memory_decision \<Rightarrow> rat \<times> instant \<times> string" where
  "memory_rank q m = (md_relevance_score m,
     (case mc_occurred_at (md_candidate m) of None \<Rightarrow> mq_requested_at q | Some t \<Rightarrow> t), mc_memory_id (md_candidate m))"

text \<open>\<open>sorted(..., reverse=True)\<close> keeps the order of equal elements.\<close>

definition ranked_decisions :: "memory_request \<Rightarrow> memory_decision list \<Rightarrow> memory_decision list" where
  "ranked_decisions q decisions = rev (sort_key (memory_rank q) (rev (filter md_relevant decisions)))"

definition memory_retrieve :: "memory_ports \<Rightarrow> memory_request \<Rightarrow> memory_result res" where
  "memory_retrieve ms q =
     rbind (ms_retrieve ms q) (\<lambda>candidates.
     rbind (check_unique_memories {} candidates) (\<lambda>_.
     rbind (rmap (evaluate_candidate q) candidates) (\<lambda>decisions.
     let chosen = map (\<lambda>m. mc_memory_id (md_candidate m)) (take (nat (mq_limit q)) (ranked_decisions q decisions)) in
     memory_result_init q (ms_clock ms)
       (map (\<lambda>m. if mc_memory_id (md_candidate m) \<in> set chosen then m\<lparr>md_selected := True\<rparr> else m) decisions))))"

definition formal_provenance_fields :: "string list" where
  "formal_provenance_fields = [''memory_kind'', ''evidence_type'', ''root_evidence_ids'', ''source_event_ids'',
     ''source_memory_ids'', ''source_message_ids'', ''visibility'', ''memory_status'', ''memory_temperature'',
     ''memory_revision'', ''memory_version'', ''memory_environment'', ''memory_hash'', ''memory_lifecycle'', ''memory_weight'']"

fun merge_metadata :: "(string \<times> pyval) list \<Rightarrow> (string \<times> pyval) list \<Rightarrow> (string \<times> pyval) list \<Rightarrow> (string \<times> pyval) list res" where
  "merge_metadata formal merged [] = Inr merged"
| "merge_metadata formal merged ((k, v) # rest) =
     (if k \<in> set formal_provenance_fields then
        rbind (ensure (\<exists>u. map_of formal k = Some u \<and> py_eq u v)
          (MemoryInfluenceError, ''caller metadata conflicts with sealed memory provenance: '' @ k)) (\<lambda>_.
        merge_metadata formal merged rest)
      else merge_metadata formal (dict_set merged k v) rest)"

definition record_memory_influence ::
  "memory_ports \<Rightarrow> memory_result \<Rightarrow> string \<Rightarrow> string \<Rightarrow> string \<Rightarrow> string \<Rightarrow> string list \<Rightarrow> state_update option
     \<Rightarrow> (string \<times> pyval) list \<Rightarrow> memory_influence res" where
  "record_memory_influence ms result memory_id influence_type summary reason affected_fields update metadata =
     (case List.find (\<lambda>c. mc_memory_id c = memory_id) (rev (selected_memories result)) of
       None \<Rightarrow> Inl (MemoryInfluenceError, ''memory influence can only be recorded for a selected relevant memory'')
     | Some candidate \<Rightarrow>
         rbind (ensure (\<forall>u. update = Some u \<longrightarrow> su_subject_id u = mq_subject_id (mr_request result))
           (MemoryInfluenceError, ''state update subject does not match the memory retrieval subject'')) (\<lambda>_.
         rbind (merge_metadata (mc_metadata candidate) (mc_metadata candidate) metadata) (\<lambda>merged.
         rbind (memory_influence_init
           \<lparr>mia_influence_id = PStr (ms_uuid ms), mia_request_id = PStr (mq_request_id (mr_request result)),
            mia_subject_id = PStr (mq_subject_id (mr_request result)), mia_memory_id = PStr memory_id,
            mia_recorded_at = ms_clock ms, mia_influence_type = PStr influence_type, mia_summary = PStr summary,
            mia_reason = PStr reason,
            mia_affected_fields = PList (map PStr (fromkeys (affected_fields @
              (case update of None \<Rightarrow> [] | Some u \<Rightarrow> map fc_field_path (su_changes u))))),
            mia_related_event_id = opt_val PStr (map_option (\<lambda>u. ev_event_id (su_event u)) update),
            mia_related_update_id = opt_val PStr (map_option su_update_id update), mia_metadata = PDict merged\<rparr>) (\<lambda>record.
         rbind (ms_record ms record) (\<lambda>_. Inr record)))))"

end
