(* ===== verification/Learning.thy ===== *)
theory Learning
  imports Subject_State Memory_Retrieval
begin

text \<open>
  domain/learning.py: a candidate for a lasting
  change of character, the trait it may become, and the audit record of every step. As in the
  other domain modules a constructor takes unvalidated arguments and datetimes are kept as the
  UTC instants they denote.
\<close>

section \<open>Enumerations and checks\<close>

datatype learning_status = Ls_PENDING | Ls_VALIDATED | Ls_REJECTED | Ls_REVOKED

datatype learning_record_type = Lr_CANDIDATE_CREATED | Lr_CONFIDENCE_ADJUSTED | Lr_VALIDATED | Lr_REJECTED
  | Lr_CONSOLIDATED | Lr_ROLLED_BACK | Lr_GROWTH_PREPARED | Lr_GROWTH_SUPERSEDED

fun learning_status_value :: "learning_status \<Rightarrow> string" where
  "learning_status_value Ls_PENDING = ''PENDING''"
| "learning_status_value Ls_VALIDATED = ''VALIDATED''"
| "learning_status_value Ls_REJECTED = ''REJECTED''"
| "learning_status_value Ls_REVOKED = ''REVOKED''"

fun learning_record_value :: "learning_record_type \<Rightarrow> string" where
  "learning_record_value Lr_CANDIDATE_CREATED = ''CANDIDATE_CREATED''"
| "learning_record_value Lr_CONFIDENCE_ADJUSTED = ''CONFIDENCE_ADJUSTED''"
| "learning_record_value Lr_VALIDATED = ''VALIDATED''"
| "learning_record_value Lr_REJECTED = ''REJECTED''"
| "learning_record_value Lr_CONSOLIDATED = ''CONSOLIDATED''"
| "learning_record_value Lr_ROLLED_BACK = ''ROLLED_BACK''"
| "learning_record_value Lr_GROWTH_PREPARED = ''GROWTH_PREPARED''"
| "learning_record_value Lr_GROWTH_SUPERSEDED = ''GROWTH_SUPERSEDED''"

definition learnable_paths :: "string list" where
  "learnable_paths = [''identity.stable_traits'', ''identity.expression_preferences'',
     ''identity.judgment_principles'', ''relationship.interaction_preferences'']"

abbreviation learning_invalid :: "string \<Rightarrow> exn" where
  "learning_invalid m \<equiv> (LearningValidationError, m)"

definition learning_text :: "pyval \<Rightarrow> string \<Rightarrow> string res" where
  "learning_text v name = require_text LearningValidationError v name"

definition learning_text_optional :: "pyval \<Rightarrow> string \<Rightarrow> string option res" where
  "learning_text_optional v name = optional_text LearningValidationError v name"

definition learning_confidence :: "pyval \<Rightarrow> string \<Rightarrow> rat res" where
  "learning_confidence v name =
     rbind (case v of
         PInt n \<Rightarrow> float_of_int n
       | PFloat q \<Rightarrow> Inr q
       | _ \<Rightarrow> Inl (learning_invalid (name @ '' must be a number''))) (\<lambda>q.
     if 0 \<le> q \<and> q \<le> 1 then Inr q else Inl (learning_invalid (name @ '' must be between zero and one'')))"

definition learning_parse_datetime :: "pyval \<Rightarrow> string \<Rightarrow> pyval res" where
  "learning_parse_datetime v name = (case v of
       PStr s \<Rightarrow> (case fromisoformat (replace_Z s) of
         None \<Rightarrow> Inl (learning_invalid (name @ '' is not a valid datetime''))
       | Some (w, None) \<Rightarrow> Inl (learning_invalid (name @ '' must include a timezone''))
       | Some (w, Some off) \<Rightarrow> Inr (PTime w (Some off)))
     | _ \<Rightarrow> Inl (learning_invalid (name @ '' must be an ISO-8601 string'')))"

definition learning_json :: "pyval \<Rightarrow> string \<Rightarrow> pyval res" where
  "learning_json v name = rbind (ensure (json_ok v)
     (learning_invalid (name @ '' must contain JSON-compatible data''))) (\<lambda>_. Inr v)"

definition learning_texts :: "pyval \<Rightarrow> string \<Rightarrow> string list res" where
  "learning_texts v name =
     (let e = learning_invalid (name @ '' must be a list of non-empty strings'') in
      case v of
        PList xs \<Rightarrow> rbind (rmap (\<lambda>x. case x of PStr s \<Rightarrow> if blank s then Inl e else Inr s | _ \<Rightarrow> Inl e) xs)
          (\<lambda>ss. Inr (fromkeys ss))
      | _ \<Rightarrow> Inl e)"

definition learning_natural :: "pyval \<Rightarrow> int \<Rightarrow> exn \<Rightarrow> int res" where
  "learning_natural v least e = (case as_int v of Some n \<Rightarrow> if n < least then Inl e else Inr n | None \<Rightarrow> Inl e)"

definition learning_status_of :: "exn \<Rightarrow> pyval \<Rightarrow> learning_status res" where
  "learning_status_of e v = require_enum e learning_status_value [Ls_PENDING, Ls_VALIDATED, Ls_REJECTED, Ls_REVOKED] v"

definition learning_record_type_of :: "exn \<Rightarrow> pyval \<Rightarrow> learning_record_type res" where
  "learning_record_type_of e v = require_enum e learning_record_value [Lr_CANDIDATE_CREATED, Lr_CONFIDENCE_ADJUSTED,
     Lr_VALIDATED, Lr_REJECTED, Lr_CONSOLIDATED, Lr_ROLLED_BACK, Lr_GROWTH_PREPARED, Lr_GROWTH_SUPERSEDED] v"

abbreviation str_list :: "string list \<Rightarrow> pyval" where
  "str_list ss \<equiv> PList (map PStr ss)"

lemma learning_text_Inr [validator_defs]: "learning_text v n = Inr s \<longleftrightarrow> v = PStr s \<and> \<not> blank s"
  by (simp add: learning_text_def require_text_eq_Inr)

lemma learning_text_optional_Inr [validator_defs]:
  "learning_text_optional v n = Inr x \<longleftrightarrow> v = opt_val PStr x \<and> (\<forall>s. x = Some s \<longrightarrow> \<not> blank s)"
  by (simp add: learning_text_optional_def optional_text_eq_Inr)

lemma learning_text_run:
  "\<not> blank s \<Longrightarrow> learning_text (PStr s) n = Inr s"
  "\<forall>s. x = Some s \<longrightarrow> \<not> blank s \<Longrightarrow> learning_text_optional (opt_val PStr x) n = Inr x"
  by (simp_all add: learning_text_Inr learning_text_optional_Inr)

lemma learning_confidence_Inr: "learning_confidence v n = Inr q \<Longrightarrow> 0 \<le> q \<and> q \<le> 1"
  by (auto simp: learning_confidence_def rbind_eq_Inr split: if_splits)

lemma learning_confidence_run [simp]: "0 \<le> q \<Longrightarrow> q \<le> 1 \<Longrightarrow> learning_confidence (PFloat q) n = Inr q"
  by (simp add: learning_confidence_def)

lemma learning_parse_format [simp]: "learning_parse_datetime (PStr (format_z t)) n = Inr (utc_val t)"
  by (simp add: learning_parse_datetime_def)

lemma learning_json_Inr [validator_defs]: "learning_json v n = Inr u \<longleftrightarrow> json_ok v \<and> u = v"
  by (auto simp: learning_json_def ensure_def)

lemma learning_json_run: "json_ok v \<Longrightarrow> learning_json v n = Inr v"
  by (simp add: learning_json_Inr)

lemma learning_texts_Inr:
  assumes "learning_texts v n = Inr ss"
  shows "distinct ss \<and> (\<forall>s \<in> set ss. \<not> blank s)"
proof -
  obtain xs ys where xs: "v = PList xs" and ss: "ss = fromkeys ys"
    and r: "rmap (\<lambda>x. case x of PStr s \<Rightarrow>
        if blank s then Inl (learning_invalid (n @ '' must be a list of non-empty strings'')) else Inr s
      | _ \<Rightarrow> Inl (learning_invalid (n @ '' must be a list of non-empty strings''))) xs = Inr ys"
    using assms by (auto simp: learning_texts_def Let_def rbind_eq_Inr split: pyval.splits)
  have "\<forall>s \<in> set ys. \<not> blank s"
    using r by (induction xs arbitrary: ys) (auto simp: rbind_eq_Inr split: pyval.splits if_splits)
  with ss show ?thesis by simp
qed

lemma learning_texts_run:
  assumes "\<forall>s \<in> set ss. \<not> blank s"
  shows "learning_texts (str_list ss) n = Inr (fromkeys ss)"
proof -
  have "rmap (\<lambda>x. case x of PStr s \<Rightarrow> if blank s then Inl e else Inr s | _ \<Rightarrow> Inl e) (map PStr ss) = Inr ss" for e :: exn
    using assms by (induction ss) auto
  then show ?thesis by (simp add: learning_texts_def Let_def)
qed

lemma learning_texts_id: "distinct ss \<Longrightarrow> \<forall>s \<in> set ss. \<not> blank s \<Longrightarrow> learning_texts (str_list ss) n = Inr ss"
  by (simp add: learning_texts_run fromkeys_id)

lemma learning_natural_Inr: "learning_natural v l e = Inr n \<Longrightarrow> l \<le> n"
  by (auto simp: learning_natural_def split: option.splits if_splits)

lemma learning_natural_run [simp]: "l \<le> n \<Longrightarrow> learning_natural (PInt n) l e = Inr n"
  by (simp add: learning_natural_def)

lemma learning_enum_run [simp]:
  "learning_status_of e (PStr (learning_status_value s)) = Inr s"
  "learning_record_type_of e (PStr (learning_record_value r)) = Inr r"
  subgoal unfolding learning_status_of_def by (rule require_enum_PStr) (cases s, auto)
  subgoal unfolding learning_record_type_of_def by (rule require_enum_PStr) (cases r, auto)
  done

section \<open>Candidates\<close>

definition validate_learning_mutation :: "state_mutation \<Rightarrow> unit res" where
  "validate_learning_mutation m =
     rbind (ensure (sm_field_path m \<in> set learnable_paths)
       (learning_invalid ''learning changes are limited to approved long-term characteristic fields'')) (\<lambda>_.
     rbind (ensure (sm_operation m = Op_APPEND)
       (learning_invalid ''learning candidates may only append one long-term characteristic'')) (\<lambda>_.
     rbind (learning_text (sm_value m) ''proposed_change.value'') (\<lambda>_. Inr ())))"

record learning_event =
  le_learning_id :: string
  le_subject_id :: string
  le_source_event_id :: "string option"
  le_source_memory_id :: "string option"
  le_related_state_revision :: int
  le_observation :: string
  le_hypothesis :: string
  le_proposed_change :: state_mutation
  le_confidence :: rat
  le_validation_status :: learning_status
  le_created_at :: instant
  le_revision :: int
  le_evidence_learning_ids :: "string list"
  le_root_evidence_ids :: "string list"

record learning_event_args =
  lea_learning_id :: pyval
  lea_subject_id :: pyval
  lea_source_event_id :: pyval
  lea_source_memory_id :: pyval
  lea_related_state_revision :: pyval
  lea_observation :: pyval
  lea_hypothesis :: pyval
  lea_proposed_change :: state_mutation
  lea_confidence :: pyval
  lea_validation_status :: pyval
  lea_created_at :: pyval
  lea_revision :: pyval
  lea_evidence_learning_ids :: pyval
  lea_root_evidence_ids :: pyval

definition source_identity :: "string option \<Rightarrow> string option \<Rightarrow> string" where
  "source_identity event_id memory_id = (case event_id of
       Some i \<Rightarrow> ''event:'' @ i | None \<Rightarrow> ''memory:'' @ (case memory_id of Some j \<Rightarrow> j | None \<Rightarrow> []))"

definition learning_event_init :: "learning_event_args \<Rightarrow> learning_event res" where
  "learning_event_init a =
     rbind (learning_text (lea_learning_id a) ''learning_id'') (\<lambda>learning_id.
     rbind (learning_text (lea_subject_id a) ''learning subject_id'') (\<lambda>subject_id.
     rbind (learning_text_optional (lea_source_event_id a) ''source_event_id'') (\<lambda>source_event_id.
     rbind (learning_text_optional (lea_source_memory_id a) ''source_memory_id'') (\<lambda>source_memory_id.
     rbind (ensure (\<not> (source_event_id = None \<and> source_memory_id = None))
       (learning_invalid ''a learning candidate requires a source event or source memory'')) (\<lambda>_.
     rbind (learning_natural (lea_related_state_revision a) 0
       (learning_invalid ''related_state_revision must be non-negative'')) (\<lambda>related.
     rbind (learning_text (lea_observation a) ''learning observation'') (\<lambda>observation.
     rbind (learning_text (lea_hypothesis a) ''learning hypothesis'') (\<lambda>hypothesis.
     rbind (validate_learning_mutation (lea_proposed_change a)) (\<lambda>_.
     rbind (learning_confidence (lea_confidence a) ''confidence'') (\<lambda>confidence.
     rbind (learning_status_of (learning_invalid ''unsupported learning validation status'') (lea_validation_status a)) (\<lambda>status.
     rbind (require_aware (learning_invalid ''learning created_at must include a timezone'') (lea_created_at a)) (\<lambda>created_at.
     rbind (learning_natural (lea_revision a) 0 (learning_invalid ''learning revision must be non-negative'')) (\<lambda>revision.
     rbind (learning_texts (lea_evidence_learning_ids a) ''evidence_learning_ids'') (\<lambda>evidence.
     rbind (learning_texts (lea_root_evidence_ids a) ''root_evidence_ids'') (\<lambda>roots.
     let roots = (if roots = [] then [source_identity source_event_id source_memory_id] else roots) in
     rbind (ensure (distinct roots) (learning_invalid ''root_evidence_ids must not contain duplicates'')) (\<lambda>_.
     Inr \<lparr>le_learning_id = learning_id, le_subject_id = subject_id, le_source_event_id = source_event_id,
       le_source_memory_id = source_memory_id, le_related_state_revision = related, le_observation = observation,
       le_hypothesis = hypothesis, le_proposed_change = lea_proposed_change a, le_confidence = confidence,
       le_validation_status = status, le_created_at = created_at, le_revision = revision,
       le_evidence_learning_ids = evidence, le_root_evidence_ids = roots\<rparr>))))))))))))))))"

definition learning_event_to_dict :: "learning_event \<Rightarrow> pyval" where
  "learning_event_to_dict e = PDict
     [(''learning_id'', PStr (le_learning_id e)), (''subject_id'', PStr (le_subject_id e)),
      (''source_event_id'', opt_val PStr (le_source_event_id e)),
      (''source_memory_id'', opt_val PStr (le_source_memory_id e)),
      (''related_state_revision'', PInt (le_related_state_revision e)),
      (''observation'', PStr (le_observation e)), (''hypothesis'', PStr (le_hypothesis e)),
      (''proposed_change'', state_mutation_to_dict (le_proposed_change e)),
      (''confidence'', PFloat (le_confidence e)),
      (''validation_status'', PStr (learning_status_value (le_validation_status e))),
      (''created_at'', PStr (format_z (le_created_at e))), (''revision'', PInt (le_revision e)),
      (''evidence_learning_ids'', str_list (le_evidence_learning_ids e)),
      (''root_evidence_ids'', str_list (le_root_evidence_ids e))]"

definition learning_event_from_dict :: "pyval \<Rightarrow> learning_event res" where
  "learning_event_from_dict value = (case value of
       PDict d \<Rightarrow>
         rbind (state_mutation_from_dict (dict_get d ''proposed_change'')) (\<lambda>change.
         rbind (learning_parse_datetime (dict_get d ''created_at'') ''learning created_at'') (\<lambda>created_at.
         rbind (learning_texts (dict_get_or (PList []) d ''evidence_learning_ids'') ''evidence_learning_ids'') (\<lambda>evidence.
         rbind (learning_texts (dict_get_or (PList []) d ''root_evidence_ids'') ''root_evidence_ids'') (\<lambda>roots.
         learning_event_init
           \<lparr>lea_learning_id = dict_get d ''learning_id'', lea_subject_id = dict_get d ''subject_id'',
            lea_source_event_id = dict_get d ''source_event_id'', lea_source_memory_id = dict_get d ''source_memory_id'',
            lea_related_state_revision = dict_get d ''related_state_revision'',
            lea_observation = dict_get d ''observation'', lea_hypothesis = dict_get d ''hypothesis'',
            lea_proposed_change = change, lea_confidence = dict_get d ''confidence'',
            lea_validation_status = dict_get d ''validation_status'', lea_created_at = created_at,
            lea_revision = dict_get_or (PInt 0) d ''revision'', lea_evidence_learning_ids = str_list evidence,
            lea_root_evidence_ids = str_list roots\<rparr>))))
     | _ \<Rightarrow> Inl (learning_invalid ''learning event must be an object''))"

definition learning_args_of :: "learning_event \<Rightarrow> learning_event_args" where
  "learning_args_of e =
     \<lparr>lea_learning_id = PStr (le_learning_id e), lea_subject_id = PStr (le_subject_id e),
      lea_source_event_id = opt_val PStr (le_source_event_id e), lea_source_memory_id = opt_val PStr (le_source_memory_id e),
      lea_related_state_revision = PInt (le_related_state_revision e), lea_observation = PStr (le_observation e),
      lea_hypothesis = PStr (le_hypothesis e), lea_proposed_change = le_proposed_change e,
      lea_confidence = PFloat (le_confidence e),
      lea_validation_status = PStr (learning_status_value (le_validation_status e)),
      lea_created_at = utc_val (le_created_at e), lea_revision = PInt (le_revision e),
      lea_evidence_learning_ids = str_list (le_evidence_learning_ids e),
      lea_root_evidence_ids = str_list (le_root_evidence_ids e)\<rparr>"

text \<open>\<open>__post_init__\<close> called again on a candidate whose fields were assigned to.\<close>

definition learning_event_recheck :: "learning_event \<Rightarrow> learning_event res" where
  "learning_event_recheck e = learning_event_init (learning_args_of e)"

text \<open>\<open>LearningEvent.from_dict(current.to_dict())\<close>.\<close>

definition learning_event_copy :: "learning_event \<Rightarrow> learning_event res" where
  "learning_event_copy e = learning_event_from_dict (learning_event_to_dict e)"

definition wf_learning_event :: "learning_event \<Rightarrow> bool" where
  "wf_learning_event e \<longleftrightarrow> \<not> blank (le_learning_id e) \<and> \<not> blank (le_subject_id e) \<and>
     (\<forall>s. le_source_event_id e = Some s \<longrightarrow> \<not> blank s) \<and> (\<forall>s. le_source_memory_id e = Some s \<longrightarrow> \<not> blank s) \<and>
     (le_source_event_id e \<noteq> None \<or> le_source_memory_id e \<noteq> None) \<and> 0 \<le> le_related_state_revision e \<and>
     \<not> blank (le_observation e) \<and> \<not> blank (le_hypothesis e) \<and> wf_mutation (le_proposed_change e) \<and>
     validate_learning_mutation (le_proposed_change e) = Inr () \<and> 0 \<le> le_confidence e \<and> le_confidence e \<le> 1 \<and>
     0 \<le> le_revision e \<and> distinct (le_evidence_learning_ids e) \<and> (\<forall>s \<in> set (le_evidence_learning_ids e). \<not> blank s) \<and>
     distinct (le_root_evidence_ids e) \<and> (\<forall>s \<in> set (le_root_evidence_ids e). \<not> blank s) \<and> le_root_evidence_ids e \<noteq> []"

lemma not_blank_append: "\<not> blank a \<Longrightarrow> \<not> blank (a @ b)"
  by (simp add: blank_def)

lemma source_identity_not_blank: "\<not> blank (source_identity i j)"
proof -
  have "\<not> blank ''event:''" "\<not> blank ''memory:''" by (simp_all add: blank_def py_space_def)
  then show ?thesis unfolding source_identity_def by (cases i) (simp_all only: option.case not_blank_append not_False_eq_True)
qed

lemma learning_event_init_wf:
  assumes "learning_event_init a = Inr e" "wf_mutation (lea_proposed_change a)"
  shows "wf_learning_event e \<and> le_proposed_change e = lea_proposed_change a"
  using assms unfolding learning_event_init_def Let_def
  by (elim rbindE)
    (auto simp: wf_learning_event_def validator_defs source_identity_not_blank
      dest!: learning_confidence_Inr learning_natural_Inr learning_texts_Inr split: if_splits)

lemma learning_event_recheck_run: "wf_learning_event e \<Longrightarrow> learning_event_recheck e = Inr e"
  by (simp add: learning_event_recheck_def learning_event_init_def learning_args_of_def wf_learning_event_def
      learning_text_run learning_texts_id)

lemma learning_event_copy_run [simp]: "wf_learning_event e \<Longrightarrow> learning_event_copy e = Inr e"
  using learning_event_recheck_run [of e]
  by (simp add: learning_event_copy_def learning_event_from_dict_def learning_event_to_dict_def wf_learning_event_def
      state_mutation_roundtrip learning_texts_id learning_event_recheck_def learning_args_of_def)

lemma learning_event_from_dict_wf: "learning_event_from_dict v = Inr e \<Longrightarrow> wf_learning_event e"
  by (auto simp: learning_event_from_dict_def rbind_eq_Inr dest!: state_mutation_from_dict_wf learning_event_init_wf
      split: pyval.splits)

section \<open>Traits\<close>

record personality_trait =
  pt_trait_id :: string
  pt_subject_id :: string
  pt_name :: string
  pt_description :: string
  pt_field_path :: string
  pt_current_value :: string
  pt_confidence :: rat
  pt_created_at :: instant
  pt_last_updated_at :: instant
  pt_evidence_count :: int
  pt_active :: bool
  pt_revision :: int

definition trait_init ::
  "pyval \<Rightarrow> pyval \<Rightarrow> pyval \<Rightarrow> pyval \<Rightarrow> pyval \<Rightarrow> pyval \<Rightarrow> pyval \<Rightarrow> pyval \<Rightarrow> pyval \<Rightarrow> pyval \<Rightarrow> pyval \<Rightarrow> pyval \<Rightarrow> personality_trait res" where
  "trait_init trait_id subject_id name description field_path current_value confidence created_at last_updated_at
     evidence_count active revision =
     rbind (learning_text trait_id ''trait_id'') (\<lambda>trait_id.
     rbind (learning_text subject_id ''trait subject_id'') (\<lambda>subject_id.
     rbind (learning_text name ''trait name'') (\<lambda>name.
     rbind (learning_text description ''trait description'') (\<lambda>description.
     rbind (learning_text field_path ''trait field_path'') (\<lambda>field_path.
     rbind (learning_text current_value ''trait current_value'') (\<lambda>current_value.
     rbind (ensure (field_path \<in> set learnable_paths) (learning_invalid ''trait field_path is not learnable'')) (\<lambda>_.
     rbind (learning_confidence confidence ''trait confidence'') (\<lambda>confidence.
     rbind (require_aware (learning_invalid ''trait timestamps must include a timezone'') created_at) (\<lambda>created_at.
     rbind (require_aware (learning_invalid ''trait timestamps must include a timezone'') last_updated_at) (\<lambda>last_updated_at.
     rbind (learning_natural evidence_count 1 (learning_invalid ''trait evidence_count must be positive'')) (\<lambda>evidence_count.
     rbind (ensure (is_bool active) (learning_invalid ''trait active must be a boolean'')) (\<lambda>_.
     rbind (learning_natural revision 0 (learning_invalid ''trait revision must be non-negative'')) (\<lambda>revision.
     Inr \<lparr>pt_trait_id = trait_id, pt_subject_id = subject_id, pt_name = name, pt_description = description,
       pt_field_path = field_path, pt_current_value = current_value, pt_confidence = confidence,
       pt_created_at = created_at, pt_last_updated_at = last_updated_at, pt_evidence_count = evidence_count,
       pt_active = truthy active, pt_revision = revision\<rparr>)))))))))))))"

definition trait_to_dict :: "personality_trait \<Rightarrow> pyval" where
  "trait_to_dict t = PDict
     [(''trait_id'', PStr (pt_trait_id t)), (''subject_id'', PStr (pt_subject_id t)), (''name'', PStr (pt_name t)),
      (''description'', PStr (pt_description t)), (''field_path'', PStr (pt_field_path t)),
      (''current_value'', PStr (pt_current_value t)), (''confidence'', PFloat (pt_confidence t)),
      (''created_at'', PStr (format_z (pt_created_at t))),
      (''last_updated_at'', PStr (format_z (pt_last_updated_at t))),
      (''evidence_count'', PInt (pt_evidence_count t)), (''active'', PBool (pt_active t)),
      (''revision'', PInt (pt_revision t))]"

definition trait_from_dict :: "pyval \<Rightarrow> personality_trait res" where
  "trait_from_dict value = (case value of
       PDict d \<Rightarrow>
         rbind (learning_parse_datetime (dict_get d ''created_at'') ''trait created_at'') (\<lambda>created_at.
         rbind (learning_parse_datetime (dict_get d ''last_updated_at'') ''trait last_updated_at'') (\<lambda>last_updated_at.
         trait_init (dict_get d ''trait_id'') (dict_get d ''subject_id'') (dict_get d ''name'')
           (dict_get d ''description'') (dict_get d ''field_path'') (dict_get d ''current_value'')
           (dict_get d ''confidence'') created_at last_updated_at (dict_get d ''evidence_count'')
           (dict_get_or (PBool True) d ''active'') (dict_get_or (PInt 0) d ''revision'')))
     | _ \<Rightarrow> Inl (learning_invalid ''personality trait must be an object''))"

definition trait_recheck :: "personality_trait \<Rightarrow> personality_trait res" where
  "trait_recheck t = trait_init (PStr (pt_trait_id t)) (PStr (pt_subject_id t)) (PStr (pt_name t))
     (PStr (pt_description t)) (PStr (pt_field_path t)) (PStr (pt_current_value t)) (PFloat (pt_confidence t))
     (utc_val (pt_created_at t)) (utc_val (pt_last_updated_at t)) (PInt (pt_evidence_count t)) (PBool (pt_active t))
     (PInt (pt_revision t))"

definition trait_copy :: "personality_trait \<Rightarrow> personality_trait res" where
  "trait_copy t = trait_from_dict (trait_to_dict t)"

definition wf_trait :: "personality_trait \<Rightarrow> bool" where
  "wf_trait t \<longleftrightarrow> \<not> blank (pt_trait_id t) \<and> \<not> blank (pt_subject_id t) \<and> \<not> blank (pt_name t) \<and>
     \<not> blank (pt_description t) \<and> \<not> blank (pt_current_value t) \<and> \<not> blank (pt_field_path t) \<and>
     pt_field_path t \<in> set learnable_paths \<and> 0 \<le> pt_confidence t \<and> pt_confidence t \<le> 1 \<and>
     1 \<le> pt_evidence_count t \<and> 0 \<le> pt_revision t"

lemma trait_init_wf: "trait_init a b c d e f g h i j k l = Inr t \<Longrightarrow> wf_trait t"
  unfolding trait_init_def
  by (elim rbindE) (auto simp: wf_trait_def validator_defs dest!: learning_confidence_Inr learning_natural_Inr)

lemma trait_recheck_run: "wf_trait t \<Longrightarrow> trait_recheck t = Inr t"
  by (simp add: trait_recheck_def trait_init_def wf_trait_def learning_text_run)

lemma trait_copy_run [simp]: "wf_trait t \<Longrightarrow> trait_copy t = Inr t"
  using trait_recheck_run [of t] by (simp add: trait_copy_def trait_from_dict_def trait_to_dict_def trait_recheck_def)

lemma trait_from_dict_wf: "trait_from_dict v = Inr t \<Longrightarrow> wf_trait t"
  by (auto simp: trait_from_dict_def rbind_eq_Inr dest!: trait_init_wf split: pyval.splits)

section \<open>Audit records\<close>

record learning_record =
  lr_record_id :: string
  lr_learning_id :: string
  lr_subject_id :: string
  lr_record_type :: learning_record_type
  lr_original_experience :: pyval
  lr_observation :: string
  lr_hypothesis :: string
  lr_validation_status :: learning_status
  lr_permanently_consolidated :: bool
  lr_field_path :: string
  lr_before_value :: pyval
  lr_after_value :: pyval
  lr_reason :: string
  lr_source :: string
  lr_created_at :: instant
  lr_evidence_learning_ids :: "string list"
  lr_root_evidence_ids :: "string list"
  lr_trait_id :: "string option"
  lr_state_event_id :: "string option"
  lr_pending_state_event :: pyval
  lr_growth_operation :: pyval
  lr_growth_resolution :: pyval

record learning_record_args =
  lra_record_id :: pyval
  lra_learning_id :: pyval
  lra_subject_id :: pyval
  lra_record_type :: pyval
  lra_original_experience :: pyval
  lra_observation :: pyval
  lra_hypothesis :: pyval
  lra_validation_status :: pyval
  lra_permanently_consolidated :: pyval
  lra_field_path :: pyval
  lra_before_value :: pyval
  lra_after_value :: pyval
  lra_reason :: pyval
  lra_source :: pyval
  lra_created_at :: pyval
  lra_evidence_learning_ids :: pyval
  lra_root_evidence_ids :: pyval
  lra_trait_id :: pyval
  lra_state_event_id :: pyval
  lra_pending_state_event :: pyval
  lra_growth_operation :: pyval
  lra_growth_resolution :: pyval

text \<open>\<open>GrowthCommand(**v)\<close>: a missing or an unknown argument is a \<open>TypeError\<close>.\<close>

definition growth_command_required :: "string list" where
  "growth_command_required = [''command_id'', ''subject_id'', ''environment'', ''expected_revision'',
     ''learning_id'', ''operation'', ''reason'']"

definition growth_command_of :: "pyval \<Rightarrow> growth_command res" where
  "growth_command_of v = (case v of
       PDict d \<Rightarrow>
         if set growth_command_required \<subseteq> set (map fst d) \<and>
           set (map fst d) \<subseteq> set (''trait_id'' # growth_command_required)
         then growth_command_init (dict_get d ''command_id'') (dict_get d ''subject_id'') (dict_get d ''environment'')
           (dict_get d ''expected_revision'') (dict_get d ''learning_id'') (dict_get d ''operation'')
           (dict_get d ''reason'') (dict_get d ''trait_id'')
         else Inl (TypeError, ''unexpected arguments'')
     | _ \<Rightarrow> Inl (TypeError, ''argument must be a mapping''))"

fun dict_of :: "pyval \<Rightarrow> (string \<times> pyval) list" where
  "dict_of (PDict d) = d"
| "dict_of _ = []"

definition growth_pending_check ::
  "string \<Rightarrow> string \<Rightarrow> string option \<Rightarrow> string \<Rightarrow> string option \<Rightarrow> string \<Rightarrow> pyval \<Rightarrow> pyval \<Rightarrow> unit res" where
  "growth_pending_check subject_id learning_id state_event_id reason trait_id field_path pending operation =
     (if pending = PNone then
        ensure (operation = PNone) (learning_invalid ''growth operation lacks pending Evolution'')
      else
        rbind (event_from_dict pending) (\<lambda>event.
        rbind (shaped_dict [[''command'', ''principal_id'']] (learning_invalid ''growth operation binding missing'') operation)
          (\<lambda>d.
        rbind (growth_command_of (dict_get d ''command'')) (\<lambda>command.
        ensure (gc_subject_id command = subject_id \<and> gc_learning_id command = learning_id \<and>
            Some (ev_event_id event) = state_event_id \<and> ev_reason event = reason \<and>
            py_eq (dict_get (ev_metadata event) ''p15_growth_operation'') operation \<and>
            length (ev_mutations event) = 1 \<and> sm_field_path (ev_mutations event ! 0) = field_path \<and>
            py_eq (dict_get (ev_metadata event) ''trait_id'') (opt_val PStr trait_id))
          (learning_invalid ''growth pending Evolution binding invalid'')))))"

definition growth_resolution_check ::
  "string \<Rightarrow> string \<Rightarrow> learning_record_type \<Rightarrow> pyval \<Rightarrow> pyval \<Rightarrow> unit res" where
  "growth_resolution_check subject_id learning_id record_type operation resolution =
     (if resolution = PNone then Inr ()
      else
        rbind (shaped_dict [[''prepared_record_id'', ''prepared_hash'', ''outcome'', ''replacement_command'']]
          (learning_invalid ''growth resolution binding invalid'') resolution) (\<lambda>d.
        rbind (in_strings (dict_get d ''outcome'') [''COMMITTED'', ''SUPERSEDED'']) (\<lambda>known.
        rbind (ensure (known \<and> operation = PNone) (learning_invalid ''growth resolution binding invalid'')) (\<lambda>_.
        rbind (learning_text (dict_get d ''prepared_record_id'') ''prepared record identity'') (\<lambda>_.
        rbind (learning_text (dict_get d ''prepared_hash'') ''prepared record hash'') (\<lambda>_.
        if dict_get d ''outcome'' = PStr ''SUPERSEDED'' then
          rbind (growth_command_of (dict_get d ''replacement_command'')) (\<lambda>command.
          ensure (gc_subject_id command = subject_id \<and> gc_learning_id command = learning_id \<and>
              record_type = Lr_GROWTH_SUPERSEDED)
            (learning_invalid ''growth supersession target invalid''))
        else ensure (dict_get d ''replacement_command'' = PNone)
          (learning_invalid ''committed growth cannot change command'')))))))"

definition learning_record_init :: "learning_record_args \<Rightarrow> learning_record res" where
  "learning_record_init a =
     rbind (learning_text (lra_record_id a) ''learning record_id'') (\<lambda>record_id.
     rbind (learning_text (lra_learning_id a) ''record learning_id'') (\<lambda>learning_id.
     rbind (learning_text (lra_subject_id a) ''record subject_id'') (\<lambda>subject_id.
     rbind (learning_text (lra_field_path a) ''record field_path'') (\<lambda>field_path.
     rbind (learning_text (lra_observation a) ''record observation'') (\<lambda>observation.
     rbind (learning_text (lra_hypothesis a) ''record hypothesis'') (\<lambda>hypothesis.
     rbind (learning_text (lra_reason a) ''learning record reason'') (\<lambda>reason.
     rbind (learning_text (lra_source a) ''learning record source'') (\<lambda>source.
     rbind (learning_record_type_of (learning_invalid ''unsupported learning record state'') (lra_record_type a)) (\<lambda>record_type.
     rbind (learning_status_of (learning_invalid ''unsupported learning record state'') (lra_validation_status a)) (\<lambda>status.
     rbind (ensure (field_path \<in> set learnable_paths)
       (learning_invalid ''learning record field_path is not learnable'')) (\<lambda>_.
     rbind (learning_json (lra_original_experience a) ''original_experience'') (\<lambda>original.
     rbind (learning_json (lra_before_value a) ''before_value'') (\<lambda>before.
     rbind (learning_json (lra_after_value a) ''after_value'') (\<lambda>after.
     rbind (ensure (is_bool (lra_permanently_consolidated a))
       (learning_invalid ''permanently_consolidated must be a boolean'')) (\<lambda>_.
     rbind (require_aware (learning_invalid ''record created_at must include a timezone'') (lra_created_at a)) (\<lambda>created_at.
     rbind (learning_texts (lra_evidence_learning_ids a) ''record evidence_learning_ids'') (\<lambda>evidence.
     rbind (learning_texts (lra_root_evidence_ids a) ''record root_evidence_ids'') (\<lambda>roots.
     rbind (ensure (distinct roots) (learning_invalid ''record root_evidence_ids must not contain duplicates'')) (\<lambda>_.
     rbind (learning_text_optional (lra_trait_id a) ''record trait_id'') (\<lambda>trait_id.
     rbind (learning_text_optional (lra_state_event_id a) ''record state_event_id'') (\<lambda>state_event_id.
     rbind (growth_pending_check subject_id learning_id state_event_id reason trait_id field_path
       (lra_pending_state_event a) (lra_growth_operation a)) (\<lambda>_.
     rbind (ensure (\<not> (record_type = Lr_GROWTH_PREPARED \<and> (lra_pending_state_event a = PNone \<or>
         truthy (lra_permanently_consolidated a) \<or> lra_growth_resolution a \<noteq> PNone)))
       (learning_invalid ''growth preparation must remain bound and uncommitted'')) (\<lambda>_.
     rbind (ensure (\<not> (record_type = Lr_GROWTH_SUPERSEDED \<and> lra_growth_resolution a = PNone))
       (learning_invalid ''growth supersession requires original preparation binding'')) (\<lambda>_.
     rbind (growth_resolution_check subject_id learning_id record_type (lra_growth_operation a)
       (lra_growth_resolution a)) (\<lambda>_.
     Inr \<lparr>lr_record_id = record_id, lr_learning_id = learning_id, lr_subject_id = subject_id,
       lr_record_type = record_type, lr_original_experience = original, lr_observation = observation,
       lr_hypothesis = hypothesis, lr_validation_status = status,
       lr_permanently_consolidated = truthy (lra_permanently_consolidated a), lr_field_path = field_path,
       lr_before_value = before, lr_after_value = after, lr_reason = reason, lr_source = source,
       lr_created_at = created_at, lr_evidence_learning_ids = evidence, lr_root_evidence_ids = roots,
       lr_trait_id = trait_id, lr_state_event_id = state_event_id,
       lr_pending_state_event = lra_pending_state_event a, lr_growth_operation = lra_growth_operation a,
       lr_growth_resolution = lra_growth_resolution a\<rparr>)))))))))))))))))))))))))"

definition learning_record_args_of :: "learning_record \<Rightarrow> learning_record_args" where
  "learning_record_args_of r =
     \<lparr>lra_record_id = PStr (lr_record_id r), lra_learning_id = PStr (lr_learning_id r),
      lra_subject_id = PStr (lr_subject_id r), lra_record_type = PStr (learning_record_value (lr_record_type r)),
      lra_original_experience = lr_original_experience r, lra_observation = PStr (lr_observation r),
      lra_hypothesis = PStr (lr_hypothesis r),
      lra_validation_status = PStr (learning_status_value (lr_validation_status r)),
      lra_permanently_consolidated = PBool (lr_permanently_consolidated r), lra_field_path = PStr (lr_field_path r),
      lra_before_value = lr_before_value r, lra_after_value = lr_after_value r, lra_reason = PStr (lr_reason r),
      lra_source = PStr (lr_source r), lra_created_at = utc_val (lr_created_at r),
      lra_evidence_learning_ids = str_list (lr_evidence_learning_ids r),
      lra_root_evidence_ids = str_list (lr_root_evidence_ids r), lra_trait_id = opt_val PStr (lr_trait_id r),
      lra_state_event_id = opt_val PStr (lr_state_event_id r), lra_pending_state_event = lr_pending_state_event r,
      lra_growth_operation = lr_growth_operation r, lra_growth_resolution = lr_growth_resolution r\<rparr>"

definition learning_record_recheck :: "learning_record \<Rightarrow> learning_record res" where
  "learning_record_recheck r = learning_record_init (learning_record_args_of r)"

definition learning_record_to_dict :: "learning_record \<Rightarrow> pyval" where
  "learning_record_to_dict r = PDict (
     [(''record_id'', PStr (lr_record_id r)), (''learning_id'', PStr (lr_learning_id r)),
      (''subject_id'', PStr (lr_subject_id r)), (''record_type'', PStr (learning_record_value (lr_record_type r))),
      (''original_experience'', lr_original_experience r), (''observation'', PStr (lr_observation r)),
      (''hypothesis'', PStr (lr_hypothesis r)),
      (''validation_status'', PStr (learning_status_value (lr_validation_status r))),
      (''permanently_consolidated'', PBool (lr_permanently_consolidated r)), (''field_path'', PStr (lr_field_path r)),
      (''before_value'', lr_before_value r), (''after_value'', lr_after_value r), (''reason'', PStr (lr_reason r)),
      (''source'', PStr (lr_source r)), (''created_at'', PStr (format_z (lr_created_at r))),
      (''evidence_learning_ids'', str_list (lr_evidence_learning_ids r)),
      (''root_evidence_ids'', str_list (lr_root_evidence_ids r)), (''trait_id'', opt_val PStr (lr_trait_id r)),
      (''state_event_id'', opt_val PStr (lr_state_event_id r))] @
     (if lr_pending_state_event r = PNone then [] else
       [(''pending_state_event'', lr_pending_state_event r), (''growth_operation'', lr_growth_operation r)]) @
     (if lr_growth_resolution r = PNone then [] else [(''growth_resolution'', lr_growth_resolution r)]))"

definition learning_record_from_dict :: "pyval \<Rightarrow> learning_record res" where
  "learning_record_from_dict value = (case value of
       PDict d \<Rightarrow>
         rbind (learning_parse_datetime (dict_get d ''created_at'') ''record created_at'') (\<lambda>created_at.
         rbind (learning_texts (dict_get_or (PList []) d ''evidence_learning_ids'') ''record evidence_learning_ids'') (\<lambda>evidence.
         rbind (learning_texts (dict_get_or (PList []) d ''root_evidence_ids'') ''record root_evidence_ids'') (\<lambda>roots.
         learning_record_init
           \<lparr>lra_record_id = dict_get d ''record_id'', lra_learning_id = dict_get d ''learning_id'',
            lra_subject_id = dict_get d ''subject_id'', lra_record_type = dict_get d ''record_type'',
            lra_original_experience = dict_get d ''original_experience'', lra_observation = dict_get d ''observation'',
            lra_hypothesis = dict_get d ''hypothesis'', lra_validation_status = dict_get d ''validation_status'',
            lra_permanently_consolidated = dict_get d ''permanently_consolidated'',
            lra_field_path = dict_get d ''field_path'', lra_before_value = dict_get d ''before_value'',
            lra_after_value = dict_get d ''after_value'', lra_reason = dict_get d ''reason'',
            lra_source = dict_get d ''source'', lra_created_at = created_at,
            lra_evidence_learning_ids = str_list evidence, lra_root_evidence_ids = str_list roots,
            lra_trait_id = dict_get d ''trait_id'', lra_state_event_id = dict_get d ''state_event_id'',
            lra_pending_state_event = dict_get d ''pending_state_event'',
            lra_growth_operation = dict_get d ''growth_operation'',
            lra_growth_resolution = dict_get d ''growth_resolution''\<rparr>)))
     | _ \<Rightarrow> Inl (learning_invalid ''learning record must be an object''))"

definition wf_learning_record :: "learning_record \<Rightarrow> bool" where
  "wf_learning_record r \<longleftrightarrow> learning_record_recheck r = Inr r"

lemma learning_record_init_wf: "learning_record_init a = Inr r \<Longrightarrow> wf_learning_record r"
  unfolding learning_record_init_def
  by (elim rbindE, (drule learning_texts_Inr)+)
    (auto simp: wf_learning_record_def learning_record_recheck_def learning_record_args_of_def learning_record_init_def
      validator_defs learning_text_run learning_texts_id learning_json_run simp del: json_ok.simps split: pyval.splits)

lemma learning_record_init_facts:
  assumes "learning_record_init a = Inr r"
  shows "\<exists>n. learning_texts (lra_evidence_learning_ids a) n = Inr (lr_evidence_learning_ids r)"
    "\<exists>n. learning_texts (lra_root_evidence_ids a) n = Inr (lr_root_evidence_ids r)"
    "lra_pending_state_event a = PNone \<Longrightarrow> lra_growth_operation a = PNone"
  using assms unfolding learning_record_init_def
  by (elim rbindE; auto simp: growth_pending_check_def ensure_def split: if_splits)+

lemma learning_record_roundtrip:
  assumes "wf_learning_record r"
  shows "learning_record_from_dict (learning_record_to_dict r) = Inr r"
proof -
  from assms have r: "learning_record_init (learning_record_args_of r) = Inr r"
    by (simp add: wf_learning_record_def learning_record_recheck_def)
  note f = learning_record_init_facts [OF r]
  have t: "learning_texts (str_list (lr_evidence_learning_ids r)) x = Inr (lr_evidence_learning_ids r)"
    "learning_texts (str_list (lr_root_evidence_ids r)) x = Inr (lr_root_evidence_ids r)" for x
    using f(1,2) learning_texts_Inr learning_texts_id by (metis learning_record_args.select_convs(16,17) learning_record_args_of_def)+
  from f(3) have "lr_pending_state_event r = PNone \<Longrightarrow> lr_growth_operation r = PNone"
    by (simp add: learning_record_args_of_def)
  with t r show ?thesis
    by (cases "lr_pending_state_event r = PNone"; cases "lr_growth_resolution r = PNone")
      (simp_all add: learning_record_from_dict_def learning_record_to_dict_def learning_record_args_of_def)
qed

lemma learning_record_from_dict_wf: "learning_record_from_dict v = Inr r \<Longrightarrow> wf_learning_record r"
  by (auto simp: learning_record_from_dict_def rbind_eq_Inr dest!: learning_record_init_wf split: pyval.splits)

end
