(* ===== verification/Learning_Repository.thy ===== *)
theory Learning_Repository
  imports Learning
begin

text \<open>
  storage/json_learning_repository.py: per subject one JSON document with the candidates, the
  traits and the audit records. \<open>learning_store\<close> maps the digest that names a subject's file to
  what is there; \<open>disk_ok\<close> tells whether the operating system completes the write.
\<close>

type_synonym learning_store = "string \<Rightarrow> file_state"

definition learning_path :: "digest_fun \<Rightarrow> string \<Rightarrow> string res" where
  "learning_path sha subject_id =
     (if blank subject_id then Inl (learning_invalid ''subject_id must be non-empty'') else Inr (sha subject_id))"

section \<open>Documents\<close>

text \<open>The command inside the growth operation of a record that has one.\<close>

definition growth_command_dict :: "learning_record \<Rightarrow> (string \<times> pyval) list" where
  "growth_command_dict r = dict_of (dict_get (dict_of (lr_growth_operation r)) ''command'')"

definition resolution_targets :: "learning_record \<Rightarrow> string \<times> string \<times> string option \<times> string option \<times> string" where
  "resolution_targets r = (lr_learning_id r, lr_subject_id r, lr_trait_id r, lr_state_event_id r, lr_field_path r)"

definition expected_resolution :: "(string \<times> pyval) list \<Rightarrow> learning_record \<Rightarrow> string" where
  "expected_resolution resolution original =
     (if dict_get resolution ''outcome'' = PStr ''SUPERSEDED'' then ''GROWTH_SUPERSEDED''
      else if dict_get (growth_command_dict original) ''operation'' = PStr ''SOLIDIFY'' then ''CONSOLIDATED''
      else ''ROLLED_BACK'')"

definition check_resolution ::
  "canon_fun \<Rightarrow> digest_fun \<Rightarrow> learning_record list \<Rightarrow> nat \<Rightarrow> learning_record \<Rightarrow> string list \<Rightarrow> string res" where
  "check_resolution canon sha records index r resolved =
     (let resolution = dict_of (lr_growth_resolution r);
          replacement = dict_of (dict_get resolution ''replacement_command'') in
      case filter (\<lambda>(i, q). PStr (lr_record_id q) = dict_get resolution ''prepared_record_id'') (enumerate 0 records) of
        [(original_index, original)] \<Rightarrow>
          rbind (ensure (lr_growth_operation original \<noteq> PNone)
            (learning_invalid ''growth resolution conflicts with immutable preparation'')) (\<lambda>_.
          rbind (value_digest canon sha (learning_record_to_dict original)) (\<lambda>actual.
          rbind (ensure (PStr actual = dict_get resolution ''prepared_hash'' \<and> lr_record_id original \<notin> set resolved \<and>
              original_index < index \<and> resolution_targets r = resolution_targets original)
            (learning_invalid ''growth resolution conflicts with immutable preparation'')) (\<lambda>_.
          rbind (ensure (learning_record_value (lr_record_type r) = expected_resolution resolution original)
            (learning_invalid ''growth resolution outcome mismatch'')) (\<lambda>_.
          rbind (ensure (\<not> (dict_get resolution ''outcome'' = PStr ''SUPERSEDED'' \<and>
              (dict_get replacement ''command_id'' = dict_get (growth_command_dict original) ''command_id'' \<or>
               dict_get replacement ''environment'' \<noteq> dict_get (growth_command_dict original) ''environment'')))
            (learning_invalid ''growth supersession cannot rebind original identity'')) (\<lambda>_.
          Inr (lr_record_id original))))))
      | _ \<Rightarrow> Inl (learning_invalid ''growth resolution lacks unique original record''))"

fun check_resolutions ::
  "canon_fun \<Rightarrow> digest_fun \<Rightarrow> learning_record list \<Rightarrow> (nat \<times> learning_record) list \<Rightarrow> string list \<Rightarrow> unit res" where
  "check_resolutions canon sha records [] resolved = Inr ()"
| "check_resolutions canon sha records ((index, r) # rest) resolved =
     (if lr_growth_resolution r = PNone then check_resolutions canon sha records rest resolved
      else rbind (check_resolution canon sha records index r resolved) (\<lambda>i.
        check_resolutions canon sha records rest (i # resolved)))"

definition validate_growth_resolutions :: "canon_fun \<Rightarrow> digest_fun \<Rightarrow> pyval list \<Rightarrow> unit res" where
  "validate_growth_resolutions canon sha raw_records =
     rbind (rmap learning_record_from_dict raw_records) (\<lambda>records.
     check_resolutions canon sha records (enumerate 0 records) [])"

definition find_candidate :: "string \<Rightarrow> learning_event list \<Rightarrow> learning_event option" where
  "find_candidate i es = List.find (\<lambda>e. le_learning_id e = i) es"

definition check_record_roots :: "learning_event list \<Rightarrow> learning_record \<Rightarrow> unit res" where
  "check_record_roots events r =
     ensure (\<exists>e. find_candidate (lr_learning_id r) events = Some e \<and>
         set (lr_root_evidence_ids r) \<subseteq> set (le_root_evidence_ids e))
       (learning_invalid ''learning record root evidence is inconsistent'')"

definition read_learning_document :: "canon_fun \<Rightarrow> digest_fun \<Rightarrow> file_state \<Rightarrow> (string \<times> pyval) list res" where
  "read_learning_document canon sha f = (case f of
       File_Doc (PDict d) \<Rightarrow>
         rbind (ensure (py_eq_int (dict_get d ''learning_format_version'') 1)
           (learning_invalid ''unsupported learning persistence format'')) (\<lambda>_.
         rbind (each (\<lambda>key. ensure (is_list (dict_get d key)) (learning_invalid (''learning '' @ key @ '' must be a list'')))
           [''learning_events'', ''traits'', ''records'']) (\<lambda>_.
         rbind (rmap learning_event_from_dict (list_of (dict_get d ''learning_events''))) (\<lambda>events.
         rbind (ensure (distinct (map le_learning_id events))
           (learning_invalid ''learning event identities must be unique'')) (\<lambda>_.
         rbind (each (\<lambda>raw. rbind (learning_record_from_dict raw) (check_record_roots events))
           (list_of (dict_get d ''records''))) (\<lambda>_.
         rbind (validate_growth_resolutions canon sha (list_of (dict_get d ''records''))) (\<lambda>_.
         Inr d))))))
     | File_Doc _ \<Rightarrow> Inl (learning_invalid ''unsupported learning persistence format'')
     | _ \<Rightarrow> Inl (learning_invalid ''unable to read valid learning data''))"

definition learning_document ::
  "string \<Rightarrow> learning_event list \<Rightarrow> personality_trait list \<Rightarrow> learning_record list \<Rightarrow> (string \<times> pyval) list" where
  "learning_document subject_id events traits records =
     [(''learning_format_version'', PInt 1), (''subject_id'', PStr subject_id),
      (''learning_events'', PList (map learning_event_to_dict events)),
      (''traits'', PList (map trait_to_dict traits)),
      (''records'', PList (map learning_record_to_dict records))]"

definition empty_learning_document :: "string \<Rightarrow> (string \<times> pyval) list" where
  "empty_learning_document subject_id = learning_document subject_id [] [] []"

definition write_learning_document ::
  "bool \<Rightarrow> string \<Rightarrow> (string \<times> pyval) list \<Rightarrow> learning_store \<Rightarrow> learning_store res" where
  "write_learning_document disk_ok path data st =
     (if disk_ok \<and> st path \<noteq> File_Not_A_File then Inr (st(path := File_Doc (PDict data)))
      else Inl (OSError, ''write failed''))"

section \<open>Saving\<close>

fun replace_first :: "('a \<Rightarrow> bool) \<Rightarrow> 'a \<Rightarrow> 'a list \<Rightarrow> 'a list" where
  "replace_first p y [] = []"
| "replace_first p y (x # xs) = (if p x then y # xs else x # replace_first p y xs)"

definition put_candidate :: "learning_event \<Rightarrow> learning_event list \<Rightarrow> learning_event list res" where
  "put_candidate e es = (case find_candidate (le_learning_id e) es of
       None \<Rightarrow> rbind (ensure (le_revision e = 0)
         (learning_invalid ''new learning candidates must start at revision zero'')) (\<lambda>_. Inr (es @ [e]))
     | Some previous \<Rightarrow> rbind (ensure (le_revision e = le_revision previous + 1)
         (learning_invalid ''learning candidate revision must advance by one'')) (\<lambda>_.
         Inr (replace_first (\<lambda>x. le_learning_id x = le_learning_id e) e es)))"

definition find_trait :: "string \<Rightarrow> personality_trait list \<Rightarrow> personality_trait option" where
  "find_trait i ts = List.find (\<lambda>t. pt_trait_id t = i) ts"

definition put_trait :: "personality_trait option \<Rightarrow> personality_trait list \<Rightarrow> personality_trait list res" where
  "put_trait trait ts = (case trait of
       None \<Rightarrow> Inr ts
     | Some t \<Rightarrow> (case find_trait (pt_trait_id t) ts of
         None \<Rightarrow> rbind (ensure (pt_revision t = 0)
           (learning_invalid ''new personality traits must start at revision zero'')) (\<lambda>_. Inr (ts @ [t]))
       | Some previous \<Rightarrow> rbind (ensure (pt_revision t = pt_revision previous + 1)
           (learning_invalid ''personality trait revision must advance by one'')) (\<lambda>_.
           Inr (replace_first (\<lambda>x. pt_trait_id x = pt_trait_id t) t ts))))"

text \<open>The very same change is already on file.\<close>

definition already_saved ::
  "learning_event \<Rightarrow> learning_record \<Rightarrow> personality_trait option \<Rightarrow> learning_record
     \<Rightarrow> learning_event list \<Rightarrow> personality_trait list \<Rightarrow> bool" where
  "already_saved e r trait existing events traits \<longleftrightarrow>
     py_eq (learning_record_to_dict existing) (learning_record_to_dict r) \<and>
     (\<exists>saved. find_candidate (le_learning_id e) events = Some saved \<and>
       py_eq (learning_event_to_dict saved) (learning_event_to_dict e)) \<and>
     (case trait of None \<Rightarrow> lr_trait_id r = None
      | Some t \<Rightarrow> \<exists>saved. find_trait (pt_trait_id t) traits = Some saved \<and>
          py_eq (trait_to_dict saved) (trait_to_dict t))"

definition learning_save ::
  "canon_fun \<Rightarrow> digest_fun \<Rightarrow> bool \<Rightarrow> string \<Rightarrow> learning_event \<Rightarrow> learning_record \<Rightarrow> personality_trait option
     \<Rightarrow> learning_store \<Rightarrow> learning_store res" where
  "learning_save canon sha disk_ok subject_id e record trait st =
     rbind (learning_record_recheck record) (\<lambda>r.
     rbind (ensure (le_subject_id e = subject_id \<and> lr_subject_id r = subject_id \<and> lr_learning_id r = le_learning_id e)
       (learning_invalid ''learning event and record must belong to the saved subject'')) (\<lambda>_.
     rbind (ensure (\<forall>t. trait = Some t \<longrightarrow> pt_subject_id t = subject_id)
       (learning_invalid ''personality trait belongs to another subject'')) (\<lambda>_.
     rbind (ensure (\<forall>t. trait = Some t \<longrightarrow> lr_trait_id r = Some (pt_trait_id t))
       (learning_invalid ''learning record does not match saved trait'')) (\<lambda>_.
     rbind (ensure (set (lr_root_evidence_ids r) = set (le_root_evidence_ids e))
       (learning_invalid ''learning audit record must preserve the candidate root evidence'')) (\<lambda>_.
     rbind (learning_path sha subject_id) (\<lambda>path.
     rbind (if is_file (st path) then read_learning_document canon sha (st path)
       else Inr (empty_learning_document subject_id)) (\<lambda>data.
     rbind (ensure (dict_get data ''subject_id'' = PStr subject_id)
       (learning_invalid ''persisted learning subject does not match path'')) (\<lambda>_.
     rbind (rmap learning_event_from_dict (list_of (dict_get data ''learning_events''))) (\<lambda>events.
     rbind (rmap trait_from_dict (list_of (dict_get data ''traits''))) (\<lambda>traits.
     rbind (rmap learning_record_from_dict (list_of (dict_get data ''records''))) (\<lambda>records.
     case List.find (\<lambda>q. lr_record_id q = lr_record_id r) records of
       Some existing \<Rightarrow>
         if already_saved e r trait existing events traits then Inr st
         else Inl (LearningAlreadyExistsError, ''learning record already exists: '' @ lr_record_id r)
     | None \<Rightarrow>
         rbind (put_candidate e events) (\<lambda>events.
         rbind (put_trait trait traits) (\<lambda>traits.
         rbind (validate_growth_resolutions canon sha (map learning_record_to_dict (records @ [r]))) (\<lambda>_.
         write_learning_document disk_ok path (learning_document subject_id
           (sort_key (\<lambda>e. (le_created_at e, le_learning_id e)) events)
           (sort_key (\<lambda>t. (pt_created_at t, pt_trait_id t)) traits) (records @ [r])) st))))))))))))))"

section \<open>Reading\<close>

definition validate_learning_subject :: "(string \<times> pyval) list \<Rightarrow> string \<Rightarrow> unit res" where
  "validate_learning_subject data subject_id = ensure (dict_get data ''subject_id'' = PStr subject_id)
     (learning_invalid ''persisted learning subject is invalid'')"

definition load_learning_subject ::
  "canon_fun \<Rightarrow> digest_fun \<Rightarrow> string \<Rightarrow> learning_store \<Rightarrow> (string \<times> pyval) list res" where
  "load_learning_subject canon sha subject_id st =
     rbind (learning_path sha subject_id) (\<lambda>path.
     if \<not> is_file (st path) then Inl (LearningNotFoundError, ''learning subject not found: '' @ subject_id)
     else rbind (read_learning_document canon sha (st path)) (\<lambda>data.
       rbind (validate_learning_subject data subject_id) (\<lambda>_. Inr data)))"

text \<open>\<open>for raw in rows: item = decode(raw); if found(item): return item\<close>.\<close>

fun first_decoded :: "(pyval \<Rightarrow> 'a res) \<Rightarrow> ('a \<Rightarrow> bool) \<Rightarrow> exn \<Rightarrow> pyval list \<Rightarrow> 'a res" where
  "first_decoded decode found e [] = Inl e"
| "first_decoded decode found e (v # vs) =
     rbind (decode v) (\<lambda>x. if found x then Inr x else first_decoded decode found e vs)"

definition load_learning_event ::
  "canon_fun \<Rightarrow> digest_fun \<Rightarrow> string \<Rightarrow> string \<Rightarrow> learning_store \<Rightarrow> learning_event res" where
  "load_learning_event canon sha subject_id learning_id st =
     rbind (load_learning_subject canon sha subject_id st) (\<lambda>data.
     first_decoded learning_event_from_dict (\<lambda>e. le_learning_id e = learning_id)
       (LearningNotFoundError, ''learning candidate not found: '' @ learning_id)
       (list_of (dict_get data ''learning_events'')))"

definition load_trait ::
  "canon_fun \<Rightarrow> digest_fun \<Rightarrow> string \<Rightarrow> string \<Rightarrow> learning_store \<Rightarrow> personality_trait res" where
  "load_trait canon sha subject_id trait_id st =
     rbind (load_learning_subject canon sha subject_id st) (\<lambda>data.
     first_decoded trait_from_dict (\<lambda>t. pt_trait_id t = trait_id)
       (LearningNotFoundError, ''personality trait not found: '' @ trait_id)
       (list_of (dict_get data ''traits'')))"

text \<open>The document of a subject that may have none, for the listing operations.\<close>

definition listed_document ::
  "canon_fun \<Rightarrow> digest_fun \<Rightarrow> string \<Rightarrow> learning_store \<Rightarrow> (string \<times> pyval) list option res" where
  "listed_document canon sha subject_id st =
     rbind (learning_path sha subject_id) (\<lambda>path.
     if \<not> is_file (st path) then Inr None
     else rbind (read_learning_document canon sha (st path)) (\<lambda>data.
       rbind (validate_learning_subject data subject_id) (\<lambda>_. Inr (Some data))))"

definition list_learning_events ::
  "canon_fun \<Rightarrow> digest_fun \<Rightarrow> string \<Rightarrow> learning_store \<Rightarrow> learning_event list res" where
  "list_learning_events canon sha subject_id st =
     rbind (listed_document canon sha subject_id st) (\<lambda>doc. case doc of
       None \<Rightarrow> Inr []
     | Some data \<Rightarrow> rmap learning_event_from_dict (list_of (dict_get data ''learning_events'')))"

definition list_traits ::
  "canon_fun \<Rightarrow> digest_fun \<Rightarrow> string \<Rightarrow> bool \<Rightarrow> learning_store \<Rightarrow> personality_trait list res" where
  "list_traits canon sha subject_id include_inactive st =
     rbind (listed_document canon sha subject_id st) (\<lambda>doc. case doc of
       None \<Rightarrow> Inr []
     | Some data \<Rightarrow> rbind (rmap trait_from_dict (list_of (dict_get data ''traits''))) (\<lambda>traits.
         Inr (if include_inactive then traits else filter pt_active traits)))"

definition learning_history ::
  "canon_fun \<Rightarrow> digest_fun \<Rightarrow> string \<Rightarrow> string option \<Rightarrow> learning_store \<Rightarrow> learning_record list res" where
  "learning_history canon sha subject_id learning_id st =
     rbind (listed_document canon sha subject_id st) (\<lambda>doc. case doc of
       None \<Rightarrow> (case learning_id of None \<Rightarrow> Inr []
         | Some i \<Rightarrow> Inl (LearningNotFoundError, ''learning candidate not found: '' @ i))
     | Some data \<Rightarrow> rbind (rmap learning_record_from_dict (list_of (dict_get data ''records''))) (\<lambda>records.
         case learning_id of None \<Rightarrow> Inr records
         | Some i \<Rightarrow>
             if list_ex (\<lambda>raw. dict_get (dict_of raw) ''learning_id'' = PStr i) (list_of (dict_get data ''learning_events''))
             then Inr (filter (\<lambda>r. lr_learning_id r = i) records)
             else Inl (LearningNotFoundError, ''learning candidate not found: '' @ i)))"

text \<open>
  \<open>memory_support_snapshot\<close> reads the memory repository beside it, which is a port: \<open>mp_load\<close>
  gives revision, digest and root evidence of a memory, or raises.
\<close>

record memory_port =
  mp_load :: "string \<Rightarrow> string \<Rightarrow> string \<Rightarrow> (int \<times> string \<times> string list) res"
  mp_usable :: "string \<Rightarrow> string \<Rightarrow> string \<Rightarrow> bool res"

fun memory_snapshots :: "memory_port \<Rightarrow> string \<Rightarrow> string \<Rightarrow> string list \<Rightarrow> pyval list res" where
  "memory_snapshots mp subject_id memory_id [] = Inr []"
| "memory_snapshots mp subject_id memory_id (env # envs) =
     (case mp_load mp env subject_id memory_id of
        Inl (c, m) \<Rightarrow> if c = MemoryNotFoundError then memory_snapshots mp subject_id memory_id envs else Inl (c, m)
      | Inr (revision, digest, roots) \<Rightarrow>
          rbind (mp_usable mp env subject_id memory_id) (\<lambda>usable.
          rbind (ensure usable (learning_invalid ''memory support is currently unavailable'')) (\<lambda>_.
          rbind (memory_snapshots mp subject_id memory_id envs) (\<lambda>rest.
          Inr (PDict [(''memory_id'', PStr memory_id), (''subject_id'', PStr subject_id), (''environment'', PStr env),
            (''revision'', PInt revision), (''hash'', PStr digest), (''root_evidence_ids'', str_list roots)] # rest)))))"

definition memory_support_snapshot :: "memory_port \<Rightarrow> string \<Rightarrow> string \<Rightarrow> pyval \<Rightarrow> pyval option res" where
  "memory_support_snapshot mp subject_id memory_id environment =
     rbind (ensure (environment = PNone \<or> among environment [''ENGINE'', ''TEST'', ''RESEARCH''])
       (learning_invalid ''unsupported memory support environment'')) (\<lambda>_.
     rbind (memory_snapshots mp subject_id memory_id
       (case environment of PStr env \<Rightarrow> [env] | _ \<Rightarrow> [''ENGINE'', ''TEST'', ''RESEARCH''])) (\<lambda>found.
     case found of [] \<Rightarrow> Inr None | [snapshot] \<Rightarrow> Inr (Some snapshot)
     | _ \<Rightarrow> Inl (learning_invalid ''ambiguous memory environment requires explicit binding'')))"

end
