(* ===== verification/Learning_Service.thy ===== *)
theory Learning_Service
  imports Learning_Repository Resources
begin

text \<open>
  services/learning_service.py. The state of a call is the repository; \<open>learning_ports\<close> holds what
  a call reads from outside: the two clock readings (of the change and of its record), fresh uuids,
  the answer of the resource manager, the memories beside the repository and the verifier of
  captured sources. \<open>lp_sum\<close> is \<open>sum\<close> of floats, which adds plainly before Python 3.12 and with
  compensation since; \<open>lp_float_text\<close> is \<open>float\<close> of a string and \<open>lp_str\<close> is \<open>str\<close> of a value that
  is not a string.
\<close>

record learning_ports =
  lp_canon :: canon_fun
  lp_sha :: digest_fun
  lp_disk_ok :: bool
  lp_now :: instant
  lp_record_now :: instant
  lp_learning_uuid :: string
  lp_record_uuid :: string
  lp_trait_uuid :: string
  lp_event_uuid :: string
  lp_resource :: "(string \<Rightarrow> string \<Rightarrow> resource_decision res) option"
  lp_memory :: memory_port
  lp_verifier :: "(learning_event \<Rightarrow> pyval \<Rightarrow> unit res) option"
  lp_sum :: "rat list \<Rightarrow> rat"
  lp_float_text :: "string \<Rightarrow> rat res"
  lp_str :: "pyval \<Rightarrow> string"

record learning_change =
  lc_event :: learning_event
  lc_record :: learning_record
  lc_trait :: "personality_trait option"
  lc_state_event :: "event option"

definition py_str :: "learning_ports \<Rightarrow> pyval \<Rightarrow> string" where
  "py_str lp v = (case v of PStr s \<Rightarrow> s | _ \<Rightarrow> lp_str lp v)"

text \<open>The repository as the service calls it.\<close>

abbreviation lp_load :: "learning_ports \<Rightarrow> string \<Rightarrow> string \<Rightarrow> learning_store \<Rightarrow> learning_event res" where
  "lp_load lp \<equiv> load_learning_event (lp_canon lp) (lp_sha lp)"

abbreviation lp_history :: "learning_ports \<Rightarrow> string \<Rightarrow> string option \<Rightarrow> learning_store \<Rightarrow> learning_record list res" where
  "lp_history lp \<equiv> learning_history (lp_canon lp) (lp_sha lp)"

definition lp_save ::
  "learning_ports \<Rightarrow> string \<Rightarrow> learning_event \<Rightarrow> learning_record \<Rightarrow> personality_trait option \<Rightarrow> (learning_store, unit) prog" where
  "lp_save lp subject_id e r trait = swrite (learning_save (lp_canon lp) (lp_sha lp) (lp_disk_ok lp) subject_id e r trait)"

section \<open>Checks\<close>

definition has_active_consolidation :: "learning_ports \<Rightarrow> string \<Rightarrow> string \<Rightarrow> learning_store \<Rightarrow> bool res" where
  "has_active_consolidation lp subject_id learning_id st =
     rbind (lp_history lp subject_id (Some learning_id) st) (\<lambda>history.
     rbind (list_traits (lp_canon lp) (lp_sha lp) subject_id False st) (\<lambda>traits.
     Inr (\<exists>r \<in> set history. lr_record_type r = Lr_CONSOLIDATED \<and>
       (\<exists>t \<in> set traits. lr_trait_id r = Some (pt_trait_id t)))))"

definition require_mutable_candidate :: "learning_ports \<Rightarrow> string \<Rightarrow> learning_event \<Rightarrow> learning_store \<Rightarrow> unit res" where
  "require_mutable_candidate lp subject_id candidate st =
     rbind (ensure (le_validation_status candidate \<notin> {Ls_REJECTED, Ls_REVOKED})
       (learning_invalid ''rejected or revoked learning cannot be changed'')) (\<lambda>_.
     rbind (has_active_consolidation lp subject_id (le_learning_id candidate) st) (\<lambda>consolidated.
     ensure (\<not> consolidated) (learning_invalid ''consolidated learning must be rolled back first'')))"

definition original_experience_of :: "learning_ports \<Rightarrow> string \<Rightarrow> string \<Rightarrow> learning_store \<Rightarrow> pyval res" where
  "original_experience_of lp subject_id learning_id st =
     rbind (lp_history lp subject_id (Some learning_id) st) (\<lambda>history.
     case List.find (\<lambda>r. lr_record_type r = Lr_CANDIDATE_CREATED) history of
       None \<Rightarrow> Inl (learning_invalid ''learning candidate has no originating experience'')
     | Some r \<Rightarrow> Inr (lr_original_experience r))"

definition record_for ::
  "learning_ports \<Rightarrow> learning_event \<Rightarrow> learning_record_type \<Rightarrow> learning_status \<Rightarrow> bool \<Rightarrow> pyval \<Rightarrow> pyval \<Rightarrow> string
     \<Rightarrow> string \<Rightarrow> string option \<Rightarrow> string option \<Rightarrow> learning_store \<Rightarrow> learning_record res" where
  "record_for lp learning record_type validation_status permanently before_value after_value reason source
     trait_id state_event_id st =
     rbind (original_experience_of lp (le_subject_id learning) (le_learning_id learning) st) (\<lambda>original.
     learning_record_init
       \<lparr>lra_record_id = PStr (lp_record_uuid lp), lra_learning_id = PStr (le_learning_id learning),
        lra_subject_id = PStr (le_subject_id learning), lra_record_type = PStr (learning_record_value record_type),
        lra_original_experience = original, lra_observation = PStr (le_observation learning),
        lra_hypothesis = PStr (le_hypothesis learning),
        lra_validation_status = PStr (learning_status_value validation_status),
        lra_permanently_consolidated = PBool permanently,
        lra_field_path = PStr (sm_field_path (le_proposed_change learning)), lra_before_value = before_value,
        lra_after_value = after_value, lra_reason = PStr reason, lra_source = PStr source,
        lra_created_at = utc_val (lp_record_now lp),
        lra_evidence_learning_ids = str_list (if le_evidence_learning_ids learning = [] then [le_learning_id learning]
          else le_evidence_learning_ids learning),
        lra_root_evidence_ids = str_list (le_root_evidence_ids learning), lra_trait_id = opt_val PStr trait_id,
        lra_state_event_id = opt_val PStr state_event_id, lra_pending_state_event = PNone,
        lra_growth_operation = PNone, lra_growth_resolution = PNone\<rparr>)"

text \<open>
  The text of \<open>json.dumps\<close> over path, operation and value, which is a text: two signatures are equal
  iff these are.
\<close>

definition mutation_signature :: "state_mutation \<Rightarrow> string \<times> change_operation \<times> pyval" where
  "mutation_signature m = (sm_field_path m, sm_operation m, sm_value m)"

text \<open>\<open>float(value)\<close> of a decoded value.\<close>

definition py_float :: "learning_ports \<Rightarrow> pyval \<Rightarrow> rat res" where
  "py_float lp v = (case v of
       PFloat q \<Rightarrow> Inr q | PInt n \<Rightarrow> float_of_int n | PBool b \<Rightarrow> Inr (if b then 1 else 0)
     | PStr s \<Rightarrow> lp_float_text lp s | _ \<Rightarrow> Inl (TypeError, ''float() argument must be a string or a real number''))"

text \<open>\<open>round(x, 6)\<close> is the float nearest to the exact value rounded half to even.\<close>

definition round6 :: "rat \<Rightarrow> rat" where
  "round6 q = fl (of_int (round_even (q * 1000000)) / 1000000)"

definition validation_confidence :: "learning_ports \<Rightarrow> rat \<Rightarrow> rat list \<Rightarrow> rat" where
  "validation_confidence lp own confidences =
     (let average = fl (lp_sum lp confidences / of_nat (length confidences));
          learned = min 1 (fl (average + fl (fl (1 / 10) * of_int (int (length confidences) - 1))))
      in round6 (max own learned))"

definition origins_of :: "learning_record list \<Rightarrow> learning_record list" where
  "origins_of history = filter (\<lambda>r. lr_record_type r = Lr_CANDIDATE_CREATED) history"

text \<open>\<open>origins[0].original_experience.get(key) if len(origins)==1 and isinstance(..., dict) else None\<close>.\<close>

definition origin_binding :: "learning_record list \<Rightarrow> string \<Rightarrow> pyval" where
  "origin_binding origins key = (case origins of
       [r] \<Rightarrow> (case lr_original_experience r of PDict d \<Rightarrow> dict_get d key | _ \<Rightarrow> PNone) | _ \<Rightarrow> PNone)"

definition binding_environment :: "pyval \<Rightarrow> pyval res" where
  "binding_environment binding = (if truthy binding then
       (case binding of PDict d \<Rightarrow> (case map_of d ''environment'' of None \<Rightarrow> Inl (KeyError, ''environment'') | Some v \<Rightarrow> Inr v)
       | _ \<Rightarrow> Inl (TypeError, ''indices must be integers''))
     else Inr PNone)"

definition verify_memory_support :: "learning_ports \<Rightarrow> string \<Rightarrow> learning_event \<Rightarrow> learning_store \<Rightarrow> unit res" where
  "verify_memory_support lp subject_id candidate st =
     rbind (lp_history lp subject_id (Some (le_learning_id candidate)) st) (\<lambda>history.
     let origins = origins_of history; source_binding = origin_binding origins ''p15_source_binding'' in
     rbind (ensure (\<not> (source_binding = PNone \<and> (take 13 (le_learning_id candidate) = ''p15-learning:'' \<or>
         (\<exists>r \<in> set origins. lr_source r = ''p15-c1-experience''))))
       (learning_invalid ''P15 captured source binding missing; cannot downgrade to legacy'')) (\<lambda>_.
     rbind (if source_binding = PNone then Inr () else
         (case lp_verifier lp of
            None \<Rightarrow> Inl (learning_invalid ''P15 current source verifier required'')
          | Some verify \<Rightarrow> verify candidate source_binding)) (\<lambda>_.
     case le_source_memory_id candidate of None \<Rightarrow> Inr ()
     | Some memory_id \<Rightarrow>
         rbind (ensure (length origins = 1) (learning_invalid ''memory support lacks origin'')) (\<lambda>_.
         let binding = origin_binding origins ''p12_memory_binding'' in
         rbind (binding_environment binding) (\<lambda>environment.
         rbind (memory_support_snapshot (lp_memory lp) subject_id memory_id environment) (\<lambda>actual.
         ensure (\<not> (binding \<noteq> PNone \<and> \<not> py_eq (opt_val id actual) binding))
           (learning_invalid ''memory support was removed or its version/hash changed'')))))))"

text \<open>The supporting records of a validation, one after the other: roots and confidences so far.\<close>

fun support_loop ::
  "learning_ports \<Rightarrow> string \<Rightarrow> learning_event \<Rightarrow> string list \<Rightarrow> string set \<Rightarrow> rat list \<Rightarrow> learning_store
     \<Rightarrow> (string set \<times> rat list) res" where
  "support_loop lp subject_id target [] roots confidences st = Inr (roots, confidences)"
| "support_loop lp subject_id target (i # is) roots confidences st =
     (if i = le_learning_id target then support_loop lp subject_id target is roots confidences st
      else
        rbind (lp_load lp subject_id i st) (\<lambda>support.
        rbind (verify_memory_support lp subject_id support st) (\<lambda>_.
        rbind (ensure (le_validation_status support \<notin> {Ls_REJECTED, Ls_REVOKED} \<and>
            mutation_signature (le_proposed_change support) = mutation_signature (le_proposed_change target))
          (learning_invalid ''supporting learning is no longer valid'')) (\<lambda>_.
        rbind (ensure (roots \<inter> set (le_root_evidence_ids support) = {})
          (learning_invalid ''current support is not independent root evidence'')) (\<lambda>_.
        support_loop lp subject_id target is (roots \<union> set (le_root_evidence_ids support))
          (confidences @ [le_confidence support]) st)))))"

definition verify_current_support :: "learning_ports \<Rightarrow> string \<Rightarrow> learning_event \<Rightarrow> learning_store \<Rightarrow> rat res" where
  "verify_current_support lp subject_id target st =
     rbind (verify_memory_support lp subject_id target st) (\<lambda>_.
     rbind (lp_history lp subject_id (Some (le_learning_id target)) st) (\<lambda>history.
     let origins = origins_of history;
         validations = filter (\<lambda>r. lr_record_type r = Lr_VALIDATED) history;
         ids = le_evidence_learning_ids target in
     rbind (ensure (length origins = 1 \<and> validations \<noteq> [] \<and> le_learning_id target \<in> set ids \<and> distinct ids \<and> 3 \<le> length ids)
       (learning_invalid ''current validation has insufficient traceable evidence'')) (\<lambda>_.
     rbind (py_float lp (lr_before_value (last validations))) (\<lambda>validated.
     let own = min (le_confidence target) validated;
         roots = (if lr_root_evidence_ids (hd origins) = []
           then {source_identity (le_source_event_id target) (le_source_memory_id target)}
           else set (lr_root_evidence_ids (hd origins))) in
     rbind (support_loop lp subject_id target ids roots [own] st) (\<lambda>(roots, confidences).
     let confidence = validation_confidence lp own confidences in
     rbind (ensure (\<not> (roots \<noteq> set (le_root_evidence_ids target) \<or> card roots < 3 \<or> confidence < 3 / 4))
       (learning_invalid ''current support no longer meets validation requirements'')) (\<lambda>_.
     Inr confidence))))))"

definition check_learning_state :: "string \<Rightarrow> subject_state \<Rightarrow> int \<Rightarrow> unit res" where
  "check_learning_state subject_id state expected_revision =
     rbind (ensure (ss_subject_id state = subject_id)
       (learning_invalid ''SubjectState does not match learning subject'')) (\<lambda>_.
     ensure (ss_revision state = expected_revision)
       (learning_invalid ''SubjectState revision does not match expected_revision''))"

definition require_confirmation :: "bool \<Rightarrow> unit res" where
  "require_confirmation confirmed = ensure confirmed
     (learning_invalid ''permanent personality changes require explicit confirmation'')"

definition learnable_value :: "subject_state \<Rightarrow> string \<Rightarrow> string list res" where
  "learnable_value s path =
     (if path = ''identity.stable_traits'' then Inr (idn_stable_traits (ss_identity s))
      else if path = ''identity.expression_preferences'' then Inr (idn_expression_preferences (ss_identity s))
      else if path = ''identity.judgment_principles'' then Inr (idn_judgment_principles (ss_identity s))
      else if path = ''relationship.interaction_preferences'' then Inr (rel_interaction_preferences (ss_relationship s))
      else Inl (learning_invalid ''field is outside the learning boundary''))"

text \<open>\<open>StateSection(field_path.split(".", 1)[0])\<close>.\<close>

definition learning_section :: "string \<Rightarrow> pyval" where
  "learning_section path = PStr (takeWhile (\<lambda>c. c \<noteq> CHR ''.'') path)"

section \<open>Changing a candidate\<close>

text \<open>\<open>resolver(subject_id, memory_id, environment)\<close> and what it means for the stored experience.\<close>

definition bind_memory ::
  "learning_ports \<Rightarrow> string \<Rightarrow> string option \<Rightarrow> pyval \<Rightarrow> pyval list \<Rightarrow> pyval res" where
  "bind_memory lp subject_id source_memory_id original roots = (case source_memory_id of
       None \<Rightarrow> Inr original
     | Some memory_id \<Rightarrow>
         rbind (case original of
             PDict d \<Rightarrow> (case dict_get_or (PDict []) d ''metadata'' of PDict m \<Rightarrow> Inr m
               | _ \<Rightarrow> Inl (AttributeError, ''object has no attribute get''))
           | _ \<Rightarrow> Inr []) (\<lambda>metadata.
         rbind (memory_support_snapshot (lp_memory lp) subject_id memory_id (dict_get metadata ''memory_environment'')) (\<lambda>binding.
         rbind (ensure (dict_get metadata ''memory_hash'' \<noteq> PNone \<longrightarrow> (\<exists>b. binding = Some b \<and>
             py_eq (dict_get (dict_of b) ''hash'') (dict_get metadata ''memory_hash'') \<and>
             py_eq (dict_get (dict_of b) ''revision'') (dict_get metadata ''memory_revision'')))
           (learning_invalid ''memory influence source version/hash drift'')) (\<lambda>_.
         case binding of None \<Rightarrow> Inr original
         | Some b \<Rightarrow>
             rbind (ensure (list_all py_hashable roots) (TypeError, ''unhashable type'')) (\<lambda>_.
             rbind (ensure (set roots = set (list_of (dict_get (dict_of b) ''root_evidence_ids'')))
               (learning_invalid ''memory support root evidence mismatch'')) (\<lambda>_.
             Inr (PDict [(''experience'', original), (''p12_memory_binding'', b)])))))))"

definition create_candidate ::
  "learning_ports \<Rightarrow> string \<Rightarrow> string option \<Rightarrow> string option \<Rightarrow> int \<Rightarrow> pyval \<Rightarrow> pyval \<Rightarrow> state_mutation \<Rightarrow> pyval \<Rightarrow> pyval
     \<Rightarrow> string \<Rightarrow> string \<Rightarrow> string option \<Rightarrow> pyval list \<Rightarrow> (learning_store, learning_change) prog" where
  "create_candidate lp subject_id source_event_id source_memory_id related_state_revision observation hypothesis
     proposed_change confidence original_experience reason source learning_id root_evidence_ids =
     sbind (slift (bind_memory lp subject_id source_memory_id original_experience root_evidence_ids)) (\<lambda>original.
     sbind (slift (learning_event_init
       \<lparr>lea_learning_id = PStr (given_or_uuid learning_id (lp_learning_uuid lp)), lea_subject_id = PStr subject_id,
        lea_source_event_id = opt_val PStr source_event_id, lea_source_memory_id = opt_val PStr source_memory_id,
        lea_related_state_revision = PInt related_state_revision, lea_observation = observation,
        lea_hypothesis = hypothesis, lea_proposed_change = proposed_change, lea_confidence = confidence,
        lea_validation_status = PStr (learning_status_value Ls_PENDING), lea_created_at = utc_val (lp_now lp),
        lea_revision = PInt 0, lea_evidence_learning_ids = PList [], lea_root_evidence_ids = PList root_evidence_ids\<rparr>)) (\<lambda>candidate.
     sbind (slift (learning_record_init
       \<lparr>lra_record_id = PStr (lp_record_uuid lp), lra_learning_id = PStr (le_learning_id candidate),
        lra_subject_id = PStr subject_id, lra_record_type = PStr (learning_record_value Lr_CANDIDATE_CREATED),
        lra_original_experience = original, lra_observation = observation, lra_hypothesis = hypothesis,
        lra_validation_status = PStr (learning_status_value Ls_PENDING), lra_permanently_consolidated = PBool False,
        lra_field_path = PStr (sm_field_path proposed_change), lra_before_value = PNone,
        lra_after_value = sm_value proposed_change, lra_reason = PStr reason, lra_source = PStr source,
        lra_created_at = utc_val (lp_now lp), lra_evidence_learning_ids = str_list [le_learning_id candidate],
        lra_root_evidence_ids = str_list (le_root_evidence_ids candidate), lra_trait_id = PNone,
        lra_state_event_id = PNone, lra_pending_state_event = PNone, lra_growth_operation = PNone,
        lra_growth_resolution = PNone\<rparr>)) (\<lambda>record.
     sbind (lp_save lp subject_id candidate record None) (\<lambda>_.
     sret \<lparr>lc_event = candidate, lc_record = record, lc_trait = None, lc_state_event = None\<rparr>))))"

text \<open>Record and save a changed candidate, as the next three operations end.\<close>

definition save_candidate ::
  "learning_ports \<Rightarrow> string \<Rightarrow> learning_event \<Rightarrow> learning_record_type \<Rightarrow> pyval \<Rightarrow> pyval \<Rightarrow> string \<Rightarrow> string
     \<Rightarrow> (learning_store, learning_change) prog" where
  "save_candidate lp subject_id updated record_type before_value after_value reason source =
     sbind (sread (record_for lp updated record_type (le_validation_status updated) False before_value after_value
       reason source None None)) (\<lambda>record.
     sbind (lp_save lp subject_id updated record None) (\<lambda>_.
     sret \<lparr>lc_event = updated, lc_record = record, lc_trait = None, lc_state_event = None\<rparr>))"

definition adjust_confidence ::
  "learning_ports \<Rightarrow> string \<Rightarrow> string \<Rightarrow> pyval \<Rightarrow> string \<Rightarrow> string \<Rightarrow> (learning_store, learning_change) prog" where
  "adjust_confidence lp subject_id learning_id delta reason source =
     sbind (sread (lp_load lp subject_id learning_id)) (\<lambda>current.
     sbind (sread (require_mutable_candidate lp subject_id current)) (\<lambda>_.
     sbind (slift (case delta of PInt n \<Rightarrow> Inr () | PFloat q \<Rightarrow> Inr ()
       | _ \<Rightarrow> Inl (learning_invalid ''confidence delta must be a number''))) (\<lambda>_.
     sbind (slift (learning_event_copy current)) (\<lambda>copy.
     sbind (slift (py_float lp delta)) (\<lambda>d.
     let confidence = max 0 (min 1 (fl (le_confidence current + d))) in
     sbind (slift (learning_event_recheck (copy\<lparr>le_confidence := confidence,
       le_validation_status := (if le_validation_status copy = Ls_VALIDATED \<and> confidence < 3 / 4 then Ls_PENDING
         else le_validation_status copy),
       le_revision := le_revision copy + 1\<rparr>))) (\<lambda>updated.
     save_candidate lp subject_id updated Lr_CONFIDENCE_ADJUSTED (PFloat (le_confidence current))
       (PFloat (le_confidence updated)) reason source))))))"

text \<open>The roots of the evidence, all distinct, in one set.\<close>

fun collect_roots :: "learning_ports \<Rightarrow> string \<Rightarrow> learning_event list \<Rightarrow> string set \<Rightarrow> learning_store \<Rightarrow> string set res" where
  "collect_roots lp subject_id [] seen st = Inr seen"
| "collect_roots lp subject_id (e # es) seen st =
     rbind (verify_memory_support lp subject_id e st) (\<lambda>_.
     rbind (ensure (seen \<inter> set (le_root_evidence_ids e) = {})
       (learning_invalid ''validation evidence must use distinct root experiences'')) (\<lambda>_.
     collect_roots lp subject_id es (seen \<union> set (le_root_evidence_ids e)) st))"

definition validate_learning ::
  "learning_ports \<Rightarrow> string \<Rightarrow> string \<Rightarrow> string list \<Rightarrow> string \<Rightarrow> string \<Rightarrow> (learning_store, learning_change) prog" where
  "validate_learning lp subject_id learning_id corroborating reason source =
     sbind (sread (lp_load lp subject_id learning_id)) (\<lambda>target.
     sbind (sread (require_mutable_candidate lp subject_id target)) (\<lambda>_.
     let evidence_ids = fromkeys (learning_id # corroborating) in
     sbind (slift (ensure (3 \<le> length evidence_ids)
       (learning_invalid ''validation requires at least 3 consistent experiences''))) (\<lambda>_.
     sbind (sread (\<lambda>st. rmap (\<lambda>i. lp_load lp subject_id i st) evidence_ids)) (\<lambda>evidence.
     sbind (slift (ensure (\<forall>e \<in> set evidence. le_validation_status e \<notin> {Ls_REJECTED, Ls_REVOKED})
       (learning_invalid ''rejected or revoked evidence cannot validate learning''))) (\<lambda>_.
     sbind (sread (collect_roots lp subject_id evidence {})) (\<lambda>seen_roots.
     sbind (slift (ensure (\<forall>e \<in> set evidence. mutation_signature (le_proposed_change e) =
         mutation_signature (le_proposed_change target))
       (learning_invalid ''validation evidence proposes inconsistent changes''))) (\<lambda>_.
     sbind (slift (learning_event_copy target)) (\<lambda>copy.
     let confidence = validation_confidence lp (le_confidence target) (map le_confidence evidence);
         status = (if 3 / 4 \<le> confidence then Ls_VALIDATED else Ls_PENDING) in
     sbind (slift (learning_event_recheck (copy\<lparr>le_confidence := confidence, le_evidence_learning_ids := evidence_ids,
       le_root_evidence_ids := sorted_list_of_set seen_roots, le_validation_status := status,
       le_revision := le_revision copy + 1\<rparr>))) (\<lambda>updated.
     save_candidate lp subject_id updated (if le_validation_status updated = Ls_VALIDATED then Lr_VALIDATED
       else Lr_CONFIDENCE_ADJUSTED) (PFloat (le_confidence target)) (PFloat (le_confidence updated)) reason source)))))))))"

definition reject_learning ::
  "learning_ports \<Rightarrow> string \<Rightarrow> string \<Rightarrow> string \<Rightarrow> string \<Rightarrow> (learning_store, learning_change) prog" where
  "reject_learning lp subject_id learning_id reason source =
     sbind (sread (lp_load lp subject_id learning_id)) (\<lambda>current.
     sbind (sread (require_mutable_candidate lp subject_id current)) (\<lambda>_.
     sbind (slift (learning_event_copy current)) (\<lambda>copy.
     sbind (slift (learning_event_recheck (copy\<lparr>le_validation_status := Ls_REJECTED,
       le_revision := le_revision copy + 1\<rparr>))) (\<lambda>updated.
     save_candidate lp subject_id updated Lr_REJECTED (PStr (learning_status_value (le_validation_status current)))
       (PStr (learning_status_value Ls_REJECTED)) reason source))))"

section \<open>Lasting changes\<close>

text \<open>\<open>'p15-growth:' + str(growth_operation['command']['command_id'])\<close>.\<close>

definition growth_event_id :: "learning_ports \<Rightarrow> pyval \<Rightarrow> string res" where
  "growth_event_id lp operation = (case operation of
       PDict d \<Rightarrow> (case map_of d ''command'' of
           None \<Rightarrow> Inl (KeyError, ''command'')
         | Some (PDict c) \<Rightarrow> (case map_of c ''command_id'' of
             None \<Rightarrow> Inl (KeyError, ''command_id'') | Some v \<Rightarrow> Inr (''p15-growth:'' @ py_str lp v))
         | Some _ \<Rightarrow> Inl (TypeError, ''indices must be integers''))
     | _ \<Rightarrow> Inl (TypeError, ''indices must be integers''))"

definition learning_state_event ::
  "learning_ports \<Rightarrow> string option \<Rightarrow> string \<Rightarrow> string \<Rightarrow> string \<Rightarrow> string \<Rightarrow> state_mutation \<Rightarrow> string
     \<Rightarrow> (string \<times> pyval) list \<Rightarrow> event res" where
  "learning_state_event lp event_id source event_type content path mutation reason metadata =
     event_create event_id (lp_event_uuid lp)
       \<lparr>ea_event_id = PNone, ea_occurred_at = utc_val (lp_now lp), ea_source = PStr source,
        ea_event_type = PStr event_type, ea_content = PStr content, ea_impact_scope = [learning_section path],
        ea_mutations = [mutation], ea_reason = PStr reason, ea_metadata = metadata, ea_observed_at = PNone,
        ea_recorded_at = PNone, ea_time_basis = PNone, ea_classification = PStr (classification_value Cls_LEGACY),
        ea_source_kind = PStr (source_kind_value Src_LEGACY), ea_source_event_id = PNone,
        ea_correlation_id = PNone, ea_evidence = [], ea_references = []\<rparr>"

text \<open>\<open>growth\<close> is \<open>PNone\<close> or the operation that a growth command is bound to.\<close>

definition solidify_learning ::
  "learning_ports \<Rightarrow> string \<Rightarrow> string \<Rightarrow> subject_state \<Rightarrow> string \<Rightarrow> string \<Rightarrow> string \<Rightarrow> string \<Rightarrow> bool \<Rightarrow> int
     \<Rightarrow> string option \<Rightarrow> pyval \<Rightarrow> (learning_store, learning_change) prog" where
  "solidify_learning lp subject_id learning_id state trait_name trait_description reason source confirmed
     expected_revision trait_id growth =
     sbind (slift (require_confirmation confirmed)) (\<lambda>_.
     sbind (slift (check_learning_state subject_id state expected_revision)) (\<lambda>_.
     sbind (sread (lp_load lp subject_id learning_id)) (\<lambda>loaded.
     sbind (slift (ensure (le_validation_status loaded = Ls_VALIDATED)
       (learning_invalid ''only validated learning may be consolidated''))) (\<lambda>_.
     sbind (slift (ensure (\<not> (length (le_root_evidence_ids loaded) < 3 \<or> le_confidence loaded < 3 / 4))
       (learning_invalid ''validated learning lacks sufficient evidence''))) (\<lambda>_.
     sbind (sread (verify_current_support lp subject_id loaded)) (\<lambda>supported.
     let current = loaded\<lparr>le_confidence := min (le_confidence loaded) supported\<rparr>;
         change = le_proposed_change current; path = sm_field_path change in
     sbind (sread (has_active_consolidation lp subject_id learning_id)) (\<lambda>consolidated.
     sbind (slift (ensure (\<not> consolidated) (learning_invalid ''learning is already consolidated''))) (\<lambda>_.
     sbind (slift (learnable_value state path)) (\<lambda>before.
     sbind (slift (ensure (sm_value change \<notin> PStr ` set before)
       (learning_invalid ''proposed personality value already exists''))) (\<lambda>_.
     sbind (slift (trait_init (PStr (given_or_uuid trait_id (lp_trait_uuid lp))) (PStr subject_id) (PStr trait_name)
       (PStr trait_description) (PStr path) (PStr (py_str lp (sm_value change))) (PFloat (le_confidence current))
       (utc_val (lp_now lp)) (utc_val (lp_now lp)) (PInt (int (length (le_root_evidence_ids current))))
       (PBool True) (PInt 0))) (\<lambda>trait.
     sbind (slift (if truthy growth then rbind (growth_event_id lp growth) (\<lambda>i. Inr (Some i)) else Inr None)) (\<lambda>event_id.
     sbind (slift (learning_state_event lp event_id source ''learning_consolidation''
       (''Validated learning proposed long-term trait: '' @ trait_name) path change reason
       ([(''learning_id'', PStr learning_id), (''trait_id'', PStr (pt_trait_id trait)),
         (''evidence_count'', PInt (pt_evidence_count trait)), (''learning_confidence'', PFloat (le_confidence current)),
         (''explicitly_confirmed'', PBool True)] @ (if growth = PNone then [] else [(''p15_growth_operation'', growth)])))) (\<lambda>event.
     sbind (slift (learning_event_copy current)) (\<lambda>copy.
     sbind (slift (learning_event_recheck (copy\<lparr>le_revision := le_revision copy + 1\<rparr>))) (\<lambda>updated.
     sbind (sread (record_for lp updated Lr_CONSOLIDATED Ls_VALIDATED True (str_list before)
       (PList (map PStr before @ [sm_value change])) reason source (Some (pt_trait_id trait)) (Some (ev_event_id event)))) (\<lambda>base.
     let record = (if growth = PNone then base else base\<lparr>lr_pending_state_event := event_to_dict event,
           lr_growth_operation := growth, lr_record_type := Lr_GROWTH_PREPARED, lr_permanently_consolidated := False\<rparr>);
         saved_trait = (if growth = PNone then trait else trait\<lparr>pt_active := False\<rparr>) in
     sbind (lp_save lp subject_id updated record (Some saved_trait)) (\<lambda>_.
     sret \<lparr>lc_event = updated, lc_record = record, lc_trait = Some saved_trait, lc_state_event = Some event\<rparr>)))))))))))))))))"

definition rollback_learning ::
  "learning_ports \<Rightarrow> string \<Rightarrow> string \<Rightarrow> string \<Rightarrow> subject_state \<Rightarrow> string \<Rightarrow> string \<Rightarrow> bool \<Rightarrow> int \<Rightarrow> pyval
     \<Rightarrow> (learning_store, learning_change) prog" where
  "rollback_learning lp subject_id learning_id trait_id state reason source confirmed expected_revision growth =
     sbind (slift (require_confirmation confirmed)) (\<lambda>_.
     sbind (slift (check_learning_state subject_id state expected_revision)) (\<lambda>_.
     sbind (sread (lp_load lp subject_id learning_id)) (\<lambda>current.
     sbind (sread (load_trait (lp_canon lp) (lp_sha lp) subject_id trait_id)) (\<lambda>trait.
     sbind (slift (ensure (pt_active trait) (learning_invalid ''personality trait is already inactive''))) (\<lambda>_.
     sbind (sread (lp_history lp subject_id (Some learning_id))) (\<lambda>history.
     sbind (slift (ensure (\<exists>r \<in> set history. lr_record_type r = Lr_CONSOLIDATED \<and> lr_trait_id r = Some trait_id)
       (learning_invalid ''trait was not consolidated by this learning''))) (\<lambda>_.
     sbind (slift (learnable_value state (pt_field_path trait))) (\<lambda>before.
     sbind (slift (ensure (pt_current_value trait \<in> set before)
       (learning_invalid ''trait value is absent from current SubjectState''))) (\<lambda>_.
     let remaining = filter (\<lambda>x. x \<noteq> pt_current_value trait) before in
     sbind (slift (state_mutation_init (PStr (pt_field_path trait)) (PStr (operation_value Op_REMOVE))
       (PStr (pt_current_value trait)) (PStr reason))) (\<lambda>mutation.
     sbind (slift (learning_state_event lp None source ''learning_rollback''
       (''Previously consolidated trait was withdrawn: '' @ pt_name trait) (pt_field_path trait) mutation reason
       [(''learning_id'', PStr learning_id), (''trait_id'', PStr trait_id), (''explicitly_confirmed'', PBool True)])) (\<lambda>created.
     sbind (slift (if growth = PNone then Inr created else
       rbind (growth_event_id lp growth) (\<lambda>i. Inr (created\<lparr>ev_event_id := i,
         ev_metadata := ev_metadata created @ [(''p15_growth_operation'', growth)]\<rparr>)))) (\<lambda>event.
     sbind (slift (learning_event_copy current)) (\<lambda>copy.
     sbind (slift (learning_event_recheck (copy\<lparr>le_validation_status := Ls_REVOKED, le_revision := le_revision copy + 1\<rparr>))) (\<lambda>revoked.
     sbind (slift (trait_copy trait)) (\<lambda>trait_again.
     sbind (slift (trait_recheck (trait_again\<lparr>pt_active := False, pt_last_updated_at := lp_now lp,
       pt_revision := pt_revision trait_again + 1\<rparr>))) (\<lambda>withdrawn.
     sbind (sread (record_for lp revoked Lr_ROLLED_BACK Ls_REVOKED False (str_list before) (str_list remaining)
       reason source (Some trait_id) (Some (ev_event_id event)))) (\<lambda>base.
     let record = (if growth = PNone then base else base\<lparr>lr_pending_state_event := event_to_dict event,
           lr_growth_operation := growth, lr_record_type := Lr_GROWTH_PREPARED,
           lr_validation_status := le_validation_status current\<rparr>);
         updated = (if growth = PNone then revoked else revoked\<lparr>le_validation_status := le_validation_status current\<rparr>);
         updated_trait = (if growth = PNone then withdrawn else withdrawn\<lparr>pt_active := pt_active trait\<rparr>) in
     sbind (lp_save lp subject_id updated record (Some updated_trait)) (\<lambda>_.
     sret \<lparr>lc_event = updated, lc_record = record, lc_trait = Some updated_trait, lc_state_event = Some event\<rparr>))))))))))))))))))"

section \<open>Extraction and queries\<close>

text \<open>The part of a \<open>LearningContext\<close> that the service reads.\<close>

record learning_context =
  lx_context_id :: string
  lx_subject_state :: subject_state
  lx_recent_events :: "event list"
  lx_memory_influences :: "memory_influence list"

record learning_result =
  lt_candidates :: "learning_event list"
  lt_suggested_changes :: "state_mutation list"
  lt_confidence :: rat
  lt_resource_decision :: "resource_decision option"

definition find_by_source :: "string option \<Rightarrow> string option \<Rightarrow> learning_event list \<Rightarrow> learning_event option" where
  "find_by_source source_event_id source_memory_id es = List.find (\<lambda>e.
     (source_event_id \<noteq> None \<and> le_source_event_id e = source_event_id) \<or>
     (source_memory_id \<noteq> None \<and> le_source_memory_id e = source_memory_id)) es"

definition candidate_from_metadata ::
  "learning_ports \<Rightarrow> string \<Rightarrow> int \<Rightarrow> (string \<times> pyval) list \<Rightarrow> string option \<Rightarrow> string option \<Rightarrow> pyval \<Rightarrow> string
     \<Rightarrow> (learning_store, learning_event option) prog" where
  "candidate_from_metadata lp subject_id related_state_revision metadata source_event_id source_memory_id
     original_experience default_source =
     (if \<not> list_all (\<lambda>k. map_of metadata k \<noteq> None)
         [''learning_observation'', ''learning_hypothesis'', ''learning_field_path'', ''learning_value'']
      then sret None
      else
        sbind (sread (list_learning_events (lp_canon lp) (lp_sha lp) subject_id)) (\<lambda>known.
        case find_by_source source_event_id source_memory_id known of
          Some e \<Rightarrow> sret (Some e)
        | None \<Rightarrow>
            sbind (slift (state_mutation_init (dict_get metadata ''learning_field_path'') (PStr (operation_value Op_APPEND))
              (dict_get metadata ''learning_value'')
              (PStr (py_str lp (dict_get_or (dict_get metadata ''learning_hypothesis'') metadata ''learning_reason''))))) (\<lambda>change.
            sbind (create_candidate lp subject_id source_event_id source_memory_id related_state_revision
              (dict_get metadata ''learning_observation'') (dict_get metadata ''learning_hypothesis'') change
              (dict_get_or (PFloat (1 / 2)) metadata ''learning_confidence'') original_experience
              (py_str lp (dict_get_or (PStr ''Explicit learning evidence was supplied.'') metadata ''learning_reason''))
              (py_str lp (dict_get_or (PStr default_source) metadata ''learning_source'')) None
              (list_of (dict_get_or (PList []) metadata ''root_evidence_ids''))) (\<lambda>result.
            sret (Some (lc_event result))))))"

text \<open>The loops over the experiences; \<open>lp\<close> gives the ports of every single creation.\<close>

fun extract_each :: "('a \<Rightarrow> learning_ports \<Rightarrow> (learning_store, learning_event option) prog) \<Rightarrow> (nat \<Rightarrow> learning_ports)
     \<Rightarrow> nat \<Rightarrow> 'a list \<Rightarrow> (learning_store, learning_event list) prog" where
  "extract_each f lp n [] = sret []"
| "extract_each f lp n (x # xs) =
     sbind (f x (lp n)) (\<lambda>candidate.
     sbind (extract_each f lp (Suc n) xs) (\<lambda>rest.
     sret (case candidate of None \<Rightarrow> rest | Some e \<Rightarrow> e # rest)))"

text \<open>\<open>list({item.learning_id: item for item in candidates}.values())\<close>.\<close>

definition unique_candidates :: "learning_event list \<Rightarrow> learning_event list" where
  "unique_candidates es = map (\<lambda>i. the (find_candidate i (rev es))) (fromkeys (map le_learning_id es))"

definition extract_candidates ::
  "(nat \<Rightarrow> learning_ports) \<Rightarrow> learning_context \<Rightarrow> (learning_store, learning_result) prog" where
  "extract_candidates lp context =
     (let state = lx_subject_state context; subject_id = ss_subject_id state in
     sbind (slift (case lp_resource (lp 0) of
         None \<Rightarrow> Inr None
       | Some request \<Rightarrow> rbind (request subject_id (lx_context_id context)) (\<lambda>d. Inr (Some d)))) (\<lambda>decision.
     if \<exists>d. decision = Some d \<and> rd_defer d
     then sret \<lparr>lt_candidates = [], lt_suggested_changes = [], lt_confidence = 0, lt_resource_decision = decision\<rparr>
     else
       sbind (extract_each (\<lambda>event lp. candidate_from_metadata lp subject_id (ss_revision state) (ev_metadata event)
         (Some (ev_event_id event)) None (event_to_dict event) (ev_source event)) lp 0 (lx_recent_events context)) (\<lambda>from_events.
       sbind (extract_each (\<lambda>influence lp. candidate_from_metadata lp subject_id (ss_revision state) (mi_metadata influence)
         None (Some (mi_memory_id influence)) (memory_influence_to_dict influence) ''memory_influence'') lp
         (length (lx_recent_events context)) (lx_memory_influences context)) (\<lambda>from_memories.
       let ordered = unique_candidates (from_events @ from_memories) in
       sret \<lparr>lt_candidates = ordered, lt_suggested_changes = map le_proposed_change ordered,
         lt_confidence = foldr max (map le_confidence ordered) 0, lt_resource_decision = decision\<rparr>))))"

definition learning_deferred :: "learning_result \<Rightarrow> bool" where
  "learning_deferred r \<longleftrightarrow> (\<exists>d. lt_resource_decision r = Some d \<and> rd_defer d)"

definition get_learning_event :: "learning_ports \<Rightarrow> string \<Rightarrow> string \<Rightarrow> (learning_store, learning_event) prog" where
  "get_learning_event lp subject_id learning_id = sread (lp_load lp subject_id learning_id)"

definition get_learning_events :: "learning_ports \<Rightarrow> string \<Rightarrow> (learning_store, learning_event list) prog" where
  "get_learning_events lp subject_id = sread (list_learning_events (lp_canon lp) (lp_sha lp) subject_id)"

definition get_trait :: "learning_ports \<Rightarrow> string \<Rightarrow> string \<Rightarrow> (learning_store, personality_trait) prog" where
  "get_trait lp subject_id trait_id = sread (load_trait (lp_canon lp) (lp_sha lp) subject_id trait_id)"

definition get_traits :: "learning_ports \<Rightarrow> string \<Rightarrow> bool \<Rightarrow> (learning_store, personality_trait list) prog" where
  "get_traits lp subject_id include_inactive = sread (list_traits (lp_canon lp) (lp_sha lp) subject_id include_inactive)"

definition get_learning_history ::
  "learning_ports \<Rightarrow> string \<Rightarrow> string option \<Rightarrow> (learning_store, learning_record list) prog" where
  "get_learning_history lp subject_id learning_id = sread (lp_history lp subject_id learning_id)"

end
