(* ===== verification/Learning_Runs.thy ===== *)
theory Learning_Runs
  imports Learning_Service
begin

text \<open>
  What a change may do to the document of a subject (\<open>admissible\<close>), that it keeps the document
  readable and its books in order (\<open>disciplined\<close>), and that every operation of the service makes
  admissible changes only.
\<close>

section \<open>Lists with an identity\<close>

lemma find_distinct:
  "distinct (map f xs) \<Longrightarrow> List.find (\<lambda>x. f x = i) xs = Some x \<longleftrightarrow> x \<in> set xs \<and> f x = i"
  by (induction xs) auto

lemma find_absent: "List.find (\<lambda>x. f x = i) xs = None \<longleftrightarrow> i \<notin> f ` set xs"
  by (induction xs) auto

lemma replace_first_set:
  assumes "distinct (map f xs)" "x \<in> set xs" "f x = f y"
  shows "set (replace_first (\<lambda>z. f z = f y) y xs) = insert y (set xs - {x})"
  using assms by (induction xs) (auto simp: rev_image_eqI)

lemma replace_first_map:
  "x \<in> set xs \<Longrightarrow> f x = f y \<Longrightarrow> map f (replace_first (\<lambda>z. f z = f y) y xs) = map f xs"
  by (induction xs) auto

lemma distinct_map_sort: "distinct (map f (sort_key g xs)) = distinct (map f xs)"
proof -
  have "mset (map f (sort_key g xs)) = mset (map f xs)" by simp
  then show ?thesis by (metis mset_eq_imp_distinct_iff)
qed

section \<open>Sound documents\<close>

definition sound_learning ::
  "canon_fun \<Rightarrow> digest_fun \<Rightarrow> learning_event list \<Rightarrow> personality_trait list \<Rightarrow> learning_record list \<Rightarrow> bool" where
  "sound_learning canon sha es ts rs \<longleftrightarrow>
     (\<forall>e \<in> set es. wf_learning_event e) \<and> (\<forall>t \<in> set ts. wf_trait t) \<and> (\<forall>r \<in> set rs. wf_learning_record r) \<and>
     distinct (map le_learning_id es) \<and> distinct (map pt_trait_id ts) \<and>
     (\<forall>r \<in> set rs. \<exists>e \<in> set es. le_learning_id e = lr_learning_id r \<and>
        set (lr_root_evidence_ids r) \<subseteq> set (le_root_evidence_ids e)) \<and>
     check_resolutions canon sha rs (enumerate 0 rs) [] = Inr ()"

lemma decode_written:
  "(\<forall>e \<in> set es. wf_learning_event e) \<Longrightarrow> rmap learning_event_from_dict (map learning_event_to_dict es) = Inr es"
  "(\<forall>t \<in> set ts. wf_trait t) \<Longrightarrow> rmap trait_from_dict (map trait_to_dict ts) = Inr ts"
  "(\<forall>r \<in> set rs. wf_learning_record r) \<Longrightarrow> rmap learning_record_from_dict (map learning_record_to_dict rs) = Inr rs"
  using learning_event_copy_run trait_copy_run learning_record_roundtrip
  by (auto intro!: rmap_Inr_id simp: learning_event_copy_def trait_copy_def)

lemma document_fields [simp]:
  "dict_get (learning_document i es ts rs) ''learning_format_version'' = PInt 1"
  "dict_get (learning_document i es ts rs) ''subject_id'' = PStr i"
  "dict_get (learning_document i es ts rs) ''learning_events'' = PList (map learning_event_to_dict es)"
  "dict_get (learning_document i es ts rs) ''traits'' = PList (map trait_to_dict ts)"
  "dict_get (learning_document i es ts rs) ''records'' = PList (map learning_record_to_dict rs)"
  by (simp_all add: learning_document_def)

lemma check_record_roots_iff:
  "distinct (map le_learning_id es) \<Longrightarrow> check_record_roots es r = Inr () \<longleftrightarrow>
    (\<exists>e \<in> set es. le_learning_id e = lr_learning_id r \<and> set (lr_root_evidence_ids r) \<subseteq> set (le_root_evidence_ids e))"
  by (auto simp: check_record_roots_def ensure_def find_candidate_def find_distinct)

lemma read_written:
  assumes "sound_learning canon sha es ts rs"
  shows "read_learning_document canon sha (File_Doc (PDict (learning_document i es ts rs))) =
    Inr (learning_document i es ts rs)"
proof -
  have "each (\<lambda>raw. rbind (learning_record_from_dict raw) (check_record_roots es)) (map learning_record_to_dict rs) = Inr ()"
    using assms by (auto simp: each_eq_Inr sound_learning_def learning_record_roundtrip check_record_roots_iff)
  with assms show ?thesis
    by (simp add: read_learning_document_def sound_learning_def decode_written ensure_def validate_growth_resolutions_def)
qed

text \<open>What is on file for a subject.\<close>

definition on_file ::
  "canon_fun \<Rightarrow> digest_fun \<Rightarrow> learning_store \<Rightarrow> string \<Rightarrow> learning_event list \<Rightarrow> personality_trait list
     \<Rightarrow> learning_record list \<Rightarrow> bool" where
  "on_file canon sha st i es ts rs \<longleftrightarrow>
     st (sha i) = File_Doc (PDict (learning_document i es ts rs)) \<and> sound_learning canon sha es ts rs"

lemma first_decoded_written:
  assumes "\<And>x. x \<in> set xs \<Longrightarrow> f (g x) = Inr x"
  shows "first_decoded f p e (map g xs) = (case List.find p xs of None \<Rightarrow> Inl e | Some x \<Rightarrow> Inr x)"
  using assms by (induction xs) auto

lemma reads:
  assumes "on_file canon sha st i es ts rs" "\<not> blank i"
  shows "load_learning_subject canon sha i st = Inr (learning_document i es ts rs)"
    "listed_document canon sha i st = Inr (Some (learning_document i es ts rs))"
  using assms read_written
  by (simp_all add: load_learning_subject_def listed_document_def learning_path_def on_file_def
      validate_learning_subject_def ensure_def)

lemma load_event_run:
  assumes "on_file canon sha st i es ts rs" "\<not> blank i"
  shows "load_learning_event canon sha i j st = (case find_candidate j es of
    None \<Rightarrow> Inl (LearningNotFoundError, ''learning candidate not found: '' @ j) | Some e \<Rightarrow> Inr e)"
proof -
  have "\<And>e. e \<in> set es \<Longrightarrow> learning_event_from_dict (learning_event_to_dict e) = Inr e"
    using assms(1) learning_event_copy_run by (simp add: on_file_def sound_learning_def learning_event_copy_def)
  from first_decoded_written [OF this] show ?thesis
    by (simp add: load_learning_event_def reads [OF assms] find_candidate_def del: append.simps)
qed

lemma load_trait_run:
  assumes "on_file canon sha st i es ts rs" "\<not> blank i"
  shows "load_trait canon sha i j st = (case find_trait j ts of
    None \<Rightarrow> Inl (LearningNotFoundError, ''personality trait not found: '' @ j) | Some t \<Rightarrow> Inr t)"
proof -
  have "\<And>t. t \<in> set ts \<Longrightarrow> trait_from_dict (trait_to_dict t) = Inr t"
    using assms(1) trait_copy_run by (simp add: on_file_def sound_learning_def trait_copy_def)
  from first_decoded_written [OF this] show ?thesis
    by (simp add: load_trait_def reads [OF assms] find_trait_def del: append.simps)
qed

lemma list_traits_run:
  assumes "on_file canon sha st i es ts rs" "\<not> blank i"
  shows "list_traits canon sha i b st = Inr (if b then ts else filter pt_active ts)"
proof -
  have "rmap trait_from_dict (map trait_to_dict ts) = Inr ts"
    using assms(1) by (simp add: decode_written(2) on_file_def sound_learning_def)
  then show ?thesis by (simp add: list_traits_def reads [OF assms])
qed

lemma history_run:
  assumes "on_file canon sha st i es ts rs" "\<not> blank i"
  shows "learning_history canon sha i (Some j) st = (if j \<in> le_learning_id ` set es
    then Inr (filter (\<lambda>r. lr_learning_id r = j) rs)
    else Inl (LearningNotFoundError, ''learning candidate not found: '' @ j))"
proof -
  have "list_ex (\<lambda>raw. dict_get (dict_of raw) ''learning_id'' = PStr j) (map learning_event_to_dict es) \<longleftrightarrow>
    j \<in> le_learning_id ` set es"
    by (auto simp: list_ex_iff learning_event_to_dict_def)
  then show ?thesis
    using assms(1) decode_written(3) [of rs]
    by (simp add: learning_history_def reads [OF assms] on_file_def sound_learning_def del: append.simps)
qed

section \<open>Admissible changes\<close>

definition consolidates :: "learning_record list \<Rightarrow> personality_trait list \<Rightarrow> string \<Rightarrow> personality_trait \<Rightarrow> bool" where
  "consolidates rs ts j t \<longleftrightarrow> t \<in> set ts \<and> pt_active t \<and>
     (\<exists>r \<in> set rs. lr_record_type r = Lr_CONSOLIDATED \<and> lr_learning_id r = j \<and> lr_trait_id r = Some (pt_trait_id t))"

text \<open>The part of a candidate and of a trait that never changes.\<close>

definition candidate_core ::
  "learning_event \<Rightarrow> string \<times> string \<times> string option \<times> string option \<times> int \<times> string \<times> string \<times> state_mutation \<times> instant" where
  "candidate_core e = (le_learning_id e, le_subject_id e, le_source_event_id e, le_source_memory_id e,
     le_related_state_revision e, le_observation e, le_hypothesis e, le_proposed_change e, le_created_at e)"

definition trait_core :: "personality_trait \<Rightarrow> string \<times> string \<times> string \<times> string \<times> string \<times> string \<times> instant" where
  "trait_core t = (pt_trait_id t, pt_subject_id t, pt_name t, pt_description t, pt_field_path t, pt_current_value t,
     pt_created_at t)"

definition well_supported :: "learning_event \<Rightarrow> bool" where
  "well_supported e \<longleftrightarrow> le_validation_status e = Ls_VALIDATED \<and> 3 / 4 \<le> le_confidence e \<and>
     3 \<le> length (le_root_evidence_ids e)"

definition admissible ::
  "learning_event list \<Rightarrow> personality_trait list \<Rightarrow> learning_record list \<Rightarrow> learning_event \<Rightarrow> learning_record
     \<Rightarrow> personality_trait option \<Rightarrow> bool" where
  "admissible es ts rs e r trait \<longleftrightarrow> wf_learning_event e \<and> (\<forall>t. trait = Some t \<longrightarrow> wf_trait t) \<and>
     (case find_candidate (le_learning_id e) es of
       None \<Rightarrow> lr_record_type r = Lr_CANDIDATE_CREATED \<and> le_validation_status e = Ls_PENDING \<and> trait = None
     | Some p \<Rightarrow> candidate_core e = candidate_core p \<and> set (le_root_evidence_ids p) \<subseteq> set (le_root_evidence_ids e) \<and>
         lr_record_type r \<noteq> Lr_CANDIDATE_CREATED \<and>
         (case trait of
            None \<Rightarrow> le_validation_status p \<notin> {Ls_REJECTED, Ls_REVOKED} \<and>
              (\<nexists>t. consolidates rs ts (le_learning_id e) t) \<and> lr_record_type r \<noteq> Lr_CONSOLIDATED
          | Some t \<Rightarrow> (case find_trait (pt_trait_id t) ts of
              None \<Rightarrow> le_validation_status p = Ls_VALIDATED \<and> well_supported e \<and>
                (\<nexists>t. consolidates rs ts (le_learning_id e) t) \<and> lr_record_type r \<in> {Lr_CONSOLIDATED, Lr_GROWTH_PREPARED} \<and>
                (pt_active t \<longleftrightarrow> lr_record_type r = Lr_CONSOLIDATED)
            | Some q \<Rightarrow> trait_core t = trait_core q \<and> consolidates rs ts (le_learning_id e) q \<and>
                (if pt_active t then lr_record_type r = Lr_GROWTH_PREPARED \<and>
                   le_validation_status e = le_validation_status p \<and> le_confidence e = le_confidence p \<and>
                   le_root_evidence_ids e = le_root_evidence_ids p
                 else lr_record_type r = Lr_ROLLED_BACK \<and> le_validation_status e = Ls_REVOKED))))"

text \<open>
  The books: a trait in force is backed by exactly one candidate, which is validated and well
  supported; every step of a candidate has its record, the first of them its creation.
\<close>

definition disciplined :: "learning_event list \<Rightarrow> personality_trait list \<Rightarrow> learning_record list \<Rightarrow> bool" where
  "disciplined es ts rs \<longleftrightarrow>
     (\<forall>j t. consolidates rs ts j t \<longrightarrow> (\<exists>e \<in> set es. le_learning_id e = j \<and> well_supported e)) \<and>
     (\<forall>j t t'. consolidates rs ts j t \<longrightarrow> consolidates rs ts j t' \<longrightarrow> t = t') \<and>
     (\<forall>r \<in> set rs. \<forall>i. lr_record_type r = Lr_CONSOLIDATED \<longrightarrow> lr_trait_id r = Some i \<longrightarrow> i \<in> pt_trait_id ` set ts) \<and>
     (\<forall>t \<in> set ts. pt_active t \<longrightarrow> (\<exists>!j. consolidates rs ts j t)) \<and>
     (\<forall>e \<in> set es. int (length (filter (\<lambda>r. lr_learning_id r = le_learning_id e) rs)) = le_revision e + 1 \<and>
       length (filter (\<lambda>r. lr_learning_id r = le_learning_id e \<and> lr_record_type r = Lr_CANDIDATE_CREATED) rs) = 1)"

text \<open>What the file looks like after the change.\<close>

definition changed_document ::
  "learning_event list \<Rightarrow> personality_trait list \<Rightarrow> learning_record list \<Rightarrow> learning_event \<Rightarrow> learning_record
     \<Rightarrow> personality_trait option \<Rightarrow> learning_event list \<Rightarrow> personality_trait list \<Rightarrow> bool" where
  "changed_document es ts rs e r trait es' ts' \<longleftrightarrow>
     distinct (map le_learning_id es') \<and> distinct (map pt_trait_id ts') \<and>
     (case find_candidate (le_learning_id e) es of
        None \<Rightarrow> le_revision e = 0 \<and> set es' = insert e (set es)
      | Some p \<Rightarrow> le_revision e = le_revision p + 1 \<and> set es' = insert e (set es - {p})) \<and>
     (case trait of None \<Rightarrow> set ts' = set ts
      | Some t \<Rightarrow> (case find_trait (pt_trait_id t) ts of
          None \<Rightarrow> pt_revision t = 0 \<and> set ts' = insert t (set ts)
        | Some q \<Rightarrow> pt_revision t = pt_revision q + 1 \<and> set ts' = insert t (set ts - {q})))"

section \<open>What a save does\<close>

text \<open>The document a save starts from; a subject without a file starts from an empty one.\<close>

definition document_of ::
  "canon_fun \<Rightarrow> digest_fun \<Rightarrow> learning_store \<Rightarrow> string \<Rightarrow> learning_event list \<Rightarrow> personality_trait list
     \<Rightarrow> learning_record list \<Rightarrow> bool" where
  "document_of canon sha st i es ts rs \<longleftrightarrow>
     on_file canon sha st i es ts rs \<or> (\<not> is_file (st (sha i)) \<and> es = [] \<and> ts = [] \<and> rs = [])"

lemma empty_sound: "sound_learning canon sha [] [] []"
  by (simp add: sound_learning_def)

lemma document_of_sound: "document_of canon sha st i es ts rs \<Longrightarrow> sound_learning canon sha es ts rs"
  by (auto simp: document_of_def on_file_def empty_sound)

lemma document_read:
  assumes "document_of canon sha st i es ts rs"
  shows "(if is_file (st (sha i)) then read_learning_document canon sha (st (sha i))
    else Inr (empty_learning_document i)) = Inr (learning_document i es ts rs)"
  using assms read_written by (auto simp: document_of_def on_file_def empty_learning_document_def)

lemma recheck_fields:
  assumes "learning_record_recheck r = Inr q"
  shows "wf_learning_record q" "lr_record_type q = lr_record_type r" "lr_learning_id q = lr_learning_id r"
    "lr_trait_id q = lr_trait_id r"
  using learning_record_init_wf [of "learning_record_args_of r" q] assms
  unfolding learning_record_recheck_def learning_record_init_def learning_record_args_of_def
  by (simp, elim rbindE, auto simp: validator_defs)+

lemma put_candidate_Inr:
  assumes "put_candidate e es = Inr es'" "distinct (map le_learning_id es)"
  shows "distinct (map le_learning_id es') \<and> (case find_candidate (le_learning_id e) es of
    None \<Rightarrow> le_revision e = 0 \<and> set es' = insert e (set es)
  | Some p \<Rightarrow> le_revision e = le_revision p + 1 \<and> set es' = insert e (set es - {p}))"
proof (cases "find_candidate (le_learning_id e) es")
  case None
  then have "le_learning_id e \<notin> le_learning_id ` set es" by (simp add: find_candidate_def find_absent)
  with assms None show ?thesis by (auto simp: put_candidate_def rbind_eq_Inr)
next
  case (Some p)
  then have p: "p \<in> set es" "le_learning_id p = le_learning_id e"
    using assms(2) by (simp_all add: find_candidate_def find_distinct)
  with assms Some replace_first_set [OF assms(2) p] replace_first_map [OF p] show ?thesis
    by (auto simp: put_candidate_def rbind_eq_Inr)
qed

lemma put_trait_Inr:
  assumes "put_trait trait ts = Inr ts'" "distinct (map pt_trait_id ts)"
  shows "distinct (map pt_trait_id ts') \<and> (case trait of None \<Rightarrow> set ts' = set ts
    | Some t \<Rightarrow> (case find_trait (pt_trait_id t) ts of
        None \<Rightarrow> pt_revision t = 0 \<and> set ts' = insert t (set ts)
      | Some q \<Rightarrow> pt_revision t = pt_revision q + 1 \<and> set ts' = insert t (set ts - {q})))"
proof (cases trait)
  case None
  with assms show ?thesis by (simp add: put_trait_def)
next
  case t: (Some t)
  show ?thesis
  proof (cases "find_trait (pt_trait_id t) ts")
    case None
    then have "pt_trait_id t \<notin> pt_trait_id ` set ts" by (simp add: find_trait_def find_absent)
    with assms t None show ?thesis by (auto simp: put_trait_def rbind_eq_Inr)
  next
    case (Some q)
    then have q: "q \<in> set ts" "pt_trait_id q = pt_trait_id t"
      using assms(2) by (simp_all add: find_trait_def find_distinct)
    with assms t Some replace_first_set [OF assms(2) q] replace_first_map [OF q] show ?thesis
      by (auto simp: put_trait_def rbind_eq_Inr)
  qed
qed

lemma same_revision: "py_eq (learning_event_to_dict p) (learning_event_to_dict e) \<Longrightarrow> le_revision p = le_revision e"
  by (simp add: learning_event_to_dict_def)

lemma save_changes:
  assumes "document_of canon sha st i es ts rs" "learning_save canon sha disk i e record trait st = Inr st'" "\<not> blank i"
  obtains "st' = st" "\<exists>p. find_candidate (le_learning_id e) es = Some p \<and> le_revision p = le_revision e"
  | es' ts' r where "st' = st(sha i := File_Doc (PDict (learning_document i es' ts' (rs @ [r]))))"
    "learning_record_recheck record = Inr r" "changed_document es ts rs e r trait es' ts'"
    "check_resolutions canon sha (rs @ [r]) (enumerate 0 (rs @ [r])) [] = Inr ()"
    "set (lr_root_evidence_ids r) = set (le_root_evidence_ids e)" "lr_learning_id r = le_learning_id e"
    "lr_record_id r \<notin> lr_record_id ` set rs" "le_subject_id e = i" "st (sha i) \<noteq> File_Not_A_File"
    "\<forall>t. trait = Some t \<longrightarrow> lr_trait_id r = Some (pt_trait_id t)"
proof -
  note s = document_of_sound [OF assms(1)]
  note d = document_read [OF assms(1)]
  have dec: "rmap learning_event_from_dict (map learning_event_to_dict es) = Inr es"
    "rmap trait_from_dict (map trait_to_dict ts) = Inr ts"
    "rmap learning_record_from_dict (map learning_record_to_dict rs) = Inr rs"
    using s decode_written by (simp_all add: sound_learning_def)
  have p: "learning_path sha i = Inr (sha i)" using assms(3) by (simp add: learning_path_def)
  let ?rest = "\<lambda>r. case List.find (\<lambda>q. lr_record_id q = lr_record_id r) rs of
       Some existing \<Rightarrow> if already_saved e r trait existing es ts then Inr st
         else Inl (LearningAlreadyExistsError, ''learning record already exists: '' @ lr_record_id r)
     | None \<Rightarrow>
         rbind (put_candidate e es) (\<lambda>events.
         rbind (put_trait trait ts) (\<lambda>traits.
         rbind (validate_growth_resolutions canon sha (map learning_record_to_dict (rs @ [r]))) (\<lambda>_.
         write_learning_document disk (sha i) (learning_document i
           (sort_key (\<lambda>e. (le_created_at e, le_learning_id e)) events)
           (sort_key (\<lambda>t. (pt_created_at t, pt_trait_id t)) traits) (rs @ [r])) st)))"
  have "\<exists>r. learning_record_recheck record = Inr r \<and>
      (le_subject_id e = i \<and> lr_subject_id r = i \<and> lr_learning_id r = le_learning_id e) \<and>
      (\<forall>t. trait = Some t \<longrightarrow> pt_subject_id t = i) \<and> (\<forall>t. trait = Some t \<longrightarrow> lr_trait_id r = Some (pt_trait_id t)) \<and>
      set (lr_root_evidence_ids r) = set (le_root_evidence_ids e) \<and> ?rest r = Inr st'"
    using assms(2) unfolding learning_save_def
    by (simp only: p rbind_simps d document_fields list_of.simps dec ensure_eq_Inr rbind_eq_Inr simp_thms ex_simps)
  then obtain r where r: "learning_record_recheck record = Inr r"
    and own: "le_subject_id e = i" "lr_learning_id r = le_learning_id e"
    and t: "\<forall>t. trait = Some t \<longrightarrow> lr_trait_id r = Some (pt_trait_id t)"
    and roots: "set (lr_root_evidence_ids r) = set (le_root_evidence_ids e)"
    and rest: "?rest r = Inr st'"
    by blast
  show thesis
  proof (cases "List.find (\<lambda>q. lr_record_id q = lr_record_id r) rs")
    case (Some q)
    with rest have again: "already_saved e r trait q es ts" "st' = st" by (auto split: if_splits)
    then obtain p where "find_candidate (le_learning_id e) es = Some p"
      "py_eq (learning_event_to_dict p) (learning_event_to_dict e)"
      by (auto simp: already_saved_def)
    with same_revision that(1) again(2) show thesis by blast
  next
    case None
    then have fresh: "lr_record_id r \<notin> lr_record_id ` set rs" by (simp add: find_absent)
    from rest [unfolded None option.case] obtain es1 ts1 where put: "put_candidate e es = Inr es1" "put_trait trait ts = Inr ts1"
      and v: "validate_growth_resolutions canon sha (map learning_record_to_dict (rs @ [r])) = Inr ()"
      and w: "write_learning_document disk (sha i) (learning_document i
           (sort_key (\<lambda>e. (le_created_at e, le_learning_id e)) es1)
           (sort_key (\<lambda>t. (pt_created_at t, pt_trait_id t)) ts1) (rs @ [r])) st = Inr st'"
      by (auto simp: rbind_eq_Inr)
    have "\<forall>q \<in> set (rs @ [r]). wf_learning_record q"
      using s recheck_fields(1) [OF r] by (auto simp: sound_learning_def)
    from decode_written(3) [OF this] v
    have res: "check_resolutions canon sha (rs @ [r]) (enumerate 0 (rs @ [r])) [] = Inr ()"
      by (simp add: validate_growth_resolutions_def)
    have ch: "changed_document es ts rs e r trait (sort_key (\<lambda>e. (le_created_at e, le_learning_id e)) es1)
        (sort_key (\<lambda>t. (pt_created_at t, pt_trait_id t)) ts1)"
      unfolding changed_document_def distinct_map_sort set_sort
      using put_candidate_Inr [OF put(1)] put_trait_Inr [OF put(2)] s unfolding sound_learning_def by blast
    from w show thesis
      using that(2) [OF _ r ch res roots own(2) fresh own(1) _ t]
      by (simp add: write_learning_document_def split: if_splits)
  qed
qed

section \<open>Admissible changes keep the books\<close>

lemma sound_ids:
  assumes "sound_learning canon sha es ts rs"
  shows "\<And>r. r \<in> set rs \<Longrightarrow> lr_learning_id r \<in> le_learning_id ` set es"
    "\<And>j e. find_candidate j es = Some e \<longleftrightarrow> e \<in> set es \<and> le_learning_id e = j"
    "\<And>j. find_candidate j es = None \<longleftrightarrow> j \<notin> le_learning_id ` set es"
    "\<And>j t. find_trait j ts = Some t \<longleftrightarrow> t \<in> set ts \<and> pt_trait_id t = j"
    "\<And>j. find_trait j ts = None \<longleftrightarrow> j \<notin> pt_trait_id ` set ts"
    "\<And>e e'. e \<in> set es \<Longrightarrow> e' \<in> set es \<Longrightarrow> le_learning_id e = le_learning_id e' \<Longrightarrow> e = e'"
    "\<And>t t'. t \<in> set ts \<Longrightarrow> t' \<in> set ts \<Longrightarrow> pt_trait_id t = pt_trait_id t' \<Longrightarrow> t = t'"
proof -
  show "\<And>r. r \<in> set rs \<Longrightarrow> lr_learning_id r \<in> le_learning_id ` set es"
    using assms unfolding sound_learning_def by (metis imageI)
  have d: "distinct (map le_learning_id es)" "distinct (map pt_trait_id ts)"
    using assms by (simp_all add: sound_learning_def)
  show "\<And>j e. find_candidate j es = Some e \<longleftrightarrow> e \<in> set es \<and> le_learning_id e = j"
    "\<And>j. find_candidate j es = None \<longleftrightarrow> j \<notin> le_learning_id ` set es"
    "\<And>j t. find_trait j ts = Some t \<longleftrightarrow> t \<in> set ts \<and> pt_trait_id t = j"
    "\<And>j. find_trait j ts = None \<longleftrightarrow> j \<notin> pt_trait_id ` set ts"
    using d by (simp_all add: find_candidate_def find_trait_def find_distinct find_absent)
  show "\<And>e e'. e \<in> set es \<Longrightarrow> e' \<in> set es \<Longrightarrow> le_learning_id e = le_learning_id e' \<Longrightarrow> e = e'"
    "\<And>t t'. t \<in> set ts \<Longrightarrow> t' \<in> set ts \<Longrightarrow> pt_trait_id t = pt_trait_id t' \<Longrightarrow> t = t'"
    using d by (auto simp: distinct_map dest: inj_onD)
qed

text \<open>The four kinds of change, with what each of them means for the sets of the document.\<close>

lemma change_cases [consumes 3, case_names created revised granted withdrawn]:
  assumes "sound_learning canon sha es ts rs" "admissible es ts rs e r trait" "changed_document es ts rs e r trait es' ts'"
  obtains
    "le_learning_id e \<notin> le_learning_id ` set es" "le_revision e = 0" "set es' = insert e (set es)" "trait = None"
      "set ts' = set ts" "lr_record_type r = Lr_CANDIDATE_CREATED"
  | p where "p \<in> set es" "candidate_core e = candidate_core p" "le_revision e = le_revision p + 1"
      "set es' = insert e (set es - {p})" "set (le_root_evidence_ids p) \<subseteq> set (le_root_evidence_ids e)"
      "trait = None" "set ts' = set ts" "le_validation_status p \<notin> {Ls_REJECTED, Ls_REVOKED}"
      "\<nexists>t. consolidates rs ts (le_learning_id e) t" "lr_record_type r \<notin> {Lr_CONSOLIDATED, Lr_CANDIDATE_CREATED}"
  | p t where "p \<in> set es" "candidate_core e = candidate_core p" "le_revision e = le_revision p + 1"
      "set es' = insert e (set es - {p})" "set (le_root_evidence_ids p) \<subseteq> set (le_root_evidence_ids e)"
      "trait = Some t" "set ts' = insert t (set ts)" "pt_trait_id t \<notin> pt_trait_id ` set ts"
      "le_validation_status p = Ls_VALIDATED" "well_supported e" "\<nexists>t. consolidates rs ts (le_learning_id e) t"
      "lr_record_type r \<in> {Lr_CONSOLIDATED, Lr_GROWTH_PREPARED}" "pt_active t \<longleftrightarrow> lr_record_type r = Lr_CONSOLIDATED"
  | p t q where "p \<in> set es" "candidate_core e = candidate_core p" "le_revision e = le_revision p + 1"
      "set es' = insert e (set es - {p})" "set (le_root_evidence_ids p) \<subseteq> set (le_root_evidence_ids e)"
      "trait = Some t" "q \<in> set ts" "set ts' = insert t (set ts - {q})" "trait_core t = trait_core q"
      "consolidates rs ts (le_learning_id e) q" "lr_record_type r \<in> {Lr_ROLLED_BACK, Lr_GROWTH_PREPARED}"
      "pt_active t \<Longrightarrow> le_validation_status e = le_validation_status p \<and> le_confidence e = le_confidence p \<and>
        le_root_evidence_ids e = le_root_evidence_ids p"
      "\<not> pt_active t \<Longrightarrow> le_validation_status e = Ls_REVOKED"
proof -
  note ids = sound_ids [OF assms(1)]
  show thesis
  proof (cases "find_candidate (le_learning_id e) es")
    case None
    with assms(2,3) ids(3) show thesis by (intro that(1)) (auto simp: admissible_def changed_document_def)
  next
    case (Some p)
    with ids(2) have p: "p \<in> set es" by blast
    from Some assms(2,3) have c: "candidate_core e = candidate_core p" "le_revision e = le_revision p + 1"
      "set es' = insert e (set es - {p})" "set (le_root_evidence_ids p) \<subseteq> set (le_root_evidence_ids e)"
      "lr_record_type r \<noteq> Lr_CANDIDATE_CREATED"
      by (simp_all add: admissible_def changed_document_def)
    show thesis
    proof (cases trait)
      case None
      with Some assms(2,3) show thesis
        by (intro that(2) [OF p c(1-4) None]) (simp_all add: admissible_def changed_document_def)
    next
      case t: (Some t)
      show thesis
      proof (cases "find_trait (pt_trait_id t) ts")
        case None
        with ids(5) have "pt_trait_id t \<notin> pt_trait_id ` set ts" by blast
        with Some t None assms(2,3) show thesis
          by (intro that(3) [OF p c(1-4) t]) (simp_all add: admissible_def changed_document_def)
      next
        case q: (Some q)
        with ids(4) have "q \<in> set ts" by blast
        with Some t q assms(2,3) show thesis
          by (intro that(4) [OF p c(1-4) t]) (auto simp: admissible_def changed_document_def split: if_splits)
      qed
    qed
  qed
qed

lemma candidate_core_id: "candidate_core e = candidate_core p \<Longrightarrow> le_learning_id e = le_learning_id p \<and> le_subject_id e = le_subject_id p"
  by (simp add: candidate_core_def)

lemma trait_core_id: "trait_core t = trait_core q \<Longrightarrow> pt_trait_id t = pt_trait_id q"
  by (simp add: trait_core_def)

lemma changed_sound:
  assumes s: "sound_learning canon sha es ts rs" and a: "admissible es ts rs e r trait"
    and c: "changed_document es ts rs e r trait es' ts'" and w: "wf_learning_record r"
    and res: "check_resolutions canon sha (rs @ [r]) (enumerate 0 (rs @ [r])) [] = Inr ()"
    and roots: "set (lr_root_evidence_ids r) = set (le_root_evidence_ids e)" and id: "lr_learning_id r = le_learning_id e"
  shows "sound_learning canon sha es' ts' (rs @ [r])"
proof -
  have d: "distinct (map le_learning_id es')" "distinct (map pt_trait_id ts')"
    using c by (simp_all add: changed_document_def)
  have we: "wf_learning_event e" "\<And>t. trait = Some t \<Longrightarrow> wf_trait t" using a by (simp_all add: admissible_def)
  from s a c have sub: "set es' \<subseteq> insert e (set es)" "set ts' \<subseteq> set ts \<union> set_option trait" "e \<in> set es'"
    by (cases rule: change_cases; auto)+
  have covered: "\<exists>y \<in> set es'. le_learning_id y = lr_learning_id q \<and> set (lr_root_evidence_ids q) \<subseteq> set (le_root_evidence_ids y)"
    if "q \<in> set rs" for q
  proof -
    have "\<forall>r \<in> set rs. \<exists>e \<in> set es. le_learning_id e = lr_learning_id r \<and>
        set (lr_root_evidence_ids r) \<subseteq> set (le_root_evidence_ids e)"
      using s unfolding sound_learning_def by (elim conjE)
    from bspec [OF this that] obtain x
      where x: "x \<in> set es" "le_learning_id x = lr_learning_id q" "set (lr_root_evidence_ids q) \<subseteq> set (le_root_evidence_ids x)"
      by (elim bexE conjE)
    from s a c have "set es' = insert e (set es) \<or> (\<exists>p \<in> set es. le_learning_id e = le_learning_id p \<and>
        set es' = insert e (set es - {p}) \<and> set (le_root_evidence_ids p) \<subseteq> set (le_root_evidence_ids e))"
      by (cases rule: change_cases) (auto dest!: candidate_core_id)
    with x show ?thesis by fastforce
  qed
  show ?thesis
    unfolding sound_learning_def
    using s d we sub covered w res roots id by (auto simp: sound_learning_def)
qed

lemma consolidates_snoc:
  "consolidates (rs @ [r]) ts j t \<longleftrightarrow> consolidates rs ts j t \<or> (t \<in> set ts \<and> pt_active t \<and>
     lr_record_type r = Lr_CONSOLIDATED \<and> lr_learning_id r = j \<and> lr_trait_id r = Some (pt_trait_id t))"
  by (auto simp: consolidates_def)

lemma disciplinedD:
  assumes "disciplined es ts rs"
  shows "consolidates rs ts j t \<Longrightarrow> \<exists>e \<in> set es. le_learning_id e = j \<and> well_supported e"
    "consolidates rs ts j t \<Longrightarrow> consolidates rs ts j t' \<Longrightarrow> t = t'"
    "r \<in> set rs \<Longrightarrow> lr_record_type r = Lr_CONSOLIDATED \<Longrightarrow> lr_trait_id r = Some i \<Longrightarrow> i \<in> pt_trait_id ` set ts"
    "e \<in> set es \<Longrightarrow> int (length (filter (\<lambda>r. lr_learning_id r = le_learning_id e) rs)) = le_revision e + 1"
    "e \<in> set es \<Longrightarrow> length (filter (\<lambda>r. lr_learning_id r = le_learning_id e \<and> lr_record_type r = Lr_CANDIDATE_CREATED) rs) = 1"
    "t \<in> set ts \<Longrightarrow> pt_active t \<Longrightarrow> \<exists>!j. consolidates rs ts j t"
  using assms unfolding disciplined_def by blast+

text \<open>The candidates behind a trait in force depend on its identity only.\<close>

lemma consolidates_id:
  "t \<in> set ts \<Longrightarrow> pt_active t \<Longrightarrow> consolidates rs ts j t \<longleftrightarrow>
     (\<exists>r \<in> set rs. lr_record_type r = Lr_CONSOLIDATED \<and> lr_learning_id r = j \<and> lr_trait_id r = Some (pt_trait_id t))"
  by (simp add: consolidates_def)

lemma change_backed:
  assumes s: "sound_learning canon sha es ts rs" and d: "disciplined es ts rs" and a: "admissible es ts rs e r trait"
    and c: "changed_document es ts rs e r trait es' ts'"
    and t: "\<forall>t. trait = Some t \<longrightarrow> lr_trait_id r = Some (pt_trait_id t)"
    and u: "u \<in> set ts'" "pt_active u"
  shows "\<exists>!j. consolidates (rs @ [r]) ts' j u"
proof -
  have kept: ?thesis if "v \<in> set ts" "pt_active v" "pt_trait_id v = pt_trait_id u"
    "lr_record_type r \<noteq> Lr_CONSOLIDATED \<or> lr_trait_id r \<noteq> Some (pt_trait_id u)" for v
    using disciplinedD(6) [OF d that(1,2)] that(3,4)
    by (simp add: consolidates_id [OF that(1,2)] consolidates_id [OF u] disj_imp)
  from s a c show ?thesis
  proof (cases rule: change_cases)
    case created
    with u show ?thesis by (intro kept [of u]) auto
  next
    case (revised p)
    with u show ?thesis by (intro kept [of u]) auto
  next
    case (granted p v)
    have id: "lr_trait_id r = Some (pt_trait_id v)" using t granted by simp
    show ?thesis
    proof (cases "u = v")
      case True
      have "\<not> (\<exists>q \<in> set rs. lr_record_type q = Lr_CONSOLIDATED \<and> lr_trait_id q = Some (pt_trait_id v))"
        using disciplinedD(3) [OF d] granted(8) by blast
      with True u granted(13) id show ?thesis unfolding consolidates_id [OF u] by auto
    next
      case False
      with granted(7) u have "u \<in> set ts" by auto
      moreover from this granted(8) id have "lr_trait_id r \<noteq> Some (pt_trait_id u)" by (metis imageI option.inject)
      ultimately show ?thesis using u by (intro kept [of u]) auto
    qed
  next
    case (withdrawn p v q)
    have type: "lr_record_type r \<noteq> Lr_CONSOLIDATED" using withdrawn(11) by auto
    have q: "pt_active q" "pt_trait_id v = pt_trait_id q"
      using withdrawn(10) trait_core_id [OF withdrawn(9)] by (simp_all add: consolidates_def)
    show ?thesis
    proof (cases "u = v")
      case True
      with withdrawn(7) q type show ?thesis by (intro kept [of q]) auto
    next
      case False
      with withdrawn(8) u type show ?thesis by (intro kept [of u]) auto
    qed
  qed
qed

text \<open>The traits in force after the change are those before it, and the one it grants.\<close>

lemma change_consolidates:
  assumes s: "sound_learning canon sha es ts rs" and d: "disciplined es ts rs" and a: "admissible es ts rs e r trait"
    and c: "changed_document es ts rs e r trait es' ts'" and id: "lr_learning_id r = le_learning_id e"
    and t: "\<forall>t. trait = Some t \<longrightarrow> lr_trait_id r = Some (pt_trait_id t)"
    and new: "consolidates (rs @ [r]) ts' j u"
  shows "(\<exists>u'. consolidates rs ts j u' \<and> pt_trait_id u' = pt_trait_id u \<and>
      (j = le_learning_id e \<longrightarrow> (\<exists>p \<in> set es. le_learning_id p = j \<and> le_validation_status e = le_validation_status p \<and>
        le_confidence e = le_confidence p \<and> le_root_evidence_ids e = le_root_evidence_ids p))) \<or>
    (j = le_learning_id e \<and> well_supported e \<and> trait = Some u \<and> (\<nexists>v. consolidates rs ts j v))"
  using s a c
proof (cases rule: change_cases)
  case created
  from new created have old: "consolidates rs ts j u" by (auto simp: consolidates_def)
  then have "j \<in> le_learning_id ` set es" using sound_ids(1) [OF s] by (auto simp: consolidates_def)
  with old created show ?thesis by auto
next
  case (revised p)
  from new revised have "consolidates rs ts j u" by (auto simp: consolidates_def)
  with revised show ?thesis by auto
next
  case (granted p v)
  have "lr_trait_id r = Some (pt_trait_id v)" using t granted by simp
  show ?thesis
  proof (cases "u = v")
    case True
    have "\<not> (\<exists>q \<in> set rs. lr_record_type q = Lr_CONSOLIDATED \<and> lr_trait_id q = Some (pt_trait_id v))"
      using disciplinedD(3) [OF d] granted(8) by blast
    with new True have "lr_learning_id r = j" by (auto simp: consolidates_def)
    with True granted id show ?thesis by auto
  next
    case False
    with granted new have u: "u \<in> set ts" by (auto simp: consolidates_def)
    with granted(8) have "pt_trait_id u \<noteq> pt_trait_id v" by (metis imageI)
    with u new \<open>lr_trait_id r = Some (pt_trait_id v)\<close> have "consolidates rs ts j u" by (auto simp: consolidates_def)
    with granted show ?thesis by auto
  qed
next
  case (withdrawn p v q)
  have tid: "pt_trait_id v = pt_trait_id q" by (rule trait_core_id [OF withdrawn(9)])
  have type: "lr_record_type r \<noteq> Lr_CONSOLIDATED" using withdrawn(11) by auto
  have pid: "le_learning_id e = le_learning_id p" using candidate_core_id [OF withdrawn(2)] by simp
  show ?thesis
  proof (cases "u = v")
    case True
    with new type tid withdrawn(7,10) have "consolidates rs ts j q" "pt_active v" by (auto simp: consolidates_def)
    with True tid withdrawn(1,12) pid show ?thesis by auto
  next
    case False
    with new type withdrawn(8) have u: "consolidates rs ts j u" "u \<noteq> q" by (auto simp: consolidates_def)
    then have "j \<noteq> le_learning_id e" using disciplinedD(2) [OF d] withdrawn(10) by auto
    with u show ?thesis by auto
  qed
qed

lemma changed_disciplined:
  assumes s: "sound_learning canon sha es ts rs" and d: "disciplined es ts rs" and a: "admissible es ts rs e r trait"
    and c: "changed_document es ts rs e r trait es' ts'" and id: "lr_learning_id r = le_learning_id e"
    and t: "\<forall>t. trait = Some t \<longrightarrow> lr_trait_id r = Some (pt_trait_id t)"
  shows "disciplined es' ts' (rs @ [r])"
proof -
  note new = change_consolidates [OF s d a c id t]
  have e: "e \<in> set es'" "\<And>x. x \<in> set es \<Longrightarrow> le_learning_id x \<noteq> le_learning_id e \<Longrightarrow> x \<in> set es'"
    "\<And>x. x \<in> set es' \<Longrightarrow> x \<noteq> e \<Longrightarrow> x \<in> set es \<and> le_learning_id x \<noteq> le_learning_id e"
    "pt_trait_id ` set ts' = pt_trait_id ` (set ts \<union> set_option trait)"
    using s a c
    by (cases rule: change_cases; auto dest!: candidate_core_id trait_core_id dest: sound_ids(6) [OF s] intro: rev_image_eqI)+
  have distinct: "distinct (map pt_trait_id ts')" using c by (simp add: changed_document_def)
  have 1: "\<exists>x \<in> set es'. le_learning_id x = j \<and> well_supported x" if "consolidates (rs @ [r]) ts' j u" for j u
  proof -
    from new [OF that] show ?thesis
    proof (elim disjE exE conjE)
      fix u' assume u': "consolidates rs ts j u'"
        and p: "j = le_learning_id e \<longrightarrow> (\<exists>p \<in> set es. le_learning_id p = j \<and> le_validation_status e = le_validation_status p \<and>
          le_confidence e = le_confidence p \<and> le_root_evidence_ids e = le_root_evidence_ids p)"
      from disciplinedD(1) [OF d u'] obtain x where x: "x \<in> set es" "le_learning_id x = j" "well_supported x" by blast
      show ?thesis
      proof (cases "j = le_learning_id e")
        case True
        with p x sound_ids(6) [OF s] have "well_supported e" by (metis well_supported_def)
        with True e(1) show ?thesis by blast
      next
        case False
        with x e(2) show ?thesis by blast
      qed
    qed (use e(1) in blast)
  qed
  have 2: "u = v" if u: "consolidates (rs @ [r]) ts' j u" and v: "consolidates (rs @ [r]) ts' j v" for j u v
  proof -
    have "pt_trait_id u = pt_trait_id v"
      using new [OF u] new [OF v] disciplinedD(2) [OF d] by (elim disjE exE conjE) (metis option.inject)+
    moreover have "u \<in> set ts'" "v \<in> set ts'" using u v by (auto simp: consolidates_def)
    ultimately show ?thesis using distinct by (auto simp: distinct_map dest: inj_onD)
  qed
  have 3: "i \<in> pt_trait_id ` set ts'"
    if "q \<in> set (rs @ [r])" "lr_record_type q = Lr_CONSOLIDATED" "lr_trait_id q = Some i" for q i
  proof (cases "q \<in> set rs")
    case True
    with disciplinedD(3) [OF d] that e(4) show ?thesis by auto
  next
    case False
    with that have q: "q = r" by simp
    from s a c show ?thesis
      by (cases rule: change_cases) (use q that t e(4) in auto)
  qed
  have 4: "int (length (filter (\<lambda>r. lr_learning_id r = le_learning_id x) (rs @ [r]))) = le_revision x + 1 \<and>
      length (filter (\<lambda>r. lr_learning_id r = le_learning_id x \<and> lr_record_type r = Lr_CANDIDATE_CREATED) (rs @ [r])) = 1"
    if x: "x \<in> set es'" for x
  proof (cases "x = e")
    case False
    with e(3) [OF x] disciplinedD(4,5) [OF d] id show ?thesis by auto
  next
    case True
    from s a c show ?thesis
    proof (cases rule: change_cases)
      case created
      then have "\<And>q. q \<in> set rs \<Longrightarrow> lr_learning_id q \<noteq> le_learning_id e" using sound_ids(1) [OF s] by metis
      then have "filter (\<lambda>r. lr_learning_id r = le_learning_id e) rs = []"
        "filter (\<lambda>r. lr_learning_id r = le_learning_id e \<and> lr_record_type r = Lr_CANDIDATE_CREATED) rs = []"
        by (simp_all add: filter_empty_conv)
      with True created id show ?thesis by simp
    qed (use True id disciplinedD(4,5) [OF d] in \<open>auto dest!: candidate_core_id\<close>)
  qed
  show ?thesis unfolding disciplined_def using 1 2 3 4 change_backed [OF s d a c t] by blast
qed

end
