(* ===== verification/Learning_Steps.thy ===== *)
theory Learning_Steps
  imports Learning_Runs
begin

text \<open>
  Every operation of the learning service leaves the store alone or makes one admissible change;
  so it leads to a later store whose documents are in order, and so does every run.
\<close>

section \<open>Good stores\<close>

definition good_file :: "canon_fun \<Rightarrow> digest_fun \<Rightarrow> file_state \<Rightarrow> bool" where
  "good_file canon sha f \<longleftrightarrow> \<not> is_file f \<or> (\<exists>i es ts rs.
     f = File_Doc (PDict (learning_document i es ts rs)) \<and> sound_learning canon sha es ts rs \<and> disciplined es ts rs)"

definition good_store :: "canon_fun \<Rightarrow> digest_fun \<Rightarrow> learning_store \<Rightarrow> bool" where
  "good_store canon sha st \<longleftrightarrow> (\<forall>path. good_file canon sha (st path))"

lemma empty_disciplined: "disciplined [] [] []"
  by (simp add: disciplined_def consolidates_def)

lemma good_document:
  assumes "good_store canon sha st" "is_file (st (sha i))" "read_learning_document canon sha (st (sha i)) = Inr data"
    "dict_get data ''subject_id'' = PStr i"
  obtains es ts rs where "on_file canon sha st i es ts rs" "disciplined es ts rs"
proof -
  from assms(1,2) obtain j es ts rs where d: "st (sha i) = File_Doc (PDict (learning_document j es ts rs))"
    "sound_learning canon sha es ts rs" "disciplined es ts rs"
    unfolding good_store_def good_file_def by blast
  with assms(3) read_written [OF d(2)] have "data = learning_document j es ts rs" by simp
  with assms(4) have "j = i" by simp
  with d that show thesis by (simp add: on_file_def)
qed

lemma loaded:
  assumes "good_store canon sha st" "load_learning_event canon sha i j st = Inr e"
  obtains es ts rs where "on_file canon sha st i es ts rs" "disciplined es ts rs" "\<not> blank i"
    "find_candidate j es = Some e"
proof -
  from assms(2) obtain data where b: "\<not> blank i" "is_file (st (sha i))"
    "read_learning_document canon sha (st (sha i)) = Inr data" "dict_get data ''subject_id'' = PStr i"
    by (auto simp: load_learning_event_def load_learning_subject_def learning_path_def rbind_eq_Inr
        validate_learning_subject_def split: if_splits)
  from good_document [OF assms(1) b(2-4)] obtain es ts rs where d: "on_file canon sha st i es ts rs" "disciplined es ts rs" .
  from assms(2) load_event_run [OF d(1) b(1), of j] have "find_candidate j es = Some e" by (auto split: option.splits)
  with d b(1) that show thesis by blast
qed

lemma saved_document:
  assumes "good_store canon sha st" "learning_save canon sha disk i e r trait st = Inr st'"
  obtains es ts rs where "document_of canon sha st i es ts rs" "disciplined es ts rs" "\<not> blank i"
proof -
  from assms(2) obtain data where b: "\<not> blank i" "(if is_file (st (sha i)) then read_learning_document canon sha (st (sha i))
      else Inr (empty_learning_document i)) = Inr data" "dict_get data ''subject_id'' = PStr i"
    unfolding learning_save_def learning_path_def by (elim rbindE) (simp split: if_splits)
  show thesis
  proof (cases "is_file (st (sha i))")
    case True
    with b(2) have "read_learning_document canon sha (st (sha i)) = Inr data" by simp
    from good_document [OF assms(1) True this b(3)] that b(1) show thesis by (auto simp: document_of_def)
  next
    case False
    with that [of "[]" "[]" "[]"] b(1) empty_disciplined show thesis by (simp add: document_of_def)
  qed
qed

section \<open>Moves\<close>

definition learning_move :: "canon_fun \<Rightarrow> digest_fun \<Rightarrow> string \<Rightarrow> learning_store \<Rightarrow> learning_store \<Rightarrow> bool" where
  "learning_move canon sha i st st' \<longleftrightarrow> st' = st \<or> (\<exists>es ts rs e r trait disk. document_of canon sha st i es ts rs \<and>
     disciplined es ts rs \<and> \<not> blank i \<and> learning_save canon sha disk i e r trait st = Inr st' \<and>
     admissible es ts rs e r trait)"

lemma learning_move_refl: "learning_move canon sha i st st"
  by (simp add: learning_move_def)

text \<open>Reading and computing first, then one save: the rules to walk through an operation.\<close>

lemma walk_read: "P s \<Longrightarrow> (\<And>x. g s = Inr x \<Longrightarrow> P (fst (f x s))) \<Longrightarrow> P (fst (sbind (sread g) f s))"
  by (cases "g s") (simp_all add: sbind_def sread_def)

lemma walk_lift: "P s \<Longrightarrow> (\<And>x. v = Inr x \<Longrightarrow> P (fst (f x s))) \<Longrightarrow> P (fst (sbind (slift v) f s))"
  by (cases v) (simp_all add: sbind_def slift_def)

lemma walk_save:
  "P s \<Longrightarrow> (\<And>s'. learning_save (lp_canon lp) (lp_sha lp) (lp_disk_ok lp) i e r t s = Inr s' \<Longrightarrow> P s') \<Longrightarrow>
    P (fst (sbind (lp_save lp i e r t) (\<lambda>_. sret y) s))"
  by (cases "learning_save (lp_canon lp) (lp_sha lp) (lp_disk_ok lp) i e r t s")
    (simp_all add: sbind_def lp_save_def swrite_def sret_def)

lemmas walk = walk_read walk_lift walk_save

section \<open>What the checks establish\<close>

lemma active_run:
  assumes "on_file (lp_canon lp) (lp_sha lp) st i es ts rs" "\<not> blank i" "has_active_consolidation lp i j st = Inr b"
  shows "b \<longleftrightarrow> (\<exists>t. consolidates rs ts j t)"
  using assms(3) history_run [OF assms(1,2), of j] list_traits_run [OF assms(1,2), of False]
  by (auto simp: has_active_consolidation_def consolidates_def split: if_splits)

lemma mutable_run:
  assumes "on_file (lp_canon lp) (lp_sha lp) st i es ts rs" "\<not> blank i" "require_mutable_candidate lp i p st = Inr u"
  shows "le_validation_status p \<notin> {Ls_REJECTED, Ls_REVOKED} \<and> (\<nexists>t. consolidates rs ts (le_learning_id p) t)"
  using assms(3) active_run [OF assms(1,2)] by (auto simp: require_mutable_candidate_def rbind_eq_Inr)

lemma learning_texts_str: "learning_texts (str_list ss) n = Inr xs \<Longrightarrow> xs = fromkeys ss"
proof -
  assume a: "learning_texts (str_list ss) n = Inr xs"
  let ?e = "learning_invalid (n @ '' must be a list of non-empty strings'')"
  have "rmap (\<lambda>x. case x of PStr s \<Rightarrow> if blank s then Inl ?e else Inr s | _ \<Rightarrow> Inl ?e) (map PStr ss) = Inr ys \<Longrightarrow> ys = ss" for ys
    by (induction ss arbitrary: ys) (auto simp: rbind_eq_Inr split: if_splits)
  with a show ?thesis by (auto simp: learning_texts_def Let_def rbind_eq_Inr)
qed

lemma learning_event_init_fields:
  assumes "learning_event_init a = Inr e"
  shows "(\<exists>n. learning_text (lea_learning_id a) n = Inr (le_learning_id e)) \<and>
    (\<exists>n. learning_text (lea_subject_id a) n = Inr (le_subject_id e)) \<and>
    (\<exists>n. learning_text_optional (lea_source_event_id a) n = Inr (le_source_event_id e)) \<and>
    (\<exists>n. learning_text_optional (lea_source_memory_id a) n = Inr (le_source_memory_id e)) \<and>
    (\<exists>x. learning_natural (lea_related_state_revision a) 0 x = Inr (le_related_state_revision e)) \<and>
    (\<exists>n. learning_text (lea_observation a) n = Inr (le_observation e)) \<and>
    (\<exists>n. learning_text (lea_hypothesis a) n = Inr (le_hypothesis e)) \<and>
    (le_proposed_change e = lea_proposed_change a) \<and>
    (\<exists>n. learning_confidence (lea_confidence a) n = Inr (le_confidence e)) \<and>
    (\<exists>x. learning_status_of x (lea_validation_status a) = Inr (le_validation_status e)) \<and>
    (\<exists>x. require_aware x (lea_created_at a) = Inr (le_created_at e)) \<and>
    (\<exists>x. learning_natural (lea_revision a) 0 x = Inr (le_revision e)) \<and>
    (\<exists>n. learning_texts (lea_evidence_learning_ids a) n = Inr (le_evidence_learning_ids e)) \<and>
    (\<exists>n roots. learning_texts (lea_root_evidence_ids a) n = Inr roots \<and> (roots \<noteq> [] \<longrightarrow> le_root_evidence_ids e = roots))"
  using assms unfolding learning_event_init_def Let_def
  by (elim rbindE) (simp only: sum.inject, hypsubst, simp only: learning_event.select_convs, intro conjI exI, (assumption | simp)+)

lemma plain_values:
  "learning_text (PStr s) n = Inr t \<longleftrightarrow> \<not> blank s \<and> t = s"
  "learning_text_optional (opt_val PStr x) n = Inr y \<longleftrightarrow> (\<forall>s. x = Some s \<longrightarrow> \<not> blank s) \<and> y = x"
  "learning_natural (PInt k) l e = Inr m \<Longrightarrow> m = k" "learning_confidence (PFloat q) n = Inr q' \<Longrightarrow> q' = q"
  by (cases x; cases y; auto simp: learning_text_Inr learning_text_optional_Inr learning_natural_def
      learning_confidence_def split: if_splits)+

lemma candidate_recheck:
  assumes "learning_event_recheck e = Inr e'"
  shows "candidate_core e' = candidate_core e" "le_validation_status e' = le_validation_status e"
    "le_revision e' = le_revision e" "le_confidence e' = le_confidence e"
    "le_root_evidence_ids e \<noteq> [] \<Longrightarrow> distinct (le_root_evidence_ids e) \<Longrightarrow> le_root_evidence_ids e' = le_root_evidence_ids e"
    "distinct (le_evidence_learning_ids e) \<Longrightarrow> le_evidence_learning_ids e' = le_evidence_learning_ids e"
    "wf_mutation (le_proposed_change e) \<Longrightarrow> wf_learning_event e'"
proof -
  from assms have i: "learning_event_init (learning_args_of e) = Inr e'" by (simp add: learning_event_recheck_def)
  from learning_event_init_wf [OF i]
  show "wf_mutation (le_proposed_change e) \<Longrightarrow> wf_learning_event e'" by (simp add: learning_args_of_def)
  note f = learning_event_init_fields [OF i, unfolded learning_args_of_def learning_event_args.select_convs]
  from f show "candidate_core e' = candidate_core e"
    by (elim conjE exE) (simp add: candidate_core_def plain_values(1,2) plain_values(3) [of "le_related_state_revision e"])
  from f show "le_validation_status e' = le_validation_status e" by (elim conjE exE) simp
  from f show "le_revision e' = le_revision e" by (elim conjE exE) (erule plain_values(3))
  from f show "le_confidence e' = le_confidence e" by (elim conjE exE) (erule plain_values(4))
  from f show "distinct (le_evidence_learning_ids e) \<Longrightarrow> le_evidence_learning_ids e' = le_evidence_learning_ids e"
    by (elim conjE exE) (drule learning_texts_str, simp add: fromkeys_id)
  from f show "le_root_evidence_ids e \<noteq> [] \<Longrightarrow> distinct (le_root_evidence_ids e) \<Longrightarrow> le_root_evidence_ids e' = le_root_evidence_ids e"
    by (elim conjE exE) ((drule learning_texts_str)+, simp add: fromkeys_id)
qed

lemma record_for_type:
  assumes "record_for lp e type status perm before after reason source trait event st = Inr r"
  shows "lr_record_type r = type"
  using assms unfolding record_for_def learning_record_init_def by (elim rbindE) auto

lemma found_facts:
  assumes "on_file canon sha st i es ts rs" "find_candidate j es = Some e"
  shows "e \<in> set es" "le_learning_id e = j" "wf_learning_event e" "wf_mutation (le_proposed_change e)"
    "le_root_evidence_ids e \<noteq> []" "distinct (le_root_evidence_ids e)"
proof -
  have s: "sound_learning canon sha es ts rs" using assms(1) by (simp add: on_file_def)
  show e: "e \<in> set es" "le_learning_id e = j" using sound_ids(2) [OF s] assms(2) by blast+
  then show "wf_learning_event e" using s by (simp add: sound_learning_def)
  then show "wf_mutation (le_proposed_change e)" "le_root_evidence_ids e \<noteq> []" "distinct (le_root_evidence_ids e)"
    by (simp_all add: wf_learning_event_def)
qed

section \<open>Every operation moves\<close>

lemma candidate_admissible:
  assumes good: "good_store (lp_canon lp) (lp_sha lp) st" and load: "lp_load lp i j st = Inr p"
    and free: "require_mutable_candidate lp i p st = Inr u" and again: "learning_event_recheck q = Inr e"
    and core: "candidate_core q = candidate_core p" and roots: "set (le_root_evidence_ids p) \<subseteq> set (le_root_evidence_ids q)"
      "distinct (le_root_evidence_ids q)"
    and made: "record_for lp e type status perm before after reason source None None st = Inr r"
      "type \<notin> {Lr_CANDIDATE_CREATED, Lr_CONSOLIDATED}"
  obtains es ts rs where "on_file (lp_canon lp) (lp_sha lp) st i es ts rs" "disciplined es ts rs" "\<not> blank i"
    "find_candidate j es = Some p" "le_learning_id e = j" "admissible es ts rs e r None"
proof -
  obtain es ts rs where d: "on_file (lp_canon lp) (lp_sha lp) st i es ts rs" "disciplined es ts rs" "\<not> blank i"
    "find_candidate j es = Some p"
    by (rule loaded [OF good load])
  note f = found_facts [OF d(1,4)]
  note e = candidate_recheck [OF again]
  have ids: "le_learning_id e = j" "le_proposed_change q = le_proposed_change p"
    using e(1) core f(2) by (simp_all add: candidate_core_def)
  from f(5) roots(1) have "le_root_evidence_ids q \<noteq> []" by auto
  with e(5) roots have "le_root_evidence_ids e = le_root_evidence_ids q" by blast
  moreover have "wf_learning_event e" using e(7) f(4) ids(2) by simp
  moreover note mutable_run [OF d(1,3) free]
  ultimately have "admissible es ts rs e r None"
    using d(4) ids(1) e(1) core roots f(2) record_for_type [OF made(1)] made(2) by (simp add: admissible_def)
  with d ids(1) that show thesis by blast
qed

lemma candidate_move:
  assumes "good_store (lp_canon lp) (lp_sha lp) st" "lp_load lp i j st = Inr p"
    "require_mutable_candidate lp i p st = Inr u" "learning_event_recheck q = Inr e"
    "candidate_core q = candidate_core p" "set (le_root_evidence_ids p) \<subseteq> set (le_root_evidence_ids q)"
    "distinct (le_root_evidence_ids q)" "record_for lp e type status perm before after reason source None None st = Inr r"
    "type \<notin> {Lr_CANDIDATE_CREATED, Lr_CONSOLIDATED}"
    and save: "learning_save (lp_canon lp) (lp_sha lp) (lp_disk_ok lp) i e r None st = Inr s'"
  shows "learning_move (lp_canon lp) (lp_sha lp) i st s'"
  by (rule candidate_admissible [OF assms(1-9)])
    (use save in \<open>unfold learning_move_def document_of_def\<close>, blast)

lemma core_update [simp]:
  "candidate_core (e\<lparr>le_confidence := q\<rparr>) = candidate_core e"
  "candidate_core (e\<lparr>le_validation_status := s\<rparr>) = candidate_core e"
  "candidate_core (e\<lparr>le_revision := n\<rparr>) = candidate_core e"
  "candidate_core (e\<lparr>le_evidence_learning_ids := xs\<rparr>) = candidate_core e"
  "candidate_core (e\<lparr>le_root_evidence_ids := xs\<rparr>) = candidate_core e"
  by (simp_all add: candidate_core_def)

lemma loaded_copy:
  assumes "good_store (lp_canon lp) (lp_sha lp) st" "lp_load lp i j st = Inr p" "learning_event_copy p = Inr c"
  shows "c = p" "distinct (le_root_evidence_ids p)" "le_learning_id p = j" "wf_learning_event p"
proof -
  obtain es ts rs where d: "on_file (lp_canon lp) (lp_sha lp) st i es ts rs" "find_candidate j es = Some p"
    by (rule loaded [OF assms(1,2)]) blast
  note f = found_facts [OF d]
  from f(3) assms(3) show "c = p" by simp
  from f show "distinct (le_root_evidence_ids p)" "le_learning_id p = j" "wf_learning_event p" by simp_all
qed

lemma adjust_moves:
  assumes "good_store (lp_canon lp) (lp_sha lp) st"
  shows "learning_move (lp_canon lp) (lp_sha lp) i st (fst (adjust_confidence lp i j delta reason source st))"
  unfolding adjust_confidence_def save_candidate_def Let_def
proof (intro walk [where P = "learning_move (lp_canon lp) (lp_sha lp) i st"])
  fix p copy d e r s' u
  assume load: "lp_load lp i j st = Inr p" and free: "require_mutable_candidate lp i p st = Inr u"
    and copy: "learning_event_copy p = Inr copy"
    and e: "learning_event_recheck (copy\<lparr>le_confidence := max 0 (min 1 (fl (le_confidence p + d))),
       le_validation_status := if le_validation_status copy = Ls_VALIDATED \<and> max 0 (min 1 (fl (le_confidence p + d))) < 3 / 4
         then Ls_PENDING else le_validation_status copy, le_revision := le_revision copy + 1\<rparr>) = Inr e"
    and r: "record_for lp e Lr_CONFIDENCE_ADJUSTED (le_validation_status e) False (PFloat (le_confidence p))
       (PFloat (le_confidence e)) reason source None None st = Inr r"
    and save: "learning_save (lp_canon lp) (lp_sha lp) (lp_disk_ok lp) i e r None st = Inr s'"
  note c = loaded_copy [OF assms load copy]
  show "learning_move (lp_canon lp) (lp_sha lp) i st s'"
    by (rule candidate_move [OF assms load free e _ _ _ r _ save]) (simp_all add: c)
qed (rule learning_move_refl)+

lemma reject_moves:
  assumes "good_store (lp_canon lp) (lp_sha lp) st"
  shows "learning_move (lp_canon lp) (lp_sha lp) i st (fst (reject_learning lp i j reason source st))"
  unfolding reject_learning_def save_candidate_def
proof (intro walk [where P = "learning_move (lp_canon lp) (lp_sha lp) i st"])
  fix p copy e r s' u
  assume load: "lp_load lp i j st = Inr p" and free: "require_mutable_candidate lp i p st = Inr u"
    and copy: "learning_event_copy p = Inr copy"
    and e: "learning_event_recheck (copy\<lparr>le_validation_status := Ls_REJECTED, le_revision := le_revision copy + 1\<rparr>) = Inr e"
    and r: "record_for lp e Lr_REJECTED (le_validation_status e) False
       (PStr (learning_status_value (le_validation_status p))) (PStr (learning_status_value Ls_REJECTED)) reason source
       None None st = Inr r"
    and save: "learning_save (lp_canon lp) (lp_sha lp) (lp_disk_ok lp) i e r None st = Inr s'"
  note c = loaded_copy [OF assms load copy]
  show "learning_move (lp_canon lp) (lp_sha lp) i st s'"
    by (rule candidate_move [OF assms load free e _ _ _ r _ save]) (simp_all add: c)
qed (rule learning_move_refl)+

lemma collect_roots_Inr:
  "collect_roots lp i es seen st = Inr roots \<Longrightarrow> roots = seen \<union> (\<Union>e \<in> set es. set (le_root_evidence_ids e)) \<and>
     (finite seen \<longrightarrow> finite roots)"
  by (induction es arbitrary: seen) (auto simp: rbind_eq_Inr)

lemma validate_moves:
  assumes "good_store (lp_canon lp) (lp_sha lp) st"
  shows "learning_move (lp_canon lp) (lp_sha lp) i st (fst (validate_learning lp i j ks reason source st))"
  unfolding validate_learning_def save_candidate_def Let_def
proof (intro walk [where P = "learning_move (lp_canon lp) (lp_sha lp) i st"])
  fix p :: learning_event and evidence :: "learning_event list" and seen copy e r s' u
  let ?q = "validation_confidence lp (le_confidence p) (map le_confidence evidence)"
  assume load: "lp_load lp i j st = Inr p" and free: "require_mutable_candidate lp i p st = Inr u"
    and copy: "learning_event_copy p = Inr copy"
    and evidence: "rmap (\<lambda>k. lp_load lp i k st) (fromkeys (j # ks)) = Inr evidence"
    and seen: "collect_roots lp i evidence {} st = Inr seen"
    and e: "learning_event_recheck (copy\<lparr>le_confidence := ?q, le_evidence_learning_ids := fromkeys (j # ks),
       le_root_evidence_ids := sorted_list_of_set seen,
       le_validation_status := if 3 / 4 \<le> ?q then Ls_VALIDATED else Ls_PENDING,
       le_revision := le_revision copy + 1\<rparr>) = Inr e"
    and r: "record_for lp e (if le_validation_status e = Ls_VALIDATED then Lr_VALIDATED else Lr_CONFIDENCE_ADJUSTED)
       (le_validation_status e) False (PFloat (le_confidence p)) (PFloat (le_confidence e)) reason source None None st = Inr r"
    and save: "learning_save (lp_canon lp) (lp_sha lp) (lp_disk_ok lp) i e r None st = Inr s'"
  note c = loaded_copy [OF assms load copy]
  from evidence load have "p \<in> set evidence" by (auto simp: rbind_eq_Inr)
  with collect_roots_Inr [OF seen] have "set (le_root_evidence_ids p) \<subseteq> seen" "finite seen" by auto
  then show "learning_move (lp_canon lp) (lp_sha lp) i st s'"
    by (intro candidate_move [OF assms load free e _ _ _ r _ save]) (simp_all add: c)
qed (rule learning_move_refl)+

lemma pending_status [simp]: "learning_status_of x (PStr ''PENDING'') = Inr s \<longleftrightarrow> s = Ls_PENDING"
  using learning_enum_run(1) [of x Ls_PENDING] by auto

lemma created_type [simp]: "learning_record_type_of x (PStr ''CANDIDATE_CREATED'') = Inr s \<longleftrightarrow> s = Lr_CANDIDATE_CREATED"
  using learning_enum_run(2) [of x Lr_CANDIDATE_CREATED] by auto

lemma create_moves:
  assumes good: "good_store (lp_canon lp) (lp_sha lp) st" and "wf_mutation change"
  shows "learning_move (lp_canon lp) (lp_sha lp) i st
    (fst (create_candidate lp i event memory rev_nr obs hyp change conf original reason source given roots st))"
  unfolding create_candidate_def
proof (intro walk [where P = "learning_move (lp_canon lp) (lp_sha lp) i st"])
  fix experience e r s'
  assume e: "learning_event_init
       \<lparr>lea_learning_id = PStr (given_or_uuid given (lp_learning_uuid lp)), lea_subject_id = PStr i,
        lea_source_event_id = opt_val PStr event, lea_source_memory_id = opt_val PStr memory,
        lea_related_state_revision = PInt rev_nr, lea_observation = obs,
        lea_hypothesis = hyp, lea_proposed_change = change, lea_confidence = conf,
        lea_validation_status = PStr (learning_status_value Ls_PENDING), lea_created_at = utc_val (lp_now lp),
        lea_revision = PInt 0, lea_evidence_learning_ids = PList [], lea_root_evidence_ids = PList roots\<rparr> = Inr e"
    and r: "learning_record_init
       \<lparr>lra_record_id = PStr (lp_record_uuid lp), lra_learning_id = PStr (le_learning_id e),
        lra_subject_id = PStr i, lra_record_type = PStr (learning_record_value Lr_CANDIDATE_CREATED),
        lra_original_experience = experience, lra_observation = obs, lra_hypothesis = hyp,
        lra_validation_status = PStr (learning_status_value Ls_PENDING), lra_permanently_consolidated = PBool False,
        lra_field_path = PStr (sm_field_path change), lra_before_value = PNone,
        lra_after_value = sm_value change, lra_reason = PStr reason, lra_source = PStr source,
        lra_created_at = utc_val (lp_now lp), lra_evidence_learning_ids = str_list [le_learning_id e],
        lra_root_evidence_ids = str_list (le_root_evidence_ids e), lra_trait_id = PNone,
        lra_state_event_id = PNone, lra_pending_state_event = PNone, lra_growth_operation = PNone,
        lra_growth_resolution = PNone\<rparr> = Inr r"
    and save: "learning_save (lp_canon lp) (lp_sha lp) (lp_disk_ok lp) i e r None st = Inr s'"
  have new: "le_revision e = 0" "le_validation_status e = Ls_PENDING" "le_proposed_change e = change"
    using learning_event_init_fields [OF e]
    by (elim conjE exE; simp add: plain_values(3) [of 0 0 _ "le_revision e"])+
  have type: "lr_record_type r = Lr_CANDIDATE_CREATED"
    using r unfolding learning_record_init_def by (elim rbindE) auto
  obtain es ts rs where d: "document_of (lp_canon lp) (lp_sha lp) st i es ts rs" "disciplined es ts rs" "\<not> blank i"
    by (rule saved_document [OF good save])
  note s = document_of_sound [OF d(1)]
  show "learning_move (lp_canon lp) (lp_sha lp) i st s'"
  proof (rule save_changes [OF d(1) save d(3)])
    assume "s' = st"
    then show ?thesis by (simp add: learning_move_refl)
  next
    fix es' ts' r'
    assume c: "changed_document es ts rs e r' None es' ts'"
    have "find_candidate (le_learning_id e) es = None"
    proof (rule ccontr)
      assume "find_candidate (le_learning_id e) es \<noteq> None"
      then obtain p where p: "find_candidate (le_learning_id e) es = Some p" by blast
      with c new(1) have "le_revision p = -1" by (simp add: changed_document_def)
      moreover have "p \<in> set es" using p sound_ids(2) [OF s] by blast
      ultimately show False using s by (auto simp: sound_learning_def wf_learning_event_def)
    qed
    moreover have "wf_learning_event e" using learning_event_init_wf [OF e] assms(2) by simp
    ultimately have "admissible es ts rs e r None" using new type by (simp add: admissible_def)
    with d save show ?thesis unfolding learning_move_def by blast
  qed
qed (rule learning_move_refl)+

lemma verified_confidence: "verify_current_support lp i p st = Inr q \<Longrightarrow> 3 / 4 \<le> q"
  by (auto simp: verify_current_support_def rbind_eq_Inr Let_def)

lemma trait_init_fields:
  assumes "trait_init (PStr a) (PStr b) (PStr c) (PStr d) (PStr f) (PStr g) (PFloat q) (utc_val t) (utc_val u)
    (PInt n) (PBool x) (PInt k) = Inr w"
  shows "w = \<lparr>pt_trait_id = a, pt_subject_id = b, pt_name = c, pt_description = d, pt_field_path = f, pt_current_value = g,
    pt_confidence = q, pt_created_at = t, pt_last_updated_at = u, pt_evidence_count = n, pt_active = x, pt_revision = k\<rparr>"
  using assms unfolding trait_init_def
  by (elim rbindE) (((drule plain_values(3,4) plain_values(1) [THEN iffD1, THEN conjunct2])+)?, simp)

text \<open>A trait at revision zero is a new one.\<close>

lemma fresh_trait:
  assumes "sound_learning canon sha es ts rs" "changed_document es ts rs e r (Some t) es' ts'" "pt_revision t = 0"
  shows "find_trait (pt_trait_id t) ts = None"
proof (rule ccontr)
  assume "find_trait (pt_trait_id t) ts \<noteq> None"
  then obtain q where q: "find_trait (pt_trait_id t) ts = Some q" by blast
  with assms(2,3) have "pt_revision q = -1" by (simp add: changed_document_def split: option.splits)
  moreover have "q \<in> set ts" using q sound_ids(4) [OF assms(1)] by blast
  ultimately show False using assms(1) by (auto simp: sound_learning_def wf_trait_def)
qed

lemma solidify_moves:
  assumes good: "good_store (lp_canon lp) (lp_sha lp) st"
  shows "learning_move (lp_canon lp) (lp_sha lp) i st
    (fst (solidify_learning lp i j state name description reason source confirmed expected tid growth st))"
  unfolding solidify_learning_def Let_def
proof (intro walk [where P = "learning_move (lp_canon lp) (lp_sha lp) i st"])
  fix p copy e :: learning_event and b :: learning_record and t :: personality_trait and event :: event
    and supported consolidated s'
  let ?current = "p\<lparr>le_confidence := min (le_confidence p) supported\<rparr>"
  let ?r = "if growth = PNone then b else b\<lparr>lr_pending_state_event := event_to_dict event,
           lr_growth_operation := growth, lr_record_type := Lr_GROWTH_PREPARED, lr_permanently_consolidated := False\<rparr>"
  let ?t = "if growth = PNone then t else t\<lparr>pt_active := False\<rparr>"
  fix before u v w
  assume load: "lp_load lp i j st = Inr p"
    and valid: "ensure (le_validation_status p = Ls_VALIDATED)
       (learning_invalid ''only validated learning may be consolidated'') = Inr u"
    and enough: "ensure (\<not> (length (le_root_evidence_ids p) < 3 \<or> le_confidence p < 3 / 4))
       (learning_invalid ''validated learning lacks sufficient evidence'') = Inr v"
    and supported: "verify_current_support lp i p st = Inr supported"
    and active: "has_active_consolidation lp i j st = Inr consolidated"
    and inactive: "ensure (\<not> consolidated) (learning_invalid ''learning is already consolidated'') = Inr w"
    and t: "trait_init (PStr (given_or_uuid tid (lp_trait_uuid lp))) (PStr i) (PStr name)
       (PStr description) (PStr (sm_field_path (le_proposed_change ?current)))
       (PStr (py_str lp (sm_value (le_proposed_change ?current)))) (PFloat (le_confidence ?current))
       (utc_val (lp_now lp)) (utc_val (lp_now lp)) (PInt (int (length (le_root_evidence_ids ?current))))
       (PBool True) (PInt 0) = Inr t"
    and copy: "learning_event_copy ?current = Inr copy"
    and e: "learning_event_recheck (copy\<lparr>le_revision := le_revision copy + 1\<rparr>) = Inr e"
    and b: "record_for lp e Lr_CONSOLIDATED Ls_VALIDATED True (str_list before)
       (PList (map PStr before @ [sm_value (le_proposed_change ?current)])) reason source (Some (pt_trait_id t))
       (Some (ev_event_id event)) st = Inr b"
    and save: "learning_save (lp_canon lp) (lp_sha lp) (lp_disk_ok lp) i e ?r (Some ?t) st = Inr s'"
  obtain es ts rs where d: "on_file (lp_canon lp) (lp_sha lp) st i es ts rs" "disciplined es ts rs" "\<not> blank i"
    "find_candidate j es = Some p"
    by (rule loaded [OF good load])
  note f = found_facts [OF d(1,4)]
  have q: "3 / 4 \<le> le_confidence ?current" "le_confidence ?current \<le> 1"
    using enough verified_confidence [OF supported] f(3) by (auto simp: wf_learning_event_def)
  with f(3) have "wf_learning_event ?current" by (simp add: wf_learning_event_def)
  with copy have "copy = ?current" by simp
  with e have again: "learning_event_recheck (?current\<lparr>le_revision := le_revision ?current + 1\<rparr>) = Inr e" by simp
  note same = candidate_recheck [OF again]
  have e': "candidate_core e = candidate_core p" "le_validation_status e = Ls_VALIDATED"
    "le_confidence e = le_confidence ?current" "le_root_evidence_ids e = le_root_evidence_ids p" "wf_learning_event e"
    using same f valid by (simp_all add: candidate_core_def)
  then have "le_learning_id e = j" using f(2) by (simp add: candidate_core_def)
  have ok: "well_supported e" using e' q(1) enough by (simp add: well_supported_def)
  have none: "\<nexists>t. consolidates rs ts j t" using active_run [OF d(1,3) active] inactive by simp
  note ft = trait_init_fields [OF t]
  have wt: "wf_trait ?t" using trait_init_wf [OF t] by (simp add: wf_trait_def)
  have type: "lr_record_type ?r = (if growth = PNone then Lr_CONSOLIDATED else Lr_GROWTH_PREPARED)"
    using record_for_type [OF b] by simp
  have doc: "document_of (lp_canon lp) (lp_sha lp) st i es ts rs" using d(1) by (simp add: document_of_def)
  show "learning_move (lp_canon lp) (lp_sha lp) i st s'"
  proof (rule save_changes [OF doc save d(3)])
    assume "s' = st"
    then show ?thesis by (simp add: learning_move_refl)
  next
    fix es' ts' r'
    assume c: "changed_document es ts rs e r' (Some ?t) es' ts'"
    have "find_trait (pt_trait_id ?t) ts = None"
      by (rule fresh_trait [OF document_of_sound [OF doc] c]) (simp add: ft)
    moreover have "pt_active ?t \<longleftrightarrow> growth = PNone" by (simp add: ft)
    ultimately have "admissible es ts rs e ?r (Some ?t)"
      using e' ok none wt type d(4) \<open>le_learning_id e = j\<close> valid unfolding admissible_def by (simp del: if_split)
    with doc d(2,3) save show ?thesis unfolding learning_move_def by blast
  qed
qed (rule learning_move_refl)+

lemma rollback_moves:
  assumes good: "good_store (lp_canon lp) (lp_sha lp) st"
  shows "learning_move (lp_canon lp) (lp_sha lp) i st
    (fst (rollback_learning lp i j tid state reason source confirmed expected growth st))"
  unfolding rollback_learning_def Let_def
proof (intro walk [where P = "learning_move (lp_canon lp) (lp_sha lp) i st"])
  fix p copy e :: learning_event and b :: learning_record and q again t :: personality_trait and event :: event
    and history u v s' before
  let ?r = "if growth = PNone then b else b\<lparr>lr_pending_state_event := event_to_dict event,
           lr_growth_operation := growth, lr_record_type := Lr_GROWTH_PREPARED,
           lr_validation_status := le_validation_status p\<rparr>"
  let ?e = "if growth = PNone then e else e\<lparr>le_validation_status := le_validation_status p\<rparr>"
  let ?t = "if growth = PNone then t else t\<lparr>pt_active := pt_active q\<rparr>"
  assume load: "lp_load lp i j st = Inr p" and trait: "load_trait (lp_canon lp) (lp_sha lp) i tid st = Inr q"
    and active: "ensure (pt_active q) (learning_invalid ''personality trait is already inactive'') = Inr u"
    and history: "lp_history lp i (Some j) st = Inr history"
    and granted: "ensure (\<exists>r \<in> set history. lr_record_type r = Lr_CONSOLIDATED \<and> lr_trait_id r = Some tid)
       (learning_invalid ''trait was not consolidated by this learning'') = Inr v"
    and copy: "learning_event_copy p = Inr copy"
    and e: "learning_event_recheck (copy\<lparr>le_validation_status := Ls_REVOKED, le_revision := le_revision copy + 1\<rparr>) = Inr e"
    and again: "trait_copy q = Inr again"
    and t: "trait_recheck (again\<lparr>pt_active := False, pt_last_updated_at := lp_now lp, pt_revision := pt_revision again + 1\<rparr>) = Inr t"
    and b: "record_for lp e Lr_ROLLED_BACK Ls_REVOKED False (str_list before)
       (str_list (filter (\<lambda>x. x \<noteq> pt_current_value q) before)) reason source (Some tid) (Some (ev_event_id event)) st = Inr b"
    and save: "learning_save (lp_canon lp) (lp_sha lp) (lp_disk_ok lp) i ?e ?r (Some ?t) st = Inr s'"
  obtain es ts rs where d: "on_file (lp_canon lp) (lp_sha lp) st i es ts rs" "disciplined es ts rs" "\<not> blank i"
    "find_candidate j es = Some p"
    by (rule loaded [OF good load])
  note f = found_facts [OF d(1,4)]
  have s: "sound_learning (lp_canon lp) (lp_sha lp) es ts rs" using d(1) by (simp add: on_file_def)
  have q: "find_trait tid ts = Some q" using trait load_trait_run [OF d(1,3), of tid] by (auto split: option.splits)
  then have qt: "q \<in> set ts" "pt_trait_id q = tid" using sound_ids(4) [OF s] by blast+
  then have wq: "wf_trait q" using s by (simp add: sound_learning_def)
  have c: "consolidates rs ts j q"
    using history granted active qt history_run [OF d(1,3), of j] by (auto simp: consolidates_def split: if_splits)
  from wq again have "again = q" by simp
  with t have t': "t = q\<lparr>pt_active := False, pt_last_updated_at := lp_now lp, pt_revision := pt_revision q + 1\<rparr>"
    by (simp add: trait_recheck_def) (drule trait_init_fields, simp)
  then have wt: "wf_trait ?t" and core: "trait_core ?t = trait_core q" and tid: "pt_trait_id ?t = tid"
    using wq qt(2) by (simp_all add: wf_trait_def trait_core_def)
  note copied = loaded_copy [OF good load copy]
  note same = candidate_recheck [OF e]
  have e': "candidate_core e = candidate_core p" "le_validation_status e = Ls_REVOKED" "le_confidence e = le_confidence p"
    "le_root_evidence_ids e = le_root_evidence_ids p" "wf_learning_event e"
    using same copied f by (simp_all add: candidate_core_def)
  then have we: "wf_learning_event ?e" and core_e: "candidate_core ?e = candidate_core p" and id: "le_learning_id ?e = j"
    using f(2) by (simp_all add: wf_learning_event_def candidate_core_def)
  have type: "lr_record_type ?r = (if growth = PNone then Lr_ROLLED_BACK else Lr_GROWTH_PREPARED)"
    using record_for_type [OF b] by simp
  have act: "pt_active ?t \<longleftrightarrow> growth \<noteq> PNone" using active t' by simp
  have adm: "admissible es ts rs ?e ?r (Some ?t)"
    unfolding admissible_def id d(4) tid q option.case
    using we wt core core_e type act c e' by (cases "growth = PNone") simp_all
  have doc: "document_of (lp_canon lp) (lp_sha lp) st i es ts rs" using d(1) by (simp add: document_of_def)
  with d(2,3) save adm show "learning_move (lp_canon lp) (lp_sha lp) i st s'" unfolding learning_move_def by blast
qed (rule learning_move_refl)+

section \<open>Later stores\<close>

text \<open>
  Records are only added; a candidate keeps its core and its roots and counts its steps, and one that
  was rejected or revoked stays as it is; a trait keeps its core, and one that is not in force stays
  as it is.
\<close>

definition document_later ::
  "learning_event list \<Rightarrow> personality_trait list \<Rightarrow> learning_record list \<Rightarrow> learning_event list
     \<Rightarrow> personality_trait list \<Rightarrow> learning_record list \<Rightarrow> bool" where
  "document_later es ts rs es' ts' rs' \<longleftrightarrow> (\<exists>new. rs' = rs @ new) \<and>
     (\<forall>e \<in> set es. \<exists>e' \<in> set es'. candidate_core e' = candidate_core e \<and>
        set (le_root_evidence_ids e) \<subseteq> set (le_root_evidence_ids e') \<and> le_revision e \<le> le_revision e' \<and>
        (le_validation_status e \<in> {Ls_REJECTED, Ls_REVOKED} \<longrightarrow> e' = e)) \<and>
     (\<forall>t \<in> set ts. \<exists>t' \<in> set ts'. trait_core t' = trait_core t \<and> pt_revision t \<le> pt_revision t' \<and>
        (\<not> pt_active t \<longrightarrow> t' = t))"

lemma document_later_refl: "document_later es ts rs es ts rs"
  by (auto simp: document_later_def)

lemma document_later_trans:
  assumes a: "document_later es ts rs es1 ts1 rs1" and b: "document_later es1 ts1 rs1 es2 ts2 rs2"
  shows "document_later es ts rs es2 ts2 rs2"
  unfolding document_later_def
proof (intro conjI ballI)
  show "\<exists>new. rs2 = rs @ new" using a b by (auto simp: document_later_def)
next
  fix e assume "e \<in> set es"
  with a obtain e1 where e1: "e1 \<in> set es1" "candidate_core e1 = candidate_core e"
    "set (le_root_evidence_ids e) \<subseteq> set (le_root_evidence_ids e1)" "le_revision e \<le> le_revision e1"
    "le_validation_status e \<in> {Ls_REJECTED, Ls_REVOKED} \<longrightarrow> e1 = e"
    unfolding document_later_def by blast
  with b obtain e2 where "e2 \<in> set es2" "candidate_core e2 = candidate_core e1"
    "set (le_root_evidence_ids e1) \<subseteq> set (le_root_evidence_ids e2)" "le_revision e1 \<le> le_revision e2"
    "le_validation_status e1 \<in> {Ls_REJECTED, Ls_REVOKED} \<longrightarrow> e2 = e1"
    unfolding document_later_def by blast
  with e1 show "\<exists>e' \<in> set es2. candidate_core e' = candidate_core e \<and>
      set (le_root_evidence_ids e) \<subseteq> set (le_root_evidence_ids e') \<and> le_revision e \<le> le_revision e' \<and>
      (le_validation_status e \<in> {Ls_REJECTED, Ls_REVOKED} \<longrightarrow> e' = e)"
    by (intro bexI [of _ e2]) auto
next
  fix t assume "t \<in> set ts"
  with a obtain t1 where t1: "t1 \<in> set ts1" "trait_core t1 = trait_core t" "pt_revision t \<le> pt_revision t1"
    "\<not> pt_active t \<longrightarrow> t1 = t"
    unfolding document_later_def by blast
  with b obtain t2 where "t2 \<in> set ts2" "trait_core t2 = trait_core t1" "pt_revision t1 \<le> pt_revision t2"
    "\<not> pt_active t1 \<longrightarrow> t2 = t1"
    unfolding document_later_def by blast
  with t1 show "\<exists>t' \<in> set ts2. trait_core t' = trait_core t \<and> pt_revision t \<le> pt_revision t' \<and> (\<not> pt_active t \<longrightarrow> t' = t)"
    by (intro bexI [of _ t2]) auto
qed

lemma change_later:
  assumes s: "sound_learning canon sha es ts rs" and d: "disciplined es ts rs" and a: "admissible es ts rs e r trait"
    and c: "changed_document es ts rs e r trait es' ts'"
  shows "document_later es ts rs es' ts' (rs @ [r])"
proof -
  have later: "set es' = insert e (set es - {p}) \<Longrightarrow> candidate_core e = candidate_core p \<Longrightarrow>
      set (le_root_evidence_ids p) \<subseteq> set (le_root_evidence_ids e) \<Longrightarrow> le_revision e = le_revision p + 1 \<Longrightarrow>
      le_validation_status p \<notin> {Ls_REJECTED, Ls_REVOKED} \<Longrightarrow>
      \<forall>x \<in> set es. \<exists>e' \<in> set es'. candidate_core e' = candidate_core x \<and>
        set (le_root_evidence_ids x) \<subseteq> set (le_root_evidence_ids e') \<and> le_revision x \<le> le_revision e' \<and>
        (le_validation_status x \<in> {Ls_REJECTED, Ls_REVOKED} \<longrightarrow> e' = x)" for p
    by auto
  have rev: "pt_revision v = pt_revision q + 1" if "trait = Some v" "q \<in> set ts" "trait_core v = trait_core q" for v q
  proof -
    have "find_trait (pt_trait_id v) ts = Some q" using that(2) trait_core_id [OF that(3)] sound_ids(4) [OF s] by simp
    with c that(1) show ?thesis by (simp add: changed_document_def)
  qed
  from s a c show ?thesis
  proof (cases rule: change_cases)
    case created
    then show ?thesis by (auto simp: document_later_def)
  next
    case (revised p)
    from later [OF revised(4,2,5,3,8)] revised(7) show ?thesis by (auto simp: document_later_def)
  next
    case (granted p v)
    then have "le_validation_status p \<notin> {Ls_REJECTED, Ls_REVOKED}" by simp
    from later [OF granted(4,2,5,3) this] granted(7) show ?thesis by (auto simp: document_later_def)
  next
    case (withdrawn p v q)
    from disciplinedD(1) [OF d withdrawn(10)] obtain x where "x \<in> set es" "le_learning_id x = le_learning_id e" "well_supported x"
      by blast
    with withdrawn(1) candidate_core_id [OF withdrawn(2)] sound_ids(6) [OF s] have "well_supported p" by metis
    then have "le_validation_status p \<notin> {Ls_REJECTED, Ls_REVOKED}" by (simp add: well_supported_def)
    note e = later [OF withdrawn(4,2,5,3) this]
    have "pt_active q" using withdrawn(10) by (simp add: consolidates_def)
    then have "\<forall>t \<in> set ts. \<exists>t' \<in> set ts'. trait_core t' = trait_core t \<and> pt_revision t \<le> pt_revision t' \<and> (\<not> pt_active t \<longrightarrow> t' = t)"
      using withdrawn(8,9) rev [OF withdrawn(6,7,9)] by auto
    with e show ?thesis by (simp add: document_later_def)
  qed
qed

text \<open>A file determines what is on file.\<close>

lemma document_inj:
  assumes "learning_document i es ts rs = learning_document j es' ts' rs'"
    "sound_learning canon sha es ts rs" "sound_learning canon sha es' ts' rs'"
  shows "i = j \<and> es = es' \<and> ts = ts' \<and> rs = rs'"
proof -
  from assms(1) have l: "map learning_event_to_dict es = map learning_event_to_dict es'"
    "map trait_to_dict ts = map trait_to_dict ts'" "map learning_record_to_dict rs = map learning_record_to_dict rs'" "i = j"
    using document_fields [of i es ts rs] document_fields [of j es' ts' rs'] by (simp_all del: document_fields)
  have "Inr es = rmap learning_event_from_dict (map learning_event_to_dict es)"
    "Inr es' = rmap learning_event_from_dict (map learning_event_to_dict es')"
    "Inr ts = rmap trait_from_dict (map trait_to_dict ts)" "Inr ts' = rmap trait_from_dict (map trait_to_dict ts')"
    "Inr rs = rmap learning_record_from_dict (map learning_record_to_dict rs)"
    "Inr rs' = rmap learning_record_from_dict (map learning_record_to_dict rs')"
    using assms(2,3) by (simp_all add: decode_written sound_learning_def)
  with l show ?thesis by (metis sum.inject(2))
qed

definition learning_later :: "canon_fun \<Rightarrow> digest_fun \<Rightarrow> learning_store \<Rightarrow> learning_store \<Rightarrow> bool" where
  "learning_later canon sha st st' \<longleftrightarrow> (good_store canon sha st \<longrightarrow> good_store canon sha st' \<and>
     (\<forall>path i es ts rs. st path = File_Doc (PDict (learning_document i es ts rs)) \<longrightarrow> sound_learning canon sha es ts rs \<longrightarrow>
       (\<exists>es' ts' rs'. st' path = File_Doc (PDict (learning_document i es' ts' rs')) \<and> sound_learning canon sha es' ts' rs' \<and>
         document_later es ts rs es' ts' rs')))"

lemma learning_later_refl: "learning_later canon sha st st"
  unfolding learning_later_def using document_later_refl by blast

lemma learning_later_trans:
  assumes a: "learning_later canon sha st st1" and b: "learning_later canon sha st1 st2"
  shows "learning_later canon sha st st2"
  unfolding learning_later_def
proof (intro impI conjI allI)
  assume g: "good_store canon sha st"
  with a have g1: "good_store canon sha st1" by (simp add: learning_later_def)
  with b show "good_store canon sha st2" by (simp add: learning_later_def)
  fix path i es ts rs
  assume "st path = File_Doc (PDict (learning_document i es ts rs))" "sound_learning canon sha es ts rs"
  with a g obtain es1 ts1 rs1 where 1: "st1 path = File_Doc (PDict (learning_document i es1 ts1 rs1))"
    "sound_learning canon sha es1 ts1 rs1" "document_later es ts rs es1 ts1 rs1"
    unfolding learning_later_def by blast
  with b g1 obtain es2 ts2 rs2 where 2: "st2 path = File_Doc (PDict (learning_document i es2 ts2 rs2))"
    "sound_learning canon sha es2 ts2 rs2" "document_later es1 ts1 rs1 es2 ts2 rs2"
    unfolding learning_later_def by blast
  with document_later_trans [OF 1(3) 2(3)] show "\<exists>es' ts' rs'. st2 path = File_Doc (PDict (learning_document i es' ts' rs')) \<and>
      sound_learning canon sha es' ts' rs' \<and> document_later es ts rs es' ts' rs'" by blast
qed

interpretation lg: kept "learning_later canon sha" for canon sha
  by unfold_locales (rule learning_later_refl, rule learning_later_trans)

text \<open>The document of a subject after an admissible change that is not on file already.\<close>

lemma saved_change:
  assumes "document_of canon sha st i es ts rs" "disciplined es ts rs" "\<not> blank i" "admissible es ts rs e r trait"
    "learning_save canon sha disk i e r trait st = Inr st'"
  obtains "st' = st" "\<exists>p. find_candidate (le_learning_id e) es = Some p \<and> le_revision p = le_revision e"
  | es' ts' r' where "st' = st(sha i := File_Doc (PDict (learning_document i es' ts' (rs @ [r']))))"
    "sound_learning canon sha es' ts' (rs @ [r'])" "disciplined es' ts' (rs @ [r'])"
    "document_later es ts rs es' ts' (rs @ [r'])" "changed_document es ts rs e r' trait es' ts'"
    "learning_record_recheck r = Inr r'"
proof -
  note s = document_of_sound [OF assms(1)]
  show thesis
  proof (rule save_changes [OF assms(1,5,3)])
    fix es' ts' r'
    assume st': "st' = st(sha i := File_Doc (PDict (learning_document i es' ts' (rs @ [r']))))"
      and r: "learning_record_recheck r = Inr r'" and c: "changed_document es ts rs e r' trait es' ts'"
      and res: "check_resolutions canon sha (rs @ [r']) (enumerate 0 (rs @ [r'])) [] = Inr ()"
      and roots: "set (lr_root_evidence_ids r') = set (le_root_evidence_ids e)" and id: "lr_learning_id r' = le_learning_id e"
      and t: "\<forall>t. trait = Some t \<longrightarrow> lr_trait_id r' = Some (pt_trait_id t)"
    note f = recheck_fields [OF r]
    have a: "admissible es ts rs e r' trait" using assms(4) unfolding admissible_def f(2) .
    show thesis
      by (rule that(2) [OF st' changed_sound [OF s a c f(1) res roots id] changed_disciplined [OF s assms(2) a c id t]
            change_later [OF s assms(2) a c] c r])
  qed (rule that(1))
qed

lemma move_later:
  assumes "good_store canon sha st \<Longrightarrow> learning_move canon sha i st st'"
  shows "learning_later canon sha st st'"
proof (cases "good_store canon sha st \<and> st' \<noteq> st")
  case False
  then show ?thesis by (cases "good_store canon sha st") (auto simp: learning_later_refl, simp add: learning_later_def)
next
  case True
  with assms obtain es ts rs e r trait disk where d: "document_of canon sha st i es ts rs" "disciplined es ts rs" "\<not> blank i"
    and save: "learning_save canon sha disk i e r trait st = Inr st'" and adm: "admissible es ts rs e r trait"
    unfolding learning_move_def by blast
  note s = document_of_sound [OF d(1)]
  show ?thesis
  proof (rule saved_change [OF d adm save])
    assume "st' = st"
    with True show ?thesis by blast
  next
    fix es' ts' r'
    assume st': "st' = st(sha i := File_Doc (PDict (learning_document i es' ts' (rs @ [r']))))"
      and new: "sound_learning canon sha es' ts' (rs @ [r'])" "disciplined es' ts' (rs @ [r'])"
        "document_later es ts rs es' ts' (rs @ [r'])"
    have "good_store canon sha st'"
      using True new(1,2) by (auto simp: good_store_def good_file_def st')
    moreover have "\<exists>es2 ts2 rs2. st' path = File_Doc (PDict (learning_document j es2 ts2 rs2)) \<and>
        sound_learning canon sha es2 ts2 rs2 \<and> document_later es1 ts1 rs1 es2 ts2 rs2"
      if doc: "st path = File_Doc (PDict (learning_document j es1 ts1 rs1))" "sound_learning canon sha es1 ts1 rs1"
      for path j es1 ts1 rs1
    proof (cases "path = sha i")
      case True
      with doc(1) d(1) have "learning_document i es ts rs = learning_document j es1 ts1 rs1"
        by (auto simp: document_of_def on_file_def is_file_def)
      from document_inj [OF this s doc(2)] True new st' show ?thesis by auto
    next
      case False
      with doc st' document_later_refl show ?thesis by fastforce
    qed
    ultimately show ?thesis unfolding learning_later_def by blast
  qed
qed

section \<open>Runs\<close>

lemmas learning_moves = create_moves adjust_moves validate_moves reject_moves solidify_moves rollback_moves

lemma create_later:
  "wf_mutation change \<Longrightarrow> lp_canon lp = canon \<Longrightarrow> lp_sha lp = sha \<Longrightarrow> keeps (learning_later canon sha)
    (create_candidate lp i event memory rev_nr obs hyp change conf original reason source given roots)"
  by (intro keepsI move_later) (blast intro: create_moves)

lemma candidate_from_metadata_later:
  assumes "lp_canon lp = canon" "lp_sha lp = sha"
  shows "keeps (learning_later canon sha) (candidate_from_metadata lp i rev_nr md event memory original source)"
proof -
  have "keeps (learning_later canon sha) (case find_by_source event memory known of
      Some e \<Rightarrow> sret (Some e)
    | None \<Rightarrow> sbind (slift (state_mutation_init a b c d)) (\<lambda>change.
        sbind (create_candidate lp i event memory rev_nr obs hyp change conf original (reason change) (src change) None
          roots) (\<lambda>result. sret (Some (lc_event result)))))" for known a b c d obs hyp conf roots reason src
  proof (cases "find_by_source event memory known")
    case None
    show ?thesis unfolding None option.case
    proof (intro lg.bind lg.pure)
      fix change s s'
      assume "slift (state_mutation_init a b c d) s = (s', Inr change)"
      then have "wf_mutation change" using state_mutation_init_wf [of a b c d] by (simp add: slift_def)
      from create_later [OF this assms]
      show "keeps (learning_later canon sha) (create_candidate lp i event memory rev_nr obs hyp change conf original
        (reason change) (src change) None roots)" .
    qed
  qed (simp add: lg.pure)
  then show ?thesis
    unfolding candidate_from_metadata_def by (auto intro!: lg.bind lg.pure simp del: append.simps)
qed

lemma extract_each_later:
  "(\<And>x n. keeps (learning_later canon sha) (f x (lp n))) \<Longrightarrow> keeps (learning_later canon sha) (extract_each f lp n xs)"
  by (induction f lp n xs rule: extract_each.induct) (auto intro!: lg.bind lg.pure)

lemma extract_later:
  assumes "\<And>n. lp_canon (lp n) = canon" "\<And>n. lp_sha (lp n) = sha"
  shows "keeps (learning_later canon sha) (extract_candidates lp context)"
proof -
  note one = candidate_from_metadata_later [OF assms]
  show ?thesis unfolding extract_candidates_def Let_def
    by (intro lg.bind lg.pure) (auto intro!: lg.bind lg.pure extract_each_later one)
qed

text \<open>One call of the service; its reads do not change the store.\<close>

inductive learning_step :: "canon_fun \<Rightarrow> digest_fun \<Rightarrow> learning_store \<Rightarrow> learning_store \<Rightarrow> bool" for canon sha where
  ls_create: "lp_canon lp = canon \<Longrightarrow> lp_sha lp = sha \<Longrightarrow> wf_mutation change \<Longrightarrow> learning_step canon sha st (fst
     (create_candidate lp i event memory rev_nr obs hyp change conf original reason source given roots st))"
| ls_adjust: "lp_canon lp = canon \<Longrightarrow> lp_sha lp = sha \<Longrightarrow>
     learning_step canon sha st (fst (adjust_confidence lp i j delta reason source st))"
| ls_validate: "lp_canon lp = canon \<Longrightarrow> lp_sha lp = sha \<Longrightarrow>
     learning_step canon sha st (fst (validate_learning lp i j corroborating reason source st))"
| ls_reject: "lp_canon lp = canon \<Longrightarrow> lp_sha lp = sha \<Longrightarrow>
     learning_step canon sha st (fst (reject_learning lp i j reason source st))"
| ls_solidify: "lp_canon lp = canon \<Longrightarrow> lp_sha lp = sha \<Longrightarrow> learning_step canon sha st (fst
     (solidify_learning lp i j state name description reason source confirmed expected tid growth st))"
| ls_rollback: "lp_canon lp = canon \<Longrightarrow> lp_sha lp = sha \<Longrightarrow>
     learning_step canon sha st (fst (rollback_learning lp i j tid state reason source confirmed expected growth st))"
| ls_extract: "(\<And>n. lp_canon (lps n) = canon) \<Longrightarrow> (\<And>n. lp_sha (lps n) = sha) \<Longrightarrow>
     learning_step canon sha st (fst (extract_candidates lps context st))"

lemma step_later: "learning_step canon sha st st' \<Longrightarrow> learning_later canon sha st st'"
proof (induction rule: learning_step.induct)
  case (ls_extract lps st)
  from keepsD [OF extract_later [OF ls_extract]] show ?case .
qed (auto intro!: move_later intro: learning_moves)

lemma run_later: "(learning_step canon sha)\<^sup>*\<^sup>* st st' \<Longrightarrow> learning_later canon sha st st'"
  by (induction rule: rtranclp_induct) (blast intro: learning_later_refl learning_later_trans step_later)+

lemma empty_good: "good_store canon sha (\<lambda>_. File_Absent)"
  by (simp add: good_store_def good_file_def is_file_def)

end
