(* ===== verification/Learning_Demo.thy ===== *)
theory Learning_Demo
  imports Learning_Steps
begin

text \<open>Concrete candidates, files and calls, at which the properties of learning are applied.\<close>

section \<open>A concrete subject\<close>

definition demo_growth :: state_mutation where
  "demo_growth = \<lparr>sm_field_path = ''identity.stable_traits'', sm_operation = Op_APPEND, sm_value = PStr ''calm'',
     sm_reason = ''seen''\<rparr>"

definition demo_lesson :: "string \<Rightarrow> learning_status \<Rightarrow> int \<Rightarrow> string list \<Rightarrow> string list \<Rightarrow> learning_event" where
  "demo_lesson k s n evidence roots =
     \<lparr>le_learning_id = k, le_subject_id = ''s'', le_source_event_id = Some k, le_source_memory_id = None,
      le_related_state_revision = 0, le_observation = ''o'', le_hypothesis = ''h'', le_proposed_change = demo_growth,
      le_confidence = 1, le_validation_status = s, le_created_at = Abs_instant 5, le_revision = n,
      le_evidence_learning_ids = evidence, le_root_evidence_ids = roots\<rparr>"

definition demo_note :: "string \<Rightarrow> string \<Rightarrow> learning_record_type \<Rightarrow> learning_status \<Rightarrow> string list \<Rightarrow> string list \<Rightarrow> learning_record" where
  "demo_note i k type s evidence roots =
     \<lparr>lr_record_id = i, lr_learning_id = k, lr_subject_id = ''s'', lr_record_type = type, lr_original_experience = PStr ''x'',
      lr_observation = ''o'', lr_hypothesis = ''h'', lr_validation_status = s, lr_permanently_consolidated = False,
      lr_field_path = ''identity.stable_traits'', lr_before_value = PNone, lr_after_value = PStr ''calm'',
      lr_reason = ''r'', lr_source = ''user'', lr_created_at = Abs_instant 5, lr_evidence_learning_ids = evidence,
      lr_root_evidence_ids = roots, lr_trait_id = None, lr_state_event_id = None, lr_pending_state_event = PNone,
      lr_growth_operation = PNone, lr_growth_resolution = PNone\<rparr>"

definition texts :: "string list \<Rightarrow> bool" where
  "texts ss \<longleftrightarrow> distinct ss \<and> (\<forall>s \<in> set ss. \<not> blank s)"

lemma demo_texts: "\<not> blank ''identity.stable_traits''" "\<not> blank ''calm''" "\<not> blank ''seen''" "\<not> blank ''s''"
  "\<not> blank ''o''" "\<not> blank ''h''" "\<not> blank ''r''" "\<not> blank ''user''" "\<not> blank ''x''"
  by (simp_all add: blank_def py_space_def)

lemma demo_lesson_wf:
  "\<not> blank k \<Longrightarrow> 0 \<le> n \<Longrightarrow> texts evidence \<Longrightarrow> texts roots \<Longrightarrow> roots \<noteq> [] \<Longrightarrow> wf_learning_event (demo_lesson k s n evidence roots)"
  by (simp add: wf_learning_event_def demo_lesson_def demo_growth_def wf_mutation_def validate_learning_mutation_def
      texts_def demo_texts learnable_paths_def ensure_def learning_text_run)

lemma demo_note_wf:
  assumes "\<not> blank i" "\<not> blank k" "texts evidence" "texts roots" "type \<notin> {Lr_GROWTH_PREPARED, Lr_GROWTH_SUPERSEDED}"
  shows "wf_learning_record (demo_note i k type s evidence roots)"
proof -
  have t: "learning_texts (str_list evidence) n = Inr evidence" "learning_texts (str_list roots) n = Inr roots" "distinct roots" for n
    using assms(3,4) by (auto simp: texts_def learning_texts_id)
  have o: "learning_text_optional PNone n = Inr None" for n using learning_text_run(2) [of None n] by simp
  show ?thesis
    using assms(1,2,5) t o
    by (simp add: wf_learning_record_def learning_record_recheck_def learning_record_init_def learning_record_args_of_def
      demo_note_def demo_texts learning_text_run learnable_paths_def ensure_def growth_pending_check_def
      growth_resolution_check_def learning_json_run)
qed

text \<open>Candidate a has been validated with b and c; d and e are two more of the kind.\<close>

definition demo_lessons :: "learning_event list" where
  "demo_lessons = [demo_lesson ''a'' Ls_VALIDATED 1 [''a'', ''b'', ''c''] [''ra'', ''rb'', ''rc''],
     demo_lesson ''b'' Ls_PENDING 0 [] [''rb''], demo_lesson ''c'' Ls_PENDING 0 [] [''rc''],
     demo_lesson ''d'' Ls_PENDING 0 [] [''rd''], demo_lesson ''e'' Ls_PENDING 0 [] [''re'']]"

definition demo_notes :: "learning_record list" where
  "demo_notes = map (\<lambda>(i, k, q). demo_note i k Lr_CANDIDATE_CREATED Ls_PENDING [k] [q])
     [(''1'', ''a'', ''ra''), (''2'', ''b'', ''rb''), (''3'', ''c'', ''rc''), (''4'', ''d'', ''rd''), (''5'', ''e'', ''re'')] @
     [demo_note ''6'' ''a'' Lr_VALIDATED Ls_VALIDATED [''a'', ''b'', ''c''] [''ra'', ''rb'', ''rc'']]"

definition demo_learning_store :: learning_store where
  "demo_learning_store = (\<lambda>_. File_Absent)(''s'' := File_Doc (PDict (learning_document ''s'' demo_lessons [] demo_notes)))"

definition plain_canon :: canon_fun where
  "plain_canon v = Inr []"

definition demo_learning_ports :: learning_ports where
  "demo_learning_ports = \<lparr>lp_canon = plain_canon, lp_sha = (\<lambda>s. s), lp_disk_ok = True, lp_now = Abs_instant 5,
     lp_record_now = Abs_instant 7, lp_learning_uuid = ''l'', lp_record_uuid = ''7'', lp_trait_uuid = ''t'',
     lp_event_uuid = ''e'', lp_resource = None,
     lp_memory = \<lparr>mp_load = (\<lambda>_ _ _. Inl (MemoryNotFoundError, [])), mp_usable = (\<lambda>_ _ _. Inr True)\<rparr>,
     lp_verifier = None, lp_sum = sum_list, lp_float_text = (\<lambda>_. Inr 0), lp_str = (\<lambda>_. ''?'')\<rparr>"

lemma demo_names: "\<not> blank ''a''" "\<not> blank ''b''" "\<not> blank ''c''" "\<not> blank ''d''" "\<not> blank ''e''"
  "\<not> blank ''ra''" "\<not> blank ''rb''" "\<not> blank ''rc''" "\<not> blank ''rd''" "\<not> blank ''re''"
  "\<not> blank ''1''" "\<not> blank ''2''" "\<not> blank ''3''" "\<not> blank ''4''" "\<not> blank ''5''" "\<not> blank ''6''" "\<not> blank ''7''"
  by (simp_all add: blank_def py_space_def)

lemma demo_parts [simp]:
  "le_learning_id (demo_lesson k s n ev roots) = k" "le_root_evidence_ids (demo_lesson k s n ev roots) = roots"
  "le_validation_status (demo_lesson k s n ev roots) = s" "le_revision (demo_lesson k s n ev roots) = n"
  "le_proposed_change (demo_lesson k s n ev roots) = demo_growth" "le_confidence (demo_lesson k s n ev roots) = 1"
  "le_source_memory_id (demo_lesson k s n ev roots) = None" "le_subject_id (demo_lesson k s n ev roots) = ''s''"
  "le_created_at (demo_lesson k s n ev roots) = Abs_instant 5"
  "lr_learning_id (demo_note i k t s ev roots) = k" "lr_root_evidence_ids (demo_note i k t s ev roots) = roots"
  "lr_record_type (demo_note i k t s ev roots) = t" "lr_growth_resolution (demo_note i k t s ev roots) = PNone"
  "lr_record_id (demo_note i k t s ev roots) = i" "lr_original_experience (demo_note i k t s ev roots) = PStr ''x''"
  "lr_source (demo_note i k t s ev roots) = ''user''" "lr_subject_id (demo_note i k t s ev roots) = ''s''"
  by (simp_all add: demo_lesson_def demo_note_def)

lemma demo_on_file: "on_file plain_canon (\<lambda>s. s) demo_learning_store ''s'' demo_lessons [] demo_notes"
  unfolding on_file_def sound_learning_def
  by (intro conjI)
    (simp_all add: demo_learning_store_def demo_lessons_def demo_notes_def demo_lesson_wf demo_note_wf texts_def demo_names)

lemma demo_disciplined: "disciplined demo_lessons [] demo_notes"
  by (simp add: disciplined_def consolidates_def demo_lessons_def demo_notes_def)

lemma demo_good: "good_store plain_canon (\<lambda>s. s) demo_learning_store"
  using demo_on_file demo_disciplined
  by (auto simp: good_store_def good_file_def on_file_def demo_learning_store_def is_file_def)

text \<open>A change of a candidate on file is saved.\<close>

lemma candidate_save_run:
  assumes d: "on_file canon sha st i es ts rs" "\<not> blank i" and p: "find_candidate (le_learning_id e) es = Some p"
    "le_revision e = le_revision p + 1"
    and r: "wf_learning_record r" "lr_learning_id r = le_learning_id e" "lr_record_id r \<notin> lr_record_id ` set rs"
      "lr_root_evidence_ids r = le_root_evidence_ids e" "le_subject_id e = i" "lr_subject_id r = i"
    and none: "\<forall>q \<in> set (rs @ [r]). lr_growth_resolution q = PNone"
  obtains st' where "learning_save canon sha True i e r None st = Inr st'"
proof -
  have s: "sound_learning canon sha es ts rs" using d(1) by (simp add: on_file_def)
  have doc: "document_of canon sha st i es ts rs" using d(1) by (simp add: document_of_def)
  have dec: "rmap learning_event_from_dict (map learning_event_to_dict es) = Inr es"
    "rmap trait_from_dict (map trait_to_dict ts) = Inr ts"
    "rmap learning_record_from_dict (map learning_record_to_dict rs) = Inr rs"
    using s decode_written by (simp_all add: sound_learning_def)
  have "\<forall>q \<in> set (rs @ [r]). wf_learning_record q" using s r(1) by (auto simp: sound_learning_def)
  note new = decode_written(3) [OF this]
  have "\<forall>q \<in> set (map snd xs). lr_growth_resolution q = PNone \<Longrightarrow> check_resolutions canon sha qs xs [] = Inr ()" for qs xs
    by (induction xs) auto
  from this [of "enumerate 0 (rs @ [r])"] none
  have "check_resolutions canon sha (rs @ [r]) (enumerate 0 (rs @ [r])) [] = Inr ()" by (simp only: map_snd_enumerate)
  then have v: "validate_growth_resolutions canon sha (map learning_record_to_dict (rs @ [r])) = Inr ()"
    by (simp only: validate_growth_resolutions_def new rbind_simps)
  have w: "learning_path sha i = Inr (sha i)" "learning_record_recheck r = Inr r" "is_file (st (sha i))"
    "st (sha i) \<noteq> File_Not_A_File"
    using d r(1) by (simp_all add: learning_path_def wf_learning_record_def on_file_def is_file_def)
  have doc: "read_learning_document canon sha (st (sha i)) = Inr (learning_document i es ts rs)"
    using document_read [OF doc] w(3) by simp
  have n: "List.find (\<lambda>q. lr_record_id q = lr_record_id r) rs = None" using r(3) by (simp add: find_absent)
  show thesis
    by (rule that) (simp add: learning_save_def doc dec w n v r ensure_def p put_candidate_def put_trait_def
      write_learning_document_def del: append.simps map_append)
qed

lemma fl_one: "fl 1 = 1"
  using fl_int [of 1] by simp

lemma demo_confidence: "validation_confidence demo_learning_ports 1 qs = 1"
  by (simp add: validation_confidence_def Let_def round6_def round_even_def fl_one max_absorb1)

lemma demo_ports_parts [simp]:
  "lp_canon demo_learning_ports = plain_canon" "lp_sha demo_learning_ports = (\<lambda>s. s)"
  "lp_disk_ok demo_learning_ports = True" "lp_record_uuid demo_learning_ports = ''7''"
  "lp_record_now demo_learning_ports = Abs_instant 7" "lp_now demo_learning_ports = Abs_instant 5"
  by (simp_all add: demo_learning_ports_def)

lemma lesson_load:
  "load_learning_event plain_canon (\<lambda>s. s) ''s'' k demo_learning_store = (case find_candidate k demo_lessons of
    None \<Rightarrow> Inl (LearningNotFoundError, ''learning candidate not found: '' @ k) | Some e \<Rightarrow> Inr e)"
  using load_event_run [OF demo_on_file demo_texts(4), of k] by (simp del: append.simps)

lemma demo_history:
  "k \<in> {''a'', ''b'', ''c'', ''d'', ''e''} \<Longrightarrow> learning_history plain_canon (\<lambda>s. s) ''s'' (Some k) demo_learning_store =
    Inr (filter (\<lambda>r. lr_learning_id r = k) demo_notes)"
  using history_run [OF demo_on_file demo_texts(4), of k] by (auto simp: demo_lessons_def simp del: append.simps)

lemma demo_traits: "list_traits plain_canon (\<lambda>s. s) ''s'' b demo_learning_store = Inr []"
  using list_traits_run [OF demo_on_file demo_texts(4), of b] by simp

lemma demo_found:
  "find_candidate ''a'' demo_lessons = Some (demo_lesson ''a'' Ls_VALIDATED 1 [''a'', ''b'', ''c''] [''ra'', ''rb'', ''rc''])"
  "find_candidate ''d'' demo_lessons = Some (demo_lesson ''d'' Ls_PENDING 0 [] [''rd''])"
  "find_candidate ''e'' demo_lessons = Some (demo_lesson ''e'' Ls_PENDING 0 [] [''re''])"
  by (simp_all add: find_candidate_def demo_lessons_def)

text \<open>Without a memory and without a captured source there is nothing to verify.\<close>

lemma support_free:
  assumes "lp_history lp i (Some (le_learning_id e)) st = Inr h" "origin_binding (origins_of h) ''p15_source_binding'' = PNone"
    "take 13 (le_learning_id e) \<noteq> ''p15-learning:''" "\<forall>r \<in> set (origins_of h). lr_source r \<noteq> ''p15-c1-experience''"
    "le_source_memory_id e = None"
  shows "verify_memory_support lp i e st = Inr ()"
  using assms by (simp add: verify_memory_support_def ensure_def Let_def)

lemma demo_support:
  assumes "k \<in> {''a'', ''d'', ''e''}"
  shows "verify_memory_support demo_learning_ports ''s'' (the (find_candidate k demo_lessons)) demo_learning_store = Inr ()"
  using assms
  by (elim insertE emptyE; hypsubst; intro support_free [where h = "filter (\<lambda>r. lr_learning_id r = k) demo_notes"])
    (simp_all add: demo_found demo_history demo_notes_def origins_of_def origin_binding_def)

lemma lesson_ready:
  "require_mutable_candidate demo_learning_ports ''s'' (demo_lesson ''a'' Ls_VALIDATED 1 [''a'', ''b'', ''c''] [''ra'', ''rb'', ''rc''])
     demo_learning_store = Inr ()"
  by (simp add: require_mutable_candidate_def has_active_consolidation_def demo_history demo_traits ensure_def)

lemma demo_copy: "learning_event_copy (demo_lesson ''a'' Ls_VALIDATED 1 [''a'', ''b'', ''c''] [''ra'', ''rb'', ''rc'']) =
    Inr (demo_lesson ''a'' Ls_VALIDATED 1 [''a'', ''b'', ''c''] [''ra'', ''rb'', ''rc''])"
  by (intro learning_event_copy_run demo_lesson_wf) (simp_all add: demo_names texts_def)

definition demo_again :: learning_event where
  "demo_again = demo_lesson ''a'' Ls_VALIDATED 2 [''a'', ''d'', ''e''] [''ra'', ''rb'', ''rc'', ''rd'', ''re'']"

lemma demo_again_update:
  "(demo_lesson ''a'' Ls_VALIDATED 1 [''a'', ''b'', ''c''] [''ra'', ''rb'', ''rc''])\<lparr>le_confidence := 1,
     le_evidence_learning_ids := [''a'', ''d'', ''e''], le_root_evidence_ids := [''ra'', ''rb'', ''rc'', ''rd'', ''re''],
     le_validation_status := Ls_VALIDATED, le_revision := 1 + 1\<rparr> = demo_again"
  by (simp add: demo_lesson_def demo_again_def)

lemma demo_again_check: "learning_event_recheck demo_again = Inr demo_again"
  unfolding demo_again_def by (intro learning_event_recheck_run demo_lesson_wf) (simp_all add: demo_names texts_def)

lemma demo_roots: "collect_roots demo_learning_ports ''s''
    [demo_lesson ''a'' Ls_VALIDATED 1 [''a'', ''b'', ''c''] [''ra'', ''rb'', ''rc''], demo_lesson ''d'' Ls_PENDING 0 [] [''rd''],
     demo_lesson ''e'' Ls_PENDING 0 [] [''re'']] {} demo_learning_store = Inr {''ra'', ''rb'', ''rc'', ''rd'', ''re''}"
  using demo_support [of "''a''"] demo_support [of "''d''"] demo_support [of "''e''"]
  by (simp add: demo_found ensure_def) auto

lemma demo_sorted: "sorted_list_of_set {''ra'', ''rb'', ''rc'', ''rd'', ''re''} = [''ra'', ''rb'', ''rc'', ''rd'', ''re'']"
  by code_simp

definition demo_revalidation :: learning_record where
  "demo_revalidation = (demo_note ''7'' ''a'' Lr_VALIDATED Ls_VALIDATED [''a'', ''d'', ''e''] [''ra'', ''rb'', ''rc'', ''rd'', ''re''])
     \<lparr>lr_before_value := PFloat 1, lr_after_value := PFloat 1, lr_reason := ''again'', lr_created_at := Abs_instant 7\<rparr>"

lemma demo_record: "record_for demo_learning_ports demo_again Lr_VALIDATED Ls_VALIDATED False (PFloat 1) (PFloat 1) ''again'' ''user''
    None None demo_learning_store = Inr demo_revalidation"
proof -
  have o: "learning_text_optional PNone n = Inr None" for n using learning_text_run(2) [of None n] by simp
  have t: "learning_texts (str_list [''a'', ''d'', ''e'']) n = Inr [''a'', ''d'', ''e'']"
    "learning_texts (str_list [''ra'', ''rb'', ''rc'', ''rd'', ''re'']) n = Inr [''ra'', ''rb'', ''rc'', ''rd'', ''re'']" for n
    by (rule learning_texts_id; simp add: demo_names)+
  have b: "\<not> blank ''again''" by (simp add: blank_def py_space_def)
  have x: "original_experience_of demo_learning_ports ''s'' ''a'' demo_learning_store = Inr (PStr ''x'')"
    by (simp add: original_experience_of_def demo_history demo_notes_def)
  have c: "learning_record_type_of e (PStr ''VALIDATED'') = Inr Lr_VALIDATED" "learning_status_of e (PStr ''VALIDATED'') = Inr Ls_VALIDATED" for e
    using learning_enum_run(2) [of e Lr_VALIDATED] learning_enum_run(1) [of e Ls_VALIDATED] by simp_all
  show ?thesis
    using t x
    by (simp add: record_for_def learning_record_init_def demo_again_def demo_lesson_def demo_growth_def demo_names demo_texts b o c
      learning_text_run learnable_paths_def ensure_def growth_pending_check_def growth_resolution_check_def learning_json_run
      demo_revalidation_def demo_note_def)
qed

lemma demo_validate:
  obtains st' where "validate_learning demo_learning_ports ''s'' ''a'' [''d'', ''e''] ''again'' ''user'' demo_learning_store =
    (st', Inr \<lparr>lc_event = demo_again, lc_record = demo_revalidation, lc_trait = None, lc_state_event = None\<rparr>)"
proof -
  have "wf_learning_record demo_revalidation"
    using demo_record learning_record_init_wf by (auto simp: record_for_def rbind_eq_Inr)
  then obtain st' where save: "learning_save plain_canon (\<lambda>s. s) True ''s'' demo_again demo_revalidation None demo_learning_store = Inr st'"
    by (rule candidate_save_run [OF demo_on_file demo_texts(4), rotated 2])
      (auto simp: demo_again_def demo_found demo_revalidation_def demo_notes_def demo_note_def)
  have read: "g st = Inr x \<Longrightarrow> sbind (sread g) f st = f x st" and lift: "v = Inr x \<Longrightarrow> sbind (slift v) f st = f x st"
    for g :: "learning_store \<Rightarrow> 'x res" and v :: "'x res" and f :: "'x \<Rightarrow> (learning_store, learning_change) prog" and x st
    by (simp_all add: sbind_def sread_def slift_def)
  note parts = demo_parts(1-6) [of "''a''" Ls_VALIDATED 2 "[''a'', ''d'', ''e'']" "[''ra'', ''rb'', ''rc'', ''rd'', ''re'']",
      folded demo_again_def]
  have last: "sbind (lp_save demo_learning_ports ''s'' demo_again demo_revalidation None) (\<lambda>_. sret y) demo_learning_store = (st', Inr y)" for y :: learning_change
    by (simp add: lp_save_def sbind_def swrite_def save sret_def)
  have keys: "fromkeys [''a'', ''d'', ''e''] = [''a'', ''d'', ''e'']" by simp
  have enough: "((3 :: rat) / 4 \<le> 1) = True" by simp
  show thesis
    apply (rule that)
    unfolding validate_learning_def Let_def save_candidate_def
    apply (subst read, simp add: lesson_load demo_found)
    apply (subst read, rule lesson_ready)
    apply (subst lift, simp add: ensure_def)
    apply (subst read, simp add: lesson_load demo_found)
    apply (subst lift, simp add: ensure_def)
    apply (subst read, rule demo_roots)
    apply (subst lift, simp add: ensure_def)
    apply (subst lift, rule demo_copy)
    apply (subst lift, simp only: demo_parts demo_confidence demo_sorted enough if_True keys demo_again_update,
      rule demo_again_check)
    apply (subst read, simp only: parts if_True simp_thms demo_parts, rule demo_record)
    apply (rule last)
    done
qed

section \<open>A first candidate\<close>

lemma lesson_created: "\<exists>doc. fst (create_candidate demo_learning_ports ''s'' (Some ''a'') None 0 (PStr ''o'') (PStr ''h'') demo_growth (PFloat 1)
    (PStr ''x'') ''r'' ''user'' (Some ''a'') [] (\<lambda>_. File_Absent)) ''s'' = File_Doc doc"
proof -
  let ?e = "demo_lesson ''a'' Ls_PENDING 0 [] [''event:a'']"
  let ?r = "demo_note ''7'' ''a'' Lr_CANDIDATE_CREATED Ls_PENDING [''a''] [''event:a'']"
  have b: "\<not> blank ''event:a''" by (simp add: blank_def py_space_def)
  have o: "learning_text_optional PNone n = Inr None" "learning_text_optional (PStr ''a'') n = Inr (Some ''a'')" for n
    using learning_text_run(2) [of None n] learning_text_run(2) [of "Some ''a''" n] demo_names(1) by simp_all
  have l: "learning_status_of x (PStr ''PENDING'') = Inr Ls_PENDING"
    "learning_record_type_of x (PStr ''CANDIDATE_CREATED'') = Inr Lr_CANDIDATE_CREATED" for x
    by simp_all
  have t: "learning_texts (PList []) n = Inr []" "learning_texts (PList [PStr ''a'']) n = Inr [''a'']"
    "learning_texts (PList [PStr ''event:a'']) n = Inr [''event:a'']" for n
    using learning_texts_id [of "[]" n] learning_texts_id [of "[''a'']" n] learning_texts_id [of "[''event:a'']" n] demo_names b
    by simp_all
  have e: "learning_event_init
       \<lparr>lea_learning_id = PStr (given_or_uuid (Some ''a'') (lp_learning_uuid demo_learning_ports)), lea_subject_id = PStr ''s'',
        lea_source_event_id = opt_val PStr (Some ''a''), lea_source_memory_id = opt_val PStr None,
        lea_related_state_revision = PInt 0, lea_observation = PStr ''o'', lea_hypothesis = PStr ''h'',
        lea_proposed_change = demo_growth, lea_confidence = PFloat 1,
        lea_validation_status = PStr (learning_status_value Ls_PENDING), lea_created_at = utc_val (lp_now demo_learning_ports),
        lea_revision = PInt 0, lea_evidence_learning_ids = PList [], lea_root_evidence_ids = PList []\<rparr> = Inr ?e"
    by (simp add: learning_event_init_def given_or_uuid_def learning_text_run demo_names demo_texts o t l ensure_def
        validate_learning_mutation_def demo_growth_def learnable_paths_def source_identity_def demo_lesson_def)
  have r: "learning_record_init
       \<lparr>lra_record_id = PStr (lp_record_uuid demo_learning_ports), lra_learning_id = PStr (le_learning_id ?e),
        lra_subject_id = PStr ''s'', lra_record_type = PStr (learning_record_value Lr_CANDIDATE_CREATED),
        lra_original_experience = PStr ''x'', lra_observation = PStr ''o'', lra_hypothesis = PStr ''h'',
        lra_validation_status = PStr (learning_status_value Ls_PENDING), lra_permanently_consolidated = PBool False,
        lra_field_path = PStr (sm_field_path demo_growth), lra_before_value = PNone,
        lra_after_value = sm_value demo_growth, lra_reason = PStr ''r'', lra_source = PStr ''user'',
        lra_created_at = utc_val (lp_now demo_learning_ports), lra_evidence_learning_ids = str_list [le_learning_id ?e],
        lra_root_evidence_ids = str_list (le_root_evidence_ids ?e), lra_trait_id = PNone,
        lra_state_event_id = PNone, lra_pending_state_event = PNone, lra_growth_operation = PNone,
        lra_growth_resolution = PNone\<rparr> = Inr ?r"
    by (simp add: learning_record_init_def learning_text_run demo_names demo_texts o t l ensure_def demo_growth_def
        learnable_paths_def growth_pending_check_def growth_resolution_check_def learning_json_run demo_note_def)
  have w: "learning_record_recheck ?r = Inr ?r" using learning_record_init_wf [OF r] by (simp add: wf_learning_record_def)
  have v: "validate_growth_resolutions plain_canon (\<lambda>s. s) [learning_record_to_dict ?r] = Inr ()"
    using decode_written(3) [of "[?r]"] learning_record_init_wf [OF r] by (simp add: validate_growth_resolutions_def)
  have "\<exists>st'. learning_save plain_canon (\<lambda>s. s) True ''s'' ?e ?r None (\<lambda>_. File_Absent) = Inr st' \<and> (\<exists>doc. st' ''s'' = File_Doc doc)"
    by (simp add: learning_save_def w learning_path_def demo_texts is_file_def empty_learning_document_def ensure_def v
        put_candidate_def put_trait_def find_candidate_def write_learning_document_def)
  then obtain st' where "learning_save plain_canon (\<lambda>s. s) True ''s'' ?e ?r None (\<lambda>_. File_Absent) = Inr st'" "\<exists>doc. st' ''s'' = File_Doc doc"
    by blast
  with e r show ?thesis
    by (simp add: create_candidate_def bind_memory_def sbind_def slift_def lp_save_def swrite_def sret_def)
qed

section \<open>A rejected candidate\<close>

definition refused_lessons :: "learning_event list" where
  "refused_lessons = [demo_lesson ''a'' Ls_REJECTED 1 [] [''ra'']]"

definition refused_notes :: "learning_record list" where
  "refused_notes = [demo_note ''1'' ''a'' Lr_CANDIDATE_CREATED Ls_PENDING [''a''] [''ra''],
     demo_note ''2'' ''a'' Lr_REJECTED Ls_REJECTED [''a''] [''ra'']]"

definition refused_store :: learning_store where
  "refused_store = (\<lambda>_. File_Absent)(''s'' := File_Doc (PDict (learning_document ''s'' refused_lessons [] refused_notes)))"

lemma refused_on_file: "on_file plain_canon (\<lambda>s. s) refused_store ''s'' refused_lessons [] refused_notes"
  unfolding on_file_def sound_learning_def
  by (intro conjI)
    (simp_all add: refused_store_def refused_lessons_def refused_notes_def demo_lesson_wf demo_note_wf texts_def demo_names)

lemma refused_good: "good_store plain_canon (\<lambda>s. s) refused_store"
proof -
  have "disciplined refused_lessons [] refused_notes"
    by (simp add: disciplined_def consolidates_def refused_lessons_def refused_notes_def)
  with refused_on_file show ?thesis
    by (auto simp: good_store_def good_file_def on_file_def refused_store_def is_file_def)
qed

lemma refused_load: "load_learning_event plain_canon (\<lambda>s. s) ''s'' ''a'' refused_store = Inr (demo_lesson ''a'' Ls_REJECTED 1 [] [''ra''])"
  using load_event_run [OF refused_on_file demo_texts(4), of "''a''"] by (simp add: refused_lessons_def find_candidate_def)

end
