(* ===== verification/Learning_Properties.thy ===== *)
theory Learning_Properties
  imports Learning_Demo
begin

text \<open>
  What holds of learning through every run of calls: the books of a subject are kept, a rejected
  candidate stays rejected, no experience counts twice, and what a second validation does.
\<close>

section \<open>Validation\<close>

text \<open>The steps of a call that returns.\<close>

lemma returned_read:
  "sbind (sread g) f s = (s', Inr y) \<Longrightarrow> (\<And>x. g s = Inr x \<Longrightarrow> f x s = (s', Inr y) \<Longrightarrow> thesis) \<Longrightarrow> thesis"
  by (cases "g s") (simp_all add: sbind_def sread_def)

lemma returned_lift:
  "sbind (slift v) f s = (s', Inr y) \<Longrightarrow> (\<And>x. v = Inr x \<Longrightarrow> f x s = (s', Inr y) \<Longrightarrow> thesis) \<Longrightarrow> thesis"
  by (cases v) (simp_all add: sbind_def slift_def)

lemma returned_save:
  "sbind (lp_save lp i e r t) (\<lambda>_. sret z) s = (s', Inr y) \<Longrightarrow>
     (learning_save (lp_canon lp) (lp_sha lp) (lp_disk_ok lp) i e r t s = Inr s' \<Longrightarrow> y = z \<Longrightarrow> thesis) \<Longrightarrow> thesis"
  by (cases "learning_save (lp_canon lp) (lp_sha lp) (lp_disk_ok lp) i e r t s")
    (simp_all add: sbind_def lp_save_def swrite_def sret_def)

lemmas returned = returned_read returned_lift returned_save

lemma collect_roots_apart:
  "collect_roots lp i es seen st = Inr roots \<Longrightarrow> (\<forall>e \<in> set es. seen \<inter> set (le_root_evidence_ids e) = {}) \<and>
     (\<forall>a < length es. \<forall>b < a. set (le_root_evidence_ids (es ! b)) \<inter> set (le_root_evidence_ids (es ! a)) = {})"
proof (induction es arbitrary: seen)
  case (Cons e es)
  then have h: "seen \<inter> set (le_root_evidence_ids e) = {}"
    "collect_roots lp i es (seen \<union> set (le_root_evidence_ids e)) st = Inr roots"
    by (auto simp: rbind_eq_Inr)
  from Cons.IH [OF h(2)] have ih: "\<forall>x \<in> set es. (seen \<union> set (le_root_evidence_ids e)) \<inter> set (le_root_evidence_ids x) = {}"
    "\<forall>a < length es. \<forall>b < a. set (le_root_evidence_ids (es ! b)) \<inter> set (le_root_evidence_ids (es ! a)) = {}"
    by blast+
  have "set (le_root_evidence_ids ((e # es) ! b)) \<inter> set (le_root_evidence_ids ((e # es) ! a)) = {}"
    if "a < length (e # es)" "b < a" for a b
  proof (cases b)
    case 0
    with that have "(e # es) ! a \<in> set es" by (cases a) auto
    with ih(1) 0 show ?thesis by auto
  next
    case (Suc b')
    with that obtain a' where "a = Suc a'" by (cases a) auto
    with Suc ih(2) that show ?thesis by simp
  qed
  with h(1) ih(1) show ?case by (auto simp: Int_Un_distrib2)
qed simp

lemma collect_roots_card:
  "collect_roots lp i es seen st = Inr roots \<Longrightarrow> finite seen \<Longrightarrow> \<forall>e \<in> set es. distinct (le_root_evidence_ids e) \<Longrightarrow>
     card roots = card seen + (\<Sum>e\<leftarrow>es. length (le_root_evidence_ids e))"
proof (induction es arbitrary: seen)
  case (Cons e es)
  then have h: "seen \<inter> set (le_root_evidence_ids e) = {}"
    "collect_roots lp i es (seen \<union> set (le_root_evidence_ids e)) st = Inr roots"
    by (auto simp: rbind_eq_Inr)
  from Cons.IH [OF h(2)] Cons.prems(2,3) h(1) show ?case
    by (simp add: card_Un_disjoint distinct_card)
qed simp

lemma rmap_results:
  "rmap f xs = Inr ys \<Longrightarrow> length ys = length xs"
  "rmap f xs = Inr ys \<Longrightarrow> y \<in> set ys \<Longrightarrow> \<exists>x \<in> set xs. f x = Inr y"
  "rmap f xs = Inr ys \<Longrightarrow> x \<in> set xs \<Longrightarrow> \<exists>y \<in> set ys. f x = Inr y"
  by (induction xs arbitrary: ys) (auto simp: rbind_eq_Inr)

text \<open>What a validation that returns found, and what it leaves.\<close>

definition validated_from ::
  "learning_ports \<Rightarrow> string \<Rightarrow> string \<Rightarrow> string list \<Rightarrow> learning_store \<Rightarrow> learning_event \<Rightarrow> learning_event list
     \<Rightarrow> learning_event \<Rightarrow> bool" where
  "validated_from lp i j corroborating st p ev e \<longleftrightarrow> lp_load lp i j st = Inr p \<and>
     rmap (\<lambda>k. lp_load lp i k st) (fromkeys (j # corroborating)) = Inr ev \<and> 3 \<le> length (fromkeys (j # corroborating)) \<and>
     (\<forall>x \<in> set ev. le_validation_status x \<notin> {Ls_REJECTED, Ls_REVOKED} \<and>
        mutation_signature (le_proposed_change x) = mutation_signature (le_proposed_change p)) \<and>
     (\<exists>seen. collect_roots lp i ev {} st = Inr seen \<and> le_root_evidence_ids e = sorted_list_of_set seen) \<and>
     le_evidence_learning_ids e = fromkeys (j # corroborating) \<and> candidate_core e = candidate_core p \<and>
     le_revision e = le_revision p + 1 \<and> (le_validation_status e = Ls_VALIDATED \<longleftrightarrow> 3 / 4 \<le> le_confidence e)"

lemma validate_run:
  assumes good: "good_store (lp_canon lp) (lp_sha lp) st"
    and run: "validate_learning lp i j corroborating reason source st = (st', Inr c)"
  obtains p ev es ts rs es' ts' r where
    "validated_from lp i j corroborating st p ev (lc_event c)" "\<not> blank i"
    "on_file (lp_canon lp) (lp_sha lp) st i es ts rs" "disciplined es ts rs"
    "on_file (lp_canon lp) (lp_sha lp) st' i es' ts' (rs @ [r])" "set es' = insert (lc_event c) (set es - {p})"
    "lr_record_type r \<noteq> Lr_CANDIDATE_CREATED"
proof -
  let ?ids = "fromkeys (j # corroborating)"
  from run obtain p u ev seen copy e b where load: "lp_load lp i j st = Inr p"
    and free: "require_mutable_candidate lp i p st = Inr u"
    and three: "3 \<le> length ?ids" and ev: "rmap (\<lambda>k. lp_load lp i k st) ?ids = Inr ev"
    and sound: "\<forall>x \<in> set ev. le_validation_status x \<notin> {Ls_REJECTED, Ls_REVOKED}"
    and seen: "collect_roots lp i ev {} st = Inr seen"
    and same: "\<forall>x \<in> set ev. mutation_signature (le_proposed_change x) = mutation_signature (le_proposed_change p)"
    and copy: "learning_event_copy p = Inr copy"
    and e: "learning_event_recheck (copy\<lparr>le_confidence := validation_confidence lp (le_confidence p) (map le_confidence ev),
       le_evidence_learning_ids := ?ids, le_root_evidence_ids := sorted_list_of_set seen,
       le_validation_status := if 3 / 4 \<le> validation_confidence lp (le_confidence p) (map le_confidence ev)
         then Ls_VALIDATED else Ls_PENDING, le_revision := le_revision copy + 1\<rparr>) = Inr e"
    and b: "record_for lp e (if le_validation_status e = Ls_VALIDATED then Lr_VALIDATED else Lr_CONFIDENCE_ADJUSTED)
       (le_validation_status e) False (PFloat (le_confidence p)) (PFloat (le_confidence e)) reason source None None st = Inr b"
    and save: "learning_save (lp_canon lp) (lp_sha lp) (lp_disk_ok lp) i e b None st = Inr st'"
    and c: "lc_event c = e"
    unfolding validate_learning_def save_candidate_def Let_def
    by (elim returned) (rule that; (assumption | simp only: ensure_eq_Inr learning_change.select_convs))
  note copied = loaded_copy [OF good load copy]
  from ev load have "p \<in> set ev" by (auto simp: rbind_eq_Inr)
  with collect_roots_Inr [OF seen] have roots: "set (le_root_evidence_ids p) \<subseteq> seen" "finite seen" by auto
  obtain es ts rs where d: "on_file (lp_canon lp) (lp_sha lp) st i es ts rs" "disciplined es ts rs" "\<not> blank i"
    "find_candidate j es = Some p" "le_learning_id e = j" "admissible es ts rs e b None"
    by (rule candidate_admissible [OF good load free e _ _ _ b]) (use roots in \<open>simp_all add: copied\<close>)
  have "p \<in> set es" using found_facts(1) [OF d(1,4)] .
  note again = candidate_recheck [OF e]
  from roots \<open>p \<in> set es\<close> found_facts(5) [OF d(1,4)] have "sorted_list_of_set seen \<noteq> []" by auto
  with again copied have e': "candidate_core e = candidate_core p" "le_revision e = le_revision p + 1"
    "le_root_evidence_ids e = sorted_list_of_set seen" "le_evidence_learning_ids e = ?ids"
    "le_validation_status e = Ls_VALIDATED \<longleftrightarrow> 3 / 4 \<le> le_confidence e"
    by (simp_all split: if_splits)
  from e' load ev three sound same seen have v: "validated_from lp i j corroborating st p ev (lc_event c)"
    unfolding validated_from_def c by blast
  have doc: "document_of (lp_canon lp) (lp_sha lp) st i es ts rs" using d(1) by (simp add: document_of_def)
  show thesis
  proof (rule saved_change [OF doc d(2,3,6) save])
    assume "\<exists>p. find_candidate (le_learning_id e) es = Some p \<and> le_revision p = le_revision e"
    with d(4,5) e'(2) show thesis by auto
  next
    fix es' ts' r
    assume n: "st' = st(lp_sha lp i := File_Doc (PDict (learning_document i es' ts' (rs @ [r]))))"
      "sound_learning (lp_canon lp) (lp_sha lp) es' ts' (rs @ [r])" "changed_document es ts rs e r None es' ts'"
      "learning_record_recheck b = Inr r"
    have "lr_record_type r \<noteq> Lr_CANDIDATE_CREATED"
      using recheck_fields(2) [OF n(4)] record_for_type [OF b] by auto
    moreover have "set es' = insert e (set es - {p})" using n(3) d(4,5) by (simp add: changed_document_def)
    ultimately show thesis using that [OF v d(3,1,2)] n(1,2) c by (simp add: on_file_def)
  qed
qed

text \<open>
  C26: a validation that returns rests on at least three candidates, none of them rejected or revoked,
  that all propose the change of the target and of which no two share a root experience; its roots
  are all of theirs, each counted once, it is validated iff its confidence reaches three quarters,
  and this is what the repository returns from then on.
\<close>

theorem validation_counts_roots_once:
  assumes good: "good_store (lp_canon lp) (lp_sha lp) st"
    and run: "validate_learning lp i j corroborating reason source st = (st', Inr c)"
  shows "\<exists>p ev. lp_load lp i j st = Inr p \<and> rmap (\<lambda>k. lp_load lp i k st) (fromkeys (j # corroborating)) = Inr ev \<and>
    3 \<le> length ev \<and>
    (\<forall>x \<in> set ev. le_validation_status x \<notin> {Ls_REJECTED, Ls_REVOKED} \<and>
       mutation_signature (le_proposed_change x) = mutation_signature (le_proposed_change p)) \<and>
    (\<forall>a < length ev. \<forall>b < a. set (le_root_evidence_ids (ev ! b)) \<inter> set (le_root_evidence_ids (ev ! a)) = {}) \<and>
    set (le_root_evidence_ids (lc_event c)) = (\<Union>x \<in> set ev. set (le_root_evidence_ids x)) \<and>
    length (le_root_evidence_ids (lc_event c)) = (\<Sum>x\<leftarrow>ev. length (le_root_evidence_ids x)) \<and>
    (le_validation_status (lc_event c) = Ls_VALIDATED \<longleftrightarrow> 3 / 4 \<le> le_confidence (lc_event c)) \<and>
    lp_load lp i j st' = Inr (lc_event c)"
proof -
  obtain p ev es ts rs es' ts' r where v: "validated_from lp i j corroborating st p ev (lc_event c)" "\<not> blank i"
    and d: "on_file (lp_canon lp) (lp_sha lp) st i es ts rs"
    and d': "on_file (lp_canon lp) (lp_sha lp) st' i es' ts' (rs @ [r])" "set es' = insert (lc_event c) (set es - {p})"
    by (rule validate_run [OF good run])
  obtain seen where seen: "collect_roots lp i ev {} st = Inr seen" "le_root_evidence_ids (lc_event c) = sorted_list_of_set seen"
    using v(1) by (auto simp: validated_from_def)
  have ev: "rmap (\<lambda>k. lp_load lp i k st) (fromkeys (j # corroborating)) = Inr ev" and p: "lp_load lp i j st = Inr p"
    using v(1) unfolding validated_from_def by blast+
  have known: "x \<in> set es" if x: "x \<in> set ev" for x
  proof -
    from rmap_results(2) [OF ev x] obtain k where "lp_load lp i k st = Inr x" by blast
    then show ?thesis
      using load_event_run [OF d v(2), of k] found_facts(1) [OF d, of k] by (auto split: option.splits)
  qed
  have "\<forall>x \<in> set ev. distinct (le_root_evidence_ids x)"
    using known d by (auto simp: on_file_def sound_learning_def wf_learning_event_def)
  from collect_roots_card [OF seen(1) _ this] have total: "card seen = (\<Sum>x\<leftarrow>ev. length (le_root_evidence_ids x))" by simp
  have roots: "finite seen" "seen = (\<Union>x \<in> set ev. set (le_root_evidence_ids x))"
    using collect_roots_Inr [OF seen(1)] by auto
  have three: "3 \<le> length ev" using v(1) rmap_results(1) [OF ev] unfolding validated_from_def by argo
  have "find_candidate j es' = Some (lc_event c)"
  proof -
    have "find_candidate j es = Some p" using p load_event_run [OF d v(2), of j] by (auto split: option.splits)
    from found_facts(2) [OF d this] have "le_learning_id p = j" .
    moreover have "candidate_core (lc_event c) = candidate_core p" using v(1) unfolding validated_from_def by blast
    ultimately have "le_learning_id (lc_event c) = j" using candidate_core_id by metis
    moreover have "sound_learning (lp_canon lp) (lp_sha lp) es' ts' (rs @ [r])" using d'(1) by (simp add: on_file_def)
    ultimately show ?thesis using d'(2) sound_ids(2) by blast
  qed
  then have "lp_load lp i j st' = Inr (lc_event c)" using load_event_run [OF d'(1) v(2), of j] by simp
  moreover have "set (le_root_evidence_ids (lc_event c)) = (\<Union>x \<in> set ev. set (le_root_evidence_ids x))"
    "length (le_root_evidence_ids (lc_event c)) = (\<Sum>x\<leftarrow>ev. length (le_root_evidence_ids x))"
    using roots total by (simp_all add: seen(2))
  ultimately show ?thesis
    using v(1) three collect_roots_apart [OF seen(1)] unfolding validated_from_def by blast
qed

theorem validation_counts_roots_once_witness:
  "\<exists>st' c. validate_learning demo_learning_ports ''s'' ''a'' [''d'', ''e''] ''again'' ''user'' demo_learning_store = (st', Inr c) \<and>
    le_validation_status (lc_event c) = Ls_VALIDATED \<and> length (le_root_evidence_ids (lc_event c)) = 5 \<and>
    lp_load demo_learning_ports ''s'' ''a'' st' = Inr (lc_event c)"
proof -
  obtain st' where run: "validate_learning demo_learning_ports ''s'' ''a'' [''d'', ''e''] ''again'' ''user'' demo_learning_store =
    (st', Inr \<lparr>lc_event = demo_again, lc_record = demo_revalidation, lc_trait = None, lc_state_event = None\<rparr>)"
    by (rule demo_validate)
  have good: "good_store (lp_canon demo_learning_ports) (lp_sha demo_learning_ports) demo_learning_store"
    using demo_good by simp
  have "lp_load demo_learning_ports ''s'' ''a'' st' = Inr demo_again"
    using validation_counts_roots_once [OF good run] unfolding learning_change.select_convs by blast
  with run show ?thesis
    by (intro exI [of _ st'] exI [of _ "\<lparr>lc_event = demo_again, lc_record = demo_revalidation, lc_trait = None, lc_state_event = None\<rparr>"])
      (simp add: demo_again_def)
qed

section \<open>A second validation\<close>

lemma solidify_needs_support:
  assumes "lp_load lp i j st = Inr p" "\<And>q. verify_current_support lp i p st \<noteq> Inr q"
  shows "\<exists>x. solidify_learning lp i j state name description reason source confirmed expected tid growth st = (st, Inl x)"
proof -
  have lift: "\<exists>x. sbind (slift v) f st = (st, Inl x)" if "\<And>y. \<exists>x. f y st = (st, Inl x)" for v :: "'x res" and f
    using that by (cases v) (simp_all add: sbind_def slift_def)
  have load: "\<exists>x. sbind (sread (lp_load lp i j)) f st = (st, Inl x)" if "\<exists>x. f p st = (st, Inl x)" for f
    using that assms(1) by (simp add: sbind_def sread_def)
  have "\<exists>x. sbind (sread (verify_current_support lp i p)) f st = (st, Inl x)" for f
    using assms(2) by (cases "verify_current_support lp i p st") (force simp: sbind_def sread_def)+
  then show ?thesis unfolding solidify_learning_def Let_def by (intro lift load)
qed

lemma support_loop_source:
  "support_loop lp i t js roots qs st = Inr (roots', qs') \<Longrightarrow> x \<in> roots' \<Longrightarrow> x \<notin> roots \<Longrightarrow>
     \<exists>k \<in> set js. \<exists>s. k \<noteq> le_learning_id t \<and> lp_load lp i k st = Inr s \<and> x \<in> set (le_root_evidence_ids s)"
  by (induction lp i t js roots qs st rule: support_loop.induct) (auto simp: rbind_eq_Inr split: if_splits)

text \<open>
  C27: a validation replaces the supporters of a candidate but keeps the roots of the earlier ones. So
  when a candidate that has gained a root by one validation is validated a second time (no supporter
  may share a root with it), it cannot be consolidated: some of its roots are neither its own nor
  those of a current supporter, and the call raises and leaves the store as it is, whatever its
  arguments.
\<close>

theorem second_validation_blocks_solidify:
  assumes good: "good_store (lp_canon lp) (lp_sha lp) st"
    and p: "lp_load lp i j st = Inr p" and h: "lp_history lp i (Some j) st = Inr h" "origins_of h = [origin]"
    and gained: "lr_root_evidence_ids origin \<noteq> []" "\<not> set (le_root_evidence_ids p) \<subseteq> set (lr_root_evidence_ids origin)"
    and run: "validate_learning lp i j corroborating reason source st = (st', Inr c)"
    and same: "lp_canon lp' = lp_canon lp" "lp_sha lp' = lp_sha lp"
  shows "\<exists>x. solidify_learning lp' i j state name description why who confirmed expected tid growth st' = (st', Inl x)"
proof (rule solidify_needs_support)
  obtain p' ev es ts rs es' ts' r where v: "validated_from lp i j corroborating st p' ev (lc_event c)" "\<not> blank i"
    and d: "on_file (lp_canon lp) (lp_sha lp) st i es ts rs"
    and d': "on_file (lp_canon lp) (lp_sha lp) st' i es' ts' (rs @ [r])" "set es' = insert (lc_event c) (set es - {p'})"
      "lr_record_type r \<noteq> Lr_CANDIDATE_CREATED"
    by (rule validate_run [OF good run])
  from v(1) p have "p' = p" by (simp add: validated_from_def)
  note v = v [unfolded this] and d' = d' [unfolded this]
  have sound: "sound_learning (lp_canon lp) (lp_sha lp) es ts rs" "sound_learning (lp_canon lp) (lp_sha lp) es' ts' (rs @ [r])"
    using d d' by (simp_all add: on_file_def)
  have on: "on_file (lp_canon lp') (lp_sha lp') st' i es' ts' (rs @ [r])" using d'(1) same by simp
  have found: "find_candidate j es = Some p" using p load_event_run [OF d v(2), of j] by (auto split: option.splits)
  have core: "candidate_core (lc_event c) = candidate_core p" using v(1) unfolding validated_from_def by blast
  have id: "le_learning_id (lc_event c) = j" using candidate_core_id [OF core] found_facts(2) [OF d found] by simp
  have "find_candidate j es' = Some (lc_event c)" using id d'(2) sound_ids(2) [OF sound(2)] by blast
  then show load: "lp_load lp' i j st' = Inr (lc_event c)" using load_event_run [OF on v(2), of j] by simp
  fix q
  obtain x where x: "x \<in> set (le_root_evidence_ids p)" "x \<notin> set (lr_root_evidence_ids origin)" using gained(2) by blast
  have ev: "rmap (\<lambda>k. lp_load lp i k st) (fromkeys (j # corroborating)) = Inr ev" using v(1) unfolding validated_from_def by blast
  obtain seen where seen: "collect_roots lp i ev {} st = Inr seen" "le_root_evidence_ids (lc_event c) = sorted_list_of_set seen"
    using v(1) unfolding validated_from_def by blast
  from rmap_results(3) [OF ev, of j] p have "p \<in> set ev" by auto
  with collect_roots_Inr [OF seen(1)] x(1) seen(2) have kept: "x \<in> set (le_root_evidence_ids (lc_event c))" by auto
  have apart: "set (le_root_evidence_ids s) \<inter> set (le_root_evidence_ids p) = {}" if "s \<in> set ev" "s \<noteq> p" for s
  proof -
    obtain a b where "a < length ev" "b < length ev" "ev ! a = s" "ev ! b = p"
      using \<open>p \<in> set ev\<close> \<open>s \<in> set ev\<close> by (metis in_set_conv_nth)
    with collect_roots_apart [OF seen(1)] \<open>s \<noteq> p\<close> show ?thesis by (metis Int_commute linorder_neqE_nat)
  qed
  have origins: "origins_of (filter (\<lambda>r. lr_learning_id r = j) (rs @ [r])) = [origin]"
    using h history_run [OF d v(2), of j] d'(3) by (auto simp: origins_of_def split: if_splits)
  show "verify_current_support lp' i (lc_event c) st' \<noteq> Inr q"
  proof
    assume "verify_current_support lp' i (lc_event c) st' = Inr q"
    then obtain roots qs own where loop: "support_loop lp' i (lc_event c) (le_evidence_learning_ids (lc_event c))
        (set (lr_root_evidence_ids origin)) [own] st' = Inr (roots, qs)" "roots = set (le_root_evidence_ids (lc_event c))"
      using history_run [OF on v(2), of j] origins gained(1) id
      by (auto simp: verify_current_support_def rbind_eq_Inr Let_def split: if_splits)
    from support_loop_source [OF loop(1)] kept x(2) loop(2) id obtain k s where s: "k \<noteq> j"
      "k \<in> set (le_evidence_learning_ids (lc_event c))" "lp_load lp' i k st' = Inr s" "x \<in> set (le_root_evidence_ids s)"
      by blast
    have "find_candidate k es' = Some s" using s(3) load_event_run [OF on v(2), of k] by (auto split: option.splits)
    with sound_ids(2) [OF sound(2)] have "s \<in> set es'" "le_learning_id s = k" by blast+
    with d'(2) id \<open>k \<noteq> j\<close> have old: "s \<in> set es" "s \<noteq> p" by auto
    with sound_ids(2) [OF sound(1)] \<open>le_learning_id s = k\<close> have "find_candidate k es = Some s" by blast
    then have "lp_load lp i k st = Inr s" using load_event_run [OF d v(2), of k] by simp
    moreover have "k \<in> set (fromkeys (j # corroborating))" using s(2) v(1) unfolding validated_from_def by argo
    ultimately have "s \<in> set ev" using rmap_results(3) [OF ev] by force
    with apart old(2) s(4) x(1) show False by blast
  qed
qed

theorem second_validation_blocks_solidify_witness:
  "\<exists>st' c. validate_learning demo_learning_ports ''s'' ''a'' [''d'', ''e''] ''again'' ''user'' demo_learning_store = (st', Inr c) \<and>
    le_validation_status (lc_event c) = Ls_VALIDATED \<and> le_confidence (lc_event c) = 1 \<and>
    (\<forall>state. \<exists>x. solidify_learning demo_learning_ports ''s'' ''a'' state ''calm'' ''is calm'' ''shown'' ''user'' True 0 None PNone st' =
       (st', Inl x))"
proof -
  obtain st' where run: "validate_learning demo_learning_ports ''s'' ''a'' [''d'', ''e''] ''again'' ''user'' demo_learning_store =
    (st', Inr \<lparr>lc_event = demo_again, lc_record = demo_revalidation, lc_trait = None, lc_state_event = None\<rparr>)"
    by (rule demo_validate)
  have good: "good_store (lp_canon demo_learning_ports) (lp_sha demo_learning_ports) demo_learning_store"
    using demo_good by simp
  have load: "lp_load demo_learning_ports ''s'' ''a'' demo_learning_store =
      Inr (demo_lesson ''a'' Ls_VALIDATED 1 [''a'', ''b'', ''c''] [''ra'', ''rb'', ''rc''])"
    using lesson_load [of "''a''"] by (simp add: demo_found)
  have history: "lp_history demo_learning_ports ''s'' (Some ''a'') demo_learning_store = Inr (filter (\<lambda>r. lr_learning_id r = ''a'') demo_notes)"
    "origins_of (filter (\<lambda>r. lr_learning_id r = ''a'') demo_notes) = [demo_note ''1'' ''a'' Lr_CANDIDATE_CREATED Ls_PENDING [''a''] [''ra'']]"
    using demo_history [of "''a''"] by (simp_all add: demo_notes_def origins_of_def)
  have "\<exists>x. solidify_learning demo_learning_ports ''s'' ''a'' state ''calm'' ''is calm'' ''shown'' ''user'' True 0 None PNone st' = (st', Inl x)"
    for state
    by (rule second_validation_blocks_solidify [OF good load history _ _ run]) simp_all
  with run show ?thesis
    by (intro exI [of _ st'] exI [of _ "\<lparr>lc_event = demo_again, lc_record = demo_revalidation, lc_trait = None, lc_state_event = None\<rparr>"])
      (simp add: demo_again_def)
qed

section \<open>Every run\<close>

text \<open>
  C24: whatever calls are made from an empty store on, every file of the repository can be read, and its
  books are in order: every trait in force is backed by exactly one candidate of the file, that is, one
  with a record of its consolidation; such a candidate is validated with a confidence of three quarters
  and three roots or more, and backs no other trait; a candidate at revision n has n + 1 records, of
  which one is its creation.
\<close>

theorem learning_books_kept:
  assumes "(learning_step canon sha)\<^sup>*\<^sup>* (\<lambda>_. File_Absent) st" "is_file (st path)"
  shows "\<exists>i es ts rs. st path = File_Doc (PDict (learning_document i es ts rs)) \<and>
    read_learning_document canon sha (st path) = Inr (learning_document i es ts rs) \<and>
    (\<forall>t \<in> set ts. pt_active t \<longrightarrow> (\<exists>!e. e \<in> set es \<and> (\<exists>r \<in> set rs. lr_record_type r = Lr_CONSOLIDATED \<and>
       lr_learning_id r = le_learning_id e \<and> lr_trait_id r = Some (pt_trait_id t)))) \<and>
    (\<forall>j t. consolidates rs ts j t \<longrightarrow> (\<forall>t'. consolidates rs ts j t' \<longrightarrow> t' = t) \<and>
       (\<exists>!e. e \<in> set es \<and> le_learning_id e = j) \<and>
       (\<exists>e \<in> set es. le_learning_id e = j \<and> le_validation_status e = Ls_VALIDATED \<and> 3 / 4 \<le> le_confidence e \<and>
          3 \<le> length (le_root_evidence_ids e))) \<and>
    (\<forall>e \<in> set es. int (length (filter (\<lambda>r. lr_learning_id r = le_learning_id e) rs)) = le_revision e + 1 \<and>
       length (filter (\<lambda>r. lr_learning_id r = le_learning_id e \<and> lr_record_type r = Lr_CANDIDATE_CREATED) rs) = 1)"
proof -
  from run_later [OF assms(1)] empty_good have "good_store canon sha st" by (simp add: learning_later_def)
  with assms(2) obtain i es ts rs where d: "st path = File_Doc (PDict (learning_document i es ts rs))"
    "sound_learning canon sha es ts rs" "disciplined es ts rs"
    unfolding good_store_def good_file_def by blast
  have read: "read_learning_document canon sha (st path) = Inr (learning_document i es ts rs)"
    using read_written [OF d(2)] d(1) by simp
  have backed: "\<exists>!e. e \<in> set es \<and> (\<exists>r \<in> set rs. lr_record_type r = Lr_CONSOLIDATED \<and>
      lr_learning_id r = le_learning_id e \<and> lr_trait_id r = Some (pt_trait_id t))" if t: "t \<in> set ts" "pt_active t" for t
  proof -
    obtain j where j: "consolidates rs ts j t" "\<And>k. consolidates rs ts k t \<Longrightarrow> k = j"
      using disciplinedD(6) [OF d(3) t] by blast
    then obtain e where "e \<in> set es" "le_learning_id e = j" using disciplinedD(1) [OF d(3)] by blast
    then have "(\<exists>r \<in> set rs. lr_record_type r = Lr_CONSOLIDATED \<and> lr_learning_id r = le_learning_id x \<and>
        lr_trait_id r = Some (pt_trait_id t)) \<longleftrightarrow> x = e" if "x \<in> set es" for x
      unfolding consolidates_id [OF t, symmetric] using j sound_ids(6) [OF d(2) that] by metis
    with \<open>e \<in> set es\<close> show ?thesis by (intro ex1I [of _ e]) auto
  qed
  have one: "(\<forall>t'. consolidates rs ts j t' \<longrightarrow> t' = t) \<and> (\<exists>!e. e \<in> set es \<and> le_learning_id e = j) \<and>
      (\<exists>e \<in> set es. le_learning_id e = j \<and> le_validation_status e = Ls_VALIDATED \<and> 3 / 4 \<le> le_confidence e \<and>
        3 \<le> length (le_root_evidence_ids e))" if c: "consolidates rs ts j t" for j t
  proof (intro conjI)
    obtain e where e: "e \<in> set es" "le_learning_id e = j" "well_supported e" using disciplinedD(1) [OF d(3) c] by blast
    show "\<forall>t'. consolidates rs ts j t' \<longrightarrow> t' = t" using disciplinedD(2) [OF d(3) _ c] by blast
    show "\<exists>!e. e \<in> set es \<and> le_learning_id e = j" using e(1,2) sound_ids(6) [OF d(2)] by (intro ex1I [of _ e]) auto
    show "\<exists>e \<in> set es. le_learning_id e = j \<and> le_validation_status e = Ls_VALIDATED \<and> 3 / 4 \<le> le_confidence e \<and>
        3 \<le> length (le_root_evidence_ids e)"
      using e unfolding well_supported_def by (intro bexI [of _ e]) simp_all
  qed
  show ?thesis
    by (intro exI [of _ i] exI [of _ es] exI [of _ ts] exI [of _ rs] conjI ballI allI impI)
      (rule d(1) read backed one [THEN conjunct1, THEN spec, THEN mp] one [THEN conjunct2, THEN conjunct1]
        one [THEN conjunct2, THEN conjunct2] disciplinedD(4,5) [OF d(3)]; assumption?)+
qed

theorem learning_books_kept_witness:
  "\<exists>st i es ts rs. (learning_step plain_canon (\<lambda>s. s))\<^sup>*\<^sup>* (\<lambda>_. File_Absent) st \<and>
    st ''s'' = File_Doc (PDict (learning_document i es ts rs)) \<and>
    read_learning_document plain_canon (\<lambda>s. s) (st ''s'') = Inr (learning_document i es ts rs)"
proof -
  let ?st = "fst (create_candidate demo_learning_ports ''s'' (Some ''a'') None 0 (PStr ''o'') (PStr ''h'') demo_growth (PFloat 1)
    (PStr ''x'') ''r'' ''user'' (Some ''a'') [] (\<lambda>_. File_Absent))"
  have "wf_mutation demo_growth" by (simp add: wf_mutation_def demo_growth_def demo_texts)
  then have "learning_step plain_canon (\<lambda>s. s) (\<lambda>_. File_Absent) ?st" by (intro ls_create) simp_all
  then have run: "(learning_step plain_canon (\<lambda>s. s))\<^sup>*\<^sup>* (\<lambda>_. File_Absent) ?st" by blast
  have stored: "is_file (?st ''s'')" using lesson_created by (auto simp: is_file_def)
  from learning_books_kept [OF run stored] run show ?thesis by blast
qed

text \<open>
  C25: a rejected or revoked candidate is final: whatever calls follow, the repository returns it as it
  is, and nothing more is ever recorded about it.
\<close>

theorem rejected_is_final:
  assumes good: "good_store canon sha st" and run: "(learning_step canon sha)\<^sup>*\<^sup>* st st'"
    and e: "load_learning_event canon sha i j st = Inr e" "le_validation_status e \<in> {Ls_REJECTED, Ls_REVOKED}"
  shows "load_learning_event canon sha i j st' = Inr e \<and>
    learning_history canon sha i (Some j) st' = learning_history canon sha i (Some j) st"
proof -
  obtain es ts rs where d: "on_file canon sha st i es ts rs" "disciplined es ts rs" "\<not> blank i" "find_candidate j es = Some e"
    by (rule loaded [OF good e(1)])
  note f = found_facts [OF d(1,4)]
  from run_later [OF run] good d(1) obtain es' ts' rs' where l: "good_store canon sha st'"
    "st' (sha i) = File_Doc (PDict (learning_document i es' ts' rs'))" "sound_learning canon sha es' ts' rs'"
    "document_later es ts rs es' ts' rs'"
    unfolding learning_later_def on_file_def by blast
  have d': "on_file canon sha st' i es' ts' rs'" using l(2,3) by (simp add: on_file_def)
  from l(4) f(1) e(2) have kept: "e \<in> set es'" unfolding document_later_def by blast
  with f(2) sound_ids(2) [OF l(3)] have found: "find_candidate j es' = Some e" by blast
  from l(4) obtain new where new: "rs' = rs @ new" by (auto simp: document_later_def)
  obtain k es2 ts2 rs2 where o: "st' (sha i) = File_Doc (PDict (learning_document k es2 ts2 rs2))"
    "sound_learning canon sha es2 ts2 rs2" "disciplined es2 ts2 rs2"
    using l(1,2) unfolding good_store_def good_file_def is_file_def by blast
  from l(2) o(1) have "learning_document i es' ts' rs' = learning_document k es2 ts2 rs2" by simp
  from document_inj [OF this l(3) o(2)] o(3) have "disciplined es' ts' rs'" by blast
  from disciplinedD(4) [OF this kept] disciplinedD(4) [OF d(2) f(1)] f(2)
  have "filter (\<lambda>r. lr_learning_id r = j) new = []" by (simp add: new)
  then have "filter (\<lambda>r. lr_learning_id r = j) rs' = filter (\<lambda>r. lr_learning_id r = j) rs" by (simp add: new)
  moreover have "j \<in> le_learning_id ` set es" "j \<in> le_learning_id ` set es'" using f(1,2) kept by blast+
  ultimately show ?thesis
    using load_event_run [OF d' d(3), of j] found history_run [OF d(1,3), of j] history_run [OF d' d(3), of j]
    by (simp del: append.simps)
qed

theorem rejected_is_final_witness:
  "load_learning_event plain_canon (\<lambda>s. s) ''s'' ''a'' (fst (adjust_confidence demo_learning_ports ''s'' ''a'' (PInt 1) ''r'' ''user''
    refused_store)) = Inr (demo_lesson ''a'' Ls_REJECTED 1 [] [''ra''])"
proof -
  have "learning_step plain_canon (\<lambda>s. s) refused_store (fst (adjust_confidence demo_learning_ports ''s'' ''a'' (PInt 1) ''r'' ''user''
    refused_store))"
    by (rule ls_adjust) simp_all
  then have "(learning_step plain_canon (\<lambda>s. s))\<^sup>*\<^sup>* refused_store (fst (adjust_confidence demo_learning_ports ''s'' ''a'' (PInt 1)
    ''r'' ''user'' refused_store))" by blast
  from rejected_is_final [OF refused_good this refused_load] show ?thesis by simp
qed

end
