(* ===== verification/Awakening.thy ===== *)
theory Awakening
  imports Subject_State Memory_Retrieval
begin

text \<open>
  domain/awakening.py and domain/awakening_rules.py: wake cycles, triggers, contexts, decisions,
  observation logs and sessions, and the deterministic decision policy. A field that the code reads
  back from a document without a check is kept as a \<open>pyval\<close>.
\<close>

section \<open>Enumerations and checks\<close>

datatype awake_mode = Aw_MANUAL | Aw_SCHEDULED

datatype wake_cause = Wc_MANUAL | Wc_SCHEDULED | Wc_EVENT

datatype wake_action = Wa_SLEEP | Wa_THINK | Wa_CHECK_MEMORY | Wa_READY

fun awake_mode_value :: "awake_mode \<Rightarrow> string" where
  "awake_mode_value Aw_MANUAL = ''manual''"
| "awake_mode_value Aw_SCHEDULED = ''scheduled''"

fun wake_cause_value :: "wake_cause \<Rightarrow> string" where
  "wake_cause_value Wc_MANUAL = ''manual''"
| "wake_cause_value Wc_SCHEDULED = ''scheduled''"
| "wake_cause_value Wc_EVENT = ''event''"

fun wake_action_value :: "wake_action \<Rightarrow> string" where
  "wake_action_value Wa_SLEEP = ''SLEEP''"
| "wake_action_value Wa_THINK = ''THINK''"
| "wake_action_value Wa_CHECK_MEMORY = ''CHECK_MEMORY''"
| "wake_action_value Wa_READY = ''READY''"

abbreviation awake_invalid :: "string \<Rightarrow> exn" where
  "awake_invalid m \<equiv> (AwakeningValidationError, m)"

definition awake_text :: "pyval \<Rightarrow> string \<Rightarrow> string res" where
  "awake_text v name = require_text AwakeningValidationError v name"

definition awake_parse_datetime :: "pyval \<Rightarrow> string \<Rightarrow> pyval res" where
  "awake_parse_datetime v name = (case v of
       PStr s \<Rightarrow> (case fromisoformat (replace_Z s) of
         None \<Rightarrow> Inl (awake_invalid (name @ '' is not a valid ISO-8601 datetime''))
       | Some (w, None) \<Rightarrow> Inl (awake_invalid (name @ '' must include a timezone''))
       | Some (w, Some off) \<Rightarrow> Inr (PTime w (Some off)))
     | _ \<Rightarrow> Inl (awake_invalid (name @ '' must be an ISO-8601 string'')))"

definition awake_parse_optional :: "pyval \<Rightarrow> string \<Rightarrow> pyval res" where
  "awake_parse_optional v name = (if v = PNone then Inr PNone else awake_parse_datetime v name)"

definition awake_texts :: "pyval \<Rightarrow> string \<Rightarrow> string list res" where
  "awake_texts v name =
     (let e = awake_invalid (name @ '' must be a list of non-empty strings'') in
      case v of PList xs \<Rightarrow> rmap (\<lambda>x. case x of PStr s \<Rightarrow> if blank s then Inl e else Inr s | _ \<Rightarrow> Inl e) xs
        | _ \<Rightarrow> Inl e)"

definition awake_mode_of :: "exn \<Rightarrow> pyval \<Rightarrow> awake_mode res" where
  "awake_mode_of e v = require_enum e awake_mode_value [Aw_MANUAL, Aw_SCHEDULED] v"

definition wake_cause_of :: "exn \<Rightarrow> pyval \<Rightarrow> wake_cause res" where
  "wake_cause_of e v = require_enum e wake_cause_value [Wc_MANUAL, Wc_SCHEDULED, Wc_EVENT] v"

definition wake_action_of :: "exn \<Rightarrow> pyval \<Rightarrow> wake_action res" where
  "wake_action_of e v = require_enum e wake_action_value [Wa_SLEEP, Wa_THINK, Wa_CHECK_MEMORY, Wa_READY] v"

abbreviation optional_time :: "instant option \<Rightarrow> pyval" where
  "optional_time t \<equiv> opt_val (\<lambda>t. PStr (format_z t)) t"

lemma awake_text_Inr [validator_defs]: "awake_text v n = Inr s \<longleftrightarrow> v = PStr s \<and> \<not> blank s"
  by (simp add: awake_text_def require_text_eq_Inr)

lemma awake_text_run: "\<not> blank s \<Longrightarrow> awake_text (PStr s) n = Inr s"
  by (simp add: awake_text_Inr)

lemma awake_parse_format [simp]:
  "awake_parse_datetime (PStr (format_z t)) n = Inr (utc_val t)"
  "awake_parse_optional (optional_time x) n = Inr (opt_val utc_val x)"
  by (cases x; simp add: awake_parse_datetime_def awake_parse_optional_def)+

lemma awake_parse_none [simp]: "awake_parse_optional PNone n = Inr PNone"
  by (simp add: awake_parse_optional_def)

lemma awake_texts_Inr: "awake_texts v n = Inr ss \<longleftrightarrow> v = PList (map PStr ss) \<and> (\<forall>s \<in> set ss. \<not> blank s)"
proof -
  have "rmap (\<lambda>x. case x of PStr s \<Rightarrow> if blank s then Inl e else Inr s | _ \<Rightarrow> Inl e) xs = Inr ss \<longleftrightarrow>
      xs = map PStr ss \<and> (\<forall>s \<in> set ss. \<not> blank s)" for e :: exn and xs
    by (induction xs arbitrary: ss) (auto simp: rbind_eq_Inr split: pyval.splits)
  then show ?thesis by (auto simp: awake_texts_def Let_def split: pyval.splits)
qed

lemma awake_enum_run [simp]:
  "awake_mode_of e (PStr (awake_mode_value m)) = Inr m"
  "wake_cause_of e (PStr (wake_cause_value c)) = Inr c"
  "wake_action_of e (PStr (wake_action_value a)) = Inr a"
  subgoal unfolding awake_mode_of_def by (rule require_enum_PStr) (cases m, auto)
  subgoal unfolding wake_cause_of_def by (rule require_enum_PStr) (cases c, auto)
  subgoal unfolding wake_action_of_def by (rule require_enum_PStr) (cases a, auto)
  done

section \<open>Cycles\<close>

record awake_cycle =
  ac_cycle_id :: string
  ac_subject_id :: string
  ac_mode :: awake_mode
  ac_created_at :: instant
  ac_enabled :: bool
  ac_interval_seconds :: "int option"
  ac_next_wake_at :: "instant option"
  ac_last_wake_at :: "instant option"

text \<open>The part of the check that ties the schedule to the mode.\<close>

definition cycle_schedule :: "awake_mode \<Rightarrow> pyval \<Rightarrow> instant option \<Rightarrow> int option res" where
  "cycle_schedule mode interval next_wake = (case mode of
       Aw_SCHEDULED \<Rightarrow>
         rbind (case as_int interval of
             Some n \<Rightarrow> if n \<le> 0 then Inl (awake_invalid ''scheduled cycles require a positive interval_seconds'') else Inr n
           | None \<Rightarrow> Inl (awake_invalid ''scheduled cycles require a positive interval_seconds'')) (\<lambda>n.
         rbind (ensure (next_wake \<noteq> None) (awake_invalid ''scheduled cycles require next_wake_at'')) (\<lambda>_. Inr (Some n)))
     | Aw_MANUAL \<Rightarrow>
         rbind (ensure (interval = PNone \<and> next_wake = None)
           (awake_invalid ''manual cycles cannot define interval_seconds or next_wake_at'')) (\<lambda>_. Inr None))"

definition awake_cycle_init ::
  "pyval \<Rightarrow> pyval \<Rightarrow> pyval \<Rightarrow> pyval \<Rightarrow> pyval \<Rightarrow> pyval \<Rightarrow> pyval \<Rightarrow> pyval \<Rightarrow> awake_cycle res" where
  "awake_cycle_init cycle_id subject_id mode created_at enabled interval next_wake last_wake =
     rbind (awake_text cycle_id ''cycle_id'') (\<lambda>cycle_id.
     rbind (awake_text subject_id ''cycle.subject_id'') (\<lambda>subject_id.
     rbind (awake_mode_of (awake_invalid ''unsupported awake cycle mode'') mode) (\<lambda>mode.
     rbind (require_aware (awake_invalid ''cycle.created_at must include a timezone'') created_at) (\<lambda>created_at.
     rbind (ensure (is_bool enabled) (awake_invalid ''cycle.enabled must be a boolean'')) (\<lambda>_.
     rbind (optional_aware (awake_invalid ''cycle.next_wake_at must include a timezone'') next_wake) (\<lambda>next_wake.
     rbind (optional_aware (awake_invalid ''cycle.last_wake_at must include a timezone'') last_wake) (\<lambda>last_wake.
     rbind (cycle_schedule mode interval next_wake) (\<lambda>interval.
     Inr \<lparr>ac_cycle_id = cycle_id, ac_subject_id = subject_id, ac_mode = mode, ac_created_at = created_at,
       ac_enabled = truthy enabled, ac_interval_seconds = interval, ac_next_wake_at = next_wake,
       ac_last_wake_at = last_wake\<rparr>))))))))"

definition manual_cycle :: "string \<Rightarrow> string \<Rightarrow> pyval \<Rightarrow> awake_cycle res" where
  "manual_cycle uuid subject_id created_at =
     awake_cycle_init (PStr uuid) (PStr subject_id) (PStr (awake_mode_value Aw_MANUAL)) created_at (PBool True) PNone PNone PNone"

definition scheduled_cycle :: "string \<Rightarrow> string \<Rightarrow> pyval \<Rightarrow> pyval \<Rightarrow> pyval \<Rightarrow> awake_cycle res" where
  "scheduled_cycle uuid subject_id created_at interval_seconds first_wake_at =
     awake_cycle_init (PStr uuid) (PStr subject_id) (PStr (awake_mode_value Aw_SCHEDULED)) created_at (PBool True)
       interval_seconds first_wake_at PNone"

definition cycle_due :: "awake_cycle \<Rightarrow> instant \<Rightarrow> bool" where
  "cycle_due c now \<longleftrightarrow> ac_enabled c \<and> ac_mode c = Aw_SCHEDULED \<and> (\<exists>t. ac_next_wake_at c = Some t \<and> t \<le> now)"

definition cycle_is_due :: "awake_cycle \<Rightarrow> pyval \<Rightarrow> bool res" where
  "cycle_is_due c now = rbind (require_aware (awake_invalid ''now must include a timezone'') now) (\<lambda>now. Inr (cycle_due c now))"

text \<open>The first point of the schedule after \<open>at\<close>; \<open>total_seconds\<close> and \<open>//\<close> compute with floats.\<close>

definition next_wake :: "int \<Rightarrow> instant \<Rightarrow> instant \<Rightarrow> instant res" where
  "next_wake interval due now =
     (if now < due then Inr due
      else rbind (float_of_int interval) (\<lambda>i.
        let overdue = fl (of_int (usec now - usec due) / 1000000);
            intervals = \<lfloor>overdue / i\<rfloor> + 1
        in plus_seconds due (intervals * interval)))"

definition mark_woken :: "instant \<Rightarrow> (awake_cycle, unit) prog" where
  "mark_woken now =
     sbind (smodify (\<lambda>c. c\<lparr>ac_last_wake_at := Some now\<rparr>)) (\<lambda>_.
     sbind sget (\<lambda>c.
     case (ac_mode c, ac_interval_seconds c, ac_next_wake_at c) of
       (Aw_SCHEDULED, Some interval, Some due) \<Rightarrow>
         sbind (slift (next_wake interval due now)) (\<lambda>t. smodify (\<lambda>c. c\<lparr>ac_next_wake_at := Some t\<rparr>))
     | _ \<Rightarrow> sret ()))"

definition awake_cycle_to_dict :: "awake_cycle \<Rightarrow> pyval" where
  "awake_cycle_to_dict c = PDict
     [(''cycle_id'', PStr (ac_cycle_id c)), (''subject_id'', PStr (ac_subject_id c)),
      (''mode'', PStr (awake_mode_value (ac_mode c))), (''created_at'', PStr (format_z (ac_created_at c))),
      (''enabled'', PBool (ac_enabled c)), (''interval_seconds'', opt_val PInt (ac_interval_seconds c)),
      (''next_wake_at'', optional_time (ac_next_wake_at c)), (''last_wake_at'', optional_time (ac_last_wake_at c))]"

definition awake_cycle_from_dict :: "pyval \<Rightarrow> awake_cycle res" where
  "awake_cycle_from_dict value = (case value of
       PDict d \<Rightarrow>
         rbind (awake_parse_datetime (dict_get d ''created_at'') ''cycle.created_at'') (\<lambda>created_at.
         rbind (awake_parse_optional (dict_get d ''next_wake_at'') ''cycle.next_wake_at'') (\<lambda>next_wake.
         rbind (awake_parse_optional (dict_get d ''last_wake_at'') ''cycle.last_wake_at'') (\<lambda>last_wake.
         awake_cycle_init (dict_get d ''cycle_id'') (dict_get d ''subject_id'') (dict_get d ''mode'') created_at
           (dict_get_or (PBool True) d ''enabled'') (dict_get d ''interval_seconds'') next_wake last_wake)))
     | _ \<Rightarrow> Inl (awake_invalid ''awake cycle must be an object''))"

definition wf_cycle :: "awake_cycle \<Rightarrow> bool" where
  "wf_cycle c \<longleftrightarrow> \<not> blank (ac_cycle_id c) \<and> \<not> blank (ac_subject_id c) \<and> (case ac_mode c of
       Aw_SCHEDULED \<Rightarrow> (\<exists>n. ac_interval_seconds c = Some n \<and> 0 < n) \<and> ac_next_wake_at c \<noteq> None
     | Aw_MANUAL \<Rightarrow> ac_interval_seconds c = None \<and> ac_next_wake_at c = None)"

lemma awake_cycle_init_wf: "awake_cycle_init a b c d e f g h = Inr x \<Longrightarrow> wf_cycle x"
  unfolding awake_cycle_init_def cycle_schedule_def
  by (elim rbindE) (auto simp: wf_cycle_def validator_defs elim!: rbindE split: awake_mode.splits option.splits if_splits)

lemma optional_aware_run [simp]: "optional_aware e (opt_val utc_val x) = Inr x" "optional_aware e PNone = Inr None"
  by (cases x; simp add: optional_aware_def)+

lemma awake_cycle_roundtrip: "wf_cycle c \<Longrightarrow> awake_cycle_from_dict (awake_cycle_to_dict c) = Inr c"
  by (cases "ac_mode c") (auto simp: awake_cycle_from_dict_def awake_cycle_to_dict_def awake_cycle_init_def wf_cycle_def
      cycle_schedule_def awake_text_run ensure_def awake_enum_run(1) [of _ Aw_MANUAL, simplified] awake_enum_run(1) [of _ Aw_SCHEDULED, simplified])

section \<open>Triggers\<close>

record wake_trigger =
  wt_reason :: wake_cause
  wt_detail :: string
  wt_triggered_at :: instant
  wt_source_event_id :: "string option"

definition wake_trigger_init :: "wake_cause \<Rightarrow> pyval \<Rightarrow> pyval \<Rightarrow> pyval \<Rightarrow> wake_trigger res" where
  "wake_trigger_init reason detail triggered_at source_event_id =
     rbind (awake_text detail ''wake trigger detail'') (\<lambda>detail.
     rbind (require_aware (awake_invalid ''triggered_at must include a timezone'') triggered_at) (\<lambda>triggered_at.
     rbind (if reason = Wc_EVENT then rbind (awake_text source_event_id ''source_event_id'') (\<lambda>s. Inr (Some s))
       else rbind (ensure (source_event_id = PNone)
         (awake_invalid ''source_event_id is only valid for event-triggered wakes'')) (\<lambda>_. Inr None)) (\<lambda>source.
     Inr \<lparr>wt_reason = reason, wt_detail = detail, wt_triggered_at = triggered_at, wt_source_event_id = source\<rparr>)))"

section \<open>Contexts\<close>

record wake_time_info =
  wi_current_time :: instant
  wi_last_interaction_at :: "instant option"
  wi_seconds_since :: "rat option"

definition wake_time_init :: "pyval \<Rightarrow> pyval \<Rightarrow> rat option \<Rightarrow> wake_time_info res" where
  "wake_time_init current_time last_interaction seconds =
     rbind (require_aware (awake_invalid ''current_time must include a timezone'') current_time) (\<lambda>current_time.
     rbind (optional_aware (awake_invalid ''last_interaction_at must include a timezone'') last_interaction) (\<lambda>last_interaction.
     rbind (ensure (\<forall>q. seconds = Some q \<longrightarrow> 0 \<le> q)
       (awake_invalid ''seconds_since_last_interaction must be non-negative or null'')) (\<lambda>_.
     Inr \<lparr>wi_current_time = current_time, wi_last_interaction_at = last_interaction, wi_seconds_since = seconds\<rparr>)))"

definition wake_time_to_dict :: "wake_time_info \<Rightarrow> pyval" where
  "wake_time_to_dict i = PDict
     [(''current_time'', PStr (format_z (wi_current_time i))),
      (''last_interaction_at'', optional_time (wi_last_interaction_at i)),
      (''seconds_since_last_interaction'', opt_val PFloat (wi_seconds_since i))]"

definition elapsed_value :: "pyval \<Rightarrow> rat option res" where
  "elapsed_value v = (case v of
       PNone \<Rightarrow> Inr None | PFloat q \<Rightarrow> Inr (Some q) | PBool b \<Rightarrow> Inr (Some (if b then 1 else 0))
     | PInt n \<Rightarrow> rbind (float_of_int n) (\<lambda>q. Inr (Some q))
     | _ \<Rightarrow> Inl (awake_invalid ''seconds_since_last_interaction must be numeric or null''))"

definition wake_time_from_dict :: "pyval \<Rightarrow> wake_time_info res" where
  "wake_time_from_dict value = (case value of
       PDict d \<Rightarrow>
         rbind (awake_parse_datetime (dict_get d ''current_time'') ''current_time'') (\<lambda>current_time.
         rbind (ensure (dict_get d ''seconds_since_last_interaction'' = PNone \<or>
             as_num (dict_get d ''seconds_since_last_interaction'') \<noteq> None)
           (awake_invalid ''seconds_since_last_interaction must be numeric or null'')) (\<lambda>_.
         rbind (awake_parse_optional (dict_get d ''last_interaction_at'') ''last_interaction_at'') (\<lambda>last_interaction.
         rbind (elapsed_value (dict_get d ''seconds_since_last_interaction'')) (\<lambda>seconds.
         wake_time_init current_time last_interaction seconds))))
     | _ \<Rightarrow> Inl (awake_invalid ''wake time info must be an object''))"

record wake_context =
  wx_context_id :: string
  wx_subject_state :: subject_state
  wx_recent_events :: "event list"
  wx_recent_updates :: "state_update list"
  wx_memory_result :: memory_result
  wx_time_info :: wake_time_info
  wx_created_at :: instant

definition wake_context_init ::
  "pyval \<Rightarrow> subject_state \<Rightarrow> event list \<Rightarrow> state_update list \<Rightarrow> memory_result \<Rightarrow> wake_time_info \<Rightarrow> pyval \<Rightarrow> wake_context res" where
  "wake_context_init context_id state recent_events recent_updates memory time_info created_at =
     rbind (awake_text context_id ''context_id'') (\<lambda>context_id.
     rbind (require_aware (awake_invalid ''wake context created_at must include a timezone'') created_at) (\<lambda>created_at.
     rbind (ensure (mq_subject_id (mr_request memory) = ss_subject_id state)
       (awake_invalid ''memory result subject does not match WakeContext subject'')) (\<lambda>_.
     rbind (ensure (\<forall>u \<in> set recent_updates. su_subject_id u = ss_subject_id state)
       (awake_invalid ''recent update belongs to a different subject'')) (\<lambda>_.
     Inr \<lparr>wx_context_id = context_id, wx_subject_state = state, wx_recent_events = recent_events,
       wx_recent_updates = recent_updates, wx_memory_result = memory, wx_time_info = time_info,
       wx_created_at = created_at\<rparr>))))"

definition wake_context_to_dict :: "wake_context \<Rightarrow> pyval res" where
  "wake_context_to_dict x =
     rbind (subject_to_dict (wx_subject_state x)) (\<lambda>state.
     Inr (PDict
       [(''context_id'', PStr (wx_context_id x)), (''subject_state'', state),
        (''recent_events'', PList (map event_to_dict (wx_recent_events x))),
        (''recent_updates'', PList (map state_update_to_dict (wx_recent_updates x))),
        (''memory_result'', memory_result_to_dict (wx_memory_result x)),
        (''time_info'', wake_time_to_dict (wx_time_info x)), (''created_at'', PStr (format_z (wx_created_at x)))]))"

definition wake_context_from_dict :: "pyval \<Rightarrow> wake_context res" where
  "wake_context_from_dict value = (case value of
       PDict d \<Rightarrow>
         rbind (ensure (is_list (dict_get d ''recent_events'') \<and> is_list (dict_get d ''recent_updates''))
           (awake_invalid ''recent events and updates must be lists'')) (\<lambda>_.
         rbind (awake_parse_datetime (dict_get d ''created_at'') ''context.created_at'') (\<lambda>created_at.
         rbind (subject_from_dict (dict_get d ''subject_state'')) (\<lambda>state.
         rbind (rmap event_from_dict (list_of (dict_get d ''recent_events''))) (\<lambda>recent_events.
         rbind (rmap state_update_from_dict (list_of (dict_get d ''recent_updates''))) (\<lambda>recent_updates.
         rbind (memory_result_from_dict (dict_get d ''memory_result'')) (\<lambda>memory.
         rbind (wake_time_from_dict (dict_get d ''time_info'')) (\<lambda>time_info.
         wake_context_init (dict_get d ''context_id'') state recent_events recent_updates memory time_info created_at)))))))
     | _ \<Rightarrow> Inl (awake_invalid ''wake context must be an object''))"

definition wf_wake_context :: "wake_context \<Rightarrow> bool" where
  "wf_wake_context x \<longleftrightarrow> \<not> blank (wx_context_id x) \<and> wf_subject (wx_subject_state x) \<and>
     (\<forall>e \<in> set (wx_recent_events x). wf_event e) \<and> (\<forall>u \<in> set (wx_recent_updates x). wf_state_update u) \<and>
     wf_memory_result (wx_memory_result x) \<and> (\<forall>q. wi_seconds_since (wx_time_info x) = Some q \<longrightarrow> 0 \<le> q) \<and>
     mq_subject_id (mr_request (wx_memory_result x)) = ss_subject_id (wx_subject_state x) \<and>
     (\<forall>u \<in> set (wx_recent_updates x). su_subject_id u = ss_subject_id (wx_subject_state x))"

text \<open>What \<open>WakeContext.from_dict(context.to_dict())\<close> gives.\<close>

definition normal_context :: "wake_context \<Rightarrow> wake_context" where
  "normal_context x = x\<lparr>wx_subject_state := normal_state (wx_subject_state x)\<rparr>"

lemma wake_time_roundtrip:
  "\<forall>q. wi_seconds_since i = Some q \<longrightarrow> 0 \<le> q \<Longrightarrow> wake_time_from_dict (wake_time_to_dict i) = Inr i"
  by (cases "wi_seconds_since i") (simp_all add: wake_time_from_dict_def wake_time_to_dict_def wake_time_init_def ensure_def
      elapsed_value_def)

lemma wake_context_roundtrip:
  assumes "wf_wake_context x"
  obtains d where "wake_context_to_dict x = Inr d" "d \<noteq> PNone" "wake_context_from_dict d = Inr (normal_context x)"
    "wake_context_to_dict (normal_context x) = Inr d" "wf_wake_context (normal_context x)"
proof -
  have s: "wf_subject (wx_subject_state x)" using assms by (simp add: wf_wake_context_def)
  note d = subject_to_dict_run [OF s] subject_roundtrip [OF s]
  have same: "ss_subject_id (normal_state (wx_subject_state x)) = ss_subject_id (wx_subject_state x)"
    by (simp add: normal_state_def)
  have e: "rmap event_from_dict (map event_to_dict (wx_recent_events x)) = Inr (wx_recent_events x)"
    "rmap state_update_from_dict (map state_update_to_dict (wx_recent_updates x)) = Inr (wx_recent_updates x)"
    using assms by (auto simp: wf_wake_context_def event_roundtrip state_update_roundtrip intro!: rmap_Inr_id)
  obtain v where v: "wake_context_to_dict x = Inr v" by (simp add: wake_context_to_dict_def d(1))
  show thesis
  proof (rule that [OF v])
    show "v \<noteq> PNone" using v by (auto simp: wake_context_to_dict_def d(1))
    show "wake_context_from_dict v = Inr (normal_context x)"
      using v assms e same
      by (auto simp: wake_context_to_dict_def wake_context_from_dict_def wake_context_init_def d ensure_def awake_text_run
          wake_time_roundtrip memory_result_roundtrip wf_wake_context_def normal_context_def)
    show "wake_context_to_dict (normal_context x) = Inr v" using v by (simp add: wake_context_to_dict_def normal_context_def d)
    show "wf_wake_context (normal_context x)" using assms d(4) same by (simp add: wf_wake_context_def normal_context_def)
  qed
qed

section \<open>Decisions\<close>

record wake_decision =
  wd_action :: wake_action
  wd_reason :: string
  wd_decided_at :: instant
  wd_evidence :: "string list"

definition wake_decision_init :: "pyval \<Rightarrow> pyval \<Rightarrow> pyval \<Rightarrow> pyval \<Rightarrow> wake_decision res" where
  "wake_decision_init action reason decided_at evidence =
     rbind (wake_action_of (awake_invalid ''unsupported wake action'') action) (\<lambda>action.
     rbind (awake_text reason ''wake decision reason'') (\<lambda>reason.
     rbind (require_aware (awake_invalid ''decided_at must include a timezone'') decided_at) (\<lambda>decided_at.
     rbind (awake_texts evidence ''wake decision evidence'') (\<lambda>evidence.
     Inr \<lparr>wd_action = action, wd_reason = reason, wd_decided_at = decided_at, wd_evidence = evidence\<rparr>))))"

definition wake_decision_to_dict :: "wake_decision \<Rightarrow> pyval" where
  "wake_decision_to_dict d = PDict
     [(''action'', PStr (wake_action_value (wd_action d))), (''reason'', PStr (wd_reason d)),
      (''decided_at'', PStr (format_z (wd_decided_at d))), (''evidence'', PList (map PStr (wd_evidence d)))]"

definition wake_decision_from_dict :: "pyval \<Rightarrow> wake_decision res" where
  "wake_decision_from_dict value = (case value of
       PDict d \<Rightarrow>
         rbind (awake_parse_datetime (dict_get d ''decided_at'') ''decision.decided_at'') (\<lambda>decided_at.
         rbind (awake_texts (dict_get_or (PList []) d ''evidence'') ''wake decision evidence'') (\<lambda>evidence.
         wake_decision_init (dict_get d ''action'') (dict_get d ''reason'') decided_at (PList (map PStr evidence))))
     | _ \<Rightarrow> Inl (awake_invalid ''wake decision must be an object''))"

definition wf_decision :: "wake_decision \<Rightarrow> bool" where
  "wf_decision d \<longleftrightarrow> \<not> blank (wd_reason d) \<and> (\<forall>s \<in> set (wd_evidence d). \<not> blank s)"

lemma wake_decision_roundtrip: "wf_decision d \<Longrightarrow> wake_decision_from_dict (wake_decision_to_dict d) = Inr d"
proof -
  assume "wf_decision d"
  then have "awake_texts (PList (map PStr (wd_evidence d))) n = Inr (wd_evidence d)" for n
    by (simp add: awake_texts_Inr wf_decision_def)
  with \<open>wf_decision d\<close> show ?thesis
    by (simp add: wake_decision_from_dict_def wake_decision_to_dict_def wake_decision_init_def wf_decision_def awake_text_run)
qed

lemma wake_decision_init_wf: "wake_decision_init a b c e = Inr d \<Longrightarrow> wf_decision d"
  unfolding wake_decision_init_def by (elim rbindE) (auto simp: wf_decision_def validator_defs awake_texts_Inr)

text \<open>\<open>WakeDecisionPolicy.decide\<close>.\<close>

definition wake_decide :: "wake_context \<Rightarrow> wake_decision res" where
  "wake_decide x =
     (let selected = selected_memories (wx_memory_result x);
          changed = filter (\<lambda>u. su_changes u \<noteq> []) (wx_recent_updates x);
          viewed = mr_decisions (wx_memory_result x);
          make = (\<lambda>action reason evidence. wake_decision_init (PStr (wake_action_value action)) (PStr reason)
            (utc_val (wi_current_time (wx_time_info x))) (PList (map PStr evidence)));
          cty = ss_continuity (wx_subject_state x) in
      if selected \<noteq> [] then
        make Wa_THINK ''Relevant memories were selected and should be considered later.''
          (map (\<lambda>c. ''memory:'' @ mc_memory_id c) selected)
      else if changed \<noteq> [] then
        make Wa_THINK ''Recent state evolution exists and should be considered later.''
          (map (\<lambda>u. ''update:'' @ su_update_id u) changed)
      else if viewed \<noteq> [] then
        make Wa_CHECK_MEMORY ''Memory candidates were reviewed but none were selected as relevant.''
          (map (\<lambda>m. ''memory:'' @ mc_memory_id (md_candidate m)) viewed)
      else
        rbind (active_titles (cty_unfinished_items cty) (PList (cty_item_records cty))) (\<lambda>unfinished.
        if unfinished \<noteq> [] \<or> cty_current_focus cty \<noteq> [] then
          make Wa_READY ''The subject has active continuity items and the wake context is ready.''
            (map (\<lambda>t. ''unfinished:'' @ t) unfinished @ map (\<lambda>t. ''focus:'' @ t) (cty_current_focus cty))
        else make Wa_SLEEP ''No relevant memory, recent state change, or active continuity item was found.'' []))"

section \<open>Observation logs\<close>

record wake_observation =
  wo_context_id :: pyval
  wo_state_revision :: "int option"
  wo_event_ids :: "string list"
  wo_update_ids :: "string list"
  wo_memory_request_id :: pyval
  wo_viewed_memory_ids :: "string list"
  wo_selected_memory_ids :: "string list"

definition empty_observation :: wake_observation where
  "empty_observation = \<lparr>wo_context_id = PNone, wo_state_revision = None, wo_event_ids = [], wo_update_ids = [],
     wo_memory_request_id = PNone, wo_viewed_memory_ids = [], wo_selected_memory_ids = []\<rparr>"

definition observation_of_context :: "wake_context \<Rightarrow> wake_observation" where
  "observation_of_context x = \<lparr>wo_context_id = PStr (wx_context_id x),
     wo_state_revision = Some (ss_revision (wx_subject_state x)),
     wo_event_ids = map ev_event_id (wx_recent_events x), wo_update_ids = map su_update_id (wx_recent_updates x),
     wo_memory_request_id = PStr (mq_request_id (mr_request (wx_memory_result x))),
     wo_viewed_memory_ids = map (\<lambda>m. mc_memory_id (md_candidate m)) (mr_decisions (wx_memory_result x)),
     wo_selected_memory_ids = map mc_memory_id (selected_memories (wx_memory_result x))\<rparr>"

definition observation_to_dict :: "wake_observation \<Rightarrow> pyval" where
  "observation_to_dict w = PDict
     [(''context_id'', wo_context_id w), (''state_revision'', opt_val PInt (wo_state_revision w)),
      (''event_ids'', PList (map PStr (wo_event_ids w))), (''update_ids'', PList (map PStr (wo_update_ids w))),
      (''memory_request_id'', wo_memory_request_id w),
      (''viewed_memory_ids'', PList (map PStr (wo_viewed_memory_ids w))),
      (''selected_memory_ids'', PList (map PStr (wo_selected_memory_ids w)))]"

definition observation_revision :: "pyval \<Rightarrow> int option res" where
  "observation_revision v = (if v = PNone then Inr None else (case as_int v of
       Some n \<Rightarrow> if n < 0 then Inl (awake_invalid ''observation state_revision is invalid'') else Inr (Some n)
     | None \<Rightarrow> Inl (awake_invalid ''observation state_revision is invalid'')))"

definition observation_from_dict :: "pyval \<Rightarrow> wake_observation res" where
  "observation_from_dict value = (case value of
       PDict d \<Rightarrow>
         rbind (observation_revision (dict_get d ''state_revision'')) (\<lambda>revision.
         rbind (awake_texts (dict_get_or (PList []) d ''event_ids'') ''observation event_ids'') (\<lambda>event_ids.
         rbind (awake_texts (dict_get_or (PList []) d ''update_ids'') ''observation update_ids'') (\<lambda>update_ids.
         rbind (awake_texts (dict_get_or (PList []) d ''viewed_memory_ids'') ''observation viewed_memory_ids'') (\<lambda>viewed.
         rbind (awake_texts (dict_get_or (PList []) d ''selected_memory_ids'') ''observation selected_memory_ids'') (\<lambda>selected.
         Inr \<lparr>wo_context_id = dict_get d ''context_id'', wo_state_revision = revision, wo_event_ids = event_ids,
           wo_update_ids = update_ids, wo_memory_request_id = dict_get d ''memory_request_id'',
           wo_viewed_memory_ids = viewed, wo_selected_memory_ids = selected\<rparr>)))))
     | _ \<Rightarrow> Inl (awake_invalid ''wake observation log must be an object''))"

definition wf_observation :: "wake_observation \<Rightarrow> bool" where
  "wf_observation w \<longleftrightarrow> (\<forall>n. wo_state_revision w = Some n \<longrightarrow> 0 \<le> n) \<and>
     (\<forall>s \<in> set (wo_event_ids w) \<union> set (wo_update_ids w) \<union> set (wo_viewed_memory_ids w) \<union> set (wo_selected_memory_ids w).
        \<not> blank s)"

lemma awake_texts_run: "\<forall>s \<in> set ss. \<not> blank s \<Longrightarrow> awake_texts (PList (map PStr ss)) n = Inr ss"
  by (simp add: awake_texts_Inr)

lemma observation_roundtrip: "wf_observation w \<Longrightarrow> observation_from_dict (observation_to_dict w) = Inr w"
  by (cases "wo_state_revision w") (simp_all add: observation_from_dict_def observation_to_dict_def observation_revision_def
      wf_observation_def awake_texts_run)

lemma observation_of_context_wf: "wf_wake_context x \<Longrightarrow> wf_observation (observation_of_context x)"
  by (auto simp: wf_observation_def observation_of_context_def wf_wake_context_def wf_subject_def wf_event_def wf_state_update_def
      wf_memory_result_def wf_memory_decision_def wf_memory_candidate_def selected_memories_def)

section \<open>Sessions\<close>

record wake_session =
  ws_session_id :: string
  ws_cycle_id :: string
  ws_subject_id :: string
  ws_wake_reason :: wake_cause
  ws_detail :: string
  ws_wake_time :: instant
  ws_source_event_id :: pyval
  ws_subject_revision :: pyval
  ws_completed_at :: "instant option"
  ws_success :: "bool option"
  ws_decision :: "wake_decision option"
  ws_observation :: wake_observation
  ws_error :: "string option"
  ws_recovery_context :: "wake_context option"

record wake_session_args =
  wsa_session_id :: pyval
  wsa_cycle_id :: pyval
  wsa_subject_id :: pyval
  wsa_wake_reason :: pyval
  wsa_detail :: pyval
  wsa_wake_time :: pyval
  wsa_source_event_id :: pyval
  wsa_subject_revision :: pyval
  wsa_completed_at :: pyval
  wsa_success :: pyval
  wsa_decision :: "wake_decision option"
  wsa_observation :: wake_observation
  wsa_error :: pyval
  wsa_recovery_context :: "wake_context option"

text \<open>The checks on how far the session has come; they give whether it succeeded and its error.\<close>

definition session_outcome ::
  "pyval \<Rightarrow> instant option \<Rightarrow> wake_decision option \<Rightarrow> pyval \<Rightarrow> wake_context option \<Rightarrow> (bool option \<times> string option) res" where
  "session_outcome success completed_at decision error recovery =
     (if success = PNone then
        rbind (ensure (completed_at = None \<and> decision = None \<and> recovery = None \<and> error = PNone)
          (awake_invalid ''a running wake session cannot contain completion fields'')) (\<lambda>_. Inr (None, None))
      else
        rbind (ensure (completed_at \<noteq> None \<and> decision \<noteq> None)
          (awake_invalid ''a finalized wake session requires completed_at and decision'')) (\<lambda>_.
        rbind (ensure (\<not> (truthy success \<and> error \<noteq> PNone))
          (awake_invalid ''a successful wake session cannot contain an error'')) (\<lambda>_.
        rbind (ensure (\<not> (\<not> truthy success \<and> recovery \<noteq> None))
          (awake_invalid ''a failed wake session cannot contain a recovery context'')) (\<lambda>_.
        if truthy success then Inr (Some True, None)
        else rbind (awake_text error ''wake session error'') (\<lambda>error. Inr (Some False, Some error))))))"

definition wake_session_init :: "wake_session_args \<Rightarrow> wake_session res" where
  "wake_session_init a =
     rbind (awake_text (wsa_session_id a) ''session_id'') (\<lambda>session_id.
     rbind (awake_text (wsa_cycle_id a) ''session.cycle_id'') (\<lambda>cycle_id.
     rbind (awake_text (wsa_subject_id a) ''session.subject_id'') (\<lambda>subject_id.
     rbind (wake_cause_of (ValueError, ''is not a valid WakeReason'') (wsa_wake_reason a)) (\<lambda>reason.
     rbind (awake_text (wsa_detail a) ''wake_reason_detail'') (\<lambda>detail.
     rbind (require_aware (awake_invalid ''wake_time must include a timezone'') (wsa_wake_time a)) (\<lambda>wake_time.
     rbind (if wsa_subject_revision a = PNone then Inr () else (case as_num (wsa_subject_revision a) of
         None \<Rightarrow> Inl (TypeError, ''not supported between instances'')
       | Some q \<Rightarrow> ensure (\<not> q < 0) (awake_invalid ''subject_revision cannot be negative''))) (\<lambda>_.
     rbind (optional_aware (awake_invalid ''completed_at must include a timezone'') (wsa_completed_at a)) (\<lambda>completed_at.
     rbind (ensure (wsa_success a = PNone \<or> is_bool (wsa_success a))
       (awake_invalid ''completed_successfully must be boolean or null'')) (\<lambda>_.
     rbind (session_outcome (wsa_success a) completed_at (wsa_decision a) (wsa_error a) (wsa_recovery_context a)) (\<lambda>outcome.
     rbind (ensure (\<forall>x. wsa_recovery_context a = Some x \<longrightarrow> ss_subject_id (wx_subject_state x) = subject_id)
       (awake_invalid ''wake recovery context belongs to a different subject'')) (\<lambda>_.
     rbind (ensure (\<forall>x. wsa_recovery_context a = Some x \<longrightarrow> PStr (wx_context_id x) = wo_context_id (wsa_observation a))
       (awake_invalid ''wake recovery context does not match the observation log'')) (\<lambda>_.
     Inr \<lparr>ws_session_id = session_id, ws_cycle_id = cycle_id, ws_subject_id = subject_id, ws_wake_reason = reason,
       ws_detail = detail, ws_wake_time = wake_time, ws_source_event_id = wsa_source_event_id a,
       ws_subject_revision = wsa_subject_revision a, ws_completed_at = completed_at, ws_success = fst outcome,
       ws_decision = wsa_decision a, ws_observation = wsa_observation a, ws_error = snd outcome,
       ws_recovery_context = wsa_recovery_context a\<rparr>))))))))))))"

definition session_start :: "string option \<Rightarrow> string \<Rightarrow> awake_cycle \<Rightarrow> wake_trigger \<Rightarrow> wake_session res" where
  "session_start session_id uuid cycle trigger = wake_session_init
     \<lparr>wsa_session_id = PStr (given_or_uuid session_id uuid), wsa_cycle_id = PStr (ac_cycle_id cycle),
      wsa_subject_id = PStr (ac_subject_id cycle), wsa_wake_reason = PStr (wake_cause_value (wt_reason trigger)),
      wsa_detail = PStr (wt_detail trigger), wsa_wake_time = utc_val (wt_triggered_at trigger),
      wsa_source_event_id = opt_val PStr (wt_source_event_id trigger), wsa_subject_revision = PNone,
      wsa_completed_at = PNone, wsa_success = PNone, wsa_decision = None, wsa_observation = empty_observation,
      wsa_error = PNone, wsa_recovery_context = None\<rparr>"

definition session_complete :: "wake_context \<Rightarrow> wake_decision \<Rightarrow> pyval \<Rightarrow> bool \<Rightarrow> wake_session \<Rightarrow> wake_session res" where
  "session_complete x decision completed_at retain s =
     rbind (ensure (ss_subject_id (wx_subject_state x) = ws_subject_id s)
       (awake_invalid ''WakeContext subject does not match WakeSession'')) (\<lambda>_.
     rbind (require_aware (awake_invalid ''completed_at must include a timezone'') completed_at) (\<lambda>completed_at.
     rbind (if retain then rbind (rbind (wake_context_to_dict x) wake_context_from_dict) (\<lambda>y. Inr (Some y))
       else Inr None) (\<lambda>recovery.
     Inr (s\<lparr>ws_subject_revision := PInt (ss_revision (wx_subject_state x)), ws_observation := observation_of_context x,
       ws_recovery_context := recovery, ws_decision := Some decision, ws_completed_at := Some completed_at,
       ws_success := Some True, ws_error := None\<rparr>))))"

definition session_fail ::
  "wake_decision \<Rightarrow> pyval \<Rightarrow> string \<Rightarrow> int option \<Rightarrow> wake_observation \<Rightarrow> wake_session \<Rightarrow> wake_session res" where
  "session_fail decision completed_at error subject_revision observation s =
     rbind (require_aware (awake_invalid ''completed_at must include a timezone'') completed_at) (\<lambda>completed_at.
     rbind (awake_text (PStr error) ''wake session error'') (\<lambda>error.
     Inr (s\<lparr>ws_subject_revision := opt_val PInt subject_revision, ws_observation := observation,
       ws_decision := Some decision, ws_completed_at := Some completed_at, ws_success := Some False,
       ws_recovery_context := None, ws_error := Some error\<rparr>)))"

definition wake_session_to_dict :: "wake_session \<Rightarrow> pyval res" where
  "wake_session_to_dict s =
     rbind (case ws_recovery_context s of None \<Rightarrow> Inr PNone | Some x \<Rightarrow> wake_context_to_dict x) (\<lambda>recovery.
     Inr (PDict
       [(''session_id'', PStr (ws_session_id s)), (''cycle_id'', PStr (ws_cycle_id s)),
        (''subject_id'', PStr (ws_subject_id s)), (''wake_reason'', PStr (wake_cause_value (ws_wake_reason s))),
        (''wake_reason_detail'', PStr (ws_detail s)), (''wake_time'', PStr (format_z (ws_wake_time s))),
        (''source_event_id'', ws_source_event_id s), (''subject_revision'', ws_subject_revision s),
        (''completed_at'', optional_time (ws_completed_at s)),
        (''completed_successfully'', opt_val PBool (ws_success s)),
        (''decision'', opt_val wake_decision_to_dict (ws_decision s)),
        (''observation'', observation_to_dict (ws_observation s)), (''recovery_context'', recovery),
        (''error'', opt_val PStr (ws_error s))]))"

definition wake_session_from_dict :: "pyval \<Rightarrow> wake_session res" where
  "wake_session_from_dict value = (case value of
       PDict d \<Rightarrow>
         rbind (awake_parse_datetime (dict_get d ''wake_time'') ''session.wake_time'') (\<lambda>wake_time.
         rbind (awake_parse_optional (dict_get d ''completed_at'') ''session.completed_at'') (\<lambda>completed_at.
         rbind (if dict_get d ''decision'' = PNone then Inr None
           else rbind (wake_decision_from_dict (dict_get d ''decision'')) (\<lambda>x. Inr (Some x))) (\<lambda>decision.
         rbind (observation_from_dict (dict_get_or (PDict []) d ''observation'')) (\<lambda>observation.
         rbind (if dict_get d ''recovery_context'' = PNone then Inr None
           else rbind (wake_context_from_dict (dict_get d ''recovery_context'')) (\<lambda>x. Inr (Some x))) (\<lambda>recovery.
         wake_session_init
           \<lparr>wsa_session_id = dict_get d ''session_id'', wsa_cycle_id = dict_get d ''cycle_id'',
            wsa_subject_id = dict_get d ''subject_id'', wsa_wake_reason = dict_get d ''wake_reason'',
            wsa_detail = dict_get d ''wake_reason_detail'', wsa_wake_time = wake_time,
            wsa_source_event_id = dict_get d ''source_event_id'', wsa_subject_revision = dict_get d ''subject_revision'',
            wsa_completed_at = completed_at, wsa_success = dict_get d ''completed_successfully'', wsa_decision = decision,
            wsa_observation = observation, wsa_error = dict_get d ''error'', wsa_recovery_context = recovery\<rparr>)))))
     | _ \<Rightarrow> Inl (awake_invalid ''wake session must be an object''))"

definition session_args_of :: "wake_session \<Rightarrow> wake_session_args" where
  "session_args_of s =
     \<lparr>wsa_session_id = PStr (ws_session_id s), wsa_cycle_id = PStr (ws_cycle_id s), wsa_subject_id = PStr (ws_subject_id s),
      wsa_wake_reason = PStr (wake_cause_value (ws_wake_reason s)), wsa_detail = PStr (ws_detail s),
      wsa_wake_time = utc_val (ws_wake_time s), wsa_source_event_id = ws_source_event_id s,
      wsa_subject_revision = ws_subject_revision s, wsa_completed_at = opt_val utc_val (ws_completed_at s),
      wsa_success = opt_val PBool (ws_success s), wsa_decision = ws_decision s, wsa_observation = ws_observation s,
      wsa_error = opt_val PStr (ws_error s), wsa_recovery_context = ws_recovery_context s\<rparr>"

definition wf_session :: "wake_session \<Rightarrow> bool" where
  "wf_session s \<longleftrightarrow> wake_session_init (session_args_of s) = Inr s \<and> wf_observation (ws_observation s) \<and>
     (\<forall>d. ws_decision s = Some d \<longrightarrow> wf_decision d) \<and>
     (\<forall>x. ws_recovery_context s = Some x \<longrightarrow> wf_wake_context x \<and> normal_context x = x)"

lemma wake_session_roundtrip:
  assumes "wf_session s"
  obtains d where "wake_session_to_dict s = Inr d" "wake_session_from_dict d = Inr s"
proof -
  have init: "wake_session_init (session_args_of s) = Inr s" using assms by (simp add: wf_session_def)
  have o: "observation_from_dict (observation_to_dict (ws_observation s)) = Inr (ws_observation s)"
    using assms by (simp add: wf_session_def observation_roundtrip)
  obtain dv where dv: "opt_val wake_decision_to_dict (ws_decision s) = dv"
    "(if dv = PNone then Inr None else rbind (wake_decision_from_dict dv) (\<lambda>x. Inr (Some x))) = Inr (ws_decision s)"
  proof (cases "ws_decision s")
    case (Some x)
    with assms have "wake_decision_from_dict (wake_decision_to_dict x) = Inr x" "wake_decision_to_dict x \<noteq> PNone"
      by (simp_all add: wf_session_def wake_decision_roundtrip) (simp add: wake_decision_to_dict_def)
    with Some that show thesis by simp
  qed (use that in simp)
  obtain v where v: "(case ws_recovery_context s of None \<Rightarrow> Inr PNone | Some x \<Rightarrow> wake_context_to_dict x) = Inr v"
    "(if v = PNone then Inr None else rbind (wake_context_from_dict v) (\<lambda>x. Inr (Some x))) = Inr (ws_recovery_context s)"
  proof (cases "ws_recovery_context s")
    case (Some x)
    with assms have "wf_wake_context x" "normal_context x = x" by (simp_all add: wf_session_def)
    then obtain d where "wake_context_to_dict x = Inr d" "d \<noteq> PNone" "wake_context_from_dict d = Inr x"
      by (metis wake_context_roundtrip)
    with Some that show thesis by simp
  qed (use that in simp)
  show thesis
    by (rule that) (use init v(1) in \<open>simp add: wake_session_to_dict_def\<close>,
      use init in \<open>simp add: wake_session_from_dict_def session_args_of_def dv v(2) o cong: if_cong split del: if_split\<close>)
qed

end
