(* ===== verification/Awakening_Repository.thy ===== *)
theory Awakening_Repository
  imports Awakening Subject_Repository "HOL-Library.AList"
begin

text \<open>
  storage/json_awakening_repository.py: the wake cycles in one directory, the sessions in one
  directory per subject. A directory is the listing of its \<open>*.json\<close> files in the order \<open>glob\<close>
  yields them, named by digests; a directory that does not exist has an empty listing. \<open>disk\<close> is
  what the operating system raises at the one write of a call, if it does.
\<close>

type_synonym listing = "(string \<times> file_state) list"

record wake_log =
  wl_cycles :: listing
  wl_sessions :: "string \<Rightarrow> listing"

definition listed :: "listing \<Rightarrow> string \<Rightarrow> file_state" where
  "listed l stem = (case map_of l stem of None \<Rightarrow> File_Absent | Some f \<Rightarrow> f)"

definition awake_hash :: "digest_fun \<Rightarrow> string \<Rightarrow> string \<Rightarrow> string res" where
  "awake_hash sha v name = (if blank v then Inl (awake_invalid (name @ '' must be a non-empty string'')) else Inr (sha v))"

definition session_path :: "digest_fun \<Rightarrow> string \<Rightarrow> string \<Rightarrow> (string \<times> string) res" where
  "session_path sha subject_id session_id =
     rbind (awake_hash sha subject_id ''subject_id'') (\<lambda>dir.
     rbind (awake_hash sha session_id ''session_id'') (\<lambda>stem. Inr (dir, stem)))"

definition read_awake_json :: "file_state \<Rightarrow> string \<Rightarrow> pyval res" where
  "read_awake_json f label = (case f of File_Doc v \<Rightarrow> Inr v
     | _ \<Rightarrow> Inl (awake_invalid (''unable to read valid '' @ label @ '' data'')))"

definition write_awake_json :: "exn option \<Rightarrow> string \<Rightarrow> pyval \<Rightarrow> listing \<Rightarrow> listing res" where
  "write_awake_json disk stem data l =
     rbind (ensure (json_ok data) (TypeError, ''Object of type datetime is not JSON serializable'')) (\<lambda>_.
     case disk of
       Some e \<Rightarrow> Inl e
     | None \<Rightarrow> if listed l stem = File_Not_A_File then Inl (OSError, ''Is a directory'')
         else Inr (AList.update stem (File_Doc data) l))"

section \<open>Cycles\<close>

definition save_cycle :: "digest_fun \<Rightarrow> exn option \<Rightarrow> awake_cycle \<Rightarrow> wake_log \<Rightarrow> wake_log res" where
  "save_cycle sha disk c st =
     rbind (awake_hash sha (ac_cycle_id c) ''cycle_id'') (\<lambda>stem.
     rbind (write_awake_json disk stem (awake_cycle_to_dict c) (wl_cycles st)) (\<lambda>l.
     Inr (st\<lparr>wl_cycles := l\<rparr>)))"

definition load_cycle :: "digest_fun \<Rightarrow> string \<Rightarrow> wake_log \<Rightarrow> awake_cycle res" where
  "load_cycle sha cycle_id st =
     rbind (awake_hash sha cycle_id ''cycle_id'') (\<lambda>stem.
     let f = listed (wl_cycles st) stem in
     if \<not> is_file f then Inl (StateNotFoundError, ''awake cycle not found: '' @ cycle_id)
     else rbind (rbind (read_awake_json f ''awake cycle'') awake_cycle_from_dict) (\<lambda>c.
       rbind (ensure (ac_cycle_id c = cycle_id)
         (awake_invalid ''persisted cycle_id does not match requested cycle_id'')) (\<lambda>_. Inr c)))"

definition list_due_cycles :: "digest_fun \<Rightarrow> pyval \<Rightarrow> wake_log \<Rightarrow> awake_cycle list res" where
  "list_due_cycles sha now st =
     rbind (require_aware (awake_invalid ''now must include a timezone'') now) (\<lambda>now.
     rbind (rmap (\<lambda>entry. rbind (read_awake_json (snd entry) ''awake cycle'') awake_cycle_from_dict) (wl_cycles st)) (\<lambda>cs.
     Inr (sort_key (\<lambda>c. (case ac_next_wake_at c of None \<Rightarrow> now | Some t \<Rightarrow> t, ac_cycle_id c))
       (filter (\<lambda>c. cycle_due c now) cs))))"

section \<open>Sessions\<close>

text \<open>Equality of the contexts, as equality of their documents.\<close>

definition same_context :: "wake_context \<Rightarrow> wake_context \<Rightarrow> bool" where
  "same_context x y = (case (wake_context_to_dict x, wake_context_to_dict y) of
       (Inr d, Inr e) \<Rightarrow> py_eq d e | _ \<Rightarrow> x = y)"

definition session_successor :: "wake_session \<Rightarrow> wake_session \<Rightarrow> unit res" where
  "session_successor previous s =
     rbind (ensure (ws_subject_id previous = ws_subject_id s \<and> ws_cycle_id previous = ws_cycle_id s)
       (awake_invalid ''wake session identity cannot be changed'')) (\<lambda>_.
     rbind (ensure (\<not> (ws_success previous \<noteq> None \<and> ws_success s = None))
       (awake_invalid ''a completed wake session cannot return to running'')) (\<lambda>_.
     ensure (case ws_recovery_context previous of None \<Rightarrow> True
         | Some x \<Rightarrow> (case ws_recovery_context s of None \<Rightarrow> False | Some y \<Rightarrow> same_context y x))
       (awake_invalid ''a persisted wake recovery context cannot be changed'')))"

definition read_session :: "file_state \<Rightarrow> wake_session res" where
  "read_session f = rbind (read_awake_json f ''wake session'') wake_session_from_dict"

definition save_session :: "digest_fun \<Rightarrow> exn option \<Rightarrow> wake_session \<Rightarrow> wake_log \<Rightarrow> wake_log res" where
  "save_session sha disk s st =
     rbind (session_path sha (ws_subject_id s) (ws_session_id s)) (\<lambda>(dir, stem).
     let f = listed (wl_sessions st dir) stem in
     rbind (if is_file f then rbind (read_session f) (\<lambda>previous. session_successor previous s) else Inr ()) (\<lambda>_.
     rbind (wake_session_to_dict s) (\<lambda>data.
     rbind (write_awake_json disk stem data (wl_sessions st dir)) (\<lambda>l.
     Inr (st\<lparr>wl_sessions := (wl_sessions st)(dir := l)\<rparr>)))))"

definition load_session :: "digest_fun \<Rightarrow> string \<Rightarrow> string \<Rightarrow> wake_log \<Rightarrow> wake_session res" where
  "load_session sha subject_id session_id st =
     rbind (session_path sha subject_id session_id) (\<lambda>(dir, stem).
     let f = listed (wl_sessions st dir) stem in
     if \<not> is_file f then Inl (StateNotFoundError, ''wake session not found: '' @ session_id)
     else rbind (read_session f) (\<lambda>s.
       rbind (ensure (ws_subject_id s = subject_id \<and> ws_session_id s = session_id)
         (awake_invalid ''persisted wake session identity does not match'')) (\<lambda>_. Inr s)))"

definition list_sessions :: "digest_fun \<Rightarrow> string \<Rightarrow> int option \<Rightarrow> wake_log \<Rightarrow> wake_session list res" where
  "list_sessions sha subject_id limit st =
     rbind (ensure (\<forall>n. limit = Some n \<longrightarrow> 0 < n) (awake_invalid ''session limit must be a positive integer'')) (\<lambda>_.
     rbind (awake_hash sha subject_id ''subject_id'') (\<lambda>dir.
     rbind (rmap (\<lambda>entry. read_session (snd entry)) (wl_sessions st dir)) (\<lambda>sessions.
     let ordered = rev (sort_key (\<lambda>s. (ws_wake_time s, ws_session_id s)) (rev sessions)) in
     Inr (case limit of None \<Rightarrow> ordered | Some n \<Rightarrow> take (nat n) ordered))))"

section \<open>What is read back\<close>

lemma listed_update [simp]: "listed (AList.update stem f l) stem' = (if stem' = stem then f else listed l stem')"
  by (simp add: listed_def update_conv')

lemma write_awake_Inr:
  "write_awake_json disk stem v l = Inr l' \<longleftrightarrow>
     json_ok v \<and> disk = None \<and> listed l stem \<noteq> File_Not_A_File \<and> l' = AList.update stem (File_Doc v) l"
  by (auto simp: write_awake_json_def rbind_eq_Inr ensure_def split: option.splits)

lemma cycle_json [simp]: "json_ok (awake_cycle_to_dict c)"
  by (cases "ac_interval_seconds c"; cases "ac_next_wake_at c"; cases "ac_last_wake_at c") (simp_all add: awake_cycle_to_dict_def)

lemma load_saved_cycle:
  assumes "save_cycle sha disk c st = Inr st'" "wf_cycle c"
  shows "load_cycle sha (ac_cycle_id c) st' = Inr c" "wl_sessions st' = wl_sessions st"
  using assms by (auto simp: save_cycle_def load_cycle_def rbind_eq_Inr write_awake_Inr awake_hash_def read_awake_json_def
      awake_cycle_roundtrip ensure_def split: if_splits)

lemma cycle_from_dict_wf: "awake_cycle_from_dict v = Inr c \<Longrightarrow> wf_cycle c"
  unfolding awake_cycle_from_dict_def by (cases v) (auto elim!: rbindE dest: awake_cycle_init_wf)

lemma load_cycle_wf: "load_cycle sha i st = Inr c \<Longrightarrow> wf_cycle c \<and> ac_cycle_id c = i"
  by (auto simp: load_cycle_def rbind_eq_Inr Let_def ensure_def dest: cycle_from_dict_wf split: if_splits)

lemma save_session_file:
  assumes "save_session sha disk s st = Inr st'"
  obtains dir stem d where "session_path sha (ws_subject_id s) (ws_session_id s) = Inr (dir, stem)"
    "wake_session_to_dict s = Inr d" "json_ok d"
    "st' = st\<lparr>wl_sessions := (wl_sessions st)(dir := AList.update stem (File_Doc d) (wl_sessions st dir))\<rparr>"
    "is_file (listed (wl_sessions st dir) stem) \<longrightarrow>
      (\<exists>p. read_session (listed (wl_sessions st dir) stem) = Inr p \<and> session_successor p s = Inr ())"
  using assms by (auto simp: save_session_def rbind_eq_Inr write_awake_Inr Let_def split: if_splits)

lemma load_saved_session:
  assumes "save_session sha disk s st = Inr st'" "wf_session s"
  shows "load_session sha (ws_subject_id s) (ws_session_id s) st' = Inr s" "wl_cycles st' = wl_cycles st"
proof -
  obtain dir stem d where w: "session_path sha (ws_subject_id s) (ws_session_id s) = Inr (dir, stem)"
    "wake_session_to_dict s = Inr d"
    "st' = st\<lparr>wl_sessions := (wl_sessions st)(dir := AList.update stem (File_Doc d) (wl_sessions st dir))\<rparr>"
    using assms(1) by (rule save_session_file) blast
  obtain d' where "wake_session_to_dict s = Inr d'" "wake_session_from_dict d' = Inr s"
    using assms(2) by (rule wake_session_roundtrip)
  with w show "load_session sha (ws_subject_id s) (ws_session_id s) st' = Inr s" "wl_cycles st' = wl_cycles st"
    by (simp_all add: load_session_def read_session_def read_awake_json_def ensure_def)
qed

text \<open>Whatever a write does, an entry that is final stays final, with the recovery context it has.\<close>

definition session_later :: "wake_session \<Rightarrow> wake_session \<Rightarrow> bool" where
  "session_later p s \<longleftrightarrow> ws_subject_id s = ws_subject_id p \<and> ws_cycle_id s = ws_cycle_id p \<and>
     (ws_success p \<noteq> None \<longrightarrow> ws_success s \<noteq> None) \<and>
     (\<forall>x. ws_recovery_context p = Some x \<longrightarrow> (\<exists>y. ws_recovery_context s = Some y \<and> same_context y x))"

lemma session_successor_later: "session_successor p s = Inr () \<longleftrightarrow> session_later p s"
  by (auto simp: session_successor_def session_later_def rbind_eq_Inr ensure_def split: option.splits)

end
