(* ===== verification/Awakening_Service.thy ===== *)
theory Awakening_Service
  imports Awakening_Repository Subject_Service
begin

text \<open>
  services/awakening_service.py: the wake pipeline. A store holds the subject files beside the wake
  log. The ports of a call are its readings of the clock and of the uuid source in order, the ports
  of the subject service and of the memory service it calls, what the disk raises at its \<open>k\<close>-th
  write, and \<open>type(exc).__name__\<close>. Of a run of the pipeline the locals that outlive an exception are
  kept in a record: the session, the cycle, the revision that was read and the observation log.
\<close>

record awake_store =
  aw_subjects :: subject_store
  aw_log :: wake_log

record awake_ports =
  ak_subjects :: subject_ports
  ak_memory :: memory_ports
  ak_now :: pyval
  ak_context_time :: pyval
  ak_completed_at :: pyval
  ak_failed_at :: pyval
  ak_cycle_uuid :: string
  ak_session_uuid :: string
  ak_request_uuid :: string
  ak_context_uuid :: string
  ak_disk :: "nat \<Rightarrow> exn option"
  ak_exc_name :: "exn \<Rightarrow> string"

record awake_config =
  ag_recent_update_limit :: int
  ag_memory_limit :: int
  ag_minimum_memory_relevance :: rat

definition awake_service_init :: "pyval \<Rightarrow> pyval \<Rightarrow> pyval \<Rightarrow> awake_config res" where
  "awake_service_init recent_update_limit memory_limit minimum =
     rbind (case as_int recent_update_limit of
         Some n \<Rightarrow> if n \<le> 0 then Inl (awake_invalid ''recent_update_limit must be positive'') else Inr n
       | None \<Rightarrow> Inl (awake_invalid ''recent_update_limit must be positive'')) (\<lambda>recent.
     rbind (case as_int memory_limit of
         Some n \<Rightarrow> if n \<le> 0 then Inl (awake_invalid ''memory_limit must be positive'') else Inr n
       | None \<Rightarrow> Inl (awake_invalid ''memory_limit must be positive'')) (\<lambda>limit.
     rbind (case as_num minimum of
         None \<Rightarrow> Inl (TypeError, ''not supported between instances'')
       | Some q \<Rightarrow> if 0 \<le> q \<and> q \<le> 1 then Inr q
           else Inl (awake_invalid ''minimum_memory_relevance must be between 0 and 1'')) (\<lambda>q.
     Inr \<lparr>ag_recent_update_limit = recent, ag_memory_limit = limit, ag_minimum_memory_relevance = q\<rparr>)))"

type_synonym 'a awake_prog = "(awake_store, 'a) prog"

section \<open>Cycles\<close>

definition on_log :: "(wake_log \<Rightarrow> wake_log res) \<Rightarrow> awake_store \<Rightarrow> awake_store res" where
  "on_log f st = rbind (f (aw_log st)) (\<lambda>l. Inr (st\<lparr>aw_log := l\<rparr>))"

abbreviation ak_sha :: "awake_ports \<Rightarrow> digest_fun" where
  "ak_sha pp \<equiv> sv_sha (ak_subjects pp)"

definition add_cycle :: "awake_ports \<Rightarrow> awake_cycle res \<Rightarrow> awake_cycle awake_prog" where
  "add_cycle pp r =
     sbind (slift r) (\<lambda>c.
     sbind (swrite (on_log (save_cycle (ak_sha pp) (ak_disk pp 0) c))) (\<lambda>_. sret c))"

definition create_manual_cycle :: "awake_ports \<Rightarrow> string \<Rightarrow> awake_cycle awake_prog" where
  "create_manual_cycle pp subject_id = add_cycle pp (manual_cycle (ak_cycle_uuid pp) subject_id (ak_now pp))"

definition create_scheduled_cycle :: "awake_ports \<Rightarrow> string \<Rightarrow> pyval \<Rightarrow> pyval \<Rightarrow> awake_cycle awake_prog" where
  "create_scheduled_cycle pp subject_id interval_seconds first_wake_at =
     add_cycle pp (scheduled_cycle (ak_cycle_uuid pp) subject_id (ak_now pp) interval_seconds first_wake_at)"

text \<open>\<open>now or self._clock()\<close>.\<close>

definition service_due_cycles :: "awake_ports \<Rightarrow> pyval \<Rightarrow> awake_cycle list awake_prog" where
  "service_due_cycles pp now = sread (\<lambda>st.
     list_due_cycles (ak_sha pp) (if now = PNone then ak_now pp else now) (aw_log st))"

definition get_cycle :: "awake_ports \<Rightarrow> string \<Rightarrow> awake_cycle awake_prog" where
  "get_cycle pp cycle_id = sread (\<lambda>st. load_cycle (ak_sha pp) cycle_id (aw_log st))"

definition get_sessions :: "awake_ports \<Rightarrow> string \<Rightarrow> int option \<Rightarrow> wake_session list awake_prog" where
  "get_sessions pp subject_id limit = sread (\<lambda>st. list_sessions (ak_sha pp) subject_id limit (aw_log st))"

definition get_session :: "awake_ports \<Rightarrow> string \<Rightarrow> string \<Rightarrow> wake_session awake_prog" where
  "get_session pp subject_id session_id = sread (\<lambda>st. load_session (ak_sha pp) subject_id session_id (aw_log st))"

section \<open>The memory request of a wake\<close>

definition wake_query :: "string list \<Rightarrow> string list \<Rightarrow> string list \<Rightarrow> string" where
  "wake_query focus unfinished recent_event_ids = join '' ''
     ([''Retrieve memories relevant to the subject's current continuity.''] @
      (if focus = [] then [] else [''Current focus: '' @ join ''; '' focus @ ''.'']) @
      (if unfinished = [] then [] else [''Unfinished items: '' @ join ''; '' unfinished @ ''.'']) @
      (if recent_event_ids = [] then [] else [''Recent state evolution is available for comparison.'']))"

definition wake_memory_request ::
  "awake_config \<Rightarrow> string \<Rightarrow> subject_state \<Rightarrow> string list \<Rightarrow> pyval \<Rightarrow> pyval \<Rightarrow> memory_request res" where
  "wake_memory_request cf uuid state recent_event_ids requested_at request_id =
     (let cty = ss_continuity state; focus = cty_current_focus cty in
      rbind (active_titles (cty_unfinished_items cty) (PList (cty_item_records cty))) (\<lambda>unfinished.
      rbind (case request_id of PStr i \<Rightarrow> Inr (Some i)
        | v \<Rightarrow> if truthy v then Inl (memory_invalid ''request_id must be a non-empty string'') else Inr None) (\<lambda>given.
      memory_request_create given uuid (ss_subject_id state) (wake_query focus unfinished recent_event_ids)
        requested_at [Sec_CONTINUITY, Sec_RELATIONSHIP, Sec_INTENTIONS]
        (ag_memory_limit cf) (ag_minimum_memory_relevance cf)
        [(''subject_revision'', PInt (ss_revision state)), (''current_focus'', PList (map PStr focus)),
         (''unfinished_items'', PList (map PStr unfinished)),
         (''relationship_status'', PStr (rel_current_status (ss_relationship state))),
         (''recent_event_ids'', PList (map PStr recent_event_ids))])))"

definition recent_tail :: "awake_config \<Rightarrow> 'a list \<Rightarrow> 'a list" where
  "recent_tail cf history = drop (length history - nat (ag_recent_update_limit cf)) history"

section \<open>The pipeline\<close>

record awake_run =
  ar_store :: awake_store
  ar_cycle :: awake_cycle
  ar_session :: wake_session
  ar_revision :: "int option"
  ar_observation :: wake_observation

record awake_result =
  wr_context :: wake_context
  wr_session :: wake_session

text \<open>A call of the subject service, and one on the local cycle, as steps of a run.\<close>

definition on_subjects :: "'a subject_prog \<Rightarrow> 'a awake_prog" where
  "on_subjects m st = (case m (aw_subjects st) of (s, r) \<Rightarrow> (st\<lparr>aw_subjects := s\<rparr>, r))"

definition run_call :: "'a awake_prog \<Rightarrow> (awake_run, 'a) prog" where
  "run_call m w = (case m (ar_store w) of (s, r) \<Rightarrow> (w\<lparr>ar_store := s\<rparr>, r))"

definition run_log :: "(wake_log \<Rightarrow> wake_log res) \<Rightarrow> (awake_run, unit) prog" where
  "run_log f = run_call (swrite (on_log f))"

definition run_mark :: "instant \<Rightarrow> (awake_run, unit) prog" where
  "run_mark now w = (case mark_woken now (ar_cycle w) of (c, r) \<Rightarrow> (w\<lparr>ar_cycle := c\<rparr>, r))"

definition run_session :: "(wake_session \<Rightarrow> wake_session res) \<Rightarrow> (awake_run, unit) prog" where
  "run_session f = swrite (\<lambda>w. rbind (f (ar_session w)) (\<lambda>s. Inr (w\<lparr>ar_session := s\<rparr>)))"

text \<open>The last two writes of both ways out: the cycle, then the session.\<close>

definition run_finish :: "awake_ports \<Rightarrow> nat \<Rightarrow> instant \<Rightarrow> (awake_run, unit) prog" where
  "run_finish pp k triggered_at =
     sbind (run_mark triggered_at) (\<lambda>_.
     sbind sget (\<lambda>w.
     sbind (run_log (save_cycle (ak_sha pp) (ak_disk pp k) (ar_cycle w))) (\<lambda>_.
     run_log (save_session (ak_sha pp) (ak_disk pp (Suc k)) (ar_session w)))))"

definition build_context ::
  "string \<Rightarrow> subject_state \<Rightarrow> event list \<Rightarrow> state_update list \<Rightarrow> memory_result \<Rightarrow> instant \<Rightarrow> wake_context res" where
  "build_context context_id state recent_events recent_updates memory at_time =
     rbind (wake_time_init (utc_val at_time) (opt_val utc_val (tmp_last_interaction_at (ss_temporal state)))
       (seconds_since_last_interaction (ss_temporal state) at_time)) (\<lambda>info.
     wake_context_init (PStr context_id) state recent_events recent_updates memory info (utc_val at_time))"

definition wake_pipeline ::
  "awake_ports \<Rightarrow> awake_config \<Rightarrow> wake_trigger \<Rightarrow> string option \<Rightarrow> bool \<Rightarrow> (awake_run, awake_result) prog" where
  "wake_pipeline pp cf trigger context_id preserve =
     sbind sget (\<lambda>w.
     sbind (run_call (on_subjects (at_store (ak_subjects pp) 1 (sv_load (ak_subjects pp) (ac_subject_id (ar_cycle w)))))) (\<lambda>state.
     sbind (smodify (\<lambda>w. w\<lparr>ar_revision := Some (ss_revision state),
       ar_observation := (ar_observation w)\<lparr>wo_state_revision := Some (ss_revision state)\<rparr>\<rparr>)) (\<lambda>_.
     sbind (run_call (on_subjects (at_store (ak_subjects pp) 2
       (get_update_history (ak_subjects pp) (ac_subject_id (ar_cycle w)))))) (\<lambda>history.
     let recent_updates = recent_tail cf history; recent_events = map su_event recent_updates in
     sbind (smodify (\<lambda>w. w\<lparr>ar_observation := (ar_observation w)\<lparr>wo_update_ids := map su_update_id recent_updates,
       wo_event_ids := map ev_event_id recent_events\<rparr>\<rparr>)) (\<lambda>_.
     sbind (slift (wake_memory_request cf (ak_request_uuid pp) state (map ev_event_id recent_events) (ak_context_time pp) PNone)) (\<lambda>request.
     sbind (slift (memory_retrieve (ak_memory pp) request)) (\<lambda>memory.
     sbind (smodify (\<lambda>w. w\<lparr>ar_observation := (ar_observation w)\<lparr>wo_memory_request_id := PStr (mq_request_id request),
       wo_viewed_memory_ids := map (\<lambda>m. mc_memory_id (md_candidate m)) (mr_decisions memory),
       wo_selected_memory_ids := map mc_memory_id (selected_memories memory)\<rparr>\<rparr>)) (\<lambda>_.
     sbind (slift (build_context (given_or_uuid context_id (ak_context_uuid pp)) state recent_events recent_updates memory
       (mq_requested_at request))) (\<lambda>x.
     sbind (slift (wake_decide x)) (\<lambda>decision.
     sbind (run_session (session_complete x decision (ak_completed_at pp) preserve)) (\<lambda>_.
     sbind (run_finish pp 1 (wt_triggered_at trigger)) (\<lambda>_.
     sbind sget (\<lambda>w. sret \<lparr>wr_context = x, wr_session = ar_session w\<rparr>)))))))))))))"

text \<open>The handler of a failed pipeline.\<close>

definition wake_failed :: "awake_ports \<Rightarrow> wake_trigger \<Rightarrow> exn \<Rightarrow> (awake_run, awake_result) prog" where
  "wake_failed pp trigger e =
     sbind (slift (wake_decision_init (PStr (wake_action_value Wa_SLEEP))
       (PStr ''The wake pipeline failed, so no autonomous action may proceed.'') (ak_failed_at pp)
       (PList [PStr (''error:'' @ ak_exc_name pp e)]))) (\<lambda>decision.
     sbind sget (\<lambda>w.
     sbind (run_session (session_fail decision (ak_failed_at pp) (if snd e = [] then ak_exc_name pp e else snd e)
       (ar_revision w) (ar_observation w))) (\<lambda>_.
     sbind (run_finish pp 3 (wt_triggered_at trigger)) (\<lambda>_.
     slift (Inl (WakeExecutionError, ''wake session failed and was logged: '' @ ws_session_id (ar_session w)))))))"

definition wake_run ::
  "awake_ports \<Rightarrow> awake_config \<Rightarrow> awake_cycle \<Rightarrow> wake_trigger \<Rightarrow> string option \<Rightarrow> string option \<Rightarrow> bool
     \<Rightarrow> awake_result awake_prog" where
  "wake_run pp cf cycle trigger session_id context_id preserve =
     sbind (on_subjects (require_active (ak_subjects pp) 0 (ac_subject_id cycle) None)) (\<lambda>_.
     sbind (slift (session_start session_id (ak_session_uuid pp) cycle trigger)) (\<lambda>session.
     sbind (swrite (on_log (save_session (ak_sha pp) (ak_disk pp 0) session))) (\<lambda>_.
     (\<lambda>st. case scatch (wake_pipeline pp cf trigger context_id preserve) (wake_failed pp trigger)
         \<lparr>ar_store = st, ar_cycle = cycle, ar_session = session, ar_revision = None, ar_observation = empty_observation\<rparr>
       of (w, r) \<Rightarrow> (ar_store w, r)))))"

section \<open>Waking\<close>

definition wake_manual ::
  "awake_ports \<Rightarrow> awake_config \<Rightarrow> string \<Rightarrow> string \<Rightarrow> string option \<Rightarrow> string option \<Rightarrow> bool \<Rightarrow> awake_result awake_prog" where
  "wake_manual pp cf cycle_id detail session_id context_id preserve =
     sbind (get_cycle pp cycle_id) (\<lambda>cycle.
     sbind (slift (ensure (ac_mode cycle = Aw_MANUAL) (awake_invalid ''wake_manual requires a manual AwakeCycle''))) (\<lambda>_.
     sbind (slift (ensure (ac_enabled cycle) (awake_invalid ''awake cycle is disabled''))) (\<lambda>_.
     sbind (slift (wake_trigger_init Wc_MANUAL (PStr detail) (ak_now pp) PNone)) (\<lambda>trigger.
     wake_run pp cf cycle trigger session_id context_id preserve))))"

definition wake_scheduled ::
  "awake_ports \<Rightarrow> awake_config \<Rightarrow> string \<Rightarrow> string \<Rightarrow> string option \<Rightarrow> awake_result awake_prog" where
  "wake_scheduled pp cf cycle_id detail session_id =
     sbind (get_cycle pp cycle_id) (\<lambda>cycle.
     sbind (slift (ensure (ac_mode cycle = Aw_SCHEDULED)
       (awake_invalid ''wake_scheduled requires a scheduled AwakeCycle''))) (\<lambda>_.
     sbind (slift (cycle_is_due cycle (ak_now pp))) (\<lambda>due.
     sbind (slift (ensure due (WakeNotDueError, ''awake cycle is not due: '' @ cycle_id))) (\<lambda>_.
     sbind (slift (wake_trigger_init Wc_SCHEDULED (PStr detail) (ak_now pp) PNone)) (\<lambda>trigger.
     wake_run pp cf cycle trigger session_id None False)))))"

definition wake_for_event ::
  "awake_ports \<Rightarrow> awake_config \<Rightarrow> string \<Rightarrow> string \<Rightarrow> string \<Rightarrow> string option \<Rightarrow> awake_result awake_prog" where
  "wake_for_event pp cf cycle_id source_event_id detail session_id =
     sbind (get_cycle pp cycle_id) (\<lambda>cycle.
     sbind (slift (ensure (ac_enabled cycle) (awake_invalid ''awake cycle is disabled''))) (\<lambda>_.
     sbind (slift (wake_trigger_init Wc_EVENT (PStr detail) (ak_now pp) (PStr source_event_id))) (\<lambda>trigger.
     wake_run pp cf cycle trigger session_id None False)))"

section \<open>Recovery\<close>

definition observed_alike :: "wake_observation \<Rightarrow> string \<Rightarrow> state_update list \<Rightarrow> bool" where
  "observed_alike w context_id updates \<longleftrightarrow> map su_update_id updates = wo_update_ids w \<and>
     map (\<lambda>u. ev_event_id (su_event u)) updates = wo_event_ids w \<and> wo_context_id w = PStr context_id \<and>
     wo_memory_request_id w \<noteq> PNone"

text \<open>
  A session of the time before contexts were kept: the context is computed again and has to agree
  with the observation log and the decision.
\<close>

definition recover_legacy ::
  "awake_ports \<Rightarrow> awake_config \<Rightarrow> wake_session \<Rightarrow> wake_decision \<Rightarrow> string \<Rightarrow> pyval \<Rightarrow> awake_result awake_prog" where
  "recover_legacy pp cf s decision context_id legacy_time =
     sbind (on_subjects (at_store (ak_subjects pp) 0 (sv_load (ak_subjects pp) (ws_subject_id s)))) (\<lambda>state.
     sbind (slift (ensure (py_eq (PInt (ss_revision state)) (ws_subject_revision s))
       (awake_invalid ''legacy WakeSession revision no longer matches SubjectState''))) (\<lambda>_.
     sbind (on_subjects (at_store (ak_subjects pp) 1 (get_update_history (ak_subjects pp) (ws_subject_id s)))) (\<lambda>history.
     let updates = recent_tail cf history; events = map su_event updates in
     sbind (slift (ensure (observed_alike (ws_observation s) context_id updates)
       (awake_invalid ''legacy WakeSession observation cannot be reconstructed uniquely''))) (\<lambda>_.
     sbind (slift (wake_memory_request cf (ak_request_uuid pp) state (wo_event_ids (ws_observation s)) legacy_time
       (wo_memory_request_id (ws_observation s)))) (\<lambda>request.
     sbind (slift (memory_retrieve (ak_memory pp) request)) (\<lambda>memory.
     sbind (slift (ensure
       (map (\<lambda>m. mc_memory_id (md_candidate m)) (mr_decisions memory) = wo_viewed_memory_ids (ws_observation s) \<and>
        map mc_memory_id (selected_memories memory) = wo_selected_memory_ids (ws_observation s))
       (awake_invalid ''legacy WakeSession memory observation cannot be reconstructed uniquely''))) (\<lambda>_.
     sbind (slift (build_context context_id state events updates memory (mq_requested_at request))) (\<lambda>x.
     sbind (slift (wake_decide x)) (\<lambda>again.
     sbind (slift (ensure (wd_action again = wd_action decision \<and> wd_reason again = wd_reason decision \<and>
         wd_evidence again = wd_evidence decision)
       (awake_invalid ''legacy WakeSession decision conflicts with reconstructed context''))) (\<lambda>_.
     sret \<lparr>wr_context = x, wr_session = s\<rparr>))))))))))"

definition recover_completed ::
  "awake_ports \<Rightarrow> awake_config \<Rightarrow> wake_session \<Rightarrow> string \<Rightarrow> pyval \<Rightarrow> awake_result awake_prog" where
  "recover_completed pp cf s context_id legacy_time =
     (case (ws_success s, ws_decision s) of
       (Some True, Some decision) \<Rightarrow>
         (case ws_recovery_context s of
            Some held \<Rightarrow>
              sbind (slift (rbind (wake_context_to_dict held) wake_context_from_dict)) (\<lambda>x.
              sbind (slift (ensure (wx_context_id x = context_id)
                (awake_invalid ''persisted WakeContext identity does not match recovery identity''))) (\<lambda>_.
              sret \<lparr>wr_context = x, wr_session = s\<rparr>))
          | None \<Rightarrow>
              if legacy_time = PNone
              then slift (Inl (awake_invalid ''legacy WakeSession lacks the context required for safe recovery''))
              else recover_legacy pp cf s decision context_id legacy_time)
     | _ \<Rightarrow> slift (Inl (awake_invalid ''only a successfully completed WakeSession can be recovered'')))"

end
