(* ===== verification/Awakening_Runs.thy ===== *)
theory Awakening_Runs
  imports Awakening_Service
begin

text \<open>
  Facts about single steps of the wake pipeline and, by the weakest preconditions of Py_State,
  about a whole run: what the log holds when the pipeline returns and when it raises.
\<close>

section \<open>The schedule\<close>

lemma floor_points:
  fixes o1 :: rat and n :: int
  assumes "0 \<le> o1" "o1 < 2 ^ 50" "0 < n" "f = fl o1" "k = \<lfloor>f / fl (of_int n)\<rfloor>"
  shows "o1 < of_int ((k + 1) * n)" "of_int (k * n) \<le> o1 + o1 / 2 ^ 53" "0 \<le> k"
proof -
  have i: "0 < fl (of_int n)" using assms(3) fl_pos_pos [of "of_int n"] by (simp add: fl_def)
  have f0: "0 \<le> f" using assms(1,4) by (simp add: fl_nonneg)
  show k0: "0 \<le> k" using assms(5) f0 i by simp
  have f1: "f \<le> o1 + o1 / 2 ^ 53" using abs_le_D1 [OF fl_error [OF assms(1)]] assms(4) by linarith
  have lo: "of_int k * fl (of_int n) \<le> f"
    using assms(5) i by (metis of_int_floor_le pos_le_divide_eq)
  have hi: "f < (of_int k + 1) * fl (of_int n)"
    using assms(5) i by (metis floor_correct pos_divide_less_eq of_int_add of_int_1)
  have ff: "f < 2 ^ 51" using f1 assms(2) by (simp add: field_simps)
  show "o1 < of_int ((k + 1) * n)" "of_int (k * n) \<le> o1 + o1 / 2 ^ 53"
  proof (atomize (full), cases "k = 0")
    case True
    then have "f < fl (of_int n)" using hi by simp
    then have "o1 < of_int n" using fl_mono [of "of_int n" o1] assms(4) by (meson not_less order_refl le_less_trans less_irrefl)
    then show "o1 < of_int ((k + 1) * n) \<and> of_int (k * n) \<le> o1 + o1 / 2 ^ 53" using True assms(1) by simp
  next
    case False
    then have k1: "1 \<le> k" using k0 by simp
    then have "fl (of_int n) \<le> of_int k * fl (of_int n)" using i by (simp add: mult_le_cancel_right1)
    then have n51: "fl (of_int n) < 2 ^ 51" using lo ff by linarith
    have n: "n < 2 ^ 53"
    proof (rule ccontr)
      assume "\<not> n < 2 ^ 53"
      then have "2 ^ 52 \<le> n" by simp
      then have "(of_int (2 ^ 52) :: rat) \<le> of_int n" by (simp only: of_int_le_iff)
      then have "of_int (2 ^ 52) \<le> fl (of_int n)" using fl_mono fl_int [of "2 ^ 52"] by fastforce
      with n51 show False by simp
    qed
    then have e: "fl (of_int n) = of_int n" using assms(3) by (simp add: fl_int)
    have "of_int (k * n) \<le> f" using lo e by simp
    moreover have "(k + 1) * n \<le> 2 * (k * n)" using k1 assms(3) by (simp add: algebra_simps)
    then have "(of_int ((k + 1) * n) :: rat) \<le> of_int (2 * (k * n))" by (simp only: of_int_le_iff)
    ultimately have "(of_int ((k + 1) * n) :: rat) < of_int (2 ^ 53)" using ff by simp
    then have b: "(k + 1) * n < 2 ^ 53" by (simp only: of_int_less_iff)
    have f2: "of_int (k * n) \<le> f" using lo e by simp
    have "o1 < of_int ((k + 1) * n)"
    proof (rule ccontr)
      assume "\<not> o1 < of_int ((k + 1) * n)"
      then have "fl (of_int ((k + 1) * n)) \<le> f" using assms(4) by (simp add: fl_mono)
      then show False using hi e fl_int [OF _ b] k1 assms(3) by (simp add: field_simps)
    qed
    with f1 f2 show "o1 < of_int ((k + 1) * n) \<and> of_int (k * n) \<le> o1 + o1 / 2 ^ 53" by linarith
  qed
qed

lemma next_wake_point:
  assumes "next_wake n due now = Inr t" "0 < n"
  shows "now < t" "\<exists>k\<ge>0. usec t = usec due + k * n * 1000000"
    "due \<le> now \<Longrightarrow> usec t - n * 1000000 \<le> usec now + 36"
proof -
  consider "now < due" "t = due" | i where "due \<le> now" "float_of_int n = Inr i"
    "plus_seconds due ((\<lfloor>fl (of_int (usec now - usec due) / 1000000) / i\<rfloor> + 1) * n) = Inr t"
    using assms(1) by (auto simp: next_wake_def Let_def rbind_eq_Inr split: if_splits)
  then have "now < t \<and> (\<exists>k\<ge>0. usec t = usec due + k * n * 1000000) \<and>
      (due \<le> now \<longrightarrow> usec t - n * 1000000 \<le> usec now + 36)"
  proof cases
    case 1
    then show ?thesis by (auto intro: exI [of _ 0])
  next
    case 2
    define us o1 k where "us = usec now - usec due" and "o1 = (of_int us / 1000000 :: rat)"
      and "k = \<lfloor>fl o1 / fl (of_int n)\<rfloor>"
    have i: "i = fl (of_int n)" using 2(2) by (simp add: float_of_int_def split: if_splits)
    have u: "0 \<le> us" "us < 315537897600000000"
      using 2(1) usec_range(2) [of now] usec_range(1) [of due] unfolding us_def instant_order by linarith+
    then have o1: "0 \<le> o1" "o1 < 2 ^ 50" by (simp_all add: o1_def)
    note p = floor_points [OF o1 assms(2) refl k_def]
    have t: "usec t = usec due + (k + 1) * n * 1000000"
      using plus_seconds_usec [OF 2(3)] by (simp add: i k_def o1_def us_def)
    have "(of_int us :: rat) < of_int ((k + 1) * n * 1000000)" using p(1) by (simp add: o1_def)
    then have a: "us < (k + 1) * n * 1000000" by (simp only: of_int_less_iff)
    have "(of_int (k * n * 1000000) :: rat) \<le> of_int us + of_int us / 2 ^ 53" using p(2) by (simp add: o1_def)
    also have "\<dots> \<le> of_int (us + 36)" using u by simp
    finally have b: "k * n * 1000000 \<le> us + 36" by (simp only: of_int_le_iff)
    show ?thesis using a b t p(3) 
      by (auto simp: us_def instant_order algebra_simps intro!: exI [of _ "k + 1"])
  qed
  then show "now < t" "\<exists>k\<ge>0. usec t = usec due + k * n * 1000000"
    "due \<le> now \<Longrightarrow> usec t - n * 1000000 \<le> usec now + 36" by blast+
qed

section \<open>Sessions and what goes into them\<close>

lemma optional_aware_some [simp]: "optional_aware e (utc_val t) = Inr (Some t)"
  by (simp add: optional_aware_def)

lemma session_outcome_again:
  assumes "session_outcome v c d e r = Inr x" "v = PNone \<or> is_bool v"
  shows "session_outcome (opt_val PBool (fst x)) c d (opt_val PStr (snd x)) r = Inr x"
  using assms by (cases v) (auto simp: session_outcome_def rbind_eq_Inr awake_text_Inr split: if_splits)

lemma wake_session_init_again:
  assumes "wake_session_init a = Inr s"
  shows "wake_session_init (session_args_of s) = Inr s"
  using assms unfolding wake_session_init_def
  apply (elim rbindE)
  apply (simp only: awake_text_Inr ensure_eq_Inr sum.inject)
  apply (frule (1) session_outcome_again)
  apply clarify
  subgoal premises p
  proof -
    have "opt_val PBool y = PNone \<or> is_bool (opt_val PBool y)" for y by (cases y) simp_all
    with p show ?thesis
      by (simp add: session_args_of_def awake_text_run ensure_def del: opt_val_simps split del: if_split cong: if_cong)
  qed
  done

lemma session_json:
  assumes "ws_recovery_context f = None" "json_ok (ws_source_event_id f)" "json_ok (ws_subject_revision f)"
    "json_ok (observation_to_dict (ws_observation f))"
  shows "\<exists>v. wake_session_to_dict f = Inr v \<and> json_ok v"
proof -
  have "json_ok (opt_val PBool a)" for a by (cases a) simp_all
  moreover have "json_ok (opt_val PStr a)" for a by (cases a) simp_all
  moreover have "json_ok (optional_time a)" for a by (cases a) simp_all
  moreover have "json_ok (opt_val wake_decision_to_dict a)" for a
    by (cases a) (simp_all add: wake_decision_to_dict_def list_all_iff)
  ultimately show ?thesis using assms by (simp add: wake_session_to_dict_def)
qed

lemma opt_int_json: "json_ok (opt_val PInt x)" "json_ok (opt_val PStr y)"
  by (cases x; simp) (cases y; simp)

lemma session_start_fields:
  assumes "session_start i uuid c t = Inr s"
  shows "ws_session_id s = given_or_uuid i uuid" "ws_cycle_id s = ac_cycle_id c" "ws_subject_id s = ac_subject_id c"
    "ws_success s = None" "ws_recovery_context s = None" "wf_session s" "ws_source_event_id s = opt_val PStr (wt_source_event_id t)"
    "\<not> blank (ws_session_id s)" "\<not> blank (ws_subject_id s)"
proof -
  have "wake_session_init (session_args_of s) = Inr s"
    using assms by (simp add: session_start_def wake_session_init_again)
  with assms show "ws_session_id s = given_or_uuid i uuid" "ws_cycle_id s = ac_cycle_id c" "ws_subject_id s = ac_subject_id c"
    "ws_success s = None" "ws_recovery_context s = None" "wf_session s" "ws_source_event_id s = opt_val PStr (wt_source_event_id t)"
    "\<not> blank (ws_session_id s)" "\<not> blank (ws_subject_id s)"
    unfolding session_start_def wake_session_init_def
    by (auto simp: session_outcome_def awake_text_Inr wf_session_def wf_observation_def empty_observation_def
        wake_session_init_def elim!: rbindE)
qed

lemma wf_session_fields:
  assumes "wf_session s"
  shows "\<not> blank (ws_session_id s)" "\<not> blank (ws_cycle_id s)" "\<not> blank (ws_subject_id s)" "\<not> blank (ws_detail s)"
proof -
  have "\<not> blank (ws_session_id s) \<and> \<not> blank (ws_cycle_id s) \<and> \<not> blank (ws_subject_id s) \<and> \<not> blank (ws_detail s)"
    using assms unfolding wf_session_def wake_session_init_def session_args_of_def
    by (elim conjE rbindE) (auto simp: awake_text_Inr)
  then show "\<not> blank (ws_session_id s)" "\<not> blank (ws_cycle_id s)" "\<not> blank (ws_subject_id s)" "\<not> blank (ws_detail s)" by auto
qed

lemma normal_context_again: "wf_wake_context x \<Longrightarrow> normal_context (normal_context x) = normal_context x"
  by (metis wake_context_roundtrip sum.inject(2))

lemma session_complete_result:
  assumes c: "session_complete x d t preserve s = Inr s'" and wf: "wf_session s" "wf_wake_context x" "wf_decision d"
  shows "wf_session s'" "ws_session_id s' = ws_session_id s" "ws_subject_id s' = ws_subject_id s"
    "ws_cycle_id s' = ws_cycle_id s" "ws_success s' = Some True" "ws_decision s' = Some d"
    "ws_observation s' = observation_of_context x" "ws_wake_time s' = ws_wake_time s" "ws_error s' = None"
    "ws_recovery_context s' = (if preserve then Some (normal_context x) else None)"
proof -
  obtain v where v: "wake_context_to_dict x = Inr v" "wake_context_from_dict v = Inr (normal_context x)"
    "wf_wake_context (normal_context x)" using wf(2) by (rule wake_context_roundtrip)
  obtain t' where t: "require_aware (awake_invalid ''completed_at must include a timezone'') t = Inr t'"
    "ss_subject_id (wx_subject_state x) = ws_subject_id s"
    "s' = s\<lparr>ws_subject_revision := PInt (ss_revision (wx_subject_state x)), ws_observation := observation_of_context x,
       ws_recovery_context := (if preserve then Some (normal_context x) else None), ws_decision := Some d,
       ws_completed_at := Some t', ws_success := Some True, ws_error := None\<rparr>"
    using c v by (cases preserve) (auto simp: session_complete_def rbind_eq_Inr)
  have r: "0 \<le> ss_revision (wx_subject_state x)" using wf(2) by (simp add: wf_wake_context_def wf_subject_def)
  have n: "ss_subject_id (wx_subject_state (normal_context x)) = ss_subject_id (wx_subject_state x)"
    "wx_context_id (normal_context x) = wx_context_id x"
    by (simp_all add: normal_context_def normal_state_def)
  define y where "y = (if preserve then Some (normal_context x) else None)"
  have y: "\<forall>z. y = Some z \<longrightarrow> ss_subject_id (wx_subject_state z) = ws_subject_id s \<and> wx_context_id z = wx_context_id x"
    using n t(2) by (auto simp: y_def)
  have "wake_session_init (session_args_of s') = Inr s'"
  proof (cases y)
    case None
    then show ?thesis using wf_session_fields [OF wf(1)] r unfolding t(3) y_def [symmetric]
      by (simp add: wake_session_init_def session_args_of_def awake_text_run ensure_def session_outcome_def)
  next
    case (Some z)
    with y have "ss_subject_id (wx_subject_state z) = ws_subject_id s" "wx_context_id z = wx_context_id x" by blast+
    with Some show ?thesis using wf_session_fields [OF wf(1)] r unfolding t(3) y_def [symmetric]
      by (simp add: wake_session_init_def session_args_of_def awake_text_run ensure_def session_outcome_def
          observation_of_context_def)
  qed
  then show "wf_session s'"
    using t wf v(3) normal_context_again [OF wf(2)] observation_of_context_wf [OF wf(2)] by (simp add: wf_session_def)
  show "ws_session_id s' = ws_session_id s" "ws_subject_id s' = ws_subject_id s"
    "ws_cycle_id s' = ws_cycle_id s" "ws_success s' = Some True" "ws_decision s' = Some d"
    "ws_observation s' = observation_of_context x" "ws_wake_time s' = ws_wake_time s" "ws_error s' = None"
    "ws_recovery_context s' = (if preserve then Some (normal_context x) else None)"
    by (simp_all add: t(3))
qed

lemma session_fail_result:
  assumes c: "session_fail d t e n w s = Inr s'" and wf: "wf_session s" "wf_decision d" "wf_observation w" "\<forall>m. n = Some m \<longrightarrow> 0 \<le> m"
  shows "wf_session s'" "ws_session_id s' = ws_session_id s" "ws_subject_id s' = ws_subject_id s"
    "ws_cycle_id s' = ws_cycle_id s" "ws_success s' = Some False" "ws_decision s' = Some d"
    "ws_observation s' = w" "ws_recovery_context s' = None" "ws_error s' = Some e" "ws_source_event_id s' = ws_source_event_id s"
    "ws_subject_revision s' = opt_val PInt n"
proof -
  obtain t' where t: "\<not> blank e" "s' = s\<lparr>ws_subject_revision := opt_val PInt n, ws_observation := w, ws_decision := Some d,
       ws_completed_at := Some t', ws_success := Some False, ws_recovery_context := None, ws_error := Some e\<rparr>"
    using c by (auto simp: session_fail_def rbind_eq_Inr awake_text_Inr)
  have "wake_session_init (session_args_of s') = Inr s'"
    using t wf_session_fields [OF wf(1)] wf(4)
    by (cases n) (simp_all add: wake_session_init_def session_args_of_def awake_text_run ensure_def session_outcome_def)
  then show "wf_session s'" using t wf by (simp add: wf_session_def)
  show "ws_session_id s' = ws_session_id s" "ws_subject_id s' = ws_subject_id s"
    "ws_cycle_id s' = ws_cycle_id s" "ws_success s' = Some False" "ws_decision s' = Some d"
    "ws_observation s' = w" "ws_recovery_context s' = None" "ws_error s' = Some e" "ws_source_event_id s' = ws_source_event_id s"
    "ws_subject_revision s' = opt_val PInt n"
    using t(2) by simp_all
qed

section \<open>What the other services hand over\<close>

text \<open>The retriever is a component outside: its candidates are what \<open>MemoryCandidate\<close> accepts.\<close>

definition candidates_ok :: "memory_ports \<Rightarrow> bool" where
  "candidates_ok ms \<longleftrightarrow> (\<forall>q cs. ms_retrieve ms q = Inr cs \<longrightarrow> (\<forall>c \<in> set cs. wf_memory_candidate c))"

lemma evaluate_candidate_Inr:
  assumes "evaluate_candidate q c = Inr m"
  shows "md_candidate m = c" "\<not> md_selected m" "md_relevance_score m = mc_provider_relevance c"
    "md_relevant m \<longleftrightarrow> (\<forall>f \<in> set (relevance_findings q c). fst f)"
  using assms unfolding evaluate_candidate_def Let_def memory_decision_init_def
  by (fastforce simp: rbind_eq_Inr split: if_splits)+

lemma check_unique_distinct:
  "check_unique_memories seen cs = Inr () \<longleftrightarrow> distinct (map mc_memory_id cs) \<and> set (map mc_memory_id cs) \<inter> seen = {}"
  by (induction cs arbitrary: seen) auto

text \<open>The result of a retrieval: every candidate evaluated, and the best relevant ones selected.\<close>

lemma memory_retrieve_shape:
  assumes "memory_retrieve ms q = Inr r"
  obtains cs es where "ms_retrieve ms q = Inr cs" "distinct (map mc_memory_id cs)"
    "list_all2 (\<lambda>c m. evaluate_candidate q c = Inr m) cs es" "mr_request r = q"
    "mr_decisions r = map (\<lambda>m. m\<lparr>md_selected := m \<in> set (take (nat (mq_limit q)) (ranked_decisions q es))\<rparr>) es"
proof -
  let ?id = "\<lambda>m. mc_memory_id (md_candidate m)"
  obtain cs es t where m: "ms_retrieve ms q = Inr cs" "check_unique_memories {} cs = Inr ()" "rmap (evaluate_candidate q) cs = Inr es"
    "r = \<lparr>mr_request = q, mr_evaluated_at = t, mr_decisions = map (\<lambda>m. if ?id m \<in> set (map ?id
       (take (nat (mq_limit q)) (ranked_decisions q es))) then m\<lparr>md_selected := True\<rparr> else m) es\<rparr>"
    using assms by (auto simp: memory_retrieve_def Let_def memory_result_init_def rbind_eq_Inr)
  let ?best = "take (nat (mq_limit q)) (ranked_decisions q es)"
  from m(3) have es: "list_all2 (\<lambda>c m. evaluate_candidate q c = Inr m) cs es" by (simp add: rmap_eq_Inr)
  then have "map md_candidate es = cs" by (induction rule: list_all2_induct) (auto dest: evaluate_candidate_Inr(1))
  with m(2) have "distinct (map mc_memory_id (map md_candidate es))" by (simp add: check_unique_distinct)
  then have "inj_on ?id (set es)" by (simp add: distinct_map o_def comp_inj_on_iff inj_on_def)
  moreover have sub: "set ?best \<subseteq> set es" by (auto simp: ranked_decisions_def dest!: in_set_takeD)
  ultimately have "?id m \<in> ?id ` set ?best \<longleftrightarrow> m \<in> set ?best" if "m \<in> set es" for m
    using that by (auto simp: inj_on_def)
  moreover have "\<not> md_selected m" if "m \<in> set es" for m
    using es that by (auto simp: list_all2_conv_all_nth in_set_conv_nth dest: evaluate_candidate_Inr(2))
  ultimately have "mr_decisions r = map (\<lambda>m. m\<lparr>md_selected := m \<in> set ?best\<rparr>) es"
    using m(4) by auto
  with m es show thesis by (intro that [of cs es]) (auto simp: check_unique_distinct)
qed

lemma memory_retrieve_wf:
  assumes "memory_retrieve ms q = Inr r" "wf_memory_request q" "candidates_ok ms"
  shows "wf_memory_result r" "mr_request r = q"
proof -
  obtain cs es where c: "ms_retrieve ms q = Inr cs" "list_all2 (\<lambda>c m. evaluate_candidate q c = Inr m) cs es" "mr_request r = q"
    "mr_decisions r = map (\<lambda>m. m\<lparr>md_selected := m \<in> set (take (nat (mq_limit q)) (ranked_decisions q es))\<rparr>) es"
    using assms(1) by (rule memory_retrieve_shape)
  then show "mr_request r = q" by simp
  have "wf_memory_decision m" if m: "m \<in> set es" for m
  proof -
    obtain k where "k < length cs" "evaluate_candidate q (cs ! k) = Inr m"
      using c(2) m by (auto simp: list_all2_conv_all_nth in_set_conv_nth)
    then obtain d where "d \<in> set cs" "evaluate_candidate q d = Inr m" by (meson nth_mem)
    with c(1) assms(3) show ?thesis
      by (auto simp: candidates_ok_def evaluate_candidate_def Let_def dest: memory_decision_init_wf)
  qed
  moreover have "m \<in> set (take n (ranked_decisions q es)) \<Longrightarrow> md_relevant m" for m n
    by (auto simp: ranked_decisions_def dest!: in_set_takeD)
  ultimately show "wf_memory_result r"
    using assms(2) c(3,4) by (auto simp: wf_memory_result_def wf_memory_decision_def)
qed

lemma loaded_subject: "subject_load canon sha i st = Inr s \<Longrightarrow> wf_subject s \<and> ss_subject_id s = i"
  by (auto simp: subject_load_def rbind_eq_Inr read_component_Inr dest: content_wf(1))

lemma loaded_history: "list_update_records canon sha i st = Inr us \<Longrightarrow> \<forall>u \<in> set us. wf_state_update u"
  by (auto simp: list_update_records_def rbind_eq_Inr read_component_Inr list_all_iff dest: content_wf(2))

lemma wake_memory_request_wf: "wake_memory_request cf uuid s es t i = Inr q \<Longrightarrow> wf_memory_request q \<and> mq_subject_id q = ss_subject_id s"
  by (auto simp: wake_memory_request_def Let_def memory_request_create_def rbind_eq_Inr dest: memory_request_init_wf)
    (auto simp: memory_request_init_def memory_text_Inr rbind_eq_Inr)

lemma build_context_wf:
  assumes "build_context i s (map su_event us) us r t = Inr x" "wf_subject s" "\<forall>u \<in> set us. wf_state_update u" "wf_memory_result r"
  shows "wf_wake_context x" "wx_subject_state x = s" "wx_memory_result x = r" "wx_context_id x = i" "wx_recent_updates x = us"
    "wx_created_at x = t"
  using assms by (auto simp: build_context_def wake_time_init_def wake_context_init_def rbind_eq_Inr wf_wake_context_def
      awake_text_Inr wf_state_update_def)

lemma wake_decide_wf: "wake_decide x = Inr d \<Longrightarrow> wf_decision d"
  unfolding wake_decide_def Let_def by (auto split: if_splits elim!: rbindE dest: wake_decision_init_wf)

lemma recent_tail_subset: "set (recent_tail cf us) \<subseteq> set us"
  by (simp add: recent_tail_def set_drop_subset)

lemma mark_woken_fields:
  assumes "mark_woken t c = (c', r)" "wf_cycle c"
  shows "ac_cycle_id c' = ac_cycle_id c" "wf_cycle c'" "ac_last_wake_at c' = Some t" "ac_subject_id c' = ac_subject_id c"
proof -
  have "ac_cycle_id c' = ac_cycle_id c \<and> wf_cycle c' \<and> ac_last_wake_at c' = Some t \<and> ac_subject_id c' = ac_subject_id c"
    using assms unfolding mark_woken_def
    by (cases "ac_mode c"; cases "ac_interval_seconds c"; cases "ac_next_wake_at c")
      (auto simp: sbind_def prog_simps wf_cycle_def split: sum.splits)
  then show "ac_cycle_id c' = ac_cycle_id c" "wf_cycle c'" "ac_last_wake_at c' = Some t" "ac_subject_id c' = ac_subject_id c"
    by auto
qed

text \<open>A cycle that was marked once can be marked again at the same time without an error.\<close>

lemma mark_woken_again:
  assumes "mark_woken t c = (c', Inr ())" "wf_cycle c"
  shows "mark_woken t c' = (c', Inr ())"
proof (cases "ac_mode c")
  case Aw_MANUAL
  with assms show ?thesis by (auto simp: mark_woken_def sbind_def prog_simps)
next
  case Aw_SCHEDULED
  with assms(2) obtain n due where c: "ac_interval_seconds c = Some n" "0 < n" "ac_next_wake_at c = Some due"
    by (auto simp: wf_cycle_def)
  with assms(1) Aw_SCHEDULED obtain u where u: "next_wake n due t = Inr u"
    "c' = c\<lparr>ac_last_wake_at := Some t, ac_next_wake_at := Some u\<rparr>"
    by (auto simp: mark_woken_def sbind_def prog_simps split: sum.splits)
  with next_wake_point(1) [OF u(1) c(2)] c Aw_SCHEDULED show ?thesis
    by (simp add: mark_woken_def sbind_def prog_simps next_wake_def)
qed

section \<open>A run of the pipeline\<close>

lemma wp_run_call [wp_simps]:
  "wp (run_call m) Q E w = wp m (\<lambda>x st. Q x (w\<lparr>ar_store := st\<rparr>)) (\<lambda>e st. E e (w\<lparr>ar_store := st\<rparr>)) (ar_store w)"
  by (auto simp: wp_def run_call_def split: prod.splits sum.splits)

lemma wp_on_subjects [wp_simps]:
  "wp (on_subjects m) Q E st = wp m (\<lambda>x s. Q x (st\<lparr>aw_subjects := s\<rparr>)) (\<lambda>e s. E e (st\<lparr>aw_subjects := s\<rparr>)) (aw_subjects st)"
  by (auto simp: wp_def on_subjects_def split: prod.splits sum.splits)

lemma wp_run_mark [wp_simps]:
  "wp (run_mark t) Q E w = wp (mark_woken t) (\<lambda>x c. Q x (w\<lparr>ar_cycle := c\<rparr>)) (\<lambda>e c. E e (w\<lparr>ar_cycle := c\<rparr>)) (ar_cycle w)"
  by (auto simp: wp_def run_mark_def split: prod.splits sum.splits)

lemma wp_run_session [wp_simps]:
  "wp (run_session f) Q E w = (case f (ar_session w) of Inl e \<Rightarrow> E e w | Inr s \<Rightarrow> Q () (w\<lparr>ar_session := s\<rparr>))"
  by (cases "f (ar_session w)") (simp_all add: run_session_def wp_simps)

lemma wp_run_log [wp_simps]:
  "wp (run_log f) Q E w = (case f (aw_log (ar_store w)) of Inl e \<Rightarrow> E e w
     | Inr l \<Rightarrow> Q () (w\<lparr>ar_store := (ar_store w)\<lparr>aw_log := l\<rparr>\<rparr>))"
  by (cases "f (aw_log (ar_store w))") (simp_all add: run_log_def wp_simps on_log_def)

lemma wp_at_store [wp_simps]: "wp (at_store pp k m) Q E s = wp m Q E (sv_others pp k s)"
  by (simp add: at_store_def wp_simps)

lemma wp_returned: "wp (sbind sget (\<lambda>w. sret (g w))) Q E = (\<lambda>w. Q (g w) w)"
  by (rule ext) (simp add: wp_simps)

lemma wp_bindI:
  assumes "wp m R E s" "\<And>x s'. R x s' \<Longrightarrow> wp (f x) Q E s'"
  shows "wp (sbind m f) Q E s"
  unfolding wp_sbind by (rule wp_conseq [OF assms(1)]) (simp_all add: assms(2))

text \<open>
  While it observes, the run leaves log, cycle and session as they were; the log may have a newer
  cycle at the end.
\<close>

definition observing :: "awake_run \<Rightarrow> awake_run \<Rightarrow> bool" where
  "observing w0 w \<longleftrightarrow> aw_log (ar_store w) = aw_log (ar_store w0) \<and> ar_cycle w = ar_cycle w0 \<and> ar_session w = ar_session w0 \<and>
     wf_observation (ar_observation w) \<and> json_ok (observation_to_dict (ar_observation w)) \<and> (\<forall>n. ar_revision w = Some n \<longrightarrow> 0 \<le> n)"

definition pipeline_stopped :: "awake_ports \<Rightarrow> instant \<Rightarrow> awake_run \<Rightarrow> awake_run \<Rightarrow> bool" where
  "pipeline_stopped pp t w0 w \<longleftrightarrow> wl_sessions (aw_log (ar_store w)) = wl_sessions (aw_log (ar_store w0)) \<and>
     (ar_cycle w = ar_cycle w0 \<or> ar_cycle w = fst (mark_woken t (ar_cycle w0))) \<and>
     (wl_cycles (aw_log (ar_store w)) = wl_cycles (aw_log (ar_store w0)) \<or>
       (\<exists>l. save_cycle (ak_sha pp) (ak_disk pp 1) (fst (mark_woken t (ar_cycle w0))) (aw_log (ar_store w0)) = Inr l \<and>
         aw_log (ar_store w) = l)) \<and>
     wf_session (ar_session w) \<and> ws_session_id (ar_session w) = ws_session_id (ar_session w0) \<and>
     ws_subject_id (ar_session w) = ws_subject_id (ar_session w0) \<and> ws_cycle_id (ar_session w) = ws_cycle_id (ar_session w0) \<and>
     ws_source_event_id (ar_session w) = ws_source_event_id (ar_session w0) \<and>
     wf_observation (ar_observation w) \<and> json_ok (observation_to_dict (ar_observation w)) \<and> (\<forall>n. ar_revision w = Some n \<longrightarrow> 0 \<le> n)"

definition pipeline_done :: "awake_ports \<Rightarrow> bool \<Rightarrow> instant \<Rightarrow> awake_run \<Rightarrow> awake_result \<Rightarrow> awake_run \<Rightarrow> bool" where
  "pipeline_done pp preserve t w0 r w \<longleftrightarrow> (\<exists>d l. wf_wake_context (wr_context r) \<and> wake_decide (wr_context r) = Inr d \<and>
     session_complete (wr_context r) d (ak_completed_at pp) preserve (ar_session w0) = Inr (ar_session w) \<and>
     wr_session r = ar_session w \<and> mark_woken t (ar_cycle w0) = (ar_cycle w, Inr ()) \<and>
     save_cycle (ak_sha pp) (ak_disk pp 1) (ar_cycle w) (aw_log (ar_store w0)) = Inr l \<and>
     save_session (ak_sha pp) (ak_disk pp 2) (ar_session w) l = Inr (aw_log (ar_store w)))"

lemma observation_json: "json_ok (observation_to_dict w) \<longleftrightarrow> json_ok (wo_context_id w) \<and> json_ok (wo_memory_request_id w)"
  by (cases "wo_state_revision w") (auto simp: observation_to_dict_def list_all_iff)

lemma observing_stopped: "observing w0 w \<Longrightarrow> wf_session (ar_session w0) \<Longrightarrow> pipeline_stopped pp t w0 w"
  by (simp add: observing_def pipeline_stopped_def)

lemma finish_outcome:
  assumes o: "observing w0 w" and c: "session_complete x d (ak_completed_at pp) preserve (ar_session w0) = Inr s"
    and wf: "wf_session (ar_session w0)" "wf_wake_context x" "wake_decide x = Inr d"
  shows "wp (run_finish pp 1 t) (\<lambda>_ w'. pipeline_done pp preserve t w0 \<lparr>wr_context = x, wr_session = ar_session w'\<rparr> w')
    (\<lambda>_. pipeline_stopped pp t w0) (w\<lparr>ar_session := s\<rparr>)"
proof -
  have d: "wf_decision d" using wf(3) by (rule wake_decide_wf)
  note s = session_complete_result [OF c wf(1,2) d]
  have src: "ws_source_event_id s = ws_source_event_id (ar_session w0)"
    using c by (auto simp: session_complete_def rbind_eq_Inr)
  obtain c' r where m: "mark_woken t (ar_cycle w0) = (c', r)" by fastforce
  have l: "save_cycle sha disk cy st = Inr st' \<Longrightarrow> wl_sessions st' = wl_sessions st" for sha disk cy st st'
    by (auto simp: save_cycle_def rbind_eq_Inr)
  show ?thesis
    using o wf m s src c d
    by (auto simp: run_finish_def wp_simps wp_def [of "mark_woken t"] observing_def pipeline_stopped_def pipeline_done_def
        numeral_2_eq_2 split: sum.splits dest: l)
qed

lemma loaded_run:
  "wp (run_call (on_subjects (at_store sp k (sv_load sp i)))) (\<lambda>s w'. observing w0 w' \<and> wf_subject s) (\<lambda>_. observing w0) w"
  if "observing w0 w"
  using that by (auto simp: wp_simps sv_load_def observing_def split: sum.splits dest: loaded_subject)

lemma wake_history_run:
  "wp (run_call (on_subjects (at_store sp k (get_update_history sp i))))
     (\<lambda>us w'. observing w0 w' \<and> (\<forall>u \<in> set us. wf_state_update u)) (\<lambda>_. observing w0) w"
  if "observing w0 w"
  using that by (auto simp: wp_simps get_update_history_def sv_history_def observing_def split: sum.splits dest: loaded_history)

lemma lifted_run:
  "wp (slift r) (\<lambda>x w'. observing w0 w' \<and> r = Inr x) (\<lambda>_. observing w0) w" if "observing w0 w"
  using that by (simp add: wp_simps split: sum.splits)

lemma noted_run:
  "wp (smodify f) (\<lambda>_ w'. observing w0 w') (\<lambda>_. observing w0) w" if "observing w0 (f w)"
  using that by (simp add: wp_simps)

lemma memory_ids_ok:
  "wf_memory_result r \<Longrightarrow> \<forall>i \<in> set (map (\<lambda>m. mc_memory_id (md_candidate m)) (mr_decisions r)) \<union>
     set (map mc_memory_id (selected_memories r)). \<not> blank i"
  by (auto simp: wf_memory_result_def wf_memory_decision_def wf_memory_candidate_def selected_memories_def)

lemma update_ids_ok:
  "\<forall>u \<in> set us. wf_state_update u \<Longrightarrow>
     \<forall>i \<in> set (map su_update_id us) \<union> set (map (\<lambda>u. ev_event_id (su_event u)) us). \<not> blank i"
  by (auto simp: wf_state_update_def wf_event_def)

lemma pipeline_outcome:
  assumes ok: "candidates_ok (ak_memory pp)" and w: "observing w w" "wf_session (ar_session w)"
  shows "wp (wake_pipeline pp cf trigger context_id preserve)
    (pipeline_done pp preserve (wt_triggered_at trigger) w) (\<lambda>_. pipeline_stopped pp (wt_triggered_at trigger) w) w"
proof -
  let ?E = "\<lambda>_ :: exn. pipeline_stopped pp (wt_triggered_at trigger) w"
  have E: "wp m R (\<lambda>_. observing w) w' \<Longrightarrow> wp m R ?E w'" for m :: "(awake_run, 'b) prog" and R w'
    by (erule wp_conseq) (auto intro: observing_stopped w(2))
  show ?thesis
    unfolding wake_pipeline_def Let_def
    apply (rule wp_bindI [where R = "\<lambda>v w'. v = w \<and> w' = w"], simp add: wp_simps)
    apply (elim conjE, hypsubst)
    apply (rule wp_bindI, rule E, rule loaded_run, rule w(1), elim conjE)
    apply (rule wp_bindI, rule E, rule noted_run)
     apply (simp add: observing_def wf_observation_def wf_subject_def observation_json)
    apply (rule wp_bindI, rule E, rule wake_history_run, assumption, elim conjE)
    apply (rule wp_bindI, rule E, rule noted_run)
    subgoal for v0 w0 s w1 u1 w2 us w3
      using update_ids_ok [of "recent_tail cf us"] recent_tail_subset [of cf us]
      by (auto simp: observing_def wf_observation_def observation_json)
    apply (rule wp_bindI, rule E, rule lifted_run, assumption, elim conjE)
    apply (rule wp_bindI, rule E, rule lifted_run, assumption, elim conjE)
    apply (rule wp_bindI, rule E, rule noted_run)
    subgoal for v0 w0 s w1 u1 w2 us w3 u2 w4 q w5 r w6
      using memory_ids_ok [OF memory_retrieve_wf(1), of "ak_memory pp" q r] ok wake_memory_request_wf
      by (fastforce simp: observing_def wf_observation_def observation_json)
    apply (rule wp_bindI, rule E, rule lifted_run, assumption, elim conjE)
    apply (rule wp_bindI, rule E, rule lifted_run, assumption, elim conjE)
    subgoal premises p for v0 w0 s w1 u1 w2 us w3 u2 w4 q w5 r w6 u3 w7 x w8 d w9
    proof (cases "session_complete x d (ak_completed_at pp) preserve (ar_session w9)")
      case (Inl e)
      then show ?thesis using p observing_stopped [of w w9] w(2) by (simp add: wp_simps)
    next
      case (Inr t)
      have m: "wf_memory_result r" using p ok memory_retrieve_wf wake_memory_request_wf by metis
      have "\<forall>u \<in> set (recent_tail cf us). wf_state_update u" using p recent_tail_subset by fast
      with p m have x: "wf_wake_context x" by (blast intro: build_context_wf(1))
      have o: "observing w w9" "wake_decide x = Inr d" using p by auto
      with Inr have c: "session_complete x d (ak_completed_at pp) preserve (ar_session w) = Inr t" by (simp add: observing_def)
      have "wp (run_finish pp 1 (wt_triggered_at trigger))
          (\<lambda>_ w'. pipeline_done pp preserve (wt_triggered_at trigger) w \<lparr>wr_context = x, wr_session = ar_session w'\<rparr> w')
          ?E (w9\<lparr>ar_session := t\<rparr>)"
        using finish_outcome [OF o(1) c w(2) x o(2)] .
      then show ?thesis using Inr by (simp add: wp_simps wp_returned)
    qed
    done
qed

section \<open>The outcome of a wake\<close>

text \<open>The wake is under way: the subject is active and the running session is in the log.\<close>

definition wake_started ::
  "awake_ports \<Rightarrow> awake_cycle \<Rightarrow> wake_trigger \<Rightarrow> string option \<Rightarrow> awake_store \<Rightarrow> wake_session \<Rightarrow> awake_store \<Rightarrow> bool" where
  "wake_started pp cycle trigger session_id st s st1 \<longleftrightarrow>
     session_start session_id (ak_session_uuid pp) cycle trigger = Inr s \<and>
     (\<exists>x. on_subjects (require_active (ak_subjects pp) 0 (ac_subject_id cycle) None) st = (st1\<lparr>aw_log := aw_log st\<rparr>, Inr x)) \<and>
     save_session (ak_sha pp) (ak_disk pp 0) s (aw_log st) = Inr (aw_log st1)"

definition run_of :: "awake_cycle \<Rightarrow> wake_session \<Rightarrow> awake_store \<Rightarrow> awake_run" where
  "run_of cycle s st = \<lparr>ar_store = st, ar_cycle = cycle, ar_session = s, ar_revision = None, ar_observation = empty_observation\<rparr>"

lemma run_of_simps [simp]:
  "ar_store (run_of c s st) = st" "ar_cycle (run_of c s st) = c" "ar_session (run_of c s st) = s"
  by (simp_all add: run_of_def)

lemma observing_start: "observing (run_of c s st) (run_of c s st)"
  by (simp add: observing_def run_of_def wf_observation_def empty_observation_def observation_json)

lemma on_subjects_log: "on_subjects m st = (st', r) \<Longrightarrow> aw_log st' = aw_log st"
  by (auto simp: on_subjects_def split: prod.splits)

lemma wake_run_started:
  assumes "wake_started pp cycle trigger session_id st s st1"
  shows "wake_run pp cf cycle trigger session_id context_id preserve st =
    (case scatch (wake_pipeline pp cf trigger context_id preserve) (wake_failed pp trigger) (run_of cycle s st1) of
       (w, r) \<Rightarrow> (ar_store w, r))"
  using assms by (auto simp: wake_started_def wake_run_def sbind_def prog_simps swrite_def on_log_def run_of_def)

lemma wake_run_returns:
  assumes "wake_run pp cf cycle trigger session_id context_id preserve st = (st', Inr r)"
  obtains s st1 w where "wake_started pp cycle trigger session_id st s st1"
    "wake_pipeline pp cf trigger context_id preserve (run_of cycle s st1) = (w, Inr r)" "st' = ar_store w"
proof -
  obtain sa x where a: "on_subjects (require_active (ak_subjects pp) 0 (ac_subject_id cycle) None) st = (sa, Inr x)"
    using assms by (auto simp: wake_run_def sbind_def split: prod.splits sum.splits)
  obtain s where s: "session_start session_id (ak_session_uuid pp) cycle trigger = Inr s"
    using assms a by (auto simp: wake_run_def sbind_def prog_simps split: prod.splits sum.splits)
  obtain l where l: "save_session (ak_sha pp) (ak_disk pp 0) s (aw_log sa) = Inr l"
    using assms a s by (auto simp: wake_run_def sbind_def prog_simps swrite_def on_log_def rbind_def split: prod.splits sum.splits)
  let ?st1 = "sa\<lparr>aw_log := l\<rparr>"
  have started: "wake_started pp cycle trigger session_id st s ?st1"
    using a s l on_subjects_log [OF a] by (auto simp: wake_started_def)
  have "snd (wake_failed pp trigger e w) \<noteq> Inr r" for e w
    by (auto simp: wake_failed_def sbind_def prog_simps split: prod.splits sum.splits)
  with assms obtain w where "wake_pipeline pp cf trigger context_id preserve (run_of cycle s ?st1) = (w, Inr r)" "st' = ar_store w"
    unfolding wake_run_started [OF started]
    by (auto simp: scatch_def split: prod.splits sum.splits) (metis snd_conv)
  with started show thesis by (rule that)
qed

text \<open>A running session in the log can be replaced by a later state of it.\<close>

lemma session_rewritten:
  assumes "save_session sha disk s l0 = Inr l1" "wf_session s" "wl_sessions l = wl_sessions l1"
    and "session_successor s f = Inr ()" "ws_subject_id f = ws_subject_id s" "ws_session_id f = ws_session_id s"
    and "wake_session_to_dict f = Inr v" "json_ok v"
  shows "\<exists>l'. save_session sha None f l = Inr l'"
proof -
  obtain dir stem d where w: "session_path sha (ws_subject_id s) (ws_session_id s) = Inr (dir, stem)"
    "wake_session_to_dict s = Inr d"
    "l1 = l0\<lparr>wl_sessions := (wl_sessions l0)(dir := AList.update stem (File_Doc d) (wl_sessions l0 dir))\<rparr>"
    using assms(1) by (rule save_session_file) blast
  obtain d' where "wake_session_to_dict s = Inr d'" "wake_session_from_dict d' = Inr s"
    using assms(2) by (rule wake_session_roundtrip)
  with w assms(3) have "listed (wl_sessions l dir) stem = File_Doc d" "wake_session_from_dict d = Inr s" by simp_all
  with w(1) assms(4-8) show ?thesis
    by (simp add: save_session_def read_session_def read_awake_json_def write_awake_json_def)
qed

end
