(* ===== verification/Awakening_Demo.thy ===== *)
theory Awakening_Demo
  imports Awakening_Runs Subject_Demo
begin

text \<open>A concrete wake, at which the properties of the wake pipeline are applied.\<close>

text \<open>The retriever gives the same answer to every request; the digest is the text itself.\<close>

definition wake_demo_ports :: "memory_candidate list res \<Rightarrow> awake_ports" where
  "wake_demo_ports answer = \<lparr>ak_subjects = demo_ports,
     ak_memory = \<lparr>ms_retrieve = (\<lambda>_. answer), ms_record = (\<lambda>_. Inr ()), ms_clock = utc_val (Abs_instant 9), ms_uuid = ''i1''\<rparr>,
     ak_now = utc_val (Abs_instant 9), ak_context_time = utc_val (Abs_instant 9), ak_completed_at = utc_val (Abs_instant 9),
     ak_failed_at = utc_val (Abs_instant 9), ak_cycle_uuid = ''c1'', ak_session_uuid = ''w1'', ak_request_uuid = ''q1'',
     ak_context_uuid = ''x1'', ak_disk = (\<lambda>_. None), ak_exc_name = (\<lambda>_. ''E'')\<rparr>"

definition demo_cycle :: awake_cycle where
  "demo_cycle = \<lparr>ac_cycle_id = ''c1'', ac_subject_id = ''s'', ac_mode = Aw_MANUAL, ac_created_at = Abs_instant 5,
     ac_enabled = True, ac_interval_seconds = None, ac_next_wake_at = None, ac_last_wake_at = None\<rparr>"

definition demo_trigger :: wake_trigger where
  "demo_trigger = \<lparr>wt_reason = Wc_MANUAL, wt_detail = ''hello'', wt_triggered_at = Abs_instant 9, wt_source_event_id = None\<rparr>"

definition demo_config :: awake_config where
  "demo_config = \<lparr>ag_recent_update_limit = 10, ag_memory_limit = 5, ag_minimum_memory_relevance = 1 / 2\<rparr>"

definition demo_awake_store :: awake_store where
  "demo_awake_store = \<lparr>aw_subjects = demo_store, aw_log = \<lparr>wl_cycles = [], wl_sessions = (\<lambda>_. [])\<rparr>\<rparr>"

lemma demo_ports_simps [simp]:
  "ak_subjects (wake_demo_ports a) = demo_ports" "sv_sha demo_ports = (\<lambda>s. s)" "sv_others demo_ports = (\<lambda>_ st. st)"
  "ak_disk (wake_demo_ports a) k = None" "ak_session_uuid (wake_demo_ports a) = ''w1''"
  by (simp_all add: wake_demo_ports_def demo_ports_def)

lemma demo_cycle_wf: "wf_cycle demo_cycle"
  by (simp add: wf_cycle_def demo_cycle_def blank_def py_space_def)

lemma wake_demo_quiet: "quiet demo_ports"
  by (simp add: quiet_def)

lemma demo_reads:
  assumes "aw_subjects st = demo_store"
  shows "on_subjects (at_store demo_ports k (sv_load demo_ports ''s'')) st = (st, Inr demo_subject)"
    "on_subjects (at_store demo_ports k (get_update_history demo_ports ''s'')) st = (st, Inr [])"
    "on_subjects (require_active demo_ports k ''s'' None) st = (st, Inr demo_subject)"
proof -
  have c: "stored demo_ports demo_store ''s'' = Some (demo_subject, [])" "ss_subject_id demo_subject = ''s''" "\<not> blank ''s''"
    using demo_store_content by (simp_all add: demo_subject_def blank_def py_space_def)
  have a: "lifecycle_active (lifecycle_of demo_subject) None = Inr ()"
    by (simp add: demo_subject_def lifecycle_active_def lifecycle_status_def)
  show "on_subjects (at_store demo_ports k (sv_load demo_ports ''s'')) st = (st, Inr demo_subject)"
    "on_subjects (at_store demo_ports k (get_update_history demo_ports ''s'')) st = (st, Inr [])"
    "on_subjects (require_active demo_ports k ''s'' None) st = (st, Inr demo_subject)"
    using read_run [OF c] require_active_quiet [OF wake_demo_quiet c] assms a
    by (simp_all add: on_subjects_def at_store_quiet wake_demo_quiet get_update_history_def)
qed

definition demo_running :: wake_session where
  "demo_running = \<lparr>ws_session_id = ''w1'', ws_cycle_id = ''c1'', ws_subject_id = ''s'', ws_wake_reason = Wc_MANUAL,
     ws_detail = ''hello'', ws_wake_time = Abs_instant 9, ws_source_event_id = PNone, ws_subject_revision = PNone,
     ws_completed_at = None, ws_success = None, ws_decision = None, ws_observation = empty_observation, ws_error = None,
     ws_recovery_context = None\<rparr>"

lemma wake_demo_texts: "\<not> blank ''w1''" "\<not> blank ''c1''" "\<not> blank ''s''" "\<not> blank ''hello''" "\<not> blank ''q1''" "\<not> blank ''x1''"
  by (simp_all add: blank_def py_space_def)

lemma demo_session_start:
  "given_or_uuid i ''w1'' = ''w1'' \<Longrightarrow> session_start i ''w1'' demo_cycle demo_trigger = Inr demo_running"
  using wake_demo_texts awake_enum_run(2) [of _ Wc_MANUAL]
  by (simp add: session_start_def wake_session_init_def demo_cycle_def demo_trigger_def awake_text_run
      ensure_def session_outcome_def demo_running_def)

text \<open>A store with the subject and with no session yet, and a session id that comes to \<open>w1\<close>.\<close>

definition demo_start :: "string option \<Rightarrow> awake_store \<Rightarrow> bool" where
  "demo_start i st \<longleftrightarrow> given_or_uuid i ''w1'' = ''w1'' \<and> aw_subjects st = demo_store \<and> wl_sessions (aw_log st) = (\<lambda>_. []) \<and>
     listed (wl_cycles (aw_log st)) ''c1'' \<noteq> File_Not_A_File"

lemma demo_start_none: "demo_start None demo_awake_store"
  by (simp add: demo_start_def demo_awake_store_def given_or_uuid_def listed_def)

lemma demo_wake_started:
  assumes "demo_start i st"
  obtains st1 where "wake_started (wake_demo_ports a) demo_cycle demo_trigger i st demo_running st1"
    "aw_subjects st1 = demo_store" "wl_cycles (aw_log st1) = wl_cycles (aw_log st)"
    "listed (wl_sessions (aw_log st1) ''s'') ''w1'' \<noteq> File_Not_A_File"
proof -
  obtain v where v: "wake_session_to_dict demo_running = Inr v" "json_ok v"
    using session_json [of demo_running] by (auto simp: demo_running_def empty_observation_def observation_to_dict_def)
  let ?log = "(aw_log st)\<lparr>wl_sessions := (\<lambda>_. [])(''s'' := [(''w1'', File_Doc v)])\<rparr>"
  have "save_session (\<lambda>s. s) None demo_running (aw_log st) = Inr ?log"
    using v wake_demo_texts assms by (simp add: save_session_def demo_start_def demo_running_def session_path_def awake_hash_def
        listed_def write_awake_json_def)
  then have "wake_started (wake_demo_ports a) demo_cycle demo_trigger i st demo_running (st\<lparr>aw_log := ?log\<rparr>)"
    using demo_session_start [of i] demo_reads(3) [of st 0] assms
    by (simp add: wake_started_def demo_start_def demo_cycle_def)
  then show thesis by (rule that) (use assms in \<open>simp_all add: demo_start_def listed_def\<close>)
qed

text \<open>The pipeline up to the retrieval.\<close>

definition demo_request :: memory_request where
  "demo_request = \<lparr>mq_request_id = ''q1'', mq_subject_id = ''s'', mq_query = wake_query [] [] [], mq_requested_at = Abs_instant 9,
     mq_desired_scope = [Sec_CONTINUITY, Sec_RELATIONSHIP, Sec_INTENTIONS], mq_limit = 5, mq_minimum_relevance = 1 / 2,
     mq_context = [(''subject_revision'', PInt 0), (''current_focus'', PList []), (''unfinished_items'', PList []),
       (''relationship_status'', PStr []), (''recent_event_ids'', PList [])]\<rparr>"

lemma demo_memory_request:
  "wake_memory_request demo_config ''q1'' demo_subject [] (utc_val (Abs_instant 9)) PNone = Inr demo_request"
proof -
  have "\<not> blank (wake_query [] [] [])" by (simp add: wake_query_def blank_def py_space_def)
  moreover have "active_titles [] (PList []) = Inr []" by (simp add: active_titles_def parse_items_def ensure_def)
  moreover have "memory_sections (map (\<lambda>s. PStr (section_value s)) [Sec_CONTINUITY, Sec_RELATIONSHIP, Sec_INTENTIONS]) n =
      Inr [Sec_CONTINUITY, Sec_RELATIONSHIP, Sec_INTENTIONS]" for n
    unfolding memory_sections_run by simp
  ultimately show ?thesis using wake_demo_texts
    by (simp add: wake_memory_request_def memory_request_create_def memory_request_init_def demo_config_def demo_subject_def
        empty_sections given_or_uuid_def memory_text_run demo_request_def memory_object_def ensure_def)
qed

lemma demo_given: "given_or_uuid None u = u"
  by (simp add: given_or_uuid_def)

definition demo_memory :: memory_result where
  "demo_memory = \<lparr>mr_request = demo_request, mr_evaluated_at = Abs_instant 9, mr_decisions = []\<rparr>"

lemma demo_retrieve:
  "memory_retrieve (ak_memory (wake_demo_ports (Inl e))) q = Inl e"
  "memory_retrieve (ak_memory (wake_demo_ports (Inr []))) demo_request = Inr demo_memory"
  by (simp_all add: memory_retrieve_def wake_demo_ports_def memory_result_init_def Let_def ranked_decisions_def demo_memory_def)

lemma demo_port_values [simp]:
  "ak_request_uuid (wake_demo_ports a) = ''q1''" "ak_context_uuid (wake_demo_ports a) = ''x1''"
  "ak_context_time (wake_demo_ports a) = utc_val (Abs_instant 9)" "ak_completed_at (wake_demo_ports a) = utc_val (Abs_instant 9)"
  "ak_failed_at (wake_demo_ports a) = utc_val (Abs_instant 9)" "ac_subject_id demo_cycle = ''s''"
  "ak_exc_name (wake_demo_ports a) e = ''E''"
  by (simp_all add: wake_demo_ports_def demo_cycle_def)

lemma demo_pipeline_fails:
  assumes "aw_subjects st = demo_store"
  obtains w where "wake_pipeline (wake_demo_ports (Inl e)) demo_config demo_trigger None preserve (run_of demo_cycle demo_running st) = (w, Inl e)"
  using assms that
  by (simp add: wake_pipeline_def sbind_def prog_simps run_call_def demo_reads Let_def recent_tail_def demo_memory_request
      demo_retrieve run_of_def)

definition demo_context :: wake_context where
  "demo_context = \<lparr>wx_context_id = ''x1'', wx_subject_state = demo_subject, wx_recent_events = [], wx_recent_updates = [],
     wx_memory_result = demo_memory,
     wx_time_info = \<lparr>wi_current_time = Abs_instant 9, wi_last_interaction_at = None, wi_seconds_since = None\<rparr>,
     wx_created_at = Abs_instant 9\<rparr>"

definition demo_sleep :: wake_decision where
  "demo_sleep = \<lparr>wd_action = Wa_SLEEP,
     wd_reason = ''No relevant memory, recent state change, or active continuity item was found.'',
     wd_decided_at = Abs_instant 9, wd_evidence = []\<rparr>"

lemma demo_build: "build_context ''x1'' demo_subject [] [] demo_memory (Abs_instant 9) = Inr demo_context"
  using wake_demo_texts by (simp add: build_context_def wake_time_init_def wake_context_init_def optional_aware_def awake_text_run
      demo_memory_def demo_request_def demo_subject_def demo_context_def seconds_since_last_interaction_def ensure_def)

lemma demo_request_wf: "wf_memory_request demo_request"
  using wake_memory_request_wf [OF demo_memory_request] by simp

lemma demo_context_wf: "wf_wake_context demo_context" "normal_context demo_context = demo_context"
proof -
  have "wf_memory_result demo_memory" using demo_request_wf by (simp add: wf_memory_result_def demo_memory_def)
  then show "wf_wake_context demo_context" using build_context_wf(1) [of "''x1''" demo_subject "[]"] demo_build demo_wf by simp
  show "normal_context demo_context = demo_context" by (simp add: normal_context_def demo_context_def demo_normal)
qed

lemma demo_decide: "wake_decide demo_context = Inr demo_sleep"
proof -
  have "\<not> blank (wd_reason demo_sleep)" by (simp add: demo_sleep_def blank_def py_space_def)
  moreover have "active_titles [] (PList []) = Inr []" by (simp add: active_titles_def parse_items_def ensure_def)
  ultimately show ?thesis
    using awake_texts_run [of "[]"] awake_enum_run(3) [of _ Wa_SLEEP]
    by (simp add: wake_decide_def demo_context_def demo_memory_def selected_memories_def demo_subject_def empty_sections
        demo_sleep_def wake_decision_init_def awake_text_run)
qed

lemma demo_context_json: "\<exists>v. wake_context_to_dict demo_context = Inr v \<and> json_ok v"
proof -
  have "json_ok (memory_result_to_dict demo_memory)"
    by (simp add: memory_result_to_dict_def memory_request_to_dict_def demo_memory_def demo_request_def)
  then show ?thesis using subject_to_dict_run [OF demo_wf] demo_subject_json
    by (simp add: wake_context_to_dict_def demo_context_def wake_time_to_dict_def)
qed

lemma demo_completes:
  obtains f v where "session_complete demo_context demo_sleep (utc_val (Abs_instant 9)) preserve demo_running = Inr f"
    "wake_session_to_dict f = Inr v" "json_ok v" "ws_subject_id f = ''s''" "ws_session_id f = ''w1''"
    "session_successor demo_running f = Inr ()"
proof -
  obtain x where x: "wake_context_to_dict demo_context = Inr x" "json_ok x" using demo_context_json by blast
  moreover obtain x' where "wake_context_to_dict demo_context = Inr x'" "wake_context_from_dict x' = Inr demo_context"
    using wake_context_roundtrip [OF demo_context_wf(1)] demo_context_wf(2) by metis
  ultimately have again: "wake_context_from_dict x = Inr demo_context" by simp
  let ?f = "demo_running\<lparr>ws_subject_revision := PInt 0, ws_observation := observation_of_context demo_context,
    ws_recovery_context := (if preserve then Some demo_context else None), ws_decision := Some demo_sleep,
    ws_completed_at := Some (Abs_instant 9), ws_success := Some True, ws_error := None\<rparr>"
  have "session_complete demo_context demo_sleep (utc_val (Abs_instant 9)) preserve demo_running = Inr ?f"
    using x again by (simp add: session_complete_def) (simp add: demo_context_def demo_subject_def demo_running_def)
  moreover have "\<exists>v. wake_session_to_dict ?f = Inr v \<and> json_ok v"
    using x by (simp add: wake_session_to_dict_def demo_running_def wake_decision_to_dict_def observation_json
        observation_of_context_def demo_sleep_def)
  moreover have "session_successor demo_running ?f = Inr ()" by (simp add: session_successor_def ensure_def demo_running_def)
  moreover have "ws_subject_id ?f = ''s''" "ws_session_id ?f = ''w1''" by (simp_all add: demo_running_def)
  ultimately show thesis using that by blast
qed

lemma demo_running_wf: "wf_session demo_running"
  using session_start_fields(6) [OF demo_session_start [OF demo_given]] .

lemma demo_mark: "mark_woken (Abs_instant 9) demo_cycle = (demo_cycle\<lparr>ac_last_wake_at := Some (Abs_instant 9)\<rparr>, Inr ())"
  by (simp add: mark_woken_def sbind_def prog_simps demo_cycle_def)

lemma demo_wake_from:
  assumes "demo_start i st"
  obtains st' r where "wake_run (wake_demo_ports (Inr [])) demo_config demo_cycle demo_trigger i None preserve st = (st', Inr r)"
    "wr_context r = demo_context"
proof -
  let ?pp = "wake_demo_ports (Inr [])"
  obtain st1 where st1: "wake_started ?pp demo_cycle demo_trigger i st demo_running st1"
    "aw_subjects st1 = demo_store" "wl_cycles (aw_log st1) = wl_cycles (aw_log st)" using assms by (rule demo_wake_started)
  obtain f v where f: "session_complete demo_context demo_sleep (utc_val (Abs_instant 9)) preserve demo_running = Inr f"
    "wake_session_to_dict f = Inr v" "json_ok v" "ws_subject_id f = ''s''" "ws_session_id f = ''w1''"
    "session_successor demo_running f = Inr ()" by (rule demo_completes)
  let ?c = "demo_cycle\<lparr>ac_last_wake_at := Some (Abs_instant 9)\<rparr>"
  obtain l where l: "save_cycle (\<lambda>s. s) None ?c (aw_log st1) = Inr l"
    using st1(3) wake_demo_texts assms by (simp add: save_cycle_def awake_hash_def write_awake_json_def demo_start_def demo_cycle_def)
  have saved: "save_session (\<lambda>s. s) None demo_running (aw_log st) = Inr (aw_log st1)"
    using st1(1) by (simp add: wake_started_def)
  have "wl_sessions l = wl_sessions (aw_log st1)" using l by (auto simp: save_cycle_def rbind_eq_Inr)
  from session_rewritten [OF saved demo_running_wf this f(6) _ _ f(2,3)] f(4,5)
  obtain l2 where l2: "save_session (\<lambda>s. s) None f l = Inr l2" by (auto simp: demo_running_def)
  have "ss_revision demo_subject = 0" "mq_request_id demo_request = ''q1''" "mq_requested_at demo_request = Abs_instant 9"
    "wt_triggered_at demo_trigger = Abs_instant 9"
    by (simp_all add: demo_subject_def demo_request_def demo_trigger_def)
  then have "\<exists>w r. wake_pipeline ?pp demo_config demo_trigger None preserve (run_of demo_cycle demo_running st1) = (w, Inr r) \<and>
      wr_context r = demo_context"
    using st1(2) f(1) l l2 demo_mark
    by (simp add: wake_pipeline_def sbind_def prog_simps run_call_def demo_reads Let_def recent_tail_def demo_memory_request
        demo_retrieve demo_build demo_decide demo_given run_of_def run_session_def run_finish_def run_mark_def run_log_def swrite_def on_log_def)
  then show thesis using wake_run_started [OF st1(1)] that by (auto simp: scatch_def)
qed

lemmas demo_wake = demo_wake_from [OF demo_start_none]

lemma demo_candidates: "candidates_ok (ak_memory (wake_demo_ports (Inr [])))" "candidates_ok (ak_memory (wake_demo_ports (Inl e)))"
  by (simp_all add: candidates_ok_def wake_demo_ports_def)

text \<open>A retriever with two memories.\<close>

definition demo_candidate :: "string \<Rightarrow> rat \<Rightarrow> memory_candidate" where
  "demo_candidate i relevance = \<lparr>mc_memory_id = i, mc_subject_id = ''s'', mc_content = ''a walk'', mc_source = ''diary'',
     mc_occurred_at = None, mc_provider_relevance = relevance, mc_related_scope = [], mc_tags = [], mc_metadata = []\<rparr>"

definition demo_diary :: memory_ports where
  "demo_diary = \<lparr>ms_retrieve = (\<lambda>_. Inr [demo_candidate ''m1'' (6 / 10), demo_candidate ''m2'' (9 / 10)]),
     ms_record = (\<lambda>_. Inr ()), ms_clock = utc_val (Abs_instant 9), ms_uuid = ''i1''\<rparr>"

end
