(* ===== verification/Awakening_Properties.thy ===== *)
theory Awakening_Properties
  imports Awakening_Demo
begin

text \<open>
  The properties of memory retrieval, the wake schedule, the wake pipeline and its audit log.
\<close>

section \<open>Retrieval\<close>

lemma ranked_sorted: "sorted_wrt (\<lambda>a b. memory_rank q b \<le> memory_rank q a) (ranked_decisions q es)"
proof -
  have "sorted (map (memory_rank q) (sort_key (memory_rank q) (rev (filter md_relevant es))))" by (rule sorted_sort_key)
  then show ?thesis by (simp add: ranked_decisions_def sorted_wrt_rev sorted_wrt_map)
qed

lemma take_best:
  assumes "sorted_wrt P xs" "x \<in> set (take n xs)" "y \<in> set xs" "y \<notin> set (take n xs)"
  shows "P x y"
proof -
  have "y \<in> set (drop n xs)" using assms(3,4) by (metis append_take_drop_id Un_iff set_append)
  moreover have "sorted_wrt P (take n xs @ drop n xs)" using assms(1) by simp
  ultimately show ?thesis using assms(2) unfolding sorted_wrt_append by blast
qed

lemma findings_pass:
  "(\<forall>f \<in> set (relevance_findings q c). fst f) \<longleftrightarrow> mc_subject_id c = mq_subject_id q \<and>
     \<not> (\<exists>t. mc_occurred_at c = Some t \<and> mq_requested_at q < t) \<and>
     (mq_desired_scope q = [] \<or> mc_related_scope c = [] \<or> set (mq_desired_scope q) \<inter> set (mc_related_scope c) \<noteq> {}) \<and>
     \<not> mc_provider_relevance c < mq_minimum_relevance q"
  unfolding relevance_findings_def
  by (cases "mc_subject_id c = mq_subject_id q"; cases "\<exists>t. mc_occurred_at c = Some t \<and> mq_requested_at q < t";
      cases "mq_desired_scope q = []"; cases "mc_related_scope c = []";
      cases "set (mq_desired_scope q) \<inter> set (mc_related_scope c) = {}"; cases "mc_provider_relevance c < mq_minimum_relevance q"; simp)

lemma selection_facts:
  assumes "memory_retrieve ms q = Inr r" "1 \<le> mq_limit q"
  shows "int (length (selected_memories r)) \<le> mq_limit q"
    and "\<forall>c \<in> set (selected_memories r). mc_subject_id c = mq_subject_id q \<and>
      (\<forall>t. mc_occurred_at c = Some t \<longrightarrow> t \<le> mq_requested_at q) \<and> mq_minimum_relevance q \<le> mc_provider_relevance c \<and>
      (mq_desired_scope q = [] \<or> mc_related_scope c = [] \<or> set (mq_desired_scope q) \<inter> set (mc_related_scope c) \<noteq> {})"
    and "\<forall>m \<in> set (mr_decisions r). \<forall>n \<in> set (mr_decisions r). md_selected m \<and> md_relevant n \<and> \<not> md_selected n \<longrightarrow>
      memory_rank q n \<le> memory_rank q m"
    and "(\<exists>n \<in> set (mr_decisions r). md_relevant n \<and> \<not> md_selected n) \<longrightarrow> int (length (selected_memories r)) = mq_limit q"
proof -
  obtain cs es where c: "distinct (map mc_memory_id cs)" "list_all2 (\<lambda>c m. evaluate_candidate q c = Inr m) cs es"
    and d: "mr_decisions r = map (\<lambda>m. m\<lparr>md_selected := m \<in> set (take (nat (mq_limit q)) (ranked_decisions q es))\<rparr>) es"
    using assms(1) by (rule memory_retrieve_shape)
  let ?best = "take (nat (mq_limit q)) (ranked_decisions q es)"
  have cands: "map md_candidate es = cs" using c(2) by (induction rule: list_all2_induct) (auto dest: evaluate_candidate_Inr(1))
  then have dist: "distinct es" using c(1) distinct_map by metis
  then have dr: "distinct (ranked_decisions q es)" by (simp add: ranked_decisions_def)
  have rs: "set (ranked_decisions q es) = {m \<in> set es. md_relevant m}" by (auto simp: ranked_decisions_def)
  have sub: "set ?best \<subseteq> set es" using rs by (auto dest: in_set_takeD)
  have ev: "m \<in> set es \<Longrightarrow> evaluate_candidate q (md_candidate m) = Inr m" for m
    using c(2) evaluate_candidate_Inr(1) by (fastforce simp: list_all2_conv_all_nth in_set_conv_nth)
  have sel: "selected_memories r = map md_candidate (filter (\<lambda>m. m \<in> set ?best) es)"
    by (simp add: selected_memories_def d filter_map o_def)
  have "length (selected_memories r) = card (set es \<inter> set ?best)"
    using distinct_card [OF distinct_filter [OF dist], of "\<lambda>m. m \<in> set ?best"]
    by (simp add: sel Int_def)
  also have "\<dots> = length ?best" using sub dr by (simp add: Int_absorb1 distinct_card)
  finally have len: "length (selected_memories r) = min (length (ranked_decisions q es)) (nat (mq_limit q))" by simp
  then show "int (length (selected_memories r)) \<le> mq_limit q" using assms(2) by simp
  have "md_relevant m" if "m \<in> set ?best" for m using that rs by (auto dest: in_set_takeD)
  then have rel: "md_relevant m \<and> m \<in> set es" if "m \<in> set ?best" for m using that sub by blast
  show "\<forall>c \<in> set (selected_memories r). mc_subject_id c = mq_subject_id q \<and>
      (\<forall>t. mc_occurred_at c = Some t \<longrightarrow> t \<le> mq_requested_at q) \<and> mq_minimum_relevance q \<le> mc_provider_relevance c \<and>
      (mq_desired_scope q = [] \<or> mc_related_scope c = [] \<or> set (mq_desired_scope q) \<inter> set (mc_related_scope c) \<noteq> {})"
  proof
    fix x assume "x \<in> set (selected_memories r)"
    then obtain m where m: "x = md_candidate m" "m \<in> set ?best" by (auto simp: sel)
    with rel ev have "\<forall>f \<in> set (relevance_findings q x). fst f" using evaluate_candidate_Inr(4) by metis
    then show "mc_subject_id x = mq_subject_id q \<and>
      (\<forall>t. mc_occurred_at x = Some t \<longrightarrow> t \<le> mq_requested_at q) \<and> mq_minimum_relevance q \<le> mc_provider_relevance x \<and>
      (mq_desired_scope q = [] \<or> mc_related_scope x = [] \<or> set (mq_desired_scope q) \<inter> set (mc_related_scope x) \<noteq> {})"
      unfolding findings_pass by (meson not_less)
  qed
  have rank: "memory_rank q (m\<lparr>md_selected := b\<rparr>) = memory_rank q m" for m b by (simp add: memory_rank_def)
  show "\<forall>m \<in> set (mr_decisions r). \<forall>n \<in> set (mr_decisions r). md_selected m \<and> md_relevant n \<and> \<not> md_selected n \<longrightarrow>
      memory_rank q n \<le> memory_rank q m"
    using take_best [OF ranked_sorted] rs by (auto simp: d rank)
  show "(\<exists>n \<in> set (mr_decisions r). md_relevant n \<and> \<not> md_selected n) \<longrightarrow> int (length (selected_memories r)) = mq_limit q"
  proof
    assume "\<exists>n \<in> set (mr_decisions r). md_relevant n \<and> \<not> md_selected n"
    then obtain n where "n \<in> set (ranked_decisions q es)" "n \<notin> set ?best" using rs by (auto simp: d)
    then have "nat (mq_limit q) < length (ranked_decisions q es)" by (metis linorder_not_less take_all)
    with len assms(2) show "int (length (selected_memories r)) = mq_limit q" by simp
  qed
qed

text \<open>C33: retrieval selects at most \<open>limit\<close> memories, all of them memories of the subject that are not
  later than the request, reach the requested relevance and do not miss the requested scope; no
  relevant memory that is left out ranks above a selected one (by relevance, then time, then id), and
  one is left out only when the limit is reached.\<close>

theorem retrieval_selects_best:
  assumes "memory_retrieve ms q = Inr r" "1 \<le> mq_limit q"
  shows "(int (length (selected_memories r)) \<le> mq_limit q) \<and>
    (\<forall>c \<in> set (selected_memories r). mc_subject_id c = mq_subject_id q \<and>
      (\<forall>t. mc_occurred_at c = Some t \<longrightarrow> t \<le> mq_requested_at q) \<and> mq_minimum_relevance q \<le> mc_provider_relevance c \<and>
      (mq_desired_scope q = [] \<or> mc_related_scope c = [] \<or> set (mq_desired_scope q) \<inter> set (mc_related_scope c) \<noteq> {})) \<and>
    (\<forall>m \<in> set (mr_decisions r). \<forall>n \<in> set (mr_decisions r). md_selected m \<and> md_relevant n \<and> \<not> md_selected n \<longrightarrow>
      memory_rank q n \<le> memory_rank q m) \<and>
    ((\<exists>n \<in> set (mr_decisions r). md_relevant n \<and> \<not> md_selected n) \<longrightarrow> int (length (selected_memories r)) = mq_limit q)"
  using selection_facts [OF assms(1) assms(2)] by blast

lemma retrieval_selects_best_witness:
  "\<exists>r. memory_retrieve demo_diary (demo_request\<lparr>mq_limit := 1\<rparr>) = Inr r \<and> length (selected_memories r) \<le> 1"
proof -
  let ?q = "demo_request\<lparr>mq_limit := 1\<rparr>"
  have e: "\<exists>m. evaluate_candidate ?q (demo_candidate i p) = Inr m" if "0 \<le> p" "p \<le> 1" for i p
    using that memory_texts_run [of "map snd (relevance_findings ?q (demo_candidate i p))"]
    by (simp add: evaluate_candidate_def memory_decision_init_def Let_def ensure_def o_def)
      (simp add: relevance_findings_def demo_candidate_def)
  obtain m n where "evaluate_candidate ?q (demo_candidate ''m1'' (6 / 10)) = Inr m"
    "evaluate_candidate ?q (demo_candidate ''m2'' (9 / 10)) = Inr n"
    using e [of "6 / 10" "''m1''"] e [of "9 / 10" "''m2''"] by auto
  then obtain r where r: "memory_retrieve demo_diary ?q = Inr r"
    by (simp add: memory_retrieve_def demo_diary_def memory_result_init_def Let_def) (simp add: demo_candidate_def)
  with retrieval_selects_best [OF r] show ?thesis by auto
qed

section \<open>The schedule\<close>

text \<open>C34: waking a scheduled cycle moves its next wake to a point of the schedule that lies after the
  wake, so that the cycle is no longer due; a point is passed over only when it was due, up to the 36
  microseconds by which the float arithmetic can round, and a cycle woken before its point (by an event)
  keeps that point.\<close>

theorem next_wake_on_schedule:
  assumes "mark_woken now c = (c', Inr ())" "wf_cycle c" "ac_mode c = Aw_SCHEDULED"
  shows "\<exists>n due t k. ac_interval_seconds c = Some n \<and> ac_next_wake_at c = Some due \<and> ac_next_wake_at c' = Some t \<and>
    now < t \<and> 0 \<le> k \<and> usec t = usec due + k * n * 1000000 \<and> (now < due \<longrightarrow> t = due) \<and> (due \<le> now \<longrightarrow> usec t - n * 1000000 \<le> usec now + 36) \<and>
    \<not> cycle_due c' now \<and> ac_last_wake_at c' = Some now"
proof -
  obtain n due where c: "ac_interval_seconds c = Some n" "0 < n" "ac_next_wake_at c = Some due"
    using assms(2,3) by (auto simp: wf_cycle_def)
  with assms obtain t where t: "next_wake n due now = Inr t" "c' = c\<lparr>ac_last_wake_at := Some now, ac_next_wake_at := Some t\<rparr>"
    by (auto simp: mark_woken_def sbind_def prog_simps split: sum.splits)
  note p = next_wake_point [OF t(1) c(2)]
  then obtain k where k: "0 \<le> k" "usec t = usec due + k * n * 1000000" by blast
  have "now < due \<longrightarrow> t = due" using t(1) by (auto simp: next_wake_def)
  with c t p(1,3) k show ?thesis by (auto simp: cycle_due_def)
qed

lemma next_wake_on_schedule_witness:
  "(\<exists>c'. mark_woken (Abs_instant 5) (demo_cycle\<lparr>ac_mode := Aw_SCHEDULED, ac_interval_seconds := Some 60,
      ac_next_wake_at := Some (Abs_instant 5)\<rparr>) = (c', Inr ()) \<and> \<not> cycle_due c' (Abs_instant 5)) \<and>
   (\<exists>c'. mark_woken (Abs_instant 4) (demo_cycle\<lparr>ac_mode := Aw_SCHEDULED, ac_interval_seconds := Some 60,
      ac_next_wake_at := Some (Abs_instant 5)\<rparr>) = (c', Inr ()) \<and> ac_next_wake_at c' = Some (Abs_instant 5))"
proof -
  let ?c = "demo_cycle\<lparr>ac_mode := Aw_SCHEDULED, ac_interval_seconds := Some 60, ac_next_wake_at := Some (Abs_instant 5)\<rparr>"
  have "fl (of_int 60) = of_int 60" by (rule fl_int) simp_all
  then obtain t where "next_wake 60 (Abs_instant 5) (Abs_instant 5) = Inr t"
    by (simp add: next_wake_def float_of_int_def fl_def [of 0] plus_seconds_def mk_instant_def)
  then have "\<exists>c'. mark_woken (Abs_instant 5) ?c = (c', Inr ())"
    by (simp add: mark_woken_def sbind_def prog_simps)
  then obtain c' where c: "mark_woken (Abs_instant 5) ?c = (c', Inr ())" ..
  have "wf_cycle ?c" using demo_cycle_wf by (simp add: wf_cycle_def demo_cycle_def)
  then have due: "\<not> cycle_due c' (Abs_instant 5)" using next_wake_on_schedule [OF c] by auto
  have early: "Abs_instant 4 < Abs_instant 5" by (simp add: instant_order)
  then obtain d where d: "mark_woken (Abs_instant 4) ?c = (d, Inr ())"
    by (auto simp: mark_woken_def sbind_def prog_simps next_wake_def)
  with next_wake_on_schedule [OF d \<open>wf_cycle ?c\<close>] early have "ac_next_wake_at d = Some (Abs_instant 5)" by auto
  with c d due show ?thesis by blast
qed

section \<open>The audit log of a wake\<close>

definition logged :: "awake_ports \<Rightarrow> awake_run \<Rightarrow> awake_store \<Rightarrow> wake_session \<Rightarrow> bool" where
  "logged pp w st1 s \<longleftrightarrow> (\<exists>l d1 d2. save_cycle (ak_sha pp) d1 (ar_cycle w) (aw_log st1) = Inr l \<and>
     save_session (ak_sha pp) d2 s l = Inr (aw_log (ar_store w)))"

lemma logged_session:
  "logged pp w st1 s \<Longrightarrow> wf_session s \<Longrightarrow>
     load_session (ak_sha pp) (ws_subject_id s) (ws_session_id s) (aw_log (ar_store w)) = Inr s"
  by (auto simp: logged_def dest: load_saved_session(1))

lemma load_cycle_cong: "wl_cycles l = wl_cycles l' \<Longrightarrow> load_cycle sha i l = load_cycle sha i l'"
  by (simp add: load_cycle_def)

lemma save_session_cycles: "save_session sha disk s l = Inr l' \<Longrightarrow> wl_cycles l' = wl_cycles l"
  by (erule save_session_file) simp

lemma save_cycle_cycles: "save_cycle sha disk c l = Inr l' \<Longrightarrow>
    wl_cycles l' = AList.update (sha (ac_cycle_id c)) (File_Doc (awake_cycle_to_dict c)) (wl_cycles l)"
  by (auto simp: save_cycle_def rbind_eq_Inr write_awake_Inr awake_hash_def split: if_splits)

lemma logged_cycle:
  "logged pp w st1 s \<Longrightarrow> wf_cycle (ar_cycle w) \<Longrightarrow>
     load_cycle (ak_sha pp) (ac_cycle_id (ar_cycle w)) (aw_log (ar_store w)) = Inr (ar_cycle w)"
  by (auto simp: logged_def load_cycle_cong [OF save_session_cycles] dest: load_saved_cycle(1))

lemma started_session: "wake_started pp c t i st s st1 \<Longrightarrow> session_start i (ak_session_uuid pp) c t = Inr s"
  by (simp add: wake_started_def)

lemma pipeline_logged:
  assumes "candidates_ok (ak_memory pp)" "wake_started pp cycle trigger session_id st s st1"
    "wake_pipeline pp cf trigger context_id preserve (run_of cycle s st1) = (w, Inr r)"
  shows "\<exists>d. wf_wake_context (wr_context r) \<and> wake_decide (wr_context r) = Inr d \<and>
    session_complete (wr_context r) d (ak_completed_at pp) preserve s = Inr (wr_session r) \<and>
    mark_woken (wt_triggered_at trigger) cycle = (ar_cycle w, Inr ()) \<and> logged pp w st1 (wr_session r)"
  using wp_result [OF pipeline_outcome [OF assms(1) observing_start] assms(3)]
    session_start_fields(6) [OF started_session [OF assms(2)]]
  by (auto simp: pipeline_done_def logged_def) blast


lemma success_facts:
  assumes "wake_run pp cf cycle trigger session_id context_id preserve st = (st', Inr r)"
    and "candidates_ok (ak_memory pp)" "wf_cycle cycle"
  shows "load_session (ak_sha pp) (ac_subject_id cycle) (given_or_uuid session_id (ak_session_uuid pp)) (aw_log st') = Inr (wr_session r)"
    and "ws_success (wr_session r) = Some True" "ws_error (wr_session r) = None"
    and "\<exists>d. wake_decide (wr_context r) = Inr d \<and> ws_decision (wr_session r) = Some d"
    and "ws_observation (wr_session r) = observation_of_context (wr_context r)"
    and "\<exists>c. load_cycle (ak_sha pp) (ac_cycle_id cycle) (aw_log st') = Inr c \<and> ac_last_wake_at c = Some (wt_triggered_at trigger)"
proof -
  obtain s st1 w where w: "wake_started pp cycle trigger session_id st s st1"
    "wake_pipeline pp cf trigger context_id preserve (run_of cycle s st1) = (w, Inr r)" "st' = ar_store w"
    using assms(1) by (rule wake_run_returns)
  then obtain d where d: "wf_wake_context (wr_context r)" "wake_decide (wr_context r) = Inr d"
    "session_complete (wr_context r) d (ak_completed_at pp) preserve s = Inr (wr_session r)"
    "mark_woken (wt_triggered_at trigger) cycle = (ar_cycle w, Inr ())" and l: "logged pp w st1 (wr_session r)"
    using pipeline_logged [OF assms(2) w(1,2)] by blast
  note s = session_start_fields [OF started_session [OF w(1)]]
  note c = session_complete_result [OF d(3) s(6) d(1) wake_decide_wf [OF d(2)]]
  show "load_session (ak_sha pp) (ac_subject_id cycle) (given_or_uuid session_id (ak_session_uuid pp)) (aw_log st') = Inr (wr_session r)"
    using logged_session [OF l c(1)] c(2,3) s(1,3) w(3) by simp
  show "\<exists>c. load_cycle (ak_sha pp) (ac_cycle_id cycle) (aw_log st') = Inr c \<and> ac_last_wake_at c = Some (wt_triggered_at trigger)"
    using logged_cycle [OF l] mark_woken_fields [OF d(4) assms(3)] w(3) by auto
  show "ws_success (wr_session r) = Some True" "ws_error (wr_session r) = None"
    "\<exists>d. wake_decide (wr_context r) = Inr d \<and> ws_decision (wr_session r) = Some d"
    "ws_observation (wr_session r) = observation_of_context (wr_context r)"
    using c d(2) by simp_all
qed

text \<open>C28: a wake that returns is in the log: the session that is read back is the returned one, it is
  complete and successful, its decision is what the policy decides on the returned context and its
  observation is that of this context; the cycle that is read back was last woken by this trigger.\<close>

theorem successful_wake_logged:
  assumes "wake_run pp cf cycle trigger session_id context_id preserve st = (st', Inr r)"
    and "candidates_ok (ak_memory pp)" "wf_cycle cycle"
  shows "(load_session (ak_sha pp) (ac_subject_id cycle) (given_or_uuid session_id (ak_session_uuid pp)) (aw_log st') = Inr (wr_session r)) \<and>
    (ws_success (wr_session r) = Some True) \<and>
    (ws_error (wr_session r) = None) \<and>
    (\<exists>d. wake_decide (wr_context r) = Inr d \<and> ws_decision (wr_session r) = Some d) \<and>
    (ws_observation (wr_session r) = observation_of_context (wr_context r)) \<and>
    (\<exists>c. load_cycle (ak_sha pp) (ac_cycle_id cycle) (aw_log st') = Inr c \<and> ac_last_wake_at c = Some (wt_triggered_at trigger))"
  using success_facts [OF assms(1) assms(2) assms(3)] by blast

lemma successful_wake_logged_witness:
  "\<exists>st' r. wake_run (wake_demo_ports (Inr [])) demo_config demo_cycle demo_trigger None None False demo_awake_store = (st', Inr r) \<and>
    ws_success (wr_session r) = Some True"
proof -
  obtain st' r where w: "wake_run (wake_demo_ports (Inr [])) demo_config demo_cycle demo_trigger None None False demo_awake_store = (st', Inr r)"
    by (rule demo_wake)
  from successful_wake_logged [OF w demo_candidates(1) demo_cycle_wf] w show ?thesis by blast
qed

lemma decision_run:
  assumes "\<not> blank r" "\<forall>s \<in> set ev. \<not> blank s"
  shows "wake_decision_init (PStr (wake_action_value a)) (PStr r) (utc_val t) (PList (map PStr ev)) =
      Inr \<lparr>wd_action = a, wd_reason = r, wd_decided_at = t, wd_evidence = ev\<rparr>"
    "wf_decision \<lparr>wd_action = a, wd_reason = r, wd_decided_at = t, wd_evidence = ev\<rparr>"
  using assms by (simp_all add: wake_decision_init_def awake_text_run awake_texts_run wf_decision_def)

lemma handler_run:
  assumes w: "pipeline_stopped pp t0 (run_of cycle s st1) w" and t0: "t0 = wt_triggered_at trigger"
    and s: "wf_session s" "ws_success s = None" "ws_recovery_context s = None" "json_ok (ws_source_event_id s)"
    and saved: "save_session (ak_sha pp) d0 s l0 = Inr (aw_log st1)"
    and c: "wf_cycle cycle" "mark_woken t0 cycle = (c', Inr ())"
    and disk: "ak_disk pp 3 = None" "ak_disk pp 4 = None" "ak_failed_at pp = utc_val t"
      "listed (wl_cycles (aw_log st1)) (ak_sha pp (ac_cycle_id cycle)) \<noteq> File_Not_A_File"
    and msg: "message = (if snd e = [] then ak_exc_name pp e else snd e)" "\<not> blank message"
  shows "\<exists>w' f d. wake_failed pp trigger e w =
      (w', Inl (WakeExecutionError, ''wake session failed and was logged: '' @ ws_session_id s)) \<and>
    logged pp w' (ar_store w) f \<and> ar_cycle w' = c' \<and> wf_session f \<and> ws_session_id f = ws_session_id s \<and> ws_subject_id f = ws_subject_id s \<and>
    ws_success f = Some False \<and> ws_error f = Some message \<and> ws_recovery_context f = None \<and>
    ws_decision f = Some d \<and> wd_action d = Wa_SLEEP"
proof -
  let ?r = "''The wake pipeline failed, so no autonomous action may proceed.''"
  define d where "d = \<lparr>wd_action = Wa_SLEEP, wd_reason = ?r, wd_decided_at = t, wd_evidence = [''error:'' @ ak_exc_name pp e]\<rparr>"
  have nb: "\<not> blank ?r" "\<not> blank (''error:'' @ ak_exc_name pp e)" by (simp_all add: blank_def py_space_def)
  have d: "wake_decision_init (PStr (wake_action_value Wa_SLEEP)) (PStr ?r) (ak_failed_at pp)
      (PList [PStr (''error:'' @ ak_exc_name pp e)]) = Inr d" "wf_decision d"
    using decision_run [OF nb(1), of "[''error:'' @ ak_exc_name pp e]" Wa_SLEEP t] nb(2)
    unfolding disk(3) d_def by (auto simp del: append.simps wake_action_value.simps)
  obtain f where f: "session_fail d (ak_failed_at pp) message (ar_revision w) (ar_observation w) (ar_session w) = Inr f"
    using msg(2) disk(3) by (simp add: session_fail_def awake_text_run)
  note p = w [unfolded pipeline_stopped_def run_of_simps]
  have pw: "wf_session (ar_session w)" "wf_observation (ar_observation w)" "\<forall>n. ar_revision w = Some n \<longrightarrow> 0 \<le> n"
    "ws_session_id (ar_session w) = ws_session_id s" "ws_subject_id (ar_session w) = ws_subject_id s"
    "ws_cycle_id (ar_session w) = ws_cycle_id s" "ws_source_event_id (ar_session w) = ws_source_event_id s"
    "json_ok (observation_to_dict (ar_observation w))" "wl_sessions (aw_log (ar_store w)) = wl_sessions (aw_log st1)"
    using p by blast+
  note ff = session_fail_result [OF f pw(1) d(2) pw(2,3)]
  have mark: "mark_woken t0 (ar_cycle w) = (c', Inr ())" using p c mark_woken_again by force
  have free: "listed (wl_cycles (aw_log (ar_store w))) (ak_sha pp (ac_cycle_id c')) \<noteq> File_Not_A_File"
  proof -
    have "wl_cycles (aw_log (ar_store w)) = wl_cycles (aw_log st1) \<or>
        wl_cycles (aw_log (ar_store w)) = AList.update (ak_sha pp (ac_cycle_id c')) (File_Doc (awake_cycle_to_dict c')) (wl_cycles (aw_log st1))"
      using p c(2) save_cycle_cycles by auto
    then show ?thesis using disk(4) mark_woken_fields(1) [OF c(2,1)] by auto
  qed
  have "\<not> blank (ac_cycle_id c')" using mark_woken_fields(2) [OF c(2,1)] by (simp add: wf_cycle_def)
  with free obtain l1 where l1: "save_cycle (ak_sha pp) None c' (aw_log (ar_store w)) = Inr l1"
    by (simp add: save_cycle_def awake_hash_def write_awake_json_def)
  have same: "wl_sessions l1 = wl_sessions (aw_log st1)" using l1 pw(9) by (auto simp: save_cycle_def rbind_eq_Inr)
  have succ: "session_successor s f = Inr ()"
    using s ff pw by (simp add: session_successor_def ensure_def)
  have "json_ok (ws_source_event_id f)" "json_ok (ws_subject_revision f)" "json_ok (observation_to_dict (ws_observation f))"
    using ff pw s by (simp_all add: opt_int_json)
  then obtain v where "wake_session_to_dict f = Inr v" "json_ok v" using session_json ff(8) by blast
  with session_rewritten [OF saved s(1) same succ] ff pw obtain l2 where l2: "save_session (ak_sha pp) None f l1 = Inr l2" by auto
  let ?w = "w\<lparr>ar_session := f, ar_cycle := c', ar_store := (ar_store w)\<lparr>aw_log := l2\<rparr>\<rparr>"
  have "run_finish pp 3 t0 (w\<lparr>ar_session := f\<rparr>) = (?w, Inr ())"
    using mark l1 l2 disk(1,2)
    by (simp add: run_finish_def sbind_def prog_simps run_mark_def run_log_def run_call_def swrite_def on_log_def)
  then have "wake_failed pp trigger e w =
      (?w, Inl (WakeExecutionError, ''wake session failed and was logged: '' @ ws_session_id s))"
    using d(1) f t0 msg(1) pw(4) unfolding wake_failed_def
    by (simp add: sbind_def prog_simps run_session_def swrite_def del: append.simps)
  moreover have "logged pp ?w (ar_store w) f" using l1 l2 unfolding logged_def by auto
  ultimately show ?thesis using ff pw by (intro exI [of _ ?w] exI [of _ f] exI [of _ d]) (simp add: d_def)
qed

text \<open>C29: a wake whose pipeline raises is in the log as well, if the disk and the clock work for the
  handler and the cycle can be marked: the call raises \<open>WakeExecutionError\<close>, the session that is read back
  has failed with the text of the exception and the decision to sleep, and the cycle was last woken by this
  trigger.\<close>

theorem failed_wake_logged:
  assumes "wake_started pp cycle trigger session_id st s st1"
    and "wake_pipeline pp cf trigger context_id preserve (run_of cycle s st1) = (w, Inl e)"
    and "candidates_ok (ak_memory pp)" "wf_cycle cycle" "mark_woken (wt_triggered_at trigger) cycle = (c', Inr ())"
    and "ak_disk pp 3 = None" "ak_disk pp 4 = None" "ak_failed_at pp = utc_val t"
    and "listed (wl_cycles (aw_log st)) (ak_sha pp (ac_cycle_id cycle)) \<noteq> File_Not_A_File"
    and "message = (if snd e = [] then ak_exc_name pp e else snd e)" "\<not> blank message"
  shows "\<exists>st' f d c. wake_run pp cf cycle trigger session_id context_id preserve st =
      (st', Inl (WakeExecutionError, ''wake session failed and was logged: '' @ ws_session_id s)) \<and>
    load_session (ak_sha pp) (ac_subject_id cycle) (ws_session_id s) (aw_log st') = Inr f \<and>
    ws_success f = Some False \<and> ws_error f = Some message \<and> ws_recovery_context f = None \<and>
    ws_decision f = Some d \<and> wd_action d = Wa_SLEEP \<and>
    load_cycle (ak_sha pp) (ac_cycle_id cycle) (aw_log st') = Inr c \<and> ac_last_wake_at c = Some (wt_triggered_at trigger)"
proof -
  note started = assms(1) [unfolded wake_started_def]
  note s = session_start_fields [OF started_session [OF assms(1)]]
  have stop: "pipeline_stopped pp (wt_triggered_at trigger) (run_of cycle s st1) w"
    using wp_error [OF pipeline_outcome [OF assms(3) observing_start] assms(2)] s(6) by simp
  have saved: "save_session (ak_sha pp) (ak_disk pp 0) s (aw_log st) = Inr (aw_log st1)" using started by blast
  have "listed (wl_cycles (aw_log st1)) (ak_sha pp (ac_cycle_id cycle)) \<noteq> File_Not_A_File"
    using assms(9) save_session_cycles [OF saved] by simp
  from handler_run [OF stop refl s(6,4,5) _ saved assms(4,5,6,7,8) this assms(10,11)] s(7)
  obtain w' f d where h: "wake_failed pp trigger e w =
      (w', Inl (WakeExecutionError, ''wake session failed and was logged: '' @ ws_session_id s))"
    "logged pp w' (ar_store w) f" "ar_cycle w' = c'" "wf_session f" "ws_session_id f = ws_session_id s" "ws_subject_id f = ws_subject_id s"
    "ws_success f = Some False" "ws_error f = Some message" "ws_recovery_context f = None" "ws_decision f = Some d" "wd_action d = Wa_SLEEP"
    by (auto simp: opt_int_json)
  have "wake_run pp cf cycle trigger session_id context_id preserve st =
      (ar_store w', Inl (WakeExecutionError, ''wake session failed and was logged: '' @ ws_session_id s))"
    using wake_run_started [OF assms(1)] assms(2) h(1) by (simp add: scatch_def)
  moreover have "load_session (ak_sha pp) (ac_subject_id cycle) (ws_session_id s) (aw_log (ar_store w')) = Inr f"
    using logged_session [OF h(2,4)] h(5,6) s(3) by simp
  moreover have "load_cycle (ak_sha pp) (ac_cycle_id cycle) (aw_log (ar_store w')) = Inr c'"
    using logged_cycle [OF h(2)] h(3) mark_woken_fields [OF assms(5,4)] by simp
  ultimately show ?thesis using h mark_woken_fields(3) [OF assms(5,4)] by blast
qed

lemma failed_wake_logged_witness:
  "\<exists>st' f. wake_run (wake_demo_ports (Inl (OSError, ''gone''))) demo_config demo_cycle demo_trigger None None False demo_awake_store =
      (st', Inl (WakeExecutionError, ''wake session failed and was logged: w1'')) \<and>
    load_session (\<lambda>s. s) ''s'' ''w1'' (aw_log st') = Inr f \<and> ws_error f = Some ''gone''"
proof -
  let ?e = "(OSError, ''gone'')"
  let ?pp = "wake_demo_ports (Inl ?e)"
  obtain st1 where st1: "wake_started ?pp demo_cycle demo_trigger None demo_awake_store demo_running st1" "aw_subjects st1 = demo_store"
    by (rule demo_wake_started [OF demo_start_none])
  obtain w where w: "wake_pipeline ?pp demo_config demo_trigger None False (run_of demo_cycle demo_running st1) = (w, Inl ?e)"
    using st1(2) by (rule demo_pipeline_fails)
  have m: "mark_woken (wt_triggered_at demo_trigger) demo_cycle = (demo_cycle\<lparr>ac_last_wake_at := Some (Abs_instant 9)\<rparr>, Inr ())"
    using demo_mark by (simp add: demo_trigger_def)
  have n: "\<not> blank ''gone''" by (simp add: blank_def py_space_def)
  have d: "listed (wl_cycles (aw_log demo_awake_store)) (ak_sha ?pp (ac_cycle_id demo_cycle)) \<noteq> File_Not_A_File"
    by (simp add: demo_awake_store_def listed_def)
  from failed_wake_logged [OF st1(1) w demo_candidates(2) demo_cycle_wf m _ _ _ d, of "Abs_instant 9" "''gone''"] n
  show ?thesis by (auto simp: demo_running_def)
qed

text \<open>C32: a context that was kept with a session is given back by the recovery, whatever the stores and
  the configuration are by then, with the subject's documents in their normal form; under another context
  id the recovery is refused.\<close>

theorem recovered_wake:
  assumes "wake_run pp cf cycle trigger session_id context_id True st = (st', Inr r)"
    and "candidates_ok (ak_memory pp)" "wf_cycle cycle"
  shows "\<exists>s. load_session (ak_sha pp) (ac_subject_id cycle) (given_or_uuid session_id (ak_session_uuid pp)) (aw_log st') = Inr s \<and>
      recover_completed pp2 cf2 s (wx_context_id (wr_context r)) legacy st2 =
        (st2, Inr \<lparr>wr_context = normal_context (wr_context r), wr_session = wr_session r\<rparr>) \<and>
      (i \<noteq> wx_context_id (wr_context r) \<longrightarrow> recover_completed pp2 cf2 s i legacy st2 =
        (st2, Inl (awake_invalid ''persisted WakeContext identity does not match recovery identity'')))"
proof -
  let ?x = "wr_context r"
  obtain s st1 w where w: "wake_started pp cycle trigger session_id st s st1"
    "wake_pipeline pp cf trigger context_id True (run_of cycle s st1) = (w, Inr r)" "st' = ar_store w"
    using assms(1) by (rule wake_run_returns)
  then obtain d where d: "wf_wake_context ?x" "wake_decide ?x = Inr d"
    "session_complete ?x d (ak_completed_at pp) True s = Inr (wr_session r)" and l: "logged pp w st1 (wr_session r)"
    using pipeline_logged [OF assms(2) w(1,2)] by blast
  note s = session_start_fields [OF started_session [OF w(1)]]
  note c = session_complete_result [OF d(3) s(6) d(1) wake_decide_wf [OF d(2)]]
  have load: "load_session (ak_sha pp) (ac_subject_id cycle) (given_or_uuid session_id (ak_session_uuid pp)) (aw_log st') = Inr (wr_session r)"
    using logged_session [OF l c(1)] c(2,3) s(1,3) w(3) by simp
  obtain v where "wake_context_to_dict (normal_context ?x) = Inr v" "wake_context_from_dict v = Inr (normal_context ?x)"
    using d(1) by (rule wake_context_roundtrip)
  with c have rec: "recover_completed pp2 cf2 (wr_session r) j legacy st2 = (st2,
      rbind (ensure (wx_context_id ?x = j) (awake_invalid ''persisted WakeContext identity does not match recovery identity''))
        (\<lambda>_. Inr \<lparr>wr_context = normal_context ?x, wr_session = wr_session r\<rparr>))" for j
    by (simp add: recover_completed_def sbind_def prog_simps normal_context_def ensure_def)
  show ?thesis using load by (intro exI [of _ "wr_session r"]) (simp add: rec)
qed

lemma recovered_wake_witness:
  "\<exists>st' r s. wake_run (wake_demo_ports (Inr [])) demo_config demo_cycle demo_trigger None None True demo_awake_store = (st', Inr r) \<and>
    snd (recover_completed (wake_demo_ports (Inr [])) demo_config s (wx_context_id (wr_context r)) PNone demo_awake_store) =
      Inr \<lparr>wr_context = normal_context (wr_context r), wr_session = wr_session r\<rparr>"
proof -
  obtain st' r where w: "wake_run (wake_demo_ports (Inr [])) demo_config demo_cycle demo_trigger None None True demo_awake_store = (st', Inr r)"
    by (rule demo_wake)
  from recovered_wake [OF w demo_candidates(1) demo_cycle_wf, of "wake_demo_ports (Inr [])" demo_config PNone demo_awake_store]
  obtain s where "recover_completed (wake_demo_ports (Inr [])) demo_config s (wx_context_id (wr_context r)) PNone demo_awake_store =
      (demo_awake_store, Inr \<lparr>wr_context = normal_context (wr_context r), wr_session = wr_session r\<rparr>)" by blast
  then have "snd (recover_completed (wake_demo_ports (Inr [])) demo_config s (wx_context_id (wr_context r)) PNone demo_awake_store) =
      Inr \<lparr>wr_context = normal_context (wr_context r), wr_session = wr_session r\<rparr>" by simp
  with w show ?thesis by blast
qed

section \<open>The log over many calls\<close>

text \<open>One call of the service that writes, with any ports that use the digest \<open>sha\<close>.\<close>

inductive awake_step :: "digest_fun \<Rightarrow> awake_store \<Rightarrow> awake_store \<Rightarrow> bool" for sha where
  manual_cycle_step: "ak_sha pp = sha \<Longrightarrow> awake_step sha st (fst (create_manual_cycle pp i st))"
| scheduled_cycle_step: "ak_sha pp = sha \<Longrightarrow> awake_step sha st (fst (create_scheduled_cycle pp i n t st))"
| manual_step: "ak_sha pp = sha \<Longrightarrow> awake_step sha st (fst (wake_manual pp cf i detail session_id context_id preserve st))"
| scheduled_step: "ak_sha pp = sha \<Longrightarrow> awake_step sha st (fst (wake_scheduled pp cf i detail session_id st))"
| event_step: "ak_sha pp = sha \<Longrightarrow> awake_step sha st (fst (wake_for_event pp cf i e detail session_id st))"

text \<open>Entries of the log that are final are left as they are.\<close>

definition final_kept :: "awake_store \<Rightarrow> awake_store \<Rightarrow> bool" where
  "final_kept st st' \<longleftrightarrow> (\<forall>dir stem p. read_session (listed (wl_sessions (aw_log st) dir) stem) = Inr p \<and> ws_success p \<noteq> None \<longrightarrow>
     listed (wl_sessions (aw_log st') dir) stem = listed (wl_sessions (aw_log st) dir) stem)"

lemma final_kept_same: "wl_sessions (aw_log st') = wl_sessions (aw_log st) \<Longrightarrow> final_kept st st'"
  by (simp add: final_kept_def)

interpretation fk: kept final_kept
proof
  fix s t u assume "final_kept s t" "final_kept t u"
  then show "final_kept s u" unfolding final_kept_def by metis
qed (simp add: final_kept_def)

text \<open>A run writes no other session than its own.\<close>

definition own_entry_only :: "digest_fun \<Rightarrow> awake_run \<Rightarrow> awake_run \<Rightarrow> bool" where
  "own_entry_only sha w w' \<longleftrightarrow> ws_subject_id (ar_session w') = ws_subject_id (ar_session w) \<and>
     ws_session_id (ar_session w') = ws_session_id (ar_session w) \<and>
     (\<forall>dir stem. session_path sha (ws_subject_id (ar_session w)) (ws_session_id (ar_session w)) \<noteq> Inr (dir, stem) \<longrightarrow>
        listed (wl_sessions (aw_log (ar_store w')) dir) stem = listed (wl_sessions (aw_log (ar_store w)) dir) stem)"

interpretation own: kept "own_entry_only sha" for sha
  by unfold_locales (auto simp: own_entry_only_def)

lemma own_subjects: "keeps (own_entry_only sha) (run_call (on_subjects m))"
  by (rule keepsI) (auto simp: own_entry_only_def run_call_def on_subjects_def split: prod.splits)

lemma own_finish: "keeps (own_entry_only (ak_sha pp)) (run_finish pp k t)"
proof (rule keepsI)
  fix w
  have c: "save_cycle sha d c l = Inr l' \<Longrightarrow> wl_sessions l' = wl_sessions l" for sha d c l l'
    by (auto simp: save_cycle_def rbind_eq_Inr)
  have s: "save_session sha d s l = Inr l' \<Longrightarrow> session_path sha (ws_subject_id s) (ws_session_id s) \<noteq> Inr (dir, stem) \<Longrightarrow>
      listed (wl_sessions l' dir) stem = listed (wl_sessions l dir) stem" for sha d s l l' dir stem
    by (erule save_session_file) auto
  show "own_entry_only (ak_sha pp) w (fst (run_finish pp k t w))"
    by (auto simp: run_finish_def sbind_def prog_simps run_mark_def run_log_def run_call_def swrite_def on_log_def
        own_entry_only_def rbind_def c s split: prod.splits sum.splits)
qed

lemma own_session:
  assumes "\<And>s s'. f s = Inr s' \<Longrightarrow> ws_subject_id s' = ws_subject_id s \<and> ws_session_id s' = ws_session_id s"
  shows "keeps (own_entry_only sha) (run_session f)"
  using assms by (auto intro!: keepsI simp: own_entry_only_def run_session_def swrite_def rbind_def split: sum.splits)

lemma own_complete: "keeps (own_entry_only sha) (run_session (session_complete x d t preserve))"
  by (rule own_session) (auto simp: session_complete_def rbind_eq_Inr)

lemma own_fail: "keeps (own_entry_only sha) (run_session (session_fail d t e n obs))"
  by (rule own_session) (auto simp: session_fail_def rbind_eq_Inr)

lemma own_run: "keeps (own_entry_only (ak_sha pp)) (scatch (wake_pipeline pp cf trigger context_id preserve) (wake_failed pp trigger))"
  unfolding wake_pipeline_def wake_failed_def Let_def
  by (intro own.catch own.bind own.pure own_subjects own_finish own_complete own_fail own.modify)
    (simp_all add: own_entry_only_def)

lemma wake_run_final: "final_kept st (fst (wake_run pp cf cycle trigger session_id context_id preserve st))"
proof -
  obtain sa r where a: "on_subjects (require_active (ak_subjects pp) 0 (ac_subject_id cycle) None) st = (sa, r)" by fastforce
  note same = on_subjects_log [OF a]
  show ?thesis
  proof (cases "\<exists>s st1. wake_started pp cycle trigger session_id st s st1")
    case True
    then obtain s st1 where w: "wake_started pp cycle trigger session_id st s st1" by blast
    then have sv: "save_session (ak_sha pp) (ak_disk pp 0) s (aw_log st) = Inr (aw_log st1)" by (simp add: wake_started_def)
    have run: "ws_success s = None" using session_start_fields(4) [OF started_session [OF w]] .
    obtain dir stem d where p: "session_path (ak_sha pp) (ws_subject_id s) (ws_session_id s) = Inr (dir, stem)"
      "aw_log st1 = (aw_log st)\<lparr>wl_sessions := (wl_sessions (aw_log st))(dir := AList.update stem (File_Doc d) (wl_sessions (aw_log st) dir))\<rparr>"
      "is_file (listed (wl_sessions (aw_log st) dir) stem) \<longrightarrow>
        (\<exists>q. read_session (listed (wl_sessions (aw_log st) dir) stem) = Inr q \<and> session_successor q s = Inr ())"
      using sv by (rule save_session_file)
    have fresh: "ws_success q = None" if "read_session (listed (wl_sessions (aw_log st) dir) stem) = Inr q" for q
      using that p(3) run by (auto simp: read_session_def read_awake_json_def session_successor_def rbind_eq_Inr split: file_state.splits)
    have "own_entry_only (ak_sha pp) (run_of cycle s st1)
        (fst (scatch (wake_pipeline pp cf trigger context_id preserve) (wake_failed pp trigger) (run_of cycle s st1)))"
      using own_run by (rule keepsD)
    then have "(dir', stem') \<noteq> (dir, stem) \<Longrightarrow> listed (wl_sessions (aw_log (fst (wake_run pp cf cycle trigger session_id
        context_id preserve st))) dir') stem' = listed (wl_sessions (aw_log st) dir') stem'" for dir' stem'
      unfolding wake_run_started [OF w] using p(1,2) by (auto simp: own_entry_only_def split: prod.splits)
    with fresh show ?thesis unfolding final_kept_def by (metis prod.inject)
  next
    case False
    have "sa = sa\<lparr>aw_log := aw_log st\<rparr>" using same by simp
    then have copy: "sa = (sa\<lparr>aw_log := l\<rparr>)\<lparr>aw_log := aw_log st\<rparr>" for l by simp
    have "\<not> (session_start session_id (ak_session_uuid pp) cycle trigger = Inr s \<and> (\<exists>x. r = Inr x) \<and>
        save_session (ak_sha pp) (ak_disk pp 0) s (aw_log st) = Inr l)" for s l
    proof
      assume h: "session_start session_id (ak_session_uuid pp) cycle trigger = Inr s \<and> (\<exists>x. r = Inr x) \<and>
        save_session (ak_sha pp) (ak_disk pp 0) s (aw_log st) = Inr l"
      have "wake_started pp cycle trigger session_id st s (sa\<lparr>aw_log := l\<rparr>)"
        unfolding wake_started_def using h a copy [of l] by auto
      with False show False by blast
    qed
    then have "aw_log (fst (wake_run pp cf cycle trigger session_id context_id preserve st)) = aw_log st"
      using a same unfolding wake_run_def
      by (auto simp: sbind_def prog_simps swrite_def on_log_def rbind_def split: sum.splits)
    then show ?thesis by (simp add: final_kept_same)
  qed
qed

lemma wake_run_keeps: "keeps final_kept (wake_run pp cf cycle trigger session_id context_id preserve)"
  by (rule keepsI) (rule wake_run_final)

lemma awake_step_final: "awake_step sha st st' \<Longrightarrow> final_kept st st'"
proof (induction rule: awake_step.induct)
  case (manual_cycle_step pp st i)
  then show ?case
    by (auto intro!: final_kept_same simp: create_manual_cycle_def add_cycle_def sbind_def prog_simps swrite_def on_log_def
        rbind_def save_cycle_def split: sum.splits)
next
  case (scheduled_cycle_step pp st i n t)
  then show ?case
    by (auto intro!: final_kept_same simp: create_scheduled_cycle_def add_cycle_def sbind_def prog_simps swrite_def on_log_def
        rbind_def save_cycle_def split: sum.splits)
next
  case (manual_step pp st cf i detail session_id context_id preserve)
  then show ?case unfolding wake_manual_def get_cycle_def
    by (intro keepsD [of final_kept] fk.bind fk.pure wake_run_keeps)
next
  case (scheduled_step pp st cf i detail session_id)
  then show ?case unfolding wake_scheduled_def get_cycle_def
    by (intro keepsD [of final_kept] fk.bind fk.pure wake_run_keeps)
next
  case (event_step pp st cf i e detail session_id)
  then show ?case unfolding wake_for_event_def get_cycle_def
    by (intro keepsD [of final_kept] fk.bind fk.pure wake_run_keeps)
qed

text \<open>C31: once the log holds a session as final, no sequence of calls of the service changes it: cycles
  may be added and waked with any session id, any faults and any time, and the session is read back as it was.\<close>

theorem final_sessions_kept:
  assumes "rtranclp (awake_step sha) st st'"
    and "load_session sha i j (aw_log st) = Inr s" "ws_success s \<noteq> None"
  shows "load_session sha i j (aw_log st') = Inr s"
proof -
  have "final_kept st st'"
    using assms(1) by (induction rule: rtranclp_induct) (auto intro: fk.refl fk.trans awake_step_final)
  moreover obtain dir stem where p: "session_path sha i j = Inr (dir, stem)"
    "read_session (listed (wl_sessions (aw_log st) dir) stem) = Inr s"
    using assms(2) by (auto simp: load_session_def rbind_eq_Inr Let_def split: if_splits)
  ultimately have "listed (wl_sessions (aw_log st') dir) stem = listed (wl_sessions (aw_log st) dir) stem"
    using assms(3) by (auto simp: final_kept_def)
  with p(1) have "load_session sha i j (aw_log st') = load_session sha i j (aw_log st)" by (simp add: load_session_def)
  with assms(2) show ?thesis by simp
qed

lemma final_sessions_kept_witness:
  "\<exists>st st' s. awake_step (\<lambda>s. s) st st' \<and> load_session (\<lambda>s. s) ''s'' ''w1'' (aw_log st') = Inr s \<and> ws_success s = Some True"
proof -
  let ?pp = "wake_demo_ports (Inr [])"
  obtain st r where w: "wake_run ?pp demo_config demo_cycle demo_trigger None None False demo_awake_store = (st, Inr r)" by (rule demo_wake)
  then obtain s st1 v where p: "wake_started ?pp demo_cycle demo_trigger None demo_awake_store s st1"
    "wake_pipeline ?pp demo_config demo_trigger None False (run_of demo_cycle s st1) = (v, Inr r)" "st = ar_store v"
    by (rule wake_run_returns)
  then obtain d where d: "wf_wake_context (wr_context r)" "wake_decide (wr_context r) = Inr d"
    "session_complete (wr_context r) d (ak_completed_at ?pp) False s = Inr (wr_session r)" and l: "logged ?pp v st1 (wr_session r)"
    using pipeline_logged [OF demo_candidates(1) p(1,2)] by blast
  have s: "s = demo_running" using started_session [OF p(1)] demo_session_start [OF demo_given] by simp
  note c = session_complete_result [OF d(3) _ d(1) wake_decide_wf [OF d(2)]]
  have load: "load_session (\<lambda>s. s) ''s'' ''w1'' (aw_log st) = Inr (wr_session r)" "ws_success (wr_session r) = Some True"
    using logged_session [OF l] c demo_running_wf p(3) by (auto simp: s) (simp_all add: demo_running_def)
  have step: "awake_step (\<lambda>s. s) st (fst (create_manual_cycle ?pp ''s'' st))" by (rule awake_step.manual_cycle_step) simp
  from final_sessions_kept [OF r_into_rtranclp [of "awake_step (\<lambda>s. s)", OF step] load(1)] load(2) step
  show ?thesis by auto
qed

text \<open>C35: the service accepts a memory limit above 100, but a request may ask for at most 100
  memories, so with such a configuration no wake ever succeeds.\<close>

theorem wide_memory_limit_never_wakes:
  assumes "0 < k" "100 < n" "0 \<le> q" "q \<le> 1"
  shows "\<exists>cf. awake_service_init (PInt k) (PInt n) (PFloat q) = Inr cf \<and>
    (\<forall>pp cycle trigger i x preserve st st' r. wake_run pp cf cycle trigger i x preserve st \<noteq> (st', Inr r))"
proof -
  let ?cf = "\<lparr>ag_recent_update_limit = k, ag_memory_limit = n, ag_minimum_memory_relevance = q\<rparr>"
  have "wake_memory_request ?cf uuid s es t i \<noteq> Inr m" for uuid s es t i m
    using assms(2) by (auto simp: wake_memory_request_def Let_def memory_request_create_def memory_request_init_def rbind_eq_Inr)
  then have "wake_pipeline pp ?cf trigger x preserve w \<noteq> (w', Inr r)" for pp trigger x preserve w w' r
    by (auto simp: wake_pipeline_def Let_def sbind_eq_Inr prog_simps)
  then have "wake_run pp ?cf cycle trigger i x preserve st \<noteq> (st', Inr r)" for pp cycle trigger i x preserve st st' r
    by (meson wake_run_returns)
  with assms show ?thesis by (intro exI [of _ ?cf]) (simp add: awake_service_init_def)
qed

lemma wide_memory_limit_never_wakes_witness:
  "\<exists>cf. awake_service_init (PInt 10) (PInt 101) (PFloat (1 / 2)) = Inr cf \<and>
    (\<forall>pp cycle trigger i x preserve st st' r. wake_run pp cf cycle trigger i x preserve st \<noteq> (st', Inr r))"
  using wide_memory_limit_never_wakes [of 10 101 "1 / 2"] by simp

end
