(* ===== verification/Wake_Scheduler.thy ===== *)
theory Wake_Scheduler
  imports Awakening_Service Resource_Manager
begin

text \<open>
  services/resource_aware_wake_scheduler.py: one wake, only after the resource manager has granted
  it. The world is that of both services. \<open>sp_before\<close> is what the callback \<open>before_dispatch\<close> raises, if
  it is given and does.
\<close>

record wake_world =
  ww_awake :: awake_store
  ww_manager :: manager_world

record wake_scheduler_ports =
  sp_awake :: awake_ports
  sp_resources :: resource_ports
  sp_now :: pyval
  sp_session_uuid :: string
  sp_before :: "exn option"

record wake_schedule_result =
  sc_resources :: resource_allocation
  sc_awakening :: "awake_result option"

definition schedule_deferred :: "wake_schedule_result \<Rightarrow> bool" where
  "schedule_deferred r = rd_defer (al_decision (sc_resources r))"

definition on_awake :: "'a awake_prog \<Rightarrow> (wake_world, 'a) prog" where
  "on_awake m w = (case m (ww_awake w) of (s, r) \<Rightarrow> (w\<lparr>ww_awake := s\<rparr>, r))"

definition on_manager :: "(manager_world, 'a) prog \<Rightarrow> (wake_world, 'a) prog" where
  "on_manager m w = (case m (ww_manager w) of (s, r) \<Rightarrow> (w\<lparr>ww_manager := s\<rparr>, r))"

text \<open>
  The part that the three ways to wake share: the activity of the subject, the request for the
  session, and the wake if the request is not deferred. The check of the subject is one more access
  to its file, before the three of the wake itself.
\<close>

definition request_and_wake ::
  "wake_scheduler_ports \<Rightarrow> string \<Rightarrow> string \<Rightarrow> string option \<Rightarrow> exn option \<Rightarrow> (string \<Rightarrow> awake_result awake_prog)
     \<Rightarrow> (wake_world, wake_schedule_result) prog" where
  "request_and_wake sp subject_id reason session_id before wake =
     (let session = given_or_uuid session_id (sp_session_uuid sp) in
      sbind (on_awake (on_subjects (require_active (ak_subjects (sp_awake sp)) 3 subject_id None))) (\<lambda>_.
      sbind (on_manager (request_wake (sp_resources sp) subject_id session reason (PInt 64) (PInt 1))) (\<lambda>allocation.
      if rd_defer (al_decision allocation) then sret \<lparr>sc_resources = allocation, sc_awakening = None\<rparr>
      else
        sbind (slift (case before of None \<Rightarrow> Inr () | Some e \<Rightarrow> Inl e)) (\<lambda>_.
        sbind (on_awake (wake session)) (\<lambda>awakening.
        sret \<lparr>sc_resources = allocation, sc_awakening = Some awakening\<rparr>)))))"

definition schedule_wake_scheduled ::
  "wake_scheduler_ports \<Rightarrow> awake_config \<Rightarrow> string \<Rightarrow> string \<Rightarrow> string option \<Rightarrow> (wake_world, wake_schedule_result) prog" where
  "schedule_wake_scheduled sp cf cycle_id detail session_id =
     sbind (on_awake (get_cycle (sp_awake sp) cycle_id)) (\<lambda>cycle.
     sbind (slift (ensure (ac_mode cycle = Aw_SCHEDULED)
       (awake_invalid ''resource-aware scheduled wake requires a scheduled cycle''))) (\<lambda>_.
     sbind (slift (cycle_is_due cycle (sp_now sp))) (\<lambda>due.
     sbind (slift (ensure due (WakeNotDueError, ''awake cycle is not due: '' @ cycle_id))) (\<lambda>_.
     request_and_wake sp (ac_subject_id cycle) (''Evaluate scheduled wake cycle '' @ cycle_id @ ''.'') session_id None
       (\<lambda>session. wake_scheduled (sp_awake sp) cf cycle_id detail (Some session))))))"

definition schedule_wake_manual ::
  "wake_scheduler_ports \<Rightarrow> awake_config \<Rightarrow> string \<Rightarrow> string \<Rightarrow> string option \<Rightarrow> bool \<Rightarrow> (wake_world, wake_schedule_result) prog" where
  "schedule_wake_manual sp cf cycle_id detail session_id preserve =
     sbind (on_awake (get_cycle (sp_awake sp) cycle_id)) (\<lambda>cycle.
     sbind (slift (ensure (ac_mode cycle = Aw_MANUAL)
       (awake_invalid ''resource-aware manual wake requires a manual cycle''))) (\<lambda>_.
     sbind (slift (ensure (ac_enabled cycle) (awake_invalid ''awake cycle is disabled''))) (\<lambda>_.
     request_and_wake sp (ac_subject_id cycle) (''Evaluate manual wake cycle '' @ cycle_id @ ''.'') session_id (sp_before sp)
       (\<lambda>session. wake_manual (sp_awake sp) cf cycle_id detail (Some session) None preserve))))"

definition schedule_wake_for_event ::
  "wake_scheduler_ports \<Rightarrow> awake_config \<Rightarrow> string \<Rightarrow> string \<Rightarrow> string \<Rightarrow> string option \<Rightarrow> (wake_world, wake_schedule_result) prog" where
  "schedule_wake_for_event sp cf cycle_id source_event_id detail session_id =
     sbind (on_awake (get_cycle (sp_awake sp) cycle_id)) (\<lambda>cycle.
     sbind (slift (ensure (ac_enabled cycle) (awake_invalid ''awake cycle is disabled''))) (\<lambda>_.
     request_and_wake sp (ac_subject_id cycle) (''Evaluate event wake cycle '' @ cycle_id @ ''.'') session_id None
       (\<lambda>session. wake_for_event (sp_awake sp) cf cycle_id source_event_id detail (Some session))))"

end
