(* ===== verification/Wake_Scheduler_Properties.thy ===== *)
theory Wake_Scheduler_Properties
  imports Wake_Scheduler Awakening_Properties Resource_Properties
begin

text \<open>What a wake through the resource-aware scheduler costs, across both services.\<close>

text \<open>One of the three ways to wake, with the session id \<open>given_or_uuid session_id ...\<close>.\<close>

definition schedule_call ::
  "wake_scheduler_ports \<Rightarrow> awake_config \<Rightarrow> string \<Rightarrow> string option \<Rightarrow> wake_world \<Rightarrow> wake_world \<Rightarrow> wake_schedule_result res \<Rightarrow> bool" where
  "schedule_call sp cf cycle_id session_id w w' r \<longleftrightarrow>
     (\<exists>detail. (w', r) = schedule_wake_scheduled sp cf cycle_id detail session_id w) \<or>
     (\<exists>detail preserve. (w', r) = schedule_wake_manual sp cf cycle_id detail session_id preserve w) \<or>
     (\<exists>detail event_id. (w', r) = schedule_wake_for_event sp cf cycle_id event_id detail session_id w)"

text \<open>The session of a granted wake is charged, within the budget, and for the first time.\<close>

definition paid_for :: "wake_scheduler_ports \<Rightarrow> string \<Rightarrow> string \<Rightarrow> ledger \<Rightarrow> wake_world \<Rightarrow> bool" where
  "paid_for sp subject_id session l w' \<longleftrightarrow> (\<exists>l' u.
     has_ledger (rp_sha (sp_resources sp)) (mw_dir (ww_manager w')) subject_id l' \<and> lg_usage l' = lg_usage l @ [u] \<and>
     tu_subject_id u = subject_id \<and> tu_session_id u = session \<and> session \<notin> tu_session_id ` set (lg_usage l) \<and>
     tu_estimated_tokens u \<le> 64 \<and> tu_estimated_tokens u \<le> rs_token_remaining (lg_state l) \<and>
     rs_token_used (lg_state l') = rs_token_used (lg_state l) + tu_estimated_tokens u)"

lemma request_wake_paid:
  assumes "request_wake p i session reason (PInt 64) (PInt 1) m = (m', Inr al)" "\<not> rd_defer (al_decision al)"
    and l: "has_ledger (rp_sha p) (mw_dir m) i l" "0 \<le> rp_reserve p"
  shows "\<exists>l' u. has_ledger (rp_sha p) (mw_dir m') i l' \<and> lg_usage l' = lg_usage l @ [u] \<and> tu_subject_id u = i \<and>
    tu_session_id u = session \<and> session \<notin> tu_session_id ` set (lg_usage l) \<and> tu_estimated_tokens u \<le> 64 \<and>
    tu_estimated_tokens u \<le> rs_token_remaining (lg_state l) \<and>
    rs_token_used (lg_state l') = rs_token_used (lg_state l) + tu_estimated_tokens u"
proof -
  let ?d = "al_decision al"
  obtain r where r: "create_request p i session Session_OTHER (PInt 64) (PInt 1) ''not-applicable'' reason None = Inr r"
    "request_resources p r m = (m', Inr al)"
    using assms(1) by (auto simp: request_wake_def request_other_def sbind_eq_Inr prog_simps)
  note i = create_request_subject [OF r(1)]
  have t: "rq_estimated_tokens r = 64"
    using r(1) unfolding create_request_def resource_request_init_def
    by (elim rbindE) (auto simp: res_nat_Inr)
  have h: "has_ledger (rp_sha p) (mw_dir m) (rq_subject_id r) l" using l i by simp
  have q: "requested p r l al m'" by (rule wp_result [OF request_resources_result [OF h] r(2)])
  note q = q [unfolded requested_def Let_def decision_sound_def]
  have wf: "wf_resource_state (lg_state l)" by (rule has_ledger_state [OF h])
  have pt: "0 \<le> protected_tokens (rp_reserve p) (rs_token_budget (lg_state l))"
    using l(2) wf by (simp add: protected_tokens_nonneg wf_resource_state_def)
  have allowed: "rd_allowed ?d" using q assms(2) by simp
  have "\<not> (\<exists>x \<in> set (lg_usage l). tu_session_id x = rq_session_id r)"
    using request_known_refused [OF h] r(2) by fastforce
  then have fresh: "session \<notin> tu_session_id ` set (lg_usage l)" using i by auto
  show ?thesis
    using q pt wf allowed i t fresh
    by (intro exI [of _ "add_allocation l (al_state al) (usage_of p r ?d) ?d"] exI [of _ "usage_of p r ?d"])
      (auto simp: Let_def add_allocation_def charged_state_def usage_of_def policy_fits_def
        wf_resource_state_def wf_resource_decision_def)
qed

lemma request_and_wake_paid:
  assumes "request_and_wake sp i reason session_id before wake w = (w', r)"
    and "has_ledger (rp_sha (sp_resources sp)) (mw_dir (ww_manager w)) i l" "0 \<le> rp_reserve (sp_resources sp)"
  shows "aw_log (ww_awake w') = aw_log (ww_awake w) \<or> paid_for sp i (given_or_uuid session_id (sp_session_uuid sp)) l w'"
    and "r = Inr x \<Longrightarrow> schedule_deferred x \<longleftrightarrow> sc_awakening x = None"
proof -
  let ?s = "given_or_uuid session_id (sp_session_uuid sp)"
  obtain a ra where a: "on_subjects (require_active (ak_subjects (sp_awake sp)) 3 i None) (ww_awake w) = (a, ra)" by fastforce
  have log: "aw_log a = aw_log (ww_awake w)" by (rule on_subjects_log [OF a])
  obtain m rm where m: "request_wake (sp_resources sp) i ?s reason (PInt 64) (PInt 1) (ww_manager w) = (m, rm)" by fastforce
  have run: "(w', r) = (case ra of Inl e \<Rightarrow> (w\<lparr>ww_awake := a\<rparr>, Inl e) | Inr _ \<Rightarrow>
      (case rm of Inl e \<Rightarrow> (w\<lparr>ww_awake := a, ww_manager := m\<rparr>, Inl e) | Inr al \<Rightarrow>
        if rd_defer (al_decision al)
        then (w\<lparr>ww_awake := a, ww_manager := m\<rparr>, Inr \<lparr>sc_resources = al, sc_awakening = None\<rparr>)
        else sbind (slift (case before of None \<Rightarrow> Inr () | Some e \<Rightarrow> Inl e)) (\<lambda>_.
          sbind (on_awake (wake ?s)) (\<lambda>x. sret \<lparr>sc_resources = al, sc_awakening = Some x\<rparr>))
          (w\<lparr>ww_awake := a, ww_manager := m\<rparr>)))"
    using assms(1) a m
    by (auto simp: request_and_wake_def Let_def sbind_def prog_simps on_awake_def on_manager_def split: sum.splits prod.splits)
  have keep: "ww_manager w' = m" if "rm = Inr al" "\<not> rd_defer (al_decision al)" "ra = Inr y" for al y
    using run that by (auto simp: sbind_def prog_simps on_awake_def split: option.splits prod.splits sum.splits)
  show "aw_log (ww_awake w') = aw_log (ww_awake w) \<or> paid_for sp i ?s l w'"
  proof (cases "\<exists>y al. ra = Inr y \<and> rm = Inr al \<and> \<not> rd_defer (al_decision al)")
    case True
    then obtain y al where c: "ra = Inr y" "rm = Inr al" "\<not> rd_defer (al_decision al)" by blast
    with request_wake_paid [OF _ c(3) assms(2,3)] m keep show ?thesis unfolding paid_for_def by metis
  next
    case False
    with run log show ?thesis by (auto split: sum.splits if_splits)
  qed
  show "r = Inr x \<Longrightarrow> schedule_deferred x \<longleftrightarrow> sc_awakening x = None"
    using run by (auto simp: schedule_deferred_def sbind_def prog_simps on_awake_def split: sum.splits if_splits option.splits prod.splits)
qed

text \<open>C30: whatever comes of a call of the scheduler, the wake log changes only if the session of this
  call was charged to its subject, within the remaining budget and for the first time; and a call that
  returns has waked the subject exactly when the request was not deferred.\<close>

theorem wake_is_paid_for:
  assumes "schedule_call sp cf cycle_id session_id w w' r"
    and "load_cycle (ak_sha (sp_awake sp)) cycle_id (aw_log (ww_awake w)) = Inr c"
    and "has_ledger (rp_sha (sp_resources sp)) (mw_dir (ww_manager w)) (ac_subject_id c) l" "0 \<le> rp_reserve (sp_resources sp)"
  shows "(aw_log (ww_awake w') \<noteq> aw_log (ww_awake w) \<longrightarrow>
      paid_for sp (ac_subject_id c) (given_or_uuid session_id (sp_session_uuid sp)) l w') \<and>
    (\<forall>x. r = Inr x \<longrightarrow> (schedule_deferred x \<longleftrightarrow> sc_awakening x = None))"
proof -
  have cycle: "sbind (on_awake (get_cycle (sp_awake sp) cycle_id)) f w = f c w" for f :: "awake_cycle \<Rightarrow> (wake_world, wake_schedule_result) prog"
    using assms(2) by (simp add: sbind_def on_awake_def get_cycle_def sread_def)
  have "(w' = w \<and> (\<exists>e. r = Inl e)) \<or> (\<exists>reason before wake. request_and_wake sp (ac_subject_id c) reason session_id before wake w = (w', r))"
    using assms(1) unfolding schedule_call_def schedule_wake_scheduled_def schedule_wake_manual_def schedule_wake_for_event_def cycle
    by (auto simp: sbind_def prog_simps split: sum.splits) metis+
  then show ?thesis
  proof (elim disjE exE)
    fix reason before wake
    assume "request_and_wake sp (ac_subject_id c) reason session_id before wake w = (w', r)"
    from request_and_wake_paid [OF this assms(3,4)] show ?thesis by blast
  qed auto
qed

section \<open>A wake that is granted\<close>

definition wake_request :: "string \<Rightarrow> resource_request" where
  "wake_request reason = \<lparr>rq_request_id = ''u1'', rq_subject_id = ''s'', rq_session_id = ''w1'', rq_session_type = Session_OTHER,
     rq_estimated_tokens = 64, rq_estimated_compute = 1, rq_model_name = ''not-applicable'', rq_reason = reason,
     rq_requested_at = Abs_instant 0, rq_requested_depth = None\<rparr>"

lemma wake_request_wf: "\<not> blank reason \<Longrightarrow> wf_resource_request (wake_request reason)"
  by (simp add: wf_resource_request_def wake_request_def blank_def py_space_def)

lemma wake_request_created: "\<not> blank reason \<Longrightarrow>
    create_request tiny_ports ''s'' ''w1'' Session_OTHER (PInt 64) (PInt 1) ''not-applicable'' reason None = Inr (wake_request reason)"
  using resource_request_init_args [OF wake_request_wf, of reason]
  by (simp add: create_request_def resource_request_args_of_def wake_request_def tiny_ports_def)

lemma request_resources_decision:
  assumes "has_ledger (rp_sha p) (mw_dir w) (rq_subject_id r) l" "request_resources p r w = (w', Inr al)"
  shows "policy_evaluate (rp_reserve p) (rp_decision_uuid p) (lg_state l) r (rp_decide_at p) = Inr (al_decision al)"
  using assms(2) by (auto simp: request_resources_def sbind_eq_Inr prog_simps mw_read_def resource_load_ledger [OF assms(1)]
      dest: resource_allocation_init_Inr split: if_splits)

text \<open>A tenth of the budget is reserved; that is at most half of it.\<close>

lemma tiny_fits: "policy_fits (rp_reserve tiny_ports) tiny_state 64 1"
proof -
  have "\<bar>fl (1 / 10) - 1 / 10\<bar> \<le> 1 / 10 / 2 ^ 53" by (rule fl_error) simp
  then have "fl (1 / 10) - 1 / 10 \<le> 1 / 10 / 2 ^ 53" by linarith
  also have "\<dots> \<le> 1 / 10" by simp
  finally have "fl (1 / 10) \<le> 1 / 2" by linarith
  moreover have "fl (of_int 1000) = 1000" using fl_int [of 1000] by simp
  ultimately have "trunc (fl (fl (of_int 1000) * fl (1 / 10))) \<le> trunc (fl (of_int 500))"
    using fl_nonneg [of "1 / 10"] by (intro trunc_fl_mono) simp_all
  also have "\<dots> = 500" using fl_int [of 500] by (simp add: trunc_def)
  finally show ?thesis by (simp add: policy_fits_def protected_tokens_def tiny_ports_def tiny_state_def Let_def)
qed

lemma tiny_wake_granted:
  assumes "\<not> blank reason"
  obtains m al where "request_wake tiny_ports ''s'' ''w1'' reason (PInt 64) (PInt 1) tiny_world = (m, Inr al)"
    "\<not> rd_defer (al_decision al)"
proof -
  let ?r = "wake_request reason"
  have h: "has_ledger (rp_sha tiny_ports) (mw_dir tiny_world) (rq_subject_id ?r) tiny_ledger"
    using tiny_has by (simp add: wake_request_def tiny_request_def)
  have f: "fresh_for tiny_ports ?r tiny_ledger"
    by (simp add: fresh_for_def tiny_ports_def tiny_ledger_def blank_def py_space_def)
  obtain m al where a: "request_resources tiny_ports ?r tiny_world = (m, Inr al)"
    using request_resources_answers [OF h wake_request_wf [OF assms] f tiny_fresh(2)] by blast
  have "rd_allowed (al_decision al)"
    using request_resources_decision [OF h a] tiny_fits
    by (auto simp: policy_evaluate_def evaluate_standard_def tiny_ledger_def wake_request_def Let_def
        dest: policy_decision_Inr split: if_splits prod.splits)
  then have "\<not> rd_defer (al_decision al)"
    using wp_result [OF request_resources_result [OF h] a] by (simp add: requested_def decision_sound_def Let_def)
  with a show thesis using that wake_request_created [OF assms] by (simp add: request_wake_def request_other_def sbind_def prog_simps)
qed

lemma cycle_enabled: "ac_enabled demo_cycle" "ac_mode demo_cycle = Aw_MANUAL"
  by (simp_all add: demo_cycle_def)

definition granted_ports :: wake_scheduler_ports where
  "granted_ports = \<lparr>sp_awake = wake_demo_ports (Inr []), sp_resources = tiny_ports, sp_now = utc_val (Abs_instant 9),
     sp_session_uuid = ''w1'', sp_before = None\<rparr>"

definition granted_world :: wake_world where
  "granted_world = \<lparr>ww_awake = demo_awake_store\<lparr>aw_log :=
     \<lparr>wl_cycles = [(''c1'', File_Doc (awake_cycle_to_dict demo_cycle))], wl_sessions = (\<lambda>_. [])\<rparr>\<rparr>, ww_manager = tiny_world\<rparr>"

lemma granted_cycle:
  "load_cycle (ak_sha (wake_demo_ports a)) ''c1'' (aw_log (ww_awake granted_world)) = Inr demo_cycle"
  using awake_cycle_roundtrip [OF demo_cycle_wf] wake_demo_texts
  by (simp add: load_cycle_def granted_world_def listed_def awake_hash_def read_awake_json_def ensure_def demo_cycle_def)

lemma granted_start: "demo_start (Some ''w1'') (ww_awake granted_world)"
  by (simp add: demo_start_def granted_world_def demo_awake_store_def given_or_uuid_def listed_def)

lemma granted_wake:
  obtains w' r where
    "schedule_wake_manual granted_ports demo_config ''c1'' ''hello'' None False granted_world = (w', Inr r)"
    "aw_log (ww_awake w') \<noteq> aw_log (ww_awake granted_world)" "\<not> schedule_deferred r"
proof -
  let ?pp = "wake_demo_ports (Inr [])" and ?w = "granted_world"
  have texts: "\<not> blank (''Evaluate manual wake cycle '' @ ''c1'' @ ''.'')" by (simp add: blank_def py_space_def)
  obtain m al where g: "request_wake tiny_ports ''s'' ''w1'' (''Evaluate manual wake cycle '' @ ''c1'' @ ''.'') (PInt 64) (PInt 1)
      tiny_world = (m, Inr al)" "\<not> rd_defer (al_decision al)"
    using texts by (rule tiny_wake_granted)
  obtain st r where run: "wake_run ?pp demo_config demo_cycle demo_trigger (Some ''w1'') None False (ww_awake ?w) = (st, Inr r)"
    using granted_start by (rule demo_wake_from)
  have trigger: "wake_trigger_init Wc_MANUAL (PStr ''hello'') (ak_now ?pp) PNone = Inr demo_trigger"
    using wake_demo_texts by (simp add: wake_trigger_init_def awake_text_run demo_trigger_def wake_demo_ports_def ensure_def)
  have cycle: "get_cycle ?pp ''c1'' (ww_awake ?w) = (ww_awake ?w, Inr demo_cycle)"
    using granted_cycle by (simp add: get_cycle_def sread_def)
  have active: "on_subjects (require_active demo_ports 3 ''s'' None) (ww_awake ?w) = (ww_awake ?w, Inr demo_subject)"
    by (rule demo_reads) (simp add: granted_world_def demo_awake_store_def)
  have manual: "wake_manual ?pp demo_config ''c1'' ''hello'' (Some ''w1'') None False (ww_awake ?w) = (st, Inr r)"
    using run cycle trigger cycle_enabled by (simp add: wake_manual_def sbind_def prog_simps ensure_def)
  have "schedule_wake_manual granted_ports demo_config ''c1'' ''hello'' None False ?w =
      (?w\<lparr>ww_manager := m, ww_awake := st\<rparr>, Inr \<lparr>sc_resources = al, sc_awakening = Some r\<rparr>)"
    using cycle active g manual cycle_enabled
    by (simp add: schedule_wake_manual_def request_and_wake_def granted_ports_def sbind_def prog_simps on_awake_def on_manager_def
        demo_given Let_def ensure_def) (simp add: granted_world_def sbind_def prog_simps on_awake_def)
  moreover have "load_session (\<lambda>s. s) ''s'' ''w1'' (aw_log st) = Inr (wr_session r)"
    using success_facts(1) [OF run demo_candidates(1) demo_cycle_wf] by (simp add: given_or_uuid_def)
  moreover have "load_session (\<lambda>s. s) ''s'' ''w1'' (aw_log (ww_awake ?w)) \<noteq> Inr (wr_session r)"
    using wake_demo_texts by (simp add: granted_world_def load_session_def session_path_def awake_hash_def listed_def)
  ultimately show thesis using that g(2) by (force simp: schedule_deferred_def)
qed

lemma wake_is_paid_for_witness:
  "\<exists>w' r. schedule_wake_manual granted_ports demo_config ''c1'' ''hello'' None False granted_world = (w', Inr r) \<and>
    paid_for granted_ports ''s'' ''w1'' tiny_ledger w' \<and> sc_awakening r \<noteq> None \<and> \<not> schedule_deferred r"
proof -
  obtain w' r where w: "schedule_wake_manual granted_ports demo_config ''c1'' ''hello'' None False granted_world = (w', Inr r)"
    "aw_log (ww_awake w') \<noteq> aw_log (ww_awake granted_world)" "\<not> schedule_deferred r" by (rule granted_wake)
  have call: "schedule_call granted_ports demo_config ''c1'' None granted_world w' (Inr r)"
    using w(1) unfolding schedule_call_def by metis
  have c: "load_cycle (ak_sha (sp_awake granted_ports)) ''c1'' (aw_log (ww_awake granted_world)) = Inr demo_cycle"
    using granted_cycle by (simp add: granted_ports_def)
  have l: "has_ledger (rp_sha (sp_resources granted_ports)) (mw_dir (ww_manager granted_world)) (ac_subject_id demo_cycle) tiny_ledger"
    "0 \<le> rp_reserve (sp_resources granted_ports)"
    using tiny_has tiny_reserve by (simp_all add: granted_ports_def granted_world_def demo_cycle_def tiny_request_def)
  have s: "ac_subject_id demo_cycle = ''s''" "given_or_uuid None (sp_session_uuid granted_ports) = ''w1''"
    by (simp_all add: demo_cycle_def granted_ports_def given_or_uuid_def)
  from wake_is_paid_for [OF call c l, unfolded s] w show ?thesis by simp
qed

end
