(* ===== verification/Spec2Isabelle.thy ===== *)
theory Spec2Isabelle
  imports Scheduler_Properties Resource_Properties Event_Properties Permission_Properties
    Runtime_Properties Timeline_Properties Learning_Properties Awakening_Properties
    Wake_Scheduler_Properties
begin

text \<open>
  A verification library for the decision core of the continuity engine, the Python package
  src/src/continuity_engine (file names below are relative to it).

  \<^bold>\<open>The program.\<close> The engine keeps one subject alive between messages. A host process
  (services/persistent_runtime_service.py) gives it, again and again, one scheduler tick
  (services/scheduler_service.py); the tick picks the most urgent due task of a persistent queue,
  asks the resource manager (services/resource_manager.py, domain/resource_policy.py) whether the
  task may spend tokens now, checkpoints the attempt and hands it to a notification adapter, whose
  receipt it later reconciles. What the subject may do is a matter of revocable permissions
  (services/permission_service.py), and every change of its state is an immutable event
  (domain/events.py). A wake of the subject (services/awakening_service.py) gathers its state, recent
  events and memories into a context, decides what to do next and leaves an audit record. Each
  component keeps one JSON document (or one per record) that it loads, checks and atomically
  replaces, with a revision that guards against lost updates.

  \<^bold>\<open>The theories.\<close>

  \<^item> Prelude. Py_Values: exceptions as values of a sum, the chaining operators, strings and lists of
    the standard library. Py_Float: binary64 rounding of exact rationals. Py_Calendar: instants in
    microseconds, the proleptic calendar, ISO 8601 text. Py_Data: values whose type is known at run
    time, the checks of the modules, canonical JSON. Py_State: programs over a state that survives
    an exception, weakest preconditions, programs that move a state along a relation (locale
    \<open>kept\<close>), files. Py_Docs and Py_Json: editing and comparing decoded documents.
    Revisioned_Store: the locale of the load/save contract with revisions, which the queue, the
    permission store and the checkpoint file interpret.
  \<^item> Scheduler. Scheduling: domain/scheduling.py. Scheduler_Repository:
    storage/json_scheduler_repository.py. Scheduler_Service: every operation of
    services/scheduler_service.py. Scheduler_Spec is the abstract specification, a step relation on
    tasks, queues and the world; Scheduler_Refinement shows that every call, failing ones included,
    takes such steps only; Scheduler_Runs and Scheduler_Liveness give what is dispatched and when a
    tick completes; Scheduler_Properties states the results.
  \<^item> Resources. Resources: domain/resources.py. Resource_Policy: domain/resource_policy.py with its
    float thresholds. Resource_Repository: storage/json_resource_repository.py. Resource_Manager:
    services/resource_manager.py and the token budgets of domain/thinking.py. Policy_Facts,
    Resource_Ledger and Resource_Runs: what the policy grants, the ledger invariant of the file and
    its reachable states. Resource_Properties states the results.
  \<^item> Events. Events: domain/events.py. Event_Properties: validity, persistence, canonical form.
  \<^item> Permissions. Permissions: domain/permissions.py. Permission_Repository:
    storage/json_permission_repository.py. Permission_Service: services/permission_service.py.
    Permission_Runs: the specification of a permission's life and the reachable stores.
    Permission_Properties states the results.
  \<^item> Persistent host. Runtime_Values: domain/persistent_runtime.py, with identifier and digest of
    domain/action_planning.py. Subject_Lifecycle: domain/subject_lifecycle.py and
    \<open>SubjectStateService.require_active\<close>. Runtime_Checkpoint: storage/json_runtime_repository.py.
    Runtime_Service: services/persistent_runtime_service.py, on top of the scheduler's model.
    Runtime_Guarantees, Runtime_Runs and Runtime_Ticks: what each access to the checkpoint file
    guarantees the other processes, and what happens inside a tick. Runtime_Properties states the
    results.
  \<^item> Subjects. Mind_State: the MindState document of domain/dynamic_mind.py. Subject_Documents:
    domain/unfinished_item.py and domain/subject_growth.py. Subject_State: domain/models.py.
    Subject_Evolution: domain/evolution.py. Subject_Repository: storage/json_repository.py.
    Subject_Service: services/subject_state_service.py. Lifecycle_Service: \<open>submit\<close> of
    services/subject_lifecycle_service.py. Subject_Runs: what every access to a subject's file
    guarantees all others, a relation on its content: the locales \<open>direct_save_guarantee\<close> and
    \<open>event_guarantee\<close> say which laws make every operation keep it (\<open>advances\<close>), and they are
    interpreted on \<open>extends\<close> (what any call guarantees), \<open>follows\<close> (what calls guarantee that do not
    move the revision of a file without a history) and \<open>keeps_replays\<close>; and runs of calls.
    Subject_Quiet: the same operations as equations when nothing interferes. Subject_Demo: concrete
    subjects and files. Subject_Properties states the results.
  \<^item> Timeline. Timeline: domain/timeline.py and services/timeline_service.py, on top of the subject's
    file. Timeline_Properties states the results; the order in which marks are set is shown not to
    matter, and the loop of \<open>chain\<close> to compute a connected component.
  \<^item> Learning. Learning: domain/learning.py, the candidates for lasting traits, the traits and the
    audit records. Learning_Repository: storage/json_learning_repository.py. Learning_Service: every
    operation of services/learning_service.py, with its verification of the support that a candidate
    has. Learning_Runs: which changes of a subject's document keep its books. Learning_Steps: every
    operation makes such a change or none, and what a later store keeps of an earlier one.
    Learning_Demo: concrete files and calls. Learning_Properties states the results.
  \<^item> Memory retrieval and awakening. Memory_Retrieval: the requests, candidates, decisions and influence
    records of domain/memory.py, and services/memory_service.py over a retriever that is a port.
    Awakening: domain/awakening.py and domain/awakening_rules.py. Awakening_Repository:
    storage/json_awakening_repository.py. Awakening_Service: every operation of
    services/awakening_service.py; a wake reads the subject's file and history, retrieves memories,
    decides, and closes its audit session, in the pipeline or in the handler of its exceptions. Of a run
    the locals that outlive an exception are a record (\<open>awake_run\<close>). Awakening_Runs: the schedule under
    float rounding, and the pipeline by weakest preconditions: what holds when it returns
    (\<open>pipeline_done\<close>) and when it raises (\<open>pipeline_stopped\<close>). Awakening_Demo: a concrete wake.
    Awakening_Properties states the results; \<open>awake_step\<close> there is one writing call of the service.
    Wake_Scheduler: services/resource_aware_wake_scheduler.py, a wake that the resource manager has
    granted, over the states of both services. Wake_Scheduler_Properties: what such a wake costs.

  \<^bold>\<open>How state and operations are modelled.\<close> A dataclass is a record with the field names of the code
  behind a short prefix, its \<open>__post_init__\<close> a function \<open>..._init\<close> from unchecked arguments
  (\<open>pyval\<close>) to the record or an exception, \<open>to_dict\<close> and \<open>from_dict\<close> functions on \<open>pyval\<close>. A
  call that may raise returns \<open>exn + 'a\<close>; a call that also writes is a \<open>prog\<close>, a function from
  the state to the new state and such a result. Everything from outside is a port: the clock
  reading, fresh uuids, the answers of adapters and other services, and what the disk, a lock or a
  path check raises, if it does. Theorems hold for all ports. The host's ports are indexed by the
  number of the call, so that answers may change, and commands of other processes may take effect
  before any access to the checkpoint.

  \<^bold>\<open>Fuel and bounds.\<close> Every loop of the code that ends is a structural recursion. \<open>serve\<close> of the host
  runs for ever by design; it has a fuel of ticks and attachments, its result tells whether it
  returned, and \<open>stop_ends_serve\<close> shows that two are enough once the owner stopped the host. The
  bounds of the code (queue capacity, attempts, scan limit, 64 interruptions, revisions) are kept as
  they are; Python's integers are \<open>int\<close>.

  \<^bold>\<open>Boundaries of the model.\<close>

  \<^item> Text is modelled up to code point 255. A float, as a field of its own or as a \<open>pyval\<close>, is an
    exact rational, rounded by \<open>fl\<close> wherever the code computes with floats; infinities, NaN and
    the sign of zero do not occur in it.
  \<^item> A datetime is a wall-clock reading with an offset; after validation it is kept as a UTC instant,
    so an offset that leaves the years 1 to 9999 raises \<open>OverflowError\<close> where the value is built, in
    the code where it is first formatted. The parser accepts the extended ISO format that the
    engine itself writes.
  \<^item> A \<open>bool\<close> that passes an \<open>isinstance(v, int)\<close> check is kept as its integer.
  \<^item> hashlib and the rfc8785 canonicalizer are parameters. Where a property needs it, the digest is
    assumed to be 64 hexadecimal digits.
  \<^item> A file is replaced as a whole or not at all; an unreadable file stands for an \<open>OSError\<close> and for
    text that is not JSON. \<open>json.loads\<close> gives a document back as it was dumped. The awakening repository compares two contexts
    as dataclasses, the model (\<open>same_context\<close>) by their documents.
  \<^item> An operation of the scheduler, the resource manager or the permission service is one step:
    their in-process locks are not modelled; nor are other processes that write the wake log. The
    host and the subject services are modelled with interference: other processes or services may
    act before every access to their files. For subjects these others may be any calls of the services,
    direct saves of any state among them (\<open>run_ok\<close>); only \<open>every_file_is_its_history\<close> asks that they
    leave the revision of a file without a history alone (\<open>run_paced\<close>).
  \<^item> Exceptions outside \<open>Exception\<close> (a keyboard interrupt) are not modelled; the end of an
    attachment by one is the argument \<open>interrupted\<close> of \<open>host_detach\<close>.

  \<^bold>\<open>Not modelled.\<close> OS locks, path checks and the retried replacement of a file (their outcome is a
  port), the parse cache of the subject repository, the decay of \<open>EmotionState.effective_at\<close>, the
  TEST import of an observation; the formal memory store with its records, summaries and
  consolidation, contradictions, context routing and composition, actions and capabilities, thinking
  sessions, perception, the checks of a LearningContext, execution, the numeric mind dynamics,
  external providers, the integration contract, and all interfaces and test fixtures. Much of it ranks
  text by floats or wraps a language model; the rest calls into it.
\<close>

end
